(* ===== verification/Prelude.thy ===== *)
theory Prelude
  imports Complex_Main
begin

text \<open>
  Shared vocabulary of the development. It holds the lemma collections the component
  proofs draw on, the value types every component uses (identifiers, timestamps, errors),
  and the parts of the JavaScript standard library the sources call: \<open>Math.round\<close>,
  decimal printing of integers, \<open>Array.prototype.find\<close>, \<open>join\<close>, timestamps.

  Numbers. Amounts of money, counts, hours and milliseconds are integers in the source
  (documented as integer minor units) and are \<open>int\<close> here. Rates, probabilities and
  scores are JavaScript doubles; they are \<open>real\<close> here, so IEEE rounding is not modelled.

  Timestamps. A timestamp string is represented by what \<open>Date.parse\<close> returns on it:
  \<open>Some ms\<close> for a parsable instant in epoch milliseconds, \<open>None\<close> for \<open>NaN\<close>.

  Strings are byte strings; the few non-ASCII characters of the sources' messages are their
  UTF-8 bytes.
\<close>

subsection \<open>Lemma collections\<close>

named_theorems comp_defs "definitions of a component's operations, unfolded by its proofs"
named_theorems safety_dests "destruction rules of guarded operations"

subsection \<open>Identifiers, timestamps, errors\<close>

type_synonym ident = string
type_synonym iso = "int option"

datatype js_error = RangeError string | TypeError string | JsError string

abbreviation ms_per_minute :: int where "ms_per_minute \<equiv> 60000"
abbreviation ms_per_hour :: int where "ms_per_hour \<equiv> 3600000"
abbreviation ms_per_day :: int where "ms_per_day \<equiv> 86400000"

text \<open>
  \<open>new Date(ms).toISOString()\<close> throws a \<open>RangeError\<close> on \<open>NaN\<close> and outside the
  time range of ECMAScript (100 000 000 days around the epoch).
\<close>

definition max_time_ms :: int where
  "max_time_ms = 8640000000000000"

definition to_iso_string :: "int option \<Rightarrow> js_error + iso" where
  "to_iso_string t = (case t of
     None \<Rightarrow> Inl (RangeError ''Invalid time value'')
   | Some ms \<Rightarrow> if \<bar>ms\<bar> \<le> max_time_ms then Inr (Some ms)
                else Inl (RangeError ''Invalid time value''))"

lemma to_iso_string_Inr [simp]:
  "to_iso_string t = Inr s \<longleftrightarrow> s = t \<and> (\<exists>ms. t = Some ms \<and> \<bar>ms\<bar> \<le> max_time_ms)"
  by (auto simp: to_iso_string_def split: option.splits if_splits)

subsection \<open>Rounding\<close>

text \<open>\<open>Math.round\<close> rounds half-way cases up: it is the floor of \<open>x + 1/2\<close>.\<close>

definition js_round :: "real \<Rightarrow> int" where
  "js_round x = \<lfloor>x + 1/2\<rfloor>"

lemma js_round_of_int [simp]: "js_round (of_int n) = n"
  by (simp add: js_round_def floor_eq_iff)

lemma js_round_0 [simp]: "js_round 0 = 0"
  using js_round_of_int [of 0] by simp

lemma js_round_mono: "x \<le> y \<Longrightarrow> js_round x \<le> js_round y"
  unfolding js_round_def by (rule floor_mono) simp

lemma js_round_nonneg: "0 \<le> x \<Longrightarrow> 0 \<le> js_round x"
  using js_round_mono [of 0 x] by simp

lemma js_round_le_of_int: "x \<le> of_int n \<Longrightarrow> js_round x \<le> n"
  using js_round_mono [of x "of_int n"] by simp

lemma js_round_ge_of_int: "of_int n \<le> x \<Longrightarrow> n \<le> js_round x"
  using js_round_mono [of "of_int n" x] by simp

lemma js_round_error: "\<bar>of_int (js_round x) - x\<bar> \<le> 1/2"
  unfolding js_round_def by linarith

lemma js_round_pos_iff: "0 < js_round x \<longleftrightarrow> 1/2 \<le> x"
  unfolding js_round_def by linarith

subsection \<open>Strings\<close>

text \<open>\<open>String(n)\<close> of an integer.\<close>

fun show_nat :: "nat \<Rightarrow> string" where
  "show_nat n = (if n < 10 then [char_of (48 + n)] else show_nat (n div 10) @ [char_of (48 + n mod 10)])"

declare show_nat.simps [simp del]

definition show_int :: "int \<Rightarrow> string" where
  "show_int i = (if i < 0 then CHR ''-'' # show_nat (nat (- i)) else show_nat (nat i))"

text \<open>The inverse reading of a decimal numeral, used to show that printing is injective.\<close>

definition digits_value :: "string \<Rightarrow> nat" where
  "digits_value s = foldl (\<lambda>a c. 10 * a + (of_char c - 48)) 0 s"

lemma digits_value_snoc [simp]: "digits_value (s @ [c]) = 10 * digits_value s + (of_char c - 48)"
  by (simp add: digits_value_def)

lemma digits_value_show_nat [simp]: "digits_value (show_nat n) = n"
proof (induction n rule: show_nat.induct)
  case (1 n)
  show ?case
  proof (cases "n < 10")
    case True
    then show ?thesis
      by (subst show_nat.simps) (simp add: digits_value_def)
  next
    case False
    have "n mod 10 < 10" by simp
    with False 1 show ?thesis
      by (subst show_nat.simps) simp
  qed
qed

lemma show_nat_inject [simp]: "show_nat m = show_nat n \<longleftrightarrow> m = n"
  by (metis digits_value_show_nat)

lemma show_nat_digits: "c \<in> set (show_nat n) \<Longrightarrow> 48 \<le> (of_char c :: nat) \<and> (of_char c :: nat) \<le> 57"
proof (induction n rule: show_nat.induct)
  case (1 n)
  have m: "n mod 10 < 10" by simp
  show ?case
  proof (cases "n < 10")
    case True
    with "1.prems" show ?thesis by (simp add: show_nat.simps [of n])
  next
    case False
    with "1.prems" consider "c \<in> set (show_nat (n div 10))" | "c = char_of (48 + n mod 10)"
      by (auto simp: show_nat.simps [of n])
    then show ?thesis
    proof cases
      case 1
      with "1.IH" False show ?thesis by blast
    next
      case 2
      with m show ?thesis by simp
    qed
  qed
qed

lemma show_nat_not_char: "(of_char c :: nat) < 48 \<or> 57 < (of_char c :: nat) \<Longrightarrow> c \<notin> set (show_nat n)"
  using show_nat_digits by fastforce

lemma show_int_inject [simp]: "show_int i = show_int j \<longleftrightarrow> i = j"
proof -
  have "CHR ''-'' \<notin> set (show_nat n)" for n
    by (rule show_nat_not_char) simp
  then have ne: "CHR ''-'' # s \<noteq> show_nat n" for s n
    by (metis list.set_intros(1))
  show ?thesis
    using ne ne [symmetric] by (cases "i < 0"; cases "j < 0") (auto simp: show_int_def eq_nat_nat_iff)
qed

lemma show_int_not_colon [simp]: "CHR '':'' \<notin> set (show_int i)"
  using show_nat_not_char [of "CHR '':''"] by (auto simp: show_int_def)

text \<open>\<open>xs.join(sep)\<close>\<close>

fun join :: "string \<Rightarrow> string list \<Rightarrow> string" where
  "join sep [] = []"
| "join sep [x] = x"
| "join sep (x # y # xs) = x @ sep @ join sep (y # xs)"

text \<open>Splitting at the first occurrence of a character that the left part does not contain.\<close>

lemma append_sep_inject:
  assumes "c \<notin> set x" and "c \<notin> set y"
  shows "x @ c # r = y @ c # s \<longleftrightarrow> x = y \<and> r = s"
  using assms
proof (induction x arbitrary: y)
  case Nil
  then show ?case by (cases y) auto
next
  case (Cons a x)
  then show ?case by (cases y) auto
qed

text \<open>The two non-ASCII characters of the sources' messages.\<close>

definition emdash :: string where
  "emdash = [char_of (226::nat), char_of (128::nat), char_of (148::nat)]"

definition geq_sign :: string where
  "geq_sign = [char_of (226::nat), char_of (137::nat), char_of (165::nat)]"

subsection \<open>Options and lists\<close>

text \<open>The nullish-coalescing operator \<open>a ?? b\<close>.\<close>

fun coalesce :: "'a option \<Rightarrow> 'a \<Rightarrow> 'a" where
  "coalesce None b = b"
| "coalesce (Some a) b = a"

text \<open>\<open>a ?? b\<close> where \<open>b\<close> itself may be undefined.\<close>

fun or_else :: "'a option \<Rightarrow> 'a option \<Rightarrow> 'a option" where
  "or_else None b = b"
| "or_else (Some a) b = Some a"

lemma find_Some_set: "List.find P xs = Some x \<Longrightarrow> x \<in> set xs \<and> P x"
  by (induction xs) (auto split: if_splits)

lemma find_None_iff_all: "List.find P xs = None \<longleftrightarrow> (\<forall>x\<in>set xs. \<not> P x)"
  by (induction xs) auto

lemma or_else_Some_cases: "or_else a b = Some x \<Longrightarrow> a = Some x \<or> (a = None \<and> b = Some x)"
  by (cases a) auto

end
