(* ===== verification/Canonical.thy ===== *)
theory Canonical
  imports Prelude
begin

text \<open>
  The shared vocabulary of \<open>packages/canonical\<close>: the decline taxonomy
  (\<open>decline-taxonomy.ts\<close>) and the canonical entities (\<open>entities.ts\<close>). The taxonomy is
  the control signal of the recovery engine and of the guardrail; the entities are the
  records every other component passes around.
\<close>

subsection \<open>Decline taxonomy\<close>

datatype DeclineFamily = Soft | Hard | Gray

datatype DeclineCode =
    InsufficientFunds | IssuerUnavailable | ProcessingError | VelocityLimitExceeded
  | AuthenticationRequired | TryAgainLater
  | LostCard | StolenCard | ClosedAccount | InvalidCard | PickupCard | CardNotSupported
  | RevocationOfAuthorization
  | DoNotHonor | Fraudulent | ExpiredCard
  | UnknownDecline

text \<open>The string values of the two enums.\<close>

fun family_value :: "DeclineFamily \<Rightarrow> string" where
  "family_value Soft = ''soft''"
| "family_value Hard = ''hard''"
| "family_value Gray = ''gray''"

fun code_value :: "DeclineCode \<Rightarrow> string" where
  "code_value InsufficientFunds = ''insufficient_funds''"
| "code_value IssuerUnavailable = ''issuer_unavailable''"
| "code_value ProcessingError = ''processing_error''"
| "code_value VelocityLimitExceeded = ''velocity_limit_exceeded''"
| "code_value AuthenticationRequired = ''authentication_required''"
| "code_value TryAgainLater = ''try_again_later''"
| "code_value LostCard = ''lost_card''"
| "code_value StolenCard = ''stolen_card''"
| "code_value ClosedAccount = ''closed_account''"
| "code_value InvalidCard = ''invalid_card''"
| "code_value PickupCard = ''pickup_card''"
| "code_value CardNotSupported = ''card_not_supported''"
| "code_value RevocationOfAuthorization = ''revocation_of_authorization''"
| "code_value DoNotHonor = ''do_not_honor''"
| "code_value Fraudulent = ''fraudulent''"
| "code_value ExpiredCard = ''expired_card''"
| "code_value UnknownDecline = ''unknown''"

text \<open>\<open>Object.values(DeclineCode)\<close>, in declaration order.\<close>

definition all_codes :: "DeclineCode list" where
  "all_codes =
    [InsufficientFunds, IssuerUnavailable, ProcessingError, VelocityLimitExceeded,
     AuthenticationRequired, TryAgainLater, LostCard, StolenCard, ClosedAccount, InvalidCard,
     PickupCard, CardNotSupported, RevocationOfAuthorization, DoNotHonor, Fraudulent,
     ExpiredCard, UnknownDecline]"

lemma all_codes_complete: "set all_codes = UNIV"
proof -
  have "c \<in> set all_codes" for c
    by (cases c) (simp_all add: all_codes_def)
  then show ?thesis by blast
qed

lemma distinct_all_codes: "distinct all_codes"
  by (simp add: all_codes_def)

instantiation DeclineCode :: enum
begin

definition enum_DeclineCode :: "DeclineCode list" where
  "enum_DeclineCode = all_codes"

definition enum_all_DeclineCode :: "(DeclineCode \<Rightarrow> bool) \<Rightarrow> bool" where
  "enum_all_DeclineCode P = list_all P all_codes"

definition enum_ex_DeclineCode :: "(DeclineCode \<Rightarrow> bool) \<Rightarrow> bool" where
  "enum_ex_DeclineCode P = list_ex P all_codes"

instance
  by standard
    (simp_all add: enum_DeclineCode_def enum_all_DeclineCode_def enum_ex_DeclineCode_def
       all_codes_complete distinct_all_codes list_all_iff list_ex_iff)

end

lemma inj_code_value: "inj code_value"
proof (rule injI)
  fix a b
  assume "code_value a = code_value b"
  then show "a = b"
    by (cases a; cases b) simp_all
qed

fun familyOf :: "DeclineCode \<Rightarrow> DeclineFamily" where
  "familyOf InsufficientFunds = Soft"
| "familyOf IssuerUnavailable = Soft"
| "familyOf ProcessingError = Soft"
| "familyOf VelocityLimitExceeded = Soft"
| "familyOf AuthenticationRequired = Soft"
| "familyOf TryAgainLater = Soft"
| "familyOf LostCard = Hard"
| "familyOf StolenCard = Hard"
| "familyOf ClosedAccount = Hard"
| "familyOf InvalidCard = Hard"
| "familyOf PickupCard = Hard"
| "familyOf CardNotSupported = Hard"
| "familyOf RevocationOfAuthorization = Hard"
| "familyOf DoNotHonor = Gray"
| "familyOf Fraudulent = Gray"
| "familyOf ExpiredCard = Gray"
| "familyOf UnknownDecline = Gray"

definition isRetriable :: "DeclineCode \<Rightarrow> bool" where
  "isRetriable code =
     (let family = familyOf code in
      if family = Hard then False
      else if code = ExpiredCard then False
      else if code = Fraudulent then False
      else True)"

lemma isRetriable_iff:
  "isRetriable c \<longleftrightarrow> familyOf c \<noteq> Hard \<and> c \<noteq> ExpiredCard \<and> c \<noteq> Fraudulent"
  by (simp add: isRetriable_def Let_def)

lemma retriable_codes:
  "{c. isRetriable c} =
     {InsufficientFunds, IssuerUnavailable, ProcessingError, VelocityLimitExceeded,
      AuthenticationRequired, TryAgainLater, DoNotHonor, UnknownDecline}"
proof -
  have "isRetriable c \<longleftrightarrow> c \<in>
     {InsufficientFunds, IssuerUnavailable, ProcessingError, VelocityLimitExceeded,
      AuthenticationRequired, TryAgainLater, DoNotHonor, UnknownDecline}" for c
    by (cases c) (simp_all add: isRetriable_iff)
  then show ?thesis by blast
qed

subsection \<open>Entities\<close>

type_synonym currency = string
type_synonym minor_units = int

record Money =
  amount :: minor_units
  money_currency :: currency

datatype MrrTier = Micro | Small | Mid | Large | Enterprise
datatype IssuerRegion = RegionNa | RegionEmea | RegionLatam | RegionApac | RegionUnknown

record ConsentState =
  consent_email :: bool
  consent_sms :: bool
  consent_whatsapp :: bool
  consent_push :: bool
  consent_globallyOptedOut :: bool

record Customer =
  cust_id :: ident
  cust_merchantId :: ident
  cust_processorRef :: string
  cust_email :: "string option"
  cust_phone :: "string option"
  cust_issuerRegion :: IssuerRegion
  cust_createdAt :: iso
  cust_consent :: ConsentState

record PaymentMethod =
  pm_id :: ident
  pm_customerId :: ident
  pm_processorRef :: string
  pm_token :: string
  pm_brand :: "string option"
  pm_last4 :: "string option"
  pm_bin :: "string option"
  pm_expMonth :: "int option"
  pm_expYear :: "int option"
  pm_autoUpdated :: "bool option"

datatype InvoiceStatus = InvOpen | InvPaid | InvUncollectible | InvVoid

record Invoice =
  inv_id :: ident
  inv_subscriptionId :: "ident option"
  inv_customerId :: ident
  inv_merchantId :: ident
  inv_processorRef :: string
  inv_amount :: Money
  inv_status :: InvoiceStatus
  inv_firstFailedAt :: "iso option"
  inv_createdAt :: iso

record DeclineEvent =
  dec_id :: ident
  dec_invoiceId :: ident
  dec_chargeAttemptId :: ident
  dec_code :: DeclineCode
  dec_family :: DeclineFamily
  dec_rawReason :: "string option"
  dec_occurredAt :: iso

datatype ReversalKind = Refund | Chargeback

record ReversalPayload =
  rev_invoiceId :: ident
  rev_amount :: minor_units
  rev_currency :: currency
  rev_kind :: ReversalKind
  rev_reason :: "string option"

text \<open>The decline a normalized event carries is consistent when its family is its code's.\<close>

definition decline_consistent :: "DeclineEvent \<Rightarrow> bool" where
  "decline_consistent d \<longleftrightarrow> dec_family d = familyOf (dec_code d)"

end
