(* ===== verification/Guardrail.thy ===== *)
theory Guardrail
  imports Canonical
begin

text \<open>
  The compliance guardrail of \<open>packages/guardrail\<close>: \<open>types.ts\<close> (actions, policy, network
  caps, reasons) and \<open>guardrail.ts\<close> (\<open>inQuietHours\<close>, \<open>evaluate\<close>). The abstract
  specification is the set of constraints an action violates; \<open>evaluate\<close> is shown to allow
  exactly the actions that violate none and to report a constraint that is violated.
\<close>

subsection \<open>Types\<close>

datatype CommsChannel = ChEmail | ChSms | ChWhatsapp | ChPush | ChInApp

fun channel_value :: "CommsChannel \<Rightarrow> string" where
  "channel_value ChEmail = ''email''"
| "channel_value ChSms = ''sms''"
| "channel_value ChWhatsapp = ''whatsapp''"
| "channel_value ChPush = ''push''"
| "channel_value ChInApp = ''in_app''"

datatype CardNetwork = Visa | Mastercard | Amex | Discover | OtherNetwork

fun network_value :: "CardNetwork \<Rightarrow> string" where
  "network_value Visa = ''visa''"
| "network_value Mastercard = ''mastercard''"
| "network_value Amex = ''amex''"
| "network_value Discover = ''discover''"
| "network_value OtherNetwork = ''other''"

text \<open>
  The kind of a proposed action. The source's type has three values; at run time any
  other string (or none) can arrive, and \<open>evaluate\<close> has a branch for it.
\<close>

datatype ProposedActionKind =
    ChargeRetry | FreshCredentialCharge | Comms | UnrecognizedKind "string option"

record ProposedAction =
  kind :: ProposedActionKind
  channel :: "CommsChannel option"
  declineCode :: DeclineCode
  declineFamily :: DeclineFamily
  attemptsSoFar :: int
  cardNetwork :: "CardNetwork option"
  attemptsInWindow :: "int option"
  minutesSinceLastAttempt :: "int option"
  localHour :: int
  hasConsent :: bool
  globallyOptedOut :: bool

record NetworkRetryCap =
  maxAttemptsPerWindow :: int
  windowDays :: int
  minMinutesBetween :: int

record QuietHours =
  qh_start :: int
  qh_end :: int

record GuardrailPolicy =
  maxRetryAttempts :: int
  networkCaps :: "(CardNetwork \<Rightarrow> NetworkRetryCap) option"
  quietHours :: QuietHours

definition CONSERVATIVE_CAP :: "int \<Rightarrow> NetworkRetryCap" where
  "CONSERVATIVE_CAP n = \<lparr>maxAttemptsPerWindow = n, windowDays = 30, minMinutesBetween = 60\<rparr>"

fun default_network_cap :: "CardNetwork \<Rightarrow> NetworkRetryCap" where
  "default_network_cap Visa = CONSERVATIVE_CAP 15"
| "default_network_cap Mastercard = CONSERVATIVE_CAP 10"
| "default_network_cap Amex = CONSERVATIVE_CAP 10"
| "default_network_cap Discover = CONSERVATIVE_CAP 10"
| "default_network_cap OtherNetwork = CONSERVATIVE_CAP 8"

definition DEFAULT_GUARDRAIL_POLICY :: GuardrailPolicy where
  "DEFAULT_GUARDRAIL_POLICY =
     \<lparr>maxRetryAttempts = 8, networkCaps = Some default_network_cap,
      quietHours = \<lparr>qh_start = 21, qh_end = 8\<rparr>\<rparr>"

datatype SuppressionReason =
    HardDecline | RetryCapReached | InQuietHours | NoConsent | GlobalOptOut
  | NonRetriableCode | NetworkWindowCapReached | MinIntervalNotElapsed | UnknownAction

fun reason_value :: "SuppressionReason \<Rightarrow> string" where
  "reason_value HardDecline = ''hard_decline_suppressed''"
| "reason_value RetryCapReached = ''retry_attempt_cap_reached''"
| "reason_value InQuietHours = ''quiet_hours''"
| "reason_value NoConsent = ''no_consent''"
| "reason_value GlobalOptOut = ''global_opt_out''"
| "reason_value NonRetriableCode = ''non_retriable_code''"
| "reason_value NetworkWindowCapReached = ''network_window_cap_reached''"
| "reason_value MinIntervalNotElapsed = ''min_interval_not_elapsed''"
| "reason_value UnknownAction = ''unknown_action''"

datatype GuardrailDecision = Allow | Suppress SuppressionReason string

subsection \<open>Quiet hours\<close>

definition inQuietHours :: "int \<Rightarrow> QuietHours \<Rightarrow> bool" where
  "inQuietHours hour window =
     (let start = qh_start window; end' = qh_end window in
      if start = end' then False
      else if end' < start then start \<le> hour \<or> hour < end'
      else start \<le> hour \<and> hour < end')"

text \<open>
  The window is the circular interval of \<open>(end - start) mod 24\<close> hours that begins at
  \<open>start\<close>: an hour is quiet when its distance from the start, going forward around the
  clock, is smaller than the length of the window.
\<close>

lemma mod24_window: "- 24 < d \<Longrightarrow> d < 24 \<Longrightarrow> d mod 24 = (if 0 \<le> d then d else d + (24::int))"
  using mod_pos_pos_trivial [of d 24] mod_pos_pos_trivial [of "d + 24" 24]
  by (cases "0 \<le> d") simp_all

lemma inQuietHours_circular:
  assumes "0 \<le> h" "h < 24" "0 \<le> qh_start w" "qh_start w < 24" "0 \<le> qh_end w" "qh_end w < 24"
  shows "inQuietHours h w \<longleftrightarrow> (h - qh_start w) mod 24 < (qh_end w - qh_start w) mod 24"
  using assms mod24_window [of "h - qh_start w"] mod24_window [of "qh_end w - qh_start w"]
  by (simp add: inQuietHours_def Let_def)

subsection \<open>The constraint check\<close>

fun kind_value :: "ProposedActionKind \<Rightarrow> string" where
  "kind_value ChargeRetry = ''charge_retry''"
| "kind_value FreshCredentialCharge = ''fresh_credential_charge''"
| "kind_value Comms = ''comms''"
| "kind_value (UnrecognizedKind k) = coalesce k ''undefined''"

definition network_name :: "ProposedAction \<Rightarrow> string" where
  "network_name a = (case cardNetwork a of None \<Rightarrow> ''network'' | Some n \<Rightarrow> network_value n)"

definition cap_for :: "GuardrailPolicy \<Rightarrow> ProposedAction \<Rightarrow> NetworkRetryCap option" where
  "cap_for policy a = map_option (\<lambda>caps. caps (coalesce (cardNetwork a) OtherNetwork)) (networkCaps policy)"

definition evaluate :: "ProposedAction \<Rightarrow> GuardrailPolicy \<Rightarrow> GuardrailDecision" where
  "evaluate a policy =
    (if globallyOptedOut a then
       Suppress GlobalOptOut ''Customer has globally opted out of all contact.''
     else if kind a = ChargeRetry \<and> declineFamily a = Hard then
       Suppress HardDecline
         (''Hard decline ('' @ code_value (declineCode a) @ '') '' @ emdash
          @ '' same-card retries suppressed; route to card refresh / alternate rail / comms.'')
     else if kind a = ChargeRetry \<and> \<not> isRetriable (declineCode a) then
       Suppress NonRetriableCode
         (''Decline code '' @ code_value (declineCode a) @ '' is not retriable on the same card.'')
     else if kind a = ChargeRetry \<or> kind a = FreshCredentialCharge then
       (if maxRetryAttempts policy \<le> attemptsSoFar a then
          Suppress RetryCapReached
            (''Retry cap reached ('' @ show_int (attemptsSoFar a) @ ''/''
             @ show_int (maxRetryAttempts policy) @ '').'')
        else
          (case cap_for policy a of
             None \<Rightarrow> Allow
           | Some cap \<Rightarrow>
               (let inWindow = coalesce (attemptsInWindow a) (attemptsSoFar a);
                    window_check =
                      (if maxAttemptsPerWindow cap \<le> inWindow then
                         Suppress NetworkWindowCapReached
                           (network_name a @ '' retry cap reached ('' @ show_int inWindow @ ''/''
                            @ show_int (maxAttemptsPerWindow cap) @ '' in ''
                            @ show_int (windowDays cap) @ ''d).'')
                       else Allow)
                in case minutesSinceLastAttempt a of
                     None \<Rightarrow> window_check
                   | Some m \<Rightarrow>
                       if m < minMinutesBetween cap then
                         Suppress MinIntervalNotElapsed
                           (''Only '' @ show_int m @ ''min since last attempt; '' @ network_name a
                            @ '' requires '' @ geq_sign @ show_int (minMinutesBetween cap) @ ''min.'')
                       else window_check)))
     else if kind a = Comms then
       (if \<not> hasConsent a then
          Suppress NoConsent
            (''No consent for channel ''
             @ (case channel a of None \<Rightarrow> ''unknown'' | Some c \<Rightarrow> channel_value c) @ ''.'')
        else if inQuietHours (localHour a) (quietHours policy) then
          Suppress InQuietHours
            (''Local hour '' @ show_int (localHour a) @ '' falls within quiet hours [''
             @ show_int (qh_start (quietHours policy)) @ '', ''
             @ show_int (qh_end (quietHours policy)) @ '').'')
        else Allow)
     else
       Suppress UnknownAction
         (''Unrecognized action kind '' @ [CHR 0x27] @ kind_value (kind a) @ [CHR 0x27] @ '' '' @ emdash
          @ '' failing closed.''))"

subsection \<open>Specification: the constraints an action violates\<close>

definition is_charge :: "ProposedAction \<Rightarrow> bool" where
  "is_charge a \<longleftrightarrow> kind a = ChargeRetry \<or> kind a = FreshCredentialCharge"

text \<open>
  Each constraint on its own, without regard to the order in which the code checks them.
\<close>

fun violates :: "SuppressionReason \<Rightarrow> ProposedAction \<Rightarrow> GuardrailPolicy \<Rightarrow> bool" where
  "violates GlobalOptOut a p \<longleftrightarrow> globallyOptedOut a"
| "violates HardDecline a p \<longleftrightarrow> kind a = ChargeRetry \<and> declineFamily a = Hard"
| "violates NonRetriableCode a p \<longleftrightarrow> kind a = ChargeRetry \<and> \<not> isRetriable (declineCode a)"
| "violates RetryCapReached a p \<longleftrightarrow> is_charge a \<and> maxRetryAttempts p \<le> attemptsSoFar a"
| "violates MinIntervalNotElapsed a p \<longleftrightarrow> is_charge a \<and>
     (case (cap_for p a, minutesSinceLastAttempt a) of
        (Some cap, Some m) \<Rightarrow> m < minMinutesBetween cap | _ \<Rightarrow> False)"
| "violates NetworkWindowCapReached a p \<longleftrightarrow> is_charge a \<and>
     (case cap_for p a of
        Some cap \<Rightarrow> maxAttemptsPerWindow cap \<le> coalesce (attemptsInWindow a) (attemptsSoFar a)
      | None \<Rightarrow> False)"
| "violates NoConsent a p \<longleftrightarrow> kind a = Comms \<and> \<not> hasConsent a"
| "violates InQuietHours a p \<longleftrightarrow> kind a = Comms \<and> inQuietHours (localHour a) (quietHours p)"
| "violates UnknownAction a p \<longleftrightarrow> \<not> is_charge a \<and> kind a \<noteq> Comms"

lemma evaluate_Suppress_violates: "evaluate a p = Suppress r m \<Longrightarrow> violates r a p"
  by (auto simp: evaluate_def is_charge_def Let_def split: if_splits option.splits)

lemma evaluate_Allow_violates_none: "evaluate a p = Allow \<Longrightarrow> \<not> violates r a p"
  by (cases r) (auto simp: evaluate_def is_charge_def Let_def split: if_splits option.splits)

lemma evaluate_Allow_iff: "evaluate a p = Allow \<longleftrightarrow> (\<forall>r. \<not> violates r a p)"
  by (metis GuardrailDecision.exhaust evaluate_Allow_violates_none evaluate_Suppress_violates)

text \<open>Facts about allowed actions that the charging and sending components rely on.\<close>

lemma allowed_charge_retry [safety_dests]:
  assumes "evaluate a p = Allow" "kind a = ChargeRetry"
  shows "isRetriable (declineCode a)" "declineFamily a \<noteq> Hard"
  using assms evaluate_Allow_violates_none [of a p NonRetriableCode]
    evaluate_Allow_violates_none [of a p HardDecline] by auto

lemma allowed_charge_below_cap [safety_dests]:
  assumes "evaluate a p = Allow" "is_charge a"
  shows "attemptsSoFar a < maxRetryAttempts p"
  using assms evaluate_Allow_violates_none [of a p RetryCapReached] by auto

lemma allowed_charge_below_window_cap:
  assumes "evaluate a p = Allow" "is_charge a" "cap_for p a = Some cap"
  shows "coalesce (attemptsInWindow a) (attemptsSoFar a) < maxAttemptsPerWindow cap"
  using assms evaluate_Allow_violates_none [of a p NetworkWindowCapReached] by auto

lemma allowed_comms [safety_dests]:
  assumes "evaluate a p = Allow" "kind a = Comms"
  shows "hasConsent a" "\<not> globallyOptedOut a" "\<not> inQuietHours (localHour a) (quietHours p)"
  using assms evaluate_Allow_violates_none [of a p NoConsent]
    evaluate_Allow_violates_none [of a p GlobalOptOut]
    evaluate_Allow_violates_none [of a p InQuietHours] by auto

lemma opted_out_suppressed: "globallyOptedOut a \<Longrightarrow> \<exists>m. evaluate a p = Suppress GlobalOptOut m"
  by (simp add: evaluate_def)

text \<open>
  Suppression is monotone in the load on a credential: more attempts, on the case or in the
  network window, never turn a suppressed charge into an allowed one.
\<close>

definition more_loaded :: "ProposedAction \<Rightarrow> ProposedAction \<Rightarrow> bool" where
  "more_loaded a b \<longleftrightarrow>
     attemptsSoFar a \<le> attemptsSoFar b \<and>
     coalesce (attemptsInWindow a) (attemptsSoFar a) \<le> coalesce (attemptsInWindow b) (attemptsSoFar b) \<and>
     (case (minutesSinceLastAttempt a, minutesSinceLastAttempt b) of
        (None, _) \<Rightarrow> True | (Some m, Some n) \<Rightarrow> n \<le> m | (Some _, None) \<Rightarrow> False) \<and>
     b = a\<lparr>attemptsSoFar := attemptsSoFar b, attemptsInWindow := attemptsInWindow b,
          minutesSinceLastAttempt := minutesSinceLastAttempt b\<rparr>"

lemma violates_mono:
  assumes "more_loaded a b" "violates r a p"
  shows "violates r b p"
proof -
  obtain x y z where b: "b = a\<lparr>attemptsSoFar := x, attemptsInWindow := y, minutesSinceLastAttempt := z\<rparr>"
    using assms(1) unfolding more_loaded_def by blast
  show ?thesis
    using assms unfolding b more_loaded_def
    by (cases r) (auto simp: is_charge_def cap_for_def split: option.splits)
qed

end
