(* ===== verification/Json.thy ===== *)
theory Json
  imports Prelude "HOL-Library.List_Lexorder" "HOL-Library.Char_ord" "HOL-Library.Multiset"
begin

text \<open>
  JSON values and the deterministic serialization every signed or hashed record goes
  through: \<open>JSON.stringify\<close>, the recursive key sorting of
  \<open>packages/attribution/src/ledger.ts\<close> and \<open>reconciliation.ts\<close> (\<open>sortKeys\<close>), and the
  direct canonical printer of \<open>packages/billing/src/canonical-json.ts\<close>.

  An object is the list of its entries in enumeration order (no key of this program is an
  array index, whose enumeration order would differ). A number is identified with its
  canonical text (\<open>Number::toString\<close>), so no floating-point printing is modelled;
  \<open>jint\<close> builds the integer-valued ones. \<open>JUndef\<close> is \<open>undefined\<close>: omitted as the
  value of an entry, printed as \<open>null\<close> in an array.

  The main result is that the serialization is injective on well-formed values: a record
  is determined by the text that is hashed.
\<close>

datatype json =
    JUndef | JNull | JBool bool | JNum string | JStr string
  | JArr "json list" | JObj "(string \<times> json) list"

abbreviation jint :: "int \<Rightarrow> json" where
  "jint i \<equiv> JNum (show_int i)"

fun jopt :: "string option \<Rightarrow> json" where
  "jopt None = JUndef"
| "jopt (Some s) = JStr s"

subsection \<open>Printing\<close>

definition hex_digit :: "nat \<Rightarrow> char" where
  "hex_digit n = (if n < 10 then char_of (48 + n) else char_of (87 + n))"

definition dquote :: char where "dquote = CHR 0x22"
definition backslash :: char where "backslash = CHR 0x5C"

text \<open>One character of \<open>QuoteJSONString\<close>.\<close>

definition esc_char :: "char \<Rightarrow> string" where
  "esc_char c =
    (if c = dquote \<or> c = backslash then [backslash, c]
     else if c = CHR 0x08 then [backslash, CHR ''b'']
     else if c = CHR 0x09 then [backslash, CHR ''t'']
     else if c = CHR 0x0A then [backslash, CHR ''n'']
     else if c = CHR 0x0C then [backslash, CHR ''f'']
     else if c = CHR 0x0D then [backslash, CHR ''r'']
     else if (of_char c :: nat) < 32 then
       [backslash, CHR ''u'', CHR ''0'', CHR ''0'', hex_digit (of_char c div 16), hex_digit (of_char c mod 16)]
     else [c])"

definition quote_json :: "string \<Rightarrow> string" where
  "quote_json s = dquote # concat (map esc_char s) @ [dquote]"

fun stringify :: "json \<Rightarrow> string"
  and elems :: "json list \<Rightarrow> string list"
  and members :: "(string \<times> json) list \<Rightarrow> string list" where
  "stringify JUndef = ''null''"
| "stringify JNull = ''null''"
| "stringify (JBool b) = (if b then ''true'' else ''false'')"
| "stringify (JNum t) = t"
| "stringify (JStr s) = quote_json s"
| "stringify (JArr xs) = ''['' @ join '','' (elems xs) @ '']''"
| "stringify (JObj kvs) = ''{'' @ join '','' (members kvs) @ ''}''"
| "elems [] = []"
| "elems (x # xs) = stringify x # elems xs"
| "members [] = []"
| "members ((k, v) # kvs) =
     (if v = JUndef then members kvs else (quote_json k @ '':'' @ stringify v) # members kvs)"

text \<open>Recursive key sorting; the keys of a JavaScript object are distinct.\<close>

fun sortKeys :: "json \<Rightarrow> json"
  and sort_elems :: "json list \<Rightarrow> json list"
  and sort_members :: "(string \<times> json) list \<Rightarrow> (string \<times> json) list" where
  "sortKeys JUndef = JUndef"
| "sortKeys JNull = JNull"
| "sortKeys (JBool b) = JBool b"
| "sortKeys (JNum t) = JNum t"
| "sortKeys (JStr s) = JStr s"
| "sortKeys (JArr xs) = JArr (sort_elems xs)"
| "sortKeys (JObj kvs) = JObj (sort_key fst (sort_members kvs))"
| "sort_elems [] = []"
| "sort_elems (x # xs) = sortKeys x # sort_elems xs"
| "sort_members [] = []"
| "sort_members ((k, v) # kvs) = (k, sortKeys v) # sort_members kvs"

lemma sort_elems_map: "sort_elems xs = map sortKeys xs"
  by (induction xs) auto

lemma sort_members_map: "sort_members kvs = map (\<lambda>(k, v). (k, sortKeys v)) kvs"
  by (induction kvs) auto

lemma elems_map: "elems xs = map stringify xs"
  by (induction xs) auto

lemma members_map:
  "members kvs = map (\<lambda>(k, v). quote_json k @ '':'' @ stringify v) (filter (\<lambda>(k, v). v \<noteq> JUndef) kvs)"
  by (induction kvs) auto

lemma fst_sort_members [simp]: "map fst (sort_members kvs) = map fst kvs"
  by (induction kvs) auto

definition stable_stringify :: "json \<Rightarrow> string" where
  "stable_stringify v = stringify (sortKeys v)"

text \<open>
  Sorting removes the dependence on insertion order: two objects with the same entries in
  any order serialize identically.
\<close>

lemma sort_key_perm_eq:
  assumes "mset xs = mset ys" "distinct (map f xs)"
  shows "sort_key f xs = sort_key f ys"
  using assms by (intro sort_key_inj_key_eq) (auto simp: distinct_map)

lemma sortKeys_perm:
  assumes "mset kvs = mset kvs'" "distinct (map fst kvs)"
  shows "sortKeys (JObj kvs) = sortKeys (JObj kvs')"
proof -
  have "mset (sort_members kvs) = mset (sort_members kvs')"
    by (simp add: sort_members_map assms(1))
  then show ?thesis
    using sort_key_perm_eq [of "sort_members kvs" "sort_members kvs'" fst] assms(2) by simp
qed

subsection \<open>The canonical printer of the billing package\<close>

text \<open>
  \<open>packages/billing/src/canonical-json.ts\<close> prints directly: the entries whose value is not
  \<open>undefined\<close>, sorted by key, each value printed recursively. On an array element
  \<open>undefined\<close> it prints nothing (the template join renders \<open>undefined\<close> as the empty
  string), where \<open>JSON.stringify\<close> prints \<open>null\<close>.
\<close>

fun stableStringify :: "json \<Rightarrow> string"
  and stable_elems :: "json list \<Rightarrow> string list"
  and stable_members :: "(string \<times> json) list \<Rightarrow> (string \<times> string) list" where
  "stableStringify JUndef = []"
| "stableStringify JNull = ''null''"
| "stableStringify (JBool b) = (if b then ''true'' else ''false'')"
| "stableStringify (JNum t) = t"
| "stableStringify (JStr s) = quote_json s"
| "stableStringify (JArr xs) = ''['' @ join '','' (stable_elems xs) @ '']''"
| "stableStringify (JObj kvs) =
     ''{'' @ join '','' (map (\<lambda>(k, t). quote_json k @ '':'' @ t) (sort_key fst (stable_members kvs))) @ ''}''"
| "stable_elems [] = []"
| "stable_elems (x # xs) = stableStringify x # stable_elems xs"
| "stable_members [] = []"
| "stable_members ((k, v) # kvs) =
     (if v = JUndef then stable_members kvs else (k, stableStringify v) # stable_members kvs)"

text \<open>An entry whose value is \<open>undefined\<close> is the same as no entry.\<close>

lemma stable_members_undef [simp]: "stable_members (kvs @ (k, JUndef) # kvs') = stable_members (kvs @ kvs')"
  by (induction kvs) auto

text \<open>No \<open>undefined\<close> as an array element, anywhere in the value.\<close>

fun no_undef_elem :: "json \<Rightarrow> bool"
  and no_undef_elems :: "json list \<Rightarrow> bool"
  and no_undef_members :: "(string \<times> json) list \<Rightarrow> bool" where
  "no_undef_elem (JArr xs) = no_undef_elems xs"
| "no_undef_elem (JObj kvs) = no_undef_members kvs"
| "no_undef_elem _ = True"
| "no_undef_elems [] = True"
| "no_undef_elems (x # xs) = (x \<noteq> JUndef \<and> no_undef_elem x \<and> no_undef_elems xs)"
| "no_undef_members [] = True"
| "no_undef_members ((k, v) # kvs) = (no_undef_elem v \<and> no_undef_members kvs)"

lemma sortKeys_undef_iff [simp]: "sortKeys v = JUndef \<longleftrightarrow> v = JUndef"
  by (cases v) auto

lemma map_insort_key_fst:
  "map (\<lambda>(k, v). (k, f v)) (insort_key fst x ys) =
   insort_key fst ((\<lambda>(k, v). (k, f v)) x) (map (\<lambda>(k, v). (k, f v)) ys)"
  by (induction ys) (auto split: prod.splits)

lemma map_sort_key_fst:
  "map (\<lambda>(k, v). (k, f v)) (sort_key fst kvs) = sort_key fst (map (\<lambda>(k, v). (k, f v)) kvs)"
  by (induction kvs) (simp_all add: map_insort_key_fst)

text \<open>
  The two canonical printers of the repository agree on every value without \<open>undefined\<close>
  array elements: signing in one package and re-hashing in the other gives the same text.
\<close>

lemma stable_printers_agree_aux:
  "no_undef_elem v \<Longrightarrow> v \<noteq> JUndef \<Longrightarrow> stringify (sortKeys v) = stableStringify v"
  "no_undef_elems xs \<Longrightarrow> elems (sort_elems xs) = stable_elems xs"
  "no_undef_members kvs \<Longrightarrow>
     map (\<lambda>(k, v). (k, stringify v)) (filter (\<lambda>(k, v). v \<noteq> JUndef) (sort_members kvs)) = stable_members kvs"
proof (induction v and xs and kvs rule: sortKeys_sort_elems_sort_members.induct)
  case (7 kvs)
  have "members (sort_key fst (sort_members kvs)) =
     map (\<lambda>(k, t). quote_json k @ '':'' @ t)
       (map (\<lambda>(k, v). (k, stringify v)) (filter (\<lambda>(k, v). v \<noteq> JUndef) (sort_key fst (sort_members kvs))))"
    by (simp add: members_map case_prod_unfold comp_def)
  also have "filter (\<lambda>(k, v). v \<noteq> JUndef) (sort_key fst (sort_members kvs)) =
     sort_key fst (filter (\<lambda>(k, v). v \<noteq> JUndef) (sort_members kvs))"
    by (simp add: filter_sort)
  also have "map (\<lambda>(k, v). (k, stringify v)) \<dots> = sort_key fst (stable_members kvs)"
    using 7 by (simp add: map_sort_key_fst)
  finally show ?case by simp
qed auto

subsection \<open>Injectivity\<close>

definition num_chars :: "char set" where
  "num_chars = set ''0123456789+-.eE''"

fun wf_json :: "json \<Rightarrow> bool"
  and wf_elems :: "json list \<Rightarrow> bool"
  and wf_members :: "(string \<times> json) list \<Rightarrow> bool" where
  "wf_json JUndef = False"
| "wf_json (JNum t) = (t \<noteq> [] \<and> set t \<subseteq> num_chars)"
| "wf_json (JArr xs) = wf_elems xs"
| "wf_json (JObj kvs) = wf_members kvs"
| "wf_json _ = True"
| "wf_elems [] = True"
| "wf_elems (x # xs) = (wf_json x \<and> wf_elems xs)"
| "wf_members [] = True"
| "wf_members ((k, v) # kvs) = (wf_json v \<and> wf_members kvs)"

fun delim :: "string \<Rightarrow> bool" where
  "delim [] = True"
| "delim (c # r) = (c = CHR '','' \<or> c = CHR '']'' \<or> c = CHR ''}'')"

definition unhex :: "char \<Rightarrow> nat" where
  "unhex c = (let n = of_char c in if n < 58 then n - 48 else n - 87)"

lemma unhex_hex_digit [simp]: "n < 16 \<Longrightarrow> unhex (hex_digit n) = n"
  by (simp add: unhex_def hex_digit_def Let_def)

text \<open>Reading one escaped character back.\<close>

fun unesc :: "string \<Rightarrow> (char \<times> string) option" where
  "unesc [] = None"
| "unesc (c # r) =
    (if c \<noteq> backslash then Some (c, r)
     else case r of
       [] \<Rightarrow> None
     | e # r1 \<Rightarrow>
         if e = CHR ''b'' then Some (CHR 0x08, r1)
         else if e = CHR ''t'' then Some (CHR 0x09, r1)
         else if e = CHR ''n'' then Some (CHR 0x0A, r1)
         else if e = CHR ''f'' then Some (CHR 0x0C, r1)
         else if e = CHR ''r'' then Some (CHR 0x0D, r1)
         else if e = CHR ''u'' then
           (case r1 of z # z' # h # l # r2 \<Rightarrow> Some (char_of (16 * unhex h + unhex l), r2) | _ \<Rightarrow> None)
         else Some (e, r1))"

lemma unesc_esc_char [simp]: "unesc (esc_char c @ r) = Some (c, r)"
proof -
  have "of_char c < (256::nat)" by simp
  then have "of_char c div 16 < (16::nat)" by arith
  moreover have "of_char c mod 16 < (16::nat)" by simp
  ultimately show ?thesis
    by (simp add: esc_char_def dquote_def backslash_def)
qed

lemma esc_char_inject: "esc_char c @ r = esc_char d @ s \<Longrightarrow> c = d \<and> r = s"
  by (metis unesc_esc_char option.inject prod.inject)

lemma esc_char_not_quote: "esc_char c @ r \<noteq> dquote # s"
  by (auto simp: esc_char_def dquote_def backslash_def)

lemma quote_body_inject:
  "concat (map esc_char s) @ dquote # r = concat (map esc_char t) @ dquote # r' \<Longrightarrow> s = t \<and> r = r'"
proof (induction s arbitrary: t)
  case Nil
  then show ?case
    by (cases t) (auto simp: esc_char_not_quote [symmetric])
next
  case (Cons c s)
  show ?case
  proof (cases t)
    case Nil
    with Cons.prems show ?thesis
      using esc_char_not_quote [of c "concat (map esc_char s) @ dquote # r" r'] by simp
  next
    case t: (Cons d t')
    with Cons.prems have "esc_char c @ concat (map esc_char s) @ dquote # r =
      esc_char d @ concat (map esc_char t') @ dquote # r'" by simp
    from esc_char_inject [OF this] Cons.IH [of t'] t show ?thesis by blast
  qed
qed

lemma quote_json_inject: "quote_json s @ r = quote_json t @ r' \<Longrightarrow> s = t \<and> r = r'"
  using quote_body_inject [of s r t r'] by (simp add: quote_json_def)

lemma takeWhile_delim: "delim r \<Longrightarrow> takeWhile (\<lambda>c. c \<in> num_chars) r = []"
  by (cases r) (auto simp: num_chars_def)

lemma number_inject:
  assumes "set t \<subseteq> num_chars" "set t' \<subseteq> num_chars" "delim r" "delim s" "t @ r = t' @ s"
  shows "t = t' \<and> r = s"
proof -
  have tw: "takeWhile (\<lambda>c. c \<in> num_chars) (u @ x) = u" if "set u \<subseteq> num_chars" "delim x" for u x
    using that takeWhile_delim [of x] by (subst takeWhile_append2) auto
  have "t = t'" using tw [OF assms(1,3)] tw [OF assms(2,4)] assms(5) by simp
  with assms(5) show ?thesis by simp
qed

text \<open>The first character tells the constructor.\<close>

fun tag :: "json \<Rightarrow> nat" where
  "tag JUndef = 0"
| "tag JNull = 0"
| "tag (JBool b) = (if b then 1 else 2)"
| "tag (JNum t) = 3"
| "tag (JStr s) = 4"
| "tag (JArr xs) = 5"
| "tag (JObj kvs) = 6"

definition char_tag :: "char \<Rightarrow> nat" where
  "char_tag c =
    (if c = CHR ''n'' then 0 else if c = CHR ''t'' then 1 else if c = CHR ''f'' then 2
     else if c = dquote then 4 else if c = CHR ''['' then 5 else if c = CHR ''{'' then 6
     else if c \<in> num_chars then 3 else 7)"

lemma char_tag_num: "c \<in> num_chars \<Longrightarrow> char_tag c = 3"
  by (auto simp: num_chars_def char_tag_def dquote_def)

lemma char_tag_delims: "char_tag (CHR '','') = 7" "char_tag (CHR '']'') = 7" "char_tag (CHR ''}'') = 7"
  by (simp_all add: num_chars_def char_tag_def dquote_def)

lemma char_tag_delim: "delim [c] \<Longrightarrow> char_tag c = 7"
  using char_tag_delims by auto

lemma stringify_first: "wf_json v \<Longrightarrow> \<exists>c r. stringify v = c # r \<and> char_tag c = tag v"
proof (cases v)
  case (JNum t)
  assume "wf_json v"
  with JNum show ?thesis by (cases t) (auto simp: char_tag_num)
qed (auto simp: quote_json_def char_tag_def dquote_def)

lemma tag_less [simp]: "tag v < 7"
  by (cases v) auto

lemma stringify_not_delim: "wf_json v \<Longrightarrow> stringify v @ r = c # s \<Longrightarrow> \<not> delim [c]"
  using stringify_first [of v] char_tag_delim [of c] tag_less [of v] by (auto simp del: tag_less)

lemma stringify_same_tag:
  assumes "wf_json v" "wf_json w" "stringify v @ r = stringify w @ s"
  shows "tag v = tag w"
  using stringify_first [OF assms(1)] stringify_first [OF assms(2)] assms(3) by auto

lemma join_Cons: "join sep (x # xs) = (if xs = [] then x else x @ sep @ join sep xs)"
  by (cases xs) auto

lemma stringify_inject_aux:
  "(\<And>w r s. wf_json v \<Longrightarrow> wf_json w \<Longrightarrow> delim r \<Longrightarrow> delim s \<Longrightarrow>
      stringify v @ r = stringify w @ s \<Longrightarrow> v = w \<and> r = s)"
  "(\<And>ys r s. wf_elems xs \<Longrightarrow> wf_elems ys \<Longrightarrow>
      join '','' (elems xs) @ CHR '']'' # r = join '','' (elems ys) @ CHR '']'' # s \<Longrightarrow> xs = ys \<and> r = s)"
  "(\<And>kvs' r s. wf_members kvs \<Longrightarrow> wf_members kvs' \<Longrightarrow>
      join '','' (members kvs) @ CHR ''}'' # r = join '','' (members kvs') @ CHR ''}'' # s \<Longrightarrow> kvs = kvs' \<and> r = s)"
proof (induction v and xs and kvs rule: stringify_elems_members.induct)
  case (2 w)
  then show ?case
    using stringify_same_tag [OF "2.prems"(1,2,5)] by (cases w) (auto split: if_splits)
next
  case (3 b w)
  then show ?case
    using stringify_same_tag [OF "3.prems"(1,2,5)] by (cases w) (auto split: if_splits)
next
  case (4 t w)
  have "tag w = 3" using stringify_same_tag [OF "4.prems"(1,2,5)] by simp
  then obtain t' where w: "w = JNum t'" by (cases w) (auto split: if_splits)
  with 4 number_inject [of t t' r s] show ?case by simp
next
  case (5 str w)
  have "tag w = 4" using stringify_same_tag [OF "5.prems"(1,2,5)] by simp
  then obtain t' where w: "w = JStr t'" by (cases w) (auto split: if_splits)
  have "str = t' \<and> r = s" by (rule quote_json_inject) (use 5 w in simp)
  with w show ?case by simp
next
  case (6 xs w)
  have "tag w = 5" using stringify_same_tag [OF "6.prems"(1,2,5)] by simp
  then obtain ys where w: "w = JArr ys" by (cases w) (auto split: if_splits)
  have "xs = ys \<and> r = s" by (rule "6.IH") (use "6.prems" w in simp_all)
  with w show ?case by simp
next
  case (7 kvs w)
  have "tag w = 6" using stringify_same_tag [OF "7.prems"(1,2,5)] by simp
  then obtain kvs' where w: "w = JObj kvs'" by (cases w) (auto split: if_splits)
  have "kvs = kvs' \<and> r = s" by (rule "7.IH") (use "7.prems" w in simp_all)
  with w show ?case by simp
next
  case (8 ys r s)
  then show ?case
    by (cases ys) (auto simp: join_Cons dest: stringify_not_delim [OF _ sym] split: if_splits)
next
  case (10 kvs' r s)
  then show ?case
    by (cases kvs') (auto simp: join_Cons quote_json_def dquote_def split: if_splits)
next
  case (9 x xs ys r s)
  show ?case
  proof (cases ys)
    case Nil
    with "9.prems" stringify_not_delim [of x] show ?thesis
      by (auto simp: join_Cons split: if_splits)
  next
    case (Cons y ys')
    let ?r = "if xs = [] then CHR '']'' # r else CHR '','' # join '','' (elems xs) @ CHR '']'' # r"
    let ?s = "if ys' = [] then CHR '']'' # s else CHR '','' # join '','' (elems ys') @ CHR '']'' # s"
    have eq: "stringify x @ ?r = stringify y @ ?s"
      using "9.prems"(3) Cons by (auto simp: join_Cons elems_map)
    have xy: "x = y \<and> ?r = ?s"
      by (rule "9.IH"(1) [OF _ _ _ _ eq]) (use "9.prems" Cons in simp_all)
    show ?thesis
    proof (cases "xs = [] \<or> ys' = []")
      case True
      with xy Cons show ?thesis by (auto split: if_splits)
    next
      case False
      have "xs = ys' \<and> r = s"
        by (rule "9.IH"(2)) (use "9.prems" Cons xy False in simp_all)
      with xy Cons show ?thesis by simp
    qed
  qed
next
  case (11 k v kvs kvs' r s)
  have nu: "v \<noteq> JUndef" using "11.prems"(1) by auto
  show ?case
  proof (cases kvs')
    case Nil
    with "11.prems" nu show ?thesis
      by (auto simp: join_Cons quote_json_def dquote_def split: if_splits)
  next
    case (Cons kv kvs'')
    obtain k' v' where kv: "kv = (k', v')" by (cases kv)
    have nu': "v' \<noteq> JUndef" using "11.prems"(2) Cons kv by auto
    have em: "members ks = [] \<longleftrightarrow> ks = []" if "wf_members ks" for ks
      using that by (cases ks) (auto split: if_splits)
    let ?r = "if kvs = [] then CHR ''}'' # r else CHR '','' # join '','' (members kvs) @ CHR ''}'' # r"
    let ?s = "if kvs'' = [] then CHR ''}'' # s else CHR '','' # join '','' (members kvs'') @ CHR ''}'' # s"
    have "quote_json k @ CHR '':'' # stringify v @ ?r = quote_json k' @ CHR '':'' # stringify v' @ ?s"
      using "11.prems" Cons kv nu nu' em by (auto simp: join_Cons)
    then have k: "k = k'" and eq: "stringify v @ ?r = stringify v' @ ?s"
      using quote_json_inject by blast+
    have xy: "v = v' \<and> ?r = ?s"
      by (rule "11.IH"(2) [OF nu _ _ _ _ eq]) (use "11.prems" Cons kv in simp_all)
    show ?thesis
    proof (cases "kvs = [] \<or> kvs'' = []")
      case True
      with xy Cons kv k show ?thesis by (auto split: if_splits)
    next
      case False
      have "kvs = kvs'' \<and> r = s"
        by (rule "11.IH"(3) [OF nu]) (use "11.prems" Cons kv xy False in simp_all)
      with xy Cons kv k show ?thesis by simp
    qed
  qed
qed simp

lemma stringify_inject:
  assumes "wf_json v" "wf_json w" "stringify v = stringify w"
  shows "v = w"
  using stringify_inject_aux(1) [of v w "[]" "[]"] assms by simp

lemma wf_elems_iff: "wf_elems xs \<longleftrightarrow> list_all wf_json xs"
  by (induction xs) auto

lemma wf_members_iff: "wf_members kvs \<longleftrightarrow> list_all (\<lambda>(k, v). wf_json v) kvs"
  by (induction kvs) auto

lemma wf_sortKeys:
  "wf_json (sortKeys v) = wf_json v"
  "wf_elems (sort_elems xs) = wf_elems xs"
  "wf_members (sort_members kvs) = wf_members kvs"
proof (induction v and xs and kvs rule: sortKeys_sort_elems_sort_members.induct)
  case (7 kvs)
  then show ?case by (simp add: wf_members_iff list_all_iff)
qed auto

text \<open>
  Records with the same canonical text have the same content, up to the order of object
  keys (\<open>sortKeys\<close> is the normal form of that equivalence).
\<close>

lemma stable_stringify_inject:
  assumes "wf_json v" "wf_json w" "stable_stringify v = stable_stringify w"
  shows "sortKeys v = sortKeys w"
  using assms stringify_inject [of "sortKeys v" "sortKeys w"]
  by (simp add: stable_stringify_def wf_sortKeys)

lemma stringify_JObj_first: "\<exists>r. stringify (JObj kvs) = CHR ''{'' # r"
  by simp

lemma digit_num_char: "n < 10 \<Longrightarrow> char_of (48 + n) \<in> num_chars" for n :: nat
proof -
  assume "n < 10"
  then have "n = 0 \<or> n = 1 \<or> n = 2 \<or> n = 3 \<or> n = 4 \<or> n = 5 \<or> n = 6 \<or> n = 7 \<or> n = 8 \<or> n = 9"
    by arith
  then show ?thesis
    by (elim disjE) (simp_all add: num_chars_def char_of_def bit_0)
qed

lemma show_nat_num_chars: "set (show_nat n) \<subseteq> num_chars"
proof (induction n rule: show_nat.induct)
  case (1 n)
  have "char_of (48 + n mod 10) \<in> num_chars" by (rule digit_num_char) simp
  with 1 digit_num_char show ?case
    by (cases "n < 10") (simp_all add: show_nat.simps [of n])
qed

lemma show_nat_not_Nil [simp]: "show_nat n \<noteq> []"
  by (subst show_nat.simps) simp

lemma wf_jint [simp]: "wf_json (jint i)"
  using show_nat_num_chars by (auto simp: show_int_def num_chars_def)

subsection \<open>Undefined entries\<close>

text \<open>
  What \<open>JSON.stringify\<close> prints: entries with an \<open>undefined\<close> value dropped, \<open>undefined\<close>
  array elements as \<open>null\<close>. The canonical content of a value is that of its sorted form.
\<close>

fun strip :: "json \<Rightarrow> json"
  and strip_elems :: "json list \<Rightarrow> json list"
  and strip_members :: "(string \<times> json) list \<Rightarrow> (string \<times> json) list" where
  "strip JUndef = JNull"
| "strip JNull = JNull"
| "strip (JBool b) = JBool b"
| "strip (JNum t) = JNum t"
| "strip (JStr s) = JStr s"
| "strip (JArr xs) = JArr (strip_elems xs)"
| "strip (JObj kvs) = JObj (strip_members kvs)"
| "strip_elems [] = []"
| "strip_elems (x # xs) = strip x # strip_elems xs"
| "strip_members [] = []"
| "strip_members ((k, v) # kvs) = (if v = JUndef then strip_members kvs else (k, strip v) # strip_members kvs)"

lemma strip_not_undef [simp]: "strip v \<noteq> JUndef"
  by (cases v) auto

lemma stringify_strip:
  "stringify (strip v) = stringify v"
  "elems (strip_elems xs) = elems xs"
  "members (strip_members kvs) = members kvs"
  by (induction v and xs and kvs rule: strip_strip_elems_strip_members.induct) auto

text \<open>Every number of the value is printed with number characters.\<close>

definition wf_value :: "json \<Rightarrow> bool" where
  "wf_value v \<longleftrightarrow> wf_json (strip v)"

lemma strip_members_map:
  "strip_members kvs = map (\<lambda>(k, v). (k, strip v)) (filter (\<lambda>(k, v). v \<noteq> JUndef) kvs)"
  by (induction kvs) auto

lemma strip_members_sort: "strip_members (sort_key fst kvs) = sort_key fst (strip_members kvs)"
proof -
  have "strip_members (sort_key fst kvs) =
    map (\<lambda>(k, v). (k, strip v)) (sort_key fst (filter (\<lambda>(k, v). v \<noteq> JUndef) kvs))"
    by (simp add: strip_members_map filter_sort)
  also have "\<dots> = sort_key fst (strip_members kvs)"
    by (simp add: map_sort_key_fst strip_members_map)
  finally show ?thesis .
qed

lemma strip_sortKeys:
  "strip (sortKeys v) = sortKeys (strip v)"
  "strip_elems (sort_elems xs) = sort_elems (strip_elems xs)"
  "strip_members (sort_members kvs) = sort_members (strip_members kvs)"
proof (induction v and xs and kvs rule: sortKeys_sort_elems_sort_members.induct)
  case (7 kvs)
  then show ?case by (simp add: strip_members_sort)
qed auto

lemma wf_value_sortKeys [simp]: "wf_value (sortKeys v) = wf_value v"
  by (simp add: wf_value_def strip_sortKeys wf_sortKeys)

lemma stringify_strip_inject:
  assumes "wf_value v" "wf_value w" "stringify v = stringify w"
  shows "strip v = strip w"
  using assms stringify_inject [of "strip v" "strip w"] by (simp add: wf_value_def stringify_strip)

end
