(* ===== verification/Ledger.thy ===== *)
theory Ledger
  imports Json
begin

text \<open>
  The append-only hash-chained ledger of \<open>packages/attribution/src/ledger.ts\<close>:
  \<open>canonicalize\<close>, \<open>hashEntry\<close>, the class \<open>HashChainedLedger\<close> (whose state is its
  entries) and \<open>verifyChain\<close>. SHA-256 (\<open>node:crypto\<close>) is the parameter \<open>H\<close>, a function
  from the hashed text to the hex digest.

  The interface the recovery service and the jobs use (append an event, read all entries,
  read the head) is the locale \<open>chained_log\<close>, interpreted here on the in-memory ledger and
  in \<open>LedgerStore\<close> on the persisted one.
\<close>

datatype LedgerEventType =
    HoldoutAssigned | RecoveryPlanned | ChargeAttempted | ChargeSucceeded | ChargeFailed
  | CommsSent | ActionSuppressed | CaseRecovered | CaseReversed | CaseReversalReverted
  | CaseAbandoned | ModelPromoted | UpliftStatementEvent

fun event_value :: "LedgerEventType \<Rightarrow> string" where
  "event_value HoldoutAssigned = ''holdout.assigned''"
| "event_value RecoveryPlanned = ''recovery.planned''"
| "event_value ChargeAttempted = ''charge.attempted''"
| "event_value ChargeSucceeded = ''charge.succeeded''"
| "event_value ChargeFailed = ''charge.failed''"
| "event_value CommsSent = ''comms.sent''"
| "event_value ActionSuppressed = ''action.suppressed''"
| "event_value CaseRecovered = ''case.recovered''"
| "event_value CaseReversed = ''case.reversed''"
| "event_value CaseReversalReverted = ''case.reversal_reverted''"
| "event_value CaseAbandoned = ''case.abandoned''"
| "event_value ModelPromoted = ''model.promoted''"
| "event_value UpliftStatementEvent = ''uplift.statement''"

lemma event_value_inject: "event_value a = event_value b \<Longrightarrow> a = b"
  by (cases a; cases b) simp_all

text \<open>The input of an append: \<open>Omit<LedgerEntryData, 'seq'>\<close>. The timestamp is text here: it is hashed, never computed on.\<close>

record LedgerInput =
  le_merchantId :: ident
  le_type :: LedgerEventType
  le_occurredAt :: string
  le_detail :: "(string \<times> json) list"

record LedgerEntry = LedgerInput +
  le_seq :: int
  le_prevHash :: string
  le_hash :: string

definition GENESIS_HASH :: string where
  "GENESIS_HASH = replicate 64 (CHR ''0'')"

text \<open>
  The serialized value has the five data fields in the order the source writes them; only
  \<open>detail\<close> is key-sorted.
\<close>

definition canonicalize :: "int \<Rightarrow> LedgerInput \<Rightarrow> string" where
  "canonicalize s d =
     stringify (JObj
       [(''seq'', jint s),
        (''merchantId'', JStr (le_merchantId d)),
        (''type'', JStr (event_value (le_type d))),
        (''occurredAt'', JStr (le_occurredAt d)),
        (''detail'', sortKeys (JObj (le_detail d)))])"

definition hashEntry :: "(string \<Rightarrow> string) \<Rightarrow> int \<Rightarrow> LedgerInput \<Rightarrow> string \<Rightarrow> string" where
  "hashEntry H s d prevHash = H (prevHash @ canonicalize s d)"

definition make_entry :: "(string \<Rightarrow> string) \<Rightarrow> int \<Rightarrow> string \<Rightarrow> LedgerInput \<Rightarrow> LedgerEntry" where
  "make_entry H s prevHash d =
     \<lparr>le_merchantId = le_merchantId d, le_type = le_type d, le_occurredAt = le_occurredAt d,
      le_detail = le_detail d, le_seq = s, le_prevHash = prevHash, le_hash = hashEntry H s d prevHash\<rparr>"

type_synonym ledger = "LedgerEntry list"

text \<open>\<open>head()\<close>\<close>

definition head_hash :: "ledger \<Rightarrow> string" where
  "head_hash es = (if es = [] then GENESIS_HASH else le_hash (last es))"

text \<open>\<open>append()\<close>: the sequence number and the previous hash are assigned here, not by the caller.\<close>

definition ledger_append :: "(string \<Rightarrow> string) \<Rightarrow> ledger \<Rightarrow> LedgerInput \<Rightarrow> ledger" where
  "ledger_append H es d = es @ [make_entry H (int (length es)) (head_hash es) d]"

text \<open>\<open>forMerchant()\<close>\<close>

definition for_merchant :: "ident \<Rightarrow> ledger \<Rightarrow> ledger" where
  "for_merchant m es = filter (\<lambda>e. le_merchantId e = m) es"

subsection \<open>Verification\<close>

datatype broken_reason = SeqMismatch | PrevHashMismatch | HashMismatch

text \<open>\<open>ChainVerification\<close>: valid, or the first broken position and the reason.\<close>

datatype ChainVerification = ChainValid | ChainBroken int broken_reason

definition entry_input :: "LedgerEntry \<Rightarrow> LedgerInput" where
  "entry_input e = LedgerInput.truncate e"

fun verify_from :: "(string \<Rightarrow> string) \<Rightarrow> int \<Rightarrow> string \<Rightarrow> ledger \<Rightarrow> ChainVerification" where
  "verify_from H i prevHash [] = ChainValid"
| "verify_from H i prevHash (e # es) =
     (if le_seq e \<noteq> i then ChainBroken i SeqMismatch
      else if le_prevHash e \<noteq> prevHash then ChainBroken i PrevHashMismatch
      else if hashEntry H (le_seq e) (entry_input e) (le_prevHash e) \<noteq> le_hash e
           then ChainBroken i HashMismatch
      else verify_from H (i + 1) (le_hash e) es)"

definition verifyChain :: "(string \<Rightarrow> string) \<Rightarrow> ledger \<Rightarrow> ChainVerification" where
  "verifyChain H es = verify_from H 0 GENESIS_HASH es"

definition chain_ok :: "(string \<Rightarrow> string) \<Rightarrow> ledger \<Rightarrow> bool" where
  "chain_ok H es \<longleftrightarrow> verifyChain H es = ChainValid"

subsection \<open>Appending keeps the chain valid\<close>

lemma head_hash_Nil [simp]: "head_hash [] = GENESIS_HASH"
  by (simp add: head_hash_def)

lemma head_hash_snoc [simp]: "head_hash (es @ [e]) = le_hash e"
  by (simp add: head_hash_def)

lemma verify_from_append:
  "verify_from H i p (es @ fs) =
     (case verify_from H i p es of
        ChainValid \<Rightarrow> verify_from H (i + int (length es)) (if es = [] then p else le_hash (last es)) fs
      | b \<Rightarrow> b)"
  by (induction es arbitrary: i p) (auto simp: add.assoc split: ChainVerification.splits)

lemma chain_ok_Nil [simp]: "chain_ok H []"
  by (simp add: chain_ok_def verifyChain_def)

text \<open>A chain is valid exactly when its prefix is and the last entry is the one \<open>append\<close> would make.\<close>

lemma make_entry_eq_iff:
  "e = make_entry H s p (entry_input e) \<longleftrightarrow>
     le_seq e = s \<and> le_prevHash e = p \<and> le_hash e = hashEntry H s (entry_input e) p"
  by (cases e) (auto simp: make_entry_def entry_input_def LedgerInput.truncate_def)

lemma chain_ok_snoc:
  "chain_ok H (es @ [e]) \<longleftrightarrow>
     chain_ok H es \<and> e = make_entry H (int (length es)) (head_hash es) (entry_input e)"
  unfolding make_entry_eq_iff chain_ok_def verifyChain_def verify_from_append
  by (auto simp: head_hash_def split: ChainVerification.splits)

lemma entry_input_make_entry [simp]:
  "entry_input (make_entry H s p d) = LedgerInput.truncate d"
  by (simp add: make_entry_def entry_input_def LedgerInput.truncate_def)

lemma truncate_input [simp]: "LedgerInput.truncate d = d" for d :: LedgerInput
  by (cases d) (simp add: LedgerInput.truncate_def)

lemma chain_ok_append [intro, simp]: "chain_ok H es \<Longrightarrow> chain_ok H (ledger_append H es d)"
  by (simp add: ledger_append_def chain_ok_snoc)

lemma chain_ok_prefix: "chain_ok H (es @ fs) \<Longrightarrow> chain_ok H es"
proof (induction fs rule: rev_induct)
  case Nil
  then show ?case by simp
next
  case (snoc f fs)
  then show ?case using chain_ok_snoc [of H "es @ fs" f] by simp
qed

lemma ledger_append_not_Nil [simp]: "ledger_append H es d \<noteq> []"
  by (simp add: ledger_append_def)

lemma length_ledger_append [simp]: "length (ledger_append H es d) = Suc (length es)"
  by (simp add: ledger_append_def)

lemma set_ledger_append:
  "set (ledger_append H es d) = insert (make_entry H (int (length es)) (head_hash es) d) (set es)"
  by (simp add: ledger_append_def)

lemma map_entry_input_append [simp]:
  "map entry_input (ledger_append H es d) = map entry_input es @ [d]"
  by (simp add: ledger_append_def)

lemma chain_ok_seq: "chain_ok H es \<Longrightarrow> i < length es \<Longrightarrow> le_seq (es ! i) = int i"
proof (induction es rule: rev_induct)
  case Nil
  then show ?case by simp
next
  case (snoc e es)
  then show ?case
    by (auto simp: chain_ok_snoc make_entry_eq_iff nth_append)
qed

subsection \<open>Tamper evidence\<close>

text \<open>What \<open>digest('hex')\<close> returns: 64 lower-case hexadecimal digits.\<close>

definition hex_chars :: "char set" where
  "hex_chars = set ''0123456789abcdef''"

definition hex_digest :: "(string \<Rightarrow> string) \<Rightarrow> bool" where
  "hex_digest H \<longleftrightarrow> (\<forall>s. length (H s) = 64 \<and> set (H s) \<subseteq> hex_chars)"

definition wf_input :: "LedgerInput \<Rightarrow> bool" where
  "wf_input d \<longleftrightarrow> wf_value (JObj (le_detail d))"

text \<open>Equal up to the order of detail keys and entries with \<open>undefined\<close> values.\<close>

definition same_content :: "LedgerInput \<Rightarrow> LedgerInput \<Rightarrow> bool" where
  "same_content d d' \<longleftrightarrow>
     le_merchantId d = le_merchantId d' \<and> le_type d = le_type d' \<and> le_occurredAt d = le_occurredAt d' \<and>
     strip (sortKeys (JObj (le_detail d))) = strip (sortKeys (JObj (le_detail d')))"

lemma canonicalize_inject:
  assumes "wf_input d" "wf_input d'" "canonicalize s d = canonicalize s' d'"
  shows "s = s' \<and> same_content d d'"
proof -
  have wf: "wf_value (JObj [(''seq'', jint i), (''merchantId'', JStr (le_merchantId x)),
      (''type'', JStr (event_value (le_type x))), (''occurredAt'', JStr (le_occurredAt x)),
      (''detail'', sortKeys (JObj (le_detail x)))])" if "wf_input x" for i x
  proof -
    have "wf_json (strip (sortKeys (JObj (le_detail x))))"
      using that wf_value_sortKeys [of "JObj (le_detail x)"] unfolding wf_input_def wf_value_def by simp
    moreover have "wf_json (jint i)" by (rule wf_jint)
    ultimately show ?thesis by (simp add: wf_value_def)
  qed
  from stringify_strip_inject [OF wf [OF assms(1)] wf [OF assms(2)]
      assms(3) [unfolded canonicalize_def]]
  show ?thesis
    using event_value_inject by (auto simp: same_content_def)
qed

lemma head_hash_hex:
  assumes "hex_digest H" "chain_ok H es"
  shows "length (head_hash es) = 64"
proof (cases es rule: rev_cases)
  case Nil
  then show ?thesis by (simp add: GENESIS_HASH_def)
next
  case (snoc es' e)
  with assms show ?thesis
    by (auto simp: chain_ok_snoc make_entry_eq_iff hashEntry_def hex_digest_def)
qed

text \<open>
  The texts hashed to build a chain. Two valid chains with the same head record the same
  events, provided the digest is collision-free on the texts the two chains hash and none
  of those texts hashes to the all-zero genesis value.
\<close>

definition hashed_texts :: "ledger \<Rightarrow> string set" where
  "hashed_texts es = (\<lambda>e. le_prevHash e @ canonicalize (le_seq e) (entry_input e)) ` set es"

lemma chain_snoc_unfold:
  assumes "chain_ok H (es @ [e])"
  shows "chain_ok H es" "le_hash e = H (head_hash es @ canonicalize (int (length es)) (entry_input e))"
    "le_prevHash e = head_hash es" "le_seq e = int (length es)"
  using assms by (auto simp: chain_ok_snoc make_entry_eq_iff hashEntry_def)

lemma genesis_head_Nil:
  assumes "chain_ok H ys" "GENESIS_HASH \<notin> H ` hashed_texts ys" "head_hash ys = GENESIS_HASH"
  shows "ys = []"
proof (cases ys rule: rev_cases)
  case (snoc es e)
  from chain_snoc_unfold [OF assms(1) [unfolded snoc]] assms(2,3) snoc show ?thesis
    by (auto simp: hashed_texts_def)
qed

lemma same_head_same_log:
  assumes "hex_digest H"
    and "chain_ok H xs" "chain_ok H ys" "head_hash xs = head_hash ys"
    and "\<forall>e\<in>set xs. wf_input (entry_input e)" "\<forall>e\<in>set ys. wf_input (entry_input e)"
    and "inj_on H (hashed_texts xs \<union> hashed_texts ys)"
    and "GENESIS_HASH \<notin> H ` (hashed_texts xs \<union> hashed_texts ys)"
  shows "list_all2 same_content (map entry_input xs) (map entry_input ys)"
  using assms(2-8)
proof (induction xs arbitrary: ys rule: rev_induct)
  case Nil
  then have "ys = []"
    by (intro genesis_head_Nil [of H]) (auto simp: image_Un)
  then show ?case by simp
next
  case (snoc e es)
  note ep = chain_snoc_unfold [OF snoc.prems(1)]
  show ?case
  proof (cases ys rule: rev_cases)
    case Nil
    with snoc.prems have "es @ [e] = []"
      by (intro genesis_head_Nil [of H]) (auto simp: image_Un)
    then show ?thesis by simp
  next
    case ys: (snoc fs f)
    note fp = chain_snoc_unfold [OF snoc.prems(2) [unfolded ys]]
    let ?te = "head_hash es @ canonicalize (int (length es)) (entry_input e)"
    let ?tf = "head_hash fs @ canonicalize (int (length fs)) (entry_input f)"
    have "?te \<in> hashed_texts (es @ [e]) \<union> hashed_texts ys" "?tf \<in> hashed_texts (es @ [e]) \<union> hashed_texts ys"
      using ep fp ys by (auto simp: hashed_texts_def)
    moreover have "H ?te = H ?tf" using snoc.prems(3) ep(2) fp(2) ys by simp
    ultimately have "?te = ?tf" using snoc.prems(6) by (auto dest: inj_onD)
    then have hd: "head_hash es = head_hash fs"
      and c: "canonicalize (int (length es)) (entry_input e) = canonicalize (int (length fs)) (entry_input f)"
      using head_hash_hex [OF assms(1) ep(1)] head_hash_hex [OF assms(1) fp(1)] by simp_all
    have "same_content (entry_input e) (entry_input f)"
      using canonicalize_inject [OF _ _ c] snoc.prems(4,5) ys by simp
    moreover have "list_all2 same_content (map entry_input es) (map entry_input fs)"
    proof (rule snoc.IH [OF ep(1) fp(1) hd])
      have sub: "hashed_texts es \<union> hashed_texts fs \<subseteq> hashed_texts (es @ [e]) \<union> hashed_texts ys"
        using ys by (auto simp: hashed_texts_def)
      show "inj_on H (hashed_texts es \<union> hashed_texts fs)"
        by (rule inj_on_subset [OF snoc.prems(6) sub])
      show "GENESIS_HASH \<notin> H ` (hashed_texts es \<union> hashed_texts fs)"
        using snoc.prems(7) sub by blast
    qed (use snoc.prems ys in auto)
    ultimately show ?thesis using ys by (simp add: list_all2_appendI)
  qed
qed

subsection \<open>The interface of the log\<close>

text \<open>
  What the clients rely on: \<open>all\<close> returns the events in the order they were appended, the
  entries it returns verify, and \<open>head\<close> is the hash of the last one. \<open>st\<close> is the state of
  the store, \<open>inv\<close> its invariant.
\<close>

locale chained_log =
  fixes H :: "string \<Rightarrow> string"
    and inv :: "'st \<Rightarrow> bool"
    and entries :: "'st \<Rightarrow> ledger"
    and head :: "'st \<Rightarrow> string"
    and append :: "'st \<Rightarrow> LedgerInput \<Rightarrow> 'st"
  assumes append_inv: "inv s \<Longrightarrow> inv (append s d)"
    and append_entries: "inv s \<Longrightarrow> map entry_input (entries (append s d)) = map entry_input (entries s) @ [d]"
    and entries_ok: "inv s \<Longrightarrow> chain_ok H (entries s)"
    and head_entries: "inv s \<Longrightarrow> head s = head_hash (entries s)"
begin

definition append_many :: "'st \<Rightarrow> LedgerInput list \<Rightarrow> 'st" where
  "append_many = foldl append"

lemma append_many_inv: "inv s \<Longrightarrow> inv (append_many s ds)"
  unfolding append_many_def by (induction ds arbitrary: s) (auto intro: append_inv)

lemma append_many_entries:
  "inv s \<Longrightarrow> map entry_input (entries (append_many s ds)) = map entry_input (entries s) @ ds"
  unfolding append_many_def by (induction ds arbitrary: s) (auto simp: append_inv append_entries)

lemma append_many_verified: "inv s \<Longrightarrow> verifyChain H (entries (append_many s ds)) = ChainValid"
  using entries_ok [OF append_many_inv] by (simp add: chain_ok_def)

lemma append_many_seq:
  "inv s \<Longrightarrow> i < length (entries (append_many s ds)) \<Longrightarrow> le_seq (entries (append_many s ds) ! i) = int i"
  using entries_ok [OF append_many_inv] by (rule chain_ok_seq)

end

interpretation mem_ledger: chained_log H "chain_ok H" "\<lambda>es. es" head_hash "ledger_append H" for H
  by unfold_locales simp_all

end
