(* ===== verification/Effects.thy ===== *)
theory Effects
  imports Prelude
begin

text \<open>
  Effectful operations of the sources (\<open>async\<close> methods that read and write a store, call an
  adapter, and may throw) are state transformers with a result or an error: the state an
  operation leaves behind is kept also when it throws, as the source's effects are. The
  theory holds the combinators and the rules of a partial-correctness triple over them.
\<close>

subsection \<open>State transformers with errors\<close>

type_synonym ('s, 'a) eff = "'s \<Rightarrow> (js_error + 'a) \<times> 's"

definition ok :: "'a \<Rightarrow> ('s, 'a) eff" where
  "ok a = (\<lambda>s. (Inr a, s))"

definition throw :: "js_error \<Rightarrow> ('s, 'a) eff" where
  "throw e = (\<lambda>s. (Inl e, s))"

definition andThen :: "('s, 'a) eff \<Rightarrow> ('a \<Rightarrow> ('s, 'b) eff) \<Rightarrow> ('s, 'b) eff" where
  "andThen m f = (\<lambda>s. case m s of (Inl e, s') \<Rightarrow> (Inl e, s') | (Inr a, s') \<Rightarrow> f a s')"

definition lift_sum :: "js_error + 'a \<Rightarrow> ('s, 'a) eff" where
  "lift_sum r = (\<lambda>s. (r, s))"

definition gets :: "('s \<Rightarrow> 'a) \<Rightarrow> ('s, 'a) eff" where
  "gets f = (\<lambda>s. (Inr (f s), s))"

definition modify :: "('s \<Rightarrow> 's) \<Rightarrow> ('s, unit) eff" where
  "modify f = (\<lambda>s. (Inr (), f s))"

text \<open>An operation on a part of the state.\<close>

definition zoom :: "('s \<Rightarrow> 't) \<Rightarrow> ('t \<Rightarrow> 's \<Rightarrow> 's) \<Rightarrow> ('t, 'a) eff \<Rightarrow> ('s, 'a) eff" where
  "zoom get put m = (\<lambda>s. case m (get s) of (r, t) \<Rightarrow> (r, put t s))"

text \<open>\<open>try { m } catch (e) { h e }\<close>\<close>

definition catchE :: "('s, 'a) eff \<Rightarrow> (js_error \<Rightarrow> ('s, 'a) eff) \<Rightarrow> ('s, 'a) eff" where
  "catchE m h = (\<lambda>s. case m s of (Inl e, s') \<Rightarrow> h e s' | (Inr a, s') \<Rightarrow> (Inr a, s'))"

lemmas eff_defs = ok_def throw_def andThen_def lift_sum_def gets_def modify_def zoom_def catchE_def

lemma andThen_ok [simp]: "andThen (ok a) f = f a"
  by (simp add: andThen_def ok_def)

lemma andThen_throw [simp]: "andThen (throw e) f = throw e"
  by (simp add: andThen_def throw_def)

lemma andThen_assoc: "andThen (andThen m f) g = andThen m (\<lambda>a. andThen (f a) g)"
  by (rule ext) (simp add: andThen_def split: prod.split sum.split)

subsection \<open>Triples\<close>

text \<open>
  \<open>triple P m Q E\<close>: started in a state with \<open>P\<close>, \<open>m\<close> returns with \<open>Q\<close> or throws with \<open>E\<close>. The
  operations are total functions, so a triple is total correctness.
\<close>

definition triple ::
  "('s \<Rightarrow> bool) \<Rightarrow> ('s, 'a) eff \<Rightarrow> ('a \<Rightarrow> 's \<Rightarrow> bool) \<Rightarrow> ('s \<Rightarrow> bool) \<Rightarrow> bool" where
  "triple P m Q E \<longleftrightarrow>
     (\<forall>s. P s \<longrightarrow> (case m s of (Inl e, s') \<Rightarrow> E s' | (Inr a, s') \<Rightarrow> Q a s'))"

lemma tripleI:
  assumes "\<And>s a s'. P s \<Longrightarrow> m s = (Inr a, s') \<Longrightarrow> Q a s'"
    and "\<And>s e s'. P s \<Longrightarrow> m s = (Inl e, s') \<Longrightarrow> E s'"
  shows "triple P m Q E"
  using assms by (auto simp: triple_def split: prod.split sum.split)

lemma tripleD_Inr: "triple P m Q E \<Longrightarrow> P s \<Longrightarrow> m s = (Inr a, s') \<Longrightarrow> Q a s'"
  by (auto simp: triple_def dest: spec [of _ s])

lemma tripleD_Inl: "triple P m Q E \<Longrightarrow> P s \<Longrightarrow> m s = (Inl e, s') \<Longrightarrow> E s'"
  by (auto simp: triple_def dest: spec [of _ s])

lemma triple_weaken:
  assumes "triple P' m Q' E'" "\<And>s. P s \<Longrightarrow> P' s" "\<And>a s. Q' a s \<Longrightarrow> Q a s" "\<And>s. E' s \<Longrightarrow> E s"
  shows "triple P m Q E"
  using assms by (fastforce simp: triple_def split: prod.splits sum.splits)

lemma triple_ok: "(\<And>s. P s \<Longrightarrow> Q a s) \<Longrightarrow> triple P (ok a) Q E"
  by (simp add: triple_def ok_def)

lemma triple_throw: "(\<And>s. P s \<Longrightarrow> E s) \<Longrightarrow> triple P (throw e) Q E"
  by (simp add: triple_def throw_def)

lemma triple_lift_sum:
  "(\<And>s a. P s \<Longrightarrow> r = Inr a \<Longrightarrow> Q a s) \<Longrightarrow> (\<And>s. P s \<Longrightarrow> E s) \<Longrightarrow> triple P (lift_sum r) Q E"
  by (cases r) (simp_all add: triple_def lift_sum_def)

lemma triple_gets: "(\<And>s. P s \<Longrightarrow> Q (f s) s) \<Longrightarrow> triple P (gets f) Q E"
  by (simp add: triple_def gets_def)

lemma triple_modify: "(\<And>s. P s \<Longrightarrow> Q () (f s)) \<Longrightarrow> triple P (modify f) Q E"
  by (simp add: triple_def modify_def)

lemma triple_andThen:
  assumes "triple P m R E" "\<And>a. triple (R a) (f a) Q E"
  shows "triple P (andThen m f) Q E"
  using assms by (fastforce simp: triple_def andThen_def split: prod.splits sum.splits)

lemma triple_if:
  "(b \<Longrightarrow> triple P m Q E) \<Longrightarrow> (\<not> b \<Longrightarrow> triple P n Q E) \<Longrightarrow> triple P (if b then m else n) Q E"
  by simp

lemma triple_case_option:
  "(x = None \<Longrightarrow> triple P m Q E) \<Longrightarrow> (\<And>a. x = Some a \<Longrightarrow> triple P (f a) Q E) \<Longrightarrow>
   triple P (case x of None \<Rightarrow> m | Some a \<Rightarrow> f a) Q E"
  by (cases x) auto

lemma triple_False: "triple (\<lambda>_. False) m Q E"
  by (simp add: triple_def)

lemmas triple_rules = triple_ok triple_throw triple_lift_sum triple_gets triple_modify

subsection \<open>Invariants\<close>

text \<open>An operation keeps a property of the state, whether it returns or throws.\<close>

named_theorems preserves_intros "operations that keep an invariant"

definition preserves :: "('s \<Rightarrow> bool) \<Rightarrow> ('s, 'a) eff \<Rightarrow> bool" where
  "preserves P m \<longleftrightarrow> (\<forall>s. P s \<longrightarrow> P (snd (m s)))"

lemma preservesI: "(\<And>s. P s \<Longrightarrow> P (snd (m s))) \<Longrightarrow> preserves P m"
  by (simp add: preserves_def)

lemma preservesD: "preserves P m \<Longrightarrow> P s \<Longrightarrow> m s = (r, s') \<Longrightarrow> P s'"
  by (auto simp: preserves_def dest: spec [of _ s])

lemma preserves_ok [preserves_intros]: "preserves P (ok a)"
  by (simp add: preserves_def ok_def)

lemma preserves_throw [preserves_intros]: "preserves P (throw e)"
  by (simp add: preserves_def throw_def)

lemma preserves_lift_sum [preserves_intros]: "preserves P (lift_sum r)"
  by (simp add: preserves_def lift_sum_def)

lemma preserves_gets [preserves_intros]: "preserves P (gets f)"
  by (simp add: preserves_def gets_def)

lemma preserves_modify: "(\<And>s. P s \<Longrightarrow> P (f s)) \<Longrightarrow> preserves P (modify f)"
  by (simp add: preserves_def modify_def)

lemma preserves_andThen [preserves_intros]:
  assumes "preserves P m" "\<And>a. preserves P (f a)"
  shows "preserves P (andThen m f)"
proof (rule preservesI)
  fix s assume "P s"
  show "P (snd (andThen m f s))"
  proof (cases "m s")
    case (Pair r s')
    with assms(1) \<open>P s\<close> have "P s'" by (auto dest: preservesD)
    with Pair assms(2) show ?thesis by (cases r) (auto simp: andThen_def preserves_def)
  qed
qed

lemma preserves_catchE [preserves_intros]:
  assumes "preserves P m" "\<And>e. preserves P (h e)"
  shows "preserves P (catchE m h)"
proof (rule preservesI)
  fix s assume "P s"
  show "P (snd (catchE m h s))"
  proof (cases "m s")
    case (Pair r s')
    with assms(1) \<open>P s\<close> have "P s'" by (auto dest: preservesD)
    with Pair assms(2) show ?thesis by (cases r) (auto simp: catchE_def preserves_def)
  qed
qed

lemma preserves_if [preserves_intros]:
  "(b \<Longrightarrow> preserves P m) \<Longrightarrow> (\<not> b \<Longrightarrow> preserves P n) \<Longrightarrow> preserves P (if b then m else n)"
  by simp

lemma preserves_option [preserves_intros]:
  "(x = None \<Longrightarrow> preserves P m) \<Longrightarrow> (\<And>a. x = Some a \<Longrightarrow> preserves P (f a)) \<Longrightarrow>
   preserves P (case x of None \<Rightarrow> m | Some a \<Rightarrow> f a)"
  by (cases x) auto

end
