(* ===== verification/DeclineIntel.thy ===== *)
theory DeclineIntel
  imports Guardrail
begin

text \<open>
  Decline intelligence and retry cadences of \<open>packages/recovery-engine\<close>:
  \<open>decline-intel.ts\<close> (\<open>classifyDecline\<close>, \<open>describeCanonicalTaxonomy\<close>) and
  \<open>retry-strategy.ts\<close> (\<open>baseCadence\<close>, \<open>strategyFor\<close>). The explanatory texts
  (\<open>description\<close>, \<open>rationale\<close>) are not modelled: nothing computes on them.
\<close>

subsection \<open>Classification\<close>

datatype RecommendedAction = RecRetry | RecCardUpdate | RecSuppress

record DeclineClassification =
  cls_code :: DeclineCode
  cls_family :: DeclineFamily
  cls_retriable :: bool
  cls_recommendedAction :: RecommendedAction

definition classifyDecline :: "DeclineCode \<Rightarrow> DeclineClassification" where
  "classifyDecline code =
     (let family = familyOf code;
          retriable = isRetriable code;
          recommendedAction =
            (if code = Fraudulent then RecSuppress
             else if code = ExpiredCard \<or> family = Hard then RecCardUpdate
             else RecRetry)
      in \<lparr>cls_code = code, cls_family = family, cls_retriable = retriable,
          cls_recommendedAction = recommendedAction\<rparr>)"

definition describeCanonicalTaxonomy :: "DeclineClassification list" where
  "describeCanonicalTaxonomy = map classifyDecline all_codes"

definition classifyRaw :: "string option \<Rightarrow> (string option \<Rightarrow> DeclineCode) \<Rightarrow> DeclineClassification" where
  "classifyRaw rawCode normalizer = classifyDecline (normalizer rawCode)"

lemma recommend_retry_iff: "cls_recommendedAction (classifyDecline c) = RecRetry \<longleftrightarrow> isRetriable c"
  by (auto simp: classifyDecline_def Let_def isRetriable_iff)

lemma recommend_suppress_iff: "cls_recommendedAction (classifyDecline c) = RecSuppress \<longleftrightarrow> c = Fraudulent"
  by (auto simp: classifyDecline_def Let_def)

lemma classify_fields [simp]:
  "cls_code (classifyDecline c) = c" "cls_family (classifyDecline c) = familyOf c"
  "cls_retriable (classifyDecline c) = isRetriable c"
  by (simp_all add: classifyDecline_def Let_def)

subsection \<open>Retry strategies\<close>

record RetryStrategy =
  str_code :: DeclineCode
  str_network :: CardNetwork
  str_action :: RecommendedAction
  str_maxAttempts :: nat
  str_delaysMinutes :: "int list"
  str_rotateMethodAfterAttempt :: "nat option"

fun NETWORK_MAX_ATTEMPTS :: "CardNetwork \<Rightarrow> nat" where
  "NETWORK_MAX_ATTEMPTS Visa = 4"
| "NETWORK_MAX_ATTEMPTS Mastercard = 4"
| "NETWORK_MAX_ATTEMPTS Amex = 3"
| "NETWORK_MAX_ATTEMPTS Discover = 3"
| "NETWORK_MAX_ATTEMPTS OtherNetwork = 2"

text \<open>Gaps in minutes before each successive attempt, and the rotation point.\<close>

fun baseCadence :: "DeclineCode \<Rightarrow> int list \<times> nat option" where
  "baseCadence InsufficientFunds = ([1440, 4320, 14400, 20160], None)"
| "baseCadence IssuerUnavailable = ([15, 240, 1440, 7200], None)"
| "baseCadence ProcessingError = ([15, 240, 1440, 7200], None)"
| "baseCadence TryAgainLater = ([15, 240, 1440, 7200], None)"
| "baseCadence VelocityLimitExceeded = ([1440, 5760, 14400], None)"
| "baseCadence AuthenticationRequired = ([60, 2880], None)"
| "baseCadence DoNotHonor = ([720, 4320, 11520, 21600], Some 2)"
| "baseCadence _ = ([720, 4320, 14400], None)"

definition strategyFor :: "DeclineCode \<Rightarrow> CardNetwork \<Rightarrow> RetryStrategy" where
  "strategyFor code network =
     (let recommendedAction = cls_recommendedAction (classifyDecline code) in
      if recommendedAction \<noteq> RecRetry then
        \<lparr>str_code = code, str_network = network, str_action = recommendedAction,
         str_maxAttempts = 0, str_delaysMinutes = [], str_rotateMethodAfterAttempt = None\<rparr>
      else
        (let (delays, rotateAfter) = baseCadence code;
             cap = NETWORK_MAX_ATTEMPTS network;
             capped = take cap delays
         in \<lparr>str_code = code, str_network = network, str_action = RecRetry,
             str_maxAttempts = length capped, str_delaysMinutes = capped,
             str_rotateMethodAfterAttempt =
               (case rotateAfter of
                  Some r \<Rightarrow> if r < length capped then Some r else None
                | None \<Rightarrow> None)\<rparr>))"

lemma baseCadence_positive: "d \<in> set (fst (baseCadence c)) \<Longrightarrow> 0 < d"
  by (cases c) auto

lemma strategy_length [simp]: "str_maxAttempts (strategyFor c n) = length (str_delaysMinutes (strategyFor c n))"
  by (simp add: strategyFor_def Let_def split: prod.splits)

lemma strategy_delays_positive:
  assumes "d \<in> set (str_delaysMinutes (strategyFor c n))"
  shows "0 < d"
  using assms baseCadence_positive [of d c]
  by (auto simp: strategyFor_def Let_def split: prod.splits if_splits dest: in_set_takeD)

lemma strategy_within_network_cap:
  "str_maxAttempts (strategyFor c n) \<le> NETWORK_MAX_ATTEMPTS n"
  by (simp add: strategyFor_def Let_def split: prod.splits)

lemma strategy_retry_iff: "str_action (strategyFor c n) = RecRetry \<longleftrightarrow> isRetriable c"
  by (simp add: strategyFor_def Let_def recommend_retry_iff split: prod.splits)

lemma strategy_attempts_iff: "0 < str_maxAttempts (strategyFor c n) \<longleftrightarrow> isRetriable c"
proof -
  have "fst (baseCadence c) \<noteq> []" by (cases c) auto
  moreover have "0 < NETWORK_MAX_ATTEMPTS n" by (cases n) auto
  ultimately show ?thesis
    by (auto simp: strategyFor_def Let_def recommend_retry_iff split: prod.splits)
qed

lemma strategy_rotation_inside:
  "str_rotateMethodAfterAttempt (strategyFor c n) = Some r \<Longrightarrow> r < str_maxAttempts (strategyFor c n)"
  by (auto simp: strategyFor_def Let_def split: prod.splits option.splits if_splits)

text \<open>The engine's ceilings lie under the guardrail's window caps for every network.\<close>

lemma strategy_cap_le_guardrail:
  "int (NETWORK_MAX_ATTEMPTS n) < maxAttemptsPerWindow (default_network_cap n)"
  by (cases n) (simp_all add: CONSERVATIVE_CAP_def)

text \<open>
  The minimum interval is respected by every gap but the first quick retry of a transient
  issuer error (15 minutes against the guardrail's 60).
\<close>

lemma strategy_min_interval:
  assumes "d \<in> set (tl (str_delaysMinutes (strategyFor c n)))"
  shows "minMinutesBetween (default_network_cap n) \<le> d"
proof -
  have "minMinutesBetween (default_network_cap n) = 60" by (cases n) (simp_all add: CONSERVATIVE_CAP_def)
  moreover have "d \<in> set (tl (fst (baseCadence c)))"
    using assms
    by (auto simp: strategyFor_def Let_def tl_take split: prod.splits if_splits dest: in_set_takeD)
  then have "60 \<le> d" by (cases c) auto
  ultimately show ?thesis by simp
qed

end
