(* ===== verification/Recoverability.thy ===== *)
theory Recoverability
  imports Canonical
begin

text \<open>
  Recoverability models of \<open>packages/recovery-engine\<close>: the feature vector and its encoding
  (\<open>features.ts\<close>), the cold-start heuristic (\<open>recoverability.ts\<close>) and the fitted logistic
  model (\<open>logistic.ts\<close>). The interface \<open>RecoverabilityModel\<close> (a score that is a
  probability) is the locale \<open>recoverability_model\<close>, interpreted on both.
\<close>

datatype CardProductType = CardCredit | CardDebit | CardPrepaid | CardUnknown

record RecoveryFeatures =
  f_declineCode :: DeclineCode
  f_amountMinor :: int
  f_currency :: currency
  f_issuerRegion :: IssuerRegion
  f_cardType :: "CardProductType option"
  f_customerTenureDays :: real
  f_priorRecoveryRate :: real
  f_attemptNumber :: int
  f_daysSinceFirstFail :: real
  f_issuerApprovalPrior :: "real option"

definition clamp01 :: "real \<Rightarrow> real" where
  "clamp01 x = (if x < 0 then 0 else if 1 < x then 1 else x)"

definition logistic :: "real \<Rightarrow> real" where
  "logistic z = 1 / (1 + exp (- z))"

lemma clamp01_range: "0 \<le> clamp01 x" "clamp01 x \<le> 1"
  by (simp_all add: clamp01_def)

lemma clamp01_mono: "x \<le> y \<Longrightarrow> clamp01 x \<le> clamp01 y"
  by (simp add: clamp01_def)

lemma logistic_range: "0 < logistic z" "logistic z < 1"
  by (simp_all add: logistic_def add_pos_pos)

lemma clamp01_logistic [simp]: "clamp01 (logistic z) = logistic z"
  using logistic_range [of z] by (simp add: clamp01_def)

lemma logistic_mono: "x \<le> y \<Longrightarrow> logistic x \<le> logistic y"
  by (simp add: logistic_def frac_le add_pos_pos)

subsection \<open>The heuristic\<close>

definition baseLogOdds :: "DeclineCode \<Rightarrow> real" where
  "baseLogOdds code =
     (case familyOf code of
        Hard \<Rightarrow> - 3.2
      | Gray \<Rightarrow> if code = ExpiredCard then - 2.0 else - 0.4
      | Soft \<Rightarrow> if code = IssuerUnavailable \<or> code = TryAgainLater \<or> code = ProcessingError then 1.1 else 0.5)"

definition heuristic_logit :: "RecoveryFeatures \<Rightarrow> real" where
  "heuristic_logit f =
     baseLogOdds (f_declineCode f)
     + (f_priorRecoveryRate f - 0.4) * 1.5
     + (coalesce (f_issuerApprovalPrior f) 0.5 - 0.5) * 1.2
     - of_int (max 0 (f_attemptNumber f - 1)) * 0.45
     - max 0 (f_daysSinceFirstFail f - 3) * 0.05
     + min (f_customerTenureDays f / 365) 3 * 0.1
     - min (of_int (f_amountMinor f) / 100 / 1000) 2 * 0.15"

definition heuristic_score :: "RecoveryFeatures \<Rightarrow> real" where
  "heuristic_score f = clamp01 (logistic (heuristic_logit f))"

subsection \<open>Feature encoding and the logistic model\<close>

definition DECLINE_ORDER :: "DeclineCode list" where
  "DECLINE_ORDER = all_codes"

definition REGION_ORDER :: "IssuerRegion list" where
  "REGION_ORDER = [RegionNa, RegionEmea, RegionLatam, RegionApac, RegionUnknown]"

definition CARD_TYPE_ORDER :: "CardProductType list" where
  "CARD_TYPE_ORDER = [CardCredit, CardDebit, CardPrepaid]"

definition FEATURE_DIM :: nat where
  "FEATURE_DIM = length DECLINE_ORDER + 1 + length REGION_ORDER + 5 + length CARD_TYPE_ORDER"

definition one_hot :: "'a list \<Rightarrow> ('a \<Rightarrow> bool) \<Rightarrow> real list" where
  "one_hot order p = map (\<lambda>c. if p c then 1 else 0) order"

definition encodeFeatures :: "RecoveryFeatures \<Rightarrow> real list" where
  "encodeFeatures f =
     one_hot DECLINE_ORDER (\<lambda>c. f_declineCode f = c)
     @ [ln (1 + of_int (max 0 (f_amountMinor f))) / 12]
     @ one_hot REGION_ORDER (\<lambda>r. f_issuerRegion f = r)
     @ [min (max 0 (f_customerTenureDays f) / 365) 3,
        clamp01 (f_priorRecoveryRate f),
        of_int (min (max 0 (f_attemptNumber f - 1)) 6) / 6,
        min (max 0 (f_daysSinceFirstFail f) / 30) 2,
        clamp01 (coalesce (f_issuerApprovalPrior f) 0.5)]
     @ one_hot CARD_TYPE_ORDER (\<lambda>t. f_cardType f = Some t)"

lemma length_one_hot [simp]: "length (one_hot xs p) = length xs"
  by (simp add: one_hot_def)

lemma length_encodeFeatures [simp]: "length (encodeFeatures f) = FEATURE_DIM"
  by (simp add: encodeFeatures_def FEATURE_DIM_def)

lemma FEATURE_DIM_value: "FEATURE_DIM = 31"
  by (simp add: FEATURE_DIM_def DECLINE_ORDER_def REGION_ORDER_def CARD_TYPE_ORDER_def all_codes_def)

lemma sum_list_one_hot: "distinct xs \<Longrightarrow> sum_list (one_hot xs (\<lambda>c. a = c)) = (if a \<in> set xs then 1 else 0)"
  by (induction xs) (auto simp: one_hot_def)

lemma one_hot_range: "v \<in> set (one_hot xs p) \<Longrightarrow> 0 \<le> v \<and> v \<le> 1"
  by (auto simp: one_hot_def)

lemma encodeFeatures_nonneg: "v \<in> set (encodeFeatures f) \<Longrightarrow> 0 \<le> v"
  by (auto simp: encodeFeatures_def clamp01_range simp del: eq_divide_eq_numeral1 dest: one_hot_range)

record RecoverabilityWeights =
  wt_w :: "real list"
  wt_b :: real

definition sigmoid :: "real \<Rightarrow> real" where
  "sigmoid z = (if 0 \<le> z then 1 / (1 + exp (- z)) else exp z / (1 + exp z))"

text \<open>The two branches (chosen for floating-point range) are the same function.\<close>

lemma sigmoid_eq_logistic: "sigmoid z = logistic z"
  by (simp add: sigmoid_def logistic_def exp_minus field_simps add_pos_pos)

text \<open>The constructor's check of the weight vector.\<close>

definition make_logistic :: "RecoverabilityWeights \<Rightarrow> js_error + RecoverabilityWeights" where
  "make_logistic wts =
     (if length (wt_w wts) \<noteq> FEATURE_DIM then Inl (JsError ''LogisticRecoverability: weight vector length'')
      else Inr wts)"

text \<open>A missing weight counts as 0.\<close>

fun dot_missing :: "real list \<Rightarrow> real list \<Rightarrow> real" where
  "dot_missing ws [] = 0"
| "dot_missing [] (x # xs) = 0 * x + dot_missing [] xs"
| "dot_missing (w # ws) (x # xs) = w * x + dot_missing ws xs"

definition logistic_score :: "RecoverabilityWeights \<Rightarrow> RecoveryFeatures \<Rightarrow> real" where
  "logistic_score wts f = clamp01 (sigmoid (wt_b wts + dot_missing (wt_w wts) (encodeFeatures f)))"

lemma dot_missing_Nil [simp]: "dot_missing [] xs = 0"
  by (induction xs) auto

text \<open>Appending a feature does not change the score of a model fitted before it.\<close>

lemma dot_missing_append: "length ws \<le> length xs \<Longrightarrow> dot_missing ws (xs @ ys) = dot_missing ws xs"
proof (induction ws xs rule: dot_missing.induct)
  case (1 ws)
  then show ?case by simp
qed auto

subsection \<open>The interface\<close>

locale recoverability_model =
  fixes score :: "RecoveryFeatures \<Rightarrow> real"
  assumes score_nonneg: "0 \<le> score f"
    and score_le_1: "score f \<le> 1"
begin

lemma score_abs: "\<bar>score f\<bar> \<le> 1"
  using score_nonneg [of f] score_le_1 [of f] by simp

lemma expected_le_amount:
  assumes "0 \<le> a"
  shows "score f * a \<le> a"
  using mult_right_mono [OF score_le_1 assms] by simp

end

interpretation heuristic_model: recoverability_model heuristic_score
  by unfold_locales (simp_all add: heuristic_score_def clamp01_range del: clamp01_logistic)

interpretation logistic_model: recoverability_model "logistic_score wts" for wts
  by unfold_locales (simp_all add: logistic_score_def clamp01_range)

text \<open>More failed attempts or a staler invoice never raise the heuristic's score.\<close>

lemma heuristic_score_decays:
  assumes "f_attemptNumber f \<le> n" "f_daysSinceFirstFail f \<le> d"
  shows "heuristic_score (f\<lparr>f_attemptNumber := n, f_daysSinceFirstFail := d\<rparr>) \<le> heuristic_score f"
proof -
  have "max 0 (f_attemptNumber f - 1) \<le> max 0 (n - 1)"
    using assms(1) by (simp add: max_def)
  then have "(of_int (max 0 (f_attemptNumber f - 1)) :: real) \<le> of_int (max 0 (n - 1))"
    by (simp only: of_int_le_iff)
  moreover have "max 0 (f_daysSinceFirstFail f - 3) \<le> max 0 (d - 3)"
    using assms(2) by (simp add: max_def)
  moreover define C where "C = baseLogOdds (f_declineCode f) + (f_priorRecoveryRate f - 0.4) * 1.5
     + (coalesce (f_issuerApprovalPrior f) 0.5 - 0.5) * 1.2"
  moreover define T where "T = min (f_customerTenureDays f / 365) 3 * 0.1"
  moreover define M where "M = min (of_int (f_amountMinor f) / 100 / 1000) 2 * (0.15 :: real)"
  moreover have "heuristic_logit (f\<lparr>f_attemptNumber := n, f_daysSinceFirstFail := d\<rparr>) =
      C - of_int (max 0 (n - 1)) * 0.45 - max 0 (d - 3) * 0.05 + T - M"
    by (simp add: heuristic_logit_def C_def T_def M_def)
  moreover have "heuristic_logit f =
      C - of_int (max 0 (f_attemptNumber f - 1)) * 0.45 - max 0 (f_daysSinceFirstFail f - 3) * 0.05 + T - M"
    by (simp add: heuristic_logit_def C_def T_def M_def)
  moreover have "A \<le> A' \<Longrightarrow> D \<le> D' \<Longrightarrow>
      C - A' * 0.45 - D' * 0.05 + T - M \<le> C - A * 0.45 - D * 0.05 + T - M" for A A' D D' :: real
    by simp
  ultimately have "heuristic_logit (f\<lparr>f_attemptNumber := n, f_daysSinceFirstFail := d\<rparr>) \<le> heuristic_logit f"
    by presburger
  then show ?thesis by (simp add: heuristic_score_def logistic_mono)
qed

end
