(* ===== verification/JsDate.thy ===== *)
theory JsDate
  imports Prelude
begin

text \<open>
  The part of ECMAScript's calendar arithmetic the sources use
  (\<open>getUTCFullYear\<close>, \<open>getUTCMonth\<close>, \<open>getUTCDate\<close>, \<open>Date.UTC\<close>), defined as the
  language specification does from the day number of the first of January of a year, and
  the lemmas that place a date of a month after or before a given instant.
\<close>

definition day_of :: "int \<Rightarrow> int" where
  "day_of ms = ms div ms_per_day"

definition day_from_year :: "int \<Rightarrow> int" where
  "day_from_year y =
     365 * (y - 1970) + (y - 1969) div 4 - (y - 1901) div 100 + (y - 1601) div 400"

definition leap_year :: "int \<Rightarrow> bool" where
  "leap_year y \<longleftrightarrow> y mod 4 = 0 \<and> (y mod 100 \<noteq> 0 \<or> y mod 400 = 0)"

text \<open>The year that contains a day: the specification's greatest year not after it, found from an estimate.\<close>

definition year_from_day :: "int \<Rightarrow> int" where
  "year_from_day d =
     (let y = 1970 + (400 * d) div 146097 in
      if d < day_from_year y then y - 1
      else if day_from_year (y + 1) \<le> d then y + 1
      else y)"

lemma div_bounds:
  fixes x k :: int
  assumes "0 < k"
  obtains q where "x div k = q" "k * q \<le> x" "x < k * q + k"
proof
  have "k * (x div k) + x mod k = x" by simp
  moreover have "0 \<le> x mod k" "x mod k < k" using assms by simp_all
  ultimately show "x div k = x div k" "k * (x div k) \<le> x" "x < k * (x div k) + k" by linarith+
qed

lemma year_from_day_bounds:
  "day_from_year (year_from_day d) \<le> d \<and> d < day_from_year (year_from_day d + 1)"
proof -
  obtain q where q: "(400 * d) div 146097 = q" "146097 * q \<le> 400 * d" "400 * d < 146097 * q + 146097"
    by (rule div_bounds [of 146097 "400 * d"]) auto
  have b: "146097 * y - 287810897 - 801 < 400 * day_from_year y \<and>
    400 * day_from_year y < 146097 * y - 287810897 + 401" for y
  proof -
    obtain a where a: "(y - 1969) div 4 = a" "4 * a \<le> y - 1969" "y - 1969 < 4 * a + 4"
      by (rule div_bounds [of 4 "y - 1969"]) auto
    obtain b where b: "(y - 1901) div 100 = b" "100 * b \<le> y - 1901" "y - 1901 < 100 * b + 100"
      by (rule div_bounds [of 100 "y - 1901"]) auto
    obtain c where c: "(y - 1601) div 400 = c" "400 * c \<le> y - 1601" "y - 1601 < 400 * c + 400"
      by (rule div_bounds [of 400 "y - 1601"]) auto
    have "day_from_year y = 365 * (y - 1970) + a - b + c"
      by (simp add: day_from_year_def a(1) b(1) c(1))
    with a(2,3) b(2,3) c(2,3) show ?thesis by simp
  qed
  have "day_from_year (1970 + q - 1) \<le> d"
    using b [of "1970 + q - 1"] q(2) by simp
  moreover have "d < day_from_year (1970 + q + 2)"
    using b [of "1970 + q + 2"] q(3) by simp
  ultimately show ?thesis
    by (auto simp: year_from_day_def Let_def q(1) add.commute)
qed

lemma div_step:
  fixes x k :: int
  assumes "0 < k"
  shows "(x + 1) div k = x div k + (if (x + 1) mod k = 0 then 1 else 0)"
proof -
  have x: "x = k * (x div k) + x mod k" by simp
  have r: "0 \<le> x mod k" "x mod k < k" using assms by simp_all
  show ?thesis
  proof (cases "x mod k = k - 1")
    case True
    have "x + 1 = k * (x div k) + k" using x True by linarith
    then have e: "x + 1 = k * (x div k + 1)" by (simp only: distrib_left mult_1_right)
    have "(x + 1) div k = x div k + 1" unfolding e using assms by simp
    moreover have "(x + 1) mod k = 0" unfolding e by simp
    ultimately show ?thesis by simp
  next
    case False
    then have e: "x + 1 = k * (x div k) + (x mod k + 1)" and "0 \<le> x mod k + 1" "x mod k + 1 < k"
      using x r by linarith+
    then have "(x + 1) div k = x div k" "(x + 1) mod k = x mod k + 1"
      by (metis int_div_pos_eq) (metis e int_mod_pos_eq \<open>0 \<le> x mod k + 1\<close> \<open>x mod k + 1 < k\<close>)
    with r show ?thesis by simp
  qed
qed

lemma day_from_year_step:
  "day_from_year (y + 1) = day_from_year y + (if leap_year y then 366 else 365)"
proof -
  have m4: "(y - 1968) mod 4 = y mod 4" using mod_mult_self1 [of y "- 492" 4] by simp
  have m100: "(y - 1900) mod 100 = y mod 100" using mod_mult_self1 [of y "- 19" 100] by simp
  have m400: "(y - 1600) mod 400 = y mod 400" using mod_mult_self1 [of y "- 4" 400] by simp
  have s4: "(y - 1968) div 4 = (y - 1969) div 4 + (if y mod 4 = 0 then 1 else 0)"
    using div_step [of 4 "y - 1969"] m4 by simp
  have s100: "(y - 1900) div 100 = (y - 1901) div 100 + (if y mod 100 = 0 then 1 else 0)"
    using div_step [of 100 "y - 1901"] m100 by simp
  have s400: "(y - 1600) div 400 = (y - 1601) div 400 + (if y mod 400 = 0 then 1 else 0)"
    using div_step [of 400 "y - 1601"] m400 by simp
  have r100: "y mod 400 = 0 \<Longrightarrow> y mod 100 = 0"
    using dvd_trans [of 100 400 y] by (simp add: mod_eq_0_iff_dvd)
  have r4: "y mod 100 = 0 \<Longrightarrow> y mod 4 = 0"
    using dvd_trans [of 4 100 y] by (simp add: mod_eq_0_iff_dvd)
  have gen: "365 * (y + 1 - 1970) + (A + (if P then 1 else 0)) - (B + (if Q then 1 else 0)) + (C + (if R then 1 else 0)) =
      365 * (y - 1970) + A - B + C + (if P \<and> (\<not> Q \<or> R) then 366 else (365::int))"
    if "R \<Longrightarrow> Q" "Q \<Longrightarrow> P" for A B C P Q R
    using that by auto
  have d: "y + 1 - 1969 = y - 1968" "y + 1 - 1901 = y - 1900" "y + 1 - 1601 = y - 1600" by simp_all
  show ?thesis
    unfolding day_from_year_def leap_year_def d s4 s100 s400 by (rule gen) (erule r100, erule r4)
qed

text \<open>Days before the first of month \<open>m\<close> (0-based, 12 for the end of the year).\<close>

definition month_start :: "bool \<Rightarrow> int \<Rightarrow> int" where
  "month_start leap m =
     (let l = (if leap then 1 else 0) in
      if m \<le> 0 then 0 else if m = 1 then 31 else if m = 2 then 59 + l else if m = 3 then 90 + l
      else if m = 4 then 120 + l else if m = 5 then 151 + l else if m = 6 then 181 + l
      else if m = 7 then 212 + l else if m = 8 then 243 + l else if m = 9 then 273 + l
      else if m = 10 then 304 + l else if m = 11 then 334 + l else 365 + l)"

definition utc_year :: "int \<Rightarrow> int" where
  "utc_year ms = year_from_day (day_of ms)"

definition day_in_year :: "int \<Rightarrow> int" where
  "day_in_year ms = day_of ms - day_from_year (utc_year ms)"

definition utc_month :: "int \<Rightarrow> int" where
  "utc_month ms =
     (let k = day_in_year ms; l = leap_year (utc_year ms) in
      if k < month_start l 1 then 0 else if k < month_start l 2 then 1
      else if k < month_start l 3 then 2 else if k < month_start l 4 then 3
      else if k < month_start l 5 then 4 else if k < month_start l 6 then 5
      else if k < month_start l 7 then 6 else if k < month_start l 8 then 7
      else if k < month_start l 9 then 8 else if k < month_start l 10 then 9
      else if k < month_start l 11 then 10 else 11)"

definition utc_date :: "int \<Rightarrow> int" where
  "utc_date ms = day_in_year ms - month_start (leap_year (utc_year ms)) (utc_month ms) + 1"

text \<open>\<open>Date.UTC(y, m, d, h)\<close> for \<open>0 \<le> m \<le> 12\<close>; month 12 is January of the next year.\<close>

definition date_utc :: "int \<Rightarrow> int \<Rightarrow> int \<Rightarrow> int \<Rightarrow> int" where
  "date_utc y m d h =
     (let y' = y + m div 12; m' = m mod 12 in
      (day_from_year y' + month_start (leap_year y') m' + d - 1) * ms_per_day + h * ms_per_hour)"

lemma day_of_bounds: "day_of ms * ms_per_day \<le> ms" "ms < (day_of ms + 1) * ms_per_day"
  by (rule div_bounds [of ms_per_day ms]; simp add: day_of_def algebra_simps)+

lemma day_in_year_bounds:
  "0 \<le> day_in_year ms" "day_in_year ms < (if leap_year (utc_year ms) then 366 else 365)"
  using year_from_day_bounds [of "day_of ms"] day_from_year_step [of "utc_year ms"]
  by (auto simp: day_in_year_def utc_year_def split: if_splits)

lemma utc_month_range: "0 \<le> utc_month ms" "utc_month ms \<le> 11"
  by (auto simp: utc_month_def Let_def)

lemma utc_month_bounds:
  "month_start (leap_year (utc_year ms)) (utc_month ms) \<le> day_in_year ms"
  "day_in_year ms < month_start (leap_year (utc_year ms)) (utc_month ms + 1)"
  using day_in_year_bounds [of ms] by (auto simp: utc_month_def month_start_def Let_def)

lemma utc_date_pos: "1 \<le> utc_date ms"
  using utc_month_bounds(1) [of ms] by (simp add: utc_date_def)

text \<open>A later day of the same month is later; the first of the next month is later.\<close>

lemma same_month_later:
  assumes "utc_date ms < d" "0 \<le> h"
  shows "ms < date_utc (utc_year ms) (utc_month ms) d h"
proof -
  let ?D = "day_from_year (utc_year ms) + month_start (leap_year (utc_year ms)) (utc_month ms) + d - 1"
  have "day_of ms + 1 \<le> ?D" using assms(1) by (simp add: utc_date_def day_in_year_def)
  then have "(day_of ms + 1) * ms_per_day \<le> ?D * ms_per_day" by (rule mult_right_mono) simp
  moreover have "date_utc (utc_year ms) (utc_month ms) d h = ?D * ms_per_day + h * ms_per_hour"
    using utc_month_range [of ms] by (simp add: date_utc_def Let_def)
  moreover have "0 \<le> h * ms_per_hour" using assms(2) by simp
  ultimately show ?thesis using day_of_bounds(2) [of ms] by linarith
qed

lemma next_month_later:
  assumes "0 \<le> h"
  shows "ms < date_utc (utc_year ms) (utc_month ms + 1) 1 h"
proof -
  obtain y' m' where ym: "y' = utc_year ms + (utc_month ms + 1) div 12" "m' = (utc_month ms + 1) mod 12"
    by blast
  let ?D = "day_from_year y' + month_start (leap_year y') m'"
  have "day_of ms + 1 \<le> ?D"
  proof (cases "utc_month ms = 11")
    case True
    then have "y' = utc_year ms + 1" "m' = 0" using ym by simp_all
    then show ?thesis
      using year_from_day_bounds [of "day_of ms"] by (simp add: utc_year_def month_start_def)
  next
    case False
    then have "y' = utc_year ms" "m' = utc_month ms + 1"
      using ym utc_month_range [of ms] by simp_all
    then show ?thesis
      using utc_month_bounds(2) [of ms] by (simp add: day_in_year_def)
  qed
  then have "(day_of ms + 1) * ms_per_day \<le> ?D * ms_per_day" by (rule mult_right_mono) simp
  moreover have "date_utc (utc_year ms) (utc_month ms + 1) 1 h = ?D * ms_per_day + h * ms_per_hour"
    using ym by (simp add: date_utc_def Let_def)
  moreover have "0 \<le> h * ms_per_hour" using assms by simp
  ultimately show ?thesis using day_of_bounds(2) [of ms] by linarith
qed

end
