(* ===== verification/RetryPolicy.thy ===== *)
theory RetryPolicy
  imports DeclineIntel Recoverability JsDate
begin

text \<open>
  The decision surface of the recovery engine: the cost and compliance objective
  (\<open>objective.ts\<close>), the retry timing (\<open>timing.ts\<close>) and the two fixed policies of
  \<open>policy.ts\<close>, \<open>HeuristicPolicy\<close> and \<open>CostAwarePolicy\<close>. A policy is a function from
  features and context to a decision, or to the \<open>RangeError\<close> a bad clock raises. The
  contract the rest of the program relies on is the locale \<open>retry_policy\<close>.
\<close>

subsection \<open>The objective\<close>

record CostModel =
  cm_attemptFeeMinor :: int
  cm_commsCostMinor :: int
  cm_fineExposureMinor :: int
  cm_retentionMultiplier :: real

definition DEFAULT_COST_MODEL :: CostModel where
  "DEFAULT_COST_MODEL =
     \<lparr>cm_attemptFeeMinor = 15, cm_commsCostMinor = 5, cm_fineExposureMinor = 2500,
      cm_retentionMultiplier = 1.6\<rparr>"

record ComplianceContext =
  cc_attemptsInNetworkWindow :: "int option"
  cc_networkCap :: "int option"
  cc_fineRampStart :: "real option"

definition p_fine :: "int \<Rightarrow> int \<Rightarrow> real \<Rightarrow> real" where
  "p_fine used cap start =
     (let ratio = of_int used / of_int cap in
      if 1 \<le> ratio then 1 else if ratio \<le> start then 0 else (ratio - start) / (1 - start))"

definition expectedFineCostMinor :: "ComplianceContext option \<Rightarrow> CostModel \<Rightarrow> int" where
  "expectedFineCostMinor cmp cost =
     (case cmp of
        None \<Rightarrow> 0
      | Some c \<Rightarrow>
          (case cc_networkCap c of
             None \<Rightarrow> 0
           | Some cap \<Rightarrow>
               if cap \<le> 0 then 0
               else js_round (p_fine (max 0 (coalesce (cc_attemptsInNetworkWindow c) 0)) cap
                                     (coalesce (cc_fineRampStart c) 0.6)
                              * of_int (cm_fineExposureMinor cost))))"

record ActionCost =
  ac_feeMinor :: int
  ac_fineCostMinor :: int
  ac_totalMinor :: int

record ActionValue =
  av_netValueMinor :: int
  av_grossMinor :: int
  av_cost :: ActionCost

definition gross_value :: "real \<Rightarrow> int \<Rightarrow> CostModel \<Rightarrow> int" where
  "gross_value recoverability amountMinor cost =
     js_round (max 0 recoverability * of_int amountMinor * cm_retentionMultiplier cost)"

definition retryNetValue :: "real \<Rightarrow> int \<Rightarrow> CostModel \<Rightarrow> ComplianceContext option \<Rightarrow> ActionValue" where
  "retryNetValue recoverability amountMinor cost compliance =
     (let gross = gross_value recoverability amountMinor cost;
          fine = expectedFineCostMinor compliance cost;
          total = cm_attemptFeeMinor cost + fine
      in \<lparr>av_netValueMinor = gross - total, av_grossMinor = gross,
          av_cost = \<lparr>ac_feeMinor = cm_attemptFeeMinor cost, ac_fineCostMinor = fine, ac_totalMinor = total\<rparr>\<rparr>)"

definition commsNetValue :: "real \<Rightarrow> int \<Rightarrow> CostModel \<Rightarrow> ActionValue" where
  "commsNetValue recoverability amountMinor cost =
     (let gross = gross_value recoverability amountMinor cost
      in \<lparr>av_netValueMinor = gross - cm_commsCostMinor cost, av_grossMinor = gross,
          av_cost = \<lparr>ac_feeMinor = cm_commsCostMinor cost, ac_fineCostMinor = 0,
                     ac_totalMinor = cm_commsCostMinor cost\<rparr>\<rparr>)"

text \<open>The probability of a fine is a probability and grows with the attempts used.\<close>

lemma p_fine_range:
  assumes "0 \<le> used" "0 < cap" "start < 1"
  shows "0 \<le> p_fine used cap start" "p_fine used cap start \<le> 1"
proof -
  define r where "r = of_int used / (of_int cap :: real)"
  have one: "(r - start) / (1 - start) \<le> 1" if "r < 1" using that assms(3) by (simp add: divide_le_eq)
  have zero: "0 \<le> (r - start) / (1 - start)" if "start < r" using that assms(3) by simp
  show "0 \<le> p_fine used cap start" "p_fine used cap start \<le> 1"
    using one zero by (auto simp: p_fine_def Let_def simp flip: r_def)
qed

lemma p_fine_mono:
  assumes "used \<le> used'" "0 < cap" "start < 1"
  shows "p_fine used cap start \<le> p_fine used' cap start"
proof -
  define r r' where "r = of_int used / (of_int cap :: real)" and "r' = of_int used' / (of_int cap :: real)"
  have le: "r \<le> r'" using assms by (simp add: r_def r'_def divide_right_mono)
  have step: "(r - start) / (1 - start) \<le> (r' - start) / (1 - start)"
    using le assms(3) by (simp add: divide_right_mono)
  have one: "(r - start) / (1 - start) \<le> 1" if "r < 1" using that assms(3) by (simp add: divide_le_eq)
  have zero: "0 \<le> (r' - start) / (1 - start)" if "start < r'" using that assms(3) by simp
  show ?thesis
    using le step one zero by (auto simp: p_fine_def Let_def simp flip: r_def r'_def)
qed

lemma fine_cost_range:
  assumes "0 \<le> cm_fineExposureMinor cost" "coalesce (cc_fineRampStart c) 0.6 < 1"
  shows "0 \<le> expectedFineCostMinor (Some c) cost"
    "expectedFineCostMinor (Some c) cost \<le> cm_fineExposureMinor cost"
proof -
  let ?u = "max 0 (coalesce (cc_attemptsInNetworkWindow c) 0)"
  have r: "0 \<le> p_fine ?u cap (coalesce (cc_fineRampStart c) 0.6)"
    "p_fine ?u cap (coalesce (cc_fineRampStart c) 0.6) \<le> 1" if "0 < cap" for cap
    using p_fine_range [of ?u cap] that assms(2) by simp_all
  have e: "(0::real) \<le> of_int (cm_fineExposureMinor cost)" using assms(1) by simp
  show "0 \<le> expectedFineCostMinor (Some c) cost"
    using r(1) e by (auto simp: expectedFineCostMinor_def intro!: js_round_nonneg split: option.splits)
  show "expectedFineCostMinor (Some c) cost \<le> cm_fineExposureMinor cost"
    using r(2) e assms(1) mult_right_mono [OF _ e, of _ 1]
    by (auto simp: expectedFineCostMinor_def intro!: js_round_le_of_int split: option.splits)
qed

lemma fine_cost_mono:
  assumes "0 \<le> cm_fineExposureMinor cost" "coalesce (cc_fineRampStart c) 0.6 < 1"
    and "coalesce (cc_attemptsInNetworkWindow c) 0 \<le> n"
  shows "expectedFineCostMinor (Some c) cost \<le>
    expectedFineCostMinor (Some (c\<lparr>cc_attemptsInNetworkWindow := Some n\<rparr>)) cost"
  using assms
  by (auto simp: expectedFineCostMinor_def intro!: js_round_mono mult_right_mono p_fine_mono split: option.splits)

text \<open>At the cap the whole exposure is priced in; below the ramp nothing is.\<close>

lemma fine_cost_at_cap:
  assumes "cc_networkCap c = Some cap" "0 < cap" "cap \<le> coalesce (cc_attemptsInNetworkWindow c) 0"
  shows "expectedFineCostMinor (Some c) cost = cm_fineExposureMinor cost"
  using assms by (simp add: expectedFineCostMinor_def p_fine_def Let_def max_def le_divide_eq)

lemma gross_value_mono:
  assumes "0 \<le> a" "0 \<le> cm_retentionMultiplier cost" "s \<le> s'"
  shows "gross_value s a cost \<le> gross_value s' a cost"
  unfolding gross_value_def using assms
  by (intro js_round_mono mult_right_mono) auto

subsection \<open>Timing\<close>

definition nextPaydayProxy :: "int \<Rightarrow> int" where
  "nextPaydayProxy from' =
     (let y = utc_year from'; m = utc_month from'; d = utc_date from' in
      if d < 15 then date_utc y m 15 12 else date_utc y (m + 1) 1 12)"

lemma nextPaydayProxy_later: "from' < nextPaydayProxy from'"
  by (simp add: nextPaydayProxy_def Let_def same_month_later next_month_later)

text \<open>The clamped lookup \<open>[a, b, ...][Math.min(attempt - 1, n)]\<close>.\<close>

definition escalate :: "int list \<Rightarrow> int \<Rightarrow> int" where
  "escalate xs attempt = xs ! nat (min (attempt - 1) (int (length xs) - 1))"

text \<open>The delay in milliseconds after \<open>now\<close>, or an absolute instant for funds-timed retries.\<close>

definition retry_instant :: "DeclineCode \<Rightarrow> int \<Rightarrow> int \<Rightarrow> int" where
  "retry_instant code attemptNumber now =
     (let attempt = max 1 attemptNumber in
      case code of
        IssuerUnavailable \<Rightarrow> now + escalate [2, 6, 24] attempt * ms_per_hour
      | ProcessingError \<Rightarrow> now + escalate [2, 6, 24] attempt * ms_per_hour
      | TryAgainLater \<Rightarrow> now + escalate [2, 6, 24] attempt * ms_per_hour
      | InsufficientFunds \<Rightarrow>
          (let twoDays = now + 2 * ms_per_day; payday = nextPaydayProxy now in
           if attempt = 1 \<and> twoDays < payday then twoDays else payday)
      | VelocityLimitExceeded \<Rightarrow> now + 24 * ms_per_hour
      | AuthenticationRequired \<Rightarrow> now + 12 * ms_per_hour
      | _ \<Rightarrow> now + escalate [1, 3, 7, 14] attempt * ms_per_day)"

definition optimalRetryTime :: "RecoveryFeatures \<Rightarrow> iso \<Rightarrow> js_error + iso" where
  "optimalRetryTime f now =
     to_iso_string (map_option (retry_instant (f_declineCode f) (f_attemptNumber f)) now)"

lemma escalate_pos:
  assumes "xs \<noteq> []" "\<forall>x\<in>set xs. 0 < x" "1 \<le> attempt"
  shows "0 < escalate xs attempt"
proof -
  have "0 < int (length xs)" using assms(1) by simp
  then have "nat (min (attempt - 1) (int (length xs) - 1)) < length xs"
    using assms(3) by linarith
  then show ?thesis using assms(2) by (simp add: escalate_def)
qed

text \<open>A retry is never scheduled at or before the decision.\<close>

lemma retry_instant_later: "now < retry_instant code n now"
proof -
  have "0 < escalate [2, 6, 24] (max 1 n)" "0 < escalate [1, 3, 7, 14] (max 1 n)"
    by (rule escalate_pos; simp)+
  then show ?thesis
    using nextPaydayProxy_later [of now]
    by (cases code) (simp_all add: retry_instant_def Let_def)
qed

lemma escalate_mono:
  assumes "sorted xs" "xs \<noteq> []" "1 \<le> a" "a \<le> b"
  shows "escalate xs a \<le> escalate xs b"
proof -
  have "0 < int (length xs)" using assms(2) by simp
  then have "nat (min (b - 1) (int (length xs) - 1)) < length xs"
    using assms(3,4) by linarith
  moreover have "nat (min (a - 1) (int (length xs) - 1)) \<le> nat (min (b - 1) (int (length xs) - 1))"
    using assms(4) by (intro nat_mono min.mono) simp_all
  ultimately show ?thesis
    unfolding escalate_def using assms(1) by (intro sorted_nth_mono)
qed

subsection \<open>Decisions\<close>

datatype RecoveryActionKind = ActRetry | ActCardUpdateComms | ActSuppress

record AvailableMethod =
  am_ref :: string
  am_autoUpdated :: "bool option"
  am_isDefault :: "bool option"

record PolicyConfig =
  minRecoverabilityToRetry :: real
  attemptCostMinor :: int
  retentionMultiplier :: real

definition DEFAULT_POLICY_CONFIG :: PolicyConfig where
  "DEFAULT_POLICY_CONFIG =
     \<lparr>minRecoverabilityToRetry = 0.04, attemptCostMinor = 15, retentionMultiplier = 1.6\<rparr>"

record PolicyContext =
  ctx_now :: iso
  ctx_methods :: "AvailableMethod list option"
  ctx_config :: "PolicyConfig option"
  ctx_cost :: "CostModel option"
  ctx_compliance :: "ComplianceContext option"

record RecoveryDecision =
  rd_action :: RecoveryActionKind
  rd_retryAt :: "iso option"
  rd_paymentMethodRef :: "string option"
  rd_recoverabilityScore :: real
  rd_expectedValueMinor :: int
  rd_netValueMinor :: "int option"
  rd_costBreakdown :: "ActionCost option"

definition truthy :: "bool option \<Rightarrow> bool" where
  "truthy b = (b = Some True)"

definition selectMethod :: "RecoveryFeatures \<Rightarrow> AvailableMethod list option \<Rightarrow> AvailableMethod option" where
  "selectMethod features methods =
     (case methods of
        None \<Rightarrow> None
      | Some [] \<Rightarrow> None
      | Some (m0 # ms) \<Rightarrow>
          (let alternate = (if 3 \<le> f_attemptNumber features
                            then List.find (\<lambda>m. \<not> truthy (am_isDefault m)) (m0 # ms) else None)
           in case alternate of
                Some a \<Rightarrow> Some a
              | None \<Rightarrow>
                  (case List.find (\<lambda>m. truthy (am_autoUpdated m)) (m0 # ms) of
                     Some u \<Rightarrow> Some u
                   | None \<Rightarrow> or_else (List.find (\<lambda>m. truthy (am_isDefault m)) (m0 # ms)) (Some m0))))"

definition expectedValue :: "real \<Rightarrow> int \<Rightarrow> real \<Rightarrow> int \<Rightarrow> int" where
  "expectedValue score amountMinor retention attemptCost =
     js_round (score * of_int amountMinor * retention - of_int attemptCost)"

text \<open>The test both policies make before anything else.\<close>

definition dead_credential :: "DeclineCode \<Rightarrow> bool" where
  "dead_credential code = (familyOf code = Hard \<or> code = ExpiredCard)"

definition heuristic_decide ::
  "(RecoveryFeatures \<Rightarrow> real) \<Rightarrow> RecoveryFeatures \<Rightarrow> PolicyContext \<Rightarrow> js_error + RecoveryDecision" where
  "heuristic_decide model features ctx =
     (let cfg = coalesce (ctx_config ctx) DEFAULT_POLICY_CONFIG;
          score = model features;
          ev = expectedValue score (f_amountMinor features) (retentionMultiplier cfg) (attemptCostMinor cfg)
      in
      if dead_credential (f_declineCode features) then
        Inr \<lparr>rd_action = ActCardUpdateComms, rd_retryAt = None, rd_paymentMethodRef = None,
             rd_recoverabilityScore = score, rd_expectedValueMinor = ev,
             rd_netValueMinor = None, rd_costBreakdown = None\<rparr>
      else if score < minRecoverabilityToRetry cfg then
        Inr \<lparr>rd_action = ActSuppress, rd_retryAt = None, rd_paymentMethodRef = None,
             rd_recoverabilityScore = score, rd_expectedValueMinor = 0,
             rd_netValueMinor = None, rd_costBreakdown = None\<rparr>
      else if ev \<le> 0 then
        Inr \<lparr>rd_action = ActSuppress, rd_retryAt = None, rd_paymentMethodRef = None,
             rd_recoverabilityScore = score, rd_expectedValueMinor = ev,
             rd_netValueMinor = None, rd_costBreakdown = None\<rparr>
      else
        (case optimalRetryTime features (ctx_now ctx) of
           Inl e \<Rightarrow> Inl e
         | Inr t \<Rightarrow>
             Inr \<lparr>rd_action = ActRetry, rd_retryAt = Some t,
                  rd_paymentMethodRef = map_option am_ref (selectMethod features (ctx_methods ctx)),
                  rd_recoverabilityScore = score, rd_expectedValueMinor = ev,
                  rd_netValueMinor = None, rd_costBreakdown = None\<rparr>))"

definition cost_aware_decide ::
  "(RecoveryFeatures \<Rightarrow> real) \<Rightarrow> RecoveryFeatures \<Rightarrow> PolicyContext \<Rightarrow> js_error + RecoveryDecision" where
  "cost_aware_decide model features ctx =
     (let cfg = coalesce (ctx_config ctx) DEFAULT_POLICY_CONFIG;
          cost = coalesce (ctx_cost ctx) DEFAULT_COST_MODEL;
          score = model features;
          comms = commsNetValue score (f_amountMinor features) cost;
          retry = retryNetValue score (f_amountMinor features) cost (ctx_compliance ctx)
      in
      if dead_credential (f_declineCode features) then
        Inr \<lparr>rd_action = ActCardUpdateComms, rd_retryAt = None, rd_paymentMethodRef = None,
             rd_recoverabilityScore = score, rd_expectedValueMinor = av_netValueMinor comms,
             rd_netValueMinor = Some (av_netValueMinor comms), rd_costBreakdown = Some (av_cost comms)\<rparr>
      else if score < minRecoverabilityToRetry cfg then
        Inr \<lparr>rd_action = ActSuppress, rd_retryAt = None, rd_paymentMethodRef = None,
             rd_recoverabilityScore = score, rd_expectedValueMinor = 0,
             rd_netValueMinor = Some 0, rd_costBreakdown = None\<rparr>
      else if av_netValueMinor retry \<le> 0 then
        Inr \<lparr>rd_action = ActSuppress, rd_retryAt = None, rd_paymentMethodRef = None,
             rd_recoverabilityScore = score, rd_expectedValueMinor = av_netValueMinor retry,
             rd_netValueMinor = Some (av_netValueMinor retry), rd_costBreakdown = Some (av_cost retry)\<rparr>
      else
        (case optimalRetryTime features (ctx_now ctx) of
           Inl e \<Rightarrow> Inl e
         | Inr t \<Rightarrow>
             Inr \<lparr>rd_action = ActRetry, rd_retryAt = Some t,
                  rd_paymentMethodRef = map_option am_ref (selectMethod features (ctx_methods ctx)),
                  rd_recoverabilityScore = score, rd_expectedValueMinor = av_netValueMinor retry,
                  rd_netValueMinor = Some (av_netValueMinor retry), rd_costBreakdown = Some (av_cost retry)\<rparr>))"

lemmas decide_defs = heuristic_decide_def cost_aware_decide_def

text \<open>A selected method is one of the customer's methods.\<close>

lemma selectMethod_member: "selectMethod f ms = Some m \<Longrightarrow> \<exists>xs. ms = Some xs \<and> m \<in> set xs"
  by (auto simp: selectMethod_def Let_def split: option.splits list.splits if_splits
      dest!: find_Some_set or_else_Some_cases)

lemma selectMethod_None_iff: "selectMethod f ms = None \<longleftrightarrow> ms = None \<or> ms = Some []"
proof -
  have "or_else a (Some b) \<noteq> None" for a :: "AvailableMethod option" and b
    by (cases a) auto
  then show ?thesis
    by (auto simp: selectMethod_def Let_def split: option.splits list.splits)
qed

lemma optimalRetryTime_later:
  assumes "optimalRetryTime f now = Inr r"
  shows "\<exists>n t. now = Some n \<and> r = Some t \<and> n < t"
  using assms retry_instant_later by (auto simp: optimalRetryTime_def)

lemma optimalRetryTime_defined:
  "now = None \<Longrightarrow> optimalRetryTime f now = Inl (RangeError ''Invalid time value'')"
  by (simp add: optimalRetryTime_def to_iso_string_def)

subsection \<open>The contract of a policy\<close>

text \<open>
  What the service and the scheduler rely on. Of every policy: a dead credential is never
  retried, a retry clears the recoverability floor, is scheduled strictly after the decision,
  and names a method the caller offered (\<open>dispatch_policy\<close>). Of the fixed policies also: a
  dead credential always gets comms, and a retry has positive expected value
  (\<open>retry_policy\<close>; a learning policy may explore at a loss).
\<close>

locale dispatch_policy =
  fixes decide :: "RecoveryFeatures \<Rightarrow> PolicyContext \<Rightarrow> js_error + RecoveryDecision"
  assumes dead_never_retried:
      "dead_credential (f_declineCode f) \<Longrightarrow> decide f ctx = Inr d \<Longrightarrow> rd_action d \<noteq> ActRetry"
    and retry_recoverable:
      "decide f ctx = Inr d \<Longrightarrow> rd_action d = ActRetry \<Longrightarrow>
         minRecoverabilityToRetry (coalesce (ctx_config ctx) DEFAULT_POLICY_CONFIG) \<le> rd_recoverabilityScore d"
    and retry_later:
      "decide f ctx = Inr d \<Longrightarrow> rd_action d = ActRetry \<Longrightarrow>
         \<exists>n t. ctx_now ctx = Some n \<and> rd_retryAt d = Some (Some t) \<and> n < t"
    and retry_method:
      "decide f ctx = Inr d \<Longrightarrow> rd_paymentMethodRef d = Some r \<Longrightarrow>
         \<exists>ms. ctx_methods ctx = Some ms \<and> r \<in> am_ref ` set ms"
    and no_retry_no_method:
      "decide f ctx = Inr d \<Longrightarrow> rd_action d \<noteq> ActRetry \<Longrightarrow> rd_retryAt d = None \<and> rd_paymentMethodRef d = None"
begin

lemma retry_not_hard: "decide f ctx = Inr d \<Longrightarrow> rd_action d = ActRetry \<Longrightarrow> familyOf (f_declineCode f) \<noteq> Hard"
  using dead_never_retried [of f ctx d] by (auto simp: dead_credential_def)

lemma retry_has_time: "decide f ctx = Inr d \<Longrightarrow> rd_action d = ActRetry \<longleftrightarrow> rd_retryAt d \<noteq> None"
  using retry_later [of f ctx d] no_retry_no_method [of f ctx d] by (cases "rd_action d = ActRetry") auto

text \<open>A bad clock can only surface as an error, never as a retry.\<close>

lemma bad_clock_no_retry: "ctx_now ctx = None \<Longrightarrow> decide f ctx = Inr d \<Longrightarrow> rd_action d \<noteq> ActRetry"
  using retry_later [of f ctx d] by auto

end

locale retry_policy = dispatch_policy +
  assumes dead_is_comms:
      "dead_credential (f_declineCode f) \<Longrightarrow> \<exists>d. decide f ctx = Inr d \<and> rd_action d = ActCardUpdateComms"
    and retry_pays: "decide f ctx = Inr d \<Longrightarrow> rd_action d = ActRetry \<Longrightarrow> 0 < rd_expectedValueMinor d"

interpretation heuristic_policy: retry_policy "heuristic_decide model" for model
  by unfold_locales
    (auto simp: heuristic_decide_def Let_def split: if_splits sum.splits
      dest!: selectMethod_member optimalRetryTime_later)

interpretation cost_aware_policy: retry_policy "cost_aware_decide model" for model
  by unfold_locales
    (auto simp: cost_aware_decide_def Let_def split: if_splits sum.splits
      dest!: selectMethod_member optimalRetryTime_later)

text \<open>
  Pressure from the network cap can only suppress: with more attempts used in the window a
  cost-aware decision never turns into a retry.
\<close>

lemma netValue_antimono:
  assumes "0 \<le> cm_fineExposureMinor cost" "coalesce (cc_fineRampStart c) 0.6 < 1"
    and "coalesce (cc_attemptsInNetworkWindow c) 0 \<le> n"
  shows "av_netValueMinor (retryNetValue s a cost (Some (c\<lparr>cc_attemptsInNetworkWindow := Some n\<rparr>)))
    \<le> av_netValueMinor (retryNetValue s a cost (Some c))"
  using fine_cost_mono [OF assms] by (simp add: retryNetValue_def Let_def)

lemma cost_aware_retry_iff:
  assumes "cost_aware_decide model f ctx = Inr d"
  shows "rd_action d = ActRetry \<longleftrightarrow>
    \<not> dead_credential (f_declineCode f) \<and>
    minRecoverabilityToRetry (coalesce (ctx_config ctx) DEFAULT_POLICY_CONFIG) \<le> model f \<and>
    0 < av_netValueMinor (retryNetValue (model f) (f_amountMinor f)
          (coalesce (ctx_cost ctx) DEFAULT_COST_MODEL) (ctx_compliance ctx))"
  using assms by (auto simp: cost_aware_decide_def Let_def split: if_splits sum.splits)

lemma cost_aware_total:
  "optimalRetryTime f (ctx_now ctx) = Inr t \<Longrightarrow> \<exists>d. cost_aware_decide model f ctx = Inr d"
  by (simp add: cost_aware_decide_def Let_def)

end
