(* ===== verification/RetrySequence.thy ===== *)
theory RetrySequence
  imports RetryPolicy
begin

text \<open>
  Whole schedules of \<open>packages/recovery-engine\<close>: \<open>planRetrySequence\<close> (\<open>sequence.ts\<close>), which
  walks the network-aware cadence and cuts a tail whose predicted recoverability is below the
  minScore, and \<open>planCredentialRecovery\<close> (\<open>credential-recovery.ts\<close>), which plans the account-updater
  probes, the backup rail and the dunning nudges of a dead credential. A timestamp out of
  range surfaces as the \<open>RangeError\<close> the date printing raises.
\<close>

subsection \<open>The retry sequence\<close>

record RetryStep =
  rs_attemptNumber :: int
  rs_at :: iso
  rs_action :: RecommendedAction
  rs_methodRef :: "string option"
  rs_expectedRecoverability :: real

record SequenceContext =
  sq_now :: iso
  sq_methods :: "AvailableMethod list option"
  sq_network :: "CardNetwork option"
  sq_minRecoverabilityToContinue :: "real option"

definition pickDefault :: "AvailableMethod list option \<Rightarrow> AvailableMethod option" where
  "pickDefault methods =
     (case methods of
        None \<Rightarrow> None
      | Some [] \<Rightarrow> None
      | Some (m0 # ms) \<Rightarrow>
          or_else (List.find (\<lambda>m. truthy (am_autoUpdated m)) (m0 # ms))
            (or_else (List.find (\<lambda>m. truthy (am_isDefault m)) (m0 # ms)) (Some m0)))"

definition pickAlternate :: "AvailableMethod list option \<Rightarrow> AvailableMethod option" where
  "pickAlternate methods =
     (case methods of
        None \<Rightarrow> None
      | Some [] \<Rightarrow> None
      | Some (m0 # ms) \<Rightarrow>
          or_else (List.find (\<lambda>m. \<not> truthy (am_isDefault m)) (m0 # ms))
            (List.find (\<lambda>m. truthy (am_autoUpdated m)) (m0 # ms)))"

text \<open>
  The loop: \<open>i\<close> is the index, \<open>cursor\<close> the running instant (\<open>None\<close> is \<open>NaN\<close>), \<open>delays\<close> the
  cadence still to walk. With an unparsable clock the day count is \<open>NaN\<close>, so is the score, and
  the comparison with the floor is false: the loop goes on to the date printing, which raises.
\<close>

fun walk_cadence ::
  "(RecoveryFeatures \<Rightarrow> real) \<Rightarrow> real \<Rightarrow> RecoveryFeatures \<Rightarrow> iso \<Rightarrow> nat option \<Rightarrow>
   AvailableMethod option \<Rightarrow> AvailableMethod option \<Rightarrow> nat \<Rightarrow> int \<Rightarrow> int list \<Rightarrow> js_error + RetryStep list" where
  "walk_cadence model minScore f now rot dflt alt i cursor [] = Inr []"
| "walk_cadence model minScore f now rot dflt alt i cursor (d # ds) =
     (let cursor' = cursor + d * ms_per_minute;
          attemptNumber = f_attemptNumber f + int i;
          daysSince = f_daysSinceFirstFail f + of_int (cursor' - coalesce now 0) / of_int ms_per_day;
          scored = model (f\<lparr>f_attemptNumber := attemptNumber, f_daysSinceFirstFail := daysSince\<rparr>)
      in if now \<noteq> None \<and> scored < minScore then Inr []
         else
           (let rotate = (case rot of None \<Rightarrow> False | Some r \<Rightarrow> r \<le> i);
                method = or_else (if rotate then alt else dflt) dflt
            in case to_iso_string (map_option (\<lambda>_. cursor') now) of
                 Inl e \<Rightarrow> Inl e
               | Inr t \<Rightarrow>
                   (case walk_cadence model minScore f now rot dflt alt (Suc i) cursor' ds of
                      Inl e \<Rightarrow> Inl e
                    | Inr rest \<Rightarrow>
                        Inr (\<lparr>rs_attemptNumber = attemptNumber, rs_at = t, rs_action = RecRetry,
                              rs_methodRef = map_option am_ref method,
                              rs_expectedRecoverability = scored\<rparr> # rest))))"

definition DEFAULT_MIN_RECOVERABILITY :: real where
  "DEFAULT_MIN_RECOVERABILITY = 0.04"

definition planRetrySequence ::
  "(RecoveryFeatures \<Rightarrow> real) \<Rightarrow> RecoveryFeatures \<Rightarrow> SequenceContext \<Rightarrow> js_error + RetryStep list" where
  "planRetrySequence model features ctx =
     (let minScore = coalesce (sq_minRecoverabilityToContinue ctx) DEFAULT_MIN_RECOVERABILITY;
          network = coalesce (sq_network ctx) OtherNetwork;
          classification = classifyDecline (f_declineCode features)
      in if cls_recommendedAction classification \<noteq> RecRetry then
           Inr [\<lparr>rs_attemptNumber = f_attemptNumber features, rs_at = sq_now ctx,
                 rs_action = cls_recommendedAction classification, rs_methodRef = None,
                 rs_expectedRecoverability = model features\<rparr>]
         else
           (let strategy = strategyFor (f_declineCode features) network in
            walk_cadence model minScore features (sq_now ctx) (str_rotateMethodAfterAttempt strategy)
              (pickDefault (sq_methods ctx)) (pickAlternate (sq_methods ctx)) 0
              (coalesce (sq_now ctx) 0) (str_delaysMinutes strategy)))"

text \<open>Facts about the loop, by induction on the cadence still to walk.\<close>

lemma walk_cadence_length:
  "walk_cadence model minScore f now rot dflt alt i cursor ds = Inr steps \<Longrightarrow> length steps \<le> length ds"
  by (induction model minScore f now rot dflt alt i cursor ds arbitrary: steps rule: walk_cadence.induct)
    (auto simp: Let_def split: if_splits sum.splits)

text \<open>One turn of the loop: it stops, or it pushes a step and goes on.\<close>

lemma walk_cadence_turn:
  assumes "walk_cadence model minScore f now rot dflt alt i cursor (d # ds) = Inr steps"
  obtains (stop) "steps = []"
  | (push) s rest n b where
      "steps = s # rest" "now = Some n"
      "walk_cadence model minScore f now rot dflt alt (Suc i) (cursor + d * ms_per_minute) ds = Inr rest"
      "rs_attemptNumber s = f_attemptNumber f + int i" "rs_at s = Some (cursor + d * ms_per_minute)"
      "rs_action s = RecRetry" "minScore \<le> rs_expectedRecoverability s"
      "rs_expectedRecoverability s = model (f\<lparr>f_attemptNumber := f_attemptNumber f + int i,
          f_daysSinceFirstFail := f_daysSinceFirstFail f +
            of_int (cursor + d * ms_per_minute - n) / of_int ms_per_day\<rparr>)"
      "rs_methodRef s = map_option am_ref (or_else (if b then alt else dflt) dflt)"
proof (cases now)
  case None
  then show ?thesis using assms by (simp add: Let_def to_iso_string_def)
next
  case (Some n)
  define c where "c = cursor + d * ms_per_minute"
  define b where "b = (case rot of None \<Rightarrow> False | Some r \<Rightarrow> r \<le> i)"
  define sc where "sc = model (f\<lparr>f_attemptNumber := f_attemptNumber f + int i,
      f_daysSinceFirstFail := f_daysSinceFirstFail f + of_int (c - n) / of_int ms_per_day\<rparr>)"
  have "steps = [] \<or> (\<exists>rest. minScore \<le> sc \<and>
      walk_cadence model minScore f now rot dflt alt (Suc i) c ds = Inr rest \<and>
      steps = \<lparr>rs_attemptNumber = f_attemptNumber f + int i, rs_at = Some c, rs_action = RecRetry,
        rs_methodRef = map_option am_ref (or_else (if b then alt else dflt) dflt),
        rs_expectedRecoverability = sc\<rparr> # rest)"
    using assms unfolding walk_cadence.simps Some Let_def
    by (auto simp: c_def [symmetric] b_def [symmetric] sc_def
        simp del: walk_cadence.simps of_int_diff split: if_split_asm sum.splits)
  then show ?thesis
    using Some by (auto simp: c_def sc_def intro: stop push)
qed

lemma walk_cadence_attempts:
  "walk_cadence model minScore f now rot dflt alt i cursor ds = Inr steps \<Longrightarrow>
     map rs_attemptNumber steps = map (\<lambda>k. f_attemptNumber f + int k) [i..<i + length steps]"
proof (induction ds arbitrary: i cursor steps)
  case Nil
  then show ?case by simp
next
  case (Cons d ds)
  from Cons.prems show ?case
  proof (cases rule: walk_cadence_turn)
    case stop
    then show ?thesis by simp
  next
    case (push s rest)
    have "[i..<i + length steps] = i # [Suc i..<Suc i + length rest]"
      using push(1) by (simp add: upt_conv_Cons del: upt_Suc)
    with push(1,4) Cons.IH [OF push(3)] show ?thesis by simp
  qed
qed

definition step_ok :: "(RecoveryFeatures \<Rightarrow> real) \<Rightarrow> real \<Rightarrow> RecoveryFeatures \<Rightarrow> AvailableMethod list option \<Rightarrow> RetryStep \<Rightarrow> bool" where
  "step_ok model minScore f methods s \<longleftrightarrow>
     rs_action s = RecRetry \<and> minScore \<le> rs_expectedRecoverability s \<and>
     (\<exists>d. rs_expectedRecoverability s =
        model (f\<lparr>f_attemptNumber := rs_attemptNumber s, f_daysSinceFirstFail := d\<rparr>)) \<and>
     (\<forall>r. rs_methodRef s = Some r \<longrightarrow> (\<exists>ms. methods = Some ms \<and> r \<in> am_ref ` set ms))"

lemma pickDefault_member: "pickDefault methods = Some m \<Longrightarrow> \<exists>ms. methods = Some ms \<and> m \<in> set ms"
  by (auto simp: pickDefault_def split: option.splits list.splits if_splits
      dest!: or_else_Some_cases find_Some_set)

lemma pickAlternate_member: "pickAlternate methods = Some m \<Longrightarrow> \<exists>ms. methods = Some ms \<and> m \<in> set ms"
  by (auto simp: pickAlternate_def split: option.splits list.splits if_splits
      dest!: or_else_Some_cases find_Some_set)

lemma walk_cadence_step_ok:
  assumes "walk_cadence model minScore f now rot (pickDefault ms) (pickAlternate ms) i cursor ds = Inr steps"
    and "s \<in> set steps"
  shows "step_ok model minScore f ms s"
  using assms
proof (induction ds arbitrary: i cursor steps)
  case Nil
  then show ?case by simp
next
  case (Cons d ds)
  have sel: "or_else (if b then pickAlternate ms else pickDefault ms) (pickDefault ms) = Some m \<Longrightarrow>
      \<exists>xs. ms = Some xs \<and> m \<in> set xs" for b m
    by (cases b) (auto dest!: or_else_Some_cases pickDefault_member pickAlternate_member)
  from Cons.prems(1) show ?case
  proof (cases rule: walk_cadence_turn)
    case stop
    with Cons.prems(2) show ?thesis by simp
  next
    case (push s' rest n b)
    have "step_ok model minScore f ms s'"
      unfolding step_ok_def using push(4,6-8) sel [of b] unfolding push(9) by auto
    with Cons.IH [OF push(3)] Cons.prems(2) push(1) show ?thesis by auto
  qed
qed

text \<open>The instants of a schedule: strictly increasing, all after the decision.\<close>

lemma walk_cadence_times:
  assumes "walk_cadence model minScore f now rot dflt alt i cursor ds = Inr steps"
    and "\<forall>d\<in>set ds. 0 < d"
  shows "\<exists>ts. map rs_at steps = map Some ts \<and> sorted_wrt (<) ts \<and> (\<forall>t\<in>set ts. cursor < t)"
  using assms
proof (induction ds arbitrary: i cursor steps)
  case Nil
  then show ?case by simp
next
  case (Cons d ds)
  let ?c = "cursor + d * ms_per_minute"
  from Cons.prems(1) show ?case
  proof (cases rule: walk_cadence_turn)
    case stop
    then show ?thesis by simp
  next
    case (push s rest)
    from Cons.IH [OF push(3)] Cons.prems(2) obtain ts where
      ts: "map rs_at rest = map Some ts" "sorted_wrt (<) ts" "\<forall>t\<in>set ts. ?c < t"
      by auto
    have "cursor < ?c" using Cons.prems(2) by simp
    with ts push(1,5) have "map rs_at steps = map Some (?c # ts)" "sorted_wrt (<) (?c # ts)"
      "\<forall>t\<in>set (?c # ts). cursor < t"
      by auto
    then show ?thesis by blast
  qed
qed

lemma walk_cadence_bad_clock:
  "walk_cadence model minScore f None rot dflt alt i cursor (d # ds) = Inl (RangeError ''Invalid time value'')"
  by (simp add: Let_def to_iso_string_def)

lemmas plan_sequence_defs = planRetrySequence_def strategy_length recommend_retry_iff

lemma planRetrySequence_terminal:
  assumes "\<not> isRetriable (f_declineCode f)"
  shows "\<exists>s. planRetrySequence model f ctx = Inr [s] \<and> rs_action s \<noteq> RecRetry
     \<and> (rs_action s = RecSuppress \<longleftrightarrow> f_declineCode f = Fraudulent)"
  using assms recommend_retry_iff [of "f_declineCode f"] recommend_suppress_iff [of "f_declineCode f"]
  by (simp add: planRetrySequence_def Let_def)

lemma planRetrySequence_retriable:
  assumes "isRetriable (f_declineCode f)"
  shows "planRetrySequence model f ctx =
     (let strategy = strategyFor (f_declineCode f) (coalesce (sq_network ctx) OtherNetwork) in
      walk_cadence model (coalesce (sq_minRecoverabilityToContinue ctx) DEFAULT_MIN_RECOVERABILITY) f
        (sq_now ctx) (str_rotateMethodAfterAttempt strategy)
        (pickDefault (sq_methods ctx)) (pickAlternate (sq_methods ctx)) 0
        (coalesce (sq_now ctx) 0) (str_delaysMinutes strategy))"
  using assms recommend_retry_iff [of "f_declineCode f"] by (simp add: planRetrySequence_def Let_def)

subsection \<open>Credential recovery\<close>

datatype CredentialAction = CardRefresh | AlternateRail | Dunning

record CredentialStep =
  cs_at :: int
  cs_action :: CredentialAction
  cs_methodRef :: "string option"

definition isCredentialProblem :: "DeclineCode \<Rightarrow> bool" where
  "isCredentialProblem code =
     (let cls = classifyDecline code in
      if cls_family cls = Hard \<and> cls_recommendedAction cls = RecSuppress then False
      else cls_recommendedAction cls = RecCardUpdate)"

definition iso_days :: "int option \<Rightarrow> int \<Rightarrow> js_error + int" where
  "iso_days base days =
     (case to_iso_string (map_option (\<lambda>b. b + days * ms_per_day) base) of
        Inr (Some t) \<Rightarrow> Inr t
      | Inr None \<Rightarrow> Inl (RangeError ''Invalid time value'')
      | Inl e \<Rightarrow> Inl e)"

text \<open>The steps in the order they are pushed, each with its day offset.\<close>

definition credential_pushes :: "DeclineFamily \<Rightarrow> string option \<Rightarrow> (int \<times> CredentialAction \<times> string option) list" where
  "credential_pushes family alternateRef =
     [(1, AlternateRail, alternateRef)]
     @ map (\<lambda>d. (d, CardRefresh, None)) (if family = Hard then [3, 21] else [2, 10, 21, 31])
     @ [(3, Dunning, None), (15, Dunning, None)]"

fun push_steps :: "int option \<Rightarrow> (int \<times> CredentialAction \<times> string option) list \<Rightarrow> js_error + CredentialStep list" where
  "push_steps base [] = Inr []"
| "push_steps base ((d, a, r) # ps) =
     (case iso_days base d of
        Inl e \<Rightarrow> Inl e
      | Inr t \<Rightarrow>
          (case push_steps base ps of
             Inl e \<Rightarrow> Inl e
           | Inr steps \<Rightarrow> Inr (\<lparr>cs_at = t, cs_action = a, cs_methodRef = r\<rparr> # steps)))"

definition planCredentialRecovery ::
  "RecoveryFeatures \<Rightarrow> iso \<Rightarrow> AvailableMethod list \<Rightarrow> js_error + CredentialStep list" where
  "planCredentialRecovery features now methods =
     (if \<not> isCredentialProblem (f_declineCode features) then Inr []
      else
        (let alternate = List.find (\<lambda>m. \<not> truthy (am_isDefault m)) methods;
             family = familyOf (f_declineCode features)
         in case push_steps now (credential_pushes family (map_option am_ref alternate)) of
              Inl e \<Rightarrow> Inl e
            | Inr steps \<Rightarrow> Inr (sort_key cs_at steps)))"

lemma isCredentialProblem_iff:
  "isCredentialProblem c \<longleftrightarrow> familyOf c = Hard \<or> c = ExpiredCard"
  by (auto simp: isCredentialProblem_def classifyDecline_def Let_def)

text \<open>Every decline has exactly one route: a retry, a fresh credential, or nothing (fraud).\<close>

lemma decline_routes:
  "(isRetriable c \<and> \<not> isCredentialProblem c \<and> c \<noteq> Fraudulent) \<or>
   (\<not> isRetriable c \<and> isCredentialProblem c \<and> c \<noteq> Fraudulent) \<or>
   (\<not> isRetriable c \<and> \<not> isCredentialProblem c \<and> c = Fraudulent)"
  by (auto simp: isRetriable_iff isCredentialProblem_iff)

lemma push_steps_map:
  "push_steps (Some n) ps = Inr steps \<Longrightarrow>
   steps = map (\<lambda>(d, a, r). \<lparr>cs_at = n + d * ms_per_day, cs_action = a, cs_methodRef = r\<rparr>) ps"
  by (induction ps arbitrary: steps)
    (auto simp: iso_days_def split: sum.splits option.splits)

lemma push_steps_total:
  assumes "\<forall>(d, a, r)\<in>set ps. \<bar>n + d * ms_per_day\<bar> \<le> max_time_ms"
  shows "\<exists>steps. push_steps (Some n) ps = Inr steps"
  using assms by (induction ps) (auto simp: iso_days_def to_iso_string_def split: sum.splits)

end
