(* ===== verification/Scheduler.thy ===== *)
theory Scheduler
  imports Effects RetrySequence
begin

text \<open>
  The recovery sagas of \<open>packages/scheduler\<close>: the pure decisions (\<open>saga.ts\<close>), the adaptive
  driver (\<open>driver.ts\<close>), the sequence driver (\<open>sequenced-driver.ts\<close>) and the virtual-clock
  runtime (\<open>runtime.ts\<close>). The port to the recovery-case service and the host runtime are
  arguments, as they are injected in the source: a port is a record of operations on the
  service's world \<open>'w\<close>, a runtime a record of operations on the host's state \<open>'r\<close>.
\<close>

subsection \<open>Types\<close>

record AttemptInput =
  ai_invoice :: Invoice
  ai_method :: PaymentMethod
  ai_decline :: "DeclineEvent option"
  ai_attemptNumber :: int
  ai_localHour :: "int option"
  ai_minutesSinceLastAttempt :: "int option"
  ai_customer :: "Customer option"
  ai_nowIso :: "iso option"

datatype ExecutedAction = Charged | Shadowed | GuardrailSuppressed | EngineSuppressed | CardUpdateComms

datatype ChargeOutcome = Succeeded | Failed | Pending

record ExecuteResult =
  er_action :: ExecutedAction
  er_outcome :: "ChargeOutcome option"
  er_decision :: RecoveryDecision

datatype StopReason =
  StRecovered | StExhausted | StEngineSuppressed | StGuardrailSuppressed | StCardUpdateComms
| StShadowComplete | StPendingHandoff

record 'w RecoveryCasePort =
  port_plan :: "AttemptInput \<Rightarrow> ('w, RecoveryDecision) eff"
  port_execute :: "AttemptInput \<Rightarrow> ('w, ExecuteResult) eff"
  port_planSequence :: "(AttemptInput \<Rightarrow> ('w, RetryStep list) eff) option"

text \<open>The kind of a timeline event is the constructor of its detail.\<close>

datatype SagaDetail =
  EvPlanned RecoveryActionKind "iso option"
| EvPlannedSteps nat
| EvSlept iso
| EvSleptStep iso "string option"
| EvExecuted ExecutedAction "ChargeOutcome option"
| EvAwaitingSettlement iso
| EvStopped StopReason

record SagaEvent =
  se_at :: iso
  se_attemptNumber :: int
  se_detail :: SagaDetail

record RecoverySagaResult =
  sr_status :: StopReason
  sr_attempts :: int
  sr_timeline :: "SagaEvent list"

record SchedulerConfig =
  maxAttempts :: int
  settlementWindowMinutes :: int
  fallbackBackoffMinutes :: int

definition DEFAULT_SCHEDULER_CONFIG :: SchedulerConfig where
  "DEFAULT_SCHEDULER_CONFIG =
     \<lparr>maxAttempts = 8, settlementWindowMinutes = 60, fallbackBackoffMinutes = 60\<rparr>"

subsection \<open>The pure decisions\<close>

datatype PlanStep = SleepThenExecute iso | ExecuteNow | PlanStop StopReason

datatype PostExecuteStep = PostRetry int | AwaitSettlement | PostStop StopReason

definition futureTime :: "iso option \<Rightarrow> iso \<Rightarrow> int \<Rightarrow> js_error + iso option" where
  "futureTime retryAt now fallbackMinutes =
     (case retryAt of
        Some (Some t) \<Rightarrow>
          (case now of
             Some n \<Rightarrow> if n < t then (case to_iso_string (Some t) of Inl e \<Rightarrow> Inl e | Inr s \<Rightarrow> Inr (Some s))
                       else Inr None
           | None \<Rightarrow> Inr None)
      | _ \<Rightarrow>
          (case to_iso_string (map_option (\<lambda>n. n + fallbackMinutes * ms_per_minute) now) of
             Inl e \<Rightarrow> Inl e
           | Inr s \<Rightarrow> Inr (Some s)))"

definition addMinutes :: "iso \<Rightarrow> int \<Rightarrow> js_error + iso" where
  "addMinutes t minutes = to_iso_string (map_option (\<lambda>n. n + minutes * ms_per_minute) t)"

definition planStep :: "RecoveryDecision \<Rightarrow> iso \<Rightarrow> SchedulerConfig \<Rightarrow> js_error + PlanStep" where
  "planStep decision now config =
     (if rd_action decision = ActCardUpdateComms then Inr (PlanStop StCardUpdateComms)
      else if rd_action decision = ActSuppress then Inr (PlanStop StEngineSuppressed)
      else
        (case futureTime (rd_retryAt decision) now (fallbackBackoffMinutes config) of
           Inl e \<Rightarrow> Inl e
         | Inr None \<Rightarrow> Inr ExecuteNow
         | Inr (Some target) \<Rightarrow> Inr (SleepThenExecute target)))"

definition postExecuteStep :: "ExecuteResult \<Rightarrow> int \<Rightarrow> SchedulerConfig \<Rightarrow> PostExecuteStep" where
  "postExecuteStep result attemptNumber config =
     (case er_action result of
        Shadowed \<Rightarrow> PostStop StShadowComplete
      | EngineSuppressed \<Rightarrow> PostStop StEngineSuppressed
      | GuardrailSuppressed \<Rightarrow> PostStop StGuardrailSuppressed
      | CardUpdateComms \<Rightarrow> PostStop StCardUpdateComms
      | Charged \<Rightarrow>
          if er_outcome result = Some Succeeded then PostStop StRecovered
          else if er_outcome result = Some Pending then AwaitSettlement
          else
            (let next = attemptNumber + 1 in
             if maxAttempts config < next then PostStop StExhausted else PostRetry next))"

subsection \<open>The runtime\<close>

record 'r SchedulerRuntime =
  rt_now :: "'r \<Rightarrow> js_error + iso"
  rt_sleepUntil :: "iso \<Rightarrow> ('r, unit) eff"

record InMemoryRuntime =
  imr_clock :: "int option"
  imr_sleeps :: "(iso \<times> iso) list"

definition new_InMemoryRuntime :: "iso \<Rightarrow> InMemoryRuntime" where
  "new_InMemoryRuntime startIso = \<lparr>imr_clock = startIso, imr_sleeps = []\<rparr>"

definition imr_now :: "InMemoryRuntime \<Rightarrow> js_error + iso" where
  "imr_now r = to_iso_string (imr_clock r)"

definition imr_sleepUntil :: "iso \<Rightarrow> (InMemoryRuntime, unit) eff" where
  "imr_sleepUntil t = (\<lambda>r.
     case (t, imr_clock r) of
       (Some target, Some clock) \<Rightarrow>
         if clock < target then
           (case (to_iso_string (Some clock), to_iso_string (Some target)) of
              (Inr a, Inr b) \<Rightarrow> (Inr (), r\<lparr>imr_sleeps := imr_sleeps r @ [(a, b)], imr_clock := Some target\<rparr>)
            | (Inl e, _) \<Rightarrow> (Inl e, r)
            | (_, Inl e) \<Rightarrow> (Inl e, r))
         else (Inr (), r)
     | _ \<Rightarrow> (Inr (), r))"

definition inMemoryRuntime :: "InMemoryRuntime SchedulerRuntime" where
  "inMemoryRuntime = \<lparr>rt_now = imr_now, rt_sleepUntil = imr_sleepUntil\<rparr>"

subsection \<open>The drivers\<close>

record ('w, 'r) saga =
  sg_world :: 'w
  sg_rt :: 'r
  sg_timeline :: "SagaEvent list"

definition on_world :: "('w, 'a) eff \<Rightarrow> (('w, 'r) saga, 'a) eff" where
  "on_world m = zoom sg_world (\<lambda>w s. s\<lparr>sg_world := w\<rparr>) m"

definition on_rt :: "('r, 'a) eff \<Rightarrow> (('w, 'r) saga, 'a) eff" where
  "on_rt m = zoom sg_rt (\<lambda>r s. s\<lparr>sg_rt := r\<rparr>) m"

definition now' :: "'r SchedulerRuntime \<Rightarrow> (('w, 'r) saga, iso) eff" where
  "now' rt = (\<lambda>s. (rt_now rt (sg_rt s), s))"

definition record_event :: "'r SchedulerRuntime \<Rightarrow> int \<Rightarrow> SagaDetail \<Rightarrow> (('w, 'r) saga, unit) eff" where
  "record_event rt attemptNumber detail =
     andThen (now' rt) (\<lambda>t. modify (\<lambda>s. s\<lparr>sg_timeline := sg_timeline s @
       [\<lparr>se_at = t, se_attemptNumber = attemptNumber, se_detail = detail\<rparr>]\<rparr>))"

definition stop_saga :: "'r SchedulerRuntime \<Rightarrow> StopReason \<Rightarrow> int \<Rightarrow> (('w, 'r) saga, RecoverySagaResult) eff" where
  "stop_saga rt reason attemptNumber =
     andThen (record_event rt attemptNumber (EvStopped reason)) (\<lambda>_.
       gets (\<lambda>s. \<lparr>sr_status = reason, sr_attempts = attemptNumber, sr_timeline = sg_timeline s\<rparr>))"

definition sleep_until :: "'r SchedulerRuntime \<Rightarrow> iso \<Rightarrow> (('w, 'r) saga, unit) eff" where
  "sleep_until rt t = on_rt (rt_sleepUntil rt t)"

text \<open>Waiting for an in-flight charge, then handing off to the webhook stream.\<close>

definition await_settlement ::
  "'r SchedulerRuntime \<Rightarrow> SchedulerConfig \<Rightarrow> int \<Rightarrow> (('w, 'r) saga, RecoverySagaResult) eff" where
  "await_settlement rt config attemptNumber =
     andThen (now' rt) (\<lambda>t.
     andThen (lift_sum (addMinutes t (settlementWindowMinutes config))) (\<lambda>until.
     andThen (sleep_until rt until) (\<lambda>_.
     andThen (record_event rt attemptNumber (EvAwaitingSettlement until)) (\<lambda>_.
       stop_saga rt StPendingHandoff attemptNumber))))"

definition execute_attempt ::
  "'w RecoveryCasePort \<Rightarrow> 'r SchedulerRuntime \<Rightarrow> AttemptInput \<Rightarrow> (('w, 'r) saga, ExecuteResult) eff" where
  "execute_attempt port rt attempt =
     andThen (now' rt) (\<lambda>t.
     andThen (on_world (port_execute port (attempt\<lparr>ai_nowIso := Some t\<rparr>))) (\<lambda>result.
     andThen (record_event rt (ai_attemptNumber attempt) (EvExecuted (er_action result) (er_outcome result))) (\<lambda>_.
       ok result)))"

text \<open>One turn of the adaptive driver's loop: a final result, or the next attempt number.\<close>

definition execute_and_decide ::
  "'w RecoveryCasePort \<Rightarrow> 'r SchedulerRuntime \<Rightarrow> AttemptInput \<Rightarrow> SchedulerConfig \<Rightarrow>
   (('w, 'r) saga, RecoverySagaResult + int) eff" where
  "execute_and_decide port rt attempt config =
     andThen (execute_attempt port rt attempt) (\<lambda>result.
       (case postExecuteStep result (ai_attemptNumber attempt) config of
          PostStop reason \<Rightarrow> andThen (stop_saga rt reason (ai_attemptNumber attempt)) (\<lambda>r. ok (Inl r))
        | AwaitSettlement \<Rightarrow> andThen (await_settlement rt config (ai_attemptNumber attempt)) (\<lambda>r. ok (Inl r))
        | PostRetry n \<Rightarrow> ok (Inr n)))"

definition saga_turn ::
  "'w RecoveryCasePort \<Rightarrow> 'r SchedulerRuntime \<Rightarrow> AttemptInput \<Rightarrow> SchedulerConfig \<Rightarrow> int \<Rightarrow>
   (('w, 'r) saga, RecoverySagaResult + int) eff" where
  "saga_turn port rt input config attemptNumber =
     (let attempt = input\<lparr>ai_attemptNumber := attemptNumber\<rparr> in
      andThen (on_world (port_plan port attempt)) (\<lambda>decision.
      andThen (record_event rt attemptNumber (EvPlanned (rd_action decision) (rd_retryAt decision))) (\<lambda>_.
      andThen (now' rt) (\<lambda>t.
      andThen (lift_sum (planStep decision t config)) (\<lambda>step.
        (case step of
           PlanStop reason \<Rightarrow> andThen (stop_saga rt reason attemptNumber) (\<lambda>r. ok (Inl r))
         | SleepThenExecute until \<Rightarrow>
             andThen (sleep_until rt until) (\<lambda>_.
             andThen (record_event rt attemptNumber (EvSlept until)) (\<lambda>_.
               execute_and_decide port rt attempt config))
         | ExecuteNow \<Rightarrow> execute_and_decide port rt attempt config))))))"

fun saga_loop ::
  "'w RecoveryCasePort \<Rightarrow> 'r SchedulerRuntime \<Rightarrow> AttemptInput \<Rightarrow> SchedulerConfig \<Rightarrow> nat \<Rightarrow> int \<Rightarrow>
   (('w, 'r) saga, RecoverySagaResult) eff" where
  "saga_loop port rt input config 0 attemptNumber = stop_saga rt StExhausted attemptNumber"
| "saga_loop port rt input config (Suc guard) attemptNumber =
     andThen (saga_turn port rt input config attemptNumber) (\<lambda>r.
       case r of Inl result \<Rightarrow> ok result | Inr n \<Rightarrow> saga_loop port rt input config guard n)"

text \<open>The loop runs for \<open>guard = 0 .. maxAttempts + 1\<close>.\<close>

definition runRecoverySaga ::
  "'w RecoveryCasePort \<Rightarrow> 'r SchedulerRuntime \<Rightarrow> AttemptInput \<Rightarrow> SchedulerConfig \<Rightarrow>
   (('w, 'r) saga, RecoverySagaResult) eff" where
  "runRecoverySaga port rt input config = saga_loop port rt input config (nat (maxAttempts config + 2)) 1"

fun sequence_loop ::
  "'w RecoveryCasePort \<Rightarrow> 'r SchedulerRuntime \<Rightarrow> AttemptInput \<Rightarrow> SchedulerConfig \<Rightarrow> int \<Rightarrow> RetryStep list \<Rightarrow>
   (('w, 'r) saga, RecoverySagaResult) eff" where
  "sequence_loop port rt input config lastAttempt [] = stop_saga rt StExhausted lastAttempt"
| "sequence_loop port rt input config lastAttempt (step # steps) =
     (let n = rs_attemptNumber step in
      if rs_action step \<noteq> RecRetry then
        stop_saga rt (if rs_action step = RecCardUpdate then StCardUpdateComms else StEngineSuppressed) n
      else
        andThen (sleep_until rt (rs_at step)) (\<lambda>_.
        andThen (record_event rt n (EvSleptStep (rs_at step) (rs_methodRef step))) (\<lambda>_.
        andThen (execute_attempt port rt (input\<lparr>ai_attemptNumber := n\<rparr>)) (\<lambda>result.
          (case er_action result of
             Shadowed \<Rightarrow> stop_saga rt StShadowComplete n
           | GuardrailSuppressed \<Rightarrow> stop_saga rt StGuardrailSuppressed n
           | EngineSuppressed \<Rightarrow> stop_saga rt StEngineSuppressed n
           | CardUpdateComms \<Rightarrow> stop_saga rt StCardUpdateComms n
           | Charged \<Rightarrow>
               if er_outcome result = Some Succeeded then stop_saga rt StRecovered n
               else if er_outcome result = Some Pending then await_settlement rt config n
               else sequence_loop port rt input config n steps)))))"

definition runSequencedRecoverySaga ::
  "'w RecoveryCasePort \<Rightarrow> 'r SchedulerRuntime \<Rightarrow> AttemptInput \<Rightarrow> SchedulerConfig \<Rightarrow>
   (('w, 'r) saga, RecoverySagaResult) eff" where
  "runSequencedRecoverySaga port rt input config =
     (case port_planSequence port of
        None \<Rightarrow> throw (JsError ''runSequencedRecoverySaga: port does not implement planSequence.'')
      | Some planSequence \<Rightarrow>
          andThen (on_world (planSequence (input\<lparr>ai_attemptNumber := 1\<rparr>))) (\<lambda>steps.
          andThen (record_event rt 1 (EvPlannedSteps (length steps))) (\<lambda>_.
            if steps = [] then stop_saga rt StEngineSuppressed 1
            else sequence_loop port rt input config 1 steps)))"

end
