(* ===== verification/SagaSafety.thy ===== *)
theory SagaSafety
  imports Scheduler "HOL-Library.Sublist"
begin

text \<open>
  What the sagas guarantee of the charges they ask for, for every port and every runtime: the
  execute calls carry the attempt numbers 1, 2, 3, ... without a gap, there are at most
  \<open>maxAttempts\<close> of them, and none follows a charge that succeeded or is in flight. The calls
  are observed by a port that logs them.
\<close>

subsection \<open>Observing the port\<close>

type_synonym call = "int \<times> (js_error + ExecuteResult)"

definition logged_port :: "'w RecoveryCasePort \<Rightarrow> ('w \<times> call list) RecoveryCasePort" where
  "logged_port port =
     \<lparr>port_plan = (\<lambda>i (w, log). case port_plan port i w of (r, w') \<Rightarrow> (r, (w', log))),
      port_execute = (\<lambda>i (w, log). case port_execute port i w of
         (r, w') \<Rightarrow> (r, (w', log @ [(ai_attemptNumber i, r)]))),
      port_planSequence = map_option (\<lambda>f i (w, log). case f i w of (r, w') \<Rightarrow> (r, (w', log)))
         (port_planSequence port)\<rparr>"

definition calls :: "('w \<times> call list, 'r) saga \<Rightarrow> call list" where
  "calls s = snd (sg_world s)"

definition failed_charge :: "js_error + ExecuteResult \<Rightarrow> bool" where
  "failed_charge r = (case r of
     Inl _ \<Rightarrow> False
   | Inr x \<Rightarrow> er_action x = Charged \<and> er_outcome x \<noteq> Some Succeeded \<and> er_outcome x \<noteq> Some Pending)"

definition charged_with :: "ChargeOutcome \<Rightarrow> js_error + ExecuteResult \<Rightarrow> bool" where
  "charged_with out r = (case r of Inl _ \<Rightarrow> False | Inr x \<Rightarrow> er_action x = Charged \<and> er_outcome x = Some out)"

text \<open>The calls before attempt \<open>n\<close>, all failed charges; and those once attempt \<open>n\<close> may be made.\<close>

definition before :: "int \<Rightarrow> call list \<Rightarrow> bool" where
  "before n cs \<longleftrightarrow> map fst cs = [1..n - 1] \<and> (\<forall>c\<in>set cs. failed_charge (snd c))"

definition upto_attempt :: "int \<Rightarrow> call list \<Rightarrow> bool" where
  "upto_attempt n cs \<longleftrightarrow> before n cs \<or> (\<exists>cs0 r. cs = cs0 @ [(n, r)] \<and> before n cs0)"

lemma before_Suc:
  assumes "before n cs" "failed_charge r" "1 \<le> n"
  shows "before (n + 1) (cs @ [(n, r)])"
  using assms by (auto simp: before_def upto_rec2)

lemma upto_attemptI1: "before n cs \<Longrightarrow> upto_attempt n cs"
  by (simp add: upto_attempt_def)

lemma upto_attemptI2: "before n cs \<Longrightarrow> upto_attempt n (cs @ [(n, r)])"
  by (auto simp: upto_attempt_def)

subsection \<open>Operations that leave the port's world alone\<close>

definition keeps_world :: "(('w, 'r) saga, 'a) eff \<Rightarrow> bool" where
  "keeps_world m \<longleftrightarrow> (\<forall>s. sg_world (snd (m s)) = sg_world s)"

lemma keeps_now [simp]: "keeps_world (now' rt)"
  by (simp add: keeps_world_def now'_def)

lemma keeps_rt [simp]: "keeps_world (on_rt m)"
  by (simp add: keeps_world_def on_rt_def zoom_def split: prod.split)

lemma keeps_lift_sum [simp]: "keeps_world (lift_sum r)"
  by (simp add: keeps_world_def lift_sum_def)

lemma keeps_gets [simp]: "keeps_world (gets f)"
  by (simp add: keeps_world_def gets_def)

lemma keeps_andThen:
  assumes "keeps_world m" "\<And>a. keeps_world (f a)"
  shows "keeps_world (andThen m f)"
proof -
  have "sg_world (snd (andThen m f s)) = sg_world s" for s
  proof (cases "m s")
    case (Pair r s')
    with assms(1) have "sg_world s' = sg_world s" by (auto simp: keeps_world_def dest: spec [of _ s])
    with Pair assms(2) show ?thesis
      by (cases r) (auto simp: andThen_def keeps_world_def)
  qed
  then show ?thesis by (simp add: keeps_world_def)
qed

lemma keeps_push [simp]: "keeps_world (modify (\<lambda>s. s\<lparr>sg_timeline := f s\<rparr>))"
  by (simp add: keeps_world_def modify_def)

lemma keeps_record [simp]: "keeps_world (record_event rt n d)"
  unfolding record_event_def by (rule keeps_andThen) simp_all

lemma keeps_sleep [simp]: "keeps_world (sleep_until rt t)"
  by (simp add: sleep_until_def)

lemma triple_keeps:
  assumes "keeps_world m"
  shows "triple (\<lambda>s. P (calls s)) m (\<lambda>_ s. P (calls s)) (\<lambda>s. P (calls s))"
proof (rule tripleI)
  fix s a s' assume p: "P (calls s)" and m: "m s = (Inr a, s')"
  from assms have "sg_world (snd (m s)) = sg_world s" unfolding keeps_world_def by blast
  with p m show "P (calls s')" by (simp add: calls_def)
next
  fix s e s' assume p: "P (calls s)" and m: "m s = (Inl e, s')"
  from assms have "sg_world (snd (m s)) = sg_world s" unfolding keeps_world_def by blast
  with p m show "P (calls s')" by (simp add: calls_def)
qed

lemma triple_plan:
  "triple (\<lambda>s. P (calls s)) (on_world (port_plan (logged_port port) i))
     (\<lambda>_ s. P (calls s)) (\<lambda>s. P (calls s))"
  by (rule tripleI)
    (auto simp: on_world_def zoom_def logged_port_def calls_def split: prod.splits)

lemma triple_planSequence:
  assumes "port_planSequence (logged_port port) = Some f"
  shows "triple (\<lambda>s. P (calls s)) (on_world (f i)) (\<lambda>_ s. P (calls s)) (\<lambda>s. P (calls s))"
  using assms
  by (intro tripleI) (auto simp: on_world_def zoom_def logged_port_def calls_def split: prod.splits)

lemma triple_execute:
  "triple (\<lambda>s. P (calls s)) (on_world (port_execute (logged_port port) i))
     (\<lambda>x s. \<exists>cs. P cs \<and> calls s = cs @ [(ai_attemptNumber i, Inr x)])
     (\<lambda>s. \<exists>cs e. P cs \<and> calls s = cs @ [(ai_attemptNumber i, Inl e)])"
  by (rule tripleI)
    (auto simp: on_world_def zoom_def logged_port_def calls_def split: prod.splits)

lemma triple_stop:
  "triple (\<lambda>s. P (calls s)) (stop_saga rt reason n)
     (\<lambda>res s. P (calls s) \<and> sr_status res = reason \<and> sr_attempts res = n) (\<lambda>s. P (calls s))"
  unfolding stop_saga_def
  by (rule triple_andThen [OF triple_keeps]) (auto intro: triple_gets)

lemma triple_await:
  "triple (\<lambda>s. P (calls s)) (await_settlement rt config n)
     (\<lambda>res s. P (calls s) \<and> sr_status res = StPendingHandoff \<and> sr_attempts res = n) (\<lambda>s. P (calls s))"
  unfolding await_settlement_def
  by (intro triple_andThen [OF triple_keeps] triple_stop) simp_all

lemma triple_execute_attempt:
  "triple (\<lambda>s. P (calls s)) (execute_attempt (logged_port port) rt i)
     (\<lambda>x s. \<exists>cs. P cs \<and> calls s = cs @ [(ai_attemptNumber i, Inr x)])
     (\<lambda>s. \<exists>cs. P cs \<and> (calls s = cs \<or> (\<exists>r. calls s = cs @ [(ai_attemptNumber i, r)])))"
proof -
  let ?Q = "\<lambda>x cs'. \<exists>cs. P cs \<and> cs' = cs @ [(ai_attemptNumber i, Inr x)]"
  let ?E = "\<lambda>s. \<exists>cs. P cs \<and> (calls s = cs \<or> (\<exists>r. calls s = cs @ [(ai_attemptNumber i, r)]))"
  have 1: "triple (\<lambda>s. P (calls s)) (now' rt) (\<lambda>_ s. P (calls s)) ?E"
    by (rule triple_weaken [OF triple_keeps [of "now' rt" P]]) auto
  have 2: "triple (\<lambda>s. P (calls s)) (on_world (port_execute (logged_port port) (i\<lparr>ai_nowIso := t\<rparr>)))
      (\<lambda>x s. ?Q x (calls s)) ?E" for t
    by (rule triple_weaken [OF triple_execute [of P]]) auto
  have 3: "triple (\<lambda>s. ?Q x (calls s)) (record_event rt n d) (\<lambda>_ s. ?Q x (calls s)) ?E" for x n d
    by (rule triple_weaken [OF triple_keeps [of _ "?Q x"]]) auto
  show ?thesis
    unfolding execute_attempt_def
    by (intro triple_andThen [OF 1] triple_andThen [OF 2] triple_andThen [OF 3] triple_ok)
qed

subsection \<open>The adaptive saga\<close>

text \<open>How a final result relates to the calls made.\<close>

definition result_matches :: "SchedulerConfig \<Rightarrow> RecoverySagaResult \<Rightarrow> call list \<Rightarrow> bool" where
  "result_matches config res cs \<longleftrightarrow>
     upto_attempt (sr_attempts res) cs \<and>
     (sr_status res = StRecovered \<longleftrightarrow> (\<exists>cs0 r. cs = cs0 @ [r] \<and> charged_with Succeeded (snd r))) \<and>
     (sr_status res = StPendingHandoff \<longleftrightarrow> (\<exists>cs0 r. cs = cs0 @ [r] \<and> charged_with Pending (snd r))) \<and>
     (sr_status res = StExhausted \<longrightarrow>
        maxAttempts config \<le> sr_attempts res \<and> before (sr_attempts res + 1) cs)"

lemma before_last_failed: "before n (cs @ [c]) \<Longrightarrow> failed_charge (snd c)"
  by (simp add: before_def)

lemma charged_not_failed: "charged_with out r \<Longrightarrow> out \<noteq> Failed \<Longrightarrow> \<not> failed_charge r"
  by (cases out) (auto simp: charged_with_def failed_charge_def split: sum.splits)

lemma result_matches_early:
  assumes "before n cs" "sr_attempts res = n" "sr_status res \<notin> {StRecovered, StPendingHandoff, StExhausted}"
  shows "result_matches config res cs"
proof -
  have "\<not> (\<exists>cs0 r. cs = cs0 @ [r] \<and> charged_with out (snd r))" if "out \<noteq> Failed" for out
    using assms(1) that before_last_failed charged_not_failed by blast
  then show ?thesis
    using assms upto_attemptI1 by (auto simp: result_matches_def)
qed

text \<open>What follows an executed attempt, by what the execution returned.\<close>

lemma post_stop_matches:
  assumes "before n cs" "1 \<le> n" "postExecuteStep x n config = PostStop reason"
    and "sr_status res = reason" "sr_attempts res = n"
  shows "result_matches config res (cs @ [(n, Inr x)])"
  using assms upto_attemptI2 before_Suc [of n cs "Inr x"]
  by (auto simp: result_matches_def postExecuteStep_def charged_with_def failed_charge_def Let_def
      split: ExecutedAction.splits if_splits)

lemma post_await_matches:
  assumes "before n cs" "postExecuteStep x n config = AwaitSettlement"
    and "sr_status res = StPendingHandoff" "sr_attempts res = n"
  shows "result_matches config res (cs @ [(n, Inr x)])"
  using assms upto_attemptI2
  by (auto simp: result_matches_def postExecuteStep_def charged_with_def Let_def
      split: ExecutedAction.splits if_splits)

lemma post_retry_before:
  assumes "before n cs" "1 \<le> n" "postExecuteStep x n config = PostRetry n'"
  shows "n' = n + 1 \<and> n' \<le> maxAttempts config \<and> before n' (cs @ [(n, Inr x)])"
  using assms before_Suc [of n cs "Inr x"]
  by (auto simp: postExecuteStep_def failed_charge_def Let_def split: ExecutedAction.splits if_splits)

definition turn_post :: "SchedulerConfig \<Rightarrow> int \<Rightarrow> RecoverySagaResult + int \<Rightarrow> call list \<Rightarrow> bool" where
  "turn_post config n r cs = (case r of
     Inl res \<Rightarrow> sr_attempts res = n \<and> result_matches config res cs
   | Inr n' \<Rightarrow> n' = n + 1 \<and> n' \<le> maxAttempts config \<and> before n' cs)"

lemma triple_execute_and_decide:
  assumes "1 \<le> n" "ai_attemptNumber i = n"
  shows "triple (\<lambda>s. before n (calls s)) (execute_and_decide (logged_port port) rt i config)
     (\<lambda>r s. turn_post config n r (calls s)) (\<lambda>s. upto_attempt n (calls s))"
proof -
  let ?R = "\<lambda>x cs'. \<exists>cs. before n cs \<and> cs' = cs @ [(n, Inr x)]"
  have up: "?R x cs \<Longrightarrow> upto_attempt n cs" for x cs by (auto intro: upto_attemptI2)
  have 1: "triple (\<lambda>s. before n (calls s)) (execute_attempt (logged_port port) rt i)
      (\<lambda>x s. ?R x (calls s)) (\<lambda>s. upto_attempt n (calls s))"
    by (rule triple_weaken [OF triple_execute_attempt [of "before n"]])
      (auto simp: assms(2) intro: upto_attemptI1 upto_attemptI2)
  have 2: "triple (\<lambda>s. ?R x (calls s))
      (case postExecuteStep x n config of
         PostStop reason \<Rightarrow> andThen (stop_saga rt reason n) (\<lambda>r. ok (Inl r))
       | AwaitSettlement \<Rightarrow> andThen (await_settlement rt config n) (\<lambda>r. ok (Inl r))
       | PostRetry n \<Rightarrow> ok (Inr n))
      (\<lambda>r s. turn_post config n r (calls s)) (\<lambda>s. upto_attempt n (calls s))" for x
  proof (cases "postExecuteStep x n config")
    case (PostStop reason)
    have "triple (\<lambda>s. ?R x (calls s)) (stop_saga rt reason n)
        (\<lambda>res s. turn_post config n (Inl res) (calls s)) (\<lambda>s. upto_attempt n (calls s))"
      by (rule triple_weaken [OF triple_stop [of "?R x"]])
        (use post_stop_matches [OF _ assms(1) PostStop] up in \<open>auto simp: turn_post_def\<close>)
    then show ?thesis unfolding PostStop by (auto intro: triple_andThen triple_ok)
  next
    case AwaitSettlement
    have "triple (\<lambda>s. ?R x (calls s)) (await_settlement rt config n)
        (\<lambda>res s. turn_post config n (Inl res) (calls s)) (\<lambda>s. upto_attempt n (calls s))"
      by (rule triple_weaken [OF triple_await [of "?R x"]])
        (use post_await_matches [OF _ AwaitSettlement] up in \<open>auto simp: turn_post_def\<close>)
    then show ?thesis unfolding AwaitSettlement by (auto intro: triple_andThen triple_ok)
  next
    case (PostRetry n')
    have "?R x cs \<Longrightarrow> turn_post config n (Inr n') cs" for cs
      using post_retry_before [OF _ assms(1) PostRetry] by (auto simp: turn_post_def)
    then show ?thesis unfolding PostRetry by (auto intro!: triple_ok)
  qed
  show ?thesis
    unfolding execute_and_decide_def assms(2) by (rule triple_andThen [OF 1 2])
qed

lemma triple_keep_before:
  assumes "keeps_world m"
  shows "triple (\<lambda>s. before n (calls s)) m (\<lambda>_ s. before n (calls s)) (\<lambda>s. upto_attempt n (calls s))"
  by (rule triple_weaken [OF triple_keeps [OF assms, of "before n"]]) (auto intro: upto_attemptI1)

lemma triple_saga_turn:
  assumes "1 \<le> n"
  shows "triple (\<lambda>s. before n (calls s)) (saga_turn (logged_port port) rt input config n)
     (\<lambda>r s. turn_post config n r (calls s)) (\<lambda>s. upto_attempt n (calls s))"
proof -
  have plan: "triple (\<lambda>s. before n (calls s)) (on_world (port_plan (logged_port port) i))
      (\<lambda>_ s. before n (calls s)) (\<lambda>s. upto_attempt n (calls s))" for i
    by (rule triple_weaken [OF triple_plan [of "before n"]]) (auto intro: upto_attemptI1)
  have go: "triple (\<lambda>s. before n (calls s))
      (execute_and_decide (logged_port port) rt (input\<lparr>ai_attemptNumber := n\<rparr>) config)
      (\<lambda>r s. turn_post config n r (calls s)) (\<lambda>s. upto_attempt n (calls s))"
    by (rule triple_execute_and_decide) (simp_all add: assms)
  have early: "reason \<notin> {StRecovered, StPendingHandoff, StExhausted}"
    if "planStep d t config = Inr (PlanStop reason)" for d t reason
    using that by (auto simp: planStep_def split: if_splits sum.splits option.splits)
  have stop: "triple (\<lambda>s. before n (calls s)) (andThen (stop_saga rt reason n) (\<lambda>r. ok (Inl r)))
      (\<lambda>r s. turn_post config n r (calls s)) (\<lambda>s. upto_attempt n (calls s))"
    if "reason \<notin> {StRecovered, StPendingHandoff, StExhausted}" for reason
  proof (rule triple_andThen)
    show "triple (\<lambda>s. before n (calls s)) (stop_saga rt reason n)
        (\<lambda>res s. turn_post config n (Inl res) (calls s)) (\<lambda>s. upto_attempt n (calls s))"
      by (rule triple_weaken [OF triple_stop [of "before n"]])
        (use result_matches_early that upto_attemptI1 in \<open>auto simp: turn_post_def\<close>)
  qed (auto intro: triple_ok)
  have decided: "triple (\<lambda>s. before n (calls s) \<and> planStep d t config = Inr st)
      (case st of
         PlanStop reason \<Rightarrow> andThen (stop_saga rt reason n) (\<lambda>r. ok (Inl r))
       | SleepThenExecute until \<Rightarrow>
           andThen (sleep_until rt until) (\<lambda>_. andThen (record_event rt n (EvSlept until)) (\<lambda>_.
             execute_and_decide (logged_port port) rt (input\<lparr>ai_attemptNumber := n\<rparr>) config))
       | ExecuteNow \<Rightarrow> execute_and_decide (logged_port port) rt (input\<lparr>ai_attemptNumber := n\<rparr>) config)
      (\<lambda>r s. turn_post config n r (calls s)) (\<lambda>s. upto_attempt n (calls s))" for d t st
  proof (cases "planStep d t config = Inr st")
    case True
    note keep_sleep = triple_keep_before [OF keeps_sleep] and keep_record = triple_keep_before [OF keeps_record]
    show ?thesis
      using go triple_andThen [OF keep_sleep triple_andThen [OF keep_record go]] stop early [of d t] True
      by (cases st) simp_all
  qed (simp add: triple_False)
  show ?thesis
    unfolding saga_turn_def Let_def
    by (intro triple_andThen [OF plan] triple_andThen [OF triple_keep_before [OF keeps_record]]
        triple_andThen [OF triple_keep_before [OF keeps_now]] triple_andThen [OF triple_lift_sum decided])
      (auto intro: upto_attemptI1)
qed

lemma triple_saga_loop:
  assumes "1 \<le> n" "n \<le> max 1 (maxAttempts config)" "0 \<le> maxAttempts config"
    and "maxAttempts config + 1 - n < int guard"
  shows "triple (\<lambda>s. before n (calls s)) (saga_loop (logged_port port) rt input config guard n)
     (\<lambda>res s. 1 \<le> sr_attempts res \<and> sr_attempts res \<le> max 1 (maxAttempts config)
        \<and> result_matches config res (calls s))
     (\<lambda>s. \<exists>m \<le> max 1 (maxAttempts config). 1 \<le> m \<and> upto_attempt m (calls s))"
  using assms
proof (induction guard arbitrary: n)
  case 0
  then show ?case by simp
next
  case (Suc guard)
  let ?E = "\<lambda>s. \<exists>m \<le> max 1 (maxAttempts config). 1 \<le> m \<and> upto_attempt m (calls s)"
  let ?Q = "\<lambda>res s. 1 \<le> sr_attempts res \<and> sr_attempts res \<le> max 1 (maxAttempts config) \<and> result_matches config res (calls s)"
  have turn: "triple (\<lambda>s. before n (calls s)) (saga_turn (logged_port port) rt input config n)
      (\<lambda>r s. turn_post config n r (calls s)) ?E"
    by (rule triple_weaken [OF triple_saga_turn]) (use Suc.prems in auto)
  have rest: "triple (\<lambda>s. turn_post config n r (calls s))
      (case r of Inl result \<Rightarrow> ok result | Inr n' \<Rightarrow> saga_loop (logged_port port) rt input config guard n') ?Q ?E" for r
  proof (cases r)
    case (Inl res)
    with Suc.prems(1,2) show ?thesis by (auto simp: turn_post_def intro!: triple_ok)
  next
    case (Inr n')
    show ?thesis
    proof (cases "n' = n + 1 \<and> n' \<le> maxAttempts config")
      case True
      have "triple (\<lambda>s. before n' (calls s)) (saga_loop (logged_port port) rt input config guard n') ?Q ?E"
        using Suc.prems True by (intro Suc.IH) auto
      then show ?thesis using True Inr by (simp add: turn_post_def)
    next
      case False
      then show ?thesis using Inr by (auto simp: turn_post_def triple_def)
    qed
  qed
  show ?case unfolding saga_loop.simps by (rule triple_andThen [OF turn rest])
qed

lemma before_length: "before n cs \<Longrightarrow> 1 \<le> n \<Longrightarrow> int (length cs) = n - 1"
  by (metis before_def length_map length_upto diff_add_cancel int_nat_eq diff_ge_0_iff_ge add.commute)

lemma upto_attempt_calls:
  assumes "upto_attempt m cs" "1 \<le> m"
  shows "map fst cs = [1..int (length cs)]" "int (length cs) \<le> m" "\<forall>c\<in>set (butlast cs). failed_charge (snd c)"
proof -
  from assms(1) consider "before m cs" | cs0 r where "cs = cs0 @ [(m, r)]" "before m cs0"
    by (auto simp: upto_attempt_def)
  then have "map fst cs = [1..int (length cs)] \<and> int (length cs) \<le> m \<and>
      (\<forall>c\<in>set (butlast cs). failed_charge (snd c))"
  proof cases
    case 1
    with before_length [OF 1 assms(2)] show ?thesis by (auto simp: before_def dest: in_set_butlastD)
  next
    case 2
    with before_length [OF 2(2) assms(2)] have "int (length cs) = m" by simp
    with 2 assms(2) show ?thesis by (simp add: before_def upto_rec2)
  qed
  then show "map fst cs = [1..int (length cs)]" "int (length cs) \<le> m"
    "\<forall>c\<in>set (butlast cs). failed_charge (snd c)" by auto
qed

lemma runRecoverySaga_outcome:
  assumes "0 \<le> maxAttempts config" "calls s = []"
    and run: "runRecoverySaga (logged_port port) rt input config s = (r, s')"
  shows "\<exists>m \<le> max 1 (maxAttempts config). 1 \<le> m \<and> upto_attempt m (calls s')"
    and "r = Inr res \<Longrightarrow> sr_attempts res \<le> max 1 (maxAttempts config) \<and> result_matches config res (calls s')"
proof -
  have b: "before 1 (calls s)" using assms(2) by (simp add: before_def)
  note T = triple_saga_loop [of 1 config "nat (maxAttempts config + 2)" port rt input]
  have "1 \<le> sr_attempts res \<and> sr_attempts res \<le> max 1 (maxAttempts config) \<and> result_matches config res (calls s')"
    if "r = Inr res" for res
    using tripleD_Inr [OF T b, of res s'] run assms(1) that by (simp add: runRecoverySaga_def)
  then show "r = Inr res \<Longrightarrow> sr_attempts res \<le> max 1 (maxAttempts config) \<and> result_matches config res (calls s')"
    and "\<exists>m \<le> max 1 (maxAttempts config). 1 \<le> m \<and> upto_attempt m (calls s')"
    using tripleD_Inl [OF T b] run assms(1)
    by (simp, cases r) (auto simp: runRecoverySaga_def result_matches_def)
qed

subsection \<open>The sequenced saga\<close>

text \<open>The calls walk the planned attempt numbers in order; only failed charges are followed by another.\<close>

definition walked :: "int list \<Rightarrow> call list \<Rightarrow> bool" where
  "walked ns cs \<longleftrightarrow> prefix (map fst cs) ns \<and> (\<forall>c\<in>set (butlast cs). failed_charge (snd c))"

definition all_failed :: "int list \<Rightarrow> call list \<Rightarrow> bool" where
  "all_failed ns cs \<longleftrightarrow> map fst cs = ns \<and> (\<forall>c\<in>set cs. failed_charge (snd c))"

lemma all_failed_walked: "all_failed ns cs \<Longrightarrow> walked (ns @ ms) cs"
  by (auto simp: all_failed_def walked_def dest: in_set_butlastD)

lemma all_failed_snoc_walked: "all_failed ns cs \<Longrightarrow> walked (ns @ n # ms) (cs @ [(n, r)])"
  by (auto simp: all_failed_def walked_def prefix_def)

lemma all_failed_snoc: "all_failed ns cs \<Longrightarrow> failed_charge r \<Longrightarrow> all_failed (ns @ [n]) (cs @ [(n, r)])"
  by (auto simp: all_failed_def)

definition recovered_iff :: "RecoverySagaResult \<Rightarrow> call list \<Rightarrow> bool" where
  "recovered_iff res cs \<longleftrightarrow>
     (sr_status res = StRecovered \<longleftrightarrow> (\<exists>cs0 c. cs = cs0 @ [c] \<and> charged_with Succeeded (snd c)))"

lemma all_failed_not_recovered: "all_failed ns cs \<Longrightarrow> sr_status res \<noteq> StRecovered \<Longrightarrow> recovered_iff res cs"
  using charged_not_failed [of Succeeded] by (fastforce simp: all_failed_def recovered_iff_def)

definition retry_attempts :: "RetryStep list \<Rightarrow> int list" where
  "retry_attempts steps = map rs_attemptNumber (takeWhile (\<lambda>s. rs_action s = RecRetry) steps)"

definition seq_post :: "int list \<Rightarrow> RecoverySagaResult \<Rightarrow> call list \<Rightarrow> bool" where
  "seq_post ns res cs \<longleftrightarrow> walked ns cs \<and> recovered_iff res cs"

lemma triple_stop_seq:
  assumes "\<And>cs. P cs \<Longrightarrow> walked ns cs"
    and "\<And>cs res. P cs \<Longrightarrow> sr_status res = reason \<Longrightarrow> recovered_iff res cs"
  shows "triple (\<lambda>s. P (calls s)) (stop_saga rt reason n)
     (\<lambda>res s. seq_post ns res (calls s)) (\<lambda>s. walked ns (calls s))"
  by (rule triple_weaken [OF triple_stop [of P]]) (use assms in \<open>auto simp: seq_post_def\<close>)

lemma triple_await_seq:
  assumes "\<And>cs. P cs \<Longrightarrow> walked ns cs"
    and "\<And>cs res. P cs \<Longrightarrow> sr_status res = StPendingHandoff \<Longrightarrow> recovered_iff res cs"
  shows "triple (\<lambda>s. P (calls s)) (await_settlement rt config n)
     (\<lambda>res s. seq_post ns res (calls s)) (\<lambda>s. walked ns (calls s))"
  by (rule triple_weaken [OF triple_await [of P]]) (use assms in \<open>auto simp: seq_post_def\<close>)

lemma triple_sequence_loop:
  "triple (\<lambda>s. all_failed done' (calls s)) (sequence_loop (logged_port port) rt input config lastAttempt steps)
     (\<lambda>res s. seq_post (done' @ retry_attempts steps) res (calls s))
     (\<lambda>s. walked (done' @ retry_attempts steps) (calls s))"
proof (induction steps arbitrary: done' lastAttempt)
  case Nil
  show ?case
    unfolding sequence_loop.simps
    by (rule triple_stop_seq) (auto intro: all_failed_walked all_failed_not_recovered)
next
  case (Cons step steps)
  let ?n = "rs_attemptNumber step"
  let ?ns = "done' @ retry_attempts (step # steps)"
  show ?case
  proof (cases "rs_action step = RecRetry")
    case False
    then show ?thesis
      by (simp add: Let_def) (rule conjI impI triple_stop_seq; auto intro: all_failed_walked all_failed_not_recovered)+
  next
    case True
    let ?R = "\<lambda>x cs'. \<exists>cs. all_failed done' cs \<and> cs' = cs @ [(?n, Inr x)]"
    have ns: "?ns = done' @ ?n # retry_attempts steps" using True by (simp add: retry_attempts_def)
    have keep: "triple (\<lambda>s. all_failed done' (calls s)) m (\<lambda>_ s. all_failed done' (calls s)) (\<lambda>s. walked ?ns (calls s))"
      if "keeps_world m" for m :: "(('a \<times> call list, 'b) saga, unit) eff"
      by (rule triple_weaken [OF triple_keeps [OF that, of "all_failed done'"]]) (auto intro: all_failed_walked)
    have exec: "triple (\<lambda>s. all_failed done' (calls s)) (execute_attempt (logged_port port) rt (input\<lparr>ai_attemptNumber := ?n\<rparr>))
        (\<lambda>x s. ?R x (calls s)) (\<lambda>s. walked ?ns (calls s))"
      by (rule triple_weaken [OF triple_execute_attempt [of "all_failed done'"]])
        (auto simp: ns intro: all_failed_walked all_failed_snoc_walked)
    have w: "?R x cs \<Longrightarrow> walked ?ns cs" for x cs by (auto simp: ns intro: all_failed_snoc_walked)
    have after: "triple (\<lambda>s. ?R x (calls s))
        (case er_action x of
             Shadowed \<Rightarrow> stop_saga rt StShadowComplete ?n
           | GuardrailSuppressed \<Rightarrow> stop_saga rt StGuardrailSuppressed ?n
           | EngineSuppressed \<Rightarrow> stop_saga rt StEngineSuppressed ?n
           | CardUpdateComms \<Rightarrow> stop_saga rt StCardUpdateComms ?n
           | Charged \<Rightarrow>
               if er_outcome x = Some Succeeded then stop_saga rt StRecovered ?n
               else if er_outcome x = Some Pending then await_settlement rt config ?n
               else sequence_loop (logged_port port) rt input config ?n steps)
        (\<lambda>res s. seq_post ?ns res (calls s)) (\<lambda>s. walked ?ns (calls s))" for x
    proof (cases "failed_charge (Inr x)")
      case f: True
      have "triple (\<lambda>s. ?R x (calls s)) (sequence_loop (logged_port port) rt input config ?n steps)
          (\<lambda>res s. seq_post ?ns res (calls s)) (\<lambda>s. walked ?ns (calls s))"
        using Cons.IH [of "done' @ [?n]" ?n]
        by (rule triple_weaken) (auto simp: ns all_failed_snoc f)
      with f show ?thesis by (simp add: failed_charge_def)
    next
      case False
      have st: "triple (\<lambda>s. ?R x (calls s)) (stop_saga rt reason ?n)
          (\<lambda>res s. seq_post ?ns res (calls s)) (\<lambda>s. walked ?ns (calls s))"
        if "reason = StRecovered \<longleftrightarrow> charged_with Succeeded (Inr x)" for reason
        using w that by (intro triple_stop_seq [where P = "?R x"]) (auto simp: recovered_iff_def)
      have aw: "triple (\<lambda>s. ?R x (calls s)) (await_settlement rt config ?n)
          (\<lambda>res s. seq_post ?ns res (calls s)) (\<lambda>s. walked ?ns (calls s))"
        if "\<not> charged_with Succeeded (Inr x)"
        using w that by (intro triple_await_seq [where P = "?R x"]) (auto simp: recovered_iff_def)
      show ?thesis
        using False by (cases "er_action x")
          (auto simp: failed_charge_def charged_with_def intro!: st aw)
    qed
    show ?thesis
      unfolding sequence_loop.simps Let_def using True
      by (simp only: not_True_eq_False if_False simp_thms)
        (intro triple_andThen [OF keep [OF keeps_sleep]] triple_andThen [OF keep [OF keeps_record]]
          triple_andThen [OF exec after])
  qed
qed

lemma runSequencedRecoverySaga_outcome:
  assumes seq: "port_planSequence port = Some planSeq" and "calls s = []"
    and run: "runSequencedRecoverySaga (logged_port port) rt input config s = (r, s')"
    and plan: "planSeq (input\<lparr>ai_attemptNumber := 1\<rparr>) (fst (sg_world s)) = (Inr steps, w')"
  shows "walked (retry_attempts steps) (calls s')"
    and "r = Inr res \<Longrightarrow> recovered_iff res (calls s')"
proof -
  define s1 where "s1 = s\<lparr>sg_world := (w', calls s)\<rparr>"
  define rest where "rest = andThen (record_event rt 1 (EvPlannedSteps (length steps))) (\<lambda>_.
      if steps = [] then stop_saga rt StEngineSuppressed 1
      else sequence_loop (logged_port port) rt input config 1 steps)"
  have logged_seq: "port_planSequence (logged_port port) =
      Some (\<lambda>i (w, log). case planSeq i w of (r, w') \<Rightarrow> (r, (w', log)))"
    using seq by (simp add: logged_port_def)
  have "runSequencedRecoverySaga (logged_port port) rt input config s = rest s1"
    using plan logged_seq
    by (cases "sg_world s")
      (simp add: runSequencedRecoverySaga_def on_world_def zoom_def andThen_def rest_def s1_def calls_def)
  with run have r: "rest s1 = (r, s')" by simp
  have s1: "all_failed [] (calls s1)" using assms(2) by (simp add: s1_def calls_def all_failed_def)
  have keep: "triple (\<lambda>s. all_failed [] (calls s)) (record_event rt 1 d) (\<lambda>_ s. all_failed [] (calls s))
      (\<lambda>s. walked (retry_attempts steps) (calls s))" for d
    by (rule triple_weaken [OF triple_keeps [OF keeps_record, of "all_failed []"]])
      (auto dest: all_failed_walked [where ms = "retry_attempts steps"])
  have go: "triple (\<lambda>s. all_failed [] (calls s))
      (if steps = [] then stop_saga rt StEngineSuppressed 1
       else sequence_loop (logged_port port) rt input config 1 steps)
      (\<lambda>res s. seq_post (retry_attempts steps) res (calls s)) (\<lambda>s. walked (retry_attempts steps) (calls s))"
    using triple_sequence_loop [of "[]" port rt input config 1 steps]
    by (auto intro!: triple_stop_seq intro: all_failed_not_recovered
        dest: all_failed_walked [where ms = "retry_attempts steps"])
  have T: "triple (\<lambda>s. all_failed [] (calls s)) rest
      (\<lambda>res s. seq_post (retry_attempts steps) res (calls s)) (\<lambda>s. walked (retry_attempts steps) (calls s))"
    unfolding rest_def by (rule triple_andThen [OF keep go])
  show "walked (retry_attempts steps) (calls s')"
    using tripleD_Inr [OF T s1] tripleD_Inl [OF T s1] r by (cases r) (auto simp: seq_post_def)
  show "r = Inr res \<Longrightarrow> recovered_iff res (calls s')"
    using tripleD_Inr [OF T s1] r by (auto simp: seq_post_def)
qed

subsection \<open>Time\<close>

text \<open>
  The host's clock: reading it changes nothing and sleeping never turns it back and reaches
  the instant asked for. The virtual clock keeps these laws; so does Temporal's.
\<close>

locale scheduler_runtime =
  fixes rt :: "'r SchedulerRuntime" and clock :: "'r \<Rightarrow> int" and valid :: "'r \<Rightarrow> bool"
  assumes now_clock: "valid r \<Longrightarrow> rt_now rt r = Inr (Some (clock r))"
    and sleep_valid: "valid r \<Longrightarrow> rt_sleepUntil rt (Some t) r = (x, r') \<Longrightarrow> \<bar>t\<bar> \<le> max_time_ms \<Longrightarrow>
       x = Inr () \<and> valid r' \<and> clock r' = max (clock r) t"
begin

lemma sleep_forward:
  "valid r \<Longrightarrow> \<bar>t\<bar> \<le> max_time_ms \<Longrightarrow> rt_sleepUntil rt (Some t) r = (x, r') \<Longrightarrow> clock r \<le> clock r' \<and> t \<le> clock r'"
  using sleep_valid by fastforce

text \<open>An event is stamped with the clock, and the stamp is not before any earlier one.\<close>

definition stamped :: "SagaEvent list \<Rightarrow> 'r \<Rightarrow> bool" where
  "stamped evs r \<longleftrightarrow> (\<exists>ts. map se_at evs = map Some ts \<and> sorted ts \<and> (\<forall>t\<in>set ts. t \<le> clock r))"

definition timed :: "('w, 'r) saga \<Rightarrow> bool" where
  "timed s \<longleftrightarrow> valid (sg_rt s) \<and> stamped (sg_timeline s) (sg_rt s)"

lemma timed_now: "triple timed (now' rt) (\<lambda>t s. timed s) timed"
  by (rule tripleI) (auto simp: now'_def)

lemma timed_world: "triple timed (on_world m) (\<lambda>_. timed) timed"
  by (rule tripleI) (auto simp: on_world_def zoom_def timed_def split: prod.splits)

lemma stamped_push:
  assumes "stamped evs r"
  shows "stamped (evs @ [\<lparr>se_at = Some (clock r), se_attemptNumber = n, se_detail = d\<rparr>]) r"
proof -
  from assms obtain ts where "map se_at evs = map Some ts" "sorted ts" "\<forall>t\<in>set ts. t \<le> clock r"
    by (auto simp: stamped_def)
  then show ?thesis
    unfolding stamped_def by (intro exI [of _ "ts @ [clock r]"]) (auto simp: sorted_append)
qed

lemma timed_record: "triple timed (record_event rt n d) (\<lambda>_. timed) timed"
  using now_clock
  by (auto intro!: tripleI stamped_push simp: timed_def record_event_def now'_def andThen_def modify_def)

lemma timed_sleep:
  assumes "to_iso_string x = Inr t"
  shows "triple timed (sleep_until rt t) (\<lambda>_. timed) timed"
proof -
  from assms obtain ms where t: "t = Some ms" "\<bar>ms\<bar> \<le> max_time_ms" by auto
  have grow: "stamped evs r \<Longrightarrow> clock r \<le> clock r' \<Longrightarrow> stamped evs r'" for evs r r'
    by (fastforce simp: stamped_def)
  show ?thesis
  proof (rule tripleI)
    fix s a s' assume "timed s" "sleep_until rt t s = (Inr a, s')"
    then show "timed s'"
      using t sleep_valid grow
      by (cases "rt_sleepUntil rt (Some ms) (sg_rt s)")
        (fastforce simp: sleep_until_def on_rt_def zoom_def timed_def)
  next
    fix s e s' assume "timed s" "sleep_until rt t s = (Inl e, s')"
    then show "timed s'"
      using t sleep_valid
      by (cases "rt_sleepUntil rt (Some ms) (sg_rt s)")
        (fastforce simp: sleep_until_def on_rt_def zoom_def timed_def)
  qed
qed

lemma timed_gets: "triple timed (gets f) (\<lambda>_. timed) timed"
  by (rule triple_gets)

lemma timed_ok: "triple timed (ok a) (\<lambda>_. timed) timed"
  by (rule triple_ok)

lemma timed_andThen:
  "triple timed m (\<lambda>_. timed) timed \<Longrightarrow> (\<And>a. triple timed (f a) (\<lambda>_. timed) timed) \<Longrightarrow>
   triple timed (andThen m f) (\<lambda>_. timed) timed"
  by (rule triple_andThen)

lemma timed_lift:
  assumes "\<And>a. r = Inr a \<Longrightarrow> triple timed (f a) (\<lambda>_. timed) timed"
  shows "triple timed (andThen (lift_sum r) f) (\<lambda>_. timed) timed"
  using assms by (cases r) (auto simp: triple_def andThen_def lift_sum_def)

lemma timed_stop: "triple timed (stop_saga rt reason n) (\<lambda>_. timed) timed"
  unfolding stop_saga_def by (intro timed_andThen timed_record timed_gets)

lemma timed_await: "triple timed (await_settlement rt config n) (\<lambda>_. timed) timed"
  unfolding await_settlement_def addMinutes_def
  by (intro timed_andThen timed_now timed_lift timed_record timed_stop) (erule timed_sleep)

lemma timed_decide: "triple timed (execute_and_decide port rt i config) (\<lambda>_. timed) timed"
  unfolding execute_and_decide_def execute_attempt_def
  by (intro timed_andThen timed_now timed_world timed_record timed_ok)
    (auto split: PostExecuteStep.split intro!: timed_andThen timed_stop timed_await timed_ok)

lemma planStep_sleep_iso:
  assumes "planStep d now config = Inr (SleepThenExecute t)"
  shows "\<exists>x. to_iso_string x = Inr t"
  using assms
  by (auto simp: planStep_def futureTime_def simp del: to_iso_string_Inr
      split: if_splits sum.splits option.splits)

lemma timed_turn: "triple timed (saga_turn port rt input config n) (\<lambda>_. timed) timed"
  unfolding saga_turn_def Let_def
proof (rule timed_andThen [OF timed_world], rule timed_andThen [OF timed_record],
    rule timed_andThen [OF timed_now], rule timed_lift)
  fix d t st assume st: "planStep d t config = Inr st"
  have sl: "triple timed (sleep_until rt u) (\<lambda>_. timed) timed" if "st = SleepThenExecute u" for u
    using planStep_sleep_iso st that timed_sleep by blast
  then show "triple timed
      (case st of PlanStop reason \<Rightarrow> andThen (stop_saga rt reason n) (\<lambda>r. ok (Inl r))
       | SleepThenExecute until \<Rightarrow> andThen (sleep_until rt until) (\<lambda>_. andThen (record_event rt n (EvSlept until)) (\<lambda>_.
             execute_and_decide port rt (input\<lparr>ai_attemptNumber := n\<rparr>) config))
       | ExecuteNow \<Rightarrow> execute_and_decide port rt (input\<lparr>ai_attemptNumber := n\<rparr>) config) (\<lambda>_. timed) timed"
    by (cases st) (auto intro!: timed_andThen timed_stop timed_ok timed_record timed_decide)
qed

lemma timed_loop: "triple timed (saga_loop port rt input config guard n) (\<lambda>_. timed) timed"
  by (induction guard arbitrary: n)
    (auto intro!: timed_stop timed_andThen timed_turn timed_ok split: sum.split)

text \<open>The adaptive saga's timeline is in the order of time.\<close>

lemma saga_timeline_sorted:
  assumes "valid (sg_rt s)" "sg_timeline s = []" "runRecoverySaga port rt input config s = (r, s')"
  shows "\<exists>ts. map se_at (sg_timeline s') = map Some ts \<and> sorted ts"
proof -
  have "timed s" using assms(1,2) by (simp add: timed_def stamped_def)
  then have "timed s'"
    using assms(3) tripleD_Inr [OF timed_loop] tripleD_Inl [OF timed_loop]
    by (cases r) (auto simp: runRecoverySaga_def)
  then show ?thesis by (auto simp: timed_def stamped_def)
qed

end

interpretation virtual_clock: scheduler_runtime inMemoryRuntime "\<lambda>r. coalesce (imr_clock r) 0"
    "\<lambda>r. \<exists>c. imr_clock r = Some c \<and> \<bar>c\<bar> \<le> max_time_ms"
  by unfold_locales
    (auto simp: inMemoryRuntime_def imr_now_def imr_sleepUntil_def to_iso_string_def split: if_splits)

text \<open>The engine's time for a retry, if any, is never skipped: the saga sleeps until then.\<close>

lemma planStep_waits:
  assumes "planStep d now config = Inr step" "rd_action d = ActRetry" "now = Some n" "rd_retryAt d = Some (Some t)"
  shows "step = (if n < t then SleepThenExecute (Some t) else ExecuteNow)"
  using assms(1) by (auto simp: planStep_def futureTime_def assms(2-) split: if_splits sum.splits)

lemma planStep_no_hot_loop:
  assumes "planStep d now config = Inr step" "rd_action d = ActRetry" "now = Some n" "rd_retryAt d = None"
  shows "step = SleepThenExecute (Some (n + fallbackBackoffMinutes config * ms_per_minute))"
  using assms(1) by (auto simp: planStep_def futureTime_def assms(2-) split: if_splits sum.splits)

end
