(* ===== verification/Holdout.thy ===== *)
theory Holdout
  imports Canonical Ledger
begin

text \<open>
  Randomized holdout assignment of \<open>packages/attribution/src/holdout.ts\<close>. The digest is an
  argument \<open>H\<close> (SHA-256 in hexadecimal); \<open>assign\<close> is a pure function of it.
\<close>

record Stratum =
  st_mrrTier :: MrrTier
  st_declineFamily :: DeclineFamily
  st_issuerRegion :: IssuerRegion

fun tier_value :: "MrrTier \<Rightarrow> string" where
  "tier_value Micro = ''micro''"
| "tier_value Small = ''small''"
| "tier_value Mid = ''mid''"
| "tier_value Large = ''large''"
| "tier_value Enterprise = ''enterprise''"

fun region_value :: "IssuerRegion \<Rightarrow> string" where
  "region_value RegionNa = ''na''"
| "region_value RegionEmea = ''emea''"
| "region_value RegionLatam = ''latam''"
| "region_value RegionApac = ''apac''"
| "region_value RegionUnknown = ''unknown''"

definition stratumKey :: "Stratum \<Rightarrow> string" where
  "stratumKey s =
     tier_value (st_mrrTier s) @ ''|'' @ family_value (st_declineFamily s) @ ''|'' @ region_value (st_issuerRegion s)"

lemma stratumKey_inject: "stratumKey s = stratumKey t \<longleftrightarrow> s = (t :: Stratum)"
proof
  assume eq: "stratumKey s = stratumKey t"
  have tier: "CHR ''|'' \<notin> set (tier_value x)" for x by (cases x) auto
  have fam: "CHR ''|'' \<notin> set (family_value x)" for x by (cases x) auto
  from eq have 1: "tier_value (st_mrrTier s) = tier_value (st_mrrTier t)"
    and r: "family_value (st_declineFamily s) @ CHR ''|'' # region_value (st_issuerRegion s) =
      family_value (st_declineFamily t) @ CHR ''|'' # region_value (st_issuerRegion t)"
    by (simp_all add: stratumKey_def append_sep_inject [OF tier tier])
  from r have 2: "family_value (st_declineFamily s) = family_value (st_declineFamily t)"
    and 3: "region_value (st_issuerRegion s) = region_value (st_issuerRegion t)"
    by (simp_all add: append_sep_inject [OF fam fam])
  have "st_mrrTier s = st_mrrTier t" using 1 by (cases "st_mrrTier s"; cases "st_mrrTier t") auto
  moreover have "st_declineFamily s = st_declineFamily t"
    using 2 by (cases "st_declineFamily s"; cases "st_declineFamily t") auto
  moreover have "st_issuerRegion s = st_issuerRegion t"
    using 3 by (cases "st_issuerRegion s"; cases "st_issuerRegion t") auto
  ultimately show "s = t" by simp
qed simp

record HoldoutConfig =
  ho_controlFraction :: real
  ho_salt :: string

definition DEFAULT_HOLDOUT_CONFIG :: HoldoutConfig where
  "DEFAULT_HOLDOUT_CONFIG = \<lparr>ho_controlFraction = 0.1, ho_salt = ''ax10m-holdout-v1''\<rparr>"

datatype Bucket = Control | Treatment

datatype UnitGrain = GrainCustomer | GrainInvoice

fun bucket_value :: "Bucket \<Rightarrow> string" where
  "bucket_value Control = ''control''"
| "bucket_value Treatment = ''treatment''"

record AssignmentInput =
  as_merchantId :: ident
  as_customerId :: "ident option"
  as_invoiceId :: ident
  as_stratum :: Stratum

record Assignment =
  asg_bucket :: Bucket
  asg_stratumKey :: string
  asg_unitGrain :: UnitGrain
  asg_bucketKey :: string
  asg_position :: real

text \<open>\<open>Number.parseInt(s, 16)\<close> on hexadecimal digits.\<close>

definition hex_digit_value :: "char \<Rightarrow> nat" where
  "hex_digit_value c = (let n = of_char c in if n \<le> 57 then n - 48 else n - 87)"

definition hex_value :: "string \<Rightarrow> nat" where
  "hex_value s = foldl (\<lambda>a c. 16 * a + hex_digit_value c) 0 s"

definition hashToUnitInterval :: "(string \<Rightarrow> string) \<Rightarrow> string \<Rightarrow> real" where
  "hashToUnitInterval H input = of_nat (hex_value (take 13 (H input))) / 2 ^ 52"

definition is_guest :: "AssignmentInput \<Rightarrow> bool" where
  "is_guest input = (as_customerId input = None \<or> as_customerId input = Some [])"

definition bucket_material :: "AssignmentInput \<Rightarrow> HoldoutConfig \<Rightarrow> string" where
  "bucket_material input config =
     (if is_guest input then join '':'' [ho_salt config, as_merchantId input, ''guest'', as_invoiceId input]
      else join '':'' [ho_salt config, as_merchantId input, coalesce (as_customerId input) []])"

definition assign :: "(string \<Rightarrow> string) \<Rightarrow> AssignmentInput \<Rightarrow> HoldoutConfig \<Rightarrow> js_error + Assignment" where
  "assign H input config =
     (if ho_controlFraction config < 0 \<or> 1 \<le> ho_controlFraction config then
        Inl (RangeError ''controlFraction must be in [0, 1)'')
      else
        (let key = stratumKey (as_stratum input);
             material = bucket_material input config;
             position = hashToUnitInterval H material
         in Inr \<lparr>asg_bucket = (if position < ho_controlFraction config then Control else Treatment),
                 asg_stratumKey = key,
                 asg_unitGrain = (if is_guest input then GrainInvoice else GrainCustomer),
                 asg_bucketKey = material, asg_position = position\<rparr>))"

lemma hex_value_bound:
  assumes "set s \<subseteq> hex_chars"
  shows "hex_value s < 16 ^ length s"
  using assms
proof (induction s rule: rev_induct)
  case Nil
  then show ?case by (simp add: hex_value_def)
next
  case (snoc c s)
  have "hex_digit_value c \<le> 15" using snoc.prems by (auto simp: hex_chars_def hex_digit_value_def Let_def)
  moreover have "hex_value s < 16 ^ length s" using snoc by simp
  ultimately show ?case by (simp add: hex_value_def)
qed

lemma position_range:
  assumes "hex_digest H"
  shows "0 \<le> hashToUnitInterval H m" "hashToUnitInterval H m < 1"
proof -
  have "set (take 13 (H m)) \<subseteq> hex_chars" "length (take 13 (H m)) = 13"
    using assms set_take_subset [of 13 "H m"] by (auto simp: hex_digest_def)
  then have "hex_value (take 13 (H m)) < 16 ^ 13" using hex_value_bound by metis
  then have "real (hex_value (take 13 (H m))) < real (16 ^ 13)" by (simp only: of_nat_less_iff)
  then have "real (hex_value (take 13 (H m))) < 2 ^ 52" by simp
  then show "hashToUnitInterval H m < 1" by (simp add: hashToUnitInterval_def)
  show "0 \<le> hashToUnitInterval H m" by (simp add: hashToUnitInterval_def)
qed

lemma assign_arm:
  "assign H input config = Inr a \<Longrightarrow>
     asg_bucket a = Control \<longleftrightarrow> hashToUnitInterval H (bucket_material input config) < ho_controlFraction config"
  by (auto simp: assign_def Let_def split: if_splits)

lemma assign_error_iff:
  "(\<exists>e. assign H input config = Inl e) \<longleftrightarrow> \<not> (0 \<le> ho_controlFraction config \<and> ho_controlFraction config < 1)"
  by (auto simp: assign_def Let_def)

lemma customer_material:
  assumes "\<not> is_guest input"
  shows "bucket_material input config =
     join '':'' [ho_salt config, as_merchantId input, coalesce (as_customerId input) []]"
  using assms by (simp add: bucket_material_def)

end
