(* ===== verification/FeatureStore.thy ===== *)
theory FeatureStore
  imports Recoverability "HOL-Library.Sublist"
begin

text \<open>
  The recovery feature store of \<open>packages/recovery-engine/src/feature-store.ts\<close>: Beta-shrunk
  rates, the longest-prefix BIN table, and the customer and issuer aggregates that turn a
  failure into a feature vector. The two promises of the source (a cold start gives the prior;
  a case never influences its own features) are lemmas here.
\<close>

record BetaPrior =
  bp_alpha :: real
  bp_beta :: real

definition betaFromMeanStrength :: "real \<Rightarrow> real \<Rightarrow> BetaPrior" where
  "betaFromMeanStrength mean strength =
     (let m = (if mean < 0 then 0 else if 1 < mean then 1 else mean)
      in \<lparr>bp_alpha = m * strength, bp_beta = (1 - m) * strength\<rparr>)"

definition shrinkRate :: "int \<Rightarrow> int \<Rightarrow> BetaPrior \<Rightarrow> real" where
  "shrinkRate successes tries prior =
     (of_int successes + bp_alpha prior) / (of_int tries + bp_alpha prior + bp_beta prior)"

definition good_prior :: "BetaPrior \<Rightarrow> bool" where
  "good_prior p \<longleftrightarrow> 0 \<le> bp_alpha p \<and> 0 \<le> bp_beta p \<and> 0 < bp_alpha p + bp_beta p"

lemma shrinkRate_range:
  assumes "good_prior p" "0 \<le> s" "s \<le> n"
  shows "0 \<le> shrinkRate s n p" "shrinkRate s n p \<le> 1"
proof -
  have n: "(0::real) \<le> of_int s" "(of_int s :: real) \<le> of_int n" using assms(2,3) by simp_all
  then have d: "0 < of_int n + bp_alpha p + bp_beta p"
    using assms(1) by (simp add: good_prior_def)
  show "0 \<le> shrinkRate s n p" using n(1) assms(1) d by (simp add: shrinkRate_def good_prior_def)
  show "shrinkRate s n p \<le> 1"
    using n assms(1) d by (simp add: shrinkRate_def good_prior_def divide_le_eq)
qed

text \<open>With no evidence the rate is the prior's mean; a success never lowers it, a failure never raises it.\<close>

lemma shrinkRate_cold_start:
  assumes "0 \<le> mean" "mean \<le> 1" "0 < strength"
  shows "shrinkRate 0 0 (betaFromMeanStrength mean strength) = mean"
  using assms by (simp add: shrinkRate_def betaFromMeanStrength_def field_simps)

lemma good_betaFromMeanStrength: "0 < k \<Longrightarrow> good_prior (betaFromMeanStrength m k)"
  by (simp add: good_prior_def betaFromMeanStrength_def Let_def field_simps)

lemma shrinkRate_success:
  assumes "good_prior p" "0 \<le> s" "s \<le> n"
  shows "shrinkRate s n p \<le> shrinkRate (s + 1) (n + 1) p" "shrinkRate s (n + 1) p \<le> shrinkRate s n p"
proof -
  define a b where "a = of_int s + bp_alpha p" and "b = of_int n + bp_alpha p + bp_beta p"
  have ab: "0 \<le> a" "a \<le> b" "0 < b"
    using assms by (simp_all add: a_def b_def good_prior_def add_nonneg_pos add.assoc)
  have e: "shrinkRate s n p = a / b" "shrinkRate (s + 1) (n + 1) p = (a + 1) / (b + 1)"
    "shrinkRate s (n + 1) p = a / (b + 1)"
    by (simp_all add: shrinkRate_def a_def b_def algebra_simps)
  show "shrinkRate s n p \<le> shrinkRate (s + 1) (n + 1) p"
    unfolding e using ab by (simp add: field_simps)
  show "shrinkRate s (n + 1) p \<le> shrinkRate s n p"
    unfolding e using ab by (intro divide_left_mono) auto
qed

subsection \<open>The BIN table\<close>

record BinInfo =
  bin_region :: IssuerRegion
  bin_issuerId :: "string option"
  bin_country :: "string option"
  bin_brand :: "string option"
  bin_cardType :: "CardProductType option"

record BinRange = BinInfo +
  bin_prefix :: string

definition UNKNOWN_BIN :: BinInfo where
  "UNKNOWN_BIN = \<lparr>bin_region = RegionUnknown, bin_issuerId = None, bin_country = None,
     bin_brand = None, bin_cardType = None\<rparr>"

type_synonym bin_index = "BinRange list"

text \<open>Longest prefixes first; the sort is stable.\<close>

definition new_BinRegionIndex :: "BinRange list \<Rightarrow> bin_index" where
  "new_BinRegionIndex ranges = sort_key (\<lambda>r. - int (length (bin_prefix r))) ranges"

definition only_digits :: "string \<Rightarrow> string" where
  "only_digits s = filter (\<lambda>c. (48::nat) \<le> of_char c \<and> (of_char c::nat) \<le> 57) s"

definition bin_lookup :: "bin_index \<Rightarrow> string option \<Rightarrow> BinInfo" where
  "bin_lookup ranges bin =
     (case bin of
        None \<Rightarrow> UNKNOWN_BIN
      | Some b \<Rightarrow>
          if b = [] then UNKNOWN_BIN
          else
            (case List.find (\<lambda>r. prefix (bin_prefix r) (only_digits b)) ranges of
               Some r \<Rightarrow> BinInfo.truncate r
             | None \<Rightarrow> UNKNOWN_BIN))"

definition bin_region_of :: "bin_index \<Rightarrow> string option \<Rightarrow> IssuerRegion" where
  "bin_region_of ranges bin = bin_region (bin_lookup ranges bin)"

definition bin_range :: "string \<Rightarrow> IssuerRegion \<Rightarrow> string \<Rightarrow> string option \<Rightarrow> BinRange" where
  "bin_range p region brand country =
     \<lparr>bin_region = region, bin_issuerId = None, bin_country = country, bin_brand = Some brand,
      bin_cardType = None, bin_prefix = p\<rparr>"

definition DEFAULT_BIN_REGION_INDEX :: bin_index where
  "DEFAULT_BIN_REGION_INDEX = new_BinRegionIndex
     [bin_range ''4'' RegionNa ''visa'' None,
      bin_range ''41'' RegionNa ''visa'' (Some ''US''),
      bin_range ''42'' RegionEmea ''visa'' (Some ''GB''),
      bin_range ''49'' RegionEmea ''visa'' None,
      (bin_range ''414720'' RegionNa ''visa'' (Some ''US''))
        \<lparr>bin_issuerId := Some ''example_bank_na'', bin_cardType := Some CardCredit\<rparr>,
      bin_range ''51'' RegionNa ''mastercard'' None,
      bin_range ''52'' RegionLatam ''mastercard'' None,
      bin_range ''53'' RegionEmea ''mastercard'' None,
      bin_range ''55'' RegionNa ''mastercard'' None,
      bin_range ''35'' RegionApac ''jcb'' None,
      bin_range ''62'' RegionApac ''unionpay'' None,
      bin_range ''34'' RegionNa ''amex'' None,
      bin_range ''37'' RegionNa ''amex'' None]"

lemma find_first:
  "List.find P xs = Some x \<Longrightarrow> \<exists>ys zs. xs = ys @ x # zs \<and> P x \<and> (\<forall>y\<in>set ys. \<not> P y)"
proof (induction xs)
  case (Cons a xs)
  show ?case
  proof (cases "P a")
    case True
    with Cons.prems have "a # xs = [] @ x # xs \<and> P x \<and> (\<forall>y\<in>set []. \<not> P y)" by auto
    then show ?thesis by - (rule exI, rule exI, assumption)
  next
    case False
    with Cons obtain ys zs where "xs = ys @ x # zs" "P x" "\<forall>y\<in>set ys. \<not> P y" by auto
    with False have "a # xs = (a # ys) @ x # zs \<and> P x \<and> (\<forall>y\<in>set (a # ys). \<not> P y)" by auto
    then show ?thesis by - (rule exI, rule exI, assumption)
  qed
qed simp

text \<open>The lookup returns a rule whose prefix matches, and no longer prefix of the table matches.\<close>

lemma bin_lookup_longest:
  assumes "List.find (\<lambda>r. prefix (bin_prefix r) ds) (new_BinRegionIndex ranges) = Some r"
    and "r' \<in> set ranges" "prefix (bin_prefix r') ds"
  shows "length (bin_prefix r') \<le> length (bin_prefix r)"
proof -
  from find_first [OF assms(1)] obtain ys zs where
    split: "new_BinRegionIndex ranges = ys @ r # zs" and no: "\<forall>y\<in>set ys. \<not> prefix (bin_prefix y) ds" by blast
  have "r' \<in> set (new_BinRegionIndex ranges)" using assms(2) by (simp add: new_BinRegionIndex_def)
  with split no assms(3) have "r' \<in> set (r # zs)" by auto
  moreover have "sorted (map (\<lambda>r. - int (length (bin_prefix r))) (ys @ r # zs))"
    unfolding split [symmetric] new_BinRegionIndex_def by (rule sorted_sort_key)
  ultimately show ?thesis by (auto simp: sorted_append)
qed

subsection \<open>The store\<close>

record FeatureStoreConfig =
  fc_customerPrior :: BetaPrior
  fc_issuerPrior :: BetaPrior
  fc_regionIndex :: bin_index

definition DEFAULT_FEATURE_STORE_CONFIG :: FeatureStoreConfig where
  "DEFAULT_FEATURE_STORE_CONFIG =
     \<lparr>fc_customerPrior = betaFromMeanStrength 0.35 8, fc_issuerPrior = betaFromMeanStrength 0.5 10,
      fc_regionIndex = DEFAULT_BIN_REGION_INDEX\<rparr>"

record EnrichmentContext =
  en_merchantId :: ident
  en_customerId :: ident
  en_bin :: "string option"
  en_customerCreatedAt :: "iso option"
  en_firstFailedAt :: "iso option"
  en_declineCode :: DeclineCode
  en_amountMinor :: int
  en_currency :: string
  en_attemptNumber :: int
  en_now :: iso

record CustomerAgg =
  ca_total :: int
  ca_recovered :: int
  ca_firstSeen :: iso
  ca_createdAt :: "iso option"

record IssuerAgg =
  ia_total :: int
  ia_recovered :: int

record RecoveryFeatureStore =
  fs_customers :: "string \<rightharpoonup> CustomerAgg"
  fs_issuers :: "string \<rightharpoonup> IssuerAgg"
  fs_config :: FeatureStoreConfig

definition new_feature_store :: "FeatureStoreConfig \<Rightarrow> RecoveryFeatureStore" where
  "new_feature_store config = \<lparr>fs_customers = Map.empty, fs_issuers = Map.empty, fs_config = config\<rparr>"

definition daysBetween :: "iso option \<Rightarrow> iso \<Rightarrow> real" where
  "daysBetween from' to' =
     (case from' of
        Some (Some a) \<Rightarrow>
          (case to' of
             Some b \<Rightarrow> (let d = of_int (b - a) / of_int ms_per_day in if 0 < d then d else 0)
           | None \<Rightarrow> 0)
      | _ \<Rightarrow> 0)"

definition customerKey :: "ident \<Rightarrow> ident \<Rightarrow> string" where
  "customerKey merchantId customerId = merchantId @ '':'' @ customerId"

definition issuerKeyFor :: "FeatureStoreConfig \<Rightarrow> string option \<Rightarrow> string option" where
  "issuerKeyFor config bin =
     (case bin of
        None \<Rightarrow> None
      | Some b \<Rightarrow>
          if b = [] then None
          else Some (coalesce (bin_issuerId (bin_lookup (fc_regionIndex config) bin)) (take 8 (only_digits b))))"

text \<open>An empty key is falsy.\<close>

definition nonempty :: "string option \<Rightarrow> string option" where
  "nonempty k = (if k = Some [] then None else k)"

text \<open>\<open>a < b\<close> on parsed dates is false when either is \<open>NaN\<close>.\<close>

definition iso_less :: "iso \<Rightarrow> iso \<Rightarrow> bool" where
  "iso_less a b = (case (a, b) of (Some x, Some y) \<Rightarrow> x < y | _ \<Rightarrow> False)"

definition fs_observe :: "ident \<Rightarrow> ident \<Rightarrow> iso \<Rightarrow> iso option \<Rightarrow> RecoveryFeatureStore \<Rightarrow> RecoveryFeatureStore" where
  "fs_observe merchantId customerId now customerCreatedAt fs =
     (let key = customerKey merchantId customerId in
      case fs_customers fs key of
        None \<Rightarrow> fs\<lparr>fs_customers := (fs_customers fs)(key \<mapsto>
          \<lparr>ca_total = 0, ca_recovered = 0, ca_firstSeen = now, ca_createdAt = customerCreatedAt\<rparr>)\<rparr>
      | Some c \<Rightarrow>
          fs\<lparr>fs_customers := (fs_customers fs)(key \<mapsto>
            c\<lparr>ca_firstSeen := (if iso_less now (ca_firstSeen c) then now else ca_firstSeen c),
              ca_createdAt := or_else (ca_createdAt c) customerCreatedAt\<rparr>)\<rparr>)"

definition fs_recordOutcome ::
  "ident \<Rightarrow> ident \<Rightarrow> string option \<Rightarrow> bool \<Rightarrow> iso option \<Rightarrow> RecoveryFeatureStore \<Rightarrow> RecoveryFeatureStore" where
  "fs_recordOutcome merchantId customerId bin recovered now fs =
     (let key = customerKey merchantId customerId;
          c = coalesce (fs_customers fs key)
                \<lparr>ca_total = 0, ca_recovered = 0, ca_firstSeen = coalesce now (Some 0), ca_createdAt = None\<rparr>;
          fs1 = fs\<lparr>fs_customers := (fs_customers fs)(key \<mapsto>
                  c\<lparr>ca_total := ca_total c + 1,
                    ca_recovered := ca_recovered c + (if recovered then 1 else 0)\<rparr>)\<rparr>
      in case nonempty (issuerKeyFor (fs_config fs) bin) of
           Some ik \<Rightarrow>
             (let a = coalesce (fs_issuers fs ik) \<lparr>ia_total = 0, ia_recovered = 0\<rparr>
              in fs1\<lparr>fs_issuers := (fs_issuers fs)(ik \<mapsto>
                    \<lparr>ia_total = ia_total a + 1, ia_recovered = ia_recovered a + (if recovered then 1 else 0)\<rparr>)\<rparr>)
         | None \<Rightarrow> fs1)"

definition issuer_of :: "RecoveryFeatureStore \<Rightarrow> string option \<Rightarrow> IssuerAgg option" where
  "issuer_of fs bin =
     Option.bind (nonempty (issuerKeyFor (fs_config fs) bin)) (fs_issuers fs)"

definition fs_enrich :: "RecoveryFeatureStore \<Rightarrow> EnrichmentContext \<Rightarrow> RecoveryFeatures" where
  "fs_enrich fs ctx =
     (let c = fs_customers fs (customerKey (en_merchantId ctx) (en_customerId ctx));
          priorRecoveryRate = shrinkRate (coalesce (map_option ca_recovered c) 0)
            (coalesce (map_option ca_total c) 0) (fc_customerPrior (fs_config fs));
          issuer = issuer_of fs (en_bin ctx);
          issuerApprovalPrior = shrinkRate (coalesce (map_option ia_recovered issuer) 0)
            (coalesce (map_option ia_total issuer) 0) (fc_issuerPrior (fs_config fs));
          tenureSource = coalesce (or_else (en_customerCreatedAt ctx)
            (or_else (Option.bind c ca_createdAt) (map_option ca_firstSeen c))) (en_now ctx);
          binInfo = bin_lookup (fc_regionIndex (fs_config fs)) (en_bin ctx)
      in \<lparr>f_declineCode = en_declineCode ctx, f_amountMinor = en_amountMinor ctx,
          f_currency = en_currency ctx, f_issuerRegion = bin_region binInfo,
          f_cardType = Some (coalesce (bin_cardType binInfo) CardUnknown),
          f_customerTenureDays = daysBetween (Some tenureSource) (en_now ctx),
          f_priorRecoveryRate = priorRecoveryRate, f_attemptNumber = en_attemptNumber ctx,
          f_daysSinceFirstFail = daysBetween (en_firstFailedAt ctx) (en_now ctx),
          f_issuerApprovalPrior = Some issuerApprovalPrior\<rparr>)"

definition customerStats :: "RecoveryFeatureStore \<Rightarrow> ident \<Rightarrow> ident \<Rightarrow> (int \<times> int \<times> real) option" where
  "customerStats fs merchantId customerId =
     map_option (\<lambda>c. (ca_total c, ca_recovered c, shrinkRate (ca_recovered c) (ca_total c) (fc_customerPrior (fs_config fs))))
       (fs_customers fs (customerKey merchantId customerId))"

definition issuerStats :: "RecoveryFeatureStore \<Rightarrow> string \<Rightarrow> (int \<times> int \<times> real) option" where
  "issuerStats fs bin =
     map_option (\<lambda>a. (ia_total a, ia_recovered a, shrinkRate (ia_recovered a) (ia_total a) (fc_issuerPrior (fs_config fs))))
       (issuer_of fs (Some bin))"

subsection \<open>Invariant\<close>

definition fs_ok :: "RecoveryFeatureStore \<Rightarrow> bool" where
  "fs_ok fs \<longleftrightarrow>
     (\<forall>k c. fs_customers fs k = Some c \<longrightarrow> 0 \<le> ca_recovered c \<and> ca_recovered c \<le> ca_total c) \<and>
     (\<forall>k a. fs_issuers fs k = Some a \<longrightarrow> 0 \<le> ia_recovered a \<and> ia_recovered a \<le> ia_total a) \<and>
     good_prior (fc_customerPrior (fs_config fs)) \<and> good_prior (fc_issuerPrior (fs_config fs))"

lemma fs_ok_new:
  "good_prior (fc_customerPrior config) \<Longrightarrow> good_prior (fc_issuerPrior config) \<Longrightarrow> fs_ok (new_feature_store config)"
  by (simp add: fs_ok_def new_feature_store_def)

lemma fs_ok_default: "fs_ok (new_feature_store DEFAULT_FEATURE_STORE_CONFIG)"
  by (rule fs_ok_new) (simp_all add: DEFAULT_FEATURE_STORE_CONFIG_def good_betaFromMeanStrength)

lemma observe_frame [simp]:
  "fs_issuers (fs_observe m c now created fs) = fs_issuers fs"
  "fs_config (fs_observe m c now created fs) = fs_config fs"
  by (simp_all add: fs_observe_def Let_def split: option.split)

lemma observe_rate_counts:
  "coalesce (map_option ca_total (fs_customers (fs_observe m c now created fs) k)) 0 =
     coalesce (map_option ca_total (fs_customers fs k)) 0"
  "coalesce (map_option ca_recovered (fs_customers (fs_observe m c now created fs) k)) 0 =
     coalesce (map_option ca_recovered (fs_customers fs k)) 0"
  by (simp_all add: fs_observe_def Let_def split: option.split)

lemma record_config [simp]: "fs_config (fs_recordOutcome m c bin rec now fs) = fs_config fs"
  by (simp add: fs_recordOutcome_def Let_def split: option.split)

lemma record_customers:
  "fs_customers (fs_recordOutcome m c bin rec now fs) = (fs_customers fs)(customerKey m c \<mapsto>
     (let a = coalesce (fs_customers fs (customerKey m c))
        \<lparr>ca_total = 0, ca_recovered = 0, ca_firstSeen = coalesce now (Some 0), ca_createdAt = None\<rparr>
      in a\<lparr>ca_total := ca_total a + 1, ca_recovered := ca_recovered a + (if rec then 1 else 0)\<rparr>))"
  by (simp add: fs_recordOutcome_def Let_def split: option.split)

lemma record_issuers:
  "fs_issuers (fs_recordOutcome m c bin rec now fs) =
     (case nonempty (issuerKeyFor (fs_config fs) bin) of
        None \<Rightarrow> fs_issuers fs
      | Some ik \<Rightarrow> (fs_issuers fs)(ik \<mapsto>
          (let a = coalesce (fs_issuers fs ik) \<lparr>ia_total = 0, ia_recovered = 0\<rparr>
           in \<lparr>ia_total = ia_total a + 1, ia_recovered = ia_recovered a + (if rec then 1 else 0)\<rparr>)))"
  by (simp add: fs_recordOutcome_def Let_def split: option.split)

text \<open>The counts of an aggregate, and the two conditions of the invariant on them.\<close>

definition cust_counts_ok :: "CustomerAgg \<Rightarrow> bool" where
  "cust_counts_ok c \<longleftrightarrow> 0 \<le> ca_recovered c \<and> ca_recovered c \<le> ca_total c"

definition issuer_counts_ok :: "IssuerAgg \<Rightarrow> bool" where
  "issuer_counts_ok a \<longleftrightarrow> 0 \<le> ia_recovered a \<and> ia_recovered a \<le> ia_total a"

lemma fs_ok_parts:
  "fs_ok fs \<longleftrightarrow> (\<forall>c\<in>ran (fs_customers fs). cust_counts_ok c) \<and> (\<forall>a\<in>ran (fs_issuers fs). issuer_counts_ok a) \<and>
     good_prior (fc_customerPrior (fs_config fs)) \<and> good_prior (fc_issuerPrior (fs_config fs))"
  by (auto simp: fs_ok_def ran_def cust_counts_ok_def issuer_counts_ok_def)

lemma ran_coalesce: "\<forall>c\<in>ran m. P c \<Longrightarrow> P d \<Longrightarrow> P (coalesce (m k) d)"
  by (cases "m k") (auto simp: ran_def)

lemma ran_update: "\<forall>c\<in>ran m. P c \<Longrightarrow> P d \<Longrightarrow> \<forall>c\<in>ran (m(k \<mapsto> d)). P c"
  by (auto simp: ran_def)

lemma fs_ok_observe:
  assumes "fs_ok fs"
  shows "fs_ok (fs_observe m c now created fs)"
proof -
  have all: "\<forall>c\<in>ran (fs_customers fs). cust_counts_ok c" using assms by (simp add: fs_ok_parts)
  have "\<forall>c\<in>ran (fs_customers (fs_observe m c now created fs)). cust_counts_ok c"
  proof (cases "fs_customers fs (customerKey m c)")
    case None
    have new: "cust_counts_ok \<lparr>ca_total = 0, ca_recovered = 0, ca_firstSeen = now, ca_createdAt = created\<rparr>"
      by (simp add: cust_counts_ok_def)
    from None ran_update [OF all new] show ?thesis by (simp add: fs_observe_def Let_def del: ran_map_upd)
  next
    case (Some a)
    then have "cust_counts_ok a" using all by (auto simp: ran_def)
    then have upd: "cust_counts_ok (a\<lparr>ca_firstSeen := x, ca_createdAt := y\<rparr>)" for x y
      by (simp add: cust_counts_ok_def)
    from Some ran_update [OF all upd] show ?thesis by (simp add: fs_observe_def Let_def del: ran_map_upd)
  qed
  then show ?thesis using assms by (simp add: fs_ok_parts)
qed

lemma fs_ok_recordOutcome:
  assumes "fs_ok fs"
  shows "fs_ok (fs_recordOutcome m cu bin rec now fs)"
proof -
  have c: "cust_counts_ok d \<Longrightarrow> cust_counts_ok (coalesce (fs_customers fs k) d)" for d k
    using assms by (auto simp: fs_ok_parts intro: ran_coalesce)
  have i: "issuer_counts_ok d \<Longrightarrow> issuer_counts_ok (coalesce (fs_issuers fs k) d)" for d k
    using assms by (auto simp: fs_ok_parts intro: ran_coalesce)
  have c': "cust_counts_ok (a\<lparr>ca_total := ca_total a + 1, ca_recovered := ca_recovered a + (if rec then 1 else 0)\<rparr>)"
    if "cust_counts_ok a" for a using that by (simp add: cust_counts_ok_def)
  have i': "issuer_counts_ok \<lparr>ia_total = ia_total a + 1, ia_recovered = ia_recovered a + (if rec then 1 else 0)\<rparr>"
    if "issuer_counts_ok a" for a using that by (simp add: issuer_counts_ok_def)
  have "\<forall>c\<in>ran (fs_customers (fs_recordOutcome m cu bin rec now fs)). cust_counts_ok c"
    unfolding record_customers Let_def
    by (intro ran_update c' c) (use assms in \<open>simp_all add: fs_ok_parts cust_counts_ok_def\<close>)
  moreover have "\<forall>a\<in>ran (fs_issuers (fs_recordOutcome m cu bin rec now fs)). issuer_counts_ok a"
  proof (cases "nonempty (issuerKeyFor (fs_config fs) bin)")
    case None
    then show ?thesis using assms by (simp add: record_issuers fs_ok_parts)
  next
    case (Some ik)
    show ?thesis
      unfolding record_issuers Some Let_def option.case
      by (intro ran_update i' i) (use assms in \<open>simp_all add: fs_ok_parts issuer_counts_ok_def\<close>)
  qed
  ultimately show ?thesis using assms by (simp add: fs_ok_parts)
qed

lemma fs_enrich_probabilities:
  assumes "fs_ok fs"
  shows "0 \<le> f_priorRecoveryRate (fs_enrich fs ctx)" "f_priorRecoveryRate (fs_enrich fs ctx) \<le> 1"
    "0 \<le> f_daysSinceFirstFail (fs_enrich fs ctx)" "0 \<le> f_customerTenureDays (fs_enrich fs ctx)"
    "\<exists>p. f_issuerApprovalPrior (fs_enrich fs ctx) = Some p \<and> 0 \<le> p \<and> p \<le> 1"
proof -
  have days: "0 \<le> daysBetween a b" for a b
    by (auto simp: daysBetween_def Let_def split: option.splits)
  have c: "0 \<le> coalesce (map_option ca_recovered (fs_customers fs k)) 0 \<and>
     coalesce (map_option ca_recovered (fs_customers fs k)) 0 \<le> coalesce (map_option ca_total (fs_customers fs k)) 0" for k
    using assms by (cases "fs_customers fs k") (auto simp: fs_ok_def)
  have i: "0 \<le> coalesce (map_option ia_recovered (issuer_of fs b)) 0 \<and>
     coalesce (map_option ia_recovered (issuer_of fs b)) 0 \<le> coalesce (map_option ia_total (issuer_of fs b)) 0" for b
    using assms by (cases "issuer_of fs b") (auto simp: fs_ok_def issuer_of_def bind_eq_Some_conv)
  show "0 \<le> f_priorRecoveryRate (fs_enrich fs ctx)" "f_priorRecoveryRate (fs_enrich fs ctx) \<le> 1"
    using c assms shrinkRate_range by (simp_all add: fs_enrich_def Let_def fs_ok_def)
  show "0 \<le> f_daysSinceFirstFail (fs_enrich fs ctx)" "0 \<le> f_customerTenureDays (fs_enrich fs ctx)"
    using days by (simp_all add: fs_enrich_def Let_def)
  show "\<exists>p. f_issuerApprovalPrior (fs_enrich fs ctx) = Some p \<and> 0 \<le> p \<and> p \<le> 1"
    using i assms shrinkRate_range by (simp add: fs_enrich_def Let_def fs_ok_def)
qed

subsection \<open>No cross-talk\<close>

text \<open>
  An outcome of one customer and issuer leaves the features of every other customer on every
  other issuer unchanged.
\<close>

lemma fs_recordOutcome_frame:
  assumes "customerKey m c \<noteq> customerKey (en_merchantId ctx) (en_customerId ctx)"
    and "nonempty (issuerKeyFor (fs_config fs) bin) \<noteq> nonempty (issuerKeyFor (fs_config fs) (en_bin ctx))
         \<or> nonempty (issuerKeyFor (fs_config fs) bin) = None"
  shows "fs_enrich (fs_recordOutcome m c bin rec now fs) ctx = fs_enrich fs ctx"
proof -
  have "issuer_of (fs_recordOutcome m c bin rec now fs) (en_bin ctx) = issuer_of fs (en_bin ctx)"
    using assms(2)
    by (cases "nonempty (issuerKeyFor (fs_config fs) (en_bin ctx))")
      (auto simp: issuer_of_def record_issuers split: option.split)
  then show ?thesis
    using assms(1) by (simp add: fs_enrich_def Let_def record_customers)
qed

text \<open>Stamping first contact changes the rates of nobody.\<close>

lemma fs_observe_rates:
  "f_priorRecoveryRate (fs_enrich (fs_observe m c now created fs) ctx) = f_priorRecoveryRate (fs_enrich fs ctx)"
  "f_issuerApprovalPrior (fs_enrich (fs_observe m c now created fs) ctx) = f_issuerApprovalPrior (fs_enrich fs ctx)"
  by (simp_all add: fs_enrich_def Let_def issuer_of_def observe_rate_counts)

end
