(* ===== verification/Comms.thy ===== *)
theory Comms
  imports Effects Guardrail Json "HOL-Library.Sublist"
begin

text \<open>
  Dunning communications of \<open>packages/comms\<close>: composing a card-update prompt (\<open>dunning.ts\<close>) and
  sending it (\<open>sender.ts\<close>). Outside the repository, and so arguments here: the currency printer
  of \<open>Intl.NumberFormat\<close> (\<open>fmt\<close>), the language model behind \<open>LlmClient\<close>, and the HTTP transport
  (\<open>fetch\<close>) with the JSON field reader applied to its response. Both agents satisfy one
  contract, the locale \<open>dunning_agent\<close>; every sender satisfies \<open>dunning_sender\<close>.
\<close>

subsection \<open>Strings\<close>

definition code_of :: "char \<Rightarrow> nat" where
  "code_of c = of_char c"

definition is_digit :: "char \<Rightarrow> bool" where
  "is_digit c = (48 \<le> code_of c \<and> code_of c \<le> 57)"

definition is_word :: "char \<Rightarrow> bool" where
  "is_word c = (is_digit c \<or> (65 \<le> code_of c \<and> code_of c \<le> 90) \<or> (97 \<le> code_of c \<and> code_of c \<le> 122) \<or> code_of c = 95)"

definition is_space :: "char \<Rightarrow> bool" where
  "is_space c = ((9 \<le> code_of c \<and> code_of c \<le> 13) \<or> code_of c = 32)"

definition trim :: "string \<Rightarrow> string" where
  "trim s = rev (dropWhile is_space (rev (dropWhile is_space s)))"

definition lower_char :: "char \<Rightarrow> char" where
  "lower_char c = (if 65 \<le> code_of c \<and> code_of c \<le> 90 then char_of (code_of c + 32) else c)"

definition to_lower :: "string \<Rightarrow> string" where
  "to_lower s = map lower_char s"

text \<open>\<open>s.length\<close> counts UTF-16 units: one per UTF-8 sequence, two for those of four bytes.\<close>

definition js_length :: "string \<Rightarrow> nat" where
  "js_length s = sum_list (map (\<lambda>c. if 128 \<le> code_of c \<and> code_of c < 192 then 0
                                   else if 240 \<le> code_of c then 2 else 1) s)"

definition str_includes :: "string \<Rightarrow> string \<Rightarrow> bool" where
  "str_includes s t = sublist t s"

lemma includes_intro: "s = a @ t @ b \<Longrightarrow> str_includes s t"
  by (auto simp: str_includes_def sublist_def)

subsection \<open>Messages\<close>

datatype DunningChannel = DcEmail | DcSms

fun dunning_channel :: "DunningChannel \<Rightarrow> CommsChannel" where
  "dunning_channel DcEmail = ChEmail"
| "dunning_channel DcSms = ChSms"

datatype GeneratedBy = ByTemplate | ByLlm

record DunningContext =
  dx_channel :: DunningChannel
  dx_declineCode :: DeclineCode
  dx_merchantName :: string
  dx_amountMinor :: int
  dx_currency :: string
  dx_updateCardUrl :: string
  dx_optOutInstruction :: string
  dx_customerName :: "string option"
  dx_cardLast4 :: "string option"
  dx_locale :: "string option"
  dx_reminderNumber :: "int option"

record DunningMessage =
  dm_channel :: DunningChannel
  dm_subject :: "string option"
  dm_body :: string
  dm_generatedBy :: GeneratedBy

definition humanReason :: "DeclineCode \<Rightarrow> string" where
  "humanReason code =
     (case code of
        ExpiredCard \<Rightarrow> ''your card on file has expired''
      | LostCard \<Rightarrow> ''your card was reported lost or stolen''
      | StolenCard \<Rightarrow> ''your card was reported lost or stolen''
      | ClosedAccount \<Rightarrow> ''the account for your card is closed''
      | InvalidCard \<Rightarrow> ''your card can no longer be charged''
      | PickupCard \<Rightarrow> ''your card can no longer be charged''
      | CardNotSupported \<Rightarrow> ''your card can no longer be charged''
      | _ \<Rightarrow> ''we couldn'' @ [CHR 0x27] @ ''t process your card'')"

text \<open>
  The test \<open>\b\d(?:[ -]?\d){12,18}\b\<close>. After the first digit each repetition is forced (a digit,
  or one separator and a digit), so the match needs no backtracking; \<open>k\<close> counts repetitions.
\<close>

definition boundary :: "string \<Rightarrow> bool" where
  "boundary s = (case s of [] \<Rightarrow> True | c # _ \<Rightarrow> \<not> is_word c)"

definition pan_sep :: "char \<Rightarrow> bool" where
  "pan_sep c = (c = CHR '' '' \<or> c = CHR ''-'')"

fun pan_run :: "nat \<Rightarrow> string \<Rightarrow> bool" where
  "pan_run k [] = (12 \<le> k \<and> k \<le> 18)"
| "pan_run k [c] =
     ((12 \<le> k \<and> k \<le> 18 \<and> boundary [c]) \<or> (k < 18 \<and> is_digit c \<and> pan_run (Suc k) []))"
| "pan_run k (c # d # s) =
     ((12 \<le> k \<and> k \<le> 18 \<and> boundary (c # d # s)) \<or>
      (k < 18 \<and> (if is_digit c then pan_run (Suc k) (d # s)
                 else pan_sep c \<and> is_digit d \<and> pan_run (Suc k) s)))"

fun pan_from :: "bool \<Rightarrow> string \<Rightarrow> bool" where
  "pan_from prev_word [] = False"
| "pan_from prev_word (c # s) = ((\<not> prev_word \<and> is_digit c \<and> pan_run 0 s) \<or> pan_from (is_word c) s)"

definition containsPanLike :: "string \<Rightarrow> bool" where
  "containsPanLike text' = pan_from False text'"

definition newline :: string where
  "newline = [CHR 0x0A]"

text \<open>\<open>validateMessage\<close>: \<open>None\<close> is \<open>ok\<close>, \<open>Some reason\<close> is a refusal.\<close>

definition validateMessage :: "DunningMessage \<Rightarrow> DunningContext \<Rightarrow> string option" where
  "validateMessage msg ctx =
     (let full = coalesce (dm_subject msg) [] @ newline @ dm_body msg;
          hasOptOut = str_includes (dm_body msg) (dx_optOutInstruction ctx)
            \<or> (dx_channel ctx = DcSms \<and> str_includes (to_lower (dm_body msg)) ''stop'');
          maxBody = (if dx_channel ctx = DcSms then 400 else 4000)
      in if trim (dm_body msg) = [] then Some ''empty body''
         else if containsPanLike full then Some ''PAN-like sequence present''
         else if \<not> str_includes (dm_body msg) (dx_updateCardUrl ctx) then Some ''missing the update-card link''
         else if \<not> hasOptOut then Some ''missing opt-out instruction''
         else if maxBody < js_length (dm_body msg) then Some ''body too long''
         else if dx_channel ctx = DcEmail \<and> trim (coalesce (dm_subject msg) []) = []
              then Some ''email needs a subject''
         else None)"

subsection \<open>The template agent\<close>

text \<open>Falsy (missing or empty) text is skipped.\<close>

definition given :: "string option \<Rightarrow> bool" where
  "given s = (s \<noteq> None \<and> s \<noteq> Some [])"

definition composeTemplate :: "(int \<Rightarrow> string \<Rightarrow> string) \<Rightarrow> DunningContext \<Rightarrow> DunningMessage" where
  "composeTemplate fmt ctx =
     (let amount = fmt (dx_amountMinor ctx) (dx_currency ctx);
          reason = humanReason (dx_declineCode ctx);
          who = (if given (dx_customerName ctx) then coalesce (dx_customerName ctx) [] else ''there'');
          last4 = (if given (dx_cardLast4 ctx)
                   then '' (card ending '' @ coalesce (dx_cardLast4 ctx) [] @ '')'' else [])
      in if dx_channel ctx = DcSms then
           \<lparr>dm_channel = DcSms, dm_subject = None,
            dm_body = dx_merchantName ctx @ '': your '' @ amount @ '' payment didn'' @ [CHR 0x27] @ ''t go through ''
              @ emdash @ '' '' @ reason @ last4 @ ''. Update your card: '' @ dx_updateCardUrl ctx
              @ '' '' @ emdash @ '' '' @ dx_optOutInstruction ctx,
            dm_generatedBy = ByTemplate\<rparr>
         else
           \<lparr>dm_channel = DcEmail,
            dm_subject = Some (''Action needed: update your payment method for '' @ dx_merchantName ctx),
            dm_body = ''Hi '' @ who @ '','' @ newline @ newline
              @ ''We tried to process your payment of '' @ amount @ '' to '' @ dx_merchantName ctx
              @ '', but '' @ reason @ last4 @ ''.'' @ newline @ newline
              @ ''To keep your subscription active, please update your card here:'' @ newline
              @ dx_updateCardUrl ctx @ newline @ newline
              @ dx_optOutInstruction ctx @ newline @ newline
              @ ''Thanks,'' @ newline @ dx_merchantName ctx,
            dm_generatedBy = ByTemplate\<rparr>)"

definition template_compose :: "(int \<Rightarrow> string \<Rightarrow> string) \<Rightarrow> DunningContext \<Rightarrow> ('w, DunningMessage) eff" where
  "template_compose fmt ctx = ok (composeTemplate fmt ctx)"

subsection \<open>The LLM agent\<close>

text \<open>
  The pattern \<open>^subject:\s*(.+?)\r?\n\r?\n([\s\S]+)$\<close> (case-insensitive). The line \<open>(.+?)\<close> is
  the whole run of characters up to the line end; \<open>\s*\<close> takes as much as it can and gives
  back characters only if the rest does not match.
\<close>

definition eol :: "string \<Rightarrow> string option" where
  "eol s = (case s of
      c # r \<Rightarrow> if c = CHR 0x0A then Some r
               else if c = CHR 0x0D then (case r of d # r' \<Rightarrow> if d = CHR 0x0A then Some r' else None | [] \<Rightarrow> None)
               else None
    | [] \<Rightarrow> None)"

definition line_and_body :: "string \<Rightarrow> (string \<times> string) option" where
  "line_and_body s =
     (let line = takeWhile (\<lambda>c. c \<noteq> CHR 0x0A \<and> c \<noteq> CHR 0x0D) s;
          rest = dropWhile (\<lambda>c. c \<noteq> CHR 0x0A \<and> c \<noteq> CHR 0x0D) s
      in if line = [] then None
         else (case Option.bind (eol rest) eol of
                 Some body \<Rightarrow> if body = [] then None else Some (line, body)
               | None \<Rightarrow> None))"

definition match_email :: "string \<Rightarrow> (string \<times> string) option" where
  "match_email text' =
     (if to_lower (take 8 text') \<noteq> ''subject:'' then None
      else
        (let r = drop 8 text'; w = length (takeWhile is_space r)
         in Option.bind (List.find (\<lambda>j. line_and_body (drop j r) \<noteq> None) (rev [0..<Suc w]))
              (\<lambda>j. line_and_body (drop j r))))"

definition parseLlmOutput :: "string \<Rightarrow> DunningChannel \<Rightarrow> DunningMessage option" where
  "parseLlmOutput raw ch =
     (let text' = trim raw in
      if text' = [] then None
      else if ch = DcSms then
        Some \<lparr>dm_channel = DcSms, dm_subject = None, dm_body = text', dm_generatedBy = ByLlm\<rparr>
      else
        (case match_email text' of
           None \<Rightarrow> None
         | Some (subj, body) \<Rightarrow>
             Some \<lparr>dm_channel = DcEmail, dm_subject = Some (trim subj), dm_body = trim body,
                   dm_generatedBy = ByLlm\<rparr>))"

definition systemPrompt :: "string option \<Rightarrow> DunningChannel \<Rightarrow> string" where
  "systemPrompt brandVoice ch =
     join newline (filter (\<lambda>l. l \<noteq> [])
       [''You write short, warm card-update (dunning) messages for a payments-recovery service.'',
        ''HARD RULES:'',
        ''- Never invent or include a full card number (PAN). Only the last 4 may appear, and only if given.'',
        ''- Include the exact update-card URL provided, verbatim. Do not shorten or alter it.'',
        ''- Include the exact opt-out instruction provided.'',
        ''- Be honest and non-threatening: no fake urgency, no legal threats, no guilt.'',
        (if ch = DcSms
         then ''- SMS: one message, under ~300 characters, no subject line. Output ONLY the message text.''
         else ''- Email: output '' @ [CHR 0x22] @ ''Subject: <line>'' @ [CHR 0x22]
              @ '' on the first line, then a blank line, then the body.''),
        (if given brandVoice then ''BRAND VOICE: '' @ coalesce brandVoice [] else [])])"

definition nullable :: "string option \<Rightarrow> json" where
  "nullable s = (case s of None \<Rightarrow> JNull | Some t \<Rightarrow> JStr t)"

definition userPrompt :: "(int \<Rightarrow> string \<Rightarrow> string) \<Rightarrow> DunningContext \<Rightarrow> string" where
  "userPrompt fmt ctx =
     stringify (JObj
       [(''merchant'', JStr (dx_merchantName ctx)),
        (''reason'', JStr (humanReason (dx_declineCode ctx))),
        (''amount'', JStr (fmt (dx_amountMinor ctx) (dx_currency ctx))),
        (''customerName'', nullable (dx_customerName ctx)),
        (''cardLast4'', nullable (dx_cardLast4 ctx)),
        (''updateCardUrl'', JStr (dx_updateCardUrl ctx)),
        (''optOutInstruction'', JStr (dx_optOutInstruction ctx)),
        (''reminderNumber'', jint (coalesce (dx_reminderNumber ctx) 1)),
        (''locale'', JStr (coalesce (dx_locale ctx) ''en-US''))])"

definition llm_compose ::
  "(string \<Rightarrow> string \<Rightarrow> int \<Rightarrow> ('w, string) eff) \<Rightarrow> string option \<Rightarrow> int option \<Rightarrow>
   (int \<Rightarrow> string \<Rightarrow> string) \<Rightarrow> DunningContext \<Rightarrow> ('w, DunningMessage) eff" where
  "llm_compose llm brandVoice maxTokens fmt ctx =
     catchE
       (andThen (llm (systemPrompt brandVoice (dx_channel ctx)) (userPrompt fmt ctx) (coalesce maxTokens 400)) (\<lambda>raw.
          (case parseLlmOutput raw (dx_channel ctx) of
             Some msg \<Rightarrow> if validateMessage msg ctx = None then ok msg else ok (composeTemplate fmt ctx)
           | None \<Rightarrow> ok (composeTemplate fmt ctx))))
       (\<lambda>_. ok (composeTemplate fmt ctx))"

subsection \<open>The contract of an agent\<close>

definition carries_opt_out :: "DunningMessage \<Rightarrow> DunningContext \<Rightarrow> bool" where
  "carries_opt_out msg ctx \<longleftrightarrow>
     str_includes (dm_body msg) (dx_optOutInstruction ctx) \<or>
     (dx_channel ctx = DcSms \<and> str_includes (to_lower (dm_body msg)) ''stop'')"

definition message_ok :: "DunningMessage \<Rightarrow> DunningContext \<Rightarrow> bool" where
  "message_ok msg ctx \<longleftrightarrow>
     dm_channel msg = dx_channel ctx \<and> str_includes (dm_body msg) (dx_updateCardUrl ctx) \<and>
     carries_opt_out msg ctx \<and> dm_body msg \<noteq> [] \<and>
     (dm_generatedBy msg = ByLlm \<longrightarrow> validateMessage msg ctx = None)"

lemma validated_ok:
  assumes "validateMessage msg ctx = None" "dm_channel msg = dx_channel ctx"
  shows "message_ok msg ctx" "\<not> containsPanLike (coalesce (dm_subject msg) [] @ newline @ dm_body msg)"
proof -
  have "dm_body msg \<noteq> []" using assms(1) by (auto simp: validateMessage_def trim_def)
  then show "message_ok msg ctx"
    using assms by (auto simp: message_ok_def carries_opt_out_def validateMessage_def Let_def split: if_splits)
  show "\<not> containsPanLike (coalesce (dm_subject msg) [] @ newline @ dm_body msg)"
    using assms(1) by (auto simp: validateMessage_def Let_def split: if_splits)
qed

lemma template_ok: "message_ok (composeTemplate fmt ctx) ctx"
proof (cases "dx_channel ctx")
  case DcSms
  define a b where "a = dx_merchantName ctx @ '': your '' @ fmt (dx_amountMinor ctx) (dx_currency ctx)
        @ '' payment didn'' @ [CHR 0x27] @ ''t go through '' @ emdash @ '' '' @ humanReason (dx_declineCode ctx)
        @ (if given (dx_cardLast4 ctx) then '' (card ending '' @ coalesce (dx_cardLast4 ctx) [] @ '')'' else [])
        @ ''. Update your card: ''"
    and "b = '' '' @ emdash @ '' ''"
  have body: "dm_body (composeTemplate fmt ctx) = a @ dx_updateCardUrl ctx @ b @ dx_optOutInstruction ctx"
    using DcSms by (simp add: composeTemplate_def Let_def a_def b_def)
  then have "str_includes (dm_body (composeTemplate fmt ctx)) (dx_updateCardUrl ctx)"
    by (auto intro: includes_intro)
  moreover have "str_includes (dm_body (composeTemplate fmt ctx)) (dx_optOutInstruction ctx)"
    using body by (intro includes_intro [of _ "a @ dx_updateCardUrl ctx @ b" _ "[]"]) simp
  moreover have "a \<noteq> []" by (simp add: a_def)
  ultimately show ?thesis
    using body DcSms by (simp add: message_ok_def carries_opt_out_def composeTemplate_def Let_def)
next
  case DcEmail
  define a b c where "a = ''Hi '' @ (if given (dx_customerName ctx) then coalesce (dx_customerName ctx) [] else ''there'')
        @ '','' @ newline @ newline
        @ ''We tried to process your payment of '' @ fmt (dx_amountMinor ctx) (dx_currency ctx) @ '' to '' @ dx_merchantName ctx
        @ '', but '' @ humanReason (dx_declineCode ctx)
        @ (if given (dx_cardLast4 ctx) then '' (card ending '' @ coalesce (dx_cardLast4 ctx) [] @ '')'' else [])
        @ ''.'' @ newline @ newline
        @ ''To keep your subscription active, please update your card here:'' @ newline"
    and "b = newline @ newline" and "c = newline @ newline @ ''Thanks,'' @ newline @ dx_merchantName ctx"
  have body: "dm_body (composeTemplate fmt ctx) = a @ dx_updateCardUrl ctx @ b @ dx_optOutInstruction ctx @ c"
    using DcEmail by (simp add: composeTemplate_def Let_def a_def b_def c_def)
  then have "str_includes (dm_body (composeTemplate fmt ctx)) (dx_updateCardUrl ctx)"
    by (auto intro: includes_intro)
  moreover have "str_includes (dm_body (composeTemplate fmt ctx)) (dx_optOutInstruction ctx)"
    using body by (intro includes_intro [of _ "a @ dx_updateCardUrl ctx @ b" _ c]) simp
  moreover have "a \<noteq> []" by (simp add: a_def)
  ultimately show ?thesis
    using body DcEmail by (simp add: message_ok_def carries_opt_out_def composeTemplate_def Let_def)
qed

text \<open>
  A dunning agent always answers, never throws, on the channel asked for; the message carries
  the merchant's update link verbatim and a way to opt out, and what a language model wrote
  has passed the validation (no card number, bounded length, a subject for an email).
\<close>

locale dunning_agent =
  fixes compose :: "DunningContext \<Rightarrow> ('w, DunningMessage) eff"
  assumes compose_total: "\<exists>msg w'. compose ctx w = (Inr msg, w')"
    and compose_ok: "compose ctx w = (Inr msg, w') \<Longrightarrow> message_ok msg ctx"
begin

lemma composed_message:
  obtains msg w' where "compose ctx w = (Inr msg, w')" "message_ok msg ctx"
  using compose_total [of ctx w] compose_ok by blast

lemma composed_channel: "compose ctx w = (Inr msg, w') \<Longrightarrow> dm_channel msg = dx_channel ctx"
  using compose_ok [of ctx w msg w'] by (simp add: message_ok_def)

end

interpretation template_agent: dunning_agent "template_compose fmt" for fmt
  by unfold_locales (auto simp: template_compose_def ok_def template_ok)

lemma parseLlmOutput_channel: "parseLlmOutput raw ch = Some msg \<Longrightarrow> dm_channel msg = ch \<and> dm_generatedBy msg = ByLlm"
  by (cases ch) (auto simp: parseLlmOutput_def Let_def split: if_splits option.splits)

lemma llm_compose_result:
  "\<exists>msg w'. llm_compose llm brandVoice maxTokens fmt ctx w = (Inr msg, w') \<and>
     (msg = composeTemplate fmt ctx \<or> (\<exists>raw. parseLlmOutput raw (dx_channel ctx) = Some msg \<and> validateMessage msg ctx = None))"
proof (cases "llm (systemPrompt brandVoice (dx_channel ctx)) (userPrompt fmt ctx) (coalesce maxTokens 400) w")
  case (Pair r w')
  show ?thesis
  proof (cases r)
    case (Inl e)
    with Pair show ?thesis by (simp add: llm_compose_def catchE_def andThen_def ok_def)
  next
    case (Inr raw)
    with Pair show ?thesis
      by (cases "parseLlmOutput raw (dx_channel ctx)")
        (auto simp: llm_compose_def catchE_def andThen_def ok_def)
  qed
qed

interpretation llm_agent: dunning_agent "llm_compose llm brandVoice maxTokens fmt" for llm brandVoice maxTokens fmt
proof unfold_locales
  fix ctx w
  show "\<exists>msg w'. llm_compose llm brandVoice maxTokens fmt ctx w = (Inr msg, w')"
    using llm_compose_result by metis
next
  fix ctx w msg w'
  assume "llm_compose llm brandVoice maxTokens fmt ctx w = (Inr msg, w')"
  then have "msg = composeTemplate fmt ctx \<or>
      (\<exists>raw. parseLlmOutput raw (dx_channel ctx) = Some msg \<and> validateMessage msg ctx = None)"
    using llm_compose_result [of llm brandVoice maxTokens fmt ctx w] by auto
  then show "message_ok msg ctx"
    using template_ok validated_ok(1) parseLlmOutput_channel by blast
qed

subsection \<open>Sending\<close>

record DunningRecipient =
  dr_channel :: DunningChannel
  dr_email :: "string option"
  dr_phone :: "string option"

datatype SendStatus = Sent | DryRun | SendFailed

record SendResult =
  sd_status :: SendStatus
  sd_channel :: DunningChannel
  sd_provider :: string
  sd_providerMessageId :: "string option"
  sd_error :: "string option"
  sd_retriable :: "bool option"
  sd_attempts :: "int option"

type_synonym 'w sender = "DunningMessage \<Rightarrow> DunningRecipient \<Rightarrow> ('w, SendResult) eff"

text \<open>\<open>assertSendable\<close>: the reason of the refusal it throws, or nothing.\<close>

definition assertSendable :: "DunningMessage \<Rightarrow> DunningRecipient \<Rightarrow> string option" where
  "assertSendable message recipient =
     (if dr_channel recipient \<noteq> dm_channel message then Some ''recipient channel != message channel''
      else if trim (dm_body message) = [] then Some ''empty body''
      else if containsPanLike (coalesce (dm_subject message) [] @ newline @ dm_body message)
           then Some ''PAN-like sequence in payload''
      else if dm_channel message = DcEmail \<and> \<not> given (dr_email recipient)
           then Some ''email channel requires recipient.email''
      else if dm_channel message = DcSms \<and> \<not> given (dr_phone recipient)
           then Some ''sms channel requires recipient.phone''
      else None)"

definition send_result :: "SendStatus \<Rightarrow> DunningChannel \<Rightarrow> string \<Rightarrow> SendResult" where
  "send_result status ch provider =
     \<lparr>sd_status = status, sd_channel = ch, sd_provider = provider, sd_providerMessageId = None,
      sd_error = None, sd_retriable = None, sd_attempts = None\<rparr>"

text \<open>A refusal is permanent; an error thrown by the transport is retriable.\<close>

definition failed_refused :: "DunningChannel \<Rightarrow> string \<Rightarrow> string \<Rightarrow> SendResult" where
  "failed_refused ch provider reason =
     (send_result SendFailed ch provider)\<lparr>sd_error := Some reason, sd_retriable := Some False\<rparr>"

definition failed_thrown :: "DunningChannel \<Rightarrow> string \<Rightarrow> js_error \<Rightarrow> SendResult" where
  "failed_thrown ch provider e =
     (send_result SendFailed ch provider)
       \<lparr>sd_error := Some (case e of RangeError m \<Rightarrow> m | TypeError m \<Rightarrow> m | JsError m \<Rightarrow> m), sd_retriable := Some True\<rparr>"

definition httpRetriable :: "int \<Rightarrow> bool" where
  "httpRetriable status = (500 \<le> status \<or> status = 429)"

definition dry_run_send :: "'w sender" where
  "dry_run_send message recipient =
     (case assertSendable message recipient of
        Some reason \<Rightarrow> ok (failed_refused (dm_channel message) ''dry-run'' reason)
      | None \<Rightarrow> ok (send_result DryRun (dm_channel message) ''dry-run''))"

record HttpRequest =
  hq_url :: string
  hq_headers :: "(string \<times> string) list"
  hq_body :: string

record HttpResponse =
  hr_ok :: bool
  hr_status :: int
  hr_text :: string

record PostmarkConfig =
  pk_serverToken :: string
  pk_fromEmail :: string
  pk_messageStream :: "string option"
  pk_baseUrl :: "string option"

definition new_postmark :: "PostmarkConfig \<Rightarrow> js_error + PostmarkConfig" where
  "new_postmark cfg =
     (if pk_serverToken cfg = [] then Inl (JsError ''PostmarkEmailSender: serverToken is required'')
      else if pk_fromEmail cfg = [] then Inl (JsError ''PostmarkEmailSender: fromEmail is required'')
      else Inr cfg)"

definition postmark_send ::
  "(HttpRequest \<Rightarrow> ('w, HttpResponse) eff) \<Rightarrow> (string \<Rightarrow> string \<Rightarrow> string option) \<Rightarrow> PostmarkConfig \<Rightarrow> 'w sender" where
  "postmark_send fetch parseJsonField cfg message recipient =
     (case assertSendable message recipient of
        Some reason \<Rightarrow> ok (failed_refused DcEmail ''postmark'' reason)
      | None \<Rightarrow>
          catchE
            (andThen
              (fetch \<lparr>hq_url = coalesce (pk_baseUrl cfg) ''https://api.postmarkapp.com'' @ ''/email'',
                      hq_headers = [(''content-type'', ''application/json''), (''accept'', ''application/json''),
                                    (''x-postmark-server-token'', pk_serverToken cfg)],
                      hq_body = stringify (JObj
                        [(''From'', JStr (pk_fromEmail cfg)), (''To'', jopt (dr_email recipient)),
                         (''Subject'', JStr (coalesce (dm_subject message) [])),
                         (''TextBody'', JStr (dm_body message)),
                         (''MessageStream'', JStr (coalesce (pk_messageStream cfg) ''outbound''))])\<rparr>)
              (\<lambda>res. ok
                (if \<not> hr_ok res then
                   (send_result SendFailed DcEmail ''postmark'')
                     \<lparr>sd_error := Some (''HTTP '' @ show_int (hr_status res) @ '': '' @ take 200 (hr_text res)),
                      sd_retriable := Some (httpRetriable (hr_status res))\<rparr>
                 else
                   (send_result Sent DcEmail ''postmark'')
                     \<lparr>sd_providerMessageId := parseJsonField (hr_text res) ''MessageID''\<rparr>)))
            (\<lambda>e. ok (failed_thrown DcEmail ''postmark'' e)))"

record TwilioConfig =
  tw_accountSid :: string
  tw_authToken :: string
  tw_fromNumber :: string
  tw_baseUrl :: "string option"

definition new_twilio :: "TwilioConfig \<Rightarrow> js_error + TwilioConfig" where
  "new_twilio cfg =
     (if tw_accountSid cfg = [] \<or> tw_authToken cfg = [] then
        Inl (JsError ''TwilioSmsSender: accountSid + authToken are required'')
      else if tw_fromNumber cfg = [] then Inl (JsError ''TwilioSmsSender: fromNumber is required'')
      else Inr cfg)"

definition twilio_send ::
  "(HttpRequest \<Rightarrow> ('w, HttpResponse) eff) \<Rightarrow> (string \<Rightarrow> string \<Rightarrow> string option) \<Rightarrow>
   (string \<Rightarrow> string) \<Rightarrow> ((string \<times> string) list \<Rightarrow> string) \<Rightarrow> TwilioConfig \<Rightarrow> 'w sender" where
  "twilio_send fetch parseJsonField base64 form_encode cfg message recipient =
     (case assertSendable message recipient of
        Some reason \<Rightarrow> ok (failed_refused DcSms ''twilio'' reason)
      | None \<Rightarrow>
          catchE
            (andThen
              (fetch \<lparr>hq_url = coalesce (tw_baseUrl cfg) ''https://api.twilio.com'' @ ''/2010-04-01/Accounts/''
                               @ tw_accountSid cfg @ ''/Messages.json'',
                      hq_headers = [(''content-type'', ''application/x-www-form-urlencoded''),
                                    (''authorization'', ''Basic '' @ base64 (tw_accountSid cfg @ '':'' @ tw_authToken cfg))],
                      hq_body = form_encode [(''To'', coalesce (dr_phone recipient) []),
                                             (''From'', tw_fromNumber cfg), (''Body'', dm_body message)]\<rparr>)
              (\<lambda>res. ok
                (if \<not> hr_ok res then
                   (send_result SendFailed DcSms ''twilio'')
                     \<lparr>sd_error := Some (''HTTP '' @ show_int (hr_status res) @ '': '' @ take 200 (hr_text res)),
                      sd_retriable := Some (httpRetriable (hr_status res))\<rparr>
                 else
                   (send_result Sent DcSms ''twilio'')
                     \<lparr>sd_providerMessageId := parseJsonField (hr_text res) ''sid''\<rparr>)))
            (\<lambda>e. ok (failed_thrown DcSms ''twilio'' e)))"

definition composite_send :: "'w sender option \<Rightarrow> 'w sender option \<Rightarrow> 'w sender" where
  "composite_send email sms message recipient =
     (case (if dm_channel message = DcEmail then email else sms) of
        None \<Rightarrow> ok ((send_result SendFailed (dm_channel message) ''composite'')
          \<lparr>sd_error := Some ''no sender configured for channel''\<rparr>)
      | Some target \<Rightarrow> target message recipient)"

text \<open>
  The retry decorator: \<open>left\<close> tries remain after this one. The injected delay between tries
  has no effect on the result and is not modelled.
\<close>

fun retry_loop :: "'w sender \<Rightarrow> nat \<Rightarrow> int \<Rightarrow> 'w sender" where
  "retry_loop inner left attempt message recipient =
     andThen (inner message recipient) (\<lambda>last.
       if sd_status last \<noteq> SendFailed \<or> sd_retriable last \<noteq> Some True then ok (last\<lparr>sd_attempts := Some attempt\<rparr>)
       else (case left of
               0 \<Rightarrow> ok (last\<lparr>sd_attempts := Some attempt\<rparr>)
             | Suc n \<Rightarrow> retry_loop inner n (attempt + 1) message recipient))"

declare retry_loop.simps [simp del]

definition retrying_send :: "'w sender \<Rightarrow> int option \<Rightarrow> 'w sender" where
  "retrying_send inner maxAttempts message recipient =
     (let m = max 1 (coalesce maxAttempts 3) in retry_loop inner (nat (m - 1)) 1 message recipient)"

subsection \<open>The contract of a sender\<close>

text \<open>
  Sending never throws, and a message is only reported as sent if it was sendable: right
  channel, non-empty, no card number, an address for the channel.
\<close>

locale dunning_sender =
  fixes send :: "'w sender"
  assumes send_total: "\<exists>res w'. send m r w = (Inr res, w')"
    and sent_sendable: "send m r w = (Inr res, w') \<Longrightarrow> sd_status res = Sent \<Longrightarrow> assertSendable m r = None"
begin

lemma sent_has_no_pan:
  assumes "send m r w = (Inr res, w')" "sd_status res = Sent"
  shows "\<not> containsPanLike (coalesce (dm_subject m) [] @ newline @ dm_body m)" "dr_channel r = dm_channel m"
  using sent_sendable [OF assms] by (auto simp: assertSendable_def split: if_splits)

end

interpretation dry_run: dunning_sender dry_run_send
  by unfold_locales
    (auto simp: dry_run_send_def ok_def send_result_def failed_refused_def split: option.splits)

lemma postmark_sender: "dunning_sender (postmark_send fetch pf cfg)"
  by unfold_locales
    (auto simp: postmark_send_def ok_def catchE_def andThen_def failed_refused_def failed_thrown_def send_result_def
       split: option.splits prod.splits sum.splits)

lemma twilio_sender: "dunning_sender (twilio_send fetch pf base64 fe cfg)"
  by unfold_locales
    (auto simp: twilio_send_def ok_def catchE_def andThen_def failed_refused_def failed_thrown_def send_result_def
       split: option.splits prod.splits sum.splits)

lemma composite_sender:
  assumes "\<And>s. email = Some s \<Longrightarrow> dunning_sender s" "\<And>s. sms = Some s \<Longrightarrow> dunning_sender s"
  shows "dunning_sender (composite_send email sms)"
proof
  fix m r w
  show "\<exists>res w'. composite_send email sms m r w = (Inr res, w')"
    using assms [THEN dunning_sender.send_total]
    by (cases "if dm_channel m = DcEmail then email else sms") (auto simp: composite_send_def ok_def split: if_splits)
next
  fix m r w res w'
  assume "composite_send email sms m r w = (Inr res, w')" "sd_status res = Sent"
  then show "assertSendable m r = None"
    using assms [THEN dunning_sender.sent_sendable]
    by (cases "if dm_channel m = DcEmail then email else sms")
      (auto simp: composite_send_def ok_def send_result_def split: if_splits)
qed

lemma retry_loop_result:
  assumes "dunning_sender inner"
  shows "\<exists>res w'. retry_loop inner left attempt m r w = (Inr res, w') \<and>
     (\<exists>k. sd_attempts res = Some k \<and> attempt \<le> k \<and> k \<le> attempt + int left) \<and>
     (sd_status res = Sent \<longrightarrow> assertSendable m r = None)"
proof (induction left arbitrary: attempt w)
  case 0
  obtain res w' where "inner m r w = (Inr res, w')" using dunning_sender.send_total [OF assms] by blast
  then show ?case
    using dunning_sender.sent_sendable [OF assms]
    by (subst retry_loop.simps) (auto simp: andThen_def ok_def)
next
  case (Suc n)
  obtain res w' where i: "inner m r w = (Inr res, w')" using dunning_sender.send_total [OF assms] by blast
  show ?case
  proof (cases "sd_status res \<noteq> SendFailed \<or> sd_retriable res \<noteq> Some True")
    case True
    with i show ?thesis
      using dunning_sender.sent_sendable [OF assms]
      by (subst retry_loop.simps) (auto simp: andThen_def ok_def)
  next
    case False
    from Suc.IH [of "attempt + 1" w'] obtain res' w'' k where
      "retry_loop inner n (attempt + 1) m r w' = (Inr res', w'')" "sd_attempts res' = Some k"
      "attempt + 1 \<le> k" "k \<le> attempt + 1 + int n" "sd_status res' = Sent \<longrightarrow> assertSendable m r = None"
      by blast
    with False i show ?thesis by (subst retry_loop.simps) (auto simp: andThen_def)
  qed
qed

lemma retrying_result:
  assumes "dunning_sender inner"
  shows "\<exists>res w'. retrying_send inner n m r w = (Inr res, w') \<and>
     (\<exists>k. sd_attempts res = Some k \<and> 1 \<le> k \<and> k \<le> max 1 (coalesce n 3)) \<and>
     (sd_status res = Sent \<longrightarrow> assertSendable m r = None)"
proof -
  have "1 + int (nat (max 1 (coalesce n 3) - 1)) = max 1 (coalesce n 3)" by simp
  with retry_loop_result [OF assms, of "nat (max 1 (coalesce n 3) - 1)" 1 m r w]
  show ?thesis unfolding retrying_send_def Let_def by simp
qed

lemma retrying_sender:
  assumes "dunning_sender inner"
  shows "dunning_sender (retrying_send inner n)"
proof
  fix m r w
  show "\<exists>res w'. retrying_send inner n m r w = (Inr res, w')"
    using retrying_result [OF assms] by blast
next
  fix m r w res w'
  assume "retrying_send inner n m r w = (Inr res, w')" "sd_status res = Sent"
  then show "assertSendable m r = None"
    using retrying_result [OF assms, of n m r w] by auto
qed

text \<open>The transport the application builds: both providers, behind the retrying decorator.\<close>

interpretation provider_transport: dunning_sender
  "retrying_send (composite_send (Some (postmark_send fetch pf pk)) (Some (twilio_send fetch pf base64 fe tw))) None"
  for fetch pf pk base64 fe tw
  by (intro retrying_sender composite_sender) (auto intro: postmark_sender twilio_sender)

subsection \<open>The dedupe store\<close>

text \<open>\<open>InMemorySendDedupeStore\<close>: a set of keys.\<close>

definition dedupe_has :: "string set \<Rightarrow> string \<Rightarrow> bool" where
  "dedupe_has seen key = (key \<in> seen)"

definition dedupe_record :: "string set \<Rightarrow> string \<Rightarrow> string set" where
  "dedupe_record seen key = insert key seen"

locale send_dedupe =
  fixes has :: "'st \<Rightarrow> string \<Rightarrow> bool" and record_key :: "'st \<Rightarrow> string \<Rightarrow> 'st"
  assumes has_record: "has (record_key s k) k' \<longleftrightarrow> k' = k \<or> has s k'"
begin

lemma record_sticky: "has s k' \<Longrightarrow> has (record_key s k) k'"
  by (simp add: has_record)

lemma record_idem: "has s k \<Longrightarrow> has (record_key s k) = has s"
  by (auto simp: has_record fun_eq_iff)

end

interpretation mem_dedupe: send_dedupe dedupe_has dedupe_record
  by unfold_locales (auto simp: dedupe_has_def dedupe_record_def)

end
