(* ===== verification/Onboarding.thy ===== *)
theory Onboarding
  imports Effects Canonical "HOL-Library.AList"
begin

text \<open>
  Shadow-first onboarding: the lifecycle (\<open>packages/onboarding/src/lifecycle.ts\<close>), the projection
  of the uplift from baseline-only observations (\<open>projection.ts\<close>) and the service that keeps the
  state per merchant (\<open>apps/api/src/onboarding/onboarding.service.ts\<close>). A JavaScript \<open>Map\<close> is an
  association list in insertion order; \<open>AList.update\<close> is its \<open>set\<close>. The blocking reasons are
  constructors, not texts.
\<close>

subsection \<open>Projection\<close>

record ShadowObservation =
  ob_declineCode :: DeclineCode
  ob_amount :: int
  ob_baselineRecovered :: bool

fun captureByCode :: "DeclineCode \<Rightarrow> real option" where
  "captureByCode ExpiredCard = Some 0.3"
| "captureByCode InsufficientFunds = Some 0.22"
| "captureByCode IssuerUnavailable = Some 0.28"
| "captureByCode ProcessingError = Some 0.25"
| "captureByCode TryAgainLater = Some 0.25"
| "captureByCode DoNotHonor = Some 0.12"
| "captureByCode AuthenticationRequired = Some 0.1"
| "captureByCode _ = None"

fun captureByFamily :: "DeclineFamily \<Rightarrow> real" where
  "captureByFamily Soft = 0.18"
| "captureByFamily Gray = 0.1"
| "captureByFamily Hard = 0.02"

definition captureOfRemaining :: "DeclineCode \<Rightarrow> real" where
  "captureOfRemaining code = coalesce (captureByCode code) (captureByFamily (familyOf code))"

record ProjectionConfig =
  pc_feeRate :: real
  pc_currency :: currency
  pc_conservativeHaircut :: real
  pc_monthlyDays :: int

definition DEFAULT_PROJECTION_CONFIG :: ProjectionConfig where
  "DEFAULT_PROJECTION_CONFIG =
     \<lparr>pc_feeRate = 0.12, pc_currency = ''USD'', pc_conservativeHaircut = 0.6, pc_monthlyDays = 30\<rparr>"

record FamilyAgg =
  fa_failures :: int
  fa_baselineRecovered :: int
  fa_missedValue :: int
  fa_projectedValue :: real

record FamilyProjection =
  fp_family :: DeclineFamily
  fp_failures :: int
  fp_baselineRecovered :: int
  fp_missedValue :: int
  fp_captureRate :: real
  fp_projectedValue :: int

record ShadowProjection =
  pr_observedFailures :: int
  pr_baselineRecovered :: int
  pr_baselineRecoveryRate :: real
  pr_missedValue :: Money
  pr_projectedIncrementalRecoveries :: int
  pr_projectedWindowValue :: Money
  pr_projectedMonthlyValue :: Money
  pr_projectedMonthlyConservative :: Money
  pr_projectedMonthlyFee :: Money
  pr_byFamily :: "FamilyProjection list"
  pr_holdoutVerified :: bool

text \<open>The running totals of the loop: families, recovered, missed, projected window and recoveries.\<close>

record ProjAcc =
  pa_families :: "(DeclineFamily \<times> FamilyAgg) list"
  pa_baselineRecovered :: int
  pa_missedValue :: int
  pa_projectedWindow :: real
  pa_projectedRecoveries :: real

definition empty_family :: FamilyAgg where
  "empty_family = \<lparr>fa_failures = 0, fa_baselineRecovered = 0, fa_missedValue = 0, fa_projectedValue = 0\<rparr>"

definition proj_init :: ProjAcc where
  "proj_init = \<lparr>pa_families = [], pa_baselineRecovered = 0, pa_missedValue = 0,
     pa_projectedWindow = 0, pa_projectedRecoveries = 0\<rparr>"

definition proj_step :: "ProjAcc \<Rightarrow> ShadowObservation \<Rightarrow> ProjAcc" where
  "proj_step acc obs =
     (let fam = familyOf (ob_declineCode obs);
          f0 = coalesce (map_of (pa_families acc) fam) empty_family;
          f = f0\<lparr>fa_failures := fa_failures f0 + 1\<rparr>
      in if ob_baselineRecovered obs then
           acc\<lparr>pa_families := AList.update fam (f\<lparr>fa_baselineRecovered := fa_baselineRecovered f + 1\<rparr>) (pa_families acc),
               pa_baselineRecovered := pa_baselineRecovered acc + 1\<rparr>
         else
           (let capture = captureOfRemaining (ob_declineCode obs);
                projected = of_int (ob_amount obs) * capture
            in acc\<lparr>pa_families := AList.update fam
                     (f\<lparr>fa_missedValue := fa_missedValue f + ob_amount obs,
                       fa_projectedValue := fa_projectedValue f + projected\<rparr>) (pa_families acc),
                   pa_missedValue := pa_missedValue acc + ob_amount obs,
                   pa_projectedWindow := pa_projectedWindow acc + projected,
                   pa_projectedRecoveries := pa_projectedRecoveries acc + capture\<rparr>))"

definition family_projection :: "DeclineFamily \<times> FamilyAgg \<Rightarrow> FamilyProjection" where
  "family_projection p =
     (let f = snd p in
      \<lparr>fp_family = fst p, fp_failures = fa_failures f, fp_baselineRecovered = fa_baselineRecovered f,
       fp_missedValue = fa_missedValue f,
       fp_captureRate = (if 0 < fa_missedValue f then fa_projectedValue f / of_int (fa_missedValue f) else 0),
       fp_projectedValue = js_round (fa_projectedValue f)\<rparr>)"

text \<open>\<open>elapsedDays\<close> is \<open>None\<close> when it is \<open>NaN\<close>.\<close>

definition projectShadow :: "ShadowObservation list \<Rightarrow> real option \<Rightarrow> ProjectionConfig \<Rightarrow> ShadowProjection" where
  "projectShadow observations elapsedDays config =
     (let money = (\<lambda>x. \<lparr>amount = js_round x, money_currency = pc_currency config\<rparr>);
          acc = foldl proj_step proj_init observations;
          observedFailures = int (length observations);
          scale = (case elapsedDays of
                     Some d \<Rightarrow> if 0 < d then of_int (pc_monthlyDays config) / d else 1
                   | None \<Rightarrow> 1);
          projectedMonthly = pa_projectedWindow acc * scale
      in \<lparr>pr_observedFailures = observedFailures,
          pr_baselineRecovered = pa_baselineRecovered acc,
          pr_baselineRecoveryRate = (if 0 < observedFailures
             then of_int (pa_baselineRecovered acc) / of_int observedFailures else 0),
          pr_missedValue = money (of_int (pa_missedValue acc)),
          pr_projectedIncrementalRecoveries = js_round (pa_projectedRecoveries acc),
          pr_projectedWindowValue = money (pa_projectedWindow acc),
          pr_projectedMonthlyValue = money projectedMonthly,
          pr_projectedMonthlyConservative = money (projectedMonthly * pc_conservativeHaircut config),
          pr_projectedMonthlyFee = money (projectedMonthly * pc_feeRate config),
          pr_byFamily = rev (sort_key fp_projectedValue (rev (map family_projection (pa_families acc)))),
          pr_holdoutVerified = False\<rparr>)"

text \<open>The totals as sums over the observations the baseline missed.\<close>

lemma capture_range: "0 \<le> captureOfRemaining c" "captureOfRemaining c \<le> 1"
  by (cases c; simp add: captureOfRemaining_def)+

definition missed :: "ShadowObservation list \<Rightarrow> ShadowObservation list" where
  "missed obs = filter (\<lambda>x. \<not> ob_baselineRecovered x) obs"

definition projected_of :: "ShadowObservation \<Rightarrow> real" where
  "projected_of x = of_int (ob_amount x) * captureOfRemaining (ob_declineCode x)"

lemma proj_totals:
  "pa_missedValue (foldl proj_step acc obs) = pa_missedValue acc + sum_list (map ob_amount (missed obs))"
  "pa_projectedWindow (foldl proj_step acc obs) = pa_projectedWindow acc + sum_list (map projected_of (missed obs))"
  "pa_baselineRecovered (foldl proj_step acc obs) =
     pa_baselineRecovered acc + int (length (filter ob_baselineRecovered obs))"
  by (induction obs arbitrary: acc) (simp_all add: proj_step_def Let_def missed_def projected_of_def)

lemma projected_window:
  "pa_projectedWindow (foldl proj_step proj_init obs) = sum_list (map projected_of (missed obs))"
  by (simp add: proj_totals proj_init_def)

lemma projected_le_missed:
  assumes "\<forall>x\<in>set obs. 0 \<le> ob_amount x"
  shows "0 \<le> sum_list (map projected_of (missed obs))"
    "sum_list (map projected_of (missed obs)) \<le> of_int (sum_list (map ob_amount (missed obs)))"
proof -
  have r: "0 \<le> projected_of x \<and> projected_of x \<le> of_int (ob_amount x)" if "0 \<le> ob_amount x" for x
    using that capture_range [of "ob_declineCode x"]
      mult_left_le [OF capture_range(2) [of "ob_declineCode x"], of "of_int (ob_amount x)"]
    by (simp add: projected_of_def)
  show "0 \<le> sum_list (map projected_of (missed obs))"
    using assms r by (intro sum_list_nonneg) (auto simp: missed_def)
  have "sum_list (map projected_of (missed obs)) \<le> sum_list (map (\<lambda>x. of_int (ob_amount x)) (missed obs))"
    using assms r by (intro sum_list_mono) (auto simp: missed_def)
  also have "\<dots> = of_int (sum_list (map ob_amount (missed obs)))"
    by (induction obs) (simp_all add: missed_def)
  finally show "sum_list (map projected_of (missed obs)) \<le> of_int (sum_list (map ob_amount (missed obs)))" .
qed

subsection \<open>Lifecycle\<close>

datatype OnboardingStatus = OnConnecting | OnShadow | OnActive | OnPaused

record OnboardingState =
  on_merchantId :: ident
  on_processor :: string
  on_status :: OnboardingStatus
  on_connectedAt :: iso
  on_shadowStartedAt :: "iso option"
  on_activatedAt :: "iso option"
  on_shadowWindowDays :: int
  on_webhooksRegistered :: bool

record OnboardingConfig =
  oc_shadowWindowDays :: int
  oc_minFailuresToActivate :: int

definition DEFAULT_ONBOARDING_CONFIG :: OnboardingConfig where
  "DEFAULT_ONBOARDING_CONFIG = \<lparr>oc_shadowWindowDays = 14, oc_minFailuresToActivate = 200\<rparr>"

text \<open>\<open>None\<close> is \<open>NaN\<close>.\<close>

definition onb_daysBetween :: "iso \<Rightarrow> iso \<Rightarrow> real option" where
  "onb_daysBetween a b = (case (a, b) of
     (Some x, Some y) \<Rightarrow> Some (max 0 (of_int (y - x) / of_int ms_per_day)) | _ \<Rightarrow> None)"

definition beginOnboarding :: "ident \<Rightarrow> string \<Rightarrow> iso \<Rightarrow> bool option \<Rightarrow> OnboardingConfig option \<Rightarrow> OnboardingState" where
  "beginOnboarding merchantId processor now webhooksRegistered config =
     (let cfg = coalesce config DEFAULT_ONBOARDING_CONFIG; registered = coalesce webhooksRegistered True
      in \<lparr>on_merchantId = merchantId, on_processor = processor,
          on_status = (if registered then OnShadow else OnConnecting), on_connectedAt = now,
          on_shadowStartedAt = (if registered then Some now else None), on_activatedAt = None,
          on_shadowWindowDays = oc_shadowWindowDays cfg, on_webhooksRegistered = registered\<rparr>)"

definition startShadow :: "OnboardingState \<Rightarrow> iso \<Rightarrow> OnboardingState" where
  "startShadow state now =
     (if on_status state \<noteq> OnConnecting then state
      else state\<lparr>on_status := OnShadow, on_webhooksRegistered := True, on_shadowStartedAt := Some now\<rparr>)"

record ShadowProgress =
  sp_elapsedDays :: "real option"
  sp_remainingDays :: "real option"
  sp_windowComplete :: bool
  sp_pctComplete :: "real option"

definition shadowProgress :: "OnboardingState \<Rightarrow> iso \<Rightarrow> ShadowProgress" where
  "shadowProgress state now =
     (case on_shadowStartedAt state of
        None \<Rightarrow> \<lparr>sp_elapsedDays = Some 0, sp_remainingDays = Some (of_int (on_shadowWindowDays state)),
                 sp_windowComplete = False, sp_pctComplete = Some 0\<rparr>
      | Some start \<Rightarrow>
          (let elapsed = onb_daysBetween start now; w = on_shadowWindowDays state
           in \<lparr>sp_elapsedDays = elapsed,
               sp_remainingDays = map_option (\<lambda>d. max 0 (of_int w - d)) elapsed,
               sp_windowComplete = (case elapsed of Some d \<Rightarrow> of_int w \<le> d | None \<Rightarrow> False),
               sp_pctComplete = (if 0 < w then map_option (\<lambda>d. min 1 (d / of_int w)) elapsed else Some 1)\<rparr>))"

datatype BlockingReason =
  AlreadyActive | OnboardingPaused | WindowIncomplete | InsufficientFailures | NoPositiveUplift

record Readiness =
  rd_ready :: bool
  rd_reasons :: "BlockingReason list"

definition readiness :: "OnboardingState \<Rightarrow> ShadowProjection \<Rightarrow> ShadowProgress \<Rightarrow> OnboardingConfig \<Rightarrow> Readiness" where
  "readiness state projection progress config =
     (if on_status state = OnActive then \<lparr>rd_ready = False, rd_reasons = [AlreadyActive]\<rparr>
      else
        (let reasons =
           (if on_status state = OnPaused then [OnboardingPaused] else [])
           @ (if \<not> sp_windowComplete progress then [WindowIncomplete] else [])
           @ (if pr_observedFailures projection < oc_minFailuresToActivate config then [InsufficientFailures] else [])
           @ (if amount (pr_projectedMonthlyValue projection) \<le> 0 then [NoPositiveUplift] else [])
         in \<lparr>rd_ready = (reasons = []), rd_reasons = reasons\<rparr>))"

definition activate :: "OnboardingState \<Rightarrow> Readiness \<Rightarrow> iso \<Rightarrow> bool \<Rightarrow> js_error + OnboardingState" where
  "activate state ready now force =
     (if on_status state = OnActive then Inr state
      else if \<not> rd_ready ready \<and> \<not> force then Inl (JsError ''cannot activate'')
      else Inr (state\<lparr>on_status := OnActive, on_activatedAt := Some now\<rparr>))"

definition pause :: "OnboardingState \<Rightarrow> OnboardingState" where
  "pause state = state\<lparr>on_status := OnPaused\<rparr>"

lemma readiness_iff:
  "rd_ready (readiness s p g c) \<longleftrightarrow>
     on_status s \<noteq> OnActive \<and> on_status s \<noteq> OnPaused \<and> sp_windowComplete g \<and>
     oc_minFailuresToActivate c \<le> pr_observedFailures p \<and> 0 < amount (pr_projectedMonthlyValue p)"
  by (auto simp: readiness_def Let_def)

lemma readiness_reasons: "rd_ready (readiness s p g c) \<longleftrightarrow> rd_reasons (readiness s p g c) = []"
  by (simp add: readiness_def Let_def)

subsection \<open>The life cycle as a state machine\<close>

inductive life_step :: "OnboardingState \<Rightarrow> OnboardingState \<Rightarrow> bool" where
  step_shadow: "life_step s (startShadow s now)"
| step_activate: "activate s (readiness s p (shadowProgress s now) c) now False = Inr s' \<Longrightarrow> life_step s s'"
| step_pause: "life_step s (pause s)"

inductive_cases life_stepE: "life_step s s'"

inductive reachable_life :: "OnboardingConfig \<Rightarrow> OnboardingState \<Rightarrow> bool" for c where
  life_begin: "reachable_life c (beginOnboarding m p now w (Some c))"
| life_next: "reachable_life c s \<Longrightarrow> life_step s s' \<Longrightarrow> reachable_life c s'"

text \<open>
  The invariant: before shadow no window has started and webhooks are not registered; from
  shadow on a window has started; activation happened after a started window.
\<close>

definition life_ok :: "OnboardingState \<Rightarrow> bool" where
  "life_ok s \<longleftrightarrow>
     (on_status s \<in> {OnShadow, OnActive} \<longrightarrow> on_shadowStartedAt s \<noteq> None \<and> on_webhooksRegistered s) \<and>
     (on_status s = OnConnecting \<longrightarrow> on_shadowStartedAt s = None \<and> \<not> on_webhooksRegistered s) \<and>
     (on_shadowStartedAt s \<noteq> None \<longleftrightarrow> on_webhooksRegistered s) \<and>
     (on_activatedAt s \<noteq> None \<longrightarrow> on_shadowStartedAt s \<noteq> None) \<and>
     (on_status s = OnActive \<longrightarrow> on_activatedAt s \<noteq> None)"

lemma progress_complete_started: "sp_windowComplete (shadowProgress s now) \<Longrightarrow> on_shadowStartedAt s \<noteq> None"
  by (auto simp: shadowProgress_def split: option.splits)

lemma life_ok_step: "life_step s s' \<Longrightarrow> life_ok s \<Longrightarrow> life_ok s'"
proof (induction rule: life_step.induct)
  case (step_shadow s now)
  then show ?case by (auto simp: startShadow_def life_ok_def)
next
  case (step_activate s p now c s')
  show ?case
  proof (cases "on_status s = OnActive")
    case True
    with step_activate show ?thesis by (simp add: activate_def)
  next
    case False
    with step_activate(1) have "rd_ready (readiness s p (shadowProgress s now) c)"
      and s': "s' = s\<lparr>on_status := OnActive, on_activatedAt := Some now\<rparr>"
      by (auto simp: activate_def split: if_splits)
    then have "sp_windowComplete (shadowProgress s now)" by (simp add: readiness_iff)
    then have "on_shadowStartedAt s \<noteq> None" by (rule progress_complete_started)
    with step_activate(2) s' show ?thesis by (simp add: life_ok_def)
  qed
next
  case (step_pause s)
  then show ?case by (auto simp: pause_def life_ok_def)
qed

lemma reachable_life_ok: "reachable_life c s \<Longrightarrow> life_ok s"
proof (induction rule: reachable_life.induct)
  case (life_begin m p now w)
  then show ?case by (simp add: beginOnboarding_def Let_def life_ok_def)
next
  case (life_next s s')
  then show ?case using life_ok_step by blast
qed

text \<open>An active merchant stays active unless paused.\<close>

lemma active_stays: "life_step s s' \<Longrightarrow> on_status s = OnActive \<Longrightarrow> s' = s \<or> on_status s' = OnPaused"
  by (erule life_stepE) (auto simp: startShadow_def activate_def pause_def)

subsection \<open>The service\<close>

record MerchantOnboarding =
  mo_state :: OnboardingState
  mo_observations :: "(ident \<times> ShadowObservation) list"

type_synonym onboarding_store = "ident \<rightharpoonup> MerchantOnboarding"

record OnboardingStatusView =
  ov_state :: OnboardingState
  ov_progress :: ShadowProgress
  ov_projection :: ShadowProjection
  ov_readiness :: Readiness

definition onb_require :: "onboarding_store \<Rightarrow> ident \<Rightarrow> js_error + MerchantOnboarding" where
  "onb_require st m = (case st m of None \<Rightarrow> Inl (JsError ''No onboarding for merchant'') | Some x \<Rightarrow> Inr x)"

definition onb_buildStatus :: "onboarding_store \<Rightarrow> ident \<Rightarrow> iso \<Rightarrow> js_error + OnboardingStatusView" where
  "onb_buildStatus st m now =
     (case onb_require st m of
        Inl e \<Rightarrow> Inl e
      | Inr x \<Rightarrow>
          (let progress = shadowProgress (mo_state x) now;
               projection = projectShadow (map snd (mo_observations x)) (sp_elapsedDays progress) DEFAULT_PROJECTION_CONFIG
           in Inr \<lparr>ov_state = mo_state x, ov_progress = progress, ov_projection = projection,
                   ov_readiness = readiness (mo_state x) projection progress DEFAULT_ONBOARDING_CONFIG\<rparr>))"

definition onb_connect :: "ident \<Rightarrow> string \<Rightarrow> iso \<Rightarrow> (onboarding_store, OnboardingStatusView) eff" where
  "onb_connect m processor now =
     (if m = [] \<or> processor = [] then throw (JsError ''merchantId and processor are required'')
      else
        andThen (modify (\<lambda>st. st(m \<mapsto> \<lparr>mo_state = beginOnboarding m processor now None None, mo_observations = []\<rparr>))) (\<lambda>_.
          (\<lambda>st. (onb_buildStatus st m now, st))))"

definition onb_recordFailure :: "ident \<Rightarrow> ident \<Rightarrow> DeclineCode \<Rightarrow> int \<Rightarrow> onboarding_store \<Rightarrow> onboarding_store" where
  "onb_recordFailure m invoiceId code amt st =
     (case st m of
        None \<Rightarrow> st
      | Some x \<Rightarrow>
          if on_status (mo_state x) \<noteq> OnShadow then st
          else st(m \<mapsto> x\<lparr>mo_observations := AList.update invoiceId
                 \<lparr>ob_declineCode = code, ob_amount = amt, ob_baselineRecovered = False\<rparr> (mo_observations x)\<rparr>))"

definition onb_recordBaselineRecovery :: "ident \<Rightarrow> ident \<Rightarrow> onboarding_store \<Rightarrow> onboarding_store" where
  "onb_recordBaselineRecovery m invoiceId st =
     (case st m of
        None \<Rightarrow> st
      | Some x \<Rightarrow>
          if on_status (mo_state x) \<noteq> OnShadow then st
          else (case map_of (mo_observations x) invoiceId of
                  None \<Rightarrow> st
                | Some obs \<Rightarrow> st(m \<mapsto> x\<lparr>mo_observations :=
                     AList.update invoiceId (obs\<lparr>ob_baselineRecovered := True\<rparr>) (mo_observations x)\<rparr>)))"

definition onb_status :: "ident \<Rightarrow> iso \<Rightarrow> (onboarding_store, OnboardingStatusView) eff" where
  "onb_status m now = (\<lambda>st. (onb_buildStatus st m now, st))"

definition onb_activate :: "ident \<Rightarrow> iso \<Rightarrow> (onboarding_store, OnboardingStatusView) eff" where
  "onb_activate m now = (\<lambda>st.
     case onb_require st m of
       Inl e \<Rightarrow> (Inl e, st)
     | Inr x \<Rightarrow>
         if on_status (mo_state x) = OnActive then (onb_buildStatus st m now, st)
         else (case onb_buildStatus st m now of
                 Inl e \<Rightarrow> (Inl e, st)
               | Inr view \<Rightarrow>
                   if \<not> rd_ready (ov_readiness view) then (Inl (JsError ''Cannot activate''), st)
                   else (case activate (mo_state x) (ov_readiness view) now False of
                           Inl e \<Rightarrow> (Inl e, st)
                         | Inr s' \<Rightarrow> (let st' = st(m \<mapsto> x\<lparr>mo_state := s'\<rparr>) in (onb_buildStatus st' m now, st')))))"

lemma onb_activate_sound:
  assumes "onb_activate m now st = (Inr view, st')" "st m = Some x" "on_status (mo_state x) \<noteq> OnActive"
  shows "sp_windowComplete (shadowProgress (mo_state x) now)"
    and "200 \<le> length (mo_observations x)" and "on_status (mo_state x) \<noteq> OnPaused"
    and "on_status (ov_state view) = OnActive"
    and "0 < amount (pr_projectedMonthlyValue (projectShadow (map snd (mo_observations x))
           (sp_elapsedDays (shadowProgress (mo_state x) now)) DEFAULT_PROJECTION_CONFIG))"
  using assms
  by (auto simp: onb_activate_def onb_require_def onb_buildStatus_def Let_def readiness_iff activate_def
      DEFAULT_ONBOARDING_CONFIG_def projectShadow_def split: if_splits)

text \<open>A refused activation changes nothing.\<close>

lemma onb_activate_error: "onb_activate m now st = (Inl e, st') \<Longrightarrow> st' = st"
  by (auto simp: onb_activate_def onb_require_def onb_buildStatus_def Let_def split: option.splits sum.splits if_splits)

text \<open>A redelivered failure forgets that the baseline had recovered the invoice.\<close>

lemma redelivered_failure_forgets_recovery:
  assumes "st m = Some x" "on_status (mo_state x) = OnShadow"
  shows "\<exists>y. onb_recordFailure m i c a (onb_recordBaselineRecovery m i (onb_recordFailure m i c a st)) m = Some y
     \<and> map_of (mo_observations y) i = Some \<lparr>ob_declineCode = c, ob_amount = a, ob_baselineRecovered = False\<rparr>"
  using assms by (simp add: onb_recordFailure_def onb_recordBaselineRecovery_def update_conv')

end
