(* ===== verification/RecoveryCase.thy ===== *)
theory RecoveryCase
  imports Scheduler Ledger Holdout FeatureStore Comms Onboarding
begin

text \<open>
  The recovery-case service (\<open>apps/api/src/recovery/recovery-case.service.ts\<close>), the seam where
  the engine proposes, the guardrail disposes and an adapter charges, with its in-memory
  stores (\<open>ledger-port.ts\<close>, \<open>credential-attempt-store.ts\<close>), the idempotency key
  (\<open>packages/poal/src/idempotency.ts\<close>) and the scheduler's port (\<open>recovery-case.port.ts\<close>).

  The processor adapter, the dunning composer and transport, the durable dispatcher, the policy
  and the clock are injected in the source; here they are fields of an environment. The world
  \<open>'w\<close> is the state outside the service that adapter, transport and dispatcher act on. The
  periodic flush of the bandit (fire and forget) is not part of the model.
\<close>

subsection \<open>Idempotency keys and card networks\<close>

definition charge_canonical :: "ident \<Rightarrow> ident \<Rightarrow> ident \<Rightarrow> int \<Rightarrow> string" where
  "charge_canonical merchantId invoiceId paymentMethodId attemptNumber =
     join '':'' [merchantId, invoiceId, paymentMethodId, show_int attemptNumber]"

definition idempotencyKey :: "(string \<Rightarrow> string) \<Rightarrow> ident \<Rightarrow> ident \<Rightarrow> ident \<Rightarrow> int \<Rightarrow> string" where
  "idempotencyKey H merchantId invoiceId paymentMethodId attemptNumber =
     ''ax10m_charge_'' @ take 32 (H (charge_canonical merchantId invoiceId paymentMethodId attemptNumber))"

definition mapCardNetwork :: "string option \<Rightarrow> CardNetwork" where
  "mapCardNetwork brand =
     (let b = to_lower (coalesce brand []) in
      if b = ''visa'' then Visa
      else if b = ''mastercard'' \<or> b = ''master'' then Mastercard
      else if b = ''amex'' \<or> b = ''american express'' \<or> b = ''american_express'' then Amex
      else if b = ''discover'' then Discover
      else OtherNetwork)"

definition mrrTierFromAmount :: "int \<Rightarrow> MrrTier" where
  "mrrTierFromAmount minor =
     (if minor < 2000 then Micro else if minor < 10000 then Small else if minor < 50000 then Mid
      else if minor < 200000 then Large else Enterprise)"

definition deriveStratum :: "Invoice \<Rightarrow> DeclineEvent option \<Rightarrow> Stratum" where
  "deriveStratum invoice decline =
     \<lparr>st_mrrTier = mrrTierFromAmount (amount (inv_amount invoice)),
      st_declineFamily = coalesce (map_option dec_family decline) Gray,
      st_issuerRegion = RegionUnknown\<rparr>"

subsection \<open>The per-credential attempt store\<close>

type_synonym credential_store = "string \<rightharpoonup> (int \<times> iso)"

record CredentialAttemptWindow =
  cw_attemptsInWindow :: int
  cw_minutesSinceLastAttempt :: "int option"

text \<open>Both dates are printed by a host clock, so the \<open>NaN\<close> of an unparsable one does not arise.\<close>

definition minutesBetween :: "iso option \<Rightarrow> iso \<Rightarrow> int option" where
  "minutesBetween nowIso lastAt =
     (case (nowIso, lastAt) of
        (Some (Some n), Some l) \<Rightarrow> Some ((n - l) div ms_per_minute)
      | _ \<Rightarrow> None)"

definition cred_count :: "credential_store \<Rightarrow> string \<Rightarrow> int" where
  "cred_count m key = coalesce (map_option fst (m key)) 0"

definition cred_window :: "credential_store \<Rightarrow> string \<Rightarrow> iso option \<Rightarrow> CredentialAttemptWindow" where
  "cred_window m key nowIso =
     (case m key of
        None \<Rightarrow> \<lparr>cw_attemptsInWindow = 0, cw_minutesSinceLastAttempt = None\<rparr>
      | Some (n, lastAt) \<Rightarrow> \<lparr>cw_attemptsInWindow = n, cw_minutesSinceLastAttempt = minutesBetween nowIso lastAt\<rparr>)"

definition cred_increment :: "string \<Rightarrow> iso \<Rightarrow> credential_store \<Rightarrow> credential_store" where
  "cred_increment key nowIso m = m(key \<mapsto> (cred_count m key + 1, nowIso))"

definition credentialKey :: "ident \<Rightarrow> PaymentMethod \<Rightarrow> string" where
  "credentialKey invoiceId m = invoiceId @ '':'' @ pm_token m"

text \<open>The contract of the counter, kept by the in-memory store.\<close>

locale credential_counter =
  fixes count :: "'st \<Rightarrow> string \<Rightarrow> int"
    and window :: "'st \<Rightarrow> string \<Rightarrow> iso option \<Rightarrow> CredentialAttemptWindow"
    and increment :: "string \<Rightarrow> iso \<Rightarrow> 'st \<Rightarrow> 'st"
    and inv :: "'st \<Rightarrow> bool"
  assumes count_increment: "count (increment k t s) k' = count s k' + (if k' = k then 1 else 0)"
    and window_count: "cw_attemptsInWindow (window s k n) = count s k"
    and increment_inv: "inv s \<Longrightarrow> inv (increment k t s)"
    and count_nonneg: "inv s \<Longrightarrow> 0 \<le> count s k"
begin

lemma other_card_unaffected: "k' \<noteq> k \<Longrightarrow> cw_attemptsInWindow (window (increment k t s) k' n) = cw_attemptsInWindow (window s k' n')"
  by (simp add: window_count count_increment)

lemma count_many: "count (foldr (\<lambda>t. increment k t) ts s) k = count s k + int (length ts)"
  by (induction ts) (simp_all add: count_increment)

end

lemma cred_count_nonneg: "\<forall>k c t. m k = Some (c, t) \<longrightarrow> 0 \<le> c \<Longrightarrow> 0 \<le> cred_count m k"
  by (cases "m k") (simp_all add: cred_count_def, metis prod.collapse)

interpretation mem_counter: credential_counter cred_count cred_window cred_increment
    "\<lambda>m. \<forall>k c t. m k = Some (c, t) \<longrightarrow> 0 \<le> c"
proof unfold_locales
  fix m :: credential_store and k t k'
  show "cred_count (cred_increment k t m) k' = cred_count m k' + (if k' = k then 1 else 0)"
    by (simp add: cred_increment_def cred_count_def)
next
  fix m :: credential_store and k n
  show "cw_attemptsInWindow (cred_window m k n) = cred_count m k"
    by (auto simp: cred_window_def cred_count_def split: option.split)
next
  fix m :: credential_store and k t
  assume "\<forall>k c t. m k = Some (c, t) \<longrightarrow> 0 \<le> c"
  then show "\<forall>k' c t'. cred_increment k t m k' = Some (c, t') \<longrightarrow> 0 \<le> c"
    using cred_count_nonneg [of m k] by (auto simp: cred_increment_def)
next
  fix m :: credential_store and k
  assume "\<forall>k c t. m k = Some (c, t) \<longrightarrow> 0 \<le> c"
  then show "0 \<le> cred_count m k" by (rule cred_count_nonneg)
qed

subsection \<open>Environment and state\<close>

record RawWebhook =
  rw_body :: string
  rw_headers :: "(string \<times> string) list"

record ChargeResult =
  cr_outcome :: ChargeOutcome
  cr_idempotentReplay :: "bool option"
  cr_declineCode :: "DeclineCode option"

datatype EventPayload =
    PaymentReversed ReversalPayload
  | PaymentReversalReverted ReversalPayload
  | InvoiceFailed "Invoice option" "DeclineEvent option" "PaymentMethod option" "Customer option"
  | InvoicePaid "Invoice option"
  | OtherEvent

record CanonicalEvent =
  ev_merchantId :: ident
  ev_occurredAt :: string
  ev_payload :: EventPayload

record 'w ProcessorAdapter =
  ad_id :: string
  ad_ingestWebhook :: "RawWebhook \<Rightarrow> ('w, CanonicalEvent list) eff"
  ad_attemptCharge :: "Invoice \<Rightarrow> PaymentMethod \<Rightarrow> string \<Rightarrow> ('w, ChargeResult) eff"
  ad_fetchUpdatedCard :: "PaymentMethod \<Rightarrow> ('w, PaymentMethod option) eff"
  ad_listPaymentMethods :: "Customer \<Rightarrow> ('w, PaymentMethod list) eff"

record DunningCommsConfig =
  dc_updateCardUrl :: "Invoice \<Rightarrow> ident \<Rightarrow> string"
  dc_optOutInstruction :: string
  dc_channel :: "DunningChannel option"
  dc_merchantName :: "(ident \<Rightarrow> string) option"

record DispatchInput =
  di_invoice :: Invoice
  di_method :: PaymentMethod
  di_decline :: "DeclineEvent option"
  di_customer :: "Customer option"
  di_shadow :: bool

text \<open>
  \<open>se_wall n\<close> is the \<open>n\<close>-th reading of the wall clock; \<open>se_isoText\<close>, \<open>se_parseDate\<close> and \<open>se_num\<close>
  print and read timestamps and doubles as JavaScript does; \<open>se_rationale\<close> is the free text of a
  decision.
\<close>

record ('w, 'p) ServiceEnv =
  se_H :: "string \<Rightarrow> string"
  se_wall :: "nat \<Rightarrow> int"
  se_isoText :: "iso \<Rightarrow> string"
  se_parseDate :: "string \<Rightarrow> iso"
  se_num :: "real \<Rightarrow> json"
  se_rationale :: "RecoveryDecision \<Rightarrow> string"
  se_holdout :: "HoldoutConfig option"
  se_decide :: "'p \<Rightarrow> RecoveryFeatures \<Rightarrow> PolicyContext \<Rightarrow> js_error + RecoveryDecision"
  se_update :: "('p \<Rightarrow> RecoveryFeatures \<Rightarrow> RecoveryDecision \<Rightarrow> int \<Rightarrow> 'p) option"
  se_model :: "RecoveryFeatures \<Rightarrow> real"
  se_compose :: "DunningContext \<Rightarrow> ('w, DunningMessage) eff"
  se_dunningConfig :: "DunningCommsConfig option"
  se_sender :: "'w sender option"
  se_liveComms :: bool
  se_dispatch :: "ident \<Rightarrow> DispatchInput \<Rightarrow> ('w, unit) eff"
  se_durableRecovery :: bool
  se_liveCharging :: bool

record ('w, 'p) Service =
  sv_world :: 'w
  sv_ledger :: ledger
  sv_ticks :: nat
  sv_opened :: "ident set"
  sv_attempts :: "ident \<rightharpoonup> int"
  sv_credentials :: credential_store
  sv_features :: RecoveryFeatureStore
  sv_sent :: "string set"
  sv_onboarding :: onboarding_store
  sv_policy :: 'p
  sv_banditTotalUpdates :: int

type_synonym ('w, 'p, 'a) srv = "(('w, 'p) Service, 'a) eff"

definition world_op :: "('w, 'a) eff \<Rightarrow> ('w, 'p, 'a) srv" where
  "world_op m = zoom sv_world (\<lambda>w s. s\<lparr>sv_world := w\<rparr>) m"

text \<open>\<open>new Date()\<close>\<close>

definition wall_now :: "('w, 'p) ServiceEnv \<Rightarrow> ('w, 'p, iso) srv" where
  "wall_now env = (\<lambda>s. (Inr (Some (se_wall env (sv_ticks s))), s\<lparr>sv_ticks := Suc (sv_ticks s)\<rparr>))"

definition or_wall :: "('w, 'p) ServiceEnv \<Rightarrow> iso option \<Rightarrow> ('w, 'p, iso) srv" where
  "or_wall env t = (case t of Some x \<Rightarrow> ok x | None \<Rightarrow> wall_now env)"

definition utcHour :: "iso \<Rightarrow> int" where
  "utcHour t = (case t of Some ms \<Rightarrow> (ms div ms_per_hour) mod 24 | None \<Rightarrow> 0)"

text \<open>\<open>localHour ?? new Date().getUTCHours()\<close>\<close>

definition hour_or_wall :: "('w, 'p) ServiceEnv \<Rightarrow> int option \<Rightarrow> ('w, 'p, int) srv" where
  "hour_or_wall env h = (case h of Some x \<Rightarrow> ok x | None \<Rightarrow> andThen (wall_now env) (\<lambda>t. ok (utcHour t)))"

definition log_at ::
  "('w, 'p) ServiceEnv \<Rightarrow> string \<Rightarrow> ident \<Rightarrow> LedgerEventType \<Rightarrow> (string \<times> json) list \<Rightarrow> ('w, 'p, unit) srv" where
  "log_at env occurredAt merchantId type detail =
     modify (\<lambda>s. s\<lparr>sv_ledger := ledger_append (se_H env) (sv_ledger s)
       \<lparr>le_merchantId = merchantId, le_type = type, le_occurredAt = occurredAt, le_detail = detail\<rparr>\<rparr>)"

definition log_now ::
  "('w, 'p) ServiceEnv \<Rightarrow> ident \<Rightarrow> LedgerEventType \<Rightarrow> (string \<times> json) list \<Rightarrow> ('w, 'p, unit) srv" where
  "log_now env merchantId type detail =
     andThen (wall_now env) (\<lambda>t. log_at env (se_isoText env t) merchantId type detail)"

subsection \<open>Details of ledger entries\<close>

fun action_value :: "RecoveryActionKind \<Rightarrow> string" where
  "action_value ActRetry = ''retry''"
| "action_value ActCardUpdateComms = ''card_update_comms''"
| "action_value ActSuppress = ''suppress''"

fun outcome_value :: "ChargeOutcome \<Rightarrow> string" where
  "outcome_value Succeeded = ''succeeded''"
| "outcome_value Failed = ''failed''"
| "outcome_value Pending = ''pending''"

fun card_type_value :: "CardProductType \<Rightarrow> string" where
  "card_type_value CardCredit = ''credit''"
| "card_type_value CardDebit = ''debit''"
| "card_type_value CardPrepaid = ''prepaid''"
| "card_type_value CardUnknown = ''unknown''"

fun recommended_value :: "RecommendedAction \<Rightarrow> string" where
  "recommended_value RecRetry = ''retry''"
| "recommended_value RecCardUpdate = ''card_update''"
| "recommended_value RecSuppress = ''suppress''"

definition features_json :: "(real \<Rightarrow> json) \<Rightarrow> RecoveryFeatures \<Rightarrow> json" where
  "features_json num f = JObj
     [(''declineCode'', JStr (code_value (f_declineCode f))), (''amountMinor'', jint (f_amountMinor f)),
      (''currency'', JStr (f_currency f)), (''issuerRegion'', JStr (region_value (f_issuerRegion f))),
      (''cardType'', jopt (map_option card_type_value (f_cardType f))),
      (''customerTenureDays'', num (f_customerTenureDays f)),
      (''priorRecoveryRate'', num (f_priorRecoveryRate f)), (''attemptNumber'', jint (f_attemptNumber f)),
      (''daysSinceFirstFail'', num (f_daysSinceFirstFail f)),
      (''issuerApprovalPrior'', (case f_issuerApprovalPrior f of None \<Rightarrow> JUndef | Some p \<Rightarrow> num p))]"

definition retryAt_json :: "(iso \<Rightarrow> string) \<Rightarrow> RecoveryDecision \<Rightarrow> json" where
  "retryAt_json iso_text d = (case rd_retryAt d of None \<Rightarrow> JNull | Some t \<Rightarrow> JStr (iso_text t))"

fun channel_text :: "DunningChannel \<Rightarrow> string" where
  "channel_text DcEmail = ''email''"
| "channel_text DcSms = ''sms''"

definition message_json :: "DunningMessage \<Rightarrow> json" where
  "message_json m = JObj
     [(''channel'', JStr (channel_text (dm_channel m))), (''subject'', jopt (dm_subject m)),
      (''body'', JStr (dm_body m)),
      (''generatedBy'', JStr (case dm_generatedBy m of ByTemplate \<Rightarrow> ''template'' | ByLlm \<Rightarrow> ''llm''))]"

datatype DeliveryStatus = DeSuppressed | DeSkipped | DeDuplicate | DeSender SendStatus

record DunningDeliveryRecord =
  dd_status :: DeliveryStatus
  dd_channel :: DunningChannel
  dd_provider :: "string option"
  dd_providerMessageId :: "string option"
  dd_attempts :: "int option"
  dd_reason :: "string option"

fun delivery_status_value :: "DeliveryStatus \<Rightarrow> string" where
  "delivery_status_value DeSuppressed = ''suppressed''"
| "delivery_status_value DeSkipped = ''skipped''"
| "delivery_status_value DeDuplicate = ''duplicate''"
| "delivery_status_value (DeSender Sent) = ''sent''"
| "delivery_status_value (DeSender DryRun) = ''dry_run''"
| "delivery_status_value (DeSender SendFailed) = ''failed''"

definition delivery_json :: "DunningDeliveryRecord \<Rightarrow> json" where
  "delivery_json d = JObj
     [(''status'', JStr (delivery_status_value (dd_status d))), (''channel'', JStr (channel_text (dd_channel d))),
      (''provider'', jopt (dd_provider d)), (''providerMessageId'', jopt (dd_providerMessageId d)),
      (''attempts'', (case dd_attempts d of None \<Rightarrow> JUndef | Some n \<Rightarrow> jint n)), (''reason'', jopt (dd_reason d))]"

subsection \<open>Features\<close>

definition featuresFor ::
  "('w, 'p) ServiceEnv \<Rightarrow> Invoice \<Rightarrow> PaymentMethod option \<Rightarrow> DeclineEvent option \<Rightarrow> int \<Rightarrow> Customer option \<Rightarrow>
   ('w, 'p, RecoveryFeatures) srv" where
  "featuresFor env invoice method decline attemptNumber customer =
     andThen (wall_now env) (\<lambda>now.
       gets (\<lambda>s. fs_enrich (sv_features s)
         \<lparr>en_merchantId = inv_merchantId invoice, en_customerId = inv_customerId invoice,
          en_bin = Option.bind method pm_bin, en_customerCreatedAt = map_option cust_createdAt customer,
          en_firstFailedAt = inv_firstFailedAt invoice,
          en_declineCode = coalesce (map_option dec_code decline) UnknownDecline,
          en_amountMinor = amount (inv_amount invoice), en_currency = money_currency (inv_amount invoice),
          en_attemptNumber = attemptNumber, en_now = now\<rparr>))"

definition method_list :: "PaymentMethod \<Rightarrow> AvailableMethod list" where
  "method_list m = [\<lparr>am_ref = pm_processorRef m, am_autoUpdated = pm_autoUpdated m, am_isDefault = Some True\<rparr>]"

subsection \<open>Opening a case\<close>

definition openCase :: "('w, 'p) ServiceEnv \<Rightarrow> Invoice \<Rightarrow> Stratum \<Rightarrow> string \<Rightarrow> ('w, 'p, Bucket) srv" where
  "openCase env invoice stratum occurredAt =
     andThen (lift_sum (assign (se_H env)
       \<lparr>as_merchantId = inv_merchantId invoice, as_customerId = Some (inv_customerId invoice),
        as_invoiceId = inv_id invoice, as_stratum = stratum\<rparr>
       (coalesce (se_holdout env) DEFAULT_HOLDOUT_CONFIG))) (\<lambda>a.
     andThen (gets (\<lambda>s. inv_id invoice \<in> sv_opened s)) (\<lambda>known.
       if known then ok (asg_bucket a)
       else
         andThen (modify (\<lambda>s. s\<lparr>sv_opened := insert (inv_id invoice) (sv_opened s)\<rparr>)) (\<lambda>_.
         andThen (log_at env occurredAt (inv_merchantId invoice) HoldoutAssigned
           [(''invoiceId'', JStr (inv_id invoice)), (''customerId'', JStr (inv_customerId invoice)),
            (''bucket'', JStr (bucket_value (asg_bucket a))), (''stratumKey'', JStr (asg_stratumKey a)),
            (''amount'', jint (amount (inv_amount invoice))),
            (''currency'', JStr (money_currency (inv_amount invoice)))]) (\<lambda>_.
           ok (asg_bucket a)))))"

subsection \<open>Charging\<close>

datatype AttemptResult = AtSuppressed | AtShadowed | AtAttempted

definition attemptRecovery ::
  "('w, 'p) ServiceEnv \<Rightarrow> 'w ProcessorAdapter \<Rightarrow> Invoice \<Rightarrow> PaymentMethod \<Rightarrow> ProposedAction \<Rightarrow> int \<Rightarrow> iso option \<Rightarrow> bool \<Rightarrow>
   ('w, 'p, AttemptResult \<times> ChargeOutcome option) srv" where
  "attemptRecovery env adapter invoice method proposed attemptNumber nowIso shadow =
     (case evaluate proposed DEFAULT_GUARDRAIL_POLICY of
        Suppress reason message \<Rightarrow>
          andThen (log_now env (inv_merchantId invoice) ActionSuppressed
            [(''invoiceId'', JStr (inv_id invoice)), (''reason'', JStr (reason_value reason)),
             (''message'', JStr message)]) (\<lambda>_.
            ok (AtSuppressed, None))
      | Allow \<Rightarrow>
          (let key = idempotencyKey (se_H env) (inv_merchantId invoice) (inv_id invoice) (pm_id method) attemptNumber in
           if shadow then
             andThen (log_now env (inv_merchantId invoice) ChargeAttempted
               [(''invoiceId'', JStr (inv_id invoice)), (''idempotencyKey'', JStr key), (''shadow'', JBool True)]) (\<lambda>_.
               ok (AtShadowed, None))
           else
             andThen (modify (\<lambda>s. s\<lparr>sv_attempts := (sv_attempts s)(inv_id invoice \<mapsto>
               max (coalesce (sv_attempts s (inv_id invoice)) 0) attemptNumber)\<rparr>)) (\<lambda>_.
             andThen (world_op (ad_attemptCharge adapter invoice method key)) (\<lambda>result.
             andThen (or_wall env nowIso) (\<lambda>stamp.
             andThen (modify (\<lambda>s. s\<lparr>sv_credentials :=
               cred_increment (credentialKey (inv_id invoice) method) stamp (sv_credentials s)\<rparr>)) (\<lambda>_.
             andThen (log_now env (inv_merchantId invoice)
               (if cr_outcome result = Succeeded then ChargeSucceeded else ChargeFailed)
               [(''invoiceId'', JStr (inv_id invoice)), (''processor'', JStr (ad_id adapter)),
                (''idempotencyKey'', JStr key), (''outcome'', JStr (outcome_value (cr_outcome result))),
                (''idempotentReplay'', JBool (coalesce (cr_idempotentReplay result) False)),
                (''declineCode'', jopt (map_option code_value (cr_declineCode result)))]) (\<lambda>_.
             andThen (if cr_outcome result = Succeeded then
               log_now env (inv_merchantId invoice) CaseRecovered
                 [(''invoiceId'', JStr (inv_id invoice)), (''processor'', JStr (ad_id adapter)),
                  (''amount'', jint (amount (inv_amount invoice))),
                  (''currency'', JStr (money_currency (inv_amount invoice))),
                  (''attemptNumber'', jint attemptNumber)]
               else ok ()) (\<lambda>_.
             andThen (if cr_outcome result \<noteq> Pending then
               andThen (wall_now env) (\<lambda>now.
                 modify (\<lambda>s. s\<lparr>sv_features := fs_recordOutcome (inv_merchantId invoice) (inv_customerId invoice)
                   (pm_bin method) (cr_outcome result = Succeeded) (Some now) (sv_features s)\<rparr>))
               else ok ()) (\<lambda>_.
               ok (AtAttempted, Some (cr_outcome result)))))))))))"

subsection \<open>Planning\<close>

definition policy_decide :: "('w, 'p) ServiceEnv \<Rightarrow> RecoveryFeatures \<Rightarrow> PolicyContext \<Rightarrow> ('w, 'p, RecoveryDecision) srv" where
  "policy_decide env f ctx = (\<lambda>s. (se_decide env (sv_policy s) f ctx, s))"

definition planAttempt ::
  "('w, 'p) ServiceEnv \<Rightarrow> Invoice \<Rightarrow> PaymentMethod option \<Rightarrow> DeclineEvent option \<Rightarrow> int \<Rightarrow> ('w, 'p, RecoveryDecision) srv" where
  "planAttempt env invoice method decline attemptNumber =
     andThen (featuresFor env invoice method decline attemptNumber None) (\<lambda>features.
     andThen (wall_now env) (\<lambda>now.
     andThen (policy_decide env features
       \<lparr>ctx_now = now, ctx_methods = Some (case method of Some m \<Rightarrow> method_list m | None \<Rightarrow> []),
        ctx_config = None, ctx_cost = None, ctx_compliance = None\<rparr>) (\<lambda>decision.
     andThen (log_now env (inv_merchantId invoice) RecoveryPlanned
       [(''invoiceId'', JStr (inv_id invoice)), (''action'', JStr (action_value (rd_action decision))),
        (''retryAt'', retryAt_json (se_isoText env) decision),
        (''recoverabilityScore'', se_num env (rd_recoverabilityScore decision)),
        (''expectedValueMinor'', jint (rd_expectedValueMinor decision)),
        (''rationale'', JStr (se_rationale env decision)),
        (''features'', features_json (se_num env) features), (''shadow'', JBool True)]) (\<lambda>_.
       ok decision))))"

definition planRecovery :: "('w, 'p) ServiceEnv \<Rightarrow> Invoice \<Rightarrow> DeclineEvent option \<Rightarrow> ('w, 'p, RecoveryDecision) srv" where
  "planRecovery env invoice decline =
     andThen (gets (\<lambda>s. coalesce (sv_attempts s (inv_id invoice)) 0 + 1)) (\<lambda>n.
       planAttempt env invoice None decline n)"

definition planSequence ::
  "('w, 'p) ServiceEnv \<Rightarrow> Invoice \<Rightarrow> PaymentMethod \<Rightarrow> DeclineEvent option \<Rightarrow> int \<Rightarrow> ('w, 'p, RetryStep list) srv" where
  "planSequence env invoice method decline attemptNumber =
     andThen (featuresFor env invoice (Some method) decline attemptNumber None) (\<lambda>features.
     andThen (wall_now env) (\<lambda>now.
     andThen (lift_sum (planRetrySequence (se_model env) features
       \<lparr>sq_now = now, sq_methods = Some (method_list method), sq_network = Some (mapCardNetwork (pm_brand method)),
        sq_minRecoverabilityToContinue = None\<rparr>)) (\<lambda>steps.
     andThen (log_now env (inv_merchantId invoice) RecoveryPlanned
       [(''invoiceId'', JStr (inv_id invoice)), (''sequenceLength'', jint (int (length steps))),
        (''actions'', JArr (map (\<lambda>st. JStr (recommended_value (rs_action st))) steps)),
        (''retryAts'', JArr (map (\<lambda>st. JStr (se_isoText env (rs_at st))) steps)),
        (''features'', features_json (se_num env) features)]) (\<lambda>_.
       ok steps))))"

definition learnOnline ::
  "('w, 'p) ServiceEnv \<Rightarrow> RecoveryFeatures \<Rightarrow> RecoveryDecision \<Rightarrow> ChargeOutcome \<Rightarrow> int \<Rightarrow> ('w, 'p, unit) srv" where
  "learnOnline env features decision outcome amountMinor =
     (case se_update env of
        None \<Rightarrow> ok ()
      | Some upd \<Rightarrow>
          if outcome \<noteq> Succeeded \<and> outcome \<noteq> Failed then ok ()
          else
            (let reward = (if outcome = Succeeded then amountMinor - cm_attemptFeeMinor DEFAULT_COST_MODEL
                           else - cm_attemptFeeMinor DEFAULT_COST_MODEL)
             in modify (\<lambda>s. s\<lparr>sv_policy := upd (sv_policy s) features decision reward,
                  sv_banditTotalUpdates := sv_banditTotalUpdates s +
                    (if rd_action decision \<noteq> ActRetry \<and> rd_action decision \<noteq> ActCardUpdateComms then 0 else 1)\<rparr>)))"

subsection \<open>Dunning\<close>

definition composeDunning ::
  "('w, 'p) ServiceEnv \<Rightarrow> Invoice \<Rightarrow> PaymentMethod \<Rightarrow> DeclineCode \<Rightarrow> ('w, 'p, DunningMessage option) srv" where
  "composeDunning env invoice method code =
     (case se_dunningConfig env of
        None \<Rightarrow> ok None
      | Some cfg \<Rightarrow>
          andThen (world_op (se_compose env
            \<lparr>dx_channel = coalesce (dc_channel cfg) DcEmail, dx_declineCode = code,
             dx_merchantName = (case dc_merchantName cfg of None \<Rightarrow> inv_merchantId invoice
                                | Some f \<Rightarrow> f (inv_merchantId invoice)),
             dx_amountMinor = amount (inv_amount invoice), dx_currency = money_currency (inv_amount invoice),
             dx_updateCardUrl = dc_updateCardUrl cfg invoice (inv_customerId invoice),
             dx_optOutInstruction = dc_optOutInstruction cfg, dx_customerName = None,
             dx_cardLast4 = pm_last4 method, dx_locale = None, dx_reminderNumber = None\<rparr>)) (\<lambda>m. ok (Some m)))"

definition sendKey :: "Invoice \<Rightarrow> int \<Rightarrow> DunningChannel \<Rightarrow> string" where
  "sendKey invoice attemptNumber ch =
     inv_merchantId invoice @ '':'' @ inv_id invoice @ '':'' @ show_int attemptNumber @ '':'' @ channel_text ch"

definition delivery :: "DeliveryStatus \<Rightarrow> DunningChannel \<Rightarrow> string \<Rightarrow> DunningDeliveryRecord" where
  "delivery st ch reason = \<lparr>dd_status = st, dd_channel = ch, dd_provider = None, dd_providerMessageId = None,
     dd_attempts = None, dd_reason = Some reason\<rparr>"

definition deliverDunning ::
  "('w, 'p) ServiceEnv \<Rightarrow> DunningMessage \<Rightarrow> Invoice \<Rightarrow> int \<Rightarrow> DeclineCode \<Rightarrow> Customer option \<Rightarrow> int option \<Rightarrow>
   ('w, 'p, DunningDeliveryRecord option) srv" where
  "deliverDunning env message invoice attemptNumber code customer locHour =
     (case se_sender env of
        None \<Rightarrow> ok None
      | Some dunningSender \<Rightarrow>
          (let ch = dm_channel message; consent = map_option cust_consent customer;
               hasConsent = (if ch = DcSms then coalesce (map_option consent_sms consent) False
                             else coalesce (map_option consent_email consent) False);
               recipient = \<lparr>dr_channel = ch, dr_email = Option.bind customer cust_email,
                            dr_phone = Option.bind customer cust_phone\<rparr>;
               key = sendKey invoice attemptNumber ch
           in andThen (hour_or_wall env locHour) (\<lambda>hour.
             (case evaluate
                \<lparr>kind = Comms, channel = Some (dunning_channel ch), declineCode = code, declineFamily = familyOf code,
                 attemptsSoFar = 0, cardNetwork = None, attemptsInWindow = None, minutesSinceLastAttempt = None,
                 localHour = hour, hasConsent = hasConsent,
                 globallyOptedOut = coalesce (map_option consent_globallyOptedOut consent) False\<rparr>
                DEFAULT_GUARDRAIL_POLICY of
                Suppress reason _ \<Rightarrow> ok (Some (delivery DeSuppressed ch (reason_value reason)))
              | Allow \<Rightarrow>
                  if (ch = DcEmail \<and> \<not> given (dr_email recipient)) \<or> (ch = DcSms \<and> \<not> given (dr_phone recipient)) then
                    ok (Some (delivery DeSkipped ch ''no recipient address for channel''))
                  else
                    andThen (gets (\<lambda>s. dedupe_has (sv_sent s) key)) (\<lambda>dup.
                      if dup then ok (Some (delivery DeDuplicate ch ''already sent for this attempt''))
                      else
                        andThen (world_op ((if se_liveComms env then dunningSender else dry_run_send) message recipient)) (\<lambda>result.
                        andThen (if sd_status result = Sent
                                 then modify (\<lambda>s. s\<lparr>sv_sent := dedupe_record (sv_sent s) key\<rparr>) else ok ()) (\<lambda>_.
                          ok (Some \<lparr>dd_status = DeSender (sd_status result), dd_channel = ch,
                                   dd_provider = Some (sd_provider result),
                                   dd_providerMessageId = sd_providerMessageId result,
                                   dd_attempts = sd_attempts result, dd_reason = sd_error result\<rparr>))))))))"

subsection \<open>Credential recovery\<close>

definition freshProposed ::
  "('w, 'p) ServiceEnv \<Rightarrow> Invoice \<Rightarrow> RecoveryFeatures \<Rightarrow> int \<Rightarrow> iso option \<Rightarrow> PaymentMethod \<Rightarrow> ('w, 'p, ProposedAction) srv" where
  "freshProposed env invoice features attemptsBefore nowIso m =
     andThen (gets (\<lambda>s. cred_window (sv_credentials s) (credentialKey (inv_id invoice) m) nowIso)) (\<lambda>credWin.
     andThen (wall_now env) (\<lambda>t.
       ok \<lparr>kind = FreshCredentialCharge, channel = None, declineCode = f_declineCode features,
           declineFamily = familyOf (f_declineCode features), attemptsSoFar = attemptsBefore,
           cardNetwork = Some (mapCardNetwork (pm_brand m)),
           attemptsInWindow = Some (cw_attemptsInWindow credWin),
           minutesSinceLastAttempt = cw_minutesSinceLastAttempt credWin,
           localHour = utcHour t, hasConsent = True, globallyOptedOut = False\<rparr>))"

definition charge_fresh ::
  "('w, 'p) ServiceEnv \<Rightarrow> 'w ProcessorAdapter \<Rightarrow> Invoice \<Rightarrow> RecoveryFeatures \<Rightarrow> int \<Rightarrow> iso option \<Rightarrow> PaymentMethod \<Rightarrow> string \<Rightarrow>
   ('w, 'p, ChargeOutcome option) srv" where
  "charge_fresh env adapter invoice features attemptNumber nowIso m via =
     andThen (log_now env (inv_merchantId invoice) RecoveryPlanned
       [(''invoiceId'', JStr (inv_id invoice)), (''action'', JStr via), (''methodRef'', JStr (pm_processorRef m))]) (\<lambda>_.
     andThen (freshProposed env invoice features (attemptNumber - 1) nowIso m) (\<lambda>proposed.
     andThen (attemptRecovery env adapter invoice m proposed attemptNumber nowIso False) (\<lambda>exec.
       ok (snd exec))))"

definition executeCredentialRecovery ::
  "('w, 'p) ServiceEnv \<Rightarrow> 'w ProcessorAdapter \<Rightarrow> Invoice \<Rightarrow> PaymentMethod \<Rightarrow> RecoveryFeatures \<Rightarrow> int \<Rightarrow> Customer option \<Rightarrow> iso option \<Rightarrow>
   ('w, 'p, ChargeOutcome option) srv" where
  "executeCredentialRecovery env adapter invoice method features attemptNumber customer nowIso =
     andThen (catchE (world_op (ad_fetchUpdatedCard adapter method)) (\<lambda>_. ok None)) (\<lambda>updated.
     andThen (case updated of
                Some u \<Rightarrow> if pm_token u \<noteq> pm_token method
                          then charge_fresh env adapter invoice features attemptNumber nowIso u ''card_refresh''
                          else ok None
              | None \<Rightarrow> ok None) (\<lambda>first.
       if first = Some Succeeded then ok (Some Succeeded)
       else
         (case customer of
            None \<Rightarrow> ok None
          | Some c \<Rightarrow>
              andThen (catchE (world_op (ad_listPaymentMethods adapter c)) (\<lambda>_. ok [])) (\<lambda>methods.
                (case List.find (\<lambda>m. pm_id m \<noteq> pm_id method \<and>
                        (case updated of None \<Rightarrow> True | Some u \<Rightarrow> pm_id m \<noteq> pm_id u)) methods of
                   None \<Rightarrow> ok None
                 | Some backup \<Rightarrow>
                     andThen (charge_fresh env adapter invoice features attemptNumber nowIso backup ''alternate_rail'') (\<lambda>second.
                       ok (if second = Some Succeeded then Some Succeeded else None)))))))"

subsection \<open>The end-to-end path\<close>

datatype RecoveryActionOutcome = OutCardUpdateComms | OutSuppress | OutSuppressed | OutShadowed | OutAttempted

record ExecResult =
  xr_action :: RecoveryActionOutcome
  xr_outcome :: "ChargeOutcome option"
  xr_decision :: RecoveryDecision

fun exec_action :: "AttemptResult \<Rightarrow> RecoveryActionOutcome" where
  "exec_action AtSuppressed = OutSuppressed"
| "exec_action AtShadowed = OutShadowed"
| "exec_action AtAttempted = OutAttempted"

definition decline_path ::
  "('w, 'p) ServiceEnv \<Rightarrow> 'w ProcessorAdapter \<Rightarrow> Invoice \<Rightarrow> PaymentMethod \<Rightarrow> RecoveryFeatures \<Rightarrow> RecoveryDecision \<Rightarrow>
   int \<Rightarrow> int option \<Rightarrow> Customer option \<Rightarrow> bool \<Rightarrow> ('w, 'p, ExecResult) srv" where
  "decline_path env adapter invoice method features decision attemptNumber locHour customer shadow =
     (let isComms = (rd_action decision = ActCardUpdateComms) in
      andThen (if isComms \<and> \<not> shadow then composeDunning env invoice method (f_declineCode features) else ok None) (\<lambda>message.
      andThen (case message of
                 Some m \<Rightarrow> deliverDunning env m invoice attemptNumber (f_declineCode features) customer locHour
               | None \<Rightarrow> ok None) (\<lambda>delivery.
      andThen (log_now env (inv_merchantId invoice) (if isComms then CommsSent else ActionSuppressed)
        ([(''invoiceId'', JStr (inv_id invoice)), (''processor'', JStr (ad_id adapter)),
          (''reason'', JStr (action_value (rd_action decision))),
          (''rationale'', JStr (se_rationale env decision))]
         @ (case message of Some m \<Rightarrow> [(''message'', message_json m)] | None \<Rightarrow> [])
         @ (case delivery of Some d \<Rightarrow> [(''delivery'', delivery_json d)] | None \<Rightarrow> []))) (\<lambda>_.
        ok \<lparr>xr_action = (if isComms then OutCardUpdateComms else OutSuppress), xr_outcome = None,
            xr_decision = decision\<rparr>))))"

definition executeRecovery ::
  "('w, 'p) ServiceEnv \<Rightarrow> 'w ProcessorAdapter \<Rightarrow> Invoice \<Rightarrow> PaymentMethod \<Rightarrow> DeclineEvent option \<Rightarrow> int \<Rightarrow> int option \<Rightarrow>
   int option \<Rightarrow> Customer option \<Rightarrow> iso option \<Rightarrow> bool \<Rightarrow> ('w, 'p, ExecResult) srv" where
  "executeRecovery env adapter invoice method decline attemptNumber locHour minutesSince customer nowIso shadow =
     andThen (featuresFor env invoice (Some method) decline attemptNumber customer) (\<lambda>features.
     (let network = mapCardNetwork (pm_brand method) in
     andThen (gets (\<lambda>s. cred_window (sv_credentials s) (credentialKey (inv_id invoice) method) nowIso)) (\<lambda>credWin.
     andThen (wall_now env) (\<lambda>now.
     andThen (policy_decide env features
       \<lparr>ctx_now = now, ctx_methods = Some (method_list method), ctx_config = None, ctx_cost = None,
        ctx_compliance = Some
          \<lparr>cc_attemptsInNetworkWindow = Some (cw_attemptsInWindow credWin),
           cc_networkCap = map_option (\<lambda>caps. maxAttemptsPerWindow (caps network)) (networkCaps DEFAULT_GUARDRAIL_POLICY),
           cc_fineRampStart = None\<rparr>\<rparr>) (\<lambda>decision.
     andThen (log_now env (inv_merchantId invoice) RecoveryPlanned
       [(''invoiceId'', JStr (inv_id invoice)), (''action'', JStr (action_value (rd_action decision))),
        (''retryAt'', retryAt_json (se_isoText env) decision),
        (''expectedValueMinor'', jint (rd_expectedValueMinor decision)),
        (''rationale'', JStr (se_rationale env decision)),
        (''features'', features_json (se_num env) features), (''shadow'', JBool shadow)]) (\<lambda>_.
       if rd_action decision \<noteq> ActRetry then
         andThen (if rd_action decision = ActCardUpdateComms \<and> \<not> shadow
                  then executeCredentialRecovery env adapter invoice method features attemptNumber customer nowIso
                  else ok None) (\<lambda>rec.
           if rec = Some Succeeded then
             ok \<lparr>xr_action = OutAttempted, xr_outcome = Some Succeeded, xr_decision = decision\<rparr>
           else decline_path env adapter invoice method features decision attemptNumber locHour customer shadow)
       else
         andThen (hour_or_wall env locHour) (\<lambda>hour.
         andThen (attemptRecovery env adapter invoice method
           \<lparr>kind = ChargeRetry, channel = None, declineCode = f_declineCode features,
            declineFamily = familyOf (f_declineCode features), attemptsSoFar = attemptNumber - 1,
            cardNetwork = Some network, attemptsInWindow = Some (cw_attemptsInWindow credWin),
            minutesSinceLastAttempt = or_else (cw_minutesSinceLastAttempt credWin) minutesSince,
            localHour = hour, hasConsent = True, globallyOptedOut = False\<rparr>
           attemptNumber nowIso shadow) (\<lambda>exec.
         andThen (learnOnline env features decision (coalesce (snd exec) Pending) (amount (inv_amount invoice))) (\<lambda>_.
           ok \<lparr>xr_action = exec_action (fst exec), xr_outcome = snd exec, xr_decision = decision\<rparr>)))))))))"

subsection \<open>Reversals\<close>

text \<open>\<open>Number(detail.amount ?? 0)\<close> on the details the service writes, whose amounts are integers.\<close>

definition read_int :: "string \<Rightarrow> int" where
  "read_int s = (case s of c # r \<Rightarrow> if c = CHR ''-'' then - int (digits_value r) else int (digits_value s) | [] \<Rightarrow> 0)"

definition json_amount :: "json option \<Rightarrow> int" where
  "json_amount v = (case v of Some (JNum s) \<Rightarrow> read_int s | _ \<Rightarrow> 0)"

definition about_invoice :: "ident \<Rightarrow> LedgerEntry \<Rightarrow> bool" where
  "about_invoice i e = (map_of (le_detail e) ''invoiceId'' = Some (JStr i))"

definition entry_amount :: "LedgerEntry \<Rightarrow> int" where
  "entry_amount e = json_amount (map_of (le_detail e) ''amount'')"

definition netRecoveredForInvoice :: "ident \<Rightarrow> ledger \<Rightarrow> int" where
  "netRecoveredForInvoice i es =
     foldl (\<lambda>net e. if \<not> about_invoice i e then net
                    else if le_type e = CaseRecovered then net + entry_amount e
                    else if le_type e = CaseReversed then net - entry_amount e
                    else net) 0 es"

definition netReversedForInvoice :: "ident \<Rightarrow> ledger \<Rightarrow> int" where
  "netReversedForInvoice i es =
     foldl (\<lambda>net e. if \<not> about_invoice i e then net
                    else if le_type e = CaseReversed then net + entry_amount e
                    else if le_type e = CaseReversalReverted then net - entry_amount e
                    else net) 0 es"

fun reversal_kind_value :: "ReversalKind \<Rightarrow> string" where
  "reversal_kind_value Refund = ''refund''"
| "reversal_kind_value Chargeback = ''chargeback''"

definition reversal_detail :: "ReversalPayload \<Rightarrow> string option \<Rightarrow> int \<Rightarrow> (string \<times> json) list" where
  "reversal_detail p processorId amt =
     [(''invoiceId'', JStr (rev_invoiceId p)), (''processor'', jopt processorId), (''amount'', jint amt),
      (''currency'', JStr (rev_currency p)), (''kind'', JStr (reversal_kind_value (rev_kind p))),
      (''reason'', jopt (rev_reason p))]"

definition recordReversal ::
  "('w, 'p) ServiceEnv \<Rightarrow> ReversalPayload \<Rightarrow> ident \<Rightarrow> string \<Rightarrow> string option \<Rightarrow> ('w, 'p, unit) srv" where
  "recordReversal env p merchantId occurredAt processorId =
     andThen (gets (\<lambda>s. netRecoveredForInvoice (rev_invoiceId p) (sv_ledger s))) (\<lambda>net.
       if net \<le> 0 then ok ()
       else log_at env occurredAt merchantId CaseReversed (reversal_detail p processorId (min (rev_amount p) net)))"

definition recordReversalReverted ::
  "('w, 'p) ServiceEnv \<Rightarrow> ReversalPayload \<Rightarrow> ident \<Rightarrow> string \<Rightarrow> string option \<Rightarrow> ('w, 'p, unit) srv" where
  "recordReversalReverted env p merchantId occurredAt processorId =
     andThen (gets (\<lambda>s. netReversedForInvoice (rev_invoiceId p) (sv_ledger s))) (\<lambda>reversed.
       if reversed \<le> 0 then ok ()
       else log_at env occurredAt merchantId CaseReversalReverted (reversal_detail p processorId (min (rev_amount p) reversed)))"

subsection \<open>Events\<close>

definition dispatchDurableRecovery ::
  "('w, 'p) ServiceEnv \<Rightarrow> Invoice \<Rightarrow> PaymentMethod \<Rightarrow> DeclineEvent option \<Rightarrow> Customer option \<Rightarrow> ('w, 'p, unit) srv" where
  "dispatchDurableRecovery env invoice method decline customer =
     world_op (se_dispatch env (inv_id invoice)
       \<lparr>di_invoice = invoice, di_method = method, di_decline = decline, di_customer = customer,
        di_shadow = (\<not> se_liveCharging env)\<rparr>)"

definition handleEvent :: "('w, 'p) ServiceEnv \<Rightarrow> CanonicalEvent \<Rightarrow> string option \<Rightarrow> ('w, 'p, unit) srv" where
  "handleEvent env event processorId =
     (case ev_payload event of
        PaymentReversed p \<Rightarrow> recordReversal env p (ev_merchantId event) (ev_occurredAt event) processorId
      | PaymentReversalReverted p \<Rightarrow> recordReversalReverted env p (ev_merchantId event) (ev_occurredAt event) processorId
      | InvoiceFailed None _ _ _ \<Rightarrow> ok ()
      | InvoiceFailed (Some invoice) decline method customer \<Rightarrow>
          andThen (openCase env invoice (deriveStratum invoice decline) (ev_occurredAt event)) (\<lambda>bucket.
          andThen (modify (\<lambda>s. s\<lparr>sv_features := fs_observe (inv_merchantId invoice) (inv_customerId invoice)
              (se_parseDate env (ev_occurredAt event)) (map_option cust_createdAt customer) (sv_features s),
            sv_onboarding := onb_recordFailure (inv_merchantId invoice) (inv_id invoice)
              (coalesce (map_option dec_code decline) UnknownDecline) (amount (inv_amount invoice)) (sv_onboarding s)\<rparr>)) (\<lambda>_.
            if bucket = Treatment then
              andThen (planRecovery env invoice decline) (\<lambda>_.
                (case method of
                   Some m \<Rightarrow> if se_durableRecovery env then dispatchDurableRecovery env invoice m decline customer else ok ()
                 | None \<Rightarrow> ok ()))
            else ok ()))
      | InvoicePaid None \<Rightarrow> ok ()
      | InvoicePaid (Some invoice) \<Rightarrow>
          modify (\<lambda>s. s\<lparr>sv_onboarding := onb_recordBaselineRecovery (inv_merchantId invoice) (inv_id invoice) (sv_onboarding s)\<rparr>)
      | OtherEvent \<Rightarrow> ok ())"

fun handle_events :: "('w, 'p) ServiceEnv \<Rightarrow> CanonicalEvent list \<Rightarrow> string option \<Rightarrow> ('w, 'p, unit) srv" where
  "handle_events env [] processorId = ok ()"
| "handle_events env (e # es) processorId = andThen (handleEvent env e processorId) (\<lambda>_. handle_events env es processorId)"

definition ingestWithAdapter :: "('w, 'p) ServiceEnv \<Rightarrow> 'w ProcessorAdapter \<Rightarrow> RawWebhook \<Rightarrow> ('w, 'p, unit) srv" where
  "ingestWithAdapter env adapter raw =
     andThen (world_op (ad_ingestWebhook adapter raw)) (\<lambda>events. handle_events env events (Some (ad_id adapter)))"

text \<open>\<open>appendDemoEvents\<close>: prepared events appended as they are.\<close>

fun appendDemoEvents :: "('w, 'p) ServiceEnv \<Rightarrow> LedgerInput list \<Rightarrow> ('w, 'p, nat) srv" where
  "appendDemoEvents env [] = ok 0"
| "appendDemoEvents env (e # es) =
     andThen (log_at env (le_occurredAt e) (le_merchantId e) (le_type e) (le_detail e)) (\<lambda>_.
     andThen (appendDemoEvents env es) (\<lambda>n. ok (Suc n)))"

subsection \<open>The scheduler's port\<close>

fun mapAction :: "RecoveryActionOutcome \<Rightarrow> ExecutedAction" where
  "mapAction OutAttempted = Charged"
| "mapAction OutShadowed = Shadowed"
| "mapAction OutSuppressed = GuardrailSuppressed"
| "mapAction OutSuppress = EngineSuppressed"
| "mapAction OutCardUpdateComms = CardUpdateComms"

definition serviceRecoveryCasePort ::
  "('w, 'p) ServiceEnv \<Rightarrow> (Invoice \<Rightarrow> 'w ProcessorAdapter) \<Rightarrow> bool \<Rightarrow> ('w, 'p) Service RecoveryCasePort" where
  "serviceRecoveryCasePort env resolveAdapter shadow =
     \<lparr>port_plan = (\<lambda>i. planAttempt env (ai_invoice i) (Some (ai_method i)) (ai_decline i) (ai_attemptNumber i)),
      port_execute = (\<lambda>i.
        andThen (executeRecovery env (resolveAdapter (ai_invoice i)) (ai_invoice i) (ai_method i) (ai_decline i)
          (ai_attemptNumber i) (ai_localHour i) (ai_minutesSinceLastAttempt i) (ai_customer i) (ai_nowIso i) shadow) (\<lambda>res.
          ok \<lparr>er_action = mapAction (xr_action res), er_outcome = xr_outcome res, er_decision = xr_decision res\<rparr>)),
      port_planSequence = Some (\<lambda>i.
        planSequence env (ai_invoice i) (ai_method i) (ai_decline i) (ai_attemptNumber i))\<rparr>"

end
