(* ===== verification/RecoverySafety.thy ===== *)
theory RecoverySafety
  imports RecoveryCase
begin

text \<open>
  Safety of the recovery-case service. One locale collects what an invariant of the service's
  state has to survive (a clock reading, an append, an update of one of the stores); inside it
  every operation is shown to keep such an invariant, with the calls to the adapter as the only
  premises. The interpretations and corollaries are the hash chain, the charges that can reach
  an adapter, and shadow mode.
\<close>

subsection \<open>What an operation returns\<close>

definition returns :: "('a \<Rightarrow> bool) \<Rightarrow> ('s, 'a) eff \<Rightarrow> bool" where
  "returns R m \<longleftrightarrow> (\<forall>s a s'. m s = (Inr a, s') \<longrightarrow> R a)"

lemma preserves_snd: "preserves P m \<Longrightarrow> P s \<Longrightarrow> P (snd (m s))"
  by (simp add: preserves_def)

lemma preserves_andThen_returns:
  assumes "preserves P m" "returns R m" "\<And>a. R a \<Longrightarrow> preserves P (f a)"
  shows "preserves P (andThen m f)"
proof (rule preservesI)
  fix s assume "P s"
  show "P (snd (andThen m f s))"
  proof (cases "m s")
    case (Pair r s')
    with assms(1) \<open>P s\<close> have "P s'" by (auto dest: preservesD)
    with Pair assms(2,3) show ?thesis by (cases r) (auto simp: andThen_def preserves_def returns_def)
  qed
qed

lemma returns_ok: "R a \<Longrightarrow> returns R (ok a)"
  by (simp add: returns_def ok_def)

lemma returns_andThen: "(\<And>a. returns R (f a)) \<Longrightarrow> returns R (andThen m f)"
  by (auto simp: returns_def andThen_def split: prod.splits sum.splits)

lemma returns_gets: "(\<And>s. R (f s)) \<Longrightarrow> returns R (gets f)"
  by (simp add: returns_def gets_def)

definition decline_code :: "DeclineEvent option \<Rightarrow> DeclineCode" where
  "decline_code decline = coalesce (map_option dec_code decline) UnknownDecline"

lemma featuresFor_code:
  "returns (\<lambda>f. f_declineCode f = decline_code decline) (featuresFor env invoice method decline n customer)"
  unfolding featuresFor_def decline_code_def
  by (intro returns_andThen returns_gets) (simp add: fs_enrich_def Let_def)

text \<open>A charge the guardrail has passed: on the network of the card that is charged, for the
  decline at hand, after \<open>n - 1\<close> attempts, under the idempotency key of attempt \<open>n\<close>.\<close>

definition authorised ::
  "('w, 'p) ServiceEnv \<Rightarrow> Invoice \<Rightarrow> DeclineCode \<Rightarrow> int \<Rightarrow> ProposedActionKind \<Rightarrow> PaymentMethod \<Rightarrow> string \<Rightarrow> bool" where
  "authorised env invoice code n k m key \<longleftrightarrow>
     (\<exists>a. evaluate a DEFAULT_GUARDRAIL_POLICY = Allow \<and> kind a = k \<and> declineCode a = code
        \<and> declineFamily a = familyOf code \<and> attemptsSoFar a = n - 1
        \<and> cardNetwork a = Some (mapCardNetwork (pm_brand m)))
     \<and> key = idempotencyKey (se_H env) (inv_merchantId invoice) (inv_id invoice) (pm_id m) n"

lemma freshProposed_fields:
  "returns (\<lambda>a. kind a = FreshCredentialCharge \<and> declineCode a = f_declineCode f
      \<and> declineFamily a = familyOf (f_declineCode f) \<and> attemptsSoFar a = k
      \<and> cardNetwork a = Some (mapCardNetwork (pm_brand m)))
    (freshProposed env invoice f k now m)"
  unfolding freshProposed_def by (intro returns_andThen returns_ok) simp

subsection \<open>Invariants of the service\<close>

locale service_invariant =
  fixes env :: "('w, 'p) ServiceEnv" and P :: "('w, 'p) Service \<Rightarrow> bool"
  assumes inv_ticks: "P s \<Longrightarrow> P (s\<lparr>sv_ticks := n\<rparr>)"
    and inv_ledger: "P s \<Longrightarrow> P (s\<lparr>sv_ledger := ledger_append (se_H env) (sv_ledger s) d\<rparr>)"
    and inv_opened: "P s \<Longrightarrow> P (s\<lparr>sv_opened := os\<rparr>)"
    and inv_attempts: "P s \<Longrightarrow> P (s\<lparr>sv_attempts := a\<rparr>)"
    and inv_credentials: "P s \<Longrightarrow> P (s\<lparr>sv_credentials := c\<rparr>)"
    and inv_features: "P s \<Longrightarrow> P (s\<lparr>sv_features := f\<rparr>)"
    and inv_sent: "P s \<Longrightarrow> P (s\<lparr>sv_sent := k\<rparr>)"
    and inv_onboarding: "P s \<Longrightarrow> P (s\<lparr>sv_onboarding := ob\<rparr>)"
    and inv_policy: "P s \<Longrightarrow> P (s\<lparr>sv_policy := p, sv_banditTotalUpdates := u\<rparr>)"
begin

definition world_safe :: "('w, 'a) eff \<Rightarrow> bool" where
  "world_safe m \<longleftrightarrow> (\<forall>s. P s \<longrightarrow> P (s\<lparr>sv_world := snd (m (sv_world s))\<rparr>))"

lemma keeps_world_op: "world_safe m \<Longrightarrow> preserves P (world_op m)"
  by (auto simp: world_safe_def preserves_def world_op_def zoom_def split: prod.split)

lemma inv_both: "P s \<Longrightarrow> P (s\<lparr>sv_features := f, sv_onboarding := ob\<rparr>)"
  using inv_onboarding [OF inv_features, of s ob f] by simp

lemma keeps_wall: "preserves P (wall_now env)"
  by (simp add: preserves_def wall_now_def inv_ticks)

lemma keeps_or_wall: "preserves P (or_wall env t)"
  unfolding or_wall_def by (intro preserves_intros keeps_wall)

lemma keeps_hour: "preserves P (hour_or_wall env h)"
  unfolding hour_or_wall_def by (intro preserves_intros keeps_wall)

lemma keeps_log_at: "preserves P (log_at env t m ty d)"
  unfolding log_at_def by (rule preserves_modify) (rule inv_ledger)

lemma keeps_log_now: "preserves P (log_now env m ty d)"
  unfolding log_now_def by (intro preserves_intros keeps_wall keeps_log_at)

lemma keeps_decide: "preserves P (policy_decide env f ctx)"
  by (simp add: preserves_def policy_decide_def)

lemma keeps_features: "preserves P (featuresFor env invoice method decline n customer)"
  unfolding featuresFor_def by (intro preserves_intros keeps_wall)

lemma keeps_learn: "preserves P (learnOnline env f d out amt)"
  unfolding learnOnline_def Let_def
  by (intro preserves_intros preserves_modify inv_policy)

lemmas keeps_basic = keeps_wall keeps_or_wall keeps_hour keeps_log_at keeps_log_now keeps_decide
  keeps_features keeps_learn

lemma keeps_openCase: "preserves P (openCase env invoice stratum t)"
  unfolding openCase_def
  by (intro preserves_intros keeps_basic preserves_modify inv_opened)

lemma keeps_planAttempt: "preserves P (planAttempt env invoice method decline n)"
  unfolding planAttempt_def by (intro preserves_intros keeps_basic)

lemma keeps_planRecovery: "preserves P (planRecovery env invoice decline)"
  unfolding planRecovery_def by (intro preserves_intros keeps_planAttempt)

lemma keeps_planSequence: "preserves P (planSequence env invoice method decline n)"
  unfolding planSequence_def by (intro preserves_intros keeps_basic)

lemma keeps_recordReversal: "preserves P (recordReversal env p m t pid)"
  unfolding recordReversal_def by (intro preserves_intros keeps_basic)

lemma keeps_recordReversalReverted: "preserves P (recordReversalReverted env p m t pid)"
  unfolding recordReversalReverted_def by (intro preserves_intros keeps_basic)

text \<open>A charge reaches the adapter only in active mode and past the guardrail.\<close>

lemma keeps_attemptRecovery:
  assumes "\<not> shadow \<Longrightarrow> evaluate a DEFAULT_GUARDRAIL_POLICY = Allow \<Longrightarrow>
    world_safe (ad_attemptCharge adapter invoice method
      (idempotencyKey (se_H env) (inv_merchantId invoice) (inv_id invoice) (pm_id method) n))"
  shows "preserves P (attemptRecovery env adapter invoice method a n now shadow)"
proof (cases "evaluate a DEFAULT_GUARDRAIL_POLICY")
  case (Suppress reason msg)
  then show ?thesis
    unfolding attemptRecovery_def by (simp only: GuardrailDecision.case) (intro preserves_intros keeps_basic)
next
  case Allow
  show ?thesis
  proof (cases shadow)
    case True
    show ?thesis
      unfolding attemptRecovery_def Let_def Allow GuardrailDecision.case if_P [OF True]
      by (intro preserves_intros keeps_basic)
  next
    case False
    note safe = keeps_world_op [OF assms [OF False Allow]]
    show ?thesis
      unfolding attemptRecovery_def Let_def Allow GuardrailDecision.case if_not_P [OF False]
      by (intro preserves_intros keeps_basic safe preserves_modify inv_attempts inv_credentials inv_features)
  qed
qed

lemma keeps_freshProposed: "preserves P (freshProposed env invoice f n now m)"
  unfolding freshProposed_def by (intro preserves_intros keeps_basic)

lemma keeps_charge_fresh:
  assumes "\<And>key. authorised env invoice (f_declineCode f) n FreshCredentialCharge m key \<Longrightarrow>
    world_safe (ad_attemptCharge adapter invoice m key)"
  shows "preserves P (charge_fresh env adapter invoice f n now m via)"
  unfolding charge_fresh_def
  by (intro preserves_andThen [OF keeps_log_now] preserves_andThen_returns [OF keeps_freshProposed freshProposed_fields]
      preserves_andThen [OF keeps_attemptRecovery] preserves_ok assms)
    (auto simp: authorised_def)

text \<open>The calls to the outside that active recovery makes, and that an invariant has to survive.\<close>

definition lookups_safe :: "'w ProcessorAdapter \<Rightarrow> bool" where
  "lookups_safe adapter \<longleftrightarrow>
     (\<forall>m. world_safe (ad_fetchUpdatedCard adapter m)) \<and> (\<forall>c. world_safe (ad_listPaymentMethods adapter c))"

definition comms_safe :: bool where
  "comms_safe \<longleftrightarrow> (\<forall>ctx. world_safe (se_compose env ctx)) \<and>
     (\<forall>snd m r. se_sender env = Some snd \<longrightarrow> world_safe ((if se_liveComms env then snd else dry_run_send) m r))"

definition charges_safe :: "'w ProcessorAdapter \<Rightarrow> Invoice \<Rightarrow> DeclineCode \<Rightarrow> int \<Rightarrow> PaymentMethod \<Rightarrow> bool" where
  "charges_safe adapter invoice code n method \<longleftrightarrow>
     (\<forall>m key. m = method \<and> authorised env invoice code n ChargeRetry m key
        \<or> (pm_token m \<noteq> pm_token method \<or> pm_id m \<noteq> pm_id method)
          \<and> authorised env invoice code n FreshCredentialCharge m key
      \<longrightarrow> world_safe (ad_attemptCharge adapter invoice m key))"

lemma find_SomeD: "List.find Q xs = Some x \<Longrightarrow> Q x"
  by (auto simp: find_Some_iff)

lemma keeps_executeCredentialRecovery:
  assumes "lookups_safe adapter" "charges_safe adapter invoice (f_declineCode f) n method"
  shows "preserves P (executeCredentialRecovery env adapter invoice method f n customer now)"
proof -
  have fresh: "preserves P (charge_fresh env adapter invoice f n now m via)"
    if "pm_token m \<noteq> pm_token method \<or> pm_id m \<noteq> pm_id method" for m via
    using assms(2) that by (intro keeps_charge_fresh) (auto simp: charges_safe_def)
  have look: "preserves P (world_op (ad_fetchUpdatedCard adapter m))"
    "preserves P (world_op (ad_listPaymentMethods adapter c))" for m c
    using assms(1) by (auto intro: keeps_world_op simp: lookups_safe_def)
  show ?thesis
    unfolding executeCredentialRecovery_def
    by (intro preserves_intros look fresh) (auto dest: find_SomeD)
qed

lemma keeps_composeDunning:
  assumes comms_safe
  shows "preserves P (composeDunning env invoice method code)"
proof -
  have "preserves P (world_op (se_compose env ctx))" for ctx
    using assms by (auto intro: keeps_world_op simp: comms_safe_def)
  then show ?thesis
    unfolding composeDunning_def by (intro preserves_intros)
qed

lemma keeps_deliverDunning:
  assumes comms_safe
  shows "preserves P (deliverDunning env msg invoice n code customer hour)"
proof (cases "se_sender env")
  case None
  then show ?thesis by (simp add: deliverDunning_def preserves_ok)
next
  case (Some sender)
  have send: "preserves P (world_op ((if se_liveComms env then sender else dry_run_send) m r))" for m r
    using assms Some unfolding comms_safe_def by (intro keeps_world_op) blast
  have verdict: "preserves P (case v of Suppress r t \<Rightarrow> f r t | Allow \<Rightarrow> g)"
    if "\<And>r t. preserves P (f r t)" "preserves P g" for v f and g :: "('w, 'p, 'x) srv"
    using that by (cases v) simp_all
  show ?thesis
    unfolding deliverDunning_def Some option.case Let_def
    by (intro preserves_intros keeps_hour verdict send preserves_modify inv_sent)
qed

lemma keeps_decline_path:
  assumes "\<not> shadow \<Longrightarrow> comms_safe"
  shows "preserves P (decline_path env adapter invoice method f d n hour customer shadow)"
proof (cases shadow)
  case True
  then have "(c \<and> \<not> shadow) = False" for c by simp
  then show ?thesis
    unfolding decline_path_def Let_def
    by (simp only: if_False andThen_ok option.case append.simps) (intro preserves_intros keeps_basic)
next
  case False
  then show ?thesis
    unfolding decline_path_def Let_def
    by (intro preserves_intros keeps_basic keeps_composeDunning keeps_deliverDunning assms)
qed

lemma keeps_executeRecovery:
  assumes "\<not> shadow \<Longrightarrow> lookups_safe adapter" "\<not> shadow \<Longrightarrow> comms_safe"
    and "\<not> shadow \<Longrightarrow> charges_safe adapter invoice (decline_code decline) n method"
  shows "preserves P (executeRecovery env adapter invoice method decline n hour mins customer now shadow)"
proof -
  have cred: "preserves P (executeCredentialRecovery env adapter invoice method f n customer now)"
    if "\<not> shadow" "f_declineCode f = decline_code decline" for f
    using keeps_executeCredentialRecovery assms that by simp
  have same: "\<not> shadow \<Longrightarrow> evaluate a DEFAULT_GUARDRAIL_POLICY = Allow \<Longrightarrow>
      world_safe (ad_attemptCharge adapter invoice method
        (idempotencyKey (se_H env) (inv_merchantId invoice) (inv_id invoice) (pm_id method) n))"
    if "kind a = ChargeRetry" "declineCode a = decline_code decline" "declineFamily a = familyOf (decline_code decline)"
      "attemptsSoFar a = n - 1" "cardNetwork a = Some (mapCardNetwork (pm_brand method))" for a
    using assms(3) that unfolding charges_safe_def authorised_def by blast
  show ?thesis
    unfolding executeRecovery_def Let_def
    by (rule preserves_andThen_returns [OF keeps_features featuresFor_code])
      (intro preserves_intros keeps_basic cred keeps_decline_path keeps_attemptRecovery same assms, simp_all)
qed

subsection \<open>Events\<close>

lemma keeps_handleEvent:
  assumes "\<And>w i. world_safe (se_dispatch env w i)"
  shows "preserves P (handleEvent env event processorId)"
proof (cases "ev_payload event")
  case (InvoiceFailed inv decl card cust)
  show ?thesis
    unfolding handleEvent_def InvoiceFailed EventPayload.case dispatchDurableRecovery_def
    by (cases inv) (simp_all only: option.case, (intro preserves_intros keeps_openCase keeps_planRecovery keeps_world_op assms
        preserves_modify inv_both)+)
qed (auto simp: handleEvent_def intro!: keeps_recordReversal keeps_recordReversalReverted preserves_ok
    preserves_modify inv_onboarding split: option.split)

lemma keeps_handle_events:
  assumes "\<And>w i. world_safe (se_dispatch env w i)"
  shows "preserves P (handle_events env es processorId)"
  by (induction es) (auto intro!: preserves_intros keeps_handleEvent assms)

lemma keeps_ingest:
  assumes "\<And>w i. world_safe (se_dispatch env w i)" "\<And>raw. world_safe (ad_ingestWebhook adapter raw)"
  shows "preserves P (ingestWithAdapter env adapter raw)"
  unfolding ingestWithAdapter_def
  by (intro preserves_intros keeps_world_op keeps_handle_events assms)

lemma keeps_demo: "preserves P (appendDemoEvents env es)"
  by (induction es) (auto intro!: preserves_intros keeps_log_at)

end

end
