(* ===== verification/RecoveryOutcomes.thy ===== *)
theory RecoveryOutcomes
  imports RecoverySafety SagaSafety
begin

text \<open>
  What the recovery-case service guarantees, obtained from the invariant locale of
  \<open>RecoverySafety\<close>: the ledger stays a valid chain and only grows, shadow mode touches nothing
  outside, every charge that reaches a processor was authorised, a control case is never acted
  on, a dunning message is sent at most once, and reversals stay within what was recovered.
\<close>

subsection \<open>The ledger\<close>

interpretation service_chain: service_invariant env "\<lambda>s. chain_ok (se_H env) (sv_ledger s)" for env
  by unfold_locales simp_all

interpretation service_growth: service_invariant env "\<lambda>s. prefix L (sv_ledger s)" for env L
  by unfold_locales (simp_all add: ledger_append_def)

interpretation service_world: service_invariant env "\<lambda>s. I (sv_world s)" for env I
  by unfold_locales simp_all

lemma chain_world_safe [simp]: "service_invariant.world_safe (\<lambda>s :: ('w, 'p) Service. chain_ok (se_H (env :: ('w, 'p) ServiceEnv)) (sv_ledger s)) m"
  by (simp add: service_chain.world_safe_def)

lemma growth_world_safe [simp]: "service_invariant.world_safe (\<lambda>s. prefix L (sv_ledger s)) m"
  by (simp add: service_growth.world_safe_def)

lemmas chain_calls = service_chain.lookups_safe_def service_chain.comms_safe_def service_chain.charges_safe_def
lemmas growth_calls = service_growth.lookups_safe_def service_growth.comms_safe_def service_growth.charges_safe_def

lemma executeRecovery_chain:
  "chain_ok (se_H env) (sv_ledger s) \<Longrightarrow>
   chain_ok (se_H env) (sv_ledger (snd (executeRecovery env adapter invoice method decline n hour mins customer now shadow s)))"
  by (rule service_chain.keeps_executeRecovery [unfolded preserves_def, rule_format]) (simp_all add: chain_calls)

lemma executeRecovery_grows:
  "prefix (sv_ledger s) (sv_ledger (snd (executeRecovery env adapter invoice method decline n hour mins customer now shadow s)))"
  by (rule service_growth.keeps_executeRecovery [unfolded preserves_def, rule_format]) (simp_all add: growth_calls)

lemma ingest_chain:
  "chain_ok (se_H env) (sv_ledger s) \<Longrightarrow> chain_ok (se_H env) (sv_ledger (snd (ingestWithAdapter env adapter raw s)))"
  by (rule service_chain.keeps_ingest [unfolded preserves_def, rule_format]) simp_all

lemma ingest_grows: "prefix (sv_ledger s) (sv_ledger (snd (ingestWithAdapter env adapter raw s)))"
  by (rule service_growth.keeps_ingest [unfolded preserves_def, rule_format]) simp_all

text \<open>The operations on a service, as the webhook routes and the scheduler's activities call them.\<close>

datatype 'w service_call =
    CallExecute "'w ProcessorAdapter" Invoice PaymentMethod "DeclineEvent option" int "int option" "int option"
      "Customer option" "iso option" bool
  | CallPlan Invoice "PaymentMethod option" "DeclineEvent option" int
  | CallPlanSequence Invoice PaymentMethod "DeclineEvent option" int
  | CallIngest "'w ProcessorAdapter" RawWebhook
  | CallHandle CanonicalEvent "string option"
  | CallOpen Invoice Stratum string
  | CallDemo "LedgerInput list"

fun service_step :: "('w, 'p) ServiceEnv \<Rightarrow> 'w service_call \<Rightarrow> ('w, 'p) Service \<Rightarrow> ('w, 'p) Service" where
  "service_step env (CallExecute ad i m d n h t c w sh) s = snd (executeRecovery env ad i m d n h t c w sh s)"
| "service_step env (CallPlan i m d n) s = snd (planAttempt env i m d n s)"
| "service_step env (CallPlanSequence i m d n) s = snd (planSequence env i m d n s)"
| "service_step env (CallIngest ad raw) s = snd (ingestWithAdapter env ad raw s)"
| "service_step env (CallHandle e p) s = snd (handleEvent env e p s)"
| "service_step env (CallOpen i st t) s = snd (openCase env i st t s)"
| "service_step env (CallDemo es) s = snd (appendDemoEvents env es s)"

lemma service_step_chain:
  "chain_ok (se_H env) (sv_ledger s) \<Longrightarrow> chain_ok (se_H env) (sv_ledger (service_step env c s))"
  using service_chain.keeps_planAttempt [where env = env] service_chain.keeps_planSequence [where env = env]
    service_chain.keeps_handleEvent [where env = env] service_chain.keeps_openCase [where env = env]
    service_chain.keeps_demo [where env = env]
  by (cases c) (simp_all add: executeRecovery_chain ingest_chain preserves_def)

lemma service_step_grows: "prefix (sv_ledger s) (sv_ledger (service_step env c s))"
  using service_growth.keeps_planAttempt [where L = "sv_ledger s" and env = env]
    service_growth.keeps_planSequence [where L = "sv_ledger s" and env = env]
    service_growth.keeps_handleEvent [where L = "sv_ledger s" and env = env]
    service_growth.keeps_openCase [where L = "sv_ledger s" and env = env]
    service_growth.keeps_demo [where L = "sv_ledger s" and env = env]
  by (cases c) (simp_all add: executeRecovery_grows ingest_grows preserves_def)

lemma service_history:
  assumes "chain_ok (se_H env) (sv_ledger s)"
  shows "chain_ok (se_H env) (sv_ledger (fold (service_step env) cs s))
    \<and> prefix (sv_ledger s) (sv_ledger (fold (service_step env) cs s))"
  using assms
proof (induction cs arbitrary: s)
  case (Cons c cs)
  then show ?case
    using prefix_order.trans [OF service_step_grows [of s env c]] by (simp add: service_step_chain)
qed simp

subsection \<open>Shadow mode and the world outside\<close>

lemma shadow_world: "sv_world (snd (executeRecovery env adapter invoice method decline n hour mins customer now True s)) = sv_world s"
  by (rule service_world.keeps_executeRecovery [unfolded preserves_def, rule_format]) simp_all

lemma planning_world:
  "sv_world (snd (planAttempt env invoice m decline n s)) = sv_world s"
  "sv_world (snd (planSequence env invoice method decline n s)) = sv_world s"
  "sv_world (snd (planRecovery env invoice decline s)) = sv_world s"
  by (rule service_world.keeps_planAttempt [unfolded preserves_def, rule_format]
      service_world.keeps_planSequence [unfolded preserves_def, rule_format]
      service_world.keeps_planRecovery [unfolded preserves_def, rule_format], rule refl)+

subsection \<open>The charges that reach a processor\<close>

text \<open>The same service over an adapter that keeps a log of the charges it is asked for.\<close>

type_synonym charge_log = "(Invoice \<times> PaymentMethod \<times> string) list"

definition beside_log :: "('w, 'a) eff \<Rightarrow> ('w \<times> charge_log, 'a) eff" where
  "beside_log m = zoom fst (\<lambda>w p. (w, snd p)) m"

definition logged_charge ::
  "'w ProcessorAdapter \<Rightarrow> Invoice \<Rightarrow> PaymentMethod \<Rightarrow> string \<Rightarrow> ('w \<times> charge_log, ChargeResult) eff" where
  "logged_charge ad invoice m key =
     (\<lambda>(w, l). case ad_attemptCharge ad invoice m key w of (r, w') \<Rightarrow> (r, (w', l @ [(invoice, m, key)])))"

definition logged_adapter :: "'w ProcessorAdapter \<Rightarrow> ('w \<times> charge_log) ProcessorAdapter" where
  "logged_adapter ad =
     \<lparr>ad_id = ad_id ad, ad_ingestWebhook = (\<lambda>raw. beside_log (ad_ingestWebhook ad raw)),
      ad_attemptCharge = logged_charge ad,
      ad_fetchUpdatedCard = (\<lambda>m. beside_log (ad_fetchUpdatedCard ad m)),
      ad_listPaymentMethods = (\<lambda>c. beside_log (ad_listPaymentMethods ad c))\<rparr>"

definition logged_env :: "('w, 'p) ServiceEnv \<Rightarrow> ('w \<times> charge_log, 'p) ServiceEnv" where
  "logged_env env =
     \<lparr>se_H = se_H env, se_wall = se_wall env, se_isoText = se_isoText env, se_parseDate = se_parseDate env,
      se_num = se_num env, se_rationale = se_rationale env, se_holdout = se_holdout env,
      se_decide = se_decide env, se_update = se_update env, se_model = se_model env,
      se_compose = (\<lambda>ctx. beside_log (se_compose env ctx)), se_dunningConfig = se_dunningConfig env,
      se_sender = map_option (\<lambda>f m r. beside_log (f m r)) (se_sender env), se_liveComms = se_liveComms env,
      se_dispatch = (\<lambda>w i. beside_log (se_dispatch env w i)), se_durableRecovery = se_durableRecovery env,
      se_liveCharging = se_liveCharging env\<rparr>"

definition charges :: "('w \<times> charge_log, 'p) Service \<Rightarrow> charge_log" where
  "charges s = snd (sv_world s)"

lemma snd_beside_log [simp]: "snd (snd (beside_log m p)) = snd p"
  by (simp add: beside_log_def zoom_def split: prod.split)

lemma snd_dry_run [simp]: "snd (dry_run_send m r w) = w"
  by (simp add: dry_run_send_def Let_def ok_def split: option.split)

lemma snd_logged_charge [simp]: "snd (snd (logged_charge ad i m key p)) = snd p @ [(i, m, key)]"
  by (cases p) (simp add: logged_charge_def split: prod.split)

interpretation service_charges: service_invariant env "\<lambda>s. Q (charges s)" for env Q
  by unfold_locales (simp_all add: charges_def)

lemma charges_world_safe:
  "(\<And>w. Q (snd w) \<Longrightarrow> Q (snd (snd (m w)))) \<Longrightarrow>
   service_invariant.world_safe (\<lambda>s :: ('w \<times> charge_log, 'p) Service. Q (charges s)) m"
  unfolding service_charges.world_safe_def by (simp add: charges_def)

lemma logged_lookups: "service_invariant.lookups_safe (\<lambda>s :: ('w \<times> charge_log, 'p) Service. Q (charges s)) (logged_adapter ad)"
  by (simp add: service_charges.lookups_safe_def charges_world_safe logged_adapter_def)

lemma logged_comms:
  "service_invariant.comms_safe (logged_env env) (\<lambda>s :: ('w \<times> charge_log, 'p) Service. Q (charges s))"
  by (auto simp: service_charges.comms_safe_def logged_env_def intro!: charges_world_safe)

lemma authorised_logged [simp]: "authorised (logged_env env) = authorised env"
  by (simp add: fun_eq_iff authorised_def logged_env_def)

lemma logged_charges_safe:
  fixes env :: "('w, 'p) ServiceEnv" and ad :: "'w ProcessorAdapter"
  assumes "\<And>m key l. m = method \<and> authorised env invoice code n ChargeRetry m key
      \<or> (pm_token m \<noteq> pm_token method \<or> pm_id m \<noteq> pm_id method)
        \<and> authorised env invoice code n FreshCredentialCharge m key
    \<Longrightarrow> Q l \<Longrightarrow> Q (l @ [(invoice, m, key)])"
  shows "service_invariant.charges_safe (logged_env env) (\<lambda>s. Q (charges s)) (logged_adapter ad) invoice code n method"
  unfolding service_charges.charges_safe_def authorised_logged
proof (intro allI impI charges_world_safe)
  fix m key and w :: "'w \<times> charge_log"
  assume "m = method \<and> authorised env invoice code n ChargeRetry m key
      \<or> (pm_token m \<noteq> pm_token method \<or> pm_id m \<noteq> pm_id method)
        \<and> authorised env invoice code n FreshCredentialCharge m key" "Q (snd w)"
  from assms [OF this] show "Q (snd (snd (ad_attemptCharge (logged_adapter ad) invoice m key w)))"
    by (simp add: logged_adapter_def)
qed

lemma executeRecovery_charges:
  assumes "charges s = []"
    and "(i, m, key) \<in> set (charges (snd (executeRecovery (logged_env env) (logged_adapter ad) invoice method decline n
      hour mins customer now shadow s)))"
  shows "i = invoice \<and> \<not> shadow
    \<and> (m = method \<and> authorised env invoice (decline_code decline) n ChargeRetry m key
       \<or> (pm_token m \<noteq> pm_token method \<or> pm_id m \<noteq> pm_id method)
         \<and> authorised env invoice (decline_code decline) n FreshCredentialCharge m key)"
proof -
  let ?A = "\<lambda>i m key. i = invoice \<and> \<not> shadow
    \<and> (m = method \<and> authorised env invoice (decline_code decline) n ChargeRetry m key
       \<or> (pm_token m \<noteq> pm_token method \<or> pm_id m \<noteq> pm_id method)
         \<and> authorised env invoice (decline_code decline) n FreshCredentialCharge m key)"
  let ?Q = "\<lambda>l. \<forall>(i, m, key) \<in> set l. ?A i m key"
  have keep: "preserves (\<lambda>s. ?Q (charges s)) (executeRecovery (logged_env env) (logged_adapter ad) invoice method decline n
      hour mins customer now shadow)"
    by (rule service_charges.keeps_executeRecovery [OF logged_lookups logged_comms logged_charges_safe]) auto
  have "?Q (charges s)" by (simp add: assms(1))
  from bspec [OF preserves_snd [OF keep this] assms(2)] show ?thesis by simp
qed

subsection \<open>How many charges one execution makes\<close>

text \<open>\<open>adds k m\<close>: the operation asks for at most \<open>k\<close> charges.\<close>

definition adds :: "nat \<Rightarrow> ('w \<times> charge_log, 'p, 'a) srv \<Rightarrow> bool" where
  "adds k m \<longleftrightarrow> (\<forall>s. length (charges (snd (m s))) \<le> length (charges s) + k)"

lemma adds_mono: "adds j m \<Longrightarrow> j \<le> k \<Longrightarrow> adds k m"
  by (auto simp: adds_def dest: spec intro: le_trans)

lemma adds_quiet: "(\<And>L. preserves (\<lambda>s. charges s = L) m) \<Longrightarrow> adds k m"
  by (simp add: adds_def preserves_def)

lemma adds_andThen:
  assumes "adds j m" "\<And>a. adds k (f a)"
  shows "adds (j + k) (andThen m f)"
  unfolding adds_def
proof
  fix s
  obtain r s' where m: "m s = (r, s')" by (cases "m s")
  with assms(1) have "length (charges s') \<le> length (charges s) + j" unfolding adds_def by (metis snd_conv)
  moreover have "length (charges (snd (f a s'))) \<le> length (charges s') + k" for a
    using assms(2) unfolding adds_def by blast
  ultimately show "length (charges (snd (andThen m f s))) \<le> length (charges s) + (j + k)"
    using m by (cases r) (auto simp: andThen_def add.assoc [symmetric] intro: order_trans [OF _ add_right_mono])
qed

lemma adds_quiet_andThen:
  "(\<And>L. preserves (\<lambda>s. charges s = L) m) \<Longrightarrow> (\<And>a. adds k (f a)) \<Longrightarrow> adds k (andThen m f)"
  using adds_andThen [of 0 m k f] by (simp add: adds_quiet)

abbreviation quiet :: "charge_log \<Rightarrow> ('w \<times> charge_log, 'p) Service \<Rightarrow> bool" where
  "quiet L \<equiv> \<lambda>s. charges s = L"

lemma quiet_attempt_rest:
  "preserves (quiet L) (modify (\<lambda>s. s\<lparr>sv_attempts := f s\<rparr>))"
  "preserves (quiet L) (modify (\<lambda>s. s\<lparr>sv_credentials := g s\<rparr>))"
  "preserves (quiet L) (modify (\<lambda>s. s\<lparr>sv_features := h s\<rparr>))"
  by (simp_all add: preserves_def modify_def charges_def)

lemma adds_world_charge: "adds 1 (world_op (logged_charge ad i m key))"
  by (simp add: adds_def world_op_def zoom_def charges_def split: prod.split)
    (metis One_nat_def le_refl length_append_singleton snd_conv snd_logged_charge)

lemma adds_attemptRecovery:
  "adds 1 (attemptRecovery env (logged_adapter ad) invoice method a n now shadow)"
proof (cases "evaluate a DEFAULT_GUARDRAIL_POLICY")
  case (Suppress reason msg)
  then show ?thesis
    unfolding attemptRecovery_def
    by (simp only: GuardrailDecision.case) (intro adds_quiet preserves_intros service_charges.keeps_basic)
next
  case Allow
  show ?thesis
  proof (cases shadow)
    case True
    show ?thesis
      unfolding attemptRecovery_def Let_def Allow GuardrailDecision.case if_P [OF True]
      by (intro adds_quiet preserves_intros service_charges.keeps_basic)
  next
    case False
    have charge: "adds 1 (andThen (world_op (logged_charge ad i m key)) f)"
      if "\<And>r L. preserves (quiet L) (f r)" for i m key and f :: "ChargeResult \<Rightarrow> _"
      using adds_andThen [OF adds_world_charge adds_quiet, of f 0 ad i m key] that by simp
    show ?thesis
      unfolding attemptRecovery_def Let_def Allow GuardrailDecision.case if_not_P [OF False] logged_adapter_def
        ProcessorAdapter.simps
      by (intro adds_quiet_andThen quiet_attempt_rest charge preserves_intros service_charges.keeps_basic)
  qed
qed

lemma adds_then_quiet:
  "adds k m \<Longrightarrow> (\<And>a L. preserves (\<lambda>s. charges s = L) (f a)) \<Longrightarrow> adds k (andThen m f)"
  using adds_andThen [of k m 0 f] by (simp add: adds_quiet)

lemma adds_charge_fresh: "adds 1 (charge_fresh env (logged_adapter ad) invoice f n now m via)"
proof -
  have "adds 1 (andThen (attemptRecovery env (logged_adapter ad) invoice m a n now False) (\<lambda>exec. ok (snd exec)))" for a
    by (rule adds_then_quiet) (rule adds_attemptRecovery, rule preserves_ok)
  then show ?thesis
    unfolding charge_fresh_def
    by (rule adds_quiet_andThen [OF service_charges.keeps_log_now
          adds_quiet_andThen [OF service_charges.keeps_freshProposed]])
qed

lemma adds_option:
  "adds k m \<Longrightarrow> (\<And>a. x = Some a \<Longrightarrow> adds k (f a)) \<Longrightarrow> adds k (case x of None \<Rightarrow> m | Some a \<Rightarrow> f a)"
  by (cases x) auto

lemma adds_if: "adds k m \<Longrightarrow> adds k n \<Longrightarrow> adds k (if b then m else n)"
  by simp

lemma adds_ok: "adds k (ok a)"
  by (rule adds_quiet) (rule preserves_ok)

lemma adds_two: "adds 1 m \<Longrightarrow> (\<And>a. adds 1 (f a)) \<Longrightarrow> adds 2 (andThen m f)"
  using adds_andThen [of 1 m 1 f] by (simp add: numeral_2_eq_2)

lemma quiet_lookup:
  "preserves (quiet L) (catchE (world_op (ad_fetchUpdatedCard (logged_adapter ad) m)) (\<lambda>_. ok None))"
  "preserves (quiet L) (catchE (world_op (ad_listPaymentMethods (logged_adapter ad) c)) (\<lambda>_. ok []))"
proof -
  have "service_invariant.world_safe (quiet L) (ad_fetchUpdatedCard (logged_adapter ad) m)"
    "service_invariant.world_safe (quiet L) (ad_listPaymentMethods (logged_adapter ad) c)"
    by (rule charges_world_safe, simp add: logged_adapter_def)+
  then show "preserves (quiet L) (catchE (world_op (ad_fetchUpdatedCard (logged_adapter ad) m)) (\<lambda>_. ok None))"
    "preserves (quiet L) (catchE (world_op (ad_listPaymentMethods (logged_adapter ad) c)) (\<lambda>_. ok []))"
    by (auto intro!: preserves_catchE preserves_ok service_charges.keeps_world_op)
qed

lemma adds_executeCredentialRecovery:
  "adds 2 (executeCredentialRecovery env (logged_adapter ad) invoice method f n customer now)"
proof -
  have fresh: "adds 1 (andThen (charge_fresh env (logged_adapter ad) invoice f n now m via) (\<lambda>r. ok (g r)))"
    for m via and g :: "_ \<Rightarrow> ChargeOutcome option"
    by (rule adds_then_quiet) (rule adds_charge_fresh, rule preserves_ok)
  show ?thesis
    unfolding executeCredentialRecovery_def
    by (intro adds_quiet_andThen quiet_lookup adds_two adds_option adds_if adds_ok adds_charge_fresh fresh)
qed

lemma quiet_decline_path:
  "preserves (quiet L) (decline_path (logged_env env) (logged_adapter ad) invoice method f d n hour customer shadow)"
  by (rule service_charges.keeps_decline_path) (rule logged_comms)

lemma adds_executeRecovery:
  "adds 2 (executeRecovery (logged_env env) (logged_adapter ad) invoice method decline n hour mins customer now shadow)"
proof -
  note two = adds_mono [of 1 _ 2, OF _ one_le_numeral]
  show ?thesis
    unfolding executeRecovery_def Let_def
    by (intro adds_quiet_andThen [OF service_charges.keeps_features]
          adds_quiet_andThen [OF preserves_gets] adds_quiet_andThen [OF service_charges.keeps_wall]
          adds_quiet_andThen [OF service_charges.keeps_decide] adds_quiet_andThen [OF service_charges.keeps_log_now]
          adds_quiet_andThen [OF service_charges.keeps_hour]
          adds_then_quiet [OF adds_if] adds_then_quiet [OF two [OF adds_attemptRecovery]]
          adds_executeCredentialRecovery adds_ok adds_if
          preserves_if preserves_ok quiet_decline_path preserves_andThen service_charges.keeps_learn)
qed

end
