(* ===== verification/RecoveryLaws.thy ===== *)
theory RecoveryLaws
  imports RecoverySafety
begin

text \<open>
  Laws of single operations of the recovery-case service: a case is opened once and keeps its
  arm, a control case is left alone, a dunning message is delivered at most once, reversals are
  capped by what was recovered, and idempotency keys tell charges apart.
\<close>

subsection \<open>Opening a case\<close>

lemma openCase_cases:
  "openCase env invoice stratum t s =
    (case assign (se_H env)
       \<lparr>as_merchantId = inv_merchantId invoice, as_customerId = Some (inv_customerId invoice),
        as_invoiceId = inv_id invoice, as_stratum = stratum\<rparr> (coalesce (se_holdout env) DEFAULT_HOLDOUT_CONFIG) of
       Inl e \<Rightarrow> (Inl e, s)
     | Inr a \<Rightarrow>
         (Inr (asg_bucket a),
          if inv_id invoice \<in> sv_opened s then s
          else s\<lparr>sv_opened := insert (inv_id invoice) (sv_opened s),
                 sv_ledger := ledger_append (se_H env) (sv_ledger s)
                   \<lparr>le_merchantId = inv_merchantId invoice, le_type = HoldoutAssigned, le_occurredAt = t,
                    le_detail = [(''invoiceId'', JStr (inv_id invoice)), (''customerId'', JStr (inv_customerId invoice)),
                      (''bucket'', JStr (bucket_value (asg_bucket a))), (''stratumKey'', JStr (asg_stratumKey a)),
                      (''amount'', jint (amount (inv_amount invoice))),
                      (''currency'', JStr (money_currency (inv_amount invoice)))]\<rparr>\<rparr>))"
  by (simp add: openCase_def eff_defs log_at_def split: sum.split)

lemma openCase_again:
  assumes "openCase env invoice stratum t s = (Inr b, s1)" "sv_opened s1 \<subseteq> sv_opened s2"
    and "se_holdout env' = se_holdout env" "se_H env' = se_H env"
  shows "snd (openCase env' invoice stratum' t' s2) = s2"
proof -
  have "inv_id invoice \<in> sv_opened s1"
    using assms(1) by (auto simp: openCase_cases split: sum.splits if_splits)
  with assms(2) show ?thesis by (auto simp: openCase_cases split: sum.split)
qed

lemma openCase_arm:
  assumes "openCase env invoice stratum t s = (Inr b, s1)"
    and "openCase env invoice' stratum' t' s' = (Inr b', s2)"
    and "inv_merchantId invoice' = inv_merchantId invoice" "inv_customerId invoice' = inv_customerId invoice"
    and "inv_customerId invoice \<noteq> []"
  shows "b' = b"
  using assms by (auto simp: openCase_cases assign_def Let_def bucket_material_def is_guest_def split: sum.splits if_splits)

lemma openCase_known: "openCase env invoice stratum t s = (Inr b, s1) \<Longrightarrow> inv_id invoice \<in> sv_opened s1"
  by (auto simp: openCase_cases split: sum.splits if_splits)

text \<open>A failed invoice of the control arm: measured, never acted on.\<close>

lemma control_left_alone:
  assumes "ev_payload event = InvoiceFailed (Some invoice) decline method customer"
    and "openCase env invoice (deriveStratum invoice decline) (ev_occurredAt event) s = (Inr Control, s1)"
  shows "sv_world (snd (handleEvent env event p s)) = sv_world s
    \<and> sv_attempts (snd (handleEvent env event p s)) = sv_attempts s
    \<and> sv_ledger (snd (handleEvent env event p s)) = sv_ledger s1"
proof -
  have "sv_world s1 = sv_world s" "sv_attempts s1 = sv_attempts s"
    using assms(2) by (auto simp: openCase_cases split: sum.splits if_splits)
  then show ?thesis
    unfolding handleEvent_def assms(1) EventPayload.case option.case andThen_def [of "openCase _ _ _ _"] assms(2)
    by (simp add: modify_def andThen_def ok_def)
qed

subsection \<open>Reversals\<close>

lemma read_int_show_int [simp]: "read_int (show_int i) = i"
proof (cases "i < 0")
  case True
  then show ?thesis by (simp add: read_int_def show_int_def)
next
  case False
  have "CHR ''-'' \<notin> set (show_nat (nat i))" by (rule show_nat_not_char) simp
  moreover obtain c r where c: "show_nat (nat i) = c # r" using show_nat_not_Nil list.exhaust by blast
  moreover have "digits_value (c # r) = nat i" by (simp only: c [symmetric] digits_value_show_nat)
  ultimately show ?thesis using False by (auto simp: read_int_def show_int_def)
qed

lemma net_recovered_snoc:
  "netRecoveredForInvoice i (es @ [e]) =
     (if \<not> about_invoice i e then netRecoveredForInvoice i es
      else if le_type e = CaseRecovered then netRecoveredForInvoice i es + entry_amount e
      else if le_type e = CaseReversed then netRecoveredForInvoice i es - entry_amount e
      else netRecoveredForInvoice i es)"
  by (simp add: netRecoveredForInvoice_def)

lemma net_reversed_snoc:
  "netReversedForInvoice i (es @ [e]) =
     (if \<not> about_invoice i e then netReversedForInvoice i es
      else if le_type e = CaseReversed then netReversedForInvoice i es + entry_amount e
      else if le_type e = CaseReversalReverted then netReversedForInvoice i es - entry_amount e
      else netReversedForInvoice i es)"
  by (simp add: netReversedForInvoice_def)

lemma reversal_entry [simp]:
  "about_invoice j (make_entry H n h \<lparr>le_merchantId = m, le_type = ty, le_occurredAt = t, le_detail = reversal_detail p pid a\<rparr>)
     \<longleftrightarrow> j = rev_invoiceId p"
  "entry_amount (make_entry H n h \<lparr>le_merchantId = m, le_type = ty, le_occurredAt = t, le_detail = reversal_detail p pid a\<rparr>) = a"
  "le_type (make_entry H n h \<lparr>le_merchantId = m, le_type = ty, le_occurredAt = t, le_detail = d\<rparr>) = ty"
  by (auto simp: about_invoice_def entry_amount_def make_entry_def reversal_detail_def json_amount_def)

lemma recordReversal_net:
  "netRecoveredForInvoice j (sv_ledger (snd (recordReversal env p m t pid s))) =
     (let net = netRecoveredForInvoice j (sv_ledger s) in
      if j = rev_invoiceId p \<and> 0 < net then net - min (rev_amount p) net else net)"
  by (auto simp: recordReversal_def eff_defs log_at_def ledger_append_def net_recovered_snoc Let_def)

lemma recordReversalReverted_net:
  "netReversedForInvoice j (sv_ledger (snd (recordReversalReverted env p m t pid s))) =
     (let net = netReversedForInvoice j (sv_ledger s) in
      if j = rev_invoiceId p \<and> 0 < net then net - min (rev_amount p) net else net)"
  by (auto simp: recordReversalReverted_def eff_defs log_at_def ledger_append_def net_reversed_snoc Let_def)

type_synonym reversal_event = "ReversalPayload \<times> ident \<times> string \<times> string option"

fun record_reversals :: "('w, 'p) ServiceEnv \<Rightarrow> reversal_event list \<Rightarrow> ('w, 'p) Service \<Rightarrow> ('w, 'p) Service" where
  "record_reversals env [] s = s"
| "record_reversals env ((p, m, t, pid) # rs) s = record_reversals env rs (snd (recordReversal env p m t pid s))"

lemma reversals_capped:
  assumes "\<forall>(p, _) \<in> set rs. 0 \<le> rev_amount p" "0 \<le> netRecoveredForInvoice j (sv_ledger s)"
  shows "0 \<le> netRecoveredForInvoice j (sv_ledger (record_reversals env rs s))
    \<and> netRecoveredForInvoice j (sv_ledger (record_reversals env rs s)) \<le> netRecoveredForInvoice j (sv_ledger s)
    \<and> ((\<forall>(p, _) \<in> set rs. rev_invoiceId p \<noteq> j) \<longrightarrow>
         netRecoveredForInvoice j (sv_ledger (record_reversals env rs s)) = netRecoveredForInvoice j (sv_ledger s))"
  using assms
proof (induction env rs s rule: record_reversals.induct)
  case (2 env p m t pid rs s)
  have "0 \<le> netRecoveredForInvoice j (sv_ledger (snd (recordReversal env p m t pid s)))"
    "netRecoveredForInvoice j (sv_ledger (snd (recordReversal env p m t pid s))) \<le> netRecoveredForInvoice j (sv_ledger s)"
    "rev_invoiceId p \<noteq> j \<Longrightarrow> netRecoveredForInvoice j (sv_ledger (snd (recordReversal env p m t pid s))) =
       netRecoveredForInvoice j (sv_ledger s)"
    using 2(2,3) by (auto simp: recordReversal_net Let_def)
  with 2 show ?case by (auto intro: order_trans)
qed simp

text \<open>A reinstatement is not counted by the cap of the next reversal.\<close>

lemma reinstatement_not_counted:
  "netRecoveredForInvoice j (sv_ledger (snd (recordReversalReverted env p m t pid s))) =
   netRecoveredForInvoice j (sv_ledger s)"
  by (simp add: recordReversalReverted_def eff_defs log_at_def ledger_append_def net_recovered_snoc Let_def)

lemma reversal_after_reinstatement_dropped:
  assumes "netRecoveredForInvoice (rev_invoiceId p) (sv_ledger s) \<le> 0"
  shows "snd (recordReversal env p m t pid (snd (recordReversalReverted env q m' t' pid' s))) =
    snd (recordReversalReverted env q m' t' pid' s)"
  using assms reinstatement_not_counted [of "rev_invoiceId p" env q m' t' pid' s]
  by (simp add: recordReversal_def andThen_def gets_def ok_def)

subsection \<open>At most one delivery\<close>

lemma deliver_sent:
  assumes "deliverDunning env msg invoice n code customer hour s = (Inr (Some d), s1)" "dd_status d = DeSender Sent"
  shows "dedupe_has (sv_sent s1) (sendKey invoice n (dm_channel msg))"
  using assms
  by (auto simp: deliverDunning_def Let_def andThen_def ok_def gets_def modify_def mem_dedupe.has_record delivery_def
      split: option.splits prod.splits sum.splits GuardrailDecision.splits if_splits)

lemma deliver_duplicate:
  assumes "dedupe_has (sv_sent s) (sendKey invoice n (dm_channel msg))"
    and "deliverDunning env msg invoice n code customer hour s = (r, s1)"
  shows "sv_world s1 = sv_world s \<and> (\<forall>d st. r = Inr (Some d) \<longrightarrow> dd_status d \<noteq> DeSender st)"
proof -
  have hour: "\<exists>h t. hour_or_wall env hour s = (Inr h, s\<lparr>sv_ticks := t\<rparr>)"
    by (cases hour) (auto simp: hour_or_wall_def wall_now_def andThen_def ok_def intro: exI [of _ "sv_ticks s"])
  then obtain h t where h: "hour_or_wall env hour s = (Inr h, s\<lparr>sv_ticks := t\<rparr>)" by blast
  show ?thesis
    using assms h
    by (auto simp: deliverDunning_def Let_def andThen_def ok_def gets_def delivery_def
      split: option.splits GuardrailDecision.splits if_splits)
qed

text \<open>The consent a channel needs.\<close>

definition consents :: "Customer \<Rightarrow> DunningChannel \<Rightarrow> bool" where
  "consents c ch \<longleftrightarrow> (if ch = DcSms then consent_sms (cust_consent c) else consent_email (cust_consent c))"

definition reachable_on :: "Customer \<Rightarrow> DunningChannel \<Rightarrow> bool" where
  "reachable_on c ch \<longleftrightarrow> (if ch = DcSms then given (cust_phone c) else given (cust_email c))"

lemma comms_allowed_iff:
  "kind a = Comms \<Longrightarrow> evaluate a p = Allow \<longleftrightarrow>
     hasConsent a \<and> \<not> globallyOptedOut a \<and> \<not> inQuietHours (localHour a) (quietHours p)"
  by (simp add: evaluate_def)

lemma deliver_consent:
  assumes "deliverDunning env msg invoice n code customer (Some hour) s = (Inr (Some d), s1)" "dd_status d = DeSender st"
  shows "\<exists>c. customer = Some c \<and> consents c (dm_channel msg) \<and> \<not> consent_globallyOptedOut (cust_consent c)
    \<and> reachable_on c (dm_channel msg) \<and> 8 \<le> hour \<and> hour < 21"
proof (cases customer)
  case None
  with assms show ?thesis
    by (cases "dm_channel msg")
      (auto simp: deliverDunning_def hour_or_wall_def Let_def andThen_def ok_def evaluate_def delivery_def split: option.splits)
next
  case (Some c)
  with assms show ?thesis
    by (cases "dm_channel msg") (auto simp: deliverDunning_def hour_or_wall_def Let_def andThen_def ok_def gets_def delivery_def consents_def
        reachable_on_def comms_allowed_iff inQuietHours_def DEFAULT_GUARDRAIL_POLICY_def
      split: option.splits GuardrailDecision.splits if_splits)
qed

subsection \<open>Idempotency keys\<close>

lemma charge_canonical_inject:
  assumes "\<forall>x\<in>{m, i, p, m', i', p'}. CHR '':'' \<notin> set x"
  shows "charge_canonical m i p n = charge_canonical m' i' p' n' \<longleftrightarrow> m = m' \<and> i = i' \<and> p = p' \<and> n = n'"
  using assms by (simp add: charge_canonical_def append_sep_inject)

lemma sendKey_inject:
  assumes "\<forall>x\<in>{inv_merchantId i, inv_id i, inv_merchantId i', inv_id i'}. CHR '':'' \<notin> set x"
  shows "sendKey i n c = sendKey i' n' c' \<longleftrightarrow>
    inv_merchantId i = inv_merchantId i' \<and> inv_id i = inv_id i' \<and> n = n' \<and> c = c'"
  using assms by (cases c; cases c') (auto simp: sendKey_def append_sep_inject)

end
