(* ===== verification/Scenario.thy ===== *)
theory Scenario
  imports RecoveryOutcomes RecoveryLaws
begin

text \<open>
  A concrete deployment of the recovery-case service: one invoice, its card, a refreshed card
  and a backup, an adapter whose charges settle as told, and a policy that always gives the
  same decision. The theorems of the root theory are applied to it, and it shows two
  behaviours of the code that its comments do not intend.
\<close>

subsection \<open>The deployment\<close>

definition sample_invoice :: Invoice where
  "sample_invoice = \<lparr>inv_id = ''in_1'', inv_subscriptionId = None, inv_customerId = ''cus_1'', inv_merchantId = ''m_1'',
     inv_processorRef = ''ref_1'', inv_amount = \<lparr>amount = 5000, money_currency = ''USD''\<rparr>, inv_status = InvOpen,
     inv_firstFailedAt = None, inv_createdAt = Some 0\<rparr>"

definition sample_card :: "string \<Rightarrow> string \<Rightarrow> PaymentMethod" where
  "sample_card i t = \<lparr>pm_id = i, pm_customerId = ''cus_1'', pm_processorRef = i, pm_token = t, pm_brand = Some ''visa'',
     pm_last4 = None, pm_bin = None, pm_expMonth = None, pm_expYear = None, pm_autoUpdated = None\<rparr>"

definition sample_customer :: Customer where
  "sample_customer = \<lparr>cust_id = ''cus_1'', cust_merchantId = ''m_1'', cust_processorRef = ''ref_c'',
     cust_email = Some ''a@example.com'', cust_phone = None, cust_issuerRegion = RegionNa, cust_createdAt = Some 0,
     cust_consent = \<lparr>consent_email = True, consent_sms = False, consent_whatsapp = False, consent_push = False,
       consent_globallyOptedOut = False\<rparr>\<rparr>"

definition sample_decline :: "DeclineCode \<Rightarrow> DeclineEvent" where
  "sample_decline c = \<lparr>dec_id = ''d_1'', dec_invoiceId = ''in_1'', dec_chargeAttemptId = ''ch_1'', dec_code = c,
     dec_family = familyOf c, dec_rawReason = None, dec_occurredAt = Some 0\<rparr>"

definition sample_decision :: "RecoveryActionKind \<Rightarrow> RecoveryDecision" where
  "sample_decision a = \<lparr>rd_action = a, rd_retryAt = None, rd_paymentMethodRef = None, rd_recoverabilityScore = 1 / 2,
     rd_expectedValueMinor = 100, rd_netValueMinor = None, rd_costBreakdown = None\<rparr>"

definition sample_adapter :: "(string \<Rightarrow> ChargeOutcome) \<Rightarrow> PaymentMethod option \<Rightarrow> PaymentMethod list \<Rightarrow> unit ProcessorAdapter" where
  "sample_adapter settle refreshed stored =
     \<lparr>ad_id = ''stripe'', ad_ingestWebhook = (\<lambda>_. ok []),
      ad_attemptCharge = (\<lambda>_ m _. ok \<lparr>cr_outcome = settle (pm_token m), cr_idempotentReplay = None, cr_declineCode = None\<rparr>),
      ad_fetchUpdatedCard = (\<lambda>_. ok refreshed), ad_listPaymentMethods = (\<lambda>_. ok stored)\<rparr>"

definition sample_message :: DunningMessage where
  "sample_message = \<lparr>dm_channel = DcEmail, dm_subject = Some ''Update your card'', dm_body = ''https://pay.example'',
     dm_generatedBy = ByTemplate\<rparr>"

definition always_sends :: "unit sender" where
  "always_sends m r = ok \<lparr>sd_status = Sent, sd_channel = dm_channel m, sd_provider = ''postmark'',
     sd_providerMessageId = None, sd_error = None, sd_retriable = None, sd_attempts = None\<rparr>"

definition sample_env :: "RecoveryDecision \<Rightarrow> (unit, unit) ServiceEnv" where
  "sample_env d =
     \<lparr>se_H = (\<lambda>_. replicate 64 (CHR ''a'')), se_wall = (\<lambda>n. int n * ms_per_hour + 12 * ms_per_hour),
      se_isoText = (\<lambda>_. ''2026-01-01T12:00:00.000Z''), se_parseDate = (\<lambda>_. Some 0), se_num = (\<lambda>_. JNull),
      se_rationale = (\<lambda>_. ''sample''), se_holdout = None, se_decide = (\<lambda>_ _ _. Inr d), se_update = None,
      se_model = (\<lambda>_. 1 / 2), se_compose = (\<lambda>_. ok sample_message), se_dunningConfig = None,
      se_sender = Some always_sends, se_liveComms = True, se_dispatch = (\<lambda>_ _. ok ()), se_durableRecovery = False,
      se_liveCharging = True\<rparr>"

definition fresh_service :: "'w \<Rightarrow> ('w, unit) Service" where
  "fresh_service w =
     \<lparr>sv_world = w, sv_ledger = [], sv_ticks = 0, sv_opened = {}, sv_attempts = (\<lambda>_. None), sv_credentials = (\<lambda>_. None),
      sv_features = new_feature_store DEFAULT_FEATURE_STORE_CONFIG, sv_sent = {}, sv_onboarding = (\<lambda>_. None),
      sv_policy = (), sv_banditTotalUpdates = 0\<rparr>"

lemmas sample_defs = sample_invoice_def sample_card_def sample_customer_def sample_decline_def sample_decision_def
  sample_adapter_def sample_env_def fresh_service_def

subsection \<open>A pending refresh charge is followed by a second charge\<close>

lemma visa_network: "mapCardNetwork (Some ''visa'') = Visa"
  by code_simp

lemma pending_refresh_double_charge:
  "map (\<lambda>(i, m, k). pm_token m)
     (charges (snd (executeRecovery (logged_env (sample_env (sample_decision ActCardUpdateComms)))
        (logged_adapter (sample_adapter (\<lambda>t. if t = ''tok_new'' then Pending else Succeeded)
          (Some (sample_card ''pm_1'' ''tok_new'')) [sample_card ''pm_2'' ''tok_backup'']))
        sample_invoice (sample_card ''pm_1'' ''tok_old'') (Some (sample_decline ExpiredCard)) 1 None None
        (Some sample_customer) None False (fresh_service ((), [])))))
   = [''tok_new'', ''tok_backup'']"
  unfolding sample_defs
  by (simp add: executeRecovery_def featuresFor_def policy_decide_def wall_now_def log_now_def log_at_def
      executeCredentialRecovery_def charge_fresh_def freshProposed_def attemptRecovery_def world_op_def
      logged_env_def logged_adapter_def beside_log_def logged_charge_def or_wall_def charges_def eff_defs Let_def
      fs_enrich_def cred_window_def cred_increment_def credentialKey_def evaluate_def isRetriable_def cap_for_def
      visa_network CONSERVATIVE_CAP_def decline_path_def composeDunning_def DEFAULT_GUARDRAIL_POLICY_def)

end
