(* ===== verification/Uplift.thy ===== *)
theory Uplift
  imports Canonical
begin

text \<open>
  The recovery-rate diagnostic (\<open>packages/attribution/src/uplift.ts\<close>): recovery rates of the two
  arms, the fixed-horizon interval, the lower-bound dollars and fee, and the sample-ratio check.
\<close>

subsection \<open>Arms and configuration\<close>

record ArmStats =
  ar_n :: int
  ar_recovered :: int
  ar_failedVolume :: int
  ar_recoveredVolume :: int

record UpliftConfig =
  uc_z :: real
  uc_minSamplesPerArm :: int
  uc_feeRate :: real
  uc_currency :: currency

definition DEFAULT_UPLIFT_CONFIG :: UpliftConfig where
  "DEFAULT_UPLIFT_CONFIG =
     \<lparr>uc_z = 1.96, uc_minSamplesPerArm = 200, uc_feeRate = 0.12, uc_currency = ''USD''\<rparr>"

record UpliftResult =
  ur_controlRate :: real
  ur_treatmentRate :: real
  ur_rateDiff :: real
  ur_rateDiffLower :: real
  ur_rateDiffUpper :: real
  ur_incrementalDollars :: int
  ur_incrementalDollarsLower :: Money
  ur_fee :: Money
  ur_billable :: bool

subsection \<open>The estimator\<close>

definition recoveryRate :: "ArmStats \<Rightarrow> real" where
  "recoveryRate arm = (if ar_n arm = 0 then 0 else of_int (ar_recovered arm) / of_int (ar_n arm))"

definition proportionSe :: "real \<Rightarrow> int \<Rightarrow> real" where
  "proportionSe p n = (if n = 0 then 0 else sqrt (p * (1 - p) / of_int n))"

definition computeUplift :: "ArmStats \<Rightarrow> ArmStats \<Rightarrow> UpliftConfig \<Rightarrow> UpliftResult" where
  "computeUplift control treatment config =
     (let controlRate = recoveryRate control;
          treatmentRate = recoveryRate treatment;
          rateDiff = treatmentRate - controlRate;
          seControl = proportionSe controlRate (ar_n control);
          seTreatment = proportionSe treatmentRate (ar_n treatment);
          seDiff = sqrt (seControl\<^sup>2 + seTreatment\<^sup>2);
          margin = uc_z config * seDiff;
          rateDiffLower = rateDiff - margin;
          rateDiffUpper = rateDiff + margin;
          volume = of_int (ar_failedVolume treatment);
          incrementalDollars = js_round (rateDiff * volume);
          lowerDollars = max 0 (js_round (rateDiffLower * volume));
          billable = uc_minSamplesPerArm config \<le> ar_n control \<and> uc_minSamplesPerArm config \<le> ar_n treatment
            \<and> 0 < rateDiffLower;
          feeDollars = (if billable then js_round (of_int lowerDollars * uc_feeRate config) else 0)
      in \<lparr>ur_controlRate = controlRate, ur_treatmentRate = treatmentRate, ur_rateDiff = rateDiff,
          ur_rateDiffLower = rateDiffLower, ur_rateDiffUpper = rateDiffUpper,
          ur_incrementalDollars = incrementalDollars,
          ur_incrementalDollarsLower = \<lparr>amount = lowerDollars, money_currency = uc_currency config\<rparr>,
          ur_fee = \<lparr>amount = feeDollars, money_currency = uc_currency config\<rparr>, ur_billable = billable\<rparr>)"

text \<open>
  Counts of an arm that make sense: at most all of them recovered, and volumes not negative. The
  rates are then proportions, so no square root of a negative number is taken.
\<close>

definition arm_ok :: "ArmStats \<Rightarrow> bool" where
  "arm_ok a \<longleftrightarrow> 0 \<le> ar_recovered a \<and> ar_recovered a \<le> ar_n a \<and> 0 \<le> ar_failedVolume a"

lemma recoveryRate_range: "arm_ok a \<Longrightarrow> 0 \<le> recoveryRate a \<and> recoveryRate a \<le> 1"
  by (simp add: recoveryRate_def arm_ok_def)

lemma proportionSe_nonneg: "0 \<le> p \<Longrightarrow> p \<le> 1 \<Longrightarrow> 0 \<le> n \<Longrightarrow> 0 \<le> proportionSe p n"
  by (simp add: proportionSe_def)

lemma computeUplift_never_overclaims:
  assumes "arm_ok c" "arm_ok t" "0 \<le> uc_z config" "0 \<le> uc_feeRate config" "uc_feeRate config \<le> 1"
    and u: "u = computeUplift c t config"
  shows "ur_rateDiffLower u \<le> ur_rateDiff u" "ur_rateDiff u \<le> ur_rateDiffUpper u"
    "0 \<le> amount (ur_incrementalDollarsLower u)"
    "0 < amount (ur_incrementalDollarsLower u) \<Longrightarrow> amount (ur_incrementalDollarsLower u) \<le> ur_incrementalDollars u"
    "0 \<le> amount (ur_fee u)" "amount (ur_fee u) \<le> amount (ur_incrementalDollarsLower u)"
    "0 < amount (ur_fee u) \<Longrightarrow> ur_billable u"
proof -
  let ?m = "uc_z config * sqrt ((proportionSe (recoveryRate c) (ar_n c))\<^sup>2 + (proportionSe (recoveryRate t) (ar_n t))\<^sup>2)"
  have m: "0 \<le> ?m" using assms(3) by simp
  then show "ur_rateDiffLower u \<le> ur_rateDiff u" "ur_rateDiff u \<le> ur_rateDiffUpper u"
    by (simp_all add: u computeUplift_def Let_def)
  have "(recoveryRate t - recoveryRate c - ?m) * of_int (ar_failedVolume t) \<le> (recoveryRate t - recoveryRate c) * of_int (ar_failedVolume t)"
    using m assms(2) by (intro mult_right_mono) (simp_all add: arm_ok_def)
  from js_round_mono [OF this]
  show "0 < amount (ur_incrementalDollarsLower u) \<Longrightarrow> amount (ur_incrementalDollarsLower u) \<le> ur_incrementalDollars u"
    by (simp add: u computeUplift_def Let_def)
  show l: "0 \<le> amount (ur_incrementalDollarsLower u)" by (simp add: u computeUplift_def Let_def)
  have fee: "amount (ur_fee u) = (if ur_billable u then js_round (of_int (amount (ur_incrementalDollarsLower u)) * uc_feeRate config) else 0)"
    by (simp add: u computeUplift_def Let_def)
  then show "0 < amount (ur_fee u) \<Longrightarrow> ur_billable u" by (simp split: if_splits)
  show "0 \<le> amount (ur_fee u)" using l assms(4) by (simp add: fee js_round_nonneg)
  have "of_int (amount (ur_incrementalDollarsLower u)) * uc_feeRate config \<le> of_int (amount (ur_incrementalDollarsLower u))"
    using l assms(5) by (simp add: mult_left_le)
  then show "amount (ur_fee u) \<le> amount (ur_incrementalDollarsLower u)" using l by (simp add: fee js_round_le_of_int)
qed

subsection \<open>The sample-ratio check\<close>

text \<open>
  JavaScript division by zero does not throw: \<open>x / 0\<close> is infinite for a positive \<open>x\<close> and \<open>0 / 0\<close> is
  \<open>NaN\<close>. The check divides by an expected count that is zero for a fraction of 0 or 1; the
  statistic is then infinite (breached) or \<open>NaN\<close> (not breached).
\<close>

datatype js_number = Num real | Infinite | NotANumber

fun js_square_ratio :: "real \<Rightarrow> real \<Rightarrow> js_number" where
  "js_square_ratio d e = (if e \<noteq> 0 then Num (d\<^sup>2 / e) else if d \<noteq> 0 then Infinite else NotANumber)"

fun js_plus :: "js_number \<Rightarrow> js_number \<Rightarrow> js_number" where
  "js_plus NotANumber _ = NotANumber"
| "js_plus _ NotANumber = NotANumber"
| "js_plus Infinite _ = Infinite"
| "js_plus _ Infinite = Infinite"
| "js_plus (Num a) (Num b) = Num (a + b)"

fun js_exceeds :: "js_number \<Rightarrow> real \<Rightarrow> bool" where
  "js_exceeds (Num a) t = (t < a)"
| "js_exceeds Infinite t = True"
| "js_exceeds NotANumber t = False"

record SrmResult =
  srm_chiSquare :: js_number
  srm_breached :: bool

definition srmCheck :: "int \<Rightarrow> int \<Rightarrow> real \<Rightarrow> real \<Rightarrow> SrmResult" where
  "srmCheck controlN treatmentN expectedControlFraction chiSquareThreshold =
     (let t = of_int (controlN + treatmentN) in
      if t = 0 then \<lparr>srm_chiSquare = Num 0, srm_breached = False\<rparr>
      else
        (let expControl = t * expectedControlFraction;
             expTreatment = t * (1 - expectedControlFraction);
             chiSquare = js_plus (js_square_ratio (of_int controlN - expControl) expControl)
               (js_square_ratio (of_int treatmentN - expTreatment) expTreatment)
         in \<lparr>srm_chiSquare = chiSquare, srm_breached = js_exceeds chiSquare chiSquareThreshold\<rparr>))"

text \<open>The two-cell statistic in closed form, for a proper fraction.\<close>

lemma srm_closed_form:
  fixes c t :: int and p :: real
  assumes "0 < p" "p < 1" "0 \<le> c" "0 \<le> t" "0 < c + t"
  shows "srm_chiSquare (srmCheck c t p thr) =
    Num ((of_int c - of_int (c + t) * p)\<^sup>2 / (of_int (c + t) * p * (1 - p)))"
proof -
  let ?n = "of_int (c + t) :: real"
  have n: "0 < ?n" using assms(5) by simp
  have "of_int t - ?n * (1 - p) = - (of_int c - ?n * p)" by (simp add: algebra_simps)
  then have d: "(of_int t - ?n * (1 - p))\<^sup>2 = (of_int c - ?n * p)\<^sup>2" by (metis power2_minus)
  have "(of_int c - ?n * p)\<^sup>2 / (?n * p) + (of_int c - ?n * p)\<^sup>2 / (?n * (1 - p)) =
      (of_int c - ?n * p)\<^sup>2 / (?n * p * (1 - p))"
    using n assms(1,2) by (simp add: divide_simps) (simp add: algebra_simps)
  then show ?thesis
    using n assms(1,2) by (simp add: srmCheck_def Let_def d del: of_int_add)
qed

lemma srm_perfect_split:
  assumes "0 < p" "p < 1" "0 \<le> c" "0 \<le> t" "0 < c + t" "of_int c = of_int (c + t) * p" "0 \<le> thr"
  shows "\<not> srm_breached (srmCheck c t p thr)"
proof -
  have "of_int c - of_int (c + t) * p = 0" using assms(6) by linarith
  then have "srm_chiSquare (srmCheck c t p thr) = Num 0"
    unfolding srm_closed_form [OF assms(1-5), of thr] by (simp del: of_int_add)
  moreover have "srm_breached (srmCheck c t p thr) = js_exceeds (srm_chiSquare (srmCheck c t p thr)) thr"
    using assms(5) by (simp add: srmCheck_def Let_def)
  ultimately show ?thesis using assms(7) by simp
qed

end
