(* ===== verification/Grouping.thy ===== *)
theory Grouping
  imports Prelude "HOL-Library.AList" "HOL-Library.Multiset"
begin

text \<open>
  JavaScript's \<open>Map\<close> iterates in insertion order, so a map built in a loop is an association list
  here; \<open>AList.update\<close> is its \<open>set\<close>. The idiom \<open>m.set(k, f(m.get(k) ?? d))\<close> over a list of items
  is \<open>collect\<close>; its result has one entry per key, in the order in which the keys first occur.
\<close>

subsection \<open>Keys in the order of their first occurrence\<close>

definition first_keys :: "'a list \<Rightarrow> 'a list" where
  "first_keys xs = rev (remdups (rev xs))"

lemma set_first_keys [simp]: "set (first_keys xs) = set xs"
  by (simp add: first_keys_def)

lemma distinct_first_keys [simp]: "distinct (first_keys xs)"
  by (simp add: first_keys_def)

lemma first_keys_Nil [simp]: "first_keys [] = []"
  by (simp add: first_keys_def)

lemma first_keys_snoc [simp]:
  "first_keys (xs @ [x]) = (if x \<in> set xs then first_keys xs else first_keys xs @ [x])"
  by (simp add: first_keys_def)

lemma first_keys_append: "set ys \<subseteq> set xs \<Longrightarrow> first_keys (xs @ ys) = first_keys xs"
proof (induction ys rule: rev_induct)
  case (snoc y ys)
  then have "first_keys ((xs @ ys) @ [y]) = first_keys xs" by (subst first_keys_snoc) auto
  then show ?case by simp
qed simp

lemma length_first_keys: "length (first_keys xs) = card (set xs)"
  using distinct_card [OF distinct_first_keys, of xs] by simp

subsection \<open>Accumulating by key\<close>

definition collect_step :: "('a \<Rightarrow> 'k) \<Rightarrow> ('a \<Rightarrow> 'v \<Rightarrow> 'v) \<Rightarrow> 'v \<Rightarrow> ('k \<times> 'v) list \<Rightarrow> 'a \<Rightarrow> ('k \<times> 'v) list" where
  "collect_step key f d m x = AList.update (key x) (f x (coalesce (map_of m (key x)) d)) m"

definition collect :: "('a \<Rightarrow> 'k) \<Rightarrow> ('a \<Rightarrow> 'v \<Rightarrow> 'v) \<Rightarrow> 'v \<Rightarrow> 'a list \<Rightarrow> ('k \<times> 'v) list" where
  "collect key f d xs = foldl (collect_step key f d) [] xs"

definition with_key :: "('a \<Rightarrow> 'k) \<Rightarrow> 'a list \<Rightarrow> 'k \<Rightarrow> 'a list" where
  "with_key key xs k = filter (\<lambda>x. key x = k) xs"

lemma update_map_key:
  "distinct ks \<Longrightarrow> AList.update k v (map (\<lambda>j. (j, g j)) ks) =
     (if k \<in> set ks then map (\<lambda>j. (j, if j = k then v else g j)) ks else map (\<lambda>j. (j, g j)) ks @ [(k, v)])"
  by (induction ks) (auto intro: map_cong)

lemma map_of_map_key: "map_of (map (\<lambda>j. (j, g j)) ks) k = (if k \<in> set ks then Some (g k) else None)"
  by (induction ks) auto

text \<open>The loop computes, for every key, the fold over the items with that key.\<close>

lemma collect_eq:
  "collect key f d xs = map (\<lambda>k. (k, foldl (\<lambda>a x. f x a) d (with_key key xs k))) (first_keys (map key xs))"
proof (induction xs rule: rev_induct)
  case Nil
  then show ?case by (simp add: collect_def)
next
  case (snoc x xs)
  let ?g = "\<lambda>xs k. foldl (\<lambda>a x. f x a) d (with_key key xs k)"
  let ?ks = "first_keys (map key xs)"
  have "collect key f d (xs @ [x]) = collect_step key f d (map (\<lambda>k. (k, ?g xs k)) ?ks) x"
    using snoc by (simp add: collect_def)
  also have "\<dots> = AList.update (key x) (f x (coalesce (if key x \<in> set ?ks then Some (?g xs (key x)) else None) d))
      (map (\<lambda>k. (k, ?g xs k)) ?ks)"
    by (simp add: collect_step_def map_of_map_key)
  also have "\<dots> = map (\<lambda>k. (k, ?g (xs @ [x]) k)) (first_keys (map key (xs @ [x])))"
  proof (cases "key x \<in> set ?ks")
    case True
    then show ?thesis by (auto simp: update_map_key with_key_def intro!: map_cong)
  next
    case False
    then have "with_key key xs (key x) = []" by (simp add: with_key_def filter_empty_conv) (metis imageI)
    with False show ?thesis by (auto simp: update_map_key with_key_def intro!: map_cong)
  qed
  finally show ?case .
qed

lemma keys_collect [simp]: "map fst (collect key f d xs) = first_keys (map key xs)"
  by (simp add: collect_eq comp_def)

lemma collect_entry:
  "(k, v) \<in> set (collect key f d xs) \<longleftrightarrow> k \<in> key ` set xs \<and> v = foldl (\<lambda>a x. f x a) d (with_key key xs k)"
  by (auto simp: collect_eq)

lemma map_of_collect:
  "map_of (collect key f d xs) k =
     (if k \<in> key ` set xs then Some (foldl (\<lambda>a x. f x a) d (with_key key xs k)) else None)"
  by (simp add: collect_eq map_of_map_key)

text \<open>Grouping: the items with a key, in order.\<close>

definition group_by :: "('a \<Rightarrow> 'k) \<Rightarrow> 'a list \<Rightarrow> ('k \<times> 'a list) list" where
  "group_by key xs = collect key (\<lambda>x ys. ys @ [x]) [] xs"

lemma foldl_snoc: "foldl (\<lambda>a x. a @ [x]) ys xs = ys @ xs"
  by (induction xs arbitrary: ys) simp_all

lemma group_by_eq: "group_by key xs = map (\<lambda>k. (k, with_key key xs k)) (first_keys (map key xs))"
  by (simp add: group_by_def collect_eq foldl_snoc)

subsection \<open>Sums over the groups\<close>

lemma sum_list_keys:
  fixes g :: "'a \<Rightarrow> 'b :: comm_monoid_add"
  assumes "distinct ks"
  shows "sum_list (map (\<lambda>k. sum_list (map g (with_key key xs k))) ks) =
      sum_list (map g (filter (\<lambda>x. key x \<in> set ks) xs))"
  using assms
proof (induction ks)
  case (Cons k ks)
  have "sum_list (map g (filter (\<lambda>x. key x \<in> set (k # ks)) xs)) =
      sum_list (map g (with_key key xs k)) + sum_list (map g (filter (\<lambda>x. key x \<in> set ks) xs))"
    using Cons.prems by (induction xs) (auto simp: with_key_def ac_simps)
  with Cons show ?case by simp
qed simp

lemma sum_list_groups:
  fixes g :: "'a \<Rightarrow> 'b :: comm_monoid_add"
  shows "sum_list (map (\<lambda>k. sum_list (map g (with_key key xs k))) (first_keys (map key xs))) = sum_list (map g xs)"
  using sum_list_keys [OF distinct_first_keys [of "map key xs"], where key = key and g = g and xs = xs] by (simp add: filter_True)

lemma sum_list_mset_cong: "mset xs = mset ys \<Longrightarrow> sum_list xs = (sum_list ys :: 'b :: comm_monoid_add)"
  by (metis sum_mset_sum_list)

lemma sum_list_ones [simp]: "sum_list (map (\<lambda>_. 1) xs) = int (length xs)"
  by (induction xs) simp_all

lemma foldl_add_eq: "foldl (\<lambda>a x. a + f x) (c :: 'b :: comm_monoid_add) xs = c + sum_list (map f xs)"
  by (induction xs arbitrary: c) (simp_all add: ac_simps)

lemma collect_sum:
  "collect key (\<lambda>x a. a + f x) (0 :: 'b :: comm_monoid_add) xs =
     map (\<lambda>k. (k, sum_list (map f (with_key key xs k)))) (first_keys (map key xs))"
  by (simp add: collect_eq foldl_add_eq)

end
