(* ===== verification/Sequential.thy ===== *)
theory Sequential
  imports Uplift Grouping Json
begin

text \<open>
  The billable uplift (\<open>packages/attribution/src/sequential.ts\<close>): CUPED variance reduction, the
  post-stratified estimate with its cluster-robust variance, the always-valid confidence
  sequence, the gates and the fee on the newly proven lower bound.

  All quantities the source computes with \<open>sqrt\<close>, \<open>log\<close> and division are reals; the test
  \<open>Number.isFinite(halfWidth)\<close> is then always true. The texts of the gate reasons are the
  constructors of \<open>GateReason\<close>.
\<close>

subsection \<open>Observations and configuration\<close>

datatype Arm = ArmControl | ArmTreatment

fun arm_value :: "Arm \<Rightarrow> string" where
  "arm_value ArmControl = ''control''"
| "arm_value ArmTreatment = ''treatment''"

record UpliftObservation =
  uo_arm :: Arm
  uo_cluster :: ident
  uo_stratum :: string
  uo_outcome :: real
  uo_covariate :: real
  uo_recovered :: bool

record SequentialUpliftConfig =
  sc_alpha :: real
  sc_tau2 :: real
  sc_feeRate :: real
  sc_minControlClusters :: int
  sc_minTreatedInvoices :: int
  sc_perStratumFloor :: int
  sc_expectedControlFraction :: real
  sc_srmThreshold :: real
  sc_currency :: currency
  sc_useCuped :: bool

definition DEFAULT_SEQUENTIAL_CONFIG :: SequentialUpliftConfig where
  "DEFAULT_SEQUENTIAL_CONFIG =
     \<lparr>sc_alpha = 0.05, sc_tau2 = 4000000, sc_feeRate = 0.12, sc_minControlClusters = 300,
      sc_minTreatedInvoices = 300, sc_perStratumFloor = 50, sc_expectedControlFraction = 0.1,
      sc_srmThreshold = 10.83, sc_currency = ''USD'', sc_useCuped = True\<rparr>"

record StratumLine =
  sl_stratumKey :: string
  sl_controlInvoices :: int
  sl_treatmentInvoices :: int
  sl_controlRate :: real
  sl_treatmentRate :: real
  sl_deltaPerStratum :: real
  sl_weight :: real
  sl_metFloor :: bool
  sl_pooled :: bool

subsection \<open>The confidence sequence\<close>

definition msprtHalfWidth :: "real \<Rightarrow> real \<Rightarrow> real \<Rightarrow> real \<Rightarrow> real" where
  "msprtHalfWidth perObsVar n tau2 alpha =
     (if perObsVar \<le> 0 \<or> n \<le> 0 \<or> tau2 \<le> 0 then 0
      else
        (let nTau2PlusVar = n * tau2 + perObsVar;
             prefactor = (perObsVar * nTau2PlusVar) / (n * n * tau2);
             logArg = nTau2PlusVar / (alpha * alpha * perObsVar)
         in sqrt (prefactor * ln logArg)))"

definition msprtHalfWidthFromSe :: "real \<Rightarrow> real \<Rightarrow> real \<Rightarrow> real" where
  "msprtHalfWidthFromSe se tau2 alpha =
     (if se \<le> 0 \<or> tau2 \<le> 0 then 0
      else
        (let se2 = se * se
         in se * sqrt ((1 + se2 / tau2) * ln ((tau2 + se2) / (alpha * alpha * se2)))))"

text \<open>The two forms agree when \<open>SE\<^sup>2 = perObsVar / n\<close>.\<close>

lemma msprt_forms_agree:
  assumes "0 < v" "0 < n" "0 < tau2"
  shows "msprtHalfWidth v n tau2 alpha = msprtHalfWidthFromSe (sqrt (v / n)) tau2 alpha"
proof -
  have se2: "sqrt (v / n) * sqrt (v / n) = v / n" and se: "0 < sqrt (v / n)"
    using assms by simp_all
  have arg: "(tau2 + v / n) / (alpha * alpha * (v / n)) = (n * tau2 + v) / (alpha * alpha * v)"
  proof -
    have "tau2 + v / n = (n * tau2 + v) / n" "alpha * alpha * (v / n) = (alpha * alpha * v) / n"
      using assms(2) by (simp_all add: add_divide_distrib)
    then show ?thesis using assms(2) by (simp only:) simp
  qed
  have pre: "v / n * (1 + v / n / tau2) = v * (n * tau2 + v) / (n * n * tau2)"
    using assms by (simp add: field_simps)
  have "\<not> sqrt (v / n) \<le> 0" "\<not> tau2 \<le> 0" using se assms(3) by auto
  then have "msprtHalfWidthFromSe (sqrt (v / n)) tau2 alpha =
      sqrt (v / n) * sqrt ((1 + v / n / tau2) * ln ((n * tau2 + v) / (alpha * alpha * v)))"
    unfolding msprtHalfWidthFromSe_def Let_def se2 arg by (simp only: if_False simp_thms)
  also have "\<dots> = sqrt (v / n * (1 + v / n / tau2) * ln ((n * tau2 + v) / (alpha * alpha * v)))"
    by (simp only: real_sqrt_mult mult.assoc)
  also have "\<dots> = msprtHalfWidth v n tau2 alpha"
    using assms unfolding msprtHalfWidth_def Let_def pre by simp
  finally show ?thesis ..
qed

lemma half_width_positive:
  assumes "0 < se" "0 < tau2" "0 < alpha" "alpha < 1"
  shows "0 < msprtHalfWidthFromSe se tau2 alpha"
proof -
  have "alpha * alpha < 1" using mult_strict_mono [of alpha 1 alpha 1] assms(3,4) by simp
  then have "alpha * alpha * (se * se) < 1 * (se * se)" using assms(1) by (intro mult_strict_right_mono) simp_all
  then have "alpha * alpha * (se * se) < tau2 + se * se" using assms(2) by linarith
  then have "1 < (tau2 + se * se) / (alpha * alpha * (se * se))"
    using assms(1,3) by simp
  then have "0 < ln ((tau2 + se * se) / (alpha * alpha * (se * se)))" by simp
  moreover have "0 < 1 + se * se / tau2" using assms(1,2) by (simp add: add_pos_nonneg)
  ultimately show ?thesis
    using assms(1,2) by (simp add: msprtHalfWidthFromSe_def Let_def)
qed

lemma half_width_nonneg:
  "0 < alpha \<Longrightarrow> alpha < 1 \<Longrightarrow> 0 \<le> msprtHalfWidthFromSe se tau2 alpha"
  using half_width_positive [of se tau2 alpha] by (cases "se \<le> 0 \<or> tau2 \<le> 0") (auto simp: msprtHalfWidthFromSe_def)

lemma half_width_mono_alpha:
  assumes "0 < alpha" "alpha \<le> beta" "beta < 1"
  shows "msprtHalfWidthFromSe se tau2 beta \<le> msprtHalfWidthFromSe se tau2 alpha"
proof (cases "se \<le> 0 \<or> tau2 \<le> 0")
  case False
  then have p: "0 < se" "0 < tau2" by auto
  have "alpha * alpha * (se * se) \<le> beta * beta * (se * se)"
    using assms p by (intro mult_right_mono mult_mono) simp_all
  then have "(tau2 + se * se) / (beta * beta * (se * se)) \<le> (tau2 + se * se) / (alpha * alpha * (se * se))"
    using assms p by (intro divide_left_mono) (simp_all add: add_pos_pos)
  then have "ln ((tau2 + se * se) / (beta * beta * (se * se))) \<le> ln ((tau2 + se * se) / (alpha * alpha * (se * se)))"
    using assms p by (subst ln_le_cancel_iff) (simp_all add: add_pos_pos)
  moreover have "0 \<le> 1 + se * se / tau2" using p by (simp add: add_nonneg_nonneg)
  ultimately show ?thesis
    using p by (simp add: msprtHalfWidthFromSe_def Let_def mult_left_mono)
qed (simp add: msprtHalfWidthFromSe_def)

subsection \<open>Means, variances, CUPED\<close>

definition mean :: "real list \<Rightarrow> real" where
  "mean xs = (if xs = [] then 0 else sum_list xs / of_nat (length xs))"

definition variance :: "real list \<Rightarrow> real \<Rightarrow> real" where
  "variance xs xbar = (if xs = [] then 0 else sum_list (map (\<lambda>x. (x - xbar)\<^sup>2) xs) / of_nat (length xs))"

record CupedFit =
  cf_theta :: real
  cf_xbar :: real
  cf_varianceReduction :: real

definition fitCuped :: "real list \<Rightarrow> real list \<Rightarrow> CupedFit" where
  "fitCuped outcomes covariates =
     (let n = length outcomes in
      if n < 2 \<or> length covariates \<noteq> n then \<lparr>cf_theta = 0, cf_xbar = mean covariates, cf_varianceReduction = 0\<rparr>
      else
        (let ybar = mean outcomes; xbar = mean covariates;
             cov = sum_list (map (\<lambda>(y, x). (y - ybar) * (x - xbar)) (zip outcomes covariates)) / of_nat n;
             varX = sum_list (map (\<lambda>x. (x - xbar) * (x - xbar)) covariates) / of_nat n;
             varY = sum_list (map (\<lambda>y. (y - ybar) * (y - ybar)) outcomes) / of_nat n
         in if varX \<le> 0 \<or> varY \<le> 0 then \<lparr>cf_theta = 0, cf_xbar = xbar, cf_varianceReduction = 0\<rparr>
            else
              (let theta = cov / varX; rho = cov / sqrt (varX * varY)
               in \<lparr>cf_theta = theta, cf_xbar = xbar, cf_varianceReduction = rho * rho\<rparr>)))"

definition applyCuped :: "real \<Rightarrow> real \<Rightarrow> CupedFit \<Rightarrow> real" where
  "applyCuped outcome covariate fit = outcome - cf_theta fit * (covariate - cf_xbar fit)"

definition adjusted :: "CupedFit \<Rightarrow> real list \<Rightarrow> real list \<Rightarrow> real list" where
  "adjusted fit ys xs = map (\<lambda>(y, x). applyCuped y x fit) (zip ys xs)"

lemma sum_centred: "xs \<noteq> [] \<Longrightarrow> sum_list (map (\<lambda>x. x - mean xs) xs) = 0"
  by (simp add: mean_def sum_list_subtractf sum_list_triv)

text \<open>The adjustment leaves the mean alone: it cannot manufacture lift on the pooled sample.\<close>

lemma fitCuped_xbar: "cf_xbar (fitCuped ys xs) = mean xs"
  by (simp add: fitCuped_def Let_def)

lemma length_adjusted [simp]: "length ys = length xs \<Longrightarrow> length (adjusted fit ys xs) = length ys"
  by (simp add: adjusted_def)

lemma adjusted_Nil_iff: "length ys = length xs \<Longrightarrow> adjusted fit ys xs = [] \<longleftrightarrow> ys = []"
  using length_adjusted [of ys xs fit] by (metis length_0_conv)

lemma sum_adjusted_split:
  assumes "length ys = length xs"
  shows "sum_list (adjusted fit ys xs) = sum_list ys - cf_theta fit * sum_list (map (\<lambda>x. x - cf_xbar fit) xs)"
  using assms by (induction ys xs rule: list_induct2) (simp_all add: adjusted_def applyCuped_def algebra_simps)

lemma cuped_sum:
  assumes "length ys = length xs" "cf_xbar fit = mean xs"
  shows "sum_list (adjusted fit ys xs) = sum_list ys"
  using sum_adjusted_split [OF assms(1), of fit] sum_centred [of xs] assms
  by (cases "xs = []") (simp_all add: adjusted_def)

lemma cuped_keeps_mean:
  assumes "length ys = length xs"
  shows "mean (adjusted (fitCuped ys xs) ys xs) = mean ys"
  using cuped_sum [OF assms fitCuped_xbar, of ys] assms by (simp add: mean_def adjusted_Nil_iff)

text \<open>And it shrinks the variance by exactly the reported factor.\<close>

lemma sum_square_adjusted:
  fixes ys xs :: "real list"
  assumes "length ys = length xs"
  shows "sum_list (map (\<lambda>(y, x). ((y - b) - t * (x - a))\<^sup>2) (zip ys xs)) =
    sum_list (map (\<lambda>y. (y - b) * (y - b)) ys) - 2 * t * sum_list (map (\<lambda>(y, x). (y - b) * (x - a)) (zip ys xs))
      + t\<^sup>2 * sum_list (map (\<lambda>x. (x - a) * (x - a)) xs)"
  using assms by (induction ys xs rule: list_induct2) (simp_all add: power2_eq_square algebra_simps)

lemma cuped_variance:
  assumes "length ys = length xs"
  shows "variance (adjusted (fitCuped ys xs) ys xs) (mean ys) =
    (1 - cf_varianceReduction (fitCuped ys xs)) * variance ys (mean ys)"
proof -
  let ?n = "of_nat (length ys) :: real"
  let ?fit = "fitCuped ys xs"
  let ?C = "sum_list (map (\<lambda>(y, x). (y - mean ys) * (x - mean xs)) (zip ys xs))"
  let ?X = "sum_list (map (\<lambda>x. (x - mean xs) * (x - mean xs)) xs)"
  let ?Y = "sum_list (map (\<lambda>y. (y - mean ys) * (y - mean ys)) ys)"
  have adj: "variance (adjusted ?fit ys xs) (mean ys) =
      (?Y - 2 * cf_theta ?fit * ?C + (cf_theta ?fit)\<^sup>2 * ?X) / ?n"
  proof -
    have "sum_list (map (\<lambda>z. (z - mean ys)\<^sup>2) (adjusted ?fit ys xs)) =
        sum_list (map (\<lambda>(y, x). ((y - mean ys) - cf_theta ?fit * (x - mean xs))\<^sup>2) (zip ys xs))"
      by (simp add: adjusted_def comp_def case_prod_unfold applyCuped_def fitCuped_xbar algebra_simps)
    then show ?thesis
      using sum_square_adjusted [OF assms, of "mean ys" "cf_theta ?fit" "mean xs"] assms
      by (cases "ys = []") (simp_all add: variance_def adjusted_Nil_iff)
  qed
  have v: "variance ys (mean ys) = ?Y / ?n" by (simp add: variance_def power2_eq_square)
  show ?thesis
  proof (cases "length ys < 2 \<or> ?X / ?n \<le> 0 \<or> ?Y / ?n \<le> 0")
    case True
    then have "cf_theta ?fit = 0" "cf_varianceReduction ?fit = 0"
      using assms by (auto simp: fitCuped_def Let_def)
    then show ?thesis using adj v by simp
  next
    case False
    then have n: "0 < ?n" and x: "0 < ?X / ?n" and y: "0 < ?Y / ?n" by auto
    then have X: "0 < ?X" and Y: "0 < ?Y" by (simp_all add: zero_less_divide_iff)
    have th: "cf_theta ?fit = ?C / ?n / (?X / ?n)"
      and vr: "cf_varianceReduction ?fit = (?C / ?n / sqrt (?X / ?n * (?Y / ?n)))\<^sup>2"
      using False assms by (auto simp: fitCuped_def Let_def power2_eq_square)
    have th': "cf_theta ?fit = ?C / ?X" using n by (simp add: th)
    have "(sqrt (?X / ?n * (?Y / ?n)))\<^sup>2 = ?X / ?n * (?Y / ?n)"
      using mult_pos_pos [OF x y] by (rule real_sqrt_pow2 [OF less_imp_le])
    then have vr': "cf_varianceReduction ?fit = ?C\<^sup>2 / (?X * ?Y)"
      unfolding vr power_divide using n by (simp add: power2_eq_square)
    show ?thesis
      unfolding adj v th' vr' using n X Y by (simp add: power2_eq_square divide_simps)
  qed
qed

lemma variance_nonneg: "0 \<le> variance xs m"
  by (auto simp: variance_def intro!: divide_nonneg_nonneg sum_list_nonneg)

end
