(* ===== verification/BillableUplift.thy ===== *)
theory BillableUplift
  imports Sequential
begin

text \<open>
  The billable estimator of \<open>packages/attribution/src/sequential.ts\<close>: the cluster-robust variance
  of an arm, the pooling of small strata, the post-stratified estimate, the gates and the fee.
  The loops over \<open>Map\<close>s are \<open>collect\<close> (theory \<open>Grouping\<close>); the sums accumulated in the loop over
  the strata are sums over the list of stratum lines.
\<close>

subsection \<open>The cluster-robust variance\<close>

definition cluster_residuals :: "real list \<Rightarrow> ident list \<Rightarrow> (ident \<times> real) list" where
  "cluster_residuals vals clusters =
     (let ybar = mean vals in collect snd (\<lambda>(v, k) s. s + (v - ybar)) 0 (zip vals clusters))"

definition clusteredArmVariance :: "real list \<Rightarrow> ident list \<Rightarrow> real" where
  "clusteredArmVariance vals clusters =
     (let n = length vals in
      if n = 0 then 0
      else
        (let clusterResidualSum = cluster_residuals vals clusters;
             sumSq = sum_list (map (\<lambda>(k, s). s * s) clusterResidualSum);
             g = length clusterResidualSum;
             smallG = (if 1 < g then of_nat g / (of_nat g - 1) else 1)
         in sumSq / (of_nat n * of_nat n) * smallG))"

lemma clusteredArmVariance_nonneg: "0 \<le> clusteredArmVariance vals clusters"
proof -
  have "0 \<le> sum_list (map (\<lambda>(k, s). s * s) (cluster_residuals vals clusters))"
    by (rule sum_list_nonneg) auto
  then show ?thesis by (simp add: clusteredArmVariance_def Let_def)
qed

text \<open>
  The cluster residuals are the grouped residuals: with one cluster they sum to zero, which is why
  an arm of a stratum with a single cluster has no estimable variance.
\<close>

lemma cluster_residuals_eq:
  "cluster_residuals vals clusters =
     map (\<lambda>k. (k, sum_list (map (\<lambda>(v, k). v - mean vals) (with_key snd (zip vals clusters) k))))
       (first_keys (map snd (zip vals clusters)))"
proof -
  have f: "(\<lambda>(v, k :: ident) s. s + (v - mean vals)) = (\<lambda>x s. s + (case x of (v, k) \<Rightarrow> v - mean vals))"
    by (simp add: fun_eq_iff split: prod.splits)
  show ?thesis by (simp only: cluster_residuals_def Let_def f collect_sum)
qed

lemma cluster_residuals_sum_0:
  assumes "length vals = length clusters"
  shows "sum_list (map snd (cluster_residuals vals clusters)) = 0"
proof -
  have z: "map (\<lambda>(v, k). v - m) (zip vals clusters) = map (\<lambda>v. v - m) vals" for m
    using assms by (induction vals clusters rule: list_induct2) (simp_all add: case_prod_unfold)
  have "sum_list (map snd (cluster_residuals vals clusters)) =
      sum_list (map (\<lambda>k. sum_list (map (\<lambda>(v, k). v - mean vals) (with_key snd (zip vals clusters) k)))
        (first_keys (map snd (zip vals clusters))))"
    by (simp add: cluster_residuals_eq comp_def)
  also have "\<dots> = sum_list (map (\<lambda>v. v - mean vals) vals)"
    by (simp only: sum_list_groups) (simp add: z)
  also have "\<dots> = 0" by (cases "vals = []") (simp_all add: sum_centred)
  finally show ?thesis .
qed

text \<open>One invoice per cluster: the estimate is the classical \<open>s\<^sup>2 / n\<close> with Bessel's correction.\<close>

lemma first_keys_distinct: "distinct ks \<Longrightarrow> first_keys ks = ks"
  by (simp add: first_keys_def distinct_remdups_id)

lemma singleton_groups:
  assumes "length vals = length clusters" "distinct clusters"
  shows "sum_list (map (\<lambda>k. h (sum_list (map (\<lambda>(v, k). v - m) (with_key snd (zip vals clusters) k)))) clusters) =
    sum_list (map (\<lambda>v. h (v - m)) (vals :: real list))"
  using assms
proof (induction "vals" clusters rule: list_induct2)
  case (Cons v vs c cs)
  have "with_key snd (zip (v # vs) (c # cs)) c = [(v, c)]"
    using Cons.prems by (auto simp: with_key_def filter_empty_conv dest: set_zip_rightD)
  moreover have "with_key snd (zip (v # vs) (c # cs)) k = with_key snd (zip vs cs) k" if "k \<in> set cs" for k
    using Cons.prems that by (auto simp: with_key_def)
  then have "map (\<lambda>k. h (sum_list (map (\<lambda>(v, k). v - m) (with_key snd (zip (v # vs) (c # cs)) k)))) cs =
      map (\<lambda>k. h (sum_list (map (\<lambda>(v, k). v - m) (with_key snd (zip vs cs) k)))) cs"
    by simp
  ultimately show ?case using Cons by (simp only: list.map sum_list.Cons distinct.simps) simp
qed simp

lemma unclustered_variance:
  assumes "length vals = length clusters" "distinct clusters" "1 < length vals"
  shows "clusteredArmVariance vals clusters =
    variance vals (mean vals) / (of_nat (length vals) - 1)"
proof -
  have z: "map snd (zip vals clusters) = clusters" using assms(1) by simp
  have "map (\<lambda>(k, s). s * s) (cluster_residuals vals clusters) =
      map (\<lambda>k. (\<lambda>s. s * s) (sum_list (map (\<lambda>(v, k). v - mean vals) (with_key snd (zip vals clusters) k)))) clusters"
    by (simp add: cluster_residuals_eq z first_keys_distinct [OF assms(2)] comp_def)
  then have s: "sum_list (map (\<lambda>(k, s). s * s) (cluster_residuals vals clusters)) =
      sum_list (map (\<lambda>v. (v - mean vals) * (v - mean vals)) vals)"
    by (simp only: singleton_groups [OF assms(1,2), of "\<lambda>s. s * s"])
  have g: "length (cluster_residuals vals clusters) = length vals"
    using assms(1) by (simp add: cluster_residuals_eq z first_keys_distinct [OF assms(2)])
  show ?thesis
    using assms(3) by (simp add: clusteredArmVariance_def Let_def s g variance_def power2_eq_square divide_simps)
qed

subsection \<open>Strata\<close>

definition arm_obs :: "Arm \<Rightarrow> UpliftObservation list \<Rightarrow> UpliftObservation list" where
  "arm_obs a obs = filter (\<lambda>ob. uo_arm ob = a) obs"

definition countDistinct :: "string list \<Rightarrow> int" where
  "countDistinct xs = int (length (first_keys xs))"

definition POOLED :: string where
  "POOLED = ''__pooled__''"

definition stratumMetFloor :: "int \<Rightarrow> UpliftObservation list \<Rightarrow> (string \<times> bool) list" where
  "stratumMetFloor perStratumFloor obs =
     map (\<lambda>(key, os). (key, perStratumFloor \<le> int (length (arm_obs ArmControl os))
       \<and> perStratumFloor \<le> int (length (arm_obs ArmTreatment os)))) (group_by uo_stratum obs)"

definition effStratum :: "(string \<times> bool) list \<Rightarrow> string \<Rightarrow> string" where
  "effStratum met key = (if map_of met key = Some True then key else POOLED)"

record ArmSlice =
  as_values :: "real list"
  as_clusters :: "ident list"
  as_recovered :: int

definition emptySlice :: ArmSlice where
  "emptySlice = \<lparr>as_values = [], as_clusters = [], as_recovered = 0\<rparr>"

record StratumCell =
  cell_control :: ArmSlice
  cell_treatment :: ArmSlice

definition push_slice :: "real \<Rightarrow> UpliftObservation \<Rightarrow> ArmSlice \<Rightarrow> ArmSlice" where
  "push_slice y ob sl =
     sl\<lparr>as_values := as_values sl @ [y], as_clusters := as_clusters sl @ [uo_cluster ob],
        as_recovered := (if uo_recovered ob then as_recovered sl + 1 else as_recovered sl)\<rparr>"

definition push_cell :: "(UpliftObservation \<Rightarrow> real) \<Rightarrow> UpliftObservation \<Rightarrow> StratumCell \<Rightarrow> StratumCell" where
  "push_cell adj ob cell =
     (case uo_arm ob of
        ArmControl \<Rightarrow> cell\<lparr>cell_control := push_slice (adj ob) ob (cell_control cell)\<rparr>
      | ArmTreatment \<Rightarrow> cell\<lparr>cell_treatment := push_slice (adj ob) ob (cell_treatment cell)\<rparr>)"

definition build_strata ::
  "(UpliftObservation \<Rightarrow> real) \<Rightarrow> (string \<Rightarrow> string) \<Rightarrow> UpliftObservation list \<Rightarrow> (string \<times> StratumCell) list" where
  "build_strata adj eff obs =
     collect (\<lambda>ob. eff (uo_stratum ob)) (push_cell adj) \<lparr>cell_control = emptySlice, cell_treatment = emptySlice\<rparr> obs"

definition stratum_unestimable :: "StratumCell \<Rightarrow> bool" where
  "stratum_unestimable cell \<longleftrightarrow>
     int (length (as_values (cell_treatment cell))) < 1 \<or> int (length (as_values (cell_control cell))) < 1
     \<or> countDistinct (as_clusters (cell_treatment cell)) < 2 \<or> countDistinct (as_clusters (cell_control cell)) < 2"

definition stratum_weight :: "int \<Rightarrow> StratumCell \<Rightarrow> real" where
  "stratum_weight treatedInvoices cell =
     (if 0 < treatedInvoices then of_nat (length (as_values (cell_treatment cell))) / of_int treatedInvoices else 0)"

definition stratum_delta :: "StratumCell \<Rightarrow> real" where
  "stratum_delta cell = mean (as_values (cell_treatment cell)) - mean (as_values (cell_control cell))"

definition stratum_variance :: "StratumCell \<Rightarrow> real" where
  "stratum_variance cell =
     clusteredArmVariance (as_values (cell_treatment cell)) (as_clusters (cell_treatment cell))
     + clusteredArmVariance (as_values (cell_control cell)) (as_clusters (cell_control cell))"

definition arm_rate :: "ArmSlice \<Rightarrow> real" where
  "arm_rate sl = (if as_values sl \<noteq> [] then of_int (as_recovered sl) / of_nat (length (as_values sl)) else 0)"

definition stratum_line :: "int \<Rightarrow> string \<Rightarrow> StratumCell \<Rightarrow> StratumLine" where
  "stratum_line treatedInvoices key cell =
     \<lparr>sl_stratumKey = key, sl_controlInvoices = int (length (as_values (cell_control cell))),
      sl_treatmentInvoices = int (length (as_values (cell_treatment cell))),
      sl_controlRate = arm_rate (cell_control cell), sl_treatmentRate = arm_rate (cell_treatment cell),
      sl_deltaPerStratum = stratum_delta cell, sl_weight = stratum_weight treatedInvoices cell,
      sl_metFloor = (key \<noteq> POOLED), sl_pooled = (key = POOLED)\<rparr>"

subsection \<open>The estimator\<close>

datatype GateReason =
    TooFewControlCustomers int int | TooFewTreatedInvoices int int | SeUnestimable | StratumUnestimable
  | LowerBoundNotPositive | SrmBreached js_number | PooledBelowFloor

record BillableUpliftResult =
  br_controlRate :: real
  br_treatmentRate :: real
  br_rateDiff :: real
  br_cupedTheta :: real
  br_cupedVarianceReduction :: real
  br_deltaPer :: real
  br_se :: real
  br_effectiveN :: real
  br_halfWidth :: real
  br_lowerPer :: real
  br_treatedInvoices :: int
  br_controlClusters :: int
  br_lowerDollarsCum :: Money
  br_priorBilledDollars :: Money
  br_billableIncrement :: Money
  br_fee :: Money
  br_srm :: SrmResult
  br_billable :: bool
  br_gateReasons :: "GateReason list"
  br_perStratum :: "StratumLine list"

definition config_error :: "SequentialUpliftConfig \<Rightarrow> js_error option" where
  "config_error config =
     (if \<not> (0 < sc_alpha config \<and> sc_alpha config < 1) then Some (RangeError ''alpha must be in (0,1)'')
      else if \<not> 0 < sc_tau2 config then Some (RangeError ''tau2 must be > 0'')
      else if \<not> (0 \<le> sc_feeRate config \<and> sc_feeRate config \<le> 1) then Some (RangeError ''feeRate must be in [0,1]'')
      else None)"

definition cuped_fit :: "bool \<Rightarrow> UpliftObservation list \<Rightarrow> CupedFit" where
  "cuped_fit useCuped obs =
     (if useCuped then fitCuped (map uo_outcome obs) (map uo_covariate obs)
      else \<lparr>cf_theta = 0, cf_xbar = mean (map uo_covariate obs), cf_varianceReduction = 0\<rparr>)"

definition cuped_adj :: "bool \<Rightarrow> CupedFit \<Rightarrow> UpliftObservation \<Rightarrow> real" where
  "cuped_adj useCuped cuped ob = (if useCuped then applyCuped (uo_outcome ob) (uo_covariate ob) cuped else uo_outcome ob)"

definition recovered_rate :: "UpliftObservation list \<Rightarrow> real" where
  "recovered_rate os = (if os \<noteq> [] then of_nat (length (filter uo_recovered os)) / of_nat (length os) else 0)"

definition floor_missing :: "int \<Rightarrow> StratumLine \<Rightarrow> bool" where
  "floor_missing perStratumFloor l \<longleftrightarrow>
     sl_pooled l \<and> 0 < sl_treatmentInvoices l + sl_controlInvoices l
     \<and> (sl_treatmentInvoices l < perStratumFloor \<or> sl_controlInvoices l < perStratumFloor)"

definition gate :: "bool \<Rightarrow> GateReason \<Rightarrow> GateReason list" where
  "gate b r = (if b then [r] else [])"

definition computeBillableUplift ::
  "UpliftObservation list \<Rightarrow> SequentialUpliftConfig \<Rightarrow> int \<Rightarrow> js_error + BillableUpliftResult" where
  "computeBillableUplift observations config priorBilled =
     (case config_error config of Some e \<Rightarrow> Inl e | None \<Rightarrow>
       (let cuped = cuped_fit (sc_useCuped config) observations;
            adj = cuped_adj (sc_useCuped config) cuped;
            eff = effStratum (stratumMetFloor (sc_perStratumFloor config) observations);
            strata = build_strata adj eff observations;
            treatedInvoices = int (length (arm_obs ArmTreatment observations));
            controlClusters = countDistinct (map uo_cluster (arm_obs ArmControl observations));
            treatmentClusters = countDistinct (map uo_cluster (arm_obs ArmTreatment observations));
            deltaPer = sum_list (map (\<lambda>(k, c). stratum_weight treatedInvoices c * stratum_delta c) strata);
            varDelta = sum_list (map (\<lambda>(k, c). stratum_weight treatedInvoices c * stratum_weight treatedInvoices c
              * stratum_variance c) strata);
            anyStratumUnestimable = list_ex (\<lambda>(k, c). stratum_unestimable c) strata;
            perStratum = map (\<lambda>(k, c). stratum_line treatedInvoices k c) strata;
            se = sqrt (max 0 varDelta);
            perObsVar = variance (map adj observations) (mean (map adj observations));
            effectiveN = (if 0 < perObsVar \<and> 0 < se then perObsVar / (se * se) else 0);
            halfWidth = msprtHalfWidthFromSe se (sc_tau2 config) (sc_alpha config);
            lowerPer = max 0 (deltaPer - halfWidth);
            controlRate = recovered_rate (arm_obs ArmControl observations);
            treatmentRate = recovered_rate (arm_obs ArmTreatment observations);
            srm = srmCheck controlClusters treatmentClusters (sc_expectedControlFraction config) (sc_srmThreshold config);
            gateReasons =
              gate (controlClusters < sc_minControlClusters config)
                (TooFewControlCustomers controlClusters (sc_minControlClusters config))
              @ gate (treatedInvoices < sc_minTreatedInvoices config)
                  (TooFewTreatedInvoices treatedInvoices (sc_minTreatedInvoices config))
              @ gate (se \<le> 0) SeUnestimable
              @ gate anyStratumUnestimable StratumUnestimable
              @ gate (lowerPer \<le> 0) LowerBoundNotPositive
              @ gate (srm_breached srm) (SrmBreached (srm_chiSquare srm))
              @ gate (list_ex (floor_missing (sc_perStratumFloor config)) perStratum) PooledBelowFloor;
            billable = (gateReasons = []);
            lowerDollarsCum = js_round (lowerPer * of_int treatedInvoices);
            billableIncrement = lowerDollarsCum - priorBilled;
            shouldSettle = billable \<or> billableIncrement < 0;
            fee = (if shouldSettle then js_round (sc_feeRate config * of_int billableIncrement) else 0);
            money = (\<lambda>a. \<lparr>amount = a, money_currency = sc_currency config\<rparr>)
        in Inr \<lparr>br_controlRate = controlRate, br_treatmentRate = treatmentRate,
             br_rateDiff = treatmentRate - controlRate, br_cupedTheta = cf_theta cuped,
             br_cupedVarianceReduction = cf_varianceReduction cuped, br_deltaPer = deltaPer, br_se = se,
             br_effectiveN = effectiveN, br_halfWidth = halfWidth, br_lowerPer = lowerPer,
             br_treatedInvoices = treatedInvoices, br_controlClusters = controlClusters,
             br_lowerDollarsCum = money lowerDollarsCum, br_priorBilledDollars = money priorBilled,
             br_billableIncrement = money billableIncrement, br_fee = money fee, br_srm = srm,
             br_billable = billable, br_gateReasons = gateReasons, br_perStratum = perStratum\<rparr>))"

subsection \<open>What the estimate promises\<close>

lemma gate_Nil [simp]: "gate b r = [] \<longleftrightarrow> \<not> b"
  by (simp add: gate_def)

lemma config_error_None:
  "config_error config = None \<longleftrightarrow>
     0 < sc_alpha config \<and> sc_alpha config < 1 \<and> 0 < sc_tau2 config \<and> 0 \<le> sc_feeRate config \<and> sc_feeRate config \<le> 1"
  by (auto simp: config_error_def)

lemma billable_ok_iff:
  "(\<exists>r. computeBillableUplift obs config prior = Inr r) \<longleftrightarrow> config_error config = None"
  by (simp add: computeBillableUplift_def Let_def split: option.splits)

text \<open>The facts about one result that the properties use, read off the definition once.\<close>

lemma billable_result:
  assumes "computeBillableUplift obs config prior = Inr r"
  shows "config_error config = None"
    and "br_lowerPer r = max 0 (br_deltaPer r - br_halfWidth r)"
    and "br_halfWidth r = msprtHalfWidthFromSe (br_se r) (sc_tau2 config) (sc_alpha config)"
    and "amount (br_lowerDollarsCum r) = js_round (br_lowerPer r * of_int (br_treatedInvoices r))"
    and "amount (br_billableIncrement r) = amount (br_lowerDollarsCum r) - prior"
    and "amount (br_fee r) = (if br_billable r \<or> amount (br_billableIncrement r) < 0
        then js_round (sc_feeRate config * of_int (amount (br_billableIncrement r))) else 0)"
    and "br_billable r \<longleftrightarrow> br_gateReasons r = []"
    and "br_treatedInvoices r = int (length (arm_obs ArmTreatment obs))"
    and "br_controlClusters r = countDistinct (map uo_cluster (arm_obs ArmControl obs))"
  using assms by (auto simp: computeBillableUplift_def Let_def split: option.splits)

lemma gate_reasons_eq:
  assumes "computeBillableUplift obs config prior = Inr r"
  shows "\<exists>u. br_gateReasons r =
      gate (br_controlClusters r < sc_minControlClusters config)
        (TooFewControlCustomers (br_controlClusters r) (sc_minControlClusters config))
      @ gate (br_treatedInvoices r < sc_minTreatedInvoices config)
          (TooFewTreatedInvoices (br_treatedInvoices r) (sc_minTreatedInvoices config))
      @ gate (br_se r \<le> 0) SeUnestimable @ gate u StratumUnestimable @ gate (br_lowerPer r \<le> 0) LowerBoundNotPositive
      @ gate (srm_breached (br_srm r)) (SrmBreached (srm_chiSquare (br_srm r)))
      @ gate (list_ex (floor_missing (sc_perStratumFloor config)) (br_perStratum r)) PooledBelowFloor"
proof -
  have "config_error config = None" by (rule billable_result(1) [OF assms])
  then have "r = projr (computeBillableUplift obs config prior)" using assms by simp
  then show ?thesis
    using \<open>config_error config = None\<close>
    by (simp only: computeBillableUplift_def Let_def option.case sum.sel BillableUpliftResult.select_convs) blast
qed

lemma billable_gates:
  assumes "computeBillableUplift obs config prior = Inr r" "br_billable r"
  shows "sc_minControlClusters config \<le> br_controlClusters r" "sc_minTreatedInvoices config \<le> br_treatedInvoices r"
    "0 < br_se r" "0 < br_lowerPer r" "\<not> srm_breached (br_srm r)"
    "l \<in> set (br_perStratum r) \<Longrightarrow> \<not> floor_missing (sc_perStratumFloor config) l"
  using gate_reasons_eq [OF assms(1)] billable_result(7) [OF assms(1)] assms(2)
  by (auto simp: list_ex_iff not_less not_le)

lemma half_width_result_nonneg:
  assumes "computeBillableUplift obs config prior = Inr r"
  shows "0 \<le> br_halfWidth r"
  using billable_result(1,3) [OF assms] half_width_nonneg by (simp add: config_error_None)

text \<open>The claim is never above the point estimate, and a positive fee needs every gate.\<close>

lemma fee_bounds:
  assumes r: "computeBillableUplift obs config prior = Inr r"
  shows "0 \<le> br_lowerPer r" "0 < br_lowerPer r \<Longrightarrow> br_lowerPer r \<le> br_deltaPer r"
    "0 < amount (br_fee r) \<Longrightarrow> br_billable r \<and> amount (br_fee r) \<le> amount (br_billableIncrement r)"
    "amount (br_billableIncrement r) < 0 \<Longrightarrow> amount (br_billableIncrement r) \<le> amount (br_fee r) \<and> amount (br_fee r) \<le> 0"
proof -
  let ?i = "amount (br_billableIncrement r)" and ?f = "sc_feeRate config"
  have rate: "0 \<le> ?f" "?f \<le> 1" using billable_result(1) [OF r] by (simp_all add: config_error_None)
  show "0 \<le> br_lowerPer r" by (simp add: billable_result(2) [OF r])
  show "0 < br_lowerPer r \<Longrightarrow> br_lowerPer r \<le> br_deltaPer r"
    using half_width_result_nonneg [OF r] by (simp add: billable_result(2) [OF r])
  have down: "js_round (?f * of_int ?i) \<le> 0" "?i \<le> js_round (?f * of_int ?i)" if "?i \<le> 0"
  proof -
    have "?f * of_int ?i \<le> 0" using that rate by (simp add: mult_nonneg_nonpos)
    then show "js_round (?f * of_int ?i) \<le> 0" using js_round_mono [of "?f * of_int ?i" 0] by simp
    have "1 * of_int ?i \<le> ?f * of_int ?i" using that rate by (intro mult_right_mono_neg) simp_all
    then show "?i \<le> js_round (?f * of_int ?i)"
      using js_round_mono [of "of_int ?i" "?f * of_int ?i"] by (simp del: of_int_le_iff)
  qed
  show "?i < 0 \<Longrightarrow> ?i \<le> amount (br_fee r) \<and> amount (br_fee r) \<le> 0"
    using down by (simp add: billable_result(6) [OF r])
  show "br_billable r \<and> amount (br_fee r) \<le> ?i" if "0 < amount (br_fee r)"
  proof -
    have i: "0 < ?i"
      using that down(1) billable_result(6) [OF r] by (cases "?i \<le> 0") (auto split: if_splits)
    then have b: "br_billable r" using that billable_result(6) [OF r] by (simp split: if_splits)
    have "js_round (?f * of_int ?i) \<le> ?i" using i rate by (intro js_round_le_of_int) (simp add: mult_left_le_one_le)
    with b i show ?thesis by (simp add: billable_result(6) [OF r])
  qed
qed

subsection \<open>The strata partition the sample\<close>

lemma foldl_push_cell:
  "cell_treatment (foldl (\<lambda>c ob. push_cell adj ob c) cell obs) =
     foldl (\<lambda>sl ob. push_slice (adj ob) ob sl) (cell_treatment cell) (arm_obs ArmTreatment obs)"
  "cell_control (foldl (\<lambda>c ob. push_cell adj ob c) cell obs) =
     foldl (\<lambda>sl ob. push_slice (adj ob) ob sl) (cell_control cell) (arm_obs ArmControl obs)"
  by (induction obs arbitrary: cell) (auto simp: push_cell_def arm_obs_def split: Arm.splits)

lemma foldl_push_slice:
  "foldl (\<lambda>sl ob. push_slice (adj ob) ob sl) sl obs =
     \<lparr>as_values = as_values sl @ map adj obs, as_clusters = as_clusters sl @ map uo_cluster obs,
      as_recovered = as_recovered sl + int (length (filter uo_recovered obs))\<rparr>"
  by (induction obs arbitrary: sl) (simp_all add: push_slice_def)

definition slice_of :: "(UpliftObservation \<Rightarrow> real) \<Rightarrow> UpliftObservation list \<Rightarrow> ArmSlice" where
  "slice_of adj obs = \<lparr>as_values = map adj obs, as_clusters = map uo_cluster obs,
      as_recovered = int (length (filter uo_recovered obs))\<rparr>"

lemma build_strata_eq:
  "build_strata adj eff obs =
     map (\<lambda>k. (k, \<lparr>cell_control = slice_of adj (arm_obs ArmControl (with_key (\<lambda>ob. eff (uo_stratum ob)) obs k)),
                   cell_treatment = slice_of adj (arm_obs ArmTreatment (with_key (\<lambda>ob. eff (uo_stratum ob)) obs k))\<rparr>))
       (first_keys (map (\<lambda>ob. eff (uo_stratum ob)) obs))"
proof -
  have "foldl (\<lambda>c ob. push_cell adj ob c) \<lparr>cell_control = emptySlice, cell_treatment = emptySlice\<rparr> os =
      \<lparr>cell_control = slice_of adj (arm_obs ArmControl os), cell_treatment = slice_of adj (arm_obs ArmTreatment os)\<rparr>" for os
    by (rule StratumCell.equality) (simp_all add: foldl_push_cell foldl_push_slice emptySlice_def slice_of_def)
  then show ?thesis by (simp add: build_strata_def collect_eq)
qed

lemma length_arm_obs: "length (arm_obs a obs) = sum_list (map (\<lambda>ob. if uo_arm ob = a then 1 else 0) obs)"
  by (induction obs) (simp_all add: arm_obs_def)

lemma strata_treated_sum:
  "sum_list (map (\<lambda>(k, c). length (as_values (cell_treatment c))) (build_strata adj eff obs)) =
     length (arm_obs ArmTreatment obs)"
proof -
  let ?key = "\<lambda>ob. eff (uo_stratum ob)" and ?g = "\<lambda>ob. if uo_arm ob = ArmTreatment then 1 else 0 :: nat"
  have "sum_list (map (\<lambda>(k, c). length (as_values (cell_treatment c))) (build_strata adj eff obs)) =
      sum_list (map (\<lambda>k. sum_list (map ?g (with_key ?key obs k))) (first_keys (map ?key obs)))"
    by (simp add: build_strata_eq comp_def slice_of_def length_arm_obs)
  then show ?thesis by (simp only: sum_list_groups length_arm_obs)
qed

lemma sum_list_div:
  fixes c :: "'a :: field"
  shows "sum_list (map (\<lambda>x. f x / c) xs) = sum_list (map f xs) / c"
  by (induction xs) (simp_all add: add_divide_distrib)

lemma weights_sum_1:
  assumes "computeBillableUplift obs config prior = Inr r" "0 < br_treatedInvoices r"
  shows "sum_list (map sl_weight (br_perStratum r)) = 1"
proof -
  obtain adj eff where p: "br_perStratum r = map (\<lambda>(k, c). stratum_line (br_treatedInvoices r) k c) (build_strata adj eff obs)"
    using assms(1) by (simp add: computeBillableUplift_def Let_def split: option.splits) auto
  let ?n = "real (length (arm_obs ArmTreatment obs))"
  have n: "0 < ?n" "of_int (br_treatedInvoices r) = ?n" using assms(2) billable_result(8) [OF assms(1)] by simp_all
  have "sum_list (map sl_weight (br_perStratum r)) =
      sum_list (map (\<lambda>(k, c). of_nat (length (as_values (cell_treatment c))) / ?n) (build_strata adj eff obs))"
    using assms(2) n(2) by (simp add: p comp_def case_prod_unfold stratum_line_def stratum_weight_def)
  also have "\<dots> = of_nat (sum_list (map (\<lambda>(k, c). length (as_values (cell_treatment c))) (build_strata adj eff obs))) / ?n"
    by (simp only: case_prod_unfold sum_list_div sum_list_of_nat [symmetric, where ?'a = real] map_map comp_def)
  also have "\<dots> = 1" using n by (simp add: strata_treated_sum)
  finally show ?thesis .
qed

end
