(* ===== verification/Statement.thy ===== *)
theory Statement
  imports BillableUplift Ledger
begin

text \<open>
  The monthly uplift statements of \<open>packages/attribution/src/statement.ts\<close>: the billing one around
  \<open>computeBillableUplift\<close> and the diagnostic one that adds up the strata's fixed-horizon results.
  The digest \<open>H\<close> and the clock text \<open>now\<close> are parameters.
\<close>

record BillableStatement =
  bs_merchantId :: ident
  bs_period :: string
  bs_currency :: currency
  bs_result :: BillableUpliftResult
  bs_ledgerHead :: string
  bs_ledgerVerified :: bool
  bs_generatedAt :: string

definition buildBillableStatement ::
  "(string \<Rightarrow> string) \<Rightarrow> string \<Rightarrow> ident \<Rightarrow> string \<Rightarrow> UpliftObservation list \<Rightarrow> int option \<Rightarrow> ledger \<Rightarrow> string
    \<Rightarrow> SequentialUpliftConfig option \<Rightarrow> js_error + BillableStatement" where
  "buildBillableStatement H now merchantId period observations priorBilled ledger ledgerHead config_opt =
     (let config = coalesce config_opt DEFAULT_SEQUENTIAL_CONFIG in
      case computeBillableUplift observations config (coalesce priorBilled 0) of
        Inl e \<Rightarrow> Inl e
      | Inr result \<Rightarrow>
          Inr \<lparr>bs_merchantId = merchantId, bs_period = period, bs_currency = sc_currency config, bs_result = result,
               bs_ledgerHead = ledgerHead, bs_ledgerVerified = chain_ok H ledger, bs_generatedAt = now\<rparr>)"

record StratumArms =
  sa_stratumKey :: string
  sa_control :: ArmStats
  sa_treatment :: ArmStats

record UpliftStatementLine =
  usl_stratumKey :: string
  usl_controlRate :: real
  usl_treatmentRate :: real
  usl_rateDiff :: real
  usl_rateDiffLower :: real
  usl_incrementalDollarsLower :: Money
  usl_fee :: Money
  usl_billable :: bool

record UpliftStatement =
  us_merchantId :: ident
  us_period :: string
  us_currency :: currency
  us_lines :: "UpliftStatementLine list"
  us_totalIncrementalLower :: Money
  us_totalFee :: Money
  us_ledgerHead :: string
  us_ledgerVerified :: bool
  us_generatedAt :: string

definition statement_line :: "UpliftConfig \<Rightarrow> StratumArms \<Rightarrow> UpliftStatementLine" where
  "statement_line config s =
     (let u = computeUplift (sa_control s) (sa_treatment s) config in
      \<lparr>usl_stratumKey = sa_stratumKey s, usl_controlRate = ur_controlRate u, usl_treatmentRate = ur_treatmentRate u,
       usl_rateDiff = ur_rateDiff u, usl_rateDiffLower = ur_rateDiffLower u,
       usl_incrementalDollarsLower = ur_incrementalDollarsLower u, usl_fee = ur_fee u, usl_billable = ur_billable u\<rparr>)"

text \<open>The loop: the lines so far and the two running totals.\<close>

fun statement_loop ::
  "UpliftConfig \<Rightarrow> StratumArms list \<Rightarrow> UpliftStatementLine list \<times> int \<times> int \<Rightarrow> UpliftStatementLine list \<times> int \<times> int" where
  "statement_loop config [] acc = acc"
| "statement_loop config (s # ss) (lines, totalLower, totalFee) =
     (let l = statement_line config s in
      statement_loop config ss
        (lines @ [l],
         (if usl_billable l then totalLower + amount (usl_incrementalDollarsLower l) else totalLower),
         (if usl_billable l then totalFee + amount (usl_fee l) else totalFee)))"

definition buildUpliftStatement ::
  "(string \<Rightarrow> string) \<Rightarrow> string \<Rightarrow> ident \<Rightarrow> string \<Rightarrow> StratumArms list \<Rightarrow> ledger \<Rightarrow> string \<Rightarrow> UpliftConfig option
    \<Rightarrow> UpliftStatement" where
  "buildUpliftStatement H now merchantId period strata ledger ledgerHead config_opt =
     (let config = coalesce config_opt DEFAULT_UPLIFT_CONFIG in
      case statement_loop config strata ([], 0, 0) of (lines, totalLower, totalFee) \<Rightarrow>
        \<lparr>us_merchantId = merchantId, us_period = period, us_currency = uc_currency config, us_lines = lines,
         us_totalIncrementalLower = \<lparr>amount = totalLower, money_currency = uc_currency config\<rparr>,
         us_totalFee = \<lparr>amount = totalFee, money_currency = uc_currency config\<rparr>,
         us_ledgerHead = ledgerHead, us_ledgerVerified = chain_ok H ledger, us_generatedAt = now\<rparr>)"

subsection \<open>The totals are the sums over the billable lines\<close>

definition billable_lines :: "UpliftStatementLine list \<Rightarrow> UpliftStatementLine list" where
  "billable_lines ls = filter usl_billable ls"

lemma statement_loop_eq:
  "statement_loop config ss (lines, a, b) =
     (lines @ map (statement_line config) ss,
      a + sum_list (map (\<lambda>l. amount (usl_incrementalDollarsLower l)) (billable_lines (map (statement_line config) ss))),
      b + sum_list (map (\<lambda>l. amount (usl_fee l)) (billable_lines (map (statement_line config) ss))))"
  by (induction ss arbitrary: lines a b) (simp_all add: Let_def billable_lines_def)

lemma statement_totals:
  assumes "st = buildUpliftStatement H now m p strata ledger lh config"
  shows "us_lines st = map (statement_line (coalesce config DEFAULT_UPLIFT_CONFIG)) strata"
    and "amount (us_totalIncrementalLower st) =
      sum_list (map (\<lambda>l. amount (usl_incrementalDollarsLower l)) (billable_lines (us_lines st)))"
    and "amount (us_totalFee st) = sum_list (map (\<lambda>l. amount (usl_fee l)) (billable_lines (us_lines st)))"
  by (simp_all add: assms buildUpliftStatement_def Let_def statement_loop_eq)

end
