(* ===== verification/Csv.thy ===== *)
theory Csv
  imports Json
begin

text \<open>
  The CSV writer of \<open>packages/attribution/src/reconciliation.ts\<close> (\<open>csvCell\<close>, \<open>csvRow\<close>) and a
  reader in the style of RFC 4180 it is checked against. A cell is what the source passes to
  \<open>String\<close>: \<open>None\<close> for \<open>null\<close> or \<open>undefined\<close>, the text otherwise.
\<close>

subsection \<open>Writing\<close>

definition formula_char :: "char \<Rightarrow> bool" where
  "formula_char c \<longleftrightarrow> c \<in> {CHR ''='', CHR ''+'', CHR ''-'', CHR ''@'', CHR 0x09, CHR 0x0D}"

definition comma :: char where "comma = CHR '',''"
definition line_feed :: char where "line_feed = CHR 0x0A"
definition apostrophe :: char where "apostrophe = CHR 0x27"

definition needs_quotes :: "char \<Rightarrow> bool" where
  "needs_quotes c \<longleftrightarrow> c \<in> {dquote, comma, line_feed, CHR 0x0D}"

text \<open>The guard against spreadsheet formulas: a quote in front of a leading formula character.\<close>

definition neutralise :: "string \<Rightarrow> string" where
  "neutralise s = (if s \<noteq> [] \<and> formula_char (hd s) then apostrophe # s else s)"

definition double_quotes :: "string \<Rightarrow> string" where
  "double_quotes s = concat (map (\<lambda>c. if c = dquote then [dquote, dquote] else [c]) s)"

definition csvCell :: "string option \<Rightarrow> string" where
  "csvCell v =
     (let s = neutralise (coalesce v []) in
      if list_ex needs_quotes s then dquote # double_quotes s @ [dquote] else s)"

definition csvRow :: "string option list \<Rightarrow> string" where
  "csvRow cells = join [comma] (map csvCell cells)"

definition csvLines :: "string option list list \<Rightarrow> string" where
  "csvLines rows = join [line_feed] (map csvRow rows)"

subsection \<open>Reading\<close>

fun read_quoted :: "string \<Rightarrow> (string \<times> string) option" where
  "read_quoted [] = None"
| "read_quoted (c # cs) =
     (if c \<noteq> dquote then map_option (apfst ((#) c)) (read_quoted cs)
      else case cs of
        [] \<Rightarrow> Some ([], [])
      | d # ds \<Rightarrow> if d = dquote then map_option (apfst ((#) dquote)) (read_quoted ds) else Some ([], cs))"

definition plain_char :: "char \<Rightarrow> bool" where
  "plain_char c \<longleftrightarrow> c \<noteq> comma \<and> c \<noteq> line_feed"

definition read_cell :: "string \<Rightarrow> (string \<times> string) option" where
  "read_cell s =
     (case s of
        [] \<Rightarrow> Some ([], [])
      | c # cs \<Rightarrow> if c = dquote then read_quoted cs else Some (takeWhile plain_char s, dropWhile plain_char s))"

lemma read_quoted_shorter: "read_quoted s = Some (f, r) \<Longrightarrow> length r \<le> length s"
proof (induction s arbitrary: f r rule: read_quoted.induct)
  case (2 c cs)
  then show ?case by (fastforce split: if_splits list.splits)
qed simp

lemma read_cell_shorter: "read_cell s = Some (f, r) \<Longrightarrow> length r \<le> length s"
  using length_dropWhile_le [of plain_char s]
  by (auto simp: read_cell_def split: list.splits if_splits dest: read_quoted_shorter)

function read_row :: "string \<Rightarrow> (string list \<times> string) option" where
  "read_row s =
     (case read_cell s of
        None \<Rightarrow> None
      | Some (c, []) \<Rightarrow> Some ([c], [])
      | Some (c, d # r) \<Rightarrow>
          if d = comma then map_option (apfst ((#) c)) (read_row r)
          else if d = line_feed then Some ([c], d # r) else None)"
  by pat_completeness auto
termination by (relation "measure length") (auto dest: read_cell_shorter)

declare read_row.simps [simp del]

lemma read_row_shorter: "read_row s = Some (cs, r) \<Longrightarrow> length r \<le> length s"
proof (induction s arbitrary: cs r rule: read_row.induct)
  case (1 s)
  obtain c q where q: "read_cell s = Some (c, q)" using "1.prems" by (subst (asm) read_row.simps) (auto split: option.splits)
  show ?case
  proof (cases q)
    case Nil
    then show ?thesis using "1.prems" q by (simp add: read_row.simps [of s])
  next
    case (Cons d q')
    have l: "length q \<le> length s" by (rule read_cell_shorter [OF q])
    show ?thesis
    proof (cases "d = comma")
      case True
      then obtain cs' where "read_row q' = Some (cs', r)"
        using "1.prems" q Cons by (auto simp: read_row.simps [of s])
      with "1.IH" [OF q _ Cons True] l Cons show ?thesis by fastforce
    next
      case False
      then show ?thesis using "1.prems" q Cons l by (auto simp: read_row.simps [of s] split: if_splits)
    qed
  qed
qed

function read_lines :: "string \<Rightarrow> string list list option" where
  "read_lines s =
     (case read_row s of
        None \<Rightarrow> None
      | Some (cs, []) \<Rightarrow> Some [cs]
      | Some (cs, d # r) \<Rightarrow> map_option ((#) cs) (read_lines r))"
  by pat_completeness auto
termination by (relation "measure length") (auto dest: read_row_shorter)

declare read_lines.simps [simp del]

subsection \<open>Reading back what was written\<close>

definition cell_end :: "string \<Rightarrow> bool" where
  "cell_end r \<longleftrightarrow> r = [] \<or> hd r = comma \<or> hd r = line_feed"

lemma cell_end_not_quote: "cell_end r \<Longrightarrow> r = c # r' \<Longrightarrow> c \<noteq> dquote"
  by (auto simp: cell_end_def comma_def line_feed_def dquote_def)

lemma read_quoted_double: "cell_end r \<Longrightarrow> read_quoted (double_quotes s @ dquote # r) = Some (s, r)"
proof (induction s)
  case Nil
  then show ?case by (auto simp: double_quotes_def dest: cell_end_not_quote split: list.splits)
next
  case (Cons c s)
  then show ?case by (simp add: double_quotes_def)
qed

lemma read_cell_plain:
  assumes "\<not> list_ex needs_quotes s" "cell_end r"
  shows "read_cell (s @ r) = Some (s, r)"
proof -
  have s: "plain_char c" "c \<noteq> dquote" if "c \<in> set s" for c
    using assms(1) that by (auto simp: list_ex_iff needs_quotes_def plain_char_def)
  have r: "takeWhile plain_char r = []" "dropWhile plain_char r = r"
    using assms(2) by (cases r; auto simp: cell_end_def plain_char_def)+
  have "takeWhile plain_char (s @ r) = s" "dropWhile plain_char (s @ r) = r"
    using s(1) r by simp_all
  moreover have "s @ r = [] \<or> hd (s @ r) \<noteq> dquote"
    using s(2) cell_end_not_quote [OF assms(2)] by (cases s) (auto simp: neq_Nil_conv)
  ultimately show ?thesis by (auto simp: read_cell_def split: list.splits)
qed

lemma read_cell_csvCell:
  assumes "cell_end r"
  shows "read_cell (csvCell v @ r) = Some (neutralise (coalesce v []), r)"
  using read_cell_plain [OF _ assms] read_quoted_double [OF assms]
  by (simp add: csvCell_def Let_def read_cell_def)

lemma read_row_csvRow:
  assumes "cells \<noteq> []" "r = [] \<or> hd r = line_feed"
  shows "read_row (csvRow cells @ r) = Some (map (\<lambda>v. neutralise (coalesce v [])) cells, r)"
  using assms(1)
proof (induction cells rule: list_nonempty_induct)
  case (single v)
  have "cell_end r" using assms(2) by (auto simp: cell_end_def)
  from read_cell_csvCell [OF this] assms(2) show ?case
    by (subst read_row.simps) (auto simp: csvRow_def comma_def line_feed_def split: list.splits)
next
  case (cons v vs)
  have s: "csvRow (v # vs) @ r = csvCell v @ comma # csvRow vs @ r"
    using cons.hyps by (cases vs) (simp_all add: csvRow_def)
  have "cell_end (comma # csvRow vs @ r)" by (simp add: cell_end_def)
  from read_cell_csvCell [OF this] cons.IH show ?case
    unfolding s by (subst read_row.simps) simp
qed

lemma read_lines_csvLines:
  assumes "rows \<noteq> []" "\<forall>row \<in> set rows. row \<noteq> []"
  shows "read_lines (csvLines rows) = Some (map (map (\<lambda>v. neutralise (coalesce v []))) rows)"
  using assms
proof (induction rows rule: list_nonempty_induct)
  case (single row)
  with read_row_csvRow [of row "[]"] show ?case
    by (subst read_lines.simps) (simp add: csvLines_def)
next
  case (cons row rows)
  have s: "csvLines (row # rows) = csvRow row @ line_feed # csvLines rows"
    using cons.hyps by (cases rows) (simp_all add: csvLines_def)
  have "read_row (csvLines (row # rows)) = Some (map (\<lambda>v. neutralise (coalesce v [])) row, line_feed # csvLines rows)"
    unfolding s using cons.prems by (intro read_row_csvRow) simp_all
  with cons.IH cons.prems show ?case by (subst read_lines.simps) simp
qed

text \<open>No cell a reader sees starts with a character a spreadsheet takes for a formula.\<close>

lemma neutralise_safe: "neutralise s = [] \<or> \<not> formula_char (hd (neutralise s))"
  by (auto simp: neutralise_def formula_char_def apostrophe_def)

lemma neutralise_id: "s = [] \<or> \<not> formula_char (hd s) \<Longrightarrow> neutralise s = s"
  by (auto simp: neutralise_def)

lemma digit_not_formula: "48 \<le> (of_char c :: nat) \<Longrightarrow> (of_char c :: nat) \<le> 57 \<Longrightarrow> \<not> formula_char c"
  by (auto simp: formula_char_def)

lemma neutralise_nat:
  assumes "0 \<le> i"
  shows "neutralise (show_int i) = show_int i"
proof -
  have "hd (show_nat (nat i)) \<in> set (show_nat (nat i))" by simp
  from show_nat_digits [OF this] have "\<not> formula_char (hd (show_nat (nat i)))"
    by (elim conjE) (rule digit_not_formula)
  then show ?thesis using assms by (intro neutralise_id) (simp add: show_int_def)
qed

lemma neutralise_negative: "i < 0 \<Longrightarrow> neutralise (show_int i) = apostrophe # show_int i"
  by (simp add: neutralise_def show_int_def formula_char_def)

definition safe_cell :: "string \<Rightarrow> bool" where
  "safe_cell s \<longleftrightarrow> s = [] \<or> \<not> formula_char (hd s)"

lemma neutralise_safe_cell [simp]: "safe_cell (neutralise s)"
  using neutralise_safe [of s] by (simp add: safe_cell_def)

end
