(* ===== verification/Sealed.thy ===== *)
theory Sealed
  imports Json
begin

text \<open>
  Records sealed by a digest of their canonical serialization (\<open>stableStringify\<close> of the
  attribution and billing packages): two records with the same digest agree field by field,
  when the digest does not collide on the two texts.
\<close>

text \<open>The canonical content of a value: what both printers determine it by.\<close>

definition content :: "json \<Rightarrow> json" where
  "content v = sortKeys (strip v)"

lemma strip_sortKeys_content: "strip (sortKeys v) = content v"
  by (simp add: content_def strip_sortKeys)

lemma sealed_content:
  assumes "H (stable_stringify v) = H (stable_stringify w)"
    and "inj_on H {stable_stringify v, stable_stringify w}"
    and "wf_value v" "wf_value w"
  shows "content v = content w"
proof -
  have "stable_stringify v = stable_stringify w" using assms(1) by (intro inj_onD [OF assms(2)]) simp_all
  then show ?thesis
    using stringify_strip_inject [of "sortKeys v" "sortKeys w"] assms(3,4)
    by (simp add: stable_stringify_def strip_sortKeys_content)
qed

lemma wf_value_simps [simp]:
  "wf_value (JStr s)" "wf_value (JBool b)" "wf_value (jopt o')" "wf_value (jint i)"
  "wf_value (JArr xs) \<longleftrightarrow> list_all wf_value xs"
  "wf_value (JObj kvs) \<longleftrightarrow> list_all (\<lambda>(k, v). v \<noteq> JUndef \<longrightarrow> wf_value v) kvs"
proof -
  have "strip_elems xs = map strip xs" by (induction xs) simp_all
  then show "wf_value (JArr xs) \<longleftrightarrow> list_all wf_value xs"
    by (simp add: wf_value_def wf_elems_iff list_all_iff)
  show "wf_value (JObj kvs) \<longleftrightarrow> list_all (\<lambda>(k, v). v \<noteq> JUndef \<longrightarrow> wf_value v) kvs"
    by (auto simp: wf_value_def wf_members_iff strip_members_map list_all_iff)
  show "wf_value (jint i)" using wf_jint [of i] by (simp add: wf_value_def del: wf_jint)
  show "wf_value (jopt o')" by (cases o') (simp_all add: wf_value_def)
qed (simp_all add: wf_value_def)

text \<open>Reading a content.\<close>

lemma content_JStr [simp]: "content (JStr s) = JStr s"
  and content_JNum [simp]: "content (JNum t) = JNum t"
  and content_JBool [simp]: "content (JBool b) = JBool b"
  and content_JArr [simp]: "content (JArr xs) = JArr (map content xs)"
proof -
  have "strip_elems xs = map strip xs" by (induction xs) simp_all
  then show "content (JArr xs) = JArr (map content xs)" by (simp add: content_def sort_elems_map comp_def)
qed (simp_all add: content_def)

lemma set_content_members:
  "set (sort_key fst (sort_members (strip_members kvs))) = (\<lambda>(k, v). (k, content v)) ` {(k, v) \<in> set kvs. v \<noteq> JUndef}"
  by (auto simp: sort_members_map strip_members_map content_def image_iff)

lemma content_members:
  assumes "content (JObj kvs) = content (JObj kvs')"
  shows "(\<lambda>(k, v). (k, content v)) ` {(k, v) \<in> set kvs. v \<noteq> JUndef} =
    (\<lambda>(k, v). (k, content v)) ` {(k, v) \<in> set kvs'. v \<noteq> JUndef}"
proof -
  have "sort_key fst (sort_members (strip_members kvs)) = sort_key fst (sort_members (strip_members kvs'))"
    using assms by (simp add: content_def)
  then show ?thesis by (simp only: set_content_members [symmetric])
qed

lemma content_field:
  assumes eq: "content (JObj kvs) = content (JObj kvs')"
    and d: "distinct (map fst kvs')"
    and m: "map_of kvs k = Some v" "map_of kvs' k = Some v'" and u: "v \<noteq> JUndef" "v' \<noteq> JUndef"
  shows "content v = content v'"
proof -
  have s: "(\<lambda>(k, v). (k, content v)) ` {(k, v) \<in> set kvs. v \<noteq> JUndef} =
      (\<lambda>(k, v). (k, content v)) ` {(k, v) \<in> set kvs'. v \<noteq> JUndef}"
    using eq by (intro content_members)
  have "(k, content v) \<in> (\<lambda>(k, v). (k, content v)) ` {(k, v) \<in> set kvs. v \<noteq> JUndef}"
    using map_of_SomeD [OF m(1)] u(1) by (auto simp: image_iff)
  then obtain w where "(k, w) \<in> set kvs'" "content v = content w"
    unfolding s by auto
  moreover from this(1) d m(2) have "w = v'" by (simp add: map_of_eq_Some_iff)
  ultimately show ?thesis by simp
qed

lemma content_JUndef_member:
  assumes "content (JObj kvs) = content (JObj kvs')" "distinct (map fst kvs')"
    and "map_of kvs k = Some v" "map_of kvs' k = Some JUndef"
  shows "v = JUndef"
proof (rule ccontr)
  assume u: "v \<noteq> JUndef"
  have s: "(\<lambda>(k, v). (k, content v)) ` {(k, v) \<in> set kvs. v \<noteq> JUndef} =
      (\<lambda>(k, v). (k, content v)) ` {(k, v) \<in> set kvs'. v \<noteq> JUndef}"
    using assms(1) by (intro content_members)
  have "(k, content v) \<in> (\<lambda>(k, v). (k, content v)) ` {(k, v) \<in> set kvs. v \<noteq> JUndef}"
    using map_of_SomeD [OF assms(3)] u by (auto simp: image_iff)
  then obtain w where "(k, w) \<in> set kvs'" "w \<noteq> JUndef" unfolding s by auto
  with assms(2,4) show False by (simp add: map_of_eq_Some_iff)
qed

text \<open>Optional texts are pinned too, present or absent.\<close>

lemma content_jopt:
  assumes "content (JObj kvs) = content (JObj kvs')" "distinct (map fst kvs)" "distinct (map fst kvs')"
    and "map_of kvs k = Some (jopt x)" "map_of kvs' k = Some (jopt y)"
  shows "x = y"
proof (cases x; cases y)
  fix a assume "x = None" "y = Some a"
  then show ?thesis
    using content_JUndef_member [OF assms(1) [symmetric] assms(2), of k "jopt y"] assms(4,5) by simp
next
  fix a assume "x = Some a" "y = None"
  then show ?thesis using content_JUndef_member [OF assms(1,3), of k "jopt x"] assms(4,5) by simp
next
  fix a b assume "x = Some a" "y = Some b"
  then show ?thesis using content_field [OF assms(1,3), of k "jopt x" "jopt y"] assms(4,5) by simp
qed simp

text \<open>The reading rules for the other kinds of field.\<close>

lemma content_str:
  assumes "content (JObj kvs) = content (JObj kvs')" "distinct (map fst kvs')"
    and "map_of kvs k = Some (JStr s)" "map_of kvs' k = Some (JStr t)"
  shows "s = t"
  using content_field [OF assms] by simp

lemma content_int:
  assumes "content (JObj kvs) = content (JObj kvs')" "distinct (map fst kvs')"
    and "map_of kvs k = Some (jint i)" "map_of kvs' k = Some (jint j)"
  shows "i = j"
  using content_field [OF assms] by simp

lemma content_bool:
  assumes "content (JObj kvs) = content (JObj kvs')" "distinct (map fst kvs')"
    and "map_of kvs k = Some (JBool i)" "map_of kvs' k = Some (JBool j)"
  shows "i = j"
  using content_field [OF assms] by simp

lemma content_array:
  assumes "content (JObj kvs) = content (JObj kvs')" "distinct (map fst kvs')"
    and "map_of kvs k = Some (JArr xs)" "map_of kvs' k = Some (JArr ys)"
  shows "map content xs = map content ys"
  using content_field [OF assms] by simp

lemma content_object:
  assumes "content (JObj kvs) = content (JObj kvs')" "distinct (map fst kvs')"
    and "map_of kvs k = Some (JObj xs)" "map_of kvs' k = Some (JObj ys)"
  shows "content (JObj xs) = content (JObj ys)"
  using content_field [OF assms] by simp

end
