(* ===== verification/Reconciliation.thy ===== *)
theory Reconciliation
  imports Statement Csv Sealed
begin

text \<open>
  The reconciliation export of \<open>packages/attribution/src/reconciliation.ts\<close>: the settled
  outcomes, the fee worksheet, the hashed and signed statement, the two CSV artifacts and the
  tie-out against the processor's payout report.

  SHA-256 is the parameter \<open>H\<close>; an Ed25519 signer is a record of its key id and its \<open>sign\<close>
  function, and \<open>edVerify\<close> is the platform's verification (it may throw). The texts of
  non-integral numbers (\<open>Number::toString\<close>, \<open>toFixed(2)\<close>) are the parameter \<open>NumberFormat\<close>.
\<close>

subsection \<open>Settled outcomes\<close>

datatype SettlementOutcome = OutRecovered | OutFailed | OutPending

fun outcome_value :: "SettlementOutcome \<Rightarrow> string" where
  "outcome_value OutRecovered = ''recovered''"
| "outcome_value OutFailed = ''failed''"
| "outcome_value OutPending = ''pending''"

datatype ReversalType = RevNone | RevRefund | RevChargeback | RevDispute

fun reversal_value :: "ReversalType \<Rightarrow> string" where
  "reversal_value RevNone = ''none''"
| "reversal_value RevRefund = ''refund''"
| "reversal_value RevChargeback = ''chargeback''"
| "reversal_value RevDispute = ''dispute''"

record SettledOutcome =
  so_invoiceId :: ident
  so_customerId :: ident
  so_arm :: Arm
  so_stratum :: string
  so_declineCode :: "string option"
  so_outcome :: SettlementOutcome
  so_invoiceAmount :: int
  so_recoveredAmount :: int
  so_currency :: currency
  so_processorTxnId :: "string option"
  so_settledAt :: "string option"
  so_reversalType :: "ReversalType option"
  so_reversalAmount :: "int option"
  so_reversalAt :: "string option"

datatype BillingMode = Conservative | FullValue

record EpochDisclosure =
  ep_epochId :: ident
  ep_saltRevealed :: string
  ep_controlFraction :: real
  ep_windowDays :: int
  ep_alpha :: real
  ep_tau2 :: real
  ep_cupedModelVersion :: "string option"
  ep_billingMode :: BillingMode

record Signer =
  sg_keyId :: string
  sg_sign :: "string \<Rightarrow> string"

record ArmSummary =
  as_invoices :: int
  as_recoveredCount :: int
  as_recoveredAmount :: int
  as_reversedAmount :: int

record FeeWorksheet =
  fw_feeRate :: real
  fw_deltaPer :: real
  fw_se :: real
  fw_halfWidth :: real
  fw_lowerPer :: real
  fw_treatedInvoices :: int
  fw_lowerDollarsCum :: int
  fw_priorBilledDollars :: int
  fw_billableIncrement :: int
  fw_fee :: int
  fw_billable :: bool
  fw_gateReasons :: "GateReason list"
  fw_cupedVarianceReduction :: real
  fw_effectiveN :: real

record ReconciliationCore =
  rc_merchantId :: ident
  rc_period :: string
  rc_currency :: currency
  rc_summaryControl :: ArmSummary
  rc_summaryTreatment :: ArmSummary
  rc_fee :: FeeWorksheet
  rc_epoch :: EpochDisclosure
  rc_recoveredTransactions :: "SettledOutcome list"
  rc_ledgerHead :: string
  rc_ledgerVerified :: bool
  rc_generatedAt :: string

record ReconciliationExport = ReconciliationCore +
  rx_statementHash :: string
  rx_signature :: "string option"
  rx_signingKeyId :: "string option"

definition netRecovered :: "SettledOutcome \<Rightarrow> int" where
  "netRecovered ob = max 0 (so_recoveredAmount ob - coalesce (so_reversalAmount ob) 0)"

definition settledOutcomeToObservation :: "SettledOutcome \<Rightarrow> UpliftObservation" where
  "settledOutcomeToObservation ob =
     \<lparr>uo_arm = so_arm ob, uo_cluster = so_customerId ob, uo_stratum = so_stratum ob,
      uo_outcome = of_int (netRecovered ob), uo_covariate = of_int (so_invoiceAmount ob),
      uo_recovered = (so_outcome ob = OutRecovered)\<rparr>"

definition armSummary :: "SettledOutcome list \<Rightarrow> ArmSummary" where
  "armSummary rows = foldl (\<lambda>s ob.
     (let s' = (if so_outcome ob = OutRecovered
                then s\<lparr>as_recoveredCount := as_recoveredCount s + 1,
                       as_recoveredAmount := as_recoveredAmount s + so_recoveredAmount ob\<rparr> else s)
      in s'\<lparr>as_reversedAmount := as_reversedAmount s' + coalesce (so_reversalAmount ob) 0\<rparr>))
     \<lparr>as_invoices = int (length rows), as_recoveredCount = 0, as_recoveredAmount = 0, as_reversedAmount = 0\<rparr> rows"

subsection \<open>The serialized statement\<close>

record NumberFormat =
  nf_text :: "real \<Rightarrow> string"
  nf_fixed2 :: "js_number \<Rightarrow> string"

definition numeral_format :: "NumberFormat \<Rightarrow> bool" where
  "numeral_format nf \<longleftrightarrow> (\<forall>x. nf_text nf x \<noteq> [] \<and> set (nf_text nf x) \<subseteq> num_chars)"

lemma wf_value_num: "numeral_format nf \<Longrightarrow> wf_value (JNum (nf_text nf x))"
  by (simp add: wf_value_def numeral_format_def)

definition chi_squared :: string where
  "chi_squared = [char_of (207::nat), char_of (135::nat), char_of (194::nat), char_of (178::nat)]"

fun gateText :: "NumberFormat \<Rightarrow> GateReason \<Rightarrow> string" where
  "gateText nf (TooFewControlCustomers n m) = ''control customers '' @ show_int n @ '' < '' @ show_int m"
| "gateText nf (TooFewTreatedInvoices n m) = ''treated invoices '' @ show_int n @ '' < '' @ show_int m"
| "gateText nf SeUnestimable = ''standard error unestimable (insufficient variation)''"
| "gateText nf StratumUnestimable = ''a stratum has an empty arm or <2 clusters (variance unestimable)''"
| "gateText nf LowerBoundNotPositive = ''lower bound not yet positive (lift unproven)''"
| "gateText nf (SrmBreached x) = ''SRM breached ('' @ chi_squared @ ''='' @ nf_fixed2 nf x @ '')''"
| "gateText nf PooledBelowFloor = ''pooled residual stratum below floor''"

definition armSummary_json :: "ArmSummary \<Rightarrow> json" where
  "armSummary_json s = JObj
     [(''invoices'', jint (as_invoices s)), (''recovered'', jint (as_recoveredCount s)),
      (''recoveredAmount'', jint (as_recoveredAmount s)), (''reversedAmount'', jint (as_reversedAmount s))]"

definition worksheet_json :: "NumberFormat \<Rightarrow> FeeWorksheet \<Rightarrow> json" where
  "worksheet_json nf f = JObj
     [(''feeRate'', JNum (nf_text nf (fw_feeRate f))), (''deltaPer'', JNum (nf_text nf (fw_deltaPer f))),
      (''se'', JNum (nf_text nf (fw_se f))), (''halfWidth'', JNum (nf_text nf (fw_halfWidth f))),
      (''lowerPer'', JNum (nf_text nf (fw_lowerPer f))), (''treatedInvoices'', jint (fw_treatedInvoices f)),
      (''lowerDollarsCum'', jint (fw_lowerDollarsCum f)), (''priorBilledDollars'', jint (fw_priorBilledDollars f)),
      (''billableIncrement'', jint (fw_billableIncrement f)), (''fee'', jint (fw_fee f)),
      (''billable'', JBool (fw_billable f)), (''gateReasons'', JArr (map (\<lambda>r. JStr (gateText nf r)) (fw_gateReasons f))),
      (''cupedVarianceReduction'', JNum (nf_text nf (fw_cupedVarianceReduction f))),
      (''effectiveN'', JNum (nf_text nf (fw_effectiveN f)))]"

definition epoch_json :: "NumberFormat \<Rightarrow> EpochDisclosure \<Rightarrow> json" where
  "epoch_json nf e = JObj
     [(''epochId'', JStr (ep_epochId e)), (''saltRevealed'', JStr (ep_saltRevealed e)),
      (''controlFraction'', JNum (nf_text nf (ep_controlFraction e))), (''windowDays'', jint (ep_windowDays e)),
      (''alpha'', JNum (nf_text nf (ep_alpha e))), (''tau2'', JNum (nf_text nf (ep_tau2 e))),
      (''cupedModelVersion'', jopt (ep_cupedModelVersion e)),
      (''billingMode'', JStr (case ep_billingMode e of Conservative \<Rightarrow> ''conservative'' | FullValue \<Rightarrow> ''full_value''))]"

definition outcome_json :: "SettledOutcome \<Rightarrow> json" where
  "outcome_json ob = JObj
     [(''invoiceId'', JStr (so_invoiceId ob)), (''customerId'', JStr (so_customerId ob)),
      (''arm'', JStr (arm_value (so_arm ob))), (''stratum'', JStr (so_stratum ob)),
      (''declineCode'', jopt (so_declineCode ob)), (''outcome'', JStr (outcome_value (so_outcome ob))),
      (''invoiceAmount'', jint (so_invoiceAmount ob)), (''recoveredAmount'', jint (so_recoveredAmount ob)),
      (''currency'', JStr (so_currency ob)), (''processorTxnId'', jopt (so_processorTxnId ob)),
      (''settledAt'', jopt (so_settledAt ob)), (''reversalType'', jopt (map_option reversal_value (so_reversalType ob))),
      (''reversalAmount'', case so_reversalAmount ob of None \<Rightarrow> JUndef | Some a \<Rightarrow> jint a),
      (''reversalAt'', jopt (so_reversalAt ob))]"

definition core_json :: "NumberFormat \<Rightarrow> 'a ReconciliationCore_scheme \<Rightarrow> json" where
  "core_json nf c = JObj
     [(''merchantId'', JStr (rc_merchantId c)), (''period'', JStr (rc_period c)), (''currency'', JStr (rc_currency c)),
      (''summary'', JObj [(''control'', armSummary_json (rc_summaryControl c)), (''treatment'', armSummary_json (rc_summaryTreatment c))]),
      (''fee'', worksheet_json nf (rc_fee c)), (''epoch'', epoch_json nf (rc_epoch c)),
      (''recoveredTransactions'', JArr (map outcome_json (rc_recoveredTransactions c))),
      (''ledgerHead'', JStr (rc_ledgerHead c)), (''ledgerVerified'', JBool (rc_ledgerVerified c)),
      (''generatedAt'', JStr (rc_generatedAt c))]"

subsection \<open>Building and verifying the export\<close>

record ExportParams =
  xp_merchantId :: ident
  xp_period :: string
  xp_outcomes :: "SettledOutcome list"
  xp_epoch :: EpochDisclosure
  xp_ledger :: ledger
  xp_ledgerHead :: string
  xp_priorBilledDollars :: "int option"
  xp_config :: "SequentialUpliftConfig option"
  xp_signer :: "Signer option"
  xp_generatedAt :: "string option"

definition export_currency :: "ExportParams \<Rightarrow> currency" where
  "export_currency ps =
     coalesce (case xp_outcomes ps of [] \<Rightarrow> None | ob # _ \<Rightarrow> Some (so_currency ob))
       (coalesce (map_option sc_currency (xp_config ps)) (sc_currency DEFAULT_SEQUENTIAL_CONFIG))"

text \<open>The spread \<open>...params.config\<close> comes last: a configuration that is given overrides the epoch's values.\<close>

definition export_config :: "ExportParams \<Rightarrow> SequentialUpliftConfig" where
  "export_config ps =
     coalesce (xp_config ps)
       (DEFAULT_SEQUENTIAL_CONFIG\<lparr>sc_alpha := ep_alpha (xp_epoch ps), sc_tau2 := ep_tau2 (xp_epoch ps),
          sc_expectedControlFraction := ep_controlFraction (xp_epoch ps), sc_currency := export_currency ps\<rparr>)"

definition worksheet :: "SequentialUpliftConfig \<Rightarrow> int \<Rightarrow> BillableUpliftResult \<Rightarrow> FeeWorksheet" where
  "worksheet config priorBilled result =
     \<lparr>fw_feeRate = sc_feeRate config, fw_deltaPer = br_deltaPer result, fw_se = br_se result,
      fw_halfWidth = br_halfWidth result, fw_lowerPer = br_lowerPer result,
      fw_treatedInvoices = br_treatedInvoices result, fw_lowerDollarsCum = amount (br_lowerDollarsCum result),
      fw_priorBilledDollars = priorBilled, fw_billableIncrement = amount (br_billableIncrement result),
      fw_fee = amount (br_fee result), fw_billable = br_billable result, fw_gateReasons = br_gateReasons result,
      fw_cupedVarianceReduction = br_cupedVarianceReduction result, fw_effectiveN = br_effectiveN result\<rparr>"

definition recovered_rows :: "SettledOutcome list \<Rightarrow> SettledOutcome list" where
  "recovered_rows rows = filter (\<lambda>ob. so_outcome ob = OutRecovered \<or> 0 < coalesce (so_reversalAmount ob) 0) rows"

definition export_core ::
  "(string \<Rightarrow> string) \<Rightarrow> string \<Rightarrow> ExportParams \<Rightarrow> js_error + ReconciliationCore" where
  "export_core H now ps =
     (let config = export_config ps; priorBilled = coalesce (xp_priorBilledDollars ps) 0 in
      case computeBillableUplift (map settledOutcomeToObservation (xp_outcomes ps)) config priorBilled of
        Inl e \<Rightarrow> Inl e
      | Inr result \<Rightarrow>
          Inr \<lparr>rc_merchantId = xp_merchantId ps, rc_period = xp_period ps, rc_currency = export_currency ps,
               rc_summaryControl = armSummary (filter (\<lambda>ob. so_arm ob = ArmControl) (xp_outcomes ps)),
               rc_summaryTreatment = armSummary (filter (\<lambda>ob. so_arm ob = ArmTreatment) (xp_outcomes ps)),
               rc_fee = worksheet config priorBilled result, rc_epoch = xp_epoch ps,
               rc_recoveredTransactions = recovered_rows (xp_outcomes ps), rc_ledgerHead = xp_ledgerHead ps,
               rc_ledgerVerified = chain_ok H (xp_ledger ps), rc_generatedAt = coalesce (xp_generatedAt ps) now\<rparr>)"

definition statement_hash :: "(string \<Rightarrow> string) \<Rightarrow> NumberFormat \<Rightarrow> 'a ReconciliationCore_scheme \<Rightarrow> string" where
  "statement_hash H nf c = H (stable_stringify (core_json nf c))"

definition buildReconciliationExport ::
  "(string \<Rightarrow> string) \<Rightarrow> NumberFormat \<Rightarrow> string \<Rightarrow> ExportParams \<Rightarrow> js_error + ReconciliationExport" where
  "buildReconciliationExport H nf now ps =
     (case export_core H now ps of
        Inl e \<Rightarrow> Inl e
      | Inr core \<Rightarrow>
          (let statementHash = statement_hash H nf core in
           Inr (ReconciliationCore.extend core
             (ReconciliationExport.fields statementHash (map_option (\<lambda>s. sg_sign s statementHash) (xp_signer ps))
               (map_option sg_keyId (xp_signer ps))))))"

record SignatureCheck =
  hashMatches :: bool
  signatureValid :: bool

definition verifyReconciliationSignature ::
  "(string \<Rightarrow> string) \<Rightarrow> NumberFormat \<Rightarrow> (string \<Rightarrow> string \<Rightarrow> string \<Rightarrow> js_error + bool) \<Rightarrow> ReconciliationExport \<Rightarrow> string
    \<Rightarrow> SignatureCheck" where
  "verifyReconciliationSignature H nf edVerify doc publicKeyPem =
     (let recomputed = statement_hash H nf doc; matches = (recomputed = rx_statementHash doc) in
      \<lparr>hashMatches = matches,
       signatureValid =
         (case rx_signature doc of
            None \<Rightarrow> False
          | Some sig \<Rightarrow>
              matches \<and> sig \<noteq> [] \<and>
              (case edVerify publicKeyPem (rx_statementHash doc) sig of Inl e \<Rightarrow> False | Inr b \<Rightarrow> b))\<rparr>)"

end
