(* ===== verification/BillingAccount.thy ===== *)
theory BillingAccount
  imports Comms Reconciliation Sealed
begin

text \<open>
  Opting in to billing: \<open>packages/billing/src/account.ts\<close> (the account and the validation of an
  opt-in), \<open>terms.ts\<close> and \<open>acceptance.ts\<close> (the signed record of the acceptance). An absent text
  of the form is the empty one: the source treats both as blank. The body of the terms is an
  argument.
\<close>

subsection \<open>The account\<close>

datatype PayerTrack = AutoPay | InvoiceTrack | UnknownTrack string

fun track_value :: "PayerTrack \<Rightarrow> string" where
  "track_value AutoPay = ''auto_pay''"
| "track_value InvoiceTrack = ''invoice''"
| "track_value (UnknownTrack s) = s"

datatype BillingAccountStatus = AccPending | AccActive | AccSuspended | AccCancelled

record PostalAddress =
  pa_line1 :: string
  pa_line2 :: "string option"
  pa_city :: string
  pa_region :: string
  pa_postalCode :: string
  pa_country :: string

record AuthorizedSigner =
  au_name :: string
  au_title :: string
  au_email :: string

record FeeSchedule =
  fs_feeRate :: real
  fs_currency :: currency
  fs_paymentTermsDays :: int
  fs_lateFinanceChargeMonthlyRate :: real

definition DEFAULT_FEE_SCHEDULE :: FeeSchedule where
  "DEFAULT_FEE_SCHEDULE =
     \<lparr>fs_feeRate = 0.12, fs_currency = ''USD'', fs_paymentTermsDays = 14, fs_lateFinanceChargeMonthlyRate = 0.015\<rparr>"

record BillingAccount =
  ba_accountId :: ident
  ba_merchantId :: ident
  ba_legalEntityName :: string
  ba_billingAddress :: PostalAddress
  ba_taxId :: "string option"
  ba_apContactEmail :: string
  ba_poRequired :: bool
  ba_poNumber :: "string option"
  ba_payerTrack :: PayerTrack
  ba_paymentMethodRef :: "string option"
  ba_customerRef :: "string option"
  ba_feeSchedule :: FeeSchedule
  ba_status :: BillingAccountStatus
  ba_createdAt :: string

record OptInInput =
  oi_merchantId :: ident
  oi_legalEntityName :: string
  oi_billingAddress :: PostalAddress
  oi_taxId :: "string option"
  oi_apContactEmail :: string
  oi_poRequired :: bool
  oi_poNumber :: "string option"
  oi_payerTrack :: PayerTrack
  oi_paymentMethodRef :: "string option"
  oi_customerRef :: "string option"
  oi_signer :: AuthorizedSigner
  oi_autoPayAuthorized :: "bool option"
  oi_feeSchedule :: "FeeSchedule option"

subsection \<open>The two patterns\<close>

text \<open>\<open>^[^\s@]+@[^\s@]+\.[^\s@]+$\<close>: one \<open>@\<close>, no white space, and a dot inside the domain.\<close>

definition email_char :: "char \<Rightarrow> bool" where
  "email_char c \<longleftrightarrow> \<not> is_space c \<and> c \<noteq> CHR ''@''"

definition valid_domain :: "string \<Rightarrow> bool" where
  "valid_domain d \<longleftrightarrow> list_all email_char d \<and> CHR ''.'' \<in> set (butlast (tl d))"

definition EMAIL_RE :: "string \<Rightarrow> bool" where
  "EMAIL_RE s =
     (case dropWhile email_char s of
        [] \<Rightarrow> False
      | c # d \<Rightarrow> c = CHR ''@'' \<and> takeWhile email_char s \<noteq> [] \<and> valid_domain d)"

text \<open>
  \<open>(?:\d[ -]?){13,19}\<close>: the match is greedy and starts at the first position with thirteen
  digits, each followed by at most one separator; \<open>card_run\<close> counts them.
\<close>

fun card_run :: "string \<Rightarrow> nat" where
  "card_run [] = 0"
| "card_run [c] = (if is_digit c then 1 else 0)"
| "card_run (c # d # s) =
     (if is_digit c then (if pan_sep d then Suc (card_run s) else Suc (card_run (d # s))) else 0)"

definition looksLikePan :: "string option \<Rightarrow> bool" where
  "looksLikePan v =
     (case v of
        None \<Rightarrow> False
      | Some s \<Rightarrow>
          (case List.find (\<lambda>t. 13 \<le> card_run t) (suffixes s) of
             None \<Rightarrow> False
           | Some t \<Rightarrow> (let digits = min 19 (card_run t) in 13 \<le> digits \<and> digits \<le> 19)))"

definition isBlank :: "string \<Rightarrow> bool" where
  "isBlank s = (trim s = [])"

definition blank_opt :: "string option \<Rightarrow> bool" where
  "blank_opt v = isBlank (coalesce v [])"

subsection \<open>Validation\<close>

definition err :: "bool \<Rightarrow> string \<Rightarrow> string list" where
  "err b msg = (if b then [msg] else [])"

definition check_email :: "string \<Rightarrow> string \<Rightarrow> string list" where
  "check_email field v =
     (if isBlank v then [field @ '' is required''] else err (\<not> EMAIL_RE v) (field @ '' is not a valid email''))"

definition validateOptIn :: "OptInInput \<Rightarrow> string list" where
  "validateOptIn input =
     (let a = oi_billingAddress input; s = oi_signer input in
      err (isBlank (oi_merchantId input)) ''merchantId is required''
      @ err (isBlank (oi_legalEntityName input)) ''legalEntityName is required''
      @ err (isBlank (pa_line1 a)) ''billingAddress.line1 is required''
      @ err (isBlank (pa_city a)) ''billingAddress.city is required''
      @ err (isBlank (pa_region a)) ''billingAddress.region is required''
      @ err (isBlank (pa_postalCode a)) ''billingAddress.postalCode is required''
      @ (if isBlank (pa_country a) then [''billingAddress.country is required'']
         else err (js_length (trim (pa_country a)) \<noteq> 2) ''billingAddress.country must be a 2-letter ISO code'')
      @ check_email ''apContactEmail'' (oi_apContactEmail input)
      @ err (isBlank (au_name s)) ''signer.name is required''
      @ err (isBlank (au_title s)) ''signer.title is required''
      @ check_email ''signer.email'' (au_email s)
      @ err (oi_poRequired input \<and> blank_opt (oi_poNumber input)) ''poNumber is required when poRequired is true''
      @ (case oi_payerTrack input of
           AutoPay \<Rightarrow>
             err (blank_opt (oi_paymentMethodRef input)) ''paymentMethodRef is required on the auto_pay track''
             @ err (oi_autoPayAuthorized input \<noteq> Some True) ''autoPayAuthorized must be true to enroll in auto-pay''
         | InvoiceTrack \<Rightarrow> []
         | UnknownTrack t \<Rightarrow> [''unknown payerTrack: '' @ t])
      @ err (looksLikePan (oi_paymentMethodRef input))
          (''paymentMethodRef looks like a card number '' @ emdash @ '' pass an opaque processor token, never a PAN'')
      @ err (looksLikePan (oi_customerRef input))
          (''customerRef looks like a card number '' @ emdash @ '' pass an opaque processor customer id, never a PAN'')
      @ err (looksLikePan (oi_taxId input)) ''taxId looks like a card number''
      @ err (looksLikePan (oi_poNumber input)) ''poNumber looks like a card number'')"

definition buildBillingAccount :: "OptInInput \<Rightarrow> ident \<Rightarrow> string \<Rightarrow> js_error + BillingAccount" where
  "buildBillingAccount input accountId createdAt =
     (let errors = validateOptIn input in
      if errors \<noteq> [] then Inl (JsError (''invalid opt-in: '' @ join ''; '' errors))
      else Inr \<lparr>ba_accountId = accountId, ba_merchantId = oi_merchantId input,
             ba_legalEntityName = oi_legalEntityName input, ba_billingAddress = oi_billingAddress input,
             ba_taxId = oi_taxId input, ba_apContactEmail = oi_apContactEmail input,
             ba_poRequired = oi_poRequired input, ba_poNumber = oi_poNumber input,
             ba_payerTrack = oi_payerTrack input,
             ba_paymentMethodRef = (if oi_payerTrack input = AutoPay then oi_paymentMethodRef input else None),
             ba_customerRef = (if oi_payerTrack input = AutoPay then oi_customerRef input else None),
             ba_feeSchedule = coalesce (oi_feeSchedule input) DEFAULT_FEE_SCHEDULE,
             ba_status = AccActive, ba_createdAt = createdAt\<rparr>)"

subsection \<open>What a built account guarantees\<close>

lemma looksLikePan_iff: "looksLikePan (Some s) \<longleftrightarrow> (\<exists>t. suffix t s \<and> 13 \<le> card_run t)"
proof -
  have "looksLikePan (Some s) \<longleftrightarrow> (\<exists>t \<in> set (suffixes s). 13 \<le> card_run t)"
    by (auto simp: looksLikePan_def Let_def find_None_iff_all split: option.splits dest!: find_Some_set)
  then show ?thesis by (auto simp: Bex_def)
qed

lemma err_Nil [simp]: "err b msg = [] \<longleftrightarrow> \<not> b"
  by (simp add: err_def)

lemma check_email_Nil [simp]: "check_email f v = [] \<longleftrightarrow> \<not> isBlank v \<and> EMAIL_RE v"
  by (simp add: check_email_def)

lemma validateOptIn_Nil:
  assumes "validateOptIn input = []"
  shows "\<not> isBlank (oi_merchantId input)" "\<not> isBlank (oi_legalEntityName input)"
    "EMAIL_RE (oi_apContactEmail input)"
    "oi_poRequired input \<Longrightarrow> \<not> blank_opt (oi_poNumber input)"
    "oi_payerTrack input = AutoPay \<Longrightarrow> \<not> blank_opt (oi_paymentMethodRef input) \<and> oi_autoPayAuthorized input = Some True"
    "oi_payerTrack input \<in> {AutoPay, InvoiceTrack}"
    "\<not> looksLikePan (oi_paymentMethodRef input)" "\<not> looksLikePan (oi_customerRef input)"
    "\<not> looksLikePan (oi_taxId input)" "\<not> looksLikePan (oi_poNumber input)"
  using assms by (auto simp: validateOptIn_def Let_def split: PayerTrack.splits)

text \<open>The well-formedness of a stored account.\<close>

definition account_wf :: "BillingAccount \<Rightarrow> bool" where
  "account_wf a \<longleftrightarrow>
     \<not> isBlank (ba_merchantId a) \<and> \<not> isBlank (ba_legalEntityName a) \<and> EMAIL_RE (ba_apContactEmail a)
     \<and> (ba_poRequired a \<longrightarrow> \<not> blank_opt (ba_poNumber a))
     \<and> (ba_payerTrack a = AutoPay \<and> \<not> blank_opt (ba_paymentMethodRef a)
        \<or> ba_payerTrack a = InvoiceTrack \<and> ba_paymentMethodRef a = None \<and> ba_customerRef a = None)
     \<and> \<not> looksLikePan (ba_paymentMethodRef a) \<and> \<not> looksLikePan (ba_customerRef a)
     \<and> \<not> looksLikePan (ba_taxId a) \<and> \<not> looksLikePan (ba_poNumber a)"

lemma looksLikePan_None [simp]: "\<not> looksLikePan None"
  by (simp add: looksLikePan_def)

lemma buildBillingAccount_wf: "buildBillingAccount input i t = Inr a \<Longrightarrow> account_wf a"
  using validateOptIn_Nil [of input]
  by (auto simp: buildBillingAccount_def Let_def account_wf_def split: if_splits)

subsection \<open>Terms and acceptance\<close>

record TermsVersion =
  tv_version :: string
  tv_effectiveAt :: string
  tv_bodyHash :: string

definition hashTerms :: "(string \<Rightarrow> string) \<Rightarrow> string \<Rightarrow> string" where
  "hashTerms H body = H body"

definition CURRENT_TERMS_VERSION :: string where
  "CURRENT_TERMS_VERSION = ''2026-08-16.v1-draft''"

definition CURRENT_TERMS_EFFECTIVE_AT :: string where
  "CURRENT_TERMS_EFFECTIVE_AT = ''2026-08-16''"

definition currentTerms :: "(string \<Rightarrow> string) \<Rightarrow> string \<Rightarrow> TermsVersion" where
  "currentTerms H body =
     \<lparr>tv_version = CURRENT_TERMS_VERSION, tv_effectiveAt = CURRENT_TERMS_EFFECTIVE_AT, tv_bodyHash = hashTerms H body\<rparr>"

record AcceptanceRecord =
  ar_accountId :: ident
  ar_merchantId :: ident
  ar_termsVersion :: string
  ar_termsHash :: string
  ar_feeSchedule :: FeeSchedule
  ar_payerTrack :: PayerTrack
  ar_autoPayAuthorized :: bool
  ar_acceptedBy :: AuthorizedSigner
  ar_acceptedAt :: string
  ar_ip :: "string option"
  ar_userAgent :: "string option"

record SignedAcceptanceRecord = AcceptanceRecord +
  sr_recordHash :: string
  sr_signature :: string
  sr_signingKeyId :: string

definition feeSchedule_json :: "NumberFormat \<Rightarrow> FeeSchedule \<Rightarrow> json" where
  "feeSchedule_json nf f = JObj
     [(''feeRate'', JNum (nf_text nf (fs_feeRate f))), (''currency'', JStr (fs_currency f)),
      (''paymentTermsDays'', jint (fs_paymentTermsDays f)),
      (''lateFinanceChargeMonthlyRate'', JNum (nf_text nf (fs_lateFinanceChargeMonthlyRate f)))]"

definition acceptance_json :: "NumberFormat \<Rightarrow> 'a AcceptanceRecord_scheme \<Rightarrow> json" where
  "acceptance_json nf r = JObj
     [(''accountId'', JStr (ar_accountId r)), (''merchantId'', JStr (ar_merchantId r)),
      (''termsVersion'', JStr (ar_termsVersion r)), (''termsHash'', JStr (ar_termsHash r)),
      (''feeSchedule'', feeSchedule_json nf (ar_feeSchedule r)), (''payerTrack'', JStr (track_value (ar_payerTrack r))),
      (''autoPayAuthorized'', JBool (ar_autoPayAuthorized r)),
      (''acceptedBy'', JObj [(''name'', JStr (au_name (ar_acceptedBy r))), (''title'', JStr (au_title (ar_acceptedBy r))),
         (''email'', JStr (au_email (ar_acceptedBy r)))]),
      (''acceptedAt'', JStr (ar_acceptedAt r)), (''ip'', jopt (ar_ip r)), (''userAgent'', jopt (ar_userAgent r))]"

definition signAcceptance ::
  "(string \<Rightarrow> string) \<Rightarrow> NumberFormat \<Rightarrow> AcceptanceRecord \<Rightarrow> Signer \<Rightarrow> SignedAcceptanceRecord" where
  "signAcceptance H nf record' signer =
     (let recordHash = H (stableStringify (acceptance_json nf record')) in
      AcceptanceRecord.extend record'
        (SignedAcceptanceRecord.fields recordHash (sg_sign signer recordHash) (sg_keyId signer)))"

definition acceptanceHashMatches :: "(string \<Rightarrow> string) \<Rightarrow> NumberFormat \<Rightarrow> SignedAcceptanceRecord \<Rightarrow> bool" where
  "acceptanceHashMatches H nf signed \<longleftrightarrow> H (stableStringify (acceptance_json nf signed)) = sr_recordHash signed"

definition buildAcceptance ::
  "(string \<Rightarrow> string) \<Rightarrow> NumberFormat \<Rightarrow> string \<Rightarrow> BillingAccount \<Rightarrow> AuthorizedSigner \<Rightarrow> string \<Rightarrow> bool \<Rightarrow> Signer
    \<Rightarrow> TermsVersion option \<Rightarrow> string option \<Rightarrow> string option \<Rightarrow> SignedAcceptanceRecord" where
  "buildAcceptance H nf body account acceptedBy acceptedAt autoPayAuthorized signer terms_opt ip userAgent =
     (let terms = coalesce terms_opt (currentTerms H body) in
      signAcceptance H nf
        \<lparr>ar_accountId = ba_accountId account, ar_merchantId = ba_merchantId account, ar_termsVersion = tv_version terms,
         ar_termsHash = tv_bodyHash terms, ar_feeSchedule = ba_feeSchedule account, ar_payerTrack = ba_payerTrack account,
         ar_autoPayAuthorized = autoPayAuthorized, ar_acceptedBy = acceptedBy, ar_acceptedAt = acceptedAt,
         ar_ip = ip, ar_userAgent = userAgent\<rparr> signer)"

lemma acceptance_json_extend [simp]: "acceptance_json nf (AcceptanceRecord.extend r m) = acceptance_json nf r"
  by (simp add: acceptance_json_def AcceptanceRecord.defs)

lemma signAcceptance_matches: "acceptanceHashMatches H nf (signAcceptance H nf r signer)"
  by (simp add: acceptanceHashMatches_def signAcceptance_def Let_def)
    (simp add: AcceptanceRecord.defs SignedAcceptanceRecord.defs)

text \<open>The digest binds the record to the words, the economics and the person.\<close>

lemma wf_feeSchedule_json: "numeral_format nf \<Longrightarrow> wf_value (feeSchedule_json nf f)"
  by (simp add: feeSchedule_json_def wf_value_num)

lemma wf_acceptance_json: "numeral_format nf \<Longrightarrow> wf_value (acceptance_json nf r)"
  by (simp add: acceptance_json_def wf_feeSchedule_json)

lemma no_undef_acceptance: "no_undef_elem (acceptance_json nf r)"
proof -
  have "no_undef_elem (jopt o')" for o' by (cases o') simp_all
  then show ?thesis by (simp add: acceptance_json_def feeSchedule_json_def)
qed

lemma acceptance_printed: "stableStringify (acceptance_json nf r) = stable_stringify (acceptance_json nf r)"
  using stable_printers_agree_aux(1) [OF no_undef_acceptance, of nf r] by (simp add: acceptance_json_def stable_stringify_def)

lemma sealed_acceptance:
  assumes "H (stableStringify (acceptance_json nf r)) = H (stableStringify (acceptance_json nf s))"
    and "inj_on H {stableStringify (acceptance_json nf r), stableStringify (acceptance_json nf s)}" "numeral_format nf"
  shows "ar_accountId r = ar_accountId s" "ar_merchantId r = ar_merchantId s" "ar_termsHash r = ar_termsHash s"
    "ar_autoPayAuthorized r = ar_autoPayAuthorized s" "ar_acceptedBy r = ar_acceptedBy s"
    "ar_acceptedAt r = ar_acceptedAt s" "ar_ip r = ar_ip s"
proof -
  have "content (acceptance_json nf r) = content (acceptance_json nf s)"
    using assms(1,2) unfolding acceptance_printed
    by (rule sealed_content) (rule wf_acceptance_json [OF assms(3)])+
  note eq = this [unfolded acceptance_json_def]
  show "ar_accountId r = ar_accountId s" by (rule content_str [OF eq, where k = "''accountId''"]) simp_all
  show "ar_merchantId r = ar_merchantId s" by (rule content_str [OF eq, where k = "''merchantId''"]) simp_all
  show "ar_termsHash r = ar_termsHash s" by (rule content_str [OF eq, where k = "''termsHash''"]) simp_all
  show "ar_autoPayAuthorized r = ar_autoPayAuthorized s"
    by (rule content_bool [OF eq, where k = "''autoPayAuthorized''"]) simp_all
  show "ar_acceptedAt r = ar_acceptedAt s" by (rule content_str [OF eq, where k = "''acceptedAt''"]) simp_all
  show "ar_ip r = ar_ip s" by (rule content_jopt [OF eq, where k = "''ip''"]) simp_all
  have p: "content (JObj [(''name'', JStr (au_name (ar_acceptedBy r))), (''title'', JStr (au_title (ar_acceptedBy r))), (''email'', JStr (au_email (ar_acceptedBy r)))]) =
      content (JObj [(''name'', JStr (au_name (ar_acceptedBy s))), (''title'', JStr (au_title (ar_acceptedBy s))), (''email'', JStr (au_email (ar_acceptedBy s)))])"
    by (rule content_object [OF eq, where k = "''acceptedBy''"]) simp_all
  show "ar_acceptedBy r = ar_acceptedBy s"
  proof (rule AuthorizedSigner.equality)
    show "au_name (ar_acceptedBy r) = au_name (ar_acceptedBy s)" by (rule content_str [OF p, where k = "''name''"]) simp_all
    show "au_title (ar_acceptedBy r) = au_title (ar_acceptedBy s)" by (rule content_str [OF p, where k = "''title''"]) simp_all
    show "au_email (ar_acceptedBy r) = au_email (ar_acceptedBy s)" by (rule content_str [OF p, where k = "''email''"]) simp_all
  qed simp
qed

end
