(* ===== verification/Payout.thy ===== *)
theory Payout
  imports Reconciliation Sealed
begin

text \<open>
  The CSV artifacts and the tie-out of \<open>packages/attribution/src/reconciliation.ts\<close>, with what
  makes them trustworthy: a signed export verifies and pins its content, the CSV reads back cell
  by cell, and the tie-out compares the totals of the two sides key by key.
\<close>

subsection \<open>The CSV artifacts\<close>

definition reconciliation_header :: "string list" where
  "reconciliation_header =
     [''invoice_id'', ''customer_id'', ''arm'', ''stratum'', ''decline_code'', ''outcome'',
      ''invoice_amount_minor'', ''recovered_amount_minor'', ''currency'',
      ''processor_txn_id'', ''settled_at'', ''reversal_type'', ''reversal_amount_minor'', ''reversal_at'']"

definition outcome_cells :: "SettledOutcome \<Rightarrow> string list" where
  "outcome_cells ob =
     [so_invoiceId ob, so_customerId ob, arm_value (so_arm ob), so_stratum ob, coalesce (so_declineCode ob) [],
      outcome_value (so_outcome ob), show_int (so_invoiceAmount ob), show_int (so_recoveredAmount ob), so_currency ob,
      coalesce (so_processorTxnId ob) [], coalesce (so_settledAt ob) [],
      coalesce (map_option reversal_value (so_reversalType ob)) ''none'',
      show_int (coalesce (so_reversalAmount ob) 0), coalesce (so_reversalAt ob) []]"

definition reconciliationCsv :: "'a ReconciliationCore_scheme \<Rightarrow> string" where
  "reconciliationCsv doc =
     csvLines (map Some reconciliation_header # map (\<lambda>ob. map Some (outcome_cells ob)) (rc_recoveredTransactions doc))"

definition worksheet_lines :: "NumberFormat \<Rightarrow> ReconciliationExport \<Rightarrow> (string \<times> string) list" where
  "worksheet_lines nf doc =
     (let f = rc_fee doc in
      [(''metric'', ''value''),
       (''fee_rate'', nf_text nf (fw_feeRate f)),
       (''delta_per_invoice_minor'', nf_text nf (fw_deltaPer f)),
       (''cluster_robust_se_minor'', nf_text nf (fw_se f)),
       (''msprt_half_width_minor'', nf_text nf (fw_halfWidth f)),
       (''lower_bound_per_invoice_minor'', nf_text nf (fw_lowerPer f)),
       (''treated_invoices'', show_int (fw_treatedInvoices f)),
       (''lower_bound_cumulative_minor'', show_int (fw_lowerDollarsCum f)),
       (''prior_billed_minor'', show_int (fw_priorBilledDollars f)),
       (''billable_increment_minor'', show_int (fw_billableIncrement f)),
       (''fee_minor'', show_int (fw_fee f)),
       (''billable'', if fw_billable f then ''true'' else ''false''),
       (''gate_reasons'', join ''; '' (map (gateText nf) (fw_gateReasons f))),
       (''cuped_variance_reduction'', nf_text nf (fw_cupedVarianceReduction f)),
       (''effective_n'', nf_text nf (fw_effectiveN f)),
       (''statement_hash'', rx_statementHash doc),
       (''signing_key_id'', coalesce (rx_signingKeyId doc) []),
       (''signature'', coalesce (rx_signature doc) [])])"

definition feeWorksheetCsv :: "NumberFormat \<Rightarrow> ReconciliationExport \<Rightarrow> string" where
  "feeWorksheetCsv nf doc = csvLines (map (\<lambda>(k, v). [Some k, Some v]) (worksheet_lines nf doc))"

subsection \<open>The tie-out\<close>

record PayoutRow =
  po_key :: string
  po_settledAmount :: int

record ReconLine =
  rl_key :: string
  rl_invoiceId :: string
  rl_ours :: int
  rl_theirs :: "int option"
  rl_delta :: int
  rl_match :: bool

record ReconResult =
  rr_lines :: "ReconLine list"
  rr_oursTotal :: int
  rr_theirsTotal :: int
  rr_matched :: int
  rr_mismatched :: int
  rr_missingInPayout :: int
  rr_extraInPayout :: int
  rr_tiesOut :: bool

definition claim_key :: "SettledOutcome \<Rightarrow> string" where
  "claim_key ob = coalesce (so_processorTxnId ob) (so_invoiceId ob)"

definition payout_by_key :: "PayoutRow list \<Rightarrow> (string \<times> int) list" where
  "payout_by_key payout = collect po_key (\<lambda>p a. a + po_settledAmount p) 0 payout"

definition claimed_rows :: "SettledOutcome list \<Rightarrow> SettledOutcome list" where
  "claimed_rows recovered = filter (\<lambda>ob. so_outcome ob = OutRecovered \<and> 0 < so_recoveredAmount ob) recovered"

record KeyClaim =
  kc_ours :: int
  kc_invoiceIds :: "string list"

definition ours_by_key :: "SettledOutcome list \<Rightarrow> (string \<times> KeyClaim) list" where
  "ours_by_key claimed =
     collect claim_key (\<lambda>ob agg. agg\<lparr>kc_ours := kc_ours agg + so_recoveredAmount ob,
                                   kc_invoiceIds := kc_invoiceIds agg @ [so_invoiceId ob]\<rparr>)
       \<lparr>kc_ours = 0, kc_invoiceIds = []\<rparr> claimed"

definition recon_line :: "int \<Rightarrow> (string \<times> int) list \<Rightarrow> string \<times> KeyClaim \<Rightarrow> ReconLine" where
  "recon_line tolerance payoutByKey entry =
     (case entry of (key, agg) \<Rightarrow>
        let theirs = map_of payoutByKey key;
            delta = kc_ours agg - coalesce theirs 0
        in \<lparr>rl_key = key, rl_invoiceId = join '','' (kc_invoiceIds agg), rl_ours = kc_ours agg, rl_theirs = theirs,
            rl_delta = delta, rl_match = (theirs \<noteq> None \<and> \<bar>delta\<bar> \<le> tolerance)\<rparr>)"

text \<open>One turn of the loop: the counters, the totals and the line.\<close>

definition recon_step :: "ReconResult \<Rightarrow> ReconLine \<Rightarrow> ReconResult" where
  "recon_step r l =
     (let r1 = (if rl_theirs l = None then r\<lparr>rr_missingInPayout := rr_missingInPayout r + 1\<rparr>
                else if rl_match l then r\<lparr>rr_matched := rr_matched r + 1\<rparr>
                else r\<lparr>rr_mismatched := rr_mismatched r + 1\<rparr>)
      in r1\<lparr>rr_oursTotal := rr_oursTotal r1 + rl_ours l,
            rr_theirsTotal := (case rl_theirs l of None \<Rightarrow> rr_theirsTotal r1 | Some t \<Rightarrow> rr_theirsTotal r1 + t),
            rr_lines := rr_lines r1 @ [l]\<rparr>)"

definition reconcileAgainstPayout :: "SettledOutcome list \<Rightarrow> PayoutRow list \<Rightarrow> int option \<Rightarrow> ReconResult" where
  "reconcileAgainstPayout recovered payout toleranceMinor =
     (let tolerance = coalesce toleranceMinor 0;
          payoutByKey = payout_by_key payout;
          oursByKey = ours_by_key (claimed_rows recovered);
          r = foldl recon_step
            \<lparr>rr_lines = [], rr_oursTotal = 0, rr_theirsTotal = 0, rr_matched = 0, rr_mismatched = 0,
             rr_missingInPayout = 0, rr_extraInPayout = 0, rr_tiesOut = False\<rparr>
            (map (recon_line tolerance payoutByKey) oursByKey);
          extraInPayout = int (length (filter (\<lambda>k. map_of oursByKey k = None) (map fst payoutByKey)))
      in r\<lparr>rr_extraInPayout := extraInPayout,
           rr_tiesOut := (rr_mismatched r = 0 \<and> rr_missingInPayout r = 0
             \<and> \<bar>rr_oursTotal r - rr_theirsTotal r\<bar> \<le> tolerance)\<rparr>)"

definition minorToDecimal :: "int \<Rightarrow> string" where
  "minorToDecimal minor =
     (let a = \<bar>minor\<bar>; cents = a mod 100 in
      (if minor < 0 then ''-'' else []) @ show_int (a div 100) @ ''.'' @ show_int (cents div 10) @ show_int (cents mod 10))"

subsection \<open>A signed export verifies\<close>

lemma core_json_extend [simp]: "core_json nf (ReconciliationCore.extend c m) = core_json nf c"
  by (simp add: core_json_def ReconciliationCore.defs)

lemma statement_hash_extend [simp]: "statement_hash H nf (ReconciliationCore.extend c m) = statement_hash H nf c"
  by (simp add: statement_hash_def)

lemma built_export_verifies:
  assumes b: "buildReconciliationExport H nf now ps = Inr doc" and s: "xp_signer ps = Some signer"
    and sound: "\<And>m. edVerify pub m (sg_sign signer m) = Inr True" and ne: "\<And>m. sg_sign signer m \<noteq> []"
  shows "verifyReconciliationSignature H nf edVerify doc pub = \<lparr>hashMatches = True, signatureValid = True\<rparr>"
proof -
  obtain core where "export_core H now ps = Inr core"
    and "doc = ReconciliationCore.extend core (ReconciliationExport.fields (statement_hash H nf core)
      (Some (sg_sign signer (statement_hash H nf core))) (Some (sg_keyId signer)))"
    using b s by (auto simp: buildReconciliationExport_def Let_def split: sum.splits)
  moreover from this(2) have "rx_statementHash doc = statement_hash H nf core"
    "rx_signature doc = Some (sg_sign signer (statement_hash H nf core))"
    by (simp_all add: ReconciliationCore.defs ReconciliationExport.defs)
  ultimately show ?thesis
    using sound ne by (simp add: verifyReconciliationSignature_def Let_def)
qed

text \<open>An unsigned export never passes the signature check, nor does one whose hash does not match.\<close>

lemma signature_needs_hash:
  "signatureValid (verifyReconciliationSignature H nf edVerify doc pub) \<Longrightarrow>
     hashMatches (verifyReconciliationSignature H nf edVerify doc pub)"
  by (simp add: verifyReconciliationSignature_def Let_def split: option.splits)

subsection \<open>The digest pins the statement\<close>

lemma wf_core_json:
  assumes "numeral_format nf"
  shows "wf_value (core_json nf c)"
proof -
  have "wf_value (outcome_json ob)" for ob
    by (auto simp: outcome_json_def split: option.splits)
  moreover have "wf_value (worksheet_json nf f)" for f
    using wf_value_num [OF assms] by (simp add: worksheet_json_def list_all_iff)
  moreover have "wf_value (epoch_json nf e)" for e
    using wf_value_num [OF assms] by (simp add: epoch_json_def)
  ultimately show ?thesis by (simp add: core_json_def armSummary_json_def list_all_iff)
qed

lemma content_outcome_json:
  assumes "content (outcome_json a) = content (outcome_json b)"
  shows "claim_key a = claim_key b" "so_invoiceId a = so_invoiceId b" "so_recoveredAmount a = so_recoveredAmount b"
proof -
  note eq = assms [unfolded outcome_json_def]
  show "so_invoiceId a = so_invoiceId b" by (rule content_str [OF eq, where k = "''invoiceId''"]) simp_all
  moreover show "so_recoveredAmount a = so_recoveredAmount b" by (rule content_int [OF eq, where k = "''recoveredAmount''"]) simp_all
  moreover have "so_processorTxnId a = so_processorTxnId b" by (rule content_jopt [OF eq, where k = "''processorTxnId''"]) simp_all
  ultimately show "claim_key a = claim_key b" by (simp add: claim_key_def)
qed

lemma same_rows:
  "map content (map outcome_json xs) = map content (map outcome_json ys) \<Longrightarrow>
     map (\<lambda>ob. (claim_key ob, so_recoveredAmount ob)) xs = map (\<lambda>ob. (claim_key ob, so_recoveredAmount ob)) ys"
proof (induction xs arbitrary: ys)
  case (Cons x xs)
  then obtain y ys' where "ys = y # ys'" by (cases ys) auto
  with Cons content_outcome_json [of x y] show ?case by simp
qed simp

lemma sealed_export:
  assumes "statement_hash H nf c = statement_hash H nf d"
    and "inj_on H {stable_stringify (core_json nf c), stable_stringify (core_json nf d)}" "numeral_format nf"
  shows "rc_merchantId c = rc_merchantId d" "rc_period c = rc_period d" "rc_ledgerHead c = rc_ledgerHead d"
    "fw_fee (rc_fee c) = fw_fee (rc_fee d)"
    "map (\<lambda>ob. (claim_key ob, so_recoveredAmount ob)) (rc_recoveredTransactions c) =
     map (\<lambda>ob. (claim_key ob, so_recoveredAmount ob)) (rc_recoveredTransactions d)"
proof -
  have "content (core_json nf c) = content (core_json nf d)"
    using assms(1) unfolding statement_hash_def
    by (rule sealed_content [OF _ assms(2)]) (rule wf_core_json [OF assms(3)])+
  note eq = this [unfolded core_json_def]
  show "rc_merchantId c = rc_merchantId d" by (rule content_str [OF eq, where k = "''merchantId''"]) simp_all
  show "rc_period c = rc_period d" by (rule content_str [OF eq, where k = "''period''"]) simp_all
  show "rc_ledgerHead c = rc_ledgerHead d" by (rule content_str [OF eq, where k = "''ledgerHead''"]) simp_all
  have "content (worksheet_json nf (rc_fee c)) = content (worksheet_json nf (rc_fee d))"
    unfolding worksheet_json_def
    by (rule content_object [OF eq, where k = "''fee''"]) (simp_all add: worksheet_json_def)
  note feq = this [unfolded worksheet_json_def]
  show "fw_fee (rc_fee c) = fw_fee (rc_fee d)" by (rule content_int [OF feq, where k = "''fee''"]) simp_all
  have "map content (map outcome_json (rc_recoveredTransactions c)) = map content (map outcome_json (rc_recoveredTransactions d))"
    by (rule content_array [OF eq, where k = "''recoveredTransactions''"]) simp_all
  then show "map (\<lambda>ob. (claim_key ob, so_recoveredAmount ob)) (rc_recoveredTransactions c) =
     map (\<lambda>ob. (claim_key ob, so_recoveredAmount ob)) (rc_recoveredTransactions d)"
    by (rule same_rows)
qed

subsection \<open>The CSV reads back\<close>

lemma reconciliationCsv_reads_back:
  "read_lines (reconciliationCsv doc) =
     Some (map (map neutralise) (reconciliation_header # map outcome_cells (rc_recoveredTransactions doc)))"
proof -
  have "reconciliation_header \<noteq> []" "\<And>ob. outcome_cells ob \<noteq> []"
    by (simp_all add: reconciliation_header_def outcome_cells_def)
  then show ?thesis
    unfolding reconciliationCsv_def by (subst read_lines_csvLines) (auto simp: comp_def)
qed

lemma feeWorksheetCsv_reads_back:
  "read_lines (feeWorksheetCsv nf doc) = Some (map (\<lambda>(k, v). [neutralise k, neutralise v]) (worksheet_lines nf doc))"
proof -
  have "worksheet_lines nf doc \<noteq> []" by (simp add: worksheet_lines_def Let_def)
  then show ?thesis
    unfolding feeWorksheetCsv_def by (subst read_lines_csvLines) (auto simp: case_prod_unfold)
qed

subsection \<open>The tie-out is exact\<close>

lemma foldl_recon_step:
  "foldl recon_step r ls =
     r\<lparr>rr_lines := rr_lines r @ ls, rr_oursTotal := rr_oursTotal r + sum_list (map rl_ours ls),
       rr_theirsTotal := rr_theirsTotal r + sum_list (map (\<lambda>l. coalesce (rl_theirs l) 0) ls),
       rr_matched := rr_matched r + int (length (filter (\<lambda>l. rl_theirs l \<noteq> None \<and> rl_match l) ls)),
       rr_mismatched := rr_mismatched r + int (length (filter (\<lambda>l. rl_theirs l \<noteq> None \<and> \<not> rl_match l) ls)),
       rr_missingInPayout := rr_missingInPayout r + int (length (filter (\<lambda>l. rl_theirs l = None) ls))\<rparr>"
  by (induction ls arbitrary: r) (auto simp: recon_step_def Let_def split: option.splits)

lemma foldl_claim:
  "foldl (\<lambda>agg ob. agg\<lparr>kc_ours := kc_ours agg + so_recoveredAmount ob, kc_invoiceIds := kc_invoiceIds agg @ [so_invoiceId ob]\<rparr>) c rows =
     c\<lparr>kc_ours := kc_ours c + sum_list (map so_recoveredAmount rows), kc_invoiceIds := kc_invoiceIds c @ map so_invoiceId rows\<rparr>"
  by (induction rows arbitrary: c) simp_all

lemma ours_by_key_eq:
  "ours_by_key claimed =
     map (\<lambda>k. (k, \<lparr>kc_ours = sum_list (map so_recoveredAmount (with_key claim_key claimed k)),
                   kc_invoiceIds = map so_invoiceId (with_key claim_key claimed k)\<rparr>))
       (first_keys (map claim_key claimed))"
  by (simp add: ours_by_key_def collect_eq foldl_claim)

lemma payout_by_key_of:
  "map_of (payout_by_key payout) k =
     (if k \<in> po_key ` set payout then Some (sum_list (map po_settledAmount (with_key po_key payout k))) else None)"
  by (simp add: payout_by_key_def map_of_collect foldl_add_eq)

text \<open>The two totals per key.\<close>

definition ours_for :: "SettledOutcome list \<Rightarrow> string \<Rightarrow> int" where
  "ours_for recovered k = sum_list (map so_recoveredAmount (with_key claim_key (claimed_rows recovered) k))"

definition theirs_for :: "PayoutRow list \<Rightarrow> string \<Rightarrow> int" where
  "theirs_for payout k = sum_list (map po_settledAmount (with_key po_key payout k))"

definition claimed_keys :: "SettledOutcome list \<Rightarrow> string list" where
  "claimed_keys recovered = first_keys (map claim_key (claimed_rows recovered))"

lemma recon_lines_eq:
  "rr_lines (reconcileAgainstPayout recovered payout tol) =
     map (\<lambda>k. let theirs = (if k \<in> po_key ` set payout then Some (theirs_for payout k) else None);
                  delta = ours_for recovered k - coalesce theirs 0
              in \<lparr>rl_key = k, rl_invoiceId = join '','' (map so_invoiceId (with_key claim_key (claimed_rows recovered) k)),
                  rl_ours = ours_for recovered k, rl_theirs = theirs, rl_delta = delta,
                  rl_match = (theirs \<noteq> None \<and> \<bar>delta\<bar> \<le> coalesce tol 0)\<rparr>) (claimed_keys recovered)"
  by (simp add: reconcileAgainstPayout_def Let_def foldl_recon_step ours_by_key_eq recon_line_def comp_def
      payout_by_key_of ours_for_def theirs_for_def claimed_keys_def)

lemma recon_result_eq:
  fixes recovered payout tol
  defines "r \<equiv> reconcileAgainstPayout recovered payout tol"
  shows "rr_oursTotal r = sum_list (map rl_ours (rr_lines r))"
    "rr_theirsTotal r = sum_list (map (\<lambda>l. coalesce (rl_theirs l) 0) (rr_lines r))"
    "rr_mismatched r = int (length (filter (\<lambda>l. rl_theirs l \<noteq> None \<and> \<not> rl_match l) (rr_lines r)))"
    "rr_missingInPayout r = int (length (filter (\<lambda>l. rl_theirs l = None) (rr_lines r)))"
    "rr_tiesOut r \<longleftrightarrow> rr_mismatched r = 0 \<and> rr_missingInPayout r = 0 \<and> \<bar>rr_oursTotal r - rr_theirsTotal r\<bar> \<le> coalesce tol 0"
  by (simp_all add: r_def reconcileAgainstPayout_def Let_def foldl_recon_step)

lemma ours_total:
  "rr_oursTotal (reconcileAgainstPayout recovered payout tol) = sum_list (map so_recoveredAmount (claimed_rows recovered))"
  unfolding recon_result_eq(1) recon_lines_eq
  by (simp add: Let_def comp_def claimed_keys_def ours_for_def sum_list_groups)

lemma all_lines_match:
  "rr_mismatched (reconcileAgainstPayout recovered payout tol) = 0
     \<and> rr_missingInPayout (reconcileAgainstPayout recovered payout tol) = 0 \<longleftrightarrow>
   (\<forall>k \<in> set (claimed_keys recovered).
      k \<in> po_key ` set payout \<and> \<bar>ours_for recovered k - theirs_for payout k\<bar> \<le> coalesce tol 0)"
  unfolding recon_result_eq(3,4) recon_lines_eq
  by (auto simp: Let_def filter_empty_conv split: if_splits)

lemma exact_tie_out:
  "rr_tiesOut (reconcileAgainstPayout recovered payout None) \<longleftrightarrow>
     (\<forall>k \<in> set (claimed_keys recovered). k \<in> po_key ` set payout \<and> ours_for recovered k = theirs_for payout k)"
proof -
  have "rr_oursTotal r = rr_theirsTotal r"
    if r: "r = reconcileAgainstPayout recovered payout None"
      and "\<forall>k \<in> set (claimed_keys recovered). k \<in> po_key ` set payout \<and> ours_for recovered k = theirs_for payout k" for r
    using that(2) unfolding r recon_result_eq(1,2) recon_lines_eq
    by (auto simp: Let_def comp_def intro!: arg_cong [of _ _ sum_list] map_cong)
  then show ?thesis
    unfolding recon_result_eq(5) using all_lines_match [of recovered payout None] by auto
qed

end
