(* ===== verification/Invoicing.thy ===== *)
theory Invoicing
  imports BillingAccount JsDate Payout
begin

text \<open>
  The invoice of \<open>packages/billing/src/invoice.ts\<close>, its finance charge as of a date, the reminder
  stages and e-mails of \<open>invoice-dunning.ts\<close>, the hold-out credit of \<open>holdout-economics.ts\<close> and
  the sales quote of \<open>icp-quote.ts\<close>. Invoice dates are computed on, so they are \<open>iso\<close> values; the
  identifiers an invoice number is made of are ASCII.
\<close>

subsection \<open>Dates as text\<close>

definition pad2 :: "int \<Rightarrow> string" where
  "pad2 n = (if n < 10 then ''0'' @ show_int n else show_int n)"

definition pad_year :: "int \<Rightarrow> string" where
  "pad_year y =
     (let digits = (\<lambda>w a. replicate (w - length (show_int a)) (CHR ''0'') @ show_int a) in
      if 0 \<le> y \<and> y \<le> 9999 then digits 4 y else (if y < 0 then ''-'' else ''+'') @ digits 6 \<bar>y\<bar>)"

text \<open>The date part of \<open>toISOString()\<close>; \<open>slice(0, 10)\<close> and \<open>slice(0, 7)\<close> are \<open>take\<close> on it.\<close>

definition iso_date_text :: "int \<Rightarrow> string" where
  "iso_date_text ms = pad_year (utc_year ms) @ ''-'' @ pad2 (utc_month ms + 1) @ ''-'' @ pad2 (utc_date ms)"

subsection \<open>Invoices\<close>

definition addDaysIso :: "iso \<Rightarrow> int \<Rightarrow> js_error + iso" where
  "addDaysIso t days = to_iso_string (map_option (\<lambda>ms. ms + days * ms_per_day) t)"

record InvoiceLineItem =
  li_description :: string
  li_upliftMeasuredMinor :: int
  li_feeRate :: real
  li_amountMinor :: int

datatype FeeInvoiceStatus = FiIssued | FiOverdue | FiPaid | FiVoid

record BillTo =
  bt_legalEntityName :: string
  bt_address :: PostalAddress
  bt_apContactEmail :: string

record FeeInvoice =
  fi_invoiceNumber :: string
  fi_accountId :: ident
  fi_merchantId :: ident
  fi_period :: string
  fi_issuedAt :: iso
  fi_dueAt :: iso
  fi_currency :: currency
  fi_lineItems :: "InvoiceLineItem list"
  fi_subtotalMinor :: int
  fi_financeChargeMinor :: int
  fi_totalDueMinor :: int
  fi_poNumber :: "string option"
  fi_remitTo :: string
  fi_estimatedHoldoutCostMinor :: "int option"
  fi_billTo :: BillTo
  fi_statementHash :: string
  fi_feeScheduleSnapshot :: FeeSchedule
  fi_status :: FeeInvoiceStatus

record StatementForInvoice =
  st_merchantId :: ident
  st_period :: string
  st_currency :: currency
  st_feeMinor :: int
  st_upliftLowerMinor :: int
  st_statementHash :: string
  st_billable :: bool
  st_grossFeeMinor :: "int option"
  st_holdoutCreditMinor :: "int option"
  st_estimatedHoldoutCostMinor :: "int option"

definition upper_char :: "char \<Rightarrow> char" where
  "upper_char c = (if 97 \<le> code_of c \<and> code_of c \<le> 122 then char_of (code_of c - 32) else c)"

definition invoice_char :: "char \<Rightarrow> bool" where
  "invoice_char c \<longleftrightarrow> (65 \<le> code_of c \<and> code_of c \<le> 90) \<or> is_digit c \<or> c = CHR ''-''"

definition invoiceNumberFor :: "ident \<Rightarrow> string \<Rightarrow> string" where
  "invoiceNumberFor merchantId period =
     map (\<lambda>c. if invoice_char c then c else CHR ''-'') (map upper_char (''AX-'' @ merchantId @ ''-'' @ period))"

definition fee_line :: "FeeSchedule \<Rightarrow> StatementForInvoice \<Rightarrow> InvoiceLineItem" where
  "fee_line fs st =
     \<lparr>li_description = ''AX10M recovery uplift fee '' @ emdash @ '' '' @ st_period st @ '' (''
        @ show_int (js_round (fs_feeRate fs * 100)) @ ''% of proven incremental recovery)'',
      li_upliftMeasuredMinor = st_upliftLowerMinor st, li_feeRate = fs_feeRate fs,
      li_amountMinor = coalesce (st_grossFeeMinor st) (st_feeMinor st)\<rparr>"

definition credit_line :: "StatementForInvoice \<Rightarrow> int \<Rightarrow> InvoiceLineItem" where
  "credit_line st credit =
     \<lparr>li_description = ''Holdout credit '' @ emdash
        @ '' recovery forgone on your held-out control group this period (est.)'',
      li_upliftMeasuredMinor = coalesce (st_estimatedHoldoutCostMinor st) credit, li_feeRate = 0,
      li_amountMinor = - credit\<rparr>"

definition buildInvoice :: "BillingAccount \<Rightarrow> StatementForInvoice \<Rightarrow> iso \<Rightarrow> string \<Rightarrow> js_error + FeeInvoice" where
  "buildInvoice account st issuedAt remitTo =
     (let fs = ba_feeSchedule account;
          credit = coalesce (st_holdoutCreditMinor st) 0;
          lineItems = fee_line fs st # (if 0 < credit then [credit_line st credit] else []);
          subtotal = st_feeMinor st
      in case addDaysIso issuedAt (fs_paymentTermsDays fs) of
           Inl e \<Rightarrow> Inl e
         | Inr dueAt \<Rightarrow>
             Inr \<lparr>fi_invoiceNumber = invoiceNumberFor (st_merchantId st) (st_period st),
                  fi_accountId = ba_accountId account, fi_merchantId = ba_merchantId account, fi_period = st_period st,
                  fi_issuedAt = issuedAt, fi_dueAt = dueAt, fi_currency = st_currency st, fi_lineItems = lineItems,
                  fi_subtotalMinor = subtotal, fi_financeChargeMinor = 0, fi_totalDueMinor = subtotal,
                  fi_poNumber = ba_poNumber account, fi_remitTo = remitTo,
                  fi_estimatedHoldoutCostMinor = st_estimatedHoldoutCostMinor st,
                  fi_billTo = \<lparr>bt_legalEntityName = ba_legalEntityName account,
                    bt_address = ba_billingAddress account, bt_apContactEmail = ba_apContactEmail account\<rparr>,
                  fi_statementHash = st_statementHash st, fi_feeScheduleSnapshot = fs, fi_status = FiIssued\<rparr>)"

definition computeFinanceChargeMinor :: "FeeInvoice \<Rightarrow> iso \<Rightarrow> int" where
  "computeFinanceChargeMinor invoice asOf_iso =
     (case (fi_dueAt invoice, asOf_iso) of
        (Some due, Some asOf) \<Rightarrow>
          (if asOf \<le> due then 0
           else
             (let daysOverdue = of_int (asOf - due) / of_int ms_per_day :: real;
                  monthsOverdue = daysOverdue / 30;
                  rate = fs_lateFinanceChargeMonthlyRate (fi_feeScheduleSnapshot invoice)
              in max 0 (js_round (of_int (fi_subtotalMinor invoice) * rate * monthsOverdue))))
      | _ \<Rightarrow> 0)"

text \<open>A comparison with \<open>NaN\<close> is false.\<close>

definition past_due :: "iso \<Rightarrow> FeeInvoice \<Rightarrow> bool" where
  "past_due asOf_iso invoice =
     (case (asOf_iso, fi_dueAt invoice) of (Some a, Some d) \<Rightarrow> d < a | _ \<Rightarrow> False)"

definition invoiceAsOf :: "FeeInvoice \<Rightarrow> iso \<Rightarrow> FeeInvoice" where
  "invoiceAsOf invoice asOf_iso =
     (let charge = computeFinanceChargeMinor invoice asOf_iso;
          status = (if fi_status invoice = FiPaid \<or> fi_status invoice = FiVoid then fi_status invoice
                    else if past_due asOf_iso invoice then FiOverdue else fi_status invoice)
      in invoice\<lparr>fi_financeChargeMinor := charge, fi_totalDueMinor := fi_subtotalMinor invoice + charge,
                 fi_status := status\<rparr>)"

subsection \<open>Reminder stages\<close>

datatype InvoiceDunningStage = StIssued | StDueSoon | StDueToday | StOverdue1 | StOverdue2 | StFinalNotice

fun stage_value :: "InvoiceDunningStage \<Rightarrow> string" where
  "stage_value StIssued = ''issued''"
| "stage_value StDueSoon = ''due_soon''"
| "stage_value StDueToday = ''due_today''"
| "stage_value StOverdue1 = ''overdue_1''"
| "stage_value StOverdue2 = ''overdue_2''"
| "stage_value StFinalNotice = ''final_notice''"

definition STAGE_THRESHOLDS :: "(InvoiceDunningStage \<times> int) list" where
  "STAGE_THRESHOLDS = [(StFinalNotice, 21), (StOverdue2, 10), (StOverdue1, 3), (StDueToday, 0), (StDueSoon, - 3)]"

definition invoiceDunningStage :: "FeeInvoice \<Rightarrow> iso \<Rightarrow> InvoiceDunningStage option" where
  "invoiceDunningStage invoice asOf_iso =
     (if fi_status invoice = FiPaid \<or> fi_status invoice = FiVoid then None
      else
        (case (asOf_iso, fi_dueAt invoice, fi_issuedAt invoice) of
           (Some asOf, Some due, Some issued) \<Rightarrow>
             (if asOf < issued then None
              else
                (case List.find (\<lambda>(stage, daysFromDue). due + daysFromDue * ms_per_day \<le> asOf) STAGE_THRESHOLDS of
                   Some (stage, _) \<Rightarrow> Some stage
                 | None \<Rightarrow> Some StIssued))
         | _ \<Rightarrow> None))"

record InvoiceEmail =
  ie_subject :: string
  ie_body :: string

definition dollars :: "currency \<Rightarrow> int \<Rightarrow> string" where
  "dollars cur minor = cur @ '' '' @ minorToDecimal minor"

definition invoice_detail :: "FeeInvoice \<Rightarrow> string" where
  "invoice_detail invoice =
     (let total_text = dollars (fi_currency invoice) (fi_totalDueMinor invoice);
          due = (case fi_dueAt invoice of Some d \<Rightarrow> take 10 (iso_date_text d) | None \<Rightarrow> []);
          poLine = (case fi_poNumber invoice of
                      Some po \<Rightarrow> if po = [] then [] else newline @ ''PO number: '' @ po
                    | None \<Rightarrow> []);
          financeLine = (if 0 < fi_financeChargeMinor invoice
            then newline @ ''Late finance charge included: ''
              @ dollars (fi_currency invoice) (fi_financeChargeMinor invoice) @ '' (1.5%/mo on the overdue balance)''
            else [])
      in join newline
        [[],
         ''Bill to:      '' @ bt_legalEntityName (fi_billTo invoice),
         ''Invoice:      '' @ fi_invoiceNumber invoice,
         ''Period:       '' @ fi_period invoice,
         ''Amount due:   '' @ total_text @ financeLine,
         ''Due date:     '' @ due @ '' (net-'' @ show_int (fs_paymentTermsDays (fi_feeScheduleSnapshot invoice)) @ '')'' @ poLine,
         ''Remit to:     '' @ fi_remitTo invoice,
         [],
         ''This fee is '' @ show_int (js_round (fs_feeRate (fi_feeScheduleSnapshot invoice) * 100))
           @ ''% of the incremental recovery AX10M proved this period against your own'',
         ''randomized holdout, backed by signed Uplift Statement '' @ fi_statementHash invoice @ '' '' @ emdash,
         ''verifiable against your processor'' @ [apostrophe] @ ''s payout reports.''])"

definition renderInvoiceEmail :: "FeeInvoice \<Rightarrow> InvoiceDunningStage \<Rightarrow> InvoiceEmail" where
  "renderInvoiceEmail invoice stage =
     (let n = fi_invoiceNumber invoice; p = fi_period invoice;
          total_text = dollars (fi_currency invoice) (fi_totalDueMinor invoice);
          due = (case fi_dueAt invoice of Some d \<Rightarrow> take 10 (iso_date_text d) | None \<Rightarrow> []);
          compose = (\<lambda>subject intro. \<lparr>ie_subject = subject, ie_body = intro @ newline @ invoice_detail invoice\<rparr>)
      in case stage of
           StIssued \<Rightarrow>
             compose (''AX10M invoice '' @ n @ '' '' @ emdash @ '' '' @ total_text @ '' due '' @ due)
               (''Your AX10M recovery-uplift invoice for '' @ p @ '' is ready.'')
         | StDueSoon \<Rightarrow>
             compose (''Reminder: AX10M invoice '' @ n @ '' due '' @ due)
               (''A reminder that your AX10M invoice for '' @ p @ '' is due soon.'')
         | StDueToday \<Rightarrow>
             compose (''AX10M invoice '' @ n @ '' is due today'') (''Your AX10M invoice for '' @ p @ '' is due today.'')
         | StFinalNotice \<Rightarrow>
             compose (''Final notice: AX10M invoice '' @ n)
               (''This is a final notice: your AX10M invoice for '' @ p @ '' remains unpaid and is significantly past due.''
                 @ '' Please remit payment or contact us to resolve.'')
         | _ \<Rightarrow>
             compose (''Past due: AX10M invoice '' @ n)
               (''Your AX10M invoice for '' @ p @ '' is past due. A finance charge of 1.5%/month is now accruing''
                 @ '' on the overdue balance.''))"

subsection \<open>Hold-out economics\<close>

record HoldoutScheduleConfig =
  hs_certificationDays :: int
  hs_certificationFraction :: real
  hs_auditFraction :: real

definition DEFAULT_HOLDOUT_SCHEDULE :: HoldoutScheduleConfig where
  "DEFAULT_HOLDOUT_SCHEDULE =
     \<lparr>hs_certificationDays = 90, hs_certificationFraction = 0.1, hs_auditFraction = 0.02\<rparr>"

definition holdoutFractionFor :: "iso \<Rightarrow> iso \<Rightarrow> HoldoutScheduleConfig \<Rightarrow> real" where
  "holdoutFractionFor onboardedAt asOf_iso cfg =
     (case (onboardedAt, asOf_iso) of
        (Some onb, Some asOf) \<Rightarrow>
          (if of_int (asOf - onb) / of_int ms_per_day < (of_int (hs_certificationDays cfg) :: real)
           then hs_certificationFraction cfg else hs_auditFraction cfg)
      | _ \<Rightarrow> hs_certificationFraction cfg)"

record HoldoutEconomics =
  he_holdoutFraction :: real
  he_estimatedHoldoutCostMinor :: int
  he_grossFeeMinor :: int
  he_holdoutCreditMinor :: int
  he_netBilledMinor :: int

definition computeHoldoutEconomics :: "int \<Rightarrow> real \<Rightarrow> int \<Rightarrow> real \<Rightarrow> HoldoutEconomics" where
  "computeHoldoutEconomics grossFeeMinor perInvoiceLiftMinor treatedInvoices holdoutFraction =
     (let h = max 0 (min 0.99 holdoutFraction);
          heldOutInvoices = (if 0 < h then of_int treatedInvoices * (h / (1 - h)) else 0);
          cost = max 0 (js_round (max 0 perInvoiceLiftMinor * heldOutInvoices));
          credit = min (max 0 grossFeeMinor) cost
      in \<lparr>he_holdoutFraction = h, he_estimatedHoldoutCostMinor = cost, he_grossFeeMinor = grossFeeMinor,
          he_holdoutCreditMinor = credit, he_netBilledMinor = max 0 (grossFeeMinor - credit)\<rparr>)"

subsection \<open>The sales quote\<close>

record IcpQuoteInput =
  iq_monthlyFailedPayments :: real
  iq_avgInvoiceAmountMinor :: real
  iq_baselineRecoveryRate :: real
  iq_upliftRatePoints :: real
  iq_controlFraction :: "real option"
  iq_feeRate :: "real option"
  iq_certificationDays :: "real option"

record IcpQuote =
  qt_clearsIcpFloor :: bool
  qt_minMonthlyFailedPayments :: js_number
  qt_estimatedDaysToProvenLift :: "int option"
  qt_expectedMonthlyLiftMinor :: int
  qt_estimatedProvenMonthlyFeeMinor :: int
  qt_treatmentRate :: real
  qt_perInvoiceLiftMinor :: real

definition MIXTURE_BOUNDARY_Z :: real where
  "MIXTURE_BOUNDARY_Z = 2.5"

text \<open>
  \<open>nNeeded\<close> stays infinite unless the effect, the spread and the treated volume are positive. The
  divisor of the minimal volume is positive for a control fraction below 1.
\<close>

definition icpQuote :: "IcpQuoteInput \<Rightarrow> IcpQuote" where
  "icpQuote input =
     (let controlFraction = coalesce (iq_controlFraction input) 0.1;
          feeRate = coalesce (iq_feeRate input) 0.12;
          certificationDays = coalesce (iq_certificationDays input) 90;
          treatmentRate = min 0.999 (max 0 (iq_baselineRecoveryRate input) + max 0 (iq_upliftRatePoints input));
          perInvoiceLiftMinor = max 0 (iq_upliftRatePoints input) * iq_avgInvoiceAmountMinor input;
          sigma = iq_avgInvoiceAmountMinor input * sqrt (max 0 (treatmentRate * (1 - treatmentRate)));
          delta = perInvoiceLiftMinor;
          treatedPerMonth = max 0 (iq_monthlyFailedPayments input) * (1 - controlFraction);
          provable = (0 < delta \<and> 0 < sigma \<and> 0 < treatedPerMonth);
          nNeeded = (MIXTURE_BOUNDARY_Z * sigma / delta)\<^sup>2;
          days = (if provable then Some \<lceil>nNeeded / treatedPerMonth * 30\<rceil> else None);
          minMonthly = (if provable then Num (of_int \<lceil>nNeeded / ((1 - controlFraction) * (certificationDays / 30))\<rceil>)
                        else Infinite);
          lift = js_round (perInvoiceLiftMinor * treatedPerMonth)
      in \<lparr>qt_clearsIcpFloor = (case days of None \<Rightarrow> False | Some d \<Rightarrow> of_int d \<le> certificationDays),
          qt_minMonthlyFailedPayments = minMonthly, qt_estimatedDaysToProvenLift = days,
          qt_expectedMonthlyLiftMinor = lift, qt_estimatedProvenMonthlyFeeMinor = js_round (feeRate * of_int lift),
          qt_treatmentRate = treatmentRate, qt_perInvoiceLiftMinor = perInvoiceLiftMinor\<rparr>)"

end
