(* ===== verification/InvoiceLaws.thy ===== *)
theory InvoiceLaws
  imports Invoicing
begin

text \<open>
  What the invoicing operations guarantee: the finance charge grows with time and never
  compounds, the reminders only advance, the lines of an invoice add up, and the hold-out
  credit makes the merchant's total cost the larger of the fee and the recovery forgone.
\<close>

subsection \<open>The finance charge\<close>

definition charge_terms_ok :: "FeeInvoice \<Rightarrow> bool" where
  "charge_terms_ok i \<longleftrightarrow> 0 \<le> fi_subtotalMinor i \<and> 0 \<le> fs_lateFinanceChargeMonthlyRate (fi_feeScheduleSnapshot i)"

lemma finance_charge_nonneg: "0 \<le> computeFinanceChargeMinor i t"
  by (simp add: computeFinanceChargeMinor_def Let_def split: option.splits)

lemma finance_charge_before_due:
  "fi_dueAt i = Some d \<Longrightarrow> t \<le> d \<Longrightarrow> computeFinanceChargeMinor i (Some t) = 0"
  by (simp add: computeFinanceChargeMinor_def)

lemma finance_charge_mono:
  assumes "charge_terms_ok i" "s \<le> t"
  shows "computeFinanceChargeMinor i (Some s) \<le> computeFinanceChargeMinor i (Some t)"
proof (cases "fi_dueAt i")
  case (Some d)
  let ?c = "\<lambda>u. of_int (fi_subtotalMinor i) * fs_lateFinanceChargeMonthlyRate (fi_feeScheduleSnapshot i)
    * (of_int (u - d) / of_int ms_per_day / 30) :: real"
  have "?c s \<le> ?c t"
    using assms by (intro mult_left_mono divide_right_mono) (simp_all add: charge_terms_ok_def)
  from js_round_mono [OF this] show ?thesis
    using assms(2) finance_charge_nonneg [of i "Some t"]
    by (auto simp: computeFinanceChargeMinor_def Some Let_def)
qed (simp add: computeFinanceChargeMinor_def)

lemma finance_charge_aged [simp]:
  "computeFinanceChargeMinor (i\<lparr>fi_financeChargeMinor := a, fi_totalDueMinor := b, fi_status := c\<rparr>) t =
     computeFinanceChargeMinor i t"
  by (cases "fi_dueAt i"; cases t) (simp_all add: computeFinanceChargeMinor_def)

lemma past_due_aged [simp]:
  "past_due t (i\<lparr>fi_financeChargeMinor := a, fi_totalDueMinor := b, fi_status := c\<rparr>) = past_due t i"
  by (simp add: past_due_def)

lemma invoiceAsOf_fields [simp]:
  "fi_dueAt (invoiceAsOf i t) = fi_dueAt i" "fi_issuedAt (invoiceAsOf i t) = fi_issuedAt i"
  "fi_subtotalMinor (invoiceAsOf i t) = fi_subtotalMinor i"
  "fi_feeScheduleSnapshot (invoiceAsOf i t) = fi_feeScheduleSnapshot i"
  "fi_billTo (invoiceAsOf i t) = fi_billTo i" "fi_invoiceNumber (invoiceAsOf i t) = fi_invoiceNumber i"
  "fi_financeChargeMinor (invoiceAsOf i t) = computeFinanceChargeMinor i t"
  "fi_totalDueMinor (invoiceAsOf i t) = fi_subtotalMinor i + computeFinanceChargeMinor i t"
  by (simp_all add: invoiceAsOf_def Let_def)

lemma invoiceAsOf_status:
  "fi_status (invoiceAsOf i t) =
     (if fi_status i = FiPaid \<or> fi_status i = FiVoid then fi_status i
      else if past_due t i then FiOverdue else fi_status i)"
  by (simp add: invoiceAsOf_def Let_def)

text \<open>Ageing an aged invoice again is ageing the original: the charge is simple, not compounded.\<close>

lemma past_due_mono: "past_due (Some s) i \<Longrightarrow> s \<le> t \<Longrightarrow> past_due (Some t) i"
  by (simp add: past_due_def split: option.splits)

lemma invoiceAsOf_compose:
  assumes "s \<le> t"
  shows "invoiceAsOf (invoiceAsOf i (Some s)) (Some t) = invoiceAsOf i (Some t)"
  using past_due_mono [of s i t] assms by (auto simp: invoiceAsOf_def Let_def)

subsection \<open>Reminder stages\<close>

fun stage_rank :: "InvoiceDunningStage \<Rightarrow> nat" where
  "stage_rank StIssued = 0"
| "stage_rank StDueSoon = 1"
| "stage_rank StDueToday = 2"
| "stage_rank StOverdue1 = 3"
| "stage_rank StOverdue2 = 4"
| "stage_rank StFinalNotice = 5"

lemma stage_cases:
  assumes "fi_dueAt i = Some due" "fi_issuedAt i = Some issued" "fi_status i \<notin> {FiPaid, FiVoid}"
  shows "invoiceDunningStage i (Some t) =
    (if t < issued then None
     else Some (if due + 21 * ms_per_day \<le> t then StFinalNotice else if due + 10 * ms_per_day \<le> t then StOverdue2
       else if due + 3 * ms_per_day \<le> t then StOverdue1 else if due \<le> t then StDueToday
       else if due - 3 * ms_per_day \<le> t then StDueSoon else StIssued))"
  using assms by (auto simp: invoiceDunningStage_def STAGE_THRESHOLDS_def)

lemma stage_advances:
  assumes "invoiceDunningStage i (Some s) = Some a" "s \<le> t"
  shows "\<exists>b. invoiceDunningStage i (Some t) = Some b \<and> stage_rank a \<le> stage_rank b"
proof -
  obtain due issued where "fi_dueAt i = Some due" "fi_issuedAt i = Some issued" "fi_status i \<notin> {FiPaid, FiVoid}"
    using assms(1) by (auto simp: invoiceDunningStage_def split: option.splits if_splits)
  from stage_cases [OF this] assms show ?thesis by (auto split: if_splits)
qed

subsection \<open>The invoice adds up\<close>

lemma buildInvoice_Inr:
  assumes "buildInvoice account st t remitTo = Inr i"
  shows "fi_subtotalMinor i = st_feeMinor st" "fi_totalDueMinor i = st_feeMinor st" "fi_status i = FiIssued"
    "fi_statementHash i = st_statementHash st" "fi_financeChargeMinor i = 0"
    "\<exists>ms. t = Some ms \<and> fi_issuedAt i = Some ms
       \<and> fi_dueAt i = Some (ms + fs_paymentTermsDays (ba_feeSchedule account) * ms_per_day)"
    "fi_lineItems i = fee_line (ba_feeSchedule account) st #
       (if 0 < coalesce (st_holdoutCreditMinor st) 0 then [credit_line st (coalesce (st_holdoutCreditMinor st) 0)] else [])"
  using assms by (auto simp: buildInvoice_def Let_def addDaysIso_def split: sum.splits)

lemma invoice_lines_sum:
  assumes "buildInvoice account st t remitTo = Inr i"
    and "st_feeMinor st = coalesce (st_grossFeeMinor st) (st_feeMinor st) - coalesce (st_holdoutCreditMinor st) 0"
    and "0 \<le> coalesce (st_holdoutCreditMinor st) 0"
  shows "sum_list (map li_amountMinor (fi_lineItems i)) = fi_subtotalMinor i"
  using assms(2,3) buildInvoice_Inr(1,7) [OF assms(1)] by (auto simp: fee_line_def credit_line_def)

subsection \<open>Hold-out economics\<close>

definition forgone_cost :: "real \<Rightarrow> int \<Rightarrow> real \<Rightarrow> int" where
  "forgone_cost lift n h = max 0 (js_round (max 0 lift * (if 0 < h then of_int n * (h / (1 - h)) else 0)))"

definition clamped_fraction :: "real \<Rightarrow> real" where
  "clamped_fraction f = max 0 (min 0.99 f)"

lemma economics_fields:
  "computeHoldoutEconomics g lift n f =
     \<lparr>he_holdoutFraction = clamped_fraction f,
      he_estimatedHoldoutCostMinor = forgone_cost lift n (clamped_fraction f), he_grossFeeMinor = g,
      he_holdoutCreditMinor = min (max 0 g) (forgone_cost lift n (clamped_fraction f)),
      he_netBilledMinor = max 0 (g - min (max 0 g) (forgone_cost lift n (clamped_fraction f)))\<rparr>"
  unfolding computeHoldoutEconomics_def Let_def forgone_cost_def clamped_fraction_def ..

lemma forgone_cost_nonneg: "0 \<le> forgone_cost lift n h"
  by (simp add: forgone_cost_def del: max_less_iff_conj)

lemma economics_credit:
  fixes g lift n f
  defines "e \<equiv> computeHoldoutEconomics g lift n f"
  shows "0 \<le> he_estimatedHoldoutCostMinor e" "0 \<le> he_netBilledMinor e" "0 \<le> he_holdoutCreditMinor e"
    "0 \<le> g \<Longrightarrow> he_netBilledMinor e = g - he_holdoutCreditMinor e"
    "0 \<le> g \<Longrightarrow> he_netBilledMinor e + he_estimatedHoldoutCostMinor e = max g (he_estimatedHoldoutCostMinor e)"
    "g < 0 \<Longrightarrow> he_netBilledMinor e = 0 \<and> he_holdoutCreditMinor e = 0"
  using forgone_cost_nonneg [of lift n "clamped_fraction f"] unfolding e_def economics_fields HoldoutEconomics.simps
  by linarith+

lemma clamped_range: "0 \<le> clamped_fraction f" "clamped_fraction f \<le> 99/100"
  by (simp_all add: clamped_fraction_def min_le_iff_disj)

lemma clamped_mono: "f \<le> f' \<Longrightarrow> clamped_fraction f \<le> clamped_fraction f'"
  unfolding clamped_fraction_def by linarith

lemma forgone_cost_mono:
  assumes "0 \<le> h" "h \<le> h'" "h' < 1" "0 \<le> n"
  shows "forgone_cost lift n h \<le> forgone_cost lift n h'"
proof -
  have "h / (1 - h) \<le> h' / (1 - h')" using assms by (intro frac_le) simp_all
  then have "of_int n * (h / (1 - h)) \<le> of_int n * (h' / (1 - h'))"
    using assms(4) by (intro mult_left_mono) simp_all
  then have "(if 0 < h then of_int n * (h / (1 - h)) else 0) \<le> (if 0 < h' then of_int n * (h' / (1 - h')) else 0)"
    using assms by (cases "0 < h"; cases "0 < h'") simp_all
  then have "max 0 lift * (if 0 < h then of_int n * (h / (1 - h)) else 0)
      \<le> max 0 lift * (if 0 < h' then of_int n * (h' / (1 - h')) else 0)"
    by (rule mult_left_mono) simp
  from js_round_mono [OF this] show ?thesis unfolding forgone_cost_def by linarith
qed

text \<open>A larger hold-out never increases what is billed.\<close>

lemma economics_antimono:
  assumes "f \<le> f'" "0 \<le> n"
  shows "he_netBilledMinor (computeHoldoutEconomics g lift n f') \<le> he_netBilledMinor (computeHoldoutEconomics g lift n f)"
  using forgone_cost_mono [OF clamped_range(1) clamped_mono [OF assms(1)] _ assms(2), of lift] clamped_range(2) [of f']
  unfolding economics_fields HoldoutEconomics.simps by linarith

lemma holdout_tapers:
  assumes "s \<le> t" "hs_auditFraction cfg \<le> hs_certificationFraction cfg"
  shows "holdoutFractionFor onb (Some t) cfg \<le> holdoutFractionFor onb (Some s) cfg"
proof (cases onb)
  case (Some ob)
  have "of_int (s - ob) / of_int ms_per_day \<le> (of_int (t - ob) / of_int ms_per_day :: real)"
    using assms(1) by (intro divide_right_mono) simp_all
  with assms(2) Some show ?thesis by (auto simp: holdoutFractionFor_def)
qed (simp add: holdoutFractionFor_def)

subsection \<open>Invoice numbers\<close>

text \<open>
  Ids made of the characters an invoice number keeps give different numbers; the upper-casing
  and the replacement identify other ids.
\<close>

definition kept_id :: "string \<Rightarrow> bool" where
  "kept_id s \<longleftrightarrow> list_all invoice_char s"

lemma upper_kept [simp]: "invoice_char c \<Longrightarrow> upper_char c = c"
  by (auto simp: invoice_char_def upper_char_def is_digit_def code_of_def)

lemma invoice_number_kept:
  assumes "kept_id m" "kept_id p"
  shows "invoiceNumberFor m p = ''AX-'' @ m @ ''-'' @ p"
proof -
  have k: "map (\<lambda>c. if invoice_char c then c else CHR ''-'') (map upper_char s) = s" if "kept_id s" for s
    using that by (induction s) (simp_all add: kept_id_def)
  have "kept_id (''AX-'' @ m @ ''-'' @ p)"
    using assms by (simp add: kept_id_def invoice_char_def is_digit_def code_of_def)
  from k [OF this] show ?thesis unfolding invoiceNumberFor_def .
qed

lemma invoice_number_inject:
  assumes "kept_id m" "kept_id p" "kept_id m'" "kept_id p'" "length p = length p'"
    and "invoiceNumberFor m p = invoiceNumberFor m' p'"
  shows "m = m' \<and> p = p'"
proof -
  have "(m @ ''-'') @ p = (m' @ ''-'') @ p'"
    using assms(6) by (simp add: invoice_number_kept assms(1-4))
  then show ?thesis using assms(5) by (metis append_eq_append_conv append_same_eq)
qed

lemma invoice_number_collides: "invoiceNumberFor ''m_1'' p = invoiceNumberFor ''M-1'' p"
proof -
  let ?keep = "\<lambda>c. if invoice_char c then c else CHR ''-''"
  have "map ?keep (map upper_char (''AX-'' @ ''m_1'' @ ''-'')) = map ?keep (map upper_char (''AX-'' @ ''M-1'' @ ''-''))"
    by code_simp
  then show ?thesis unfolding invoiceNumberFor_def map_append append_assoc [symmetric] by (simp only:)
qed

end
