(* ===== verification/BillingRun.thy ===== *)
theory BillingRun
  imports RecoveryLaws InvoiceLaws Statement
begin

text \<open>
  The monthly billing run of \<open>apps/api/src/billing\<close>: the observations read back from the ledger
  (\<open>observations.ts\<close>), the signed statement over the prior-billed watermark (\<open>billing.ts\<close>), the
  run that records a statement per merchant and collects the net fee (\<open>billing-run.ts\<close>), and the
  Stripe charger (\<open>stripe-billing-charger.ts\<close>).

  Arguments: the digest, the number printer, the parser of stored timestamps (\<open>Date.parse\<close>) and
  the text of the wall clock. Amounts in the ledger are integers. \<open>append\<close> and the charger are
  effects on a state of their own.
\<close>

record BillingEnv =
  be_H :: "string \<Rightarrow> string"
  be_nf :: NumberFormat
  be_parse :: "string \<Rightarrow> iso"
  be_clock :: string

subsection \<open>Reading the ledger\<close>

record BillingPeriod =
  bp_label :: string
  bp_startMs :: int
  bp_endMs :: int

definition num :: "json option \<Rightarrow> int" where
  "num v = (case v of Some (JNum t) \<Rightarrow> read_int t | _ \<Rightarrow> 0)"

definition str :: "json option \<Rightarrow> string option" where
  "str v = (case v of Some (JStr s) \<Rightarrow> if s = [] then None else Some s | _ \<Rightarrow> None)"

definition field :: "LedgerEntry \<Rightarrow> string \<Rightarrow> json option" where
  "field e k = map_of (le_detail e) k"

definition previousMonth :: "iso \<Rightarrow> js_error + BillingPeriod" where
  "previousMonth now =
     (case now of
        None \<Rightarrow> Inl (RangeError ''Invalid time value'')
      | Some ms \<Rightarrow>
          (let y = utc_year ms; m = utc_month ms;
               start = date_utc y (m - 1) 1 0;
               end_ms = date_utc y m 1 0
           in case to_iso_string (Some start) of
                Inl e \<Rightarrow> Inl e
              | Inr _ \<Rightarrow> Inr \<lparr>bp_label = take 7 (iso_date_text start), bp_startMs = start, bp_endMs = end_ms\<rparr>))"

definition merchantsInLedger :: "ledger \<Rightarrow> ident list" where
  "merchantsInLedger entries = first_keys (map le_merchantId entries)"

definition net_delta :: "ident \<Rightarrow> LedgerEntry \<Rightarrow> (ident \<times> int) option" where
  "net_delta merchantId e =
     (if le_merchantId e \<noteq> merchantId then None
      else
        (case str (field e ''invoiceId'') of
           None \<Rightarrow> None
         | Some invoiceId \<Rightarrow>
             (case le_type e of
                CaseRecovered \<Rightarrow> Some (invoiceId, num (field e ''amount''))
              | CaseReversed \<Rightarrow> Some (invoiceId, - num (field e ''amount''))
              | CaseReversalReverted \<Rightarrow> Some (invoiceId, num (field e ''amount''))
              | _ \<Rightarrow> None)))"

definition net_recovered :: "ledger \<Rightarrow> ident \<Rightarrow> (ident \<times> int) list" where
  "net_recovered entries merchantId =
     collect fst (\<lambda>d a. a + snd d) 0 (List.map_filter (net_delta merchantId) entries)"

definition observation ::
  "(string \<Rightarrow> iso) \<Rightarrow> (ident \<times> int) list \<Rightarrow> ident \<Rightarrow> BillingPeriod \<Rightarrow> LedgerEntry \<Rightarrow> UpliftObservation option" where
  "observation parse net merchantId period e =
     (if le_type e \<noteq> HoldoutAssigned \<or> le_merchantId e \<noteq> merchantId then None
      else
        (case parse (le_occurredAt e) of
           None \<Rightarrow> None
         | Some t \<Rightarrow>
             (if t < bp_startMs period \<or> bp_endMs period \<le> t then None
              else
                (case (str (field e ''invoiceId''), str (field e ''bucket'')) of
                   (Some invoiceId, Some bucket) \<Rightarrow>
                     (if bucket \<noteq> ''treatment'' \<and> bucket \<noteq> ''control'' then None
                      else
                        (let outcome = coalesce (map_of net invoiceId) 0 in
                         Some \<lparr>uo_arm = (if bucket = ''treatment'' then ArmTreatment else ArmControl),
                               uo_cluster = coalesce (str (field e ''customerId'')) invoiceId,
                               uo_stratum = coalesce (str (field e ''stratumKey'')) ''default'',
                               uo_outcome = of_int outcome, uo_covariate = of_int (num (field e ''amount'')),
                               uo_recovered = (0 < outcome)\<rparr>))
                 | _ \<Rightarrow> None))))"

definition reconstructObservations ::
  "(string \<Rightarrow> iso) \<Rightarrow> ledger \<Rightarrow> ident \<Rightarrow> BillingPeriod \<Rightarrow> UpliftObservation list" where
  "reconstructObservations parse entries merchantId period =
     List.map_filter (observation parse (net_recovered entries merchantId) merchantId period) entries"

text \<open>
  The watermark: the \<open>lowerDollarsCum\<close> of the latest statement of the merchant, the later entry
  winning a tie. \<open>None\<close> for the time is \<open>-Infinity\<close>.
\<close>

definition watermark_step :: "(string \<Rightarrow> iso) \<Rightarrow> ident \<Rightarrow> int option \<times> int \<Rightarrow> LedgerEntry \<Rightarrow> int option \<times> int" where
  "watermark_step parse merchantId acc e =
     (if le_type e \<noteq> UpliftStatementEvent \<or> le_merchantId e \<noteq> merchantId then acc
      else
        (case (parse (le_occurredAt e), field e ''lowerDollarsCum'') of
           (Some t, Some (JNum cum)) \<Rightarrow>
             (if (case fst acc of None \<Rightarrow> True | Some l \<Rightarrow> l \<le> t) then (Some t, read_int cum) else acc)
         | _ \<Rightarrow> acc))"

definition priorBilledFromLedger :: "(string \<Rightarrow> iso) \<Rightarrow> ledger \<Rightarrow> ident \<Rightarrow> int" where
  "priorBilledFromLedger parse entries merchantId = snd (foldl (watermark_step parse merchantId) (None, 0) entries)"

subsection \<open>The signed statement\<close>

definition money_json :: "Money \<Rightarrow> json" where
  "money_json m = JObj [(''amount'', jint (amount m)), (''currency'', JStr (money_currency m))]"

definition js_number_json :: "NumberFormat \<Rightarrow> js_number \<Rightarrow> json" where
  "js_number_json nf x = (case x of Num r \<Rightarrow> JNum (nf_text nf r) | _ \<Rightarrow> JNull)"

definition stratum_json :: "NumberFormat \<Rightarrow> StratumLine \<Rightarrow> json" where
  "stratum_json nf l = JObj
     [(''stratumKey'', JStr (sl_stratumKey l)), (''controlInvoices'', jint (sl_controlInvoices l)),
      (''treatmentInvoices'', jint (sl_treatmentInvoices l)), (''controlRate'', JNum (nf_text nf (sl_controlRate l))),
      (''treatmentRate'', JNum (nf_text nf (sl_treatmentRate l))),
      (''deltaPerStratum'', JNum (nf_text nf (sl_deltaPerStratum l))), (''weight'', JNum (nf_text nf (sl_weight l))),
      (''metFloor'', JBool (sl_metFloor l)), (''pooled'', JBool (sl_pooled l))]"

definition result_json :: "NumberFormat \<Rightarrow> BillableUpliftResult \<Rightarrow> json" where
  "result_json nf r = (let n = (\<lambda>x. JNum (nf_text nf x)) in JObj
     [(''controlRate'', n (br_controlRate r)), (''treatmentRate'', n (br_treatmentRate r)), (''rateDiff'', n (br_rateDiff r)),
      (''cupedTheta'', n (br_cupedTheta r)), (''cupedVarianceReduction'', n (br_cupedVarianceReduction r)),
      (''deltaPer'', n (br_deltaPer r)), (''se'', n (br_se r)), (''effectiveN'', n (br_effectiveN r)),
      (''halfWidth'', n (br_halfWidth r)), (''lowerPer'', n (br_lowerPer r)),
      (''treatedInvoices'', jint (br_treatedInvoices r)), (''controlClusters'', jint (br_controlClusters r)),
      (''lowerDollarsCum'', money_json (br_lowerDollarsCum r)), (''priorBilledDollars'', money_json (br_priorBilledDollars r)),
      (''billableIncrement'', money_json (br_billableIncrement r)), (''fee'', money_json (br_fee r)),
      (''srm'', JObj [(''chiSquare'', js_number_json nf (srm_chiSquare (br_srm r))), (''breached'', JBool (srm_breached (br_srm r)))]),
      (''billable'', JBool (br_billable r)), (''gateReasons'', JArr (map (\<lambda>g. JStr (gateText nf g)) (br_gateReasons r))),
      (''perStratum'', JArr (map (stratum_json nf) (br_perStratum r)))])"

definition bstatement_json :: "NumberFormat \<Rightarrow> 'a BillableStatement_scheme \<Rightarrow> json" where
  "bstatement_json nf s = JObj
     [(''merchantId'', JStr (bs_merchantId s)), (''period'', JStr (bs_period s)), (''currency'', JStr (bs_currency s)),
      (''result'', result_json nf (bs_result s)), (''ledgerHead'', JStr (bs_ledgerHead s)),
      (''ledgerVerified'', JBool (bs_ledgerVerified s)), (''generatedAt'', JStr (bs_generatedAt s))]"

record SignedBillableStatement = BillableStatement +
  ss_statementHash :: string
  ss_signature :: string
  ss_signingKeyId :: string

definition signStatement :: "(string \<Rightarrow> string) \<Rightarrow> NumberFormat \<Rightarrow> BillableStatement \<Rightarrow> Signer \<Rightarrow> SignedBillableStatement" where
  "signStatement H nf st signer =
     (let statementHash = H (stable_stringify (bstatement_json nf st)) in
      BillableStatement.extend st
        (SignedBillableStatement.fields statementHash (sg_sign signer statementHash) (sg_keyId signer)))"

definition statementHashMatches :: "(string \<Rightarrow> string) \<Rightarrow> NumberFormat \<Rightarrow> SignedBillableStatement \<Rightarrow> bool" where
  "statementHashMatches H nf signed \<longleftrightarrow> H (stable_stringify (bstatement_json nf signed)) = ss_statementHash signed"

definition computeMerchantStatement ::
  "BillingEnv \<Rightarrow> ledger \<Rightarrow> ident \<Rightarrow> BillingPeriod \<Rightarrow> ledger \<Rightarrow> string \<Rightarrow> Signer \<Rightarrow> SequentialUpliftConfig option
    \<Rightarrow> js_error + SignedBillableStatement" where
  "computeMerchantStatement env entries merchantId period ledger ledgerHead signer config =
     (case buildBillableStatement (be_H env) (be_clock env) merchantId (bp_label period)
            (reconstructObservations (be_parse env) entries merchantId period)
            (Some (priorBilledFromLedger (be_parse env) entries merchantId)) ledger ledgerHead config of
        Inl e \<Rightarrow> Inl e
      | Inr st \<Rightarrow> Inr (signStatement (be_H env) (be_nf env) st signer))"

subsection \<open>Chargers\<close>

record BillingChargeRequest =
  cq_merchantId :: ident
  cq_period :: string
  cq_amountMinor :: int
  cq_currency :: currency
  cq_statementHash :: string

datatype BillingChargeStatus = FeeCharged | FeeSkipped | FeeFailed

record BillingChargeReceipt =
  ct_status :: BillingChargeStatus
  ct_provider :: string
  ct_reference :: "string option"
  ct_reason :: "string option"

type_synonym 'w charger = "BillingChargeRequest \<Rightarrow> ('w, BillingChargeReceipt) eff"

definition receipt :: "BillingChargeStatus \<Rightarrow> string \<Rightarrow> string option \<Rightarrow> string option \<Rightarrow> BillingChargeReceipt" where
  "receipt status provider reference reason =
     \<lparr>ct_status = status, ct_provider = provider, ct_reference = reference, ct_reason = reason\<rparr>"

definition noop_charge :: "'w charger" where
  "noop_charge req = ok (receipt FeeSkipped ''noop'' None
     (Some (''no billing provider wired '' @ emdash @ '' statement recorded, not charged'')))"

text \<open>
  The Stripe charger. \<open>post\<close> is the client's POST with an idempotency key: its answer is the
  status and id of the payment intent and whether it was a replay; what it throws is turned
  into a reason by \<open>stripe_reason\<close> (the source's three cases of its \<open>catch\<close>).
\<close>

record StripeIntent =
  pi_status :: string
  pi_id :: "string option"
  pi_replay :: bool

definition idempotency_key :: "BillingChargeRequest \<Rightarrow> string" where
  "idempotency_key req = ''ax10m-bill-'' @ cq_merchantId req @ ''-'' @ cq_period req @ ''-'' @ take 24 (cq_statementHash req)"

definition intent_params :: "BillingChargeRequest \<Rightarrow> string \<Rightarrow> string \<Rightarrow> (string \<times> json) list" where
  "intent_params req customer pm =
     [(''amount'', jint (cq_amountMinor req)), (''currency'', JStr (to_lower (cq_currency req))),
      (''customer'', JStr customer), (''payment_method'', JStr pm), (''off_session'', JBool True), (''confirm'', JBool True),
      (''description'', JStr (''AX10M recovery uplift fee '' @ emdash @ '' '' @ cq_period req)),
      (''metadata[merchantId]'', JStr (cq_merchantId req)), (''metadata[period]'', JStr (cq_period req)),
      (''metadata[statementHash]'', JStr (cq_statementHash req))]"

definition stripe_charge ::
  "(ident \<Rightarrow> ('w, BillingAccount option) eff) \<Rightarrow> (string \<Rightarrow> (string \<times> json) list \<Rightarrow> string \<Rightarrow> ('w, StripeIntent) eff)
    \<Rightarrow> (js_error \<Rightarrow> string) \<Rightarrow> 'w charger" where
  "stripe_charge accountFor post stripe_reason req =
     andThen (accountFor (cq_merchantId req)) (\<lambda>found.
       case found of
         None \<Rightarrow> ok (receipt FeeSkipped ''stripe'' None (Some (''no billing account for merchant '' @ cq_merchantId req)))
       | Some account \<Rightarrow>
           if ba_payerTrack account \<noteq> AutoPay then
             ok (receipt FeeSkipped ''stripe'' None
               (Some (''merchant is on the invoice track (not auto-pay) '' @ emdash @ '' invoice it instead'')))
           else if \<not> given (ba_paymentMethodRef account) \<or> \<not> given (ba_customerRef account) then
             ok (receipt FeeSkipped ''stripe'' None
               (Some ''no Stripe customer + payment method on file (SetupIntent not completed)''))
           else
             catchE
               (andThen
                 (post ''/payment_intents''
                   (intent_params req (coalesce (ba_customerRef account) []) (coalesce (ba_paymentMethodRef account) []))
                   (idempotency_key req))
                 (\<lambda>intent. ok
                   (if pi_status intent = ''succeeded'' then
                      receipt FeeCharged ''stripe'' (pi_id intent) (if pi_replay intent then Some ''idempotent replay'' else None)
                    else
                      receipt FeeFailed ''stripe'' (pi_id intent)
                        (Some (''payment intent not succeeded (status='' @
                           (if pi_status intent = [] then ''unknown'' else pi_status intent) @ '')'')))))
               (\<lambda>e. ok (receipt FeeFailed ''stripe'' None (Some (stripe_reason e)))))"

definition buildBillingCharger ::
  "string option \<Rightarrow> (ident \<Rightarrow> ('w, BillingAccount option) eff) \<Rightarrow> (string \<Rightarrow> (string \<times> json) list \<Rightarrow> string \<Rightarrow> ('w, StripeIntent) eff)
    \<Rightarrow> (js_error \<Rightarrow> string) \<Rightarrow> 'w charger" where
  "buildBillingCharger secretKey accountFor post stripe_reason =
     (if given secretKey then stripe_charge accountFor post stripe_reason else noop_charge)"

subsection \<open>The run\<close>

record 'w RunState =
  rs_ledger :: ledger
  rs_ext :: 'w

record 'w BillingRunOptions =
  ro_env :: BillingEnv
  ro_entries :: ledger
  ro_ledger :: ledger
  ro_ledgerHead :: string
  ro_record :: bool
  ro_signer :: Signer
  ro_nowIso :: string
  ro_live :: bool
  ro_charger :: "'w charger"
  ro_config :: "SequentialUpliftConfig option"
  ro_onboardedAt :: "(ident \<times> string) list"
  ro_holdoutSchedule :: "HoldoutScheduleConfig option"

record BillingMerchantResult =
  mr_merchantId :: ident
  mr_period :: string
  mr_feeMinor :: int
  mr_currency :: currency
  mr_billable :: bool
  mr_gateReasons :: "GateReason list"
  mr_lowerDollarsCumMinor :: int
  mr_billableIncrementMinor :: int
  mr_treatedInvoices :: int
  mr_statementHash :: string
  mr_holdoutFraction :: real
  mr_estimatedHoldoutCostMinor :: int
  mr_holdoutCreditMinor :: int
  mr_netBilledMinor :: int
  mr_charge :: "BillingChargeReceipt option"

record BillingRunSummary =
  sm_period :: string
  sm_generatedAt :: string
  sm_live :: bool
  sm_merchants :: "BillingMerchantResult list"
  sm_totalFeeMinor :: int
  sm_totalNetBilledMinor :: int
  sm_totalChargedMinor :: int

definition earliest_step :: "(string \<Rightarrow> iso) \<Rightarrow> ident \<Rightarrow> (int \<times> string) option \<Rightarrow> LedgerEntry \<Rightarrow> (int \<times> string) option" where
  "earliest_step parse merchantId acc e =
     (if le_merchantId e \<noteq> merchantId then acc
      else
        (case parse (le_occurredAt e) of
           None \<Rightarrow> acc
         | Some t \<Rightarrow>
             (case acc of
                None \<Rightarrow> Some (t, le_occurredAt e)
              | Some (u, _) \<Rightarrow> if t < u then Some (t, le_occurredAt e) else acc)))"

definition onboardedAtFor :: "(string \<Rightarrow> iso) \<Rightarrow> ident \<Rightarrow> ledger \<Rightarrow> (ident \<times> string) list \<Rightarrow> string option" where
  "onboardedAtFor parse merchantId entries explicit =
     (if given (map_of explicit merchantId) then map_of explicit merchantId
      else map_option snd (foldl (earliest_step parse merchantId) None entries))"

definition statement_detail ::
  "NumberFormat \<Rightarrow> SignedBillableStatement \<Rightarrow> HoldoutEconomics \<Rightarrow> (string \<times> json) list" where
  "statement_detail nf signed econ =
     (let r = bs_result signed in
      [(''period'', JStr (bs_period signed)), (''currency'', JStr (bs_currency signed)),
       (''feeMinor'', jint (amount (br_fee r))), (''lowerDollarsCum'', jint (amount (br_lowerDollarsCum r))),
       (''billableIncrement'', jint (amount (br_billableIncrement r))), (''billable'', JBool (br_billable r)),
       (''gateReasons'', JArr (map (\<lambda>g. JStr (gateText nf g)) (br_gateReasons r))),
       (''treatedInvoices'', jint (br_treatedInvoices r)), (''holdoutFraction'', JNum (nf_text nf (he_holdoutFraction econ))),
       (''estimatedHoldoutCost'', jint (he_estimatedHoldoutCostMinor econ)),
       (''holdoutCredit'', jint (he_holdoutCreditMinor econ)), (''netBilled'', jint (he_netBilledMinor econ)),
       (''statementHash'', JStr (ss_statementHash signed)), (''signature'', JStr (ss_signature signed)),
       (''signingKeyId'', JStr (ss_signingKeyId signed))])"

definition merchant_statement ::
  "'w BillingRunOptions \<Rightarrow> BillingPeriod \<Rightarrow> ident \<Rightarrow> js_error + SignedBillableStatement" where
  "merchant_statement opts period merchantId =
     computeMerchantStatement (ro_env opts) (ro_entries opts) merchantId period (ro_ledger opts) (ro_ledgerHead opts)
       (ro_signer opts) (ro_config opts)"

definition merchant_economics :: "'w BillingRunOptions \<Rightarrow> ident \<Rightarrow> BillableUpliftResult \<Rightarrow> HoldoutEconomics" where
  "merchant_economics opts merchantId r =
     (let parse = be_parse (ro_env opts);
          onboardedAt = coalesce (onboardedAtFor parse merchantId (ro_entries opts) (ro_onboardedAt opts)) (ro_nowIso opts);
          fraction = holdoutFractionFor (parse onboardedAt) (parse (ro_nowIso opts))
            (coalesce (ro_holdoutSchedule opts) DEFAULT_HOLDOUT_SCHEDULE)
      in computeHoldoutEconomics (amount (br_fee r)) (br_deltaPer r) (br_treatedInvoices r) fraction)"

definition record_statement ::
  "'w BillingRunOptions \<Rightarrow> SignedBillableStatement \<Rightarrow> HoldoutEconomics \<Rightarrow> ('w RunState, unit) eff" where
  "record_statement opts signed econ =
     (if ro_record opts then
        modify (\<lambda>s. s\<lparr>rs_ledger := ledger_append (be_H (ro_env opts)) (rs_ledger s)
          \<lparr>le_merchantId = bs_merchantId signed, le_type = UpliftStatementEvent, le_occurredAt = ro_nowIso opts,
           le_detail = statement_detail (be_nf (ro_env opts)) signed econ\<rparr>\<rparr>)
      else ok ())"

definition collect_fee ::
  "'w BillingRunOptions \<Rightarrow> SignedBillableStatement \<Rightarrow> HoldoutEconomics \<Rightarrow> ('w RunState, BillingChargeReceipt option) eff" where
  "collect_fee opts signed econ =
     (if ro_live opts \<and> br_billable (bs_result signed) \<and> 0 < he_netBilledMinor econ then
        andThen (zoom rs_ext (\<lambda>w s. s\<lparr>rs_ext := w\<rparr>)
          (ro_charger opts \<lparr>cq_merchantId = bs_merchantId signed, cq_period = bs_period signed,
             cq_amountMinor = he_netBilledMinor econ, cq_currency = bs_currency signed,
             cq_statementHash = ss_statementHash signed\<rparr>))
          (\<lambda>r. ok (Some r))
      else ok None)"

definition merchant_result ::
  "SignedBillableStatement \<Rightarrow> HoldoutEconomics \<Rightarrow> BillingChargeReceipt option \<Rightarrow> BillingMerchantResult" where
  "merchant_result signed econ charge =
     (let r = bs_result signed in
      \<lparr>mr_merchantId = bs_merchantId signed, mr_period = bs_period signed, mr_feeMinor = amount (br_fee r),
       mr_currency = bs_currency signed, mr_billable = br_billable r, mr_gateReasons = br_gateReasons r,
       mr_lowerDollarsCumMinor = amount (br_lowerDollarsCum r),
       mr_billableIncrementMinor = amount (br_billableIncrement r), mr_treatedInvoices = br_treatedInvoices r,
       mr_statementHash = ss_statementHash signed, mr_holdoutFraction = he_holdoutFraction econ,
       mr_estimatedHoldoutCostMinor = he_estimatedHoldoutCostMinor econ,
       mr_holdoutCreditMinor = he_holdoutCreditMinor econ, mr_netBilledMinor = he_netBilledMinor econ, mr_charge = charge\<rparr>)"

definition run_merchant ::
  "'w BillingRunOptions \<Rightarrow> BillingPeriod \<Rightarrow> ident \<Rightarrow> ('w RunState, BillingMerchantResult \<times> SignedBillableStatement) eff" where
  "run_merchant opts period merchantId =
     andThen (lift_sum (merchant_statement opts period merchantId)) (\<lambda>signed.
       let econ = merchant_economics opts merchantId (bs_result signed) in
       andThen (record_statement opts signed econ) (\<lambda>_.
         andThen (collect_fee opts signed econ) (\<lambda>charge. ok (merchant_result signed econ charge, signed))))"

fun run_merchants ::
  "'w BillingRunOptions \<Rightarrow> BillingPeriod \<Rightarrow> ident list
    \<Rightarrow> ('w RunState, (BillingMerchantResult \<times> SignedBillableStatement) list) eff" where
  "run_merchants opts period [] = ok []"
| "run_merchants opts period (m # ms) =
     andThen (run_merchant opts period m) (\<lambda>r. andThen (run_merchants opts period ms) (\<lambda>rs. ok (r # rs)))"

definition charged_amount :: "BillingMerchantResult \<Rightarrow> int" where
  "charged_amount r =
     (case mr_charge r of Some c \<Rightarrow> if ct_status c = FeeCharged then mr_netBilledMinor r else 0 | None \<Rightarrow> 0)"

definition runBilling ::
  "'w BillingRunOptions \<Rightarrow> ('w RunState, BillingRunSummary \<times> SignedBillableStatement list) eff" where
  "runBilling opts =
     andThen (lift_sum (previousMonth (be_parse (ro_env opts) (ro_nowIso opts)))) (\<lambda>period.
       andThen (run_merchants opts period (merchantsInLedger (ro_entries opts))) (\<lambda>rs.
         let results = map fst rs in
         ok (\<lparr>sm_period = bp_label period, sm_generatedAt = ro_nowIso opts, sm_live = ro_live opts, sm_merchants = results,
              sm_totalFeeMinor = sum_list (map mr_feeMinor results),
              sm_totalNetBilledMinor = sum_list (map mr_netBilledMinor results),
              sm_totalChargedMinor = sum_list (map charged_amount results)\<rparr>, map snd rs)))"

end
