(* ===== verification/BillingLaws.thy ===== *)
theory BillingLaws
  imports BillingRun
begin

text \<open>
  What the billing run guarantees: no money moves unless the run is live, every charge is a
  positive net amount of a billable statement, a run only appends statements to the ledger,
  and running again on the ledger it leaves bills nothing.
\<close>

subsection \<open>The watermark makes a re-run bill nothing\<close>

lemma lower_dollars_prior:
  assumes "computeBillableUplift obs config p = Inr r" "computeBillableUplift obs config q = Inr s"
  shows "br_lowerDollarsCum s = br_lowerDollarsCum r"
proof -
  have "config_error config = None" by (rule billable_result(1) [OF assms(1)])
  then have "br_lowerDollarsCum (projr (computeBillableUplift obs config q)) =
      br_lowerDollarsCum (projr (computeBillableUplift obs config p))"
    by (simp only: computeBillableUplift_def Let_def option.case sum.sel BillableUpliftResult.select_convs)
  then show ?thesis using assms by simp
qed

lemma result_at_watermark:
  assumes "computeBillableUplift obs config p = Inr r"
    and "computeBillableUplift obs config (amount (br_lowerDollarsCum r)) = Inr s"
  shows "amount (br_billableIncrement s) = 0" "amount (br_fee s) = 0"
proof -
  show "amount (br_billableIncrement s) = 0"
    by (simp add: billable_result(5) [OF assms(2)] lower_dollars_prior [OF assms])
  then show "amount (br_fee s) = 0" by (simp add: billable_result(6) [OF assms(2)])
qed

text \<open>Over a sequence of periods the increments telescope: no dollar below the watermark is billed twice.\<close>

fun bill_sequence :: "SequentialUpliftConfig \<Rightarrow> int \<Rightarrow> UpliftObservation list list \<Rightarrow> js_error + BillableUpliftResult list" where
  "bill_sequence config prior [] = Inr []"
| "bill_sequence config prior (obs # rest) =
     (case computeBillableUplift obs config prior of
        Inl e \<Rightarrow> Inl e
      | Inr r \<Rightarrow>
          (case bill_sequence config (amount (br_lowerDollarsCum r)) rest of
             Inl e \<Rightarrow> Inl e | Inr rs \<Rightarrow> Inr (r # rs)))"

lemma increments_telescope:
  assumes "bill_sequence config prior obss = Inr rs"
  shows "sum_list (map (\<lambda>r. amount (br_billableIncrement r)) rs) =
    (if rs = [] then 0 else amount (br_lowerDollarsCum (last rs)) - prior)"
  using assms
proof (induction obss arbitrary: prior rs)
  case (Cons obs obss)
  then obtain r rs' where r: "computeBillableUplift obs config prior = Inr r"
    and rs': "bill_sequence config (amount (br_lowerDollarsCum r)) obss = Inr rs'" and rs: "rs = r # rs'"
    by (auto split: sum.splits)
  from Cons.IH [OF rs'] show ?case
    by (cases "rs' = []") (simp_all add: rs billable_result(5) [OF r])
qed simp

subsection \<open>Statements leave the observations alone\<close>

definition statements_only :: "ledger \<Rightarrow> bool" where
  "statements_only us \<longleftrightarrow> list_all (\<lambda>e. le_type e = UpliftStatementEvent) us"

lemma net_delta_statement [simp]: "le_type e = UpliftStatementEvent \<Longrightarrow> net_delta m e = None"
  by (simp add: net_delta_def split: option.splits)

lemma observation_statement [simp]: "le_type e = UpliftStatementEvent \<Longrightarrow> observation parse net m p e = None"
  by (simp add: observation_def)

lemma map_filter_append: "List.map_filter f (xs @ ys) = List.map_filter f xs @ List.map_filter f ys"
  by (simp add: List.map_filter_def)

lemma map_filter_None: "list_all (\<lambda>x. f x = None) xs \<Longrightarrow> List.map_filter f xs = []"
  by (induction xs) (simp_all add: List.map_filter_simps)

lemma observations_append_statements:
  assumes "statements_only us"
  shows "reconstructObservations parse (es @ us) m p = reconstructObservations parse es m p"
proof -
  have "list_all (\<lambda>e. net_delta m e = None) us" "list_all (\<lambda>e. observation parse net m p e = None) us" for net
    using assms by (simp_all add: statements_only_def list_all_iff)
  then show ?thesis
    by (simp add: reconstructObservations_def net_recovered_def map_filter_append map_filter_None)
qed

lemma merchants_append:
  assumes "set (map le_merchantId us) \<subseteq> set (map le_merchantId es)"
  shows "merchantsInLedger (es @ us) = merchantsInLedger es"
  using first_keys_append [OF assms] by (simp add: merchantsInLedger_def)

subsection \<open>Reading the watermark back\<close>

lemma watermark_latest:
  "foldl (watermark_step parse m) (l, c) es = (l', c') \<Longrightarrow> \<forall>e \<in> set es. \<forall>u. parse (le_occurredAt e) = Some u \<longrightarrow> u \<le> t \<Longrightarrow>
     (\<forall>u. l = Some u \<longrightarrow> u \<le> t) \<Longrightarrow> (\<forall>u. l' = Some u \<longrightarrow> u \<le> t)"
proof (induction es arbitrary: l c)
  case (Cons e es)
  let ?a = "watermark_step parse m (l, c) e"
  have "\<forall>u. fst ?a = Some u \<longrightarrow> u \<le> t"
    using Cons.prems(2,3) by (auto simp: watermark_step_def split: option.splits json.splits)
  then show ?case using Cons.IH [of "fst ?a" "snd ?a"] Cons.prems(1,2) by simp
qed simp

lemma watermark_other:
  "list_all (\<lambda>e. le_merchantId e \<noteq> m) us \<Longrightarrow> foldl (watermark_step parse m) acc us = acc"
  by (induction us arbitrary: acc) (simp_all add: watermark_step_def)

lemma watermark_appended:
  assumes "\<forall>e \<in> set es. \<forall>u. parse (le_occurredAt e) = Some u \<longrightarrow> u \<le> t"
    and "le_merchantId e = m" "le_type e = UpliftStatementEvent" "parse (le_occurredAt e) = Some t"
    and "field e ''lowerDollarsCum'' = Some (jint c)" "list_all (\<lambda>e. le_merchantId e \<noteq> m) us"
  shows "priorBilledFromLedger parse (es @ e # us) m = c"
proof -
  obtain l k where lk: "foldl (watermark_step parse m) (None, 0) es = (l, k)" by fastforce
  have "\<forall>u. l = Some u \<longrightarrow> u \<le> t" by (rule watermark_latest [OF lk assms(1)]) simp
  then have "watermark_step parse m (l, k) e = (Some t, c)"
    using assms(2-5) by (auto simp: watermark_step_def split: option.splits)
  then show ?thesis by (simp add: priorBilledFromLedger_def lk watermark_other [OF assms(6)])
qed

subsection \<open>What one run does\<close>

lemma merchant_statement_id:
  assumes "merchant_statement opts period m = Inr signed"
  shows "bs_merchantId signed = m" "bs_period signed = bp_label period"
    "computeBillableUplift (reconstructObservations (be_parse (ro_env opts)) (ro_entries opts) m period)
       (coalesce (ro_config opts) DEFAULT_SEQUENTIAL_CONFIG) (priorBilledFromLedger (be_parse (ro_env opts)) (ro_entries opts) m)
       = Inr (bs_result signed)"
  using assms
  by (auto simp: merchant_statement_def computeMerchantStatement_def buildBillableStatement_def Let_def signStatement_def
      BillableStatement.defs split: sum.splits)

text \<open>A charge request a billing run may make.\<close>

definition charge_justified :: "'w BillingRunOptions \<Rightarrow> BillingPeriod \<Rightarrow> BillingChargeRequest \<Rightarrow> bool" where
  "charge_justified opts period req \<longleftrightarrow>
     ro_live opts \<and> 0 < cq_amountMinor req \<and>
     (case merchant_statement opts period (cq_merchantId req) of
        Inl _ \<Rightarrow> False
      | Inr signed \<Rightarrow>
          br_billable (bs_result signed) \<and> cq_statementHash req = ss_statementHash signed
          \<and> cq_amountMinor req = he_netBilledMinor (merchant_economics opts (cq_merchantId req) (bs_result signed)))"

lemma run_merchant_charges:
  assumes "\<And>req w. charge_justified opts period req \<Longrightarrow> P w \<Longrightarrow> P (snd (ro_charger opts req w))" "P (rs_ext s)"
  shows "P (rs_ext (snd (run_merchant opts period m s)))"
proof (cases "merchant_statement opts period m")
  case (Inr signed)
  let ?econ = "merchant_economics opts m (bs_result signed)"
  let ?req = "\<lparr>cq_merchantId = bs_merchantId signed, cq_period = bs_period signed, cq_amountMinor = he_netBilledMinor ?econ,
    cq_currency = bs_currency signed, cq_statementHash = ss_statementHash signed\<rparr>"
  have "charge_justified opts period ?req"
    if "ro_live opts" "br_billable (bs_result signed)" "0 < he_netBilledMinor ?econ"
    using that Inr merchant_statement_id(1) [OF Inr] by (simp add: charge_justified_def)
  then have fee: "P (rs_ext t) \<Longrightarrow> P (rs_ext (snd (collect_fee opts signed ?econ t)))" for t
    using assms(1) [of ?req "rs_ext t"]
    by (auto simp: collect_fee_def andThen_def zoom_def ok_def split: prod.splits sum.splits)
  obtain t where "record_statement opts signed ?econ s = (Inr (), t)" "rs_ext t = rs_ext s"
    by (cases "ro_record opts") (simp_all add: record_statement_def modify_def ok_def)
  with fee [of t] assms(2) Inr show ?thesis
    by (auto simp: run_merchant_def andThen_def lift_sum_def ok_def Let_def split: prod.splits sum.splits)
qed (use assms(2) in \<open>simp add: run_merchant_def eff_defs\<close>)

lemma run_merchants_charges:
  assumes "\<And>req w. charge_justified opts period req \<Longrightarrow> P w \<Longrightarrow> P (snd (ro_charger opts req w))" "P (rs_ext s)"
  shows "P (rs_ext (snd (run_merchants opts period ms s)))"
  using assms(2)
proof (induction ms arbitrary: s)
  case (Cons m ms)
  obtain r s1 where r: "run_merchant opts period m s = (r, s1)" by fastforce
  have "P (rs_ext (snd (run_merchant opts period m s)))"
    using assms(1) Cons.prems by (rule run_merchant_charges)
  then have "P (rs_ext s1)" by (simp add: r)
  from Cons.IH [OF this] this r show ?case
    by (cases r; cases "run_merchants opts period ms s1") (auto simp: andThen_def ok_def split: sum.splits)
qed (simp add: ok_def)

text \<open>The record of a statement in the ledger.\<close>

definition records :: "string \<Rightarrow> LedgerEntry \<Rightarrow> BillingMerchantResult \<times> SignedBillableStatement \<Rightarrow> bool" where
  "records nowIso e r \<longleftrightarrow>
     le_type e = UpliftStatementEvent \<and> le_merchantId e = bs_merchantId (snd r) \<and> le_occurredAt e = nowIso
     \<and> field e ''lowerDollarsCum'' = Some (jint (amount (br_lowerDollarsCum (bs_result (snd r)))))"

lemma run_merchant_Inr:
  assumes "run_merchant opts period m s = (Inr r, s')"
  shows "merchant_statement opts period m = Inr (snd r)"
    "fst r = merchant_result (snd r) (merchant_economics opts m (bs_result (snd r))) (mr_charge (fst r))"
    "ro_record opts \<Longrightarrow> \<exists>e. rs_ledger s' = rs_ledger s @ [e] \<and> records (ro_nowIso opts) e r"
    "\<not> ro_record opts \<Longrightarrow> rs_ledger s' = rs_ledger s"
proof -
  obtain signed where st: "merchant_statement opts period m = Inr signed"
    using assms by (cases "merchant_statement opts period m") (simp_all add: run_merchant_def eff_defs)
  let ?econ = "merchant_economics opts m (bs_result signed)"
  have r: "snd r = signed \<and> fst r = merchant_result signed ?econ (mr_charge (fst r))"
    using assms st
    by (auto simp: run_merchant_def record_statement_def collect_fee_def eff_defs Let_def merchant_result_def
        split: prod.splits sum.splits if_splits)
  then show "merchant_statement opts period m = Inr (snd r)"
    "fst r = merchant_result (snd r) (merchant_economics opts m (bs_result (snd r))) (mr_charge (fst r))"
    using st by simp_all
  let ?e = "make_entry (be_H (ro_env opts)) (int (length (rs_ledger s))) (head_hash (rs_ledger s))
    \<lparr>le_merchantId = bs_merchantId signed, le_type = UpliftStatementEvent, le_occurredAt = ro_nowIso opts,
     le_detail = statement_detail (be_nf (ro_env opts)) signed ?econ\<rparr>"
  have "records (ro_nowIso opts) ?e r"
    using r by (simp add: records_def make_entry_def field_def statement_detail_def Let_def)
  moreover have "rs_ledger s' = rs_ledger s @ [?e]" if "ro_record opts"
    using assms st that
    by (auto simp: run_merchant_def record_statement_def collect_fee_def eff_defs Let_def ledger_append_def
        split: prod.splits sum.splits if_splits)
  ultimately show "ro_record opts \<Longrightarrow> \<exists>e. rs_ledger s' = rs_ledger s @ [e] \<and> records (ro_nowIso opts) e r" by blast
  show "\<not> ro_record opts \<Longrightarrow> rs_ledger s' = rs_ledger s"
    using assms st
    by (auto simp: run_merchant_def record_statement_def collect_fee_def eff_defs Let_def
        split: prod.splits sum.splits if_splits)
qed

lemma run_merchants_Inr:
  assumes "run_merchants opts period ms s = (Inr rs, s')" "ro_record opts"
  shows "list_all2 (\<lambda>m r. merchant_statement opts period m = Inr (snd r)) ms rs"
    "\<exists>us. rs_ledger s' = rs_ledger s @ us \<and> list_all2 (records (ro_nowIso opts)) us rs"
proof -
  have "list_all2 (\<lambda>m r. merchant_statement opts period m = Inr (snd r)) ms rs
    \<and> (\<exists>us. rs_ledger s' = rs_ledger s @ us \<and> list_all2 (records (ro_nowIso opts)) us rs)"
    using assms(1)
  proof (induction ms arbitrary: s rs)
    case (Cons m ms)
    then obtain r s1 rs' where r: "run_merchant opts period m s = (Inr r, s1)"
      and rs': "run_merchants opts period ms s1 = (Inr rs', s')" and rs: "rs = r # rs'"
      by (auto simp: andThen_def ok_def split: prod.splits sum.splits)
    from run_merchant_Inr(3) [OF r assms(2)] obtain e
      where e: "rs_ledger s1 = rs_ledger s @ [e]" "records (ro_nowIso opts) e r" by blast
    from Cons.IH [OF rs'] obtain us where "rs_ledger s' = rs_ledger s1 @ us" "list_all2 (records (ro_nowIso opts)) us rs'"
      and "list_all2 (\<lambda>m r. merchant_statement opts period m = Inr (snd r)) ms rs'" by blast
    with e rs run_merchant_Inr(1) [OF r] show ?case by (intro conjI exI [of _ "e # us"]) simp_all
  qed (simp add: ok_def)
  then show "list_all2 (\<lambda>m r. merchant_statement opts period m = Inr (snd r)) ms rs"
    "\<exists>us. rs_ledger s' = rs_ledger s @ us \<and> list_all2 (records (ro_nowIso opts)) us rs" by auto
qed

subsection \<open>A run completes\<close>

lemma records_statements_only: "list_all2 (records nowIso) us rs \<Longrightarrow> statements_only us"
  by (induction us rs rule: list_all2_induct) (simp_all add: statements_only_def records_def)

lemma records_merchants:
  "list_all2 (records nowIso) us rs \<Longrightarrow> map le_merchantId us = map (\<lambda>r. bs_merchantId (snd r)) rs"
  by (induction us rs rule: list_all2_induct) (simp_all add: records_def)

lemma statement_merchants:
  "list_all2 (\<lambda>m r. merchant_statement opts period m = Inr (snd r)) ms rs \<Longrightarrow> map (\<lambda>r. bs_merchantId (snd r)) rs = ms"
  by (induction ms rs rule: list_all2_induct) (simp_all add: merchant_statement_id)

definition charger_total :: "'w charger \<Rightarrow> bool" where
  "charger_total ch \<longleftrightarrow> (\<forall>req w. \<exists>r w'. ch req w = (Inr r, w'))"

lemma noop_charger_total: "charger_total noop_charge"
  by (simp add: charger_total_def noop_charge_def ok_def)

lemma stripe_charger_total:
  assumes "\<And>m w. \<exists>a w'. accountFor m w = (Inr a, w')"
  shows "charger_total (stripe_charge accountFor post reason)"
  unfolding charger_total_def
proof (intro allI)
  fix req :: BillingChargeRequest and w
  obtain a w' where "accountFor (cq_merchantId req) w = (Inr a, w')" using assms by blast
  then show "\<exists>r w'. stripe_charge accountFor post reason req w = (Inr r, w')"
    by (cases a) (auto simp: stripe_charge_def eff_defs split: prod.splits sum.splits)
qed

lemma merchant_statement_total:
  assumes "config_error (coalesce (ro_config opts) DEFAULT_SEQUENTIAL_CONFIG) = None"
  shows "\<exists>signed. merchant_statement opts period m = Inr signed"
proof -
  obtain r where "computeBillableUplift (reconstructObservations (be_parse (ro_env opts)) (ro_entries opts) m period)
      (coalesce (ro_config opts) DEFAULT_SEQUENTIAL_CONFIG) (priorBilledFromLedger (be_parse (ro_env opts)) (ro_entries opts) m) = Inr r"
    using billable_ok_iff assms by blast
  then show ?thesis
    by (simp add: merchant_statement_def computeMerchantStatement_def buildBillableStatement_def Let_def)
qed

lemma run_merchant_completes:
  assumes "config_error (coalesce (ro_config opts) DEFAULT_SEQUENTIAL_CONFIG) = None" "charger_total (ro_charger opts)"
  shows "\<exists>r s'. run_merchant opts period m s = (Inr r, s')"
proof -
  obtain signed where st: "merchant_statement opts period m = Inr signed" using merchant_statement_total [OF assms(1)] by blast
  have fee: "\<exists>c t'. collect_fee opts signed econ t = (Inr c, t')" for econ t
  proof (cases "ro_live opts \<and> br_billable (bs_result signed) \<and> 0 < he_netBilledMinor econ")
    case True
    let ?req = "\<lparr>cq_merchantId = bs_merchantId signed, cq_period = bs_period signed, cq_amountMinor = he_netBilledMinor econ,
      cq_currency = bs_currency signed, cq_statementHash = ss_statementHash signed\<rparr>"
    obtain c w' where "ro_charger opts ?req (rs_ext t) = (Inr c, w')" using assms(2) unfolding charger_total_def by blast
    with True show ?thesis by (simp add: collect_fee_def eff_defs)
  qed (auto simp: collect_fee_def ok_def)
  obtain t where "record_statement opts signed (merchant_economics opts m (bs_result signed)) s = (Inr (), t)"
    by (cases "ro_record opts") (simp_all add: record_statement_def modify_def ok_def)
  moreover obtain c t' where "collect_fee opts signed (merchant_economics opts m (bs_result signed)) t = (Inr c, t')"
    using fee by blast
  ultimately show ?thesis using st by (simp add: run_merchant_def andThen_def lift_sum_def ok_def Let_def)
qed

lemma run_merchants_completes:
  assumes "config_error (coalesce (ro_config opts) DEFAULT_SEQUENTIAL_CONFIG) = None" "charger_total (ro_charger opts)"
  shows "\<exists>rs s'. run_merchants opts period ms s = (Inr rs, s')"
proof (induction ms arbitrary: s)
  case (Cons m ms)
  obtain r s1 where "run_merchant opts period m s = (Inr r, s1)" using run_merchant_completes [OF assms] by blast
  with Cons [of s1] show ?case by (auto simp: andThen_def ok_def)
qed (simp add: ok_def)

lemma run_merchants_chain:
  "chain_ok (be_H (ro_env opts)) (rs_ledger s) \<Longrightarrow>
     chain_ok (be_H (ro_env opts)) (rs_ledger (snd (run_merchants opts period ms s)))"
proof (induction ms arbitrary: s)
  case (Cons m ms)
  obtain r s1 where r: "run_merchant opts period m s = (r, s1)" by fastforce
  have "chain_ok (be_H (ro_env opts)) (rs_ledger s1)"
    using r Cons.prems
    by (auto simp: run_merchant_def record_statement_def collect_fee_def eff_defs Let_def split: prod.splits sum.splits if_splits)
  with Cons.IH [of s1] r show ?case
    by (cases r; cases "run_merchants opts period ms s1") (auto simp: andThen_def ok_def split: sum.splits)
qed (simp add: ok_def)

lemma run_billing_completes:
  assumes "config_error (coalesce (ro_config opts) DEFAULT_SEQUENTIAL_CONFIG) = None" "charger_total (ro_charger opts)"
    and "previousMonth (be_parse (ro_env opts) (ro_nowIso opts)) = Inr period" "ro_record opts"
    and "chain_ok (be_H (ro_env opts)) (rs_ledger s)"
  obtains summary statements s' us where "runBilling opts s = (Inr (summary, statements), s')"
    and "map bs_merchantId statements = merchantsInLedger (ro_entries opts)"
    and "rs_ledger s' = rs_ledger s @ us" "map le_merchantId us = merchantsInLedger (ro_entries opts)" "statements_only us"
    and "chain_ok (be_H (ro_env opts)) (rs_ledger s')"
    and "sm_totalNetBilledMinor summary = sum_list (map mr_netBilledMinor (sm_merchants summary))"
proof -
  let ?ms = "merchantsInLedger (ro_entries opts)"
  obtain rs s' where run: "run_merchants opts period ?ms s = (Inr rs, s')"
    using run_merchants_completes [OF assms(1,2)] by blast
  from run_merchants_Inr(2) [OF run assms(4)] obtain us where us: "rs_ledger s' = rs_ledger s @ us"
    "list_all2 (records (ro_nowIso opts)) us rs" by blast
  note ids = statement_merchants [OF run_merchants_Inr(1) [OF run assms(4)]]
  show ?thesis
  proof (rule that)
    show "runBilling opts s = (Inr (\<lparr>sm_period = bp_label period, sm_generatedAt = ro_nowIso opts, sm_live = ro_live opts,
        sm_merchants = map fst rs, sm_totalFeeMinor = sum_list (map mr_feeMinor (map fst rs)),
        sm_totalNetBilledMinor = sum_list (map mr_netBilledMinor (map fst rs)),
        sm_totalChargedMinor = sum_list (map charged_amount (map fst rs))\<rparr>, map snd rs), s')"
      using assms(3) run by (simp add: runBilling_def andThen_def lift_sum_def ok_def Let_def)
    show "rs_ledger s' = rs_ledger s @ us" by (rule us(1))
    show "map bs_merchantId (map snd rs) = ?ms" using ids by (simp add: comp_def)
    show "map le_merchantId us = ?ms" using records_merchants [OF us(2)] ids by simp
    show "statements_only us" by (rule records_statements_only [OF us(2)])
    show "chain_ok (be_H (ro_env opts)) (rs_ledger s')" using run_merchants_chain [OF assms(5), of period ?ms] run by simp
  qed simp
qed

subsection \<open>Running again\<close>


lemma records_split:
  assumes "list_all2 (records nowIso) us rs" "r \<in> set rs"
  shows "\<exists>us1 e us2. us = us1 @ e # us2 \<and> records nowIso e r"
  using assms by (metis in_set_conv_decomp list_all2_append2 list_all2_Cons2)

lemma others_distinct:
  assumes "map le_merchantId (us1 @ e # us2) = ms" "distinct ms"
  shows "list_all (\<lambda>u. le_merchantId u \<noteq> le_merchantId e) us1" "list_all (\<lambda>u. le_merchantId u \<noteq> le_merchantId e) us2"
proof -
  have "le_merchantId e \<notin> le_merchantId ` set us1" "le_merchantId e \<notin> le_merchantId ` set us2"
    using assms by auto
  then show "list_all (\<lambda>u. le_merchantId u \<noteq> le_merchantId e) us1" "list_all (\<lambda>u. le_merchantId u \<noteq> le_merchantId e) us2"
    by (auto simp: list_all_iff image_iff)
qed

lemma records_at: "list_all2 (records nowIso) us rs \<Longrightarrow> list_all (\<lambda>u. le_occurredAt u = nowIso) us"
  by (induction us rs rule: list_all2_induct) (simp_all add: records_def)

text \<open>No entry of the ledger is later than the run.\<close>

definition not_after :: "(string \<Rightarrow> iso) \<Rightarrow> ledger \<Rightarrow> int \<Rightarrow> bool" where
  "not_after parse es t \<longleftrightarrow> (\<forall>e \<in> set es. \<forall>u. parse (le_occurredAt e) = Some u \<longrightarrow> u \<le> t)"

lemma rerun_statement:
  assumes rec: "list_all2 (records nowIso) us rs"
    and ids: "map (\<lambda>r. bs_merchantId (snd r)) rs = ms" "distinct ms"
    and now: "parse nowIso = Some t" "not_after parse es t" and r: "r \<in> set rs"
  shows "priorBilledFromLedger parse (es @ us) (bs_merchantId (snd r)) = amount (br_lowerDollarsCum (bs_result (snd r)))"
proof -
  obtain us1 e us2 where us: "us = us1 @ e # us2" and e: "records nowIso e r"
    using records_split [OF rec r] by blast
  have m: "map le_merchantId (us1 @ e # us2) = ms" using records_merchants [OF rec] ids(1) us by simp
  note o' = others_distinct [OF m ids(2)]
  have occ: "le_occurredAt u = nowIso" if "u \<in> set us" for u
    using records_at [OF rec] that by (simp add: list_all_iff)
  have "\<forall>x \<in> set (es @ us1). \<forall>u. parse (le_occurredAt x) = Some u \<longrightarrow> u \<le> t"
    using now occ us by (auto simp: not_after_def)
  from watermark_appended [OF this, of e "bs_merchantId (snd r)" _ us2] e o'(2) now(1) us
  show ?thesis by (simp add: records_def)
qed

text \<open>
  The ledger a recording run leaves, read by a second run of the same month: every merchant's
  increment and fee are zero, so nothing is charged.
\<close>

lemma rerun_bills_nothing:
  assumes run: "run_merchants opts period (merchantsInLedger (ro_entries opts)) s = (Inr rs, s')"
    and recs: "ro_record opts" "rs_ledger s = ro_entries opts"
    and now: "be_parse (ro_env opts) (ro_nowIso opts) = Some t" "not_after (be_parse (ro_env opts)) (ro_entries opts) t"
    and opts2: "ro_entries opts2 = rs_ledger s'" "be_parse (ro_env opts2) = be_parse (ro_env opts)"
      "ro_config opts2 = ro_config opts"
    and m: "m \<in> set (merchantsInLedger (ro_entries opts2))" and st: "merchant_statement opts2 period m = Inr signed"
  shows "amount (br_billableIncrement (bs_result signed)) = 0" "amount (br_fee (bs_result signed)) = 0"
    "he_netBilledMinor (merchant_economics opts2 m (bs_result signed)) = 0"
proof -
  let ?parse = "be_parse (ro_env opts)" and ?es = "ro_entries opts"
  let ?ms = "merchantsInLedger ?es"
  obtain us where us: "rs_ledger s' = ?es @ us" "list_all2 (records (ro_nowIso opts)) us rs"
    using run_merchants_Inr(2) [OF run recs(1)] recs(2) by auto
  have sts: "list_all2 (\<lambda>m r. merchant_statement opts period m = Inr (snd r)) ?ms rs"
    by (rule run_merchants_Inr(1) [OF run recs(1)])
  have ids: "map (\<lambda>r. bs_merchantId (snd r)) rs = ?ms" by (rule statement_merchants [OF sts])
  have d: "distinct ?ms" by (simp add: merchantsInLedger_def)
  have "set (map le_merchantId us) \<subseteq> set (map le_merchantId ?es)"
    using records_merchants [OF us(2)] ids by (simp add: merchantsInLedger_def)
  then have ms: "merchantsInLedger (?es @ us) = ?ms" by (rule merchants_append)
  then obtain i where i: "i < length ?ms" "?ms ! i = m" using m us(1) opts2(1) by (auto simp: in_set_conv_nth)
  define r where "r = rs ! i"
  have "merchant_statement opts period m = Inr (snd r)" "r \<in> set rs"
    using list_all2_nthD [OF sts i(1)] list_all2_lengthD [OF sts] i by (simp_all add: r_def)
  then have r: "r \<in> set rs" "bs_merchantId (snd r) = m" "merchant_statement opts period m = Inr (snd r)"
    by (simp_all add: merchant_statement_id)
  have "priorBilledFromLedger ?parse (?es @ us) m = amount (br_lowerDollarsCum (bs_result (snd r)))"
    using rerun_statement [where parse = "be_parse (ro_env opts)", OF us(2) ids d now r(1)] r(2) by simp
  moreover have "reconstructObservations ?parse (?es @ us) m period = reconstructObservations ?parse ?es m period"
    by (rule observations_append_statements [OF records_statements_only [OF us(2)]])
  ultimately have "computeBillableUplift (reconstructObservations ?parse ?es m period)
      (coalesce (ro_config opts) DEFAULT_SEQUENTIAL_CONFIG) (amount (br_lowerDollarsCum (bs_result (snd r)))) = Inr (bs_result signed)"
    using merchant_statement_id(3) [OF st] by (simp add: opts2 us(1))
  from result_at_watermark [OF merchant_statement_id(3) [OF r(3)] this]
  show "amount (br_billableIncrement (bs_result signed)) = 0" and fee: "amount (br_fee (bs_result signed)) = 0"
    by simp_all
  from fee show "he_netBilledMinor (merchant_economics opts2 m (bs_result signed)) = 0"
    using economics_credit(2,3,4) [of 0] by (simp add: merchant_economics_def Let_def economics_fields)
qed

text \<open>So a second run makes no charge request at all.\<close>

lemma rerun_charges_nothing:
  assumes "run_merchants opts period (merchantsInLedger (ro_entries opts)) s = (Inr rs, s')"
    and "ro_record opts" "rs_ledger s = ro_entries opts"
    and "be_parse (ro_env opts) (ro_nowIso opts) = Some t" "not_after (be_parse (ro_env opts)) (ro_entries opts) t"
    and "ro_entries opts2 = rs_ledger s'" "be_parse (ro_env opts2) = be_parse (ro_env opts)"
      "ro_config opts2 = ro_config opts" "set ms \<subseteq> set (merchantsInLedger (ro_entries opts2))"
  shows "rs_ext (snd (run_merchants opts2 period ms s2)) = rs_ext s2"
  using assms(9)
proof (induction ms arbitrary: s2)
  case (Cons m ms)
  have "rs_ext (snd (run_merchant opts2 period m s2)) = rs_ext s2"
  proof (cases "merchant_statement opts2 period m")
    case (Inr signed)
    have "m \<in> set (merchantsInLedger (ro_entries opts2))" using Cons.prems by simp
    from rerun_bills_nothing(3) [OF assms(1-8) this Inr] Inr show ?thesis
      by (cases "ro_record opts2") (simp_all add: run_merchant_def record_statement_def collect_fee_def eff_defs Let_def)
  qed (simp add: run_merchant_def eff_defs)
  moreover obtain r s3 where "run_merchant opts2 period m s2 = (r, s3)" by fastforce
  ultimately show ?case
    using Cons.IH [of s3] Cons.prems
    by (cases r; cases "run_merchants opts2 period ms s3") (auto simp: andThen_def ok_def split: sum.splits)
qed (simp add: ok_def)

end
