(* ===== verification/BillingPortal.thy ===== *)
theory BillingPortal
  imports BillingLaws
begin

text \<open>
  Around the run: the store of accounts, acceptances and invoices
  (\<open>apps/api/src/billing/billing-account-store.ts\<close>), the opt-in and invoice operations of
  \<open>billing-portal.service.ts\<close>, the delivery of invoices and reminders
  (\<open>invoice-delivery.service.ts\<close>) and the monthly job that issues the invoices
  (\<open>billing-job.ts\<close>). Timestamps are compared by their value, as ISO texts are.
\<close>

subsection \<open>The store\<close>

record BillingStore =
  bk_accounts :: "(ident \<times> BillingAccount) list"
  bk_acceptances :: "(string \<times> SignedAcceptanceRecord) list"
  bk_invoices :: "(string \<times> FeeInvoice) list"

definition empty_store :: BillingStore where
  "empty_store = \<lparr>bk_accounts = [], bk_acceptances = [], bk_invoices = []\<rparr>"

text \<open>A stable sort, the largest key first.\<close>

definition newest_first :: "('a \<Rightarrow> 'k :: linorder) \<Rightarrow> 'a list \<Rightarrow> 'a list" where
  "newest_first key xs = rev (sort_key key (rev xs))"

definition upsertAccount :: "BillingAccount \<Rightarrow> BillingStore \<Rightarrow> BillingStore" where
  "upsertAccount account st = st\<lparr>bk_accounts := AList.update (ba_accountId account) account (bk_accounts st)\<rparr>"

definition getAccount :: "ident \<Rightarrow> BillingStore \<Rightarrow> BillingAccount option" where
  "getAccount accountId st = map_of (bk_accounts st) accountId"

definition accountForMerchant :: "ident \<Rightarrow> BillingStore \<Rightarrow> BillingAccount option" where
  "accountForMerchant merchantId st =
     (case newest_first ba_createdAt (filter (\<lambda>a. ba_merchantId a = merchantId) (map snd (bk_accounts st))) of
        [] \<Rightarrow> None | a # _ \<Rightarrow> Some a)"

definition listAccounts :: "BillingStore \<Rightarrow> BillingAccount list" where
  "listAccounts st = map snd (bk_accounts st)"

definition recordAcceptance :: "SignedAcceptanceRecord \<Rightarrow> BillingStore \<Rightarrow> BillingStore" where
  "recordAcceptance rec' st =
     (if map_of (bk_acceptances st) (sr_recordHash rec') = None
      then st\<lparr>bk_acceptances := AList.update (sr_recordHash rec') rec' (bk_acceptances st)\<rparr> else st)"

definition acceptancesForAccount :: "ident \<Rightarrow> BillingStore \<Rightarrow> SignedAcceptanceRecord list" where
  "acceptancesForAccount accountId st =
     newest_first ar_acceptedAt (filter (\<lambda>r. ar_accountId r = accountId) (map snd (bk_acceptances st)))"

definition upsertInvoice :: "FeeInvoice \<Rightarrow> BillingStore \<Rightarrow> BillingStore" where
  "upsertInvoice invoice st = st\<lparr>bk_invoices := AList.update (fi_invoiceNumber invoice) invoice (bk_invoices st)\<rparr>"

definition getInvoice :: "string \<Rightarrow> BillingStore \<Rightarrow> FeeInvoice option" where
  "getInvoice invoiceNumber st = map_of (bk_invoices st) invoiceNumber"

definition issued_key :: "FeeInvoice \<Rightarrow> int" where
  "issued_key i = coalesce (fi_issuedAt i) 0"

definition allInvoices :: "BillingStore \<Rightarrow> FeeInvoice list" where
  "allInvoices st = newest_first issued_key (map snd (bk_invoices st))"

definition invoicesForMerchant :: "ident \<Rightarrow> BillingStore \<Rightarrow> FeeInvoice list" where
  "invoicesForMerchant merchantId st =
     newest_first issued_key (filter (\<lambda>i. fi_merchantId i = merchantId) (map snd (bk_invoices st)))"

subsection \<open>The portal\<close>

datatype portal_error = BadRequest "string list" | NotFound string | Unhandled js_error

record AccountView =
  av_account :: BillingAccount
  av_hasPaymentMethod :: bool

definition toView :: "BillingAccount \<Rightarrow> AccountView" where
  "toView account =
     \<lparr>av_account = account\<lparr>ba_paymentMethodRef := None\<rparr>, av_hasPaymentMethod = given (ba_paymentMethodRef account)\<rparr>"

record OptInResult =
  or_account :: AccountView
  or_recordHash :: string
  or_termsVersion :: string
  or_signingKeyId :: string
  or_acceptedAt :: string
  or_payerTrack :: PayerTrack

definition optIn ::
  "(string \<Rightarrow> string) \<Rightarrow> NumberFormat \<Rightarrow> string \<Rightarrow> Signer \<Rightarrow> OptInInput \<Rightarrow> string option \<Rightarrow> string option \<Rightarrow> string
    \<Rightarrow> BillingStore \<Rightarrow> (portal_error + OptInResult) \<times> BillingStore" where
  "optIn H nf body signer input ip userAgent nowIso st =
     (let errors = validateOptIn input in
      if errors \<noteq> [] then (Inl (BadRequest errors), st)
      else
        (case buildBillingAccount input (''acct_'' @ oi_merchantId input) nowIso of
           Inl e \<Rightarrow> (Inl (Unhandled e), st)
         | Inr account \<Rightarrow>
             (let authorized = (if oi_payerTrack input = AutoPay then oi_autoPayAuthorized input = Some True else False);
                  acceptance = buildAcceptance H nf body account (oi_signer input) nowIso authorized signer None ip userAgent
              in (Inr \<lparr>or_account = toView account, or_recordHash = sr_recordHash acceptance,
                       or_termsVersion = ar_termsVersion acceptance, or_signingKeyId = sr_signingKeyId acceptance,
                       or_acceptedAt = ar_acceptedAt acceptance, or_payerTrack = ar_payerTrack acceptance\<rparr>,
                  recordAcceptance acceptance (upsertAccount account st)))))"

definition portal_accountFor :: "ident \<Rightarrow> BillingStore \<Rightarrow> portal_error + AccountView" where
  "portal_accountFor merchantId st =
     (case accountForMerchant merchantId st of
        None \<Rightarrow> Inl (NotFound (''no billing account for merchant '' @ merchantId))
      | Some a \<Rightarrow> Inr (toView a))"

definition portal_invoicesFor :: "ident \<Rightarrow> iso \<Rightarrow> BillingStore \<Rightarrow> FeeInvoice list" where
  "portal_invoicesFor merchantId now st = map (\<lambda>i. invoiceAsOf i now) (invoicesForMerchant merchantId st)"

definition portal_invoice :: "string \<Rightarrow> iso \<Rightarrow> BillingStore \<Rightarrow> portal_error + FeeInvoice" where
  "portal_invoice invoiceNumber now st =
     (case getInvoice invoiceNumber st of
        None \<Rightarrow> Inl (NotFound (''no invoice '' @ invoiceNumber))
      | Some i \<Rightarrow> Inr (invoiceAsOf i now))"

record ForwardToApComposition =
  fw_to :: string
  fw_subject :: string
  fw_body :: string

definition forwardToAp :: "string \<Rightarrow> iso \<Rightarrow> BillingStore \<Rightarrow> portal_error + ForwardToApComposition" where
  "forwardToAp invoiceNumber now st =
     (case portal_invoice invoiceNumber now st of
        Inl e \<Rightarrow> Inl e
      | Inr ivc \<Rightarrow>
          (let due = (case fi_dueAt ivc of Some d \<Rightarrow> take 10 (iso_date_text d) | None \<Rightarrow> []);
               amt = dollars (fi_currency ivc);
               poLine = (if given (fi_poNumber ivc) then newline @ ''PO Number: '' @ coalesce (fi_poNumber ivc) [] else []);
               financeLine = (if 0 < fi_financeChargeMinor ivc
                 then newline @ ''Includes late finance charge: '' @ amt (fi_financeChargeMinor ivc) else [])
           in Inr \<lparr>fw_to = bt_apContactEmail (fi_billTo ivc),
                fw_subject = ''Invoice '' @ fi_invoiceNumber ivc @ '' '' @ emdash @ '' AX10M recovery fee for '' @ fi_period ivc
                  @ '' '' @ emdash @ '' '' @ amt (fi_totalDueMinor ivc) @ '' due '' @ due,
                fw_body = join newline
                  [''Please process the attached AX10M invoice for payment.'', [],
                   ''Bill to:      '' @ bt_legalEntityName (fi_billTo ivc),
                   ''Invoice:      '' @ fi_invoiceNumber ivc,
                   ''Period:       '' @ fi_period ivc,
                   ''Amount due:   '' @ amt (fi_totalDueMinor ivc) @ financeLine,
                   ''Due date:     '' @ due @ '' (net-14)'' @ poLine,
                   ''Remit to:     '' @ fi_remitTo ivc, [],
                   ''This fee is 12% of the incremental recovery AX10M proved this period using your own'',
                   ''randomized holdout. The amount is backed by a signed Uplift Statement (hash'',
                   fi_statementHash ivc @ '') that can be verified against your processor'' @ [apostrophe] @ ''s payout reports.'']\<rparr>))"

subsection \<open>Delivering invoices\<close>

datatype DeliveryStatus = DlSent | DlDryRun | DlFailed | DlDuplicate | DlSkipped

fun delivery_status :: "SendStatus \<Rightarrow> DeliveryStatus" where
  "delivery_status Sent = DlSent"
| "delivery_status DryRun = DlDryRun"
| "delivery_status SendFailed = DlFailed"

record InvoiceDeliveryResult =
  id_invoiceNumber :: string
  id_stage :: "InvoiceDunningStage option"
  id_status :: DeliveryStatus
  id_provider :: "string option"
  id_reason :: "string option"

record 'w DeliveryState =
  dl_sent :: "string list"
  dl_ext :: 'w

definition delivery_result ::
  "FeeInvoice \<Rightarrow> InvoiceDunningStage option \<Rightarrow> DeliveryStatus \<Rightarrow> string option \<Rightarrow> string option \<Rightarrow> InvoiceDeliveryResult" where
  "delivery_result invoice stage status provider reason =
     \<lparr>id_invoiceNumber = fi_invoiceNumber invoice, id_stage = stage, id_status = status, id_provider = provider,
      id_reason = reason\<rparr>"

text \<open>The constructor: a real sender is used only when the service is live.\<close>

definition delivery_sender :: "bool \<Rightarrow> 'w sender option \<Rightarrow> 'w sender" where
  "delivery_sender live sender = (if live then coalesce sender dry_run_send else dry_run_send)"

definition dedupeKey :: "string \<Rightarrow> InvoiceDunningStage \<Rightarrow> string" where
  "dedupeKey invoiceNumber stage = ''invsend:'' @ invoiceNumber @ '':'' @ stage_value stage"

definition deliverStage ::
  "'w sender \<Rightarrow> FeeInvoice \<Rightarrow> InvoiceDunningStage \<Rightarrow> iso \<Rightarrow> ('w DeliveryState, InvoiceDeliveryResult) eff" where
  "deliverStage send invoice stage asOf_iso =
     (let aged = invoiceAsOf invoice asOf_iso;
          email = bt_apContactEmail (fi_billTo aged);
          key = dedupeKey (fi_invoiceNumber invoice) stage
      in if email = [] then ok (delivery_result invoice (Some stage) DlSkipped None (Some ''no AP contact email''))
         else andThen (gets (\<lambda>s. key \<in> set (dl_sent s))) (\<lambda>dup.
           if dup then ok (delivery_result invoice (Some stage) DlDuplicate None None)
           else
             (let rendered = renderInvoiceEmail aged stage;
                  message = \<lparr>dm_channel = DcEmail, dm_subject = Some (ie_subject rendered), dm_body = ie_body rendered,
                             dm_generatedBy = ByTemplate\<rparr>;
                  recipient = \<lparr>dr_channel = DcEmail, dr_email = Some email, dr_phone = None\<rparr>
              in andThen (zoom dl_ext (\<lambda>w s. s\<lparr>dl_ext := w\<rparr>) (send message recipient)) (\<lambda>res.
                andThen (if sd_status res = Sent then modify (\<lambda>s. s\<lparr>dl_sent := List.insert key (dl_sent s)\<rparr>) else ok ())
                  (\<lambda>_. ok (delivery_result invoice (Some stage) (delivery_status (sd_status res)) (Some (sd_provider res))
                    (sd_error res)))))))"

definition deliverDue :: "'w sender \<Rightarrow> FeeInvoice \<Rightarrow> iso \<Rightarrow> ('w DeliveryState, InvoiceDeliveryResult) eff" where
  "deliverDue send invoice asOf_iso =
     (case invoiceDunningStage (invoiceAsOf invoice asOf_iso) asOf_iso of
        None \<Rightarrow> ok (delivery_result invoice None DlSkipped None (Some ''settled or nothing due''))
      | Some stage \<Rightarrow> deliverStage send invoice stage asOf_iso)"

fun deliver_all :: "'w sender \<Rightarrow> FeeInvoice list \<Rightarrow> iso \<Rightarrow> ('w DeliveryState, InvoiceDeliveryResult list) eff" where
  "deliver_all send [] t = ok []"
| "deliver_all send (i # is) t = andThen (deliverDue send i t) (\<lambda>r. andThen (deliver_all send is t) (\<lambda>rs. ok (r # rs)))"

record InvoiceDunningSummary =
  ds_live :: bool
  ds_considered :: int
  ds_sent :: int
  ds_dryRun :: int
  ds_duplicate :: int
  ds_skipped :: int
  ds_failed :: int
  ds_results :: "InvoiceDeliveryResult list"

definition tally :: "InvoiceDeliveryResult list \<Rightarrow> DeliveryStatus \<Rightarrow> int" where
  "tally results s = int (length (filter (\<lambda>r. id_status r = s) results))"

definition runSweep :: "bool \<Rightarrow> 'w sender \<Rightarrow> FeeInvoice list \<Rightarrow> iso \<Rightarrow> ('w DeliveryState, InvoiceDunningSummary) eff" where
  "runSweep live send invoices asOf_iso =
     andThen (deliver_all send invoices asOf_iso) (\<lambda>results. ok
       \<lparr>ds_live = live, ds_considered = int (length invoices), ds_sent = tally results DlSent,
        ds_dryRun = tally results DlDryRun, ds_duplicate = tally results DlDuplicate, ds_skipped = tally results DlSkipped,
        ds_failed = tally results DlFailed, ds_results = results\<rparr>)"

subsection \<open>Issuing the invoices of a run\<close>

definition statement_for_invoice :: "SignedBillableStatement \<Rightarrow> BillingMerchantResult \<Rightarrow> StatementForInvoice" where
  "statement_for_invoice signed mr =
     \<lparr>st_merchantId = bs_merchantId signed, st_period = bs_period signed, st_currency = bs_currency signed,
      st_feeMinor = mr_netBilledMinor mr, st_upliftLowerMinor = amount (br_billableIncrement (bs_result signed)),
      st_statementHash = ss_statementHash signed, st_billable = br_billable (bs_result signed),
      st_grossFeeMinor = Some (mr_feeMinor mr), st_holdoutCreditMinor = Some (mr_holdoutCreditMinor mr),
      st_estimatedHoldoutCostMinor = Some (mr_estimatedHoldoutCostMinor mr)\<rparr>"

text \<open>The invoice of one statement, if the job issues one.\<close>

definition invoice_for ::
  "BillingStore \<Rightarrow> BillingMerchantResult list \<Rightarrow> iso \<Rightarrow> string \<Rightarrow> SignedBillableStatement \<Rightarrow> js_error + FeeInvoice option" where
  "invoice_for st results now remitTo signed =
     (case List.find (\<lambda>mr. mr_merchantId mr = bs_merchantId signed) (rev results) of
        None \<Rightarrow> Inr None
      | Some mr \<Rightarrow>
          if \<not> br_billable (bs_result signed) \<or> mr_netBilledMinor mr \<le> 0 then Inr None
          else
            (case accountForMerchant (bs_merchantId signed) st of
               None \<Rightarrow> Inr None
             | Some account \<Rightarrow>
                 (case buildInvoice account (statement_for_invoice signed mr) now remitTo of
                    Inl e \<Rightarrow> Inl e | Inr i \<Rightarrow> Inr (Some i))))"

record 'w JobState =
  jb_store :: BillingStore
  jb_delivery :: "'w DeliveryState"

fun issue_invoices ::
  "'w sender \<Rightarrow> BillingMerchantResult list \<Rightarrow> iso \<Rightarrow> string \<Rightarrow> SignedBillableStatement list
    \<Rightarrow> ('w JobState, FeeInvoice list) eff" where
  "issue_invoices send results now remitTo [] = ok []"
| "issue_invoices send results now remitTo (signed # rest) =
     andThen (gets (\<lambda>s. invoice_for (jb_store s) results now remitTo signed)) (\<lambda>found.
       andThen (lift_sum found) (\<lambda>ivc.
         case ivc of
           None \<Rightarrow> issue_invoices send results now remitTo rest
         | Some i \<Rightarrow>
             andThen (modify (\<lambda>s. s\<lparr>jb_store := upsertInvoice i (jb_store s)\<rparr>)) (\<lambda>_.
             andThen (zoom jb_delivery (\<lambda>d s. s\<lparr>jb_delivery := d\<rparr>) (deliverStage send i StIssued now)) (\<lambda>_.
             andThen (issue_invoices send results now remitTo rest) (\<lambda>is. ok (i # is))))))"

subsection \<open>What the portal guarantees\<close>

text \<open>Every stored account is well-formed, and no opt-in throws after its validation passed.\<close>

definition store_ok :: "BillingStore \<Rightarrow> bool" where
  "store_ok st \<longleftrightarrow> distinct (map fst (bk_accounts st))
     \<and> (\<forall>(i, a) \<in> set (bk_accounts st). ba_accountId a = i \<and> account_wf a \<and> ba_accountId a = ''acct_'' @ ba_merchantId a)"

lemma store_ok_empty [simp]: "store_ok empty_store"
  by (simp add: store_ok_def empty_store_def)

lemma buildBillingAccount_fields:
  "buildBillingAccount input i t = Inr a \<Longrightarrow> ba_accountId a = i \<and> ba_merchantId a = oi_merchantId input"
  by (auto simp: buildBillingAccount_def Let_def split: if_splits)

lemma set_update_subset: "set (AList.update k v al) \<subseteq> insert (k, v) (set al)"
  by (induction al) auto

lemma store_ok_upsert:
  assumes "store_ok st" "account_wf a" "ba_accountId a = ''acct_'' @ ba_merchantId a"
  shows "store_ok (upsertAccount a st)"
proof -
  have "x = (ba_accountId a, a) \<or> x \<in> set (bk_accounts st)" if "x \<in> set (AList.update (ba_accountId a) a (bk_accounts st))" for x
    using that set_update_subset by fastforce
  then show ?thesis
    using assms distinct_update [of "bk_accounts st" "ba_accountId a" a]
    by (fastforce simp: store_ok_def upsertAccount_def)
qed

lemma optIn_store_ok:
  assumes "store_ok st"
  shows "store_ok (snd (optIn H nf body signer input ip ua t st))"
proof (cases "buildBillingAccount input (''acct_'' @ oi_merchantId input) t")
  case (Inr a)
  have "store_ok (upsertAccount a st)"
    using assms buildBillingAccount_wf [OF Inr] buildBillingAccount_fields [OF Inr] by (intro store_ok_upsert) simp_all
  moreover have "store_ok (recordAcceptance r s) = store_ok s" for r s
    by (simp add: recordAcceptance_def store_ok_def)
  ultimately show ?thesis using assms Inr by (simp add: optIn_def Let_def)
qed (use assms in \<open>simp add: optIn_def Let_def\<close>)

lemma optIn_rejects:
  "validateOptIn input \<noteq> [] \<Longrightarrow> optIn H nf body signer input ip ua t st = (Inl (BadRequest (validateOptIn input)), st)"
  by (simp add: optIn_def Let_def)

lemma optIn_accepts:
  assumes "validateOptIn input = []"
  shows "\<exists>r. fst (optIn H nf body signer input ip ua t st) = Inr r
    \<and> ba_paymentMethodRef (av_account (or_account r)) = None
    \<and> getAccount (''acct_'' @ oi_merchantId input) (snd (optIn H nf body signer input ip ua t st)) \<noteq> None
    \<and> map_of (bk_acceptances (snd (optIn H nf body signer input ip ua t st))) (or_recordHash r) \<noteq> None"
  using assms
  by (simp add: optIn_def Let_def buildBillingAccount_def toView_def recordAcceptance_def upsertAccount_def getAccount_def
      update_conv')

subsection \<open>What delivery guarantees\<close>

lemma deliverStage_sent_once:
  assumes "deliverStage send i st t s = (Inr r, s')" "id_status r = DlSent"
  shows "dedupeKey (fi_invoiceNumber i) st \<in> set (dl_sent s')" "dedupeKey (fi_invoiceNumber i) st \<notin> set (dl_sent s)"
  using assms
  by (auto simp: deliverStage_def delivery_result_def eff_defs Let_def
      elim: delivery_status.elims split: if_splits prod.splits sum.splits)

lemma deliverStage_keeps_keys:
  "set (dl_sent s) \<subseteq> set (dl_sent (snd (deliverStage send i st t s)))"
  by (auto simp: deliverStage_def delivery_result_def eff_defs Let_def split: if_splits prod.splits sum.splits)

lemma deliverStage_duplicate:
  assumes "dedupeKey (fi_invoiceNumber i) st \<in> set (dl_sent s)" "bt_apContactEmail (fi_billTo i) \<noteq> []"
  shows "deliverStage send i st t s = (Inr (delivery_result i (Some st) DlDuplicate None None), s)"
  using assms by (simp add: deliverStage_def eff_defs Let_def)

lemma deliverDue_keeps_keys: "set (dl_sent s) \<subseteq> set (dl_sent (snd (deliverDue send i t s)))"
  by (cases "invoiceDunningStage (invoiceAsOf i t) t") (simp_all add: deliverDue_def ok_def deliverStage_keeps_keys)

lemma deliver_all_keeps_keys: "set (dl_sent s) \<subseteq> set (dl_sent (snd (deliver_all send is t s)))"
proof (induction "is" arbitrary: s)
  case (Cons i "is")
  obtain r s1 where r: "deliverDue send i t s = (r, s1)" by fastforce
  with deliverDue_keeps_keys [of s send i t] Cons.IH [of s1] show ?case
    by (cases r; cases "deliver_all send is t s1") (auto simp: andThen_def ok_def split: sum.splits)
qed (simp add: ok_def)

text \<open>A service that is not live never touches the transport.\<close>

lemma dry_run_ext: "snd (dry_run_send m r w) = w"
  by (simp add: dry_run_send_def ok_def split: option.splits)

lemma deliverStage_not_live:
  "dl_ext (snd (deliverStage (delivery_sender False sender) i st t s)) = dl_ext s"
proof -
  have "dry_run_send m r w = (fst (dry_run_send m r w), w)" for m r and w :: 'a
    using dry_run_ext [of m r w] by (metis prod.collapse)
  then show ?thesis
    by (auto simp: deliverStage_def delivery_sender_def eff_defs Let_def split: if_splits prod.splits sum.splits)
      (metis prod.inject)+
qed

subsection \<open>What the issued invoices guarantee\<close>

lemma invoice_for_adds_up:
  assumes "invoice_for st results now remitTo signed = Inr (Some i)"
    and "\<forall>mr \<in> set results. mr_netBilledMinor mr = max 0 (mr_feeMinor mr - mr_holdoutCreditMinor mr) \<and> 0 \<le> mr_holdoutCreditMinor mr"
  shows "0 < fi_totalDueMinor i" "sum_list (map li_amountMinor (fi_lineItems i)) = fi_subtotalMinor i"
    "fi_totalDueMinor i = fi_subtotalMinor i" "fi_statementHash i = ss_statementHash signed" "br_billable (bs_result signed)"
proof -
  obtain mr account where mr: "List.find (\<lambda>mr. mr_merchantId mr = bs_merchantId signed) (rev results) = Some mr"
    and gates: "br_billable (bs_result signed)" "0 < mr_netBilledMinor mr"
    and b: "buildInvoice account (statement_for_invoice signed mr) now remitTo = Inr i"
    using assms(1) by (auto simp: invoice_for_def split: option.splits if_splits sum.splits)
  have net: "mr_netBilledMinor mr = mr_feeMinor mr - mr_holdoutCreditMinor mr" "0 \<le> mr_holdoutCreditMinor mr"
    using find_Some_set [OF mr] assms(2) gates(2) by (fastforce simp: max_def split: if_splits)+
  show "0 < fi_totalDueMinor i" "fi_totalDueMinor i = fi_subtotalMinor i" "fi_statementHash i = ss_statementHash signed"
    using buildInvoice_Inr [OF b] gates(2) by (simp_all add: statement_for_invoice_def)
  show "sum_list (map li_amountMinor (fi_lineItems i)) = fi_subtotalMinor i"
    using net by (intro invoice_lines_sum [OF b]) (simp_all add: statement_for_invoice_def)
  show "br_billable (bs_result signed)" by (rule gates(1))
qed

end
