(* ===== verification/DeclineMaps.thy ===== *)
theory DeclineMaps
  imports Comms
begin

text \<open>
  The decline maps of the processor adapters (\<open>packages/poal/src/stripe/decline-map.ts\<close> and the
  \<open>decline-map.ts\<close>, \<open>cause-map.ts\<close>, \<open>response-map.ts\<close> and \<open>notification-map.ts\<close> files under
  \<open>adapters/\<close>): what a processor says about a refused payment, as a canonical decline code.

  A map is a table: an object indexed by the raw code, or a list of keywords of which the
  first that occurs in the text wins. An unmapped reason is \<open>UnknownDecline\<close>. A table's lookup
  is that of its own keys; the names JavaScript objects inherit (\<open>constructor\<close>, \<open>__proto__\<close>,
  for which the source's lookup finds a member of the prototype) are no processor's codes.
  Case conversion is that of ASCII letters.
\<close>

subsection \<open>Lookup\<close>

definition ascii_upper :: "char \<Rightarrow> char" where
  "ascii_upper c = (if 97 \<le> code_of c \<and> code_of c \<le> 122 then char_of (code_of c - 32) else c)"

definition to_upper :: "string \<Rightarrow> string" where
  "to_upper s = map ascii_upper s"

text \<open>\<open>for (const [keyword, code] of rules) if (s.includes(keyword)) return code\<close>\<close>

fun first_rule :: "(string \<times> DeclineCode) list \<Rightarrow> string \<Rightarrow> DeclineCode option" where
  "first_rule [] s = None"
| "first_rule ((k, c) # rules) s = (if str_includes s k then Some c else first_rule rules s)"

text \<open>\<open>if (!raw) return Unknown\<close>: an absent or empty reason is unknown.\<close>

definition of_raw :: "(string \<Rightarrow> DeclineCode) \<Rightarrow> string option \<Rightarrow> DeclineCode" where
  "of_raw f raw = (case raw of None \<Rightarrow> UnknownDecline
                   | Some s \<Rightarrow> if s = '''' then UnknownDecline else f s)"

subsection \<open>Tables indexed by the code\<close>

definition STRIPE_DECLINE_MAP :: "(string \<times> DeclineCode) list" where
  "STRIPE_DECLINE_MAP =
    [(''insufficient_funds'', InsufficientFunds),
     (''issuer_not_available'', IssuerUnavailable),
     (''processing_error'', ProcessingError),
     (''card_velocity_exceeded'', VelocityLimitExceeded),
     (''authentication_required'', AuthenticationRequired),
     (''try_again_later'', TryAgainLater),
     (''reenter_transaction'', TryAgainLater),
     (''lost_card'', LostCard),
     (''stolen_card'', StolenCard),
     (''closed_account'', ClosedAccount),
     (''invalid_account'', InvalidCard),
     (''invalid_number'', InvalidCard),
     (''pickup_card'', PickupCard),
     (''card_not_supported'', CardNotSupported),
     (''revocation_of_authorization'', RevocationOfAuthorization),
     (''do_not_honor'', DoNotHonor),
     (''fraudulent'', Fraudulent),
     (''merchant_blacklist'', Fraudulent),
     (''expired_card'', ExpiredCard)]"

definition mapStripeDeclineCode :: "string option \<Rightarrow> DeclineCode" where
  "mapStripeDeclineCode = of_raw (\<lambda>s. coalesce (map_of STRIPE_DECLINE_MAP (s)) UnknownDecline)"

definition CHARGEBEE_DECLINE_MAP :: "(string \<times> DeclineCode) list" where
  "CHARGEBEE_DECLINE_MAP =
    [(''insufficient_funds'', InsufficientFunds),
     (''insufficient-funds'', InsufficientFunds),
     (''issuer_not_available'', IssuerUnavailable),
     (''issuer_unavailable'', IssuerUnavailable),
     (''processing_error'', ProcessingError),
     (''payment_gateway_currently_unreachable'', IssuerUnavailable),
     (''try_again_later'', TryAgainLater),
     (''reenter_transaction'', TryAgainLater),
     (''card_velocity_exceeded'', VelocityLimitExceeded),
     (''approve_with_id'', VelocityLimitExceeded),
     (''authentication_required'', AuthenticationRequired),
     (''three_d_secure_failure'', AuthenticationRequired),
     (''lost_card'', LostCard),
     (''stolen_card'', StolenCard),
     (''pickup_card'', PickupCard),
     (''closed_account'', ClosedAccount),
     (''invalid_account'', InvalidCard),
     (''invalid_number'', InvalidCard),
     (''invalid_card'', InvalidCard),
     (''no_such_issuer'', InvalidCard),
     (''card_not_supported'', CardNotSupported),
     (''currency_not_supported'', CardNotSupported),
     (''revocation_of_authorization'', RevocationOfAuthorization),
     (''revocation_of_all_authorizations'', RevocationOfAuthorization),
     (''do_not_honor'', DoNotHonor),
     (''card_declined'', DoNotHonor),
     (''fraudulent'', Fraudulent),
     (''fraudulent_transaction'', Fraudulent),
     (''merchant_blacklist'', Fraudulent),
     (''suspected_fraud'', Fraudulent),
     (''expired_card'', ExpiredCard),
     (''expired-card'', ExpiredCard)]"

definition mapChargebeeDeclineCode :: "string option \<Rightarrow> DeclineCode" where
  "mapChargebeeDeclineCode = of_raw (\<lambda>s. coalesce (map_of CHARGEBEE_DECLINE_MAP (to_lower s)) UnknownDecline)"

definition CHECKOUT_DECLINE_MAP :: "(string \<times> DeclineCode) list" where
  "CHECKOUT_DECLINE_MAP =
    [(''20051'', InsufficientFunds),
     (''20005'', InvalidCard),
     (''20014'', InvalidCard),
     (''20055'', InvalidCard),
     (''20012'', InvalidCard),
     (''20054'', ExpiredCard),
     (''20001'', RevocationOfAuthorization),
     (''20002'', RevocationOfAuthorization),
     (''20004'', PickupCard),
     (''20007'', PickupCard),
     (''20041'', LostCard),
     (''20042'', StolenCard),
     (''20059'', StolenCard),
     (''20063'', StolenCard),
     (''20006'', DoNotHonor),
     (''20046'', DoNotHonor),
     (''20087'', DoNotHonor),
     (''20093'', Fraudulent),
     (''40101'', Fraudulent),
     (''20068'', IssuerUnavailable),
     (''20091'', IssuerUnavailable),
     (''30041'', ProcessingError),
     (''20061'', VelocityLimitExceeded),
     (''20065'', VelocityLimitExceeded),
     (''20150'', AuthenticationRequired),
     (''20057'', CardNotSupported),
     (''20058'', CardNotSupported)]"

definition mapCheckoutResponseCode :: "string option \<Rightarrow> DeclineCode" where
  "mapCheckoutResponseCode = of_raw (\<lambda>s. coalesce (map_of CHECKOUT_DECLINE_MAP (trim s)) UnknownDecline)"

definition RECURLY_DECLINE_MAP :: "(string \<times> DeclineCode) list" where
  "RECURLY_DECLINE_MAP =
    [(''insufficient_funds'', InsufficientFunds),
     (''try_again_later'', TryAgainLater),
     (''authentication_required'', AuthenticationRequired),
     (''expired_card'', ExpiredCard),
     (''card_not_supported'', CardNotSupported),
     (''invalid_card'', InvalidCard),
     (''invalid_number'', InvalidCard),
     (''lost_card'', LostCard),
     (''stolen_card'', StolenCard),
     (''closed_account'', ClosedAccount),
     (''declined'', DoNotHonor),
     (''call_issuer'', DoNotHonor),
     (''fraud'', Fraudulent)]"

definition mapRecurlyDeclineCode :: "string option \<Rightarrow> DeclineCode" where
  "mapRecurlyDeclineCode = of_raw (\<lambda>s. coalesce (map_of RECURLY_DECLINE_MAP (to_lower (trim s))) UnknownDecline)"

definition SHOPIFY_DECLINE_MAP :: "(string \<times> DeclineCode) list" where
  "SHOPIFY_DECLINE_MAP =
    [(''payment_method_declined'', DoNotHonor),
     (''card_declined'', DoNotHonor),
     (''insufficient_funds'', InsufficientFunds),
     (''expired_payment_method'', ExpiredCard),
     (''invalid_payment_method'', InvalidCard),
     (''payment_method_not_found'', InvalidCard),
     (''authentication_error'', AuthenticationRequired)]"

definition mapShopifyDeclineCode :: "string option \<Rightarrow> DeclineCode" where
  "mapShopifyDeclineCode = of_raw (\<lambda>s. coalesce (map_of SHOPIFY_DECLINE_MAP (to_lower (trim s))) UnknownDecline)"

definition GOCARDLESS_CAUSE_MAP :: "(string \<times> DeclineCode) list" where
  "GOCARDLESS_CAUSE_MAP =
    [(''insufficient_funds'', InsufficientFunds),
     (''refer_to_payer'', InsufficientFunds),
     (''bank_account_closed'', ClosedAccount),
     (''account_closed'', ClosedAccount),
     (''bank_account_transferred'', ProcessingError),
     (''invalid_bank_details'', InvalidCard),
     (''invalid_account_number'', InvalidCard),
     (''mandate_cancelled'', RevocationOfAuthorization),
     (''mandate_expired'', RevocationOfAuthorization),
     (''mandate_suspended'', RevocationOfAuthorization),
     (''payment_stopped'', RevocationOfAuthorization),
     (''user_cancelled'', RevocationOfAuthorization),
     (''customer_approval_denied'', RevocationOfAuthorization),
     (''authorisation_disputed'', DoNotHonor),
     (''return_on_odfi_request'', DoNotHonor),
     (''debit_authority_limit_breached'', VelocityLimitExceeded),
     (''direct_debit_not_enabled'', CardNotSupported)]"

definition mapGoCardlessCause :: "string option \<Rightarrow> DeclineCode" where
  "mapGoCardlessCause = of_raw (\<lambda>s. coalesce (map_of GOCARDLESS_CAUSE_MAP (to_lower (trim s))) UnknownDecline)"

definition BRAINTREE_DECLINE_MAP :: "(string \<times> DeclineCode) list" where
  "BRAINTREE_DECLINE_MAP =
    [(''2000'', DoNotHonor),
     (''2001'', InsufficientFunds),
     (''2002'', VelocityLimitExceeded),
     (''2003'', VelocityLimitExceeded),
     (''2004'', ExpiredCard),
     (''2005'', InvalidCard),
     (''2006'', InvalidCard),
     (''2007'', ClosedAccount),
     (''2008'', InvalidCard),
     (''2009'', IssuerUnavailable),
     (''2010'', Fraudulent),
     (''2011'', AuthenticationRequired),
     (''2012'', LostCard),
     (''2013'', StolenCard),
     (''2014'', Fraudulent),
     (''2015'', CardNotSupported),
     (''2019'', ProcessingError),
     (''2024'', CardNotSupported),
     (''2038'', DoNotHonor),
     (''2044'', DoNotHonor),
     (''2046'', DoNotHonor),
     (''2047'', PickupCard),
     (''2057'', CardNotSupported)]"

definition mapBraintreeDeclineCode :: "string option \<Rightarrow> DeclineCode" where
  "mapBraintreeDeclineCode = of_raw (\<lambda>s. coalesce (map_of BRAINTREE_DECLINE_MAP (trim s)) UnknownDecline)"

definition PAYPAL_DECLINE_MAP :: "(string \<times> DeclineCode) list" where
  "PAYPAL_DECLINE_MAP =
    [(''instrument_declined'', DoNotHonor),
     (''transaction_refused'', DoNotHonor),
     (''card_refused'', DoNotHonor),
     (''declined'', DoNotHonor),
     (''do_not_honor'', DoNotHonor),
     (''05'', DoNotHonor),
     (''insufficient_funds'', InsufficientFunds),
     (''51'', InsufficientFunds),
     (''expired_card'', ExpiredCard),
     (''card_expired'', ExpiredCard),
     (''54'', ExpiredCard),
     (''card_closed'', ClosedAccount),
     (''closed_account'', ClosedAccount),
     (''authentication_required'', AuthenticationRequired),
     (''payer_action_required'', AuthenticationRequired),
     (''3d_secure_required'', AuthenticationRequired),
     (''try_again_later'', TryAgainLater),
     (''reattempt_transaction'', TryAgainLater),
     (''issuer_unavailable'', IssuerUnavailable)]"

definition mapPaypalDeclineCode :: "string option \<Rightarrow> DeclineCode" where
  "mapPaypalDeclineCode = of_raw (\<lambda>raw.
     (let s = to_lower (trim raw) in
      case map_of PAYPAL_DECLINE_MAP s of
        Some exact \<Rightarrow> exact
      | None \<Rightarrow>
          if str_includes s ''authentication'' then AuthenticationRequired
          else if str_includes s ''insufficient'' then InsufficientFunds
          else if str_includes s ''expired'' then ExpiredCard
          else if str_includes s ''closed'' then ClosedAccount
          else if str_includes s ''declined'' \<or> str_includes s ''refused'' then DoNotHonor
          else UnknownDecline))"

subsection \<open>Tables of keywords\<close>

definition MAXIO_DECLINE_RULES :: "(string \<times> DeclineCode) list" where
  "MAXIO_DECLINE_RULES =
    [(''insufficient'', InsufficientFunds),
     (''expired'', ExpiredCard),
     (''lost'', LostCard),
     (''stolen'', StolenCard),
     (''incorrect_number'', InvalidCard),
     (''incorrect number'', InvalidCard),
     (''invalid'', InvalidCard),
     (''do not honor'', DoNotHonor),
     (''do not honour'', DoNotHonor),
     (''card_declined'', DoNotHonor),
     (''declined'', DoNotHonor)]"

definition mapMaxioDeclineCode :: "string option \<Rightarrow> DeclineCode" where
  "mapMaxioDeclineCode = of_raw (\<lambda>s. coalesce (first_rule MAXIO_DECLINE_RULES (to_lower (trim s))) UnknownDecline)"

definition WOO_KEYWORD_MAP :: "(string \<times> DeclineCode) list" where
  "WOO_KEYWORD_MAP =
    [(''insufficient'', InsufficientFunds),
     (''expired'', ExpiredCard),
     (''do not honor'', DoNotHonor),
     (''do not honour'', DoNotHonor),
     (''lost'', LostCard),
     (''stolen'', StolenCard),
     (''invalid'', InvalidCard),
     (''declined'', DoNotHonor)]"

definition mapWooDeclineCode :: "string option \<Rightarrow> DeclineCode" where
  "mapWooDeclineCode = of_raw (\<lambda>s. coalesce (first_rule WOO_KEYWORD_MAP (to_lower s)) UnknownDecline)"

definition ZUORA_DECLINE_RULES :: "(string \<times> DeclineCode) list" where
  "ZUORA_DECLINE_RULES =
    [(''insufficient'', InsufficientFunds),
     (''expired'', ExpiredCard),
     (''lost'', LostCard),
     (''stolen'', StolenCard),
     (''pick up'', PickupCard),
     (''pickup'', PickupCard),
     (''do not honor'', DoNotHonor),
     (''do not honour'', DoNotHonor),
     (''declined'', DoNotHonor),
     (''invalid'', InvalidCard)]"

definition mapZuoraDeclineCode :: "string option \<Rightarrow> DeclineCode" where
  "mapZuoraDeclineCode = of_raw (\<lambda>s. coalesce (first_rule ZUORA_DECLINE_RULES (to_lower (trim s))) UnknownDecline)"

definition MESSAGE_KEYWORDS_elavon :: "(string \<times> DeclineCode) list" where
  "MESSAGE_KEYWORDS_elavon =
    [(''INSUFFICIENT FUNDS'', InsufficientFunds),
     (''NOT SUFFICIENT FUNDS'', InsufficientFunds),
     (''EXPIRED CARD'', ExpiredCard),
     (''EXPIRED'', ExpiredCard),
     (''PICK UP CARD'', PickupCard),
     (''PICKUP'', PickupCard),
     (''LOST'', LostCard),
     (''STOLEN'', StolenCard),
     (''CLOSED ACCOUNT'', ClosedAccount),
     (''NO ACCOUNT'', ClosedAccount),
     (''DO NOT HONOR'', DoNotHonor),
     (''DO NOT HONOUR'', DoNotHonor),
     (''FRAUD'', Fraudulent),
     (''SECURITY VIOLATION'', Fraudulent),
     (''INVALID'', InvalidCard),
     (''CARD NOT SUPPORTED'', CardNotSupported),
     (''NOT PERMITTED'', CardNotSupported),
     (''EXCEEDS'', VelocityLimitExceeded),
     (''VELOCITY'', VelocityLimitExceeded),
     (''ISSUER'', IssuerUnavailable),
     (''UNAVAILABLE'', IssuerUnavailable),
     (''TRY AGAIN'', TryAgainLater),
     (''REENTER'', TryAgainLater),
     (''DECLINE'', DoNotHonor)]"

definition mapElavonDeclineCode :: "string option \<Rightarrow> string option \<Rightarrow> DeclineCode" where
  "mapElavonDeclineCode resultMessage code =
     (case first_rule MESSAGE_KEYWORDS_elavon (to_upper (coalesce resultMessage '''')) of
        Some mapped \<Rightarrow> mapped
      | None \<Rightarrow> if given code \<and> code \<noteq> Some ''0'' then DoNotHonor else UnknownDecline)"

definition CODE_MAP_tsys :: "(string \<times> DeclineCode) list" where
  "CODE_MAP_tsys =
    [(''51'', InsufficientFunds),
     (''61'', VelocityLimitExceeded),
     (''65'', VelocityLimitExceeded),
     (''54'', ExpiredCard),
     (''41'', LostCard),
     (''43'', StolenCard),
     (''04'', PickupCard),
     (''07'', PickupCard),
     (''05'', DoNotHonor),
     (''14'', InvalidCard),
     (''15'', InvalidCard),
     (''78'', InvalidCard),
     (''57'', CardNotSupported),
     (''58'', CardNotSupported),
     (''62'', CardNotSupported),
     (''59'', Fraudulent),
     (''63'', Fraudulent),
     (''91'', IssuerUnavailable),
     (''96'', ProcessingError)]"

definition MESSAGE_KEYWORDS_tsys :: "(string \<times> DeclineCode) list" where
  "MESSAGE_KEYWORDS_tsys =
    [(''INSUFFICIENT'', InsufficientFunds),
     (''EXPIRED'', ExpiredCard),
     (''PICK UP'', PickupCard),
     (''PICKUP'', PickupCard),
     (''LOST'', LostCard),
     (''STOLEN'', StolenCard),
     (''DO NOT HONOR'', DoNotHonor),
     (''DO NOT HONOUR'', DoNotHonor),
     (''FRAUD'', Fraudulent),
     (''INVALID'', InvalidCard),
     (''NOT PERMITTED'', CardNotSupported),
     (''RESTRICTED'', CardNotSupported),
     (''EXCEEDS'', VelocityLimitExceeded),
     (''UNAVAILABLE'', IssuerUnavailable),
     (''INOPERATIVE'', IssuerUnavailable)]"

definition mapTsysDeclineCode :: "string option \<Rightarrow> string option \<Rightarrow> DeclineCode" where
  "mapTsysDeclineCode responseCode responseMessage =
     (case (if given responseCode then map_of CODE_MAP_tsys (trim (coalesce responseCode '''')) else None) of
        Some mapped \<Rightarrow> mapped
      | None \<Rightarrow> coalesce (first_rule MESSAGE_KEYWORDS_tsys (to_upper (coalesce responseMessage ''''))) UnknownDecline)"

definition WORLDPAY_REFUSAL_CODES :: "(string \<times> DeclineCode) list" where
  "WORLDPAY_REFUSAL_CODES =
    [(''01'', DoNotHonor),
     (''02'', DoNotHonor),
     (''04'', PickupCard),
     (''05'', DoNotHonor),
     (''12'', InvalidCard),
     (''13'', ProcessingError),
     (''14'', InvalidCard),
     (''15'', InvalidCard),
     (''30'', ProcessingError),
     (''41'', LostCard),
     (''43'', StolenCard),
     (''51'', InsufficientFunds),
     (''54'', ExpiredCard),
     (''57'', CardNotSupported),
     (''58'', CardNotSupported),
     (''59'', Fraudulent),
     (''61'', VelocityLimitExceeded),
     (''62'', CardNotSupported),
     (''65'', VelocityLimitExceeded),
     (''75'', InvalidCard),
     (''78'', InvalidCard),
     (''91'', IssuerUnavailable),
     (''96'', ProcessingError)]"

definition WORLDPAY_DESCRIPTION_RULES :: "(string \<times> DeclineCode) list" where
  "WORLDPAY_DESCRIPTION_RULES =
    [(''insufficient funds'', InsufficientFunds),
     (''expired'', ExpiredCard),
     (''lost card'', LostCard),
     (''stolen card'', StolenCard),
     (''pick up card'', PickupCard),
     (''pickup card'', PickupCard),
     (''do not honor'', DoNotHonor),
     (''do not honour'', DoNotHonor),
     (''refer to card issuer'', DoNotHonor),
     (''invalid card number'', InvalidCard),
     (''invalid card'', InvalidCard),
     (''invalid transaction'', InvalidCard),
     (''not permitted'', CardNotSupported),
     (''restricted card'', CardNotSupported),
     (''suspected fraud'', Fraudulent),
     (''fraud'', Fraudulent),
     (''exceeds'', VelocityLimitExceeded),
     (''issuer'', IssuerUnavailable),
     (''system malfunction'', ProcessingError)]"

definition mapWorldpayRefusal :: "string option \<Rightarrow> string option \<Rightarrow> DeclineCode" where
  "mapWorldpayRefusal code description =
     (case (if given code then
              (let trimmed = trim (coalesce code '''');
                   key = (if length trimmed = 1 \<and> list_all is_digit trimmed then ''0'' @ trimmed else trimmed)
               in or_else (map_of WORLDPAY_REFUSAL_CODES key) (map_of WORLDPAY_REFUSAL_CODES trimmed))
            else None) of
        Some mapped \<Rightarrow> mapped
      | None \<Rightarrow>
          if given description then
            coalesce (first_rule WORLDPAY_DESCRIPTION_RULES (to_lower (trim (coalesce description '''')))) UnknownDecline
          else UnknownDecline)"

definition ADYEN_REFUSAL_RULES :: "(string \<times> DeclineCode) list" where
  "ADYEN_REFUSAL_RULES =
    [(''not enough balance'', InsufficientFunds),
     (''insufficient funds'', InsufficientFunds),
     (''issuer unavailable'', IssuerUnavailable),
     (''acquirer error'', ProcessingError),
     (''expired'', ExpiredCard),
     (''invalid card number'', InvalidCard),
     (''invalid card'', InvalidCard),
     (''invalid amount'', ProcessingError),
     (''3d not authenticated'', AuthenticationRequired),
     (''not 3d authenticated'', AuthenticationRequired),
     (''blocked card'', PickupCard),
     (''restricted card'', CardNotSupported),
     (''not supported'', CardNotSupported),
     (''transaction not permitted'', CardNotSupported),
     (''withdrawal amount exceeded'', VelocityLimitExceeded),
     (''withdrawal count exceeded'', VelocityLimitExceeded),
     (''revocation of auth'', RevocationOfAuthorization),
     (''cvc declined'', Fraudulent),
     (''fraud'', Fraudulent),
     (''referral'', DoNotHonor),
     (''declined non generic'', DoNotHonor),
     (''refused'', DoNotHonor)]"

definition ADYEN_REFUSAL_CODES :: "(string \<times> DeclineCode) list" where
  "ADYEN_REFUSAL_CODES =
    [(''2'', DoNotHonor),
     (''3'', DoNotHonor),
     (''4'', ProcessingError),
     (''5'', PickupCard),
     (''6'', ExpiredCard),
     (''8'', InvalidCard),
     (''9'', IssuerUnavailable),
     (''10'', CardNotSupported),
     (''11'', AuthenticationRequired),
     (''12'', InsufficientFunds),
     (''23'', CardNotSupported),
     (''24'', Fraudulent),
     (''25'', CardNotSupported),
     (''26'', RevocationOfAuthorization),
     (''27'', DoNotHonor)]"

text \<open>\<open>s.match(/^(\d+)\b/)?.[1] ?? (/^\d+$/.test(s) ? s : undefined)\<close>: the digits \<open>s\<close> starts with,
  when no word character follows them.\<close>

definition leading_number :: "string \<Rightarrow> string option" where
  "leading_number s =
     (let d = takeWhile is_digit s; rest = dropWhile is_digit s in
      if d \<noteq> [] \<and> (rest = [] \<or> \<not> is_word (hd rest)) then Some d else None)"

definition mapAdyenRefusalReason :: "string option \<Rightarrow> DeclineCode" where
  "mapAdyenRefusalReason = of_raw (\<lambda>raw.
     (let s = to_lower (trim raw) in
      case first_rule ADYEN_REFUSAL_RULES s of
        Some code \<Rightarrow> code
      | None \<Rightarrow> (case leading_number s of
                   None \<Rightarrow> UnknownDecline
                 | Some numeric \<Rightarrow> coalesce (map_of ADYEN_REFUSAL_CODES numeric) UnknownDecline)))"

subsection \<open>Properties\<close>

lemma first_rule_skip:
  "\<forall>r\<in>set before. \<not> str_includes s (fst r) \<Longrightarrow> first_rule (before @ rules) s = first_rule rules s"
proof (induction before)
  case (Cons r before)
  then show ?case by (cases r) simp
qed simp

lemma first_rule_SomeD:
  "first_rule rules s = Some c \<Longrightarrow>
     \<exists>before k after. rules = before @ (k, c) # after \<and> str_includes s k \<and>
        (\<forall>r\<in>set before. \<not> str_includes s (fst r))"
proof (induction rules)
  case (Cons r rules)
  obtain k d where r: "r = (k, d)" by (cases r)
  show ?case
  proof (cases "str_includes s k")
    case True
    then have "r # rules = [] @ (k, c) # rules" using Cons.prems r by simp
    then show ?thesis using True by fastforce
  next
    case False
    then obtain before k' after where "rules = before @ (k', c) # after" "str_includes s k'"
        "\<forall>x\<in>set before. \<not> str_includes s (fst x)"
      using Cons r by auto
    then have "r # rules = (r # before) @ (k', c) # after \<and> str_includes s k' \<and>
        (\<forall>x\<in>set (r # before). \<not> str_includes s (fst x))"
      using False r by simp
    then show ?thesis by blast
  qed
qed simp

lemma first_rule_None: "first_rule rules s = None \<longleftrightarrow> (\<forall>r\<in>set rules. \<not> str_includes s (fst r))"
proof (induction rules)
  case (Cons r rules)
  then show ?case by (cases r) simp
qed simp

text \<open>No rule of a keyword table is dead: the text that is just a rule's keyword gets that
  rule's code, so no earlier keyword that occurs in it shadows it with another code.\<close>

definition rules_live :: "(string \<times> DeclineCode) list \<Rightarrow> bool" where
  "rules_live rules = list_all (\<lambda>(k, c). first_rule rules k = Some c) rules"

lemma lower_char_idem [simp]: "lower_char (lower_char c) = lower_char c"
  by (auto simp: lower_char_def code_of_def)

lemma to_lower_idem [simp]: "to_lower (to_lower s) = to_lower s"
  by (simp add: to_lower_def)

lemma is_space_lower [simp]: "is_space (lower_char c) = is_space c"
  by (auto simp: lower_char_def code_of_def is_space_def)

lemma trim_lower: "trim (to_lower s) = to_lower (trim s)"
proof -
  have d: "dropWhile is_space (to_lower t) = to_lower (dropWhile is_space t)" for t
    by (induction t) (simp_all add: to_lower_def)
  have r: "rev (to_lower t) = to_lower (rev t)" for t
    by (simp add: to_lower_def rev_map)
  show ?thesis by (simp add: trim_def d r)
qed

end
