(* ===== verification/Poal.thy ===== *)
theory Poal
  imports RecoveryCase DeclineMaps
begin

text \<open>
  The port of the payment orchestration layer (\<open>packages/poal/src/adapter.ts\<close>) and what its
  adapters share: the values of a parsed webhook or response body, the charge attempt and the
  canonical event an adapter builds, the customer it derives from an invoice
  (\<open>customer.ts\<close>), and the contract every adapter keeps, the locale \<open>processor_adapter\<close>.

  Outside the repository, and so arguments here: the HTTP transport (\<open>pf_fetch\<close>), the clock,
  \<open>Date.parse\<close>, \<open>JSON.parse\<close>, \<open>Number\<close> and \<open>parseFloat\<close> on strings, number and date printing,
  base64 and the hash functions, gathered in the record \<open>Platform\<close> with the cell in which an adapter
  keeps its access token. The body of a response is an object, as the APIs document. An absent, \<open>undefined\<close> or \<open>null\<close> member of a body is \<open>VNull\<close>, which the
  adapters' \<open>??\<close>, \<open>?.\<close> and truth tests do not distinguish; a member read as a string or a number
  has that type when present, as the interfaces of the sources declare, and amounts in minor
  units are integers.
\<close>

subsection \<open>Parsed bodies\<close>

datatype jsval =
    VNull | VBool bool | VNum real | VStr string | VArr "jsval list" | VObj "(string \<times> jsval) list"

fun member :: "jsval \<Rightarrow> string \<Rightarrow> jsval" where
  "member (VObj fs) k = coalesce (map_of fs k) VNull"
| "member v k = VNull"

fun as_str :: "jsval \<Rightarrow> string option" where
  "as_str (VStr s) = Some s"
| "as_str v = None"

fun as_real :: "jsval \<Rightarrow> real option" where
  "as_real (VNum r) = Some r"
| "as_real v = None"

fun as_list :: "jsval \<Rightarrow> jsval list" where
  "as_list (VArr xs) = xs"
| "as_list v = []"

definition fstr :: "jsval \<Rightarrow> string \<Rightarrow> string option" where
  "fstr v k = as_str (member v k)"

definition freal :: "jsval \<Rightarrow> string \<Rightarrow> real option" where
  "freal v k = as_real (member v k)"

definition fint :: "jsval \<Rightarrow> string \<Rightarrow> int option" where
  "fint v k = map_option floor (freal v k)"

definition flist :: "jsval \<Rightarrow> string \<Rightarrow> jsval list" where
  "flist v k = as_list (member v k)"

definition ftrue :: "jsval \<Rightarrow> string \<Rightarrow> bool" where
  "ftrue v k = (member v k = VBool True)"

text \<open>A required member in a template: an absent one prints as \<open>undefined\<close>.\<close>

definition printed :: "string option \<Rightarrow> string" where
  "printed s = coalesce s ''undefined''"

text \<open>\<open>s ? f s : d\<close>\<close>

definition if_given :: "string option \<Rightarrow> (string \<Rightarrow> 'a) \<Rightarrow> 'a \<Rightarrow> 'a" where
  "if_given s f d = (if given s then f (coalesce s '''') else d)"

definition prefixed :: "string \<Rightarrow> string option \<Rightarrow> string option" where
  "prefixed p ref = if_given ref (\<lambda>s. Some (p @ s)) None"

text \<open>A time in seconds since the epoch, which need not be a date.\<close>

definition isoFromEpoch :: "int option \<Rightarrow> js_error + iso" where
  "isoFromEpoch sec = (case sec of None \<Rightarrow> Inr (Some 0) | Some s \<Rightarrow> to_iso_string (Some (s * 1000)))"

text \<open>A time of a body that an adapter passes on as text is modelled by the time it denotes.\<close>

definition stamp :: "(string \<Rightarrow> int option) \<Rightarrow> string option \<Rightarrow> iso" where
  "stamp parse t = (case t of None \<Rightarrow> Some 0 | Some s \<Rightarrow> parse s)"

subsection \<open>Sums\<close>

definition bind_sum :: "js_error + 'a \<Rightarrow> ('a \<Rightarrow> js_error + 'b) \<Rightarrow> js_error + 'b" where
  "bind_sum r f = (case r of Inl e \<Rightarrow> Inl e | Inr a \<Rightarrow> f a)"

lemma bind_sum_Inr [simp]: "bind_sum r f = Inr b \<longleftrightarrow> (\<exists>a. r = Inr a \<and> f a = Inr b)"
  by (cases r) (simp_all add: bind_sum_def)

lemma bind_sum_simps [simp]: "bind_sum (Inl e) f = Inl e" "bind_sum (Inr a) f = f a"
  by (simp_all add: bind_sum_def)

subsection \<open>Capabilities, attempts, events\<close>

datatype IntegrationMode = Drive | CoDrive | Advisory

record CapabilityMatrix =
  cap_integrationMode :: IntegrationMode
  cap_externalRetryControl :: bool
  cap_accountUpdater :: bool
  cap_networkTokens :: bool
  cap_partialCapture :: bool
  cap_pauseNativeDunning :: bool
  cap_webhooks :: bool
  cap_listPaymentMethods :: bool

record ChargeAttempt =
  ca_id :: ident
  ca_invoiceId :: ident
  ca_paymentMethodId :: ident
  ca_idempotencyKey :: string
  ca_amount :: Money
  ca_status :: ChargeOutcome
  ca_declineCode :: "DeclineCode option"
  ca_attemptNumber :: int
  ca_attemptedAt :: iso

record AdapterResult =
  ar_attempt :: ChargeAttempt
  ar_outcome :: ChargeOutcome
  ar_idempotentReplay :: bool

type_synonym Cursor = "string option"

record OpenFailuresPage =
  op_invoices :: "Invoice list"
  op_nextCursor :: Cursor

text \<open>The payload of a canonical event, by the type of the event. The last member of a failure is
  \<open>willAutoRetry\<close>, which one adapter sets and no consumer reads.\<close>

datatype AdapterPayload =
    ApFailed Invoice "ChargeAttempt option" "DeclineEvent option" "Customer option" "bool option"
  | ApPaid Invoice "ChargeAttempt option"
  | ApReversed ReversalPayload
  | ApReverted ReversalPayload
  | ApSubscription string string
  | ApMethodUpdated PaymentMethod

record AdapterEvent =
  ae_id :: ident
  ae_merchantId :: ident
  ae_processorEventId :: string
  ae_occurredAt :: iso
  ae_payload :: AdapterPayload

fun event_type :: "AdapterPayload \<Rightarrow> string" where
  "event_type (ApFailed _ _ _ _ _) = ''invoice.failed''"
| "event_type (ApPaid _ _) = ''invoice.paid''"
| "event_type (ApReversed _) = ''payment.reversed''"
| "event_type (ApReverted _) = ''payment.reversal_reverted''"
| "event_type (ApSubscription _ _) = ''subscription.updated''"
| "event_type (ApMethodUpdated _) = ''payment_method.updated''"

text \<open>What the recovery-case service reads of an event: no adapter puts a payment method on it.\<close>

fun service_payload :: "AdapterPayload \<Rightarrow> EventPayload" where
  "service_payload (ApFailed i _ d c _) = InvoiceFailed (Some i) d None c"
| "service_payload (ApPaid i _) = InvoicePaid (Some i)"
| "service_payload (ApReversed r) = PaymentReversed r"
| "service_payload (ApReverted r) = PaymentReversalReverted r"
| "service_payload (ApSubscription _ _) = OtherEvent"
| "service_payload (ApMethodUpdated _) = OtherEvent"

definition service_event :: "(iso \<Rightarrow> string) \<Rightarrow> AdapterEvent \<Rightarrow> CanonicalEvent" where
  "service_event iso_text e =
     \<lparr>ev_merchantId = ae_merchantId e, ev_occurredAt = iso_text (ae_occurredAt e),
      ev_payload = service_payload (ae_payload e)\<rparr>"

definition service_result :: "AdapterResult \<Rightarrow> ChargeResult" where
  "service_result r =
     \<lparr>cr_outcome = ar_outcome r, cr_idempotentReplay = Some (ar_idempotentReplay r),
      cr_declineCode = ca_declineCode (ar_attempt r)\<rparr>"

text \<open>The \<open>buildAttempt\<close> of the adapters: the attempt count is the recovery-case service's.\<close>

definition buildAttempt ::
  "ident \<Rightarrow> ident \<Rightarrow> string \<Rightarrow> Money \<Rightarrow> ChargeOutcome \<Rightarrow> DeclineCode option \<Rightarrow> string option \<Rightarrow> iso \<Rightarrow> ChargeAttempt" where
  "buildAttempt invoiceId paymentMethodId key amt status code txnId attemptedAt =
     \<lparr>ca_id = ''ax10m_att_'' @ coalesce txnId (if key = '''' then ''unknown'' else key),
      ca_invoiceId = invoiceId, ca_paymentMethodId = paymentMethodId, ca_idempotencyKey = key,
      ca_amount = amt, ca_status = status, ca_declineCode = code, ca_attemptNumber = 1,
      ca_attemptedAt = attemptedAt\<rparr>"

lemma buildAttempt_sel [simp]:
  "ca_invoiceId (buildAttempt i p k a s d t w) = i"
  "ca_paymentMethodId (buildAttempt i p k a s d t w) = p"
  "ca_idempotencyKey (buildAttempt i p k a s d t w) = k"
  "ca_amount (buildAttempt i p k a s d t w) = a"
  "ca_status (buildAttempt i p k a s d t w) = s"
  "ca_declineCode (buildAttempt i p k a s d t w) = d"
  by (simp_all add: buildAttempt_def)

subsection \<open>Customers\<close>

definition toE164 :: "string option \<Rightarrow> string option" where
  "toE164 raw =
     (if \<not> given raw then None
      else let s = trim (coalesce raw '''');
               s = (if take 2 s = ''00'' then ''+'' @ drop 2 s else s) in
           if take 1 s \<noteq> ''+'' then None
           else let digits = only_digits s in
                if 8 \<le> length digits \<and> length digits \<le> 15 then Some (''+'' @ digits) else None)"

record ContactOverrides =
  co_email :: "string option"
  co_phone :: "string option"

definition contactOverrides :: "string option \<Rightarrow> string option \<Rightarrow> ContactOverrides" where
  "contactOverrides email phone =
     \<lparr>co_email = (if given email then email else None), co_phone = toE164 phone\<rparr>"

definition no_overrides :: ContactOverrides where
  "no_overrides = \<lparr>co_email = None, co_phone = None\<rparr>"

definition CUSTOMER_PREFIX :: string where
  "CUSTOMER_PREFIX = ''ax10m_cus_''"

definition no_consent :: ConsentState where
  "no_consent = \<lparr>consent_email = False, consent_sms = False, consent_whatsapp = False,
     consent_push = False, consent_globallyOptedOut = False\<rparr>"

definition customerFromInvoice :: "Invoice \<Rightarrow> ContactOverrides \<Rightarrow> Customer" where
  "customerFromInvoice invoice overrides =
     \<lparr>cust_id = inv_customerId invoice, cust_merchantId = inv_merchantId invoice,
      cust_processorRef =
        (if take (length CUSTOMER_PREFIX) (inv_customerId invoice) = CUSTOMER_PREFIX
         then drop (length CUSTOMER_PREFIX) (inv_customerId invoice) else inv_customerId invoice),
      cust_email = co_email overrides, cust_phone = co_phone overrides,
      cust_issuerRegion = RegionUnknown, cust_createdAt = inv_createdAt invoice,
      cust_consent = no_consent\<rparr>"

text \<open>A phone number an adapter passes on is in E.164 form.\<close>

definition e164 :: "string \<Rightarrow> bool" where
  "e164 p = (take 1 p = ''+'' \<and> list_all is_digit (drop 1 p) \<and> 8 \<le> length (drop 1 p) \<and> length (drop 1 p) \<le> 15)"

lemma only_digits_all: "list_all is_digit (only_digits s)"
  by (simp add: only_digits_def list_all_iff is_digit_def code_of_def)

lemma toE164_form: "toE164 raw = Some p \<Longrightarrow> e164 p"
  using only_digits_all by (auto simp: toE164_def e164_def Let_def split: if_splits)

subsection \<open>The platform\<close>

record PortRequest =
  rq_url :: string
  rq_verb :: string
  rq_headers :: "(string \<times> string) list"
  rq_body :: "string option"

record PortResponse =
  rp_ok :: bool
  rp_status :: int
  rp_header :: "string \<Rightarrow> string option"
  rp_text :: string

record 'w Platform =
  pf_fetch :: "PortRequest \<Rightarrow> ('w, PortResponse) eff"
  pf_clock :: "('w, iso) eff"
  pf_token :: "'w \<Rightarrow> string option"
  pf_setToken :: "string \<Rightarrow> 'w \<Rightarrow> 'w"
  pf_parseJson :: "string \<Rightarrow> jsval option"
  pf_parseDate :: "string \<Rightarrow> int option"
  pf_showNumber :: "real \<Rightarrow> string"
  pf_number :: "string \<Rightarrow> real option"
  pf_hmac :: "string \<Rightarrow> string \<Rightarrow> string"
  pf_hmacBase64 :: "string \<Rightarrow> string \<Rightarrow> string"
  pf_hmacSha1 :: "string \<Rightarrow> string \<Rightarrow> string"
  pf_sha1 :: "string \<Rightarrow> string"
  pf_base64 :: "string \<Rightarrow> string"
  pf_base64Decode :: "string \<Rightarrow> string"
  pf_sha256 :: "string \<Rightarrow> string"
  pf_parseFloat :: "string \<Rightarrow> real option"
  pf_isoText :: "iso \<Rightarrow> string"

text \<open>\<open>encodeURIComponent\<close>, on the bytes of the UTF-8 text.\<close>

definition unreserved :: "char \<Rightarrow> bool" where
  "unreserved c = ((is_word c \<or> c \<in> set ''-.!~*()'' \<or> c = CHR 0x27))"

definition hex_upper :: "nat \<Rightarrow> char" where
  "hex_upper n = (if n < 10 then char_of (48 + n) else char_of (55 + n))"

definition encode_char :: "char \<Rightarrow> string" where
  "encode_char c = (if unreserved c then [c]
     else [CHR ''%'', hex_upper (code_of c div 16), hex_upper (code_of c mod 16)])"

definition encodeURIComponent :: "string \<Rightarrow> string" where
  "encodeURIComponent s = concat (map encode_char s)"

definition form_pair :: "string \<times> string option \<Rightarrow> string" where
  "form_pair p = encodeURIComponent (fst p) @ ''='' @ encodeURIComponent (coalesce (snd p) '''')"

definition form_encode :: "(string \<times> string option) list \<Rightarrow> string" where
  "form_encode params = join ''&'' (map form_pair (filter (\<lambda>p. snd p \<noteq> None) params))"

text \<open>\<open>new Date(Date.parse(value)).toISOString()\<close>, the epoch when there is no such date: a parsed
  date is within the range of times.\<close>

definition toIso :: "(string \<Rightarrow> int option) \<Rightarrow> string option \<Rightarrow> iso" where
  "toIso parse value = if_given value (\<lambda>v. Some (coalesce (parse v) 0)) (Some 0)"

text \<open>\<open>name.toLowerCase()\<close> among the headers' names in lower case: the first match.\<close>

definition headerLookup :: "(string \<times> string) list \<Rightarrow> string \<Rightarrow> string option" where
  "headerLookup headers name =
     map_option snd (List.find (\<lambda>(k, v). to_lower k = to_lower name) headers)"

text \<open>What an HTTP client reports of a response that is not a success; the adapters turn the
  declines among them into failed charges and throw the others.\<close>

record ClientFailure =
  cf_status :: int
  cf_body :: jsval
  cf_raw :: string
  cf_message :: string

text \<open>A parsed success body with the replay flag of its headers, or the failure.\<close>

type_synonym 'a client_result = "ClientFailure + 'a"

definition rethrow :: "ClientFailure \<Rightarrow> ('w, 'a) eff" where
  "rethrow f = throw (JsError (cf_message f))"

text \<open>\<open>await client.get(\<dots>)\<close> outside a \<open>try\<close>: a failure propagates.\<close>

definition unwrap :: "'a client_result \<Rightarrow> ('w, 'a) eff" where
  "unwrap r = (case r of Inl f \<Rightarrow> rethrow f | Inr a \<Rightarrow> ok a)"

definition syntax_error :: js_error where
  "syntax_error = JsError ''SyntaxError''"

text \<open>A JSON response: the body of a success, parsed; of a failure, \<open>pick\<close> its error object, or
  \<open>fallback\<close> on text that is not JSON.\<close>

definition parse_response ::
  "'w Platform \<Rightarrow> (jsval \<Rightarrow> jsval) \<Rightarrow> (string \<Rightarrow> jsval) \<Rightarrow> (jsval \<Rightarrow> int \<Rightarrow> string) \<Rightarrow> PortResponse \<Rightarrow>
   ('w, jsval client_result) eff" where
  "parse_response pf pick fallback message res =
     (let raw = rp_text res in
      if \<not> rp_ok res then
        (let parsed = (if raw = '''' then pick (VObj [])
                       else case pf_parseJson pf raw of Some v \<Rightarrow> pick v | None \<Rightarrow> fallback raw)
         in ok (Inl \<lparr>cf_status = rp_status res, cf_body = parsed, cf_raw = raw,
                     cf_message = message parsed (rp_status res)\<rparr>))
      else if raw = '''' then ok (Inr (VObj []))
      else (case pf_parseJson pf raw of
              None \<Rightarrow> throw syntax_error
            | Some v \<Rightarrow> ok (Inr v)))"

text \<open>The fallback \<open>{ message: raw }\<close> most clients use.\<close>

definition message_only :: "string \<Rightarrow> jsval" where
  "message_only raw = VObj [(''message'', VStr raw)]"

text \<open>Inside a \<open>try\<close>, a client failure skips the rest of the block.\<close>

definition then_ok ::
  "('w, 'a client_result) eff \<Rightarrow> ('a \<Rightarrow> ('w, 'b client_result) eff) \<Rightarrow> ('w, 'b client_result) eff" where
  "then_ok m f = andThen m (case_sum (\<lambda>e. ok (Inl e)) f)"

text \<open>Searching text: \<open>scan f s\<close> is \<open>f\<close> at the first suffix of \<open>s\<close> where it succeeds, as a
  regular expression without an anchor matches.\<close>

fun scan :: "(string \<Rightarrow> 'a option) \<Rightarrow> string \<Rightarrow> 'a option" where
  "scan f [] = f []"
| "scan f (c # s) = (case f (c # s) of Some a \<Rightarrow> Some a | None \<Rightarrow> scan f s)"

definition strip_lit :: "string \<Rightarrow> string \<Rightarrow> string option" where
  "strip_lit p s = (if take (length p) s = p then Some (drop (length p) s) else None)"

definition first_item :: "jsval list \<Rightarrow> jsval" where
  "first_item vs = (case vs of [] \<Rightarrow> VNull | v # _ \<Rightarrow> v)"

text \<open>\<open>JSON.stringify\<close> of a parsed value, with the number printer.\<close>

fun to_json :: "(real \<Rightarrow> string) \<Rightarrow> jsval \<Rightarrow> json" where
  "to_json sh VNull = JNull"
| "to_json sh (VBool b) = JBool b"
| "to_json sh (VNum r) = JNum (sh r)"
| "to_json sh (VStr s) = JStr s"
| "to_json sh (VArr vs) = JArr (map (to_json sh) vs)"
| "to_json sh (VObj fs) = JObj (map (\<lambda>(k, v). (k, to_json sh v)) fs)"

text \<open>Amounts in major units: \<open>Math.round(major * 100)\<close>, and \<open>(minor / 100).toFixed(2)\<close> of an
  amount in minor units.\<close>

definition to_cents :: "real \<Rightarrow> int" where
  "to_cents major = js_round (major * 100)"

definition two_digits :: "nat \<Rightarrow> string" where
  "two_digits n = (if n < 10 then ''0'' else '''') @ show_nat n"

definition fixed2 :: "int \<Rightarrow> string" where
  "fixed2 minor = (if minor < 0 then ''-'' else '''') @ show_nat (nat \<bar>minor\<bar> div 100) @ ''.'' @ two_digits (nat \<bar>minor\<bar> mod 100)"

text \<open>HTTP Basic credentials.\<close>

definition basic_auth :: "'w Platform \<Rightarrow> string \<Rightarrow> string \<Rightarrow> string" where
  "basic_auth pf user password = ''Basic '' @ pf_base64 pf (user @ '':'' @ password)"

subsection \<open>The contract of an adapter\<close>

text \<open>\<open>payload_sound\<close> is what every adapter keeps. Most also keep \<open>payload_ok\<close>: the attempt has the
  status its event says, and a reversal moves a positive amount.\<close>

definition attempt_sound :: "Invoice \<Rightarrow> ChargeAttempt \<Rightarrow> bool" where
  "attempt_sound invc a \<longleftrightarrow> ca_invoiceId a = inv_id invc \<and> (ca_declineCode a \<noteq> None \<longrightarrow> ca_status a = Failed)"

definition attempt_ok :: "ChargeOutcome \<Rightarrow> Invoice \<Rightarrow> ChargeAttempt \<Rightarrow> bool" where
  "attempt_ok st invc a \<longleftrightarrow> ca_status a = st \<and> attempt_sound invc a"

definition decline_ok :: "Invoice \<Rightarrow> ChargeAttempt option \<Rightarrow> DeclineEvent \<Rightarrow> bool" where
  "decline_ok invc att d \<longleftrightarrow> decline_consistent d \<and> dec_invoiceId d = inv_id invc \<and>
     (att \<noteq> None \<longrightarrow> Some (dec_chargeAttemptId d) = map_option ca_id att)"

definition customer_ok :: "Invoice \<Rightarrow> Customer \<Rightarrow> bool" where
  "customer_ok invc c \<longleftrightarrow> cust_id c = inv_customerId invc \<and> cust_merchantId c = inv_merchantId invc \<and>
     cust_consent c = no_consent \<and> (\<forall>p. cust_phone c = Some p \<longrightarrow> e164 p)"

fun payload_sound :: "ident \<Rightarrow> AdapterPayload \<Rightarrow> bool" where
  "payload_sound m (ApFailed invc att dec cust _) \<longleftrightarrow>
     inv_merchantId invc = m \<and> inv_firstFailedAt invc \<noteq> None \<and>
     pred_option (attempt_sound invc) att \<and> pred_option (decline_ok invc att) dec \<and>
     pred_option (customer_ok invc) cust"
| "payload_sound m (ApPaid invc att) \<longleftrightarrow>
     inv_merchantId invc = m \<and> inv_firstFailedAt invc = None \<and> pred_option (attempt_sound invc) att"
| "payload_sound m _ \<longleftrightarrow> True"

fun payload_strict :: "AdapterPayload \<Rightarrow> bool" where
  "payload_strict (ApFailed invc att _ _ _) \<longleftrightarrow> pred_option (attempt_ok Failed invc) att"
| "payload_strict (ApPaid invc att) \<longleftrightarrow> pred_option (attempt_ok Succeeded invc) att"
| "payload_strict (ApReversed r) \<longleftrightarrow> 0 < rev_amount r"
| "payload_strict (ApReverted r) \<longleftrightarrow> 0 < rev_amount r"
| "payload_strict _ \<longleftrightarrow> True"

definition payload_ok :: "ident \<Rightarrow> AdapterPayload \<Rightarrow> bool" where
  "payload_ok m p \<longleftrightarrow> payload_sound m p \<and> payload_strict p"

lemma payload_ok_simps [simp]:
  "payload_ok m (ApFailed invc att dec cust r) \<longleftrightarrow>
     inv_merchantId invc = m \<and> inv_firstFailedAt invc \<noteq> None \<and>
     pred_option (attempt_ok Failed invc) att \<and> pred_option (decline_ok invc att) dec \<and>
     pred_option (customer_ok invc) cust"
  "payload_ok m (ApPaid invc att) \<longleftrightarrow>
     inv_merchantId invc = m \<and> inv_firstFailedAt invc = None \<and> pred_option (attempt_ok Succeeded invc) att"
  "payload_ok m (ApReversed rv) \<longleftrightarrow> 0 < rev_amount rv"
  "payload_ok m (ApReverted rv) \<longleftrightarrow> 0 < rev_amount rv"
  "payload_ok m (ApSubscription s t)"
  "payload_ok m (ApMethodUpdated pm)"
  by (cases att; auto simp: payload_ok_def attempt_ok_def)+

lemmas payload_defs = attempt_ok_def attempt_sound_def decline_ok_def decline_consistent_def

definition event_sound :: "ident \<Rightarrow> AdapterEvent \<Rightarrow> bool" where
  "event_sound m e \<longleftrightarrow> ae_merchantId e = m \<and> payload_sound m (ae_payload e)"

definition event_ok :: "ident \<Rightarrow> AdapterEvent \<Rightarrow> bool" where
  "event_ok m e \<longleftrightarrow> ae_merchantId e = m \<and> payload_ok m (ae_payload e)"

lemma event_ok_sound: "event_ok m e \<Longrightarrow> event_sound m e"
  by (simp add: event_ok_def event_sound_def payload_ok_def)

definition charge_ok :: "Invoice \<Rightarrow> PaymentMethod \<Rightarrow> string \<Rightarrow> AdapterResult \<Rightarrow> bool" where
  "charge_ok invc pm key r \<longleftrightarrow>
     ca_status (ar_attempt r) = ar_outcome r \<and> ca_invoiceId (ar_attempt r) = inv_id invc \<and>
     ca_paymentMethodId (ar_attempt r) = pm_id pm \<and> ca_idempotencyKey (ar_attempt r) = key \<and>
     ca_amount (ar_attempt r) = inv_amount invc \<and>
     (ca_declineCode (ar_attempt r) \<noteq> None \<longrightarrow> ar_outcome r = Failed)"

lemma andThen_Inr: "andThen m f s = (Inr b, s') \<longleftrightarrow> (\<exists>a t. m s = (Inr a, t) \<and> f a t = (Inr b, s'))"
  by (auto simp: andThen_def split: prod.splits sum.splits)

lemma lift_sum_Inr [simp]: "lift_sum r s = (Inr b, s') \<longleftrightarrow> r = Inr b \<and> s' = s"
  by (auto simp: lift_sum_def)

lemma ok_Inr [simp]: "ok a s = (Inr b, s') \<longleftrightarrow> b = a \<and> s' = s"
  by (auto simp: ok_def)

lemma throw_Inr [simp]: "throw e s = (Inr b, s') \<longleftrightarrow> False"
  by (simp add: throw_def)

lemma rethrow_Inr [simp]: "rethrow f s = (Inr b, s') \<longleftrightarrow> False"
  by (simp add: rethrow_def)

lemma customer_ok_from [simp]: "customer_ok invc (customerFromInvoice invc (contactOverrides e p))"
  by (auto simp: customer_ok_def customerFromInvoice_def contactOverrides_def dest: toE164_form)

lemma customer_ok_plain [simp]: "customer_ok invc (customerFromInvoice invc no_overrides)"
  by (simp add: customer_ok_def customerFromInvoice_def no_overrides_def)

text \<open>The failed charge an adapter reports for a declined request.\<close>

definition declined_charge ::
  "'w Platform \<Rightarrow> Invoice \<Rightarrow> PaymentMethod \<Rightarrow> string \<Rightarrow> DeclineCode \<Rightarrow> string option \<Rightarrow> ('w, AdapterResult) eff" where
  "declined_charge pf invoice pm key code txnId =
     andThen (pf_clock pf) (\<lambda>now.
       ok \<lparr>ar_attempt = buildAttempt (inv_id invoice) (pm_id pm) key (inv_amount invoice) Failed (Some code) txnId now,
           ar_outcome = Failed, ar_idempotentReplay = False\<rparr>)"

lemma declined_charge_ok: "declined_charge pf invc pm key code txn w = (Inr r, w') \<Longrightarrow> charge_ok invc pm key r"
  by (auto simp: declined_charge_def andThen_Inr charge_ok_def)

text \<open>\<open>try { charged(await request) } catch (err) { declined(err) }\<close>\<close>

lemma charge_via:
  assumes "andThen request (case_sum declined charged) w = (Inr r, w')"
    and "\<And>f t t'. declined f t = (Inr r, t') \<Longrightarrow> P"
    and "\<And>a t t'. charged a t = (Inr r, t') \<Longrightarrow> P"
  shows P
proof -
  obtain q t where "case_sum declined charged q t = (Inr r, w')"
    using assms(1) by (auto simp: andThen_Inr)
  then show ?thesis using assms(2,3) by (cases q) auto
qed

text \<open>
  Every webhook an adapter accepts is authentic, by its own check, and becomes events of the
  merchant it was built for, whatever the body says; a charge reports the attempt it was asked
  for, with a decline code only on a failure.
\<close>

locale processor_adapter =
  fixes merchant :: ident
    and authentic :: "RawWebhook \<Rightarrow> 'w \<Rightarrow> bool"
    and ingest :: "RawWebhook \<Rightarrow> ('w, AdapterEvent list) eff"
    and charge :: "Invoice \<Rightarrow> PaymentMethod \<Rightarrow> string \<Rightarrow> ('w, AdapterResult) eff"
  assumes ingest_authentic: "ingest raw w = (Inr es, w') \<Longrightarrow> es \<noteq> [] \<Longrightarrow> authentic raw w"
    and ingest_sound: "ingest raw w = (Inr es, w') \<Longrightarrow> list_all (event_sound merchant) es"
    and charge_ok: "charge invc pm key w = (Inr r, w') \<Longrightarrow> charge_ok invc pm key r"
begin

lemma ingest_merchant:
  assumes "ingest raw w = (Inr es, w')" "e \<in> set es"
  shows "ae_merchantId e = merchant"
  using ingest_sound [OF assms(1)] assms(2) by (simp add: list_all_iff event_sound_def)

lemma forged_yields_nothing:
  assumes "\<not> authentic raw w" "ingest raw w = (Inr es, w')"
  shows "es = []"
  using ingest_authentic [OF assms(2)] assms(1) by blast

lemma decline_only_on_failure:
  assumes "charge invc pm key w = (Inr r, w')" "ar_outcome r \<noteq> Failed"
  shows "cr_declineCode (service_result r) = None"
  using charge_ok [OF assms(1)] assms(2) by (auto simp: charge_ok_def service_result_def)

end

locale strict_adapter =
  fixes merchant :: ident
    and authentic :: "RawWebhook \<Rightarrow> 'w \<Rightarrow> bool"
    and ingest :: "RawWebhook \<Rightarrow> ('w, AdapterEvent list) eff"
    and charge :: "Invoice \<Rightarrow> PaymentMethod \<Rightarrow> string \<Rightarrow> ('w, AdapterResult) eff"
  assumes strict_authentic: "ingest raw w = (Inr es, w') \<Longrightarrow> es \<noteq> [] \<Longrightarrow> authentic raw w"
    and ingest_ok: "ingest raw w = (Inr es, w') \<Longrightarrow> list_all (event_ok merchant) es"
    and strict_charge: "charge invc pm key w = (Inr r, w') \<Longrightarrow> charge_ok invc pm key r"

sublocale strict_adapter \<subseteq> processor_adapter merchant authentic ingest charge
  by standard (use strict_authentic ingest_ok strict_charge in \<open>auto simp: list_all_iff intro: event_ok_sound\<close>)

end
