(* ===== verification/WebhookAuth.thy ===== *)
theory WebhookAuth
  imports Poal
begin

text \<open>
  Webhook authentication (\<open>stripe/signature.ts\<close> and the \<open>verify*\<close> functions of the adapters'
  maps): an HMAC of the raw body is recomputed and compared in constant time. The HMAC and
  hash functions are arguments. The theory shows what an accepted signature says about the
  body, and that the text Adyen signs determines the notification's fields.
\<close>

subsection \<open>Splitting text\<close>

fun split_on :: "char \<Rightarrow> string \<Rightarrow> string list" where
  "split_on c [] = [[]]"
| "split_on c (x # xs) =
     (if x = c then [] # split_on c xs
      else case split_on c xs of [] \<Rightarrow> [[x]] | w # ws \<Rightarrow> (x # w) # ws)"

lemma split_on_not_Nil [simp]: "split_on c s \<noteq> []"
  by (induction s) (auto split: list.split)

lemma split_on_free [simp]: "c \<notin> set s \<Longrightarrow> split_on c s = [s]"
  by (induction s) auto

lemma split_on_append [simp]: "c \<notin> set s \<Longrightarrow> split_on c (s @ c # t) = s # split_on c t"
  by (induction s) auto

text \<open>\<open>a.length === b.length && timingSafeEqual(a, b)\<close> on two buffers.\<close>

definition buffers_equal :: "string \<Rightarrow> string \<Rightarrow> bool" where
  "buffers_equal a b = (length a = length b \<and> list_all2 (=) a b)"

lemma buffers_equal_iff [simp]: "buffers_equal a b \<longleftrightarrow> a = b"
  by (auto simp: buffers_equal_def list.rel_eq)

subsection \<open>Stripe\<close>

definition computeStripeSignature :: "(string \<Rightarrow> string \<Rightarrow> string) \<Rightarrow> string \<Rightarrow> string \<Rightarrow> string \<Rightarrow> string" where
  "computeStripeSignature hmac timestamp rawBody secret = hmac secret (timestamp @ ''.'' @ rawBody)"

definition buildStripeSignatureHeader :: "(string \<Rightarrow> string \<Rightarrow> string) \<Rightarrow> int \<Rightarrow> string \<Rightarrow> string \<Rightarrow> string" where
  "buildStripeSignatureHeader hmac timestamp rawBody secret =
     ''t='' @ show_int timestamp @ '',v1='' @ computeStripeSignature hmac (show_int timestamp) rawBody secret"

text \<open>\<open>const [k, val] = part.split('=')\<close>, on each part of the header.\<close>

definition header_part :: "string \<Rightarrow> string \<times> string option" where
  "header_part part =
     (case split_on (CHR ''='') part of k # val # _ \<Rightarrow> (k, Some val) | [k] \<Rightarrow> (k, None) | [] \<Rightarrow> ('''', None))"

definition header_step :: "string option \<times> string list \<Rightarrow> string \<Rightarrow> string option \<times> string list" where
  "header_step acc part =
     (case header_part part of (k, val) \<Rightarrow>
        if k = ''t'' then (val, snd acc)
        else if k = ''v1'' \<and> given val then (fst acc, snd acc @ [coalesce val ''''])
        else acc)"

definition parseHeader :: "string \<Rightarrow> string option \<times> string list" where
  "parseHeader header = foldl header_step (None, []) (split_on (CHR '','') header)"

definition safeEqualHex :: "string \<Rightarrow> string \<Rightarrow> bool" where
  "safeEqualHex a b = buffers_equal a b"

record StripeTolerance =
  tol_seconds :: "real option"
  tol_now :: "real option"

definition no_tolerance :: StripeTolerance where
  "no_tolerance = \<lparr>tol_seconds = None, tol_now = None\<rparr>"

text \<open>A comparison with \<open>NaN\<close> is false: a timestamp that is no number is not too old.\<close>

definition too_old :: "(string \<Rightarrow> real option) \<Rightarrow> string \<Rightarrow> StripeTolerance \<Rightarrow> bool" where
  "too_old number t opts =
     (case (tol_seconds opts, tol_now opts, number t) of
        (Some tolerance, Some now, Some n) \<Rightarrow> tolerance < \<bar>now - n\<bar>
      | _ \<Rightarrow> False)"

definition verifyStripeSignature ::
  "(string \<Rightarrow> string \<Rightarrow> string) \<Rightarrow> (string \<Rightarrow> real option) \<Rightarrow> string \<Rightarrow> string option \<Rightarrow> string \<Rightarrow> StripeTolerance \<Rightarrow> bool" where
  "verifyStripeSignature hmac number rawBody header secret opts =
     (if \<not> given header then False
      else case parseHeader (coalesce header '''') of (t, v1) \<Rightarrow>
        if \<not> given t \<or> v1 = [] then False
        else if too_old number (coalesce t '''') opts then False
        else let expected = computeStripeSignature hmac (coalesce t '''') rawBody secret
             in list_ex (\<lambda>sig. safeEqualHex sig expected) v1)"

lemma verifyStripe_iff:
  "verifyStripeSignature hmac number body header secret opts \<longleftrightarrow>
     (\<exists>h t sigs. header = Some h \<and> h \<noteq> [] \<and> parseHeader h = (Some t, sigs) \<and> t \<noteq> [] \<and>
        \<not> too_old number t opts \<and> hmac secret (t @ ''.'' @ body) \<in> set sigs)"
proof (cases header)
  case None
  then show ?thesis by (simp add: verifyStripeSignature_def given_def)
next
  case (Some h)
  obtain t sigs where p: "parseHeader h = (t, sigs)" by (cases "parseHeader h")
  show ?thesis
    using Some p
    by (cases t) (auto simp: verifyStripeSignature_def given_def Let_def list_ex_iff safeEqualHex_def
          computeStripeSignature_def)
qed

text \<open>The header the provider builds verifies, when its digits are those of a hexadecimal digest.\<close>

definition plain_digest :: "string \<Rightarrow> bool" where
  "plain_digest d \<longleftrightarrow> d \<noteq> [] \<and> CHR '','' \<notin> set d \<and> CHR ''='' \<notin> set d"

lemma show_nat_chars: "c \<in> set (show_nat n) \<Longrightarrow> 48 \<le> (of_char c :: nat) \<and> (of_char c :: nat) \<le> 57"
  by (induction n rule: show_nat.induct)
     (subst (asm) (2) show_nat.simps, auto split: if_splits)

lemma show_int_chars: "CHR '','' \<notin> set (show_int i)" "CHR ''='' \<notin> set (show_int i)"
  using show_nat_chars [of "CHR '',''"] show_nat_chars [of "CHR ''=''"] by (auto simp: show_int_def)

lemma show_int_not_Nil: "show_int i \<noteq> []"
proof -
  have "show_nat n \<noteq> []" for n by (subst show_nat.simps) simp
  then show ?thesis by (simp add: show_int_def)
qed

lemma parse_built:
  assumes "plain_digest (hmac secret (show_int ts @ ''.'' @ body))"
  shows "parseHeader (buildStripeSignatureHeader hmac ts body secret) =
           (Some (show_int ts), [hmac secret (show_int ts @ ''.'' @ body)])"
proof -
  let ?d = "hmac secret (show_int ts @ ''.'' @ body)"
  have n: "CHR '','' \<notin> set (show_int ts)" "CHR ''='' \<notin> set (show_int ts)" by (rule show_int_chars)+
  have "split_on (CHR '','') (buildStripeSignatureHeader hmac ts body secret) = [''t='' @ show_int ts, ''v1='' @ ?d]"
  proof -
    have "split_on (CHR '','') ((''t='' @ show_int ts) @ CHR '','' # (''v1='' @ ?d)) = [''t='' @ show_int ts, ''v1='' @ ?d]"
      using n assms by (subst split_on_append) (simp_all add: plain_digest_def)
    then show ?thesis by (simp add: buildStripeSignatureHeader_def computeStripeSignature_def)
  qed
  moreover have "header_part (''t='' @ show_int ts) = (''t'', Some (show_int ts))"
    using n by (simp add: header_part_def)
  moreover have "header_part (''v1='' @ ?d) = (''v1'', Some ?d)"
    using assms by (simp add: header_part_def plain_digest_def)
  ultimately show ?thesis
    using assms by (simp add: parseHeader_def header_step_def given_def plain_digest_def)
qed

lemma built_header_verifies:
  assumes "plain_digest (hmac secret (show_int ts @ ''.'' @ body))"
  shows "verifyStripeSignature hmac number body (Some (buildStripeSignatureHeader hmac ts body secret)) secret no_tolerance"
  using parse_built [where hmac = hmac and secret = secret and ts = ts and body = body, OF assms] show_int_not_Nil
  by (auto simp: verifyStripe_iff buildStripeSignatureHeader_def too_old_def no_tolerance_def)

subsection \<open>The other HMAC schemes\<close>

text \<open>\<open>if (!signature) return false\<close>, then the comparison with the recomputed value.\<close>

definition signature_matches :: "string option \<Rightarrow> string \<Rightarrow> bool" where
  "signature_matches signature expected =
     (if \<not> given signature then False else buffers_equal (coalesce signature '''') expected)"

lemma signature_matches_iff: "signature_matches signature expected \<longleftrightarrow> signature = Some expected \<and> expected \<noteq> []"
  by (cases signature) (auto simp: signature_matches_def given_def)

definition computeGoCardlessSignature :: "(string \<Rightarrow> string \<Rightarrow> string) \<Rightarrow> string \<Rightarrow> string \<Rightarrow> string" where
  "computeGoCardlessSignature hmac rawBody secret = hmac secret rawBody"

definition verifyGoCardlessSignature :: "(string \<Rightarrow> string \<Rightarrow> string) \<Rightarrow> string \<Rightarrow> string option \<Rightarrow> string \<Rightarrow> bool" where
  "verifyGoCardlessSignature hmac rawBody signature secret =
     signature_matches signature (computeGoCardlessSignature hmac rawBody secret)"

definition computeMaxioSignature :: "(string \<Rightarrow> string \<Rightarrow> string) \<Rightarrow> string \<Rightarrow> string \<Rightarrow> string" where
  "computeMaxioSignature hmac rawBody sharedKey = hmac sharedKey rawBody"

definition verifyMaxioSignature :: "(string \<Rightarrow> string \<Rightarrow> string) \<Rightarrow> string \<Rightarrow> string option \<Rightarrow> string \<Rightarrow> bool" where
  "verifyMaxioSignature hmac rawBody signature sharedKey =
     signature_matches signature (computeMaxioSignature hmac rawBody sharedKey)"

definition computeZuoraSignature :: "(string \<Rightarrow> string \<Rightarrow> string) \<Rightarrow> string \<Rightarrow> string \<Rightarrow> string" where
  "computeZuoraSignature hmac rawBody secret = hmac secret rawBody"

definition verifyZuoraSignature :: "(string \<Rightarrow> string \<Rightarrow> string) \<Rightarrow> string \<Rightarrow> string option \<Rightarrow> string \<Rightarrow> bool" where
  "verifyZuoraSignature hmac rawBody signature secret =
     signature_matches signature (computeZuoraSignature hmac rawBody secret)"

text \<open>Shopify's and WooCommerce's signatures are in base 64.\<close>

definition computeShopifyHmac :: "(string \<Rightarrow> string \<Rightarrow> string) \<Rightarrow> string \<Rightarrow> string \<Rightarrow> string" where
  "computeShopifyHmac hmac64 rawBody secret = hmac64 secret rawBody"

definition verifyShopifyHmac :: "(string \<Rightarrow> string \<Rightarrow> string) \<Rightarrow> string \<Rightarrow> string option \<Rightarrow> string \<Rightarrow> bool" where
  "verifyShopifyHmac hmac64 rawBody signature secret =
     signature_matches signature (computeShopifyHmac hmac64 rawBody secret)"

definition computeWooSignature :: "(string \<Rightarrow> string \<Rightarrow> string) \<Rightarrow> string \<Rightarrow> string \<Rightarrow> string" where
  "computeWooSignature hmac64 rawBody secret = hmac64 secret rawBody"

definition verifyWooSignature :: "(string \<Rightarrow> string \<Rightarrow> string) \<Rightarrow> string \<Rightarrow> string option \<Rightarrow> string \<Rightarrow> bool" where
  "verifyWooSignature hmac64 rawBody signature secret =
     signature_matches signature (computeWooSignature hmac64 rawBody secret)"

subsection \<open>Braintree\<close>

definition braintreeSignatureFor ::
  "(string \<Rightarrow> string \<Rightarrow> string) \<Rightarrow> (string \<Rightarrow> string) \<Rightarrow> string \<Rightarrow> string \<Rightarrow> string" where
  "braintreeSignatureFor hmacSha1 sha1 payload privateKey = hmacSha1 (sha1 privateKey) payload"

definition signBraintreePayload ::
  "(string \<Rightarrow> string \<Rightarrow> string) \<Rightarrow> (string \<Rightarrow> string) \<Rightarrow> string \<Rightarrow> string \<Rightarrow> string \<Rightarrow> string" where
  "signBraintreePayload hmacSha1 sha1 payload publicKey privateKey =
     publicKey @ ''|'' @ braintreeSignatureFor hmacSha1 sha1 payload privateKey"

definition verifyBraintreeSignature ::
  "(string \<Rightarrow> string \<Rightarrow> string) \<Rightarrow> (string \<Rightarrow> string) \<Rightarrow> string \<Rightarrow> string \<Rightarrow> string \<Rightarrow> string \<Rightarrow> bool" where
  "verifyBraintreeSignature hmacSha1 sha1 btSignature btPayload publicKey privateKey =
     (case List.find (\<lambda>parts. length parts = 2 \<and> hd parts = publicKey)
             (map (split_on (CHR ''|'')) (split_on (CHR ''&'') btSignature)) of
        None \<Rightarrow> False
      | Some pair \<Rightarrow> buffers_equal (pair ! 1) (braintreeSignatureFor hmacSha1 sha1 btPayload privateKey))"

lemma signed_payload_verifies:
  assumes "\<forall>c\<in>set (publicKey @ braintreeSignatureFor hmacSha1 sha1 payload privateKey). c \<noteq> CHR ''|'' \<and> c \<noteq> CHR ''&''"
  shows "verifyBraintreeSignature hmacSha1 sha1 (signBraintreePayload hmacSha1 sha1 payload publicKey privateKey)
           payload publicKey privateKey"
proof -
  let ?d = "braintreeSignatureFor hmacSha1 sha1 payload privateKey"
  have "split_on (CHR ''&'') (publicKey @ CHR ''|'' # ?d) = [publicKey @ CHR ''|'' # ?d]"
    using assms by (intro split_on_free) auto
  moreover have "CHR ''|'' \<notin> set publicKey" "CHR ''|'' \<notin> set ?d" using assms by auto
  then have "split_on (CHR ''|'') (publicKey @ CHR ''|'' # ?d) = [publicKey, ?d]" by simp
  ultimately show ?thesis by (simp add: verifyBraintreeSignature_def signBraintreePayload_def)
qed

subsection \<open>Adyen\<close>

record AdyenNotificationItem =
  an_pspReference :: "string option"
  an_originalReference :: "string option"
  an_merchantAccountCode :: "string option"
  an_merchantReference :: "string option"
  an_value :: "int option"
  an_currency :: "string option"
  an_eventCode :: "string option"
  an_success :: "string option"
  an_hmacSignature :: "string option"

definition colon :: char where "colon = CHR '':''"

definition replace_all :: "char \<Rightarrow> string \<Rightarrow> string \<Rightarrow> string" where
  "replace_all c r s = concat (map (\<lambda>x. if x = c then r else [x]) s)"

definition escapeField :: "string \<Rightarrow> string" where
  "escapeField v = replace_all colon [backslash, colon] (replace_all backslash [backslash, backslash] v)"

definition signed_fields :: "AdyenNotificationItem \<Rightarrow> string list" where
  "signed_fields item =
     [coalesce (an_pspReference item) '''', coalesce (an_originalReference item) '''',
      coalesce (an_merchantAccountCode item) '''', coalesce (an_merchantReference item) '''',
      (case an_value item of None \<Rightarrow> '''' | Some v \<Rightarrow> show_int v),
      coalesce (an_currency item) '''', coalesce (an_eventCode item) '''', coalesce (an_success item) '''']"

definition adyenHmacData :: "AdyenNotificationItem \<Rightarrow> string" where
  "adyenHmacData item = join [colon] (map escapeField (signed_fields item))"

text \<open>\<open>Buffer.from(hmacKeyHex, 'hex')\<close> is part of the keyed function.\<close>

definition computeAdyenHmac :: "(string \<Rightarrow> string \<Rightarrow> string) \<Rightarrow> AdyenNotificationItem \<Rightarrow> string \<Rightarrow> string" where
  "computeAdyenHmac hmac64 item hmacKeyHex = hmac64 hmacKeyHex (adyenHmacData item)"

definition verifyAdyenHmac :: "(string \<Rightarrow> string \<Rightarrow> string) \<Rightarrow> AdyenNotificationItem \<Rightarrow> string \<Rightarrow> bool" where
  "verifyAdyenHmac hmac64 item hmacKeyHex =
     signature_matches (an_hmacSignature item) (computeAdyenHmac hmac64 item hmacKeyHex)"

lemma escapeField_Nil [simp]: "escapeField [] = []"
  by (simp add: escapeField_def replace_all_def)

lemma escapeField_Cons [simp]:
  "escapeField (c # s) = (if c = backslash \<or> c = colon then [backslash, c] else [c]) @ escapeField s"
  by (auto simp: escapeField_def replace_all_def backslash_def colon_def)

definition field_end :: "string \<Rightarrow> bool" where
  "field_end r \<longleftrightarrow> r = [] \<or> hd r = colon"

lemma escape_separates:
  "escapeField x @ r = escapeField y @ r' \<Longrightarrow> field_end r \<Longrightarrow> field_end r' \<Longrightarrow> x = y \<and> r = r'"
proof (induction x arbitrary: y)
  case Nil
  then show ?case
    by (cases y) (auto simp: field_end_def backslash_def colon_def split: if_splits)
next
  case (Cons a x)
  show ?case
  proof (cases y)
    case Nil
    then show ?thesis using Cons.prems by (auto simp: field_end_def backslash_def colon_def split: if_splits)
  next
    case (Cons b z)
    have "a = b \<and> escapeField x @ r = escapeField z @ r'"
      using Cons.prems(1) local.Cons by (auto split: if_splits)
    then show ?thesis using Cons.IH [of z] Cons.prems(2,3) local.Cons by simp
  qed
qed

lemma join_escape_inj:
  "length xs = length ys \<Longrightarrow> join [colon] (map escapeField xs) = join [colon] (map escapeField ys) \<Longrightarrow> xs = ys"
proof (induction xs ys rule: list_induct2)
  case (Cons x xs y ys)
  note eq = Cons.prems
  show ?case
  proof (cases "xs = []")
    case True
    then have "ys = []" using Cons.hyps by simp
    then show ?thesis using eq True escape_separates [of x "[]" y "[]"] by (simp add: field_end_def)
  next
    case False
    then have "ys \<noteq> []" using Cons.hyps by auto
    then have "escapeField x @ [colon] @ join [colon] (map escapeField xs) =
               escapeField y @ [colon] @ join [colon] (map escapeField ys)"
      using eq False by (cases xs; cases ys) simp_all
    then have "x = y \<and> [colon] @ join [colon] (map escapeField xs) = [colon] @ join [colon] (map escapeField ys)"
      by (intro escape_separates) (simp_all add: field_end_def)
    then show ?thesis using Cons.IH by blast
  qed
qed (rule refl)

lemma adyen_data_determines_fields: "adyenHmacData a = adyenHmacData b \<Longrightarrow> signed_fields a = signed_fields b"
  unfolding adyenHmacData_def by (rule join_escape_inj) (simp add: signed_fields_def)

end
