(* ===== verification/StripeAdapter.thy ===== *)
theory StripeAdapter
  imports WebhookAuth
begin

text \<open>
  The Stripe adapter (\<open>packages/poal/src/stripe/\<close>): the REST client (\<open>client.ts\<close>), the webhook
  normalization, the charge, the reconciliation poll and the mapping helpers of \<open>adapter.ts\<close>.
  The theory ends with the adapter as a provider of the port's contract.
\<close>

subsection \<open>The client\<close>

record StripeConfig =
  sc_secretKey :: string
  sc_webhookSecret :: string
  sc_merchantId :: ident
  sc_apiVersion :: "string option"
  sc_baseUrl :: "string option"

definition stripe_base :: "StripeConfig \<Rightarrow> string" where
  "stripe_base cfg = coalesce (sc_baseUrl cfg) ''https://api.stripe.com/v1''"

definition stripe_headers :: "StripeConfig \<Rightarrow> (string \<times> string) list \<Rightarrow> (string \<times> string) list" where
  "stripe_headers cfg extra =
     (''Authorization'', ''Bearer '' @ sc_secretKey cfg) # extra @
     (if given (sc_apiVersion cfg) then [(''Stripe-Version'', coalesce (sc_apiVersion cfg) '''')] else [])"

text \<open>\<open>parse\<close>: an error response is a \<open>StripeError\<close>, its body parsed when it is JSON.\<close>

definition stripe_failure :: "'w Platform \<Rightarrow> PortResponse \<Rightarrow> ClientFailure" where
  "stripe_failure pf res =
     (let raw = rp_text res;
          parsed = (if raw = '''' then VObj []
                    else coalesce (pf_parseJson pf raw) (VObj [(''error'', VObj [(''message'', VStr raw)])]))
      in \<lparr>cf_status = rp_status res, cf_body = parsed, cf_raw = raw,
          cf_message = coalesce (fstr (member parsed ''error'') ''message'') (''Stripe error '' @ show_int (rp_status res))\<rparr>)"

definition stripe_parse :: "'w Platform \<Rightarrow> PortResponse \<Rightarrow> ('w, jsval client_result) eff" where
  "stripe_parse pf res =
     (if \<not> rp_ok res then ok (Inl (stripe_failure pf res))
      else if rp_text res = '''' then ok (Inr (VObj []))
      else (case pf_parseJson pf (rp_text res) of
              None \<Rightarrow> throw syntax_error
            | Some v \<Rightarrow> ok (Inr v)))"

definition stripe_get ::
  "'w Platform \<Rightarrow> StripeConfig \<Rightarrow> string \<Rightarrow> (string \<times> string option) list \<Rightarrow> ('w, jsval client_result) eff" where
  "stripe_get pf cfg path query =
     (let qs = form_encode query in
      andThen (pf_fetch pf
        \<lparr>rq_url = stripe_base cfg @ path @ (if qs = '''' then '''' else ''?'' @ qs), rq_verb = ''GET'',
         rq_headers = stripe_headers cfg [], rq_body = None\<rparr>) (stripe_parse pf))"

definition stripe_post ::
  "'w Platform \<Rightarrow> StripeConfig \<Rightarrow> string \<Rightarrow> (string \<times> string option) list \<Rightarrow> string \<Rightarrow>
   ('w, (jsval \<times> bool) client_result) eff" where
  "stripe_post pf cfg path params key =
     andThen (pf_fetch pf
       \<lparr>rq_url = stripe_base cfg @ path, rq_verb = ''POST'',
        rq_headers = stripe_headers cfg [(''Content-Type'', ''application/x-www-form-urlencoded'')] @
          (if key = '''' then [] else [(''Idempotency-Key'', key)]),
        rq_body = Some (form_encode params)\<rparr>) (\<lambda>res.
     andThen (stripe_parse pf res) (\<lambda>r.
       ok (map_sum id (\<lambda>body. (body, rp_header res ''idempotent-replayed'' = Some ''true'')) r)))"

definition stripe_isCardError :: "ClientFailure \<Rightarrow> bool" where
  "stripe_isCardError f = (fstr (member (cf_body f) ''error'') ''type'' = Some ''card_error'')"

subsection \<open>Mapping helpers\<close>

definition currency_of :: "jsval \<Rightarrow> currency" where
  "currency_of v = to_upper (coalesce (fstr v ''currency'') ''usd'')"

definition stripe_mapInvoiceStatus :: "string option \<Rightarrow> InvoiceStatus" where
  "stripe_mapInvoiceStatus status =
     (if status = Some ''paid'' then InvPaid
      else if status = Some ''void'' then InvVoid
      else if status = Some ''uncollectible'' then InvUncollectible
      else InvOpen)"

definition stripe_mapInvoice :: "StripeConfig \<Rightarrow> jsval \<Rightarrow> iso \<Rightarrow> bool \<Rightarrow> js_error + Invoice" where
  "stripe_mapInvoice cfg sinv occurredAt failed =
     bind_sum (isoFromEpoch (fint sinv ''created'')) (\<lambda>created.
       Inr \<lparr>inv_id = ''ax10m_inv_'' @ printed (fstr sinv ''id''),
        inv_subscriptionId = prefixed ''ax10m_sub_'' (fstr sinv ''subscription''),
        inv_customerId = coalesce (prefixed ''ax10m_cus_'' (fstr sinv ''customer'')) '''',
        inv_merchantId = sc_merchantId cfg,
        inv_processorRef = coalesce (fstr sinv ''id'') '''',
        inv_amount = \<lparr>amount = coalesce (or_else (fint sinv ''amount_due'')
                        (or_else (fint sinv ''amount_remaining'') (fint sinv ''total''))) 0,
                      money_currency = currency_of sinv\<rparr>,
        inv_status = stripe_mapInvoiceStatus (fstr sinv ''status''),
        inv_firstFailedAt = (if failed then Some occurredAt else None),
        inv_createdAt = created\<rparr>)"

definition stripe_mapChargeAsInvoice :: "StripeConfig \<Rightarrow> jsval \<Rightarrow> iso \<Rightarrow> bool \<Rightarrow> js_error + Invoice" where
  "stripe_mapChargeAsInvoice cfg ch occurredAt failed =
     bind_sum (isoFromEpoch (fint ch ''created'')) (\<lambda>created.
       let ref = or_else (fstr ch ''invoice'') (fstr ch ''id'') in
       Inr \<lparr>inv_id = ''ax10m_inv_'' @ printed ref,
        inv_subscriptionId = None,
        inv_customerId = coalesce (prefixed ''ax10m_cus_'' (fstr ch ''customer'')) '''',
        inv_merchantId = sc_merchantId cfg,
        inv_processorRef = coalesce ref '''',
        inv_amount = \<lparr>amount = coalesce (fint ch ''amount'') 0, money_currency = currency_of ch\<rparr>,
        inv_status = (if failed then InvOpen else InvPaid),
        inv_firstFailedAt = (if failed then Some occurredAt else None),
        inv_createdAt = created\<rparr>)"

definition stripe_buildDecline :: "string option \<Rightarrow> ident \<Rightarrow> ident \<Rightarrow> iso \<Rightarrow> DeclineEvent" where
  "stripe_buildDecline rawCode invoiceId chargeAttemptId occurredAt =
     (let code = mapStripeDeclineCode rawCode in
      \<lparr>dec_id = ''ax10m_dec_'' @ invoiceId, dec_invoiceId = invoiceId, dec_chargeAttemptId = chargeAttemptId,
       dec_code = code, dec_family = familyOf code, dec_rawReason = rawCode, dec_occurredAt = occurredAt\<rparr>)"

definition stripe_mapPaymentMethod :: "jsval \<Rightarrow> Customer \<Rightarrow> PaymentMethod" where
  "stripe_mapPaymentMethod pm customer =
     (let id = coalesce (fstr pm ''id'') ''''; card = member pm ''card'' in
      \<lparr>pm_id = ''ax10m_pm_'' @ id, pm_customerId = cust_id customer, pm_processorRef = id, pm_token = id,
       pm_brand = fstr card ''brand'', pm_last4 = fstr card ''last4'', pm_bin = None,
       pm_expMonth = fint card ''exp_month'', pm_expYear = fint card ''exp_year'', pm_autoUpdated = None\<rparr>)"

subsection \<open>Webhooks\<close>

definition stripe_envelope :: "StripeConfig \<Rightarrow> jsval \<Rightarrow> iso \<Rightarrow> AdapterPayload \<Rightarrow> AdapterEvent" where
  "stripe_envelope cfg event occurredAt payload =
     \<lparr>ae_id = ''ax10m_evt_'' @ coalesce (fstr event ''id'') '''', ae_merchantId = sc_merchantId cfg,
      ae_processorEventId = coalesce (fstr event ''id'') '''', ae_occurredAt = occurredAt, ae_payload = payload\<rparr>"

text \<open>A failed invoice with its attempt, decline and customer.\<close>

definition stripe_failed ::
  "Invoice \<Rightarrow> DeclineCode option \<Rightarrow> string option \<Rightarrow> string option \<Rightarrow> ContactOverrides \<Rightarrow> iso \<Rightarrow> AdapterPayload" where
  "stripe_failed invoice code rawCode txnId contact occurredAt =
     (let attempt = buildAttempt (inv_id invoice) '''' '''' (inv_amount invoice) Failed code txnId occurredAt;
          decline = stripe_buildDecline rawCode (inv_id invoice) (ca_id attempt) occurredAt
      in ApFailed invoice (Some attempt) (Some decline) (Some (customerFromInvoice invoice contact)) None)"

definition stripe_invoice_failed :: "StripeConfig \<Rightarrow> jsval \<Rightarrow> iso \<Rightarrow> js_error + AdapterPayload list" where
  "stripe_invoice_failed cfg sinv occurredAt =
     bind_sum (stripe_mapInvoice cfg sinv occurredAt True) (\<lambda>invoice.
       Inr [stripe_failed invoice None None None
              (contactOverrides (fstr sinv ''customer_email'') (fstr sinv ''customer_phone'')) occurredAt])"

definition stripe_invoice_paid :: "StripeConfig \<Rightarrow> jsval \<Rightarrow> iso \<Rightarrow> js_error + AdapterPayload list" where
  "stripe_invoice_paid cfg sinv occurredAt =
     bind_sum (stripe_mapInvoice cfg sinv occurredAt False) (\<lambda>invoice. Inr [ApPaid invoice None])"

definition stripe_charge_failed :: "StripeConfig \<Rightarrow> jsval \<Rightarrow> iso \<Rightarrow> js_error + AdapterPayload list" where
  "stripe_charge_failed cfg ch occurredAt =
     bind_sum (stripe_mapChargeAsInvoice cfg ch occurredAt True) (\<lambda>invoice.
       let rawCode = or_else (fstr ch ''decline_code'') (or_else (fstr ch ''failure_code'')
                       (fstr (member ch ''outcome'') ''reason''));
           billing = member ch ''billing_details'' in
       Inr [stripe_failed invoice (Some (mapStripeDeclineCode rawCode)) rawCode (fstr ch ''id'')
              (contactOverrides (or_else (fstr billing ''email'') (fstr ch ''receipt_email'')) (fstr billing ''phone''))
              occurredAt])"

definition stripe_charge_succeeded :: "StripeConfig \<Rightarrow> jsval \<Rightarrow> iso \<Rightarrow> js_error + AdapterPayload list" where
  "stripe_charge_succeeded cfg ch occurredAt =
     bind_sum (stripe_mapChargeAsInvoice cfg ch occurredAt False) (\<lambda>invoice. Inr [ApPaid invoice None])"

definition stripe_charge_refunded :: "jsval \<Rightarrow> AdapterPayload list" where
  "stripe_charge_refunded ch =
     (if \<not> given (fstr ch ''invoice'') then []
      else let newest = (case flist (member ch ''refunds'') ''data'' of [] \<Rightarrow> VNull | r # _ \<Rightarrow> r);
               amt = coalesce (or_else (fint newest ''amount'') (fint ch ''amount_refunded'')) 0 in
           if amt \<le> 0 then []
           else [ApReversed \<lparr>rev_invoiceId = ''ax10m_inv_'' @ coalesce (fstr ch ''invoice'') '''', rev_amount = amt,
                   rev_currency = currency_of ch, rev_kind = Refund, rev_reason = fstr newest ''reason''\<rparr>])"

definition resolveInvoiceRef :: "'w Platform \<Rightarrow> StripeConfig \<Rightarrow> string \<Rightarrow> ('w, string option) eff" where
  "resolveInvoiceRef pf cfg chargeId =
     catchE
       (andThen (andThen (stripe_get pf cfg (''/charges/'' @ encodeURIComponent chargeId) []) unwrap) (\<lambda>ch.
          ok (if_given (fstr ch ''invoice'') Some None)))
       (\<lambda>_. ok None)"

definition stripe_dispute ::
  "'w Platform \<Rightarrow> StripeConfig \<Rightarrow> jsval \<Rightarrow> (ReversalPayload \<Rightarrow> AdapterPayload) \<Rightarrow> string option \<Rightarrow>
   ('w, AdapterPayload list) eff" where
  "stripe_dispute pf cfg d wrap reason =
     (let amt = coalesce (fint d ''amount'') 0 in
      if \<not> given (fstr d ''charge'') \<or> amt \<le> 0 then ok []
      else andThen (resolveInvoiceRef pf cfg (coalesce (fstr d ''charge'') '''')) (\<lambda>invoiceRef.
        ok (case invoiceRef of
              None \<Rightarrow> []
            | Some ref \<Rightarrow> if ref = '''' then []
                else [wrap \<lparr>rev_invoiceId = ''ax10m_inv_'' @ ref, rev_amount = amt, rev_currency = currency_of d,
                           rev_kind = Chargeback, rev_reason = reason\<rparr>])))"

definition stripe_event :: "'w Platform \<Rightarrow> StripeConfig \<Rightarrow> string option \<Rightarrow> jsval \<Rightarrow> iso \<Rightarrow> ('w, AdapterPayload list) eff" where
  "stripe_event pf cfg type obj occurredAt =
     (if type = Some ''invoice.payment_failed'' then lift_sum (stripe_invoice_failed cfg obj occurredAt)
      else if type = Some ''invoice.payment_succeeded'' \<or> type = Some ''invoice.paid'' then
        lift_sum (stripe_invoice_paid cfg obj occurredAt)
      else if type = Some ''charge.failed'' then lift_sum (stripe_charge_failed cfg obj occurredAt)
      else if type = Some ''charge.succeeded'' then lift_sum (stripe_charge_succeeded cfg obj occurredAt)
      else if type = Some ''charge.refunded'' then ok (stripe_charge_refunded obj)
      else if type = Some ''charge.dispute.created'' then
        stripe_dispute pf cfg obj ApReversed (fstr obj ''reason'')
      else if type = Some ''charge.dispute.closed'' then
        (if fstr obj ''status'' \<noteq> Some ''won'' then ok []
         else stripe_dispute pf cfg obj ApReverted (Some ''dispute_won''))
      else ok [])"

definition stripe_authentic :: "'w Platform \<Rightarrow> StripeConfig \<Rightarrow> RawWebhook \<Rightarrow> bool" where
  "stripe_authentic pf cfg raw =
     verifyStripeSignature (pf_hmac pf) (pf_number pf) (rw_body raw)
       (or_else (map_of (rw_headers raw) ''stripe-signature'') (map_of (rw_headers raw) ''Stripe-Signature''))
       (sc_webhookSecret cfg) no_tolerance"

definition stripe_ingest :: "'w Platform \<Rightarrow> StripeConfig \<Rightarrow> RawWebhook \<Rightarrow> ('w, AdapterEvent list) eff" where
  "stripe_ingest pf cfg raw =
     (if \<not> stripe_authentic pf cfg raw then
        throw (JsError ''StripeAdapter.ingestWebhook: Stripe-Signature verification failed'')
      else (case pf_parseJson pf (rw_body raw) of
          None \<Rightarrow> throw (JsError ''StripeAdapter.ingestWebhook: body is not valid JSON'')
        | Some event \<Rightarrow>
            if event = VNull then throw (TypeError ''Cannot read properties of null'')
            else andThen (lift_sum (isoFromEpoch (fint event ''created''))) (\<lambda>occurredAt.
              andThen (stripe_event pf cfg (fstr event ''type'') (member (member event ''data'') ''object'') occurredAt)
                (\<lambda>payloads. ok (map (stripe_envelope cfg event occurredAt) payloads)))))"

subsection \<open>Charging and polling\<close>

definition stripe_capabilities :: CapabilityMatrix where
  "stripe_capabilities =
     \<lparr>cap_integrationMode = Drive, cap_externalRetryControl = True, cap_accountUpdater = True,
      cap_networkTokens = True, cap_partialCapture = True, cap_pauseNativeDunning = True,
      cap_webhooks = True, cap_listPaymentMethods = True\<rparr>"

definition stripe_charged ::
  "'w Platform \<Rightarrow> Invoice \<Rightarrow> PaymentMethod \<Rightarrow> string \<Rightarrow> jsval \<times> bool \<Rightarrow> ('w, AdapterResult) eff" where
  "stripe_charged pf invoice pm key res =
     (let body = fst res;
          status = coalesce (fstr body ''status'') '''';
          paid = ftrue body ''paid'' \<or> status = ''paid'';
          outcome = (if paid then Succeeded else if status = ''open'' then Failed else Pending) in
      andThen (pf_clock pf) (\<lambda>now.
        ok \<lparr>ar_attempt = buildAttempt (inv_id invoice) (pm_id pm) key (inv_amount invoice) outcome None
              (fstr body ''id'') now,
            ar_outcome = outcome, ar_idempotentReplay = snd res\<rparr>))"

text \<open>A card error is a decline, an outcome; any other error propagates, for the saga to retry.\<close>

definition stripe_declined ::
  "'w Platform \<Rightarrow> Invoice \<Rightarrow> PaymentMethod \<Rightarrow> string \<Rightarrow> ClientFailure \<Rightarrow> ('w, AdapterResult) eff" where
  "stripe_declined pf invoice pm key f =
     (if stripe_isCardError f then
        (let err = member (cf_body f) ''error'' in
         declined_charge pf invoice pm key
           (mapStripeDeclineCode (or_else (fstr err ''decline_code'') (fstr err ''code''))) None)
      else rethrow f)"

definition stripe_attemptCharge ::
  "'w Platform \<Rightarrow> StripeConfig \<Rightarrow> Invoice \<Rightarrow> PaymentMethod \<Rightarrow> string \<Rightarrow> ('w, AdapterResult) eff" where
  "stripe_attemptCharge pf cfg invoice pm key =
     andThen (stripe_post pf cfg (''/invoices/'' @ encodeURIComponent (inv_processorRef invoice) @ ''/pay'')
       [(''payment_method'', Some (pm_processorRef pm)), (''off_session'', Some ''true'')] key)
       (case_sum (stripe_declined pf invoice pm key) (stripe_charged pf invoice pm key))"

definition stripe_fetchUpdatedCard :: "PaymentMethod \<Rightarrow> ('w, PaymentMethod option) eff" where
  "stripe_fetchUpdatedCard pm = ok None"

definition stripe_listPaymentMethods :: "'w Platform \<Rightarrow> StripeConfig \<Rightarrow> Customer \<Rightarrow> ('w, PaymentMethod list) eff" where
  "stripe_listPaymentMethods pf cfg customer =
     andThen (andThen (stripe_get pf cfg ''/payment_methods''
       [(''customer'', Some (cust_processorRef customer)), (''type'', Some ''card''), (''limit'', Some ''100'')]) unwrap) (\<lambda>res.
       ok (map (\<lambda>pm. stripe_mapPaymentMethod pm customer) (flist res ''data'')))"

text \<open>\<open>data.map(inv => this.mapInvoice(inv, isoFromEpoch(inv.created), true))\<close>\<close>

fun stripe_mapInvoices :: "StripeConfig \<Rightarrow> jsval list \<Rightarrow> js_error + Invoice list" where
  "stripe_mapInvoices cfg [] = Inr []"
| "stripe_mapInvoices cfg (v # vs) =
     bind_sum (isoFromEpoch (fint v ''created'')) (\<lambda>created.
     bind_sum (stripe_mapInvoice cfg v created True) (\<lambda>invoice.
     bind_sum (stripe_mapInvoices cfg vs) (\<lambda>rest. Inr (invoice # rest))))"

definition stripe_listOpenFailures :: "'w Platform \<Rightarrow> StripeConfig \<Rightarrow> Cursor \<Rightarrow> ('w, OpenFailuresPage) eff" where
  "stripe_listOpenFailures pf cfg cursor =
     andThen (andThen (stripe_get pf cfg ''/invoices''
       [(''status'', Some ''open''), (''collection_method'', Some ''charge_automatically''), (''limit'', Some ''100''),
        (''starting_after'', cursor)]) unwrap) (\<lambda>res.
     (let data = flist res ''data'' in
      andThen (lift_sum (stripe_mapInvoices cfg data)) (\<lambda>invoices.
        ok \<lparr>op_invoices = invoices,
            op_nextCursor = (if ftrue res ''has_more'' \<and> data \<noteq> [] then fstr (last data) ''id'' else None)\<rparr>)))"

text \<open>The adapter as the recovery-case service calls it; \<open>isoText\<close> prints a timestamp.\<close>

definition stripe_adapter :: "(iso \<Rightarrow> string) \<Rightarrow> 'w Platform \<Rightarrow> StripeConfig \<Rightarrow> 'w ProcessorAdapter" where
  "stripe_adapter isoText pf cfg =
     \<lparr>ad_id = ''stripe'',
      ad_ingestWebhook = (\<lambda>raw. andThen (stripe_ingest pf cfg raw) (\<lambda>es. ok (map (service_event isoText) es))),
      ad_attemptCharge = (\<lambda>invoice pm key. andThen (stripe_attemptCharge pf cfg invoice pm key) (\<lambda>r. ok (service_result r))),
      ad_fetchUpdatedCard = stripe_fetchUpdatedCard,
      ad_listPaymentMethods = stripe_listPaymentMethods pf cfg\<rparr>"

subsection \<open>The contract\<close>

lemma stripe_mapInvoice_ok:
  assumes "stripe_mapInvoice cfg v w failed = Inr invc"
  shows "inv_merchantId invc = sc_merchantId cfg" "inv_firstFailedAt invc = (if failed then Some w else None)"
  using assms by (auto simp: stripe_mapInvoice_def)

lemma stripe_mapCharge_ok:
  assumes "stripe_mapChargeAsInvoice cfg v w failed = Inr invc"
  shows "inv_merchantId invc = sc_merchantId cfg" "inv_firstFailedAt invc = (if failed then Some w else None)"
  using assms by (auto simp: stripe_mapChargeAsInvoice_def Let_def)

lemma stripe_failed_ok:
  assumes "inv_merchantId invc = m" "inv_firstFailedAt invc \<noteq> None"
  shows "payload_ok m (stripe_failed invc code raw txn (contactOverrides e p) w)"
  using assms by (simp add: stripe_failed_def Let_def payload_defs
      stripe_buildDecline_def)

lemma stripe_dispute_ok:
  assumes "stripe_dispute pf cfg d wrap reason w = (Inr ps, w')"
    and "\<And>r. 0 < rev_amount r \<Longrightarrow> payload_ok m (wrap r)"
  shows "list_all (payload_ok m) ps"
  using assms by (auto simp: stripe_dispute_def Let_def andThen_Inr split: if_splits option.splits)

lemma stripe_event_ok:
  assumes "stripe_event pf cfg type obj occ w = (Inr ps, w')"
  shows "list_all (payload_ok (sc_merchantId cfg)) ps"
proof -
  note dispute = stripe_dispute_ok [where m = "sc_merchantId cfg"]
  show ?thesis
    using assms
    by (auto simp: stripe_event_def stripe_invoice_failed_def stripe_invoice_paid_def stripe_charge_failed_def
        stripe_charge_succeeded_def stripe_charge_refunded_def Let_def stripe_failed_ok
        stripe_mapInvoice_ok stripe_mapCharge_ok
        dest!: dispute split: if_splits)
qed

lemma stripe_charge_ok:
  assumes "stripe_attemptCharge pf cfg invc pm key w = (Inr r, w')"
  shows "charge_ok invc pm key r"
proof (rule charge_via [OF assms [unfolded stripe_attemptCharge_def]])
  show "charge_ok invc pm key r" if "stripe_declined pf invc pm key f t = (Inr r, t')" for f t t'
    using that by (auto simp: stripe_declined_def Let_def declined_charge_ok split: if_splits)
  show "charge_ok invc pm key r" if "stripe_charged pf invc pm key a t = (Inr r, t')" for a t t'
    using that by (auto simp: stripe_charged_def Let_def andThen_Inr charge_ok_def split: if_splits)
qed

interpretation stripe: strict_adapter "sc_merchantId cfg" "\<lambda>raw w. stripe_authentic pf cfg raw"
    "stripe_ingest pf cfg" "stripe_attemptCharge pf cfg" for pf cfg
proof
  fix raw w es w'
  assume i: "stripe_ingest pf cfg raw w = (Inr es, w')"
  show "stripe_authentic pf cfg raw"
    using i by (auto simp: stripe_ingest_def split: if_splits)
  show "list_all (event_ok (sc_merchantId cfg)) es"
    using i by (auto simp: stripe_ingest_def andThen_Inr stripe_envelope_def event_ok_def list_all_iff
        split: if_splits option.splits dest!: stripe_event_ok)
qed (rule stripe_charge_ok)

end
