(* ===== verification/Registry.thy ===== *)
theory Registry
  imports StripeAdapter
begin

text \<open>
  What AX10M claims to support (\<open>adapters/registry.ts\<close>), what each adapter class advertises
  (its \<open>capabilities()\<close>), the behaviour skeleton adapters inherit (\<open>adapters/base.ts\<close>), the
  factory of webhook-capable adapters (\<open>factory.ts\<close>) and the contact report of
  \<open>validate-contact.ts\<close>.
\<close>

subsection \<open>Capability matrices\<close>

definition AdyenAdapter_capabilities :: CapabilityMatrix where
  "AdyenAdapter_capabilities =
     \<lparr>cap_integrationMode = Drive, cap_externalRetryControl = True, cap_accountUpdater = True,
      cap_networkTokens = True, cap_partialCapture = True, cap_pauseNativeDunning = False,
      cap_webhooks = True, cap_listPaymentMethods = True\<rparr>"

definition PayPalAdapter_capabilities :: CapabilityMatrix where
  "PayPalAdapter_capabilities =
     \<lparr>cap_integrationMode = Drive, cap_externalRetryControl = True, cap_accountUpdater = False,
      cap_networkTokens = True, cap_partialCapture = False, cap_pauseNativeDunning = False,
      cap_webhooks = True, cap_listPaymentMethods = False\<rparr>"

definition CheckoutAdapter_capabilities :: CapabilityMatrix where
  "CheckoutAdapter_capabilities =
     \<lparr>cap_integrationMode = Drive, cap_externalRetryControl = True, cap_accountUpdater = True,
      cap_networkTokens = True, cap_partialCapture = True, cap_pauseNativeDunning = False,
      cap_webhooks = True, cap_listPaymentMethods = False\<rparr>"

definition WorldpayAdapter_capabilities :: CapabilityMatrix where
  "WorldpayAdapter_capabilities =
     \<lparr>cap_integrationMode = Drive, cap_externalRetryControl = True, cap_accountUpdater = True,
      cap_networkTokens = True, cap_partialCapture = True, cap_pauseNativeDunning = False,
      cap_webhooks = True, cap_listPaymentMethods = False\<rparr>"

definition TsysAdapter_capabilities :: CapabilityMatrix where
  "TsysAdapter_capabilities =
     \<lparr>cap_integrationMode = Drive, cap_externalRetryControl = True, cap_accountUpdater = False,
      cap_networkTokens = False, cap_partialCapture = True, cap_pauseNativeDunning = False,
      cap_webhooks = False, cap_listPaymentMethods = False\<rparr>"

definition ElavonAdapter_capabilities :: CapabilityMatrix where
  "ElavonAdapter_capabilities =
     \<lparr>cap_integrationMode = Drive, cap_externalRetryControl = True, cap_accountUpdater = False,
      cap_networkTokens = False, cap_partialCapture = True, cap_pauseNativeDunning = False,
      cap_webhooks = False, cap_listPaymentMethods = False\<rparr>"

definition DeluxeAdapter_capabilities :: CapabilityMatrix where
  "DeluxeAdapter_capabilities =
     \<lparr>cap_integrationMode = Drive, cap_externalRetryControl = True, cap_accountUpdater = False,
      cap_networkTokens = False, cap_partialCapture = False, cap_pauseNativeDunning = False,
      cap_webhooks = True, cap_listPaymentMethods = True\<rparr>"

definition CybersourceAdapter_capabilities :: CapabilityMatrix where
  "CybersourceAdapter_capabilities =
     \<lparr>cap_integrationMode = Drive, cap_externalRetryControl = True, cap_accountUpdater = True,
      cap_networkTokens = True, cap_partialCapture = True, cap_pauseNativeDunning = False,
      cap_webhooks = True, cap_listPaymentMethods = False\<rparr>"

definition AuthorizeNetAdapter_capabilities :: CapabilityMatrix where
  "AuthorizeNetAdapter_capabilities =
     \<lparr>cap_integrationMode = Drive, cap_externalRetryControl = True, cap_accountUpdater = True,
      cap_networkTokens = False, cap_partialCapture = True, cap_pauseNativeDunning = False,
      cap_webhooks = True, cap_listPaymentMethods = True\<rparr>"

definition FiservAdapter_capabilities :: CapabilityMatrix where
  "FiservAdapter_capabilities =
     \<lparr>cap_integrationMode = CoDrive, cap_externalRetryControl = True, cap_accountUpdater = True,
      cap_networkTokens = True, cap_partialCapture = True, cap_pauseNativeDunning = False,
      cap_webhooks = True, cap_listPaymentMethods = False\<rparr>"

definition GlobalPaymentsAdapter_capabilities :: CapabilityMatrix where
  "GlobalPaymentsAdapter_capabilities =
     \<lparr>cap_integrationMode = Drive, cap_externalRetryControl = True, cap_accountUpdater = True,
      cap_networkTokens = True, cap_partialCapture = True, cap_pauseNativeDunning = False,
      cap_webhooks = True, cap_listPaymentMethods = False\<rparr>"

definition SquareAdapter_capabilities :: CapabilityMatrix where
  "SquareAdapter_capabilities =
     \<lparr>cap_integrationMode = Drive, cap_externalRetryControl = True, cap_accountUpdater = False,
      cap_networkTokens = False, cap_partialCapture = False, cap_pauseNativeDunning = False,
      cap_webhooks = True, cap_listPaymentMethods = True\<rparr>"

definition MollieAdapter_capabilities :: CapabilityMatrix where
  "MollieAdapter_capabilities =
     \<lparr>cap_integrationMode = CoDrive, cap_externalRetryControl = True, cap_accountUpdater = False,
      cap_networkTokens = False, cap_partialCapture = False, cap_pauseNativeDunning = False,
      cap_webhooks = True, cap_listPaymentMethods = True\<rparr>"

definition NuveiAdapter_capabilities :: CapabilityMatrix where
  "NuveiAdapter_capabilities =
     \<lparr>cap_integrationMode = Drive, cap_externalRetryControl = True, cap_accountUpdater = True,
      cap_networkTokens = True, cap_partialCapture = True, cap_pauseNativeDunning = False,
      cap_webhooks = True, cap_listPaymentMethods = False\<rparr>"

definition RazorpayAdapter_capabilities :: CapabilityMatrix where
  "RazorpayAdapter_capabilities =
     \<lparr>cap_integrationMode = CoDrive, cap_externalRetryControl = True, cap_accountUpdater = False,
      cap_networkTokens = True, cap_partialCapture = False, cap_pauseNativeDunning = False,
      cap_webhooks = True, cap_listPaymentMethods = False\<rparr>"

definition PayUAdapter_capabilities :: CapabilityMatrix where
  "PayUAdapter_capabilities =
     \<lparr>cap_integrationMode = Advisory, cap_externalRetryControl = False, cap_accountUpdater = False,
      cap_networkTokens = False, cap_partialCapture = False, cap_pauseNativeDunning = False,
      cap_webhooks = True, cap_listPaymentMethods = False\<rparr>"

definition ChargebeeAdapter_capabilities :: CapabilityMatrix where
  "ChargebeeAdapter_capabilities =
     \<lparr>cap_integrationMode = Drive, cap_externalRetryControl = True, cap_accountUpdater = True,
      cap_networkTokens = True, cap_partialCapture = True, cap_pauseNativeDunning = True,
      cap_webhooks = True, cap_listPaymentMethods = True\<rparr>"

definition RecurlyAdapter_capabilities :: CapabilityMatrix where
  "RecurlyAdapter_capabilities =
     \<lparr>cap_integrationMode = CoDrive, cap_externalRetryControl = True, cap_accountUpdater = True,
      cap_networkTokens = True, cap_partialCapture = False, cap_pauseNativeDunning = True,
      cap_webhooks = True, cap_listPaymentMethods = True\<rparr>"

definition ZuoraAdapter_capabilities :: CapabilityMatrix where
  "ZuoraAdapter_capabilities =
     \<lparr>cap_integrationMode = CoDrive, cap_externalRetryControl = True, cap_accountUpdater = False,
      cap_networkTokens = False, cap_partialCapture = True, cap_pauseNativeDunning = False,
      cap_webhooks = True, cap_listPaymentMethods = False\<rparr>"

definition MaxioAdapter_capabilities :: CapabilityMatrix where
  "MaxioAdapter_capabilities =
     \<lparr>cap_integrationMode = Drive, cap_externalRetryControl = True, cap_accountUpdater = True,
      cap_networkTokens = False, cap_partialCapture = True, cap_pauseNativeDunning = False,
      cap_webhooks = True, cap_listPaymentMethods = False\<rparr>"

definition StripeBillingAdapter_capabilities :: CapabilityMatrix where
  "StripeBillingAdapter_capabilities =
     \<lparr>cap_integrationMode = CoDrive, cap_externalRetryControl = True, cap_accountUpdater = True,
      cap_networkTokens = True, cap_partialCapture = True, cap_pauseNativeDunning = True,
      cap_webhooks = True, cap_listPaymentMethods = True\<rparr>"

definition VindiciaAdapter_capabilities :: CapabilityMatrix where
  "VindiciaAdapter_capabilities =
     \<lparr>cap_integrationMode = Advisory, cap_externalRetryControl = False, cap_accountUpdater = False,
      cap_networkTokens = False, cap_partialCapture = False, cap_pauseNativeDunning = False,
      cap_webhooks = True, cap_listPaymentMethods = False\<rparr>"

definition AppDirectAdapter_capabilities :: CapabilityMatrix where
  "AppDirectAdapter_capabilities =
     \<lparr>cap_integrationMode = CoDrive, cap_externalRetryControl = True, cap_accountUpdater = True,
      cap_networkTokens = False, cap_partialCapture = True, cap_pauseNativeDunning = True,
      cap_webhooks = True, cap_listPaymentMethods = True\<rparr>"

definition AriaAdapter_capabilities :: CapabilityMatrix where
  "AriaAdapter_capabilities =
     \<lparr>cap_integrationMode = CoDrive, cap_externalRetryControl = True, cap_accountUpdater = True,
      cap_networkTokens = True, cap_partialCapture = True, cap_pauseNativeDunning = True,
      cap_webhooks = True, cap_listPaymentMethods = True\<rparr>"

definition BillingPlatformAdapter_capabilities :: CapabilityMatrix where
  "BillingPlatformAdapter_capabilities =
     \<lparr>cap_integrationMode = CoDrive, cap_externalRetryControl = True, cap_accountUpdater = True,
      cap_networkTokens = False, cap_partialCapture = True, cap_pauseNativeDunning = True,
      cap_webhooks = True, cap_listPaymentMethods = True\<rparr>"

definition BluLogixAdapter_capabilities :: CapabilityMatrix where
  "BluLogixAdapter_capabilities =
     \<lparr>cap_integrationMode = CoDrive, cap_externalRetryControl = True, cap_accountUpdater = False,
      cap_networkTokens = False, cap_partialCapture = True, cap_pauseNativeDunning = True,
      cap_webhooks = True, cap_listPaymentMethods = True\<rparr>"

definition FrisbiiAdapter_capabilities :: CapabilityMatrix where
  "FrisbiiAdapter_capabilities =
     \<lparr>cap_integrationMode = CoDrive, cap_externalRetryControl = True, cap_accountUpdater = True,
      cap_networkTokens = True, cap_partialCapture = True, cap_pauseNativeDunning = True,
      cap_webhooks = True, cap_listPaymentMethods = True\<rparr>"

definition GotransverseAdapter_capabilities :: CapabilityMatrix where
  "GotransverseAdapter_capabilities =
     \<lparr>cap_integrationMode = CoDrive, cap_externalRetryControl = True, cap_accountUpdater = True,
      cap_networkTokens = False, cap_partialCapture = True, cap_pauseNativeDunning = True,
      cap_webhooks = True, cap_listPaymentMethods = True\<rparr>"

definition KeylightAdapter_capabilities :: CapabilityMatrix where
  "KeylightAdapter_capabilities =
     \<lparr>cap_integrationMode = CoDrive, cap_externalRetryControl = True, cap_accountUpdater = False,
      cap_networkTokens = False, cap_partialCapture = True, cap_pauseNativeDunning = True,
      cap_webhooks = True, cap_listPaymentMethods = True\<rparr>"

definition LogiSenseAdapter_capabilities :: CapabilityMatrix where
  "LogiSenseAdapter_capabilities =
     \<lparr>cap_integrationMode = CoDrive, cap_externalRetryControl = True, cap_accountUpdater = False,
      cap_networkTokens = False, cap_partialCapture = True, cap_pauseNativeDunning = True,
      cap_webhooks = True, cap_listPaymentMethods = True\<rparr>"

definition OracleBrmAdapter_capabilities :: CapabilityMatrix where
  "OracleBrmAdapter_capabilities =
     \<lparr>cap_integrationMode = CoDrive, cap_externalRetryControl = True, cap_accountUpdater = True,
      cap_networkTokens = False, cap_partialCapture = True, cap_pauseNativeDunning = True,
      cap_webhooks = True, cap_listPaymentMethods = True\<rparr>"

definition RecVueAdapter_capabilities :: CapabilityMatrix where
  "RecVueAdapter_capabilities =
     \<lparr>cap_integrationMode = CoDrive, cap_externalRetryControl = True, cap_accountUpdater = False,
      cap_networkTokens = False, cap_partialCapture = True, cap_pauseNativeDunning = True,
      cap_webhooks = True, cap_listPaymentMethods = True\<rparr>"

definition SapBrimAdapter_capabilities :: CapabilityMatrix where
  "SapBrimAdapter_capabilities =
     \<lparr>cap_integrationMode = CoDrive, cap_externalRetryControl = True, cap_accountUpdater = False,
      cap_networkTokens = False, cap_partialCapture = True, cap_pauseNativeDunning = True,
      cap_webhooks = True, cap_listPaymentMethods = True\<rparr>"

definition SalesforceRevenueCloudAdapter_capabilities :: CapabilityMatrix where
  "SalesforceRevenueCloudAdapter_capabilities =
     \<lparr>cap_integrationMode = CoDrive, cap_externalRetryControl = True, cap_accountUpdater = True,
      cap_networkTokens = False, cap_partialCapture = True, cap_pauseNativeDunning = True,
      cap_webhooks = True, cap_listPaymentMethods = True\<rparr>"

definition OneBillAdapter_capabilities :: CapabilityMatrix where
  "OneBillAdapter_capabilities =
     \<lparr>cap_integrationMode = CoDrive, cap_externalRetryControl = True, cap_accountUpdater = False,
      cap_networkTokens = False, cap_partialCapture = True, cap_pauseNativeDunning = True,
      cap_webhooks = True, cap_listPaymentMethods = True\<rparr>"

definition PaddleAdapter_capabilities :: CapabilityMatrix where
  "PaddleAdapter_capabilities =
     \<lparr>cap_integrationMode = Advisory, cap_externalRetryControl = False, cap_accountUpdater = False,
      cap_networkTokens = False, cap_partialCapture = False, cap_pauseNativeDunning = False,
      cap_webhooks = True, cap_listPaymentMethods = False\<rparr>"

definition ShopifyAdapter_capabilities :: CapabilityMatrix where
  "ShopifyAdapter_capabilities =
     \<lparr>cap_integrationMode = CoDrive, cap_externalRetryControl = True, cap_accountUpdater = True,
      cap_networkTokens = True, cap_partialCapture = False, cap_pauseNativeDunning = False,
      cap_webhooks = True, cap_listPaymentMethods = False\<rparr>"

definition WooCommerceAdapter_capabilities :: CapabilityMatrix where
  "WooCommerceAdapter_capabilities =
     \<lparr>cap_integrationMode = CoDrive, cap_externalRetryControl = True, cap_accountUpdater = False,
      cap_networkTokens = False, cap_partialCapture = False, cap_pauseNativeDunning = False,
      cap_webhooks = True, cap_listPaymentMethods = False\<rparr>"

definition BigCommerceAdapter_capabilities :: CapabilityMatrix where
  "BigCommerceAdapter_capabilities =
     \<lparr>cap_integrationMode = Advisory, cap_externalRetryControl = False, cap_accountUpdater = False,
      cap_networkTokens = False, cap_partialCapture = False, cap_pauseNativeDunning = False,
      cap_webhooks = True, cap_listPaymentMethods = False\<rparr>"

definition KajabiAdapter_capabilities :: CapabilityMatrix where
  "KajabiAdapter_capabilities =
     \<lparr>cap_integrationMode = Advisory, cap_externalRetryControl = False, cap_accountUpdater = False,
      cap_networkTokens = False, cap_partialCapture = False, cap_pauseNativeDunning = False,
      cap_webhooks = True, cap_listPaymentMethods = False\<rparr>"

definition ThriveCartAdapter_capabilities :: CapabilityMatrix where
  "ThriveCartAdapter_capabilities =
     \<lparr>cap_integrationMode = Advisory, cap_externalRetryControl = False, cap_accountUpdater = False,
      cap_networkTokens = False, cap_partialCapture = False, cap_pauseNativeDunning = False,
      cap_webhooks = True, cap_listPaymentMethods = False\<rparr>"

definition SamCartAdapter_capabilities :: CapabilityMatrix where
  "SamCartAdapter_capabilities =
     \<lparr>cap_integrationMode = Advisory, cap_externalRetryControl = False, cap_accountUpdater = False,
      cap_networkTokens = False, cap_partialCapture = False, cap_pauseNativeDunning = False,
      cap_webhooks = True, cap_listPaymentMethods = False\<rparr>"

definition AppleIapAdapter_capabilities :: CapabilityMatrix where
  "AppleIapAdapter_capabilities =
     \<lparr>cap_integrationMode = Advisory, cap_externalRetryControl = False, cap_accountUpdater = False,
      cap_networkTokens = False, cap_partialCapture = False, cap_pauseNativeDunning = False,
      cap_webhooks = True, cap_listPaymentMethods = False\<rparr>"

definition GooglePlayAdapter_capabilities :: CapabilityMatrix where
  "GooglePlayAdapter_capabilities =
     \<lparr>cap_integrationMode = Advisory, cap_externalRetryControl = False, cap_accountUpdater = False,
      cap_networkTokens = False, cap_partialCapture = False, cap_pauseNativeDunning = False,
      cap_webhooks = True, cap_listPaymentMethods = False\<rparr>"

text \<open>Two adapters advertise by their configuration: \<open>usesBraintreeSubscriptions\<close> and
  \<open>disableSuccessPlus\<close>.\<close>

definition BraintreeAdapter_capabilities :: "bool \<Rightarrow> CapabilityMatrix" where
  "BraintreeAdapter_capabilities usesSubscriptions =
     \<lparr>cap_integrationMode = (if usesSubscriptions then CoDrive else Drive), cap_externalRetryControl = True,
      cap_accountUpdater = True, cap_networkTokens = True, cap_partialCapture = True,
      cap_pauseNativeDunning = usesSubscriptions, cap_webhooks = True, cap_listPaymentMethods = True\<rparr>"

definition GoCardlessAdapter_capabilities :: "bool \<Rightarrow> CapabilityMatrix" where
  "GoCardlessAdapter_capabilities disableSuccessPlus =
     \<lparr>cap_integrationMode = (if disableSuccessPlus then Drive else CoDrive), cap_externalRetryControl = True,
      cap_accountUpdater = False, cap_networkTokens = False, cap_partialCapture = False,
      cap_pauseNativeDunning = True, cap_webhooks = True, cap_listPaymentMethods = True\<rparr>"

subsection \<open>The roster\<close>

datatype ProcessorSegment =
    CardGateway | BillingPlatform | BankDebit | MerchantOfRecord | EcommercePlatform | CreatorCommerce | AppStore

datatype AdapterStatus = Implemented | Skeleton | Planned

record ProcessorDescriptor =
  pd_id :: string
  pd_displayName :: string
  pd_segment :: ProcessorSegment
  pd_mode :: IntegrationMode
  pd_status :: AdapterStatus

text \<open>The matrix of each adapter class, by its \<open>id\<close>, in the default configuration.\<close>

definition adapter_capabilities :: "(string \<times> CapabilityMatrix) list" where
  "adapter_capabilities =
    [(''stripe'', stripe_capabilities),
     (''adyen'', AdyenAdapter_capabilities),
     (''braintree'', BraintreeAdapter_capabilities False),
     (''paypal'', PayPalAdapter_capabilities),
     (''checkout'', CheckoutAdapter_capabilities),
     (''worldpay'', WorldpayAdapter_capabilities),
     (''tsys'', TsysAdapter_capabilities),
     (''elavon'', ElavonAdapter_capabilities),
     (''deluxe'', DeluxeAdapter_capabilities),
     (''cybersource'', CybersourceAdapter_capabilities),
     (''authorizenet'', AuthorizeNetAdapter_capabilities),
     (''fiserv'', FiservAdapter_capabilities),
     (''globalpayments'', GlobalPaymentsAdapter_capabilities),
     (''square'', SquareAdapter_capabilities),
     (''mollie'', MollieAdapter_capabilities),
     (''nuvei'', NuveiAdapter_capabilities),
     (''razorpay'', RazorpayAdapter_capabilities),
     (''payu'', PayUAdapter_capabilities),
     (''chargebee'', ChargebeeAdapter_capabilities),
     (''recurly'', RecurlyAdapter_capabilities),
     (''zuora'', ZuoraAdapter_capabilities),
     (''maxio'', MaxioAdapter_capabilities),
     (''stripe-billing'', StripeBillingAdapter_capabilities),
     (''vindicia'', VindiciaAdapter_capabilities),
     (''appdirect'', AppDirectAdapter_capabilities),
     (''aria'', AriaAdapter_capabilities),
     (''billingplatform'', BillingPlatformAdapter_capabilities),
     (''blulogix'', BluLogixAdapter_capabilities),
     (''frisbii'', FrisbiiAdapter_capabilities),
     (''gotransverse'', GotransverseAdapter_capabilities),
     (''keylight'', KeylightAdapter_capabilities),
     (''logisense'', LogiSenseAdapter_capabilities),
     (''oracle-brm'', OracleBrmAdapter_capabilities),
     (''recvue'', RecVueAdapter_capabilities),
     (''sap-brim'', SapBrimAdapter_capabilities),
     (''salesforce-revenue-cloud'', SalesforceRevenueCloudAdapter_capabilities),
     (''onebill'', OneBillAdapter_capabilities),
     (''gocardless'', GoCardlessAdapter_capabilities False),
     (''paddle'', PaddleAdapter_capabilities),
     (''shopify'', ShopifyAdapter_capabilities),
     (''woocommerce'', WooCommerceAdapter_capabilities),
     (''bigcommerce'', BigCommerceAdapter_capabilities),
     (''kajabi'', KajabiAdapter_capabilities),
     (''thrivecart'', ThriveCartAdapter_capabilities),
     (''samcart'', SamCartAdapter_capabilities),
     (''apple-iap'', AppleIapAdapter_capabilities),
     (''google-play'', GooglePlayAdapter_capabilities)]"

definition skeleton_ids :: "string list" where
  "skeleton_ids =
    [''deluxe'',
     ''cybersource'',
     ''authorizenet'',
     ''fiserv'',
     ''globalpayments'',
     ''square'',
     ''mollie'',
     ''nuvei'',
     ''razorpay'',
     ''payu'',
     ''stripe-billing'',
     ''vindicia'',
     ''appdirect'',
     ''aria'',
     ''billingplatform'',
     ''blulogix'',
     ''frisbii'',
     ''gotransverse'',
     ''keylight'',
     ''logisense'',
     ''oracle-brm'',
     ''recvue'',
     ''sap-brim'',
     ''salesforce-revenue-cloud'',
     ''onebill'',
     ''paddle'',
     ''apple-iap'',
     ''google-play'']"

definition PROCESSOR_REGISTRY :: "ProcessorDescriptor list" where
  "PROCESSOR_REGISTRY =
    [\<lparr>pd_id = ''stripe'', pd_displayName = ''Stripe'', pd_segment = CardGateway, pd_mode = Drive, pd_status = Implemented\<rparr>,
     \<lparr>pd_id = ''adyen'', pd_displayName = ''Adyen'', pd_segment = CardGateway, pd_mode = Drive, pd_status = Implemented\<rparr>,
     \<lparr>pd_id = ''braintree'', pd_displayName = ''Braintree (PayPal)'', pd_segment = CardGateway, pd_mode = Drive, pd_status = Implemented\<rparr>,
     \<lparr>pd_id = ''paypal'', pd_displayName = ''PayPal'', pd_segment = CardGateway, pd_mode = Drive, pd_status = Implemented\<rparr>,
     \<lparr>pd_id = ''checkout'', pd_displayName = ''Checkout.com'', pd_segment = CardGateway, pd_mode = Drive, pd_status = Implemented\<rparr>,
     \<lparr>pd_id = ''worldpay'', pd_displayName = ''Worldpay / FIS'', pd_segment = CardGateway, pd_mode = Drive, pd_status = Implemented\<rparr>,
     \<lparr>pd_id = ''tsys'', pd_displayName = ''TSYS (Global Payments)'', pd_segment = CardGateway, pd_mode = Drive, pd_status = Implemented\<rparr>,
     \<lparr>pd_id = ''elavon'', pd_displayName = ''Elavon (Converge)'', pd_segment = CardGateway, pd_mode = Drive, pd_status = Implemented\<rparr>,
     \<lparr>pd_id = ''deluxe'', pd_displayName = ''Deluxe Merchant Services'', pd_segment = CardGateway, pd_mode = Drive, pd_status = Skeleton\<rparr>,
     \<lparr>pd_id = ''cybersource'', pd_displayName = ''Cybersource (Visa)'', pd_segment = CardGateway, pd_mode = Drive, pd_status = Skeleton\<rparr>,
     \<lparr>pd_id = ''authorizenet'', pd_displayName = ''Authorize.Net'', pd_segment = CardGateway, pd_mode = Drive, pd_status = Skeleton\<rparr>,
     \<lparr>pd_id = ''fiserv'', pd_displayName = ''Fiserv'', pd_segment = CardGateway, pd_mode = CoDrive, pd_status = Skeleton\<rparr>,
     \<lparr>pd_id = ''globalpayments'', pd_displayName = ''Global Payments'', pd_segment = CardGateway, pd_mode = Drive, pd_status = Skeleton\<rparr>,
     \<lparr>pd_id = ''square'', pd_displayName = ''Square'', pd_segment = CardGateway, pd_mode = Drive, pd_status = Skeleton\<rparr>,
     \<lparr>pd_id = ''mollie'', pd_displayName = ''Mollie'', pd_segment = CardGateway, pd_mode = CoDrive, pd_status = Skeleton\<rparr>,
     \<lparr>pd_id = ''nuvei'', pd_displayName = ''Nuvei'', pd_segment = CardGateway, pd_mode = Drive, pd_status = Skeleton\<rparr>,
     \<lparr>pd_id = ''razorpay'', pd_displayName = ''Razorpay'', pd_segment = CardGateway, pd_mode = CoDrive, pd_status = Skeleton\<rparr>,
     \<lparr>pd_id = ''payu'', pd_displayName = ''PayU'', pd_segment = CardGateway, pd_mode = Advisory, pd_status = Skeleton\<rparr>,
     \<lparr>pd_id = ''chargebee'', pd_displayName = ''Chargebee'', pd_segment = BillingPlatform, pd_mode = Drive, pd_status = Implemented\<rparr>,
     \<lparr>pd_id = ''recurly'', pd_displayName = ''Recurly'', pd_segment = BillingPlatform, pd_mode = CoDrive, pd_status = Implemented\<rparr>,
     \<lparr>pd_id = ''zuora'', pd_displayName = ''Zuora'', pd_segment = BillingPlatform, pd_mode = CoDrive, pd_status = Implemented\<rparr>,
     \<lparr>pd_id = ''maxio'', pd_displayName = ''Maxio (Chargify/SaaSOptics)'', pd_segment = BillingPlatform, pd_mode = Drive, pd_status = Implemented\<rparr>,
     \<lparr>pd_id = ''stripe-billing'', pd_displayName = ''Stripe Billing'', pd_segment = BillingPlatform, pd_mode = CoDrive, pd_status = Skeleton\<rparr>,
     \<lparr>pd_id = ''vindicia'', pd_displayName = ''Vindicia'', pd_segment = BillingPlatform, pd_mode = Advisory, pd_status = Skeleton\<rparr>,
     \<lparr>pd_id = ''appdirect'', pd_displayName = ''AppDirect'', pd_segment = BillingPlatform, pd_mode = CoDrive, pd_status = Skeleton\<rparr>,
     \<lparr>pd_id = ''aria'', pd_displayName = ''Aria Systems'', pd_segment = BillingPlatform, pd_mode = CoDrive, pd_status = Skeleton\<rparr>,
     \<lparr>pd_id = ''billingplatform'', pd_displayName = ''BillingPlatform'', pd_segment = BillingPlatform, pd_mode = CoDrive, pd_status = Skeleton\<rparr>,
     \<lparr>pd_id = ''blulogix'', pd_displayName = ''BluLogix'', pd_segment = BillingPlatform, pd_mode = CoDrive, pd_status = Skeleton\<rparr>,
     \<lparr>pd_id = ''frisbii'', pd_displayName = ''Frisbii (Reepay/Billwerk)'', pd_segment = BillingPlatform, pd_mode = CoDrive, pd_status = Skeleton\<rparr>,
     \<lparr>pd_id = ''gotransverse'', pd_displayName = ''Gotransverse'', pd_segment = BillingPlatform, pd_mode = CoDrive, pd_status = Skeleton\<rparr>,
     \<lparr>pd_id = ''keylight'', pd_displayName = ''Keylight'', pd_segment = BillingPlatform, pd_mode = CoDrive, pd_status = Skeleton\<rparr>,
     \<lparr>pd_id = ''logisense'', pd_displayName = ''LogiSense'', pd_segment = BillingPlatform, pd_mode = CoDrive, pd_status = Skeleton\<rparr>,
     \<lparr>pd_id = ''oracle-brm'', pd_displayName = ''Oracle (BRM / Subscription Mgmt)'', pd_segment = BillingPlatform, pd_mode = CoDrive, pd_status = Skeleton\<rparr>,
     \<lparr>pd_id = ''recvue'', pd_displayName = ''RecVue'', pd_segment = BillingPlatform, pd_mode = CoDrive, pd_status = Skeleton\<rparr>,
     \<lparr>pd_id = ''sap-brim'', pd_displayName = ''SAP (BRIM / Subscription Billing)'', pd_segment = BillingPlatform, pd_mode = CoDrive, pd_status = Skeleton\<rparr>,
     \<lparr>pd_id = ''salesforce-revenue-cloud'', pd_displayName = ''Salesforce Revenue Cloud Billing'', pd_segment = BillingPlatform, pd_mode = CoDrive, pd_status = Skeleton\<rparr>,
     \<lparr>pd_id = ''onebill'', pd_displayName = ''OneBill'', pd_segment = BillingPlatform, pd_mode = CoDrive, pd_status = Skeleton\<rparr>,
     \<lparr>pd_id = ''gocardless'', pd_displayName = ''GoCardless'', pd_segment = BankDebit, pd_mode = CoDrive, pd_status = Implemented\<rparr>,
     \<lparr>pd_id = ''paddle'', pd_displayName = ''Paddle'', pd_segment = MerchantOfRecord, pd_mode = Advisory, pd_status = Skeleton\<rparr>,
     \<lparr>pd_id = ''shopify'', pd_displayName = ''Shopify'', pd_segment = EcommercePlatform, pd_mode = CoDrive, pd_status = Implemented\<rparr>,
     \<lparr>pd_id = ''woocommerce'', pd_displayName = ''WooCommerce'', pd_segment = EcommercePlatform, pd_mode = CoDrive, pd_status = Implemented\<rparr>,
     \<lparr>pd_id = ''bigcommerce'', pd_displayName = ''BigCommerce'', pd_segment = EcommercePlatform, pd_mode = Advisory, pd_status = Implemented\<rparr>,
     \<lparr>pd_id = ''kajabi'', pd_displayName = ''Kajabi'', pd_segment = CreatorCommerce, pd_mode = Advisory, pd_status = Implemented\<rparr>,
     \<lparr>pd_id = ''thrivecart'', pd_displayName = ''ThriveCart'', pd_segment = CreatorCommerce, pd_mode = Advisory, pd_status = Implemented\<rparr>,
     \<lparr>pd_id = ''samcart'', pd_displayName = ''SamCart'', pd_segment = CreatorCommerce, pd_mode = Advisory, pd_status = Implemented\<rparr>,
     \<lparr>pd_id = ''apple-iap'', pd_displayName = ''Apple App Store'', pd_segment = AppStore, pd_mode = Advisory, pd_status = Skeleton\<rparr>,
     \<lparr>pd_id = ''google-play'', pd_displayName = ''Google Play'', pd_segment = AppStore, pd_mode = Advisory, pd_status = Skeleton\<rparr>]"

definition getProcessor :: "string \<Rightarrow> ProcessorDescriptor option" where
  "getProcessor pid = List.find (\<lambda>p. pd_id p = pid) PROCESSOR_REGISTRY"

definition count_mode :: "IntegrationMode \<Rightarrow> nat" where
  "count_mode m = length (filter (\<lambda>p. pd_mode p = m) PROCESSOR_REGISTRY)"

definition coverageSummary :: "nat \<times> nat \<times> nat \<times> nat" where
  "coverageSummary = (count_mode Drive, count_mode CoDrive, count_mode Advisory, length PROCESSOR_REGISTRY)"

subsection \<open>Skeletons\<close>

text \<open>The section sign of a message, in UTF-8.\<close>

definition section_sign :: string where
  "section_sign = [char_of (194::nat), char_of (167::nat)]"


text \<open>The methods of \<open>BaseAdapter\<close>: a skeleton neither charges nor pauses dunning.\<close>

definition advisory :: "CapabilityMatrix \<Rightarrow> bool" where
  "advisory caps = (cap_integrationMode caps = Advisory)"

definition base_ingestWebhook :: "RawWebhook \<Rightarrow> ('w, AdapterEvent list) eff" where
  "base_ingestWebhook raw = ok []"

definition base_listOpenFailures :: "Cursor \<Rightarrow> ('w, OpenFailuresPage) eff" where
  "base_listOpenFailures cursor = ok \<lparr>op_invoices = [], op_nextCursor = None\<rparr>"

definition base_attemptCharge ::
  "string \<Rightarrow> CapabilityMatrix \<Rightarrow> Invoice \<Rightarrow> PaymentMethod \<Rightarrow> string \<Rightarrow> ('w, AdapterResult) eff" where
  "base_attemptCharge pid caps invoice pm key =
     (if advisory caps then throw (JsError (pid @ '': advisory mode '' @ emdash @ '' AX10M cannot drive a charge here (platform owns the token/retry). Recommend or prompt out-of-band only (PROCESSORS.md '' @ section_sign @ ''1).''))
      else throw (JsError (''TODO(ax10m): '' @ pid @ ''.attemptCharge not implemented (idemKey='' @ key @ '')'')))"

definition base_fetchUpdatedCard :: "PaymentMethod \<Rightarrow> ('w, PaymentMethod option) eff" where
  "base_fetchUpdatedCard pm = ok None"

definition base_listPaymentMethods :: "Customer \<Rightarrow> ('w, PaymentMethod list) eff" where
  "base_listPaymentMethods customer = ok []"

definition base_pauseNativeDunning :: "string \<Rightarrow> CapabilityMatrix \<Rightarrow> ('w, unit) eff" where
  "base_pauseNativeDunning pid caps =
     (if advisory caps then throw (JsError (pid @ '': advisory mode '' @ emdash @ '' platform-owned dunning cannot be paused by AX10M.''))
      else throw (JsError (''TODO(ax10m): '' @ pid @ ''.pauseNativeDunning not implemented'')))"

interpretation skeleton: strict_adapter merchant "\<lambda>raw w. True" base_ingestWebhook "base_attemptCharge pid caps"
  for merchant pid caps
  by unfold_locales (auto simp: base_ingestWebhook_def base_attemptCharge_def split: if_splits)

lemma skeleton_never_charges: "\<exists>e. base_attemptCharge pid caps invoice pm key w = (Inl e, w)"
  by (simp add: base_attemptCharge_def throw_def)

subsection \<open>The factory\<close>

text \<open>A field of a builder's configuration: required, optional, or one of two environments.\<close>

datatype field_spec = Req string | Opt string | Env string string string

definition in_quotes :: "string \<Rightarrow> string" where
  "in_quotes s = CHR 0x27 # s @ [CHR 0x27]"

definition str_field :: "jsval \<Rightarrow> string \<Rightarrow> js_error + string" where
  "str_field c key = (case fstr c key of
     None \<Rightarrow> Inl (JsError (''adapter config: missing required string field '' @ in_quotes key))
   | Some v \<Rightarrow> if v = '''' then Inl (JsError (''adapter config: missing required string field '' @ in_quotes key)) else Inr v)"

definition opt_field :: "jsval \<Rightarrow> string \<Rightarrow> string option" where
  "opt_field c key = if_given (fstr c key) Some None"

fun read_fields :: "jsval \<Rightarrow> field_spec list \<Rightarrow> js_error + (string \<times> string option) list" where
  "read_fields c [] = Inr []"
| "read_fields c (Req k # fs) =
     bind_sum (str_field c k) (\<lambda>v. bind_sum (read_fields c fs) (\<lambda>rest. Inr ((k, Some v) # rest)))"
| "read_fields c (Opt k # fs) = bind_sum (read_fields c fs) (\<lambda>rest. Inr ((k, opt_field c k) # rest))"
| "read_fields c (Env k v d # fs) =
     bind_sum (read_fields c fs) (\<lambda>rest. Inr ((k, Some (if opt_field c k = Some v then v else d)) # rest))"

definition ADAPTER_FACTORIES :: "(string \<times> field_spec list) list" where
  "ADAPTER_FACTORIES =
    [(''stripe'', [Req ''secretKey'', Req ''webhookSecret'', Opt ''apiVersion'']),
     (''adyen'', [Req ''apiKey'', Req ''merchantAccount'', Opt ''hmacKey'', Opt ''baseUrl'']),
     (''braintree'', [Req ''braintreeMerchantId'', Req ''publicKey'', Req ''privateKey'',
        Env ''environment'' ''production'' ''sandbox'', Opt ''baseUrl'']),
     (''paypal'', [Req ''clientId'', Req ''clientSecret'', Opt ''webhookId'', Opt ''baseUrl'']),
     (''checkout'', [Req ''secretKey'', Opt ''webhookSecret'', Opt ''baseUrl'']),
     (''worldpay'', [Req ''username'', Req ''password'', Req ''entity'', Opt ''webhookSecret'',
        Opt ''signatureHeader'', Opt ''baseUrl'']),
     (''chargebee'', [Req ''site'', Req ''apiKey'', Opt ''webhookUser'', Opt ''webhookPassword'', Opt ''baseUrl'']),
     (''recurly'', [Req ''apiKey'', Opt ''webhookUser'', Opt ''webhookPassword'', Opt ''baseUrl'']),
     (''zuora'', [Req ''clientId'', Req ''clientSecret'', Opt ''webhookSecret'', Opt ''baseUrl'']),
     (''maxio'', [Req ''apiKey'', Req ''subdomain'', Opt ''webhookSecret'', Opt ''baseUrl'']),
     (''gocardless'', [Req ''accessToken'', Req ''webhookSecret'', Env ''environment'' ''live'' ''sandbox'', Opt ''baseUrl'']),
     (''shopify'', [Req ''shop'', Req ''accessToken'', Req ''apiSecret'', Opt ''apiVersion'', Opt ''baseUrl'']),
     (''woocommerce'', [Req ''storeUrl'', Req ''consumerKey'', Req ''consumerSecret'', Req ''webhookSecret'', Opt ''baseUrl'']),
     (''bigcommerce'', [Req ''webhookSecret'', Opt ''storeHash'', Opt ''signatureHeader'']),
     (''kajabi'', [Req ''webhookSecret'', Opt ''signatureHeader'']),
     (''thrivecart'', [Req ''webhookSecret'', Opt ''secretHeader'']),
     (''samcart'', [Req ''webhookSecret'', Opt ''signatureHeader''])]"

definition isWebhookCapable :: "string \<Rightarrow> bool" where
  "isWebhookCapable processor = (map_of ADAPTER_FACTORIES processor \<noteq> None)"

definition webhookCapableProcessors :: "string list" where
  "webhookCapableProcessors = map fst ADAPTER_FACTORIES"

text \<open>\<open>buildAdapter\<close>: the configuration of the adapter built for a merchant.\<close>

record BuiltAdapter =
  bu_processor :: string
  bu_merchantId :: ident
  bu_fields :: "(string \<times> string option) list"

definition buildAdapter :: "string \<Rightarrow> ident \<Rightarrow> jsval \<Rightarrow> js_error + BuiltAdapter" where
  "buildAdapter processor merchantId config =
     (case map_of ADAPTER_FACTORIES processor of
        None \<Rightarrow> Inl (JsError (''No webhook-capable adapter for processor '' @ in_quotes processor @ '' (webhook routing unsupported).''))
      | Some specs \<Rightarrow> bind_sum (read_fields config specs) (\<lambda>vals.
          Inr \<lparr>bu_processor = processor, bu_merchantId = merchantId, bu_fields = vals\<rparr>))"

definition built_field :: "BuiltAdapter \<Rightarrow> string \<Rightarrow> string option" where
  "built_field b k = (case map_of (bu_fields b) k of Some v \<Rightarrow> v | None \<Rightarrow> None)"

lemma read_fields_required:
  "read_fields c fs = Inr vals \<Longrightarrow> Req k \<in> set fs \<Longrightarrow>
     \<exists>v. v \<noteq> [] \<and> (k, Some v) \<in> set vals \<and> fstr c k = Some v"
proof (induction fs arbitrary: vals)
  case (Cons f fs)
  then show ?case
    by (cases f) (fastforce simp: str_field_def split: option.splits if_splits)+
qed simp

lemma read_fields_keys:
  "read_fields c fs = Inr vals \<Longrightarrow>
     map fst vals = map (\<lambda>f. case f of Req k \<Rightarrow> k | Opt k \<Rightarrow> k | Env k _ _ \<Rightarrow> k) fs"
proof (induction fs arbitrary: vals)
  case (Cons f fs)
  then show ?case by (cases f) auto
qed simp

lemma buildAdapter_merchant: "buildAdapter p m c = Inr b \<Longrightarrow> bu_merchantId b = m \<and> bu_processor b = p"
  by (auto simp: buildAdapter_def split: option.splits)

subsection \<open>The contact report\<close>

datatype ContactStatus = CsContact | CsNoContact | CsNoFailedEvent | CsError

record ContactValidationRow =
  cv_processor :: string
  cv_status :: ContactStatus
  cv_email :: "string option"
  cv_phone :: "string option"
  cv_error :: "string option"

definition extractContact :: "AdapterEvent list \<Rightarrow> (string option \<times> string option) option" where
  "extractContact events =
     (case List.find (\<lambda>e. event_type (ae_payload e) = ''invoice.failed'') events of
        None \<Rightarrow> None
      | Some failed \<Rightarrow> (case ae_payload failed of
            ApFailed _ _ _ (Some c) _ \<Rightarrow> Some (cust_email c, cust_phone c)
          | _ \<Rightarrow> Some (None, None)))"

fun error_message :: "js_error \<Rightarrow> string" where
  "error_message (RangeError m) = m"
| "error_message (TypeError m) = m"
| "error_message (JsError m) = m"

definition contact_row :: "string \<Rightarrow> AdapterEvent list \<Rightarrow> ContactValidationRow" where
  "contact_row processor events =
     (case extractContact events of
        None \<Rightarrow> \<lparr>cv_processor = processor, cv_status = CsNoFailedEvent, cv_email = None, cv_phone = None, cv_error = None\<rparr>
      | Some (email, phone) \<Rightarrow>
          if \<not> given email \<and> \<not> given phone then
            \<lparr>cv_processor = processor, cv_status = CsNoContact, cv_email = None, cv_phone = None, cv_error = None\<rparr>
          else \<lparr>cv_processor = processor, cv_status = CsContact, cv_email = email, cv_phone = phone, cv_error = None\<rparr>)"

definition validateContactFor ::
  "string \<Rightarrow> (RawWebhook \<Rightarrow> ('w, AdapterEvent list) eff) \<Rightarrow> RawWebhook \<Rightarrow> ('w, ContactValidationRow) eff" where
  "validateContactFor processor ingest raw =
     catchE (andThen (ingest raw) (\<lambda>events. ok (contact_row processor events)))
       (\<lambda>err. ok \<lparr>cv_processor = processor, cv_status = CsError, cv_email = None, cv_phone = None,
                  cv_error = Some (error_message err)\<rparr>)"

definition maskEmail :: "string option \<Rightarrow> string" where
  "maskEmail email =
     (if \<not> given email then emdash
      else let parts = split_on (CHR ''@'') (coalesce email '''');
               user = hd parts;
               domain = (case parts of _ # d # _ \<Rightarrow> Some d | _ \<Rightarrow> None) in
           take 1 user @ ''***@'' @ if_given domain (\<lambda>d. take 1 d @ ''***'') ''***'')"

definition maskPhone :: "string option \<Rightarrow> string" where
  "maskPhone phone =
     (if \<not> given phone then emdash
      else let p = coalesce phone '''' in
           if length p \<le> 4 then ''***'' else take 2 p @ ''***'' @ drop (length p - 4) p)"

fun status_name :: "ContactStatus \<Rightarrow> string" where
  "status_name CsContact = ''contact''"
| "status_name CsNoContact = ''no-contact''"
| "status_name CsNoFailedEvent = ''no-failed-event''"
| "status_name CsError = ''error''"

definition report_cells :: "ContactValidationRow \<Rightarrow> string list" where
  "report_cells r =
     [cv_processor r, status_name (cv_status r), maskEmail (cv_email r), maskPhone (cv_phone r),
      (case cv_status r of
         CsError \<Rightarrow> coalesce (cv_error r) ''''
       | CsNoContact \<Rightarrow> ''ingested, no contact on payload''
       | CsNoFailedEvent \<Rightarrow> ''no invoice.failed produced''
       | CsContact \<Rightarrow> ''OK'')]"

definition padEnd :: "nat \<Rightarrow> string \<Rightarrow> string" where
  "padEnd w c = c @ replicate (w - js_length c) (CHR '' '')"

definition formatReport :: "ContactValidationRow list \<Rightarrow> string" where
  "formatReport rows =
     (let header = [''processor'', ''status'', ''email'', ''phone'', ''note''];
          body = map report_cells rows;
          widths = map (\<lambda>i. fold max (map (\<lambda>row. js_length (row ! i)) body) (js_length (header ! i))) [0..<5];
          line = (\<lambda>cols. join ''  '' (map2 padEnd widths cols))
      in join newline ([line header, line (map (\<lambda>w. replicate w (CHR ''-'')) widths)] @ map line body))"

lemma validateContact_never_throws: "\<exists>row w'. validateContactFor p ingest raw w = (Inr row, w')"
  by (auto simp: validateContactFor_def catchE_def ok_def split: prod.split sum.split)

end
