(* ===== verification/AdapterKit.thy ===== *)
theory AdapterKit
  imports WebhookAuth
begin

text \<open>
  What several adapters share beyond the port: reversals about an invoice reference, HTTP Basic
  authentication of a webhook endpoint, the fields some of them pick out of an XML body with
  regular expressions, and the decoding of a percent-encoded cursor.
\<close>

subsection \<open>Identifiers and amounts of a body\<close>

text \<open>\<open>String(v)\<close> of a number or a string.\<close>

definition string_of :: "'w Platform \<Rightarrow> jsval \<Rightarrow> string option" where
  "string_of pf v = (case v of VStr s \<Rightarrow> Some s | VNum r \<Rightarrow> Some (pf_showNumber pf r) | _ \<Rightarrow> None)"

text \<open>\<open>a ?? b\<close> and the truth of a value.\<close>

definition nullish :: "jsval \<Rightarrow> jsval \<Rightarrow> jsval" where
  "nullish a b = (if a = VNull then b else a)"

definition truthy :: "jsval \<Rightarrow> bool" where
  "truthy v = (case v of VNull \<Rightarrow> False | VBool b \<Rightarrow> b | VNum r \<Rightarrow> r \<noteq> 0 | VStr s \<Rightarrow> s \<noteq> '''' | _ \<Rightarrow> True)"

text \<open>\<open>String(v ?? '')\<close> and \<open>v ? `p${v}` : undefined\<close>\<close>

definition text_of :: "'w Platform \<Rightarrow> jsval \<Rightarrow> string" where
  "text_of pf v = coalesce (string_of pf v) ''''"

definition prefixed_ref :: "'w Platform \<Rightarrow> string \<Rightarrow> jsval \<Rightarrow> string option" where
  "prefixed_ref pf p v = (if truthy v then Some (p @ text_of pf v) else None)"

text \<open>A decimal in major units, as text.\<close>

definition majorToMinor :: "'w Platform \<Rightarrow> string option \<Rightarrow> int" where
  "majorToMinor pf value =
     if_given value (\<lambda>v. case pf_number pf v of None \<Rightarrow> 0 | Some n \<Rightarrow> to_cents n) 0"

text \<open>The same for a value that may also be a number.\<close>

definition decimal_minor :: "'w Platform \<Rightarrow> jsval \<Rightarrow> int" where
  "decimal_minor pf v = (case v of VNum r \<Rightarrow> to_cents r | VStr s \<Rightarrow> majorToMinor pf (Some s) | _ \<Rightarrow> 0)"

definition starts_with :: "string \<Rightarrow> string \<Rightarrow> bool" where
  "starts_with p s = (take (length p) s = p)"

definition stripPrefix :: "string \<Rightarrow> string \<Rightarrow> string" where
  "stripPrefix p s = (if starts_with p s then drop (length p) s else s)"

subsection \<open>Requests\<close>

definition query_url :: "string \<Rightarrow> (string \<times> string option) list \<Rightarrow> string" where
  "query_url url query = (let qs = form_encode query in url @ (if qs = '''' then '''' else ''?'' @ qs))"

definition http_get ::
  "'w Platform \<Rightarrow> (PortResponse \<Rightarrow> ('w, 'a) eff) \<Rightarrow> string \<Rightarrow> (string \<times> string option) list \<Rightarrow> (string \<times> string) list \<Rightarrow> ('w, 'a) eff" where
  "http_get pf parse url query headers =
     andThen (pf_fetch pf \<lparr>rq_url = query_url url query, rq_verb = ''GET'', rq_headers = headers, rq_body = None\<rparr>) parse"

text \<open>A \<open>POST\<close> whose success carries the parsed body and whether the named header says it is a replay.\<close>

definition http_post ::
  "'w Platform \<Rightarrow> (PortResponse \<Rightarrow> ('w, jsval client_result) eff) \<Rightarrow> string \<Rightarrow> string \<Rightarrow> (string \<times> string) list \<Rightarrow> string \<Rightarrow>
   ('w, (jsval \<times> bool) client_result) eff" where
  "http_post pf parse replay url headers body =
     andThen (pf_fetch pf \<lparr>rq_url = url, rq_verb = ''POST'', rq_headers = headers, rq_body = Some body\<rparr>) (\<lambda>res.
     then_ok (parse res) (\<lambda>v. ok (Inr (v, rp_header res replay = Some ''true''))))"

definition keyed :: "string \<Rightarrow> string \<Rightarrow> (string \<times> string) list" where
  "keyed name key = (if key = '''' then [] else [(name, key)])"

text \<open>Fail closed: refuse without a secret, refuse a signature that does not verify.\<close>

definition check_signature :: "string \<Rightarrow> string \<Rightarrow> string \<Rightarrow> bool \<Rightarrow> bool \<Rightarrow> ('w, unit) eff" where
  "check_signature name secretName what configured verified =
     (if \<not> configured then
        throw (JsError (name @ ''.ingestWebhook: '' @ secretName @ '' not configured '' @ emdash @ '' refusing unverified webhook''))
      else if \<not> verified then throw (JsError (name @ ''.ingestWebhook: '' @ what @ '' verification failed''))
      else ok ())"

lemma check_signature_Inr [simp]:
  "check_signature name secretName what configured verified w = (Inr u, w') \<longleftrightarrow> configured \<and> verified \<and> w' = w"
  by (auto simp: check_signature_def)

text \<open>\<open>JSON.parse\<close> of a webhook body, an object.\<close>

definition parse_webhook :: "'w Platform \<Rightarrow> string \<Rightarrow> string \<Rightarrow> ('w, jsval) eff" where
  "parse_webhook pf name body =
     (case pf_parseJson pf body of
        None \<Rightarrow> throw (JsError (name @ ''.ingestWebhook: body is not valid JSON''))
      | Some v \<Rightarrow> if v = VNull then throw (TypeError ''Cannot read properties of null'') else ok v)"

text \<open>The first error among the results of a list, or all of them.\<close>

fun map_sum :: "('a \<Rightarrow> js_error + 'b) \<Rightarrow> 'a list \<Rightarrow> js_error + 'b list" where
  "map_sum f [] = Inr []"
| "map_sum f (x # xs) = bind_sum (f x) (\<lambda>y. bind_sum (map_sum f xs) (\<lambda>ys. Inr (y # ys)))"

lemma if_eqE: "(if b then x else y) = z \<Longrightarrow> (b \<Longrightarrow> x = z \<Longrightarrow> P) \<Longrightarrow> (\<not> b \<Longrightarrow> y = z \<Longrightarrow> P) \<Longrightarrow> P"
  by (simp split: if_splits)

text \<open>Best-effort enrichment: \<open>d\<close> when the lookup throws. It always returns.\<close>

definition best_effort :: "'a \<Rightarrow> ('w, 'a) eff \<Rightarrow> ('w, 'a) eff" where
  "best_effort d m = catchE m (\<lambda>_. ok d)"

lemma best_effort_Inr: "best_effort d m w = (Inr a, w') \<longleftrightarrow> m w = (Inr a, w') \<or> (\<exists>e. m w = (Inl e, w') \<and> a = d)"
  by (auto simp: best_effort_def catchE_def ok_def split: prod.splits sum.splits)

lemma best_effort_returns: "\<exists>a w'. best_effort d m w = (Inr a, w')"
  by (cases "m w"; cases "fst (m w)") (auto simp: best_effort_Inr)

text \<open>A match takes at least what it consumed off the text.\<close>

lemma scan_length:
  assumes "\<And>s a r. f s = Some (a, r) \<Longrightarrow> length r < length s" "scan f s = Some (a, r)"
  shows "length r < length s"
  using assms(2) by (induction s) (force dest: assms(1) split: option.splits)+

subsection \<open>Reversals\<close>

text \<open>A reversal about the reference, when there is one and funds moved.\<close>

definition reversal_about ::
  "(ReversalPayload \<Rightarrow> AdapterPayload) \<Rightarrow> string option \<Rightarrow> int \<Rightarrow> currency \<Rightarrow> ReversalKind \<Rightarrow> string option \<Rightarrow> AdapterPayload list" where
  "reversal_about wrap ref amt cur k reason =
     (if \<not> given ref \<or> amt \<le> 0 then []
      else [wrap \<lparr>rev_invoiceId = ''ax10m_inv_'' @ coalesce ref '''', rev_amount = amt, rev_currency = cur,
                 rev_kind = k, rev_reason = reason\<rparr>])"

lemma reversal_about_ok [simp]:
  "list_all (payload_ok m) (reversal_about ApReversed ref amt cur k reason)"
  "list_all (payload_ok m) (reversal_about ApReverted ref amt cur k reason)"
  by (simp_all add: reversal_about_def)

subsection \<open>Basic authentication of a webhook\<close>

definition basic_webhook_ok :: "'w Platform \<Rightarrow> string option \<Rightarrow> string option \<Rightarrow> (string \<times> string) list \<Rightarrow> bool" where
  "basic_webhook_ok pf user password headers =
     ((given user \<or> given password) \<and>
      buffers_equal (coalesce (headerLookup headers ''authorization'') '''')
        (basic_auth pf (coalesce user '''') (coalesce password '''')))"

definition check_basic ::
  "'w Platform \<Rightarrow> string \<Rightarrow> string option \<Rightarrow> string option \<Rightarrow> (string \<times> string) list \<Rightarrow> ('w, unit) eff" where
  "check_basic pf name user password headers =
     (if \<not> given user \<and> \<not> given password then
        throw (JsError (name @ ''.ingestWebhook: webhook Basic-auth credentials not configured '' @ emdash
          @ '' refusing unverified webhook''))
      else if \<not> basic_webhook_ok pf user password headers then
        throw (JsError (name @ ''.ingestWebhook: webhook Basic auth verification failed''))
      else ok ())"

lemma check_basic_Inr [simp]:
  "check_basic pf name user password headers w = (Inr u, w') \<longleftrightarrow> basic_webhook_ok pf user password headers \<and> w' = w"
  by (auto simp: check_basic_def basic_webhook_ok_def)

subsection \<open>Fields of an XML body\<close>

text \<open>A literal matched without regard to the case of its letters.\<close>

definition strip_nocase :: "string \<Rightarrow> string \<Rightarrow> string option" where
  "strip_nocase p s =
     (if to_lower (take (length p) s) = to_lower p then Some (drop (length p) s) else None)"

text \<open>\<open>([^<]+)</elem>\<close>\<close>

definition text_until_close :: "string \<Rightarrow> string \<Rightarrow> string option" where
  "text_until_close elem s =
     (let v = takeWhile (\<lambda>c. c \<noteq> CHR ''<'') s in
      if v \<noteq> [] \<and> strip_nocase (''</'' @ elem @ ''>'') (drop (length v) s) \<noteq> None then Some v else None)"

text \<open>\<open><elem>([^<]+)</elem>\<close> and, with attributes, \<open><elem(?:[^>]*)>([^<]+)</elem>\<close>\<close>

definition elem_at :: "string \<Rightarrow> string \<Rightarrow> string option" where
  "elem_at elem s = (case strip_nocase (''<'' @ elem @ ''>'') s of None \<Rightarrow> None | Some r \<Rightarrow> text_until_close elem r)"

definition elem_attrs_at :: "string \<Rightarrow> string \<Rightarrow> string option" where
  "elem_attrs_at elem s = (case strip_nocase (''<'' @ elem) s of
     None \<Rightarrow> None
   | Some r \<Rightarrow> (case dropWhile (\<lambda>c. c \<noteq> CHR ''>'') r of [] \<Rightarrow> None | _ # body \<Rightarrow> text_until_close elem body))"

text \<open>\<open>body.match(re)?.[1]?.trim() || undefined\<close>\<close>

definition matched :: "string option \<Rightarrow> string option" where
  "matched m = (case m of None \<Rightarrow> None | Some s \<Rightarrow> if trim s = '''' then None else Some (trim s))"

definition xml_elem :: "string \<Rightarrow> string \<Rightarrow> string option" where
  "xml_elem elem body = matched (scan (elem_at elem) body)"

definition xml_elem_attrs :: "string \<Rightarrow> string \<Rightarrow> string option" where
  "xml_elem_attrs elem body = matched (scan (elem_attrs_at elem) body)"

text \<open>\<open><elem>([\s\S]*?)</elem>\<close>: the text up to the first closing elem.\<close>

fun until_close :: "string \<Rightarrow> string \<Rightarrow> string option" where
  "until_close close [] = (if close = [] then Some [] else None)"
| "until_close close (c # s) =
     (if strip_nocase close (c # s) \<noteq> None then Some [] else map_option ((#) c) (until_close close s))"

definition block_at :: "string \<Rightarrow> string \<Rightarrow> string option" where
  "block_at elem s = (case strip_nocase (''<'' @ elem @ ''>'') s of
     None \<Rightarrow> None | Some r \<Rightarrow> until_close (''</'' @ elem @ ''>'') r)"

definition xml_block :: "string \<Rightarrow> string \<Rightarrow> string option" where
  "xml_block elem body = matched (scan (block_at elem) body)"

text \<open>\<open><outer>[\s\S]*?<elem>([^<]+)</elem>\<close>\<close>

definition within_at :: "string \<Rightarrow> string \<Rightarrow> string \<Rightarrow> string option" where
  "within_at outer elem s = (case strip_nocase (''<'' @ outer @ ''>'') s of
     None \<Rightarrow> None | Some r \<Rightarrow> scan (elem_at elem) r)"

definition xml_within :: "string \<Rightarrow> string \<Rightarrow> string \<Rightarrow> string option" where
  "xml_within outer elem body = matched (scan (within_at outer elem) body)"

subsection \<open>Percent-encoding\<close>

definition hex_digit_value :: "char \<Rightarrow> nat option" where
  "hex_digit_value c = (let n = code_of c in
     if 48 \<le> n \<and> n \<le> 57 then Some (n - 48)
     else if 65 \<le> n \<and> n \<le> 70 then Some (n - 55)
     else if 97 \<le> n \<and> n \<le> 102 then Some (n - 87) else None)"

text \<open>\<open>decodeURIComponent\<close>: a malformed escape is a \<open>URIError\<close>.\<close>

fun decodeURIComponent :: "string \<Rightarrow> string option" where
  "decodeURIComponent [] = Some []"
| "decodeURIComponent (c # s) =
     (if c = CHR ''%'' then
        (case s of
           a # b # r \<Rightarrow> (case (hex_digit_value a, hex_digit_value b) of
               (Some x, Some y) \<Rightarrow> map_option ((#) (char_of (16 * x + y))) (decodeURIComponent r)
             | _ \<Rightarrow> None)
         | _ \<Rightarrow> None)
      else map_option ((#) c) (decodeURIComponent s))"

lemma hex_digit_value_upper: "n < 16 \<Longrightarrow> hex_digit_value (hex_upper n) = Some n"
  by (auto simp: hex_digit_value_def hex_upper_def code_of_def Let_def)

lemma code_of_byte: "code_of c < 256"
proof -
  have "(of_char c :: nat) \<in> {0..<256}" unfolding range_nat_of_char [symmetric] by simp
  then show ?thesis by (simp add: code_of_def)
qed

lemma char_of_code [simp]: "char_of (code_of c) = c"
  by (simp add: code_of_def)

lemma decode_encode_char:
  "decodeURIComponent (encode_char c @ s) = map_option ((#) c) (decodeURIComponent s)"
proof (cases "unreserved c")
  case True
  then have "c \<noteq> CHR ''%''" by (auto simp: unreserved_def is_word_def is_digit_def code_of_def)
  then show ?thesis using True by (simp add: encode_char_def)
next
  case False
  then show ?thesis using code_of_byte [of c] by (simp add: encode_char_def hex_digit_value_upper)
qed

lemma decode_encode: "decodeURIComponent (encodeURIComponent s) = Some s"
  by (induction s) (simp_all add: encodeURIComponent_def decode_encode_char)

subsection \<open>Tokens of a next-page link\<close>

text \<open>\<open>/[?&](?:name1|name2)=([^&]+)/\<close>\<close>

fun param_value :: "string list \<Rightarrow> string \<Rightarrow> string option" where
  "param_value [] s = None"
| "param_value (n # ns) s =
     (case strip_lit (n @ ''='') s of
        Some t \<Rightarrow> (let v = takeWhile (\<lambda>c. c \<noteq> CHR ''&'') t in if v = [] then param_value ns s else Some v)
      | None \<Rightarrow> param_value ns s)"

definition param_at :: "string list \<Rightarrow> string \<Rightarrow> string option" where
  "param_at names s = (case s of [] \<Rightarrow> None
     | c # r \<Rightarrow> if c = CHR ''?'' \<or> c = CHR ''&'' then param_value names r else None)"

definition token_of :: "string list \<Rightarrow> jsval \<Rightarrow> js_error + Cursor" where
  "token_of names v =
     (case v of VStr s \<Rightarrow> if s = [] then Inr None
        else (case scan (param_at names) s of None \<Rightarrow> Inr None
              | Some enc \<Rightarrow> (case decodeURIComponent enc of
                    None \<Rightarrow> Inl (JsError ''URI malformed'') | Some d \<Rightarrow> Inr (Some d)))
      | _ \<Rightarrow> Inr None)"

subsection \<open>Form bodies\<close>

text \<open>\<open>new URLSearchParams(body)\<close>: pairs in order; \<open>+\<close> is a space and a malformed escape stays.\<close>

fun form_unescape :: "string \<Rightarrow> string" where
  "form_unescape [] = []"
| "form_unescape (c # s) =
     (if c = CHR ''+'' then CHR '' '' # form_unescape s
      else if c = CHR ''%'' then
        (case s of
           a # b # r \<Rightarrow> (case (hex_digit_value a, hex_digit_value b) of
               (Some x, Some y) \<Rightarrow> char_of (16 * x + y) # form_unescape r
             | _ \<Rightarrow> c # form_unescape s)
         | _ \<Rightarrow> c # form_unescape s)
      else c # form_unescape s)"

definition form_entry :: "string \<Rightarrow> string \<times> string" where
  "form_entry part =
     (let k = takeWhile (\<lambda>c. c \<noteq> CHR ''='') part in
      (form_unescape k, form_unescape (drop (length k + 1) part)))"

definition parse_form :: "string \<Rightarrow> (string \<times> string) list" where
  "parse_form body =
     map form_entry (filter (\<lambda>p. p \<noteq> '''') (split_on (CHR ''&'') (if take 1 body = ''?'' then drop 1 body else body)))"

text \<open>What the adapters' own \<open>form_encode\<close> writes, a form reader reads back.\<close>

lemma form_unescape_char: "form_unescape (encode_char c @ s) = c # form_unescape s"
proof (cases "unreserved c")
  case True
  then have "c \<noteq> CHR ''%''" "c \<noteq> CHR ''+''"
    by (auto simp: unreserved_def is_word_def is_digit_def code_of_def)
  then show ?thesis using True by (simp add: encode_char_def)
next
  case False
  then show ?thesis
    using code_of_byte [of c] by (simp add: encode_char_def hex_digit_value_upper)
qed

lemma form_unescape_encode: "form_unescape (encodeURIComponent s) = s"
  by (induction s) (simp_all add: encodeURIComponent_def form_unescape_char)

lemma encode_char_free: "c \<in> set (encode_char d) \<Longrightarrow> c \<notin> set ''&=?''"
proof -
  have h: "hex_upper n \<notin> set ''&=?''" if "n < 16" for n
    using hex_digit_value_upper [OF that] by (auto simp: hex_digit_value_def code_of_def Let_def split: if_splits)
  have "unreserved c \<Longrightarrow> c \<notin> set ''&=?''"
    by (auto simp: unreserved_def is_word_def is_digit_def code_of_def)
  then show "c \<in> set (encode_char d) \<Longrightarrow> c \<notin> set ''&=?''"
    using h [of "code_of d div 16"] h [of "code_of d mod 16"] less_mult_imp_div_less [of "code_of d" 16 16] code_of_byte [of d]
    by (auto simp: encode_char_def split: if_splits)
qed

lemma encode_free: "c \<in> set ''&=?'' \<Longrightarrow> c \<notin> set (encodeURIComponent s)"
  using encode_char_free by (auto simp: encodeURIComponent_def)

lemma form_pair_free: "CHR ''&'' \<notin> set (form_pair p)" "form_pair p \<noteq> []" "CHR ''?'' \<notin> set (form_pair p)"
  by (auto simp: form_pair_def encode_free)

lemma form_entry_pair: "form_entry (form_pair (k, Some v)) = (k, v)"
proof -
  have "takeWhile (\<lambda>c. c \<noteq> CHR ''='') (encodeURIComponent k @ CHR ''='' # t) = encodeURIComponent k" for t
    using encode_free [of "CHR ''=''" k] by (auto simp: takeWhile_append takeWhile_eq_all_conv)
  then show ?thesis by (simp add: form_entry_def form_pair_def form_unescape_encode)
qed

lemma split_on_join:
  "list_all (\<lambda>w. c \<notin> set w) ws \<Longrightarrow> ws \<noteq> [] \<Longrightarrow> split_on c (join [c] ws) = ws"
  by (induction "[c]" ws rule: join.induct) auto

lemma parse_form_encode: "parse_form (form_encode (map (\<lambda>(k, v). (k, Some v)) kvs)) = kvs"
proof (cases kvs)
  case Nil
  then show ?thesis by (simp add: form_encode_def parse_form_def)
next
  case (Cons kv rest)
  define ps where "ps = map (\<lambda>kv. form_pair (fst kv, Some (snd kv))) kvs"
  have enc: "form_encode (map (\<lambda>(k, v). (k, Some v)) kvs) = join ''&'' ps"
    by (simp add: form_encode_def ps_def filter_map comp_def case_prod_beta)
  have parts: "split_on (CHR ''&'') (join ''&'' ps) = ps"
    by (rule split_on_join) (auto simp: ps_def list_all_iff form_pair_free Cons)
  obtain p ps' where ps: "ps = p # ps'" by (auto simp: ps_def Cons)
  then have "p \<noteq> [] \<and> CHR ''?'' \<notin> set p" by (auto simp: ps_def form_pair_free)
  then have "take 1 (join ''&'' ps) \<noteq> ''?''" by (cases p; cases ps') (auto simp: ps)
  then show ?thesis
    using parts by (simp add: enc parse_form_def ps_def filter_map comp_def case_prod_beta form_pair_free form_entry_pair)
qed

end
