(* ===== verification/PaypalAdapter.thy ===== *)
theory PaypalAdapter
  imports AdapterKit
begin

text \<open>
  The PayPal adapter (\<open>packages/poal/src/adapters/paypal/\<close>): the client with its cached access
  token (\<open>client.ts\<close>), webhook verification by an API call, the order-and-capture charge, and
  the events of \<open>adapter.ts\<close>. Amounts are decimal strings in major units.
\<close>

subsection \<open>The client\<close>

record PayPalConfig =
  pp_clientId :: string
  pp_clientSecret :: string
  pp_merchantId :: ident
  pp_webhookId :: "string option"
  pp_baseUrl :: "string option"

definition PAYMENT_DECLINE_ISSUES :: "string list" where
  "PAYMENT_DECLINE_ISSUES =
     [''INSTRUMENT_DECLINED'', ''PAYER_ACTION_REQUIRED'', ''TRANSACTION_REFUSED'', ''INSUFFICIENT_FUNDS'',
      ''CARD_CLOSED'', ''CARD_EXPIRED'']"

definition paypal_isPaymentFailure :: "ClientFailure \<Rightarrow> bool" where
  "paypal_isPaymentFailure f =
     (if cf_status f \<noteq> 422 then False
      else list_ex (\<lambda>i. i \<in> set PAYMENT_DECLINE_ISSUES \<or> str_includes i ''DECLINED'' \<or> str_includes i ''REFUSED'')
             (map (\<lambda>d. to_upper (coalesce (fstr d ''issue'') '''')) (flist (cf_body f) ''details'')))"

definition paypal_declineReason :: "ClientFailure \<Rightarrow> string option" where
  "paypal_declineReason f =
     or_else (case List.find (\<lambda>d. given (fstr d ''issue'')) (flist (cf_body f) ''details'') of
                Some d \<Rightarrow> fstr d ''issue'' | None \<Rightarrow> None)
       (fstr (cf_body f) ''name'')"

definition paypal_base :: "PayPalConfig \<Rightarrow> string" where
  "paypal_base cfg = coalesce (pp_baseUrl cfg) ''https://api-m.paypal.com''"

definition paypal_parse :: "'w Platform \<Rightarrow> PortResponse \<Rightarrow> ('w, jsval client_result) eff" where
  "paypal_parse pf =
     parse_response pf id message_only (\<lambda>body n. coalesce (or_else (fstr body ''message'') (fstr body ''name''))
       (''PayPal error '' @ show_int n))"

definition paypal_token :: "'w Platform \<Rightarrow> PayPalConfig \<Rightarrow> ('w, string client_result) eff" where
  "paypal_token pf cfg =
     andThen (gets (pf_token pf)) (\<lambda>cached.
       if given cached then ok (Inr (coalesce cached ''''))
       else andThen (pf_fetch pf
           \<lparr>rq_url = paypal_base cfg @ ''/v1/oauth2/token'', rq_verb = ''POST'',
            rq_headers = [(''Authorization'', basic_auth pf (pp_clientId cfg) (pp_clientSecret cfg)),
                          (''Content-Type'', ''application/x-www-form-urlencoded'')],
            rq_body = Some ''grant_type=client_credentials''\<rparr>) (\<lambda>res.
         then_ok (paypal_parse pf res) (\<lambda>body.
           if given (fstr body ''access_token'') then
             andThen (modify (pf_setToken pf (coalesce (fstr body ''access_token'') ''''))) (\<lambda>_.
               ok (Inr (coalesce (fstr body ''access_token'') '''')))
           else throw (JsError ''PayPalClient: OAuth token response missing access_token''))))"

definition paypal_post ::
  "'w Platform \<Rightarrow> PayPalConfig \<Rightarrow> string \<Rightarrow> json \<Rightarrow> string \<Rightarrow> ('w, (jsval \<times> bool) client_result) eff" where
  "paypal_post pf cfg path body key =
     then_ok (paypal_token pf cfg) (\<lambda>token.
       andThen (pf_fetch pf
         \<lparr>rq_url = paypal_base cfg @ path, rq_verb = ''POST'',
          rq_headers = [(''Authorization'', ''Bearer '' @ token), (''Content-Type'', ''application/json'')] @
            (if key = '''' then [] else [(''PayPal-Request-Id'', key)]),
          rq_body = Some (stringify body)\<rparr>) (\<lambda>res.
       then_ok (paypal_parse pf res) (\<lambda>v.
         ok (Inr (v, rp_header res ''paypal-request-id-replayed'' = Some ''true'')))))"

text \<open>\<open>verify-webhook-signature\<close>: the event is trusted on \<open>SUCCESS\<close> only.\<close>

definition paypal_verify ::
  "'w Platform \<Rightarrow> PayPalConfig \<Rightarrow> (string \<times> string) list \<Rightarrow> string \<Rightarrow> jsval \<Rightarrow> ('w, bool) eff" where
  "paypal_verify pf cfg headers webhookId event =
     (let h = (\<lambda>name. JStr (coalesce (headerLookup headers name) '''')) in
      andThen (andThen (paypal_post pf cfg ''/v1/notifications/verify-webhook-signature''
        (JObj [(''auth_algo'', h ''paypal-auth-algo''), (''cert_url'', h ''paypal-cert-url''),
               (''transmission_id'', h ''paypal-transmission-id''), (''transmission_sig'', h ''paypal-transmission-sig''),
               (''transmission_time'', h ''paypal-transmission-time''), (''webhook_id'', JStr webhookId),
               (''webhook_event'', to_json (pf_showNumber pf) event)]) '''') unwrap) (\<lambda>res.
        ok (fstr (fst res) ''verification_status'' = Some ''SUCCESS'')))"

subsection \<open>Mapping helpers\<close>

definition minorToMajor :: "int \<Rightarrow> string" where
  "minorToMajor = fixed2"

definition paypal_money :: "'w Platform \<Rightarrow> jsval \<Rightarrow> Money" where
  "paypal_money pf amt =
     \<lparr>amount = majorToMinor pf (fstr amt ''value''), money_currency = coalesce (fstr amt ''currency_code'') ''USD''\<rparr>"

text \<open>\<open>/\/captures\/([^/?#]+)/\<close> on the link with relation \<open>up\<close>.\<close>

definition capture_segment :: "string \<Rightarrow> string option" where
  "capture_segment s = (case strip_lit ''/captures/'' s of
     None \<Rightarrow> None
   | Some r \<Rightarrow> let v = takeWhile (\<lambda>c. c \<notin> set ''/?#'') r in if v = [] then None else Some v)"

definition captureIdFromRefundLinks :: "jsval list \<Rightarrow> string option" where
  "captureIdFromRefundLinks links =
     (case List.find (\<lambda>l. to_lower (coalesce (fstr l ''rel'') '''') = ''up'') links of
        None \<Rightarrow> None
      | Some up \<Rightarrow> if_given (fstr up ''href'') (scan capture_segment) None)"

text \<open>The first capture object of an order, \<open>VNull\<close> when there is none.\<close>

fun extractCapture :: "jsval list \<Rightarrow> jsval" where
  "extractCapture [] = VNull"
| "extractCapture (pu # pus) =
     (let cap = first_item (flist (member pu ''payments'') ''captures'') in
      if cap = VNull then extractCapture pus else cap)"

definition disputeInvoiceRef :: "jsval \<Rightarrow> string option" where
  "disputeInvoiceRef dispute =
     (case List.find (\<lambda>t. given (fstr t ''seller_transaction_id'') \<or> given (fstr t ''invoice_number'') \<or> given (fstr t ''custom''))
             (flist dispute ''disputed_transactions'') of
        None \<Rightarrow> None
      | Some tx \<Rightarrow> or_else (fstr tx ''invoice_number'') (or_else (fstr tx ''custom'') (fstr tx ''seller_transaction_id'')))"

definition mapResourceInvoice :: "'w Platform \<Rightarrow> PayPalConfig \<Rightarrow> jsval \<Rightarrow> iso \<Rightarrow> bool \<Rightarrow> Invoice" where
  "mapResourceInvoice pf cfg resource occurredAt failed =
     (let ref = coalesce (or_else (fstr resource ''invoice_id'') (or_else (fstr resource ''custom_id'') (fstr resource ''id''))) '''' in
      \<lparr>inv_id = ''ax10m_inv_'' @ ref, inv_subscriptionId = None,
       inv_customerId = coalesce (prefixed ''ax10m_cus_'' (fstr (member resource ''payer'') ''payer_id'')) '''',
       inv_merchantId = pp_merchantId cfg, inv_processorRef = ref,
       inv_amount = paypal_money pf (member resource ''amount''),
       inv_status = (if failed then InvOpen else InvPaid),
       inv_firstFailedAt = (if failed then Some occurredAt else None), inv_createdAt = occurredAt\<rparr>)"

definition resource_reason :: "jsval \<Rightarrow> string option" where
  "resource_reason resource = or_else (fstr (member resource ''status_details'') ''reason'') (fstr resource ''reason'')"

definition mapResourceAttempt :: "'w Platform \<Rightarrow> jsval \<Rightarrow> ident \<Rightarrow> bool \<Rightarrow> ChargeAttempt" where
  "mapResourceAttempt pf resource invoiceId failed =
     buildAttempt invoiceId '''' '''' (paypal_money pf (member resource ''amount''))
       (if failed then Failed else Succeeded)
       (if failed then Some (mapPaypalDeclineCode (resource_reason resource)) else None)
       (fstr resource ''id'') (Some 0)"

definition mapResourceDecline :: "jsval \<Rightarrow> ident \<Rightarrow> ident \<Rightarrow> iso \<Rightarrow> DeclineEvent" where
  "mapResourceDecline resource invoiceId chargeAttemptId occurredAt =
     (let raw = resource_reason resource; code = mapPaypalDeclineCode raw in
      \<lparr>dec_id = ''ax10m_dec_'' @ coalesce (fstr resource ''id'') invoiceId, dec_invoiceId = invoiceId,
       dec_chargeAttemptId = chargeAttemptId, dec_code = code, dec_family = familyOf code,
       dec_rawReason = raw, dec_occurredAt = occurredAt\<rparr>)"

subsection \<open>Webhooks\<close>

definition paypal_envelope :: "PayPalConfig \<Rightarrow> jsval \<Rightarrow> iso \<Rightarrow> AdapterPayload \<Rightarrow> AdapterEvent" where
  "paypal_envelope cfg event occurredAt payload =
     (let eventId = coalesce (fstr event ''id'') '''' in
      \<lparr>ae_id = ''ax10m_evt_'' @ eventId, ae_merchantId = pp_merchantId cfg, ae_processorEventId = eventId,
       ae_occurredAt = occurredAt, ae_payload = payload\<rparr>)"

definition paypal_failed :: "'w Platform \<Rightarrow> PayPalConfig \<Rightarrow> jsval \<Rightarrow> iso \<Rightarrow> AdapterPayload" where
  "paypal_failed pf cfg resource occurredAt =
     (let invoice = mapResourceInvoice pf cfg resource occurredAt True;
          attempt = mapResourceAttempt pf resource (inv_id invoice) True;
          decline = mapResourceDecline resource (inv_id invoice) (ca_id attempt) occurredAt;
          payer = member resource ''payer'';
          customer = customerFromInvoice invoice (contactOverrides (fstr payer ''email_address'')
            (fstr (member (member payer ''phone'') ''phone_number'') ''national_number''))
      in ApFailed invoice (Some attempt) (Some decline) (Some customer) None)"

definition paypal_paid :: "'w Platform \<Rightarrow> PayPalConfig \<Rightarrow> jsval \<Rightarrow> iso \<Rightarrow> AdapterPayload" where
  "paypal_paid pf cfg resource occurredAt =
     (let invoice = mapResourceInvoice pf cfg resource occurredAt False in
      ApPaid invoice (Some (mapResourceAttempt pf resource (inv_id invoice) False)))"

definition paypal_refunded :: "'w Platform \<Rightarrow> jsval \<Rightarrow> AdapterPayload list" where
  "paypal_refunded pf refund =
     (let ref = or_else (fstr refund ''invoice_id'') (or_else (fstr refund ''custom_id'')
                  (captureIdFromRefundLinks (flist refund ''links'')));
          amt = paypal_money pf (member refund ''amount'') in
      reversal_about ApReversed ref (amount amt) (money_currency amt) Refund None)"

definition paypal_dispute :: "'w Platform \<Rightarrow> (ReversalPayload \<Rightarrow> AdapterPayload) \<Rightarrow> jsval \<Rightarrow> string option \<Rightarrow> AdapterPayload list" where
  "paypal_dispute pf wrap dispute reason =
     (let amt = paypal_money pf (member dispute ''dispute_amount'') in
      reversal_about wrap (disputeInvoiceRef dispute) (amount amt) (money_currency amt) Chargeback reason)"

definition paypal_event :: "'w Platform \<Rightarrow> PayPalConfig \<Rightarrow> string option \<Rightarrow> jsval \<Rightarrow> iso \<Rightarrow> AdapterPayload list" where
  "paypal_event pf cfg type resource occurredAt =
     (if type = Some ''PAYMENT.CAPTURE.DENIED'' \<or> type = Some ''PAYMENT.SALE.DENIED''
         \<or> type = Some ''BILLING.SUBSCRIPTION.PAYMENT.FAILED'' then
        [paypal_failed pf cfg resource occurredAt]
      else if type = Some ''PAYMENT.CAPTURE.COMPLETED'' \<or> type = Some ''PAYMENT.SALE.COMPLETED'' then
        [paypal_paid pf cfg resource occurredAt]
      else if type = Some ''PAYMENT.CAPTURE.REFUNDED'' then paypal_refunded pf resource
      else if type = Some ''CUSTOMER.DISPUTE.CREATED'' then
        paypal_dispute pf ApReversed resource (fstr resource ''reason'')
      else if type = Some ''CUSTOMER.DISPUTE.RESOLVED'' then
        (if fstr (member resource ''dispute_outcome'') ''outcome_code'' \<noteq> Some ''RESOLVED_SELLER_FAVOUR'' then []
         else paypal_dispute pf ApReverted resource
                (Some (coalesce (fstr resource ''reason'') ''dispute_resolved_seller_favour'')))
      else if type = Some ''BILLING.SUBSCRIPTION.CANCELLED'' then
        [ApSubscription (coalesce (fstr resource ''id'') '''') (coalesce (fstr resource ''status'') ''CANCELLED'')]
      else [])"

text \<open>Fail closed: no webhook id, no JSON, or no \<open>SUCCESS\<close>, and the webhook is refused.\<close>

definition paypal_checked :: "'w Platform \<Rightarrow> PayPalConfig \<Rightarrow> RawWebhook \<Rightarrow> ('w, jsval) eff" where
  "paypal_checked pf cfg raw =
     (if \<not> given (pp_webhookId cfg) then
        throw (JsError (''PayPalAdapter.ingestWebhook: webhookId not configured '' @ emdash @ '' refusing unverified webhook''))
      else (case pf_parseJson pf (rw_body raw) of
          None \<Rightarrow> throw (JsError ''PayPalAdapter.ingestWebhook: body is not valid JSON'')
        | Some event \<Rightarrow>
            andThen (paypal_verify pf cfg (rw_headers raw) (coalesce (pp_webhookId cfg) '''') event) (\<lambda>verified.
              if \<not> verified then
                throw (JsError (''PayPalAdapter.ingestWebhook: verify-webhook-signature did not return SUCCESS ''
                  @ emdash @ '' refusing webhook''))
              else ok event)))"

definition paypal_ingest :: "'w Platform \<Rightarrow> PayPalConfig \<Rightarrow> RawWebhook \<Rightarrow> ('w, AdapterEvent list) eff" where
  "paypal_ingest pf cfg raw =
     andThen (paypal_checked pf cfg raw) (\<lambda>event.
       if event = VNull then throw (TypeError ''Cannot read properties of null'')
       else (let occurredAt = toIso (pf_parseDate pf) (fstr event ''create_time'') in
             ok (map (paypal_envelope cfg event occurredAt)
               (paypal_event pf cfg (fstr event ''event_type'') (member event ''resource'') occurredAt))))"

subsection \<open>Charging\<close>

definition paypal_order_body :: "Invoice \<Rightarrow> PaymentMethod \<Rightarrow> json" where
  "paypal_order_body invoice pm =
     JObj [(''intent'', JStr ''CAPTURE''),
       (''purchase_units'', JArr [JObj [(''reference_id'', JStr (inv_processorRef invoice)),
          (''amount'', JObj [(''currency_code'', JStr (money_currency (inv_amount invoice))),
                            (''value'', JStr (minorToMajor (amount (inv_amount invoice))))])]]),
       (''payment_source'', JObj [(''token'', JObj [(''id'', JStr (pm_token pm)), (''type'', JStr ''PAYMENT_METHOD_TOKEN'')])])]"

text \<open>The order, then its capture unless the order completed at once: the order, the capture
  object, the status and whether either call was a replay. Both calls carry the same key.\<close>

definition paypal_order ::
  "'w Platform \<Rightarrow> PayPalConfig \<Rightarrow> Invoice \<Rightarrow> PaymentMethod \<Rightarrow> string \<Rightarrow>
   ('w, (jsval \<times> jsval \<times> string \<times> bool) client_result) eff" where
  "paypal_order pf cfg invoice pm key =
     then_ok (paypal_post pf cfg ''/v2/checkout/orders'' (paypal_order_body invoice pm) key) (\<lambda>created.
     (let order = fst created; status = coalesce (fstr order ''status'') '''';
          capture = extractCapture (flist order ''purchase_units'') in
      if status \<noteq> ''COMPLETED'' \<and> (status = ''CREATED'' \<or> status = ''APPROVED'') \<and> given (fstr order ''id'') then
        then_ok (paypal_post pf cfg (''/v2/checkout/orders/'' @ encodeURIComponent (coalesce (fstr order ''id'') '''') @ ''/capture'')
          (JObj []) key) (\<lambda>captured.
        (let again = extractCapture (flist (fst captured) ''purchase_units'');
             cap = (if again = VNull then capture else again)
         in ok (Inr (order, cap,
              coalesce (fstr cap ''status'') (coalesce (fstr (fst captured) ''status'') status),
              snd created \<or> snd captured))))
      else ok (Inr (order, capture, if_given (fstr capture ''status'') (\<lambda>s. s) status, snd created))))"

definition paypal_charged ::
  "'w Platform \<Rightarrow> Invoice \<Rightarrow> PaymentMethod \<Rightarrow> string \<Rightarrow> jsval \<times> jsval \<times> string \<times> bool \<Rightarrow> ('w, AdapterResult) eff" where
  "paypal_charged pf invoice pm key res =
     (case res of (order, capture, status, replay) \<Rightarrow>
        (let outcome = (if status = ''COMPLETED'' then Succeeded else if status = ''DECLINED'' then Failed else Pending) in
         andThen (pf_clock pf) (\<lambda>now.
           ok \<lparr>ar_attempt = buildAttempt (inv_id invoice) (pm_id pm) key (inv_amount invoice) outcome
                 (if outcome = Failed then Some (mapPaypalDeclineCode (fstr (member capture ''status_details'') ''reason'')) else None)
                 (or_else (fstr capture ''id'') (fstr order ''id'')) now,
               ar_outcome = outcome, ar_idempotentReplay = replay\<rparr>)))"

definition paypal_declined ::
  "'w Platform \<Rightarrow> Invoice \<Rightarrow> PaymentMethod \<Rightarrow> string \<Rightarrow> ClientFailure \<Rightarrow> ('w, AdapterResult) eff" where
  "paypal_declined pf invoice pm key f =
     (if paypal_isPaymentFailure f then
        declined_charge pf invoice pm key (mapPaypalDeclineCode (paypal_declineReason f)) None
      else rethrow f)"

definition paypal_attemptCharge ::
  "'w Platform \<Rightarrow> PayPalConfig \<Rightarrow> Invoice \<Rightarrow> PaymentMethod \<Rightarrow> string \<Rightarrow> ('w, AdapterResult) eff" where
  "paypal_attemptCharge pf cfg invoice pm key =
     andThen (paypal_order pf cfg invoice pm key)
       (case_sum (paypal_declined pf invoice pm key) (paypal_charged pf invoice pm key))"

text \<open>Nothing to poll, enumerate or refresh through this API.\<close>

definition paypal_listOpenFailures :: "Cursor \<Rightarrow> ('w, OpenFailuresPage) eff" where
  "paypal_listOpenFailures cursor = ok \<lparr>op_invoices = [], op_nextCursor = None\<rparr>"

definition paypal_fetchUpdatedCard :: "PaymentMethod \<Rightarrow> ('w, PaymentMethod option) eff" where
  "paypal_fetchUpdatedCard pm = ok None"

definition paypal_listPaymentMethods :: "Customer \<Rightarrow> ('w, PaymentMethod list) eff" where
  "paypal_listPaymentMethods customer = ok []"

subsection \<open>The contract\<close>

lemma paypal_event_ok: "list_all (payload_ok (pp_merchantId cfg)) (paypal_event pf cfg type resource occ)"
  by (simp add: paypal_event_def paypal_failed_def paypal_paid_def paypal_refunded_def paypal_dispute_def Let_def
      mapResourceInvoice_def mapResourceAttempt_def mapResourceDecline_def payload_defs)

lemma paypal_charge_ok:
  assumes "paypal_attemptCharge pf cfg invc pm key w = (Inr r, w')"
  shows "charge_ok invc pm key r"
proof (rule charge_via [OF assms [unfolded paypal_attemptCharge_def]])
  show "charge_ok invc pm key r" if "paypal_declined pf invc pm key f t = (Inr r, t')" for f t t'
    using that by (auto simp: paypal_declined_def declined_charge_ok split: if_splits)
  show "charge_ok invc pm key r" if "paypal_charged pf invc pm key a t = (Inr r, t')" for a t t'
    using that by (cases a) (auto simp: paypal_charged_def Let_def andThen_Inr charge_ok_def split: if_splits)
qed

definition paypal_authentic :: "'w Platform \<Rightarrow> PayPalConfig \<Rightarrow> RawWebhook \<Rightarrow> 'w \<Rightarrow> bool" where
  "paypal_authentic pf cfg raw w \<longleftrightarrow>
     (\<exists>hook event. pp_webhookId cfg = Some hook \<and> hook \<noteq> [] \<and> pf_parseJson pf (rw_body raw) = Some event \<and>
        fst (paypal_verify pf cfg (rw_headers raw) hook event w) = Inr True)"

lemma paypal_checked_authentic:
  "paypal_checked pf cfg raw w = (Inr event, w') \<Longrightarrow> paypal_authentic pf cfg raw w"
  by (cases "pp_webhookId cfg")
     (auto simp: paypal_checked_def paypal_authentic_def given_def andThen_Inr split: if_splits option.splits)

interpretation paypal: strict_adapter "pp_merchantId cfg" "paypal_authentic pf cfg"
    "paypal_ingest pf cfg" "paypal_attemptCharge pf cfg" for pf cfg
proof
  fix raw w es w'
  assume i: "paypal_ingest pf cfg raw w = (Inr es, w')"
  show "paypal_authentic pf cfg raw w"
    using i by (auto simp: paypal_ingest_def andThen_Inr dest: paypal_checked_authentic)
  show "list_all (event_ok (pp_merchantId cfg)) es"
    using i paypal_event_ok [of cfg pf]
    by (auto simp: paypal_ingest_def andThen_Inr paypal_envelope_def event_ok_def list_all_iff Let_def split: if_splits)
qed (rule paypal_charge_ok)

end
