(* ===== verification/RecurlyAdapter.thy ===== *)
theory RecurlyAdapter
  imports AdapterKit
begin

text \<open>
  The Recurly adapter (\<open>packages/poal/src/adapters/recurly/\<close>): the client, the parsing of a JSON or
  XML notification, its normalization, the collection of an invoice, the reconciliation poll and
  the stored billing infos. An XML notification carries no time the adapter reads: its events are
  stamped with the epoch.
\<close>

subsection \<open>The client\<close>

record RecurlyConfig =
  rl_apiKey :: string
  rl_merchantId :: ident
  rl_webhookUser :: "string option"
  rl_webhookPassword :: "string option"
  rl_baseUrl :: "string option"

definition recurly_isPaymentFailure :: "ClientFailure \<Rightarrow> bool" where
  "recurly_isPaymentFailure f =
     (cf_status f = 422 \<and> (fstr (cf_body f) ''type'' = Some ''transaction'' \<or> member (cf_body f) ''transaction_error'' \<noteq> VNull))"

definition recurly_declineReason :: "ClientFailure \<Rightarrow> string option" where
  "recurly_declineReason f =
     (let err = member (cf_body f) ''transaction_error'' in or_else (fstr err ''code'') (fstr err ''decline_code''))"

definition recurly_headers :: "'w Platform \<Rightarrow> RecurlyConfig \<Rightarrow> (string \<times> string) list \<Rightarrow> (string \<times> string) list" where
  "recurly_headers pf cfg extra =
     [(''Authorization'', basic_auth pf (rl_apiKey cfg) ''''), (''Accept'', ''application/vnd.recurly.v2021-02-25'')] @ extra"

text \<open>Errors come as \<open>{ error: \<dots> }\<close>.\<close>

definition recurly_parse :: "'w Platform \<Rightarrow> PortResponse \<Rightarrow> ('w, jsval client_result) eff" where
  "recurly_parse pf =
     parse_response pf (\<lambda>v. if member v ''error'' = VNull then v else member v ''error'') message_only
       (\<lambda>body n. coalesce (fstr body ''message'') (''Recurly error '' @ show_int n))"

definition recurly_url :: "RecurlyConfig \<Rightarrow> string \<Rightarrow> string" where
  "recurly_url cfg path = coalesce (rl_baseUrl cfg) ''https://v3.recurly.com'' @ path"

definition recurly_get ::
  "'w Platform \<Rightarrow> RecurlyConfig \<Rightarrow> string \<Rightarrow> (string \<times> string option) list \<Rightarrow> ('w, jsval client_result) eff" where
  "recurly_get pf cfg path query =
     (let qs = form_encode query in
      andThen (pf_fetch pf
        \<lparr>rq_url = recurly_url cfg path @ (if qs = '''' then '''' else ''?'' @ qs), rq_verb = ''GET'',
         rq_headers = recurly_headers pf cfg [], rq_body = None\<rparr>) (recurly_parse pf))"

definition recurly_write ::
  "'w Platform \<Rightarrow> RecurlyConfig \<Rightarrow> string \<Rightarrow> string \<Rightarrow> json \<Rightarrow> string \<Rightarrow> ('w, (jsval \<times> bool) client_result) eff" where
  "recurly_write pf cfg verb path body key =
     andThen (pf_fetch pf
       \<lparr>rq_url = recurly_url cfg path, rq_verb = verb,
        rq_headers = recurly_headers pf cfg ((''Content-Type'', ''application/json'') #
          (if key = '''' then [] else [(''Idempotency-Key'', key)])),
        rq_body = Some (stringify body)\<rparr>) (\<lambda>res.
     then_ok (recurly_parse pf res) (\<lambda>v.
       ok (Inr (v, rp_header res ''recurly-idempotent-replayed'' = Some ''true''))))"

subsection \<open>Amounts, transactions, cursors\<close>

definition invoiceCents :: "jsval \<Rightarrow> int" where
  "invoiceCents rinv =
     coalesce (or_else (fint rinv ''balance_in_cents'') (or_else (fint rinv ''total_in_cents'')
       (or_else (map_option to_cents (freal rinv ''balance'')) (map_option to_cents (freal rinv ''total''))))) 0"

definition lastTransaction :: "jsval \<Rightarrow> jsval" where
  "lastTransaction rinv = (let txns = flist rinv ''transactions'' in if txns = [] then VNull else last txns)"

definition cursorFromNext :: "jsval \<Rightarrow> js_error + Cursor" where
  "cursorFromNext = token_of [''cursor'']"

subsection \<open>Notifications\<close>

record RlNotification =
  rn_type :: string
  rn_invoiceId :: "string option"
  rn_subscriptionId :: "string option"
  rn_accountCode :: "string option"
  rn_accountEmail :: "string option"
  rn_currency :: "string option"
  rn_amountInCents :: "int option"
  rn_transactionErrorCode :: "string option"
  rn_transactionId :: "string option"
  rn_transactionStatus :: "string option"
  rn_transactionAmountInCents :: "int option"
  rn_transactionAction :: "string option"
  rn_rawReason :: "string option"
  rn_occurredAt :: "string option"

definition parse_json_note :: "'w Platform \<Rightarrow> jsval \<Rightarrow> RlNotification option" where
  "parse_json_note pf j =
     (let type = coalesce (or_else (fstr j ''type'') (fstr j ''event_type'')) '''';
          rinv = member j ''invoice''; txn = member j ''transaction'';
          sub = member j ''subscription''; acct = member j ''account'' in
      if type = '''' then None
      else Some \<lparr>rn_type = type,
        rn_invoiceId = or_else (fstr rinv ''uuid'') (or_else (fstr rinv ''id'') (or_else (fstr rinv ''number'')
          (or_else (fstr txn ''invoice_id'') (string_of pf (member txn ''invoice_number''))))),
        rn_subscriptionId = or_else (fstr sub ''uuid'') (fstr sub ''id''),
        rn_accountCode = or_else (fstr acct ''account_code'') (fstr acct ''code''),
        rn_accountEmail = fstr acct ''email'',
        rn_currency = fstr rinv ''currency'',
        rn_amountInCents = or_else (fint rinv ''balance_in_cents'') (fint rinv ''total_in_cents''),
        rn_transactionErrorCode = or_else (fstr txn ''error_code'') (fstr txn ''decline_code''),
        rn_transactionId = or_else (fstr txn ''uuid'') (fstr txn ''id''),
        rn_transactionStatus = fstr txn ''status'',
        rn_transactionAmountInCents = fint txn ''amount_in_cents'',
        rn_transactionAction = fstr txn ''action'',
        rn_rawReason = or_else (fstr txn ''message'') (fstr txn ''error_code''),
        rn_occurredAt = fstr j ''occurred_at''\<rparr>)"

text \<open>\<open>/<\s*([a-z_]+_notification)\b/i\<close>: the longest run of letters and underscores after the
  bracket, when it ends in \<open>_notification\<close> and no digit follows.\<close>

definition tag_char :: "char \<Rightarrow> bool" where
  "tag_char c = (is_word c \<and> \<not> is_digit c)"

definition root_at :: "string \<Rightarrow> string option" where
  "root_at s = (case s of [] \<Rightarrow> None
     | c # r \<Rightarrow> if c \<noteq> CHR ''<'' then None
       else (let t = dropWhile is_space r; w = takeWhile tag_char t; rest = dropWhile tag_char t;
                 suffix = ''_notification'' in
             if length suffix < length w \<and> to_lower (drop (length w - length suffix) w) = suffix
                \<and> (rest = [] \<or> \<not> is_digit (hd rest))
             then Some w else None))"

text \<open>\<open>Number(text) || undefined\<close>\<close>

definition nonzero_number :: "'w Platform \<Rightarrow> string option \<Rightarrow> int option" where
  "nonzero_number pf t = (case t of None \<Rightarrow> None
     | Some s \<Rightarrow> (case pf_number pf s of None \<Rightarrow> None | Some n \<Rightarrow> if n = 0 then None else Some (floor n)))"

definition parse_xml_note :: "'w Platform \<Rightarrow> string \<Rightarrow> RlNotification option" where
  "parse_xml_note pf body =
     (case matched (scan root_at body) of
        None \<Rightarrow> None
      | Some type \<Rightarrow>
          (let rinv = coalesce (xml_block ''invoice'' body) '''';
               txn = coalesce (xml_block ''transaction'' body) '''' in
           Some \<lparr>rn_type = type,
             rn_invoiceId = or_else (xml_elem ''uuid'' rinv) (or_else (xml_elem_attrs ''invoice_number'' rinv)
               (or_else (xml_elem ''invoice_id'' txn) (xml_elem_attrs ''invoice_number'' txn))),
             rn_subscriptionId = xml_within ''subscription'' ''uuid'' body,
             rn_accountCode = xml_within ''account'' ''account_code'' body,
             rn_accountEmail = xml_within ''account'' ''email'' body,
             rn_currency = xml_elem ''currency'' rinv,
             rn_amountInCents = nonzero_number pf (xml_elem_attrs ''total_in_cents'' rinv),
             rn_transactionErrorCode = xml_elem_attrs ''error_code'' txn,
             rn_transactionId = or_else (xml_elem ''uuid'' txn) (xml_elem_attrs ''id'' txn),
             rn_transactionStatus = xml_elem ''status'' txn,
             rn_transactionAmountInCents = nonzero_number pf (xml_elem_attrs ''amount_in_cents'' txn),
             rn_transactionAction = xml_elem ''action'' txn,
             rn_rawReason = or_else (xml_elem ''message'' txn) (xml_elem_attrs ''error_code'' txn),
             rn_occurredAt = None\<rparr>))"

definition parseRecurlyNotification :: "'w Platform \<Rightarrow> string \<Rightarrow> RlNotification option" where
  "parseRecurlyNotification pf body =
     (let trimmed = trim body in
      if take 1 trimmed = ''{'' then
        (case pf_parseJson pf trimmed of None \<Rightarrow> None | Some j \<Rightarrow> parse_json_note pf j)
      else parse_xml_note pf trimmed)"

subsection \<open>Mapping helpers\<close>

definition recurly_mapInvoiceState :: "string option \<Rightarrow> InvoiceStatus" where
  "recurly_mapInvoiceState state =
     (if state = Some ''paid'' then InvPaid
      else if state = Some ''voided'' \<or> state = Some ''closed'' then InvVoid
      else if state = Some ''failed'' then InvUncollectible
      else InvOpen)"

definition recurly_mapInvoice :: "'w Platform \<Rightarrow> RecurlyConfig \<Rightarrow> jsval \<Rightarrow> iso \<Rightarrow> bool \<Rightarrow> Invoice" where
  "recurly_mapInvoice pf cfg rinv occurredAt failed =
     (let ref = coalesce (or_else (fstr rinv ''uuid'') (or_else (fstr rinv ''id'') (fstr rinv ''number''))) '''';
          acct = member rinv ''account'';
          accountRef = or_else (fstr acct ''code'') (fstr acct ''id'') in
      \<lparr>inv_id = ''ax10m_inv_'' @ ref,
       inv_subscriptionId = prefixed ''ax10m_sub_'' (as_str (first_item (flist rinv ''subscription_ids''))),
       inv_customerId = coalesce (prefixed ''ax10m_cus_'' accountRef) '''',
       inv_merchantId = rl_merchantId cfg, inv_processorRef = ref,
       inv_amount = \<lparr>amount = invoiceCents rinv, money_currency = coalesce (fstr rinv ''currency'') ''USD''\<rparr>,
       inv_status = recurly_mapInvoiceState (fstr rinv ''state''),
       inv_firstFailedAt = (if failed then Some occurredAt else None),
       inv_createdAt = toIso (pf_parseDate pf) (fstr rinv ''created_at'')\<rparr>)"

definition mapNotificationInvoice :: "RecurlyConfig \<Rightarrow> RlNotification \<Rightarrow> iso \<Rightarrow> bool \<Rightarrow> Invoice" where
  "mapNotificationInvoice cfg note occurredAt failed =
     (let ref = coalesce (rn_invoiceId note) '''' in
      \<lparr>inv_id = ''ax10m_inv_'' @ ref,
       inv_subscriptionId = prefixed ''ax10m_sub_'' (rn_subscriptionId note),
       inv_customerId = coalesce (prefixed ''ax10m_cus_'' (rn_accountCode note)) '''',
       inv_merchantId = rl_merchantId cfg, inv_processorRef = ref,
       inv_amount = \<lparr>amount = coalesce (rn_amountInCents note) 0, money_currency = coalesce (rn_currency note) ''USD''\<rparr>,
       inv_status = (if failed then InvOpen else InvPaid),
       inv_firstFailedAt = (if failed then Some occurredAt else None), inv_createdAt = occurredAt\<rparr>)"

definition recurly_buildDecline :: "RlNotification \<Rightarrow> ident \<Rightarrow> ident \<Rightarrow> iso \<Rightarrow> DeclineEvent" where
  "recurly_buildDecline note invoiceId chargeAttemptId occurredAt =
     (let code = mapRecurlyDeclineCode (rn_transactionErrorCode note) in
      \<lparr>dec_id = ''ax10m_dec_'' @ coalesce (rn_transactionId note) invoiceId, dec_invoiceId = invoiceId,
       dec_chargeAttemptId = chargeAttemptId, dec_code = code, dec_family = familyOf code,
       dec_rawReason = or_else (rn_rawReason note) (rn_transactionErrorCode note), dec_occurredAt = occurredAt\<rparr>)"

definition mapBillingInfo :: "jsval \<Rightarrow> Customer \<Rightarrow> PaymentMethod" where
  "mapBillingInfo bi customer =
     (let pm = member bi ''payment_method'';
          token = coalesce (or_else (fstr pm ''gateway_token'') (fstr bi ''id'')) '''' in
      \<lparr>pm_id = ''ax10m_pm_'' @ coalesce (fstr bi ''id'') token, pm_customerId = cust_id customer,
       pm_processorRef = coalesce (fstr bi ''id'') token, pm_token = token,
       pm_brand = or_else (fstr pm ''card_type'') (fstr pm ''account_type''), pm_last4 = fstr pm ''last_four'',
       pm_bin = fstr pm ''first_six'', pm_expMonth = fint pm ''exp_month'', pm_expYear = fint pm ''exp_year'',
       pm_autoUpdated = None\<rparr>)"

subsection \<open>Webhooks\<close>

definition recurly_envelope :: "RecurlyConfig \<Rightarrow> RlNotification \<Rightarrow> iso \<Rightarrow> AdapterPayload \<Rightarrow> AdapterEvent" where
  "recurly_envelope cfg note occurredAt payload =
     \<lparr>ae_id = ''ax10m_evt_'' @ coalesce (or_else (rn_transactionId note) (rn_invoiceId note)) (rn_type note),
      ae_merchantId = rl_merchantId cfg,
      ae_processorEventId = coalesce (or_else (rn_transactionId note) (rn_invoiceId note)) '''',
      ae_occurredAt = occurredAt, ae_payload = payload\<rparr>"

definition recurly_failed :: "RecurlyConfig \<Rightarrow> RlNotification \<Rightarrow> iso \<Rightarrow> AdapterPayload" where
  "recurly_failed cfg note occurredAt =
     (let invoice = mapNotificationInvoice cfg note occurredAt True;
          attempt = buildAttempt (inv_id invoice) '''' '''' (inv_amount invoice) Failed
            (Some (mapRecurlyDeclineCode (rn_transactionErrorCode note))) (rn_transactionId note) occurredAt;
          decline = recurly_buildDecline note (inv_id invoice) (ca_id attempt) occurredAt
      in ApFailed invoice (Some attempt) (Some decline)
           (Some (customerFromInvoice invoice (contactOverrides (rn_accountEmail note) None))) None)"

definition recurly_paid :: "RecurlyConfig \<Rightarrow> RlNotification \<Rightarrow> iso \<Rightarrow> AdapterPayload" where
  "recurly_paid cfg note occurredAt =
     (let invoice = mapNotificationInvoice cfg note occurredAt False in
      ApPaid invoice (Some (buildAttempt (inv_id invoice) '''' '''' (inv_amount invoice) Succeeded None
        (rn_transactionId note) occurredAt)))"

definition recurly_refunded :: "RlNotification \<Rightarrow> AdapterPayload list" where
  "recurly_refunded note =
     reversal_about ApReversed (rn_invoiceId note)
       (coalesce (or_else (rn_transactionAmountInCents note) (rn_amountInCents note)) 0)
       (coalesce (rn_currency note) ''USD'') Refund (or_else (rn_rawReason note) (rn_transactionAction note))"

definition recurly_event :: "RecurlyConfig \<Rightarrow> RlNotification \<Rightarrow> iso \<Rightarrow> AdapterPayload list" where
  "recurly_event cfg note occurredAt =
     (if rn_type note = ''failed_payment_notification'' \<or> rn_type note = ''failed_charge'' then
        [recurly_failed cfg note occurredAt]
      else if rn_type note = ''successful_payment_notification'' \<or> rn_type note = ''paid_charge'' then
        [recurly_paid cfg note occurredAt]
      else if rn_type note = ''successful_refund_notification'' then recurly_refunded note
      else if rn_type note = ''canceled_subscription_notification'' then
        if_given (rn_subscriptionId note) (\<lambda>s. [ApSubscription s ''canceled'']) []
      else [])"

definition recurly_ingest :: "'w Platform \<Rightarrow> RecurlyConfig \<Rightarrow> RawWebhook \<Rightarrow> ('w, AdapterEvent list) eff" where
  "recurly_ingest pf cfg raw =
     andThen (check_basic pf ''RecurlyAdapter'' (rl_webhookUser cfg) (rl_webhookPassword cfg) (rw_headers raw)) (\<lambda>_.
       ok (case parseRecurlyNotification pf (rw_body raw) of
             None \<Rightarrow> []
           | Some note \<Rightarrow>
               (let occurredAt = toIso (pf_parseDate pf) (rn_occurredAt note) in
                map (recurly_envelope cfg note occurredAt) (recurly_event cfg note occurredAt))))"

subsection \<open>Charging and polling\<close>

definition recurly_charged ::
  "'w Platform \<Rightarrow> Invoice \<Rightarrow> PaymentMethod \<Rightarrow> string \<Rightarrow> jsval \<times> bool \<Rightarrow> ('w, AdapterResult) eff" where
  "recurly_charged pf invoice pm key res =
     (let rinv = fst res; txn = lastTransaction rinv;
          outcome = (if fstr rinv ''state'' = Some ''paid'' \<or> fstr txn ''status'' = Some ''success'' then Succeeded
                     else if fstr txn ''status'' = Some ''declined'' \<or> fstr txn ''status'' = Some ''error'' then Failed
                     else Pending) in
      andThen (if given (fstr txn ''created_at'') then ok (toIso (pf_parseDate pf) (fstr txn ''created_at''))
               else pf_clock pf) (\<lambda>attemptedAt.
        ok \<lparr>ar_attempt = buildAttempt (inv_id invoice) (pm_id pm) key (inv_amount invoice) outcome
              (if outcome = Failed then Some (mapRecurlyDeclineCode (or_else (fstr txn ''error_code'') (fstr txn ''decline_code'')))
               else None)
              (or_else (fstr txn ''uuid'') (or_else (fstr txn ''id'') (or_else (fstr rinv ''uuid'') (fstr rinv ''id''))))
              attemptedAt,
            ar_outcome = outcome, ar_idempotentReplay = snd res\<rparr>))"

definition recurly_declined ::
  "'w Platform \<Rightarrow> Invoice \<Rightarrow> PaymentMethod \<Rightarrow> string \<Rightarrow> ClientFailure \<Rightarrow> ('w, AdapterResult) eff" where
  "recurly_declined pf invoice pm key f =
     (if recurly_isPaymentFailure f then
        declined_charge pf invoice pm key (mapRecurlyDeclineCode (recurly_declineReason f))
          (fstr (member (cf_body f) ''transaction_error'') ''transaction_id'')
      else rethrow f)"

definition recurly_attemptCharge ::
  "'w Platform \<Rightarrow> RecurlyConfig \<Rightarrow> Invoice \<Rightarrow> PaymentMethod \<Rightarrow> string \<Rightarrow> ('w, AdapterResult) eff" where
  "recurly_attemptCharge pf cfg invoice pm key =
     andThen (recurly_write pf cfg ''PUT'' (''/invoices/'' @ encodeURIComponent (inv_processorRef invoice) @ ''/collect'')
       (JObj [(''transaction'', JObj [])]) key)
       (case_sum (recurly_declined pf invoice pm key) (recurly_charged pf invoice pm key))"

definition recurly_fetchUpdatedCard :: "PaymentMethod \<Rightarrow> ('w, PaymentMethod option) eff" where
  "recurly_fetchUpdatedCard pm = ok None"

definition recurly_listPaymentMethods :: "'w Platform \<Rightarrow> RecurlyConfig \<Rightarrow> Customer \<Rightarrow> ('w, PaymentMethod list) eff" where
  "recurly_listPaymentMethods pf cfg customer =
     andThen (andThen (recurly_get pf cfg (''/accounts/'' @ encodeURIComponent (cust_processorRef customer) @ ''/billing_infos'') [])
       unwrap) (\<lambda>res.
       ok (map (\<lambda>bi. mapBillingInfo bi customer) (filter (\<lambda>bi. bi \<noteq> VNull) (flist res ''data''))))"

definition recurly_listOpenFailures :: "'w Platform \<Rightarrow> RecurlyConfig \<Rightarrow> Cursor \<Rightarrow> ('w, OpenFailuresPage) eff" where
  "recurly_listOpenFailures pf cfg cursor =
     andThen (andThen (recurly_get pf cfg ''/invoices''
       [(''state'', Some ''past_due''), (''limit'', Some ''100''), (''cursor'', cursor)]) unwrap) (\<lambda>res.
     andThen (lift_sum (cursorFromNext (member res ''next''))) (\<lambda>nextCursor.
       ok \<lparr>op_invoices = map (\<lambda>v. recurly_mapInvoice pf cfg v
             (toIso (pf_parseDate pf) (or_else (fstr v ''updated_at'') (fstr v ''created_at''))) True) (flist res ''data''),
           op_nextCursor = nextCursor\<rparr>))"

subsection \<open>The contract\<close>

lemma recurly_event_ok: "list_all (payload_ok (rl_merchantId cfg)) (recurly_event cfg note occ)"
  by (simp add: recurly_event_def recurly_failed_def recurly_paid_def recurly_refunded_def Let_def if_given_def
      mapNotificationInvoice_def recurly_buildDecline_def payload_defs)

lemma recurly_charge_ok:
  assumes "recurly_attemptCharge pf cfg invc pm key w = (Inr r, w')"
  shows "charge_ok invc pm key r"
proof (rule charge_via [OF assms [unfolded recurly_attemptCharge_def]])
  show "charge_ok invc pm key r" if "recurly_declined pf invc pm key f t = (Inr r, t')" for f t t'
    using that by (auto simp: recurly_declined_def declined_charge_ok split: if_splits)
  show "charge_ok invc pm key r" if "recurly_charged pf invc pm key a t = (Inr r, t')" for a t t'
    using that by (auto simp: recurly_charged_def Let_def andThen_Inr charge_ok_def split: if_splits)
qed

interpretation recurly: strict_adapter "rl_merchantId cfg"
    "\<lambda>raw w. basic_webhook_ok pf (rl_webhookUser cfg) (rl_webhookPassword cfg) (rw_headers raw)"
    "recurly_ingest pf cfg" "recurly_attemptCharge pf cfg" for pf cfg
proof
  fix raw w es w'
  assume i: "recurly_ingest pf cfg raw w = (Inr es, w')"
  show "basic_webhook_ok pf (rl_webhookUser cfg) (rl_webhookPassword cfg) (rw_headers raw)"
    using i by (auto simp: recurly_ingest_def andThen_Inr)
  show "list_all (event_ok (rl_merchantId cfg)) es"
    using i recurly_event_ok [of cfg]
    by (auto simp: recurly_ingest_def andThen_Inr recurly_envelope_def event_ok_def list_all_iff Let_def
        split: option.splits)
qed (rule recurly_charge_ok)

text \<open>Whatever the clock says, the events of an XML notification happened at the epoch.\<close>

lemma xml_events_at_epoch:
  assumes "recurly_ingest pf cfg raw w = (Inr es, w')" "take 1 (trim (rw_body raw)) \<noteq> ''{''" "e \<in> set es"
  shows "ae_occurredAt e = Some 0"
proof -
  have "rn_occurredAt nt = None" if "parse_xml_note pf b = Some nt" for b nt
    using that by (auto simp: parse_xml_note_def Let_def split: option.splits)
  then show ?thesis
    using assms
    by (auto simp: recurly_ingest_def andThen_Inr parseRecurlyNotification_def recurly_envelope_def toIso_def
        if_given_def given_def Let_def split: option.splits)
qed

end
