(* ===== verification/CheckoutAdapter.thy ===== *)
theory CheckoutAdapter
  imports AdapterKit
begin

text \<open>
  The Checkout.com adapter (\<open>packages/poal/src/adapters/checkout/\<close>): a payment gateway without
  invoices of its own, so an invoice is known by the merchant's reference. Its webhook data is a
  payment, or a dispute that names the payment's reference.
\<close>

subsection \<open>The client\<close>

record CheckoutConfig =
  ck_secretKey :: string
  ck_merchantId :: ident
  ck_webhookSecret :: "string option"
  ck_baseUrl :: "string option"

definition checkout_isPaymentFailure :: "ClientFailure \<Rightarrow> bool" where
  "checkout_isPaymentFailure f =
     (fstr (cf_body f) ''status'' = Some ''Declined'' \<or> fstr (cf_body f) ''response_code'' \<noteq> None
      \<or> fstr (cf_body f) ''error_type'' = Some ''payment_declined'')"

definition checkout_parse :: "'w Platform \<Rightarrow> PortResponse \<Rightarrow> ('w, jsval client_result) eff" where
  "checkout_parse pf =
     parse_response pf id message_only
       (\<lambda>body n. coalesce (fstr body ''message'') (''Checkout error '' @ show_int n))"

definition checkout_post ::
  "'w Platform \<Rightarrow> CheckoutConfig \<Rightarrow> string \<Rightarrow> json \<Rightarrow> string \<Rightarrow> ('w, (jsval \<times> bool) client_result) eff" where
  "checkout_post pf cfg path body key =
     andThen (pf_fetch pf
       \<lparr>rq_url = coalesce (ck_baseUrl cfg) ''https://api.checkout.com'' @ path, rq_verb = ''POST'',
        rq_headers = [(''Authorization'', ''Bearer '' @ ck_secretKey cfg), (''Content-Type'', ''application/json'')] @
          (if key = '''' then [] else [(''Cko-Idempotency-Key'', key)]),
        rq_body = Some (stringify body)\<rparr>) (\<lambda>res.
     then_ok (checkout_parse pf res) (\<lambda>v.
       ok (Inr (v, rp_header res ''cko-idempotency-replayed'' = Some ''true''))))"

subsection \<open>Webhook signature\<close>

definition computeCheckoutSignature :: "'w Platform \<Rightarrow> string \<Rightarrow> string \<Rightarrow> string" where
  "computeCheckoutSignature pf body webhookSecret = pf_hmac pf webhookSecret body"

definition verifyCheckoutSignature :: "'w Platform \<Rightarrow> string \<Rightarrow> string \<Rightarrow> string \<Rightarrow> bool" where
  "verifyCheckoutSignature pf body provided webhookSecret =
     buffers_equal provided (computeCheckoutSignature pf body webhookSecret)"

subsection \<open>Mapping helpers\<close>

definition checkoutPhone :: "jsval \<Rightarrow> string option" where
  "checkoutPhone phone =
     if_given (fstr phone ''number'') (\<lambda>number.
       (let cc = only_digits (coalesce (fstr phone ''country_code'') '''') in
        Some (if cc = '''' then number else ''+'' @ cc @ number))) None"

definition checkout_money :: "jsval \<Rightarrow> Money" where
  "checkout_money data = \<lparr>amount = coalesce (fint data ''amount'') 0, money_currency = coalesce (fstr data ''currency'') ''USD''\<rparr>"

definition checkout_mapInvoice :: "CheckoutConfig \<Rightarrow> jsval \<Rightarrow> iso \<Rightarrow> bool \<Rightarrow> Invoice" where
  "checkout_mapInvoice cfg data occurredAt failed =
     (let ref = coalesce (or_else (fstr data ''reference'') (fstr data ''id'')) '''' in
      \<lparr>inv_id = ''ax10m_inv_'' @ ref, inv_subscriptionId = None, inv_customerId = '''',
       inv_merchantId = ck_merchantId cfg, inv_processorRef = ref, inv_amount = checkout_money data,
       inv_status = (if failed then InvOpen else InvPaid),
       inv_firstFailedAt = (if failed then Some occurredAt else None), inv_createdAt = occurredAt\<rparr>)"

definition checkout_mapAttempt :: "jsval \<Rightarrow> ident \<Rightarrow> bool \<Rightarrow> iso \<Rightarrow> ChargeAttempt" where
  "checkout_mapAttempt data invoiceId failed occurredAt =
     buildAttempt invoiceId (coalesce (prefixed ''ax10m_pm_'' (fstr (member data ''source'') ''id'')) '''') ''''
       (checkout_money data) (if failed then Failed else Succeeded)
       (if failed then Some (mapCheckoutResponseCode (fstr data ''response_code'')) else None)
       (fstr data ''id'') occurredAt"

definition checkout_mapDecline :: "jsval \<Rightarrow> ident \<Rightarrow> ident \<Rightarrow> iso \<Rightarrow> DeclineEvent" where
  "checkout_mapDecline data invoiceId chargeAttemptId occurredAt =
     (let code = mapCheckoutResponseCode (fstr data ''response_code'') in
      \<lparr>dec_id = ''ax10m_dec_'' @ coalesce (fstr data ''id'') invoiceId, dec_invoiceId = invoiceId,
       dec_chargeAttemptId = chargeAttemptId, dec_code = code, dec_family = familyOf code,
       dec_rawReason = or_else (fstr data ''response_summary'') (fstr data ''response_code''), dec_occurredAt = occurredAt\<rparr>)"

subsection \<open>Reversals\<close>

definition reversalFromPayment :: "jsval \<Rightarrow> ReversalKind \<Rightarrow> AdapterPayload list" where
  "reversalFromPayment data k =
     reversal_about ApReversed (or_else (fstr data ''reference'') (fstr data ''id'')) (coalesce (fint data ''amount'') 0)
       (coalesce (fstr data ''currency'') ''USD'') k (or_else (fstr data ''response_summary'') (fstr data ''reason_code''))"

definition reversalFromDispute :: "jsval \<Rightarrow> AdapterPayload list" where
  "reversalFromDispute data =
     reversal_about ApReversed (or_else (fstr data ''payment_reference'') (fstr data ''payment_id''))
       (coalesce (fint data ''amount'') 0) (coalesce (fstr data ''currency'') ''USD'') Chargeback
       (or_else (fstr data ''reason_code'') (fstr data ''category''))"

definition reinstatementFromDispute :: "jsval \<Rightarrow> string option \<Rightarrow> AdapterPayload list" where
  "reinstatementFromDispute data reason =
     reversal_about ApReverted (or_else (fstr data ''payment_reference'') (fstr data ''payment_id''))
       (coalesce (fint data ''amount'') 0) (coalesce (fstr data ''currency'') ''USD'') Chargeback reason"

subsection \<open>Webhooks\<close>

definition checkout_failed :: "CheckoutConfig \<Rightarrow> jsval \<Rightarrow> iso \<Rightarrow> AdapterPayload" where
  "checkout_failed cfg data occurredAt =
     (let invoice = checkout_mapInvoice cfg data occurredAt True;
          attempt = checkout_mapAttempt data (inv_id invoice) True occurredAt;
          decline = checkout_mapDecline data (inv_id invoice) (ca_id attempt) occurredAt;
          cust = member data ''customer''
      in ApFailed invoice (Some attempt) (Some decline)
           (Some (customerFromInvoice invoice (contactOverrides (fstr cust ''email'') (checkoutPhone (member cust ''phone'')))))
           None)"

definition checkout_event :: "CheckoutConfig \<Rightarrow> string option \<Rightarrow> jsval \<Rightarrow> iso \<Rightarrow> AdapterPayload list" where
  "checkout_event cfg type data occurredAt =
     (if type = Some ''payment_declined'' then [checkout_failed cfg data occurredAt]
      else if type = Some ''payment_captured'' \<or> type = Some ''payment_approved'' then
        (let invoice = checkout_mapInvoice cfg data occurredAt False in
         [ApPaid invoice (Some (checkout_mapAttempt data (inv_id invoice) False occurredAt))])
      else if type = Some ''payment_refunded'' then reversalFromPayment data Refund
      else if type = Some ''payment_chargeback'' then reversalFromPayment data Chargeback
      else if type = Some ''dispute_received'' then reversalFromDispute data
      else if type = Some ''dispute_won'' \<or> type = Some ''dispute_canceled'' then reinstatementFromDispute data type
      else [])"

definition checkout_envelope :: "CheckoutConfig \<Rightarrow> jsval \<Rightarrow> iso \<Rightarrow> AdapterPayload \<Rightarrow> AdapterEvent" where
  "checkout_envelope cfg event occurredAt payload =
     (let eventId = coalesce (fstr event ''id'') '''' in
      \<lparr>ae_id = ''ax10m_evt_'' @ eventId, ae_merchantId = ck_merchantId cfg, ae_processorEventId = eventId,
       ae_occurredAt = occurredAt, ae_payload = payload\<rparr>)"

definition checkout_authentic :: "'w Platform \<Rightarrow> CheckoutConfig \<Rightarrow> RawWebhook \<Rightarrow> bool" where
  "checkout_authentic pf cfg raw =
     (given (ck_webhookSecret cfg) \<and>
      verifyCheckoutSignature pf (rw_body raw) (coalesce (headerLookup (rw_headers raw) ''cko-signature'') '''')
        (coalesce (ck_webhookSecret cfg) ''''))"

definition checkout_ingest :: "'w Platform \<Rightarrow> CheckoutConfig \<Rightarrow> RawWebhook \<Rightarrow> ('w, AdapterEvent list) eff" where
  "checkout_ingest pf cfg raw =
     (if \<not> given (ck_webhookSecret cfg) then
        throw (JsError (''CheckoutAdapter.ingestWebhook: webhookSecret not configured '' @ emdash @ '' refusing unverified webhook''))
      else if \<not> checkout_authentic pf cfg raw then
        throw (JsError ''CheckoutAdapter.ingestWebhook: Cko-Signature verification failed'')
      else (case pf_parseJson pf (rw_body raw) of
          None \<Rightarrow> throw (JsError ''CheckoutAdapter.ingestWebhook: body is not valid JSON'')
        | Some event \<Rightarrow>
            if event = VNull then throw (TypeError ''Cannot read properties of null'')
            else (let occurredAt = toIso (pf_parseDate pf) (fstr event ''created_on'') in
              ok (map (checkout_envelope cfg event occurredAt)
                (checkout_event cfg (fstr event ''type'') (member event ''data'') occurredAt)))))"

subsection \<open>Charging\<close>

definition checkout_charged ::
  "'w Platform \<Rightarrow> Invoice \<Rightarrow> PaymentMethod \<Rightarrow> string \<Rightarrow> jsval \<times> bool \<Rightarrow> ('w, AdapterResult) eff" where
  "checkout_charged pf invoice pm key res =
     (let payment = fst res; status = coalesce (fstr payment ''status'') '''';
          outcome = (if status = ''Authorized'' \<or> status = ''Captured'' then Succeeded
                     else if status = ''Declined'' then Failed else Pending) in
      ok \<lparr>ar_attempt = buildAttempt (inv_id invoice) (pm_id pm) key (inv_amount invoice) outcome
            (if outcome = Failed then Some (mapCheckoutResponseCode (fstr payment ''response_code'')) else None)
            (fstr payment ''id'') (toIso (pf_parseDate pf) (fstr payment ''processed_on'')),
          ar_outcome = outcome, ar_idempotentReplay = snd res\<rparr>)"

definition checkout_declined ::
  "'w Platform \<Rightarrow> Invoice \<Rightarrow> PaymentMethod \<Rightarrow> string \<Rightarrow> ClientFailure \<Rightarrow> ('w, AdapterResult) eff" where
  "checkout_declined pf invoice pm key f =
     (if checkout_isPaymentFailure f then
        declined_charge pf invoice pm key (mapCheckoutResponseCode (fstr (cf_body f) ''response_code'')) None
      else rethrow f)"

definition checkout_attemptCharge ::
  "'w Platform \<Rightarrow> CheckoutConfig \<Rightarrow> Invoice \<Rightarrow> PaymentMethod \<Rightarrow> string \<Rightarrow> ('w, AdapterResult) eff" where
  "checkout_attemptCharge pf cfg invoice pm key =
     andThen (checkout_post pf cfg ''/payments''
       (JObj [(''source'', JObj [(''type'', JStr ''id''), (''id'', JStr (pm_token pm))]),
              (''amount'', jint (amount (inv_amount invoice))),
              (''currency'', JStr (money_currency (inv_amount invoice))),
              (''reference'', JStr (inv_processorRef invoice)), (''merchant_initiated'', JBool True),
              (''payment_type'', JStr ''Recurring'')]) key)
       (case_sum (checkout_declined pf invoice pm key) (checkout_charged pf invoice pm key))"

definition checkout_listOpenFailures :: "Cursor \<Rightarrow> ('w, OpenFailuresPage) eff" where
  "checkout_listOpenFailures cursor = ok \<lparr>op_invoices = [], op_nextCursor = None\<rparr>"

definition checkout_fetchUpdatedCard :: "PaymentMethod \<Rightarrow> ('w, PaymentMethod option) eff" where
  "checkout_fetchUpdatedCard pm = ok None"

definition checkout_listPaymentMethods :: "Customer \<Rightarrow> ('w, PaymentMethod list) eff" where
  "checkout_listPaymentMethods customer = ok []"

subsection \<open>The contract\<close>

lemma checkout_event_ok: "list_all (payload_ok (ck_merchantId cfg)) (checkout_event cfg type data occ)"
  by (simp add: checkout_event_def checkout_failed_def reversalFromPayment_def reversalFromDispute_def
      reinstatementFromDispute_def Let_def checkout_mapInvoice_def checkout_mapAttempt_def checkout_mapDecline_def
      payload_defs)

lemma checkout_charge_ok:
  assumes "checkout_attemptCharge pf cfg invc pm key w = (Inr r, w')"
  shows "charge_ok invc pm key r"
proof (rule charge_via [OF assms [unfolded checkout_attemptCharge_def]])
  show "charge_ok invc pm key r" if "checkout_declined pf invc pm key f t = (Inr r, t')" for f t t'
    using that by (auto simp: checkout_declined_def declined_charge_ok split: if_splits)
  show "charge_ok invc pm key r" if "checkout_charged pf invc pm key a t = (Inr r, t')" for a t t'
    using that by (auto simp: checkout_charged_def Let_def charge_ok_def split: if_splits)
qed

interpretation checkout: strict_adapter "ck_merchantId cfg" "\<lambda>raw w. checkout_authentic pf cfg raw"
    "checkout_ingest pf cfg" "checkout_attemptCharge pf cfg" for pf cfg
proof
  fix raw w es w'
  assume i: "checkout_ingest pf cfg raw w = (Inr es, w')"
  show "checkout_authentic pf cfg raw"
    using i by (auto simp: checkout_ingest_def split: if_splits)
  show "list_all (event_ok (ck_merchantId cfg)) es"
    using i checkout_event_ok [of cfg]
    by (auto simp: checkout_ingest_def checkout_envelope_def event_ok_def list_all_iff Let_def
        split: if_splits option.splits)
qed (rule checkout_charge_ok)

text \<open>A dispute and its reinstatement carry the same reference, amount and currency.\<close>

lemma dispute_round_trip:
  assumes "reversalFromDispute data = [ApReversed r]"
  shows "reinstatementFromDispute data reason = [ApReverted (r\<lparr>rev_reason := reason\<rparr>)]"
  using assms by (auto simp: reversalFromDispute_def reinstatementFromDispute_def reversal_about_def split: if_splits)

end
