(* ===== verification/ChargebeeAdapter.thy ===== *)
theory ChargebeeAdapter
  imports AdapterKit
begin

text \<open>
  The Chargebee adapter (\<open>packages/poal/src/adapters/chargebee/\<close>): a billing platform whose
  webhooks are authenticated with Basic credentials. Its times are seconds, so that mapping an
  object can fail with a \<open>RangeError\<close>. The status of a webhook's transaction is its own: the
  failed invoice of a \<open>payment_failed\<close> event may carry an attempt that is still pending.
\<close>

subsection \<open>The client\<close>

record ChargebeeConfig =
  cb_site :: string
  cb_apiKey :: string
  cb_merchantId :: ident
  cb_webhookUser :: "string option"
  cb_webhookPassword :: "string option"
  cb_baseUrl :: "string option"

definition chargebee_isPaymentFailure :: "ClientFailure \<Rightarrow> bool" where
  "chargebee_isPaymentFailure f =
     (fstr (cf_body f) ''type'' = Some ''payment''
      \<or> fstr (cf_body f) ''api_error_code'' = Some ''payment_processing_failed''
      \<or> fstr (cf_body f) ''api_error_code'' = Some ''payment_method_not_present'')"

definition chargebee_url :: "ChargebeeConfig \<Rightarrow> string \<Rightarrow> string" where
  "chargebee_url cfg path = coalesce (cb_baseUrl cfg) (''https://'' @ cb_site cfg @ ''.chargebee.com/api/v2'') @ path"

definition chargebee_parse :: "'w Platform \<Rightarrow> PortResponse \<Rightarrow> ('w, jsval client_result) eff" where
  "chargebee_parse pf =
     parse_response pf id message_only
       (\<lambda>body n. coalesce (fstr body ''message'') (''Chargebee error '' @ show_int n))"

definition chargebee_get ::
  "'w Platform \<Rightarrow> ChargebeeConfig \<Rightarrow> string \<Rightarrow> (string \<times> string option) list \<Rightarrow> ('w, jsval client_result) eff" where
  "chargebee_get pf cfg path query =
     http_get pf (chargebee_parse pf) (chargebee_url cfg path) query [(''Authorization'', basic_auth pf (cb_apiKey cfg) '''')]"

definition chargebee_post ::
  "'w Platform \<Rightarrow> ChargebeeConfig \<Rightarrow> string \<Rightarrow> (string \<times> string option) list \<Rightarrow> string \<Rightarrow>
   ('w, (jsval \<times> bool) client_result) eff" where
  "chargebee_post pf cfg path params key =
     http_post pf (chargebee_parse pf) ''chargebee-idempotency-replayed'' (chargebee_url cfg path)
       ([(''Authorization'', basic_auth pf (cb_apiKey cfg) ''''), (''Content-Type'', ''application/x-www-form-urlencoded'')]
        @ keyed ''chargebee-idempotency-key'' key)
       (form_encode params)"

subsection \<open>Mapping helpers\<close>

definition chargebee_mapInvoiceStatus :: "string option \<Rightarrow> InvoiceStatus" where
  "chargebee_mapInvoiceStatus status =
     (if status = Some ''paid'' then InvPaid else if status = Some ''voided'' then InvVoid else InvOpen)"

definition chargebee_mapInvoice :: "ChargebeeConfig \<Rightarrow> jsval \<Rightarrow> iso \<Rightarrow> bool \<Rightarrow> js_error + Invoice" where
  "chargebee_mapInvoice cfg cinv occurredAt failed =
     bind_sum (isoFromEpoch (fint cinv ''date'')) (\<lambda>created.
       Inr \<lparr>inv_id = ''ax10m_inv_'' @ printed (fstr cinv ''id''),
            inv_subscriptionId = prefixed ''ax10m_sub_'' (fstr cinv ''subscription_id''),
            inv_customerId = coalesce (prefixed ''ax10m_cus_'' (fstr cinv ''customer_id'')) '''',
            inv_merchantId = cb_merchantId cfg,
            inv_processorRef = coalesce (fstr cinv ''id'') '''',
            inv_amount = \<lparr>amount = coalesce (or_else (fint cinv ''amount_due'')
                            (or_else (fint cinv ''amount_to_collect'') (fint cinv ''total''))) 0,
                          money_currency = coalesce (fstr cinv ''currency_code'') ''USD''\<rparr>,
            inv_status = chargebee_mapInvoiceStatus (fstr cinv ''status''),
            inv_firstFailedAt = (if failed then Some occurredAt else None),
            inv_createdAt = created\<rparr>)"

definition chargebee_outcome :: "jsval \<Rightarrow> ChargeOutcome" where
  "chargebee_outcome txn =
     (if fstr txn ''status'' = Some ''success'' then Succeeded
      else if fstr txn ''status'' = Some ''failure'' then Failed else Pending)"

definition chargebee_code :: "jsval \<Rightarrow> DeclineCode option" where
  "chargebee_code txn =
     (if fstr txn ''status'' = Some ''failure'' then Some (mapChargebeeDeclineCode (fstr txn ''error_code'')) else None)"

definition chargebee_mapAttempt :: "jsval \<Rightarrow> ident \<Rightarrow> js_error + ChargeAttempt" where
  "chargebee_mapAttempt txn invoiceId =
     bind_sum (isoFromEpoch (fint txn ''date'')) (\<lambda>attemptedAt.
       Inr (buildAttempt invoiceId (coalesce (prefixed ''ax10m_pm_'' (fstr txn ''payment_source_id'')) '''') ''''
         \<lparr>amount = coalesce (fint txn ''amount'') 0, money_currency = coalesce (fstr txn ''currency_code'') ''USD''\<rparr>
         (chargebee_outcome txn) (chargebee_code txn) (fstr txn ''id'') attemptedAt))"

definition chargebee_mapDecline :: "jsval \<Rightarrow> ident \<Rightarrow> ident \<Rightarrow> js_error + DeclineEvent" where
  "chargebee_mapDecline txn invoiceId chargeAttemptId =
     bind_sum (isoFromEpoch (fint txn ''date'')) (\<lambda>occurredAt.
       (let code = mapChargebeeDeclineCode (fstr txn ''error_code'') in
        Inr \<lparr>dec_id = ''ax10m_dec_'' @ printed (fstr txn ''id''), dec_invoiceId = invoiceId,
             dec_chargeAttemptId = chargeAttemptId, dec_code = code, dec_family = familyOf code,
             dec_rawReason = or_else (fstr txn ''error_text'') (fstr txn ''error_code''), dec_occurredAt = occurredAt\<rparr>))"

definition chargebee_mapPaymentSource :: "jsval \<Rightarrow> PaymentMethod" where
  "chargebee_mapPaymentSource ps =
     (let card = member ps ''card'' in
      \<lparr>pm_id = ''ax10m_pm_'' @ printed (fstr ps ''id''),
       pm_customerId = coalesce (prefixed ''ax10m_cus_'' (fstr ps ''customer_id'')) '''',
       pm_processorRef = coalesce (fstr ps ''id'') '''', pm_token = coalesce (fstr ps ''id'') '''',
       pm_brand = fstr card ''brand'', pm_last4 = fstr card ''last4'', pm_bin = fstr card ''iin'',
       pm_expMonth = fint card ''expiry_month'', pm_expYear = fint card ''expiry_year'', pm_autoUpdated = None\<rparr>)"

subsection \<open>Webhooks\<close>

definition chargebee_envelope :: "ChargebeeConfig \<Rightarrow> jsval \<Rightarrow> iso \<Rightarrow> AdapterPayload \<Rightarrow> AdapterEvent" where
  "chargebee_envelope cfg event occurredAt payload =
     (let eventId = coalesce (fstr event ''id'') '''' in
      \<lparr>ae_id = ''ax10m_evt_'' @ eventId, ae_merchantId = cb_merchantId cfg, ae_processorEventId = eventId,
       ae_occurredAt = occurredAt, ae_payload = payload\<rparr>)"

definition chargebee_failed :: "ChargebeeConfig \<Rightarrow> jsval \<Rightarrow> iso \<Rightarrow> js_error + AdapterPayload list" where
  "chargebee_failed cfg content occurredAt =
     (let txn = member content ''transaction''; cust = member content ''customer'' in
      if member content ''invoice'' = VNull then Inr []
      else bind_sum (chargebee_mapInvoice cfg (member content ''invoice'') occurredAt True) (\<lambda>invoice.
        (let customer = customerFromInvoice invoice (contactOverrides (fstr cust ''email'') (fstr cust ''phone'')) in
         if txn = VNull then Inr [ApFailed invoice None None (Some customer) None]
         else bind_sum (chargebee_mapAttempt txn (inv_id invoice)) (\<lambda>attempt.
              bind_sum (chargebee_mapDecline txn (inv_id invoice) (ca_id attempt)) (\<lambda>decline.
                Inr [ApFailed invoice (Some attempt) (Some decline) (Some customer) None])))))"

definition chargebee_succeeded :: "ChargebeeConfig \<Rightarrow> jsval \<Rightarrow> iso \<Rightarrow> js_error + AdapterPayload list" where
  "chargebee_succeeded cfg content occurredAt =
     (let txn = member content ''transaction'' in
      if member content ''invoice'' = VNull then Inr []
      else bind_sum (chargebee_mapInvoice cfg (member content ''invoice'') occurredAt False) (\<lambda>invoice.
        if txn = VNull then Inr [ApPaid invoice None]
        else bind_sum (chargebee_mapAttempt txn (inv_id invoice)) (\<lambda>attempt. Inr [ApPaid invoice (Some attempt)])))"

text \<open>Only a settled refund of a known invoice that moved funds.\<close>

definition chargebee_refunded :: "jsval \<Rightarrow> AdapterPayload list" where
  "chargebee_refunded content =
     (let cinv = member content ''invoice''; txn = member content ''transaction'';
          amt = coalesce (fint txn ''amount'') 0 in
      if cinv = VNull \<or> txn = VNull then []
      else if given (fstr txn ''type'') \<and> fstr txn ''type'' \<noteq> Some ''refund'' then []
      else if amt \<le> 0 then []
      else [ApReversed \<lparr>rev_invoiceId = ''ax10m_inv_'' @ printed (fstr cinv ''id''), rev_amount = amt,
              rev_currency = coalesce (or_else (fstr cinv ''currency_code'') (fstr txn ''currency_code'')) ''USD'',
              rev_kind = Refund, rev_reason = None\<rparr>])"

definition chargebee_event :: "ChargebeeConfig \<Rightarrow> string option \<Rightarrow> jsval \<Rightarrow> iso \<Rightarrow> js_error + AdapterPayload list" where
  "chargebee_event cfg type content occurredAt =
     (if type = Some ''payment_failed'' then chargebee_failed cfg content occurredAt
      else if type = Some ''payment_succeeded'' then chargebee_succeeded cfg content occurredAt
      else if type = Some ''payment_refunded'' then Inr (chargebee_refunded content)
      else if type = Some ''card_updated'' \<or> type = Some ''payment_source_updated'' then
        (let ps = member content ''payment_source'' in
         Inr (if ps = VNull then [] else [ApMethodUpdated (chargebee_mapPaymentSource ps)]))
      else if type = Some ''subscription_changed'' \<or> type = Some ''subscription_cancelled''
              \<or> type = Some ''subscription_reactivated'' then
        (let sub = member content ''subscription'' in
         Inr (if sub = VNull then []
              else [ApSubscription (coalesce (fstr sub ''id'') '''') (coalesce (fstr sub ''status'') ''unknown'')]))
      else Inr [])"

definition chargebee_ingest :: "'w Platform \<Rightarrow> ChargebeeConfig \<Rightarrow> RawWebhook \<Rightarrow> ('w, AdapterEvent list) eff" where
  "chargebee_ingest pf cfg raw =
     andThen (check_basic pf ''ChargebeeAdapter'' (cb_webhookUser cfg) (cb_webhookPassword cfg) (rw_headers raw)) (\<lambda>_.
     andThen (parse_webhook pf ''ChargebeeAdapter'' (rw_body raw)) (\<lambda>event.
     andThen (lift_sum (isoFromEpoch (fint event ''occurred_at''))) (\<lambda>occurredAt.
     andThen (lift_sum (chargebee_event cfg (fstr event ''event_type'') (member event ''content'') occurredAt)) (\<lambda>payloads.
       ok (map (chargebee_envelope cfg event occurredAt) payloads)))))"

subsection \<open>Charging and polling\<close>

definition chargebee_charged ::
  "'w Platform \<Rightarrow> Invoice \<Rightarrow> PaymentMethod \<Rightarrow> string \<Rightarrow> jsval \<times> bool \<Rightarrow> ('w, AdapterResult) eff" where
  "chargebee_charged pf invoice pm key res =
     (let txn = member (fst res) ''transaction'' in
      andThen (lift_sum (isoFromEpoch (fint txn ''date''))) (\<lambda>attemptedAt.
        ok \<lparr>ar_attempt = buildAttempt (inv_id invoice) (pm_id pm) key (inv_amount invoice) (chargebee_outcome txn)
              (chargebee_code txn) (fstr txn ''id'') attemptedAt,
            ar_outcome = chargebee_outcome txn, ar_idempotentReplay = snd res\<rparr>))"

definition chargebee_declined ::
  "'w Platform \<Rightarrow> Invoice \<Rightarrow> PaymentMethod \<Rightarrow> string \<Rightarrow> ClientFailure \<Rightarrow> ('w, AdapterResult) eff" where
  "chargebee_declined pf invoice pm key f =
     (if chargebee_isPaymentFailure f then
        declined_charge pf invoice pm key (mapChargebeeDeclineCode (fstr (cf_body f) ''error_code'')) None
      else rethrow f)"

definition chargebee_attemptCharge ::
  "'w Platform \<Rightarrow> ChargebeeConfig \<Rightarrow> Invoice \<Rightarrow> PaymentMethod \<Rightarrow> string \<Rightarrow> ('w, AdapterResult) eff" where
  "chargebee_attemptCharge pf cfg invoice pm key =
     andThen (chargebee_post pf cfg (''/invoices/'' @ encodeURIComponent (inv_processorRef invoice) @ ''/collect_payment'')
       [(''payment_source_id'', Some (pm_processorRef pm)), (''amount'', Some (show_int (amount (inv_amount invoice))))] key)
       (case_sum (chargebee_declined pf invoice pm key) (chargebee_charged pf invoice pm key))"

definition differs :: "'a option \<Rightarrow> 'a option \<Rightarrow> bool" where
  "differs known fresh = (known \<noteq> None \<and> fresh \<noteq> known)"

definition chargebee_fetchUpdatedCard ::
  "'w Platform \<Rightarrow> ChargebeeConfig \<Rightarrow> PaymentMethod \<Rightarrow> ('w, PaymentMethod option) eff" where
  "chargebee_fetchUpdatedCard pf cfg pm =
     andThen (andThen (chargebee_get pf cfg (''/payment_sources/'' @ encodeURIComponent (pm_processorRef pm)) []) unwrap) (\<lambda>res.
       (let ps = member res ''payment_source''; fresh = chargebee_mapPaymentSource ps in
        ok (if member ps ''card'' = VNull then None
            else if differs (pm_expMonth pm) (pm_expMonth fresh) \<or> differs (pm_expYear pm) (pm_expYear fresh)
                    \<or> differs (pm_last4 pm) (pm_last4 fresh)
            then Some (fresh\<lparr>pm_autoUpdated := Some True\<rparr>) else None)))"

definition chargebee_listPaymentMethods ::
  "'w Platform \<Rightarrow> ChargebeeConfig \<Rightarrow> Customer \<Rightarrow> ('w, PaymentMethod list) eff" where
  "chargebee_listPaymentMethods pf cfg customer =
     andThen (andThen (chargebee_get pf cfg ''/payment_sources''
       [(''customer_id[is]'', Some (cust_processorRef customer)), (''limit'', Some ''100'')]) unwrap) (\<lambda>res.
       ok (map chargebee_mapPaymentSource
         (filter (\<lambda>ps. ps \<noteq> VNull) (map (\<lambda>row. member row ''payment_source'') (flist res ''list'')))))"

text \<open>The one adapter that can switch the platform's own retries off, by the subscription's reference.\<close>

definition chargebee_pauseNativeDunning :: "'w Platform \<Rightarrow> ChargebeeConfig \<Rightarrow> string \<Rightarrow> ('w, unit) eff" where
  "chargebee_pauseNativeDunning pf cfg subscriptionRef =
     andThen (andThen (chargebee_post pf cfg (''/subscriptions/'' @ encodeURIComponent subscriptionRef)
       [(''auto_collection'', Some ''off'')] '''') unwrap) (\<lambda>_. ok ())"

definition chargebee_listOpenFailures :: "'w Platform \<Rightarrow> ChargebeeConfig \<Rightarrow> Cursor \<Rightarrow> ('w, OpenFailuresPage) eff" where
  "chargebee_listOpenFailures pf cfg cursor =
     andThen (andThen (chargebee_get pf cfg ''/invoices''
       [(''status[in]'', Some ''[\"payment_due\",\"not_paid\"]''), (''sort_by[asc]'', Some ''date''),
        (''limit'', Some ''100''), (''offset'', cursor)]) unwrap) (\<lambda>res.
     andThen (lift_sum (map_sum (\<lambda>cinv.
         bind_sum (isoFromEpoch (or_else (fint cinv ''updated_at'') (fint cinv ''date''))) (\<lambda>t.
           chargebee_mapInvoice cfg cinv t True))
       (filter (\<lambda>v. v \<noteq> VNull) (map (\<lambda>row. member row ''invoice'') (flist res ''list''))))) (\<lambda>invoices.
       ok \<lparr>op_invoices = invoices, op_nextCursor = fstr res ''next_offset''\<rparr>))"

subsection \<open>The contract\<close>

lemma chargebee_mapInvoice_ok:
  assumes "chargebee_mapInvoice cfg v w failed = Inr invc"
  shows "inv_merchantId invc = cb_merchantId cfg" "inv_firstFailedAt invc = (if failed then Some w else None)"
  using assms by (auto simp: chargebee_mapInvoice_def)

lemma chargebee_mapAttempt_sound: "chargebee_mapAttempt txn (inv_id invc) = Inr a \<Longrightarrow> attempt_sound invc a"
  by (auto simp: chargebee_mapAttempt_def attempt_sound_def chargebee_outcome_def chargebee_code_def split: if_splits)

lemma chargebee_mapDecline_ok: "chargebee_mapDecline txn (inv_id invc) (ca_id a) = Inr d \<Longrightarrow> decline_ok invc (Some a) d"
  by (auto simp: chargebee_mapDecline_def decline_ok_def decline_consistent_def Let_def)

lemma chargebee_failed_sound:
  "chargebee_failed cfg content occ = Inr ps \<Longrightarrow> list_all (payload_sound (cb_merchantId cfg)) ps"
  by (auto simp: chargebee_failed_def Let_def chargebee_mapInvoice_ok chargebee_mapAttempt_sound
      dest: chargebee_mapDecline_ok split: if_splits)

lemma chargebee_succeeded_sound:
  "chargebee_succeeded cfg content occ = Inr ps \<Longrightarrow> list_all (payload_sound (cb_merchantId cfg)) ps"
  by (auto simp: chargebee_succeeded_def Let_def chargebee_mapInvoice_ok chargebee_mapAttempt_sound split: if_splits)

lemma chargebee_refunded_sound: "list_all (payload_sound m) (chargebee_refunded content)"
  by (simp add: chargebee_refunded_def Let_def)

lemma chargebee_event_sound:
  assumes "chargebee_event cfg type content occ = Inr ps"
  shows "list_all (payload_sound (cb_merchantId cfg)) ps"
proof -
  have r: "Inr xs = (Inr ps :: js_error + AdapterPayload list) \<Longrightarrow> list_all P xs \<Longrightarrow> list_all P ps" for xs P
    by simp
  show ?thesis
    using assms unfolding chargebee_event_def Let_def
    by (elim if_eqE; simp only: chargebee_failed_sound chargebee_succeeded_sound)
       (erule r, simp add: chargebee_refunded_sound)+
qed

lemma chargebee_charge_ok:
  assumes "chargebee_attemptCharge pf cfg invc pm key w = (Inr r, w')"
  shows "charge_ok invc pm key r"
proof (rule charge_via [OF assms [unfolded chargebee_attemptCharge_def]])
  show "charge_ok invc pm key r" if "chargebee_declined pf invc pm key f t = (Inr r, t')" for f t t'
    using that by (auto simp: chargebee_declined_def declined_charge_ok split: if_splits)
  show "charge_ok invc pm key r" if "chargebee_charged pf invc pm key a t = (Inr r, t')" for a t t'
    using that by (auto simp: chargebee_charged_def Let_def andThen_Inr charge_ok_def chargebee_outcome_def
        chargebee_code_def split: if_splits)
qed

interpretation chargebee: processor_adapter "cb_merchantId cfg"
    "\<lambda>raw w. basic_webhook_ok pf (cb_webhookUser cfg) (cb_webhookPassword cfg) (rw_headers raw)"
    "chargebee_ingest pf cfg" "chargebee_attemptCharge pf cfg" for pf cfg
proof
  fix raw w es w'
  assume i: "chargebee_ingest pf cfg raw w = (Inr es, w')"
  show "basic_webhook_ok pf (cb_webhookUser cfg) (cb_webhookPassword cfg) (rw_headers raw)"
    using i by (auto simp: chargebee_ingest_def andThen_Inr)
  show "list_all (event_sound (cb_merchantId cfg)) es"
    using i by (auto simp: chargebee_ingest_def andThen_Inr chargebee_envelope_def event_sound_def list_all_iff Let_def
        dest!: chargebee_event_sound)
qed (rule chargebee_charge_ok)

text \<open>A refreshed card is a changed one, marked as updated by the platform.\<close>

lemma chargebee_refresh_is_change:
  assumes "chargebee_fetchUpdatedCard pf cfg pm w = (Inr (Some fresh), w')"
  shows "pm_autoUpdated fresh = Some True \<and>
    (pm_expMonth fresh \<noteq> pm_expMonth pm \<or> pm_expYear fresh \<noteq> pm_expYear pm \<or> pm_last4 fresh \<noteq> pm_last4 pm)"
  using assms by (auto simp: chargebee_fetchUpdatedCard_def andThen_Inr Let_def differs_def split: if_splits)

text \<open>A failed invoice whose attempt is pending.\<close>

lemma chargebee_failed_event_can_be_pending:
  assumes "chargebee_event cfg (Some ''payment_failed'') content occ = Inr [ApFailed invc (Some a) d c r]"
    and "fstr (member content ''transaction'') ''status'' = Some ''needs_attention''"
  shows "ca_status a = Pending"
  using assms by (auto simp: chargebee_event_def chargebee_failed_def chargebee_mapAttempt_def chargebee_outcome_def Let_def
      split: if_splits)

end
