(* ===== verification/WorldpayAdapter.thy ===== *)
theory WorldpayAdapter
  imports AdapterKit
begin

text \<open>
  The Worldpay adapter (\<open>packages/poal/src/adapters/worldpay/\<close>): a gateway whose notifications name
  the merchant's transaction reference. Chargebacks are left unwired, refunds reverse a recovery.
\<close>

subsection \<open>The client\<close>

record WorldpayConfig =
  wp_username :: string
  wp_password :: string
  wp_entity :: string
  wp_merchantId :: ident
  wp_webhookSecret :: "string option"
  wp_signatureHeader :: "string option"
  wp_baseUrl :: "string option"

definition worldpay_isPaymentFailure :: "ClientFailure \<Rightarrow> bool" where
  "worldpay_isPaymentFailure f =
     (fstr (cf_body f) ''outcome'' = Some ''refused'' \<or> fstr (cf_body f) ''refusalCode'' \<noteq> None)"

definition worldpay_parse :: "'w Platform \<Rightarrow> PortResponse \<Rightarrow> ('w, jsval client_result) eff" where
  "worldpay_parse pf =
     parse_response pf id message_only
       (\<lambda>body n. coalesce (fstr body ''message'') (''Worldpay error '' @ show_int n))"

definition worldpay_post ::
  "'w Platform \<Rightarrow> WorldpayConfig \<Rightarrow> string \<Rightarrow> json \<Rightarrow> string \<Rightarrow> ('w, (jsval \<times> bool) client_result) eff" where
  "worldpay_post pf cfg path body key =
     http_post pf (worldpay_parse pf) ''idempotency-replayed'' (coalesce (wp_baseUrl cfg) ''https://access.worldpay.com'' @ path)
       ([(''Authorization'', basic_auth pf (wp_username cfg) (wp_password cfg)), (''Content-Type'', ''application/json'')]
        @ keyed ''Idempotency-Key'' key)
       (stringify body)"

subsection \<open>Notification signature\<close>

definition DEFAULT_SIGNATURE_HEADER :: string where
  "DEFAULT_SIGNATURE_HEADER = ''x-wp-signature''"

definition computeWorldpaySignature :: "'w Platform \<Rightarrow> string \<Rightarrow> string \<Rightarrow> string" where
  "computeWorldpaySignature pf body webhookSecret = pf_hmac pf webhookSecret body"

definition verifyWorldpaySignature :: "'w Platform \<Rightarrow> string \<Rightarrow> string \<Rightarrow> string \<Rightarrow> bool" where
  "verifyWorldpaySignature pf body provided webhookSecret =
     buffers_equal provided (computeWorldpaySignature pf body webhookSecret)"

subsection \<open>Mapping helpers\<close>

definition worldpay_money :: "jsval \<Rightarrow> Money" where
  "worldpay_money details =
     (let amt = member details ''amount'' in
      \<lparr>amount = coalesce (fint amt ''value'') 0, money_currency = coalesce (fstr amt ''currency'') ''USD''\<rparr>)"

definition worldpay_mapInvoice :: "WorldpayConfig \<Rightarrow> jsval \<Rightarrow> iso \<Rightarrow> bool \<Rightarrow> Invoice" where
  "worldpay_mapInvoice cfg details occurredAt failed =
     (let ref = coalesce (fstr details ''transactionReference'') '''' in
      \<lparr>inv_id = ''ax10m_inv_'' @ ref, inv_subscriptionId = None, inv_customerId = '''',
       inv_merchantId = wp_merchantId cfg, inv_processorRef = ref, inv_amount = worldpay_money details,
       inv_status = (if failed then InvOpen else InvPaid),
       inv_firstFailedAt = (if failed then Some occurredAt else None), inv_createdAt = occurredAt\<rparr>)"

definition worldpay_refusal :: "jsval \<Rightarrow> DeclineCode" where
  "worldpay_refusal v = mapWorldpayRefusal (fstr v ''refusalCode'') (fstr v ''refusalDescription'')"

definition worldpay_mapAttempt :: "jsval \<Rightarrow> ident \<Rightarrow> bool \<Rightarrow> iso \<Rightarrow> ChargeAttempt" where
  "worldpay_mapAttempt details invoiceId failed occurredAt =
     buildAttempt invoiceId '''' '''' (worldpay_money details) (if failed then Failed else Succeeded)
       (if failed then Some (worldpay_refusal details) else None)
       (or_else (fstr details ''paymentId'') (fstr details ''transactionReference'')) occurredAt"

definition worldpay_mapDecline :: "jsval \<Rightarrow> ident \<Rightarrow> ident \<Rightarrow> iso \<Rightarrow> DeclineEvent" where
  "worldpay_mapDecline details invoiceId chargeAttemptId occurredAt =
     (let code = worldpay_refusal details in
      \<lparr>dec_id = ''ax10m_dec_'' @ coalesce (or_else (fstr details ''paymentId'') (fstr details ''transactionReference'')) invoiceId,
       dec_invoiceId = invoiceId, dec_chargeAttemptId = chargeAttemptId, dec_code = code, dec_family = familyOf code,
       dec_rawReason = or_else (fstr details ''refusalDescription'') (fstr details ''refusalCode''),
       dec_occurredAt = occurredAt\<rparr>)"

subsection \<open>Notifications\<close>

definition worldpay_failed :: "WorldpayConfig \<Rightarrow> jsval \<Rightarrow> iso \<Rightarrow> AdapterPayload" where
  "worldpay_failed cfg details occurredAt =
     (let invoice = worldpay_mapInvoice cfg details occurredAt True;
          attempt = worldpay_mapAttempt details (inv_id invoice) True occurredAt;
          decline = worldpay_mapDecline details (inv_id invoice) (ca_id attempt) occurredAt
      in ApFailed invoice (Some attempt) (Some decline) (Some (customerFromInvoice invoice no_overrides)) None)"

definition worldpay_paid :: "WorldpayConfig \<Rightarrow> jsval \<Rightarrow> iso \<Rightarrow> AdapterPayload" where
  "worldpay_paid cfg details occurredAt =
     (let invoice = worldpay_mapInvoice cfg details occurredAt False in
      ApPaid invoice (Some (worldpay_mapAttempt details (inv_id invoice) False occurredAt)))"

definition worldpay_refunded :: "jsval \<Rightarrow> AdapterPayload list" where
  "worldpay_refunded details =
     (let amt = member details ''amount'' in
      reversal_about ApReversed (fstr details ''transactionReference'') (coalesce (fint amt ''value'') 0)
        (coalesce (or_else (fstr amt ''currencyCode'') (fstr amt ''currency'')) ''USD'') Refund None)"

definition worldpay_event :: "WorldpayConfig \<Rightarrow> jsval \<Rightarrow> iso \<Rightarrow> AdapterPayload list" where
  "worldpay_event cfg details occurredAt =
     (let type = fstr details ''type'' in
      if type = Some ''payment.refused'' then [worldpay_failed cfg details occurredAt]
      else if type = Some ''payment.settled'' \<or> type = Some ''payment.authorized'' then [worldpay_paid cfg details occurredAt]
      else if type = Some ''payment.refunded'' then worldpay_refunded details
      else [])"

definition worldpay_envelope :: "WorldpayConfig \<Rightarrow> jsval \<Rightarrow> iso \<Rightarrow> AdapterPayload \<Rightarrow> AdapterEvent" where
  "worldpay_envelope cfg event occurredAt payload =
     (let eventId = coalesce (fstr event ''eventId'') '''' in
      \<lparr>ae_id = ''ax10m_evt_'' @ eventId, ae_merchantId = wp_merchantId cfg, ae_processorEventId = eventId,
       ae_occurredAt = occurredAt, ae_payload = payload\<rparr>)"

definition worldpay_authentic :: "'w Platform \<Rightarrow> WorldpayConfig \<Rightarrow> RawWebhook \<Rightarrow> bool" where
  "worldpay_authentic pf cfg raw =
     verifyWorldpaySignature pf (rw_body raw)
       (coalesce (headerLookup (rw_headers raw) (to_lower (coalesce (wp_signatureHeader cfg) DEFAULT_SIGNATURE_HEADER))) '''')
       (coalesce (wp_webhookSecret cfg) '''')"

definition worldpay_ingest :: "'w Platform \<Rightarrow> WorldpayConfig \<Rightarrow> RawWebhook \<Rightarrow> ('w, AdapterEvent list) eff" where
  "worldpay_ingest pf cfg raw =
     andThen (check_signature ''WorldpayAdapter'' ''webhookSecret'' ''notification signature''
       (given (wp_webhookSecret cfg)) (worldpay_authentic pf cfg raw)) (\<lambda>_.
     andThen (parse_webhook pf ''WorldpayAdapter'' (rw_body raw)) (\<lambda>event.
       (let occurredAt = toIso (pf_parseDate pf) (fstr event ''eventTimestamp'') in
        ok (map (worldpay_envelope cfg event occurredAt) (worldpay_event cfg (member event ''eventDetails'') occurredAt)))))"

subsection \<open>Charging\<close>

definition worldpay_request :: "WorldpayConfig \<Rightarrow> Invoice \<Rightarrow> PaymentMethod \<Rightarrow> json" where
  "worldpay_request cfg invoice pm =
     JObj [(''transactionReference'', JStr (inv_processorRef invoice)),
           (''merchant'', JObj [(''entity'', JStr (wp_entity cfg))]),
           (''instruction'', JObj
             [(''narrative'', JObj [(''line1'', JStr ''AX10M recovery'')]),
              (''value'', JObj [(''currency'', JStr (money_currency (inv_amount invoice))),
                               (''amount'', jint (amount (inv_amount invoice)))]),
              (''paymentInstrument'', JObj [(''type'', JStr ''card/tokenized''), (''tokenId'', JStr (pm_token pm))]),
              (''requestAutoSettlement'', JObj [(''on'', JBool True)])])]"

definition worldpay_charged ::
  "'w Platform \<Rightarrow> Invoice \<Rightarrow> PaymentMethod \<Rightarrow> string \<Rightarrow> jsval \<times> bool \<Rightarrow> ('w, AdapterResult) eff" where
  "worldpay_charged pf invoice pm key res =
     (let payment = fst res;
          status = (if fstr payment ''outcome'' = Some ''authorized'' then Succeeded
                    else if fstr payment ''outcome'' = Some ''refused'' then Failed else Pending) in
      andThen (pf_clock pf) (\<lambda>now.
        ok \<lparr>ar_attempt = buildAttempt (inv_id invoice) (pm_id pm) key (inv_amount invoice) status
              (if status = Failed then Some (worldpay_refusal payment) else None)
              (or_else (fstr payment ''paymentId'') (fstr payment ''transactionReference'')) now,
            ar_outcome = status, ar_idempotentReplay = snd res\<rparr>))"

definition worldpay_declined ::
  "'w Platform \<Rightarrow> Invoice \<Rightarrow> PaymentMethod \<Rightarrow> string \<Rightarrow> ClientFailure \<Rightarrow> ('w, AdapterResult) eff" where
  "worldpay_declined pf invoice pm key f =
     (if worldpay_isPaymentFailure f then declined_charge pf invoice pm key (worldpay_refusal (cf_body f)) None
      else rethrow f)"

definition worldpay_attemptCharge ::
  "'w Platform \<Rightarrow> WorldpayConfig \<Rightarrow> Invoice \<Rightarrow> PaymentMethod \<Rightarrow> string \<Rightarrow> ('w, AdapterResult) eff" where
  "worldpay_attemptCharge pf cfg invoice pm key =
     andThen (worldpay_post pf cfg ''/api/payments'' (worldpay_request cfg invoice pm) key)
       (case_sum (worldpay_declined pf invoice pm key) (worldpay_charged pf invoice pm key))"

definition worldpay_listOpenFailures :: "Cursor \<Rightarrow> ('w, OpenFailuresPage) eff" where
  "worldpay_listOpenFailures cursor = ok \<lparr>op_invoices = [], op_nextCursor = None\<rparr>"

definition worldpay_fetchUpdatedCard :: "PaymentMethod \<Rightarrow> ('w, PaymentMethod option) eff" where
  "worldpay_fetchUpdatedCard pm = ok None"

definition worldpay_listPaymentMethods :: "Customer \<Rightarrow> ('w, PaymentMethod list) eff" where
  "worldpay_listPaymentMethods customer = ok []"

subsection \<open>The contract\<close>

lemma worldpay_event_ok: "list_all (payload_ok (wp_merchantId cfg)) (worldpay_event cfg details occ)"
  by (simp add: worldpay_event_def worldpay_failed_def worldpay_paid_def worldpay_refunded_def Let_def
      worldpay_mapInvoice_def worldpay_mapAttempt_def worldpay_mapDecline_def payload_defs)

lemma worldpay_charge_ok:
  assumes "worldpay_attemptCharge pf cfg invc pm key w = (Inr r, w')"
  shows "charge_ok invc pm key r"
proof (rule charge_via [OF assms [unfolded worldpay_attemptCharge_def]])
  show "charge_ok invc pm key r" if "worldpay_declined pf invc pm key f t = (Inr r, t')" for f t t'
    using that by (auto simp: worldpay_declined_def declined_charge_ok split: if_splits)
  show "charge_ok invc pm key r" if "worldpay_charged pf invc pm key a t = (Inr r, t')" for a t t'
    using that by (auto simp: worldpay_charged_def Let_def andThen_Inr charge_ok_def split: if_splits)
qed

interpretation worldpay: strict_adapter "wp_merchantId cfg" "\<lambda>raw w. worldpay_authentic pf cfg raw"
    "worldpay_ingest pf cfg" "worldpay_attemptCharge pf cfg" for pf cfg
proof
  fix raw w es w'
  assume i: "worldpay_ingest pf cfg raw w = (Inr es, w')"
  show "worldpay_authentic pf cfg raw"
    using i by (auto simp: worldpay_ingest_def andThen_Inr)
  show "list_all (event_ok (wp_merchantId cfg)) es"
    using i worldpay_event_ok [of cfg]
    by (auto simp: worldpay_ingest_def andThen_Inr worldpay_envelope_def event_ok_def list_all_iff Let_def)
qed (rule worldpay_charge_ok)

text \<open>An event that gives its currency only as \<open>currencyCode\<close>, as refunds do: the refund is in that
  currency, a failure of the same transaction in the default one.\<close>

lemma worldpay_currency_mismatch:
  assumes "worldpay_refunded details = [ApReversed r]" "fstr (member details ''amount'') ''currency'' = None"
    and "fstr (member details ''amount'') ''currencyCode'' = Some c"
  shows "rev_currency r = c" "money_currency (inv_amount (worldpay_mapInvoice cfg details occ failed)) = ''USD''"
  using assms by (auto simp: worldpay_refunded_def reversal_about_def worldpay_mapInvoice_def worldpay_money_def Let_def
      split: if_splits)

end
