(* ===== verification/ZuoraAdapter.thy ===== *)
theory ZuoraAdapter
  imports AdapterKit
begin

text \<open>
  The Zuora adapter (\<open>packages/poal/src/adapters/zuora/\<close>): the client with its cached OAuth token,
  signed callouts, the account's contact read best-effort, and payments that come back as a
  success with an error status when the gateway declines. Amounts are in major units.
\<close>

subsection \<open>The client\<close>

record ZuoraConfig =
  zu_clientId :: string
  zu_clientSecret :: string
  zu_merchantId :: ident
  zu_webhookSecret :: "string option"
  zu_baseUrl :: "string option"

definition zuora_base :: "ZuoraConfig \<Rightarrow> string" where
  "zuora_base cfg = coalesce (zu_baseUrl cfg) ''https://rest.zuora.com''"

definition zuora_message :: "jsval \<Rightarrow> int \<Rightarrow> string" where
  "zuora_message body n =
     coalesce (or_else (fstr body ''message'') (fstr (first_item (flist body ''reasons'')) ''message''))
       (''Zuora error '' @ show_int n)"

definition zuora_parse :: "'w Platform \<Rightarrow> PortResponse \<Rightarrow> ('w, jsval client_result) eff" where
  "zuora_parse pf = parse_response pf id message_only zuora_message"

definition zuora_token :: "'w Platform \<Rightarrow> ZuoraConfig \<Rightarrow> ('w, string client_result) eff" where
  "zuora_token pf cfg =
     andThen (gets (pf_token pf)) (\<lambda>cached.
       if given cached then ok (Inr (coalesce cached ''''))
       else andThen (pf_fetch pf
           \<lparr>rq_url = zuora_base cfg @ ''/oauth/token'', rq_verb = ''POST'',
            rq_headers = [(''Content-Type'', ''application/x-www-form-urlencoded'')],
            rq_body = Some (''client_id='' @ encodeURIComponent (zu_clientId cfg) @ ''&client_secret=''
              @ encodeURIComponent (zu_clientSecret cfg) @ ''&grant_type=client_credentials'')\<rparr>) (\<lambda>res.
         then_ok (zuora_parse pf res) (\<lambda>body.
           if given (fstr body ''access_token'') then
             andThen (modify (pf_setToken pf (coalesce (fstr body ''access_token'') ''''))) (\<lambda>_.
               ok (Inr (coalesce (fstr body ''access_token'') '''')))
           else throw (JsError ''ZuoraClient: OAuth token response missing access_token''))))"

definition zuora_post ::
  "'w Platform \<Rightarrow> ZuoraConfig \<Rightarrow> string \<Rightarrow> json \<Rightarrow> string \<Rightarrow> ('w, (jsval \<times> bool) client_result) eff" where
  "zuora_post pf cfg path body key =
     then_ok (zuora_token pf cfg) (\<lambda>token.
       http_post pf (zuora_parse pf) ''zuora-idempotency-replayed'' (zuora_base cfg @ path)
         ([(''Authorization'', ''Bearer '' @ token), (''Content-Type'', ''application/json'')] @ keyed ''Idempotency-Key'' key)
         (stringify body))"

definition zuora_get ::
  "'w Platform \<Rightarrow> ZuoraConfig \<Rightarrow> string \<Rightarrow> (string \<times> string option) list \<Rightarrow> ('w, jsval client_result) eff" where
  "zuora_get pf cfg path query =
     then_ok (zuora_token pf cfg) (\<lambda>token.
       http_get pf (zuora_parse pf) (zuora_base cfg @ path) query [(''Authorization'', ''Bearer '' @ token)])"

subsection \<open>Mapping helpers\<close>

text \<open>The first of two spellings that is present.\<close>

definition zuora_pick :: "jsval \<Rightarrow> string \<Rightarrow> string \<Rightarrow> jsval" where
  "zuora_pick body k k' = nullish (member body k) (member body k')"

definition zuora_money :: "jsval \<Rightarrow> Money" where
  "zuora_money zinv =
     \<lparr>amount = coalesce (map_option to_cents (or_else (freal zinv ''balance'') (freal zinv ''amount''))) 0,
      money_currency = coalesce (fstr zinv ''currency'') ''USD''\<rparr>"

definition zuora_mapInvoiceStatus :: "string option \<Rightarrow> InvoiceStatus" where
  "zuora_mapInvoiceStatus status =
     (if status = Some ''Paid'' then InvPaid
      else if status = Some ''Canceled'' \<or> status = Some ''Cancelled'' then InvVoid
      else if status = Some ''Error'' then InvUncollectible else InvOpen)"

definition zuora_mapInvoice :: "'w Platform \<Rightarrow> ZuoraConfig \<Rightarrow> jsval \<Rightarrow> iso \<Rightarrow> bool \<Rightarrow> Invoice" where
  "zuora_mapInvoice pf cfg zinv occurredAt failed =
     (let ref = coalesce (fstr zinv ''id'') '''' in
      \<lparr>inv_id = ''ax10m_inv_'' @ ref, inv_subscriptionId = None,
       inv_customerId = coalesce (prefixed ''ax10m_cus_'' (fstr zinv ''accountId'')) '''',
       inv_merchantId = zu_merchantId cfg, inv_processorRef = ref, inv_amount = zuora_money zinv,
       inv_status = zuora_mapInvoiceStatus (fstr zinv ''status''),
       inv_firstFailedAt = (if failed then Some occurredAt else None),
       inv_createdAt = toIso (pf_parseDate pf) (fstr zinv ''invoiceDate'')\<rparr>)"

definition mapCalloutInvoice :: "'w Platform \<Rightarrow> ZuoraConfig \<Rightarrow> jsval \<Rightarrow> iso \<Rightarrow> bool \<Rightarrow> Invoice" where
  "mapCalloutInvoice pf cfg callout occurredAt failed =
     (let zinv = member callout ''invoice''; ref = coalesce (fstr zinv ''id'') '''' in
      \<lparr>inv_id = ''ax10m_inv_'' @ ref, inv_subscriptionId = None,
       inv_customerId = coalesce (prefixed ''ax10m_cus_'' (fstr zinv ''accountId'')) '''',
       inv_merchantId = zu_merchantId cfg, inv_processorRef = ref, inv_amount = zuora_money zinv,
       inv_status = (if failed then InvOpen else InvPaid),
       inv_firstFailedAt = (if failed then Some occurredAt else None),
       inv_createdAt = toIso (pf_parseDate pf) (or_else (fstr zinv ''invoiceDate'') (fstr callout ''eventTime''))\<rparr>)"

definition zuora_gateway_reason :: "jsval \<Rightarrow> string option" where
  "zuora_gateway_reason callout =
     (let payment = member callout ''payment'' in
      or_else (fstr payment ''gatewayResponse'') (fstr payment ''gatewayResponseCode''))"

definition zuora_buildDecline :: "jsval \<Rightarrow> ident \<Rightarrow> ident \<Rightarrow> iso \<Rightarrow> DeclineEvent" where
  "zuora_buildDecline callout invoiceId chargeAttemptId occurredAt =
     (let raw = zuora_gateway_reason callout; code = mapZuoraDeclineCode raw in
      \<lparr>dec_id = ''ax10m_dec_'' @ coalesce (fstr (member callout ''payment'') ''id'') invoiceId, dec_invoiceId = invoiceId,
       dec_chargeAttemptId = chargeAttemptId, dec_code = code, dec_family = familyOf code, dec_rawReason = raw,
       dec_occurredAt = occurredAt\<rparr>)"

definition tokenFromNextPage :: "jsval \<Rightarrow> js_error + Cursor" where
  "tokenFromNextPage = token_of [''pageToken'', ''page'']"

subsection \<open>Callouts\<close>

definition zuora_envelope :: "ZuoraConfig \<Rightarrow> jsval \<Rightarrow> string \<Rightarrow> iso \<Rightarrow> AdapterPayload \<Rightarrow> AdapterEvent" where
  "zuora_envelope cfg callout type occurredAt payload =
     (let ref = or_else (fstr (member callout ''payment'') ''id'') (fstr (member callout ''invoice'') ''id'') in
      \<lparr>ae_id = ''ax10m_evt_'' @ coalesce ref type, ae_merchantId = zu_merchantId cfg,
       ae_processorEventId = coalesce ref '''', ae_occurredAt = occurredAt, ae_payload = payload\<rparr>)"

text \<open>The bill-to contact of the account, nothing when it cannot be read.\<close>

definition getAccountContact ::
  "'w Platform \<Rightarrow> ZuoraConfig \<Rightarrow> string option \<Rightarrow> ('w, ContactOverrides) eff" where
  "getAccountContact pf cfg accountId =
     if_given accountId (\<lambda>a.
       best_effort (contactOverrides None None)
         (andThen (andThen (zuora_get pf cfg (''/v1/accounts/'' @ encodeURIComponent a) []) unwrap) (\<lambda>res.
           (let c = member res ''billToContact'' in
            ok (contactOverrides (or_else (fstr c ''workEmail'') (fstr c ''personalEmail''))
              (or_else (fstr c ''workPhone'') (or_else (fstr c ''mobilePhone'') (fstr c ''homePhone''))))))))
       (ok (contactOverrides None None))"

definition zuora_failed :: "'w Platform \<Rightarrow> ZuoraConfig \<Rightarrow> jsval \<Rightarrow> iso \<Rightarrow> ContactOverrides \<Rightarrow> AdapterPayload" where
  "zuora_failed pf cfg callout occurredAt contact =
     (let invoice = mapCalloutInvoice pf cfg callout occurredAt True;
          attempt = buildAttempt (inv_id invoice) '''' '''' (inv_amount invoice) Failed
            (Some (mapZuoraDeclineCode (zuora_gateway_reason callout))) (fstr (member callout ''payment'') ''id'') occurredAt;
          decline = zuora_buildDecline callout (inv_id invoice) (ca_id attempt) occurredAt
      in ApFailed invoice (Some attempt) (Some decline) (Some (customerFromInvoice invoice contact)) None)"

definition zuora_paid :: "'w Platform \<Rightarrow> ZuoraConfig \<Rightarrow> jsval \<Rightarrow> iso \<Rightarrow> AdapterPayload" where
  "zuora_paid pf cfg callout occurredAt =
     (let invoice = mapCalloutInvoice pf cfg callout occurredAt False in
      ApPaid invoice (Some (buildAttempt (inv_id invoice) '''' '''' (inv_amount invoice) Succeeded None
        (fstr (member callout ''payment'') ''id'') occurredAt)))"

definition zuora_type :: "jsval \<Rightarrow> string" where
  "zuora_type callout = to_lower (trim (coalesce (or_else (fstr callout ''eventType'') (fstr callout ''type'')) ''''))"

definition zuora_event :: "'w Platform \<Rightarrow> ZuoraConfig \<Rightarrow> jsval \<Rightarrow> iso \<Rightarrow> ('w, AdapterPayload list) eff" where
  "zuora_event pf cfg callout occurredAt =
     (let type = zuora_type callout in
      if str_includes type ''paymentfailed'' \<or> str_includes type ''payment_failed'' \<or> type = ''paymenterror'' then
        andThen (getAccountContact pf cfg (fstr (member callout ''invoice'') ''accountId'')) (\<lambda>contact.
          ok [zuora_failed pf cfg callout occurredAt contact])
      else if str_includes type ''paymentprocessed'' \<or> str_includes type ''payment_processed'' \<or> type = ''paymentsuccess'' then
        ok [zuora_paid pf cfg callout occurredAt]
      else if str_includes type ''subscriptioncancel'' \<or> str_includes type ''subscription_cancel'' then
        (let sub = member callout ''subscription'' in
         ok (if_given (fstr sub ''id'') (\<lambda>s. [ApSubscription s (coalesce (fstr sub ''status'') ''Cancelled'')]) []))
      else ok [])"

definition zuora_authentic :: "'w Platform \<Rightarrow> ZuoraConfig \<Rightarrow> RawWebhook \<Rightarrow> bool" where
  "zuora_authentic pf cfg raw =
     verifyZuoraSignature (pf_hmac pf) (rw_body raw) (headerLookup (rw_headers raw) ''zuora-signature'')
       (coalesce (zu_webhookSecret cfg) '''')"

definition zuora_ingest :: "'w Platform \<Rightarrow> ZuoraConfig \<Rightarrow> RawWebhook \<Rightarrow> ('w, AdapterEvent list) eff" where
  "zuora_ingest pf cfg raw =
     andThen (check_signature ''ZuoraAdapter'' ''webhookSecret'' ''Zuora-Signature'' (given (zu_webhookSecret cfg))
       (zuora_authentic pf cfg raw)) (\<lambda>_.
     andThen (parse_webhook pf ''ZuoraAdapter'' (rw_body raw)) (\<lambda>callout.
       (let occurredAt = toIso (pf_parseDate pf) (fstr callout ''eventTime'') in
        andThen (zuora_event pf cfg callout occurredAt) (\<lambda>payloads.
          ok (map (zuora_envelope cfg callout (zuora_type callout) occurredAt) payloads)))))"

subsection \<open>Charging and polling\<close>

definition zuora_outcome :: "string \<Rightarrow> ChargeOutcome" where
  "zuora_outcome status =
     (if status = ''Processed'' then Succeeded else if status = ''Error'' \<or> status = ''Declined'' then Failed else Pending)"

definition zuora_charged ::
  "'w Platform \<Rightarrow> Invoice \<Rightarrow> PaymentMethod \<Rightarrow> string \<Rightarrow> jsval \<times> bool \<Rightarrow> ('w, AdapterResult) eff" where
  "zuora_charged pf invoice pm key res =
     (let body = fst res; outcome = zuora_outcome (text_of pf (zuora_pick body ''status'' ''Status''));
          reason = or_else (as_str (zuora_pick body ''gatewayResponse'' ''GatewayResponse''))
            (as_str (zuora_pick body ''gatewayResponseCode'' ''GatewayResponseCode'')) in
      if zuora_pick body ''success'' ''Success'' = VBool False then throw (JsError (zuora_message body 200))
      else andThen (pf_clock pf) (\<lambda>now.
        ok \<lparr>ar_attempt = buildAttempt (inv_id invoice) (pm_id pm) key (inv_amount invoice) outcome
              (if outcome = Failed then Some (mapZuoraDeclineCode reason) else None)
              (as_str (zuora_pick body ''id'' ''Id'')) now,
            ar_outcome = outcome, ar_idempotentReplay = snd res\<rparr>))"

definition zuora_attemptCharge ::
  "'w Platform \<Rightarrow> ZuoraConfig \<Rightarrow> Invoice \<Rightarrow> PaymentMethod \<Rightarrow> string \<Rightarrow> ('w, AdapterResult) eff" where
  "zuora_attemptCharge pf cfg invoice pm key =
     andThen (zuora_post pf cfg ''/v1/payments''
       (JObj [(''amount'', JNum (pf_showNumber pf (real_of_int (amount (inv_amount invoice)) / 100))),
              (''currency'', JStr (money_currency (inv_amount invoice))), (''invoiceId'', JStr (inv_processorRef invoice)),
              (''paymentMethodId'', JStr (pm_token pm))]) key)
       (case_sum rethrow (zuora_charged pf invoice pm key))"

definition zuora_fetchUpdatedCard :: "PaymentMethod \<Rightarrow> ('w, PaymentMethod option) eff" where
  "zuora_fetchUpdatedCard pm = ok None"

definition zuora_listPaymentMethods :: "Customer \<Rightarrow> ('w, PaymentMethod list) eff" where
  "zuora_listPaymentMethods customer = ok []"

definition zuora_listOpenFailures :: "'w Platform \<Rightarrow> ZuoraConfig \<Rightarrow> Cursor \<Rightarrow> ('w, OpenFailuresPage) eff" where
  "zuora_listOpenFailures pf cfg cursor =
     andThen (andThen (zuora_get pf cfg ''/v1/invoices''
       [(''status'', Some ''Posted''), (''pageSize'', Some ''100''), (''pageToken'', cursor)]) unwrap) (\<lambda>res.
     andThen (lift_sum (tokenFromNextPage (member res ''nextPage''))) (\<lambda>nextCursor.
       ok \<lparr>op_invoices = map (\<lambda>v. zuora_mapInvoice pf cfg v (toIso (pf_parseDate pf) (fstr v ''invoiceDate'')) True)
             (filter (\<lambda>v. 0 < coalesce (or_else (freal v ''balance'') (freal v ''amount'')) 0) (flist res ''invoices'')),
           op_nextCursor = nextCursor\<rparr>))"

subsection \<open>The contract\<close>

lemma getAccountContact_form:
  assumes "getAccountContact pf cfg a w = (Inr c, w')"
  shows "\<exists>e p. c = contactOverrides e p"
  using assms
  by (auto simp: getAccountContact_def if_given_def best_effort_Inr andThen_Inr Let_def split: if_splits)

lemma zuora_event_ok:
  assumes "zuora_event pf cfg callout occ w = (Inr ps, w')"
  shows "list_all (payload_ok (zu_merchantId cfg)) ps"
  using assms
  by (auto simp: zuora_event_def Let_def andThen_Inr zuora_failed_def zuora_paid_def mapCalloutInvoice_def
      zuora_buildDecline_def payload_defs if_given_def dest!: getAccountContact_form split: if_splits)

lemma zuora_charge_ok:
  assumes "zuora_attemptCharge pf cfg invc pm key w = (Inr r, w')"
  shows "charge_ok invc pm key r"
proof (rule charge_via [OF assms [unfolded zuora_attemptCharge_def]])
  show "charge_ok invc pm key r" if "rethrow f t = (Inr r, t')" for f and t t' :: 'a
    using that by simp
  show "charge_ok invc pm key r" if "zuora_charged pf invc pm key a t = (Inr r, t')" for a t t'
    using that by (auto simp: zuora_charged_def Let_def andThen_Inr charge_ok_def split: if_splits)
qed

interpretation zuora: strict_adapter "zu_merchantId cfg" "\<lambda>raw w. zuora_authentic pf cfg raw"
    "zuora_ingest pf cfg" "zuora_attemptCharge pf cfg" for pf cfg
proof
  fix raw w es w'
  assume i: "zuora_ingest pf cfg raw w = (Inr es, w')"
  show "zuora_authentic pf cfg raw"
    using i by (auto simp: zuora_ingest_def andThen_Inr)
  show "list_all (event_ok (zu_merchantId cfg)) es"
    using i by (auto simp: zuora_ingest_def andThen_Inr zuora_envelope_def event_ok_def list_all_iff Let_def
        dest!: zuora_event_ok)
qed (rule zuora_charge_ok)

text \<open>A contact that cannot be read never drops a failure.\<close>

lemma zuora_failure_survives_contact:
  assumes "zuora_type callout = ''paymentfailed''"
  shows "\<exists>p w'. zuora_event pf cfg callout occ w = (Inr [p], w')"
proof -
  have "\<exists>c w'. getAccountContact pf cfg a w = (Inr c, w')" for a
    by (simp add: getAccountContact_def if_given_def best_effort_returns)
  then obtain c w' where "getAccountContact pf cfg (fstr (member callout ''invoice'') ''accountId'') w = (Inr c, w')"
    by blast
  moreover have "str_includes (zuora_type callout) ''paymentfailed''" unfolding assms by code_simp
  ultimately show ?thesis by (simp add: zuora_event_def Let_def andThen_def ok_def)
qed

end
