(* ===== verification/ShopifyAdapter.thy ===== *)
theory ShopifyAdapter
  imports AdapterKit
begin

text \<open>
  The Shopify adapter (\<open>packages/poal/src/adapters/shopify/\<close>): a GraphQL client, signed webhooks of
  billing attempts and orders, contact enrichment, and a charge that triggers a billing attempt
  of the subscription contract. The canonical invoice is named after the id of the webhook's
  own object, so that the failed attempt and the order that pays it are different invoices.
\<close>

subsection \<open>The client\<close>

record ShopifyConfig =
  sh_shop :: string
  sh_accessToken :: string
  sh_apiSecret :: string
  sh_merchantId :: ident
  sh_apiVersion :: "string option"
  sh_baseUrl :: "string option"

definition shopify_base :: "ShopifyConfig \<Rightarrow> string" where
  "shopify_base cfg = coalesce (sh_baseUrl cfg)
     (''https://'' @ sh_shop cfg @ ''.myshopify.com/admin/api/'' @ coalesce (sh_apiVersion cfg) ''2024-07'' @ ''/graphql.json'')"

definition lf_char :: char where "lf_char = CHR 0x0A"

definition text_lines :: "string list \<Rightarrow> string" where
  "text_lines ls = concat (map (\<lambda>l. lf_char # l) ls) @ [lf_char]"

definition BILLING_ATTEMPT_CREATE :: string where
  "BILLING_ATTEMPT_CREATE = text_lines
     [''  mutation subscriptionBillingAttemptCreate($subscriptionContractId: ID!, $input: SubscriptionBillingAttemptInput!) {'',
      ''    subscriptionBillingAttemptCreate(subscriptionContractId: $subscriptionContractId, subscriptionBillingAttemptInput: $input) {'',
      ''      subscriptionBillingAttempt {'', ''        id'', ''        ready'', ''        errorMessage'', ''        errorCode'',
      ''        transactions(first: 1) { edges { node { id status } } }'', ''      }'',
      ''      userErrors { field message }'', ''    }'', ''  }'']"

definition SUBSCRIPTION_CONTRACT_CUSTOMER :: string where
  "SUBSCRIPTION_CONTRACT_CUSTOMER = text_lines
     [''  query subscriptionContractCustomer($id: ID!) {'', ''    subscriptionContract(id: $id) {'', ''      customer {'',
      ''        defaultEmailAddress { emailAddress }'', ''        defaultPhoneNumber { phoneNumber }'', ''      }'', ''    }'', ''  }'']"

text \<open>The \<open>errors\<close> of a failed response, or its text as the one error.\<close>

definition shopify_parseErrors :: "'w Platform \<Rightarrow> string \<Rightarrow> jsval list" where
  "shopify_parseErrors pf raw =
     (let body = (if raw = '''' then Some (VObj []) else pf_parseJson pf raw) in
      case body of None \<Rightarrow> [message_only raw]
      | Some v \<Rightarrow> if flist v ''errors'' = [] then [message_only raw] else flist v ''errors'')"

definition shopify_failure :: "jsval list \<Rightarrow> PortResponse \<Rightarrow> ClientFailure" where
  "shopify_failure errors res =
     \<lparr>cf_status = rp_status res, cf_body = VArr errors, cf_raw = rp_text res,
      cf_message = coalesce (fstr (first_item errors) ''message'') (''Shopify error '' @ show_int (rp_status res))\<rparr>"

text \<open>A top-level \<open>errors\<close> array of a success is a failure too, never a decline.\<close>

definition shopify_parse :: "'w Platform \<Rightarrow> PortResponse \<Rightarrow> ('w, jsval client_result) eff" where
  "shopify_parse pf res =
     (if \<not> rp_ok res then ok (Inl (shopify_failure (shopify_parseErrors pf (rp_text res)) res))
      else (case (if rp_text res = '''' then Some (VObj []) else pf_parseJson pf (rp_text res)) of
          None \<Rightarrow> throw syntax_error
        | Some v \<Rightarrow> if flist v ''errors'' \<noteq> [] then ok (Inl (shopify_failure (flist v ''errors'') res))
                    else ok (Inr (member v ''data''))))"

definition graphql :: "'w Platform \<Rightarrow> ShopifyConfig \<Rightarrow> string \<Rightarrow> json \<Rightarrow> ('w, jsval client_result) eff" where
  "graphql pf cfg query variables =
     andThen (pf_fetch pf
       \<lparr>rq_url = shopify_base cfg, rq_verb = ''POST'',
        rq_headers = [(''Content-Type'', ''application/json''), (''X-Shopify-Access-Token'', sh_accessToken cfg)],
        rq_body = Some (stringify (JObj [(''query'', JStr query), (''variables'', variables)]))\<rparr>) (shopify_parse pf)"

subsection \<open>Mapping helpers\<close>

definition shopify_eventId :: "'w Platform \<Rightarrow> jsval \<Rightarrow> string" where
  "shopify_eventId pf payload = text_of pf (nullish (member payload ''admin_graphql_api_id'') (member payload ''id''))"

definition mapWebhookInvoice :: "'w Platform \<Rightarrow> ShopifyConfig \<Rightarrow> jsval \<Rightarrow> iso \<Rightarrow> bool \<Rightarrow> Invoice" where
  "mapWebhookInvoice pf cfg payload occurredAt failed =
     (let contract = member payload ''subscription_contract_id'' in
      \<lparr>inv_id = ''ax10m_inv_'' @ text_of pf (member payload ''id''),
       inv_subscriptionId = prefixed_ref pf ''ax10m_sub_'' contract,
       inv_customerId = coalesce (prefixed_ref pf ''ax10m_cus_'' (member (member payload ''customer'') ''id'')) '''',
       inv_merchantId = sh_merchantId cfg,
       inv_processorRef = coalesce (prefixed_ref pf ''gid://shopify/SubscriptionContract/'' contract) (shopify_eventId pf payload),
       inv_amount = \<lparr>amount = majorToMinor pf (or_else (fstr payload ''amount'') (fstr payload ''total_price'')),
                     money_currency = coalesce (fstr payload ''currency'') ''USD''\<rparr>,
       inv_status = (if failed then InvOpen else InvPaid),
       inv_firstFailedAt = (if failed then Some occurredAt else None),
       inv_createdAt = occurredAt\<rparr>)"

definition shopify_buildDecline :: "'w Platform \<Rightarrow> jsval \<Rightarrow> ident \<Rightarrow> ident \<Rightarrow> iso \<Rightarrow> DeclineEvent" where
  "shopify_buildDecline pf payload invoiceId chargeAttemptId occurredAt =
     (let code = mapShopifyDeclineCode (fstr payload ''error_code'') in
      \<lparr>dec_id = ''ax10m_dec_'' @ coalesce (string_of pf (member payload ''id'')) invoiceId, dec_invoiceId = invoiceId,
       dec_chargeAttemptId = chargeAttemptId, dec_code = code, dec_family = familyOf code,
       dec_rawReason = or_else (fstr payload ''error_message'') (fstr payload ''error_code''), dec_occurredAt = occurredAt\<rparr>)"

text \<open>The contract's customer, nothing without a contract or when it cannot be read.\<close>

definition fetchContractContact :: "'w Platform \<Rightarrow> ShopifyConfig \<Rightarrow> string \<Rightarrow> ('w, ContactOverrides) eff" where
  "fetchContractContact pf cfg contractGid =
     (if \<not> starts_with ''gid://'' contractGid then ok (contactOverrides None None)
      else best_effort (contactOverrides None None)
        (andThen (andThen (graphql pf cfg SUBSCRIPTION_CONTRACT_CUSTOMER (JObj [(''id'', JStr contractGid)])) unwrap) (\<lambda>data.
          (let customer = member (member data ''subscriptionContract'') ''customer'' in
           ok (contactOverrides (fstr (member customer ''defaultEmailAddress'') ''emailAddress'')
             (fstr (member customer ''defaultPhoneNumber'') ''phoneNumber''))))))"

subsection \<open>Webhooks\<close>

definition shopify_envelope :: "'w Platform \<Rightarrow> ShopifyConfig \<Rightarrow> jsval \<Rightarrow> iso \<Rightarrow> AdapterPayload \<Rightarrow> AdapterEvent" where
  "shopify_envelope pf cfg payload occurredAt p =
     \<lparr>ae_id = ''ax10m_evt_'' @ shopify_eventId pf payload, ae_merchantId = sh_merchantId cfg,
      ae_processorEventId = shopify_eventId pf payload, ae_occurredAt = occurredAt, ae_payload = p\<rparr>"

definition shopify_failed :: "'w Platform \<Rightarrow> ShopifyConfig \<Rightarrow> jsval \<Rightarrow> iso \<Rightarrow> ContactOverrides \<Rightarrow> AdapterPayload" where
  "shopify_failed pf cfg payload occurredAt contact =
     (let invoice = mapWebhookInvoice pf cfg payload occurredAt True;
          attempt = buildAttempt (inv_id invoice) '''' '''' (inv_amount invoice) Failed
            (Some (mapShopifyDeclineCode (fstr payload ''error_code''))) (Some (shopify_eventId pf payload)) occurredAt;
          decline = shopify_buildDecline pf payload (inv_id invoice) (ca_id attempt) occurredAt
      in ApFailed invoice (Some attempt) (Some decline) (Some (customerFromInvoice invoice contact)) None)"

definition shopify_paid :: "'w Platform \<Rightarrow> ShopifyConfig \<Rightarrow> jsval \<Rightarrow> iso \<Rightarrow> AdapterPayload" where
  "shopify_paid pf cfg payload occurredAt =
     (let invoice = mapWebhookInvoice pf cfg payload occurredAt False in
      ApPaid invoice (Some (buildAttempt (inv_id invoice) '''' '''' (inv_amount invoice) Succeeded None
        (Some (shopify_eventId pf payload)) occurredAt)))"

definition shopify_event :: "'w Platform \<Rightarrow> ShopifyConfig \<Rightarrow> string \<Rightarrow> jsval \<Rightarrow> iso \<Rightarrow> ('w, AdapterPayload list) eff" where
  "shopify_event pf cfg topic payload occurredAt =
     (if topic = ''subscription_billing_attempts/failure'' then
        andThen (fetchContractContact pf cfg (inv_processorRef (mapWebhookInvoice pf cfg payload occurredAt True))) (\<lambda>contact.
          ok [shopify_failed pf cfg payload occurredAt contact])
      else if topic = ''subscription_billing_attempts/success'' \<or> topic = ''orders/paid'' then
        ok [shopify_paid pf cfg payload occurredAt]
      else ok [])"

definition shopify_authentic :: "'w Platform \<Rightarrow> ShopifyConfig \<Rightarrow> RawWebhook \<Rightarrow> bool" where
  "shopify_authentic pf cfg raw =
     verifyShopifyHmac (pf_hmacBase64 pf) (rw_body raw) (headerLookup (rw_headers raw) ''x-shopify-hmac-sha256'') (sh_apiSecret cfg)"

definition shopify_ingest :: "'w Platform \<Rightarrow> ShopifyConfig \<Rightarrow> RawWebhook \<Rightarrow> ('w, AdapterEvent list) eff" where
  "shopify_ingest pf cfg raw =
     andThen (check_signature ''ShopifyAdapter'' ''apiSecret'' ''X-Shopify-Hmac-Sha256'' (sh_apiSecret cfg \<noteq> '''')
       (shopify_authentic pf cfg raw)) (\<lambda>_.
     andThen (parse_webhook pf ''ShopifyAdapter'' (rw_body raw)) (\<lambda>payload.
       (let occurredAt = stamp (pf_parseDate pf) (fstr payload ''created_at'') in
        andThen (shopify_event pf cfg (coalesce (headerLookup (rw_headers raw) ''x-shopify-topic'') '''') payload occurredAt) (\<lambda>ps.
          ok (map (shopify_envelope pf cfg payload occurredAt) ps)))))"

subsection \<open>Charging\<close>

definition shopify_result ::
  "'w Platform \<Rightarrow> Invoice \<Rightarrow> PaymentMethod \<Rightarrow> string \<Rightarrow> ChargeOutcome \<Rightarrow> DeclineCode option \<Rightarrow> string option \<Rightarrow> ('w, AdapterResult) eff" where
  "shopify_result pf invoice pm key outcome code txnId =
     andThen (pf_clock pf) (\<lambda>now.
       ok \<lparr>ar_attempt = buildAttempt (inv_id invoice) (pm_id pm) key (inv_amount invoice) outcome code txnId now,
           ar_outcome = outcome, ar_idempotentReplay = False\<rparr>)"

text \<open>User errors are thrown, an error code is a decline, a ready attempt with a successful
  transaction a success; otherwise the outcome arrives with a webhook.\<close>

definition shopify_charged ::
  "'w Platform \<Rightarrow> Invoice \<Rightarrow> PaymentMethod \<Rightarrow> string \<Rightarrow> jsval \<Rightarrow> ('w, AdapterResult) eff" where
  "shopify_charged pf invoice pm key data =
     (let result = member data ''subscriptionBillingAttemptCreate''; userErrors = flist result ''userErrors'';
          attempt = member result ''subscriptionBillingAttempt'';
          txn = member (first_item (flist (member attempt ''transactions'') ''edges'')) ''node'' in
      if userErrors \<noteq> [] then
        throw (JsError (''ShopifyAdapter.attemptCharge: userErrors '' @ emdash @ '' ''
          @ join ''; '' (map (\<lambda>e. coalesce (fstr e ''message'') ''unknown'') userErrors)))
      else if attempt = VNull then throw (JsError ''ShopifyAdapter.attemptCharge: no billing attempt returned'')
      else if given (fstr attempt ''errorCode'') then
        shopify_result pf invoice pm key Failed (Some (mapShopifyDeclineCode (fstr attempt ''errorCode''))) (fstr attempt ''id'')
      else if ftrue attempt ''ready'' \<and> fstr txn ''status'' = Some ''SUCCESS'' then
        shopify_result pf invoice pm key Succeeded None (fstr attempt ''id'')
      else shopify_result pf invoice pm key Pending None (Some (coalesce (fstr attempt ''id'') key)))"

definition shopify_attemptCharge ::
  "'w Platform \<Rightarrow> ShopifyConfig \<Rightarrow> Invoice \<Rightarrow> PaymentMethod \<Rightarrow> string \<Rightarrow> ('w, AdapterResult) eff" where
  "shopify_attemptCharge pf cfg invoice pm key =
     andThen (graphql pf cfg BILLING_ATTEMPT_CREATE
       (JObj [(''subscriptionContractId'', JStr (inv_processorRef invoice)),
              (''input'', JObj [(''idempotencyKey'', JStr key)])]))
       (case_sum rethrow (shopify_charged pf invoice pm key))"

definition shopify_listOpenFailures :: "Cursor \<Rightarrow> ('w, OpenFailuresPage) eff" where
  "shopify_listOpenFailures cursor = ok \<lparr>op_invoices = [], op_nextCursor = None\<rparr>"

definition shopify_fetchUpdatedCard :: "PaymentMethod \<Rightarrow> ('w, PaymentMethod option) eff" where
  "shopify_fetchUpdatedCard pm = ok None"

definition shopify_listPaymentMethods :: "Customer \<Rightarrow> ('w, PaymentMethod list) eff" where
  "shopify_listPaymentMethods customer = ok []"

subsection \<open>The contract\<close>

lemma fetchContractContact_form:
  assumes "fetchContractContact pf cfg g w = (Inr c, w')"
  shows "\<exists>e p. c = contactOverrides e p"
  using assms by (auto simp: fetchContractContact_def best_effort_Inr andThen_Inr Let_def split: if_splits)

lemma shopify_event_ok:
  assumes "shopify_event pf cfg topic payload occ w = (Inr ps, w')"
  shows "list_all (payload_ok (sh_merchantId cfg)) ps"
  using assms
  by (auto simp: shopify_event_def Let_def andThen_Inr shopify_failed_def shopify_paid_def mapWebhookInvoice_def
      shopify_buildDecline_def payload_defs dest!: fetchContractContact_form split: if_splits)

lemma shopify_result_ok:
  assumes "shopify_result pf invc pm key outcome code txn w = (Inr r, w')" "code \<noteq> None \<longrightarrow> outcome = Failed"
  shows "charge_ok invc pm key r"
  using assms by (auto simp: shopify_result_def andThen_Inr charge_ok_def)

lemma shopify_charge_ok:
  assumes "shopify_attemptCharge pf cfg invc pm key w = (Inr r, w')"
  shows "charge_ok invc pm key r"
proof (rule charge_via [OF assms [unfolded shopify_attemptCharge_def]])
  show "charge_ok invc pm key r" if "rethrow f t = (Inr r, t')" for f and t t' :: 'a
    using that by simp
  show "charge_ok invc pm key r" if "shopify_charged pf invc pm key a t = (Inr r, t')" for a t t'
    using that by (auto simp: shopify_charged_def Let_def dest!: shopify_result_ok split: if_splits)
qed

interpretation shopify: strict_adapter "sh_merchantId cfg" "\<lambda>raw w. shopify_authentic pf cfg raw"
    "shopify_ingest pf cfg" "shopify_attemptCharge pf cfg" for pf cfg
proof
  fix raw w es w'
  assume i: "shopify_ingest pf cfg raw w = (Inr es, w')"
  show "shopify_authentic pf cfg raw"
    using i by (auto simp: shopify_ingest_def andThen_Inr)
  show "list_all (event_ok (sh_merchantId cfg)) es"
    using i by (auto simp: shopify_ingest_def andThen_Inr shopify_envelope_def event_ok_def list_all_iff Let_def
        dest!: shopify_event_ok)
qed (rule shopify_charge_ok)

text \<open>The failed billing attempt and the order that pays the same contract are the same invoice
  only if the webhooks are about the same object: the id of the contract plays no part.\<close>

lemma shopify_pays_other_invoice:
  assumes "string_of pf (member failure ''id'') = Some a" "string_of pf (member paid ''id'') = Some b" "a \<noteq> b"
  shows "inv_id (mapWebhookInvoice pf cfg failure t True) \<noteq> inv_id (mapWebhookInvoice pf cfg paid u False)"
  using assms by (simp add: mapWebhookInvoice_def text_of_def Let_def)

end
