(* ===== verification/GoCardlessAdapter.thy ===== *)
theory GoCardlessAdapter
  imports AdapterKit
begin

text \<open>
  The GoCardless adapter (\<open>packages/poal/src/adapters/gocardless/\<close>): bank debit. A webhook carries a
  batch of events that name payments by id; each payment is fetched, and an event whose payment
  cannot be read is dropped without the rest of the batch. An amount is not checked: a reversal
  may be about nothing.
\<close>

subsection \<open>The client\<close>

record GoCardlessConfig =
  gc_accessToken :: string
  gc_webhookSecret :: string
  gc_merchantId :: ident
  gc_environment :: "string option"
  gc_baseUrl :: "string option"

definition isIdempotentConflict :: "ClientFailure \<Rightarrow> bool" where
  "isIdempotentConflict f =
     list_ex (\<lambda>e. fstr e ''reason'' = Some ''idempotent_creation_conflict'') (flist (member (cf_body f) ''error'') ''errors'')"

definition gocardless_base :: "GoCardlessConfig \<Rightarrow> string" where
  "gocardless_base cfg = if_given (gc_baseUrl cfg) (\<lambda>u. u)
     (if gc_environment cfg = Some ''live'' then ''https://api.gocardless.com'' else ''https://api-sandbox.gocardless.com'')"

definition gocardless_headers :: "GoCardlessConfig \<Rightarrow> (string \<times> string) list" where
  "gocardless_headers cfg =
     [(''Authorization'', ''Bearer '' @ gc_accessToken cfg), (''GoCardless-Version'', ''2015-07-06''), (''Accept'', ''application/json'')]"

definition gocardless_parse :: "'w Platform \<Rightarrow> PortResponse \<Rightarrow> ('w, jsval client_result) eff" where
  "gocardless_parse pf =
     parse_response pf id (\<lambda>raw. VObj [(''error'', message_only raw)])
       (\<lambda>body n. coalesce (fstr (member body ''error'') ''message'') (''GoCardless error '' @ show_int n))"

definition gocardless_get ::
  "'w Platform \<Rightarrow> GoCardlessConfig \<Rightarrow> string \<Rightarrow> (string \<times> string option) list \<Rightarrow> ('w, jsval client_result) eff" where
  "gocardless_get pf cfg path query =
     http_get pf (gocardless_parse pf) (gocardless_base cfg @ path) query (gocardless_headers cfg)"

text \<open>The adapter posts no body.\<close>

definition gocardless_post :: "'w Platform \<Rightarrow> GoCardlessConfig \<Rightarrow> string \<Rightarrow> string \<Rightarrow> ('w, jsval client_result) eff" where
  "gocardless_post pf cfg path key =
     andThen (pf_fetch pf
       \<lparr>rq_url = gocardless_base cfg @ path, rq_verb = ''POST'',
        rq_headers = gocardless_headers cfg @ keyed ''Idempotency-Key'' key, rq_body = None\<rparr>) (gocardless_parse pf)"

subsection \<open>Mapping helpers\<close>

definition gocardless_outcome :: "string option \<Rightarrow> ChargeOutcome" where
  "gocardless_outcome status =
     (if status = Some ''confirmed'' \<or> status = Some ''paid_out'' then Succeeded
      else if status = Some ''failed'' \<or> status = Some ''cancelled'' \<or> status = Some ''customer_approval_denied''
              \<or> status = Some ''charged_back'' then Failed
      else Pending)"

definition gocardless_money :: "jsval \<Rightarrow> Money" where
  "gocardless_money p = \<lparr>amount = coalesce (fint p ''amount'') 0, money_currency = coalesce (fstr p ''currency'') ''GBP''\<rparr>"

definition gocardless_mapInvoice :: "'w Platform \<Rightarrow> GoCardlessConfig \<Rightarrow> jsval \<Rightarrow> iso \<Rightarrow> bool \<Rightarrow> Invoice" where
  "gocardless_mapInvoice pf cfg p occurredAt failed =
     (let links = member p ''links'' in
      \<lparr>inv_id = ''ax10m_inv_'' @ printed (fstr p ''id''),
       inv_subscriptionId = prefixed ''ax10m_sub_'' (fstr links ''subscription''),
       inv_customerId = coalesce (prefixed ''ax10m_cus_'' (fstr links ''customer'')) '''',
       inv_merchantId = gc_merchantId cfg, inv_processorRef = coalesce (fstr p ''id'') '''',
       inv_amount = gocardless_money p, inv_status = (if failed then InvOpen else InvPaid),
       inv_firstFailedAt = (if failed then Some occurredAt else None),
       inv_createdAt = (case fstr p ''created_at'' of Some t \<Rightarrow> pf_parseDate pf t | None \<Rightarrow> occurredAt)\<rparr>)"

definition gocardless_cause :: "jsval \<Rightarrow> string option" where
  "gocardless_cause event = fstr (member event ''details'') ''cause''"

definition gocardless_buildDecline :: "jsval \<Rightarrow> ident \<Rightarrow> ident \<Rightarrow> iso \<Rightarrow> DeclineEvent" where
  "gocardless_buildDecline event invoiceId chargeAttemptId occurredAt =
     (let code = mapGoCardlessCause (gocardless_cause event) in
      \<lparr>dec_id = ''ax10m_dec_'' @ coalesce (fstr event ''id'') invoiceId, dec_invoiceId = invoiceId,
       dec_chargeAttemptId = chargeAttemptId, dec_code = code, dec_family = familyOf code,
       dec_rawReason = or_else (fstr (member event ''details'') ''description'') (gocardless_cause event),
       dec_occurredAt = occurredAt\<rparr>)"

text \<open>Success+ retries insufficient funds only, and only payments created for it.\<close>

definition gc_willAutoRetry :: "jsval \<Rightarrow> jsval \<Rightarrow> bool" where
  "gc_willAutoRetry event payment =
     (ftrue payment ''retry_if_possible'' \<and> to_lower (trim (coalesce (gocardless_cause event) '''')) = ''insufficient_funds'')"

definition gocardless_time :: "'w Platform \<Rightarrow> jsval \<Rightarrow> jsval \<Rightarrow> iso" where
  "gocardless_time pf event payment = stamp (pf_parseDate pf) (or_else (fstr event ''created_at'') (fstr payment ''created_at''))"

subsection \<open>Webhooks\<close>

definition getPayment :: "'w Platform \<Rightarrow> GoCardlessConfig \<Rightarrow> string \<Rightarrow> ('w, jsval) eff" where
  "getPayment pf cfg paymentId =
     andThen (andThen (gocardless_get pf cfg (''/payments/'' @ encodeURIComponent paymentId) []) unwrap) (\<lambda>res.
       ok (member res ''payments''))"

definition getCustomer :: "'w Platform \<Rightarrow> GoCardlessConfig \<Rightarrow> string option \<Rightarrow> ('w, jsval) eff" where
  "getCustomer pf cfg customerId =
     if_given customerId (\<lambda>c.
       best_effort VNull (andThen (andThen (gocardless_get pf cfg (''/customers/'' @ encodeURIComponent c) []) unwrap) (\<lambda>res.
         ok (member res ''customers''))))
       (ok VNull)"

definition gocardless_envelope :: "'w Platform \<Rightarrow> GoCardlessConfig \<Rightarrow> jsval \<Rightarrow> jsval \<Rightarrow> AdapterPayload \<Rightarrow> AdapterEvent" where
  "gocardless_envelope pf cfg event payment payload =
     \<lparr>ae_id = ''ax10m_evt_'' @ printed (or_else (fstr event ''id'') (fstr payment ''id'')), ae_merchantId = gc_merchantId cfg,
      ae_processorEventId = coalesce (fstr event ''id'') '''', ae_occurredAt = gocardless_time pf event payment,
      ae_payload = payload\<rparr>"

definition gocardless_reversal :: "jsval \<Rightarrow> jsval \<Rightarrow> ReversalKind \<Rightarrow> ReversalPayload" where
  "gocardless_reversal event payment k =
     \<lparr>rev_invoiceId = ''ax10m_inv_'' @ printed (fstr payment ''id''), rev_amount = amount (gocardless_money payment),
      rev_currency = money_currency (gocardless_money payment), rev_kind = k,
      rev_reason = or_else (gocardless_cause event) (fstr (member event ''details'') ''description'')\<rparr>"

definition gocardless_attempt :: "'w Platform \<Rightarrow> Invoice \<Rightarrow> jsval \<Rightarrow> jsval \<Rightarrow> bool \<Rightarrow> ChargeAttempt" where
  "gocardless_attempt pf invoice event payment failed =
     buildAttempt (inv_id invoice) (coalesce (prefixed ''ax10m_pm_'' (fstr (member payment ''links'') ''mandate'')) '''') ''''
       (inv_amount invoice) (if failed then Failed else Succeeded)
       (if failed then Some (mapGoCardlessCause (gocardless_cause event)) else None)
       (fstr payment ''id'') (gocardless_time pf event payment)"

definition mapPaymentEvent ::
  "'w Platform \<Rightarrow> GoCardlessConfig \<Rightarrow> jsval \<Rightarrow> jsval \<Rightarrow> bool \<Rightarrow> ('w, AdapterPayload) eff" where
  "mapPaymentEvent pf cfg event payment failed =
     (let occurredAt = gocardless_time pf event payment;
          invoice = gocardless_mapInvoice pf cfg payment occurredAt failed;
          attempt = gocardless_attempt pf invoice event payment failed in
      if failed then
        andThen (getCustomer pf cfg (fstr (member payment ''links'') ''customer'')) (\<lambda>gcCustomer.
          ok (ApFailed invoice (Some attempt)
            (Some (gocardless_buildDecline event (inv_id invoice) (ca_id attempt) occurredAt))
            (Some (customerFromInvoice invoice (contactOverrides (fstr gcCustomer ''email'') None)))
            (Some (gc_willAutoRetry event payment))))
      else ok (ApPaid invoice (Some attempt)))"

definition gocardless_acted :: "string option \<Rightarrow> bool" where
  "gocardless_acted action =
     (case action of None \<Rightarrow> False
      | Some a \<Rightarrow> a \<in> set [''failed'', ''confirmed'', ''charged_back'', ''refunded'', ''chargeback_cancelled''])"

text \<open>One event of the batch: nothing when it is about something else or its payment is missing.\<close>

definition gocardless_map ::
  "'w Platform \<Rightarrow> GoCardlessConfig \<Rightarrow> jsval \<Rightarrow> jsval \<Rightarrow> ('w, AdapterPayload) eff" where
  "gocardless_map pf cfg event payment =
     (let action = coalesce (fstr event ''action'') '''' in
      if action = ''charged_back'' \<or> action = ''refunded'' then
        ok (ApReversed (gocardless_reversal event payment (if action = ''charged_back'' then Chargeback else Refund)))
      else if action = ''chargeback_cancelled'' then ok (ApReverted (gocardless_reversal event payment Chargeback))
      else mapPaymentEvent pf cfg event payment (action = ''failed''))"

definition gocardless_one :: "'w Platform \<Rightarrow> GoCardlessConfig \<Rightarrow> jsval \<Rightarrow> ('w, AdapterEvent list) eff" where
  "gocardless_one pf cfg event =
     (if fstr event ''resource_type'' \<noteq> Some ''payments'' \<or> \<not> gocardless_acted (fstr event ''action'') then ok []
      else if_given (fstr (member event ''links'') ''payment'') (\<lambda>paymentId.
        best_effort [] (andThen (getPayment pf cfg paymentId) (\<lambda>payment.
          if payment = VNull then ok []
          else andThen (gocardless_map pf cfg event payment) (\<lambda>p. ok [gocardless_envelope pf cfg event payment p]))))
        (ok []))"

fun gocardless_batch :: "'w Platform \<Rightarrow> GoCardlessConfig \<Rightarrow> jsval list \<Rightarrow> ('w, AdapterEvent list) eff" where
  "gocardless_batch pf cfg [] = ok []"
| "gocardless_batch pf cfg (e # es) =
     andThen (gocardless_one pf cfg e) (\<lambda>out. andThen (gocardless_batch pf cfg es) (\<lambda>rest. ok (out @ rest)))"

definition gocardless_authentic :: "'w Platform \<Rightarrow> GoCardlessConfig \<Rightarrow> RawWebhook \<Rightarrow> bool" where
  "gocardless_authentic pf cfg raw =
     verifyGoCardlessSignature (pf_hmac pf) (rw_body raw) (headerLookup (rw_headers raw) ''webhook-signature'')
       (gc_webhookSecret cfg)"

definition gocardless_ingest :: "'w Platform \<Rightarrow> GoCardlessConfig \<Rightarrow> RawWebhook \<Rightarrow> ('w, AdapterEvent list) eff" where
  "gocardless_ingest pf cfg raw =
     (if \<not> gocardless_authentic pf cfg raw then
        throw (JsError ''GoCardlessAdapter.ingestWebhook: Webhook-Signature verification failed'')
      else andThen (parse_webhook pf ''GoCardlessAdapter'' (rw_body raw)) (\<lambda>parsed.
        gocardless_batch pf cfg (flist parsed ''events'')))"

subsection \<open>Charging and polling\<close>

definition gocardless_charged ::
  "'w Platform \<Rightarrow> Invoice \<Rightarrow> PaymentMethod \<Rightarrow> string \<Rightarrow> ChargeOutcome \<Rightarrow> string \<Rightarrow> bool \<Rightarrow> ('w, AdapterResult) eff" where
  "gocardless_charged pf invoice pm key outcome txnId replay =
     andThen (pf_clock pf) (\<lambda>now.
       ok \<lparr>ar_attempt = buildAttempt (inv_id invoice) (pm_id pm) key (inv_amount invoice) outcome None (Some txnId) now,
           ar_outcome = outcome, ar_idempotentReplay = replay\<rparr>)"

text \<open>A reused key is a replay of a charge in flight; every other failure is thrown.\<close>

definition gocardless_attemptCharge ::
  "'w Platform \<Rightarrow> GoCardlessConfig \<Rightarrow> Invoice \<Rightarrow> PaymentMethod \<Rightarrow> string \<Rightarrow> ('w, AdapterResult) eff" where
  "gocardless_attemptCharge pf cfg invoice pm key =
     andThen (gocardless_post pf cfg (''/payments/'' @ encodeURIComponent (inv_processorRef invoice) @ ''/actions/retry'') key)
       (case_sum
         (\<lambda>f. if isIdempotentConflict f then gocardless_charged pf invoice pm key Pending (inv_processorRef invoice) True
              else rethrow f)
         (\<lambda>res. let payment = member res ''payments'' in
           gocardless_charged pf invoice pm key (gocardless_outcome (fstr payment ''status''))
             (coalesce (fstr payment ''id'') (inv_processorRef invoice)) False))"

definition gocardless_fetchUpdatedCard :: "PaymentMethod \<Rightarrow> ('w, PaymentMethod option) eff" where
  "gocardless_fetchUpdatedCard pm = ok None"

definition mapMandate :: "Customer \<Rightarrow> jsval \<Rightarrow> PaymentMethod" where
  "mapMandate customer m =
     (let ref = coalesce (fstr m ''id'') '''' in
      \<lparr>pm_id = ''ax10m_pm_'' @ ref, pm_customerId = cust_id customer, pm_processorRef = ref, pm_token = ref,
       pm_brand = Some (coalesce (fstr m ''scheme'') ''bank_debit''), pm_last4 = None, pm_bin = None,
       pm_expMonth = None, pm_expYear = None, pm_autoUpdated = None\<rparr>)"

definition gocardless_listPaymentMethods ::
  "'w Platform \<Rightarrow> GoCardlessConfig \<Rightarrow> Customer \<Rightarrow> ('w, PaymentMethod list) eff" where
  "gocardless_listPaymentMethods pf cfg customer =
     andThen (andThen (gocardless_get pf cfg ''/mandates''
       [(''customer'', Some (cust_processorRef customer)), (''limit'', Some ''100'')]) unwrap) (\<lambda>res.
       ok (map (mapMandate customer) (filter (\<lambda>m. given (fstr m ''id'')) (flist res ''mandates''))))"

definition gocardless_listOpenFailures :: "'w Platform \<Rightarrow> GoCardlessConfig \<Rightarrow> Cursor \<Rightarrow> ('w, OpenFailuresPage) eff" where
  "gocardless_listOpenFailures pf cfg cursor =
     andThen (andThen (gocardless_get pf cfg ''/payments''
       [(''status'', Some ''failed''), (''limit'', Some ''100''), (''after'', cursor)]) unwrap) (\<lambda>res.
       ok \<lparr>op_invoices = map (\<lambda>p. gocardless_mapInvoice pf cfg p (stamp (pf_parseDate pf) (fstr p ''created_at'')) True)
             (flist res ''payments''),
           op_nextCursor = fstr (member (member res ''meta'') ''cursors'') ''after''\<rparr>)"

subsection \<open>The contract\<close>

lemma mapPaymentEvent_sound:
  assumes "mapPaymentEvent pf cfg event payment failed w = (Inr p, w')"
  shows "payload_sound (gc_merchantId cfg) p"
  using assms by (auto simp: mapPaymentEvent_def Let_def andThen_Inr gocardless_mapInvoice_def gocardless_attempt_def
      gocardless_buildDecline_def payload_defs split: if_splits)

lemma gocardless_map_sound:
  assumes "gocardless_map pf cfg event payment w = (Inr p, w')"
  shows "payload_sound (gc_merchantId cfg) p"
  using assms by (auto simp: gocardless_map_def Let_def dest: mapPaymentEvent_sound split: if_splits)

lemma gocardless_one_sound:
  assumes "gocardless_one pf cfg event w = (Inr es, w')"
  shows "list_all (event_sound (gc_merchantId cfg)) es"
  using assms by (auto simp: gocardless_one_def if_given_def best_effort_Inr andThen_Inr gocardless_envelope_def
      event_sound_def dest: gocardless_map_sound split: if_splits)

lemma gocardless_one_returns: "\<exists>es w'. gocardless_one pf cfg event w = (Inr es, w')"
  by (simp add: gocardless_one_def if_given_def best_effort_returns)

lemma gocardless_batch_sound:
  assumes "gocardless_batch pf cfg events w = (Inr es, w')"
  shows "list_all (event_sound (gc_merchantId cfg)) es"
  using assms by (induction events arbitrary: es w w') (auto simp: andThen_Inr dest!: gocardless_one_sound)

text \<open>No event of the batch makes the others fail: the adapter returns on every list of events.\<close>

lemma gocardless_batch_returns: "\<exists>es w'. gocardless_batch pf cfg events w = (Inr es, w')"
proof (induction events arbitrary: w)
  case (Cons e events)
  obtain out v where "gocardless_one pf cfg e w = (Inr out, v)"
    using gocardless_one_returns [of pf cfg e w] by blast
  moreover obtain rest v' where "gocardless_batch pf cfg events v = (Inr rest, v')" using Cons.IH by blast
  ultimately show ?case by (auto simp: andThen_Inr)
qed simp

lemma gocardless_charge_cases:
  assumes "gocardless_attemptCharge pf cfg invc pm key w = (Inr r, w')"
  obtains outcome txn replay t where "gocardless_charged pf invc pm key outcome txn replay t = (Inr r, w')"
proof -
  obtain q t where "(case_sum (\<lambda>f. if isIdempotentConflict f
        then gocardless_charged pf invc pm key Pending (inv_processorRef invc) True else rethrow f)
      (\<lambda>res. let payment = member res ''payments'' in
        gocardless_charged pf invc pm key (gocardless_outcome (fstr payment ''status''))
          (coalesce (fstr payment ''id'') (inv_processorRef invc)) False)) q t = (Inr r, w')"
    using assms by (auto simp: gocardless_attemptCharge_def andThen_Inr)
  then show thesis
    by (cases q) (auto simp: Let_def split: if_splits intro: that)
qed

lemma gocardless_charge_ok:
  assumes "gocardless_attemptCharge pf cfg invc pm key w = (Inr r, w')"
  shows "charge_ok invc pm key r"
  using assms
  by (elim gocardless_charge_cases) (auto simp: gocardless_charged_def andThen_Inr charge_ok_def)

interpretation gocardless: processor_adapter "gc_merchantId cfg" "\<lambda>raw w. gocardless_authentic pf cfg raw"
    "gocardless_ingest pf cfg" "gocardless_attemptCharge pf cfg" for pf cfg
proof
  fix raw w es w'
  assume i: "gocardless_ingest pf cfg raw w = (Inr es, w')"
  show "gocardless_authentic pf cfg raw"
    using i by (auto simp: gocardless_ingest_def split: if_splits)
  show "list_all (event_sound (gc_merchantId cfg)) es"
    using i by (auto simp: gocardless_ingest_def andThen_Inr dest!: gocardless_batch_sound split: if_splits)
qed (rule gocardless_charge_ok)

text \<open>A synchronous failure carries no decline code.\<close>

lemma gocardless_failure_without_code:
  assumes "gocardless_attemptCharge pf cfg invc pm key w = (Inr r, w')"
  shows "ca_declineCode (ar_attempt r) = None"
  using assms by (elim gocardless_charge_cases) (auto simp: gocardless_charged_def andThen_Inr)

end
