(* ===== verification/BraintreeAdapter.thy ===== *)
theory BraintreeAdapter
  imports AdapterKit
begin

text \<open>
  The Braintree adapter (\<open>packages/poal/src/adapters/braintree/\<close>): the XML field extractors of
  \<open>xml.ts\<close>, amounts in the currency's own number of decimals, a client that never throws on a
  status, signed form-encoded webhooks and the vault charge. The invoice of a subscription charge
  is named after the subscription, so every charge of a subscription is the same invoice.
\<close>

subsection \<open>XML extractors\<close>

text \<open>\<open><name(?:\s[^>]*)?>\<close>: the text after an opening tag.\<close>

definition after_open :: "string \<Rightarrow> string \<Rightarrow> string option" where
  "after_open name s = (case strip_nocase (''<'' @ name) s of
     None \<Rightarrow> None
   | Some [] \<Rightarrow> None
   | Some (c # r) \<Rightarrow> if c = CHR ''>'' then Some r
       else if is_space c then (case dropWhile (\<lambda>c. c \<noteq> CHR ''>'') r of [] \<Rightarrow> None | _ # body \<Rightarrow> Some body)
       else None)"

text \<open>\<open>([\s\S]*?)</name>\<close>: the text up to the first closing tag, and what follows it.\<close>

fun split_close :: "string \<Rightarrow> string \<Rightarrow> (string \<times> string) option" where
  "split_close close [] = (if close = [] then Some ([], []) else None)"
| "split_close close (c # s) =
     (case strip_nocase close (c # s) of
        Some r \<Rightarrow> Some ([], r)
      | None \<Rightarrow> map_option (\<lambda>(a, r). (c # a, r)) (split_close close s))"

definition element_at :: "string \<Rightarrow> string \<Rightarrow> (string \<times> string) option" where
  "element_at name s = (case after_open name s of None \<Rightarrow> None | Some r \<Rightarrow> split_close (''</'' @ name @ ''>'') r)"

definition xmlInner :: "string \<Rightarrow> string \<Rightarrow> string option" where
  "xmlInner xml name = map_option fst (scan (element_at name) xml)"

lemma strip_nocase_length: "strip_nocase p s = Some r \<Longrightarrow> length r = length s - length p"
  by (auto simp: strip_nocase_def split: if_splits)

lemma after_open_length:
  assumes "after_open name s = Some r"
  shows "length r < length s"
proof -
  obtain c t where t: "strip_nocase (''<'' @ name) s = Some (c # t)"
    using assms by (auto simp: after_open_def split: option.splits list.splits)
  have d: "length t \<ge> length (dropWhile (\<lambda>c. c \<noteq> CHR ''>'') t)" by (rule length_dropWhile_le)
  have "length r \<le> length t"
    using assms t d by (auto simp: after_open_def split: if_splits list.splits)
  moreover have "length (c # t) \<le> length s" using strip_nocase_length [OF t] by simp
  ultimately show ?thesis by simp
qed

lemma split_close_length: "split_close close s = Some (a, r) \<Longrightarrow> length r \<le> length s"
  by (induction close s arbitrary: a rule: split_close.induct)
     (force split: option.splits if_splits dest: strip_nocase_length)+

lemma element_at_length: "element_at name s = Some (a, r) \<Longrightarrow> length r < length s"
  by (auto simp: element_at_def split: option.splits dest!: after_open_length split_close_length)

lemma scan_element_length: "scan (element_at name) s = Some (a, r) \<Longrightarrow> length r < length s"
  by (rule scan_length [where f = "element_at name"]) (auto dest: element_at_length)

text \<open>All elements of the name, each search starting after the previous element: the text gets shorter.\<close>

function xmlBlocks :: "string \<Rightarrow> string \<Rightarrow> string list" where
  "xmlBlocks xml name =
     (case scan (element_at name) xml of None \<Rightarrow> [] | Some (inner, rest) \<Rightarrow> inner # xmlBlocks rest name)"
  by pat_completeness auto
termination
  by (relation "measure (length \<circ> fst)") (auto dest: scan_element_length)

declare xmlBlocks.simps [simp del]

text \<open>Replacing every occurrence of a literal, and the predefined entities.\<close>

fun replace_lit :: "string \<Rightarrow> string \<Rightarrow> nat \<Rightarrow> string \<Rightarrow> string" where
  "replace_lit p r skip [] = []"
| "replace_lit p r (Suc n) (c # s) = replace_lit p r n s"
| "replace_lit p r 0 (c # s) =
     (if take (length p) (c # s) = p then r @ replace_lit p r (length p - 1) s else c # replace_lit p r 0 s)"

definition decodeXml :: "string \<Rightarrow> string" where
  "decodeXml s =
     trim (replace_lit ''&amp;'' ''&'' 0
       (replace_lit ''&apos;'' [CHR 0x27] 0 (replace_lit ''&#39;'' [CHR 0x27] 0
         (replace_lit ''&quot;'' [CHR 0x22] 0 (replace_lit ''&gt;'' ''>'' 0 (replace_lit ''&lt;'' ''<'' 0 s))))))"

definition xmlLeaf :: "string \<Rightarrow> string \<Rightarrow> string option" where
  "xmlLeaf xml name = map_option decodeXml (xmlInner xml name)"

definition escapeXml :: "string \<Rightarrow> string" where
  "escapeXml v = replace_lit ''>'' ''&gt;'' 0 (replace_lit ''<'' ''&lt;'' 0 (replace_lit ''&'' ''&amp;'' 0 v))"

subsection \<open>The client\<close>

record BraintreeConfig =
  bt_merchantId :: ident
  bt_braintreeMerchantId :: string
  bt_publicKey :: string
  bt_privateKey :: string
  bt_environment :: "string option"
  bt_baseUrl :: "string option"

definition braintree_base :: "BraintreeConfig \<Rightarrow> string" where
  "braintree_base cfg = if_given (bt_baseUrl cfg) (\<lambda>u. u)
     (if bt_environment cfg = Some ''production'' then ''https://api.braintreegateway.com''
      else ''https://api.sandbox.braintreegateway.com'')"

definition braintree_request ::
  "'w Platform \<Rightarrow> BraintreeConfig \<Rightarrow> string \<Rightarrow> string \<Rightarrow> string option \<Rightarrow> ('w, PortResponse) eff" where
  "braintree_request pf cfg verb path xmlBody =
     pf_fetch pf \<lparr>rq_url = braintree_base cfg @ path, rq_verb = verb,
       rq_headers = [(''Authorization'', basic_auth pf (bt_publicKey cfg) (bt_privateKey cfg)), (''Accept'', ''application/xml''),
         (''X-ApiVersion'', ''6'')] @ (if xmlBody = None then [] else [(''Content-Type'', ''application/xml'')]),
       rq_body = xmlBody\<rparr>"

definition braintree_mid :: "BraintreeConfig \<Rightarrow> string" where
  "braintree_mid cfg = ''/merchants/'' @ encodeURIComponent (bt_braintreeMerchantId cfg)"

definition braintree_error :: "PortResponse \<Rightarrow> ('w, 'a) eff" where
  "braintree_error res =
     throw (JsError (coalesce (xmlLeaf (rp_text res) ''message'') (''Braintree error '' @ show_int (rp_status res))))"

subsection \<open>Amounts\<close>

definition CURRENCY_EXPONENT :: "(string \<times> nat) list" where
  "CURRENCY_EXPONENT =
     map (\<lambda>c. (c, 0)) [''JPY'', ''KRW'', ''VND'', ''CLP'', ''ISK'', ''XOF'', ''XAF'', ''XPF'', ''BIF'', ''DJF'',
       ''GNF'', ''KMF'', ''MGA'', ''PYG'', ''RWF'', ''UGX'', ''VUV''] @
     map (\<lambda>c. (c, 3)) [''BHD'', ''KWD'', ''OMR'', ''TND'', ''IQD'', ''JOD'', ''LYD'']"

definition currencyExponent :: "string \<Rightarrow> nat" where
  "currencyExponent currency = coalesce (map_of CURRENCY_EXPONENT (to_upper currency)) 2"

definition decimalToMinor :: "'w Platform \<Rightarrow> string option \<Rightarrow> string \<Rightarrow> int" where
  "decimalToMinor pf v currency =
     if_given v (\<lambda>t. case pf_parseFloat pf t of None \<Rightarrow> 0 | Some n \<Rightarrow> js_round (n * 10 ^ currencyExponent currency)) 0"

text \<open>\<open>toFixed(e)\<close> of the amount over \<open>10 ** e\<close>: the last \<open>e\<close> digits after the point.\<close>

fun last_digits :: "nat \<Rightarrow> nat \<Rightarrow> string" where
  "last_digits 0 n = []"
| "last_digits (Suc e) n = last_digits e (n div 10) @ [char_of (48 + n mod 10)]"

definition minorToDecimal :: "int \<Rightarrow> string \<Rightarrow> string" where
  "minorToDecimal minor currency =
     (let e = currencyExponent currency; n = nat \<bar>minor\<bar> in
      (if minor < 0 then ''-'' else '''') @ show_nat (n div 10 ^ e) @ (if e = 0 then '''' else ''.'' @ last_digits e n))"

definition SUCCESS_STATUSES :: "string list" where
  "SUCCESS_STATUSES = [''authorized'', ''submitted_for_settlement'', ''settling'', ''settlement_pending'',
     ''settlement_confirmed'', ''settled'']"

definition FAILED_STATUSES :: "string list" where
  "FAILED_STATUSES = [''processor_declined'', ''gateway_rejected'', ''settlement_declined'', ''failed'',
     ''authorization_expired'', ''voided'']"

definition mapTxnStatus :: "string \<Rightarrow> ChargeOutcome" where
  "mapTxnStatus status =
     (let s = to_lower status in
      if s \<in> set SUCCESS_STATUSES then Succeeded else if s \<in> set FAILED_STATUSES then Failed else Pending)"

subsection \<open>Mapping helpers\<close>

definition braintree_buildInvoice :: "BraintreeConfig \<Rightarrow> string \<Rightarrow> int \<Rightarrow> currency \<Rightarrow> iso \<Rightarrow> bool \<Rightarrow> Invoice" where
  "braintree_buildInvoice cfg ref amt cur occurredAt failed =
     \<lparr>inv_id = ''ax10m_inv_'' @ ref, inv_subscriptionId = prefixed ''ax10m_sub_'' (Some ref), inv_customerId = '''',
      inv_merchantId = bt_merchantId cfg, inv_processorRef = ref, inv_amount = \<lparr>amount = amt, money_currency = cur\<rparr>,
      inv_status = (if failed then InvOpen else InvPaid),
      inv_firstFailedAt = (if failed then Some occurredAt else None), inv_createdAt = occurredAt\<rparr>"

definition braintree_buildDecline :: "string \<Rightarrow> ident \<Rightarrow> ident \<Rightarrow> iso \<Rightarrow> DeclineEvent" where
  "braintree_buildDecline txn invoiceId chargeAttemptId occurredAt =
     (let code = mapBraintreeDeclineCode (xmlLeaf txn ''processor-response-code'') in
      \<lparr>dec_id = ''ax10m_dec_'' @ coalesce (xmlLeaf txn ''id'') invoiceId, dec_invoiceId = invoiceId,
       dec_chargeAttemptId = chargeAttemptId, dec_code = code, dec_family = familyOf code,
       dec_rawReason = or_else (xmlLeaf txn ''processor-response-text'') (xmlLeaf txn ''processor-response-code''),
       dec_occurredAt = occurredAt\<rparr>)"

text \<open>The month and year of a card are numbers when the element is there.\<close>

definition leaf_number :: "'w Platform \<Rightarrow> string \<Rightarrow> string \<Rightarrow> int option" where
  "leaf_number pf cc name =
     (if str_includes cc name then
        (case xmlLeaf cc name of None \<Rightarrow> None | Some t \<Rightarrow> map_option floor (pf_number pf t)) else None)"

definition mapCreditCard :: "'w Platform \<Rightarrow> string \<Rightarrow> Customer \<Rightarrow> PaymentMethod" where
  "mapCreditCard pf cc customer =
     (let token = coalesce (xmlLeaf cc ''token'') '''' in
      \<lparr>pm_id = ''ax10m_pm_'' @ token, pm_customerId = cust_id customer, pm_processorRef = token, pm_token = token,
       pm_brand = xmlLeaf cc ''card-type'', pm_last4 = xmlLeaf cc ''last-4'', pm_bin = xmlLeaf cc ''bin'',
       pm_expMonth = leaf_number pf cc ''expiration-month'', pm_expYear = leaf_number pf cc ''expiration-year'',
       pm_autoUpdated = None\<rparr>)"

subsection \<open>Webhooks\<close>

definition braintree_phone :: "string \<Rightarrow> string option" where
  "braintree_phone cust =
     (let intl = coalesce (xmlInner cust ''international-phone'') '''';
          cc = xmlLeaf intl ''country-code''; nn = xmlLeaf intl ''national-number'' in
      if given cc \<and> given nn then Some (''+'' @ coalesce cc '''' @ coalesce nn '''') else xmlLeaf cust ''phone'')"

definition braintree_charge_event :: "'w Platform \<Rightarrow> BraintreeConfig \<Rightarrow> string \<Rightarrow> iso \<Rightarrow> bool \<Rightarrow> AdapterPayload" where
  "braintree_charge_event pf cfg sub occurredAt failed =
     (let subId = coalesce (xmlLeaf sub ''id'') ''''; txn = coalesce (xmlInner sub ''transaction'') '''';
          cur = coalesce (xmlLeaf txn ''currency-iso-code'') ''USD'';
          invoice = braintree_buildInvoice cfg subId (decimalToMinor pf (xmlLeaf txn ''amount'') cur) cur occurredAt failed;
          attempt = buildAttempt (inv_id invoice) '''' '''' (inv_amount invoice) (if failed then Failed else Succeeded)
            (if failed then Some (mapBraintreeDeclineCode (xmlLeaf txn ''processor-response-code'')) else None)
            (xmlLeaf txn ''id'') occurredAt;
          cust = coalesce (xmlInner txn ''customer'') ''''
      in if failed then
           ApFailed invoice (Some attempt) (Some (braintree_buildDecline txn (inv_id invoice) (ca_id attempt) occurredAt))
             (Some (customerFromInvoice invoice (contactOverrides (xmlLeaf cust ''email'') (braintree_phone cust)))) None
         else ApPaid invoice (Some attempt))"

text \<open>Only a chargeback moves funds, and only the order id leads back to a recovery.\<close>

definition parseDisputeReversal :: "'w Platform \<Rightarrow> string \<Rightarrow> ReversalPayload option" where
  "parseDisputeReversal pf dispute =
     (let orderId = xmlLeaf (coalesce (xmlInner dispute ''transaction'') '''') ''order-id'';
          cur = coalesce (xmlLeaf dispute ''currency-iso-code'') ''USD'' in
      if to_lower (coalesce (xmlLeaf dispute ''kind'') '''') \<noteq> ''chargeback'' then None
      else if_given orderId (\<lambda>r.
        Some \<lparr>rev_invoiceId = ''ax10m_inv_'' @ r, rev_amount = decimalToMinor pf (xmlLeaf dispute ''amount'') cur,
             rev_currency = cur, rev_kind = Chargeback, rev_reason = xmlLeaf dispute ''reason''\<rparr>) None)"

definition braintree_envelope :: "'w Platform \<Rightarrow> BraintreeConfig \<Rightarrow> string \<Rightarrow> string \<Rightarrow> iso \<Rightarrow> AdapterPayload \<Rightarrow> AdapterEvent" where
  "braintree_envelope pf cfg evt ref occurredAt payload =
     \<lparr>ae_id = ''ax10m_evt_'' @ ref @ ''_'' @ pf_isoText pf occurredAt, ae_merchantId = bt_merchantId cfg,
      ae_processorEventId = evt @ '':'' @ ref @ '':'' @ pf_isoText pf occurredAt, ae_occurredAt = occurredAt,
      ae_payload = payload\<rparr>"

definition braintree_events :: "'w Platform \<Rightarrow> BraintreeConfig \<Rightarrow> string \<Rightarrow> AdapterEvent list" where
  "braintree_events pf cfg xml =
     (let evt = coalesce (xmlLeaf xml ''kind'') ''''; subject = coalesce (xmlInner xml ''subject'') '''';
          occurredAt = toIso (pf_parseDate pf) (xmlLeaf xml ''timestamp'');
          sub = coalesce (xmlInner subject ''subscription'') ''''; dispute = coalesce (xmlInner subject ''dispute'') '''' in
      if evt = ''subscription_charged_unsuccessfully'' \<or> evt = ''subscription_charged_successfully'' then
        [braintree_envelope pf cfg evt (coalesce (xmlLeaf sub ''id'') '''') occurredAt
           (braintree_charge_event pf cfg sub occurredAt (evt = ''subscription_charged_unsuccessfully''))]
      else if evt = ''dispute_opened'' \<or> evt = ''dispute_won'' then
        (case parseDisputeReversal pf dispute of
           None \<Rightarrow> []
         | Some r \<Rightarrow>
             [braintree_envelope pf cfg evt
                (coalesce (or_else (xmlLeaf dispute ''id'')
                  (xmlLeaf (coalesce (xmlInner dispute ''transaction'') '''') ''order-id'')) '''')
                occurredAt (if evt = ''dispute_won'' then ApReverted r else ApReversed r)])
      else [])"

definition form_get :: "(string \<times> string) list \<Rightarrow> string \<Rightarrow> string" where
  "form_get form k = coalesce (map_of form k) ''''"

definition braintree_authentic :: "'w Platform \<Rightarrow> BraintreeConfig \<Rightarrow> RawWebhook \<Rightarrow> bool" where
  "braintree_authentic pf cfg raw =
     (let form = parse_form (rw_body raw) in
      verifyBraintreeSignature (pf_hmacSha1 pf) (pf_sha1 pf) (form_get form ''bt_signature'') (form_get form ''bt_payload'')
        (bt_publicKey cfg) (bt_privateKey cfg))"

definition braintree_ingest :: "'w Platform \<Rightarrow> BraintreeConfig \<Rightarrow> RawWebhook \<Rightarrow> ('w, AdapterEvent list) eff" where
  "braintree_ingest pf cfg raw =
     (if \<not> braintree_authentic pf cfg raw then
        throw (JsError ''BraintreeAdapter.ingestWebhook: bt_signature verification failed'')
      else ok (braintree_events pf cfg (pf_base64Decode pf (form_get (parse_form (rw_body raw)) ''bt_payload''))))"

subsection \<open>Charging\<close>

definition braintree_charge_body :: "Invoice \<Rightarrow> PaymentMethod \<Rightarrow> string" where
  "braintree_charge_body invoice pm =
     ''<transaction><type>sale</type><amount>'' @
     minorToDecimal (amount (inv_amount invoice)) (money_currency (inv_amount invoice)) @
     ''</amount><payment-method-token>'' @ escapeXml (pm_processorRef pm) @
     ''</payment-method-token><order-id>'' @ escapeXml (inv_processorRef invoice) @
     ''</order-id><options><submit-for-settlement>true</submit-for-settlement></options></transaction>''"

text \<open>A duplicate rejection is a replay of a charge in flight; a response without a status is an error.\<close>

definition braintree_duplicate :: "string \<Rightarrow> string \<Rightarrow> bool" where
  "braintree_duplicate txn status =
     (mapTxnStatus status = Failed \<and> to_lower status = ''gateway_rejected'' \<and>
      map_option to_lower (xmlLeaf txn ''gateway-rejection-reason'') = Some ''duplicate'')"

definition braintree_outcome :: "string \<Rightarrow> string \<Rightarrow> ChargeOutcome" where
  "braintree_outcome txn status = (if braintree_duplicate txn status then Pending else mapTxnStatus status)"

definition braintree_result :: "Invoice \<Rightarrow> PaymentMethod \<Rightarrow> string \<Rightarrow> string \<Rightarrow> string \<Rightarrow> iso \<Rightarrow> AdapterResult" where
  "braintree_result invoice pm key txn status now =
     \<lparr>ar_attempt = buildAttempt (inv_id invoice) (pm_id pm) key (inv_amount invoice) (braintree_outcome txn status)
        (if braintree_outcome txn status = Failed
         then Some (mapBraintreeDeclineCode (xmlLeaf txn ''processor-response-code'')) else None)
        (xmlLeaf txn ''id'') now,
      ar_outcome = braintree_outcome txn status, ar_idempotentReplay = braintree_duplicate txn status\<rparr>"

definition braintree_charged ::
  "'w Platform \<Rightarrow> Invoice \<Rightarrow> PaymentMethod \<Rightarrow> string \<Rightarrow> PortResponse \<Rightarrow> ('w, AdapterResult) eff" where
  "braintree_charged pf invoice pm key res =
     (let txn = coalesce (xmlInner (rp_text res) ''transaction'') '''';
          status = (if txn = '''' then '''' else coalesce (xmlLeaf txn ''status'') '''') in
      if status = '''' then braintree_error res
      else andThen (pf_clock pf) (\<lambda>now. ok (braintree_result invoice pm key txn status now)))"

definition braintree_attemptCharge ::
  "'w Platform \<Rightarrow> BraintreeConfig \<Rightarrow> Invoice \<Rightarrow> PaymentMethod \<Rightarrow> string \<Rightarrow> ('w, AdapterResult) eff" where
  "braintree_attemptCharge pf cfg invoice pm key =
     andThen (braintree_request pf cfg ''POST'' (braintree_mid cfg @ ''/transactions'') (Some (braintree_charge_body invoice pm)))
       (braintree_charged pf invoice pm key)"

definition braintree_listOpenFailures :: "Cursor \<Rightarrow> ('w, OpenFailuresPage) eff" where
  "braintree_listOpenFailures cursor = ok \<lparr>op_invoices = [], op_nextCursor = None\<rparr>"

definition braintree_fetchUpdatedCard :: "PaymentMethod \<Rightarrow> ('w, PaymentMethod option) eff" where
  "braintree_fetchUpdatedCard pm = ok None"

definition braintree_listPaymentMethods ::
  "'w Platform \<Rightarrow> BraintreeConfig \<Rightarrow> Customer \<Rightarrow> ('w, PaymentMethod list) eff" where
  "braintree_listPaymentMethods pf cfg customer =
     andThen (braintree_request pf cfg ''GET'' (braintree_mid cfg @ ''/customers/'' @ encodeURIComponent (cust_processorRef customer)) None)
       (\<lambda>res. if \<not> rp_ok res then braintree_error res
         else ok (map (\<lambda>cc. mapCreditCard pf cc customer) (xmlBlocks (rp_text res) ''credit-card'')))"

subsection \<open>The contract\<close>

lemma braintree_events_sound: "list_all (event_sound (bt_merchantId cfg)) (braintree_events pf cfg xml)"
  by (auto simp: braintree_events_def braintree_charge_event_def braintree_envelope_def braintree_buildInvoice_def
      braintree_buildDecline_def event_sound_def payload_defs Let_def split: option.split)

lemma braintree_charge_ok:
  assumes "braintree_attemptCharge pf cfg invc pm key w = (Inr r, w')"
  shows "charge_ok invc pm key r"
proof -
  have "charge_ok invc pm key (braintree_result invc pm key txn status now)" for txn status now
    by (simp add: braintree_result_def charge_ok_def)
  then show ?thesis
    using assms by (auto simp: braintree_attemptCharge_def braintree_charged_def braintree_error_def andThen_Inr Let_def
        split: if_splits)
qed

interpretation braintree: processor_adapter "bt_merchantId cfg" "\<lambda>raw w. braintree_authentic pf cfg raw"
    "braintree_ingest pf cfg" "braintree_attemptCharge pf cfg" for pf cfg
proof
  fix raw w es w'
  assume i: "braintree_ingest pf cfg raw w = (Inr es, w')"
  show "braintree_authentic pf cfg raw"
    using i by (auto simp: braintree_ingest_def split: if_splits)
  show "list_all (event_sound (bt_merchantId cfg)) es"
    using i by (auto simp: braintree_ingest_def braintree_events_sound split: if_splits)
qed (rule braintree_charge_ok)

end
