(* ===== verification/WooCommerceAdapter.thy ===== *)
theory WooCommerceAdapter
  imports AdapterKit
begin

text \<open>
  The WooCommerce adapter (\<open>packages/poal/src/adapters/woocommerce/\<close>): signed order webhooks, where a
  refund of any kind wins over the order's status, a retry that the store's own gateway performs,
  and a poll by page number.
\<close>

subsection \<open>The client\<close>

record WooCommerceConfig =
  wc_storeUrl :: string
  wc_consumerKey :: string
  wc_consumerSecret :: string
  wc_webhookSecret :: string
  wc_merchantId :: ident
  wc_baseUrl :: "string option"

definition woo_base :: "WooCommerceConfig \<Rightarrow> string" where
  "woo_base cfg = coalesce (wc_baseUrl cfg)
     (rev (dropWhile (\<lambda>c. c = CHR ''/'') (rev (wc_storeUrl cfg))) @ ''/wp-json/wc/v3'')"

definition woo_auth :: "'w Platform \<Rightarrow> WooCommerceConfig \<Rightarrow> (string \<times> string) list" where
  "woo_auth pf cfg =
     [(''Authorization'', basic_auth pf (wc_consumerKey cfg) (wc_consumerSecret cfg)), (''Accept'', ''application/json'')]"

definition woo_parse :: "'w Platform \<Rightarrow> PortResponse \<Rightarrow> ('w, jsval client_result) eff" where
  "woo_parse pf =
     parse_response pf id message_only (\<lambda>body n. coalesce (fstr body ''message'') (''WooCommerce error '' @ show_int n))"

definition woo_get ::
  "'w Platform \<Rightarrow> WooCommerceConfig \<Rightarrow> string \<Rightarrow> (string \<times> string option) list \<Rightarrow> ('w, jsval client_result) eff" where
  "woo_get pf cfg path query = http_get pf (woo_parse pf) (woo_base cfg @ path) query (woo_auth pf cfg)"

definition woo_post ::
  "'w Platform \<Rightarrow> WooCommerceConfig \<Rightarrow> string \<Rightarrow> json \<Rightarrow> (string \<times> string) list \<Rightarrow> ('w, jsval client_result) eff" where
  "woo_post pf cfg path body extraHeaders =
     andThen (pf_fetch pf \<lparr>rq_url = woo_base cfg @ path, rq_verb = ''POST'',
       rq_headers = woo_auth pf cfg @ extraHeaders @ [(''Content-Type'', ''application/json'')],
       rq_body = Some (stringify body)\<rparr>) (woo_parse pf)"

subsection \<open>Mapping helpers\<close>

definition woo_outcome :: "string option \<Rightarrow> ChargeOutcome" where
  "woo_outcome status =
     (if status = Some ''processing'' \<or> status = Some ''completed'' then Succeeded
      else if status = Some ''failed'' then Failed else Pending)"

definition woo_time :: "'w Platform \<Rightarrow> jsval \<Rightarrow> iso" where
  "woo_time pf order = stamp (pf_parseDate pf) (or_else (fstr order ''date_modified_gmt'') (fstr order ''date_created_gmt''))"

definition mapOrder :: "'w Platform \<Rightarrow> WooCommerceConfig \<Rightarrow> jsval \<Rightarrow> iso \<Rightarrow> bool \<Rightarrow> Invoice" where
  "mapOrder pf cfg order occurredAt failed =
     \<lparr>inv_id = ''ax10m_inv_'' @ text_of pf (member order ''id''),
      inv_subscriptionId = prefixed_ref pf ''ax10m_sub_'' (member order ''subscription_id''),
      inv_customerId = coalesce (prefixed_ref pf ''ax10m_cus_'' (member order ''customer_id'')) '''',
      inv_merchantId = wc_merchantId cfg, inv_processorRef = text_of pf (member order ''id''),
      inv_amount = \<lparr>amount = majorToMinor pf (fstr order ''total''), money_currency = coalesce (fstr order ''currency'') ''USD''\<rparr>,
      inv_status = (if failed then InvOpen else InvPaid),
      inv_firstFailedAt = (if failed then Some occurredAt else None),
      inv_createdAt = (case fstr order ''date_created_gmt'' of Some t \<Rightarrow> pf_parseDate pf t | None \<Rightarrow> occurredAt)\<rparr>"

text \<open>The sum of the refund lines, which are negative; a refunded order without lines counts whole.\<close>

definition woo_refundedMinor :: "'w Platform \<Rightarrow> jsval \<Rightarrow> int" where
  "woo_refundedMinor pf order = foldl (\<lambda>sum r. sum + \<bar>majorToMinor pf (fstr r ''total'')\<bar>) 0 (flist order ''refunds'')"

definition mapRefund :: "'w Platform \<Rightarrow> jsval \<Rightarrow> ReversalPayload option" where
  "mapRefund pf order =
     (let refunded = woo_refundedMinor pf order;
          amt = (if 0 < refunded then refunded else majorToMinor pf (fstr order ''total'')) in
      if refunded \<le> 0 \<and> fstr order ''status'' \<noteq> Some ''refunded'' then None
      else if amt \<le> 0 then None
      else Some \<lparr>rev_invoiceId = ''ax10m_inv_'' @ text_of pf (member order ''id''), rev_amount = amt,
             rev_currency = coalesce (fstr order ''currency'') ''USD'', rev_kind = Refund,
             rev_reason = (case List.find (\<lambda>r. given (fstr r ''reason'')) (flist order ''refunds'') of
                Some r \<Rightarrow> fstr r ''reason'' | None \<Rightarrow> None)\<rparr>)"

definition woo_reason :: "jsval \<Rightarrow> string option" where
  "woo_reason order =
     or_else (fstr order ''failure_message'') (or_else (fstr order ''failure_code'') (fstr order ''customer_note''))"

definition woo_buildDecline :: "string option \<Rightarrow> ident \<Rightarrow> ident \<Rightarrow> iso \<Rightarrow> string \<Rightarrow> DeclineEvent" where
  "woo_buildDecline rawReason invoiceId chargeAttemptId occurredAt eventId =
     (let code = mapWooDeclineCode rawReason in
      \<lparr>dec_id = ''ax10m_dec_'' @ eventId, dec_invoiceId = invoiceId, dec_chargeAttemptId = chargeAttemptId, dec_code = code,
       dec_family = familyOf code, dec_rawReason = rawReason, dec_occurredAt = occurredAt\<rparr>)"

subsection \<open>Webhooks\<close>

definition woo_failed :: "'w Platform \<Rightarrow> WooCommerceConfig \<Rightarrow> jsval \<Rightarrow> iso \<Rightarrow> AdapterPayload" where
  "woo_failed pf cfg order occurredAt =
     (let invoice = mapOrder pf cfg order occurredAt True; eventId = text_of pf (member order ''id'');
          attempt = buildAttempt (inv_id invoice) '''' '''' (inv_amount invoice) Failed
            (Some (mapWooDeclineCode (woo_reason order))) (Some eventId) occurredAt;
          billing = member order ''billing''
      in ApFailed invoice (Some attempt)
           (Some (woo_buildDecline (woo_reason order) (inv_id invoice) (ca_id attempt) occurredAt eventId))
           (Some (customerFromInvoice invoice (contactOverrides (fstr billing ''email'') (fstr billing ''phone'')))) None)"

definition woo_paid :: "'w Platform \<Rightarrow> WooCommerceConfig \<Rightarrow> jsval \<Rightarrow> iso \<Rightarrow> AdapterPayload" where
  "woo_paid pf cfg order occurredAt =
     (let invoice = mapOrder pf cfg order occurredAt False in
      ApPaid invoice (Some (buildAttempt (inv_id invoice) '''' '''' (inv_amount invoice) Succeeded None
        (Some (text_of pf (member order ''id''))) occurredAt)))"

definition woo_order_event :: "'w Platform \<Rightarrow> WooCommerceConfig \<Rightarrow> jsval \<Rightarrow> iso \<Rightarrow> AdapterPayload list" where
  "woo_order_event pf cfg order occurredAt =
     (case mapRefund pf order of
        Some r \<Rightarrow> [ApReversed r]
      | None \<Rightarrow>
          (let status = fstr order ''status'' in
           if status = Some ''failed'' then [woo_failed pf cfg order occurredAt]
           else if status = Some ''completed'' \<or> status = Some ''processing'' then [woo_paid pf cfg order occurredAt]
           else []))"

definition woo_event :: "'w Platform \<Rightarrow> WooCommerceConfig \<Rightarrow> string \<Rightarrow> jsval \<Rightarrow> iso \<Rightarrow> AdapterPayload list" where
  "woo_event pf cfg topic order occurredAt =
     (if topic = ''order.refunded'' \<or> topic = ''order.updated'' \<or> topic = ''order.created'' then
        woo_order_event pf cfg order occurredAt
      else if topic = ''subscription.updated'' then
        [ApSubscription (text_of pf (nullish (member order ''subscription_id'') (member order ''id'')))
           (coalesce (fstr order ''status'') ''unknown'')]
      else [])"

definition woo_topic :: "RawWebhook \<Rightarrow> string" where
  "woo_topic raw = coalesce (headerLookup (rw_headers raw) ''x-wc-webhook-topic'') ''''"

definition woo_envelope :: "'w Platform \<Rightarrow> WooCommerceConfig \<Rightarrow> string \<Rightarrow> jsval \<Rightarrow> AdapterPayload \<Rightarrow> AdapterEvent" where
  "woo_envelope pf cfg topic order payload =
     (let eventId = text_of pf (member order ''id'') in
      \<lparr>ae_id = ''ax10m_evt_'' @ topic @ ''_'' @ eventId, ae_merchantId = wc_merchantId cfg, ae_processorEventId = eventId,
       ae_occurredAt = woo_time pf order, ae_payload = payload\<rparr>)"

definition woo_authentic :: "'w Platform \<Rightarrow> WooCommerceConfig \<Rightarrow> RawWebhook \<Rightarrow> bool" where
  "woo_authentic pf cfg raw =
     verifyWooSignature (pf_hmacBase64 pf) (rw_body raw) (headerLookup (rw_headers raw) ''x-wc-webhook-signature'') (wc_webhookSecret cfg)"

definition woo_ingest :: "'w Platform \<Rightarrow> WooCommerceConfig \<Rightarrow> RawWebhook \<Rightarrow> ('w, AdapterEvent list) eff" where
  "woo_ingest pf cfg raw =
     andThen (check_signature ''WooCommerceAdapter'' ''webhookSecret'' ''X-WC-Webhook-Signature'' (wc_webhookSecret cfg \<noteq> '''')
       (woo_authentic pf cfg raw)) (\<lambda>_.
     andThen (parse_webhook pf ''WooCommerceAdapter'' (rw_body raw)) (\<lambda>order.
       ok (map (woo_envelope pf cfg (woo_topic raw) order) (woo_event pf cfg (woo_topic raw) order (woo_time pf order)))))"

subsection \<open>Charging and polling\<close>

definition woo_charged ::
  "'w Platform \<Rightarrow> Invoice \<Rightarrow> PaymentMethod \<Rightarrow> string \<Rightarrow> jsval \<Rightarrow> ('w, AdapterResult) eff" where
  "woo_charged pf invoice pm key res =
     (let outcome = woo_outcome (fstr res ''status'');
          rawReason = or_else (fstr res ''failure_message'') (or_else (fstr res ''gateway_note'') (fstr res ''failure_code'')) in
      andThen (pf_clock pf) (\<lambda>now.
        ok \<lparr>ar_attempt = buildAttempt (inv_id invoice) (pm_id pm) key (inv_amount invoice) outcome
              (if outcome = Failed then Some (mapWooDeclineCode rawReason) else None) (Some (inv_processorRef invoice)) now,
            ar_outcome = outcome, ar_idempotentReplay = False\<rparr>))"

definition woo_attemptCharge ::
  "'w Platform \<Rightarrow> WooCommerceConfig \<Rightarrow> Invoice \<Rightarrow> PaymentMethod \<Rightarrow> string \<Rightarrow> ('w, AdapterResult) eff" where
  "woo_attemptCharge pf cfg invoice pm key =
     andThen (woo_post pf cfg (''/orders/'' @ encodeURIComponent (inv_processorRef invoice) @ ''/retry-payment'') (JObj [])
       [(''X-Idempotency-Key'', key)])
       (case_sum rethrow (woo_charged pf invoice pm key))"

text \<open>\<open>String(n)\<close>, where a cursor that is no number is \<open>NaN\<close>.\<close>

definition page_text :: "'w Platform \<Rightarrow> real option \<Rightarrow> string" where
  "page_text pf n = (case n of None \<Rightarrow> ''NaN'' | Some r \<Rightarrow> pf_showNumber pf r)"

definition woo_listOpenFailures :: "'w Platform \<Rightarrow> WooCommerceConfig \<Rightarrow> Cursor \<Rightarrow> ('w, OpenFailuresPage) eff" where
  "woo_listOpenFailures pf cfg cursor =
     (let page = if_given cursor (pf_number pf) (Some 1) in
      andThen (andThen (woo_get pf cfg ''/orders''
        [(''status'', Some ''failed''), (''per_page'', Some ''100''), (''page'', Some (page_text pf page))]) unwrap) (\<lambda>res.
        ok \<lparr>op_invoices = map (\<lambda>v. mapOrder pf cfg v (woo_time pf v) True) (as_list res),
            op_nextCursor = (if length (as_list res) = 100 then Some (page_text pf (map_option (\<lambda>n. n + 1) page)) else None)\<rparr>))"

definition woo_fetchUpdatedCard :: "PaymentMethod \<Rightarrow> ('w, PaymentMethod option) eff" where
  "woo_fetchUpdatedCard pm = ok None"

definition woo_listPaymentMethods :: "Customer \<Rightarrow> ('w, PaymentMethod list) eff" where
  "woo_listPaymentMethods customer = ok []"

subsection \<open>The contract\<close>

lemma mapRefund_positive: "mapRefund pf order = Some r \<Longrightarrow> 0 < rev_amount r"
  by (auto simp: mapRefund_def Let_def split: if_splits)

lemma woo_order_event_ok: "list_all (payload_ok (wc_merchantId cfg)) (woo_order_event pf cfg order occ)"
  by (auto simp: woo_order_event_def woo_failed_def woo_paid_def mapOrder_def woo_buildDecline_def payload_defs Let_def
      dest: mapRefund_positive split: option.split)

lemma woo_event_ok: "list_all (payload_ok (wc_merchantId cfg)) (woo_event pf cfg topic order occ)"
  by (simp add: woo_event_def woo_order_event_ok)

lemma woo_charge_ok:
  assumes "woo_attemptCharge pf cfg invc pm key w = (Inr r, w')"
  shows "charge_ok invc pm key r"
proof (rule charge_via [OF assms [unfolded woo_attemptCharge_def]])
  show "charge_ok invc pm key r" if "rethrow f t = (Inr r, t')" for f and t t' :: 'a
    using that by simp
  show "charge_ok invc pm key r" if "woo_charged pf invc pm key a t = (Inr r, t')" for a t t'
    using that by (auto simp: woo_charged_def Let_def andThen_Inr charge_ok_def split: if_splits)
qed

interpretation woocommerce: strict_adapter "wc_merchantId cfg" "\<lambda>raw w. woo_authentic pf cfg raw"
    "woo_ingest pf cfg" "woo_attemptCharge pf cfg" for pf cfg
proof
  fix raw w es w'
  assume i: "woo_ingest pf cfg raw w = (Inr es, w')"
  show "woo_authentic pf cfg raw"
    using i by (auto simp: woo_ingest_def andThen_Inr)
  show "list_all (event_ok (wc_merchantId cfg)) es"
    using i woo_event_ok [of cfg pf "woo_topic raw"]
    by (auto simp: woo_ingest_def andThen_Inr woo_envelope_def event_ok_def list_all_iff Let_def)
qed (rule woo_charge_ok)

text \<open>A later update of a partly refunded order that failed or was paid only reports the refund again.\<close>

lemma woo_refund_wins:
  assumes "mapRefund pf order = Some r" "topic = ''order.updated''"
  shows "woo_event pf cfg topic order occ = [ApReversed r]"
  using assms by (simp add: woo_event_def woo_order_event_def)

end
