(* ===== verification/MaxioAdapter.thy ===== *)
theory MaxioAdapter
  imports AdapterKit
begin

text \<open>
  The Maxio (Chargify) adapter (\<open>packages/poal/src/adapters/maxio/\<close>) with the parser of its webhook
  bodies: JSON, or a form whose bracketed keys spell a nested object. Dunning works on the
  subscription, so the canonical invoice is named after it.
\<close>

subsection \<open>Bracketed forms\<close>

text \<open>\<open>/^payload(\[.*\])?$/\<close> on a key, and \<open>/\[([^\]]*)\]/g\<close> on what follows: the segments. The dot does
  not match a line terminator.\<close>

definition bracket_path :: "string \<Rightarrow> string option" where
  "bracket_path key = (case strip_lit ''payload'' key of
     None \<Rightarrow> None
   | Some r \<Rightarrow> if 2 \<le> length r \<and> hd r = CHR ''['' \<and> last r = CHR '']'' \<and> CHR 0x0A \<notin> set r \<and> CHR 0x0D \<notin> set r
                then Some r else None)"

text \<open>One bracket at the head of the text, with what follows it.\<close>

fun bracket_at :: "string \<Rightarrow> (string \<times> string) option" where
  "bracket_at [] = None"
| "bracket_at (c # s) =
     (if c \<noteq> CHR ''['' then None
      else (case dropWhile (\<lambda>c. c \<noteq> CHR '']'') s of
              [] \<Rightarrow> None | _ # rest \<Rightarrow> Some (takeWhile (\<lambda>c. c \<noteq> CHR '']'') s, rest)))"

lemma bracket_at_length: "bracket_at s = Some (a, r) \<Longrightarrow> length r < length s"
proof (cases s)
  case (Cons c t)
  assume "bracket_at s = Some (a, r)"
  then have "dropWhile (\<lambda>c. c \<noteq> CHR '']'') t = CHR '']'' # r"
    using Cons dropWhile_eq_Cons_conv [of "\<lambda>c. c \<noteq> CHR '']''" t]
    by (auto split: if_splits list.splits)
  then show ?thesis using Cons length_dropWhile_le [of "\<lambda>c. c \<noteq> CHR '']''" t] by simp
qed simp

lemma scan_bracket_length: "scan bracket_at s = Some (a, r) \<Longrightarrow> length r < length s"
  by (rule scan_length [where f = bracket_at]) (auto dest: bracket_at_length)

function bracket_segments :: "string \<Rightarrow> string list" where
  "bracket_segments s =
     (case scan bracket_at s of None \<Rightarrow> [] | Some (seg, rest) \<Rightarrow> seg # bracket_segments rest)"
  by pat_completeness auto
termination
  by (relation "measure length") (auto dest: scan_bracket_length)

declare bracket_segments.simps [simp del]

subsection \<open>Nested objects\<close>

text \<open>A form's values are strings in objects. A member that is not an object is replaced by one.
  Own members only: a segment such as \<open>__proto__\<close> is an ordinary key here.\<close>

fun set_member :: "(string \<times> jsval) list \<Rightarrow> string \<Rightarrow> jsval \<Rightarrow> (string \<times> jsval) list" where
  "set_member [] k v = [(k, v)]"
| "set_member ((k', v') # fs) k v = (if k' = k then (k, v) # fs else (k', v') # set_member fs k v)"

fun object_fields :: "jsval \<Rightarrow> (string \<times> jsval) list" where
  "object_fields (VObj fs) = fs"
| "object_fields v = []"

fun setNested :: "(string \<times> jsval) list \<Rightarrow> string list \<Rightarrow> string \<Rightarrow> (string \<times> jsval) list" where
  "setNested fs [] v = fs"
| "setNested fs [k] v = set_member fs k (VStr v)"
| "setNested fs (k # k' # ks) v =
     set_member fs k (VObj (setNested (object_fields (member (VObj fs) k)) (k' # ks) v))"

fun getNested :: "jsval \<Rightarrow> string list \<Rightarrow> jsval" where
  "getNested v [] = v"
| "getNested v (k # ks) = getNested (member v k) ks"

lemma map_of_set_member [simp]: "map_of (set_member fs k v) k' = (if k' = k then Some v else map_of fs k')"
  by (induction fs k v rule: set_member.induct) auto

text \<open>What is set is read back, and nothing at a path that parts from it changes.\<close>

lemma get_setNested: "ks \<noteq> [] \<Longrightarrow> getNested (VObj (setNested fs ks v)) ks = VStr v"
  by (induction fs ks v rule: setNested.induct) auto

lemma get_setNested_other:
  "k \<noteq> k' \<Longrightarrow> getNested (VObj (setNested fs (k # ks) v)) (k' # ks') = getNested (VObj fs) (k' # ks')"
  by (cases ks) auto

text \<open>A webhook parsed into its event and payload.\<close>

definition form_payload :: "(string \<times> string) list \<Rightarrow> (string \<times> jsval) list" where
  "form_payload params =
     foldl (\<lambda>fs (key, v). case bracket_path key of None \<Rightarrow> fs | Some p \<Rightarrow> setNested fs (bracket_segments p) v) [] params"

definition parseMaxioWebhook :: "'w Platform \<Rightarrow> string \<Rightarrow> (string \<times> jsval) option" where
  "parseMaxioWebhook pf rawBody =
     (let trimmed = trim rawBody in
      if take 1 trimmed = ''{'' then
        (case pf_parseJson pf trimmed of
           None \<Rightarrow> None
         | Some j \<Rightarrow> if_given (fstr j ''event'') (\<lambda>e. Some (e, member j ''payload'')) None)
      else
        (let params = parse_form trimmed in
         if_given (map_of params ''event'') (\<lambda>e. Some (e, VObj (form_payload params))) None))"

subsection \<open>The client\<close>

record MaxioConfig =
  mx_apiKey :: string
  mx_subdomain :: string
  mx_merchantId :: ident
  mx_webhookSecret :: "string option"
  mx_baseUrl :: "string option"

definition maxio_reason :: "ClientFailure \<Rightarrow> string option" where
  "maxio_reason f = or_else (as_str (first_item (flist (cf_body f) ''errors''))) (fstr (cf_body f) ''error'')"

definition maxio_isPaymentFailure :: "ClientFailure \<Rightarrow> bool" where
  "maxio_isPaymentFailure f =
     (cf_status f = 422 \<and> (flist (cf_body f) ''errors'' \<noteq> [] \<or> given (fstr (cf_body f) ''error'')))"

definition maxio_url :: "MaxioConfig \<Rightarrow> string \<Rightarrow> string" where
  "maxio_url cfg path = coalesce (mx_baseUrl cfg) (''https://'' @ mx_subdomain cfg @ ''.chargify.com'') @ path"

definition maxio_parse :: "'w Platform \<Rightarrow> PortResponse \<Rightarrow> ('w, jsval client_result) eff" where
  "maxio_parse pf =
     parse_response pf id (\<lambda>raw. VObj [(''error'', VStr raw)])
       (\<lambda>body n. coalesce (or_else (as_str (first_item (flist body ''errors''))) (fstr body ''error''))
          (''Maxio error '' @ show_int n))"

definition maxio_get ::
  "'w Platform \<Rightarrow> MaxioConfig \<Rightarrow> string \<Rightarrow> (string \<times> string option) list \<Rightarrow> ('w, jsval client_result) eff" where
  "maxio_get pf cfg path query =
     http_get pf (maxio_parse pf) (maxio_url cfg path) query
       [(''Authorization'', basic_auth pf (mx_apiKey cfg) ''x''), (''Accept'', ''application/json'')]"

definition maxio_post ::
  "'w Platform \<Rightarrow> MaxioConfig \<Rightarrow> string \<Rightarrow> json \<Rightarrow> string \<Rightarrow> ('w, (jsval \<times> bool) client_result) eff" where
  "maxio_post pf cfg path body key =
     http_post pf (maxio_parse pf) ''idempotent-replayed'' (maxio_url cfg path)
       ([(''Authorization'', basic_auth pf (mx_apiKey cfg) ''x''), (''Content-Type'', ''application/json''),
         (''Accept'', ''application/json'')] @ keyed ''Idempotency-Key'' key)
       (stringify body)"

subsection \<open>Mapping helpers\<close>

text \<open>Cents given as a number or as text.\<close>

definition maxio_cents :: "'w Platform \<Rightarrow> jsval \<Rightarrow> int" where
  "maxio_cents pf v = (case v of VNum r \<Rightarrow> floor r
     | VStr s \<Rightarrow> if s = '''' then 0 else (case pf_number pf s of None \<Rightarrow> 0 | Some n \<Rightarrow> floor n)
     | _ \<Rightarrow> 0)"

definition maxio_time :: "'w Platform \<Rightarrow> jsval \<Rightarrow> iso" where
  "maxio_time pf v = toIso (pf_parseDate pf) (string_of pf v)"

definition mapSubscriptionInvoice :: "'w Platform \<Rightarrow> MaxioConfig \<Rightarrow> jsval \<Rightarrow> iso \<Rightarrow> bool \<Rightarrow> int \<Rightarrow> Invoice" where
  "mapSubscriptionInvoice pf cfg sub occurredAt failed amountInCents =
     (let subId = text_of pf (member sub ''id'') in
      \<lparr>inv_id = ''ax10m_inv_'' @ subId, inv_subscriptionId = prefixed ''ax10m_sub_'' (Some subId),
       inv_customerId = coalesce (prefixed ''ax10m_cus_'' (string_of pf (member (member sub ''customer'') ''id''))) '''',
       inv_merchantId = mx_merchantId cfg, inv_processorRef = subId,
       inv_amount = \<lparr>amount = amountInCents, money_currency = coalesce (fstr sub ''currency'') ''USD''\<rparr>,
       inv_status = (if failed then InvOpen else InvPaid),
       inv_firstFailedAt = (if failed then Some occurredAt else None),
       inv_createdAt = maxio_time pf (member sub ''created_at'')\<rparr>)"

definition maxio_buildDecline :: "string option \<Rightarrow> string \<Rightarrow> ident \<Rightarrow> ident \<Rightarrow> iso \<Rightarrow> DeclineEvent" where
  "maxio_buildDecline rawReason txnId invoiceId chargeAttemptId occurredAt =
     (let code = mapMaxioDeclineCode rawReason in
      \<lparr>dec_id = ''ax10m_dec_'' @ txnId, dec_invoiceId = invoiceId, dec_chargeAttemptId = chargeAttemptId, dec_code = code,
       dec_family = familyOf code, dec_rawReason = rawReason, dec_occurredAt = occurredAt\<rparr>)"

subsection \<open>Webhooks\<close>

definition maxio_eventId :: "'w Platform \<Rightarrow> RawWebhook \<Rightarrow> string \<Rightarrow> jsval \<Rightarrow> string" where
  "maxio_eventId pf raw event payload =
     coalesce (or_else (headerLookup (rw_headers raw) ''x-chargify-webhook-id'')
       (or_else (string_of pf (member (member payload ''transaction'') ''id''))
       (or_else (string_of pf (member (member payload ''subscription'') ''id''))
       (or_else (string_of pf (member payload ''event_id'')) (string_of pf (member payload ''refund_id'')))))) event"

definition maxio_occurredAt :: "'w Platform \<Rightarrow> jsval \<Rightarrow> iso" where
  "maxio_occurredAt pf payload =
     maxio_time pf (nullish (member (member payload ''transaction'') ''created_at'')
       (nullish (member (member payload ''subscription'') ''updated_at'') (member payload ''timestamp'')))"

definition maxio_failed :: "'w Platform \<Rightarrow> MaxioConfig \<Rightarrow> jsval \<Rightarrow> iso \<Rightarrow> AdapterPayload" where
  "maxio_failed pf cfg payload occurredAt =
     (let sub = member payload ''subscription''; txn = member payload ''transaction''; cust = member sub ''customer'';
          invoice = mapSubscriptionInvoice pf cfg sub occurredAt True (maxio_cents pf (member txn ''amount_in_cents''));
          rawReason = or_else (string_of pf (member txn ''memo'')) (string_of pf (member payload ''message''));
          txnId = string_of pf (member txn ''id'');
          attempt = buildAttempt (inv_id invoice) '''' '''' (inv_amount invoice) Failed (Some (mapMaxioDeclineCode rawReason))
            txnId occurredAt
      in ApFailed invoice (Some attempt)
           (Some (maxio_buildDecline rawReason (coalesce txnId (inv_processorRef invoice)) (inv_id invoice) (ca_id attempt) occurredAt))
           (Some (customerFromInvoice invoice (contactOverrides (fstr cust ''email'') (fstr cust ''phone'')))) None)"

definition maxio_paid :: "'w Platform \<Rightarrow> MaxioConfig \<Rightarrow> jsval \<Rightarrow> iso \<Rightarrow> AdapterPayload" where
  "maxio_paid pf cfg payload occurredAt =
     (let txn = member payload ''transaction'';
          invoice = mapSubscriptionInvoice pf cfg (member payload ''subscription'') occurredAt False
            (maxio_cents pf (member txn ''amount_in_cents'')) in
      ApPaid invoice (Some (buildAttempt (inv_id invoice) '''' '''' (inv_amount invoice) Succeeded None
        (string_of pf (member txn ''id'')) occurredAt)))"

definition maxio_refunded :: "'w Platform \<Rightarrow> jsval \<Rightarrow> AdapterPayload list" where
  "maxio_refunded pf payload =
     reversal_about ApReversed (string_of pf (member payload ''subscription_id''))
       (maxio_cents pf (member payload ''amount_in_cents''))
       (coalesce (string_of pf (member payload ''currency'')) ''USD'') Refund (string_of pf (member payload ''memo''))"

definition maxio_event :: "'w Platform \<Rightarrow> MaxioConfig \<Rightarrow> string \<Rightarrow> jsval \<Rightarrow> iso \<Rightarrow> AdapterPayload list" where
  "maxio_event pf cfg event payload occurredAt =
     (if event = ''payment_failure'' then [maxio_failed pf cfg payload occurredAt]
      else if event = ''payment_success'' \<or> event = ''renewal_success'' then [maxio_paid pf cfg payload occurredAt]
      else if event = ''refund_success'' then maxio_refunded pf payload
      else if event = ''subscription_state_change'' \<or> event = ''subscription_canceled'' then
        (let sub = member payload ''subscription'' in
         if_given (string_of pf (member sub ''id'')) (\<lambda>s.
           [ApSubscription s (coalesce (string_of pf (member sub ''state'')) ''unknown'')]) [])
      else [])"

definition maxio_authentic :: "'w Platform \<Rightarrow> MaxioConfig \<Rightarrow> RawWebhook \<Rightarrow> bool" where
  "maxio_authentic pf cfg raw =
     verifyMaxioSignature (pf_hmac pf) (rw_body raw)
       (headerLookup (rw_headers raw) ''x-chargify-webhook-signature-hmac-sha256'') (coalesce (mx_webhookSecret cfg) '''')"

definition maxio_envelope :: "'w Platform \<Rightarrow> MaxioConfig \<Rightarrow> RawWebhook \<Rightarrow> string \<times> jsval \<Rightarrow> AdapterPayload \<Rightarrow> AdapterEvent" where
  "maxio_envelope pf cfg raw parsed payload =
     (let eventId = maxio_eventId pf raw (fst parsed) (snd parsed) in
      \<lparr>ae_id = ''ax10m_evt_'' @ eventId, ae_merchantId = mx_merchantId cfg, ae_processorEventId = eventId,
       ae_occurredAt = maxio_occurredAt pf (snd parsed), ae_payload = payload\<rparr>)"

definition maxio_ingest :: "'w Platform \<Rightarrow> MaxioConfig \<Rightarrow> RawWebhook \<Rightarrow> ('w, AdapterEvent list) eff" where
  "maxio_ingest pf cfg raw =
     andThen (check_signature ''MaxioAdapter'' ''webhookSecret'' ''X-Chargify-Webhook-Signature-Hmac-Sha256''
       (given (mx_webhookSecret cfg)) (maxio_authentic pf cfg raw)) (\<lambda>_.
       ok (case parseMaxioWebhook pf (rw_body raw) of
             None \<Rightarrow> []
           | Some parsed \<Rightarrow> map (maxio_envelope pf cfg raw parsed)
               (maxio_event pf cfg (fst parsed) (snd parsed) (maxio_occurredAt pf (snd parsed)))))"

subsection \<open>Charging and polling\<close>

definition maxio_subRef :: "Invoice \<Rightarrow> string" where
  "maxio_subRef invoice = if_given (inv_subscriptionId invoice) (stripPrefix ''ax10m_sub_'') (inv_processorRef invoice)"

definition maxio_charged ::
  "'w Platform \<Rightarrow> Invoice \<Rightarrow> PaymentMethod \<Rightarrow> string \<Rightarrow> jsval \<times> bool \<Rightarrow> ('w, AdapterResult) eff" where
  "maxio_charged pf invoice pm key res =
     (let sub = member (fst res) ''subscription'';
          outcome = (if fstr sub ''state'' = Some ''active'' then Succeeded else Pending) in
      andThen (pf_clock pf) (\<lambda>now.
        ok \<lparr>ar_attempt = buildAttempt (inv_id invoice) (pm_id pm) key (inv_amount invoice) outcome None
              (Some (coalesce (string_of pf (member sub ''id'')) (maxio_subRef invoice))) now,
            ar_outcome = outcome, ar_idempotentReplay = False\<rparr>))"

definition maxio_declined ::
  "'w Platform \<Rightarrow> Invoice \<Rightarrow> PaymentMethod \<Rightarrow> string \<Rightarrow> ClientFailure \<Rightarrow> ('w, AdapterResult) eff" where
  "maxio_declined pf invoice pm key f =
     (if maxio_isPaymentFailure f then
        declined_charge pf invoice pm key (mapMaxioDeclineCode (maxio_reason f)) (Some (maxio_subRef invoice))
      else rethrow f)"

definition maxio_attemptCharge ::
  "'w Platform \<Rightarrow> MaxioConfig \<Rightarrow> Invoice \<Rightarrow> PaymentMethod \<Rightarrow> string \<Rightarrow> ('w, AdapterResult) eff" where
  "maxio_attemptCharge pf cfg invoice pm key =
     andThen (maxio_post pf cfg (''/subscriptions/'' @ encodeURIComponent (maxio_subRef invoice) @ ''/retry.json'') (JObj []) key)
       (case_sum (maxio_declined pf invoice pm key) (maxio_charged pf invoice pm key))"

definition maxio_listOpenFailures :: "'w Platform \<Rightarrow> MaxioConfig \<Rightarrow> Cursor \<Rightarrow> ('w, OpenFailuresPage) eff" where
  "maxio_listOpenFailures pf cfg cursor =
     (let page = if_given cursor (\<lambda>c. case pf_number pf c of None \<Rightarrow> 1 | Some n \<Rightarrow> if n = 0 then 1 else n) 1 in
      andThen (andThen (maxio_get pf cfg ''/subscriptions.json''
        [(''state'', Some ''past_due''), (''page'', Some (pf_showNumber pf page)), (''per_page'', Some ''100'')]) unwrap) (\<lambda>res.
        (let rows = (case res of VArr vs \<Rightarrow> vs | _ \<Rightarrow> flist res ''subscriptions'');
             subs = filter truthy (map (\<lambda>row. member row ''subscription'') rows) in
         ok \<lparr>op_invoices = map (\<lambda>s. mapSubscriptionInvoice pf cfg s
               (maxio_time pf (nullish (member s ''updated_at'') (member s ''created_at''))) True
               (coalesce (or_else (fint s ''balance_in_cents'') (fint s ''total_amount_in_cents'')) 0)) subs,
             op_nextCursor = (if length subs = 100 then Some (pf_showNumber pf (page + 1)) else None)\<rparr>)))"

definition maxio_fetchUpdatedCard :: "PaymentMethod \<Rightarrow> ('w, PaymentMethod option) eff" where
  "maxio_fetchUpdatedCard pm = ok None"

definition maxio_listPaymentMethods :: "Customer \<Rightarrow> ('w, PaymentMethod list) eff" where
  "maxio_listPaymentMethods customer = ok []"

subsection \<open>The contract\<close>

lemma maxio_event_ok: "list_all (payload_ok (mx_merchantId cfg)) (maxio_event pf cfg event payload occ)"
  by (simp add: maxio_event_def maxio_failed_def maxio_paid_def maxio_refunded_def mapSubscriptionInvoice_def
      maxio_buildDecline_def if_given_def payload_defs Let_def)

lemma maxio_charge_ok:
  assumes "maxio_attemptCharge pf cfg invc pm key w = (Inr r, w')"
  shows "charge_ok invc pm key r"
proof (rule charge_via [OF assms [unfolded maxio_attemptCharge_def]])
  show "charge_ok invc pm key r" if "maxio_declined pf invc pm key f t = (Inr r, t')" for f t t'
    using that by (auto simp: maxio_declined_def declined_charge_ok split: if_splits)
  show "charge_ok invc pm key r" if "maxio_charged pf invc pm key a t = (Inr r, t')" for a t t'
    using that by (auto simp: maxio_charged_def Let_def andThen_Inr charge_ok_def split: if_splits)
qed

interpretation maxio: strict_adapter "mx_merchantId cfg" "\<lambda>raw w. maxio_authentic pf cfg raw"
    "maxio_ingest pf cfg" "maxio_attemptCharge pf cfg" for pf cfg
proof
  fix raw w es w'
  assume i: "maxio_ingest pf cfg raw w = (Inr es, w')"
  show "maxio_authentic pf cfg raw"
    using i by (auto simp: maxio_ingest_def andThen_Inr)
  show "list_all (event_ok (mx_merchantId cfg)) es"
    using i maxio_event_ok [of cfg pf]
    by (auto simp: maxio_ingest_def andThen_Inr maxio_envelope_def event_ok_def list_all_iff Let_def split: option.splits)
qed (rule maxio_charge_ok)

text \<open>The invoice of a failure depends on the subscription only: a later renewal is the same invoice.\<close>

lemma maxio_renewals_share_invoice:
  "inv_id (mapSubscriptionInvoice pf cfg sub t f a) = inv_id (mapSubscriptionInvoice pf cfg sub u g b)"
  by (simp add: mapSubscriptionInvoice_def Let_def)

end
