(* ===== verification/AdyenAdapter.thy ===== *)
theory AdyenAdapter
  imports AdapterKit
begin

text \<open>
  The Adyen adapter (\<open>packages/poal/src/adapters/adyen/\<close>): a gateway whose notifications come in
  batches, each item with a signature of its own over the fields of \<open>adyenHmacData\<close>. A batch with
  one forged item is refused as a whole. Reversals carry no check of their amount.
\<close>

subsection \<open>The client\<close>

record AdyenConfig =
  ad_apiKey :: string
  ad_merchantAccount :: string
  ad_merchantId :: ident
  ad_hmacKey :: "string option"
  ad_baseUrl :: "string option"

definition adyen_parse :: "'w Platform \<Rightarrow> PortResponse \<Rightarrow> ('w, jsval client_result) eff" where
  "adyen_parse pf =
     parse_response pf id message_only (\<lambda>body n. coalesce (fstr body ''message'') (''Adyen error '' @ show_int n))"

definition adyen_url :: "AdyenConfig \<Rightarrow> string \<Rightarrow> string" where
  "adyen_url cfg path = coalesce (ad_baseUrl cfg) ''https://checkout-test.adyen.com/v71'' @ path"

definition adyen_post ::
  "'w Platform \<Rightarrow> AdyenConfig \<Rightarrow> string \<Rightarrow> json \<Rightarrow> string \<Rightarrow> ('w, (jsval \<times> bool) client_result) eff" where
  "adyen_post pf cfg path body key =
     http_post pf (adyen_parse pf) ''idempotency-replayed'' (adyen_url cfg path)
       ([(''X-API-Key'', ad_apiKey cfg), (''Content-Type'', ''application/json'')] @ keyed ''Idempotency-Key'' key)
       (stringify body)"

definition adyen_get ::
  "'w Platform \<Rightarrow> AdyenConfig \<Rightarrow> string \<Rightarrow> (string \<times> string option) list \<Rightarrow> ('w, jsval client_result) eff" where
  "adyen_get pf cfg path query =
     http_get pf (adyen_parse pf) (adyen_url cfg path) query [(''X-API-Key'', ad_apiKey cfg)]"

subsection \<open>Mapping helpers\<close>

text \<open>The items that are recovery-relevant, by event code.\<close>

definition ADYEN_CHARGEBACK_EVENT_CODES :: "string list" where
  "ADYEN_CHARGEBACK_EVENT_CODES = [''CHARGEBACK'', ''NOTIFICATION_OF_CHARGEBACK'', ''SECOND_CHARGEBACK'']"

definition adyen_amount :: "jsval \<Rightarrow> Money" where
  "adyen_amount item =
     (let a = member item ''amount'' in
      \<lparr>amount = coalesce (fint a ''value'') 0, money_currency = coalesce (fstr a ''currency'') ''USD''\<rparr>)"

definition adyen_mapInvoice :: "AdyenConfig \<Rightarrow> jsval \<Rightarrow> iso \<Rightarrow> bool \<Rightarrow> Invoice" where
  "adyen_mapInvoice cfg item occurredAt failed =
     (let ref = coalesce (fstr item ''merchantReference'') '''' in
      \<lparr>inv_id = ''ax10m_inv_'' @ ref, inv_subscriptionId = None, inv_customerId = '''',
       inv_merchantId = ad_merchantId cfg, inv_processorRef = ref, inv_amount = adyen_amount item,
       inv_status = (if failed then InvOpen else InvPaid),
       inv_firstFailedAt = (if failed then Some occurredAt else None), inv_createdAt = occurredAt\<rparr>)"

definition adyen_reason :: "jsval \<Rightarrow> string option" where
  "adyen_reason item = or_else (fstr item ''reason'') (fstr (member item ''additionalData'') ''refusalReasonRaw'')"

definition adyen_mapAttempt :: "'w Platform \<Rightarrow> jsval \<Rightarrow> ident \<Rightarrow> bool \<Rightarrow> ChargeAttempt" where
  "adyen_mapAttempt pf item invoiceId failed =
     buildAttempt invoiceId '''' '''' (adyen_amount item) (if failed then Failed else Succeeded)
       (if failed then Some (mapAdyenRefusalReason (adyen_reason item)) else None)
       (fstr item ''pspReference'') (toIso (pf_parseDate pf) (fstr item ''eventDate''))"

definition adyen_mapDecline :: "jsval \<Rightarrow> ident \<Rightarrow> ident \<Rightarrow> iso \<Rightarrow> DeclineEvent" where
  "adyen_mapDecline item invoiceId chargeAttemptId occurredAt =
     (let raw = adyen_reason item; code = mapAdyenRefusalReason raw in
      \<lparr>dec_id = ''ax10m_dec_'' @ coalesce (fstr item ''pspReference'') invoiceId,
       dec_invoiceId = invoiceId, dec_chargeAttemptId = chargeAttemptId, dec_code = code, dec_family = familyOf code,
       dec_rawReason = raw, dec_occurredAt = occurredAt\<rparr>)"

subsection \<open>Notifications\<close>

definition adyen_reversal :: "jsval \<Rightarrow> ReversalKind \<Rightarrow> string option \<Rightarrow> ReversalPayload" where
  "adyen_reversal item k reason =
     \<lparr>rev_invoiceId = ''ax10m_inv_'' @ coalesce (fstr item ''merchantReference'') '''',
      rev_amount = amount (adyen_amount item), rev_currency = money_currency (adyen_amount item),
      rev_kind = k, rev_reason = reason\<rparr>"

definition adyen_failed :: "'w Platform \<Rightarrow> AdyenConfig \<Rightarrow> jsval \<Rightarrow> iso \<Rightarrow> AdapterPayload" where
  "adyen_failed pf cfg item occurredAt =
     (let invoice = adyen_mapInvoice cfg item occurredAt True;
          attempt = adyen_mapAttempt pf item (inv_id invoice) True;
          decline = adyen_mapDecline item (inv_id invoice) (ca_id attempt) occurredAt;
          extra = member item ''additionalData'';
          customer = customerFromInvoice invoice (contactOverrides (fstr extra ''shopperEmail'') (fstr extra ''shopperTelephone''))
      in ApFailed invoice (Some attempt) (Some decline) (Some customer) None)"

definition adyen_paid :: "'w Platform \<Rightarrow> AdyenConfig \<Rightarrow> jsval \<Rightarrow> iso \<Rightarrow> AdapterPayload" where
  "adyen_paid pf cfg item occurredAt =
     (let invoice = adyen_mapInvoice cfg item occurredAt False in
      ApPaid invoice (Some (adyen_mapAttempt pf item (inv_id invoice) False)))"

definition adyen_mapReversal :: "jsval \<Rightarrow> ReversalKind \<Rightarrow> AdapterPayload option" where
  "adyen_mapReversal item k =
     (if fstr item ''success'' \<noteq> Some ''true'' then None
      else Some (ApReversed (adyen_reversal item k (fstr item ''reason''))))"

definition adyen_mapReversalReverted :: "jsval \<Rightarrow> AdapterPayload option" where
  "adyen_mapReversalReverted item =
     (if fstr item ''success'' \<noteq> Some ''true'' then None
      else Some (ApReverted (adyen_reversal item Chargeback
             (or_else (fstr item ''reason'') (Some ''chargeback_reversed'')))))"

definition adyen_payload :: "'w Platform \<Rightarrow> AdyenConfig \<Rightarrow> jsval \<Rightarrow> AdapterPayload option" where
  "adyen_payload pf cfg item =
     (let eventCode = coalesce (fstr item ''eventCode'') '''';
          occurredAt = toIso (pf_parseDate pf) (fstr item ''eventDate'') in
      if eventCode = ''REFUND'' \<or> List.member ADYEN_CHARGEBACK_EVENT_CODES eventCode then
        adyen_mapReversal item (if eventCode = ''REFUND'' then Refund else Chargeback)
      else if eventCode = ''CHARGEBACK_REVERSED'' then adyen_mapReversalReverted item
      else if eventCode \<noteq> ''AUTHORISATION'' then None
      else if fstr item ''success'' \<noteq> Some ''true'' then Some (adyen_failed pf cfg item occurredAt)
      else Some (adyen_paid pf cfg item occurredAt))"

definition adyen_mapItem :: "'w Platform \<Rightarrow> AdyenConfig \<Rightarrow> jsval \<Rightarrow> AdapterEvent option" where
  "adyen_mapItem pf cfg item =
     map_option (\<lambda>payload.
       \<lparr>ae_id = ''ax10m_evt_'' @ coalesce (fstr item ''pspReference'') (coalesce (fstr item ''merchantReference'') ''''),
        ae_merchantId = ad_merchantId cfg, ae_processorEventId = coalesce (fstr item ''pspReference'') '''',
        ae_occurredAt = toIso (pf_parseDate pf) (fstr item ''eventDate''), ae_payload = payload\<rparr>)
       (adyen_payload pf cfg item)"

text \<open>The fields of an item that its signature covers, and the signature.\<close>

definition notification_item :: "jsval \<Rightarrow> AdyenNotificationItem" where
  "notification_item item =
     \<lparr>an_pspReference = fstr item ''pspReference'', an_originalReference = fstr item ''originalReference'',
      an_merchantAccountCode = fstr item ''merchantAccountCode'', an_merchantReference = fstr item ''merchantReference'',
      an_value = fint (member item ''amount'') ''value'', an_currency = fstr (member item ''amount'') ''currency'',
      an_eventCode = fstr item ''eventCode'', an_success = fstr item ''success'',
      an_hmacSignature = fstr (member item ''additionalData'') ''hmacSignature''\<rparr>"

text \<open>\<open>Buffer.from(hmacKeyHex, 'hex')\<close> stops at the first pair that is not hexadecimal.\<close>

fun hex_bytes :: "string \<Rightarrow> string" where
  "hex_bytes (a # b # r) =
     (case (hex_digit_value a, hex_digit_value b) of (Some x, Some y) \<Rightarrow> char_of (16 * x + y) # hex_bytes r | _ \<Rightarrow> [])"
| "hex_bytes s = []"

definition adyen_verified :: "'w Platform \<Rightarrow> AdyenConfig \<Rightarrow> jsval \<Rightarrow> bool" where
  "adyen_verified pf cfg item =
     verifyAdyenHmac (\<lambda>key. pf_hmacBase64 pf (hex_bytes key)) (notification_item item) (coalesce (ad_hmacKey cfg) '''')"

text \<open>The loop over the items: an item that does not verify refuses the batch.\<close>

fun adyen_items :: "'w Platform \<Rightarrow> AdyenConfig \<Rightarrow> jsval list \<Rightarrow> js_error + AdapterEvent list" where
  "adyen_items pf cfg [] = Inr []"
| "adyen_items pf cfg (wrap # rest) =
     (let item = member wrap ''NotificationRequestItem'' in
      if wrap = VNull then Inl (TypeError ''Cannot read properties of null'')
      else if item = VNull then adyen_items pf cfg rest
      else if \<not> adyen_verified pf cfg item then
        Inl (JsError (''AdyenAdapter.ingestWebhook: HMAC verification failed (psp=''
          @ coalesce (fstr item ''pspReference'') ''?'' @ '')''))
      else bind_sum (adyen_items pf cfg rest) (\<lambda>es.
        Inr (case adyen_mapItem pf cfg item of None \<Rightarrow> es | Some e \<Rightarrow> e # es)))"

definition adyen_ingest :: "'w Platform \<Rightarrow> AdyenConfig \<Rightarrow> RawWebhook \<Rightarrow> ('w, AdapterEvent list) eff" where
  "adyen_ingest pf cfg raw =
     andThen (parse_webhook pf ''AdyenAdapter'' (rw_body raw)) (\<lambda>parsed.
       if \<not> given (ad_hmacKey cfg) then
         throw (JsError (''AdyenAdapter.ingestWebhook: hmacKey not configured '' @ emdash
           @ '' refusing to process unverified notification''))
       else lift_sum (adyen_items pf cfg (flist parsed ''notificationItems'')))"

text \<open>What an accepted batch was: a key is configured and every item verifies.\<close>

definition adyen_authentic :: "'w Platform \<Rightarrow> AdyenConfig \<Rightarrow> RawWebhook \<Rightarrow> bool" where
  "adyen_authentic pf cfg raw =
     (given (ad_hmacKey cfg) \<and>
      (case pf_parseJson pf (rw_body raw) of None \<Rightarrow> False
       | Some parsed \<Rightarrow> list_all (\<lambda>wrap. member wrap ''NotificationRequestItem'' = VNull \<or>
            adyen_verified pf cfg (member wrap ''NotificationRequestItem'')) (flist parsed ''notificationItems'')))"

subsection \<open>Charging\<close>

definition adyen_shopper :: "Invoice \<Rightarrow> PaymentMethod \<Rightarrow> string" where
  "adyen_shopper invoice pm =
     (let s = stripPrefix CUSTOMER_PREFIX (pm_customerId pm) in
      if s = '''' then stripPrefix CUSTOMER_PREFIX (inv_customerId invoice) else s)"

definition adyen_request :: "AdyenConfig \<Rightarrow> Invoice \<Rightarrow> PaymentMethod \<Rightarrow> json" where
  "adyen_request cfg invoice pm =
     JObj [(''merchantAccount'', JStr (ad_merchantAccount cfg)),
           (''amount'', JObj [(''value'', jint (amount (inv_amount invoice))),
                             (''currency'', JStr (money_currency (inv_amount invoice)))]),
           (''reference'', JStr (inv_processorRef invoice)),
           (''paymentMethod'', JObj [(''type'', JStr ''scheme''), (''storedPaymentMethodId'', JStr (pm_processorRef pm))]),
           (''shopperReference'', JStr (adyen_shopper invoice pm)),
           (''shopperInteraction'', JStr ''ContAuth''),
           (''recurringProcessingModel'', JStr ''Subscription'')]"

definition adyen_outcome :: "string \<Rightarrow> ChargeOutcome" where
  "adyen_outcome resultCode =
     (if resultCode = ''Authorised'' then Succeeded
      else if resultCode = ''Refused'' \<or> resultCode = ''Error'' \<or> resultCode = ''Cancelled'' then Failed
      else Pending)"

definition adyen_charged ::
  "'w Platform \<Rightarrow> Invoice \<Rightarrow> PaymentMethod \<Rightarrow> string \<Rightarrow> jsval \<times> bool \<Rightarrow> ('w, AdapterResult) eff" where
  "adyen_charged pf invoice pm key res =
     (let body = fst res;
          outcome = adyen_outcome (text_of pf (member body ''resultCode''));
          refusal = or_else (fstr body ''refusalReason'') (fstr (member body ''additionalData'') ''refusalReasonRaw'') in
      andThen (pf_clock pf) (\<lambda>now.
        ok \<lparr>ar_attempt = buildAttempt (inv_id invoice) (pm_id pm) key (inv_amount invoice) outcome
              (if outcome = Failed then Some (mapAdyenRefusalReason refusal) else None)
              (fstr body ''pspReference'') now,
            ar_outcome = outcome, ar_idempotentReplay = snd res\<rparr>))"

definition adyen_attemptCharge ::
  "'w Platform \<Rightarrow> AdyenConfig \<Rightarrow> Invoice \<Rightarrow> PaymentMethod \<Rightarrow> string \<Rightarrow> ('w, AdapterResult) eff" where
  "adyen_attemptCharge pf cfg invoice pm key =
     andThen (adyen_post pf cfg ''/payments'' (adyen_request cfg invoice pm) key)
       (case_sum rethrow (adyen_charged pf invoice pm key))"

definition adyen_listOpenFailures :: "Cursor \<Rightarrow> ('w, OpenFailuresPage) eff" where
  "adyen_listOpenFailures cursor = ok \<lparr>op_invoices = [], op_nextCursor = None\<rparr>"

definition adyen_fetchUpdatedCard :: "PaymentMethod \<Rightarrow> ('w, PaymentMethod option) eff" where
  "adyen_fetchUpdatedCard pm = ok None"

text \<open>\<open>sp.expiryMonth ? Number(sp.expiryMonth) : undefined\<close>\<close>

definition truthy_number :: "'w Platform \<Rightarrow> jsval \<Rightarrow> int option" where
  "truthy_number pf v =
     (if \<not> truthy v then None
      else map_option floor (case v of VNum r \<Rightarrow> Some r | VStr s \<Rightarrow> pf_number pf s | _ \<Rightarrow> None))"

definition mapStoredMethod :: "'w Platform \<Rightarrow> jsval \<Rightarrow> Customer \<Rightarrow> PaymentMethod" where
  "mapStoredMethod pf sp customer =
     (let ref = text_of pf (member sp ''id'') in
      \<lparr>pm_id = ''ax10m_pm_'' @ ref, pm_customerId = cust_id customer, pm_processorRef = ref, pm_token = ref,
       pm_brand = fstr sp ''brand'', pm_last4 = fstr sp ''lastFour'', pm_bin = None,
       pm_expMonth = truthy_number pf (member sp ''expiryMonth''),
       pm_expYear = truthy_number pf (member sp ''expiryYear''), pm_autoUpdated = None\<rparr>)"

definition adyen_listPaymentMethods :: "'w Platform \<Rightarrow> AdyenConfig \<Rightarrow> Customer \<Rightarrow> ('w, PaymentMethod list) eff" where
  "adyen_listPaymentMethods pf cfg customer =
     andThen (adyen_get pf cfg ''/storedPaymentMethods''
        [(''shopperReference'', Some (cust_processorRef customer)), (''merchantAccount'', Some (ad_merchantAccount cfg))]) (\<lambda>r.
     andThen (unwrap r) (\<lambda>res.
       ok (map (\<lambda>sp. mapStoredMethod pf sp customer) (flist res ''storedPaymentMethods''))))"

subsection \<open>The contract\<close>

lemma adyen_payload_sound: "adyen_payload pf cfg item = Some p \<Longrightarrow> payload_sound (ad_merchantId cfg) p"
  by (auto simp: adyen_payload_def adyen_mapReversal_def adyen_mapReversalReverted_def adyen_failed_def adyen_paid_def
      adyen_mapInvoice_def adyen_mapAttempt_def adyen_mapDecline_def payload_defs Let_def split: if_splits)

lemma adyen_mapItem_sound: "adyen_mapItem pf cfg item = Some e \<Longrightarrow> event_sound (ad_merchantId cfg) e"
  by (auto simp: adyen_mapItem_def event_sound_def dest: adyen_payload_sound)

lemma adyen_items_sound: "adyen_items pf cfg ws = Inr es \<Longrightarrow> list_all (event_sound (ad_merchantId cfg)) es"
  by (induction ws arbitrary: es)
     (auto simp: Let_def adyen_mapItem_sound split: if_splits option.splits)

lemma adyen_items_verified:
  "adyen_items pf cfg ws = Inr es \<Longrightarrow>
     list_all (\<lambda>wrap. member wrap ''NotificationRequestItem'' = VNull \<or>
       adyen_verified pf cfg (member wrap ''NotificationRequestItem'')) ws"
  by (induction ws arbitrary: es) (auto simp: Let_def split: if_splits)

lemma adyen_charge_ok:
  assumes "adyen_attemptCharge pf cfg invc pm key w = (Inr r, w')"
  shows "charge_ok invc pm key r"
  by (rule charge_via [OF assms [unfolded adyen_attemptCharge_def]])
     (auto simp: adyen_charged_def Let_def andThen_Inr charge_ok_def split: if_splits)

interpretation adyen: processor_adapter "ad_merchantId cfg" "\<lambda>raw w. adyen_authentic pf cfg raw"
    "adyen_ingest pf cfg" "adyen_attemptCharge pf cfg" for pf cfg
proof
  fix raw w es w'
  assume i: "adyen_ingest pf cfg raw w = (Inr es, w')"
  show "adyen_authentic pf cfg raw"
    using i adyen_items_verified [of pf cfg]
    by (auto simp: adyen_ingest_def andThen_Inr adyen_authentic_def parse_webhook_def split: if_splits option.splits)
  show "list_all (event_sound (ad_merchantId cfg)) es"
    using i by (auto simp: adyen_ingest_def andThen_Inr adyen_items_sound split: if_splits)
qed (rule adyen_charge_ok)

text \<open>Nothing of a batch is processed when one of its items is forged.\<close>

lemma adyen_forged_item_refuses_batch:
  assumes "item \<in> set (map (\<lambda>wrap. member wrap ''NotificationRequestItem'') ws)" "item \<noteq> VNull"
    and "\<not> adyen_verified pf cfg item"
  shows "\<exists>e. adyen_items pf cfg ws = Inl e"
proof (cases "adyen_items pf cfg ws")
  case (Inr es)
  then show ?thesis using adyen_items_verified [OF Inr] assms by (auto simp: list_all_iff)
qed simp

text \<open>The signature leaves the reason, the date and the contact of an item open: two items that agree
  on the signed fields are both accepted, whatever their reasons.\<close>

lemma adyen_reason_unsigned:
  assumes "notification_item a = notification_item b"
  shows "adyen_verified pf cfg a = adyen_verified pf cfg b"
  using assms by (simp add: adyen_verified_def)

end
