(* ===== verification/AdvisoryAdapters.thy ===== *)
theory AdvisoryAdapters
  imports Registry AdapterKit
begin

text \<open>
  The advisory adapters (\<open>adapters/bigcommerce/\<close>, \<open>kajabi/\<close>, \<open>samcart/\<close>, \<open>thrivecart/\<close>): they verify
  and normalize webhooks for measurement, and inherit from \<open>BaseAdapter\<close> that they never charge.
  Their file-local helpers are copies of each other; the first subsection models them once.
\<close>

subsection \<open>The helpers each file repeats\<close>

text \<open>The keywords of \<open>mapDeclineReason\<close> in the order its tests have.\<close>

definition ADVISORY_DECLINE_RULES :: "(string \<times> DeclineCode) list" where
  "ADVISORY_DECLINE_RULES =
    [(''insufficient'', InsufficientFunds), (''expired'', ExpiredCard), (''lost'', LostCard),
     (''stolen'', StolenCard), (''closed'', ClosedAccount), (''pickup'', PickupCard),
     (''pick up'', PickupCard), (''not support'', CardNotSupported), (''unsupported'', CardNotSupported),
     (''revok'', RevocationOfAuthorization), (''revoc'', RevocationOfAuthorization), (''fraud'', Fraudulent),
     (''authentication'', AuthenticationRequired), (''3d'', AuthenticationRequired),
     (''velocity'', VelocityLimitExceeded), (''limit'', VelocityLimitExceeded),
     (''unavailable'', IssuerUnavailable), (''unreachable'', IssuerUnavailable), (''issuer'', IssuerUnavailable),
     (''try again'', TryAgainLater), (''retry'', TryAgainLater), (''processing'', ProcessingError),
     (''invalid'', InvalidCard), (''do not honor'', DoNotHonor), (''do_not_honor'', DoNotHonor),
     (''declined'', DoNotHonor), (''decline'', DoNotHonor)]"

definition advisory_mapDeclineReason :: "string option \<Rightarrow> DeclineCode" where
  "advisory_mapDeclineReason =
     of_raw (\<lambda>raw. coalesce (first_rule ADVISORY_DECLINE_RULES (to_lower raw)) UnknownDecline)"

definition mapBigCommerceDeclineReason :: "string option \<Rightarrow> DeclineCode" where
  "mapBigCommerceDeclineReason raw = advisory_mapDeclineReason raw"

definition mapKajabiDeclineReason :: "string option \<Rightarrow> DeclineCode" where
  "mapKajabiDeclineReason raw = advisory_mapDeclineReason raw"

definition mapThriveCartDeclineReason :: "string option \<Rightarrow> DeclineCode" where
  "mapThriveCartDeclineReason raw = advisory_mapDeclineReason raw"

definition mapSamCartDeclineReason :: "string option \<Rightarrow> DeclineCode" where
  "mapSamCartDeclineReason raw = advisory_mapDeclineReason raw"

text \<open>No driven attempt: the decline names none.\<close>

definition advisory_buildDecline :: "(string option \<Rightarrow> DeclineCode) \<Rightarrow> ident \<Rightarrow> string \<Rightarrow> string \<Rightarrow> iso \<Rightarrow> DeclineEvent" where
  "advisory_buildDecline map_reason invoiceId ref rawReason occurredAt =
     (let code = map_reason (Some rawReason) in
      \<lparr>dec_id = ''ax10m_dec_'' @ ref, dec_invoiceId = invoiceId, dec_chargeAttemptId = '''', dec_code = code,
       dec_family = familyOf code, dec_rawReason = Some rawReason, dec_occurredAt = occurredAt\<rparr>)"

text \<open>The buyer's identifier, or a digest of the email.\<close>

definition advisory_customerKey :: "'w Platform \<Rightarrow> jsval \<Rightarrow> string option \<Rightarrow> string" where
  "advisory_customerKey pf v email =
     (if given (string_of pf v) then coalesce (string_of pf v) ''''
      else if_given email (\<lambda>e. ''email_'' @ take 16 (pf_sha256 pf (to_lower (trim e)))) '''')"

text \<open>\<open>new Date(n)\<close> drops a fraction of a millisecond.\<close>

definition trunc :: "real \<Rightarrow> int" where
  "trunc r = (if 0 \<le> r then \<lfloor>r\<rfloor> else \<lceil>r\<rceil>)"

definition iso_of_number :: "real \<Rightarrow> js_error + iso" where
  "iso_of_number n = to_iso_string (Some (trunc (if n < 10 ^ 12 then n * 1000 else n)))"

definition advisory_toIso :: "'w Platform \<Rightarrow> jsval \<Rightarrow> ('w, iso) eff" where
  "advisory_toIso pf v =
     (case v of
        VNum n \<Rightarrow> lift_sum (iso_of_number n)
      | VStr s \<Rightarrow> (case pf_parseDate pf s of Some t \<Rightarrow> ok (Some t) | None \<Rightarrow> pf_clock pf)
      | _ \<Rightarrow> pf_clock pf)"

text \<open>The invoice of an order, from what each body says of it.\<close>

definition advisory_invoice ::
  "ident \<Rightarrow> string \<Rightarrow> string option \<Rightarrow> string \<Rightarrow> int \<Rightarrow> currency \<Rightarrow> iso \<Rightarrow> bool \<Rightarrow> Invoice" where
  "advisory_invoice merchant ref sub custKey amt cur occurredAt failed =
     \<lparr>inv_id = ''ax10m_inv_'' @ ref, inv_subscriptionId = sub,
      inv_customerId = (if custKey = '''' then '''' else CUSTOMER_PREFIX @ custKey),
      inv_merchantId = merchant, inv_processorRef = ref,
      inv_amount = \<lparr>amount = amt, money_currency = cur\<rparr>, inv_status = (if failed then InvOpen else InvPaid),
      inv_firstFailedAt = (if failed then Some occurredAt else None), inv_createdAt = occurredAt\<rparr>"

definition advisory_failed ::
  "(string option \<Rightarrow> DeclineCode) \<Rightarrow> Invoice \<Rightarrow> string \<Rightarrow> string option \<Rightarrow> iso \<Rightarrow> AdapterPayload" where
  "advisory_failed map_reason invoice ref reason occurredAt =
     ApFailed invoice None
       (if_given reason (\<lambda>r. Some (advisory_buildDecline map_reason (inv_id invoice) ref r occurredAt)) None) None None"

definition advisory_envelope :: "ident \<Rightarrow> string \<Rightarrow> iso \<Rightarrow> AdapterPayload \<Rightarrow> AdapterEvent" where
  "advisory_envelope merchant eventId occurredAt payload =
     \<lparr>ae_id = ''ax10m_evt_'' @ eventId, ae_merchantId = merchant, ae_processorEventId = eventId,
      ae_occurredAt = occurredAt, ae_payload = payload\<rparr>"

lemma advisory_failed_ok [simp]:
  "inv_merchantId invc = m \<Longrightarrow> inv_firstFailedAt invc \<noteq> None \<Longrightarrow>
     payload_ok m (advisory_failed map_reason invc ref reason occ)"
  by (simp add: advisory_failed_def advisory_buildDecline_def if_given_def payload_defs Let_def)

lemma advisory_envelope_ok [simp]: "event_ok m (advisory_envelope m eid occ p) \<longleftrightarrow> payload_ok m p"
  by (simp add: advisory_envelope_def event_ok_def)

lemma advisory_events_ok [simp]:
  "list_all (event_ok m) (map (advisory_envelope m eid occ) ps) \<longleftrightarrow> list_all (payload_ok m) ps"
  by (simp add: list.pred_map comp_def)

lemma advisory_invoice_sel [simp]:
  "inv_merchantId (advisory_invoice m ref sub k a c occ failed) = m"
  "inv_firstFailedAt (advisory_invoice m ref sub k a c occ failed) = (if failed then Some occ else None)"
  by (simp_all add: advisory_invoice_def)

text \<open>A reason that names the issuer reads as an unavailable issuer, though it says it declined.\<close>

lemma declined_by_issuer_reads_unavailable:
  "advisory_mapDeclineReason (Some ''Declined by issuer'') = IssuerUnavailable"
  by code_simp

subsection \<open>BigCommerce\<close>

record BigCommerceConfig =
  bc_merchantId :: ident
  bc_webhookSecret :: string
  bc_storeHash :: "string option"
  bc_accessToken :: "string option"
  bc_signatureHeader :: "string option"

text \<open>The checks of the HMAC adapters: the digest in hexadecimal.\<close>

definition verifyBigCommerceSignature :: "'w Platform \<Rightarrow> string \<Rightarrow> string \<Rightarrow> string option \<Rightarrow> ('w, unit) eff" where
  "verifyBigCommerceSignature pf secret rawBody provided =
     check_signature ''BigCommerceAdapter'' ''webhookSecret'' ''webhook signature'' (secret \<noteq> '''')
       (buffers_equal (coalesce provided '''') (pf_hmac pf secret rawBody))"

datatype OrderStatusKind = OsFailed | OsPaid | OsChurn | OsIgnore

definition classifyOrderStatus :: "string \<Rightarrow> OrderStatusKind" where
  "classifyOrderStatus status =
     (if status = '''' then OsIgnore
      else if str_includes status ''declined'' \<or> str_includes status ''payment review'' \<or> str_includes status ''failed'' then OsFailed
      else if str_includes status ''refunded'' \<or> str_includes status ''cancel'' then OsChurn
      else if str_includes status ''completed'' \<or> str_includes status ''paid''
           \<or> str_includes status ''awaiting fulfillment'' \<or> str_includes status ''shipped'' then OsPaid
      else OsIgnore)"

definition bigcommerce_buildInvoice :: "'w Platform \<Rightarrow> BigCommerceConfig \<Rightarrow> string \<Rightarrow> jsval \<Rightarrow> iso \<Rightarrow> bool \<Rightarrow> Invoice" where
  "bigcommerce_buildInvoice pf cfg ref data occurredAt failed =
     advisory_invoice (bc_merchantId cfg) ref (prefixed_ref pf ''ax10m_sub_'' (member data ''subscription_id''))
       (advisory_customerKey pf (member data ''customer_id'') (fstr data ''email''))
       (decimal_minor pf (nullish (member data ''total_inc_tax'') (member data ''total'')))
       (coalesce (fstr data ''currency_code'') ''USD'') occurredAt failed"

definition bigcommerce_order :: "'w Platform \<Rightarrow> BigCommerceConfig \<Rightarrow> string \<Rightarrow> jsval \<Rightarrow> iso \<Rightarrow> AdapterPayload list" where
  "bigcommerce_order pf cfg ref data occurredAt =
     (let status = to_lower (coalesce (or_else (fstr data ''status'') (fstr data ''new_status'')) '''') in
      case classifyOrderStatus status of
        OsFailed \<Rightarrow> [advisory_failed mapBigCommerceDeclineReason (bigcommerce_buildInvoice pf cfg ref data occurredAt True) ref
            (or_else (fstr data ''decline_reason'') (fstr data ''payment_error'')) occurredAt]
      | OsPaid \<Rightarrow> [ApPaid (bigcommerce_buildInvoice pf cfg ref data occurredAt False) None]
      | OsChurn \<Rightarrow> [ApSubscription (coalesce (string_of pf (member data ''subscription_id'')) ref)
            (if status = '''' then ''canceled'' else status)]
      | OsIgnore \<Rightarrow> [])"

definition bigcommerce_event :: "'w Platform \<Rightarrow> BigCommerceConfig \<Rightarrow> string \<Rightarrow> string \<Rightarrow> jsval \<Rightarrow> iso \<Rightarrow> AdapterPayload list" where
  "bigcommerce_event pf cfg scope ref data occurredAt =
     (if starts_with ''store/subscription'' scope then
        [ApSubscription
           (coalesce (string_of pf (nullish (member data ''subscription_id'') (member data ''id''))) ref)
           (coalesce (or_else (fstr data ''status'') (fstr data ''new_status'')) ''unknown'')]
      else if starts_with ''store/order'' scope then bigcommerce_order pf cfg ref data occurredAt
      else [])"

definition bigcommerce_ingest :: "'w Platform \<Rightarrow> BigCommerceConfig \<Rightarrow> RawWebhook \<Rightarrow> ('w, AdapterEvent list) eff" where
  "bigcommerce_ingest pf cfg raw =
     andThen (verifyBigCommerceSignature pf (bc_webhookSecret cfg) (rw_body raw)
       (headerLookup (rw_headers raw) (coalesce (bc_signatureHeader cfg) ''x-bc-signature''))) (\<lambda>_.
     andThen (parse_webhook pf ''BigCommerceAdapter'' (rw_body raw)) (\<lambda>event.
     (let data = member event ''data'';
          scope = coalesce (fstr event ''scope'') '''';
          ref = text_of pf (nullish (member data ''order_id'') (member data ''id'')) in
      andThen (advisory_toIso pf (member event ''created_at'')) (\<lambda>occurredAt.
      (let eventId = coalesce (fstr event ''hash'')
             (scope @ '':'' @ ref @ '':'' @ text_of pf (member event ''created_at'')) in
       ok (map (advisory_envelope (bc_merchantId cfg) eventId occurredAt)
             (bigcommerce_event pf cfg scope ref data occurredAt)))))))"

definition bigcommerce_authentic :: "'w Platform \<Rightarrow> BigCommerceConfig \<Rightarrow> RawWebhook \<Rightarrow> bool" where
  "bigcommerce_authentic pf cfg raw =
     (bc_webhookSecret cfg \<noteq> '''' \<and>
      coalesce (headerLookup (rw_headers raw) (coalesce (bc_signatureHeader cfg) ''x-bc-signature'')) ''''
        = pf_hmac pf (bc_webhookSecret cfg) (rw_body raw))"

lemma bigcommerce_event_ok: "list_all (payload_ok (bc_merchantId cfg)) (bigcommerce_event pf cfg scope ref data occ)"
  by (simp add: bigcommerce_event_def bigcommerce_order_def bigcommerce_buildInvoice_def Let_def split: OrderStatusKind.split)

lemma base_charge_never [simp]: "base_attemptCharge pid caps invc pm key w = (Inr r, w') \<longleftrightarrow> False"
  by (simp add: base_attemptCharge_def)

interpretation bigcommerce: strict_adapter "bc_merchantId cfg" "\<lambda>raw w. bigcommerce_authentic pf cfg raw"
    "bigcommerce_ingest pf cfg" "base_attemptCharge ''bigcommerce'' BigCommerceAdapter_capabilities" for pf cfg
proof
  fix raw w es w'
  assume i: "bigcommerce_ingest pf cfg raw w = (Inr es, w')"
  show "bigcommerce_authentic pf cfg raw"
    using i by (auto simp: bigcommerce_ingest_def andThen_Inr verifyBigCommerceSignature_def bigcommerce_authentic_def)
  show "list_all (event_ok (bc_merchantId cfg)) es"
    using i by (auto simp: bigcommerce_ingest_def andThen_Inr Let_def bigcommerce_event_ok)
qed simp

subsection \<open>Kajabi\<close>

record KajabiConfig =
  kj_merchantId :: ident
  kj_webhookSecret :: string
  kj_signatureHeader :: "string option"

definition verifyKajabiSignature :: "'w Platform \<Rightarrow> string \<Rightarrow> string \<Rightarrow> string option \<Rightarrow> ('w, unit) eff" where
  "verifyKajabiSignature pf secret rawBody provided =
     check_signature ''KajabiAdapter'' ''webhookSecret'' ''webhook signature'' (secret \<noteq> '''')
       (buffers_equal (coalesce provided '''') (pf_hmac pf secret rawBody))"

definition kajabi_buildInvoice :: "'w Platform \<Rightarrow> KajabiConfig \<Rightarrow> string \<Rightarrow> jsval \<Rightarrow> iso \<Rightarrow> bool \<Rightarrow> Invoice" where
  "kajabi_buildInvoice pf cfg ref data occurredAt failed =
     (let buyer = nullish (member data ''member'') (member data ''customer'') in
      advisory_invoice (kj_merchantId cfg) ref (prefixed_ref pf ''ax10m_sub_'' (member data ''subscription_id''))
        (advisory_customerKey pf (member buyer ''id'') (fstr buyer ''email''))
        (decimal_minor pf (member data ''amount'')) (coalesce (fstr data ''currency'') ''USD'') occurredAt failed)"

definition kajabi_event :: "'w Platform \<Rightarrow> KajabiConfig \<Rightarrow> string option \<Rightarrow> string \<Rightarrow> jsval \<Rightarrow> iso \<Rightarrow> AdapterPayload list" where
  "kajabi_event pf cfg name ref data occurredAt =
     (if name = Some ''payment.failed'' then
        [advisory_failed mapKajabiDeclineReason (kajabi_buildInvoice pf cfg ref data occurredAt True) ref
           (or_else (fstr data ''decline_code'') (fstr data ''failure_reason'')) occurredAt]
      else if name = Some ''payment.succeeded'' then [ApPaid (kajabi_buildInvoice pf cfg ref data occurredAt False) None]
      else if name = Some ''subscription.cancelled'' \<or> name = Some ''subscription.canceled'' then
        [ApSubscription (coalesce (string_of pf (member data ''subscription_id'')) ref)
           (coalesce (fstr data ''status'') ''canceled'')]
      else [])"

definition kajabi_ingest :: "'w Platform \<Rightarrow> KajabiConfig \<Rightarrow> RawWebhook \<Rightarrow> ('w, AdapterEvent list) eff" where
  "kajabi_ingest pf cfg raw =
     andThen (verifyKajabiSignature pf (kj_webhookSecret cfg) (rw_body raw)
       (headerLookup (rw_headers raw) (coalesce (kj_signatureHeader cfg) ''kajabi-signature''))) (\<lambda>_.
     andThen (parse_webhook pf ''KajabiAdapter'' (rw_body raw)) (\<lambda>event.
     (let data = member event ''data''; ref = text_of pf (member data ''id'') in
      andThen (advisory_toIso pf (member event ''created_at'')) (\<lambda>occurredAt.
      (let eventId = coalesce (fstr event ''id'') (coalesce (fstr event ''event'') ''event'' @ '':'' @ ref) in
       ok (map (advisory_envelope (kj_merchantId cfg) eventId occurredAt)
             (kajabi_event pf cfg (fstr event ''event'') ref data occurredAt)))))))"

definition kajabi_authentic :: "'w Platform \<Rightarrow> KajabiConfig \<Rightarrow> RawWebhook \<Rightarrow> bool" where
  "kajabi_authentic pf cfg raw =
     (kj_webhookSecret cfg \<noteq> '''' \<and>
      coalesce (headerLookup (rw_headers raw) (coalesce (kj_signatureHeader cfg) ''kajabi-signature'')) ''''
        = pf_hmac pf (kj_webhookSecret cfg) (rw_body raw))"

lemma kajabi_event_ok: "list_all (payload_ok (kj_merchantId cfg)) (kajabi_event pf cfg name ref data occ)"
  by (simp add: kajabi_event_def kajabi_buildInvoice_def Let_def)

interpretation kajabi: strict_adapter "kj_merchantId cfg" "\<lambda>raw w. kajabi_authentic pf cfg raw"
    "kajabi_ingest pf cfg" "base_attemptCharge ''kajabi'' KajabiAdapter_capabilities" for pf cfg
proof
  fix raw w es w'
  assume i: "kajabi_ingest pf cfg raw w = (Inr es, w')"
  show "kajabi_authentic pf cfg raw"
    using i by (auto simp: kajabi_ingest_def andThen_Inr verifyKajabiSignature_def kajabi_authentic_def)
  show "list_all (event_ok (kj_merchantId cfg)) es"
    using i by (auto simp: kajabi_ingest_def andThen_Inr Let_def kajabi_event_ok)
qed simp

subsection \<open>SamCart\<close>

record SamCartConfig =
  sm_merchantId :: ident
  sm_webhookSecret :: string
  sm_signatureHeader :: "string option"

definition constantTimeEquals :: "string option \<Rightarrow> string \<Rightarrow> bool" where
  "constantTimeEquals provided expected = buffers_equal (coalesce provided '''') expected"

text \<open>The signature in either encoding.\<close>

definition verifySamCartSignature :: "'w Platform \<Rightarrow> string \<Rightarrow> string \<Rightarrow> string option \<Rightarrow> ('w, unit) eff" where
  "verifySamCartSignature pf secret rawBody provided =
     check_signature ''SamCartAdapter'' ''webhookSecret'' ''webhook signature'' (secret \<noteq> '''')
       (constantTimeEquals provided (pf_hmac pf secret rawBody) \<or>
        constantTimeEquals provided (pf_hmacBase64 pf secret rawBody))"

definition samcart_buildInvoice :: "'w Platform \<Rightarrow> SamCartConfig \<Rightarrow> jsval \<Rightarrow> string \<Rightarrow> iso \<Rightarrow> bool \<Rightarrow> Invoice" where
  "samcart_buildInvoice pf cfg event ref occurredAt failed =
     (let order = member event ''order''; buyer = member event ''customer'' in
      advisory_invoice (sm_merchantId cfg) ref
        (prefixed_ref pf ''ax10m_sub_'' (member (member event ''subscription'') ''id''))
        (advisory_customerKey pf (member buyer ''id'') (fstr buyer ''email''))
        (decimal_minor pf (nullish (member order ''total'') (member order ''amount'')))
        (to_upper (coalesce (fstr order ''currency'') ''USD'')) occurredAt failed)"

definition samcart_event :: "'w Platform \<Rightarrow> SamCartConfig \<Rightarrow> string \<Rightarrow> jsval \<Rightarrow> string \<Rightarrow> iso \<Rightarrow> AdapterPayload list" where
  "samcart_event pf cfg type event ref occurredAt =
     (let order = member event ''order''; sub = member event ''subscription'' in
      if type = ''Subscription_Payment_Failed'' then
        [advisory_failed mapSamCartDeclineReason (samcart_buildInvoice pf cfg event ref occurredAt True) ref
           (or_else (fstr order ''decline_reason'') (fstr order ''failure_reason'')) occurredAt]
      else if type = ''Order_Completed'' \<or> type = ''Subscription_Charge'' then
        [ApPaid (samcart_buildInvoice pf cfg event ref occurredAt False) None]
      else if type = ''Subscription_Cancelled'' \<or> type = ''Order_Refunded'' then
        [ApSubscription (coalesce (string_of pf (member sub ''id'')) ref)
           (coalesce (fstr sub ''status'') (if type = ''Order_Refunded'' then ''refunded'' else ''canceled''))]
      else [])"

definition samcart_ingest :: "'w Platform \<Rightarrow> SamCartConfig \<Rightarrow> RawWebhook \<Rightarrow> ('w, AdapterEvent list) eff" where
  "samcart_ingest pf cfg raw =
     andThen (verifySamCartSignature pf (sm_webhookSecret cfg) (rw_body raw)
       (headerLookup (rw_headers raw) (coalesce (sm_signatureHeader cfg) ''x-samcart-signature''))) (\<lambda>_.
     andThen (parse_webhook pf ''SamCartAdapter'' (rw_body raw)) (\<lambda>event.
     (let type = coalesce (or_else (fstr event ''type'') (fstr event ''event'')) '''';
          ref = text_of pf (member (member event ''order'') ''id'') in
      andThen (advisory_toIso pf (member event ''created_at'')) (\<lambda>occurredAt.
      (let eventId = coalesce (fstr event ''id'') (type @ '':'' @ ref) in
       ok (map (advisory_envelope (sm_merchantId cfg) eventId occurredAt)
             (samcart_event pf cfg type event ref occurredAt)))))))"

definition samcart_authentic :: "'w Platform \<Rightarrow> SamCartConfig \<Rightarrow> RawWebhook \<Rightarrow> bool" where
  "samcart_authentic pf cfg raw =
     (sm_webhookSecret cfg \<noteq> '''' \<and>
      coalesce (headerLookup (rw_headers raw) (coalesce (sm_signatureHeader cfg) ''x-samcart-signature'')) ''''
        \<in> {pf_hmac pf (sm_webhookSecret cfg) (rw_body raw), pf_hmacBase64 pf (sm_webhookSecret cfg) (rw_body raw)})"

lemma samcart_event_ok: "list_all (payload_ok (sm_merchantId cfg)) (samcart_event pf cfg type event ref occ)"
  by (simp add: samcart_event_def samcart_buildInvoice_def Let_def)

interpretation samcart: strict_adapter "sm_merchantId cfg" "\<lambda>raw w. samcart_authentic pf cfg raw"
    "samcart_ingest pf cfg" "base_attemptCharge ''samcart'' SamCartAdapter_capabilities" for pf cfg
proof
  fix raw w es w'
  assume i: "samcart_ingest pf cfg raw w = (Inr es, w')"
  show "samcart_authentic pf cfg raw"
    using i by (auto simp: samcart_ingest_def andThen_Inr verifySamCartSignature_def samcart_authentic_def
        constantTimeEquals_def)
  show "list_all (event_ok (sm_merchantId cfg)) es"
    using i by (auto simp: samcart_ingest_def andThen_Inr Let_def samcart_event_ok)
qed simp

subsection \<open>ThriveCart\<close>

record ThriveCartConfig =
  tc_merchantId :: ident
  tc_webhookSecret :: string
  tc_secretHeader :: "string option"

text \<open>The body as a flat table with bracketed keys; a later write of a key wins, so the table is
  read from its end. Members come in the order of \<open>Object.entries\<close>.\<close>

type_synonym flat_table = "(string \<times> string) list"

definition bracketed :: "string \<Rightarrow> string \<Rightarrow> string" where
  "bracketed outer k = (if outer = '''' then k else outer @ ''['' @ k @ '']'')"

fun scalar_text :: "(real \<Rightarrow> string) \<Rightarrow> jsval \<Rightarrow> string" where
  "scalar_text sh (VStr s) = s"
| "scalar_text sh (VNum r) = sh r"
| "scalar_text sh (VBool b) = (if b then ''true'' else ''false'')"
| "scalar_text sh v = ''null''"

fun flat_value :: "(real \<Rightarrow> string) \<Rightarrow> string \<Rightarrow> jsval \<Rightarrow> flat_table"
  and flat_members :: "(real \<Rightarrow> string) \<Rightarrow> string \<Rightarrow> (string \<times> jsval) list \<Rightarrow> flat_table"
  and flat_items :: "(real \<Rightarrow> string) \<Rightarrow> string \<Rightarrow> nat \<Rightarrow> jsval list \<Rightarrow> flat_table" where
  "flat_value sh key (VObj fs) = flat_members sh key fs"
| "flat_value sh key (VArr vs) = flat_items sh key 0 vs"
| "flat_value sh key v = [(key, scalar_text sh v)]"
| "flat_members sh outer [] = []"
| "flat_members sh outer ((k, v) # fs) = flat_value sh (bracketed outer k) v @ flat_members sh outer fs"
| "flat_items sh outer i [] = []"
| "flat_items sh outer i (v # vs) = flat_value sh (bracketed outer (show_nat i)) v @ flat_items sh outer (Suc i) vs"

definition flatten :: "(real \<Rightarrow> string) \<Rightarrow> jsval \<Rightarrow> flat_table" where
  "flatten sh v = (case v of VObj fs \<Rightarrow> flat_members sh '''' fs | VArr vs \<Rightarrow> flat_items sh '''' 0 vs | _ \<Rightarrow> [])"

definition flat_get :: "flat_table \<Rightarrow> string \<Rightarrow> string option" where
  "flat_get flat k = map_of (rev flat) k"

fun pick_first :: "flat_table \<Rightarrow> string list \<Rightarrow> string option" where
  "pick_first flat [] = None"
| "pick_first flat (k # ks) = (if given (flat_get flat k) then flat_get flat k else pick_first flat ks)"

definition parseBody :: "'w Platform \<Rightarrow> RawWebhook \<Rightarrow> js_error + flat_table" where
  "parseBody pf raw =
     (let ct = to_lower (coalesce (headerLookup (rw_headers raw) ''content-type'') '''');
          body = rw_body raw in
      if str_includes ct ''application/json'' \<or> starts_with ''{'' (dropWhile is_space body) then
        (case pf_parseJson pf body of
           None \<Rightarrow> Inl (JsError ''ThriveCartAdapter.ingestWebhook: body is not valid JSON'')
         | Some v \<Rightarrow> Inr (flatten (pf_showNumber pf) v))
      else Inr (parse_form body))"

definition isFailedFlag :: "flat_table \<Rightarrow> bool" where
  "isFailedFlag flat =
     if_given (pick_first flat [''payment_failed'', ''subscription_failed'', ''failed'', ''order[status]'', ''status'',
                               ''order[payment_status]''])
       (\<lambda>raw. List.member [''1'', ''true'', ''failed'', ''declined'', ''decline''] (to_lower raw)) False"

definition verifyThriveCartSecret :: "string \<Rightarrow> string option \<Rightarrow> ('w, unit) eff" where
  "verifyThriveCartSecret configSecret provided =
     check_signature ''ThriveCartAdapter'' ''webhookSecret'' ''webhook secret'' (configSecret \<noteq> '''')
       (buffers_equal (coalesce provided '''') configSecret)"

text \<open>A text of digits is a time in seconds or milliseconds.\<close>

definition thrivecart_toIso :: "'w Platform \<Rightarrow> string option \<Rightarrow> ('w, iso) eff" where
  "thrivecart_toIso pf v =
     if_given v (\<lambda>s. case (if trim s \<noteq> '''' \<and> list_all is_digit (trim s) then pf_number pf s else None) of
         Some n \<Rightarrow> lift_sum (iso_of_number n)
       | None \<Rightarrow> (case pf_parseDate pf s of Some t \<Rightarrow> ok (Some t) | None \<Rightarrow> pf_clock pf)) (pf_clock pf)"

definition thrivecart_buildInvoice :: "'w Platform \<Rightarrow> ThriveCartConfig \<Rightarrow> string \<Rightarrow> flat_table \<Rightarrow> iso \<Rightarrow> bool \<Rightarrow> Invoice" where
  "thrivecart_buildInvoice pf cfg ref flat occurredAt failed =
     advisory_invoice (tc_merchantId cfg) ref
       (prefixed ''ax10m_sub_'' (pick_first flat [''subscription_id'', ''subscription[id]'']))
       (advisory_customerKey pf (case pick_first flat [''customer_id'', ''customer[id]''] of Some s \<Rightarrow> VStr s | None \<Rightarrow> VNull)
          (pick_first flat [''customer[email]'', ''email'']))
       (majorToMinor pf (pick_first flat [''order[total]'', ''total'', ''amount'', ''order[amount]'']))
       (to_upper (coalesce (pick_first flat [''currency'', ''order[currency]'', ''order_currency'']) ''USD''))
       occurredAt failed"

definition thrivecart_failedEvent :: "'w Platform \<Rightarrow> ThriveCartConfig \<Rightarrow> flat_table \<Rightarrow> string \<Rightarrow> iso \<Rightarrow> AdapterPayload" where
  "thrivecart_failedEvent pf cfg flat ref occurredAt =
     advisory_failed mapThriveCartDeclineReason (thrivecart_buildInvoice pf cfg ref flat occurredAt True) ref
       (pick_first flat [''decline_reason'', ''failure_reason'', ''order[decline_reason]'', ''reason'', ''error'']) occurredAt"

definition thrivecart_event :: "'w Platform \<Rightarrow> ThriveCartConfig \<Rightarrow> string \<Rightarrow> flat_table \<Rightarrow> string \<Rightarrow> iso \<Rightarrow> AdapterPayload list" where
  "thrivecart_event pf cfg event flat ref occurredAt =
     (if event = ''order.rebill_failed'' then [thrivecart_failedEvent pf cfg flat ref occurredAt]
      else if event = ''order.subscription_payment'' \<and> isFailedFlag flat then
        [thrivecart_failedEvent pf cfg flat ref occurredAt]
      else if event = ''order.subscription_payment'' \<or> event = ''order.success'' \<or> event = ''order.rebill'' then
        [ApPaid (thrivecart_buildInvoice pf cfg ref flat occurredAt False) None]
      else if event = ''order.subscription_cancelled'' \<or> event = ''order.subscription_canceled'' then
        [ApSubscription (coalesce (pick_first flat [''subscription_id'', ''subscription[id]'']) ref) ''canceled'']
      else [])"

definition thrivecart_provided :: "ThriveCartConfig \<Rightarrow> RawWebhook \<Rightarrow> flat_table \<Rightarrow> string option" where
  "thrivecart_provided cfg raw flat =
     or_else (flat_get flat ''thrivecart_secret'')
       (headerLookup (rw_headers raw) (coalesce (tc_secretHeader cfg) ''x-thrivecart-secret''))"

definition thrivecart_ingest :: "'w Platform \<Rightarrow> ThriveCartConfig \<Rightarrow> RawWebhook \<Rightarrow> ('w, AdapterEvent list) eff" where
  "thrivecart_ingest pf cfg raw =
     andThen (lift_sum (parseBody pf raw)) (\<lambda>flat.
     andThen (verifyThriveCartSecret (tc_webhookSecret cfg) (thrivecart_provided cfg raw flat)) (\<lambda>_.
     (let event = coalesce (flat_get flat ''event'') '''';
          ref = coalesce (pick_first flat [''order_id'', ''order[id]'', ''invoice_id'', ''id'']) '''' in
      andThen (thrivecart_toIso pf (pick_first flat [''created_at'', ''timestamp'', ''order[date]''])) (\<lambda>occurredAt.
      (let eventId = coalesce (pick_first flat [''event_id'', ''id'']) (event @ '':'' @ ref) in
       ok (map (advisory_envelope (tc_merchantId cfg) eventId occurredAt)
             (thrivecart_event pf cfg event flat ref occurredAt)))))))"

definition thrivecart_authentic :: "'w Platform \<Rightarrow> ThriveCartConfig \<Rightarrow> RawWebhook \<Rightarrow> bool" where
  "thrivecart_authentic pf cfg raw =
     (tc_webhookSecret cfg \<noteq> '''' \<and>
      (case parseBody pf raw of Inl _ \<Rightarrow> False
       | Inr flat \<Rightarrow> thrivecart_provided cfg raw flat = Some (tc_webhookSecret cfg)))"

lemma thrivecart_event_ok: "list_all (payload_ok (tc_merchantId cfg)) (thrivecart_event pf cfg event flat ref occ)"
  by (simp add: thrivecart_event_def thrivecart_failedEvent_def thrivecart_buildInvoice_def)

lemma coalesce_given: "coalesce h '''' = d \<Longrightarrow> d \<noteq> '''' \<Longrightarrow> h = Some d"
  by (cases h) auto

interpretation thrivecart: strict_adapter "tc_merchantId cfg" "\<lambda>raw w. thrivecart_authentic pf cfg raw"
    "thrivecart_ingest pf cfg" "base_attemptCharge ''thrivecart'' ThriveCartAdapter_capabilities" for pf cfg
proof
  fix raw w es w'
  assume i: "thrivecart_ingest pf cfg raw w = (Inr es, w')"
  show "thrivecart_authentic pf cfg raw"
    using i by (auto simp: thrivecart_ingest_def andThen_Inr verifyThriveCartSecret_def thrivecart_authentic_def
        intro: coalesce_given)
  show "list_all (event_ok (tc_merchantId cfg)) es"
    using i by (auto simp: thrivecart_ingest_def andThen_Inr Let_def thrivecart_event_ok)
qed simp

text \<open>A \<open>null\<close> of a JSON body becomes the text \<open>null\<close>, so an absent customer is a customer of that name.\<close>

lemma thrivecart_null_customer:
  assumes "flat = flatten sh (VObj [(''customer_id'', VNull)])"
  shows "inv_customerId (thrivecart_buildInvoice pf cfg ref flat occ failed) = ''ax10m_cus_null''"
  unfolding assms by (simp add: flatten_def bracketed_def flat_get_def thrivecart_buildInvoice_def advisory_invoice_def
      advisory_customerKey_def string_of_def given_def CUSTOMER_PREFIX_def)

end
