(* ===== verification/GatewayAdapters.thy ===== *)
theory GatewayAdapters
  imports AdapterKit
begin

text \<open>
  The two legacy gateways, Elavon Converge and TSYS (\<open>adapters/elavon/\<close>, \<open>adapters/tsys/\<close>): they have
  no signed webhook, so ingestion always refuses, and no invoice list; they charge stored tokens.
\<close>

text \<open>\<open>body.k !== undefined\<close> and \<open>minorToMajorString\<close>: digits of the amount in minor units.\<close>

definition has_member :: "jsval \<Rightarrow> string \<Rightarrow> bool" where
  "has_member v k = (case v of VObj fs \<Rightarrow> map_of fs k \<noteq> None | _ \<Rightarrow> False)"

definition minorToMajorString :: "int \<Rightarrow> string" where
  "minorToMajorString minor = fixed2 minor"

definition no_webhook :: "string \<Rightarrow> RawWebhook \<Rightarrow> ('w, AdapterEvent list) eff" where
  "no_webhook pid raw = throw (JsError (pid @ '': no signed webhook; use reconciliation poll''))"

text \<open>A failure the client throws: a status, a body and the text.\<close>

definition gateway_failure :: "PortResponse \<Rightarrow> jsval \<Rightarrow> string \<Rightarrow> ClientFailure" where
  "gateway_failure res parsed message =
     \<lparr>cf_status = rp_status res, cf_body = parsed, cf_raw = rp_text res, cf_message = message\<rparr>"

definition gateway_body :: "'w Platform \<Rightarrow> (string \<Rightarrow> jsval) \<Rightarrow> PortResponse \<Rightarrow> jsval" where
  "gateway_body pf fallback res =
     (if rp_text res = '''' then VObj []
      else case pf_parseJson pf (rp_text res) of Some v \<Rightarrow> v | None \<Rightarrow> fallback (rp_text res))"

definition gateway_succeeded ::
  "'w Platform \<Rightarrow> Invoice \<Rightarrow> PaymentMethod \<Rightarrow> string \<Rightarrow> string option \<Rightarrow> ('w, AdapterResult) eff" where
  "gateway_succeeded pf invoice pm key txnId =
     andThen (pf_clock pf) (\<lambda>now.
       ok \<lparr>ar_attempt = buildAttempt (inv_id invoice) (pm_id pm) key (inv_amount invoice) Succeeded None txnId now,
           ar_outcome = Succeeded, ar_idempotentReplay = False\<rparr>)"

lemma gateway_succeeded_ok: "gateway_succeeded pf invc pm key txn w = (Inr r, w') \<Longrightarrow> charge_ok invc pm key r"
  by (auto simp: gateway_succeeded_def andThen_Inr charge_ok_def)

subsection \<open>Elavon\<close>

record ElavonConfig =
  el_sslMerchantId :: string
  el_sslUserId :: string
  el_sslPin :: string
  el_merchantId :: ident
  el_baseUrl :: "string option"

definition elavon_isPaymentFailure :: "ClientFailure \<Rightarrow> bool" where
  "elavon_isPaymentFailure f = False"

definition elavon_parse :: "'w Platform \<Rightarrow> PortResponse \<Rightarrow> ('w, jsval client_result) eff" where
  "elavon_parse pf res =
     (let parsed = gateway_body pf (\<lambda>raw. VObj [(''errorMessage'', VStr raw)]) res;
          message = coalesce (or_else (fstr parsed ''errorMessage'') (fstr parsed ''errorName''))
            (''Elavon error '' @ show_int (rp_status res)) in
      if \<not> rp_ok res \<or> has_member parsed ''errorCode'' \<or> has_member parsed ''errorMessage''
      then ok (Inl (gateway_failure res parsed message)) else ok (Inr parsed))"

definition elavon_post ::
  "'w Platform \<Rightarrow> ElavonConfig \<Rightarrow> (string \<times> string option) list \<Rightarrow> ('w, jsval client_result) eff" where
  "elavon_post pf cfg params =
     andThen (pf_fetch pf
       \<lparr>rq_url = coalesce (el_baseUrl cfg) ''https://api.convergepay.com/VirtualMerchant/process.do'', rq_verb = ''POST'',
        rq_headers = [(''Content-Type'', ''application/x-www-form-urlencoded'')],
        rq_body = Some (form_encode
          ([(''ssl_merchant_id'', Some (el_sslMerchantId cfg)), (''ssl_user_id'', Some (el_sslUserId cfg)),
            (''ssl_pin'', Some (el_sslPin cfg)), (''ssl_result_format'', Some ''JSON'')] @ params))\<rparr>) (elavon_parse pf)"

definition elavon_request :: "Invoice \<Rightarrow> PaymentMethod \<Rightarrow> string \<Rightarrow> (string \<times> string option) list" where
  "elavon_request invoice pm key =
     [(''ssl_transaction_type'', Some ''ccsale''), (''ssl_token'', Some (pm_token pm)),
      (''ssl_amount'', Some (minorToMajorString (amount (inv_amount invoice)))),
      (''ssl_invoice_number'', Some (inv_processorRef invoice)), (''ssl_merchant_txn_id'', Some key)]"

definition elavon_code :: "jsval \<Rightarrow> DeclineCode" where
  "elavon_code body = mapElavonDeclineCode (fstr body ''ssl_result_message'') (fstr body ''ssl_result'')"

definition elavon_charged ::
  "'w Platform \<Rightarrow> Invoice \<Rightarrow> PaymentMethod \<Rightarrow> string \<Rightarrow> jsval \<Rightarrow> ('w, AdapterResult) eff" where
  "elavon_charged pf invoice pm key body =
     (if fstr body ''ssl_result'' = Some ''0'' then gateway_succeeded pf invoice pm key (fstr body ''ssl_txn_id'')
      else declined_charge pf invoice pm key (elavon_code body) (fstr body ''ssl_txn_id''))"

definition elavon_declined ::
  "'w Platform \<Rightarrow> Invoice \<Rightarrow> PaymentMethod \<Rightarrow> string \<Rightarrow> ClientFailure \<Rightarrow> ('w, AdapterResult) eff" where
  "elavon_declined pf invoice pm key f =
     (if elavon_isPaymentFailure f then declined_charge pf invoice pm key (elavon_code (cf_body f)) None else rethrow f)"

definition elavon_attemptCharge ::
  "'w Platform \<Rightarrow> ElavonConfig \<Rightarrow> Invoice \<Rightarrow> PaymentMethod \<Rightarrow> string \<Rightarrow> ('w, AdapterResult) eff" where
  "elavon_attemptCharge pf cfg invoice pm key =
     andThen (elavon_post pf cfg (elavon_request invoice pm key))
       (case_sum (elavon_declined pf invoice pm key) (elavon_charged pf invoice pm key))"

definition elavon_ingest :: "RawWebhook \<Rightarrow> ('w, AdapterEvent list) eff" where
  "elavon_ingest raw = no_webhook ''elavon'' raw"

definition elavon_listOpenFailures :: "Cursor \<Rightarrow> ('w, OpenFailuresPage) eff" where
  "elavon_listOpenFailures cursor = ok \<lparr>op_invoices = [], op_nextCursor = None\<rparr>"

definition elavon_fetchUpdatedCard :: "PaymentMethod \<Rightarrow> ('w, PaymentMethod option) eff" where
  "elavon_fetchUpdatedCard pm = ok None"

definition elavon_listPaymentMethods :: "Customer \<Rightarrow> ('w, PaymentMethod list) eff" where
  "elavon_listPaymentMethods customer = ok []"

lemma elavon_charge_ok:
  assumes "elavon_attemptCharge pf cfg invc pm key w = (Inr r, w')"
  shows "charge_ok invc pm key r"
  by (rule charge_via [OF assms [unfolded elavon_attemptCharge_def]])
     (auto simp: elavon_declined_def elavon_charged_def declined_charge_ok gateway_succeeded_ok split: if_splits)

interpretation elavon: strict_adapter "el_merchantId cfg" "\<lambda>raw w. False" elavon_ingest
    "elavon_attemptCharge pf cfg" for pf cfg
  by unfold_locales (auto simp: elavon_ingest_def no_webhook_def elavon_charge_ok)

text \<open>A success without a result, as an empty body is, counts as an issuer's decline.\<close>

lemma elavon_empty_response_declines:
  assumes "rp_ok res" "rp_text res = ''''"
  shows "elavon_parse pf res w = (Inr (Inr (VObj [])), w)"
    and "elavon_charged pf invc pm key (VObj []) = declined_charge pf invc pm key UnknownDecline None"
proof -
  have "mapElavonDeclineCode None None = UnknownDecline" by code_simp
  then show "elavon_charged pf invc pm key (VObj []) = declined_charge pf invc pm key UnknownDecline None"
    by (simp add: elavon_charged_def elavon_code_def fstr_def)
qed (use assms in \<open>simp add: elavon_parse_def gateway_body_def has_member_def ok_def\<close>)

subsection \<open>TSYS\<close>

record TsysConfig =
  ts_deviceID :: string
  ts_transactionKey :: string
  ts_developerID :: "string option"
  ts_merchantId :: ident
  ts_baseUrl :: "string option"

definition APPROVAL_CODES :: "string list" where
  "APPROVAL_CODES = [''00'', ''000'', ''10'', ''85'']"

definition tsys_isPaymentFailure :: "ClientFailure \<Rightarrow> bool" where
  "tsys_isPaymentFailure f =
     (let status = fstr (cf_body f) ''status''; code = fstr (cf_body f) ''responseCode'' in
      if status = Some ''DECLINED'' then True
      else if status = Some ''FAIL'' then False
      else has_member (cf_body f) ''responseCode'' \<and> code \<noteq> Some '''' \<and>
           \<not> (case code of None \<Rightarrow> False | Some c \<Rightarrow> List.member APPROVAL_CODES c))"

definition tsys_parse :: "'w Platform \<Rightarrow> PortResponse \<Rightarrow> ('w, jsval client_result) eff" where
  "tsys_parse pf res =
     (let parsed = gateway_body pf (\<lambda>raw. VObj [(''responseMessage'', VStr raw), (''status'', VStr ''FAIL'')]) res;
          message = coalesce (fstr parsed ''responseMessage'')
            (''TSYS error '' @ show_int (rp_status res) @ '' ('' @ coalesce (fstr parsed ''status'') ''unknown'' @ '')'') in
      if \<not> rp_ok res \<or> fstr parsed ''status'' \<noteq> Some ''PASS''
      then ok (Inl (gateway_failure res parsed message)) else ok (Inr parsed))"

definition tsys_post ::
  "'w Platform \<Rightarrow> TsysConfig \<Rightarrow> string \<Rightarrow> (string \<times> json) list \<Rightarrow> string \<Rightarrow> ('w, jsval client_result) eff" where
  "tsys_post pf cfg path payload key =
     andThen (pf_fetch pf
       \<lparr>rq_url = coalesce (ts_baseUrl cfg) ''https://gateway.transit-pass.com/portal'' @ path, rq_verb = ''POST'',
        rq_headers = (''Content-Type'', ''application/json'') # keyed ''Idempotency-Key'' key,
        rq_body = Some (stringify (JObj
          ([(''deviceID'', JStr (ts_deviceID cfg)), (''transactionKey'', JStr (ts_transactionKey cfg)),
            (''developerID'', jopt (ts_developerID cfg)), (''transactionIdentifier'', JStr key)] @ payload)))\<rparr>)
       (tsys_parse pf)"

definition tsys_request :: "Invoice \<Rightarrow> PaymentMethod \<Rightarrow> (string \<times> json) list" where
  "tsys_request invoice pm =
     [(''transactionAmount'', JStr (minorToMajorString (amount (inv_amount invoice)))),
      (''currencyCode'', JStr (money_currency (inv_amount invoice))), (''token'', JStr (pm_token pm)),
      (''orderNumber'', JStr (inv_processorRef invoice)), (''cardOnFile'', JStr ''Y'')]"

definition tsys_declined ::
  "'w Platform \<Rightarrow> Invoice \<Rightarrow> PaymentMethod \<Rightarrow> string \<Rightarrow> ClientFailure \<Rightarrow> ('w, AdapterResult) eff" where
  "tsys_declined pf invoice pm key f =
     (if tsys_isPaymentFailure f then
        declined_charge pf invoice pm key
          (mapTsysDeclineCode (fstr (cf_body f) ''responseCode'') (fstr (cf_body f) ''responseMessage''))
          (fstr (cf_body f) ''transactionID'')
      else rethrow f)"

definition tsys_attemptCharge ::
  "'w Platform \<Rightarrow> TsysConfig \<Rightarrow> Invoice \<Rightarrow> PaymentMethod \<Rightarrow> string \<Rightarrow> ('w, AdapterResult) eff" where
  "tsys_attemptCharge pf cfg invoice pm key =
     andThen (tsys_post pf cfg ''/v1/credit/sale'' (tsys_request invoice pm) key)
       (case_sum (tsys_declined pf invoice pm key)
         (\<lambda>body. gateway_succeeded pf invoice pm key (fstr body ''transactionID'')))"

definition tsys_ingest :: "RawWebhook \<Rightarrow> ('w, AdapterEvent list) eff" where
  "tsys_ingest raw = no_webhook ''tsys'' raw"

definition tsys_listOpenFailures :: "Cursor \<Rightarrow> ('w, OpenFailuresPage) eff" where
  "tsys_listOpenFailures cursor = ok \<lparr>op_invoices = [], op_nextCursor = None\<rparr>"

definition tsys_fetchUpdatedCard :: "PaymentMethod \<Rightarrow> ('w, PaymentMethod option) eff" where
  "tsys_fetchUpdatedCard pm = ok None"

definition tsys_listPaymentMethods :: "Customer \<Rightarrow> ('w, PaymentMethod list) eff" where
  "tsys_listPaymentMethods customer = ok []"

lemma tsys_charge_ok:
  assumes "tsys_attemptCharge pf cfg invc pm key w = (Inr r, w')"
  shows "charge_ok invc pm key r"
  by (rule charge_via [OF assms [unfolded tsys_attemptCharge_def]])
     (auto simp: tsys_declined_def declined_charge_ok gateway_succeeded_ok split: if_splits)

interpretation tsys: strict_adapter "ts_merchantId cfg" "\<lambda>raw w. False" tsys_ingest
    "tsys_attemptCharge pf cfg" for pf cfg
  by unfold_locales (auto simp: tsys_ingest_def no_webhook_def tsys_charge_ok)

text \<open>An approval code without \<open>PASS\<close> is an error to retry, neither a success nor a decline.\<close>

lemma tsys_approval_without_pass_is_error:
  assumes "fstr parsed ''status'' = None" "fstr parsed ''responseCode'' = Some ''00''"
  shows "tsys_declined pf invc pm key (gateway_failure res parsed m) = rethrow (gateway_failure res parsed m)"
  using assms by (simp add: tsys_declined_def tsys_isPaymentFailure_def gateway_failure_def APPROVAL_CODES_def Let_def)

end
