(* ===== verification/WebhookRouter.thy ===== *)
theory WebhookRouter
  imports RecoveryOutcomes AdvisoryAdapters AdyenAdapter BraintreeAdapter ChargebeeAdapter CheckoutAdapter
    GoCardlessAdapter MaxioAdapter PaypalAdapter RecurlyAdapter ShopifyAdapter WooCommerceAdapter WorldpayAdapter
    ZuoraAdapter
begin

text \<open>
  The webhook ingress (\<open>apps/api/src/webhooks/\<close>): a connection names the merchant and the
  credentials, the factory builds that merchant's adapter, and the recovery-case service handles
  the events the adapter accepts. The theory composes the models of all of them and shows that a
  webhook acts on its connection's merchant alone, that a forged one changes nothing, and that
  none starts a durable recovery.
\<close>

subsection \<open>Connections\<close>

text \<open>A \<open>Map\<close> keeps its keys in insertion order, as \<open>AList.update\<close> does.\<close>

record MerchantConnection =
  mc_connectionId :: string
  mc_merchantId :: ident
  mc_processor :: string
  mc_config :: jsval

record ConnectionStore =
  cs_byId :: "(string \<times> MerchantConnection) list"
  cs_defaults :: "string \<rightharpoonup> string"

definition conn_empty :: ConnectionStore where
  "conn_empty = \<lparr>cs_byId = [], cs_defaults = Map.empty\<rparr>"

definition conn_get :: "ConnectionStore \<Rightarrow> string \<Rightarrow> MerchantConnection option" where
  "conn_get st connectionId = map_of (cs_byId st) connectionId"

definition conn_defaultFor :: "ConnectionStore \<Rightarrow> string \<Rightarrow> MerchantConnection option" where
  "conn_defaultFor st processor = if_given (cs_defaults st processor) (conn_get st) None"

definition conn_register :: "MerchantConnection \<Rightarrow> bool \<Rightarrow> ConnectionStore \<Rightarrow> ConnectionStore" where
  "conn_register c isDefault st =
     \<lparr>cs_byId = AList.update (mc_connectionId c) c (cs_byId st),
      cs_defaults = (if isDefault \<or> cs_defaults st (mc_processor c) = None
                     then (cs_defaults st)(mc_processor c \<mapsto> mc_connectionId c) else cs_defaults st)\<rparr>"

definition conn_list :: "ConnectionStore \<Rightarrow> MerchantConnection list" where
  "conn_list st = map snd (cs_byId st)"

text \<open>The connections of the environment's variables: a processor whose required ones are missing or
  empty has none.\<close>

definition env_config :: "(string \<Rightarrow> string option) \<Rightarrow> (string \<times> string) list \<Rightarrow> jsval" where
  "env_config vars flds =
     VObj (map (\<lambda>(k, name). (k, case vars name of None \<Rightarrow> VNull | Some v \<Rightarrow> VStr v)) flds)"

definition seed_one ::
  "(string \<Rightarrow> string option) \<Rightarrow> string \<times> string \<times> (string \<times> string) list \<times> string list \<Rightarrow> ConnectionStore \<Rightarrow> ConnectionStore" where
  "seed_one vars spec st =
     (case spec of (processor, merchantVar, flds, needed) \<Rightarrow>
        let config = env_config vars flds in
        if list_ex (\<lambda>k. \<not> truthy (member config k)) needed then st
        else conn_register \<lparr>mc_connectionId = processor @ ''-default'', mc_merchantId = coalesce (vars merchantVar) ''mrc_default'',
               mc_processor = processor, mc_config = config\<rparr> True st)"

definition ENV_CONNECTIONS :: "(string \<times> string \<times> (string \<times> string) list \<times> string list) list" where
  "ENV_CONNECTIONS =
    [(''stripe'', ''STRIPE_MERCHANT_ID'',
        [(''secretKey'', ''STRIPE_SECRET_KEY''), (''webhookSecret'', ''STRIPE_WEBHOOK_SECRET''), (''apiVersion'', ''STRIPE_API_VERSION'')],
        [''secretKey'', ''webhookSecret'']),
     (''chargebee'', ''CHARGEBEE_MERCHANT_ID'',
        [(''site'', ''CHARGEBEE_SITE''), (''apiKey'', ''CHARGEBEE_API_KEY''), (''webhookUser'', ''CHARGEBEE_WEBHOOK_USER''),
         (''webhookPassword'', ''CHARGEBEE_WEBHOOK_PASSWORD'')],
        [''site'', ''apiKey'']),
     (''adyen'', ''ADYEN_MERCHANT_ID'',
        [(''apiKey'', ''ADYEN_API_KEY''), (''merchantAccount'', ''ADYEN_MERCHANT_ACCOUNT''), (''hmacKey'', ''ADYEN_HMAC_KEY''),
         (''baseUrl'', ''ADYEN_CHECKOUT_URL'')],
        [''apiKey'', ''merchantAccount'']),
     (''braintree'', ''BRAINTREE_AX10M_MERCHANT_ID'',
        [(''braintreeMerchantId'', ''BRAINTREE_MERCHANT_ID''), (''publicKey'', ''BRAINTREE_PUBLIC_KEY''),
         (''privateKey'', ''BRAINTREE_PRIVATE_KEY''), (''environment'', ''BRAINTREE_ENVIRONMENT'')],
        [''braintreeMerchantId'', ''publicKey'', ''privateKey'']),
     (''gocardless'', ''GOCARDLESS_MERCHANT_ID'',
        [(''accessToken'', ''GOCARDLESS_ACCESS_TOKEN''), (''webhookSecret'', ''GOCARDLESS_WEBHOOK_SECRET''),
         (''environment'', ''GOCARDLESS_ENVIRONMENT'')],
        [''accessToken'', ''webhookSecret''])]"

definition seedConnectionsFromEnv :: "(string \<Rightarrow> string option) \<Rightarrow> ConnectionStore \<Rightarrow> ConnectionStore" where
  "seedConnectionsFromEnv vars st = fold (seed_one vars) ENV_CONNECTIONS st"

text \<open>Every connection is filed under its own id, and every default names one of its processor.\<close>

definition store_filed :: "ConnectionStore \<Rightarrow> bool" where
  "store_filed st \<longleftrightarrow> distinct (map fst (cs_byId st)) \<and>
     (\<forall>i c. conn_get st i = Some c \<longrightarrow> mc_connectionId c = i) \<and>
     (\<forall>p i. cs_defaults st p = Some i \<longrightarrow> conn_get st i \<noteq> None)"

lemma store_filed_empty: "store_filed conn_empty"
  by (simp add: store_filed_def conn_empty_def conn_get_def)

lemma conn_register_sel:
  "cs_byId (conn_register c d st) = AList.update (mc_connectionId c) c (cs_byId st)"
  "cs_defaults (conn_register c d st) =
     (if d \<or> cs_defaults st (mc_processor c) = None then (cs_defaults st)(mc_processor c \<mapsto> mc_connectionId c) else cs_defaults st)"
  by (simp_all add: conn_register_def)

lemma conn_get_register: "conn_get (conn_register c d st) i = (if i = mc_connectionId c then Some c else conn_get st i)"
  by (simp add: conn_get_def conn_register_def AList.update_conv')

lemma store_filed_register: "store_filed st \<Longrightarrow> store_filed (conn_register c d st)"
  by (auto simp: store_filed_def conn_get_register conn_register_sel AList.distinct_update split: if_splits)

lemma store_filed_seeded: "store_filed st \<Longrightarrow> store_filed (seedConnectionsFromEnv vars st)"
proof -
  have step: "store_filed s \<Longrightarrow> store_filed (seed_one vars spec s)" for spec s
    by (cases spec) (simp add: seed_one_def store_filed_register Let_def)
  have "store_filed s \<Longrightarrow> store_filed (fold (seed_one vars) specs s)" for specs s
    by (induction specs arbitrary: s) (simp_all add: step)
  then show "store_filed st \<Longrightarrow> store_filed (seedConnectionsFromEnv vars st)"
    by (simp add: seedConnectionsFromEnv_def)
qed

subsection \<open>The adapter of a connection\<close>

text \<open>Each adapter instance has a token cell of its own, empty when it is built.\<close>

definition beside_cell :: "('w, 'a) eff \<Rightarrow> ('w \<times> string option, 'a) eff" where
  "beside_cell m = zoom fst (\<lambda>w p. (w, snd p)) m"

definition with_cell :: "'w Platform \<Rightarrow> ('w \<times> string option) Platform" where
  "with_cell pf =
     \<lparr>pf_fetch = (\<lambda>rq. beside_cell (pf_fetch pf rq)), pf_clock = beside_cell (pf_clock pf),
      pf_token = snd, pf_setToken = (\<lambda>t p. (fst p, Some t)),
      pf_parseJson = pf_parseJson pf, pf_parseDate = pf_parseDate pf, pf_showNumber = pf_showNumber pf,
      pf_number = pf_number pf, pf_hmac = pf_hmac pf, pf_hmacBase64 = pf_hmacBase64 pf,
      pf_hmacSha1 = pf_hmacSha1 pf, pf_sha1 = pf_sha1 pf, pf_base64 = pf_base64 pf,
      pf_base64Decode = pf_base64Decode pf, pf_sha256 = pf_sha256 pf, pf_parseFloat = pf_parseFloat pf,
      pf_isoText = pf_isoText pf\<rparr>"

definition fresh_cell :: "('w \<times> string option, 'a) eff \<Rightarrow> ('w, 'a) eff" where
  "fresh_cell m = (\<lambda>w. case m (w, None) of (r, p) \<Rightarrow> (r, fst p))"

lemma fresh_cell_Inr: "fresh_cell m w = (Inr a, w') \<longleftrightarrow> (\<exists>t. m (w, None) = (Inr a, (w', t)))"
  by (auto simp: fresh_cell_def split: prod.splits)

record 'w AdapterOps =
  op_ingest :: "RawWebhook \<Rightarrow> ('w, AdapterEvent list) eff"
  op_charge :: "Invoice \<Rightarrow> PaymentMethod \<Rightarrow> string \<Rightarrow> ('w, AdapterResult) eff"
  op_fetch :: "PaymentMethod \<Rightarrow> ('w, PaymentMethod option) eff"
  op_methods :: "Customer \<Rightarrow> ('w, PaymentMethod list) eff"
  op_authentic :: "RawWebhook \<Rightarrow> 'w \<Rightarrow> bool"

definition required_field :: "BuiltAdapter \<Rightarrow> string \<Rightarrow> string" where
  "required_field b k = coalesce (built_field b k) ''''"

text \<open>The builders of the factory. A processor it does not know has no adapter.\<close>

definition advisory_ops ::
  "string \<Rightarrow> CapabilityMatrix \<Rightarrow> (RawWebhook \<Rightarrow> ('w, AdapterEvent list) eff) \<Rightarrow> (RawWebhook \<Rightarrow> 'w \<Rightarrow> bool) \<Rightarrow> 'w AdapterOps" where
  "advisory_ops pid caps ingest authentic =
     \<lparr>op_ingest = ingest, op_charge = base_attemptCharge pid caps, op_fetch = base_fetchUpdatedCard,
      op_methods = base_listPaymentMethods, op_authentic = authentic\<rparr>"

definition gateway_ops :: "'w Platform \<Rightarrow> BuiltAdapter \<Rightarrow> 'w AdapterOps option" where
  "gateway_ops pf b =
     (let m = bu_merchantId b; r = required_field b; f = built_field b; p = bu_processor b in
      if p = ''stripe'' then
        let cfg = \<lparr>sc_secretKey = r ''secretKey'', sc_webhookSecret = r ''webhookSecret'', sc_merchantId = m,
                   sc_apiVersion = f ''apiVersion'', sc_baseUrl = None\<rparr> in
        Some \<lparr>op_ingest = stripe_ingest pf cfg, op_charge = stripe_attemptCharge pf cfg, op_fetch = stripe_fetchUpdatedCard,
              op_methods = stripe_listPaymentMethods pf cfg, op_authentic = \<lambda>raw w. stripe_authentic pf cfg raw\<rparr>
      else if p = ''adyen'' then
        let cfg = \<lparr>ad_apiKey = r ''apiKey'', ad_merchantAccount = r ''merchantAccount'', ad_merchantId = m,
                   ad_hmacKey = f ''hmacKey'', ad_baseUrl = f ''baseUrl''\<rparr> in
        Some \<lparr>op_ingest = adyen_ingest pf cfg, op_charge = adyen_attemptCharge pf cfg, op_fetch = adyen_fetchUpdatedCard,
              op_methods = adyen_listPaymentMethods pf cfg, op_authentic = \<lambda>raw w. adyen_authentic pf cfg raw\<rparr>
      else if p = ''braintree'' then
        let cfg = \<lparr>bt_merchantId = m, bt_braintreeMerchantId = r ''braintreeMerchantId'', bt_publicKey = r ''publicKey'',
                   bt_privateKey = r ''privateKey'', bt_environment = f ''environment'', bt_baseUrl = f ''baseUrl''\<rparr> in
        Some \<lparr>op_ingest = braintree_ingest pf cfg, op_charge = braintree_attemptCharge pf cfg,
              op_fetch = braintree_fetchUpdatedCard, op_methods = braintree_listPaymentMethods pf cfg,
              op_authentic = \<lambda>raw w. braintree_authentic pf cfg raw\<rparr>
      else if p = ''paypal'' then
        let cfg = \<lparr>pp_clientId = r ''clientId'', pp_clientSecret = r ''clientSecret'', pp_merchantId = m,
                   pp_webhookId = f ''webhookId'', pp_baseUrl = f ''baseUrl''\<rparr> in
        Some \<lparr>op_ingest = paypal_ingest pf cfg, op_charge = paypal_attemptCharge pf cfg, op_fetch = paypal_fetchUpdatedCard,
              op_methods = paypal_listPaymentMethods, op_authentic = paypal_authentic pf cfg\<rparr>
      else if p = ''checkout'' then
        let cfg = \<lparr>ck_secretKey = r ''secretKey'', ck_merchantId = m, ck_webhookSecret = f ''webhookSecret'',
                   ck_baseUrl = f ''baseUrl''\<rparr> in
        Some \<lparr>op_ingest = checkout_ingest pf cfg, op_charge = checkout_attemptCharge pf cfg,
              op_fetch = checkout_fetchUpdatedCard, op_methods = checkout_listPaymentMethods,
              op_authentic = \<lambda>raw w. checkout_authentic pf cfg raw\<rparr>
      else if p = ''worldpay'' then
        let cfg = \<lparr>wp_username = r ''username'', wp_password = r ''password'', wp_entity = r ''entity'', wp_merchantId = m,
                   wp_webhookSecret = f ''webhookSecret'', wp_signatureHeader = f ''signatureHeader'',
                   wp_baseUrl = f ''baseUrl''\<rparr> in
        Some \<lparr>op_ingest = worldpay_ingest pf cfg, op_charge = worldpay_attemptCharge pf cfg,
              op_fetch = worldpay_fetchUpdatedCard, op_methods = worldpay_listPaymentMethods,
              op_authentic = \<lambda>raw w. worldpay_authentic pf cfg raw\<rparr>
      else if p = ''gocardless'' then
        let cfg = \<lparr>gc_accessToken = r ''accessToken'', gc_webhookSecret = r ''webhookSecret'', gc_merchantId = m,
                   gc_environment = f ''environment'', gc_baseUrl = f ''baseUrl''\<rparr> in
        Some \<lparr>op_ingest = gocardless_ingest pf cfg, op_charge = gocardless_attemptCharge pf cfg,
              op_fetch = gocardless_fetchUpdatedCard, op_methods = gocardless_listPaymentMethods pf cfg,
              op_authentic = \<lambda>raw w. gocardless_authentic pf cfg raw\<rparr>
      else None)"

definition billing_ops :: "'w Platform \<Rightarrow> BuiltAdapter \<Rightarrow> 'w AdapterOps option" where
  "billing_ops pf b =
     (let m = bu_merchantId b; r = required_field b; f = built_field b; p = bu_processor b in
      if p = ''chargebee'' then
        let cfg = \<lparr>cb_site = r ''site'', cb_apiKey = r ''apiKey'', cb_merchantId = m, cb_webhookUser = f ''webhookUser'',
                   cb_webhookPassword = f ''webhookPassword'', cb_baseUrl = f ''baseUrl''\<rparr> in
        Some \<lparr>op_ingest = chargebee_ingest pf cfg, op_charge = chargebee_attemptCharge pf cfg,
              op_fetch = chargebee_fetchUpdatedCard pf cfg, op_methods = chargebee_listPaymentMethods pf cfg,
              op_authentic = \<lambda>raw w. basic_webhook_ok pf (cb_webhookUser cfg) (cb_webhookPassword cfg) (rw_headers raw)\<rparr>
      else if p = ''recurly'' then
        let cfg = \<lparr>rl_apiKey = r ''apiKey'', rl_merchantId = m, rl_webhookUser = f ''webhookUser'',
                   rl_webhookPassword = f ''webhookPassword'', rl_baseUrl = f ''baseUrl''\<rparr> in
        Some \<lparr>op_ingest = recurly_ingest pf cfg, op_charge = recurly_attemptCharge pf cfg,
              op_fetch = recurly_fetchUpdatedCard, op_methods = recurly_listPaymentMethods pf cfg,
              op_authentic = \<lambda>raw w. basic_webhook_ok pf (rl_webhookUser cfg) (rl_webhookPassword cfg) (rw_headers raw)\<rparr>
      else if p = ''zuora'' then
        let cfg = \<lparr>zu_clientId = r ''clientId'', zu_clientSecret = r ''clientSecret'', zu_merchantId = m,
                   zu_webhookSecret = f ''webhookSecret'', zu_baseUrl = f ''baseUrl''\<rparr> in
        Some \<lparr>op_ingest = zuora_ingest pf cfg, op_charge = zuora_attemptCharge pf cfg, op_fetch = zuora_fetchUpdatedCard,
              op_methods = zuora_listPaymentMethods, op_authentic = \<lambda>raw w. zuora_authentic pf cfg raw\<rparr>
      else if p = ''maxio'' then
        let cfg = \<lparr>mx_apiKey = r ''apiKey'', mx_subdomain = r ''subdomain'', mx_merchantId = m,
                   mx_webhookSecret = f ''webhookSecret'', mx_baseUrl = f ''baseUrl''\<rparr> in
        Some \<lparr>op_ingest = maxio_ingest pf cfg, op_charge = maxio_attemptCharge pf cfg, op_fetch = maxio_fetchUpdatedCard,
              op_methods = maxio_listPaymentMethods, op_authentic = \<lambda>raw w. maxio_authentic pf cfg raw\<rparr>
      else if p = ''shopify'' then
        let cfg = \<lparr>sh_shop = r ''shop'', sh_accessToken = r ''accessToken'', sh_apiSecret = r ''apiSecret'', sh_merchantId = m,
                   sh_apiVersion = f ''apiVersion'', sh_baseUrl = f ''baseUrl''\<rparr> in
        Some \<lparr>op_ingest = shopify_ingest pf cfg, op_charge = shopify_attemptCharge pf cfg,
              op_fetch = shopify_fetchUpdatedCard, op_methods = shopify_listPaymentMethods,
              op_authentic = \<lambda>raw w. shopify_authentic pf cfg raw\<rparr>
      else if p = ''woocommerce'' then
        let cfg = \<lparr>wc_storeUrl = r ''storeUrl'', wc_consumerKey = r ''consumerKey'', wc_consumerSecret = r ''consumerSecret'',
                   wc_webhookSecret = r ''webhookSecret'', wc_merchantId = m, wc_baseUrl = f ''baseUrl''\<rparr> in
        Some \<lparr>op_ingest = woo_ingest pf cfg, op_charge = woo_attemptCharge pf cfg, op_fetch = woo_fetchUpdatedCard,
              op_methods = woo_listPaymentMethods, op_authentic = \<lambda>raw w. woo_authentic pf cfg raw\<rparr>
      else None)"

definition commerce_ops :: "'w Platform \<Rightarrow> BuiltAdapter \<Rightarrow> 'w AdapterOps option" where
  "commerce_ops pf b =
     (let m = bu_merchantId b; r = required_field b; f = built_field b; p = bu_processor b in
      if p = ''bigcommerce'' then
        let cfg = \<lparr>bc_merchantId = m, bc_webhookSecret = r ''webhookSecret'', bc_storeHash = f ''storeHash'',
                   bc_accessToken = None, bc_signatureHeader = f ''signatureHeader''\<rparr> in
        Some (advisory_ops p BigCommerceAdapter_capabilities (bigcommerce_ingest pf cfg) (\<lambda>raw w. bigcommerce_authentic pf cfg raw))
      else if p = ''kajabi'' then
        let cfg = \<lparr>kj_merchantId = m, kj_webhookSecret = r ''webhookSecret'', kj_signatureHeader = f ''signatureHeader''\<rparr> in
        Some (advisory_ops p KajabiAdapter_capabilities (kajabi_ingest pf cfg) (\<lambda>raw w. kajabi_authentic pf cfg raw))
      else if p = ''thrivecart'' then
        let cfg = \<lparr>tc_merchantId = m, tc_webhookSecret = r ''webhookSecret'', tc_secretHeader = f ''secretHeader''\<rparr> in
        Some (advisory_ops p ThriveCartAdapter_capabilities (thrivecart_ingest pf cfg) (\<lambda>raw w. thrivecart_authentic pf cfg raw))
      else if p = ''samcart'' then
        let cfg = \<lparr>sm_merchantId = m, sm_webhookSecret = r ''webhookSecret'', sm_signatureHeader = f ''signatureHeader''\<rparr> in
        Some (advisory_ops p SamCartAdapter_capabilities (samcart_ingest pf cfg) (\<lambda>raw w. samcart_authentic pf cfg raw))
      else None)"

definition built_ops :: "'w Platform \<Rightarrow> BuiltAdapter \<Rightarrow> 'w AdapterOps option" where
  "built_ops pf b = or_else (gateway_ops pf b) (or_else (billing_ops pf b) (commerce_ops pf b))"

text \<open>Whatever the processor, what the factory builds keeps the contract of the port for the merchant
  it was built for.\<close>

definition keeps_contract :: "ident \<Rightarrow> 'w AdapterOps option \<Rightarrow> bool" where
  "keeps_contract m ops \<longleftrightarrow>
     pred_option (\<lambda>x. processor_adapter m (op_authentic x) (op_ingest x) (op_charge x)) ops"

lemma contract_if: "(c \<Longrightarrow> keeps_contract m x) \<Longrightarrow> keeps_contract m y \<Longrightarrow> keeps_contract m (if c then x else y)"
  by simp

lemma contract_None: "keeps_contract m None"
  by (simp add: keeps_contract_def)

lemma contractI:
  "processor_adapter m' A I C \<Longrightarrow> m' = m \<Longrightarrow>
     keeps_contract m (Some \<lparr>op_ingest = I, op_charge = C, op_fetch = fe, op_methods = me, op_authentic = A\<rparr>)"
  by (simp add: keeps_contract_def)

lemmas gateway_contracts =
  contractI [OF stripe.processor_adapter_axioms] contractI [OF adyen.processor_adapter_axioms]
  contractI [OF braintree.processor_adapter_axioms] contractI [OF paypal.processor_adapter_axioms]
  contractI [OF checkout.processor_adapter_axioms] contractI [OF worldpay.processor_adapter_axioms]
  contractI [OF gocardless.processor_adapter_axioms]

lemmas billing_contracts =
  contractI [OF chargebee.processor_adapter_axioms] contractI [OF recurly.processor_adapter_axioms]
  contractI [OF zuora.processor_adapter_axioms] contractI [OF maxio.processor_adapter_axioms]
  contractI [OF shopify.processor_adapter_axioms] contractI [OF woocommerce.processor_adapter_axioms]

lemma gateway_contract: "keeps_contract (bu_merchantId b) (gateway_ops pf b)"
  unfolding gateway_ops_def Let_def by (intro contract_if contract_None gateway_contracts) simp_all

lemma billing_contract: "keeps_contract (bu_merchantId b) (billing_ops pf b)"
  unfolding billing_ops_def Let_def by (intro contract_if contract_None billing_contracts) simp_all

lemma advisory_contract:
  assumes "processor_adapter m' A I (base_attemptCharge pid caps)" "m' = m"
  shows "keeps_contract m (Some (advisory_ops p caps I A))"
  using assms by (auto simp: keeps_contract_def advisory_ops_def processor_adapter_def)

lemmas commerce_contracts =
  advisory_contract [OF bigcommerce.processor_adapter_axioms] advisory_contract [OF kajabi.processor_adapter_axioms]
  advisory_contract [OF thrivecart.processor_adapter_axioms] advisory_contract [OF samcart.processor_adapter_axioms]

lemma commerce_contract: "keeps_contract (bu_merchantId b) (commerce_ops pf b)"
  unfolding commerce_ops_def Let_def by (intro contract_if contract_None commerce_contracts) simp_all

lemma built_contract: "built_ops pf b = Some x \<Longrightarrow> processor_adapter (bu_merchantId b) (op_authentic x) (op_ingest x) (op_charge x)"
  using gateway_contract [of b pf] billing_contract [of b pf] commerce_contract [of b pf]
  by (cases "gateway_ops pf b"; cases "billing_ops pf b") (auto simp: built_ops_def keeps_contract_def)

text \<open>The factory builds exactly what has an adapter.\<close>

lemma built_ops_exist: "buildAdapter p m c = Inr b \<Longrightarrow> built_ops pf b \<noteq> None"
proof -
  assume h: "buildAdapter p m c = Inr b"
  then have "bu_processor b = p" "p \<in> set webhookCapableProcessors"
    by (auto simp: buildAdapter_def webhookCapableProcessors_def split: option.splits dest!: map_of_SomeD)
      (metis fst_conv imageI)
  then show ?thesis
    by (auto simp: built_ops_def gateway_ops_def billing_ops_def commerce_ops_def Let_def
        webhookCapableProcessors_def ADAPTER_FACTORIES_def)
qed

subsection \<open>The router\<close>

definition port_adapter :: "(iso \<Rightarrow> string) \<Rightarrow> string \<Rightarrow> ('w \<times> string option) AdapterOps \<Rightarrow> 'w ProcessorAdapter" where
  "port_adapter iso_text pid x =
     \<lparr>ad_id = pid,
      ad_ingestWebhook = (\<lambda>raw. andThen (fresh_cell (op_ingest x raw)) (\<lambda>es. ok (map (service_event iso_text) es))),
      ad_attemptCharge = (\<lambda>i m k. andThen (fresh_cell (op_charge x i m k)) (\<lambda>r. ok (service_result r))),
      ad_fetchUpdatedCard = (\<lambda>m. fresh_cell (op_fetch x m)),
      ad_listPaymentMethods = (\<lambda>c. fresh_cell (op_methods x c))\<rparr>"

definition no_adapter :: "string \<Rightarrow> js_error" where
  "no_adapter processor =
     JsError (''No webhook-capable adapter for processor '' @ in_quotes processor @ '' (webhook routing unsupported).'')"

definition adapter_for :: "'w Platform \<Rightarrow> MerchantConnection \<Rightarrow> js_error + ('w \<times> string option) AdapterOps" where
  "adapter_for pf c =
     bind_sum (buildAdapter (mc_processor c) (mc_merchantId c) (mc_config c)) (\<lambda>b.
       case built_ops (with_cell pf) b of Some x \<Rightarrow> Inr x | None \<Rightarrow> Inl (no_adapter (mc_processor c)))"

definition connection_for :: "ConnectionStore \<Rightarrow> string \<Rightarrow> string option \<Rightarrow> js_error + MerchantConnection" where
  "connection_for st processor connectionId =
     (case if_given connectionId (conn_get st) (conn_defaultFor st processor) of
        None \<Rightarrow> Inl (JsError (if_given connectionId (\<lambda>i. ''Unknown connection '' @ in_quotes i @ ''.'')
                   (''No default connection configured for processor '' @ in_quotes processor @ ''.'')))
      | Some c \<Rightarrow> if mc_processor c \<noteq> processor then
            Inl (JsError (''Connection '' @ in_quotes (mc_connectionId c) @ '' is for '' @ in_quotes (mc_processor c)
              @ '', not '' @ in_quotes processor @ ''.''))
          else Inr c)"

definition router_ingest ::
  "'w Platform \<Rightarrow> ('w, 'p) ServiceEnv \<Rightarrow> ConnectionStore \<Rightarrow> string \<Rightarrow> string option \<Rightarrow> RawWebhook \<Rightarrow> ('w, 'p, unit) srv" where
  "router_ingest pf env st processor connectionId raw =
     andThen (lift_sum (connection_for st processor connectionId)) (\<lambda>c.
     andThen (lift_sum (adapter_for pf c)) (\<lambda>x.
       ingestWithAdapter env (port_adapter (pf_isoText pf) (mc_processor c) x) raw))"

text \<open>The controller: the raw body and flattened headers in, the acknowledgement out.\<close>

datatype header_value = OneValue string | ManyValues "string list" | NoValue

definition flattenHeaders :: "(string \<times> header_value) list \<Rightarrow> (string \<times> string) list" where
  "flattenHeaders hs =
     List.map_filter (\<lambda>(k, v). case v of OneValue s \<Rightarrow> Some (k, s) | ManyValues vs \<Rightarrow> Some (k, join '','' vs) | NoValue \<Rightarrow> None) hs"

datatype Acknowledgement = AckAccepted | AckReceived

definition webhook_dispatch ::
  "'w Platform \<Rightarrow> ('w, 'p) ServiceEnv \<Rightarrow> ConnectionStore \<Rightarrow> string \<Rightarrow> string option \<Rightarrow> string option \<Rightarrow>
   (string \<times> header_value) list \<Rightarrow> ('w, 'p, Acknowledgement) srv" where
  "webhook_dispatch pf env st processor connectionId rawBody headers =
     andThen (router_ingest pf env st processor connectionId
       \<lparr>rw_body = coalesce rawBody '''', rw_headers = flattenHeaders headers\<rparr>) (\<lambda>_.
       ok (if processor = ''adyen'' then AckAccepted else AckReceived))"

subsection \<open>Tenant isolation\<close>

text \<open>What a webhook of one merchant may do: append entries of that merchant and record failures and
  recoveries in that merchant's onboarding.\<close>

definition tenant_log :: "ident \<Rightarrow> ledger \<Rightarrow> ledger \<Rightarrow> bool" where
  "tenant_log m L L' \<longleftrightarrow> (\<exists>new. L' = L @ new \<and> list_all (\<lambda>e. le_merchantId e = m) new)"

definition tenant_only :: "ident \<Rightarrow> ledger \<Rightarrow> onboarding_store \<Rightarrow> ('w, 'p) Service \<Rightarrow> bool" where
  "tenant_only m L ob s \<longleftrightarrow> tenant_log m L (sv_ledger s) \<and> (\<forall>m'. m' \<noteq> m \<longrightarrow> sv_onboarding s m' = ob m')"

text \<open>The events an adapter of merchant \<open>m\<close> hands over: about \<open>m\<close>, and without a payment method.\<close>

fun payload_of :: "ident \<Rightarrow> EventPayload \<Rightarrow> bool" where
  "payload_of m (InvoiceFailed invoice _ method _) \<longleftrightarrow> pred_option (\<lambda>i. inv_merchantId i = m) invoice \<and> method = None"
| "payload_of m (InvoicePaid invoice) \<longleftrightarrow> pred_option (\<lambda>i. inv_merchantId i = m) invoice"
| "payload_of m _ \<longleftrightarrow> True"

definition event_of :: "ident \<Rightarrow> CanonicalEvent \<Rightarrow> bool" where
  "event_of m e \<longleftrightarrow> ev_merchantId e = m \<and> payload_of m (ev_payload e)"

lemma event_of_service_event: "event_sound m e \<Longrightarrow> event_of m (service_event iso_text e)"
  by (cases "ae_payload e") (auto simp: event_of_def event_sound_def service_event_def)

lemma tenant_log_refl [simp]: "tenant_log m L L"
  by (simp add: tenant_log_def)

lemma tenant_log_append: "tenant_log m L L' \<Longrightarrow> le_merchantId d = m \<Longrightarrow> tenant_log m L (ledger_append H L' d)"
  by (auto simp: tenant_log_def ledger_append_def make_entry_def)

lemma tenant_log_at [intro]: "preserves (tenant_only m L ob) (log_at env t m ty d)"
  unfolding log_at_def by (rule preserves_modify) (simp add: tenant_only_def tenant_log_append)

lemma tenant_wall [intro]: "preserves (tenant_only m L ob) (wall_now env)"
  by (simp add: preserves_def wall_now_def tenant_only_def)

lemma tenant_log_now [intro]: "preserves (tenant_only m L ob) (log_now env m ty d)"
  unfolding log_now_def by (intro preserves_intros tenant_wall tenant_log_at)

lemma tenant_openCase:
  "inv_merchantId invoice = m \<Longrightarrow> preserves (tenant_only m L ob) (openCase env invoice stratum t)"
  unfolding openCase_def by (auto intro!: preserves_intros preserves_modify simp: tenant_only_def)

lemma tenant_decide: "preserves (tenant_only m L ob) (policy_decide env f ctx)"
  by (simp add: preserves_def policy_decide_def tenant_only_def)

lemma tenant_planRecovery:
  "inv_merchantId invoice = m \<Longrightarrow> preserves (tenant_only m L ob) (planRecovery env invoice decline)"
  unfolding planRecovery_def planAttempt_def featuresFor_def
  by (auto intro!: preserves_intros tenant_decide)

lemma tenant_handleEvent:
  assumes "event_of m e"
  shows "preserves (tenant_only m L ob) (handleEvent env e pid)"
proof -
  have other: "onb_recordFailure m i c a st m' = st m'" "onb_recordBaselineRecovery m i st m' = st m'"
    if "m' \<noteq> m" for i c a st m'
    using that by (auto simp: onb_recordFailure_def onb_recordBaselineRecovery_def split: option.split)
  show ?thesis
    using assms other
    by (cases "ev_payload e")
       (auto simp: handleEvent_def event_of_def recordReversal_def recordReversalReverted_def tenant_only_def
         intro!: preserves_intros preserves_modify tenant_openCase tenant_planRecovery tenant_log_at split: option.splits)
qed

lemma tenant_handle_events: "list_all (event_of m) es \<Longrightarrow> preserves (tenant_only m L ob) (handle_events env es pid)"
  by (induction es) (auto intro!: preserves_intros tenant_handleEvent)

lemma world_op_Inr: "world_op m s = (Inr a, s') \<longleftrightarrow> (\<exists>w. m (sv_world s) = (Inr a, w) \<and> s' = s\<lparr>sv_world := w\<rparr>)"
  by (auto simp: world_op_def zoom_def split: prod.splits)

lemma snd_world_op: "snd (world_op m s) = s\<lparr>sv_world := snd (m (sv_world s))\<rparr>"
  by (simp add: world_op_def zoom_def split: prod.split)

lemma tenant_world [intro]: "preserves (tenant_only m L ob) (world_op op)"
  by (simp add: preserves_def snd_world_op tenant_only_def)

text \<open>What the port hands over is about the merchant the adapter was built for, and nothing when the
  webhook is not authentic.\<close>

lemma adapter_for_contract:
  assumes "adapter_for pf c = Inr x"
  shows "processor_adapter (mc_merchantId c) (op_authentic x) (op_ingest x) (op_charge x)"
proof -
  obtain b where b: "buildAdapter (mc_processor c) (mc_merchantId c) (mc_config c) = Inr b"
      "built_ops (with_cell pf) b = Some x"
    using assms by (auto simp: adapter_for_def split: option.splits)
  then show ?thesis using built_contract [OF b(2)] buildAdapter_merchant [OF b(1)] by simp
qed

lemma port_events_of:
  assumes "adapter_for pf c = Inr x" "ad_ingestWebhook (port_adapter iso_text pid x) raw w = (Inr es, w')"
  shows "list_all (event_of (mc_merchantId c)) es"
proof -
  obtain as t where "op_ingest x raw (w, None) = (Inr as, (w', t))" and es: "es = map (service_event iso_text) as"
    using assms(2) by (auto simp: port_adapter_def andThen_Inr fresh_cell_Inr)
  then have "list_all (event_sound (mc_merchantId c)) as"
    using processor_adapter.ingest_sound [OF adapter_for_contract [OF assms(1)]] by blast
  then show ?thesis by (auto simp: es list_all_iff event_of_service_event)
qed

lemma port_forged_nothing:
  assumes "adapter_for pf c = Inr x" "\<not> op_authentic x raw (w, None)"
    and "ad_ingestWebhook (port_adapter iso_text pid x) raw w = (Inr es, w')"
  shows "es = []"
  using assms(3) processor_adapter.forged_yields_nothing [OF adapter_for_contract [OF assms(1)] assms(2)]
  by (auto simp: port_adapter_def andThen_Inr fresh_cell_Inr)

text \<open>The events of one delivery, once the adapter has answered.\<close>

lemma ingest_split:
  "snd (ingestWithAdapter env ad raw s) =
     (case ad_ingestWebhook ad raw (sv_world s) of
        (Inl e, w) \<Rightarrow> s\<lparr>sv_world := w\<rparr>
      | (Inr es, w) \<Rightarrow> snd (handle_events env es (Some (ad_id ad)) (s\<lparr>sv_world := w\<rparr>)))"
  by (simp add: ingestWithAdapter_def andThen_def world_op_def zoom_def split: prod.split sum.split)

lemma router_unknown:
  "connection_for st p cid = Inl e \<Longrightarrow> router_ingest pf env st p cid raw s = (Inl e, s)"
  by (simp add: router_ingest_def andThen_def lift_sum_def)

lemma router_unbuildable:
  "connection_for st p cid = Inr c \<Longrightarrow> adapter_for pf c = Inl e \<Longrightarrow>
     router_ingest pf env st p cid raw s = (Inl e, s)"
  by (simp add: router_ingest_def andThen_def lift_sum_def)

lemma router_routed:
  "connection_for st p cid = Inr c \<Longrightarrow> adapter_for pf c = Inr x \<Longrightarrow>
     router_ingest pf env st p cid raw = ingestWithAdapter env (port_adapter (pf_isoText pf) (mc_processor c) x) raw"
  by (auto simp: router_ingest_def andThen_def lift_sum_def)

lemma router_tenant:
  assumes "connection_for st p cid = Inr c"
  shows "tenant_only (mc_merchantId c) (sv_ledger s) (sv_onboarding s) (snd (router_ingest pf env st p cid raw s))"
proof (cases "adapter_for pf c")
  case (Inl e)
  then show ?thesis by (simp add: router_unbuildable [OF assms] tenant_only_def)
next
  case (Inr x)
  let ?ad = "port_adapter (pf_isoText pf) (mc_processor c) x"
  obtain r w where a: "ad_ingestWebhook ?ad raw (sv_world s) = (r, w)" by (cases "ad_ingestWebhook ?ad raw (sv_world s)")
  have start: "tenant_only (mc_merchantId c) (sv_ledger s) (sv_onboarding s) (s\<lparr>sv_world := w\<rparr>)"
    by (simp add: tenant_only_def)
  show ?thesis
  proof (cases r)
    case (Inl e)
    then show ?thesis using start by (simp add: router_routed [OF assms Inr] ingest_split a)
  next
    case Inr: (Inr es)
    then have "list_all (event_of (mc_merchantId c)) es" using port_events_of [OF \<open>adapter_for pf c = Inr x\<close>] a by blast
    from preserves_snd [OF tenant_handle_events [OF this] start]
    show ?thesis by (simp add: router_routed [OF assms \<open>adapter_for pf c = Inr x\<close>] ingest_split a Inr)
  qed
qed

text \<open>A forged webhook leaves the service as it was, but for what the adapter did to find out.\<close>

lemma router_forged:
  assumes "connection_for st p cid = Inr c" "adapter_for pf c = Inr x" "\<not> op_authentic x raw (sv_world s, None)"
  shows "\<exists>w. snd (router_ingest pf env st p cid raw s) = s\<lparr>sv_world := w\<rparr>"
  using port_forged_nothing [OF assms(2,3), of "pf_isoText pf" "mc_processor c"]
  by (auto simp: router_routed [OF assms(1,2)] ingest_split ok_def split: prod.split sum.split)

text \<open>No adapter puts a payment method on a failure, and only one with a payment method starts a
  durable recovery: the world beyond the adapter's own calls stays as it was.\<close>

lemma handle_event_world:
  assumes "event_of m e"
  shows "preserves (\<lambda>s. sv_world s = w) (handleEvent env e pid)"
proof (cases "ev_payload e")
  case (InvoiceFailed invc dec meth cust)
  then have "meth = None" using assms by (simp add: event_of_def)
  then show ?thesis
    using InvoiceFailed
    by (auto simp: handleEvent_def intro!: preserves_intros preserves_modify service_world.keeps_openCase
        service_world.keeps_planRecovery split: option.split)
next
  case (InvoicePaid invc)
  then show ?thesis by (auto simp: handleEvent_def intro!: preserves_intros preserves_modify split: option.split)
next
  case (PaymentReversed r)
  then show ?thesis by (simp add: handleEvent_def) (rule service_world.keeps_recordReversal)
next
  case (PaymentReversalReverted r)
  then show ?thesis by (simp add: handleEvent_def) (rule service_world.keeps_recordReversalReverted)
next
  case OtherEvent
  then show ?thesis by (simp add: handleEvent_def preserves_ok)
qed

lemma handle_events_world: "list_all (event_of m) es \<Longrightarrow> preserves (\<lambda>s. sv_world s = w) (handle_events env es pid)"
  by (induction es) (auto intro!: preserves_intros handle_event_world)

lemma router_world:
  assumes "connection_for st p cid = Inr c" "adapter_for pf c = Inr x"
  shows "sv_world (snd (router_ingest pf env st p cid raw s)) =
           snd (ad_ingestWebhook (port_adapter (pf_isoText pf) (mc_processor c) x) raw (sv_world s))"
proof -
  let ?ad = "port_adapter (pf_isoText pf) (mc_processor c) x"
  obtain r w where a: "ad_ingestWebhook ?ad raw (sv_world s) = (r, w)" by (cases "ad_ingestWebhook ?ad raw (sv_world s)")
  show ?thesis
  proof (cases r)
    case (Inl e)
    then show ?thesis by (simp add: router_routed [OF assms] ingest_split a)
  next
    case (Inr es)
    then have "list_all (event_of (mc_merchantId c)) es" using port_events_of [OF assms(2)] a by blast
    from preserves_snd [OF handle_events_world [OF this], of "s\<lparr>sv_world := w\<rparr>"]
    show ?thesis by (simp add: router_routed [OF assms] ingest_split a Inr)
  qed
qed

end
