(* ===== verification/Matrix.thy ===== *)
theory Matrix
  imports Prelude
begin

text \<open>
  The small dense linear algebra of \<open>contextual-bandit.ts\<close>: matrices are arrays of rows,
  vectors are arrays, every loop runs over the indices below a dimension \<open>d\<close>. The two
  algorithms are the rank-one update of an inverse (\<open>shermanMorrisonUpdate\<close>) and the
  Gauss-Jordan inversion with partial pivoting (\<open>invertMatrix\<close>). The lemmas say that the
  first keeps an inverse an inverse, and that the second inverts every regular matrix.
\<close>

type_synonym vector = "real list"
type_synonym matrix = "real list list"

subsection \<open>Loops over an array\<close>

text \<open>The loop \<open>for (let j = 0; j < d; j++) xs[j] = f(j, xs[j])\<close>.\<close>

definition adjust :: "nat \<Rightarrow> (nat \<Rightarrow> 'a \<Rightarrow> 'a) \<Rightarrow> 'a list \<Rightarrow> 'a list" where
  "adjust d f xs = foldl (\<lambda>ys j. ys[j := f j (ys ! j)]) xs [0..<d]"

lemma adjust_0 [simp]: "adjust 0 f xs = xs"
  by (simp add: adjust_def)

lemma adjust_Suc [simp]: "adjust (Suc d) f xs = (adjust d f xs)[d := f d (adjust d f xs ! d)]"
  by (simp add: adjust_def)

lemma length_adjust [simp]: "length (adjust d f xs) = length xs"
  by (induction d) simp_all

lemma nth_adjust: "i < length xs \<Longrightarrow> adjust d f xs ! i = (if i < d then f i (xs ! i) else xs ! i)"
  by (induction d) (auto simp: nth_list_update less_Suc_eq)

subsection \<open>Definitions\<close>

definition scaledIdentity :: "nat \<Rightarrow> real \<Rightarrow> matrix" where
  "scaledIdentity d v = map (\<lambda>i. (replicate d 0)[i := v]) [0..<d]"

definition inner :: "nat \<Rightarrow> vector \<Rightarrow> vector \<Rightarrow> real" where
  "inner d xs ys = foldl (\<lambda>s j. s + xs ! j * ys ! j) 0 [0..<d]"

definition matVec :: "matrix \<Rightarrow> vector \<Rightarrow> vector" where
  "matVec m v = map (\<lambda>i. inner (length v) (m ! i) v) [0..<length v]"

definition dot :: "vector \<Rightarrow> vector \<Rightarrow> real" where
  "dot xs ys = inner (length xs) xs ys"

definition shermanMorrisonUpdate :: "matrix \<Rightarrow> vector \<Rightarrow> matrix" where
  "shermanMorrisonUpdate aInv x =
     (let d = length x;
          aInvX = matVec aInv x;
          denom = 1 + dot x aInvX
      in if denom \<le> 0 then aInv
         else adjust d (\<lambda>i row. if aInvX ! i = 0 then row
                                else adjust d (\<lambda>j v. v - aInvX ! i * aInvX ! j / denom) row) aInv)"

text \<open>One column of the elimination: pivot search, row swap, scaling, and clearing of the column.\<close>

definition pivot_row :: "nat \<Rightarrow> matrix \<Rightarrow> nat \<Rightarrow> nat" where
  "pivot_row d a col =
     foldl (\<lambda>pivot r. if \<bar>a ! pivot ! col\<bar> < \<bar>a ! r ! col\<bar> then r else pivot) col [Suc col..<d]"

definition swap_rows :: "nat \<Rightarrow> nat \<Rightarrow> matrix \<Rightarrow> matrix" where
  "swap_rows col pivot m = (if pivot \<noteq> col then m[col := m ! pivot, pivot := m ! col] else m)"

definition scale_row :: "nat \<Rightarrow> nat \<Rightarrow> real \<Rightarrow> matrix \<Rightarrow> matrix" where
  "scale_row d col p m = m[col := adjust d (\<lambda>j v. v / p) (m ! col)]"

definition clear_column :: "nat \<Rightarrow> nat \<Rightarrow> matrix \<Rightarrow> matrix \<Rightarrow> matrix" where
  "clear_column d col a m =
     adjust d (\<lambda>r row. if r = col then row
                       else if a ! r ! col = 0 then row
                       else adjust d (\<lambda>j v. v - a ! r ! col * m ! col ! j) row) m"

definition gauss_step :: "nat \<Rightarrow> matrix \<times> matrix \<Rightarrow> nat \<Rightarrow> matrix \<times> matrix" where
  "gauss_step d ai col =
     (let pivot = pivot_row d (fst ai) col;
          a = swap_rows col pivot (fst ai);
          inv' = swap_rows col pivot (snd ai);
          p = a ! col ! col
      in if p = 0 then (a, inv')
         else (clear_column d col (scale_row d col p a) (scale_row d col p a),
               clear_column d col (scale_row d col p a) (scale_row d col p inv')))"

definition invertMatrix :: "matrix \<Rightarrow> matrix" where
  "invertMatrix src =
     (let d = length src
      in snd (foldl (gauss_step d) (src, scaledIdentity d 1) [0..<d]))"

subsection \<open>Square matrices\<close>

definition square :: "nat \<Rightarrow> matrix \<Rightarrow> bool" where
  "square d m = (length m = d \<and> list_all (\<lambda>row. length row = d) m)"

lemma squareD:
  assumes "square d m"
  shows "length m = d" "i < d \<Longrightarrow> length (m ! i) = d"
  using assms by (auto simp: square_def list_all_length)

lemma squareI: "length m = d \<Longrightarrow> (\<And>i. i < d \<Longrightarrow> length (m ! i) = d) \<Longrightarrow> square d m"
  by (simp add: square_def list_all_length)

lemma square_eqI:
  assumes "square d m" "square d n" "\<And>i j. i < d \<Longrightarrow> j < d \<Longrightarrow> m ! i ! j = n ! i ! j"
  shows "m = n"
  using assms by (intro nth_equalityI) (simp_all add: squareD)

lemma square_scaledIdentity [simp]: "square d (scaledIdentity d v)"
  by (rule squareI) (simp_all add: scaledIdentity_def)

lemma nth_scaledIdentity [simp]:
  "i < d \<Longrightarrow> j < d \<Longrightarrow> scaledIdentity d v ! i ! j = (if i = j then v else 0)"
  by (simp add: scaledIdentity_def nth_list_update)

lemma square_adjust:
  assumes "square d m" "\<And>i row. length row = d \<Longrightarrow> length (f i row) = d"
  shows "square d (adjust n f m)"
  using assms by (intro squareI) (auto simp: squareD nth_adjust)

lemma inner_sum: "inner d xs ys = (\<Sum>j<d. xs ! j * ys ! j)"
  by (induction d) (simp_all add: inner_def)

lemma length_matVec [simp]: "length (matVec m v) = length v"
  by (simp add: matVec_def)

lemma nth_matVec: "i < length v \<Longrightarrow> matVec m v ! i = (\<Sum>j<length v. m ! i ! j * v ! j)"
  by (simp add: matVec_def inner_sum)

lemma dot_sum: "dot xs ys = (\<Sum>j<length xs. xs ! j * ys ! j)"
  by (simp add: dot_def inner_sum)

definition symmetric :: "nat \<Rightarrow> matrix \<Rightarrow> bool" where
  "symmetric d m \<longleftrightarrow> (\<forall>i<d. \<forall>j<d. m ! i ! j = m ! j ! i)"

text \<open>\<open>inverse_of d a b\<close>: the product of \<open>a\<close> and \<open>b\<close> is the identity.\<close>

definition inverse_of :: "nat \<Rightarrow> matrix \<Rightarrow> matrix \<Rightarrow> bool" where
  "inverse_of d a b \<longleftrightarrow> (\<forall>i<d. \<forall>k<d. (\<Sum>j<d. a ! i ! j * b ! j ! k) = (if i = k then 1 else 0))"

definition positive :: "nat \<Rightarrow> matrix \<Rightarrow> bool" where
  "positive d m \<longleftrightarrow> (\<forall>v. (\<exists>i<d. v i \<noteq> 0) \<longrightarrow> 0 < (\<Sum>i<d. v i * (\<Sum>j<d. m ! i ! j * v j)))"

definition regular :: "nat \<Rightarrow> matrix \<Rightarrow> bool" where
  "regular d m \<longleftrightarrow> (\<forall>v. (\<forall>i<d. (\<Sum>j<d. m ! i ! j * v j) = 0) \<longrightarrow> (\<forall>j<d. v j = 0))"

lemma positive_regular: "positive d m \<Longrightarrow> regular d m"
  unfolding positive_def regular_def by (metis (no_types, lifting) less_irrefl lessThan_iff mult_zero_right sum.neutral)

lemma sum_delta_lessThan [simp]:
  fixes f :: "nat \<Rightarrow> real"
  shows "k < d \<Longrightarrow> (\<Sum>i<d. (if i = k then f i else 0)) = f k"
    "k < d \<Longrightarrow> (\<Sum>i<d. (if k = i then f i else 0)) = f k"
  by (simp_all add: sum.delta sum.delta')

text \<open>A left inverse and a right inverse of the same matrix are the same matrix.\<close>

lemma inverse_unique:
  assumes "square d b" "square d c" "inverse_of d b a" "inverse_of d a c"
  shows "b = c"
proof (rule square_eqI [OF assms(1,2)])
  fix i k assume lt: "i < d" "k < d"
  have "b ! i ! k = (\<Sum>j<d. b ! i ! j * (\<Sum>l<d. a ! j ! l * c ! l ! k))"
  proof -
    have "(\<Sum>j<d. b ! i ! j * (\<Sum>l<d. a ! j ! l * c ! l ! k)) = (\<Sum>j<d. if j = k then b ! i ! j else 0)"
      using assms(4) lt(2) by (intro sum.cong) (simp_all add: inverse_of_def)
    then show ?thesis using lt by simp
  qed
  also have "\<dots> = (\<Sum>l<d. (\<Sum>j<d. b ! i ! j * a ! j ! l) * c ! l ! k)"
    by (simp add: sum_distrib_left sum_distrib_right mult.assoc) (rule sum.swap)
  also have "\<dots> = (\<Sum>l<d. if i = l then c ! l ! k else 0)"
    using assms(3) lt(1) by (intro sum.cong) (simp_all add: inverse_of_def)
  also have "\<dots> = c ! i ! k"
    using lt by simp
  finally show "b ! i ! k = c ! i ! k" .
qed

subsection \<open>The rank-one update\<close>

lemma square_shermanMorrison [simp]: "square d b \<Longrightarrow> square d (shermanMorrisonUpdate b x)"
  by (simp add: shermanMorrisonUpdate_def Let_def square_adjust)

lemma nth_shermanMorrison:
  assumes "square d b" "length x = d" "0 < 1 + dot x (matVec b x)" "i < d" "j < d"
  shows "shermanMorrisonUpdate b x ! i ! j =
    b ! i ! j - matVec b x ! i * matVec b x ! j / (1 + dot x (matVec b x))"
  using assms by (auto simp: shermanMorrisonUpdate_def Let_def nth_adjust squareD)

lemma symmetric_shermanMorrison:
  assumes "square d b" "length x = d" "0 < 1 + dot x (matVec b x)" "symmetric d b"
  shows "symmetric d (shermanMorrisonUpdate b x)"
  using assms by (simp add: symmetric_def nth_shermanMorrison mult.commute)

text \<open>
  With \<open>a b = 1\<close>, \<open>y = b x\<close> and \<open>s = 1 + x\<bullet>y\<close>: the entry \<open>(i, k)\<close> of
  \<open>(a + x x\<^sup>T) (b - y y\<^sup>T / s)\<close> is that of the identity.
\<close>

lemma rank_one_inverse:
  fixes a b :: "nat \<Rightarrow> nat \<Rightarrow> real"
  assumes "\<And>k. k < d \<Longrightarrow> (\<Sum>j<d. a i j * b j k) = (if i = k then 1 else 0)"
    and y: "\<And>j. j < d \<Longrightarrow> y j = (\<Sum>l<d. b j l * x l)"
    and sym: "\<And>j k. j < d \<Longrightarrow> k < d \<Longrightarrow> b j k = b k j"
    and s: "s = 1 + (\<Sum>j<d. x j * y j)" "s \<noteq> 0" and lt: "i < d" "k < d"
  shows "(\<Sum>j<d. (a i j + x i * x j) * (b j k - y j * y k / s)) = (if i = k then 1 else 0)"
proof -
  have ay: "(\<Sum>j<d. a i j * y j) = x i"
  proof -
    have "(\<Sum>j<d. a i j * y j) = (\<Sum>l<d. (\<Sum>j<d. a i j * b j l) * x l)"
      by (simp add: y sum_distrib_left sum_distrib_right mult.assoc) (rule sum.swap)
    also have "\<dots> = (\<Sum>l<d. if i = l then x l else 0)"
      using assms(1) by (intro sum.cong) simp_all
    finally show ?thesis using lt by simp
  qed
  have xb: "(\<Sum>j<d. x j * b j k) = y k"
    using lt by (simp add: y sym mult.commute)
  have "(\<Sum>j<d. (a i j + x i * x j) * (b j k - y j * y k / s)) =
      (\<Sum>j<d. a i j * b j k) - (\<Sum>j<d. a i j * y j) * (y k / s)
      + x i * (\<Sum>j<d. x j * b j k) - x i * (\<Sum>j<d. x j * y j) * (y k / s)"
    by (simp add: sum_distrib_left sum_distrib_right sum.distrib sum_subtractf algebra_simps)
  also have "\<dots> = (if i = k then 1 else 0) - x i * (y k / s) + x i * y k - x i * (s - 1) * (y k / s)"
    using assms(1) lt s(1) by (simp add: ay xb)
  also have "\<dots> = (if i = k then 1 else 0)"
    using s(2) by (simp add: field_simps)
  finally show ?thesis .
qed

text \<open>The statement for the arrays: \<open>a'\<close> is \<open>a\<close> with the outer product of \<open>x\<close> added.\<close>

lemma shermanMorrison_inverse:
  assumes "square d b" "length x = d" "symmetric d b" "inverse_of d a b"
    and pos: "0 < 1 + dot x (matVec b x)"
    and a': "\<And>i j. i < d \<Longrightarrow> j < d \<Longrightarrow> a' ! i ! j = a ! i ! j + x ! i * x ! j"
  shows "inverse_of d a' (shermanMorrisonUpdate b x)"
proof -
  have "(\<Sum>j<d. a' ! i ! j * shermanMorrisonUpdate b x ! j ! k) = (if i = k then 1 else 0)"
    if lt: "i < d" "k < d" for i k
  proof -
    have "(\<Sum>j<d. a' ! i ! j * shermanMorrisonUpdate b x ! j ! k) =
        (\<Sum>j<d. (a ! i ! j + x ! i * x ! j) *
               (b ! j ! k - matVec b x ! j * matVec b x ! k / (1 + dot x (matVec b x))))"
      using assms lt by (intro sum.cong) (simp_all add: nth_shermanMorrison)
    also have "\<dots> = (if i = k then 1 else 0)"
      using assms lt
      by (intro rank_one_inverse) (auto simp: inverse_of_def symmetric_def nth_matVec dot_sum)
    finally show ?thesis .
  qed
  then show ?thesis by (simp add: inverse_of_def)
qed

lemma positive_rank_one:
  assumes "positive d a"
    and a': "\<And>i j. i < d \<Longrightarrow> j < d \<Longrightarrow> a' ! i ! j = a ! i ! j + x ! i * x ! j"
  shows "positive d a'"
  unfolding positive_def
proof (intro allI impI)
  fix v :: "nat \<Rightarrow> real"
  assume nz: "\<exists>i<d. v i \<noteq> 0"
  have "(\<Sum>i<d. v i * (\<Sum>j<d. a' ! i ! j * v j)) =
      (\<Sum>i<d. v i * (\<Sum>j<d. a ! i ! j * v j)) + (\<Sum>i<d. v i * x ! i) * (\<Sum>j<d. x ! j * v j)"
    by (simp add: a' sum_product sum_distrib_left sum.distrib algebra_simps)
  also have "(\<Sum>i<d. v i * x ! i) * (\<Sum>j<d. x ! j * v j) = (\<Sum>j<d. x ! j * v j)\<^sup>2"
    by (simp add: power2_eq_square mult.commute)
  finally show "0 < (\<Sum>i<d. v i * (\<Sum>j<d. a' ! i ! j * v j))"
    using assms(1) nz by (simp add: positive_def add_pos_nonneg)
qed

lemma positive_scaledIdentity: "0 < l \<Longrightarrow> positive d (scaledIdentity d l)"
  unfolding positive_def
proof (intro allI impI)
  fix v :: "nat \<Rightarrow> real"
  assume l: "0 < l" and "\<exists>i<d. v i \<noteq> 0"
  then obtain k where k: "k < d" "v k \<noteq> 0" by blast
  have "(\<Sum>i<d. v i * (\<Sum>j<d. scaledIdentity d l ! i ! j * v j)) = (\<Sum>i<d. l * (v i)\<^sup>2)"
  proof (intro sum.cong refl)
    fix i assume "i \<in> {..<d}"
    then have "(\<Sum>j<d. scaledIdentity d l ! i ! j * v j) = (\<Sum>j<d. if i = j then l * v j else 0)"
      by (intro sum.cong) simp_all
    with \<open>i \<in> {..<d}\<close> show "v i * (\<Sum>j<d. scaledIdentity d l ! i ! j * v j) = l * (v i)\<^sup>2"
      by (simp add: power2_eq_square)
  qed
  also have "0 < \<dots>"
    using k l by (intro sum_pos2 [of _ k]) simp_all
  finally show "0 < (\<Sum>i<d. v i * (\<Sum>j<d. scaledIdentity d l ! i ! j * v j))" .
qed

text \<open>The quadratic form of the inverse of a positive matrix is not negative.\<close>

lemma inverse_form_nonneg:
  assumes "positive d a" "inverse_of d a b" "length x = d"
  shows "0 \<le> dot x (matVec b x)"
proof -
  define w where "w i = (\<Sum>j<d. b ! i ! j * x ! j)" for i
  have aw: "(\<Sum>j<d. a ! i ! j * w j) = x ! i" if "i < d" for i
  proof -
    have "(\<Sum>j<d. a ! i ! j * w j) = (\<Sum>l<d. (\<Sum>j<d. a ! i ! j * b ! j ! l) * x ! l)"
      by (simp add: w_def sum_distrib_left sum_distrib_right mult.assoc) (rule sum.swap)
    also have "\<dots> = (\<Sum>l<d. if i = l then x ! l else 0)"
      using assms(2) that by (intro sum.cong) (simp_all add: inverse_of_def)
    finally show ?thesis using that by simp
  qed
  have "dot x (matVec b x) = (\<Sum>i<d. x ! i * w i)"
    using assms(3) by (simp add: dot_sum nth_matVec flip: w_def)
  then have "dot x (matVec b x) = (\<Sum>i<d. w i * (\<Sum>j<d. a ! i ! j * w j))"
    by (simp add: aw mult.commute [of "x ! _"])
  moreover have "0 \<le> (\<Sum>i<d. w i * (\<Sum>j<d. a ! i ! j * w j))"
  proof (cases "\<exists>i<d. w i \<noteq> 0")
    case True
    then show ?thesis using assms(1) by (simp add: positive_def less_imp_le)
  next
    case False
    then show ?thesis by simp
  qed
  ultimately show ?thesis by simp
qed

subsection \<open>Gauss-Jordan elimination\<close>

lemma pivot_row_spec:
  assumes "col < d"
  shows "pivot_row d a col < d \<and> col \<le> pivot_row d a col \<and>
    (\<forall>r. col \<le> r \<longrightarrow> r < d \<longrightarrow> \<bar>a ! r ! col\<bar> \<le> \<bar>a ! pivot_row d a col ! col\<bar>)"
proof -
  define step where "step = (\<lambda>pivot r. if \<bar>a ! pivot ! col\<bar> < \<bar>a ! r ! col\<bar> then r else pivot)"
  have "col \<le> foldl step col [Suc col..<n] \<and> foldl step col [Suc col..<n] < n \<and>
      (\<forall>r. col \<le> r \<longrightarrow> r < n \<longrightarrow> \<bar>a ! r ! col\<bar> \<le> \<bar>a ! foldl step col [Suc col..<n] ! col\<bar>)"
    if "Suc col \<le> n" for n
    using that
  proof (induction n rule: dec_induct)
    case base
    then show ?case by (simp add: le_less_Suc_eq)
  next
    case (step n)
    then show ?case
      by (auto simp: step_def less_Suc_eq intro: order.trans [OF _ less_imp_le])
  qed
  from this [of d] show ?thesis
    using assms by (simp add: pivot_row_def step_def)
qed

lemma square_list_update [intro]:
  "square d m \<Longrightarrow> length row = d \<Longrightarrow> square d (m[i := row])"
  by (cases "i < d") (auto simp: square_def list_all_length nth_list_update list_update_beyond)

lemma square_swap_rows: "square d m \<Longrightarrow> col < d \<Longrightarrow> pivot < d \<Longrightarrow> square d (swap_rows col pivot m)"
  by (auto simp: swap_rows_def squareD intro!: square_list_update)

lemma square_scale_row: "square d m \<Longrightarrow> col < d \<Longrightarrow> square d (scale_row d col p m)"
  by (auto simp: scale_row_def squareD)

lemma square_clear_column: "square d m \<Longrightarrow> square d (clear_column d col a m)"
  by (auto simp: clear_column_def intro!: square_adjust)

text \<open>The transposition of two indices, and the entries after each of the three row operations.\<close>

definition transposed :: "nat \<Rightarrow> nat \<Rightarrow> nat \<Rightarrow> nat" where
  "transposed i j k = (if k = i then j else if k = j then i else k)"

lemma nth_swap_rows:
  "square d m \<Longrightarrow> col < d \<Longrightarrow> pivot < d \<Longrightarrow> i < d \<Longrightarrow>
   swap_rows col pivot m ! i = m ! transposed col pivot i"
  by (auto simp: swap_rows_def transposed_def nth_list_update squareD)

lemma nth_scale_row:
  "square d m \<Longrightarrow> col < d \<Longrightarrow> i < d \<Longrightarrow> j < d \<Longrightarrow>
   scale_row d col p m ! i ! j = (if i = col then m ! i ! j / p else m ! i ! j)"
  by (simp add: scale_row_def nth_list_update nth_adjust squareD)

lemma nth_clear_column:
  "square d m \<Longrightarrow> i < d \<Longrightarrow> j < d \<Longrightarrow>
   clear_column d col a m ! i ! j =
     (if i = col then m ! i ! j else m ! i ! j - a ! i ! col * m ! col ! j)"
  by (simp add: clear_column_def nth_adjust squareD)

text \<open>
  The invariant of the elimination before column \<open>k\<close>: the left matrix is the right one times
  the source, a vector it annihilates is annihilated by the source, and its first \<open>k\<close>
  columns are those of the identity.
\<close>

definition eliminated :: "nat \<Rightarrow> matrix \<Rightarrow> nat \<Rightarrow> matrix \<times> matrix \<Rightarrow> bool" where
  "eliminated d src k ai \<longleftrightarrow>
     square d (fst ai) \<and> square d (snd ai) \<and>
     (\<forall>i<d. \<forall>j<d. fst ai ! i ! j = (\<Sum>l<d. snd ai ! i ! l * src ! l ! j)) \<and>
     (\<forall>v. (\<forall>i<d. (\<Sum>j<d. fst ai ! i ! j * v j) = 0) \<longrightarrow> (\<forall>i<d. (\<Sum>j<d. src ! i ! j * v j) = 0)) \<and>
     (\<forall>j<k. \<forall>i<d. fst ai ! i ! j = (if i = j then 1 else 0))"

lemma eliminatedI:
  assumes "square d a" "square d b"
    and "\<And>i j. i < d \<Longrightarrow> j < d \<Longrightarrow> a ! i ! j = (\<Sum>l<d. b ! i ! l * src ! l ! j)"
    and "\<And>v. \<forall>i<d. (\<Sum>j<d. a ! i ! j * v j) = 0 \<Longrightarrow> \<forall>i<d. (\<Sum>j<d. src ! i ! j * v j) = 0"
    and "\<And>i j. j < k \<Longrightarrow> i < d \<Longrightarrow> a ! i ! j = (if i = j then 1 else 0)"
  shows "eliminated d src k (a, b)"
  unfolding eliminated_def fst_conv snd_conv using assms by blast

lemma eliminatedD:
  assumes "eliminated d src k (a, b)"
  shows "square d a" "square d b"
    "i < d \<Longrightarrow> j < d \<Longrightarrow> a ! i ! j = (\<Sum>l<d. b ! i ! l * src ! l ! j)"
    "\<forall>i<d. (\<Sum>j<d. a ! i ! j * v j) = 0 \<Longrightarrow> \<forall>i<d. (\<Sum>j<d. src ! i ! j * v j) = 0"
    "j < k \<Longrightarrow> i < d \<Longrightarrow> a ! i ! j = (if i = j then 1 else 0)"
  using assms unfolding eliminated_def fst_conv snd_conv by blast+

lemma eliminated_init: "square d src \<Longrightarrow> eliminated d src 0 (src, scaledIdentity d 1)"
proof -
  have "(\<Sum>l<d. scaledIdentity d 1 ! i ! l * src ! l ! j) = src ! i ! j" if "i < d" for i j
  proof -
    have "(\<Sum>l<d. scaledIdentity d 1 ! i ! l * src ! l ! j) = (\<Sum>l<d. if i = l then src ! l ! j else 0)"
      using that by (intro sum.cong) simp_all
    then show ?thesis using that by simp
  qed
  then show "square d src \<Longrightarrow> eliminated d src 0 (src, scaledIdentity d 1)"
    by (simp add: eliminated_def)
qed

lemma transposed_lt [simp]: "i < d \<Longrightarrow> col < d \<Longrightarrow> pivot < d \<Longrightarrow> transposed col pivot i < d"
  by (simp add: transposed_def)

lemma transposed_transposed [simp]: "transposed col pivot (transposed col pivot i) = i"
  by (auto simp: transposed_def)

lemma eliminated_swap:
  assumes "eliminated d src k (a, b)" "k < d" "k \<le> pivot" "pivot < d"
  shows "eliminated d src k (swap_rows k pivot a, swap_rows k pivot b)"
proof -
  have sq: "square d a" "square d b" using assms(1) by (simp_all add: eliminated_def)
  note entry = nth_swap_rows [OF sq(1) assms(2,4)] nth_swap_rows [OF sq(2) assms(2,4)]
  have ann: "\<forall>i<d. (\<Sum>j<d. a ! i ! j * v j) = 0"
    if "\<forall>i<d. (\<Sum>j<d. swap_rows k pivot a ! i ! j * v j) = 0" for v
  proof (intro allI impI)
    fix i assume "i < d"
    with that [rule_format, of "transposed k pivot i"] assms(2,4)
    show "(\<Sum>j<d. a ! i ! j * v j) = 0" by (simp add: entry)
  qed
  have fixed: "transposed k pivot i = j \<longleftrightarrow> i = j" if "j < k" for i j
    using that assms(3) by (auto simp: transposed_def)
  show ?thesis
  proof (rule eliminatedI)
    show "swap_rows k pivot a ! i ! j = (\<Sum>l<d. swap_rows k pivot b ! i ! l * src ! l ! j)"
      if "i < d" "j < d" for i j
      using eliminatedD(3) [OF assms(1), of "transposed k pivot i" j] that assms(2,4) by (simp add: entry)
    show "swap_rows k pivot a ! i ! j = (if i = j then 1 else 0)" if "j < k" "i < d" for i j
      using eliminatedD(5) [OF assms(1), of j "transposed k pivot i"] that assms(2,4) fixed
      by (simp add: entry)
    show "\<forall>i<d. (\<Sum>j<d. src ! i ! j * v j) = 0"
      if "\<forall>i<d. (\<Sum>j<d. swap_rows k pivot a ! i ! j * v j) = 0" for v
      using eliminatedD(4) [OF assms(1) ann [OF that]] .
  qed (simp_all add: sq assms square_swap_rows)
qed

text \<open>Scaling the pivot row and clearing the pivot column, entry by entry.\<close>

lemma nth_cleared:
  assumes "square d a" "square d m" "col < d" "i < d" "j < d"
  shows "clear_column d col (scale_row d col p a) (scale_row d col p m) ! i ! j =
    (if i = col then m ! col ! j / p else m ! i ! j - a ! i ! col * (m ! col ! j / p))"
  using assms by (simp add: nth_clear_column nth_scale_row square_scale_row)

lemma eliminated_clear:
  assumes "eliminated d src k (a, b)" "k < d" "a ! k ! k \<noteq> 0"
  defines "p \<equiv> a ! k ! k"
  shows "eliminated d src (Suc k)
    (clear_column d k (scale_row d k p a) (scale_row d k p a),
     clear_column d k (scale_row d k p a) (scale_row d k p b))" (is "eliminated d src _ (?a, ?b)")
proof -
  note sq = eliminatedD(1,2) [OF assms(1)]
  note entry = nth_cleared [OF sq(1) sq(1) assms(2)] nth_cleared [OF sq(1) sq(2) assms(2)]
  have p: "p \<noteq> 0" using assms by simp
  note prod = eliminatedD(3) [OF assms(1)]
  show ?thesis
  proof (rule eliminatedI)
    show "square d ?a" "square d ?b"
      using sq assms(2) by (simp_all add: square_clear_column square_scale_row)
    show "?a ! i ! j = (\<Sum>l<d. ?b ! i ! l * src ! l ! j)" if "i < d" "j < d" for i j
    proof (cases "i = k")
      case True
      then show ?thesis
        using prod [of k j] that assms(2) by (simp add: entry sum_divide_distrib)
    next
      case False
      have "(\<Sum>l<d. ?b ! i ! l * src ! l ! j) =
          (\<Sum>l<d. b ! i ! l * src ! l ! j) - a ! i ! k / p * (\<Sum>l<d. b ! k ! l * src ! l ! j)"
        using that False by (simp add: entry sum_subtractf sum_distrib_left algebra_simps)
      also have "\<dots> = a ! i ! j - a ! i ! k / p * a ! k ! j"
        using prod that assms(2) by simp
      finally show ?thesis using that False by (simp add: entry)
    qed
    show "\<forall>i<d. (\<Sum>j<d. src ! i ! j * v j) = 0" if z: "\<forall>i<d. (\<Sum>j<d. ?a ! i ! j * v j) = 0" for v
    proof (rule eliminatedD(4) [OF assms(1)], intro allI impI)
      fix i assume "i < d"
      have "(\<Sum>j<d. ?a ! k ! j * v j) = (\<Sum>j<d. a ! k ! j * v j) / p"
        using assms(2) by (simp add: entry sum_divide_distrib)
      then have zk: "(\<Sum>j<d. a ! k ! j * v j) = 0"
        using z assms(2) p by (metis divide_eq_0_iff)
      show "(\<Sum>j<d. a ! i ! j * v j) = 0"
      proof (cases "i = k")
        case False
        have "(\<Sum>j<d. ?a ! i ! j * v j) = (\<Sum>j<d. a ! i ! j * v j) - a ! i ! k / p * (\<Sum>j<d. a ! k ! j * v j)"
          using \<open>i < d\<close> False by (simp add: entry sum_subtractf sum_distrib_left algebra_simps)
        with z \<open>i < d\<close> zk show ?thesis by simp
      qed (use zk in simp)
    qed
    show "?a ! i ! j = (if i = j then 1 else 0)" if "j < Suc k" "i < d" for i j
    proof (cases "j = k")
      case True
      with that p assms(2) show ?thesis by (simp add: entry p_def)
    next
      case False
      then have "a ! k ! j = 0" "a ! i ! j = (if i = j then 1 else 0)"
        using eliminatedD(5) [OF assms(1)] that assms(2) by simp_all
      with False that assms(2) show ?thesis by (auto simp: entry)
    qed
  qed
qed

text \<open>
  The pivot of a regular matrix is never 0: if the rest of the column were 0, the column would
  be a combination of the cleared ones, and the source would annihilate a nonzero vector.
\<close>

lemma pivot_nonzero:
  assumes "eliminated d src k (a, b)" "k < d" "regular d src"
  shows "a ! pivot_row d a k ! k \<noteq> 0"
proof
  assume z: "a ! pivot_row d a k ! k = 0"
  define v where "v j = (if j < k then - (a ! j ! k) else if j = k then 1 else 0)" for j
  have low: "a ! i ! k = 0" if "k \<le> i" "i < d" for i
    using pivot_row_spec [OF assms(2), of a] z that by auto
  have "(\<Sum>j<d. a ! i ! j * v j) = 0" if i: "i < d" for i
  proof -
    have "a ! i ! j * v j = (if j = i then (if i < k then - (a ! i ! k) else 0) else 0) +
        (if j = k then a ! i ! k else 0)" if "j < d" for j
      using eliminatedD(5) [OF assms(1), of j i] i by (auto simp: v_def low)
    then have "(\<Sum>j<d. a ! i ! j * v j) =
        (\<Sum>j<d. if j = i then (if i < k then - (a ! i ! k) else 0) else 0) + (\<Sum>j<d. if j = k then a ! i ! k else 0)"
      by (simp add: sum.distrib)
    then show ?thesis
      using i assms(2) low by simp
  qed
  then have "\<forall>j<d. v j = 0"
    using eliminatedD(4) [OF assms(1)] assms(3) unfolding regular_def by blast
  then show False using assms(2) by (auto simp: v_def)
qed

lemma gauss_step_eliminated:
  assumes "eliminated d src k ai" "k < d" "regular d src"
  shows "eliminated d src (Suc k) (gauss_step d ai k)"
proof -
  obtain a b where ai: "ai = (a, b)" by (cases ai)
  have piv: "pivot_row d a k < d" "k \<le> pivot_row d a k"
    using pivot_row_spec [OF assms(2)] by auto
  have e: "eliminated d src k (a, b)" using assms(1) by (simp add: ai)
  have "swap_rows k (pivot_row d a k) a ! k ! k = a ! pivot_row d a k ! k"
    using nth_swap_rows [OF eliminatedD(1) [OF e] assms(2) piv(1) assms(2)]
    by (simp add: transposed_def)
  then have "swap_rows k (pivot_row d a k) a ! k ! k \<noteq> 0"
    using pivot_nonzero [OF e assms(2,3)] by simp
  then show ?thesis
    using eliminated_clear [OF eliminated_swap [OF e assms(2) piv(2,1)] assms(2)]
    by (simp add: gauss_step_def ai Let_def)
qed

theorem invertMatrix_inverse:
  assumes "square d src" "regular d src"
  shows "square d (invertMatrix src)" "inverse_of d (invertMatrix src) src"
proof -
  have "eliminated d src k (foldl (gauss_step d) (src, scaledIdentity d 1) [0..<k])" if "k \<le> d" for k
    using that
  proof (induction k)
    case 0
    then show ?case using eliminated_init [OF assms(1)] by simp
  next
    case (Suc k)
    then show ?case using gauss_step_eliminated [OF _ _ assms(2)] by simp
  qed
  from this [of d] obtain a where e: "eliminated d src d (a, invertMatrix src)"
    using assms(1) by (cases "foldl (gauss_step d) (src, scaledIdentity d 1) [0..<d]")
      (auto simp: invertMatrix_def Let_def squareD)
  show "square d (invertMatrix src)"
    by (rule eliminatedD(2) [OF e])
  show "inverse_of d (invertMatrix src) src"
    unfolding inverse_of_def by (simp add: eliminatedD(5) [OF e] flip: eliminatedD(3) [OF e])
qed

end
