(* ===== verification/Bandit.thy ===== *)
theory Bandit
  imports RetryPolicy Matrix "HOL-Library.Multiset"
begin

text \<open>
  The learning policies of \<open>packages/recovery-engine\<close>: \<open>LinUcbBanditPolicy\<close>
  (\<open>contextual-bandit.ts\<close>), a ridge regression of the reward per action with an upper
  confidence bound, its persisted state and the merge of two processes' learning; and
  \<open>BanditPolicy\<close> (\<open>bandit.ts\<close>), one gradient step of a logistic model per outcome.

  The state of an arm is \<open>ArmState\<close>. Its invariant (\<open>bandit_arm_ok\<close>): \<open>A\<close> is symmetric and
  positive, and the incrementally kept \<open>aInv\<close> is its inverse. The log texts are omitted.
\<close>

subsection \<open>Data\<close>

datatype BanditArm = ArmRetry | ArmCardUpdateComms

record LinUcbOptions =
  lo_alpha :: real
  lo_lambda :: real
  lo_priorStrength :: real
  lo_rewardScaleMinor :: real
  lo_softCommsDamping :: real
  lo_cost :: "CostModel option"

definition DEFAULT_LINUCB_OPTIONS :: LinUcbOptions where
  "DEFAULT_LINUCB_OPTIONS =
     \<lparr>lo_alpha = 0.4, lo_lambda = 1, lo_priorStrength = 20, lo_rewardScaleMinor = 10000,
      lo_softCommsDamping = 0.15, lo_cost = None\<rparr>"

record ArmState =
  as_a :: matrix
  as_aInv :: matrix
  as_b :: vector
  as_n :: int

record BanditArmSnapshot =
  bs_a :: matrix
  bs_b :: vector
  bs_n :: int

record LinUcbBanditState =
  ls_dim :: nat
  ls_lambda :: real
  ls_arms :: "BanditArm \<Rightarrow> BanditArmSnapshot"

definition freshArm :: "LinUcbOptions \<Rightarrow> ArmState" where
  "freshArm opts =
     \<lparr>as_a = scaledIdentity FEATURE_DIM (lo_lambda opts),
      as_aInv = scaledIdentity FEATURE_DIM (1 / lo_lambda opts),
      as_b = replicate FEATURE_DIM 0, as_n = 0\<rparr>"

subsection \<open>Deciding\<close>

record ArmScore =
  sc_ucbMinor :: real
  sc_meanMinor :: real

definition scoreArm :: "LinUcbOptions \<Rightarrow> ArmState \<Rightarrow> vector \<Rightarrow> int \<Rightarrow> ArmScore" where
  "scoreArm opts state x priorMinor =
     (let theta = matVec (as_aInv state) (as_b state);
          learnedScaled = dot theta x;
          priorScaled = of_int priorMinor / lo_rewardScaleMinor opts;
          k = lo_priorStrength opts;
          blendedScaled = (of_int (as_n state) * learnedScaled + k * priorScaled) / (of_int (as_n state) + k);
          variance = max 0 (dot x (matVec (as_aInv state) x));
          bonusScaled = lo_alpha opts * sqrt variance
      in \<lparr>sc_ucbMinor = (blendedScaled + bonusScaled) * lo_rewardScaleMinor opts,
          sc_meanMinor = blendedScaled * lo_rewardScaleMinor opts\<rparr>)"

definition better_arm ::
  "(BanditArm \<Rightarrow> ArmScore) \<Rightarrow> (BanditArm \<times> ArmScore) option \<Rightarrow> BanditArm \<Rightarrow> (BanditArm \<times> ArmScore) option" where
  "better_arm score best arm =
     (case best of
        None \<Rightarrow> Some (arm, score arm)
      | Some b \<Rightarrow> if sc_ucbMinor (snd b) < sc_ucbMinor (score arm) then Some (arm, score arm) else Some b)"

definition bandit_decide ::
  "(RecoveryFeatures \<Rightarrow> real) \<Rightarrow> LinUcbOptions \<Rightarrow> (BanditArm \<Rightarrow> ArmState) \<Rightarrow>
   RecoveryFeatures \<Rightarrow> PolicyContext \<Rightarrow> js_error + RecoveryDecision" where
  "bandit_decide model opts arms features ctx =
     (let cfg = coalesce (ctx_config ctx) DEFAULT_POLICY_CONFIG;
          cost = coalesce (or_else (ctx_cost ctx) (lo_cost opts)) DEFAULT_COST_MODEL;
          score = model features;
          x = encodeFeatures features;
          dead = dead_credential (f_declineCode features);
          commsScore = (if dead then score else score * lo_softCommsDamping opts);
          retryValue = retryNetValue score (f_amountMinor features) cost (ctx_compliance ctx);
          commsValue = commsNetValue commsScore (f_amountMinor features) cost;
          priorMinor = (\<lambda>arm. case arm of ArmRetry \<Rightarrow> av_netValueMinor retryValue
                                         | ArmCardUpdateComms \<Rightarrow> av_netValueMinor commsValue);
          allowed = (if \<not> dead \<and> minRecoverabilityToRetry cfg \<le> score \<and> 0 < av_netValueMinor retryValue
                     then [ArmRetry] else []) @ [ArmCardUpdateComms];
          best = foldl (better_arm (\<lambda>arm. scoreArm opts (arms arm) x (priorMinor arm))) None allowed
      in case best of
           None \<Rightarrow>
             Inr \<lparr>rd_action = ActSuppress, rd_retryAt = None, rd_paymentMethodRef = None,
                  rd_recoverabilityScore = score, rd_expectedValueMinor = 0,
                  rd_netValueMinor = Some 0, rd_costBreakdown = None\<rparr>
         | Some (arm, s) \<Rightarrow>
             let mean = js_round (sc_meanMinor s) in
             if sc_ucbMinor s \<le> 0 then
               Inr \<lparr>rd_action = ActSuppress, rd_retryAt = None, rd_paymentMethodRef = None,
                    rd_recoverabilityScore = score, rd_expectedValueMinor = mean,
                    rd_netValueMinor = Some mean, rd_costBreakdown = None\<rparr>
             else if arm = ArmCardUpdateComms then
               Inr \<lparr>rd_action = ActCardUpdateComms, rd_retryAt = None, rd_paymentMethodRef = None,
                    rd_recoverabilityScore = score, rd_expectedValueMinor = mean,
                    rd_netValueMinor = Some mean, rd_costBreakdown = Some (av_cost commsValue)\<rparr>
             else
               (case optimalRetryTime features (ctx_now ctx) of
                  Inl e \<Rightarrow> Inl e
                | Inr t \<Rightarrow>
                    Inr \<lparr>rd_action = ActRetry, rd_retryAt = Some t,
                         rd_paymentMethodRef = map_option am_ref (selectMethod features (ctx_methods ctx)),
                         rd_recoverabilityScore = score, rd_expectedValueMinor = mean,
                         rd_netValueMinor = Some mean, rd_costBreakdown = Some (av_cost retryValue)\<rparr>))"

subsection \<open>Learning\<close>

definition arm_of :: "RecoveryActionKind \<Rightarrow> BanditArm option" where
  "arm_of action =
     (case action of ActRetry \<Rightarrow> Some ArmRetry | ActCardUpdateComms \<Rightarrow> Some ArmCardUpdateComms
                   | ActSuppress \<Rightarrow> None)"

definition observe_arm :: "vector \<Rightarrow> real \<Rightarrow> ArmState \<Rightarrow> ArmState" where
  "observe_arm x r state =
     \<lparr>as_a = adjust FEATURE_DIM
               (\<lambda>i row. if x ! i \<noteq> 0 then adjust FEATURE_DIM (\<lambda>j v. v + x ! i * x ! j) row else row)
               (as_a state),
      as_aInv = shermanMorrisonUpdate (as_aInv state) x,
      as_b = adjust FEATURE_DIM (\<lambda>i v. v + r * x ! i) (as_b state),
      as_n = as_n state + 1\<rparr>"

definition bandit_update ::
  "LinUcbOptions \<Rightarrow> RecoveryFeatures \<Rightarrow> RecoveryActionKind \<Rightarrow> int \<Rightarrow>
   (BanditArm \<Rightarrow> ArmState) \<Rightarrow> (BanditArm \<Rightarrow> ArmState)" where
  "bandit_update opts features action realizedRewardMinor arms =
     (case arm_of action of
        None \<Rightarrow> arms
      | Some arm \<Rightarrow>
          arms(arm := observe_arm (encodeFeatures features)
                        (of_int realizedRewardMinor / lo_rewardScaleMinor opts) (arms arm)))"

subsection \<open>Persisting and merging\<close>

definition arm_snapshot :: "ArmState \<Rightarrow> BanditArmSnapshot" where
  "arm_snapshot s = \<lparr>bs_a = as_a s, bs_b = as_b s, bs_n = as_n s\<rparr>"

definition bandit_snapshot :: "LinUcbOptions \<Rightarrow> (BanditArm \<Rightarrow> ArmState) \<Rightarrow> LinUcbBanditState" where
  "bandit_snapshot opts arms =
     \<lparr>ls_dim = FEATURE_DIM, ls_lambda = lo_lambda opts, ls_arms = (\<lambda>arm. arm_snapshot (arms arm))\<rparr>"

definition bandit_restore :: "LinUcbBanditState \<Rightarrow> js_error + (BanditArm \<Rightarrow> ArmState)" where
  "bandit_restore st =
     (if ls_dim st \<noteq> FEATURE_DIM then Inl (JsError ''LinUcbBanditPolicy.restore: dim'')
      else Inr (\<lambda>arm. let s = ls_arms st arm
                      in \<lparr>as_a = bs_a s, as_aInv = invertMatrix (bs_a s), as_b = bs_b s, as_n = bs_n s\<rparr>))"

definition emptyBanditState :: "real \<Rightarrow> LinUcbBanditState" where
  "emptyBanditState l =
     \<lparr>ls_dim = FEATURE_DIM, ls_lambda = l,
      ls_arms = (\<lambda>_. \<lparr>bs_a = scaledIdentity FEATURE_DIM l, bs_b = replicate FEATURE_DIM 0, bs_n = 0\<rparr>)\<rparr>"

definition mergeArm ::
  "nat \<Rightarrow> BanditArmSnapshot \<Rightarrow> BanditArmSnapshot \<Rightarrow> BanditArmSnapshot \<Rightarrow> BanditArmSnapshot" where
  "mergeArm d p c base =
     \<lparr>bs_a = adjust d (\<lambda>i row. adjust d (\<lambda>j v. v + (bs_a c ! i ! j - bs_a base ! i ! j)) row) (bs_a p),
      bs_b = adjust d (\<lambda>i v. v + (bs_b c ! i - bs_b base ! i)) (bs_b p),
      bs_n = bs_n p + (bs_n c - bs_n base)\<rparr>"

definition mergeBanditDelta ::
  "LinUcbBanditState \<Rightarrow> LinUcbBanditState \<Rightarrow> LinUcbBanditState \<Rightarrow> LinUcbBanditState" where
  "mergeBanditDelta persisted current baseline =
     \<lparr>ls_dim = ls_dim persisted, ls_lambda = ls_lambda persisted,
      ls_arms = (\<lambda>arm. mergeArm (ls_dim persisted) (ls_arms persisted arm)
                         (ls_arms current arm) (ls_arms baseline arm))\<rparr>"

subsection \<open>The invariant of an arm\<close>

definition bandit_arm_ok :: "ArmState \<Rightarrow> bool" where
  "bandit_arm_ok s \<longleftrightarrow>
     square FEATURE_DIM (as_a s) \<and> square FEATURE_DIM (as_aInv s) \<and> length (as_b s) = FEATURE_DIM \<and>
     symmetric FEATURE_DIM (as_aInv s) \<and> positive FEATURE_DIM (as_a s) \<and>
     inverse_of FEATURE_DIM (as_a s) (as_aInv s) \<and> 0 \<le> as_n s"

lemma bandit_arm_okD:
  assumes "bandit_arm_ok s"
  shows "square FEATURE_DIM (as_a s)" "square FEATURE_DIM (as_aInv s)" "length (as_b s) = FEATURE_DIM"
    "symmetric FEATURE_DIM (as_aInv s)" "positive FEATURE_DIM (as_a s)"
    "inverse_of FEATURE_DIM (as_a s) (as_aInv s)" "0 \<le> as_n s"
  using assms by (simp_all add: bandit_arm_ok_def)

lemma freshArm_ok: "0 < lo_lambda opts \<Longrightarrow> bandit_arm_ok (freshArm opts)"
proof -
  assume l: "0 < lo_lambda opts"
  have "inverse_of FEATURE_DIM (scaledIdentity FEATURE_DIM (lo_lambda opts))
      (scaledIdentity FEATURE_DIM (1 / lo_lambda opts))"
    unfolding inverse_of_def
  proof (intro allI impI)
    fix i k assume lt: "i < FEATURE_DIM" "k < FEATURE_DIM"
    have "(\<Sum>j<FEATURE_DIM. scaledIdentity FEATURE_DIM (lo_lambda opts) ! i ! j *
        scaledIdentity FEATURE_DIM (1 / lo_lambda opts) ! j ! k) =
        (\<Sum>j<FEATURE_DIM. if i = j then (if j = k then 1 else 0) else 0)"
      using lt l by (intro sum.cong) auto
    then show "(\<Sum>j<FEATURE_DIM. scaledIdentity FEATURE_DIM (lo_lambda opts) ! i ! j *
        scaledIdentity FEATURE_DIM (1 / lo_lambda opts) ! j ! k) = (if i = k then 1 else 0)"
      using lt by simp
  qed
  with l show ?thesis
    by (simp add: bandit_arm_ok_def freshArm_def positive_scaledIdentity symmetric_def)
qed

text \<open>What one observation does to the statistics: the loops add the outer product and \<open>r x\<close>.\<close>

lemma observe_arm_entries:
  assumes "square FEATURE_DIM (as_a s)" "i < FEATURE_DIM" "j < FEATURE_DIM"
  shows "as_a (observe_arm x r s) ! i ! j = as_a s ! i ! j + x ! i * x ! j"
  using assms by (simp add: observe_arm_def nth_adjust squareD)

lemma observe_arm_b:
  "length (as_b s) = FEATURE_DIM \<Longrightarrow> i < FEATURE_DIM \<Longrightarrow>
   as_b (observe_arm x r s) ! i = as_b s ! i + r * x ! i"
  by (simp add: observe_arm_def nth_adjust)

lemma observe_arm_shape:
  "square FEATURE_DIM (as_a s) \<Longrightarrow> square FEATURE_DIM (as_a (observe_arm x r s))"
  "length (as_b (observe_arm x r s)) = length (as_b s)"
  "as_n (observe_arm x r s) = as_n s + 1"
  by (simp_all add: observe_arm_def square_adjust)

text \<open>The rank-one step keeps the invariant; in particular its guard \<open>denom <= 0\<close> never fires.\<close>

lemma observe_arm_ok:
  assumes ok: "bandit_arm_ok s" and x: "length x = FEATURE_DIM"
  shows "bandit_arm_ok (observe_arm x r s)"
proof -
  note s = bandit_arm_okD [OF ok]
  have pos: "0 < 1 + dot x (matVec (as_aInv s) x)"
    using inverse_form_nonneg [OF s(5,6) x] by simp
  have aInv: "as_aInv (observe_arm x r s) = shermanMorrisonUpdate (as_aInv s) x"
    by (simp add: observe_arm_def)
  note entries = observe_arm_entries [OF s(1)]
  show ?thesis
    unfolding bandit_arm_ok_def aInv
    using s x pos shermanMorrison_inverse [OF s(2) x s(4,6) pos entries]
      symmetric_shermanMorrison [OF s(2) x pos s(4)] positive_rank_one [OF s(5) entries]
    by (simp add: observe_arm_shape)
qed

subsection \<open>Histories\<close>

text \<open>A history is the list of the updates: features, action taken, realized reward.\<close>

type_synonym outcome_event = "RecoveryFeatures \<times> RecoveryActionKind \<times> int"

definition bandit_run ::
  "LinUcbOptions \<Rightarrow> outcome_event list \<Rightarrow> (BanditArm \<Rightarrow> ArmState) \<Rightarrow> (BanditArm \<Rightarrow> ArmState)" where
  "bandit_run opts evs arms = foldl (\<lambda>s ev. bandit_update opts (fst ev) (fst (snd ev)) (snd (snd ev)) s) arms evs"

definition fresh_arms :: "LinUcbOptions \<Rightarrow> BanditArm \<Rightarrow> ArmState" where
  "fresh_arms opts = (\<lambda>_. freshArm opts)"

lemma bandit_run_Nil [simp]: "bandit_run opts [] arms = arms"
  by (simp add: bandit_run_def)

lemma bandit_run_snoc [simp]:
  "bandit_run opts (evs @ [(f, act, rew)]) arms = bandit_update opts f act rew (bandit_run opts evs arms)"
  by (simp add: bandit_run_def)

lemma bandit_run_append: "bandit_run opts (xs @ ys) arms = bandit_run opts ys (bandit_run opts xs arms)"
  by (simp add: bandit_run_def)

lemma bandit_update_apply:
  "bandit_update opts f act rew arms arm =
     (if arm_of act = Some arm
      then observe_arm (encodeFeatures f) (of_int rew / lo_rewardScaleMinor opts) (arms arm)
      else arms arm)"
  by (auto simp: bandit_update_def split: option.splits)

lemma bandit_update_suppress [simp]: "bandit_update opts f ActSuppress rew arms = arms"
  by (simp add: bandit_update_def arm_of_def)

lemma bandit_run_ok: "(\<And>arm. bandit_arm_ok (arms arm)) \<Longrightarrow> bandit_arm_ok (bandit_run opts evs arms arm)"
proof (induction evs arbitrary: arm rule: rev_induct)
  case (snoc ev evs)
  then show ?case
    by (cases ev) (simp add: bandit_update_apply observe_arm_ok)
qed simp

text \<open>The events an arm learns from, and what they contribute to its statistics.\<close>

definition arm_events :: "BanditArm \<Rightarrow> outcome_event list \<Rightarrow> outcome_event list" where
  "arm_events arm evs = filter (\<lambda>ev. arm_of (fst (snd ev)) = Some arm) evs"

definition gram :: "outcome_event list \<Rightarrow> nat \<Rightarrow> nat \<Rightarrow> real" where
  "gram evs i j = sum_list (map (\<lambda>ev. encodeFeatures (fst ev) ! i * encodeFeatures (fst ev) ! j) evs)"

definition rewards :: "LinUcbOptions \<Rightarrow> outcome_event list \<Rightarrow> nat \<Rightarrow> real" where
  "rewards opts evs i =
     sum_list (map (\<lambda>ev. of_int (snd (snd ev)) / lo_rewardScaleMinor opts * encodeFeatures (fst ev) ! i) evs)"

lemma bandit_run_shape:
  assumes "square FEATURE_DIM (as_a (arms arm))" "length (as_b (arms arm)) = FEATURE_DIM"
  shows "square FEATURE_DIM (as_a (bandit_run opts evs arms arm))"
    "length (as_b (bandit_run opts evs arms arm)) = FEATURE_DIM"
  using assms by (induction evs rule: rev_induct) (auto simp: bandit_update_apply observe_arm_shape)

lemma bandit_run_statistics:
  assumes "square FEATURE_DIM (as_a (arms arm))" "length (as_b (arms arm)) = FEATURE_DIM"
    and "i < FEATURE_DIM" "j < FEATURE_DIM"
  shows "as_a (bandit_run opts evs arms arm) ! i ! j = as_a (arms arm) ! i ! j + gram (arm_events arm evs) i j"
    and "as_b (bandit_run opts evs arms arm) ! i = as_b (arms arm) ! i + rewards opts (arm_events arm evs) i"
proof -
  note shape = bandit_run_shape [of arms arm, OF assms(1,2)]
  show "as_a (bandit_run opts evs arms arm) ! i ! j = as_a (arms arm) ! i ! j + gram (arm_events arm evs) i j"
    using assms(3,4) shape by (induction evs rule: rev_induct)
      (auto simp: bandit_update_apply observe_arm_entries gram_def arm_events_def)
  show "as_b (bandit_run opts evs arms arm) ! i = as_b (arms arm) ! i + rewards opts (arm_events arm evs) i"
    using assms(3) shape by (induction evs rule: rev_induct)
      (auto simp: bandit_update_apply observe_arm_b rewards_def arm_events_def)
qed

lemma bandit_run_n: "as_n (bandit_run opts evs arms arm) = as_n (arms arm) + int (length (arm_events arm evs))"
  by (induction evs rule: rev_induct) (auto simp: bandit_update_apply observe_arm_shape arm_events_def)

subsection \<open>Persistence\<close>

text \<open>
  A restart keeps the policy: restoring a snapshot recomputes the inverse by elimination and
  arrives at the matrix the rank-one updates had kept.
\<close>

lemma restored_inverse: "bandit_arm_ok s \<Longrightarrow> invertMatrix (as_a s) = as_aInv s"
  using invertMatrix_inverse [OF bandit_arm_okD(1) positive_regular [OF bandit_arm_okD(5)]]
  by (blast intro: inverse_unique bandit_arm_okD)

lemma restore_snapshot:
  assumes "\<And>arm. bandit_arm_ok (arms arm)"
  shows "bandit_restore (bandit_snapshot opts arms) = Inr arms"
proof -
  have "\<lparr>as_a = as_a s, as_aInv = invertMatrix (as_a s), as_b = as_b s, as_n = as_n s\<rparr> = s" if "bandit_arm_ok s" for s
    using that by (simp add: restored_inverse)
  with assms show ?thesis
    by (simp add: bandit_restore_def bandit_snapshot_def arm_snapshot_def Let_def)
qed

lemma restore_wrong_dim:
  "ls_dim st \<noteq> FEATURE_DIM \<Longrightarrow> \<exists>e. bandit_restore st = Inl e"
  by (simp add: bandit_restore_def)

lemma emptyBanditState_snapshot:
  "emptyBanditState (lo_lambda opts) = bandit_snapshot opts (fresh_arms opts)"
  by (simp add: emptyBanditState_def bandit_snapshot_def fresh_arms_def freshArm_def arm_snapshot_def)

lemma snapshot_eqI:
  assumes "square d (bs_a s)" "square d (bs_a t)" "length (bs_b s) = d" "length (bs_b t) = d"
    and "\<And>i j. i < d \<Longrightarrow> j < d \<Longrightarrow> bs_a s ! i ! j = bs_a t ! i ! j"
    and "\<And>i. i < d \<Longrightarrow> bs_b s ! i = bs_b t ! i" "bs_n s = bs_n t"
  shows "s = (t :: BanditArmSnapshot)"
proof -
  have "bs_a s = bs_a t" "bs_b s = bs_b t"
    using square_eqI [OF assms(1,2,5)] assms(3,4,6) by (auto intro: nth_equalityI)
  then show ?thesis using assms(7) by (cases s; cases t) simp
qed

lemma nth_mergeArm:
  assumes "square d (bs_a p)" "length (bs_b p) = d"
  shows "square d (bs_a (mergeArm d p c base))" "length (bs_b (mergeArm d p c base)) = d"
    "bs_n (mergeArm d p c base) = bs_n p + (bs_n c - bs_n base)"
    "i < d \<Longrightarrow> j < d \<Longrightarrow> bs_a (mergeArm d p c base) ! i ! j = bs_a p ! i ! j + (bs_a c ! i ! j - bs_a base ! i ! j)"
    "i < d \<Longrightarrow> bs_b (mergeArm d p c base) ! i = bs_b p ! i + (bs_b c ! i - bs_b base ! i)"
  using assms by (simp_all add: mergeArm_def nth_adjust squareD square_adjust)

text \<open>
  Learning from a history starting at a snapshot: the merge of what others persisted with the
  events a process has seen since its baseline is the history of all of them.
\<close>

lemma fresh_shape:
  "square FEATURE_DIM (as_a (fresh_arms opts arm))" "length (as_b (fresh_arms opts arm)) = FEATURE_DIM"
  by (simp_all add: fresh_arms_def freshArm_def)

lemma arm_events_append [simp]: "arm_events arm (xs @ ys) = arm_events arm xs @ arm_events arm ys"
  by (simp add: arm_events_def)

lemma gram_append [simp]: "gram (xs @ ys) i j = gram xs i j + gram ys i j"
  by (simp add: gram_def)

lemma rewards_append [simp]: "rewards opts (xs @ ys) i = rewards opts xs i + rewards opts ys i"
  by (simp add: rewards_def)

definition learned :: "LinUcbOptions \<Rightarrow> outcome_event list \<Rightarrow> LinUcbBanditState" where
  "learned opts evs = bandit_snapshot opts (bandit_run opts evs (fresh_arms opts))"

lemmas learned_statistics =
  bandit_run_n
  bandit_run_statistics [of "fresh_arms opts" arm for opts arm, OF fresh_shape]
  bandit_run_shape [of "fresh_arms opts" arm for opts arm, OF fresh_shape]

lemma merge_learned:
  "mergeBanditDelta (learned opts xs) (learned opts (base @ ys)) (learned opts base) = learned opts (xs @ ys)"
proof -
  have "mergeArm FEATURE_DIM (arm_snapshot (bandit_run opts xs (fresh_arms opts) arm))
      (arm_snapshot (bandit_run opts (base @ ys) (fresh_arms opts) arm))
      (arm_snapshot (bandit_run opts base (fresh_arms opts) arm)) =
      arm_snapshot (bandit_run opts (xs @ ys) (fresh_arms opts) arm)" for arm
    by (rule snapshot_eqI [of FEATURE_DIM])
      (simp_all add: nth_mergeArm arm_snapshot_def learned_statistics)
  then show ?thesis
    by (simp add: learned_def mergeBanditDelta_def bandit_snapshot_def)
qed

text \<open>The statistics are sums, so the order of the events does not matter.\<close>

lemma learned_mset:
  assumes "mset xs = mset ys"
  shows "learned opts xs = learned opts ys"
proof -
  have m: "mset (arm_events arm xs) = mset (arm_events arm ys)" for arm
    using assms by (simp add: arm_events_def mset_filter)
  have sums: "sum_list (map g (arm_events arm xs)) = sum_list (map g (arm_events arm ys))"
    for g :: "outcome_event \<Rightarrow> real" and arm
    using m [of arm] by (metis mset_map sum_mset_sum_list)
  have len: "length (arm_events arm xs) = length (arm_events arm ys)" for arm
    using m [of arm] by (rule mset_eq_length)
  have "arm_snapshot (bandit_run opts xs (fresh_arms opts) arm) =
      arm_snapshot (bandit_run opts ys (fresh_arms opts) arm)" for arm
    by (rule snapshot_eqI [of FEATURE_DIM])
      (simp_all add: arm_snapshot_def learned_statistics gram_def rewards_def sums len)
  then show ?thesis by (simp add: learned_def bandit_snapshot_def)
qed

subsection \<open>The decisions of the bandit\<close>

text \<open>A retry is proposed only above the recoverability floor, for a live credential, at a cost-aware gain.\<close>

lemma bandit_retry_floor:
  assumes "bandit_decide model opts arms f ctx = Inr d" "rd_action d = ActRetry"
  shows "\<not> dead_credential (f_declineCode f)"
    "minRecoverabilityToRetry (coalesce (ctx_config ctx) DEFAULT_POLICY_CONFIG) \<le> model f"
    "0 < av_netValueMinor (retryNetValue (model f) (f_amountMinor f)
           (coalesce (or_else (ctx_cost ctx) (lo_cost opts)) DEFAULT_COST_MODEL) (ctx_compliance ctx))"
  using assms
  by (auto simp: bandit_decide_def Let_def better_arm_def split: if_splits sum.splits option.splits)

interpretation bandit_policy: dispatch_policy "bandit_decide model opts arms" for model opts arms
  by unfold_locales
    (auto simp: bandit_decide_def Let_def better_arm_def
      split: if_splits sum.splits dest!: selectMethod_member optimalRetryTime_later)

text \<open>Before any outcome the learned mean is the cost-aware prior, whatever the context.\<close>

lemma scoreArm_fresh:
  assumes "lo_priorStrength opts \<noteq> 0" "lo_rewardScaleMinor opts \<noteq> 0" "length x = FEATURE_DIM"
  shows "scoreArm opts (freshArm opts) x prior =
    \<lparr>sc_ucbMinor = of_int prior + lo_alpha opts * sqrt (max 0 (dot x (matVec (as_aInv (freshArm opts)) x)))
        * lo_rewardScaleMinor opts,
     sc_meanMinor = of_int prior\<rparr>"
proof -
  have "matVec (as_aInv (freshArm opts)) (as_b (freshArm opts)) = replicate FEATURE_DIM 0"
    by (rule nth_equalityI) (simp_all add: nth_matVec freshArm_def)
  then have "dot (matVec (as_aInv (freshArm opts)) (as_b (freshArm opts))) x = 0"
    by (simp add: dot_sum)
  moreover have "as_n (freshArm opts) = 0" by (simp add: freshArm_def)
  ultimately show ?thesis
    using assms by (simp add: scoreArm_def Let_def algebra_simps)
qed

text \<open>The context has length at least 1: one of the decline codes is hot.\<close>

lemma encode_norm: "1 \<le> dot (encodeFeatures f) (encodeFeatures f)"
proof -
  let ?x = "encodeFeatures f"
  have "f_declineCode f \<in> set DECLINE_ORDER" by (simp add: DECLINE_ORDER_def all_codes_complete)
  then obtain k where k: "k < length DECLINE_ORDER" "DECLINE_ORDER ! k = f_declineCode f"
    by (auto simp: in_set_conv_nth)
  have "?x ! k = one_hot DECLINE_ORDER (\<lambda>c. f_declineCode f = c) ! k"
    using k by (simp add: encodeFeatures_def nth_append)
  with k have xk: "?x ! k = 1" by (simp add: one_hot_def)
  have kd: "k < FEATURE_DIM" using k by (simp add: FEATURE_DIM_def)
  have "(\<Sum>j\<in>{k}. ?x ! j * ?x ! j) \<le> (\<Sum>j<FEATURE_DIM. ?x ! j * ?x ! j)"
    by (rule sum_mono2) (use kd in auto)
  then show ?thesis by (simp add: dot_sum xk)
qed

lemma fresh_variance:
  assumes "lo_lambda opts = 1" "length x = FEATURE_DIM"
  shows "dot x (matVec (as_aInv (freshArm opts)) x) = dot x x"
proof -
  have "matVec (scaledIdentity FEATURE_DIM 1) x = x"
  proof (rule nth_equalityI)
    fix i assume "i < length (matVec (scaledIdentity FEATURE_DIM 1) x)"
    then have i: "i < FEATURE_DIM" using assms(2) by simp
    have "(\<Sum>j<FEATURE_DIM. scaledIdentity FEATURE_DIM 1 ! i ! j * x ! j) = (\<Sum>j<FEATURE_DIM. if i = j then x ! j else 0)"
      using i by (intro sum.cong) simp_all
    with i assms(2) show "matVec (scaledIdentity FEATURE_DIM 1) x ! i = x ! i"
      by (simp add: nth_matVec)
  qed simp
  with assms(1) show ?thesis by (simp add: freshArm_def)
qed

text \<open>
  On the first day the exploration bonus of the shipped options is at least 4000 minor units,
  for every arm: it exceeds the cost of a message, so nothing is ever suppressed.
\<close>

lemma cold_start_score:
  assumes "length x = FEATURE_DIM"
  shows "scoreArm DEFAULT_LINUCB_OPTIONS (freshArm DEFAULT_LINUCB_OPTIONS) x prior =
    \<lparr>sc_ucbMinor = of_int prior + 4000 * sqrt (dot x x), sc_meanMinor = of_int prior\<rparr>"
proof -
  have "0 \<le> dot x x" by (simp add: dot_sum sum_nonneg)
  then show ?thesis
    using scoreArm_fresh [of DEFAULT_LINUCB_OPTIONS x prior] fresh_variance [of DEFAULT_LINUCB_OPTIONS x] assms
    by (simp add: DEFAULT_LINUCB_OPTIONS_def)
qed

lemma cold_start_no_suppress:
  assumes "cm_commsCostMinor cost < 4000" "cost = coalesce (ctx_cost ctx) DEFAULT_COST_MODEL"
    and "0 \<le> f_amountMinor f" "0 \<le> cm_retentionMultiplier cost"
    and "bandit_decide model DEFAULT_LINUCB_OPTIONS (fresh_arms DEFAULT_LINUCB_OPTIONS) f ctx = Inr d"
  shows "rd_action d \<noteq> ActSuppress"
proof -
  let ?x = "encodeFeatures f"
  have norm: "4000 \<le> 4000 * sqrt (dot ?x ?x)" using encode_norm [of f] by simp
  have "0 \<le> gross_value s (f_amountMinor f) cost" for s
    unfolding gross_value_def using assms(3,4) by (intro js_round_nonneg) simp
  then have "- 4000 < av_netValueMinor (commsNetValue s (f_amountMinor f) cost)" for s
    using assms(1) by (simp add: commsNetValue_def Let_def) (smt (verit))
  then have "(- 4000 :: real) < of_int (av_netValueMinor (commsNetValue s (f_amountMinor f) cost))" for s
    by (metis of_int_less_iff of_int_minus of_int_numeral)
  then have pos: "0 < of_int (av_netValueMinor (commsNetValue s (f_amountMinor f) cost)) + 4000 * sqrt (dot ?x ?x)" for s
    using norm by (smt (verit))
  have pos': "\<not> of_int n + 4000 * sqrt (dot ?x ?x) \<le> 0" if "0 < n" for n :: int
    using that norm by (simp add: add_pos_nonneg not_le)
  have opt: "lo_cost DEFAULT_LINUCB_OPTIONS = None" "or_else (ctx_cost ctx) None = ctx_cost ctx"
    by (simp add: DEFAULT_LINUCB_OPTIONS_def) (cases "ctx_cost ctx", simp_all)
  show ?thesis
    using assms(5) pos
    by (auto simp: bandit_decide_def Let_def better_arm_def fresh_arms_def cold_start_score opt assms(2) pos'
        not_less not_le split: if_splits sum.splits dest: le_less_trans)
qed

text \<open>Where the fixed policy suppresses below the floor, the untrained bandit sends a message.\<close>

lemma cold_start_differs:
  assumes "\<not> dead_credential (f_declineCode f)" "model f < 0.04" "0 \<le> f_amountMinor f"
    and "ctx_config ctx = None" "ctx_cost ctx = None"
  shows "\<exists>d. cost_aware_decide model f ctx = Inr d \<and> rd_action d = ActSuppress"
    and "\<exists>d. bandit_decide model DEFAULT_LINUCB_OPTIONS (fresh_arms DEFAULT_LINUCB_OPTIONS) f ctx = Inr d \<and>
           rd_action d = ActCardUpdateComms"
proof -
  have floor': "model f < minRecoverabilityToRetry (coalesce (ctx_config ctx) DEFAULT_POLICY_CONFIG)"
    using assms(2,4) by (simp add: DEFAULT_POLICY_CONFIG_def)
  show "\<exists>d. cost_aware_decide model f ctx = Inr d \<and> rd_action d = ActSuppress"
    using assms(1) floor' by (simp add: cost_aware_decide_def Let_def)
  have "\<exists>d. bandit_decide model DEFAULT_LINUCB_OPTIONS (fresh_arms DEFAULT_LINUCB_OPTIONS) f ctx = Inr d"
    using floor' by (auto simp: bandit_decide_def Let_def better_arm_def not_le split: if_split)
  then obtain d where
    d: "bandit_decide model DEFAULT_LINUCB_OPTIONS (fresh_arms DEFAULT_LINUCB_OPTIONS) f ctx = Inr d" ..
  have "rd_action d \<noteq> ActSuppress"
    by (rule cold_start_no_suppress [OF _ refl assms(3) _ d])
      (simp_all add: assms(5) DEFAULT_COST_MODEL_def)
  moreover have "rd_action d \<noteq> ActRetry"
    using bandit_retry_floor(2) [OF d] floor' by auto
  ultimately have "rd_action d = ActCardUpdateComms" by (cases "rd_action d") simp_all
  with d show "\<exists>d. bandit_decide model DEFAULT_LINUCB_OPTIONS (fresh_arms DEFAULT_LINUCB_OPTIONS) f ctx = Inr d \<and>
      rd_action d = ActCardUpdateComms" by blast
qed

subsection \<open>The online logistic policy\<close>

record BanditOptions =
  bo_learningRate :: real
  bo_l2 :: real

definition DEFAULT_BANDIT_OPTIONS :: BanditOptions where
  "DEFAULT_BANDIT_OPTIONS = \<lparr>bo_learningRate = 0.05, bo_l2 = 0.00001\<rparr>"

definition make_bandit :: "RecoverabilityWeights \<Rightarrow> js_error + RecoverabilityWeights" where
  "make_bandit initial =
     (if length (wt_w initial) \<noteq> FEATURE_DIM then Inl (JsError ''BanditPolicy: weight length'')
      else Inr initial)"

definition sgd_logit :: "RecoverabilityWeights \<Rightarrow> RecoveryFeatures \<Rightarrow> real" where
  "sgd_logit wts f =
     (let x = encodeFeatures f in foldl (\<lambda>z i. z + wt_w wts ! i * x ! i) (wt_b wts) [0..<FEATURE_DIM])"

definition sgd_probability :: "RecoverabilityWeights \<Rightarrow> RecoveryFeatures \<Rightarrow> real" where
  "sgd_probability wts f = sigmoid (sgd_logit wts f)"

definition sgd_decide ::
  "RecoverabilityWeights \<Rightarrow> RecoveryFeatures \<Rightarrow> PolicyContext \<Rightarrow> js_error + RecoveryDecision" where
  "sgd_decide wts = heuristic_decide (sgd_probability wts)"

definition sgd_update ::
  "BanditOptions \<Rightarrow> RecoveryFeatures \<Rightarrow> int \<Rightarrow> RecoverabilityWeights \<Rightarrow> RecoverabilityWeights" where
  "sgd_update opts features realizedRewardMinor wts =
     (let y = (if 0 < realizedRewardMinor then 1 else 0);
          x = encodeFeatures features;
          p = sgd_probability wts features;
          err = p - y
      in wts\<lparr>wt_w := adjust FEATURE_DIM
                       (\<lambda>i w. w - bo_learningRate opts * (err * x ! i + bo_l2 opts * w)) (wt_w wts),
             wt_b := wt_b wts - bo_learningRate opts * err\<rparr>)"

interpretation sgd_policy: retry_policy "sgd_decide wts" for wts
  unfolding sgd_decide_def by (rule heuristic_policy.retry_policy_axioms)

lemma sgd_logit_sum: "sgd_logit wts f = wt_b wts + (\<Sum>i<FEATURE_DIM. wt_w wts ! i * encodeFeatures f ! i)"
proof -
  have "foldl (\<lambda>z i. z + wt_w wts ! i * x ! i) c [0..<n] = c + (\<Sum>i<n. wt_w wts ! i * x ! i)" for x c n
    by (induction n) simp_all
  then show ?thesis by (simp add: sgd_logit_def Let_def)
qed

lemma sgd_sum:
  fixes w x :: "nat \<Rightarrow> real"
  shows "(\<Sum>i<n. (w i - l * (e * x i + k * w i)) * x i) =
    (\<Sum>i<n. w i * x i) - l * e * (\<Sum>i<n. x i * x i) - l * k * (\<Sum>i<n. w i * x i)"
  by (induction n) (simp_all add: algebra_simps)

text \<open>
  One step moves the log-odds of the same features by the error times the squared length of the
  context (with the intercept), less the decay.
\<close>

lemma sgd_step:
  assumes "length (wt_w wts) = FEATURE_DIM"
  shows "sgd_logit (sgd_update opts f rew wts) f = sgd_logit wts f
    - bo_learningRate opts * (sgd_probability wts f - (if 0 < rew then 1 else 0))
        * (dot (encodeFeatures f) (encodeFeatures f) + 1)
    - bo_learningRate opts * bo_l2 opts * (sgd_logit wts f - wt_b wts)"
proof -
  let ?x = "encodeFeatures f" and ?e = "sgd_probability wts f - (if 0 < rew then 1 else 0)"
  have "(\<Sum>i<FEATURE_DIM. wt_w (sgd_update opts f rew wts) ! i * ?x ! i) =
      (\<Sum>i<FEATURE_DIM. wt_w wts ! i * ?x ! i) - bo_learningRate opts * ?e * (\<Sum>i<FEATURE_DIM. ?x ! i * ?x ! i)
      - bo_learningRate opts * bo_l2 opts * (\<Sum>i<FEATURE_DIM. wt_w wts ! i * ?x ! i)"
    using assms by (simp only: sgd_update_def Let_def sgd_sum [symmetric])
      (simp add: nth_adjust)
  then show ?thesis
    by (simp add: sgd_logit_sum dot_sum) (simp add: sgd_update_def Let_def algebra_simps)
qed

lemma logistic_strict_mono: "x < y \<Longrightarrow> logistic x < logistic y"
  by (simp add: logistic_def frac_less2 add_pos_pos)

text \<open>Without decay a recovery raises the probability of the same features, a failure lowers it.\<close>

lemma sgd_learns:
  assumes "length (wt_w wts) = FEATURE_DIM" "0 < bo_learningRate opts" "bo_l2 opts = 0"
  shows "0 < rew \<Longrightarrow> sgd_probability wts f < sgd_probability (sgd_update opts f rew wts) f"
    and "\<not> 0 < rew \<Longrightarrow> sgd_probability (sgd_update opts f rew wts) f < sgd_probability wts f"
proof -
  have c: "0 < bo_learningRate opts * (dot (encodeFeatures f) (encodeFeatures f) + 1)"
    using assms(2) encode_norm [of f] by simp
  have p: "0 < sgd_probability wts f" "sgd_probability wts f < 1"
    by (simp_all add: sgd_probability_def sigmoid_eq_logistic logistic_range)
  note step = sgd_step [OF assms(1), of opts f rew]
  show "sgd_probability wts f < sgd_probability (sgd_update opts f rew wts) f" if "0 < rew"
  proof -
    have "0 < bo_learningRate opts * (dot (encodeFeatures f) (encodeFeatures f) + 1) * (1 - sgd_probability wts f)"
      using c p by simp
    then show ?thesis
      using step that assms(3)
      by (simp add: sgd_probability_def sigmoid_eq_logistic algebra_simps logistic_strict_mono)
  qed
  show "sgd_probability (sgd_update opts f rew wts) f < sgd_probability wts f" if "\<not> 0 < rew"
  proof -
    have "0 < bo_learningRate opts * (dot (encodeFeatures f) (encodeFeatures f) + 1) * sgd_probability wts f"
      using c p by simp
    then show ?thesis
      using step that assms(3)
      by (simp add: sgd_probability_def sigmoid_eq_logistic algebra_simps logistic_strict_mono)
  qed
qed

end
