(* ===== verification/Flywheel.thy ===== *)
theory Flywheel
  imports Bandit
begin

text \<open>
  The shared learning state of \<open>recovery-case.service.ts\<close> (\<open>useBanditPolicy\<close>,
  \<open>loadBanditState\<close>, \<open>flushBanditState\<close>, \<open>learnOnline\<close>) over the store of
  \<open>bandit-store.ts\<close>: every process learns on its own copy and periodically adds what it
  learned to one persisted row. A flush has three points where other work can run, so it is
  three operations here: the snapshot, the merge with the row, and the adoption of the merged
  state. The system of several processes with uninterrupted flushes refines an abstract pool
  of outcomes (\<open>fw_refines\<close>); \<open>flush_window_loses\<close> is what an interrupted one does.
\<close>

abbreviation bandit_options :: LinUcbOptions where
  "bandit_options \<equiv> DEFAULT_LINUCB_OPTIONS"

record BanditProcess =
  bp_arms :: "BanditArm \<Rightarrow> ArmState"
  bp_baseline :: LinUcbBanditState
  bp_sinceFlush :: int
  bp_totalUpdates :: int

text \<open>The persisted row of the name \<open>global\<close>: the document and its update count.\<close>

type_synonym bandit_row = "(LinUcbBanditState \<times> int) option"

definition BANDIT_FLUSH_EVERY :: int where
  "BANDIT_FLUSH_EVERY = 25"

definition useBanditPolicy :: "BanditProcess" where
  "useBanditPolicy =
     \<lparr>bp_arms = fresh_arms bandit_options, bp_baseline = emptyBanditState (lo_lambda bandit_options),
      bp_sinceFlush = 0, bp_totalUpdates = 0\<rparr>"

definition loadBanditState :: "bandit_row \<Rightarrow> BanditProcess \<Rightarrow> js_error + BanditProcess" where
  "loadBanditState row p =
     (case row of
        Some (state, _) \<Rightarrow>
          (case bandit_restore state of
             Inl e \<Rightarrow> Inl e
           | Inr arms \<Rightarrow> Inr (p\<lparr>bp_arms := arms, bp_baseline := state\<rparr>))
      | None \<Rightarrow> Inr (p\<lparr>bp_baseline := bandit_snapshot bandit_options (bp_arms p)\<rparr>))"

definition useChampion :: "BanditProcess \<Rightarrow> BanditProcess" where
  "useChampion p = p\<lparr>bp_arms := fresh_arms bandit_options\<rparr>"

text \<open>
  Learning from one charge outcome (its reward is computed by \<open>RecoveryCase.learnOnline\<close>); the
  flag says that a flush is due.
\<close>

definition bandit_learn :: "outcome_event \<Rightarrow> BanditProcess \<Rightarrow> BanditProcess \<times> bool" where
  "bandit_learn ev p =
     (let q = p\<lparr>bp_arms := bandit_update bandit_options (fst ev) (fst (snd ev)) (snd (snd ev)) (bp_arms p)\<rparr>
      in if arm_of (fst (snd ev)) = None then (q, False)
         else
           (let n = bp_sinceFlush p + 1; q = q\<lparr>bp_totalUpdates := bp_totalUpdates p + 1\<rparr> in
            if BANDIT_FLUSH_EVERY \<le> n then (q\<lparr>bp_sinceFlush := 0\<rparr>, True)
            else (q\<lparr>bp_sinceFlush := n\<rparr>, False)))"

definition flush_snapshot :: "BanditProcess \<Rightarrow> LinUcbBanditState" where
  "flush_snapshot p = bandit_snapshot bandit_options (bp_arms p)"

definition flush_merge :: "bandit_row \<Rightarrow> LinUcbBanditState \<Rightarrow> BanditProcess \<Rightarrow> LinUcbBanditState" where
  "flush_merge row current p =
     mergeBanditDelta (case row of None \<Rightarrow> emptyBanditState (lo_lambda bandit_options) | Some r \<Rightarrow> fst r)
       current (bp_baseline p)"

definition flush_adopt :: "LinUcbBanditState \<Rightarrow> BanditProcess \<Rightarrow> BanditProcess" where
  "flush_adopt merged p =
     (case bandit_restore merged of
        Inl e \<Rightarrow> p
      | Inr arms \<Rightarrow> p\<lparr>bp_arms := arms, bp_baseline := merged, bp_sinceFlush := 0\<rparr>)"

definition flushBanditState :: "bandit_row \<Rightarrow> BanditProcess \<Rightarrow> bandit_row \<times> BanditProcess" where
  "flushBanditState row p =
     (let merged = flush_merge row (flush_snapshot p) p
      in (Some (merged, bp_totalUpdates p), flush_adopt merged p))"

subsection \<open>The system\<close>

record Flywheel =
  fw_row :: bandit_row
  fw_procs :: "nat \<Rightarrow> BanditProcess"

datatype fw_event =
    FwLearn nat outcome_event
  | FwFlush nat
  | FwRestart nat

definition fw_flush :: "nat \<Rightarrow> Flywheel \<Rightarrow> Flywheel" where
  "fw_flush i w =
     (let rp = flushBanditState (fw_row w) (fw_procs w i)
      in w\<lparr>fw_row := fst rp, fw_procs := (fw_procs w)(i := snd rp)\<rparr>)"

fun fw_step :: "fw_event \<Rightarrow> Flywheel \<Rightarrow> Flywheel" where
  "fw_step (FwLearn i ev) w =
     (let pf = bandit_learn ev (fw_procs w i); w' = w\<lparr>fw_procs := (fw_procs w)(i := fst pf)\<rparr>
      in if snd pf then fw_flush i w' else w')"
| "fw_step (FwFlush i) w = fw_flush i w"
| "fw_step (FwRestart i) w =
     (case loadBanditState (fw_row w) useBanditPolicy of
        Inl e \<Rightarrow> w
      | Inr p \<Rightarrow> w\<lparr>fw_procs := (fw_procs w)(i := p)\<rparr>)"

definition fw_init :: Flywheel where
  "fw_init = \<lparr>fw_row = None, fw_procs = (\<lambda>_. useBanditPolicy)\<rparr>"

definition fw_run :: "fw_event list \<Rightarrow> Flywheel" where
  "fw_run evs = foldl (\<lambda>w ev. fw_step ev w) fw_init evs"

subsection \<open>The abstract pool\<close>

text \<open>
  What the processes share is the list of outcomes in the pool; each process remembers the pool
  it last saw and the outcomes it learned since, with the count that triggers a flush.
\<close>

record Learner =
  le_base :: "outcome_event list"
  le_pending :: "outcome_event list"
  le_count :: int

record Pool =
  po_shared :: "outcome_event list"
  po_learners :: "nat \<Rightarrow> Learner"

definition po_flush :: "nat \<Rightarrow> Pool \<Rightarrow> Pool" where
  "po_flush i w =
     (let l = po_learners w i; shared = po_shared w @ le_pending l
      in \<lparr>po_shared = shared,
          po_learners = (po_learners w)(i := \<lparr>le_base = shared, le_pending = [], le_count = 0\<rparr>)\<rparr>)"

fun po_step :: "fw_event \<Rightarrow> Pool \<Rightarrow> Pool" where
  "po_step (FwLearn i ev) w =
     (let l = po_learners w i; l' = l\<lparr>le_pending := le_pending l @ [ev]\<rparr> in
      if arm_of (fst (snd ev)) = None then w\<lparr>po_learners := (po_learners w)(i := l')\<rparr>
      else if BANDIT_FLUSH_EVERY \<le> le_count l + 1 then po_flush i (w\<lparr>po_learners := (po_learners w)(i := l'\<lparr>le_count := 0\<rparr>)\<rparr>)
      else w\<lparr>po_learners := (po_learners w)(i := l'\<lparr>le_count := le_count l + 1\<rparr>)\<rparr>)"
| "po_step (FwFlush i) w = po_flush i w"
| "po_step (FwRestart i) w =
     w\<lparr>po_learners := (po_learners w)(i := \<lparr>le_base = po_shared w, le_pending = [], le_count = 0\<rparr>)\<rparr>"

definition po_init :: Pool where
  "po_init = \<lparr>po_shared = [], po_learners = (\<lambda>_. \<lparr>le_base = [], le_pending = [], le_count = 0\<rparr>)\<rparr>"

definition po_run :: "fw_event list \<Rightarrow> Pool" where
  "po_run evs = foldl (\<lambda>w ev. po_step ev w) po_init evs"

subsection \<open>Refinement\<close>

definition learner_rel :: "BanditProcess \<Rightarrow> Learner \<Rightarrow> bool" where
  "learner_rel p l \<longleftrightarrow>
     bp_arms p = bandit_run bandit_options (le_base l @ le_pending l) (fresh_arms bandit_options) \<and>
     bp_baseline p = learned bandit_options (le_base l) \<and> bp_sinceFlush p = le_count l"

definition row_state :: "bandit_row \<Rightarrow> LinUcbBanditState" where
  "row_state row = (case row of None \<Rightarrow> emptyBanditState (lo_lambda bandit_options) | Some r \<Rightarrow> fst r)"

definition fw_rel :: "Flywheel \<Rightarrow> Pool \<Rightarrow> bool" where
  "fw_rel w a \<longleftrightarrow>
     row_state (fw_row w) = learned bandit_options (po_shared a) \<and>
     (\<forall>i. learner_rel (fw_procs w i) (po_learners a i))"

lemma learned_Nil: "learned opts [] = emptyBanditState (lo_lambda opts)"
  by (simp add: learned_def emptyBanditState_snapshot)

lemma options_lambda: "0 < lo_lambda bandit_options"
  by (simp add: DEFAULT_LINUCB_OPTIONS_def)

lemma restore_learned:
  "bandit_restore (learned bandit_options evs) = Inr (bandit_run bandit_options evs (fresh_arms bandit_options))"
  unfolding learned_def
  by (intro restore_snapshot bandit_run_ok) (simp add: fresh_arms_def freshArm_ok options_lambda)

lemma flush_learned:
  assumes "learner_rel p l" "row_state row = learned bandit_options shared"
  shows "flush_merge row (flush_snapshot p) p = learned bandit_options (shared @ le_pending l)"
proof -
  have "flush_snapshot p = learned bandit_options (le_base l @ le_pending l)"
    using assms(1) by (simp add: flush_snapshot_def learner_rel_def learned_def)
  then show ?thesis
    using assms merge_learned [of bandit_options shared "le_base l" "le_pending l"]
    by (simp add: flush_merge_def learner_rel_def row_state_def)
qed

lemma fw_flush_rel:
  assumes "fw_rel w a"
  shows "fw_rel (fw_flush i w) (po_flush i a)"
proof -
  have l: "learner_rel (fw_procs w i) (po_learners a i)" and r: "row_state (fw_row w) = learned bandit_options (po_shared a)"
    using assms by (simp_all add: fw_rel_def)
  show ?thesis
    using assms flush_learned [OF l r]
    by (simp add: fw_rel_def fw_flush_def po_flush_def flushBanditState_def Let_def flush_adopt_def
        restore_learned row_state_def learner_rel_def)
qed

lemma bandit_learn_rel:
  assumes "learner_rel p l"
  shows "learner_rel (fst (bandit_learn ev p))
      (if arm_of (fst (snd ev)) = None then l\<lparr>le_pending := le_pending l @ [ev]\<rparr>
       else if BANDIT_FLUSH_EVERY \<le> le_count l + 1 then l\<lparr>le_pending := le_pending l @ [ev], le_count := 0\<rparr>
       else l\<lparr>le_pending := le_pending l @ [ev], le_count := le_count l + 1\<rparr>)"
    and "snd (bandit_learn ev p) \<longleftrightarrow> arm_of (fst (snd ev)) \<noteq> None \<and> BANDIT_FLUSH_EVERY \<le> le_count l + 1"
  using assms
  by (auto simp: learner_rel_def bandit_learn_def Let_def bandit_run_append [symmetric] bandit_run_def)

lemma fw_rel_upd:
  "fw_rel w a \<Longrightarrow> learner_rel p l \<Longrightarrow>
   fw_rel (w\<lparr>fw_procs := (fw_procs w)(i := p)\<rparr>) (a\<lparr>po_learners := (po_learners a)(i := l)\<rparr>)"
  by (simp add: fw_rel_def)

lemma restart_rel:
  assumes "fw_rel w a"
  shows "\<exists>p. loadBanditState (fw_row w) useBanditPolicy = Inr p \<and>
    learner_rel p \<lparr>le_base = po_shared a, le_pending = [], le_count = 0\<rparr>"
proof -
  have r: "row_state (fw_row w) = learned bandit_options (po_shared a)" using assms by (simp add: fw_rel_def)
  show ?thesis
  proof (cases "fw_row w")
    case None
    have e: "learned bandit_options (po_shared a) = bandit_snapshot bandit_options (fresh_arms bandit_options)"
      using r None by (simp add: row_state_def emptyBanditState_snapshot)
    have "bandit_run bandit_options (po_shared a) (fresh_arms bandit_options) = fresh_arms bandit_options"
      using restore_learned [of "po_shared a"] restore_learned [of "[]"] e by (simp add: learned_def)
    with None e show ?thesis
      by (simp add: loadBanditState_def useBanditPolicy_def learner_rel_def)
  next
    case (Some row)
    with r show ?thesis
      by (cases row) (simp add: loadBanditState_def useBanditPolicy_def learner_rel_def row_state_def
          restore_learned)
  qed
qed

lemma fw_step_rel: "fw_rel w a \<Longrightarrow> fw_rel (fw_step ev w) (po_step ev a)"
proof (cases ev)
  case (FwLearn i e)
  assume rel: "fw_rel w a"
  then have l: "learner_rel (fw_procs w i) (po_learners a i)" by (simp add: fw_rel_def)
  show ?thesis
    using fw_rel_upd [OF rel bandit_learn_rel(1) [OF l, of e], of i] bandit_learn_rel(2) [OF l, of e]
    by (auto simp: FwLearn Let_def intro: fw_flush_rel)
next
  case (FwFlush i)
  then show "fw_rel w a \<Longrightarrow> fw_rel (fw_step ev w) (po_step ev a)" by (simp add: fw_flush_rel)
next
  case (FwRestart i)
  assume rel: "fw_rel w a"
  with restart_rel [OF rel] fw_rel_upd [OF rel] FwRestart show ?thesis by auto
qed

lemma fw_init_rel: "fw_rel fw_init po_init"
  by (simp add: fw_rel_def fw_init_def po_init_def row_state_def learner_rel_def useBanditPolicy_def learned_Nil)

lemma fw_run_rel: "fw_rel (fw_run evs) (po_run evs)"
  unfolding fw_run_def po_run_def
proof (induction evs rule: rev_induct)
  case Nil
  then show ?case by (simp add: fw_init_rel)
next
  case (snoc ev evs)
  then show ?case by (simp add: fw_step_rel)
qed

subsection \<open>Nothing is lost, nothing counted twice\<close>

fun fw_outcomes :: "fw_event list \<Rightarrow> outcome_event list" where
  "fw_outcomes [] = []"
| "fw_outcomes (FwLearn i ev # evs) = ev # fw_outcomes evs"
| "fw_outcomes (_ # evs) = fw_outcomes evs"

fun fw_within :: "nat \<Rightarrow> fw_event \<Rightarrow> bool" where
  "fw_within n (FwLearn i ev) = (i < n)"
| "fw_within n (FwFlush i) = (i < n)"
| "fw_within n (FwRestart i) = False"

definition po_all :: "nat \<Rightarrow> Pool \<Rightarrow> outcome_event multiset" where
  "po_all n a = mset (po_shared a) + (\<Sum>i<n. mset (le_pending (po_learners a i)))"

lemma sum_upd:
  fixes g :: "nat \<Rightarrow> 'a multiset"
  shows "i < n \<Longrightarrow> (\<Sum>j<n. if j = i then x else g j) + g i = (\<Sum>j<n. g j) + x"
  by (simp add: sum.remove [of "{..<n}" i] sum.If_cases add.commute add.left_commute
      flip: Diff_eq)

lemma po_flush_all: "i < n \<Longrightarrow> po_all n (po_flush i a) = po_all n a"
  using sum_upd [of i n "{#}" "\<lambda>j. mset (le_pending (po_learners a j))"]
  by (simp add: po_all_def po_flush_def Let_def if_distrib add_ac cong: if_cong)

lemma po_pend_all:
  assumes "i < n" "le_pending l = le_pending (po_learners a i) @ [e]"
  shows "po_all n (a\<lparr>po_learners := (po_learners a)(i := l)\<rparr>) = add_mset e (po_all n a)"
  using assms sum_upd [of i n "mset (le_pending l)" "\<lambda>j. mset (le_pending (po_learners a j))"]
  by (simp add: po_all_def if_distrib add_ac cong: if_cong)

lemma po_step_all:
  "fw_within n ev \<Longrightarrow> po_all n (po_step ev a) = mset (fw_outcomes [ev]) + po_all n a"
  by (cases ev) (auto simp: Let_def po_flush_all po_pend_all)

lemma po_run_all: "list_all (fw_within n) evs \<Longrightarrow> po_all n (po_run evs) = mset (fw_outcomes evs)"
proof (induction evs rule: rev_induct)
  case Nil
  then show ?case by (simp add: po_run_def po_init_def po_all_def)
next
  case (snoc ev evs)
  have "fw_outcomes (evs @ [ev]) = fw_outcomes evs @ fw_outcomes [ev]"
    by (induction evs rule: fw_outcomes.induct) simp_all
  with snoc show ?case by (simp add: po_run_def po_step_all)
qed

lemma po_flush_pending:
  "le_pending (po_learners (po_flush i a) j) = (if j = i then [] else le_pending (po_learners a j))"
  by (simp add: po_flush_def Let_def)

lemma po_flush_all_pending:
  "i < n \<Longrightarrow> le_pending (po_learners (foldl (\<lambda>w ev. po_step ev w) a (map FwFlush [0..<n])) i) = []"
  by (induction n) (auto simp: po_flush_pending less_Suc_eq)

lemma fw_outcomes_flush: "fw_outcomes (evs @ map FwFlush is) = fw_outcomes evs"
proof -
  have "fw_outcomes (map FwFlush is) = []" by (induction "is") simp_all
  then show ?thesis by (induction evs rule: fw_outcomes.induct) simp_all
qed

lemma fw_pools:
  assumes "list_all (fw_within n) evs"
  shows "row_state (fw_row (fw_run (evs @ map FwFlush [0..<n]))) = learned bandit_options (fw_outcomes evs)"
proof -
  let ?evs = "evs @ map FwFlush [0..<n]"
  have "list_all (fw_within n) ?evs"
    using assms by (auto simp: list_all_iff)
  then have "po_all n (po_run ?evs) = mset (fw_outcomes evs)"
    by (simp add: po_run_all fw_outcomes_flush)
  moreover have "le_pending (po_learners (po_run ?evs) i) = []" if "i < n" for i
    using po_flush_all_pending [OF that] by (simp add: po_run_def)
  ultimately have "mset (po_shared (po_run ?evs)) = mset (fw_outcomes evs)"
    by (simp add: po_all_def)
  then have "learned bandit_options (po_shared (po_run ?evs)) = learned bandit_options (fw_outcomes evs)"
    by (rule learned_mset)
  moreover have "row_state (fw_row (fw_run ?evs)) = learned bandit_options (po_shared (po_run ?evs))"
    using fw_run_rel [of ?evs] unfolding fw_rel_def by (rule conjunct1)
  ultimately show ?thesis by simp
qed

subsection \<open>What the protocol does not cover\<close>

text \<open>
  An outcome learned while a flush waits for the store is overwritten by the adoption of the
  merged state, and it is in neither the row nor the baseline.
\<close>

lemma flush_window_loses:
  assumes "bandit_restore merged = Inr arms"
  shows "bp_arms (flush_adopt merged (fst (bandit_learn ev p))) = bp_arms (flush_adopt merged p)"
    "bp_baseline (flush_adopt merged (fst (bandit_learn ev p))) = merged"
  using assms by (simp_all add: flush_adopt_def)

text \<open>
  A champion installed after the load replaces the arms but keeps the baseline: the next flush
  subtracts from the row everything that was loaded.
\<close>

lemma champion_after_load_forgets:
  assumes "row_state row = learned bandit_options shared" "row = Some r"
    and "loadBanditState row useBanditPolicy = Inr p"
  shows "row_state (fst (flushBanditState row (useChampion p))) = emptyBanditState (lo_lambda bandit_options)"
proof -
  have base: "bp_baseline p = learned bandit_options shared"
    using assms by (cases r) (auto simp: loadBanditState_def row_state_def split: sum.splits)
  have "flush_merge row (flush_snapshot (useChampion p)) (useChampion p) =
      mergeBanditDelta (learned bandit_options shared) (learned bandit_options []) (learned bandit_options shared)"
    using assms(1) base
    by (simp add: flush_merge_def flush_snapshot_def useChampion_def row_state_def learned_def)
  also have "\<dots> = learned bandit_options []"
  proof -
    have "mergeArm FEATURE_DIM (arm_snapshot (bandit_run bandit_options shared (fresh_arms bandit_options) arm))
        (arm_snapshot (fresh_arms bandit_options arm))
        (arm_snapshot (bandit_run bandit_options shared (fresh_arms bandit_options) arm)) =
        arm_snapshot (fresh_arms bandit_options arm)" for arm
      by (rule snapshot_eqI [of FEATURE_DIM])
        (simp_all add: nth_mergeArm arm_snapshot_def learned_statistics fresh_shape)
    then show ?thesis by (simp add: learned_def mergeBanditDelta_def bandit_snapshot_def)
  qed
  finally show ?thesis
    by (simp add: flushBanditState_def Let_def row_state_def learned_Nil)
qed

end
