(* ===== verification/Training.thy ===== *)
theory Training
  imports Recoverability "HOL-Library.Word" "HOL-Library.Multiset"
begin

unbundle bit_operations_syntax

text \<open>
  The training toolkit of \<open>packages/recovery-engine/src/training.ts\<close>: the seeded generator
  on 32-bit words, the shuffle, the train/test split, the trainer and the evaluation metrics.
  A closure over a generator is a state passed along; what the callers rely on (a value in
  the unit interval) is the locale \<open>unit_generator\<close>. Reals stand for doubles, so the
  metrics are those of exact arithmetic.
\<close>

subsection \<open>The generator\<close>

text \<open>JavaScript's \<open>|\<close>, \<open>^\<close>, \<open>>>>\<close> and \<open>Math.imul\<close> act on the 32-bit pattern.\<close>

definition mulberry32_seed :: "int \<Rightarrow> 32 word" where
  "mulberry32_seed seed = word_of_int seed"

definition mulberry32 :: "32 word \<Rightarrow> real \<times> 32 word" where
  "mulberry32 state =
     (let a = state + 0x6d2b79f5;
          t = (a XOR drop_bit 15 a) * (1 OR a);
          t = (t + (t XOR drop_bit 7 t) * (61 OR t)) XOR t
      in (real (unat (t XOR drop_bit 14 t)) / 4294967296, a))"

locale unit_generator =
  fixes rng :: "'s \<Rightarrow> real \<times> 's"
  assumes nonneg: "0 \<le> fst (rng s)"
    and below_1: "fst (rng s) < 1"
begin

text \<open>Scaling and flooring a draw gives an index of a nonempty array.\<close>

lemma index_below:
  assumes "0 < n"
  shows "nat \<lfloor>fst (rng s) * real n\<rfloor> < n"
proof -
  have "fst (rng s) * real n < real n"
    using below_1 [of s] assms by simp
  moreover have "0 \<le> fst (rng s) * real n"
    using nonneg [of s] by simp
  ultimately show ?thesis by linarith
qed

end

interpretation mulberry: unit_generator mulberry32
proof
  fix s :: "32 word"
  have lt: "unat w < 4294967296" for w :: "32 word"
    using unsigned_less [of w, where ?'a = nat] by simp
  have "0 \<le> real n / 4294967296 \<and> real n / 4294967296 < 1" if "n < 4294967296" for n
    using that by simp
  then have range: "0 \<le> real (unat w) / 4294967296 \<and> real (unat w) / 4294967296 < 1" for w :: "32 word"
    using lt [of w] by blast
  show "0 \<le> fst (mulberry32 s)" "fst (mulberry32 s) < 1"
    unfolding mulberry32_def Let_def fst_conv using range by blast+
qed

subsection \<open>Shuffling and splitting\<close>

fun shuffle_from :: "('s \<Rightarrow> real \<times> 's) \<Rightarrow> nat \<Rightarrow> 'a list \<Rightarrow> 's \<Rightarrow> 'a list \<times> 's" where
  "shuffle_from rng 0 arr s = (arr, s)"
| "shuffle_from rng (Suc i) arr s =
     (let rs = rng s;
          j = nat \<lfloor>fst rs * real (Suc i + 1)\<rfloor>
      in shuffle_from rng i (arr[Suc i := arr ! j, j := arr ! Suc i]) (snd rs))"

definition shuffle :: "('s \<Rightarrow> real \<times> 's) \<Rightarrow> 'a list \<Rightarrow> 's \<Rightarrow> 'a list \<times> 's" where
  "shuffle rng arr s = shuffle_from rng (length arr - 1) arr s"

context unit_generator begin

lemma shuffle_from_mset: "i < length arr \<or> arr = [] \<and> i = 0 \<Longrightarrow> mset (fst (shuffle_from rng i arr s)) = mset arr"
proof (induction i arbitrary: arr s)
  case (Suc i)
  let ?j = "nat \<lfloor>fst (rng s) * real (Suc i + 1)\<rfloor>"
  have j: "?j < length arr"
    using index_below [of "Suc i + 1" s] Suc.prems by simp
  have "mset (arr[Suc i := arr ! ?j, ?j := arr ! Suc i]) = mset arr"
    using j Suc.prems by (intro mset_swap) simp_all
  with Suc j show ?case
    by (simp add: Let_def del: of_nat_Suc of_nat_add)
qed simp

lemma shuffle_mset: "mset (fst (shuffle rng arr s)) = mset arr"
  unfolding shuffle_def by (rule shuffle_from_mset) (cases arr; simp)

end

text \<open>\<open>xs.slice(0, k)\<close>, where a negative \<open>k\<close> counts from the end.\<close>

definition slice_to :: "int \<Rightarrow> 'a list \<Rightarrow> 'a list" where
  "slice_to k xs = take (nat (if k < 0 then int (length xs) + k else k)) xs"

record TrainingSample =
  ts_features :: RecoveryFeatures
  ts_recovered :: bool
  ts_weight :: "real option"

record 'a Split =
  sp_train :: "'a list"
  sp_test :: "'a list"

definition splitTrainTest :: "'a list \<Rightarrow> real \<Rightarrow> int \<Rightarrow> 'a Split" where
  "splitTrainTest samples testFraction seed =
     (let idx = fst (shuffle mulberry32 [0..<length samples] (mulberry32_seed seed));
          nTest = js_round (of_nat (length samples) * testFraction);
          testIdx = set (slice_to nTest idx)
      in \<lparr>sp_train = map (\<lambda>i. samples ! i) (filter (\<lambda>i. i \<notin> testIdx) [0..<length samples]),
          sp_test = map (\<lambda>i. samples ! i) (filter (\<lambda>i. i \<in> testIdx) [0..<length samples])\<rparr>)"

text \<open>The split is a partition, and its test part has the rounded size.\<close>

lemma split_partition:
  "mset (sp_train (splitTrainTest xs p seed)) + mset (sp_test (splitTrainTest xs p seed)) = mset xs"
proof -
  have "mset (map (\<lambda>i. xs ! i) (filter (\<lambda>i. i \<notin> T) is)) + mset (map (\<lambda>i. xs ! i) (filter (\<lambda>i. i \<in> T) is))
      = mset (map (\<lambda>i. xs ! i) is)" for T "is"
    by (induction "is") auto
  from this [of "set (slice_to (js_round (of_nat (length xs) * p))
      (fst (shuffle mulberry32 [0..<length xs] (mulberry32_seed seed))))" "[0..<length xs]"]
  show ?thesis by (simp only: splitTrainTest_def Let_def map_nth Split.select_convs)
qed

lemma split_test_size:
  assumes "0 \<le> p" "p \<le> 1"
  shows "int (length (sp_test (splitTrainTest xs p seed))) = js_round (of_nat (length xs) * p)"
proof -
  define idx where "idx = fst (shuffle mulberry32 [0..<length xs] (mulberry32_seed seed))"
  define k where "k = js_round (of_nat (length xs) * p)"
  have m: "mset idx = mset [0..<length xs]"
    unfolding idx_def by (rule mulberry.shuffle_mset)
  have len: "length idx = length xs" using mset_eq_length [OF m] by simp
  have dist: "distinct idx" using mset_eq_imp_distinct_iff [OF m] by simp
  have k0: "0 \<le> k" using assms by (simp add: k_def js_round_nonneg)
  have kn: "k \<le> int (length xs)"
    unfolding k_def using assms(2) mult_left_mono [of p 1 "of_nat (length xs)"]
    by (intro js_round_le_of_int) simp
  let ?T = "set (slice_to k idx)"
  have card: "card ?T = nat k"
    using dist k0 kn len by (simp add: slice_to_def distinct_card)
  have "?T \<subseteq> {..<length xs}"
    using mset_eq_setD [OF m] by (auto simp: slice_to_def dest: in_set_takeD)
  then have "set (filter (\<lambda>i. i \<in> ?T) [0..<length xs]) = ?T"
    by auto
  then have "length (filter (\<lambda>i. i \<in> ?T) [0..<length xs]) = card ?T"
    by (metis distinct_card distinct_filter distinct_upt)
  then show ?thesis
    using card k0 by (simp add: splitTrainTest_def Let_def flip: idx_def k_def)
qed

subsection \<open>The ranks of the ROC curve\<close>

record Pred =
  pr_p :: real
  pr_y :: int

text \<open>
  The loop over the sorted scores: each block of ties gets the average of its 1-based ranks.
  \<open>i\<close> counts the scores before the block.
\<close>

function tie_ranks :: "nat \<Rightarrow> real list \<Rightarrow> (real \<rightharpoonup> real) \<Rightarrow> (real \<rightharpoonup> real)" where
  "tie_ranks i [] rankOf = rankOf"
| "tie_ranks i (v # vs) rankOf =
     (let j = i + 1 + length (takeWhile (\<lambda>u. u = v) vs)
      in tie_ranks j (dropWhile (\<lambda>u. u = v) vs) (rankOf(v \<mapsto> real (i + 1 + j) / 2)))"
  by pat_completeness auto
termination
  by (relation "measure (\<lambda>(i, vs, r). length vs)") (auto simp: le_imp_less_Suc length_dropWhile_le)

definition auc :: "Pred list \<Rightarrow> real" where
  "auc preds =
     (let pos = map pr_p (filter (\<lambda>d. pr_y d = 1) preds);
          neg = map pr_p (filter (\<lambda>d. pr_y d = 0) preds)
      in if pos = [] \<or> neg = [] then 0.5
         else
           (let rankOf = tie_ranks 0 (sort (map pr_p preds)) Map.empty;
                rankSumPos = foldl (\<lambda>s p. s + the (rankOf p)) 0 pos;
                u = rankSumPos - real (length pos * (length pos + 1)) / 2
            in u / real (length pos * length neg)))"

text \<open>The rank of a score is the mean of the numbers of scores below it and not above it, plus a half.\<close>

definition below :: "real list \<Rightarrow> real \<Rightarrow> nat" where
  "below xs v = length (filter (\<lambda>u. u < v) xs)"

definition upto_score :: "real list \<Rightarrow> real \<Rightarrow> nat" where
  "upto_score xs v = length (filter (\<lambda>u. u \<le> v) xs)"

lemma tie_ranks_notin: "w \<notin> set vs \<Longrightarrow> tie_ranks i vs r w = r w"
  by (induction i vs r rule: tie_ranks.induct) (auto simp: Let_def dest: set_dropWhileD)

lemma sorted_block:
  assumes "sorted (v # vs)"
  shows "vs = takeWhile (\<lambda>u. u = v) vs @ dropWhile (\<lambda>u. u = v) vs"
    "u \<in> set (dropWhile (\<lambda>u. u = v) vs) \<Longrightarrow> v < u"
    "u \<in> set (takeWhile (\<lambda>u. u = v) vs) \<Longrightarrow> u = v"
    "sorted (dropWhile (\<lambda>u. u = v) vs)"
proof -
  show "u \<in> set (dropWhile (\<lambda>u. u = v) vs) \<Longrightarrow> v < u"
    using assms
  proof (induction vs)
    case (Cons w vs)
    then show ?case by (auto split: if_splits)
  qed simp
qed (use assms in \<open>auto dest: set_takeWhileD simp: sorted_dropWhile\<close>)

lemma tie_ranks_sorted:
  assumes "sorted vs" "w \<in> set vs"
  shows "tie_ranks i vs r w = Some (real (2 * i + below vs w + upto_score vs w + 1) / 2)"
  using assms
proof (induction i vs r rule: tie_ranks.induct)
  case (2 i v vs r)
  let ?t = "takeWhile (\<lambda>u. u = v) vs" and ?d = "dropWhile (\<lambda>u. u = v) vs"
  note blk = sorted_block [OF "2.prems"(1)]
  have "filter P ?t = (if P v then ?t else [])" for P
    using blk(3) by (auto simp: filter_id_conv filter_empty_conv)
  moreover have "filter P vs = filter P ?t @ filter P ?d" for P
    by (simp flip: filter_append)
  ultimately have f: "filter P vs = (if P v then ?t else []) @ filter P ?d" for P
    by simp
  show ?case
  proof (cases "w = v")
    case True
    have "w \<notin> set ?d" using blk(2) True by blast
    moreover have "filter (\<lambda>u. u < v) ?d = []" "filter (\<lambda>u. u \<le> v) ?d = []"
      by (fastforce simp: filter_empty_conv dest: blk(2))+
    then have "below (v # vs) v = 0" "upto_score (v # vs) v = 1 + length ?t"
      by (simp_all add: below_def upto_score_def f)
    ultimately show ?thesis
      using True by (simp add: Let_def tie_ranks_notin)
  next
    case False
    with "2.prems"(2) blk(1,3) have w: "w \<in> set ?d" by (metis Un_iff set_ConsD set_append)
    then have "v < w" by (rule blk(2))
    then have "below (v # vs) w = 1 + length ?t + below ?d w" "upto_score (v # vs) w = 1 + length ?t + upto_score ?d w"
      by (simp_all add: below_def upto_score_def f)
    moreover have "tie_ranks i (v # vs) r w =
        Some (real (2 * (i + 1 + length ?t) + below ?d w + upto_score ?d w + 1) / 2)"
      using "2.IH" [OF refl blk(4) w] by (simp only: tie_ranks.simps Let_def)
    ultimately show ?thesis
      by simp
  qed
qed simp

text \<open>Wins of a positive over a negative, ties counting half: the Mann-Whitney statistic.\<close>

definition win :: "real \<Rightarrow> real \<Rightarrow> real" where
  "win p n = (if n < p then 1 else if n = p then 1 / 2 else 0)"

definition wins :: "real list \<Rightarrow> real list \<Rightarrow> real" where
  "wins ps ns = sum_list (map (\<lambda>p. sum_list (map (win p) ns)) ps)"

lemma wins_row: "sum_list (map (win p) xs) = real (below xs p + upto_score xs p) / 2"
  by (induction xs) (auto simp: win_def below_def upto_score_def add_divide_distrib)

lemma sum_list_real_ones [simp]: "sum_list (map (\<lambda>_. 1 :: real) xs) = real (length xs)"
  by (induction xs) simp_all

lemma wins_Cons_right: "wins ps (x # xs) = sum_list (map (\<lambda>p. win p x) ps) + wins ps xs"
  by (induction ps) (simp_all add: wins_def)

lemma wins_self: "wins xs xs = (real (length xs))\<^sup>2 / 2"
proof (induction xs)
  case (Cons x xs)
  have "win p x + win x p = 1" for p by (simp add: win_def)
  then have "sum_list (map (\<lambda>p. win p x) xs) + sum_list (map (win x) xs) = real (length xs)"
    by (simp flip: sum_list_addf)
  moreover have "wins (x # xs) (x # xs) = win x x + sum_list (map (win x) xs) +
      (sum_list (map (\<lambda>p. win p x) xs) + wins xs xs)"
    by (simp add: wins_def [of "x # xs"] flip: wins_Cons_right) (simp add: wins_def)
  ultimately show ?case
    by (simp add: Cons win_def power2_eq_square algebra_simps)
qed (simp add: wins_def)

lemma wins_bounds: "0 \<le> wins ps ns" "wins ps ns \<le> real (length ps * length ns)"
proof -
  have b: "0 \<le> win p n" "win p n \<le> 1" for p n by (simp_all add: win_def)
  have row: "0 \<le> sum_list (map (win p) ns)" "sum_list (map (win p) ns) \<le> real (length ns)" for p
    using b by (induction ns) (auto intro: add_mono add_nonneg_nonneg)
  show "0 \<le> wins ps ns" "wins ps ns \<le> real (length ps * length ns)"
    unfolding wins_def using row by (induction ps) (auto simp: add_mono add_nonneg_nonneg distrib_right)
qed

definition positives :: "Pred list \<Rightarrow> real list" where
  "positives preds = map pr_p (filter (\<lambda>d. pr_y d = 1) preds)"

definition negatives :: "Pred list \<Rightarrow> real list" where
  "negatives preds = map pr_p (filter (\<lambda>d. pr_y d = 0) preds)"

definition labelled :: "Pred list \<Rightarrow> bool" where
  "labelled preds = list_all (\<lambda>d. pr_y d = 0 \<or> pr_y d = 1) preds"

lemma wins_labelled:
  "labelled preds \<Longrightarrow> sum_list (map (win p) (map pr_p preds)) =
     sum_list (map (win p) (positives preds)) + sum_list (map (win p) (negatives preds))"
  by (induction preds) (auto simp: labelled_def positives_def negatives_def)

lemma rank_wins:
  assumes "p \<in> set (map pr_p preds)"
  shows "the (tie_ranks 0 (sort (map pr_p preds)) Map.empty p) = sum_list (map (win p) (map pr_p preds)) + 1 / 2"
proof -
  have f: "length (filter P (sort xs)) = length (filter P xs)" for P and xs :: "real list"
    by (metis mset_filter mset_sort size_mset)
  show ?thesis
    using assms by (simp only: wins_row)
      (simp add: tie_ranks_sorted below_def upto_score_def f add_divide_distrib)
qed

lemma foldl_add_sum: "foldl (\<lambda>s p. s + g p) (c :: real) xs = c + sum_list (map g xs)"
  by (induction xs arbitrary: c) simp_all

lemma auc_mann_whitney:
  assumes "labelled preds" "positives preds \<noteq> []" "negatives preds \<noteq> []"
  shows "auc preds = wins (positives preds) (negatives preds) /
    real (length (positives preds) * length (negatives preds))"
proof -
  let ?pos = "positives preds" and ?neg = "negatives preds"
  let ?rank = "tie_ranks 0 (sort (map pr_p preds)) Map.empty"
  have "the (?rank p) = (sum_list (map (win p) ?pos) + sum_list (map (win p) ?neg)) + 1 / 2" if "p \<in> set ?pos" for p
  proof -
    have "p \<in> set (map pr_p preds)" using that by (auto simp: positives_def)
    then show ?thesis by (simp only: rank_wins wins_labelled [OF assms(1)])
  qed
  then have "sum_list (map (\<lambda>p. the (?rank p)) ?pos) =
      sum_list (map (\<lambda>p. (sum_list (map (win p) ?pos) + sum_list (map (win p) ?neg)) + 1 / 2) ?pos)"
    by (intro arg_cong [where f = sum_list] map_cong) simp_all
  also have "\<dots> = wins ?pos ?pos + wins ?pos ?neg + real (length ?pos) / 2"
    by (simp add: sum_list_addf wins_def sum_list_triv)
  finally have "sum_list (map (\<lambda>p. the (?rank p)) ?pos) - real (length ?pos * (length ?pos + 1)) / 2 = wins ?pos ?neg"
    by (simp add: wins_self power2_eq_square algebra_simps add_divide_distrib)
  then show ?thesis
    using assms(2,3)
    by (simp add: auc_def Let_def foldl_add_sum flip: positives_def negatives_def)
qed

lemma auc_range:
  assumes "labelled preds"
  shows "0 \<le> auc preds \<and> auc preds \<le> 1"
proof (cases "positives preds = [] \<or> negatives preds = []")
  case True
  then show ?thesis by (auto simp: auc_def Let_def simp flip: positives_def negatives_def)
next
  case False
  then have "0 < real (length (positives preds) * length (negatives preds))" by simp
  then show ?thesis
    using wins_bounds [of "positives preds" "negatives preds"] False
    by (simp add: auc_mann_whitney [OF assms] del: of_nat_mult)
qed

subsection \<open>Evaluation\<close>

record EvalMetrics =
  em_logLoss :: real
  em_auc :: real
  em_brier :: real
  em_accuracy :: real
  em_n :: nat

definition bce :: "real \<Rightarrow> real \<Rightarrow> real" where
  "bce p y = - (y * ln (p + 1 / 10 ^ 12) + (1 - y) * ln (1 - p + 1 / 10 ^ 12))"

definition evaluate_model :: "(RecoveryFeatures \<Rightarrow> real) \<Rightarrow> TrainingSample list \<Rightarrow> EvalMetrics" where
  "evaluate_model model samples =
     (let preds = map (\<lambda>s. \<lparr>pr_p = model (ts_features s), pr_y = (if ts_recovered s then 1 else 0)\<rparr>) samples;
          n = (if length preds = 0 then 1 else length preds);
          logLoss = foldl (\<lambda>a d. a + bce (pr_p d) (of_int (pr_y d))) 0 preds;
          brier = foldl (\<lambda>a d. a + (pr_p d - of_int (pr_y d)) * (pr_p d - of_int (pr_y d))) 0 preds;
          correct = length (filter (\<lambda>d. (if 0.5 \<le> pr_p d then 1 else 0) = pr_y d) preds)
      in \<lparr>em_logLoss = logLoss / real n, em_auc = auc preds, em_brier = brier / real n,
          em_accuracy = real correct / real n, em_n = length preds\<rparr>)"

lemma evaluate_model_auc_range: "0 \<le> em_auc (evaluate_model model xs) \<and> em_auc (evaluate_model model xs) \<le> 1"
  by (simp add: evaluate_model_def Let_def auc_range labelled_def list_all_length)

lemma evaluate_accuracy_range: "0 \<le> em_accuracy (evaluate_model model xs) \<and> em_accuracy (evaluate_model model xs) \<le> 1"
  by (simp add: evaluate_model_def Let_def divide_le_eq le_trans [OF length_filter_le])

lemma evaluate_brier_range:
  assumes "\<And>f. 0 \<le> model f" "\<And>f. model f \<le> 1"
  shows "0 \<le> em_brier (evaluate_model model xs) \<and> em_brier (evaluate_model model xs) \<le> 1"
proof -
  define g where "g = (\<lambda>d :: Pred. (pr_p d - of_int (pr_y d)) * (pr_p d - of_int (pr_y d)))"
  define pred where "pred = (\<lambda>s :: TrainingSample. \<lparr>pr_p = model (ts_features s), pr_y = (if ts_recovered s then 1 else 0)\<rparr>)"
  have sq: "0 \<le> a * a \<and> a * a \<le> 1" if "\<bar>a\<bar> \<le> 1" for a :: real
    using that abs_square_le_1 [of a] by (simp add: power2_eq_square)
  have g: "0 \<le> g (pred s) \<and> g (pred s) \<le> 1" for s
    unfolding g_def pred_def using assms(1) [of "ts_features s"] assms(2) [of "ts_features s"]
    by (intro sq) auto
  have "0 \<le> sum_list (map g (map pred xs)) \<and> sum_list (map g (map pred xs)) \<le> real (length xs)"
  proof (induction xs)
    case (Cons s xs)
    then show ?case using g [of s] by simp
  qed simp
  then show ?thesis
    by (simp add: evaluate_model_def Let_def foldl_add_sum divide_le_eq flip: g_def pred_def)
qed

end
