(* ===== verification/Retrain.thy ===== *)
theory Retrain
  imports Training "HOL-Library.AList"
begin

text \<open>
  Learning from the ledger (\<open>training.ts\<close>, \<open>ledger-samples.ts\<close>, \<open>retrain.ts\<close>): the trainer, a
  full-batch gradient descent on the weighted logistic loss; the extraction of labelled
  samples from the entries of the ledger; and the champion/challenger gate. The entries are
  in the minimal shape the source reads, with a member that is absent or of another type
  as \<open>None\<close>.
\<close>

subsection \<open>The trainer\<close>

record TrainOptions =
  to_iterations :: nat
  to_lr :: real
  to_l2 :: real
  to_seed :: int

definition DEFAULT_TRAIN_OPTIONS :: TrainOptions where
  "DEFAULT_TRAIN_OPTIONS = \<lparr>to_iterations = 2000, to_lr = 0.3, to_l2 = 1 / 10 ^ 4, to_seed = 1\<rparr>"

text \<open>One encoded sample: features, label, weight.\<close>

record EncodedSample =
  en_x :: "real list"
  en_y :: real
  en_w :: real

definition encode_sample :: "TrainingSample \<Rightarrow> EncodedSample" where
  "encode_sample s =
     \<lparr>en_x = encodeFeatures (ts_features s), en_y = (if ts_recovered s then 1 else 0),
      en_w = coalesce (ts_weight s) 1\<rparr>"

fun init_weights :: "nat \<Rightarrow> 32 word \<Rightarrow> real list" where
  "init_weights 0 s = []"
| "init_weights (Suc n) s =
     (let rs = mulberry32 s in ((fst rs - 0.5) * 0.01) # init_weights n (snd rs))"

record TrainState =
  tn_w :: "real list"
  tn_b :: real
  tn_history :: "real list"

record Gradient =
  gr_w :: "real list"
  gr_b :: real
  gr_loss :: real

definition linear_score :: "real list \<Rightarrow> real \<Rightarrow> real list \<Rightarrow> real" where
  "linear_score w b x = foldl (\<lambda>z i. z + w ! i * x ! i) b [0..<FEATURE_DIM]"

definition add_sample :: "real list \<Rightarrow> real \<Rightarrow> Gradient \<Rightarrow> EncodedSample \<Rightarrow> Gradient" where
  "add_sample w b g s =
     (let p = sigmoid (linear_score w b (en_x s));
          err = (p - en_y s) * en_w s
      in \<lparr>gr_w = map (\<lambda>i. gr_w g ! i + err * en_x s ! i) [0..<FEATURE_DIM],
          gr_b = gr_b g + err,
          gr_loss = gr_loss g + en_w s * bce p (en_y s)\<rparr>)"

definition batch_gradient :: "EncodedSample list \<Rightarrow> real list \<Rightarrow> real \<Rightarrow> Gradient" where
  "batch_gradient data w b =
     foldl (add_sample w b) \<lparr>gr_w = replicate FEATURE_DIM 0, gr_b = 0, gr_loss = 0\<rparr> data"

definition train_iteration ::
  "TrainOptions \<Rightarrow> EncodedSample list \<Rightarrow> real \<Rightarrow> TrainState \<Rightarrow> nat \<Rightarrow> TrainState" where
  "train_iteration opts data swSum st iter =
     (let g = batch_gradient data (tn_w st) (tn_b st);
          w = map (\<lambda>i. tn_w st ! i - to_lr opts * (gr_w g ! i / swSum + to_l2 opts * tn_w st ! i)) [0..<FEATURE_DIM];
          b = tn_b st - to_lr opts * (gr_b g / swSum);
          l2pen = to_l2 opts / 2 * foldl (\<lambda>a c. a + c * c) 0 w
      in \<lparr>tn_w = w, tn_b = b,
          tn_history = tn_history st @
            (if iter mod 50 = 0 \<or> iter = to_iterations opts - 1 then [gr_loss g / swSum + l2pen] else [])\<rparr>)"

definition trainLogisticRecoverability ::
  "TrainOptions \<Rightarrow> TrainingSample list \<Rightarrow> js_error + TrainState" where
  "trainLogisticRecoverability opts samples =
     (if samples = [] then Inl (JsError ''trainLogisticRecoverability: no samples'')
      else
        (let data = map encode_sample samples;
             swSum = foldl (\<lambda>a s. a + en_w s) 0 data
         in Inr (foldl (train_iteration opts data swSum)
                   \<lparr>tn_w = init_weights FEATURE_DIM (mulberry32_seed (to_seed opts)), tn_b = 0, tn_history = []\<rparr>
                   [0..<to_iterations opts])))"

lemma length_init_weights [simp]: "length (init_weights n s) = n"
  by (induction n arbitrary: s) (simp_all add: Let_def)

lemma train_iteration_length: "length (tn_w (train_iteration opts data sw st k)) = FEATURE_DIM"
  by (simp add: train_iteration_def Let_def)

text \<open>A trained vector always has the length the constructor of the model checks.\<close>

lemma trained_length:
  assumes "trainLogisticRecoverability opts samples = Inr st"
  shows "length (tn_w st) = FEATURE_DIM"
proof -
  have "length (tn_w (foldl (train_iteration opts data sw) st0 [0..<n])) = FEATURE_DIM"
    if "length (tn_w st0) = FEATURE_DIM" for data sw st0 n
    using that by (induction n) (simp_all add: train_iteration_length)
  then show ?thesis
    using assms by (auto simp: trainLogisticRecoverability_def Let_def split: if_splits)
qed

lemma train_total: "samples \<noteq> [] \<Longrightarrow> \<exists>st. trainLogisticRecoverability opts samples = Inr st"
  by (simp add: trainLogisticRecoverability_def Let_def)

text \<open>The loops compute sums.\<close>

lemma linear_score_sum: "linear_score w b x = b + (\<Sum>i<FEATURE_DIM. w ! i * x ! i)"
proof -
  have "foldl (\<lambda>z i. z + w ! i * x ! i) b [0..<n] = b + (\<Sum>i<n. w ! i * x ! i)" for n
    by (induction n) simp_all
  then show ?thesis by (simp add: linear_score_def)
qed

definition residual :: "real list \<Rightarrow> real \<Rightarrow> EncodedSample \<Rightarrow> real" where
  "residual w b s = (sigmoid (linear_score w b (en_x s)) - en_y s) * en_w s"

lemma batch_gradient_sums:
  "i < FEATURE_DIM \<Longrightarrow> gr_w (batch_gradient data w b) ! i = (\<Sum>s\<leftarrow>data. residual w b s * en_x s ! i)"
  "gr_b (batch_gradient data w b) = (\<Sum>s\<leftarrow>data. residual w b s)"
proof -
  have "gr_w (foldl (add_sample w b) g data) ! i = gr_w g ! i + (\<Sum>s\<leftarrow>data. residual w b s * en_x s ! i)"
    if "i < FEATURE_DIM" for g
    using that by (induction data arbitrary: g) (simp_all add: add_sample_def residual_def Let_def)
  then show "i < FEATURE_DIM \<Longrightarrow> gr_w (batch_gradient data w b) ! i = (\<Sum>s\<leftarrow>data. residual w b s * en_x s ! i)"
    by (simp add: batch_gradient_def)
  have "gr_b (foldl (add_sample w b) g data) = gr_b g + (\<Sum>s\<leftarrow>data. residual w b s)" for g
    by (induction data arbitrary: g) (simp_all add: add_sample_def residual_def Let_def)
  then show "gr_b (batch_gradient data w b) = (\<Sum>s\<leftarrow>data. residual w b s)"
    by (simp add: batch_gradient_def)
qed

subsection \<open>The step is down the gradient of the regularized loss\<close>

text \<open>The weighted logistic loss with decay, as a function of the weights and the intercept.\<close>

definition logistic_loss :: "real \<Rightarrow> real \<Rightarrow> real" where
  "logistic_loss z y = ln (1 + exp z) - y * z"

definition objective :: "TrainOptions \<Rightarrow> EncodedSample list \<Rightarrow> real \<Rightarrow> (nat \<Rightarrow> real) \<Rightarrow> real \<Rightarrow> real" where
  "objective opts data swSum w b =
     (\<Sum>s\<leftarrow>data. en_w s * logistic_loss (b + (\<Sum>i<FEATURE_DIM. w i * en_x s ! i)) (en_y s)) / swSum
     + to_l2 opts / 2 * (\<Sum>i<FEATURE_DIM. (w i)\<^sup>2)"

text \<open>It is the cross entropy the trainer logs, up to the guard \<open>eps\<close> of the logarithms.\<close>

lemma logistic_loss_entropy:
  "logistic_loss z y = - (y * ln (sigmoid z) + (1 - y) * ln (1 - sigmoid z))"
proof -
  have s: "sigmoid z = exp z / (1 + exp z)"
    by (simp add: sigmoid_eq_logistic logistic_def exp_minus field_simps add_pos_pos)
  have p: "0 < 1 + exp z" by (simp add: add_pos_pos)
  have one: "1 - sigmoid z = 1 / (1 + exp z)" using p by (simp add: s field_simps)
  have l0: "ln (1 - sigmoid z) = - ln (1 + exp z)" unfolding one using p by (simp add: ln_div)
  have l1: "ln (sigmoid z) = z - ln (1 + exp z)" unfolding s using p by (simp add: ln_div)
  show ?thesis unfolding l0 l1 by (simp add: logistic_loss_def algebra_simps)
qed

lemma DERIV_logistic_loss: "((\<lambda>z. logistic_loss z y) has_real_derivative (sigmoid z - y)) (at z)"
proof -
  have s: "exp z / (1 + exp z) = sigmoid z"
    by (simp add: sigmoid_eq_logistic logistic_def exp_minus field_simps add_pos_pos)
  show ?thesis
    unfolding logistic_loss_def
    by (auto intro!: derivative_eq_intros simp: add_pos_pos s)
qed

lemma sum_upd_coordinate:
  fixes f x :: "nat \<Rightarrow> real"
  shows "k < n \<Longrightarrow> (\<Sum>i<n. (f(k := t)) i * x i) = (\<Sum>i<n. f i * x i) + (t - f k) * x k"
  by (simp add: sum.remove [of "{..<n}" k] algebra_simps)

lemma DERIV_data_loss:
  assumes "k < FEATURE_DIM"
  shows "((\<lambda>t. \<Sum>s\<leftarrow>data. en_w s * logistic_loss (b + (\<Sum>i<FEATURE_DIM. (((!) w)(k := t)) i * en_x s ! i)) (en_y s))
    has_real_derivative (\<Sum>s\<leftarrow>data. residual w b s * en_x s ! k)) (at (w ! k))"
proof (induction data)
  case (Cons s data)
  let ?z = "\<lambda>t. b + (\<Sum>i<FEATURE_DIM. (((!) w)(k := t)) i * en_x s ! i)"
  have z: "?z t = linear_score w b (en_x s) + (t - w ! k) * en_x s ! k" for t
    using sum_upd_coordinate [OF assms, of "(!) w" t "(!) (en_x s)"] by (simp add: linear_score_sum)
  have dz: "(?z has_real_derivative en_x s ! k) (at (w ! k))"
    unfolding z by (auto intro!: derivative_eq_intros)
  have "((\<lambda>t. logistic_loss (?z t) (en_y s)) has_real_derivative
      (sigmoid (?z (w ! k)) - en_y s) * en_x s ! k) (at (w ! k))"
    by (rule DERIV_chain2 [OF DERIV_logistic_loss dz])
  then have "((\<lambda>t. en_w s * logistic_loss (?z t) (en_y s)) has_real_derivative
      residual w b s * en_x s ! k) (at (w ! k))"
    by (auto intro!: derivative_eq_intros simp: residual_def linear_score_sum)
  from DERIV_add [OF this Cons] show ?case by simp
qed simp

lemma DERIV_objective:
  assumes "k < FEATURE_DIM"
  shows "((\<lambda>t. objective opts data swSum (((!) w)(k := t)) b) has_real_derivative
    gr_w (batch_gradient data w b) ! k / swSum + to_l2 opts * w ! k) (at (w ! k))"
proof -
  have sq: "(\<Sum>i<FEATURE_DIM. ((((!) w)(k := t)) i)\<^sup>2) = (\<Sum>i\<in>{..<FEATURE_DIM} - {k}. (w ! i)\<^sup>2) + t\<^sup>2" for t
    using assms by (simp add: sum.remove [of "{..<FEATURE_DIM}" k])
  have "((\<lambda>t. to_l2 opts / 2 * (\<Sum>i<FEATURE_DIM. ((((!) w)(k := t)) i)\<^sup>2)) has_real_derivative
      to_l2 opts * w ! k) (at (w ! k))"
    unfolding sq by (auto intro!: derivative_eq_intros)
  from DERIV_add [OF DERIV_cdivide [OF DERIV_data_loss [OF assms, of b w data], of swSum] this]
  show ?thesis
    using assms by (simp add: objective_def batch_gradient_sums)
qed

lemma train_step_gradient:
  assumes "k < FEATURE_DIM"
  shows "\<exists>g. tn_w (train_iteration opts data swSum st n) ! k = tn_w st ! k - to_lr opts * g \<and>
    ((\<lambda>t. objective opts data swSum (((!) (tn_w st))(k := t)) (tn_b st)) has_real_derivative g) (at (tn_w st ! k))"
  using DERIV_objective [OF assms, of opts data swSum "tn_w st" "tn_b st"] assms
  by (intro exI conjI) (simp_all add: train_iteration_def Let_def)

subsection \<open>Samples from the ledger\<close>

record LedgerEntryLike =
  lk_type :: string
  lk_invoiceId :: "string option"
  lk_features :: "RecoveryFeatures option"
  lk_amount :: "int option"

record SampleScan =
  sn_features :: "(string \<times> RecoveryFeatures) list"
  sn_amountMinor :: "string \<rightharpoonup> int"
  sn_recovered :: "string set"
  sn_failed :: "string set"

text \<open>One entry. \<open>Map.set\<close> keeps the position of a key it already has, as \<open>AList.update\<close> does.\<close>

definition scan_entry :: "SampleScan \<Rightarrow> LedgerEntryLike \<Rightarrow> SampleScan" where
  "scan_entry st e =
     (case lk_invoiceId e of
        None \<Rightarrow> st
      | Some i \<Rightarrow>
          if i = [] then st
          else if lk_type e = ''recovery.planned'' then
            (case lk_features e of
               None \<Rightarrow> st
             | Some f \<Rightarrow> st\<lparr>sn_features := AList.update i f (sn_features st)\<rparr>)
          else if lk_type e = ''case.recovered'' then
            st\<lparr>sn_recovered := insert i (sn_recovered st),
               sn_amountMinor := (case lk_amount e of None \<Rightarrow> sn_amountMinor st
                                                   | Some a \<Rightarrow> (sn_amountMinor st)(i \<mapsto> a))\<rparr>
          else if lk_type e = ''charge.failed'' then st\<lparr>sn_failed := insert i (sn_failed st)\<rparr>
          else st)"

definition scan_entries :: "LedgerEntryLike list \<Rightarrow> SampleScan" where
  "scan_entries entries =
     foldl scan_entry \<lparr>sn_features = [], sn_amountMinor = Map.empty, sn_recovered = {}, sn_failed = {}\<rparr> entries"

definition sample_of :: "bool \<Rightarrow> SampleScan \<Rightarrow> string \<times> RecoveryFeatures \<Rightarrow> TrainingSample" where
  "sample_of weightByAmount st = (\<lambda>(i, f).
     \<lparr>ts_features = f, ts_recovered = i \<in> sn_recovered st,
      ts_weight = Some (if weightByAmount
                        then max 1 (of_int (coalesce (sn_amountMinor st i) (f_amountMinor f)) / 100) else 1)\<rparr>)"

definition samplesFromLedger :: "LedgerEntryLike list \<Rightarrow> bool option \<Rightarrow> TrainingSample list" where
  "samplesFromLedger entries weightByAmount =
     (let st = scan_entries entries
      in map (sample_of (coalesce weightByAmount True) st)
           (filter (\<lambda>(i, f). i \<in> sn_recovered st \<or> i \<in> sn_failed st) (sn_features st)))"

text \<open>What the ledger says of an invoice: its last plan and whether an outcome was recorded.\<close>

definition entry_of :: "string \<Rightarrow> string \<Rightarrow> LedgerEntryLike \<Rightarrow> bool" where
  "entry_of ty i e \<longleftrightarrow> lk_type e = ty \<and> lk_invoiceId e = Some i \<and> i \<noteq> []"

definition has_outcome :: "string \<Rightarrow> LedgerEntryLike list \<Rightarrow> string \<Rightarrow> bool" where
  "has_outcome ty entries i = list_ex (entry_of ty i) entries"

fun last_plan :: "LedgerEntryLike list \<Rightarrow> string \<Rightarrow> RecoveryFeatures option" where
  "last_plan [] i = None"
| "last_plan (e # es) i =
     (case last_plan es i of
        Some f \<Rightarrow> Some f
      | None \<Rightarrow> if entry_of ''recovery.planned'' i e then lk_features e else None)"

lemma last_plan_snoc:
  "last_plan (es @ [e]) i =
     (if entry_of ''recovery.planned'' i e \<and> lk_features e \<noteq> None then lk_features e else last_plan es i)"
  by (induction es) (auto split: option.splits)

lemma scan_entries_snoc: "scan_entries (es @ [e]) = scan_entry (scan_entries es) e"
  by (simp add: scan_entries_def)

lemma scan_entries_spec:
  "map_of (sn_features (scan_entries es)) = last_plan es"
  "sn_recovered (scan_entries es) = {i. has_outcome ''case.recovered'' es i}"
  "sn_failed (scan_entries es) = {i. has_outcome ''charge.failed'' es i}"
  "distinct (map fst (sn_features (scan_entries es)))"
proof (induction es rule: rev_induct)
  case Nil
  show "map_of (sn_features (scan_entries [])) = last_plan []"
    "sn_recovered (scan_entries []) = {i. has_outcome ''case.recovered'' [] i}"
    "sn_failed (scan_entries []) = {i. has_outcome ''charge.failed'' [] i}"
    "distinct (map fst (sn_features (scan_entries [])))"
    by (auto simp: scan_entries_def has_outcome_def)
next
  case (snoc e es)
  show "map_of (sn_features (scan_entries (es @ [e]))) = last_plan (es @ [e])"
    using snoc(1) by (auto simp: scan_entries_snoc scan_entry_def last_plan_snoc entry_of_def update_conv
        fun_eq_iff split: option.splits)
  show "sn_recovered (scan_entries (es @ [e])) = {i. has_outcome ''case.recovered'' (es @ [e]) i}"
    using snoc(2) by (auto simp: scan_entries_snoc scan_entry_def has_outcome_def entry_of_def split: option.splits)
  show "sn_failed (scan_entries (es @ [e])) = {i. has_outcome ''charge.failed'' (es @ [e]) i}"
    using snoc(3) by (auto simp: scan_entries_snoc scan_entry_def has_outcome_def entry_of_def split: option.splits)
  show "distinct (map fst (sn_features (scan_entries (es @ [e]))))"
    using snoc(4) by (auto simp: scan_entries_snoc scan_entry_def distinct_update split: option.splits)
qed

lemma scan_features_iff: "(i, f) \<in> set (sn_features (scan_entries es)) \<longleftrightarrow> last_plan es i = Some f"
  by (simp add: scan_entries_spec flip: map_of_eq_Some_iff [OF scan_entries_spec(4)])

text \<open>
  The samples: one for every invoice with a plan and a recorded outcome, with the features of
  its last plan, labelled by whether a recovery was recorded.
\<close>

lemma samples_spec:
  "(\<exists>s\<in>set (samplesFromLedger es w). ts_features s = f \<and> ts_recovered s = r) \<longleftrightarrow>
     (\<exists>i. last_plan es i = Some f \<and> r = has_outcome ''case.recovered'' es i \<and>
          (r \<or> has_outcome ''charge.failed'' es i))"
  by (auto simp: samplesFromLedger_def Let_def sample_of_def scan_features_iff scan_entries_spec)

lemma samples_count: "length (samplesFromLedger es w) \<le> card {i. last_plan es i \<noteq> None}"
proof -
  have "{i. last_plan es i \<noteq> None} = fst ` set (sn_features (scan_entries es))"
    by (force simp flip: scan_features_iff)
  then have "card {i. last_plan es i \<noteq> None} = length (sn_features (scan_entries es))"
    using distinct_card [OF scan_entries_spec(4) [of es]] by simp
  then show ?thesis by (simp add: samplesFromLedger_def Let_def)
qed

lemma sample_weight: "s \<in> set (samplesFromLedger es w) \<Longrightarrow> \<exists>v. ts_weight s = Some v \<and> 1 \<le> v"
  by (auto simp: samplesFromLedger_def Let_def sample_of_def)

text \<open>Entries of other types, the promotion of a model among them, leave the corpus as it is.\<close>

lemma samples_ignore:
  assumes "lk_type e \<notin> {''recovery.planned'', ''case.recovered'', ''charge.failed''}"
  shows "samplesFromLedger (es @ [e]) w = samplesFromLedger es w"
proof -
  have "scan_entries (es @ [e]) = scan_entries es"
    using assms by (simp add: scan_entries_snoc scan_entry_def split: option.splits)
  then show ?thesis by (simp add: samplesFromLedger_def)
qed

text \<open>An invoice in the middle of its retries counts as a failure: one failed charge is enough.\<close>

lemma in_flight_is_failure:
  "samplesFromLedger [\<lparr>lk_type = ''recovery.planned'', lk_invoiceId = Some ''in_1'', lk_features = Some f, lk_amount = None\<rparr>,
      \<lparr>lk_type = ''charge.failed'', lk_invoiceId = Some ''in_1'', lk_features = None, lk_amount = None\<rparr>] (Some False) =
    [\<lparr>ts_features = f, ts_recovered = False, ts_weight = Some 1\<rparr>]"
  by (simp add: samplesFromLedger_def scan_entries_def scan_entry_def sample_of_def)

subsection \<open>The promotion gate\<close>

record RetrainConfig =
  rc_minSamples :: int
  rc_minPositives :: int
  rc_minNegatives :: int
  rc_testFraction :: real
  rc_splitSeed :: int
  rc_trainOptions :: TrainOptions
  rc_promoteMarginAuc :: real
  rc_weightByAmount :: "bool option"

definition DEFAULT_RETRAIN_CONFIG :: RetrainConfig where
  "DEFAULT_RETRAIN_CONFIG =
     \<lparr>rc_minSamples = 500, rc_minPositives = 50, rc_minNegatives = 50, rc_testFraction = 0.25, rc_splitSeed = 13,
      rc_trainOptions = \<lparr>to_iterations = 2500, to_lr = 0.4, to_l2 = 1 / 10 ^ 4, to_seed = 17\<rparr>,
      rc_promoteMarginAuc = 0.005, rc_weightByAmount = None\<rparr>"

datatype RetrainRejection = InsufficientSamples | InsufficientPositives | InsufficientNegatives

text \<open>The provenance the job stores with the weights.\<close>

record RetrainMeta =
  rm_challengerAuc :: real
  rm_championAuc :: real
  rm_promoted :: bool

record RetrainReport =
  rr_accepted :: bool
  rr_reason :: "RetrainRejection option"
  rr_nSamples :: int
  rr_nPositives :: int
  rr_nNegatives :: int
  rr_champion :: "EvalMetrics option"
  rr_challenger :: "EvalMetrics option"
  rr_promoted :: bool
  rr_weights :: "RecoverabilityWeights option"
  rr_meta :: "RetrainMeta option"

definition round4 :: "real \<Rightarrow> real" where
  "round4 x = of_int (js_round (x * 10 ^ 4)) / 10 ^ 4"

definition rejected_report :: "RetrainRejection \<Rightarrow> int \<Rightarrow> int \<Rightarrow> int \<Rightarrow> RetrainReport" where
  "rejected_report reason n pos neg =
     \<lparr>rr_accepted = False, rr_reason = Some reason, rr_nSamples = n, rr_nPositives = pos, rr_nNegatives = neg,
      rr_champion = None, rr_challenger = None, rr_promoted = False, rr_weights = None, rr_meta = None\<rparr>"

definition promotes :: "RetrainConfig \<Rightarrow> EvalMetrics \<Rightarrow> EvalMetrics \<Rightarrow> bool" where
  "promotes cfg champion challenger \<longleftrightarrow>
     0.5 < em_auc challenger \<and> em_auc champion + rc_promoteMarginAuc cfg \<le> em_auc challenger"

definition retrainFromLedger ::
  "LedgerEntryLike list \<Rightarrow> RecoverabilityWeights \<Rightarrow> RetrainConfig \<Rightarrow> js_error + RetrainReport" where
  "retrainFromLedger entries champion cfg =
     (let samples = samplesFromLedger entries (rc_weightByAmount cfg);
          n = int (length samples);
          nPositives = int (length (filter ts_recovered samples));
          nNegatives = n - nPositives
      in
      if n < rc_minSamples cfg then Inr (rejected_report InsufficientSamples n nPositives nNegatives)
      else if nPositives < rc_minPositives cfg then Inr (rejected_report InsufficientPositives n nPositives nNegatives)
      else if nNegatives < rc_minNegatives cfg then Inr (rejected_report InsufficientNegatives n nPositives nNegatives)
      else
        (let split = splitTrainTest samples (rc_testFraction cfg) (rc_splitSeed cfg) in
         case trainLogisticRecoverability (rc_trainOptions cfg) (sp_train split) of
           Inl e \<Rightarrow> Inl e
         | Inr st \<Rightarrow>
             (case make_logistic champion of
                Inl e \<Rightarrow> Inl e
              | Inr champ \<Rightarrow>
                  (let weights = \<lparr>wt_w = tn_w st, wt_b = tn_b st\<rparr> in
                   case make_logistic weights of
                     Inl e \<Rightarrow> Inl e
                   | Inr chal \<Rightarrow>
                       (let championMetrics = evaluate_model (logistic_score champ) (sp_test split);
                            challengerMetrics = evaluate_model (logistic_score chal) (sp_test split);
                            promoted = promotes cfg championMetrics challengerMetrics
                        in Inr \<lparr>rr_accepted = True, rr_reason = None, rr_nSamples = n, rr_nPositives = nPositives,
                                rr_nNegatives = nNegatives, rr_champion = Some championMetrics,
                                rr_challenger = Some challengerMetrics, rr_promoted = promoted,
                                rr_weights = Some weights,
                                rr_meta = Some \<lparr>rm_challengerAuc = round4 (em_auc challengerMetrics),
                                                rm_championAuc = round4 (em_auc championMetrics),
                                                rm_promoted = promoted\<rparr>\<rparr>)))))"

text \<open>
  What a promotion means: the data gates were passed, and on the held-out samples the new
  weights rank better than chance and better than the champion by the margin.
\<close>

lemma retrain_promoted:
  assumes "retrainFromLedger entries champion cfg = Inr report" "rr_promoted report"
  shows "\<exists>wts. rr_weights report = Some wts \<and> length (wt_w wts) = FEATURE_DIM \<and>
      rc_minSamples cfg \<le> rr_nSamples report \<and> rc_minPositives cfg \<le> rr_nPositives report \<and>
      rc_minNegatives cfg \<le> rr_nNegatives report \<and>
      (let test = sp_test (splitTrainTest (samplesFromLedger entries (rc_weightByAmount cfg))
                             (rc_testFraction cfg) (rc_splitSeed cfg));
           challenger = em_auc (evaluate_model (logistic_score wts) test)
       in 0.5 < challenger \<and> em_auc (evaluate_model (logistic_score champion) test) + rc_promoteMarginAuc cfg \<le> challenger)"
  using assms
  by (auto simp: retrainFromLedger_def Let_def rejected_report_def make_logistic_def promotes_def
      split: if_splits sum.splits)

lemma retrain_rejected:
  assumes "retrainFromLedger entries champion cfg = Inr report" "\<not> rr_accepted report"
  shows "rr_weights report = None \<and> \<not> rr_promoted report \<and> rr_reason report \<noteq> None"
  using assms
  by (auto simp: retrainFromLedger_def Let_def rejected_report_def split: if_splits sum.splits)

text \<open>
  With a champion of the right length and samples left to train on the run always ends in a
  report; a test fraction of 1 is the case where it throws.
\<close>

lemma retrain_total:
  assumes "length (wt_w champion) = FEATURE_DIM"
    and "sp_train (splitTrainTest (samplesFromLedger entries (rc_weightByAmount cfg))
           (rc_testFraction cfg) (rc_splitSeed cfg)) \<noteq> []"
  shows "\<exists>report. retrainFromLedger entries champion cfg = Inr report"
proof -
  obtain st where st: "trainLogisticRecoverability (rc_trainOptions cfg)
      (sp_train (splitTrainTest (samplesFromLedger entries (rc_weightByAmount cfg))
           (rc_testFraction cfg) (rc_splitSeed cfg))) = Inr st"
    using train_total [OF assms(2)] by blast
  then show ?thesis
    using assms(1) trained_length [OF st]
    by (simp add: retrainFromLedger_def Let_def make_logistic_def)
qed

subsection \<open>The retrain job\<close>

definition BOOTSTRAP_RECOVERABILITY_WEIGHTS :: RecoverabilityWeights where
  "BOOTSTRAP_RECOVERABILITY_WEIGHTS =
     \<lparr>wt_w =
       [0.9305014804868945, 1.9746666561161454, 1.9164252735024638, 0.8663526599247791, 1.2656132541898835,
        2.0405854288670904, - 2.506720049759609, - 2.405746503887675, - 2.4772048843416994, - 2.3422345571403986,
        - 0.00017700698810964633, 0.003046747732454811, - 0.0007097497166225015, 0.6184682749990336, 0.001610010273581861,
        - 1.5754191948935745, - 0.002851313107505174, - 1.021110329400589, - 0.23616554903572978, - 0.34011036038706693,
        - 0.2856634634198469, - 0.5153539104132234, - 0.32228158701539295, 0.12670698793673216, 1.9368589805806615,
        - 2.9208896145645595, - 1.1618400364599357, 3.4434339907128333, - 0.21375729585341594, - 0.5062990331075305,
        - 0.9785212529750347],
      wt_b = - 1.8722610394423298\<rparr>"

text \<open>The model store (\<open>model-repo.ts\<close>): versioned rows, of which one is active.\<close>

record StoredModel =
  sd_version :: int
  sd_weights :: RecoverabilityWeights
  sd_active :: bool

type_synonym model_table = "StoredModel list"

definition latestVersion :: "model_table \<Rightarrow> int" where
  "latestVersion rows = foldl (\<lambda>v r. max v (sd_version r)) (- 1) rows"

text \<open>The row of the highest version among those that are active.\<close>

definition getActiveChampion :: "model_table \<Rightarrow> RecoverabilityWeights option" where
  "getActiveChampion rows =
     map_option sd_weights
       (foldl (\<lambda>best r. if sd_active r \<and> (case best of None \<Rightarrow> True | Some b \<Rightarrow> sd_version b < sd_version r)
                        then Some r else best) None rows)"

definition saveChampion :: "RecoverabilityWeights \<Rightarrow> model_table \<Rightarrow> int \<times> model_table" where
  "saveChampion wts rows =
     (let version = latestVersion rows + 1
      in (version, map (\<lambda>r. r\<lparr>sd_active := False\<rparr>) rows
                   @ [\<lparr>sd_version = version, sd_weights = wts, sd_active = True\<rparr>]))"

lemma latestVersion_ge: "r \<in> set rows \<Longrightarrow> sd_version r \<le> latestVersion rows"
proof -
  have "v \<le> foldl (\<lambda>v r. max v (sd_version r)) v rows \<and>
      (\<forall>r\<in>set rows. sd_version r \<le> foldl (\<lambda>v r. max v (sd_version r)) v rows)" for v
  proof (induction rows arbitrary: v)
    case (Cons a rows)
    from Cons [of "max v (sd_version a)"] show ?case by auto
  qed simp
  then show "r \<in> set rows \<Longrightarrow> sd_version r \<le> latestVersion rows" by (simp add: latestVersion_def)
qed

lemma saved_is_active:
  "getActiveChampion (snd (saveChampion wts rows)) = Some wts"
  "r \<in> set rows \<Longrightarrow> sd_version r < fst (saveChampion wts rows)"
proof -
  have "foldl (\<lambda>best r. if sd_active r \<and> (case best of None \<Rightarrow> True | Some b \<Rightarrow> sd_version b < sd_version r)
          then Some r else best) None (map (\<lambda>r. r\<lparr>sd_active := False\<rparr>) rows) = None"
    by (induction rows) simp_all
  then show "getActiveChampion (snd (saveChampion wts rows)) = Some wts"
    by (simp add: getActiveChampion_def saveChampion_def Let_def)
  show "r \<in> set rows \<Longrightarrow> sd_version r < fst (saveChampion wts rows)"
    using latestVersion_ge [of r rows] by (simp add: saveChampion_def Let_def)
qed

text \<open>The job reads the ledger, writes the model table and records the promotion in the ledger.\<close>

record RetrainStores =
  rt_models :: model_table
  rt_ledger :: "LedgerEntryLike list"

record RetrainJobResult =
  rj_report :: RetrainReport
  rj_promotedVersion :: "int option"
  rj_fromStore :: bool

definition promotion_entry :: LedgerEntryLike where
  "promotion_entry = \<lparr>lk_type = ''model.promoted'', lk_invoiceId = None, lk_features = None, lk_amount = None\<rparr>"

definition runRetrainJob :: "RetrainConfig \<Rightarrow> RetrainStores \<Rightarrow> js_error + (RetrainJobResult \<times> RetrainStores)" where
  "runRetrainJob cfg db =
     (let persisted = getActiveChampion (rt_models db);
          champion = coalesce persisted BOOTSTRAP_RECOVERABILITY_WEIGHTS
      in case retrainFromLedger (rt_ledger db) champion cfg of
           Inl e \<Rightarrow> Inl e
         | Inr report \<Rightarrow>
             (case (rr_accepted report \<and> rr_promoted report, rr_weights report) of
                (True, Some wts) \<Rightarrow>
                  (let saved = saveChampion wts (rt_models db)
                   in Inr (\<lparr>rj_report = report, rj_promotedVersion = Some (fst saved), rj_fromStore = (persisted \<noteq> None)\<rparr>,
                           \<lparr>rt_models = snd saved, rt_ledger = rt_ledger db @ [promotion_entry]\<rparr>))
              | _ \<Rightarrow> Inr (\<lparr>rj_report = report, rj_promotedVersion = None, rj_fromStore = (persisted \<noteq> None)\<rparr>, db)))"

text \<open>
  The job never replaces the champion by one that does not beat it: either nothing changes, or
  the active champion is the challenger that passed the gate against the previous one.
\<close>

lemma retrain_job_safe:
  assumes "runRetrainJob cfg db = Inr (res, db')"
  shows "db' = db \<and> rj_promotedVersion res = None \<or>
    (\<exists>wts. getActiveChampion (rt_models db') = Some wts \<and> rr_promoted (rj_report res) \<and>
       retrainFromLedger (rt_ledger db) (coalesce (getActiveChampion (rt_models db)) BOOTSTRAP_RECOVERABILITY_WEIGHTS) cfg
         = Inr (rj_report res) \<and> rr_weights (rj_report res) = Some wts \<and>
       samplesFromLedger (rt_ledger db') w = samplesFromLedger (rt_ledger db) w)"
  using assms samples_ignore [of promotion_entry "rt_ledger db" w]
  by (auto simp: runRetrainJob_def Let_def saved_is_active promotion_entry_def
      split: sum.splits option.splits bool.splits)

lemma bootstrap_length: "length (wt_w BOOTSTRAP_RECOVERABILITY_WEIGHTS) = FEATURE_DIM"
  by (simp add: BOOTSTRAP_RECOVERABILITY_WEIGHTS_def FEATURE_DIM_value)

subsection \<open>The bootstrap corpus\<close>

text \<open>The true recovery probability of the synthetic generator (\<open>simulate.ts\<close>).\<close>

definition base_log_odds :: "DeclineCode \<Rightarrow> real" where
  "base_log_odds code =
     (if code \<in> {IssuerUnavailable, TryAgainLater, ProcessingError} then 1.3
      else if code = InsufficientFunds then 0.2
      else if code \<in> {VelocityLimitExceeded, AuthenticationRequired} then 0.4
      else if code = DoNotHonor then - 0.3
      else if code = ExpiredCard then - 2.2
      else if code \<in> {LostCard, StolenCard, ClosedAccount, InvalidCard, PickupCard, CardNotSupported,
                       RevocationOfAuthorization} then - 3.4
      else - 0.5)"

definition trueRecoverProb :: "RecoveryFeatures \<Rightarrow> real" where
  "trueRecoverProb f =
     (let issuerPrior = coalesce (f_issuerApprovalPrior f) 0.5;
          z = base_log_odds (f_declineCode f)
              + (issuerPrior - 0.5) * 2.2
              + (issuerPrior - 0.5) * of_int (max 0 (f_attemptNumber f - 1)) * 0.9
              + (f_priorRecoveryRate f - 0.4) * 2.0
              - of_int (max 0 (f_attemptNumber f - 1)) * 0.55
              - max 0 (f_daysSinceFirstFail f - 3) * 0.04
              + min (f_customerTenureDays f / 365) 3 * 0.12
              - min (of_int (f_amountMinor f) / 100 / 1000) 3 * 0.2
              - (if f_cardType f = Some CardPrepaid then 0.7
                 else if f_cardType f = Some CardDebit then 0.25 else 0)
      in sigmoid z)"

definition CARD_TYPE_MIX :: "CardProductType list" where
  "CARD_TYPE_MIX = replicate 5 CardCredit @ replicate 3 CardDebit @ [CardPrepaid]"

definition SOFT_ISH :: "DeclineCode list" where
  "SOFT_ISH =
     [InsufficientFunds, InsufficientFunds, InsufficientFunds, DoNotHonor, DoNotHonor, IssuerUnavailable,
      TryAgainLater, ProcessingError, VelocityLimitExceeded, AuthenticationRequired, ExpiredCard, LostCard,
      StolenCard, ClosedAccount, InvalidCard]"

definition pick :: "'a list \<Rightarrow> real \<Rightarrow> 'a" where
  "pick arr r = arr ! nat \<lfloor>r * of_nat (length arr)\<rfloor>"

record SimSample = TrainingSample +
  sm_trueProb :: real

text \<open>One draw takes ten numbers from the generator, in the order of the source.\<close>

fun draws :: "nat \<Rightarrow> 32 word \<Rightarrow> real list \<times> 32 word" where
  "draws 0 s = ([], s)"
| "draws (Suc n) s = (let rs = mulberry32 s; ds = draws n (snd rs) in (fst rs # fst ds, snd ds))"

definition sim_features :: "real list \<Rightarrow> RecoveryFeatures" where
  "sim_features r =
     \<lparr>f_declineCode = pick SOFT_ISH (r ! 0), f_amountMinor = js_round (500 + exp (r ! 2 * 3 + 6)),
      f_currency = ''USD'', f_issuerRegion = pick REGION_ORDER (r ! 1),
      f_cardType = Some (pick CARD_TYPE_MIX (r ! 3)),
      f_customerTenureDays = of_int (js_round (r ! 4 * 1200)), f_priorRecoveryRate = r ! 5,
      f_attemptNumber = 1 + \<lfloor>r ! 6 * 5\<rfloor>, f_daysSinceFirstFail = of_int \<lfloor>r ! 7 * 20\<rfloor>,
      f_issuerApprovalPrior = Some (r ! 8)\<rparr>"

definition sim_sample :: "real list \<Rightarrow> SimSample" where
  "sim_sample r =
     (let f = sim_features r; p = trueRecoverProb f
      in \<lparr>ts_features = f, ts_recovered = (r ! 9 < p), ts_weight = Some (of_int (f_amountMinor f) / 100),
          sm_trueProb = p\<rparr>)"

fun simulate_from :: "nat \<Rightarrow> 32 word \<Rightarrow> SimSample list" where
  "simulate_from 0 s = []"
| "simulate_from (Suc n) s = (let rs = draws 10 s in sim_sample (fst rs) # simulate_from n (snd rs))"

definition simulateSamples :: "nat \<Rightarrow> int \<Rightarrow> SimSample list" where
  "simulateSamples n seed = simulate_from n (mulberry32_seed seed)"

lemma draws_unit: "length (fst (draws n s)) = n \<and> (\<forall>r\<in>set (fst (draws n s)). 0 \<le> r \<and> r < 1)"
  using mulberry.nonneg mulberry.below_1 by (induction n arbitrary: s) (auto simp: Let_def)

lemma pick_in: "arr \<noteq> [] \<Longrightarrow> 0 \<le> r \<Longrightarrow> r < 1 \<Longrightarrow> pick arr r \<in> set arr"
proof -
  assume arr: "arr \<noteq> []" "0 \<le> r" "r < 1"
  then have "r * real (length arr) < real (length arr)" by simp
  moreover have "0 \<le> r * real (length arr)" using arr by simp
  ultimately have "nat \<lfloor>r * real (length arr)\<rfloor> < length arr" by linarith
  then show ?thesis by (simp add: pick_def)
qed

text \<open>Every simulated sample is within the ranges the corpus documents.\<close>

definition sim_ok :: "SimSample \<Rightarrow> bool" where
  "sim_ok s \<longleftrightarrow>
     f_declineCode (ts_features s) \<in> set SOFT_ISH \<and> f_cardType (ts_features s) \<noteq> None \<and>
     500 \<le> f_amountMinor (ts_features s) \<and> 1 \<le> f_attemptNumber (ts_features s) \<and>
     f_attemptNumber (ts_features s) \<le> 5 \<and> 0 \<le> f_daysSinceFirstFail (ts_features s) \<and>
     f_daysSinceFirstFail (ts_features s) \<le> 19 \<and> 0 < sm_trueProb s \<and> sm_trueProb s < 1"

lemma sim_sample_ok:
  assumes "length r = 10" "\<forall>x\<in>set r. 0 \<le> x \<and> x < 1"
  shows "sim_ok (sim_sample r)"
proof -
  have u: "0 \<le> r ! i" "r ! i < 1" if "i < 10" for i
    using assms that nth_mem [of i r] by auto
  have six: "0 \<le> \<lfloor>r ! 6 * 5\<rfloor>" "\<lfloor>r ! 6 * 5\<rfloor> < 5" using u [of 6] by (simp, linarith)
  have seven: "0 \<le> \<lfloor>r ! 7 * 20\<rfloor>" "\<lfloor>r ! 7 * 20\<rfloor> < 20" using u [of 7] by (simp, linarith)
  have "real_of_int \<lfloor>r ! 7 * 20\<rfloor> \<le> real_of_int 19" using seven by (simp only: of_int_le_iff)
  then have "real_of_int \<lfloor>r ! 7 * 20\<rfloor> \<le> 19" by simp
  moreover have "500 \<le> js_round (500 + exp (r ! 2 * 3 + 6))"
    by (rule js_round_ge_of_int) (simp add: less_imp_le)
  moreover have "pick SOFT_ISH (r ! 0) \<in> set SOFT_ISH"
    using u [of 0] by (intro pick_in) (simp_all add: SOFT_ISH_def)
  moreover have "0 < trueRecoverProb f" "trueRecoverProb f < 1" for f
    by (simp_all add: trueRecoverProb_def Let_def sigmoid_eq_logistic logistic_range)
  ultimately show ?thesis
    using six seven by (simp add: sim_ok_def sim_sample_def sim_features_def Let_def)
qed

lemma simulateSamples_ok: "length (simulateSamples n seed) = n \<and> list_all sim_ok (simulateSamples n seed)"
proof -
  have "length (simulate_from n s) = n \<and> list_all sim_ok (simulate_from n s)" for s
    using sim_sample_ok draws_unit [of 10]
    by (induction n arbitrary: s) (simp_all add: Let_def del: draws.simps)
  then show ?thesis by (simp add: simulateSamples_def)
qed

text \<open>The bootstrap run of \<open>train-cli.ts\<close>.\<close>

record BootstrapResult =
  br_weights :: RecoverabilityWeights
  br_trainedAuc :: real
  br_heuristicAuc :: real
  br_logLoss :: real

definition trainBootstrap :: "js_error + BootstrapResult" where
  "trainBootstrap =
     (let split = splitTrainTest (map TrainingSample.truncate (simulateSamples 8000 42)) 0.25 7 in
      case trainLogisticRecoverability \<lparr>to_iterations = 3000, to_lr = 0.4, to_l2 = 1 / 10 ^ 4, to_seed = 11\<rparr>
             (sp_train split) of
        Inl e \<Rightarrow> Inl e
      | Inr st \<Rightarrow>
          (let weights = \<lparr>wt_w = tn_w st, wt_b = tn_b st\<rparr> in
           case make_logistic weights of
             Inl e \<Rightarrow> Inl e
           | Inr trained \<Rightarrow>
               (let t = evaluate_model (logistic_score trained) (sp_test split);
                    h = evaluate_model heuristic_score (sp_test split)
                in Inr \<lparr>br_weights = weights, br_trainedAuc = em_auc t, br_heuristicAuc = em_auc h,
                        br_logLoss = em_logLoss t\<rparr>)))"

lemma split_sizes:
  "length (sp_train (splitTrainTest xs p seed)) + length (sp_test (splitTrainTest xs p seed)) = length xs"
  using arg_cong [OF split_partition, of size] by (simp flip: size_mset)

lemma trainBootstrap_returns: "\<exists>r. trainBootstrap = Inr r \<and> length (wt_w (br_weights r)) = FEATURE_DIM"
proof -
  define xs where "xs = map TrainingSample.truncate (simulateSamples 8000 42)"
  have len: "length xs = 8000" using simulateSamples_ok [of 8000 42] by (simp add: xs_def)
  have "js_round (of_nat (length xs) * 0.25) = 2000"
    using js_round_of_int [of 2000] by (simp add: len)
  then have "length (sp_test (splitTrainTest xs 0.25 7)) = 2000"
    using split_test_size [of "0.25" xs 7] by simp
  then have "sp_train (splitTrainTest xs 0.25 7) \<noteq> []"
    using split_sizes [of xs "0.25" 7] len by auto
  from train_total [OF this] obtain st where
    st: "trainLogisticRecoverability \<lparr>to_iterations = 3000, to_lr = 0.4, to_l2 = 1 / 10 ^ 4, to_seed = 11\<rparr>
      (sp_train (splitTrainTest xs 0.25 7)) = Inr st" by blast
  show ?thesis
    using trained_length [OF st] st
    by (simp add: trainBootstrap_def Let_def make_logistic_def flip: xs_def)
qed

end
