(* ===== verification/LedgerStore.thy ===== *)
theory LedgerStore
  imports RecoveryCase "HOL-Library.AList"
begin

text \<open>
  The repositories of \<open>packages/persistence\<close> that the recovery service shares between its
  processes: the hash-chained ledger (\<open>ledger-repo.ts\<close>), the attempt counters
  (\<open>credential-attempt-repo.ts\<close> behind \<open>PersistedCredentialAttemptStore\<close>), the record of sent
  reminders (\<open>dunning-send-repo.ts\<close>) and the encrypted credentials (\<open>crypto.ts\<close>). A table is
  the list of its rows in the order of insertion; a unique key makes an insert fail or turns
  it into an update. An append to the ledger reads the head and then inserts, and what other
  writers commit in between is an argument, so the retry after a lost race is a branch of
  the model.
\<close>

subsection \<open>The ledger table\<close>

text \<open>\<open>ORDER BY seq DESC LIMIT 1\<close> and \<open>ORDER BY seq ASC\<close>.\<close>

definition newest_row :: "LedgerEntry list \<Rightarrow> LedgerEntry option" where
  "newest_row rows =
     foldl (\<lambda>best r. case best of None \<Rightarrow> Some r | Some b \<Rightarrow> if le_seq b < le_seq r then Some r else best) None rows"

definition repo_all :: "LedgerEntry list \<Rightarrow> ledger" where
  "repo_all rows = sort_key le_seq rows"

definition repo_head :: "LedgerEntry list \<Rightarrow> string" where
  "repo_head rows = (case newest_row rows of None \<Rightarrow> GENESIS_HASH | Some r \<Rightarrow> le_hash r)"

definition repo_forMerchant :: "ident \<Rightarrow> LedgerEntry list \<Rightarrow> ledger" where
  "repo_forMerchant m rows = sort_key le_seq (filter (\<lambda>r. le_merchantId r = m) rows)"

definition repo_verify :: "(string \<Rightarrow> string) \<Rightarrow> LedgerEntry list \<Rightarrow> ChainVerification" where
  "repo_verify H rows = verifyChain H (repo_all rows)"

text \<open>The entry built on the head that was read, and the insert under the primary key \<open>seq\<close>.\<close>

definition linked_entry :: "(string \<Rightarrow> string) \<Rightarrow> LedgerEntry list \<Rightarrow> LedgerInput \<Rightarrow> LedgerEntry" where
  "linked_entry H rows d =
     (case newest_row rows of
        None \<Rightarrow> make_entry H 0 GENESIS_HASH d
      | Some prev \<Rightarrow> make_entry H (le_seq prev + 1) (le_hash prev) d)"

definition insert_row :: "LedgerEntry \<Rightarrow> LedgerEntry list \<Rightarrow> LedgerEntry list option" where
  "insert_row e rows = (if list_ex (\<lambda>r. le_seq r = le_seq e) rows then None else Some (rows @ [e]))"

text \<open>A transaction nothing interferes with.\<close>

definition commit_entry :: "(string \<Rightarrow> string) \<Rightarrow> LedgerEntry list \<Rightarrow> LedgerInput \<Rightarrow> LedgerEntry list" where
  "commit_entry H rows d = (case insert_row (linked_entry H rows d) rows of None \<Rightarrow> rows | Some rows' \<Rightarrow> rows')"

definition MAX_APPEND_RETRIES :: nat where
  "MAX_APPEND_RETRIES = 8"

text \<open>
  The loop of \<open>append\<close>. \<open>races\<close> lists, per attempt, what other writers commit between the
  read of the head and the insert (nothing, once it is exhausted, and always nothing under the
  advisory lock).
\<close>

fun append_loop ::
  "(string \<Rightarrow> string) \<Rightarrow> nat \<Rightarrow> LedgerInput list list \<Rightarrow> LedgerEntry list \<Rightarrow> LedgerInput \<Rightarrow>
   (js_error + LedgerEntry) \<times> LedgerEntry list" where
  "append_loop H 0 races rows d = (Inl (JsError ''LedgerRepository.append: lost the seq race''), rows)"
| "append_loop H (Suc n) races rows d =
     (let e = linked_entry H rows d;
          rows' = foldl (commit_entry H) rows (case races of [] \<Rightarrow> [] | r # _ \<Rightarrow> r)
      in case insert_row e rows' of
           Some rows'' \<Rightarrow> (Inr e, rows'')
         | None \<Rightarrow> append_loop H n (drop 1 races) rows' d)"

definition repo_append ::
  "(string \<Rightarrow> string) \<Rightarrow> LedgerInput list list \<Rightarrow> LedgerEntry list \<Rightarrow> LedgerInput \<Rightarrow>
   (js_error + LedgerEntry) \<times> LedgerEntry list" where
  "repo_append H races rows d = append_loop H MAX_APPEND_RETRIES races rows d"

subsection \<open>The table is the chain\<close>

lemma newest_row_chain: "chain_ok H rows \<Longrightarrow> newest_row rows = (if rows = [] then None else Some (last rows))"
proof (induction rows rule: rev_induct)
  case (snoc r rows)
  have ok: "chain_ok H rows" and seq: "le_seq r = int (length rows)"
    using chain_snoc_unfold [OF snoc.prems] by simp_all
  have "le_seq (last rows) < le_seq r" if "rows \<noteq> []"
    using chain_ok_seq [OF ok, of "length rows - 1"] that seq by (simp add: last_conv_nth)
  with snoc.IH [OF ok] show ?case by (auto simp: newest_row_def)
qed (simp add: newest_row_def)

lemma chain_ok_seq_sorted: "chain_ok H rows \<Longrightarrow> sorted (map le_seq rows)"
  by (simp add: sorted_iff_nth_mono chain_ok_seq)

lemma repo_all_chain: "chain_ok H rows \<Longrightarrow> repo_all rows = rows"
  using chain_ok_seq_sorted [of H rows] by (simp add: repo_all_def sort_key_id_if_sorted)

lemma repo_head_chain: "chain_ok H rows \<Longrightarrow> repo_head rows = head_hash rows"
  by (simp add: repo_head_def newest_row_chain head_hash_def)

lemma linked_entry_chain:
  assumes "chain_ok H rows"
  shows "linked_entry H rows d = make_entry H (int (length rows)) (head_hash rows) d"
proof (cases rows rule: rev_cases)
  case (snoc rs r)
  with assms show ?thesis
    using chain_snoc_unfold(4) [of H rs r] by (simp add: linked_entry_def newest_row_chain add.commute)
qed (simp add: linked_entry_def newest_row_def)

lemma seq_taken_iff:
  assumes "chain_ok H rows"
  shows "list_ex (\<lambda>r. le_seq r = s) rows \<longleftrightarrow> 0 \<le> s \<and> s < int (length rows)"
proof
  assume "list_ex (\<lambda>r. le_seq r = s) rows"
  then obtain i where "i < length rows" "le_seq (rows ! i) = s"
    by (auto simp: list_ex_iff in_set_conv_nth)
  then show "0 \<le> s \<and> s < int (length rows)" using chain_ok_seq [OF assms, of i] by simp
next
  assume s: "0 \<le> s \<and> s < int (length rows)"
  then have "le_seq (rows ! nat s) = s" "nat s < length rows"
    using chain_ok_seq [OF assms, of "nat s"] by (simp_all add: nat_less_iff)
  then show "list_ex (\<lambda>r. le_seq r = s) rows" by (auto simp: list_ex_iff)
qed

lemma seq_make_entry [simp]: "le_seq (make_entry H s p d) = s"
  by (simp add: make_entry_def)

lemma commit_entry_chain: "chain_ok H rows \<Longrightarrow> commit_entry H rows d = ledger_append H rows d"
  by (simp add: commit_entry_def insert_row_def linked_entry_chain seq_taken_iff ledger_append_def)

lemma commit_many_chain:
  assumes "chain_ok H rows"
  shows "chain_ok H (foldl (commit_entry H) rows ds)"
    "map entry_input (foldl (commit_entry H) rows ds) = map entry_input rows @ ds"
proof -
  have "foldl (commit_entry H) rows ds = foldl (ledger_append H) rows ds \<and> chain_ok H (foldl (ledger_append H) rows ds)"
    using assms by (induction ds arbitrary: rows) (simp_all add: commit_entry_chain)
  then show "chain_ok H (foldl (commit_entry H) rows ds)"
    "map entry_input (foldl (commit_entry H) rows ds) = map entry_input rows @ ds"
    using mem_ledger.append_many_entries [OF assms, of ds] by (simp_all add: mem_ledger.append_many_def)
qed

text \<open>The insert goes through exactly when nobody committed since the head was read.\<close>

lemma insert_after_race:
  assumes "chain_ok H rows"
  shows "insert_row (linked_entry H rows d) (foldl (commit_entry H) rows ds) =
    (if ds = [] then Some (ledger_append H rows d) else None)"
proof -
  have "length (foldl (commit_entry H) rows ds) = length rows + length ds"
    using arg_cong [OF commit_many_chain(2) [OF assms, of ds], of length] by simp
  then show ?thesis
    using seq_taken_iff [OF commit_many_chain(1) [OF assms, of ds], of "int (length rows)"]
    by (auto simp: insert_row_def linked_entry_chain [OF assms] ledger_append_def)
qed

definition race :: "LedgerInput list list \<Rightarrow> nat \<Rightarrow> LedgerInput list" where
  "race races k = (if k < length races then races ! k else [])"

text \<open>
  Whatever the others do, the table stays one valid chain that holds every committed event
  once and in order; the append succeeds in the first attempt that is not raced, and fails
  only if each attempt was.
\<close>

lemma append_loop_chain:
  assumes "chain_ok H rows"
  shows "chain_ok H (snd (append_loop H n races rows d)) \<and>
    (\<exists>k\<le>n. (\<forall>j<k. race races j \<noteq> []) \<and>
       map entry_input (snd (append_loop H n races rows d)) =
         map entry_input rows @ concat (map (race races) [0..<k]) @
         (if k < n then [d] else []) \<and>
       (if k < n then race races k = [] \<and>
          fst (append_loop H n races rows d) = Inr (last (snd (append_loop H n races rows d)))
        else \<exists>e. fst (append_loop H n races rows d) = Inl e))"
  using assms
proof (induction n arbitrary: races rows)
  case 0
  then show ?case by (auto intro: exI [of _ 0])
next
  case (Suc n)
  let ?ds = "race races 0" and ?rows = "foldl (commit_entry H) rows (race races 0)"
  have ds: "(case races of [] \<Rightarrow> [] | r # _ \<Rightarrow> r) = ?ds"
    by (cases races) (simp_all add: race_def)
  show ?case
  proof (cases "?ds = []")
    case True
    then have "append_loop H (Suc n) races rows d = (Inr (linked_entry H rows d), ledger_append H rows d)"
      using insert_after_race [OF Suc.prems, of d ?ds] by (simp add: ds Let_def)
    with True Suc.prems show ?thesis
      by (intro conjI exI [of _ 0]) (simp_all add: linked_entry_chain ledger_append_def chain_ok_snoc)
  next
    case False
    then have step: "append_loop H (Suc n) races rows d = append_loop H n (drop 1 races) ?rows d"
      using insert_after_race [OF Suc.prems, of d ?ds] by (simp add: ds Let_def)
    have shift: "race (drop 1 races) j = race races (Suc j)" for j
      by (auto simp: race_def)
    from Suc.IH [OF commit_many_chain(1) [OF Suc.prems, of ?ds], of "drop 1 races"] obtain k where
      k: "k \<le> n" "\<forall>j<k. race races (Suc j) \<noteq> []"
        "map entry_input (snd (append_loop H n (drop 1 races) ?rows d)) =
           map entry_input ?rows @ concat (map (race (drop 1 races)) [0..<k]) @ (if k < n then [d] else [])"
        "if k < n then race races (Suc k) = [] \<and>
           fst (append_loop H n (drop 1 races) ?rows d) = Inr (last (snd (append_loop H n (drop 1 races) ?rows d)))
         else \<exists>e. fst (append_loop H n (drop 1 races) ?rows d) = Inl e"
        "chain_ok H (snd (append_loop H n (drop 1 races) ?rows d))"
      unfolding shift by blast
    have up: "map (race races) [0..<Suc k] = ?ds # map (race (drop 1 races)) [0..<k]"
      using shift by (simp add: upt_conv_Cons map_Suc_upt [symmetric] comp_def del: upt_Suc)
    have "\<forall>j<Suc k. race races j \<noteq> []"
      using k(2) False by (auto simp: less_Suc_eq_0_disj)
    with k show ?thesis
      unfolding step by (intro conjI exI [of _ "Suc k"]) (simp_all add: up commit_many_chain(2) [OF Suc.prems] del: upt_Suc)
  qed
qed

text \<open>The undisturbed append is the interface of the log: the persisted ledger is interchangeable
  with the in-memory one.\<close>

interpretation persisted_ledger: chained_log H "chain_ok H" repo_all repo_head "commit_entry H" for H
  by unfold_locales
    (simp_all add: commit_entry_chain repo_all_chain repo_all_chain [OF chain_ok_append] repo_head_chain)

lemma repo_append_unraced:
  assumes "chain_ok H rows"
  shows "repo_append H [] rows d = (Inr (last (ledger_append H rows d)), ledger_append H rows d)"
  using insert_after_race [OF assms, of d "[]"]
  by (simp add: repo_append_def MAX_APPEND_RETRIES_def eval_nat_numeral Let_def ledger_append_def linked_entry_chain [OF assms])

lemma repo_verify_valid: "chain_ok H rows \<Longrightarrow> repo_verify H rows = ChainValid"
  by (simp add: repo_verify_def repo_all_chain) (simp add: chain_ok_def)

lemma repo_forMerchant_chain: "chain_ok H rows \<Longrightarrow> repo_forMerchant m rows = for_merchant m rows"
proof -
  assume ok: "chain_ok H rows"
  have "sorted (map le_seq (filter P rows))" for P
    using chain_ok_seq_sorted [OF ok] by (rule sorted_filter)
  then show ?thesis by (simp add: repo_forMerchant_def for_merchant_def sort_key_id_if_sorted)
qed

subsection \<open>Attempt counters and sent reminders\<close>

text \<open>\<open>INSERT ... ON CONFLICT (key) DO UPDATE SET count = count + 1\<close> on the keyed table.\<close>

type_synonym attempt_table = "(string \<times> (int \<times> iso)) list"

definition attempt_increment :: "string \<Rightarrow> iso \<Rightarrow> attempt_table \<Rightarrow> attempt_table" where
  "attempt_increment key lastAt rows =
     (case map_of rows key of
        None \<Rightarrow> rows @ [(key, (1, lastAt))]
      | Some (n, _) \<Rightarrow> AList.update key (n + 1, lastAt) rows)"

definition attempt_count :: "attempt_table \<Rightarrow> string \<Rightarrow> int" where
  "attempt_count rows key = (case map_of rows key of None \<Rightarrow> 0 | Some (n, _) \<Rightarrow> n)"

definition attempt_get :: "attempt_table \<Rightarrow> string \<Rightarrow> (int \<times> iso) option" where
  "attempt_get rows key = map_of rows key"

definition persisted_window :: "attempt_table \<Rightarrow> string \<Rightarrow> iso option \<Rightarrow> CredentialAttemptWindow" where
  "persisted_window rows key nowIso =
     (case attempt_get rows key of
        None \<Rightarrow> \<lparr>cw_attemptsInWindow = 0, cw_minutesSinceLastAttempt = None\<rparr>
      | Some (n, lastAt) \<Rightarrow> \<lparr>cw_attemptsInWindow = n, cw_minutesSinceLastAttempt = minutesBetween nowIso lastAt\<rparr>)"

text \<open>The table refines the map of the in-memory store, so the service may be given either.\<close>

lemma attempt_increment_refines: "map_of (attempt_increment key t rows) = cred_increment key t (map_of rows)"
  by (auto simp: attempt_increment_def cred_increment_def cred_count_def update_conv map_add_def
      fun_eq_iff split: option.splits)

lemma attempt_count_refines: "attempt_count rows key = cred_count (map_of rows) key"
  by (simp add: attempt_count_def cred_count_def split: option.splits)

lemma persisted_window_refines: "persisted_window rows key n = cred_window (map_of rows) key n"
  by (simp add: persisted_window_def cred_window_def attempt_get_def)

interpretation persisted_counter: credential_counter attempt_count persisted_window attempt_increment
    "\<lambda>rows. \<forall>k c t. map_of rows k = Some (c, t) \<longrightarrow> 0 \<le> c"
  using mem_counter.count_increment mem_counter.window_count mem_counter.increment_inv mem_counter.count_nonneg
  by unfold_locales
    (simp_all only: attempt_increment_refines attempt_count_refines persisted_window_refines)

text \<open>\<open>ON CONFLICT DO NOTHING\<close>\<close>

type_synonym send_table = "(string \<times> string) list"

definition send_has :: "send_table \<Rightarrow> string \<Rightarrow> bool" where
  "send_has rows key = list_ex (\<lambda>r. fst r = key) rows"

definition send_record :: "string \<Rightarrow> string \<Rightarrow> send_table \<Rightarrow> send_table" where
  "send_record key sentAt rows = (if send_has rows key then rows else rows @ [(key, sentAt)])"

lemma send_record_has [simp]: "send_has (send_record key t rows) k \<longleftrightarrow> k = key \<or> send_has rows k"
  by (auto simp: send_record_def send_has_def)

lemma send_record_first: "send_record key t' (send_record key t rows) = send_record key t rows"
  by (simp add: send_record_def [of key t'])

subsection \<open>Credentials at rest\<close>

text \<open>
  AES-256-GCM, the random bytes and base64 are parameters. \<open>seal\<close> maps key, nonce and plaintext
  to ciphertext and tag, \<open>unseal\<close> returns \<open>None\<close> when the tag does not match.
\<close>

record 'b Gcm =
  gcm_seal :: "'b list \<Rightarrow> 'b list \<Rightarrow> string \<Rightarrow> 'b list \<times> 'b list"
  gcm_open :: "'b list \<Rightarrow> 'b list \<Rightarrow> 'b list \<Rightarrow> 'b list \<Rightarrow> string option"
  gcm_base64 :: "'b list \<Rightarrow> string"
  gcm_unbase64 :: "string \<Rightarrow> 'b list"

definition IV_LEN :: nat where "IV_LEN = 12"
definition TAG_LEN :: nat where "TAG_LEN = 16"

definition encryptCredentials :: "'b Gcm \<Rightarrow> 'b list \<Rightarrow> string \<Rightarrow> 'b list \<Rightarrow> js_error + string" where
  "encryptCredentials g iv plaintext key =
     (if length key \<noteq> 32 then Inl (JsError ''encryption key must be 32 bytes'')
      else (case gcm_seal g key iv plaintext of (ct, tag') \<Rightarrow> Inr (gcm_base64 g (iv @ tag' @ ct))))"

definition decryptCredentials :: "'b Gcm \<Rightarrow> string \<Rightarrow> 'b list \<Rightarrow> js_error + string" where
  "decryptCredentials g blob key =
     (if length key \<noteq> 32 then Inl (JsError ''encryption key must be 32 bytes'')
      else
        (let buf = gcm_unbase64 g blob;
             iv = take IV_LEN buf;
             tag' = take TAG_LEN (drop IV_LEN buf);
             ct = drop (IV_LEN + TAG_LEN) buf
         in case gcm_open g key iv tag' ct of
              None \<Rightarrow> Inl (JsError ''Unsupported state or unable to authenticate data'')
            | Some p \<Rightarrow> Inr p))"

text \<open>What the code relies on: the tag has 16 bytes, opening undoes sealing, base64 reads back.\<close>

definition gcm_ok :: "'b Gcm \<Rightarrow> bool" where
  "gcm_ok g \<longleftrightarrow>
     (\<forall>k iv p. length (snd (gcm_seal g k iv p)) = TAG_LEN \<and>
        gcm_open g k iv (snd (gcm_seal g k iv p)) (fst (gcm_seal g k iv p)) = Some p) \<and>
     (\<forall>bs. gcm_unbase64 g (gcm_base64 g bs) = bs)"

lemma credentials_read_back:
  assumes "gcm_ok g" "length iv = IV_LEN" "encryptCredentials g iv plaintext key = Inr blob"
  shows "decryptCredentials g blob key = Inr plaintext"
proof -
  obtain ct tag' where st: "gcm_seal g key iv plaintext = (ct, tag')" by (cases "gcm_seal g key iv plaintext")
  have key: "length key = 32" and blob: "blob = gcm_base64 g (iv @ tag' @ ct)"
    using assms(3) by (simp_all add: encryptCredentials_def st split: if_splits)
  have tag: "length tag' = TAG_LEN" "gcm_open g key iv tag' ct = Some plaintext"
    "gcm_unbase64 g blob = iv @ tag' @ ct"
    using assms(1) st unfolding gcm_ok_def blob by (metis fst_conv snd_conv)+
  then show ?thesis
    using assms(2) key by (simp add: decryptCredentials_def Let_def)
qed

lemma wrong_key_size: "length key \<noteq> 32 \<Longrightarrow> \<exists>e. encryptCredentials g iv p key = Inl e \<and> decryptCredentials g b key = Inl e"
  by (simp add: encryptCredentials_def decryptCredentials_def)

end
