(* ===== verification/Pnl.thy ===== *)
theory Pnl
  imports BillingRun
begin

text \<open>
  The revenue view of \<open>apps/api/src/analytics/pnl.ts\<close>: one pass over the ledger adds up what was
  recovered, reversed and reinstated, per processor and over all, for rolling windows of a day, a
  week, a month and a year and for a series of days. The theory shows that the views agree: what the
  processors report adds up to the cumulative row, the two halves of a window split the entries of
  its span, and a series that is long enough adds up to the totals.

  \<open>Date.parse\<close> is an argument (\<open>None\<close> is \<open>NaN\<close>); the amounts of the ledger are integers; the length
  of the series is a real, as the query string may give a fraction.
\<close>

subsection \<open>Totals\<close>

record PnlTotals =
  pt_recoveredMinor :: int
  pt_grossRecoveredMinor :: int
  pt_reversedMinor :: int
  pt_reinstatedMinor :: int
  pt_feeMinor :: int
  pt_clawbackMinor :: int
  pt_recoveries :: int
  pt_reversals :: int
  pt_reinstatements :: int
  pt_attempts :: int
  pt_comms :: int

record PeriodDelta =
  pd_current :: PnlTotals
  pd_previous :: PnlTotals
  pd_feeDeltaPct :: "real option"
  pd_recoveredDeltaPct :: "real option"

record ProcessorPnl =
  pp_processor :: string
  pp_totals :: PnlTotals
  pp_day :: PeriodDelta
  pp_week :: PeriodDelta
  pp_month :: PeriodDelta
  pp_year :: PeriodDelta

record PnlSeriesPoint =
  ps_date :: string
  ps_recoveredMinor :: int
  ps_feeMinor :: int

record PnlReport =
  pr_generatedAt :: string
  pr_currency :: string
  pr_feeRatePct :: int
  pr_cumulative :: ProcessorPnl
  pr_processors :: "ProcessorPnl list"
  pr_dailySeries :: "PnlSeriesPoint list"

record PnlOptions =
  po_nowIso :: string
  po_feeRate :: "real option"
  po_currency :: "string option"
  po_seriesDays :: "real option"

definition emptyTotals :: PnlTotals where
  "emptyTotals =
     \<lparr>pt_recoveredMinor = 0, pt_grossRecoveredMinor = 0, pt_reversedMinor = 0, pt_reinstatedMinor = 0,
      pt_feeMinor = 0, pt_clawbackMinor = 0, pt_recoveries = 0, pt_reversals = 0, pt_reinstatements = 0,
      pt_attempts = 0, pt_comms = 0\<rparr>"

definition pnl_num :: "json option \<Rightarrow> int" where
  "pnl_num v = (case v of Some (JNum t) \<Rightarrow> read_int t | _ \<Rightarrow> 0)"

definition pnl_str :: "json option \<Rightarrow> string option" where
  "pnl_str v = (case v of Some (JStr s) \<Rightarrow> if s = [] then None else Some s | _ \<Rightarrow> None)"

definition withFee :: "PnlTotals \<Rightarrow> real \<Rightarrow> PnlTotals" where
  "withFee t feeRate =
     (let recovered = pt_grossRecoveredMinor t - pt_reversedMinor t + pt_reinstatedMinor t in
      t\<lparr>pt_recoveredMinor := recovered,
        pt_feeMinor := js_round (of_int recovered * feeRate),
        pt_clawbackMinor := js_round (of_int (pt_reversedMinor t - pt_reinstatedMinor t) * feeRate)\<rparr>)"

definition pctChange :: "int \<Rightarrow> int \<Rightarrow> real option" where
  "pctChange current previous =
     (if previous = 0 then None else Some (of_int (current - previous) / of_int previous * 100))"

definition in_currency :: "string \<Rightarrow> LedgerEntry \<Rightarrow> bool" where
  "in_currency cur e \<longleftrightarrow> coalesce (pnl_str (field e ''currency'')) cur = cur"

definition accumulate :: "string \<Rightarrow> PnlTotals \<Rightarrow> LedgerEntry \<Rightarrow> PnlTotals" where
  "accumulate cur t e =
     (case le_type e of
        CaseRecovered \<Rightarrow>
          if in_currency cur e
          then t\<lparr>pt_grossRecoveredMinor := pt_grossRecoveredMinor t + pnl_num (field e ''amount''),
                 pt_recoveries := pt_recoveries t + 1\<rparr> else t
      | CaseReversed \<Rightarrow>
          if in_currency cur e
          then t\<lparr>pt_reversedMinor := pt_reversedMinor t + pnl_num (field e ''amount''),
                 pt_reversals := pt_reversals t + 1\<rparr> else t
      | CaseReversalReverted \<Rightarrow>
          if in_currency cur e
          then t\<lparr>pt_reinstatedMinor := pt_reinstatedMinor t + pnl_num (field e ''amount''),
                 pt_reinstatements := pt_reinstatements t + 1\<rparr> else t
      | ChargeSucceeded \<Rightarrow> t\<lparr>pt_attempts := pt_attempts t + 1\<rparr>
      | ChargeFailed \<Rightarrow> t\<lparr>pt_attempts := pt_attempts t + 1\<rparr>
      | CommsSent \<Rightarrow> t\<lparr>pt_comms := pt_comms t + 1\<rparr>
      | _ \<Rightarrow> t)"

definition tally :: "string \<Rightarrow> LedgerEntry list \<Rightarrow> PnlTotals" where
  "tally cur es = foldl (accumulate cur) emptyTotals es"

subsection \<open>Windows\<close>

text \<open>Comparisons with \<open>NaN\<close> are false, so nothing is counted when the clock does not parse.\<close>

definition in_current :: "iso \<Rightarrow> int \<Rightarrow> int \<Rightarrow> bool" where
  "in_current now days t \<longleftrightarrow> (case now of None \<Rightarrow> False | Some n \<Rightarrow> n - days * ms_per_day \<le> t \<and> t \<le> n)"

definition in_previous :: "iso \<Rightarrow> int \<Rightarrow> int \<Rightarrow> bool" where
  "in_previous now days t \<longleftrightarrow>
     (case now of None \<Rightarrow> False
      | Some n \<Rightarrow> n - 2 * (days * ms_per_day) \<le> t \<and> t < n - days * ms_per_day)"

definition window_step ::
  "(string \<Rightarrow> iso) \<Rightarrow> iso \<Rightarrow> int \<Rightarrow> string \<Rightarrow> PnlTotals \<times> PnlTotals \<Rightarrow> LedgerEntry \<Rightarrow> PnlTotals \<times> PnlTotals" where
  "window_step parse now days cur acc e =
     (case parse (le_occurredAt e) of
        None \<Rightarrow> acc
      | Some t \<Rightarrow>
          if in_current now days t then (accumulate cur (fst acc) e, snd acc)
          else if in_previous now days t then (fst acc, accumulate cur (snd acc) e)
          else acc)"

definition period_delta ::
  "(string \<Rightarrow> iso) \<Rightarrow> LedgerEntry list \<Rightarrow> iso \<Rightarrow> real \<Rightarrow> string \<Rightarrow> int \<Rightarrow> PeriodDelta" where
  "period_delta parse entries now feeRate cur days =
     (let acc = foldl (window_step parse now days cur) (emptyTotals, emptyTotals) entries;
          c = withFee (fst acc) feeRate;
          p = withFee (snd acc) feeRate
      in \<lparr>pd_current = c, pd_previous = p, pd_feeDeltaPct = pctChange (pt_feeMinor c) (pt_feeMinor p),
          pd_recoveredDeltaPct = pctChange (pt_recoveredMinor c) (pt_recoveredMinor p)\<rparr>)"

definition processorPnl ::
  "(string \<Rightarrow> iso) \<Rightarrow> string \<Rightarrow> LedgerEntry list \<Rightarrow> iso \<Rightarrow> real \<Rightarrow> string \<Rightarrow> ProcessorPnl" where
  "processorPnl parse processor entries now feeRate cur =
     (let delta = period_delta parse entries now feeRate cur in
      \<lparr>pp_processor = processor, pp_totals = withFee (tally cur entries) feeRate,
       pp_day = delta 1, pp_week = delta 7, pp_month = delta 30, pp_year = delta 365\<rparr>)"

subsection \<open>The report\<close>

text \<open>The currency of the report: the caller's, else the most frequent one, the first to occur winning a tie.\<close>

definition currency_of :: "LedgerEntry \<Rightarrow> string" where
  "currency_of e = coalesce (pnl_str (field e ''currency'')) ''USD''"

definition currency_counts :: "LedgerEntry list \<Rightarrow> (string \<times> int) list" where
  "currency_counts entries =
     collect currency_of (\<lambda>e n. n + 1) 0 (filter (\<lambda>e. le_type e = CaseRecovered) entries)"

definition report_currency :: "string option \<Rightarrow> LedgerEntry list \<Rightarrow> string" where
  "report_currency override entries =
     (let dominant = (case sort_key (\<lambda>kn. - snd kn) (currency_counts entries) of
                        [] \<Rightarrow> None | kn # _ \<Rightarrow> Some (fst kn))
      in coalesce override (coalesce dominant ''USD''))"

definition processor_of :: "LedgerEntry \<Rightarrow> string" where
  "processor_of e = coalesce (pnl_str (field e ''processor'')) ''unknown''"

definition day_key :: "int \<Rightarrow> js_error + string" where
  "day_key ms = (case to_iso_string (Some ms) of Inl e \<Rightarrow> Inl e | Inr _ \<Rightarrow> Inr (take 10 (iso_date_text ms)))"

definition money_event :: "LedgerEntry \<Rightarrow> bool" where
  "money_event e \<longleftrightarrow> le_type e \<in> {CaseRecovered, CaseReversed, CaseReversalReverted}"

fun fill_days ::
  "(string \<Rightarrow> iso) \<Rightarrow> string \<Rightarrow> (string \<times> PnlTotals) list \<Rightarrow> LedgerEntry list \<Rightarrow> js_error + (string \<times> PnlTotals) list" where
  "fill_days parse cur perDay [] = Inr perDay"
| "fill_days parse cur perDay (e # es) =
     (if \<not> money_event e then fill_days parse cur perDay es
      else
        (case parse (le_occurredAt e) of
           None \<Rightarrow> fill_days parse cur perDay es
         | Some t \<Rightarrow>
             (case day_key t of
                Inl ex \<Rightarrow> Inl ex
              | Inr dk \<Rightarrow>
                  fill_days parse cur
                    (AList.update dk (accumulate cur (coalesce (map_of perDay dk) emptyTotals) e) perDay) es)))"

text \<open>The values of the loop variable, and the integer part that a date takes of its argument.\<close>

definition series_offsets :: "real \<Rightarrow> real list" where
  "series_offsets days = map (\<lambda>k. days - 1 - of_nat k) [0..<nat \<lfloor>days\<rfloor>]"

definition js_trunc :: "real \<Rightarrow> int" where
  "js_trunc x = (if x < 0 then \<lceil>x\<rceil> else \<lfloor>x\<rfloor>)"

fun daily_series ::
  "(string \<times> PnlTotals) list \<Rightarrow> real \<Rightarrow> iso \<Rightarrow> real list \<Rightarrow> js_error + PnlSeriesPoint list" where
  "daily_series perDay feeRate now [] = Inr []"
| "daily_series perDay feeRate now (i # is) =
     (case now of
        None \<Rightarrow> Inl (RangeError ''Invalid time value'')
      | Some n \<Rightarrow>
          (case day_key (js_trunc (of_int (n div ms_per_day * ms_per_day) - i * of_int ms_per_day)) of
             Inl ex \<Rightarrow> Inl ex
           | Inr dk \<Rightarrow>
               (case daily_series perDay feeRate now is of
                  Inl ex \<Rightarrow> Inl ex
                | Inr rest \<Rightarrow>
                    (let t = withFee (coalesce (map_of perDay dk) emptyTotals) feeRate in
                     Inr (\<lparr>ps_date = dk, ps_recoveredMinor = pt_recoveredMinor t, ps_feeMinor = pt_feeMinor t\<rparr> # rest)))))"

definition processor_rows ::
  "(string \<Rightarrow> iso) \<Rightarrow> LedgerEntry list \<Rightarrow> iso \<Rightarrow> real \<Rightarrow> string \<Rightarrow> ProcessorPnl list" where
  "processor_rows parse entries now feeRate cur =
     sort_key (\<lambda>p. - pt_feeMinor (pp_totals p))
       (map (\<lambda>(p, es). processorPnl parse p es now feeRate cur) (group_by processor_of entries))"

definition computePnl :: "(string \<Rightarrow> iso) \<Rightarrow> LedgerEntry list \<Rightarrow> PnlOptions \<Rightarrow> js_error + PnlReport" where
  "computePnl parse entries opts =
     (let feeRate = coalesce (po_feeRate opts) 0.12;
          now = parse (po_nowIso opts);
          seriesDays = coalesce (po_seriesDays opts) 30;
          cur = report_currency (po_currency opts) entries;
          processors = processor_rows parse entries now feeRate cur;
          cumulative = processorPnl parse ''all'' entries now feeRate cur
      in case fill_days parse cur [] entries of
           Inl ex \<Rightarrow> Inl ex
         | Inr perDay \<Rightarrow>
             (case daily_series perDay feeRate now (series_offsets seriesDays) of
                Inl ex \<Rightarrow> Inl ex
              | Inr series \<Rightarrow>
                  Inr \<lparr>pr_generatedAt = po_nowIso opts, pr_currency = cur,
                       pr_feeRatePct = js_round (feeRate * 100), pr_cumulative = cumulative,
                       pr_processors = processors, pr_dailySeries = series\<rparr>))"

subsection \<open>Totals are sums over the entries\<close>

definition flow :: "string \<Rightarrow> LedgerEventType \<Rightarrow> LedgerEntry \<Rightarrow> int" where
  "flow cur ty e = (if le_type e = ty \<and> in_currency cur e then pnl_num (field e ''amount'') else 0)"

definition flow_count :: "string \<Rightarrow> LedgerEventType \<Rightarrow> LedgerEntry \<Rightarrow> int" where
  "flow_count cur ty e = (if le_type e = ty \<and> in_currency cur e then 1 else 0)"

definition type_count :: "LedgerEventType set \<Rightarrow> LedgerEntry \<Rightarrow> int" where
  "type_count tys e = (if le_type e \<in> tys then 1 else 0)"

text \<open>What one entry contributes to the net.\<close>

definition net_flow :: "string \<Rightarrow> LedgerEntry \<Rightarrow> int" where
  "net_flow cur e = flow cur CaseRecovered e - flow cur CaseReversed e + flow cur CaseReversalReverted e"

definition net_of :: "PnlTotals \<Rightarrow> int" where
  "net_of t = pt_grossRecoveredMinor t - pt_reversedMinor t + pt_reinstatedMinor t"

lemma accumulate_fields:
  "pt_grossRecoveredMinor (accumulate cur t e) = pt_grossRecoveredMinor t + flow cur CaseRecovered e"
  "pt_reversedMinor (accumulate cur t e) = pt_reversedMinor t + flow cur CaseReversed e"
  "pt_reinstatedMinor (accumulate cur t e) = pt_reinstatedMinor t + flow cur CaseReversalReverted e"
  "pt_recoveries (accumulate cur t e) = pt_recoveries t + flow_count cur CaseRecovered e"
  "pt_reversals (accumulate cur t e) = pt_reversals t + flow_count cur CaseReversed e"
  "pt_reinstatements (accumulate cur t e) = pt_reinstatements t + flow_count cur CaseReversalReverted e"
  "pt_attempts (accumulate cur t e) = pt_attempts t + type_count {ChargeSucceeded, ChargeFailed} e"
  "pt_comms (accumulate cur t e) = pt_comms t + type_count {CommsSent} e"
  by (cases "le_type e"; simp add: accumulate_def flow_def flow_count_def type_count_def)+

lemma tally_fields:
  "pt_grossRecoveredMinor (foldl (accumulate cur) t es) = pt_grossRecoveredMinor t + sum_list (map (flow cur CaseRecovered) es)"
  "pt_reversedMinor (foldl (accumulate cur) t es) = pt_reversedMinor t + sum_list (map (flow cur CaseReversed) es)"
  "pt_reinstatedMinor (foldl (accumulate cur) t es) =
     pt_reinstatedMinor t + sum_list (map (flow cur CaseReversalReverted) es)"
  "pt_recoveries (foldl (accumulate cur) t es) = pt_recoveries t + sum_list (map (flow_count cur CaseRecovered) es)"
  "pt_reversals (foldl (accumulate cur) t es) = pt_reversals t + sum_list (map (flow_count cur CaseReversed) es)"
  "pt_reinstatements (foldl (accumulate cur) t es) =
     pt_reinstatements t + sum_list (map (flow_count cur CaseReversalReverted) es)"
  "pt_attempts (foldl (accumulate cur) t es) =
     pt_attempts t + sum_list (map (type_count {ChargeSucceeded, ChargeFailed}) es)"
  "pt_comms (foldl (accumulate cur) t es) = pt_comms t + sum_list (map (type_count {CommsSent}) es)"
  by (induction es arbitrary: t) (simp_all add: accumulate_fields)

lemma withFee_fields [simp]:
  "pt_recoveredMinor (withFee t r) = net_of t"
  "pt_feeMinor (withFee t r) = js_round (of_int (net_of t) * r)"
  "pt_clawbackMinor (withFee t r) = js_round (of_int (pt_reversedMinor t - pt_reinstatedMinor t) * r)"
  "pt_grossRecoveredMinor (withFee t r) = pt_grossRecoveredMinor t"
  "pt_reversedMinor (withFee t r) = pt_reversedMinor t"
  "pt_reinstatedMinor (withFee t r) = pt_reinstatedMinor t"
  "pt_recoveries (withFee t r) = pt_recoveries t"
  "pt_reversals (withFee t r) = pt_reversals t"
  "pt_reinstatements (withFee t r) = pt_reinstatements t"
  "pt_attempts (withFee t r) = pt_attempts t"
  "pt_comms (withFee t r) = pt_comms t"
  by (simp_all add: withFee_def net_of_def Let_def)

lemma emptyTotals_fields [simp]:
  "pt_grossRecoveredMinor emptyTotals = 0" "pt_reversedMinor emptyTotals = 0" "pt_reinstatedMinor emptyTotals = 0"
  "pt_recoveries emptyTotals = 0" "pt_reversals emptyTotals = 0" "pt_reinstatements emptyTotals = 0"
  "pt_attempts emptyTotals = 0" "pt_comms emptyTotals = 0"
  by (simp_all add: emptyTotals_def)

lemma net_of_fold: "net_of (foldl (accumulate cur) t es) = net_of t + sum_list (map (net_flow cur) es)"
  by (induction es arbitrary: t) (simp_all add: net_of_def net_flow_def accumulate_fields)

lemma net_tally: "net_of (tally cur es) = sum_list (map (net_flow cur) es)"
  by (simp add: tally_def net_of_fold) (simp add: net_of_def)

lemmas tally_sums = tally_fields [of cur emptyTotals for cur, folded tally_def, simplified]

subsection \<open>The rows of the processors\<close>

lemma rows_totals:
  "mset (map (\<lambda>p. (pp_processor p, pp_totals p)) (processor_rows parse es now r cur)) =
     mset (map (\<lambda>k. (k, withFee (tally cur (with_key processor_of es k)) r)) (first_keys (map processor_of es)))"
  by (simp add: processor_rows_def group_by_eq processorPnl_def Let_def comp_def image_mset.compositionality)

text \<open>A figure that is a sum over the entries adds up over the processors.\<close>

lemma rows_add_up:
  assumes "\<And>es. sel (withFee (tally cur es) r) = sum_list (map g es)"
  shows "sum_list (map (\<lambda>p. sel (pp_totals p)) (processor_rows parse es now r cur)) =
     (sel (pp_totals (processorPnl parse ''all'' es now r cur)) :: int)"
proof -
  have "mset (map (sel \<circ> snd) (map (\<lambda>p. (pp_processor p, pp_totals p)) (processor_rows parse es now r cur))) =
      mset (map (sel \<circ> snd) (map (\<lambda>k. (k, withFee (tally cur (with_key processor_of es k)) r)) (first_keys (map processor_of es))))"
    unfolding mset_map rows_totals [unfolded mset_map] ..
  then have "sum_list (map (\<lambda>p. sel (pp_totals p)) (processor_rows parse es now r cur)) =
      sum_list (map (\<lambda>k. sel (withFee (tally cur (with_key processor_of es k)) r)) (first_keys (map processor_of es)))"
    by (intro sum_list_mset_cong) (simp add: comp_def)
  also have "\<dots> = sum_list (map g es)"
    unfolding assms by (rule sum_list_groups)
  also have "\<dots> = sel (pp_totals (processorPnl parse ''all'' es now r cur))"
    by (simp add: processorPnl_def Let_def assms)
  finally show ?thesis .
qed

text \<open>Fees are rounded per row, so their sum is off by at most half a unit per row and half for the total.\<close>

lemma rows_fee_close:
  "\<bar>of_int (sum_list (map (\<lambda>p. pt_feeMinor (pp_totals p)) ps)) -
    r * of_int (sum_list (map (\<lambda>p. pt_recoveredMinor (pp_totals p)) ps))\<bar> \<le> of_nat (length ps) / (2 :: real)"
  if "\<forall>p\<in>set ps. pt_feeMinor (pp_totals p) = js_round (of_int (pt_recoveredMinor (pp_totals p)) * r)"
  using that
proof (induction ps)
  case (Cons p ps)
  have add: "\<bar>a + c - (b + d)\<bar> \<le> (n + 1) / 2" if "\<bar>a - b\<bar> \<le> 1 / 2" "\<bar>c - d\<bar> \<le> n / 2" for a b c d n :: real
    using abs_triangle_ineq [of "a - b" "c - d"] that by (simp add: algebra_simps)
  have 1: "\<bar>of_int (pt_feeMinor (pp_totals p)) - r * of_int (pt_recoveredMinor (pp_totals p))\<bar> \<le> 1 / 2"
    using Cons.prems js_round_error by (simp add: mult.commute)
  have 2: "\<bar>of_int (sum_list (map (\<lambda>p. pt_feeMinor (pp_totals p)) ps)) -
      r * of_int (sum_list (map (\<lambda>p. pt_recoveredMinor (pp_totals p)) ps))\<bar> \<le> of_nat (length ps) / (2 :: real)"
    using Cons by simp
  from add [OF 1 2] show ?case by (simp add: distrib_left add.commute)
qed simp

lemma processorPnl_fee:
  "pt_feeMinor (pp_totals (processorPnl parse p es now r cur)) =
     js_round (of_int (pt_recoveredMinor (pp_totals (processorPnl parse p es now r cur))) * r)"
  by (simp add: processorPnl_def Let_def)

lemma rows_members:
  "p \<in> set (processor_rows parse es now r cur) \<Longrightarrow> \<exists>k es'. p = processorPnl parse k es' now r cur"
  by (auto simp: processor_rows_def)

subsection \<open>The windows split the entries\<close>

definition dated :: "(string \<Rightarrow> iso) \<Rightarrow> (int \<Rightarrow> bool) \<Rightarrow> LedgerEntry \<Rightarrow> bool" where
  "dated parse P e \<longleftrightarrow> (case parse (le_occurredAt e) of None \<Rightarrow> False | Some t \<Rightarrow> P t)"

lemma windows_disjoint: "in_current now d t \<Longrightarrow> 0 \<le> d \<Longrightarrow> \<not> in_previous now d t"
  by (auto simp: in_current_def in_previous_def split: option.splits)

lemma window_fold:
  assumes "0 \<le> d"
  shows "foldl (window_step parse now d cur) (a, b) es =
     (foldl (accumulate cur) a (filter (dated parse (in_current now d)) es),
      foldl (accumulate cur) b (filter (dated parse (in_previous now d)) es))"
proof (induction es arbitrary: a b)
  case (Cons e es)
  show ?case
  proof (cases "parse (le_occurredAt e)")
    case (Some t)
    with Cons windows_disjoint [OF _ assms, of now t] show ?thesis
      by (auto simp: window_step_def dated_def)
  next
    case None
    then have "window_step parse now d cur (a, b) e = (a, b)" "\<not> dated parse P e" for P
      by (simp_all add: window_step_def dated_def)
    with Cons show ?thesis by simp
  qed
qed simp

lemma period_delta_windows:
  assumes "0 \<le> d"
  shows "pd_current (period_delta parse es now r cur d) = withFee (tally cur (filter (dated parse (in_current now d)) es)) r"
    and "pd_previous (period_delta parse es now r cur d) = withFee (tally cur (filter (dated parse (in_previous now d)) es)) r"
  by (simp_all add: period_delta_def Let_def window_fold [OF assms] tally_def)

lemma sum_filter_split:
  assumes "\<And>x. Q x \<longleftrightarrow> P x \<or> R x" "\<And>x. \<not> (P x \<and> R x)"
  shows "sum_list (map g (filter P xs)) + sum_list (map g (filter R xs)) = (sum_list (map g (filter Q xs)) :: int)"
  using assms by (induction xs) (auto simp: ac_simps)

text \<open>The two halves of a window together are the entries of the span of twice its length.\<close>

lemma window_nets:
  assumes "0 \<le> d"
  shows "pt_recoveredMinor (pd_current (period_delta parse es (Some n) r cur d)) +
         pt_recoveredMinor (pd_previous (period_delta parse es (Some n) r cur d)) =
     sum_list (map (net_flow cur) (filter (dated parse (\<lambda>t. n - 2 * (d * ms_per_day) \<le> t \<and> t \<le> n)) es))"
proof -
  have "0 \<le> d * ms_per_day" using assms by simp
  then have "sum_list (map (net_flow cur) (filter (dated parse (in_current (Some n) d)) es)) +
      sum_list (map (net_flow cur) (filter (dated parse (in_previous (Some n) d)) es)) =
      sum_list (map (net_flow cur) (filter (dated parse (\<lambda>t. n - 2 * (d * ms_per_day) \<le> t \<and> t \<le> n)) es))"
    by (intro sum_filter_split) (auto simp: dated_def in_current_def in_previous_def split: option.splits)
  then show ?thesis by (simp add: period_delta_windows [OF assms] net_tally)
qed

subsection \<open>The series of days\<close>

lemma day_from_year_mono: "y \<le> z \<Longrightarrow> day_from_year y \<le> day_from_year z"
proof (induction "nat (z - y)" arbitrary: z)
  case (Suc n)
  then have "day_from_year y \<le> day_from_year (z - 1)" by simp
  then show ?case using day_from_year_step [of "z - 1"] by (simp split: if_splits)
qed simp

lemma year_from_day_mono:
  assumes "d \<le> d'"
  shows "year_from_day d \<le> year_from_day d'"
proof (rule ccontr)
  assume "\<not> year_from_day d \<le> year_from_day d'"
  then have "day_from_year (year_from_day d' + 1) \<le> day_from_year (year_from_day d)"
    by (intro day_from_year_mono) simp
  with year_from_day_bounds [of d] year_from_day_bounds [of d'] assms show False by simp
qed

lemma year_four_digits:
  assumes "0 \<le> d" "d \<le> 2932896"
  shows "0 \<le> year_from_day d" "year_from_day d \<le> 9999"
proof -
  have "year_from_day 0 = 1970" "year_from_day 2932896 = 9999" by code_simp+
  with year_from_day_mono [OF assms(1)] year_from_day_mono [OF assms(2)]
  show "0 \<le> year_from_day d" "year_from_day d \<le> 9999" by simp_all
qed

lemma iso_date_text_day: "day_of a = day_of b \<Longrightarrow> iso_date_text a = iso_date_text b"
  by (simp add: iso_date_text_def utc_year_def utc_month_def utc_date_def day_in_year_def)

lemma day_from_parts:
  assumes "utc_year a = utc_year b" "utc_month a = utc_month b" "utc_date a = utc_date b"
  shows "day_of a = day_of b"
  using assms by (simp add: utc_date_def day_in_year_def)

lemma length_show_nat: "n < 10 ^ Suc k \<Longrightarrow> length (show_nat n) \<le> Suc k"
proof (induction k arbitrary: n)
  case 0
  then show ?case by (simp add: show_nat.simps)
next
  case (Suc k)
  have "length (show_nat (n div 10)) \<le> Suc k"
    using Suc.prems by (intro Suc.IH) (simp add: less_mult_imp_div_less mult.commute)
  then show ?case by (subst show_nat.simps) simp
qed

lemma length_pad_year: "0 \<le> y \<Longrightarrow> y \<le> 9999 \<Longrightarrow> length (pad_year y) = 4"
  using length_show_nat [of "nat y" 3] by (simp add: pad_year_def show_int_def Let_def)

lemma length_pad2: "0 \<le> n \<Longrightarrow> n < 100 \<Longrightarrow> length (pad2 n) = 2"
proof -
  have one: "length (show_nat k) = 1" if "k < 10" for k using that by (simp add: show_nat.simps)
  assume "0 \<le> n" "n < 100"
  then have "length (show_nat (nat n)) = (if n < 10 then 1 else 2)"
    by (subst show_nat.simps) (simp add: one nat_less_iff less_mult_imp_div_less)
  then show ?thesis using \<open>0 \<le> n\<close> by (simp add: pad2_def show_int_def)
qed

lemma digits_value_zeros: "digits_value (replicate k (CHR ''0'') @ s) = digits_value s"
  by (induction k) (simp_all add: digits_value_def)

lemma pad_year_inject:
  assumes "pad_year y = pad_year z" "0 \<le> y" "y \<le> 9999" "0 \<le> z" "z \<le> 9999"
  shows "y = z"
proof -
  have "digits_value (pad_year y) = nat y" if "0 \<le> y" "y \<le> 9999" for y
    using that by (simp add: pad_year_def Let_def digits_value_zeros show_int_def)
  with assms show ?thesis by (metis eq_nat_nat_iff)
qed

lemma pad2_inject:
  assumes "pad2 m = pad2 n" "0 \<le> m" "0 \<le> n"
  shows "m = n"
proof -
  have "digits_value (pad2 n) = nat n" if "0 \<le> n" for n
    using that digits_value_zeros [of 1] by (simp add: pad2_def show_int_def)
  with assms show ?thesis by (metis eq_nat_nat_iff)
qed

lemma utc_date_range: "1 \<le> utc_date ms" "utc_date ms < 100"
  using utc_date_pos [of ms] utc_month_bounds [of ms] utc_month_range [of ms]
  by (auto simp: utc_date_def month_start_def Let_def split: if_splits)

lemma iso_date_text_parts:
  assumes "0 \<le> day_of a" "day_of a \<le> 2932896"
  shows "length (pad_year (utc_year a)) = 4" "length (pad2 (utc_month a + 1)) = 2" "length (pad2 (utc_date a)) = 2"
    "take 10 (iso_date_text a) = iso_date_text a"
proof -
  show y: "length (pad_year (utc_year a)) = 4"
    using year_four_digits [OF assms] by (intro length_pad_year) (simp_all add: utc_year_def)
  show m: "length (pad2 (utc_month a + 1)) = 2"
    using utc_month_range [of a] by (intro length_pad2) simp_all
  show d: "length (pad2 (utc_date a)) = 2"
    using utc_date_range [of a] by (intro length_pad2) simp_all
  show "take 10 (iso_date_text a) = iso_date_text a"
    by (rule take_all) (simp add: iso_date_text_def y m d)
qed

text \<open>The key of a day names the day, in the years of four digits.\<close>

lemma day_text_inject:
  assumes "take 10 (iso_date_text a) = take 10 (iso_date_text b)"
    and a: "0 \<le> day_of a" "day_of a \<le> 2932896" and b: "0 \<le> day_of b" "day_of b \<le> 2932896"
  shows "day_of a = day_of b"
proof (rule day_from_parts)
  note pa = iso_date_text_parts [OF a] and pb = iso_date_text_parts [OF b]
  have "iso_date_text a = iso_date_text b" using assms(1) unfolding pa(4) pb(4) .
  then have "pad_year (utc_year a) = pad_year (utc_year b)"
      "pad2 (utc_month a + 1) = pad2 (utc_month b + 1)" "pad2 (utc_date a) = pad2 (utc_date b)"
    using pa(1-3) pb(1-3) unfolding iso_date_text_def by (simp_all add: append_eq_append_conv)
  then show "utc_year a = utc_year b" "utc_month a = utc_month b" "utc_date a = utc_date b"
    using year_four_digits [OF a] year_four_digits [OF b] utc_month_range [of a] utc_month_range [of b]
      utc_date_range [of a] utc_date_range [of b]
    by (auto simp: utc_year_def dest!: pad_year_inject pad2_inject)
qed

definition day_text :: "(string \<Rightarrow> iso) \<Rightarrow> LedgerEntry \<Rightarrow> string" where
  "day_text parse e = take 10 (iso_date_text (coalesce (parse (le_occurredAt e)) 0))"

definition dated_money :: "(string \<Rightarrow> iso) \<Rightarrow> LedgerEntry \<Rightarrow> bool" where
  "dated_money parse e \<longleftrightarrow> money_event e \<and> parse (le_occurredAt e) \<noteq> None"

lemma fill_days_collect:
  "fill_days parse cur m es = Inr perDay \<Longrightarrow>
   perDay = foldl (collect_step (day_text parse) (\<lambda>e t. accumulate cur t e) emptyTotals) m (filter (dated_money parse) es)"
proof (induction es arbitrary: m)
  case (Cons e es)
  then show ?case
    by (auto simp: dated_money_def collect_step_def day_text_def day_key_def split: if_splits option.splits sum.splits)
qed simp

lemma fill_days_entry:
  assumes "fill_days parse cur [] es = Inr perDay"
  shows "coalesce (map_of perDay k) emptyTotals = tally cur (with_key (day_text parse) (filter (dated_money parse) es) k)"
proof (cases "k \<in> day_text parse ` set (filter (dated_money parse) es)")
  case True
  then show ?thesis
    using fill_days_collect [OF assms] by (simp add: collect_def [symmetric] map_of_collect tally_def)
next
  case False
  then have "with_key (day_text parse) (filter (dated_money parse) es) k = []"
    by (auto simp: with_key_def filter_empty_conv)
  with False show ?thesis
    using fill_days_collect [OF assms] by (simp add: collect_def [symmetric] map_of_collect tally_def)
qed

text \<open>Whole numbers of days.\<close>

definition day_ms :: "int \<Rightarrow> int" where
  "day_ms d = d * ms_per_day"

lemma day_of_day_ms [simp]: "day_of (day_ms d) = d"
  by (simp add: day_of_def day_ms_def)

lemma series_offsets_int: "series_offsets (of_nat n) = map (\<lambda>k. of_int (int n - 1 - int k)) [0..<n]"
  by (simp add: series_offsets_def)

lemma js_trunc_int [simp]: "js_trunc (of_int x) = x"
  by (simp add: js_trunc_def)

lemma daily_series_nets:
  assumes "daily_series perDay r (Some n) (map of_int is) = Inr series"
  shows "map ps_recoveredMinor series =
     map (\<lambda>i. net_of (coalesce (map_of perDay (take 10 (iso_date_text (day_ms (day_of n - i))))) emptyTotals)) is"
  using assms
proof (induction "is" arbitrary: series)
  case (Cons i "is")
  have t: "js_trunc (of_int (n div ms_per_day * ms_per_day) - of_int i * of_int ms_per_day) = day_ms (day_of n - i)"
  proof -
    have "of_int (n div ms_per_day * ms_per_day) - of_int i * of_int ms_per_day =
        (of_int (day_ms (day_of n - i)) :: real)"
      by (simp add: day_ms_def day_of_def algebra_simps)
    then show ?thesis by (simp only: js_trunc_int)
  qed
  show ?case
    using Cons unfolding list.map daily_series.simps option.case t
    by (auto simp: day_key_def Let_def split: sum.splits)
qed simp

lemma series_total:
  assumes fill: "fill_days parse cur [] es = Inr perDay"
    and series: "daily_series perDay r (Some n) (series_offsets (of_nat m)) = Inr series"
    and range: "int m \<le> day_of n + 1" "day_of n \<le> 2932896"
    and recent: "\<And>e. e \<in> set es \<Longrightarrow> money_event e \<Longrightarrow>
       \<exists>t. parse (le_occurredAt e) = Some t \<and> day_of n - int m < day_of t \<and> day_of t \<le> day_of n"
  shows "sum_list (map ps_recoveredMinor series) = sum_list (map (net_flow cur) es)"
proof -
  define dk where "dk = (\<lambda>d. take 10 (iso_date_text (day_ms d)))"
  define days where "days = map (\<lambda>k. day_of n - (int m - 1 - int k)) [0..<m]"
  define xs where "xs = filter (dated_money parse) es"
  have days: "d \<in> set days \<longleftrightarrow> day_of n - int m < d \<and> d \<le> day_of n" for d
  proof
    assume "day_of n - int m < d \<and> d \<le> day_of n"
    then show "d \<in> set days"
      unfolding days_def set_map by (intro image_eqI [where x = "nat (d - day_of n + int m - 1)"]) (simp_all add: nat_less_iff)
  qed (auto simp: days_def)
  have "distinct days" by (simp add: days_def distinct_map inj_on_def)
  moreover have inj: "inj_on dk {0..2932896}"
    by (rule inj_onI) (auto simp: dk_def dest: day_text_inject)
  moreover have sub: "set days \<subseteq> {0..2932896}" using range by (auto simp: days)
  ultimately have dist: "distinct (map dk days)" by (simp add: distinct_map inj_on_subset)
  have "map ps_recoveredMinor series = map (\<lambda>d. sum_list (map (net_flow cur) (with_key (day_text parse) xs (dk d)))) days"
    using daily_series_nets [of perDay r n "map (\<lambda>k. int m - 1 - int k) [0..<m]" series] series
    by (simp add: series_offsets_int comp_def fill_days_entry [OF fill] net_tally dk_def days_def xs_def)
  then have "sum_list (map ps_recoveredMinor series) =
      sum_list (map (net_flow cur) (filter (\<lambda>e. day_text parse e \<in> set (map dk days)) xs))"
    using sum_list_keys [OF dist, where key = "day_text parse" and xs = xs and g = "net_flow cur"] by (simp add: comp_def)
  also have "filter (\<lambda>e. day_text parse e \<in> set (map dk days)) xs = xs"
  proof (rule filter_True, rule ballI)
    fix e assume "e \<in> set xs"
    then obtain t where t: "parse (le_occurredAt e) = Some t" "day_of t \<in> set days"
      using recent by (auto simp: xs_def dated_money_def days)
    have "day_text parse e = dk (day_of t)"
      using iso_date_text_day [of t "day_ms (day_of t)"] by (simp add: day_text_def t(1) dk_def)
    with t(2) show "day_text parse e \<in> set (map dk days)" by simp
  qed
  also have "sum_list (map (net_flow cur) xs) = sum_list (map (net_flow cur) es)"
  proof -
    have "net_flow cur e = 0" if "e \<in> set es" "\<not> dated_money parse e" for e
      using that recent [of e] by (auto simp: dated_money_def money_event_def net_flow_def flow_def)
    then show ?thesis unfolding xs_def by (induction es) auto
  qed
  finally show ?thesis .
qed

end
