(* ===== verification/BinCsv.thy ===== *)
theory BinCsv
  imports FeatureStore DeclineMaps Csv
begin

text \<open>
  The import of a licensed BIN table, \<open>packages/recovery-engine/src/bin-csv.ts\<close>: the reader of CSV
  text as a machine over its characters, the detection of the columns, the normalization of the
  values, and the ranges the feature store is built from. The reader is proved to read back what
  the CSV writer of \<open>packages/attribution\<close> (theory \<open>Csv\<close>) writes.

  Texts are UTF-8; case conversion is ASCII; a table of the source is read at its own keys.
\<close>

subsection \<open>The reader\<close>

definition byte_order_mark :: string where
  "byte_order_mark = [char_of (239::nat), char_of (187::nat), char_of (191::nat)]"

definition strip_bom :: "string \<Rightarrow> string" where
  "strip_bom s = (if prefix byte_order_mark s then drop (length byte_order_mark) s else s)"

fun scan_csv :: "string \<Rightarrow> bool \<Rightarrow> string \<Rightarrow> string list \<Rightarrow> string list list \<Rightarrow> string \<Rightarrow> string list list" where
  "scan_csv delimiter inQuotes fld row rows [] =
     (if fld \<noteq> [] \<or> row \<noteq> [] then rows @ [row @ [fld]] else rows)"
| "scan_csv delimiter inQuotes fld row rows (ch # s) =
     (if inQuotes then
        if ch = dquote then
          (case s of
             c # s' \<Rightarrow> if c = dquote then scan_csv delimiter True (fld @ [dquote]) row rows s'
                       else scan_csv delimiter False fld row rows s
           | [] \<Rightarrow> scan_csv delimiter False fld row rows s)
        else scan_csv delimiter True (fld @ [ch]) row rows s
      else if ch = dquote then scan_csv delimiter True fld row rows s
      else if [ch] = delimiter then scan_csv delimiter False [] (row @ [fld]) rows s
      else if ch = CHR 0x0A then scan_csv delimiter False [] [] (rows @ [row @ [fld]]) s
      else if ch = CHR 0x0D then scan_csv delimiter False fld row rows s
      else scan_csv delimiter False (fld @ [ch]) row rows s)"

definition parseCsv :: "string \<Rightarrow> string option \<Rightarrow> string list list" where
  "parseCsv s delimiter = scan_csv (coalesce delimiter '','') False [] [] [] (strip_bom s)"

subsection \<open>Normalization\<close>

definition BRANDS :: "(string \<times> string) list" where
  "BRANDS =
     [(''visa'', ''visa''), (''visa electron'', ''visa''),
      (''mastercard'', ''mastercard''), (''master'', ''mastercard''), (''mc'', ''mastercard''),
      (''maestro'', ''mastercard''), (''amex'', ''amex''), (''american express'', ''amex''),
      (''discover'', ''discover''), (''jcb'', ''jcb''),
      (''unionpay'', ''unionpay''), (''china unionpay'', ''unionpay''), (''cup'', ''unionpay''),
      (''diners'', ''diners''), (''diners club'', ''diners''), (''diners club international'', ''diners'')]"

definition normalizeBrand :: "string \<Rightarrow> string option" where
  "normalizeBrand v = (let k = to_lower (trim v) in if k = [] then None else Some (coalesce (map_of BRANDS k) k))"

definition normalizeCardType :: "string \<Rightarrow> CardProductType option" where
  "normalizeCardType v =
     (let k = to_lower (trim v) in
      if str_includes k ''prepaid'' then Some CardPrepaid
      else if str_includes k ''debit'' then Some CardDebit
      else if str_includes k ''credit'' \<or> str_includes k ''charge'' then Some CardCredit
      else None)"

definition COUNTRY_REGION :: "(string \<times> IssuerRegion) list" where
  "COUNTRY_REGION =
     map (\<lambda>c. (c, RegionNa)) [''US'', ''CA''] @
     map (\<lambda>c. (c, RegionEmea))
       [''GB'', ''IE'', ''DE'', ''FR'', ''ES'', ''IT'', ''NL'', ''BE'',
        ''SE'', ''NO'', ''DK'', ''FI'', ''PL'', ''PT'', ''CH'', ''AT'',
        ''RU'', ''TR'', ''ZA'', ''AE'', ''SA'', ''IL'', ''GR'', ''CZ'', ''RO''] @
     map (\<lambda>c. (c, RegionLatam)) [''BR'', ''MX'', ''AR'', ''CL'', ''CO'', ''PE'', ''UY'', ''EC''] @
     map (\<lambda>c. (c, RegionApac))
       [''CN'', ''JP'', ''IN'', ''AU'', ''NZ'', ''KR'', ''SG'', ''HK'',
        ''TW'', ''TH'', ''MY'', ''ID'', ''PH'', ''VN'']"

definition regionFromCountry :: "string option \<Rightarrow> IssuerRegion" where
  "regionFromCountry country =
     (case country of
        None \<Rightarrow> RegionUnknown
      | Some c \<Rightarrow> if c = [] then RegionUnknown
                  else coalesce (map_of COUNTRY_REGION (to_upper (trim c))) RegionUnknown)"

definition normalizeRegion :: "string \<Rightarrow> IssuerRegion option" where
  "normalizeRegion v =
     map_of [(''na'', RegionNa), (''emea'', RegionEmea), (''latam'', RegionLatam), (''apac'', RegionApac),
             (''unknown'', RegionUnknown)] (to_lower (trim v))"

subsection \<open>The columns\<close>

datatype BinCsvField = ColPrefix | ColRegion | ColIssuerId | ColCountry | ColBrand | ColCardType

fun ALIASES :: "BinCsvField \<Rightarrow> string list" where
  "ALIASES ColPrefix =
     [''bin'', ''iin'', ''prefix'', ''bin_number'', ''binnumber'', ''card_bin'', ''bin_range'', ''number'']"
| "ALIASES ColBrand = [''brand'', ''scheme'', ''network'', ''card_scheme'', ''card_brand'', ''cardbrand'']"
| "ALIASES ColCardType = [''type'', ''card_type'', ''cardtype'', ''product_type'', ''producttype'', ''product'']"
| "ALIASES ColCountry =
     [''country'', ''country_code'', ''countrycode'', ''iso_country'', ''country_iso'', ''issuer_country'', ''alpha2'']"
| "ALIASES ColIssuerId =
     [''issuer'', ''issuer_name'', ''issuer_id'', ''issuerid'', ''bank'', ''bank_name'', ''institution'']"
| "ALIASES ColRegion = [''region'', ''issuer_region'']"

record BinCsvOptions =
  bo_columns :: "BinCsvField \<Rightarrow> string option"
  bo_delimiter :: "string option"
  bo_deriveRegionFromCountry :: "bool option"

definition lower_alnum :: "char \<Rightarrow> bool" where
  "lower_alnum c \<longleftrightarrow> is_digit c \<or> (97 \<le> code_of c \<and> code_of c \<le> 122)"

definition canon :: "string \<Rightarrow> string" where
  "canon h = filter lower_alnum (to_lower (trim h))"

fun index_of :: "'a \<Rightarrow> 'a list \<Rightarrow> nat option" where
  "index_of x [] = None"
| "index_of x (y # ys) = (if y = x then Some 0 else map_option Suc (index_of x ys))"

fun first_alias :: "string list \<Rightarrow> string list \<Rightarrow> nat option" where
  "first_alias [] canonHeader = None"
| "first_alias (a # as) canonHeader =
     (case index_of (canon a) canonHeader of Some i \<Rightarrow> Some i | None \<Rightarrow> first_alias as canonHeader)"

definition resolveColumn :: "BinCsvField \<Rightarrow> string list \<Rightarrow> string option \<Rightarrow> nat option" where
  "resolveColumn col header override =
     (let canonHeader = map canon header in
      case override of
        Some h \<Rightarrow> if h \<noteq> [] then index_of (canon h) canonHeader else first_alias (ALIASES col) canonHeader
      | None \<Rightarrow> first_alias (ALIASES col) canonHeader)"

lemma strip_bom_first: "strip_bom (CHR ''i'' # s) = CHR ''i'' # s"
proof -
  have "CHR ''i'' \<noteq> char_of (239 :: nat)" by code_simp
  then show ?thesis by (simp add: strip_bom_def byte_order_mark_def)
qed

subsection \<open>The ranges\<close>

definition at_column :: "string list \<Rightarrow> nat option \<Rightarrow> string option" where
  "at_column row i = (case i of None \<Rightarrow> None | Some j \<Rightarrow> if j < length row then Some (trim (row ! j)) else None)"

definition nonempty :: "string option \<Rightarrow> string option" where
  "nonempty v = (if v = Some [] then None else v)"

definition range_of_row :: "(BinCsvField \<Rightarrow> nat option) \<Rightarrow> bool \<Rightarrow> string list \<Rightarrow> BinRange option" where
  "range_of_row idx deriveRegion row =
     (let pfx = only_digits (coalesce (at_column row (idx ColPrefix)) []) in
      if pfx = [] then None
      else
        (let country = nonempty (at_column row (idx ColCountry));
             region = coalesce (Option.bind (nonempty (at_column row (idx ColRegion))) normalizeRegion)
                        (if deriveRegion then regionFromCountry country else RegionUnknown)
         in Some \<lparr>bin_region = region,
                  bin_issuerId = nonempty (at_column row (idx ColIssuerId)),
                  bin_country = map_option to_upper country,
                  bin_brand = nonempty (Option.bind (nonempty (at_column row (idx ColBrand))) normalizeBrand),
                  bin_cardType = Option.bind (nonempty (at_column row (idx ColCardType))) normalizeCardType,
                  bin_prefix = pfx\<rparr>))"

definition no_prefix_error :: "string list \<Rightarrow> js_error" where
  "no_prefix_error header =
     JsError (''parseBinCsv: no prefix/BIN column found in header ['' @ join '', '' header @ '']'' @
              ''. Pass options.columns.prefix.'')"

definition parseBinCsv :: "string \<Rightarrow> BinCsvOptions \<Rightarrow> js_error + BinRange list" where
  "parseBinCsv s options =
     (case parseCsv s (bo_delimiter options) of
        [] \<Rightarrow> Inr []
      | [header] \<Rightarrow> Inr []
      | header # row # rows \<Rightarrow>
          (let idx = (\<lambda>col. resolveColumn col header (bo_columns options col));
               deriveRegion = coalesce (bo_deriveRegionFromCountry options) True
           in if idx ColPrefix = None then Inl (no_prefix_error header)
              else Inr (List.map_filter (range_of_row idx deriveRegion) (row # rows))))"

subsection \<open>The reader reads back what the writer writes\<close>

definition cell_text :: "string option \<Rightarrow> string" where
  "cell_text v = neutralise (coalesce v [])"

lemma scan_quoted:
  assumes "r = [] \<or> hd r \<noteq> dquote"
  shows "scan_csv d True f row rows (double_quotes s @ dquote # r) = scan_csv d False (f @ s) row rows r"
proof (induction s arbitrary: f)
  case Nil
  then show ?case using assms by (cases r) (simp_all add: double_quotes_def)
next
  case (Cons c s)
  then show ?case by (simp add: double_quotes_def)
qed

lemma scan_plain:
  assumes "\<not> list_ex needs_quotes s"
  shows "scan_csv '','' False f row rows (s @ r) = scan_csv '','' False (f @ s) row rows r"
  using assms
  by (induction s arbitrary: f) (auto simp: needs_quotes_def comma_def line_feed_def)

lemma scan_cell:
  assumes "cell_end r"
  shows "scan_csv '','' False [] row rows (csvCell v @ r) = scan_csv '','' False (cell_text v) row rows r"
proof -
  have "r = [] \<or> hd r \<noteq> dquote" using cell_end_not_quote [OF assms] by (cases r) auto
  then show ?thesis
    using scan_quoted [of r "'',''" "[]" row rows "cell_text v"] scan_plain [of "cell_text v" "[]" row rows r]
    by (simp add: csvCell_def cell_text_def Let_def)
qed

lemma scan_row:
  assumes "cells \<noteq> []" "r = [] \<or> hd r = line_feed"
  shows "scan_csv '','' False [] row rows (csvRow cells @ r) =
     scan_csv '','' False (cell_text (last cells)) (row @ map cell_text (butlast cells)) rows r"
  using assms(1)
proof (induction cells arbitrary: row rule: list_nonempty_induct)
  case (single v)
  have "cell_end r" using assms(2) by (auto simp: cell_end_def)
  from scan_cell [OF this] show ?case by (simp add: csvRow_def)
next
  case (cons v vs)
  have "csvRow (v # vs) @ r = csvCell v @ comma # csvRow vs @ r"
    using cons.hyps by (cases vs) (simp_all add: csvRow_def)
  with cons scan_cell [of "comma # csvRow vs @ r"] show ?case
    by (simp add: cell_end_def comma_def dquote_def)
qed

lemma map_butlast_last: "xs \<noteq> [] \<Longrightarrow> map f (butlast xs) @ [f (last xs)] = map f xs"
  by (metis append_butlast_last_id list.simps(8,9) map_append)

lemma scan_lines:
  assumes "rs \<noteq> []" "\<forall>r\<in>set rs. r \<noteq> []" "map cell_text (last rs) \<noteq> [[]]"
  shows "scan_csv '','' False [] [] rows (csvLines rs) = rows @ map (map cell_text) rs"
  using assms
proof (induction rs arbitrary: rows rule: list_nonempty_induct)
  case (single cells)
  then have ne: "cells \<noteq> []" by simp
  have "cell_text (last cells) \<noteq> [] \<or> butlast cells \<noteq> []"
    using single.prems(2) ne by (cases cells) (auto split: if_splits)
  then show ?case
    using scan_row [OF ne, of "[]" "[]" rows] map_butlast_last [OF ne, of cell_text] by (simp add: csvLines_def)
next
  case (cons cells rs)
  have ne: "cells \<noteq> []" using cons.prems by simp
  have "csvLines (cells # rs) = csvRow cells @ line_feed # csvLines rs"
    using cons.hyps by (cases rs) (simp_all add: csvLines_def)
  then show ?case
    using scan_row [OF ne, of "line_feed # csvLines rs" "[]" rows] map_butlast_last [OF ne, of cell_text] cons
    by (simp add: line_feed_def dquote_def)
qed

subsection \<open>The ranges\<close>

lemma only_digits_digits: "c \<in> set (only_digits s) \<Longrightarrow> is_digit c"
  by (simp add: only_digits_def is_digit_def code_of_def)

definition range_ok :: "BinRange \<Rightarrow> bool" where
  "range_ok r \<longleftrightarrow> bin_prefix r \<noteq> [] \<and> list_all is_digit (bin_prefix r) \<and>
     bin_issuerId r \<noteq> Some [] \<and> bin_country r \<noteq> Some [] \<and> bin_brand r \<noteq> Some []"

lemma nonempty_not_Nil: "nonempty v \<noteq> Some []" "map_option to_upper (nonempty v) \<noteq> Some []"
  by (auto simp: nonempty_def to_upper_def)

lemma range_of_row_ok:
  assumes "range_of_row idx d row = Some r"
  shows "range_ok r"
proof -
  have ne: "only_digits (coalesce (at_column row (idx ColPrefix)) []) \<noteq> []"
    using assms by (rule contrapos_pn) (simp add: range_of_row_def)
  have r: "bin_prefix r = only_digits (coalesce (at_column row (idx ColPrefix)) []) \<and>
      bin_issuerId r = nonempty (at_column row (idx ColIssuerId)) \<and>
      bin_country r = map_option to_upper (nonempty (at_column row (idx ColCountry))) \<and>
      bin_brand r = nonempty (Option.bind (nonempty (at_column row (idx ColBrand))) normalizeBrand)"
    using assms unfolding range_of_row_def Let_def if_not_P [OF ne] option.inject by (elim subst) simp
  show ?thesis
    unfolding range_ok_def conjunct1 [OF r] r [THEN conjunct2, THEN conjunct1]
      r [THEN conjunct2, THEN conjunct2, THEN conjunct1] r [THEN conjunct2, THEN conjunct2, THEN conjunct2]
    using ne nonempty_not_Nil by (auto simp: list_all_iff only_digits_digits simp del: map_option_eq_Some)
qed

lemma map_filter_mem: "y \<in> set (List.map_filter f xs) \<longleftrightarrow> (\<exists>x\<in>set xs. f x = Some y)"
  by (force simp: List.map_filter_def)

lemma parseBinCsv_ok: "parseBinCsv s opts = Inr rs \<Longrightarrow> r \<in> set rs \<Longrightarrow> range_ok r"
  by (auto simp: parseBinCsv_def Let_def map_filter_mem range_of_row_ok split: list.splits if_splits option.splits)

lemma parseBinCsv_error_iff:
  "(\<exists>e. parseBinCsv s opts = Inl e) \<longleftrightarrow>
     (\<exists>header row rows. parseCsv s (bo_delimiter opts) = header # row # rows \<and>
        resolveColumn ColPrefix header (bo_columns opts ColPrefix) = None)"
  by (auto simp: parseBinCsv_def Let_def split: list.splits if_splits)

text \<open>A lookup in an index built from ranges: a longest match, or nothing when none matches.\<close>

lemma bin_lookup_cases:
  assumes "b \<noteq> []"
  shows "(\<exists>r\<in>set ranges. prefix (bin_prefix r) (only_digits b) \<and> bin_lookup (new_BinRegionIndex ranges) (Some b) = BinInfo.truncate r \<and>
        (\<forall>r'\<in>set ranges. prefix (bin_prefix r') (only_digits b) \<longrightarrow> length (bin_prefix r') \<le> length (bin_prefix r)))
    \<or> (\<forall>r\<in>set ranges. \<not> prefix (bin_prefix r) (only_digits b)) \<and> bin_lookup (new_BinRegionIndex ranges) (Some b) = UNKNOWN_BIN"
proof (cases "List.find (\<lambda>r. prefix (bin_prefix r) (only_digits b)) (new_BinRegionIndex ranges)")
  case None
  then have "\<forall>r\<in>set ranges. \<not> prefix (bin_prefix r) (only_digits b)"
    by (auto simp: find_None_iff_all new_BinRegionIndex_def)
  with None assms show ?thesis by (simp add: bin_lookup_def)
next
  case (Some r)
  then have "r \<in> set ranges" "prefix (bin_prefix r) (only_digits b)"
    using find_Some_set [OF Some] by (auto simp: new_BinRegionIndex_def)
  with bin_lookup_longest [OF Some] Some assms show ?thesis by (auto simp: bin_lookup_def)
qed

text \<open>The spelling of a header does not matter; a column of spans is read as one long number.\<close>

lemma canon_spellings: "canon ''Bank Name'' = ''bankname'' \<and> canon ''bank-name'' = ''bankname'' \<and> canon ''BANK_NAME'' = ''bankname''"
  by code_simp

lemma bin_span_concatenated:
  "map_option bin_prefix (range_of_row (\<lambda>col. if col = ColPrefix then Some 0 else None) False [''411111-411119'']) =
     Some ''411111411119''"
  by code_simp

end
