(* ===== verification/BacktestWorld.thy ===== *)
theory BacktestWorld
  imports Prelude Canonical "HOL-Library.Word" "HOL-Library.State_Monad"
begin

unbundle bit_operations_syntax

text \<open>
  The world the engine is backtested in, \<open>packages/backtest/src\<close>: the seeded generator and its
  samplers (\<open>rng.ts\<close>), the parameters (\<open>world/sources.ts\<close>), the generation of failed invoices with
  their hidden recovery state and the adjudication of an action (\<open>world/world.ts\<close>), the policies and
  the baseline (\<open>policy/policy.ts\<close>, \<open>baselines/smart-retries.ts\<close>) and the simulation
  (\<open>sim/simulate.ts\<close>).

  A generator is a closure over a 32-bit word; here the word is the state of a state monad. Days and
  probabilities are reals, amounts integers.
\<close>

subsection \<open>Seeded randomness\<close>

type_synonym 'a sampler = "(32 word, 'a) state"

definition world_seed :: "int \<Rightarrow> 32 word" where
  "world_seed seed = word_of_int seed"

definition world_next :: "32 word \<Rightarrow> real \<times> 32 word" where
  "world_next a =
     (let a = a + 0x6d2b79f5;
          t = (a XOR drop_bit 15 a) * (1 OR a);
          t = (t + (t XOR drop_bit 7 t) * (61 OR t)) XOR t
      in (real (unat (t XOR drop_bit 14 t)) / 4294967296, a))"

definition draw :: "real sampler" where
  "draw = State world_next"

definition char_code :: "char \<Rightarrow> 32 word" where
  "char_code c = of_nat (of_char c)"

definition deriveSeed :: "int \<Rightarrow> string \<Rightarrow> int" where
  "deriveSeed base label =
     uint (foldl (\<lambda>h c. (h XOR char_code c) * 0x01000193) (word_of_int base :: 32 word) label)"

definition uniform :: "real \<Rightarrow> real \<Rightarrow> real sampler" where
  "uniform lo hi = do { u \<leftarrow> draw; State_Monad.return (lo + (hi - lo) * u) }"

definition normal :: "real \<Rightarrow> real \<Rightarrow> real sampler" where
  "normal mean sd =
     do {
       v \<leftarrow> draw;
       u2 \<leftarrow> draw;
       let u1 = max v (1 / 10 ^ 12);
       let z = sqrt (- 2 * ln u1) * cos (2 * pi * u2);
       State_Monad.return (mean + sd * z)
     }"

definition lognormal :: "real \<Rightarrow> real \<Rightarrow> real sampler" where
  "lognormal muLog sigmaLog = do { n \<leftarrow> normal muLog sigmaLog; State_Monad.return (exp n) }"

fun weighted_scan :: "real \<Rightarrow> nat \<Rightarrow> real list \<Rightarrow> nat option" where
  "weighted_scan r i [] = None"
| "weighted_scan r i (w # ws) = (if r - w \<le> 0 then Some i else weighted_scan (r - w) (Suc i) ws)"

definition weightedIndex :: "real list \<Rightarrow> nat sampler" where
  "weightedIndex weights =
     do {
       u \<leftarrow> draw;
       State_Monad.return (coalesce (weighted_scan (u * sum_list weights) 0 weights) (length weights - 1))
     }"

definition bernoulli :: "real \<Rightarrow> bool sampler" where
  "bernoulli p = do { u \<leftarrow> draw; State_Monad.return (u < p) }"

subsection \<open>Parameters\<close>

definition DECLINE_MIX :: "(DeclineCode \<times> real) list" where
  "DECLINE_MIX =
     [(InsufficientFunds, 0.34), (DoNotHonor, 0.22), (ExpiredCard, 0.12), (IssuerUnavailable, 0.06),
      (ProcessingError, 0.05), (TryAgainLater, 0.04), (VelocityLimitExceeded, 0.03),
      (AuthenticationRequired, 0.04), (LostCard, 0.03), (StolenCard, 0.02), (ClosedAccount, 0.02),
      (InvalidCard, 0.015), (PickupCard, 0.005)]"

fun BASE_RECOVERABLE :: "DeclineCode \<Rightarrow> real" where
  "BASE_RECOVERABLE InsufficientFunds = 0.62"
| "BASE_RECOVERABLE DoNotHonor = 0.34"
| "BASE_RECOVERABLE IssuerUnavailable = 0.78"
| "BASE_RECOVERABLE ProcessingError = 0.7"
| "BASE_RECOVERABLE TryAgainLater = 0.7"
| "BASE_RECOVERABLE VelocityLimitExceeded = 0.45"
| "BASE_RECOVERABLE AuthenticationRequired = 0.4"
| "BASE_RECOVERABLE ExpiredCard = 0.5"
| "BASE_RECOVERABLE LostCard = 0.02"
| "BASE_RECOVERABLE StolenCard = 0.02"
| "BASE_RECOVERABLE ClosedAccount = 0.03"
| "BASE_RECOVERABLE InvalidCard = 0.05"
| "BASE_RECOVERABLE PickupCard = 0.02"
| "BASE_RECOVERABLE CardNotSupported = 0.05"
| "BASE_RECOVERABLE RevocationOfAuthorization = 0.05"
| "BASE_RECOVERABLE Fraudulent = 0"
| "BASE_RECOVERABLE UnknownDecline = 0.3"

datatype OnsetKind = Immediate | Payday | Reissue | UniformOnset

fun ONSET_KIND :: "DeclineCode \<Rightarrow> OnsetKind" where
  "ONSET_KIND InsufficientFunds = Payday"
| "ONSET_KIND DoNotHonor = UniformOnset"
| "ONSET_KIND IssuerUnavailable = Immediate"
| "ONSET_KIND ProcessingError = Immediate"
| "ONSET_KIND TryAgainLater = Immediate"
| "ONSET_KIND VelocityLimitExceeded = UniformOnset"
| "ONSET_KIND AuthenticationRequired = UniformOnset"
| "ONSET_KIND ExpiredCard = Reissue"
| "ONSET_KIND LostCard = Reissue"
| "ONSET_KIND StolenCard = Reissue"
| "ONSET_KIND ClosedAccount = Reissue"
| "ONSET_KIND InvalidCard = Reissue"
| "ONSET_KIND PickupCard = Reissue"
| "ONSET_KIND CardNotSupported = Reissue"
| "ONSET_KIND RevocationOfAuthorization = Reissue"
| "ONSET_KIND Fraudulent = UniformOnset"
| "ONSET_KIND UnknownDecline = UniformOnset"

definition immediateMaxDay :: real where "immediateMaxDay = 1"
definition paydayCycles :: "real \<times> real" where "paydayCycles = (14, 30)"
definition paydayJitterSd :: real where "paydayJitterSd = 2"
definition reissueMeanDay :: real where "reissueMeanDay = 21"
definition reissueSd :: real where "reissueSd = 8"
definition uniformLoDay :: real where "uniformLoDay = 1"
definition uniformHiDay :: real where "uniformHiDay = 21"

definition WINDOW_CLOSE_DAY :: int where "WINDOW_CLOSE_DAY = 35"
definition RESIDUAL_SUCCESS_RETRY :: real where "RESIDUAL_SUCCESS_RETRY = 0.85"
definition RESIDUAL_SUCCESS_CARD_UPDATE :: real where "RESIDUAL_SUCCESS_CARD_UPDATE = 0.75"
definition AMOUNT_MU_LOG :: real where "AMOUNT_MU_LOG = 8.6"
definition AMOUNT_SIGMA_LOG :: real where "AMOUNT_SIGMA_LOG = 0.7"

definition REGION_MIX :: "(IssuerRegion \<times> real) list" where
  "REGION_MIX = [(RegionNa, 0.55), (RegionEmea, 0.25), (RegionApac, 0.12), (RegionLatam, 0.08)]"

definition INVOICES_PER_CUSTOMER_WEIGHTS :: "real list" where
  "INVOICES_PER_CUSTOMER_WEIGHTS = [0, 0.72, 0.2, 0.06, 0.02]"

definition REISSUE_RATE :: "DeclineCode \<Rightarrow> real option" where
  "REISSUE_RATE code =
     map_of [(ExpiredCard, 0.9), (LostCard, 0.6), (StolenCard, 0.55), (InvalidCard, 0.4), (PickupCard, 0.35),
             (CardNotSupported, 0.25), (ClosedAccount, 0.15), (RevocationOfAuthorization, 0.2)] code"

definition DEFAULT_REISSUE_RATE :: real where "DEFAULT_REISSUE_RATE = 0.4"
definition PASSIVE_TOKEN_COVERAGE :: real where "PASSIVE_TOKEN_COVERAGE = 0.45"
definition ACTIVE_AU_COVERAGE :: real where "ACTIVE_AU_COVERAGE = 0.75"
definition ALT_RAIL_PREVALENCE :: real where "ALT_RAIL_PREVALENCE = 0.2"
definition DUNNING_RESPONSE :: real where "DUNNING_RESPONSE = 0.15"
definition ALT_RAIL_ONSET_DAY :: real where "ALT_RAIL_ONSET_DAY = 1"
definition DUNNING_ONSET_DAY :: real where "DUNNING_ONSET_DAY = 4"
definition RESIDUAL_SUCCESS_ALT_RAIL :: real where "RESIDUAL_SUCCESS_ALT_RAIL = 0.9"
definition RESIDUAL_SUCCESS_DUNNING :: real where "RESIDUAL_SUCCESS_DUNNING = 0.8"

record WorldParams =
  wp_recoverableScale :: real
  wp_onsetScale :: real
  wp_windowScale :: real
  wp_residualScale :: real
  wp_nsfShareScale :: real
  wp_credEdgeScale :: real

definition DEFAULT_WORLD_PARAMS :: WorldParams where
  "DEFAULT_WORLD_PARAMS =
     \<lparr>wp_recoverableScale = 1, wp_onsetScale = 1, wp_windowScale = 1, wp_residualScale = 1,
      wp_nsfShareScale = 1, wp_credEdgeScale = 1\<rparr>"

subsection \<open>Invoices and their hidden state\<close>

datatype WorldActionKind = WRetry | WCardUpdate | WCardRefresh | WAlternateRail

record CredLatent =
  cl_reissued :: bool
  cl_reissueDay :: real
  cl_passiveTokenRail :: bool
  cl_activeAuCovered :: bool
  cl_hasAltRail :: bool
  cl_dunningResponder :: bool

record Latent =
  la_recoverable :: bool
  la_onsetDay :: real
  la_closeDay :: int
  la_cred :: "CredLatent option"

record ObservedInvoice =
  oi_id :: ident
  oi_customerId :: ident
  oi_declineCode :: DeclineCode
  oi_amountMinor :: int
  oi_issuerRegion :: IssuerRegion

record SimInvoice = ObservedInvoice +
  si_latent :: Latent

definition world_clamp :: "real \<Rightarrow> real" where
  "world_clamp x = (if x < 0 then 0 else if 1 < x then 1 else x)"

definition declineWeights :: "WorldParams \<Rightarrow> real list" where
  "declineWeights params =
     map (\<lambda>(code, share). if code = InsufficientFunds then share * wp_nsfShareScale params else share) DECLINE_MIX"

definition onset_day :: "OnsetKind \<Rightarrow> real sampler" where
  "onset_day k =
     (case k of
        Immediate \<Rightarrow> uniform 0.1 immediateMaxDay
      | Payday \<Rightarrow>
          do {
            c \<leftarrow> draw;
            u \<leftarrow> uniform 1 (if c < 0.5 then fst paydayCycles else snd paydayCycles);
            jitter \<leftarrow> normal 0 paydayJitterSd;
            State_Monad.return (max 0.5 (u + jitter))
          }
      | Reissue \<Rightarrow> do { d \<leftarrow> normal reissueMeanDay reissueSd; State_Monad.return (max 3 d) }
      | UniformOnset \<Rightarrow> uniform uniformLoDay uniformHiDay)"

definition sampleOnset :: "OnsetKind \<Rightarrow> WorldParams \<Rightarrow> real sampler" where
  "sampleOnset k params = do { day \<leftarrow> onset_day k; State_Monad.return (day * wp_onsetScale params) }"

text \<open>A conjunction draws for its right operand only when the left one holds.\<close>

definition and_then :: "bool \<Rightarrow> bool sampler \<Rightarrow> bool sampler" where
  "and_then b m = (if b then m else State_Monad.return False)"

definition sampleCred :: "DeclineCode \<Rightarrow> WorldParams \<Rightarrow> (CredLatent \<times> bool \<times> real) sampler" where
  "sampleCred code params =
     do {
       reissueDay \<leftarrow> sampleOnset Reissue params;
       reissued \<leftarrow> bernoulli (world_clamp (coalesce (REISSUE_RATE code) DEFAULT_REISSUE_RATE * wp_recoverableScale params));
       passiveTokenRail \<leftarrow> and_then reissued (bernoulli (world_clamp PASSIVE_TOKEN_COVERAGE));
       let extraP = (if 1 \<le> PASSIVE_TOKEN_COVERAGE then 0
                     else (ACTIVE_AU_COVERAGE - PASSIVE_TOKEN_COVERAGE) / (1 - PASSIVE_TOKEN_COVERAGE));
       activeExtra \<leftarrow> bernoulli (world_clamp (extraP * wp_credEdgeScale params));
       let activeAuCovered = (reissued \<and> (passiveTokenRail \<or> activeExtra));
       hasAltRail \<leftarrow> bernoulli (world_clamp (ALT_RAIL_PREVALENCE * wp_credEdgeScale params));
       dunningResponder \<leftarrow> bernoulli (world_clamp (DUNNING_RESPONSE * wp_credEdgeScale params));
       State_Monad.return
         (\<lparr>cl_reissued = reissued, cl_reissueDay = reissueDay, cl_passiveTokenRail = passiveTokenRail,
           cl_activeAuCovered = activeAuCovered, cl_hasAltRail = hasAltRail,
           cl_dunningResponder = dunningResponder\<rparr>,
          reissued \<or> hasAltRail \<or> dunningResponder, reissueDay)
     }"

definition closeDay :: "WorldParams \<Rightarrow> int" where
  "closeDay params = js_round (of_int WINDOW_CLOSE_DAY * wp_windowScale params)"

definition sample_latent :: "DeclineCode \<Rightarrow> WorldParams \<Rightarrow> Latent sampler" where
  "sample_latent code params =
     (if ONSET_KIND code = Reissue then
        do {
          (cred, recoverable, onsetDay) \<leftarrow> sampleCred code params;
          State_Monad.return
            \<lparr>la_recoverable = recoverable, la_onsetDay = onsetDay, la_closeDay = closeDay params, la_cred = Some cred\<rparr>
        }
      else
        do {
          recoverable \<leftarrow> bernoulli (world_clamp (BASE_RECOVERABLE code * wp_recoverableScale params));
          onsetDay \<leftarrow> sampleOnset (ONSET_KIND code) params;
          State_Monad.return
            \<lparr>la_recoverable = recoverable, la_onsetDay = onsetDay, la_closeDay = closeDay params, la_cred = None\<rparr>
        })"

definition sample_sim_invoice :: "WorldParams \<Rightarrow> ident \<Rightarrow> nat \<Rightarrow> SimInvoice sampler" where
  "sample_sim_invoice params customerId k =
     do {
       i \<leftarrow> weightedIndex (declineWeights params);
       let code = fst (DECLINE_MIX ! i);
       j \<leftarrow> weightedIndex (map snd REGION_MIX);
       let region = fst (REGION_MIX ! j);
       a \<leftarrow> lognormal AMOUNT_MU_LOG AMOUNT_SIGMA_LOG;
       latent \<leftarrow> sample_latent code params;
       State_Monad.return
         \<lparr>oi_id = customerId @ ''_inv_'' @ show_nat k, oi_customerId = customerId, oi_declineCode = code,
          oi_amountMinor = max 100 (js_round a), oi_issuerRegion = region, si_latent = latent\<rparr>
     }"

definition customer_invoices :: "WorldParams \<Rightarrow> int \<Rightarrow> nat \<Rightarrow> SimInvoice list" where
  "customer_invoices params seed c =
     (let customerId = ''cus_'' @ show_nat c in
      fst (run_state
        (do {
           nInv \<leftarrow> weightedIndex INVOICES_PER_CUSTOMER_WEIGHTS;
           State_Monad.traverse_list (sample_sim_invoice params customerId) [0..<nInv]
         }) (world_seed (deriveSeed seed customerId))))"

definition generateStream :: "nat \<Rightarrow> int \<Rightarrow> WorldParams \<Rightarrow> SimInvoice list" where
  "generateStream nCustomers seed params = concat (map (customer_invoices params seed) [0..<nCustomers])"

subsection \<open>Adjudicating an action\<close>

definition resid :: "WorldParams \<Rightarrow> real \<Rightarrow> bool sampler" where
  "resid params base = bernoulli (world_clamp (base * wp_residualScale params))"

definition cred_succeeds :: "CredLatent \<Rightarrow> real \<Rightarrow> WorldActionKind \<Rightarrow> WorldParams \<Rightarrow> bool sampler" where
  "cred_succeeds cred day k params =
     (case k of
        WRetry \<Rightarrow>
          and_then (cl_reissued cred \<and> cl_passiveTokenRail cred \<and> cl_reissueDay cred \<le> day)
            (resid params RESIDUAL_SUCCESS_RETRY)
      | WCardRefresh \<Rightarrow>
          and_then (cl_reissued cred \<and> cl_activeAuCovered cred \<and> cl_reissueDay cred \<le> day)
            (resid params RESIDUAL_SUCCESS_RETRY)
      | WAlternateRail \<Rightarrow>
          and_then (cl_hasAltRail cred \<and> ALT_RAIL_ONSET_DAY \<le> day) (resid params RESIDUAL_SUCCESS_ALT_RAIL)
      | WCardUpdate \<Rightarrow>
          and_then (cl_dunningResponder cred \<and> DUNNING_ONSET_DAY \<le> day) (resid params RESIDUAL_SUCCESS_DUNNING))"

definition actionSucceeds :: "SimInvoice \<Rightarrow> real \<Rightarrow> WorldActionKind \<Rightarrow> WorldParams \<Rightarrow> bool sampler" where
  "actionSucceeds iv day k params =
     (let l = si_latent iv in
      if \<not> la_recoverable l then State_Monad.return False
      else if of_int (la_closeDay l) < day then State_Monad.return False
      else
        (case la_cred l of
           Some cred \<Rightarrow> cred_succeeds cred day k params
         | None \<Rightarrow>
             if day < la_onsetDay l then State_Monad.return False
             else if k = WCardRefresh \<or> k = WAlternateRail then State_Monad.return False
             else if k = WCardUpdate then
               bernoulli (world_clamp (RESIDUAL_SUCCESS_CARD_UPDATE * wp_residualScale params) * 0.3)
             else resid params RESIDUAL_SUCCESS_RETRY))"

subsection \<open>Policies and the simulation\<close>

record PolicyAction =
  ra_day :: real
  ra_kind :: WorldActionKind

text \<open>A policy sees the invoice without its hidden state; it may throw, as the engine's plans can.\<close>

type_synonym policy = "ObservedInvoice \<Rightarrow> js_error + PolicyAction list"

definition observed :: "SimInvoice \<Rightarrow> ObservedInvoice" where
  "observed iv = ObservedInvoice.truncate iv"

definition SMART_RETRIES_SCHEDULE_DAYS :: "real list" where
  "SMART_RETRIES_SCHEDULE_DAYS = [1, 4, 10, 18]"

definition smart_retries :: "real list \<Rightarrow> policy" where
  "smart_retries scheduleDays obs = Inr (map (\<lambda>day. \<lparr>ra_day = day, ra_kind = WRetry\<rparr>) scheduleDays)"

record InvoiceOutcome =
  io_invoice :: SimInvoice
  io_recovered :: bool
  io_recoveredMinor :: int
  io_recoveryDay :: "real option"
  io_retriesMade :: nat

fun try_actions ::
  "SimInvoice \<Rightarrow> WorldParams \<Rightarrow> PolicyAction list \<Rightarrow> nat \<Rightarrow> (real option \<times> nat) sampler" where
  "try_actions iv params [] retries = State_Monad.return (None, retries)"
| "try_actions iv params (a # as) retries =
     (let retries = (if ra_kind a = WRetry then retries + 1 else retries) in
      do {
        ok \<leftarrow> actionSucceeds iv (ra_day a) (ra_kind a) params;
        if ok then State_Monad.return (Some (ra_day a), retries) else try_actions iv params as retries
      })"

definition run_invoice :: "policy \<Rightarrow> int \<Rightarrow> WorldParams \<Rightarrow> SimInvoice \<Rightarrow> js_error + InvoiceOutcome" where
  "run_invoice plan seed params iv =
     (case plan (observed iv) of
        Inl e \<Rightarrow> Inl e
      | Inr actions \<Rightarrow>
          (let r = fst (run_state (try_actions iv params (sort_key ra_day actions) 0)
                     (world_seed (deriveSeed seed (oi_id iv))))
           in Inr \<lparr>io_invoice = iv, io_recovered = (fst r \<noteq> None),
                   io_recoveredMinor = (if fst r \<noteq> None then oi_amountMinor iv else 0),
                   io_recoveryDay = fst r, io_retriesMade = snd r\<rparr>))"

fun runPolicy :: "SimInvoice list \<Rightarrow> policy \<Rightarrow> int \<Rightarrow> WorldParams \<Rightarrow> js_error + InvoiceOutcome list" where
  "runPolicy [] plan seed params = Inr []"
| "runPolicy (iv # invoices) plan seed params =
     (case run_invoice plan seed params iv of
        Inl e \<Rightarrow> Inl e
      | Inr oc \<Rightarrow> (case runPolicy invoices plan seed params of Inl e \<Rightarrow> Inl e | Inr ocs \<Rightarrow> Inr (oc # ocs)))"

record ArmSummary =
  sm_n :: int
  sm_recovered :: int
  sm_rate :: real
  sm_recoveredMinor :: int

definition armSummary :: "InvoiceOutcome list \<Rightarrow> ArmSummary" where
  "armSummary outcomes =
     (let n = int (length outcomes);
          recovered = int (length (filter io_recovered outcomes))
      in \<lparr>sm_n = n, sm_recovered = recovered, sm_rate = (if 0 < n then of_int recovered / of_int n else 0),
          sm_recoveredMinor = sum_list (map io_recoveredMinor outcomes)\<rparr>)"

subsection \<open>The samplers\<close>

lemma unit_word: "0 \<le> real (unat w) / 4294967296" "real (unat w) / 4294967296 < 1" for w :: "32 word"
proof -
  have "unat w < 4294967296" using unsigned_less [of w, where ?'a = nat] by simp
  moreover have "0 \<le> real n / 4294967296" "n < 4294967296 \<Longrightarrow> real n / 4294967296 < 1" for n
    by simp_all
  ultimately show "0 \<le> real (unat w) / 4294967296" "real (unat w) / 4294967296 < 1" by blast+
qed

lemma draw_range: "0 \<le> fst (run_state draw s)" "fst (run_state draw s) < 1"
  unfolding draw_def state.sel world_next_def Let_def fst_conv by (rule unit_word)+

text \<open>What a sampler can return, whatever its state.\<close>

definition always_draws :: "'a sampler \<Rightarrow> ('a \<Rightarrow> bool) \<Rightarrow> bool" where
  "always_draws m P \<longleftrightarrow> (\<forall>s. P (fst (run_state m s)))"

lemma always_draws_return [intro]: "P x \<Longrightarrow> always_draws (State_Monad.return x) P"
  by (simp add: always_draws_def)

lemma always_draws_bind [intro]:
  assumes "always_draws m Q" "\<And>x. Q x \<Longrightarrow> always_draws (f x) P"
  shows "always_draws (State_Monad.bind m f) P"
  using assms by (auto simp: always_draws_def split: prod.splits) (metis fst_conv)

lemma always_draws_True [intro]: "always_draws m (\<lambda>_. True)"
  by (simp add: always_draws_def)

lemma always_draws_mono: "always_draws m P \<Longrightarrow> (\<And>x. P x \<Longrightarrow> Q x) \<Longrightarrow> always_draws m Q"
  by (simp add: always_draws_def)

lemma always_draws_draw: "always_draws draw (\<lambda>u. 0 \<le> u \<and> u < 1)"
  using draw_range by (simp add: always_draws_def)

lemma bernoulli_never: "p \<le> 0 \<Longrightarrow> always_draws (bernoulli p) (\<lambda>b. \<not> b)"
  unfolding bernoulli_def by (rule always_draws_bind [OF always_draws_draw]) auto

lemma bernoulli_always: "1 \<le> p \<Longrightarrow> always_draws (bernoulli p) (\<lambda>b. b)"
  unfolding bernoulli_def by (rule always_draws_bind [OF always_draws_draw]) auto

lemma weighted_scan_bound: "weighted_scan r i ws = Some j \<Longrightarrow> i \<le> j \<and> j < i + length ws"
  by (induction r i ws rule: weighted_scan.induct) (auto split: if_splits)

lemma weightedIndex_range: "ws \<noteq> [] \<Longrightarrow> always_draws (weightedIndex ws) (\<lambda>i. i < length ws)"
  unfolding weightedIndex_def
proof (rule always_draws_bind [OF always_draws_True], rule always_draws_return)
  fix u assume "ws \<noteq> []"
  then show "coalesce (weighted_scan (u * sum_list ws) 0 ws) (length ws - 1) < length ws"
    using weighted_scan_bound [of "u * sum_list ws" 0 ws]
    by (cases "weighted_scan (u * sum_list ws) 0 ws") auto
qed

lemma world_clamp_range: "0 \<le> world_clamp x" "world_clamp x \<le> 1"
  by (simp_all add: world_clamp_def)

subsection \<open>The generated world\<close>

text \<open>
  The hidden state of a dead credential: active account updating covers at least what the passive
  pass-through covers, both need a reissued card, and a recoverable invoice has some path.
\<close>

definition cred_wf :: "CredLatent \<Rightarrow> bool \<Rightarrow> bool" where
  "cred_wf c recoverable \<longleftrightarrow>
     (cl_passiveTokenRail c \<longrightarrow> cl_activeAuCovered c) \<and> (cl_activeAuCovered c \<longrightarrow> cl_reissued c) \<and>
     (recoverable \<longleftrightarrow> cl_reissued c \<or> cl_hasAltRail c \<or> cl_dunningResponder c)"

definition latent_wf :: "DeclineCode \<Rightarrow> Latent \<Rightarrow> bool" where
  "latent_wf code l \<longleftrightarrow>
     (case la_cred l of None \<Rightarrow> ONSET_KIND code \<noteq> Reissue
      | Some c \<Rightarrow> ONSET_KIND code = Reissue \<and> cred_wf c (la_recoverable l))"

definition invoice_wf :: "SimInvoice \<Rightarrow> bool" where
  "invoice_wf iv \<longleftrightarrow> 100 \<le> oi_amountMinor iv \<and> latent_wf (oi_declineCode iv) (si_latent iv)"

lemma and_then_returns: "always_draws (and_then b m) (\<lambda>r. r \<longrightarrow> b)"
  by (simp add: and_then_def always_draws_def)

lemma sampleCred_wf: "always_draws (sampleCred code params) (\<lambda>(c, r, d). cred_wf c r)"
  unfolding sampleCred_def Let_def
  by (rule always_draws_bind [OF always_draws_True] always_draws_bind [OF and_then_returns] always_draws_return)+
    (auto simp: cred_wf_def)

lemma sample_latent_wf: "always_draws (sample_latent code params) (latent_wf code)"
proof (cases "ONSET_KIND code = Reissue")
  case True
  then show ?thesis
    unfolding sample_latent_def
    by (auto simp: latent_wf_def intro!: always_draws_bind [OF sampleCred_wf] always_draws_return split: prod.splits)
next
  case False
  then show ?thesis
    unfolding sample_latent_def
    by (auto simp: latent_wf_def intro!: always_draws_bind [OF always_draws_True] always_draws_return)
qed

lemma sample_sim_invoice_wf:
  "always_draws (sample_sim_invoice params cid k)
     (\<lambda>iv. invoice_wf iv \<and> oi_customerId iv = cid \<and> oi_id iv = cid @ ''_inv_'' @ show_nat k)"
  unfolding sample_sim_invoice_def Let_def
  by (rule always_draws_bind [OF always_draws_True] always_draws_bind [OF sample_latent_wf] always_draws_return)+
    (simp add: invoice_wf_def)

lemma traverse_returns:
  assumes "\<And>x. always_draws (f x) (P x)"
  shows "always_draws (State_Monad.traverse_list f xs) (\<lambda>ys. list_all2 P xs ys)"
proof (induction xs)
  case (Cons x xs)
  show ?case
    unfolding State_Monad.traverse_list.simps
    by (rule always_draws_bind [OF assms], rule always_draws_bind [OF Cons], rule always_draws_return) simp
qed (simp add: always_draws_def)

lemma customer_invoices_spec:
  "\<exists>n\<le>4. list_all2 (\<lambda>k iv. invoice_wf iv \<and> oi_customerId iv = ''cus_'' @ show_nat c \<and>
       oi_id iv = (''cus_'' @ show_nat c) @ ''_inv_'' @ show_nat k) [0..<n] (customer_invoices params seed c)"
proof -
  have "always_draws (do { nInv \<leftarrow> weightedIndex INVOICES_PER_CUSTOMER_WEIGHTS;
            State_Monad.traverse_list (sample_sim_invoice params cid) [0..<nInv] })
      (\<lambda>ivs. \<exists>n\<le>4. list_all2 (\<lambda>k iv. invoice_wf iv \<and> oi_customerId iv = cid \<and>
         oi_id iv = cid @ ''_inv_'' @ show_nat k) [0..<n] ivs)" for cid
  proof (rule always_draws_bind [OF weightedIndex_range])
    fix n assume "n < length INVOICES_PER_CUSTOMER_WEIGHTS"
    then have n: "n \<le> 4" by (simp add: INVOICES_PER_CUSTOMER_WEIGHTS_def)
    show "always_draws (State_Monad.traverse_list (sample_sim_invoice params cid) [0..<n])
        (\<lambda>ivs. \<exists>n\<le>4. list_all2 (\<lambda>k iv. invoice_wf iv \<and> oi_customerId iv = cid \<and>
           oi_id iv = cid @ ''_inv_'' @ show_nat k) [0..<n] ivs)"
      by (rule always_draws_mono [OF traverse_returns [OF sample_sim_invoice_wf]]) (use n in blast)
  qed (simp add: INVOICES_PER_CUSTOMER_WEIGHTS_def)
  then show ?thesis unfolding customer_invoices_def Let_def always_draws_def by blast
qed

lemma generateStream_wf: "iv \<in> set (generateStream n seed params) \<Longrightarrow> invoice_wf iv"
proof -
  assume "iv \<in> set (generateStream n seed params)"
  then obtain c where "iv \<in> set (customer_invoices params seed c)" by (auto simp: generateStream_def)
  with customer_invoices_spec [of c params seed] show ?thesis
    by (auto simp: list_all2_conv_all_nth in_set_conv_nth)
qed

text \<open>A larger run of the same seed extends the stream; earlier customers keep their invoices.\<close>

lemma generateStream_extends:
  "generateStream (n + m) seed params = generateStream n seed params @ concat (map (customer_invoices params seed) [n..<n + m])"
  by (simp add: generateStream_def upt_add_eq_append [of 0 n m, simplified] del: upt_Suc)

text \<open>Ids are unique, so no two invoices share a seed.\<close>

lemma id_customer: "takeWhile (\<lambda>x. x \<noteq> CHR ''_'') (drop 4 ((''cus_'' @ show_nat c) @ ''_inv_'' @ show_nat k)) = show_nat c"
proof -
  have "x \<noteq> CHR ''_''" if "x \<in> set (show_nat c)" for x
    using show_nat_digits [OF that] by auto
  then show ?thesis by (simp add: takeWhile_append2)
qed

lemma id_inject:
  assumes "(''cus_'' @ show_nat c) @ ''_inv_'' @ show_nat k = (''cus_'' @ show_nat c') @ ''_inv_'' @ show_nat k'"
  shows "c = c' \<and> k = k'"
proof -
  have "show_nat c = show_nat c'" using id_customer [of c k] id_customer [of c' k'] assms by simp
  then have "c = c'" by (metis digits_value_show_nat)
  with assms have "show_nat k = show_nat k'" by simp
  then have "k = k'" by (metis digits_value_show_nat)
  with \<open>c = c'\<close> show ?thesis by simp
qed

lemma customer_ids:
  "\<exists>n\<le>4. map oi_id (customer_invoices params seed c) = map (\<lambda>k. (''cus_'' @ show_nat c) @ ''_inv_'' @ show_nat k) [0..<n]"
proof -
  obtain n where n: "n \<le> 4" and "list_all2 (\<lambda>k iv. invoice_wf iv \<and> oi_customerId iv = ''cus_'' @ show_nat c \<and>
       oi_id iv = (''cus_'' @ show_nat c) @ ''_inv_'' @ show_nat k) [0..<n] (customer_invoices params seed c)"
    using customer_invoices_spec [of c params seed] by blast
  then have "map oi_id (customer_invoices params seed c) = map (\<lambda>k. (''cus_'' @ show_nat c) @ ''_inv_'' @ show_nat k) [0..<n]"
    by (intro nth_equalityI) (auto simp: list_all2_conv_all_nth)
  with n show ?thesis by blast
qed

lemma distinct_ids: "distinct (map oi_id (generateStream n seed params))"
proof (induction n)
  case (Suc n)
  obtain m where m: "map oi_id (customer_invoices params seed n) = map (\<lambda>k. (''cus_'' @ show_nat n) @ ''_inv_'' @ show_nat k) [0..<m]"
    using customer_ids [of params seed n] by blast
  have "distinct (map oi_id (customer_invoices params seed n))"
    unfolding m by (auto simp: distinct_map inj_on_def dest: id_inject [of n _ n])
  moreover have "i \<notin> set (map oi_id (customer_invoices params seed n))"
    if i: "i \<in> set (map oi_id (generateStream n seed params))" for i
  proof -
    obtain c where c: "c < n" "i \<in> set (map oi_id (customer_invoices params seed c))"
      using i by (auto simp: generateStream_def)
    obtain m' where "map oi_id (customer_invoices params seed c) = map (\<lambda>k. (''cus_'' @ show_nat c) @ ''_inv_'' @ show_nat k) [0..<m']"
      using customer_ids [of params seed c] by blast
    with c obtain k where "i = (''cus_'' @ show_nat c) @ ''_inv_'' @ show_nat k" by auto
    with c(1) id_inject [of c k n] show ?thesis unfolding m by auto
  qed
  ultimately show ?case using Suc by (auto simp: generateStream_def)
qed (simp add: generateStream_def)

subsection \<open>What can succeed\<close>

text \<open>The path by which an action recovers an invoice, the window apart.\<close>

definition action_path :: "Latent \<Rightarrow> real \<Rightarrow> WorldActionKind \<Rightarrow> bool" where
  "action_path l day k \<longleftrightarrow>
     (case la_cred l of
        None \<Rightarrow> la_onsetDay l \<le> day \<and> (k = WRetry \<or> k = WCardUpdate)
      | Some c \<Rightarrow>
          (case k of
             WRetry \<Rightarrow> cl_reissued c \<and> cl_passiveTokenRail c \<and> cl_reissueDay c \<le> day
           | WCardRefresh \<Rightarrow> cl_reissued c \<and> cl_activeAuCovered c \<and> cl_reissueDay c \<le> day
           | WAlternateRail \<Rightarrow> cl_hasAltRail c \<and> ALT_RAIL_ONSET_DAY \<le> day
           | WCardUpdate \<Rightarrow> cl_dunningResponder c \<and> DUNNING_ONSET_DAY \<le> day))"

lemma success_needs_path:
  assumes "fst (run_state (actionSucceeds iv day k params) s)"
  shows "la_recoverable (si_latent iv)" "day \<le> of_int (la_closeDay (si_latent iv))" "action_path (si_latent iv) day k"
  using assms
  by (auto simp: actionSucceeds_def action_path_def cred_succeeds_def and_then_def Let_def
      split: if_splits option.splits WorldActionKind.splits; cases k; simp)+

text \<open>Where a retry recovers a dead credential, refreshing the card would, on the same day and draw.\<close>

lemma refresh_covers_retry:
  assumes "fst (run_state (actionSucceeds iv day WRetry params) s)" "la_cred (si_latent iv) = Some c"
    and "cred_wf c r"
  shows "fst (run_state (actionSucceeds iv day WCardRefresh params) s)"
  using assms by (auto simp: actionSucceeds_def cred_succeeds_def and_then_def cred_wf_def Let_def split: if_splits)

subsection \<open>The simulation\<close>

definition retries_in :: "PolicyAction list \<Rightarrow> nat" where
  "retries_in as = length (filter (\<lambda>a. ra_kind a = WRetry) as)"

lemma try_actions_append:
  "run_state (try_actions iv params (as @ bs) n) s =
     (case run_state (try_actions iv params as n) s of
        ((Some d, m), s') \<Rightarrow> ((Some d, m), s')
      | ((None, m), s') \<Rightarrow> run_state (try_actions iv params bs m) s')"
  by (induction as arbitrary: n s) (auto simp: Let_def split: prod.splits option.splits)

text \<open>The first action that succeeds ends the loop; the retries made are those up to it.\<close>

lemma try_actions_spec:
  "case run_state (try_actions iv params as n) s of
     ((None, m), _) \<Rightarrow> m = n + retries_in as
   | ((Some d, m), _) \<Rightarrow>
       \<exists>pre a post s'. as = pre @ a # post \<and> ra_day a = d \<and> m = n + retries_in (pre @ [a]) \<and>
         fst (run_state (actionSucceeds iv d (ra_kind a) params) s')"
proof (induction as arbitrary: n s)
  case Nil
  then show ?case by (simp add: retries_in_def)
next
  case (Cons a as)
  define n' where "n' = (if ra_kind a = WRetry then n + 1 else n)"
  obtain ok s1 where ok: "run_state (actionSucceeds iv (ra_day a) (ra_kind a) params) s = (ok, s1)"
    by (metis prod.exhaust)
  show ?case
  proof (cases ok)
    case True
    have "\<exists>pre a' post s'. a # as = pre @ a' # post \<and> ra_day a' = ra_day a \<and> n' = n + retries_in (pre @ [a']) \<and>
        fst (run_state (actionSucceeds iv (ra_day a) (ra_kind a') params) s')"
      by (rule exI [of _ "[]"], rule exI [of _ a], rule exI [of _ as], rule exI [of _ s])
        (use ok True in \<open>simp add: n'_def retries_in_def\<close>)
    with ok True show ?thesis by (simp add: Let_def n'_def)
  next
    case False
    obtain o1 m s2 where r: "run_state (try_actions iv params as n') s1 = ((o1, m), s2)"
      by (metis prod.exhaust)
    then have e: "run_state (try_actions iv params (a # as) n) s = ((o1, m), s2)"
      using ok False by (simp add: Let_def n'_def)
    show ?thesis
    proof (cases o1)
      case None
      then show ?thesis using Cons [of n' s1] r e by (simp add: retries_in_def n'_def)
    next
      case (Some d)
      then obtain pre a' post s' where IH: "as = pre @ a' # post" "ra_day a' = d"
          "m = n' + retries_in (pre @ [a'])" "fst (run_state (actionSucceeds iv d (ra_kind a') params) s')"
        using Cons [of n' s1] r by auto
      have "\<exists>pre a' post s'. a # as = pre @ a' # post \<and> ra_day a' = d \<and> m = n + retries_in (pre @ [a']) \<and>
          fst (run_state (actionSucceeds iv d (ra_kind a') params) s')"
        by (rule exI [of _ "a # pre"], rule exI [of _ a'], rule exI [of _ post], rule exI [of _ s'])
          (use IH in \<open>simp add: retries_in_def n'_def\<close>)
      then show ?thesis by (simp add: e Some del: try_actions.simps)
    qed
  qed
qed

text \<open>What an outcome says of the plan and of the world.\<close>

definition outcome_ok :: "PolicyAction list \<Rightarrow> InvoiceOutcome \<Rightarrow> bool" where
  "outcome_ok as oc \<longleftrightarrow>
     io_retriesMade oc \<le> retries_in as \<and>
     (if io_recovered oc
      then io_recoveredMinor oc = oi_amountMinor (io_invoice oc) \<and>
           (\<exists>a\<in>set as. io_recoveryDay oc = Some (ra_day a) \<and> la_recoverable (si_latent (io_invoice oc)) \<and>
              ra_day a \<le> of_int (la_closeDay (si_latent (io_invoice oc))) \<and>
              action_path (si_latent (io_invoice oc)) (ra_day a) (ra_kind a))
      else io_recoveredMinor oc = 0 \<and> io_recoveryDay oc = None)"

lemma retries_in_sort [simp]: "retries_in (sort_key f as) = retries_in as"
  unfolding retries_in_def by (metis filter_sort length_sort)

lemma run_invoice_ok:
  assumes "run_invoice plan seed params iv = Inr oc" "plan (observed iv) = Inr as"
  shows "outcome_ok as oc" "io_invoice oc = iv"
proof -
  obtain o1 m s2 where r: "run_state (try_actions iv params (sort_key ra_day as) 0)
      (world_seed (deriveSeed seed (oi_id iv))) = ((o1, m), s2)"
    by (metis prod.exhaust)
  note spec = try_actions_spec [where iv = iv and params = params and as = "sort_key ra_day as" and n = 0
      and s = "world_seed (deriveSeed seed (oi_id iv))", unfolded r]
  have oc: "oc = \<lparr>io_invoice = iv, io_recovered = (o1 \<noteq> None),
      io_recoveredMinor = (if o1 \<noteq> None then oi_amountMinor iv else 0), io_recoveryDay = o1, io_retriesMade = m\<rparr>"
    using assms by (simp add: run_invoice_def r)
  show "io_invoice oc = iv" by (simp add: oc)
  show "outcome_ok as oc"
  proof (cases o1)
    case None
    then show ?thesis using spec by (simp add: oc outcome_ok_def)
  next
    case (Some d)
    then obtain pre a post s' where a: "sort_key ra_day as = pre @ a # post" "ra_day a = d"
        "m = retries_in (pre @ [a])" "fst (run_state (actionSucceeds iv d (ra_kind a) params) s')"
      using spec by auto
    have "retries_in as = retries_in (pre @ a # post)" using a(1) retries_in_sort [of ra_day as] by simp
    moreover have "a \<in> set as" using a(1) set_sort [of ra_day as] by (metis in_set_conv_decomp)
    ultimately show ?thesis
      using a(2,3) success_needs_path [OF a(4)] unfolding oc Some outcome_ok_def
      by (auto simp: retries_in_def intro!: bexI [of _ a])
  qed
qed

lemma runPolicy_list_all2:
  "runPolicy ivs plan seed params = Inr ocs \<Longrightarrow> list_all2 (\<lambda>iv oc. run_invoice plan seed params iv = Inr oc) ivs ocs"
  by (induction ivs arbitrary: ocs) (auto split: sum.splits)

lemma run_invoice_invoice: "run_invoice plan seed params iv = Inr oc \<Longrightarrow> io_invoice oc = iv"
  using run_invoice_ok(2) by (cases "plan (observed iv)") (auto simp: run_invoice_def)

lemma runPolicy_invoices: "runPolicy ivs plan seed params = Inr ocs \<Longrightarrow> map io_invoice ocs = ivs"
  by (induction ivs arbitrary: ocs) (auto dest: run_invoice_invoice split: sum.splits)

text \<open>
  No interference: the outcome of an invoice does not depend on which other invoices are run, so
  running a part of a stream is taking a part of the run.
\<close>

lemma runPolicy_filter:
  "runPolicy ivs plan seed params = Inr ocs \<Longrightarrow>
   runPolicy (filter P ivs) plan seed params = Inr (filter (\<lambda>oc. P (io_invoice oc)) ocs)"
  by (induction ivs arbitrary: ocs) (auto dest: run_invoice_invoice split: sum.splits)

lemma runPolicy_total:
  assumes "\<And>obs. \<exists>as. plan obs = Inr as"
  shows "\<exists>ocs. runPolicy ivs plan seed params = Inr ocs"
proof (induction ivs)
  case (Cons iv ivs)
  obtain as where "plan (observed iv) = Inr as" using assms by blast
  with Cons show ?case by (auto simp: run_invoice_def Let_def)
qed simp

subsection \<open>The baseline\<close>

definition retry_plan :: "real list \<Rightarrow> PolicyAction list" where
  "retry_plan days = map (\<lambda>day. \<lparr>ra_day = day, ra_kind = WRetry\<rparr>) days"

lemma smart_retries_plan: "smart_retries days obs = Inr (retry_plan days)"
  by (simp add: smart_retries_def retry_plan_def)

lemma retry_plan_sorted: "sorted days \<Longrightarrow> sort_key ra_day (retry_plan days) = retry_plan days"
  by (rule sort_key_id_if_sorted) (simp add: retry_plan_def comp_def)

lemma retries_in_retry_plan [simp]: "retries_in (retry_plan days) = length days"
  by (simp add: retries_in_def retry_plan_def comp_def filter_True)

text \<open>A dead card is recovered by retries only if it was reissued and passed through passively.\<close>

lemma baseline_reach:
  assumes "run_invoice (smart_retries days) seed params iv = Inr oc" "io_recovered oc"
    and "la_cred (si_latent iv) = Some c"
  shows "cl_reissued c \<and> cl_passiveTokenRail c"
  using run_invoice_ok [OF assms(1) smart_retries_plan] assms(2,3)
  by (auto simp: outcome_ok_def action_path_def retry_plan_def)

text \<open>A schedule that goes on longer keeps every recovery of the shorter one.\<close>

lemma longer_schedule_invoice:
  assumes "run_invoice (smart_retries days) seed params iv = Inr a"
    and "run_invoice (smart_retries (days @ later)) seed params iv = Inr b"
    and "sorted (days @ later)" "io_recovered a"
  shows "b = a"
proof -
  have s: "sort_key ra_day (retry_plan days) = retry_plan days"
      "sort_key ra_day (retry_plan (days @ later)) = retry_plan days @ retry_plan later"
    using assms(3) retry_plan_sorted [of days] retry_plan_sorted [of "days @ later"]
    by (simp_all add: sorted_append retry_plan_def)
  obtain o1 m s2 where r: "run_state (try_actions iv params (retry_plan days) 0)
      (world_seed (deriveSeed seed (oi_id iv))) = ((o1, m), s2)"
    by (metis prod.exhaust)
  have "o1 \<noteq> None" using assms(1,4) by (auto simp: run_invoice_def smart_retries_plan s r)
  then obtain d where "o1 = Some d" by blast
  then show ?thesis
    using assms(1,2) by (auto simp: run_invoice_def smart_retries_plan s r try_actions_append)
qed

lemma longer_schedule:
  assumes "runPolicy ivs (smart_retries days) seed params = Inr as"
    and "runPolicy ivs (smart_retries (days @ later)) seed params = Inr bs" and "sorted (days @ later)"
  shows "list_all2 (\<lambda>a b. io_recovered a \<longrightarrow> b = a) as bs"
  using assms(1,2)
proof (induction ivs arbitrary: as bs)
  case (Cons iv ivs)
  then show ?case
    using longer_schedule_invoice [OF _ _ assms(3), of seed params iv] by (auto split: sum.splits)
qed simp

lemma all2_sum_le: "list_all2 (\<lambda>a b. f a \<le> (g b :: int)) as bs \<Longrightarrow> sum_list (map f as) \<le> sum_list (map g bs)"
  by (induction rule: list_all2_induct) auto

lemma all2_count_le: "list_all2 (\<lambda>a b. P a \<longrightarrow> Q b) as bs \<Longrightarrow> length (filter P as) \<le> length (filter Q bs)"
  by (induction rule: list_all2_induct) auto

lemma longer_schedule_money:
  assumes "list_all2 (\<lambda>a b. io_recovered a \<longrightarrow> b = a) as bs"
    and "\<And>a. a \<in> set as \<Longrightarrow> \<not> io_recovered a \<Longrightarrow> io_recoveredMinor a = 0"
    and "\<And>b. b \<in> set bs \<Longrightarrow> 0 \<le> io_recoveredMinor b"
  shows "sum_list (map io_recoveredMinor as) \<le> sum_list (map io_recoveredMinor bs)"
    and "length (filter io_recovered as) \<le> length (filter io_recovered bs)"
proof -
  have "list_all2 (\<lambda>a b. io_recoveredMinor a \<le> io_recoveredMinor b) as bs"
    using assms by (auto simp: list_all2_conv_all_nth)
  then show "sum_list (map io_recoveredMinor as) \<le> sum_list (map io_recoveredMinor bs)"
    by (rule all2_sum_le)
  have "list_all2 (\<lambda>a b. io_recovered a \<longrightarrow> io_recovered b) as bs"
    using assms(1) by (auto simp: list_all2_conv_all_nth)
  then show "length (filter io_recovered as) \<le> length (filter io_recovered bs)"
    by (rule all2_count_le)
qed

end
