(* ===== verification/Backtest.thy ===== *)
theory Backtest
  imports BacktestWorld Retrain Grouping BillableUplift RetrySequence Holdout
begin

text \<open>
  The offline backtest of \<open>packages/backtest/src\<close> over the world of theory \<open>BacktestWorld\<close>: the
  engine as a policy (\<open>policy/engine-policy.ts\<close>), the comparison of two arms through the estimator
  that bills (\<open>estimate.ts\<close>), the net value (\<open>economics.ts\<close>), the validity checks (\<open>checks.ts\<close>), the
  numbers of the report (\<open>report.ts\<close>) and the run (\<open>cli.ts\<close>).

  The digest of the hold-out is an argument. The texts of the report and its drawing are left out;
  a verdict is the case it takes with the values it prints.
\<close>

subsection \<open>The engine as a policy\<close>

definition engine_now :: int where "engine_now = 1577836800000"

definition credKind :: "CredentialAction \<Rightarrow> WorldActionKind" where
  "credKind a = (case a of CardRefresh \<Rightarrow> WCardRefresh | AlternateRail \<Rightarrow> WAlternateRail | Dunning \<Rightarrow> WCardUpdate)"

definition engine_features :: "ObservedInvoice \<Rightarrow> RecoveryFeatures" where
  "engine_features obs =
     \<lparr>f_declineCode = oi_declineCode obs, f_amountMinor = oi_amountMinor obs, f_currency = ''USD'',
      f_issuerRegion = oi_issuerRegion obs, f_cardType = None, f_customerTenureDays = 180,
      f_priorRecoveryRate = 0.35, f_attemptNumber = 1, f_daysSinceFirstFail = 0,
      f_issuerApprovalPrior = Some 0.5\<rparr>"

definition day_since :: "int \<Rightarrow> real" where
  "day_since t = of_int (t - engine_now) / of_int ms_per_day"

definition engine_credential_actions :: "CredentialStep list \<Rightarrow> PolicyAction list" where
  "engine_credential_actions steps =
     map (\<lambda>s. \<lparr>ra_day = day_since (cs_at s), ra_kind = credKind (cs_action s)\<rparr>) steps"

definition engine_retry_actions :: "RetryStep list \<Rightarrow> PolicyAction list" where
  "engine_retry_actions steps =
     map (\<lambda>s. \<lparr>ra_day = day_since (coalesce (rs_at s) 0),
               ra_kind = (if rs_action s = RecCardUpdate then WCardUpdate else WRetry)\<rparr>)
       (filter (\<lambda>s. rs_action s \<noteq> RecSuppress) steps)"

definition engine_policy :: policy where
  "engine_policy obs =
     (let features = engine_features obs in
      if isCredentialProblem (f_declineCode features) then
        (case planCredentialRecovery features (Some engine_now)
                [\<lparr>am_ref = ''pm_primary'', am_autoUpdated = None, am_isDefault = Some True\<rparr>,
                 \<lparr>am_ref = ''pm_backup'', am_autoUpdated = None, am_isDefault = Some False\<rparr>] of
           Inl e \<Rightarrow> Inl e
         | Inr steps \<Rightarrow> Inr (engine_credential_actions steps))
      else
        (case planRetrySequence (logistic_score BOOTSTRAP_RECOVERABILITY_WEIGHTS) features
                \<lparr>sq_now = Some engine_now,
                 sq_methods = Some [\<lparr>am_ref = ''pm_primary'', am_autoUpdated = None, am_isDefault = Some True\<rparr>],
                 sq_network = Some Visa, sq_minRecoverabilityToContinue = None\<rparr> of
           Inl e \<Rightarrow> Inl e
         | Inr steps \<Rightarrow> Inr (engine_retry_actions steps)))"

subsection \<open>Two arms through the estimator\<close>

definition backtest_merchant :: ident where "backtest_merchant = ''mrc_backtest''"

definition backtest_tier :: "int \<Rightarrow> MrrTier" where
  "backtest_tier minor =
     (if minor < 2000 then Micro else if minor < 10000 then Small else if minor < 50000 then Mid
      else if minor < 200000 then Large else Enterprise)"

definition sim_stratum :: "SimInvoice \<Rightarrow> Stratum" where
  "sim_stratum iv =
     \<lparr>st_mrrTier = backtest_tier (oi_amountMinor iv), st_declineFamily = familyOf (oi_declineCode iv),
      st_issuerRegion = oi_issuerRegion iv\<rparr>"

definition assign_sim :: "(string \<Rightarrow> string) \<Rightarrow> HoldoutConfig \<Rightarrow> SimInvoice \<Rightarrow> js_error + Assignment" where
  "assign_sim H holdout iv =
     assign H \<lparr>as_merchantId = backtest_merchant, as_customerId = Some (oi_customerId iv),
               as_invoiceId = oi_id iv, as_stratum = sim_stratum iv\<rparr> holdout"

fun splitArms :: "(string \<Rightarrow> string) \<Rightarrow> HoldoutConfig \<Rightarrow> SimInvoice list \<Rightarrow> js_error + SimInvoice list \<times> SimInvoice list" where
  "splitArms H holdout [] = Inr ([], [])"
| "splitArms H holdout (iv # invs) =
     (case assign_sim H holdout iv of
        Inl e \<Rightarrow> Inl e
      | Inr a \<Rightarrow>
          (case splitArms H holdout invs of
             Inl e \<Rightarrow> Inl e
           | Inr (c, t) \<Rightarrow> Inr (if asg_bucket a = Control then (iv # c, t) else (c, iv # t))))"

definition observation_of :: "Arm \<Rightarrow> InvoiceOutcome \<Rightarrow> UpliftObservation" where
  "observation_of arm oc =
     \<lparr>uo_arm = arm, uo_cluster = oi_customerId (io_invoice oc),
      uo_stratum = stratumKey (sim_stratum (io_invoice oc)), uo_outcome = of_int (io_recoveredMinor oc),
      uo_covariate = of_int (oi_amountMinor (io_invoice oc)), uo_recovered = io_recovered oc\<rparr>"

definition toObservations :: "InvoiceOutcome list \<Rightarrow> InvoiceOutcome list \<Rightarrow> UpliftObservation list" where
  "toObservations control treatment = map (observation_of ArmControl) control @ map (observation_of ArmTreatment) treatment"

record ArmResult =
  ax_controlOutcomes :: "InvoiceOutcome list"
  ax_treatmentOutcomes :: "InvoiceOutcome list"
  ax_estimate :: BillableUpliftResult

definition runComparison ::
  "(string \<Rightarrow> string) \<Rightarrow> SimInvoice list \<Rightarrow> policy \<Rightarrow> policy \<Rightarrow> int \<Rightarrow> int \<Rightarrow> WorldParams option \<Rightarrow>
     HoldoutConfig option \<Rightarrow> SequentialUpliftConfig option \<Rightarrow> js_error + ArmResult" where
  "runComparison H invoices controlPolicy treatmentPolicy controlSeed treatmentSeed world holdout estimator =
     (let params = coalesce world DEFAULT_WORLD_PARAMS in
      case splitArms H (coalesce holdout DEFAULT_HOLDOUT_CONFIG) invoices of
        Inl e \<Rightarrow> Inl e
      | Inr (control, treatment) \<Rightarrow>
          (case runPolicy control controlPolicy controlSeed params of
             Inl e \<Rightarrow> Inl e
           | Inr controlOutcomes \<Rightarrow>
               (case runPolicy treatment treatmentPolicy treatmentSeed params of
                  Inl e \<Rightarrow> Inl e
                | Inr treatmentOutcomes \<Rightarrow>
                    (case computeBillableUplift (toObservations controlOutcomes treatmentOutcomes)
                            (coalesce estimator DEFAULT_SEQUENTIAL_CONFIG) 0 of
                       Inl e \<Rightarrow> Inl e
                     | Inr est \<Rightarrow>
                         Inr \<lparr>ax_controlOutcomes = controlOutcomes, ax_treatmentOutcomes = treatmentOutcomes,
                              ax_estimate = est\<rparr>))))"

subsection \<open>Net value\<close>

record NetCost =
  nc_perAttemptMinor :: int
  nc_finePerViolationMinor :: int
  nc_excessiveRetryThreshold :: int
  nc_finePerExcessAttemptMinor :: int

definition DEFAULT_NET_COST :: NetCost where
  "DEFAULT_NET_COST =
     \<lparr>nc_perAttemptMinor = 20, nc_finePerViolationMinor = 100, nc_excessiveRetryThreshold = 6,
      nc_finePerExcessAttemptMinor = 200\<rparr>"

definition isViolationToRetry :: "DeclineCode \<Rightarrow> bool" where
  "isViolationToRetry code \<longleftrightarrow> familyOf code = Hard \<or> code = Fraudulent"

record NetValue =
  nv_n :: int
  nv_recoveredMinor :: int
  nv_attempts :: int
  nv_costMinor :: int
  nv_fineMinor :: int
  nv_netMinor :: int
  nv_netPerInvoice :: real
  nv_recoveredPerInvoice :: real
  nv_attemptsPerInvoice :: real

definition fine_of :: "NetCost \<Rightarrow> InvoiceOutcome \<Rightarrow> int" where
  "fine_of cost oc =
     (let r = int (io_retriesMade oc) in
      (if isViolationToRetry (oi_declineCode (io_invoice oc)) then r * nc_finePerViolationMinor cost else 0)
      + (if nc_excessiveRetryThreshold cost < r
         then (r - nc_excessiveRetryThreshold cost) * nc_finePerExcessAttemptMinor cost else 0))"

definition netValue :: "InvoiceOutcome list \<Rightarrow> NetCost \<Rightarrow> NetValue" where
  "netValue outcomes cost =
     (let recovered = sum_list (map io_recoveredMinor outcomes);
          attempts = sum_list (map (\<lambda>oc. int (io_retriesMade oc)) outcomes);
          costMinor = sum_list (map (\<lambda>oc. int (io_retriesMade oc) * nc_perAttemptMinor cost) outcomes);
          fineMinor = sum_list (map (fine_of cost) outcomes);
          netMinor = recovered - costMinor - fineMinor;
          n = (if outcomes = [] then 1 else length outcomes)
      in \<lparr>nv_n = int (length outcomes), nv_recoveredMinor = recovered, nv_attempts = attempts,
          nv_costMinor = costMinor, nv_fineMinor = fineMinor, nv_netMinor = netMinor,
          nv_netPerInvoice = of_int netMinor / of_nat n / 100,
          nv_recoveredPerInvoice = of_int recovered / of_nat n / 100,
          nv_attemptsPerInvoice = of_int attempts / of_nat n\<rparr>)"

subsection \<open>The validity checks\<close>

definition STANDARD_REACHES :: "real list list" where
  "STANDARD_REACHES = [[1, 4, 10, 18], [1, 4, 10, 18, 28], [1, 4, 10, 18, 28, 35]]"

text \<open>\<open>xs.map(f)\<close> where \<open>f\<close> may throw.\<close>

fun map_throw :: "('a \<Rightarrow> js_error + 'b) \<Rightarrow> 'a list \<Rightarrow> js_error + 'b list" where
  "map_throw f [] = Inr []"
| "map_throw f (x # xs) =
     (case f x of Inl e \<Rightarrow> Inl e
      | Inr y \<Rightarrow> (case map_throw f xs of Inl e \<Rightarrow> Inl e | Inr ys \<Rightarrow> Inr (y # ys)))"

record AaResult =
  aa_rateDiff :: real
  aa_lowerPer :: real
  aa_billable :: bool
  aa_passed :: bool

definition aaTest :: "(string \<Rightarrow> string) \<Rightarrow> nat \<Rightarrow> int \<Rightarrow> js_error + AaResult" where
  "aaTest H nCustomers seed =
     (case runComparison H (generateStream nCustomers seed DEFAULT_WORLD_PARAMS) engine_policy engine_policy
             (deriveSeed seed ''aa-control'') (deriveSeed seed ''aa-treatment'') None None None of
        Inl e \<Rightarrow> Inl e
      | Inr r \<Rightarrow>
          (let est = ax_estimate r in
           Inr \<lparr>aa_rateDiff = br_rateDiff est, aa_lowerPer = br_lowerPer est, aa_billable = br_billable est,
                aa_passed = (br_lowerPer est = 0 \<and> \<not> br_billable est)\<rparr>))"

record PowerPoint =
  pw_liftPp :: int
  pw_minInvoices :: "int option"
  pw_controlClustersAtDetect :: "int option"

definition emit_row :: "int \<Rightarrow> Arm \<Rightarrow> real \<Rightarrow> SimInvoice \<Rightarrow> UpliftObservation" where
  "emit_row seed arm rate iv =
     (let recovered = fst (run_state (bernoulli rate)
            (world_seed (deriveSeed seed (arm_value arm @ '':'' @ oi_id iv))))
      in \<lparr>uo_arm = arm, uo_cluster = oi_customerId iv, uo_stratum = stratumKey (sim_stratum iv),
          uo_outcome = (if recovered then of_int (oi_amountMinor iv) else 0),
          uo_covariate = of_int (oi_amountMinor iv), uo_recovered = recovered\<rparr>)"

definition syntheticLiftObservations ::
  "(string \<Rightarrow> string) \<Rightarrow> nat \<Rightarrow> int \<Rightarrow> real \<Rightarrow> int \<Rightarrow> js_error + UpliftObservation list" where
  "syntheticLiftObservations H nCustomers seed controlRate liftPp =
     (case splitArms H DEFAULT_HOLDOUT_CONFIG
             (generateStream nCustomers (deriveSeed seed ''power'') DEFAULT_WORLD_PARAMS) of
        Inl e \<Rightarrow> Inl e
      | Inr (control, treatment) \<Rightarrow>
          Inr (map (emit_row seed ArmControl controlRate) control @
               map (emit_row seed ArmTreatment (controlRate + of_int liftPp / 100)) treatment))"

fun power_point :: "(string \<Rightarrow> string) \<Rightarrow> int \<Rightarrow> real \<Rightarrow> int \<Rightarrow> nat list \<Rightarrow> js_error + PowerPoint" where
  "power_point H seed controlRate liftPp [] =
     Inr \<lparr>pw_liftPp = liftPp, pw_minInvoices = None, pw_controlClustersAtDetect = None\<rparr>"
| "power_point H seed controlRate liftPp (nCustomers # sizes) =
     (case syntheticLiftObservations H nCustomers (deriveSeed seed (''p'' @ show_int liftPp)) controlRate liftPp of
        Inl e \<Rightarrow> Inl e
      | Inr obs \<Rightarrow>
          (case computeBillableUplift obs DEFAULT_SEQUENTIAL_CONFIG 0 of
             Inl e \<Rightarrow> Inl e
           | Inr est \<Rightarrow>
               if 0 < br_lowerPer est \<and> br_billable est then
                 Inr \<lparr>pw_liftPp = liftPp, pw_minInvoices = Some (int (length obs)),
                      pw_controlClustersAtDetect = Some (br_controlClusters est)\<rparr>
               else power_point H seed controlRate liftPp sizes))"

definition POWER_SIZES :: "nat list" where
  "POWER_SIZES = [1000, 2000, 4000, 8000, 16000, 32000, 64000, 128000, 256000]"

definition powerCurve :: "(string \<Rightarrow> string) \<Rightarrow> int \<Rightarrow> int list \<Rightarrow> real option \<Rightarrow> js_error + PowerPoint list" where
  "powerCurve H seed liftsPp controlRate =
     map_throw (\<lambda>liftPp. power_point H seed (coalesce controlRate 0.3) liftPp POWER_SIZES) liftsPp"

record BaselineReachPoint =
  rp_lastDay :: real
  rp_controlRate :: real
  rp_treatmentRate :: real
  rp_rateDiff :: real

definition baselineReachSweep :: "(string \<Rightarrow> string) \<Rightarrow> nat \<Rightarrow> int \<Rightarrow> js_error + BaselineReachPoint list" where
  "baselineReachSweep H nCustomers seed =
     (let invoices = generateStream nCustomers seed DEFAULT_WORLD_PARAMS in
      map_throw (\<lambda>days.
        case runComparison H invoices (smart_retries days) engine_policy
               (deriveSeed seed ''reach-ctrl'') (deriveSeed seed ''reach-treat'') None None None of
          Inl e \<Rightarrow> Inl e
        | Inr r \<Rightarrow>
            (let est = ax_estimate r in
             Inr \<lparr>rp_lastDay = last days, rp_controlRate = br_controlRate est,
                  rp_treatmentRate = br_treatmentRate est, rp_rateDiff = br_rateDiff est\<rparr>)) STANDARD_REACHES)"

record NetValuePoint =
  np_baselineLastDay :: real
  np_engine :: NetValue
  np_baseline :: NetValue
  np_engineWins :: bool

definition netValueComparison :: "nat \<Rightarrow> int \<Rightarrow> NetCost \<Rightarrow> js_error + NetValuePoint list" where
  "netValueComparison nCustomers seed cost =
     (let invoices = generateStream nCustomers seed DEFAULT_WORLD_PARAMS in
      case runPolicy invoices engine_policy (deriveSeed seed ''nv'') DEFAULT_WORLD_PARAMS of
        Inl e \<Rightarrow> Inl e
      | Inr engineOut \<Rightarrow>
          map_throw (\<lambda>days.
            case runPolicy invoices (smart_retries days) (deriveSeed seed ''nv'') DEFAULT_WORLD_PARAMS of
              Inl e \<Rightarrow> Inl e
            | Inr baseOut \<Rightarrow>
                (let eng = netValue engineOut cost; base = netValue baseOut cost in
                 Inr \<lparr>np_baselineLastDay = last days, np_engine = eng, np_baseline = base,
                      np_engineWins = (nv_netPerInvoice base < nv_netPerInvoice eng)\<rparr>)) STANDARD_REACHES)"

record FineSensitivityPoint =
  fp_finePerViolation :: int
  fp_engineNetPerInvoice :: real
  fp_baselineNetPerInvoice :: real
  fp_engineWins :: bool

definition fine_point :: "InvoiceOutcome list \<Rightarrow> InvoiceOutcome list \<Rightarrow> int \<Rightarrow> FineSensitivityPoint" where
  "fine_point engineOut baseOut f =
     (let cost = DEFAULT_NET_COST\<lparr>nc_finePerViolationMinor := f, nc_finePerExcessAttemptMinor := f * 2\<rparr>;
          eng = netValue engineOut cost; base = netValue baseOut cost
      in \<lparr>fp_finePerViolation = f, fp_engineNetPerInvoice = nv_netPerInvoice eng,
          fp_baselineNetPerInvoice = nv_netPerInvoice base,
          fp_engineWins = (nv_netPerInvoice base < nv_netPerInvoice eng)\<rparr>)"

definition fineSensitivity :: "nat \<Rightarrow> int \<Rightarrow> js_error + FineSensitivityPoint list" where
  "fineSensitivity nCustomers seed =
     (let invoices = generateStream nCustomers seed DEFAULT_WORLD_PARAMS in
      case runPolicy invoices engine_policy (deriveSeed seed ''fs'') DEFAULT_WORLD_PARAMS of
        Inl e \<Rightarrow> Inl e
      | Inr engineOut \<Rightarrow>
          (case runPolicy invoices (smart_retries [1, 4, 10, 18, 28, 35]) (deriveSeed seed ''fs'') DEFAULT_WORLD_PARAMS of
             Inl e \<Rightarrow> Inl e
           | Inr baseOut \<Rightarrow> Inr (map (fine_point engineOut baseOut) [0, 50, 100, 250, 500, 1000, 2000])))"

datatype WorldParam = RecoverableScale | OnsetScale | WindowScale | ResidualScale | NsfShareScale | CredEdgeScale

fun set_param :: "WorldParam \<Rightarrow> real \<Rightarrow> WorldParams \<Rightarrow> WorldParams" where
  "set_param RecoverableScale f w = w\<lparr>wp_recoverableScale := f\<rparr>"
| "set_param OnsetScale f w = w\<lparr>wp_onsetScale := f\<rparr>"
| "set_param WindowScale f w = w\<lparr>wp_windowScale := f\<rparr>"
| "set_param ResidualScale f w = w\<lparr>wp_residualScale := f\<rparr>"
| "set_param NsfShareScale f w = w\<lparr>wp_nsfShareScale := f\<rparr>"
| "set_param CredEdgeScale f w = w\<lparr>wp_credEdgeScale := f\<rparr>"

record SensitivityPoint =
  se_param :: WorldParam
  se_factor :: real
  se_rateDiff :: real
  se_lowerPer :: real
  se_billable :: bool

definition sensitivity_point :: "(string \<Rightarrow> string) \<Rightarrow> nat \<Rightarrow> int \<Rightarrow> WorldParam \<times> real \<Rightarrow> js_error + SensitivityPoint" where
  "sensitivity_point H nCustomers seed pf =
     (let world = set_param (fst pf) (snd pf) DEFAULT_WORLD_PARAMS in
      case runComparison H (generateStream nCustomers seed world) (smart_retries SMART_RETRIES_SCHEDULE_DAYS)
             engine_policy (deriveSeed seed ''ctrl'') (deriveSeed seed ''treat'') (Some world) None None of
        Inl e \<Rightarrow> Inl e
      | Inr r \<Rightarrow>
          (let est = ax_estimate r in
           Inr \<lparr>se_param = fst pf, se_factor = snd pf, se_rateDiff = br_rateDiff est,
                se_lowerPer = br_lowerPer est, se_billable = br_billable est\<rparr>))"

definition sensitivitySweep :: "(string \<Rightarrow> string) \<Rightarrow> nat \<Rightarrow> int \<Rightarrow> js_error + SensitivityPoint list" where
  "sensitivitySweep H nCustomers seed =
     map_throw (sensitivity_point H nCustomers seed)
       (List.product [RecoverableScale, OnsetScale, WindowScale, ResidualScale, NsfShareScale, CredEdgeScale] [0.7, 1.3])"

subsection \<open>The numbers of the report\<close>

record CodeBreak =
  cb_code :: DeclineCode
  cb_share :: real
  cb_controlRate :: real
  cb_treatmentRate :: real
  cb_controlN :: int
  cb_treatmentN :: int

definition with_code :: "InvoiceOutcome list \<Rightarrow> DeclineCode \<Rightarrow> InvoiceOutcome list" where
  "with_code outcomes code = filter (\<lambda>oc. oi_declineCode (io_invoice oc) = code) outcomes"

definition code_rate :: "InvoiceOutcome list \<Rightarrow> DeclineCode \<Rightarrow> real" where
  "code_rate outcomes code =
     (let arm = with_code outcomes code in
      if arm = [] then 0 else of_nat (length (filter io_recovered arm)) / of_nat (length arm))"

definition computeByCode :: "InvoiceOutcome list \<Rightarrow> InvoiceOutcome list \<Rightarrow> CodeBreak list" where
  "computeByCode control treatment =
     (let n = length control + length treatment;
          total = (if n = 0 then 1 else n);
          codes = first_keys (map (\<lambda>oc. oi_declineCode (io_invoice oc)) (control @ treatment))
      in sort_key (\<lambda>b. - cb_share b)
           (map (\<lambda>code.
              \<lparr>cb_code = code,
               cb_share = of_nat (length (with_code control code) + length (with_code treatment code)) / of_nat total,
               cb_controlRate = code_rate control code, cb_treatmentRate = code_rate treatment code,
               cb_controlN = int (length (with_code control code)),
               cb_treatmentN = int (length (with_code treatment code))\<rparr>) codes))"

definition cumulativePerInvoice :: "InvoiceOutcome list \<Rightarrow> nat \<Rightarrow> real list" where
  "cumulativePerInvoice outcomes maxDay =
     (let n = (if outcomes = [] then 1 else length outcomes) in
      map (\<lambda>day. of_int (sum_list (map (\<lambda>oc.
              if io_recovered oc \<and> (case io_recoveryDay oc of None \<Rightarrow> False | Some d \<Rightarrow> d \<le> of_nat day)
              then io_recoveredMinor oc else 0) outcomes)) / of_nat n / 100) [0..<maxDay + 1])"

datatype Verdict = DoesNotBeat real | Beats real int | Inconclusive real "GateReason list"

definition computeVerdict :: "BillableUpliftResult \<Rightarrow> Verdict" where
  "computeVerdict est =
     (if br_rateDiff est \<le> 0 then DoesNotBeat (br_rateDiff est)
      else if br_billable est \<and> 0 < br_lowerPer est then Beats (br_rateDiff est) (amount (br_fee est))
      else Inconclusive (br_rateDiff est) (br_gateReasons est))"

subsection \<open>The run\<close>

definition STREAM_SEED :: int where "STREAM_SEED = 20260814"
definition N_CUSTOMERS :: nat where "N_CUSTOMERS = 40000"

datatype Caveat = NoCaveat | LosesToPersistent real real | ParityWithPersistent real real

definition reach_caveat :: "BaselineReachPoint list \<Rightarrow> Caveat" where
  "reach_caveat reach =
     (if reach = [] then NoCaveat
      else
        (let rFirst = hd reach; rLast = last reach in
         if rp_rateDiff rLast < - 0.02 then LosesToPersistent (rp_rateDiff rFirst) (rp_rateDiff rLast)
         else if \<bar>rp_rateDiff rLast\<bar> \<le> 0.04 then ParityWithPersistent (rp_rateDiff rFirst) (rp_rateDiff rLast)
         else NoCaveat))"

record RunResults =
  rr_controlSummary :: ArmSummary
  rr_treatmentSummary :: ArmSummary
  rr_estimate :: BillableUpliftResult
  rr_aa :: AaResult
  rr_power :: "PowerPoint list"
  rr_sensitivity :: "SensitivityPoint list"
  rr_baselineReach :: "BaselineReachPoint list"
  rr_netValue :: "NetValuePoint list"
  rr_fineSensitivity :: "FineSensitivityPoint list"
  rr_byCode :: "CodeBreak list"
  rr_verdict :: "Verdict \<times> Caveat"

definition runBacktest :: "(string \<Rightarrow> string) \<Rightarrow> js_error + RunResults" where
  "runBacktest H =
     (case runComparison H (generateStream N_CUSTOMERS STREAM_SEED DEFAULT_WORLD_PARAMS)
             (smart_retries SMART_RETRIES_SCHEDULE_DAYS) engine_policy
             (deriveSeed STREAM_SEED ''control'') (deriveSeed STREAM_SEED ''treatment'') None None None of
        Inl e \<Rightarrow> Inl e
      | Inr cmp \<Rightarrow>
     (case baselineReachSweep H 20000 (deriveSeed STREAM_SEED ''reach'') of Inl e \<Rightarrow> Inl e | Inr reach \<Rightarrow>
     (case aaTest H N_CUSTOMERS (deriveSeed STREAM_SEED ''aa'') of Inl e \<Rightarrow> Inl e | Inr aa \<Rightarrow>
     (case powerCurve H (deriveSeed STREAM_SEED ''power'') [1, 3, 5, 10] None of Inl e \<Rightarrow> Inl e | Inr pows \<Rightarrow>
     (case sensitivitySweep H 20000 (deriveSeed STREAM_SEED ''sens'') of Inl e \<Rightarrow> Inl e | Inr sens \<Rightarrow>
     (case netValueComparison N_CUSTOMERS (deriveSeed STREAM_SEED ''nv'') DEFAULT_NET_COST of Inl e \<Rightarrow> Inl e | Inr nv \<Rightarrow>
     (case fineSensitivity N_CUSTOMERS (deriveSeed STREAM_SEED ''fs'') of Inl e \<Rightarrow> Inl e | Inr fines \<Rightarrow>
        Inr \<lparr>rr_controlSummary = armSummary (ax_controlOutcomes cmp),
             rr_treatmentSummary = armSummary (ax_treatmentOutcomes cmp), rr_estimate = ax_estimate cmp,
             rr_aa = aa, rr_power = pows, rr_sensitivity = sens, rr_baselineReach = reach, rr_netValue = nv,
             rr_fineSensitivity = fines,
             rr_byCode = computeByCode (ax_controlOutcomes cmp) (ax_treatmentOutcomes cmp),
             rr_verdict = (computeVerdict (ax_estimate cmp), reach_caveat reach)\<rparr>)))))))"

subsection \<open>The engine never throws and stays inside the window\<close>

lemma world_generator_is_engine_generator: "world_next = mulberry32" "world_seed = mulberry32_seed"
  by (simp_all add: fun_eq_iff world_next_def mulberry32_def world_seed_def mulberry32_seed_def)

lemma credential_pushes_days: "(d, a, r) \<in> set (credential_pushes family alt) \<Longrightarrow> 1 \<le> d \<and> d \<le> 31"
  by (auto simp: credential_pushes_def split: if_splits)

text \<open>The whole plan for a dead credential, and what it may contain.\<close>

lemma engine_credential_plan:
  assumes "isCredentialProblem (oi_declineCode obs)"
  obtains as where "engine_policy obs = Inr as"
    "\<And>a. a \<in> set as \<Longrightarrow> ra_kind a \<noteq> WRetry \<and> 1 \<le> ra_day a \<and> ra_day a \<le> 31"
proof -
  define pushes where "pushes = credential_pushes (familyOf (oi_declineCode obs)) (Some ''pm_backup'')"
  have "\<forall>(d, a, r)\<in>set pushes. \<bar>engine_now + d * ms_per_day\<bar> \<le> max_time_ms"
    using credential_pushes_days by (fastforce simp: pushes_def engine_now_def max_time_ms_def)
  then obtain steps where steps: "push_steps (Some engine_now) pushes = Inr steps"
    using push_steps_total by blast
  have e: "engine_policy obs = Inr (engine_credential_actions (sort_key cs_at steps))"
    using assms steps
    by (simp add: engine_policy_def engine_features_def planCredentialRecovery_def Let_def pushes_def truthy_def)
  have "ra_kind a \<noteq> WRetry \<and> 1 \<le> ra_day a \<and> ra_day a \<le> 31" if a: "a \<in> set (engine_credential_actions (sort_key cs_at steps))" for a
  proof -
    obtain d c r where m: "(d, c, r) \<in> set pushes" and a: "ra_day a = day_since (engine_now + d * ms_per_day)" "ra_kind a = credKind c"
      using a push_steps_map [OF steps] by (auto simp: engine_credential_actions_def)
    have "ra_day a = of_int d" by (simp add: a(1) day_since_def)
    with a(2) credential_pushes_days [OF m [unfolded pushes_def]] show ?thesis by (cases c) (auto simp: credKind_def)
  qed
  with e show ?thesis by (rule that)
qed

lemma walk_cadence_total:
  assumes "\<bar>cursor\<bar> + sum_list ds * ms_per_minute \<le> max_time_ms" "\<forall>d\<in>set ds. 0 < d"
  shows "\<exists>steps. walk_cadence model ms f (Some now) rot dflt alt i cursor ds = Inr steps"
  using assms
proof (induction ds arbitrary: i cursor)
  case (Cons d ds)
  have nn: "0 \<le> sum_list ds" using Cons.prems(2) by (intro sum_list_nonneg) auto
  have c: "\<bar>cursor + d * ms_per_minute\<bar> + sum_list ds * ms_per_minute \<le> max_time_ms"
    using Cons.prems by (auto simp: algebra_simps)
  then have "\<bar>cursor + d * ms_per_minute\<bar> \<le> max_time_ms" using nn by simp
  moreover obtain rest where "walk_cadence model ms f (Some now) rot dflt alt (Suc i) (cursor + d * ms_per_minute) ds = Inr rest"
    using Cons.IH [OF c] Cons.prems(2) by auto
  ultimately show ?case by (auto simp: Let_def to_iso_string_def)
qed simp

lemma walk_cadence_last:
  assumes "walk_cadence model ms f now rot dflt alt i cursor ds = Inr steps" "\<forall>d\<in>set ds. 0 < d" "s \<in> set steps"
  shows "\<exists>t. rs_at s = Some t \<and> cursor < t \<and> t \<le> cursor + sum_list ds * ms_per_minute \<and> rs_action s = RecRetry"
  using assms
proof (induction ds arbitrary: i cursor steps)
  case (Cons d ds)
  have nn: "0 \<le> sum_list ds" using Cons.prems(2) by (intro sum_list_nonneg) auto
  from Cons.prems(1) show ?case
  proof (cases rule: walk_cadence_turn)
    case stop
    with Cons.prems show ?thesis by simp
  next
    case (push s' rest n b)
    show ?thesis
    proof (cases "s = s'")
      case True
      with push Cons.prems(2) nn show ?thesis by (auto simp: algebra_simps)
    next
      case False
      then have "s \<in> set rest" using Cons.prems(3) push(1) by simp
      with Cons.IH [OF push(3)] Cons.prems(2) obtain t where
        "rs_at s = Some t" "cursor + d * ms_per_minute < t"
        "t \<le> cursor + d * ms_per_minute + sum_list ds * ms_per_minute" "rs_action s = RecRetry" by auto
      with Cons.prems(2) show ?thesis by (auto simp: algebra_simps)
    qed
  qed
qed simp

lemma visa_cadence: "sum_list (str_delaysMinutes (strategyFor c Visa)) \<le> 40320"
  by (cases c; simp add: strategyFor_def classifyDecline_def Let_def)

lemma visa_cadence_length: "length (str_delaysMinutes (strategyFor c Visa)) \<le> 4"
  using strategy_within_network_cap [of c Visa] by simp

lemma visa_plan:
  assumes "isRetriable (f_declineCode f)" "sq_network ctx = Some Visa" "sq_now ctx = Some now"
    and "\<bar>now\<bar> + 40320 * ms_per_minute \<le> max_time_ms"
  obtains steps where "planRetrySequence model f ctx = Inr steps" "length steps \<le> 4"
    "\<And>s. s \<in> set steps \<Longrightarrow> \<exists>t. rs_at s = Some t \<and> now < t \<and> t \<le> now + 40320 * ms_per_minute"
proof -
  let ?S = "strategyFor (f_declineCode f) Visa"
  let ?ms = "coalesce (sq_minRecoverabilityToContinue ctx) DEFAULT_MIN_RECOVERABILITY"
  let ?walk = "walk_cadence model ?ms f (Some now) (str_rotateMethodAfterAttempt ?S) (pickDefault (sq_methods ctx))
      (pickAlternate (sq_methods ctx)) 0 now (str_delaysMinutes ?S)"
  have pos: "\<forall>d\<in>set (str_delaysMinutes ?S). 0 < d" using strategy_delays_positive by blast
  note sum = visa_cadence [of "f_declineCode f"]
  have e: "planRetrySequence model f ctx = ?walk"
    unfolding planRetrySequence_retriable [OF assms(1)] by (simp add: assms(2,3) Let_def)
  have "\<bar>now\<bar> + sum_list (str_delaysMinutes ?S) * ms_per_minute \<le> max_time_ms"
    using sum assms(4) by simp
  from walk_cadence_total [OF this pos] obtain steps where steps: "?walk = Inr steps" by blast
  have "length steps \<le> 4"
    using walk_cadence_length [OF steps] visa_cadence_length [of "f_declineCode f"] by simp
  moreover have "\<exists>t. rs_at s = Some t \<and> now < t \<and> t \<le> now + 40320 * ms_per_minute" if "s \<in> set steps" for s
    using walk_cadence_last [OF steps pos that] sum by force
  ultimately show ?thesis using that e steps by simp
qed

lemma engine_retry_plan:
  assumes "isRetriable (oi_declineCode obs)"
  obtains as where "engine_policy obs = Inr as" "length as \<le> 4"
    "\<And>a. a \<in> set as \<Longrightarrow> 0 < ra_day a \<and> ra_day a \<le> 28"
proof -
  let ?ctx = "\<lparr>sq_now = Some engine_now,
      sq_methods = Some [\<lparr>am_ref = ''pm_primary'', am_autoUpdated = None, am_isDefault = Some True\<rparr>],
      sq_network = Some Visa, sq_minRecoverabilityToContinue = None\<rparr>"
  let ?model = "logistic_score BOOTSTRAP_RECOVERABILITY_WEIGHTS"
  have code: "f_declineCode (engine_features obs) = oi_declineCode obs" by (simp add: engine_features_def)
  have r: "isRetriable (f_declineCode (engine_features obs))" using assms by (simp add: code)
  have "\<bar>engine_now\<bar> + 40320 * ms_per_minute \<le> max_time_ms" by (simp add: engine_now_def max_time_ms_def)
  from visa_plan [where ctx = ?ctx and now = engine_now and model = ?model, OF r _ _ this]
  obtain steps where steps: "planRetrySequence ?model (engine_features obs) ?ctx = Inr steps" "length steps \<le> 4"
    and at: "\<And>s. s \<in> set steps \<Longrightarrow> \<exists>t. rs_at s = Some t \<and> engine_now < t \<and> t \<le> engine_now + 40320 * ms_per_minute"
    by auto
  have "\<not> isCredentialProblem (oi_declineCode obs)" using assms decline_routes by blast
  then have e: "engine_policy obs = Inr (engine_retry_actions steps)"
    by (simp add: engine_policy_def Let_def code steps(1))
  have "length (engine_retry_actions steps) \<le> 4"
    unfolding engine_retry_actions_def length_map using length_filter_le steps(2) by (rule le_trans)
  moreover have "0 < ra_day a \<and> ra_day a \<le> 28" if a: "a \<in> set (engine_retry_actions steps)" for a
  proof -
    obtain s where s: "s \<in> set steps" "ra_day a = day_since (coalesce (rs_at s) 0)"
      using a by (auto simp: engine_retry_actions_def)
    obtain t where t: "rs_at s = Some t" "engine_now < t" "t \<le> engine_now + 40320 * ms_per_minute"
      using at [OF s(1)] by blast
    have "of_int (t - engine_now) \<le> (of_int (40320 * ms_per_minute) :: real)"
      using t(3) by (subst of_int_le_iff) simp
    then show ?thesis using t(2) by (simp add: s(2) t(1) day_since_def)
  qed
  ultimately show ?thesis using that e by blast
qed

lemma engine_fraud_plan: "oi_declineCode obs = Fraudulent \<Longrightarrow> engine_policy obs = Inr []"
  by (simp add: engine_policy_def engine_features_def Let_def isCredentialProblem_def classifyDecline_def
      planRetrySequence_def engine_retry_actions_def)

lemma engine_cases:
  obtains (credential) as where "isViolationToRetry (oi_declineCode obs) \<or> oi_declineCode obs = ExpiredCard"
      "engine_policy obs = Inr as" "\<And>a. a \<in> set as \<Longrightarrow> ra_kind a \<noteq> WRetry \<and> 1 \<le> ra_day a \<and> ra_day a \<le> 31"
  | (retry) as where "\<not> isViolationToRetry (oi_declineCode obs)"
      "engine_policy obs = Inr as" "length as \<le> 4" "\<And>a. a \<in> set as \<Longrightarrow> 0 < ra_day a \<and> ra_day a \<le> 28"
proof -
  consider "isCredentialProblem (oi_declineCode obs)" | "isRetriable (oi_declineCode obs)" | "oi_declineCode obs = Fraudulent"
    using decline_routes [of "oi_declineCode obs"] by blast
  then show ?thesis
  proof cases
    case 1
    from 1 obtain as where "engine_policy obs = Inr as"
        "\<And>a. a \<in> set as \<Longrightarrow> ra_kind a \<noteq> WRetry \<and> 1 \<le> ra_day a \<and> ra_day a \<le> 31"
      by (rule engine_credential_plan) blast
    moreover have "isViolationToRetry (oi_declineCode obs) \<or> oi_declineCode obs = ExpiredCard"
      using 1 by (auto simp: isCredentialProblem_iff isViolationToRetry_def)
    ultimately show ?thesis using credential by blast
  next
    case 2
    from 2 obtain as where "engine_policy obs = Inr as" "length as \<le> 4"
        "\<And>a. a \<in> set as \<Longrightarrow> 0 < ra_day a \<and> ra_day a \<le> 28"
      by (rule engine_retry_plan) blast
    moreover have "\<not> isViolationToRetry (oi_declineCode obs)"
      using 2 by (auto simp: isRetriable_iff isViolationToRetry_def)
    ultimately show ?thesis using retry by blast
  next
    case 3
    then show ?thesis using credential [of "[]"] engine_fraud_plan by (simp add: isViolationToRetry_def)
  qed
qed

lemma engine_total: "\<exists>as. engine_policy obs = Inr as"
  by (rule engine_cases [of obs]) blast+

lemma retries_none: "(\<And>a. a \<in> set as \<Longrightarrow> ra_kind a \<noteq> WRetry) \<Longrightarrow> retries_in as = 0"
  by (simp add: retries_in_def filter_empty_conv)

lemma retries_le_length: "retries_in as \<le> length as"
  by (simp add: retries_in_def)

text \<open>The engine retries no decline that must not be retried, and never more than four times.\<close>

lemma engine_retries:
  assumes "run_invoice engine_policy seed params iv = Inr oc"
  shows "io_retriesMade oc \<le> 4" "isViolationToRetry (oi_declineCode iv) \<Longrightarrow> io_retriesMade oc = 0"
proof -
  have code: "oi_declineCode (observed iv) = oi_declineCode iv"
    by (simp add: observed_def ObservedInvoice.truncate_def)
  have "io_retriesMade oc \<le> 4 \<and> (isViolationToRetry (oi_declineCode iv) \<longrightarrow> io_retriesMade oc = 0)"
  proof (rule engine_cases [of "observed iv"])
    fix as
    assume "engine_policy (observed iv) = Inr as"
      and "\<And>a. a \<in> set as \<Longrightarrow> ra_kind a \<noteq> WRetry \<and> 1 \<le> ra_day a \<and> ra_day a \<le> 31"
    with run_invoice_ok(1) [OF assms] retries_none [of as] show ?thesis by (auto simp: outcome_ok_def)
  next
    fix as
    assume "\<not> isViolationToRetry (oi_declineCode (observed iv))" "engine_policy (observed iv) = Inr as" "length as \<le> 4"
    with run_invoice_ok(1) [OF assms] retries_le_length [of as] code show ?thesis by (auto simp: outcome_ok_def)
  qed
  then show "io_retriesMade oc \<le> 4" "isViolationToRetry (oi_declineCode iv) \<Longrightarrow> io_retriesMade oc = 0" by auto
qed

subsection \<open>Net value\<close>

lemma list_all2_set2: "list_all2 P xs ys \<Longrightarrow> y \<in> set ys \<Longrightarrow> \<exists>x\<in>set xs. P x y"
  by (induction rule: list_all2_induct) auto

lemma engine_fine:
  assumes "runPolicy ivs engine_policy seed params = Inr ocs" "4 \<le> nc_excessiveRetryThreshold cost"
  shows "nv_fineMinor (netValue ocs cost) = 0"
proof -
  have "fine_of cost oc = 0" if oc: "oc \<in> set ocs" for oc
  proof -
    obtain iv where iv: "run_invoice engine_policy seed params iv = Inr oc"
      using list_all2_set2 [OF runPolicy_list_all2 [OF assms(1)] oc] by blast
    show ?thesis
      using engine_retries [OF iv] assms(2) run_invoice_invoice [OF iv] by (auto simp: fine_of_def Let_def)
  qed
  then have "sum_list (map (fine_of cost) ocs) = 0" by (induction ocs) auto
  then show ?thesis by (simp add: netValue_def Let_def)
qed

lemma netValue_append:
  "nv_netMinor (netValue (xs @ ys) cost) = nv_netMinor (netValue xs cost) + nv_netMinor (netValue ys cost)"
  by (simp add: netValue_def Let_def)

subsection \<open>Splitting the stream\<close>

text \<open>With a legal fraction the split is total: it keeps every invoice, in one arm.\<close>

lemma assign_sim_total:
  assumes "0 \<le> ho_controlFraction holdout" "ho_controlFraction holdout < 1"
  shows "\<exists>a. assign_sim H holdout iv = Inr a"
  using assms by (auto simp: assign_sim_def assign_def Let_def)

definition sim_arm :: "(string \<Rightarrow> string) \<Rightarrow> HoldoutConfig \<Rightarrow> SimInvoice \<Rightarrow> Bucket" where
  "sim_arm H holdout iv = (case assign_sim H holdout iv of Inr a \<Rightarrow> asg_bucket a | Inl _ \<Rightarrow> Treatment)"

lemma splitArms_eq:
  assumes "0 \<le> ho_controlFraction holdout" "ho_controlFraction holdout < 1"
  shows "splitArms H holdout ivs =
     Inr (filter (\<lambda>iv. sim_arm H holdout iv = Control) ivs, filter (\<lambda>iv. sim_arm H holdout iv \<noteq> Control) ivs)"
proof (induction ivs)
  case (Cons iv ivs)
  obtain a where "assign_sim H holdout iv = Inr a" using assign_sim_total [OF assms] by blast
  with Cons show ?case by (simp add: sim_arm_def)
qed simp

text \<open>The arm depends on the customer only, so a customer's invoices stay together.\<close>

lemma sim_arm_customer:
  assumes "oi_customerId a = oi_customerId b" "oi_customerId a \<noteq> []"
  shows "sim_arm H holdout a = sim_arm H holdout b"
  using assms by (simp add: sim_arm_def assign_sim_def assign_def bucket_material_def is_guest_def Let_def)

subsection \<open>The comparison\<close>

lemma default_configs:
  "config_error DEFAULT_SEQUENTIAL_CONFIG = None"
  "0 \<le> ho_controlFraction DEFAULT_HOLDOUT_CONFIG" "ho_controlFraction DEFAULT_HOLDOUT_CONFIG < 1"
  by (simp_all add: config_error_None DEFAULT_SEQUENTIAL_CONFIG_def DEFAULT_HOLDOUT_CONFIG_def)

definition total_policy :: "policy \<Rightarrow> bool" where
  "total_policy plan \<longleftrightarrow> (\<forall>obs. \<exists>as. plan obs = Inr as)"

lemma total_policies: "total_policy engine_policy" "total_policy (smart_retries days)"
  using engine_total by (auto simp: total_policy_def smart_retries_plan)

lemma arm_total: "total_policy plan \<Longrightarrow> \<exists>ocs. runPolicy ivs plan seed params = Inr ocs"
  by (rule runPolicy_total) (simp add: total_policy_def)

lemma comparison_total:
  assumes "total_policy p" "total_policy q"
  shows "\<exists>r. runComparison H ivs p q s1 s2 world None None = Inr r"
proof -
  let ?w = "coalesce world DEFAULT_WORLD_PARAMS"
  obtain a where "runPolicy (filter (\<lambda>iv. sim_arm H DEFAULT_HOLDOUT_CONFIG iv = Control) ivs) p s1 ?w = Inr a"
    using arm_total [OF assms(1)] by blast
  moreover obtain b where "runPolicy (filter (\<lambda>iv. sim_arm H DEFAULT_HOLDOUT_CONFIG iv \<noteq> Control) ivs) q s2 ?w = Inr b"
    using arm_total [OF assms(2)] by blast
  moreover obtain e where "computeBillableUplift (toObservations a b) DEFAULT_SEQUENTIAL_CONFIG 0 = Inr e"
    using billable_ok_iff default_configs(1) by blast
  ultimately show ?thesis
    by (simp add: runComparison_def Let_def splitArms_eq [OF default_configs(2,3)])
qed

text \<open>The two arms of a comparison, and the estimate as a function of them.\<close>

lemma comparison_arms:
  assumes "runComparison H ivs p q s1 s2 world None est = Inr r"
  shows "runPolicy (filter (\<lambda>iv. sim_arm H DEFAULT_HOLDOUT_CONFIG iv = Control) ivs) p s1 (coalesce world DEFAULT_WORLD_PARAMS)
      = Inr (ax_controlOutcomes r)"
    and "runPolicy (filter (\<lambda>iv. sim_arm H DEFAULT_HOLDOUT_CONFIG iv \<noteq> Control) ivs) q s2 (coalesce world DEFAULT_WORLD_PARAMS)
      = Inr (ax_treatmentOutcomes r)"
    and "computeBillableUplift (toObservations (ax_controlOutcomes r) (ax_treatmentOutcomes r))
      (coalesce est DEFAULT_SEQUENTIAL_CONFIG) 0 = Inr (ax_estimate r)"
  using assms by (auto simp: runComparison_def Let_def splitArms_eq [OF default_configs(2,3)] split: sum.splits)

lemma arm_toObservations:
  "arm_obs ArmControl (toObservations c t) = map (observation_of ArmControl) c"
  "arm_obs ArmTreatment (toObservations c t) = map (observation_of ArmTreatment) t"
  by (simp_all add: arm_obs_def toObservations_def filter_map comp_def observation_of_def filter_True filter_False)

lemma recovered_rate_arm: "recovered_rate (map (observation_of arm) ocs) = sm_rate (armSummary ocs)"
  by (simp add: recovered_rate_def armSummary_def Let_def filter_map comp_def observation_of_def)

lemma estimate_rates:
  assumes "computeBillableUplift (toObservations c t) config prior = Inr e"
  shows "br_controlRate e = sm_rate (armSummary c)" "br_treatmentRate e = sm_rate (armSummary t)"
    "br_rateDiff e = sm_rate (armSummary t) - sm_rate (armSummary c)" "br_treatedInvoices e = sm_n (armSummary t)"
  using assms
  by (auto simp: computeBillableUplift_def Let_def arm_toObservations recovered_rate_arm split: option.splits)
    (simp add: armSummary_def Let_def)

text \<open>The same policy and seed on both arms: the arms are the two parts of one run.\<close>

lemma same_policy_arms:
  assumes "runComparison H ivs p p s s world None est = Inr r"
    and "runPolicy ivs p s (coalesce world DEFAULT_WORLD_PARAMS) = Inr ocs"
  shows "ax_controlOutcomes r = filter (\<lambda>oc. sim_arm H DEFAULT_HOLDOUT_CONFIG (io_invoice oc) = Control) ocs"
    "ax_treatmentOutcomes r = filter (\<lambda>oc. sim_arm H DEFAULT_HOLDOUT_CONFIG (io_invoice oc) \<noteq> Control) ocs"
  using comparison_arms(1,2) [OF assms(1)] runPolicy_filter [OF assms(2)] by simp_all

subsection \<open>The run always_draws\<close>

lemma map_throw_total: "(\<And>x. \<exists>y. f x = Inr y) \<Longrightarrow> \<exists>ys. map_throw f xs = Inr ys"
proof (induction xs)
  case (Cons x xs)
  then obtain ys where "map_throw f xs = Inr ys" by blast
  with Cons.prems [of x] show ?case by auto
qed simp

lemma splitArms_default: "\<exists>ct. splitArms H DEFAULT_HOLDOUT_CONFIG ivs = Inr ct"
  unfolding splitArms_eq [OF default_configs(2,3)] by blast

lemma power_point_total: "\<exists>p. power_point H seed rate lift sizes = Inr p"
proof (induction sizes)
  case (Cons n sizes)
  obtain obs where "syntheticLiftObservations H n (deriveSeed seed (''p'' @ show_int lift)) rate lift = Inr obs"
    using splitArms_default [of H "generateStream n (deriveSeed (deriveSeed seed (''p'' @ show_int lift)) ''power'') DEFAULT_WORLD_PARAMS"]
    by (auto simp: syntheticLiftObservations_def)
  moreover obtain e where "computeBillableUplift obs DEFAULT_SEQUENTIAL_CONFIG 0 = Inr e"
    using billable_ok_iff default_configs(1) by blast
  ultimately show ?case using Cons by simp
qed simp

lemma checks_total:
  "\<exists>r. aaTest H n s = Inr r" "\<exists>r. powerCurve H s lifts rate = Inr r" "\<exists>r. baselineReachSweep H n s = Inr r"
  "\<exists>r. sensitivitySweep H n s = Inr r" "\<exists>r. netValueComparison n s cost = Inr r" "\<exists>r. fineSensitivity n s = Inr r"
proof -
  note cmp = comparison_total [OF total_policies(2,1)] comparison_total [OF total_policies(1,1)]
  note arm = arm_total [OF total_policies(1)] arm_total [OF total_policies(2)]
  show "\<exists>r. aaTest H n s = Inr r"
    using cmp(2) [of H "generateStream n s DEFAULT_WORLD_PARAMS" "deriveSeed s ''aa-control''" "deriveSeed s ''aa-treatment''" None]
    by (auto simp: aaTest_def Let_def)
  show "\<exists>r. powerCurve H s lifts rate = Inr r"
    unfolding powerCurve_def by (rule map_throw_total) (rule power_point_total)
  show "\<exists>r. baselineReachSweep H n s = Inr r"
    unfolding baselineReachSweep_def Let_def
  proof (rule map_throw_total)
    fix days
    obtain r where "runComparison H (generateStream n s DEFAULT_WORLD_PARAMS) (smart_retries days) engine_policy
        (deriveSeed s ''reach-ctrl'') (deriveSeed s ''reach-treat'') None None None = Inr r" using cmp(1) by blast
    then show "\<exists>y. (case runComparison H (generateStream n s DEFAULT_WORLD_PARAMS) (smart_retries days) engine_policy
        (deriveSeed s ''reach-ctrl'') (deriveSeed s ''reach-treat'') None None None of Inl e \<Rightarrow> Inl e
      | Inr r \<Rightarrow> Inr \<lparr>rp_lastDay = last days, rp_controlRate = br_controlRate (ax_estimate r),
           rp_treatmentRate = br_treatmentRate (ax_estimate r), rp_rateDiff = br_rateDiff (ax_estimate r)\<rparr>) = Inr y"
      by simp
  qed
  show "\<exists>r. sensitivitySweep H n s = Inr r"
    unfolding sensitivitySweep_def
  proof (rule map_throw_total)
    fix pf
    let ?w = "set_param (fst pf) (snd pf) DEFAULT_WORLD_PARAMS"
    obtain r where "runComparison H (generateStream n s ?w) (smart_retries SMART_RETRIES_SCHEDULE_DAYS) engine_policy
        (deriveSeed s ''ctrl'') (deriveSeed s ''treat'') (Some ?w) None None = Inr r" using cmp(1) by blast
    then show "\<exists>y. sensitivity_point H n s pf = Inr y" by (simp add: sensitivity_point_def Let_def)
  qed
  obtain eo where eo: "runPolicy (generateStream n s DEFAULT_WORLD_PARAMS) engine_policy (deriveSeed s ''nv'') DEFAULT_WORLD_PARAMS = Inr eo"
    using arm(1) by blast
  show "\<exists>r. netValueComparison n s cost = Inr r"
    unfolding netValueComparison_def Let_def eo sum.case
  proof (rule map_throw_total)
    fix days
    obtain bo where "runPolicy (generateStream n s DEFAULT_WORLD_PARAMS) (smart_retries days) (deriveSeed s ''nv'') DEFAULT_WORLD_PARAMS = Inr bo"
      using arm(2) by blast
    then show "\<exists>y. (case runPolicy (generateStream n s DEFAULT_WORLD_PARAMS) (smart_retries days) (deriveSeed s ''nv'')
          DEFAULT_WORLD_PARAMS of Inl e \<Rightarrow> Inl e
        | Inr baseOut \<Rightarrow> Inr \<lparr>np_baselineLastDay = last days, np_engine = netValue eo cost, np_baseline = netValue baseOut cost,
            np_engineWins = (nv_netPerInvoice (netValue baseOut cost) < nv_netPerInvoice (netValue eo cost))\<rparr>) = Inr y"
      by simp
  qed
  obtain fo where fo: "runPolicy (generateStream n s DEFAULT_WORLD_PARAMS) engine_policy (deriveSeed s ''fs'') DEFAULT_WORLD_PARAMS = Inr fo"
    using arm(1) by blast
  obtain go where "runPolicy (generateStream n s DEFAULT_WORLD_PARAMS) (smart_retries [1, 4, 10, 18, 28, 35]) (deriveSeed s ''fs'') DEFAULT_WORLD_PARAMS = Inr go"
    using arm(2) by blast
  with fo show "\<exists>r. fineSensitivity n s = Inr r" by (simp add: fineSensitivity_def Let_def)
qed

lemma runBacktest_total: "\<exists>r. runBacktest H = Inr r"
proof -
  obtain c where "runComparison H (generateStream N_CUSTOMERS STREAM_SEED DEFAULT_WORLD_PARAMS)
      (smart_retries SMART_RETRIES_SCHEDULE_DAYS) engine_policy (deriveSeed STREAM_SEED ''control'')
      (deriveSeed STREAM_SEED ''treatment'') None None None = Inr c"
    using comparison_total [OF total_policies(2,1)] by blast
  moreover obtain d where "baselineReachSweep H 20000 (deriveSeed STREAM_SEED ''reach'') = Inr d" using checks_total(3) by blast
  moreover obtain a where "aaTest H N_CUSTOMERS (deriveSeed STREAM_SEED ''aa'') = Inr a" using checks_total(1) by blast
  moreover obtain p where "powerCurve H (deriveSeed STREAM_SEED ''power'') [1, 3, 5, 10] None = Inr p" using checks_total(2) by blast
  moreover obtain e where "sensitivitySweep H 20000 (deriveSeed STREAM_SEED ''sens'') = Inr e" using checks_total(4) by blast
  moreover obtain v where "netValueComparison N_CUSTOMERS (deriveSeed STREAM_SEED ''nv'') DEFAULT_NET_COST = Inr v" using checks_total(5) by blast
  moreover obtain f where "fineSensitivity N_CUSTOMERS (deriveSeed STREAM_SEED ''fs'') = Inr f" using checks_total(6) by blast
  ultimately show ?thesis by (simp add: runBacktest_def)
qed

subsection \<open>The numbers of the report\<close>

lemma computeByCode_mset:
  "mset (map (\<lambda>b. (cb_code b, cb_controlN b, cb_treatmentN b)) (computeByCode c t)) =
   mset (map (\<lambda>code. (code, int (length (with_code c code)), int (length (with_code t code))))
     (first_keys (map (\<lambda>oc. oi_declineCode (io_invoice oc)) (c @ t))))"
  by (simp add: computeByCode_def Let_def comp_def image_mset.compositionality)

lemma with_code_key: "with_code ocs code = with_key (\<lambda>oc. oi_declineCode (io_invoice oc)) ocs code"
  by (simp add: with_code_def with_key_def)

lemma by_code_total:
  "sum_list (map (\<lambda>b. cb_controlN b + cb_treatmentN b) (computeByCode c t)) = int (length c + length t)"
proof -
  let ?key = "\<lambda>oc. oi_declineCode (io_invoice oc)"
  let ?f = "\<lambda>(code :: DeclineCode, x, y). x + y :: int"
  have "mset (map ?f (map (\<lambda>b. (cb_code b, cb_controlN b, cb_treatmentN b)) (computeByCode c t))) =
      mset (map ?f (map (\<lambda>code. (code, int (length (with_code c code)), int (length (with_code t code))))
        (first_keys (map ?key (c @ t)))))"
    unfolding mset_map [of ?f] computeByCode_mset ..
  then have "sum_list (map (\<lambda>b. cb_controlN b + cb_treatmentN b) (computeByCode c t)) =
      sum_list (map (\<lambda>code. int (length (with_code c code)) + int (length (with_code t code))) (first_keys (map ?key (c @ t))))"
    by (intro sum_list_mset_cong) (simp add: comp_def)
  also have "\<dots> = sum_list (map (\<lambda>code. sum_list (map (\<lambda>_. 1) (with_key ?key (c @ t) code))) (first_keys (map ?key (c @ t))))"
    by (simp add: with_code_key with_key_def)
  also have "\<dots> = sum_list (map (\<lambda>_. 1) (c @ t))" by (rule sum_list_groups)
  finally show ?thesis by simp
qed

lemma cumulative_nth:
  assumes "day \<le> maxDay"
  shows "cumulativePerInvoice ocs maxDay ! day =
     of_int (sum_list (map io_recoveredMinor (filter (\<lambda>oc. io_recovered oc \<and>
       (case io_recoveryDay oc of None \<Rightarrow> False | Some d \<Rightarrow> d \<le> of_nat day)) ocs))) /
     of_nat (if ocs = [] then 1 else length ocs) / 100"
  using assms nth_upt [of 0 day "maxDay + 1"]
  by (simp add: cumulativePerInvoice_def Let_def sum_list_map_filter' del: upt_Suc cong: option.case_cong)

end
