(* ===== verification/Repositories.thy ===== *)
theory Repositories
  imports BillingPortal WebhookRouter LedgerStore
begin

text \<open>
  The billing and connection repositories of \<open>packages/persistence\<close> (\<open>billing-repo.ts\<close>,
  \<open>connection-repo.ts\<close>) behind the interfaces whose in-memory form the rest of the development
  uses. A table is a list of rows with a unique key; an upsert is \<open>INSERT ... ON CONFLICT DO UPDATE\<close>
  with the columns its \<open>set\<close> names. A query without \<open>ORDER BY\<close>, or with ties, returns its rows in
  whatever order the database chooses: that order is the argument \<open>perm\<close>.

  Both forms satisfy the law of a keyed store, the locale \<open>keyed_store\<close>, so they answer the same to
  every lookup by key. The listings agree only as far as the promoted columns follow the documents.
\<close>

subsection \<open>Keyed stores\<close>

locale keyed_store =
  fixes put :: "'d \<Rightarrow> 's \<Rightarrow> 's"
    and look :: "'s \<Rightarrow> string \<Rightarrow> 'd option"
    and key_of :: "'d \<Rightarrow> string"
    and ok :: "'s \<Rightarrow> bool"
  assumes look_put: "ok s \<Longrightarrow> look (put d s) k = (if k = key_of d then Some d else look s k)"
    and put_ok: "ok s \<Longrightarrow> ok (put d s)"
begin

lemma fold_ok: "ok s \<Longrightarrow> ok (fold put ds s)"
  by (induction ds arbitrary: s) (simp_all add: put_ok)

text \<open>A lookup answers the last document put under the key.\<close>

lemma look_fold:
  "ok s \<Longrightarrow> look (fold put ds s) k =
     (case filter (\<lambda>d. key_of d = k) (rev ds) of [] \<Rightarrow> look s k | d # _ \<Rightarrow> Some d)"
proof (induction ds arbitrary: s)
  case (Cons d ds)
  then have "look (fold put ds (put d s)) k =
      (case filter (\<lambda>d. key_of d = k) (rev ds) of [] \<Rightarrow> look (put d s) k | d # _ \<Rightarrow> Some d)"
    using put_ok by blast
  with Cons.prems show ?case by (auto simp: look_put split: list.splits)
qed simp

end

subsection \<open>Tables of documents\<close>

record ('k, 'd) DocRow =
  dr_key :: string
  dr_owner :: ident
  dr_at :: 'k
  dr_doc :: 'd

definition table_ok :: "('k, 'd) DocRow list \<Rightarrow> bool" where
  "table_ok rows \<longleftrightarrow> distinct (map dr_key rows)"

definition upsert_row ::
  "(('k, 'd) DocRow \<Rightarrow> ('k, 'd) DocRow) \<Rightarrow> ('k, 'd) DocRow \<Rightarrow> ('k, 'd) DocRow list \<Rightarrow> ('k, 'd) DocRow list" where
  "upsert_row change new rows =
     (if list_ex (\<lambda>r. dr_key r = dr_key new) rows
      then map (\<lambda>r. if dr_key r = dr_key new then change r else r) rows
      else rows @ [new])"

definition select_doc ::
  "(('k, 'd) DocRow list \<Rightarrow> ('k, 'd) DocRow list) \<Rightarrow> string \<Rightarrow> ('k, 'd) DocRow list \<Rightarrow> 'd option" where
  "select_doc perm k rows =
     (case filter (\<lambda>r. dr_key r = k) (perm rows) of [] \<Rightarrow> None | r # _ \<Rightarrow> Some (dr_doc r))"

text \<open>A permutation returns the rows of the table, in some order.\<close>

definition is_perm :: "('r list \<Rightarrow> 'r list) \<Rightarrow> bool" where
  "is_perm perm \<longleftrightarrow> (\<forall>rows. mset (perm rows) = mset rows)"

lemma perm_set: "is_perm perm \<Longrightarrow> set (perm rows) = set rows"
  by (metis is_perm_def mset_eq_setD)

lemma is_perm_id: "is_perm (\<lambda>rows. rows)" and is_perm_rev: "is_perm rev"
  by (simp_all add: is_perm_def)

lemma perm_Nil: "is_perm perm \<Longrightarrow> perm [] = []"
  by (metis is_perm_def mset_zero_iff mset.simps(1))

lemma perm_single: "is_perm perm \<Longrightarrow> perm [r] = [r]"
  by (metis is_perm_def mset_single_iff mset.simps(1,2) )

lemma select_doc_Nil: "is_perm perm \<Longrightarrow> select_doc perm k [] = None"
  by (simp add: select_doc_def perm_Nil)

lemma table_ok_upsert:
  assumes "table_ok rows" "\<And>r. dr_key (change r) = dr_key r"
  shows "table_ok (upsert_row change new rows)"
proof -
  have "map dr_key (map (\<lambda>r. if dr_key r = dr_key new then change r else r) rows) = map dr_key rows"
    using assms(2) by simp
  with assms(1) show ?thesis
    by (auto simp: table_ok_def upsert_row_def list_ex_iff comp_def simp del: map_map)
qed

lemma table_key_unique: "table_ok rows \<Longrightarrow> r \<in> set rows \<Longrightarrow> s \<in> set rows \<Longrightarrow> dr_key r = dr_key s \<Longrightarrow> r = s"
  unfolding table_ok_def by (rule inj_onD [OF distinct_map [THEN iffD1, THEN conjunct2]])

text \<open>With unique keys the order of the rows does not matter to a lookup.\<close>

lemma select_doc_iff:
  assumes "table_ok rows" "is_perm perm"
  shows "select_doc perm k rows = Some d \<longleftrightarrow> (\<exists>r\<in>set rows. dr_key r = k \<and> dr_doc r = d)"
proof -
  have "set (filter (\<lambda>r. dr_key r = k) (perm rows)) = {r \<in> set rows. dr_key r = k}"
    using perm_set [OF assms(2)] by auto
  then show ?thesis
    using table_key_unique [OF assms(1)]
    by (cases "filter (\<lambda>r. dr_key r = k) (perm rows)") (auto simp: select_doc_def)
qed

lemma select_doc_upsert:
  assumes "table_ok rows" "is_perm perm" "\<And>r. dr_key (change r) = dr_key r" "\<And>r. dr_doc (change r) = dr_doc new"
  shows "select_doc perm k (upsert_row change new rows) =
     (if k = dr_key new then Some (dr_doc new) else select_doc perm k rows)"
proof -
  have ok: "table_ok (upsert_row change new rows)" using assms(1,3) by (rule table_ok_upsert)
  let ?t = "upsert_row change new rows"
  have doc: "dr_doc r = dr_doc new" if "r \<in> set ?t" "dr_key r = dr_key new" for r
    using that assms(4) by (auto simp: upsert_row_def list_ex_iff split: if_splits)
  have ex: "\<exists>r\<in>set ?t. dr_key r = dr_key new"
  proof (cases "list_ex (\<lambda>r. dr_key r = dr_key new) rows")
    case True
    then obtain r where "r \<in> set rows" "dr_key r = dr_key new" by (auto simp: list_ex_iff)
    with True assms(3) have "change r \<in> set ?t" "dr_key (change r) = dr_key new" by (auto simp: upsert_row_def)
    then show ?thesis by blast
  qed (simp add: upsert_row_def)
  have other: "r \<in> set ?t \<longleftrightarrow> r \<in> set rows" if "dr_key r \<noteq> dr_key new" for r
    using that assms(3) by (auto simp: upsert_row_def list_ex_iff)
  have "select_doc perm k ?t = Some d \<longleftrightarrow>
      (if k = dr_key new then Some (dr_doc new) else select_doc perm k rows) = Some d" for d
  proof (cases "k = dr_key new")
    case True
    then show ?thesis unfolding select_doc_iff [OF ok assms(2)] using doc ex by auto
  next
    case False
    then show ?thesis unfolding select_doc_iff [OF ok assms(2)] using other by (auto simp: select_doc_iff [OF assms(1,2)])
  qed
  then show ?thesis by (metis option.exhaust)
qed

subsection \<open>The billing repository\<close>

type_synonym account_table = "(string, BillingAccount) DocRow list"
type_synonym acceptance_table = "(string, SignedAcceptanceRecord) DocRow list"
type_synonym invoice_table = "(int, FeeInvoice) DocRow list"

definition repo_upsertAccount :: "BillingAccount \<Rightarrow> account_table \<Rightarrow> account_table" where
  "repo_upsertAccount a rows =
     upsert_row (\<lambda>r. r\<lparr>dr_owner := ba_merchantId a, dr_doc := a\<rparr>)
       \<lparr>dr_key = ba_accountId a, dr_owner = ba_merchantId a, dr_at = ba_createdAt a, dr_doc = a\<rparr> rows"

definition repo_getAccount :: "(account_table \<Rightarrow> account_table) \<Rightarrow> string \<Rightarrow> account_table \<Rightarrow> BillingAccount option" where
  "repo_getAccount perm accountId rows = select_doc perm accountId rows"

definition repo_accountForMerchant ::
  "(account_table \<Rightarrow> account_table) \<Rightarrow> ident \<Rightarrow> account_table \<Rightarrow> BillingAccount option" where
  "repo_accountForMerchant perm merchantId rows =
     (case newest_first dr_at (filter (\<lambda>r. dr_owner r = merchantId) (perm rows)) of [] \<Rightarrow> None | r # _ \<Rightarrow> Some (dr_doc r))"

definition repo_listAccounts :: "(account_table \<Rightarrow> account_table) \<Rightarrow> account_table \<Rightarrow> BillingAccount list" where
  "repo_listAccounts perm rows = map dr_doc (perm rows)"

definition repo_recordAcceptance :: "SignedAcceptanceRecord \<Rightarrow> acceptance_table \<Rightarrow> acceptance_table" where
  "repo_recordAcceptance rec' rows =
     upsert_row (\<lambda>r. r)
       \<lparr>dr_key = sr_recordHash rec', dr_owner = ar_accountId rec', dr_at = ar_acceptedAt rec', dr_doc = rec'\<rparr> rows"

definition repo_acceptancesForAccount ::
  "(acceptance_table \<Rightarrow> acceptance_table) \<Rightarrow> ident \<Rightarrow> acceptance_table \<Rightarrow> SignedAcceptanceRecord list" where
  "repo_acceptancesForAccount perm accountId rows =
     map dr_doc (newest_first dr_at (filter (\<lambda>r. dr_owner r = accountId) (perm rows)))"

definition invoice_row :: "FeeInvoice \<Rightarrow> (int, FeeInvoice) DocRow" where
  "invoice_row i =
     \<lparr>dr_key = fi_invoiceNumber i, dr_owner = fi_merchantId i, dr_at = issued_key i, dr_doc = i\<rparr>"

definition repo_upsertInvoice :: "FeeInvoice \<Rightarrow> invoice_table \<Rightarrow> invoice_table" where
  "repo_upsertInvoice i rows = upsert_row (\<lambda>r. r\<lparr>dr_doc := i\<rparr>) (invoice_row i) rows"

definition repo_getInvoice :: "(invoice_table \<Rightarrow> invoice_table) \<Rightarrow> string \<Rightarrow> invoice_table \<Rightarrow> FeeInvoice option" where
  "repo_getInvoice perm invoiceNumber rows = select_doc perm invoiceNumber rows"

definition repo_invoicesForMerchant :: "(invoice_table \<Rightarrow> invoice_table) \<Rightarrow> ident \<Rightarrow> invoice_table \<Rightarrow> FeeInvoice list" where
  "repo_invoicesForMerchant perm merchantId rows =
     map dr_doc (newest_first dr_at (filter (\<lambda>r. dr_owner r = merchantId) (perm rows)))"

definition repo_allInvoices :: "(invoice_table \<Rightarrow> invoice_table) \<Rightarrow> invoice_table \<Rightarrow> FeeInvoice list" where
  "repo_allInvoices perm rows = map dr_doc (newest_first dr_at (perm rows))"

interpretation memory_accounts: keyed_store upsertAccount "\<lambda>st k. getAccount k st" ba_accountId "\<lambda>_. True"
  by unfold_locales (simp_all add: upsertAccount_def getAccount_def update_conv')

interpretation memory_invoices: keyed_store upsertInvoice "\<lambda>st k. getInvoice k st" fi_invoiceNumber "\<lambda>_. True"
  by unfold_locales (simp_all add: upsertInvoice_def getInvoice_def update_conv')

interpretation table_accounts: keyed_store repo_upsertAccount "\<lambda>rows k. repo_getAccount perm k rows" ba_accountId
    "\<lambda>rows. table_ok rows \<and> is_perm perm" for perm
  by unfold_locales
    (auto simp: repo_upsertAccount_def repo_getAccount_def select_doc_upsert intro: table_ok_upsert)

interpretation table_invoices: keyed_store repo_upsertInvoice "\<lambda>rows k. repo_getInvoice perm k rows" fi_invoiceNumber
    "\<lambda>rows. table_ok rows \<and> is_perm perm" for perm
  by unfold_locales
    (auto simp: repo_upsertInvoice_def repo_getInvoice_def invoice_row_def select_doc_upsert intro: table_ok_upsert)

lemma table_ok_Nil: "table_ok []"
  by (simp add: table_ok_def)

lemma tables_answer_as_memory:
  assumes "is_perm sa" "is_perm si"
  shows "repo_getAccount sa k (fold repo_upsertAccount as []) = getAccount k (fold upsertAccount as empty_store)"
    and "repo_getInvoice si n (fold repo_upsertInvoice is []) = getInvoice n (fold upsertInvoice is empty_store)"
proof -
  have e1: "repo_getAccount sa k [] = getAccount k empty_store"
    by (simp add: repo_getAccount_def select_doc_Nil [OF assms(1)] getAccount_def empty_store_def)
  have "repo_getAccount sa k (fold repo_upsertAccount as []) =
      (case filter (\<lambda>d. ba_accountId d = k) (rev as) of [] \<Rightarrow> getAccount k empty_store | d # _ \<Rightarrow> Some d)"
    using table_accounts.look_fold [where s = "[]" and perm = sa] assms(1) table_ok_Nil unfolding e1 [symmetric] by blast
  then show "repo_getAccount sa k (fold repo_upsertAccount as []) = getAccount k (fold upsertAccount as empty_store)"
    unfolding memory_accounts.look_fold [where s = empty_store and ds = as and k = k, OF TrueI] .
  have e2: "repo_getInvoice si n [] = getInvoice n empty_store"
    by (simp add: repo_getInvoice_def select_doc_Nil [OF assms(2)] getInvoice_def empty_store_def)
  have "repo_getInvoice si n (fold repo_upsertInvoice is []) =
      (case filter (\<lambda>d. fi_invoiceNumber d = n) (rev is) of [] \<Rightarrow> getInvoice n empty_store | d # _ \<Rightarrow> Some d)"
    using table_invoices.look_fold [where s = "[]" and perm = si] assms(2) table_ok_Nil unfolding e2 [symmetric] by blast
  then show "repo_getInvoice si n (fold repo_upsertInvoice is []) = getInvoice n (fold upsertInvoice is empty_store)"
    unfolding memory_invoices.look_fold [where s = empty_store and ds = "is" and k = n, OF TrueI] .
qed

text \<open>
  The listing of a merchant's invoices: the column of the merchant is that of the first invoice of
  the number. When no two merchants share a number it is the merchant of the document.
\<close>

definition owners_match :: "invoice_table \<Rightarrow> bool" where
  "owners_match rows \<longleftrightarrow> (\<forall>r\<in>set rows. dr_key r = fi_invoiceNumber (dr_doc r) \<and> dr_owner r = fi_merchantId (dr_doc r))"

lemma owners_match_upsert:
  assumes "owners_match rows" "\<And>r. r \<in> set rows \<Longrightarrow> dr_key r = fi_invoiceNumber i \<Longrightarrow> dr_owner r = fi_merchantId i"
  shows "owners_match (repo_upsertInvoice i rows)"
  using assms by (auto simp: owners_match_def repo_upsertInvoice_def upsert_row_def invoice_row_def)

definition numbers_private :: "FeeInvoice list \<Rightarrow> bool" where
  "numbers_private is \<longleftrightarrow> (\<forall>i\<in>set is. \<forall>j\<in>set is. fi_invoiceNumber i = fi_invoiceNumber j \<longrightarrow> fi_merchantId i = fi_merchantId j)"

lemma invoice_table_docs:
  "r \<in> set (fold repo_upsertInvoice is rows) \<Longrightarrow> dr_doc r \<in> set is \<union> dr_doc ` set rows"
proof (induction "is" arbitrary: rows)
  case (Cons i "is")
  then have "dr_doc r \<in> set is \<union> dr_doc ` set (repo_upsertInvoice i rows)" by simp
  then show ?case by (auto simp: repo_upsertInvoice_def upsert_row_def invoice_row_def split: if_splits)
qed auto

lemma owners_match_step:
  assumes "numbers_private (is @ [i])" "owners_match rows" "\<And>r. r \<in> set rows \<Longrightarrow> dr_doc r \<in> set is"
  shows "owners_match (repo_upsertInvoice i rows)"
proof (rule owners_match_upsert [OF assms(2)])
  fix r assume r: "r \<in> set rows" "dr_key r = fi_invoiceNumber i"
  have o: "dr_key r = fi_invoiceNumber (dr_doc r)" "dr_owner r = fi_merchantId (dr_doc r)"
    using bspec [OF assms(2) [unfolded owners_match_def] r(1)] by (rule conjunct1, rule conjunct2)
  have "fi_invoiceNumber (dr_doc r) = fi_invoiceNumber i \<longrightarrow> fi_merchantId (dr_doc r) = fi_merchantId i"
    using assms(3) [OF r(1)] by (intro bspec [OF bspec [OF assms(1) [unfolded numbers_private_def]]]) simp_all
  with o(1) r(2) show "dr_owner r = fi_merchantId i" unfolding o(2) by (elim mp) (rule trans [OF sym])
qed

lemma owners_match_fold: "numbers_private is \<Longrightarrow> owners_match (fold repo_upsertInvoice is [])"
proof (induction "is" rule: rev_induct)
  case (snoc i "is")
  have "numbers_private is"
    using snoc.prems unfolding numbers_private_def set_append by (intro ballI) (elim ballE; blast)
  moreover have "dr_doc r \<in> set is" if "r \<in> set (fold repo_upsertInvoice is [])" for r
    using invoice_table_docs [OF that] by simp
  ultimately show ?case using owners_match_step [OF snoc.prems snoc.IH] by simp
qed (simp add: owners_match_def)

lemma set_newest_first [simp]: "set (newest_first f xs) = set xs"
  by (simp add: newest_first_def)

lemma merchant_listing:
  assumes "numbers_private is" "is_perm perm"
  shows "set (repo_invoicesForMerchant perm m (fold repo_upsertInvoice is [])) =
     set (invoicesForMerchant m (fold upsertInvoice is empty_store))"
proof -
  let ?t = "fold repo_upsertInvoice is []"
  let ?st = "fold upsertInvoice is empty_store"
  have ok: "table_ok ?t" using table_invoices.fold_ok [of "[]" perm "is"] assms(2) table_ok_Nil by simp
  note om = owners_match_fold [OF assms(1)]
  have dist: "distinct (map fst (bk_invoices (fold upsertInvoice is st)))" if "distinct (map fst (bk_invoices st))" for st
    using that by (induction "is" arbitrary: st) (simp_all add: upsertInvoice_def distinct_update)
  have keyed: "\<forall>(k, i)\<in>set (bk_invoices (fold upsertInvoice is st)). k = fi_invoiceNumber i"
    if "\<forall>(k, i)\<in>set (bk_invoices st). k = fi_invoiceNumber i" for st
    using that
  proof (induction "is" arbitrary: st)
    case (Cons i "is")
    have "\<forall>(k, j)\<in>set (bk_invoices (upsertInvoice i st)). k = fi_invoiceNumber j"
      using Cons.prems set_update_subset [of "fi_invoiceNumber i" i "bk_invoices st"] by (fastforce simp: upsertInvoice_def)
    with Cons.IH show ?case by simp
  qed simp
  have doc: "getInvoice (fi_invoiceNumber i) ?st = Some i \<longleftrightarrow> (\<exists>r\<in>set ?t. dr_key r = fi_invoiceNumber i \<and> dr_doc r = i)" for i
    using select_doc_iff [OF ok assms(2)] tables_answer_as_memory(2) [OF is_perm_id assms(2)]
    by (simp add: repo_getInvoice_def)
  have "i \<in> dr_doc ` {r \<in> set ?t. dr_owner r = m} \<longleftrightarrow>
      fi_merchantId i = m \<and> getInvoice (fi_invoiceNumber i) ?st = Some i" for i
  proof -
    have own: "dr_key r = fi_invoiceNumber (dr_doc r)" "dr_owner r = fi_merchantId (dr_doc r)" if "r \<in> set ?t" for r
      using om that by (simp_all add: owners_match_def)
    show ?thesis unfolding doc
    proof
      assume "i \<in> dr_doc ` {r \<in> set ?t. dr_owner r = m}"
      then obtain r where "r \<in> set ?t" "dr_owner r = m" "i = dr_doc r" by auto
      with own [of r] show "fi_merchantId i = m \<and> (\<exists>r\<in>set ?t. dr_key r = fi_invoiceNumber i \<and> dr_doc r = i)" by auto
    next
      assume "fi_merchantId i = m \<and> (\<exists>r\<in>set ?t. dr_key r = fi_invoiceNumber i \<and> dr_doc r = i)"
      then obtain r where r: "r \<in> set ?t" "dr_doc r = i" "fi_merchantId i = m" by auto
      then have "dr_owner r = m" using own(2) [OF r(1)] by simp
      with r show "i \<in> dr_doc ` {r \<in> set ?t. dr_owner r = m}" by blast
    qed
  qed
  moreover have "i \<in> snd ` set (bk_invoices ?st) \<longleftrightarrow> getInvoice (fi_invoiceNumber i) ?st = Some i" for i
  proof
    assume "i \<in> snd ` set (bk_invoices ?st)"
    then obtain k where k: "(k, i) \<in> set (bk_invoices ?st)" by auto
    then have "k = fi_invoiceNumber i" using keyed [of empty_store] by (auto simp: empty_store_def)
    with k dist [of empty_store] show "getInvoice (fi_invoiceNumber i) ?st = Some i"
      by (simp add: getInvoice_def empty_store_def)
  next
    assume "getInvoice (fi_invoiceNumber i) ?st = Some i"
    then show "i \<in> snd ` set (bk_invoices ?st)" by (force simp: getInvoice_def dest: map_of_SomeD)
  qed
  ultimately show ?thesis
    using perm_set [OF assms(2)] by (auto simp: repo_invoicesForMerchant_def invoicesForMerchant_def)
qed

text \<open>
  When two merchants share a number, the repository files the second one's invoice under the first:
  each asks for the invoices of a merchant and the in-memory store answers by the document.
\<close>

lemma shared_number_leaks:
  assumes "fi_invoiceNumber j = fi_invoiceNumber i" "fi_merchantId i \<noteq> fi_merchantId j" "is_perm perm"
  shows "repo_invoicesForMerchant perm (fi_merchantId i) (fold repo_upsertInvoice [i, j] []) = [j]"
    and "invoicesForMerchant (fi_merchantId i) (fold upsertInvoice [i, j] empty_store) = []"
proof -
  have t: "fold repo_upsertInvoice [i, j] [] = [(invoice_row i)\<lparr>dr_doc := j\<rparr>]"
    using assms(1) by (simp add: repo_upsertInvoice_def upsert_row_def invoice_row_def)
  have "perm [(invoice_row i)\<lparr>dr_doc := j\<rparr>] = [(invoice_row i)\<lparr>dr_doc := j\<rparr>]"
    using assms(3) by (rule perm_single)
  then show "repo_invoicesForMerchant perm (fi_merchantId i) (fold repo_upsertInvoice [i, j] []) = [j]"
    unfolding t by (simp add: repo_invoicesForMerchant_def invoice_row_def newest_first_def)
  show "invoicesForMerchant (fi_merchantId i) (fold upsertInvoice [i, j] empty_store) = []"
    using assms(1,2) by (simp add: invoicesForMerchant_def upsertInvoice_def empty_store_def newest_first_def)
qed

text \<open>Recording an acceptance again changes nothing, in both forms.\<close>

lemma acceptance_once: "repo_recordAcceptance r (repo_recordAcceptance r rows) = repo_recordAcceptance r rows"
  by (auto simp: repo_recordAcceptance_def upsert_row_def list_ex_iff)

subsection \<open>The connection repository\<close>

record ConnRow =
  cn_connectionId :: string
  cn_merchantId :: ident
  cn_processor :: string
  cn_credentialsEncrypted :: string
  cn_isDefault :: bool
  cn_createdAt :: string

definition conn_row_update :: "ConnRow \<Rightarrow> ConnRow list \<Rightarrow> ConnRow list" where
  "conn_row_update new rows =
     (if list_ex (\<lambda>r. cn_connectionId r = cn_connectionId new) rows
      then map (\<lambda>r. if cn_connectionId r = cn_connectionId new then new\<lparr>cn_createdAt := cn_createdAt r\<rparr> else r) rows
      else rows @ [new])"

text \<open>\<open>show\<close> and \<open>parse\<close> stand for \<open>JSON.stringify\<close> and \<open>JSON.parse\<close> on configurations, \<open>iv\<close> for the random nonce.\<close>

definition connection_upsert ::
  "'b Gcm \<Rightarrow> 'b list \<Rightarrow> (jsval \<Rightarrow> string) \<Rightarrow> 'b list \<Rightarrow> MerchantConnection \<Rightarrow> bool option \<Rightarrow> string \<Rightarrow> ConnRow list
     \<Rightarrow> js_error + ConnRow list" where
  "connection_upsert g key show iv c isDefault createdAt rows =
     (case encryptCredentials g iv (show (mc_config c)) key of
        Inl e \<Rightarrow> Inl e
      | Inr blob \<Rightarrow>
          Inr (conn_row_update
            \<lparr>cn_connectionId = mc_connectionId c, cn_merchantId = mc_merchantId c, cn_processor = mc_processor c,
             cn_credentialsEncrypted = blob, cn_isDefault = coalesce isDefault False, cn_createdAt = createdAt\<rparr> rows))"

definition conn_decrypt ::
  "'b Gcm \<Rightarrow> 'b list \<Rightarrow> (string \<Rightarrow> js_error + jsval) \<Rightarrow> ConnRow \<Rightarrow> js_error + MerchantConnection" where
  "conn_decrypt g key parse r =
     (case decryptCredentials g (cn_credentialsEncrypted r) key of
        Inl e \<Rightarrow> Inl e
      | Inr s \<Rightarrow>
          (case parse s of
             Inl e \<Rightarrow> Inl e
           | Inr config \<Rightarrow>
               Inr \<lparr>mc_connectionId = cn_connectionId r, mc_merchantId = cn_merchantId r,
                    mc_processor = cn_processor r, mc_config = config\<rparr>))"

fun first_connection ::
  "'b Gcm \<Rightarrow> 'b list \<Rightarrow> (string \<Rightarrow> js_error + jsval) \<Rightarrow> ConnRow list \<Rightarrow> js_error + MerchantConnection option" where
  "first_connection g key parse [] = Inr None"
| "first_connection g key parse (r # rs) =
     (case conn_decrypt g key parse r of Inl e \<Rightarrow> Inl e | Inr c \<Rightarrow> Inr (Some c))"

definition connection_get ::
  "'b Gcm \<Rightarrow> 'b list \<Rightarrow> (string \<Rightarrow> js_error + jsval) \<Rightarrow> (ConnRow list \<Rightarrow> ConnRow list) \<Rightarrow> string \<Rightarrow> ConnRow list
     \<Rightarrow> js_error + MerchantConnection option" where
  "connection_get g key parse perm connectionId rows =
     first_connection g key parse (filter (\<lambda>r. cn_connectionId r = connectionId) (perm rows))"

definition connection_defaultFor ::
  "'b Gcm \<Rightarrow> 'b list \<Rightarrow> (string \<Rightarrow> js_error + jsval) \<Rightarrow> (ConnRow list \<Rightarrow> ConnRow list) \<Rightarrow> string \<Rightarrow> ConnRow list
     \<Rightarrow> js_error + MerchantConnection option" where
  "connection_defaultFor g key parse perm processor rows =
     first_connection g key parse (filter (\<lambda>r. cn_processor r = processor \<and> cn_isDefault r) (perm rows))"

fun connection_list ::
  "'b Gcm \<Rightarrow> 'b list \<Rightarrow> (string \<Rightarrow> js_error + jsval) \<Rightarrow> ConnRow list \<Rightarrow> js_error + MerchantConnection list" where
  "connection_list g key parse [] = Inr []"
| "connection_list g key parse (r # rs) =
     (case conn_decrypt g key parse r of
        Inl e \<Rightarrow> Inl e
      | Inr c \<Rightarrow> (case connection_list g key parse rs of Inl e \<Rightarrow> Inl e | Inr cs \<Rightarrow> Inr (c # cs)))"

definition conn_ids_unique :: "ConnRow list \<Rightarrow> bool" where
  "conn_ids_unique rows \<longleftrightarrow> distinct (map cn_connectionId rows)"

lemma conn_row_update_ids:
  "conn_ids_unique rows \<Longrightarrow> conn_ids_unique (conn_row_update new rows)"
  by (auto simp: conn_ids_unique_def conn_row_update_def list_ex_iff comp_def if_distrib cong: if_cong map_cong)

lemma conn_row_update_find:
  "k = cn_connectionId new \<Longrightarrow> r \<in> set (conn_row_update new rows) \<Longrightarrow> cn_connectionId r = k \<Longrightarrow>
   \<exists>t. r = new\<lparr>cn_createdAt := t\<rparr>"
proof -
  have "\<exists>t. new = new\<lparr>cn_createdAt := t\<rparr>" by (rule exI [of _ "cn_createdAt new"]) simp
  then show "k = cn_connectionId new \<Longrightarrow> r \<in> set (conn_row_update new rows) \<Longrightarrow> cn_connectionId r = k \<Longrightarrow> ?thesis"
    by (auto simp: conn_row_update_def list_ex_iff split: if_splits)
qed

text \<open>What was stored is read back, decrypted, under its id; the other ids answer as before.\<close>

lemma connection_reads_back:
  assumes g: "gcm_ok g" "length iv = IV_LEN" and up: "connection_upsert g key show iv c isDefault t rows = Inr rows'"
    and json: "parse (show (mc_config c)) = Inr (mc_config c)" and perm: "is_perm perm"
  shows "connection_get g key parse perm (mc_connectionId c) rows' = Inr (Some c)"
proof -
  obtain blob where blob: "encryptCredentials g iv (show (mc_config c)) key = Inr blob"
    using up by (auto simp: connection_upsert_def split: sum.splits)
  define new where "new = \<lparr>cn_connectionId = mc_connectionId c, cn_merchantId = mc_merchantId c, cn_processor = mc_processor c,
      cn_credentialsEncrypted = blob, cn_isDefault = coalesce isDefault False, cn_createdAt = t\<rparr>"
  have rows': "rows' = conn_row_update new rows" using up blob by (simp add: connection_upsert_def new_def)
  have mem: "\<exists>r\<in>set rows'. cn_connectionId r = mc_connectionId c"
  proof (cases "list_ex (\<lambda>r. cn_connectionId r = mc_connectionId c) rows")
    case True
    then obtain r where "r \<in> set rows" "cn_connectionId r = mc_connectionId c" by (auto simp: list_ex_iff)
    with True have "new\<lparr>cn_createdAt := cn_createdAt r\<rparr> \<in> set rows'"
      by (auto simp: rows' conn_row_update_def new_def)
    then show ?thesis by (rule bexI [rotated]) (simp add: new_def)
  qed (simp add: rows' conn_row_update_def new_def)
  have all: "\<exists>u. r = new\<lparr>cn_createdAt := u\<rparr>" if "r \<in> set rows'" "cn_connectionId r = mc_connectionId c" for r
    using conn_row_update_find [of "mc_connectionId c" new r rows] that by (simp add: rows' new_def)
  have dec: "conn_decrypt g key parse (new\<lparr>cn_createdAt := u\<rparr>) = Inr c" for u
    using credentials_read_back [OF g blob] json by (simp add: conn_decrypt_def new_def)
  show ?thesis
  proof (cases "filter (\<lambda>r. cn_connectionId r = mc_connectionId c) (perm rows')")
    case Nil
    with mem perm_set [OF perm, of rows'] show ?thesis by (auto simp: filter_empty_conv)
  next
    case (Cons r rs)
    have "r \<in> set (filter (\<lambda>r. cn_connectionId r = mc_connectionId c) (perm rows'))" unfolding Cons by simp
    then have "r \<in> set rows'" "cn_connectionId r = mc_connectionId c"
      using perm_set [OF perm, of rows'] by simp_all
    then obtain u where "r = new\<lparr>cn_createdAt := u\<rparr>" using all by blast
    then have "conn_decrypt g key parse r = Inr c" using dec by simp
    with Cons show ?thesis by (simp add: connection_get_def)
  qed
qed

text \<open>
  The two stores differ on defaults. In memory the first connection of a processor becomes its
  default and a later default replaces it; in the table only a flagged row is one, and two flagged
  rows leave the choice to the order of the rows.
\<close>

lemma unflagged_default_differs:
  assumes "connection_upsert g key show iv c None t [] = Inr rows"
  shows "connection_defaultFor g key parse (\<lambda>rs. rs) (mc_processor c) rows = Inr None"
    and "conn_defaultFor (conn_register c False conn_empty) (mc_processor c) =
      (if mc_connectionId c = [] then None else Some c)"
proof -
  show "connection_defaultFor g key parse (\<lambda>rs. rs) (mc_processor c) rows = Inr None"
    using assms by (auto simp: connection_upsert_def connection_defaultFor_def conn_row_update_def split: sum.splits)
  show "conn_defaultFor (conn_register c False conn_empty) (mc_processor c) =
      (if mc_connectionId c = [] then None else Some c)"
    by (simp add: conn_defaultFor_def conn_register_def conn_empty_def conn_get_def if_given_def given_def)
qed

end
