(* ===== verification/Spec2Isabelle.thy ===== *)
theory Spec2Isabelle
  imports Guardrail Ledger SagaSafety Holdout FeatureStore Comms Onboarding Scenario BillingPortal Registry
    PaypalAdapter RecurlyAdapter CheckoutAdapter ChargebeeAdapter WorldpayAdapter ZuoraAdapter
    ShopifyAdapter GoCardlessAdapter BraintreeAdapter WooCommerceAdapter MaxioAdapter AdyenAdapter
    AdvisoryAdapters GatewayAdapters WebhookRouter Flywheel Retrain LedgerStore
    Pnl BinCsv Backtest Repositories
begin

text \<open>
  A model of AX10M, a payment-recovery engine: it watches failed subscription invoices, randomizes
  them into a treatment and a hold-out arm, plans and performs retries, card updates and dunning
  for the treated ones under compliance limits, records every step in a hash-chained ledger, and
  bills the merchant a share of the measured uplift.

  How the program works, and which theory holds which part (paths under \<open>src/\<close>):

  \<^item> \<open>Prelude\<close>, \<open>Effects\<close>, \<open>Json\<close>, \<open>JsDate\<close>, \<open>Grouping\<close>: what the sources use of their language.
    Errors are values (\<open>js_error + 'a\<close>); an \<open>async\<close> method that reads and writes a store is a state
    transformer \<open>('s, 'a) eff\<close> that keeps its effects also when it throws; JSON values with
    \<open>JSON.stringify\<close> and the stable serialization, calendar arithmetic, maps in insertion order.
  \<^item> \<open>Canonical\<close> (\<open>packages/canonical\<close>): decline codes and families, invoices, methods, customers.
  \<^item> \<open>Guardrail\<close> (\<open>packages/guardrail\<close>): the compliance check every action passes. Each of its nine
    constraints has its own specification, \<open>violates\<close>.
  \<^item> \<open>DeclineIntel\<close>, \<open>Recoverability\<close>, \<open>RetryPolicy\<close>, \<open>RetrySequence\<close>, \<open>FeatureStore\<close>
    (\<open>packages/recovery-engine\<close>): classification of a decline, the scores, the cost-aware choice of
    one retry, whole schedules and credential plans, the shrunk success rates.
  \<^item> \<open>Matrix\<close>, \<open>Bandit\<close> (\<open>contextual-bandit.ts\<close>, \<open>bandit.ts\<close>): the LinUCB policy with its linear
    algebra over exact reals (elimination, and the rank-one update that replaces it), its snapshot,
    restore and merge, and the online logistic policy. \<open>Flywheel\<close> (\<open>recovery-case.service.ts\<close>,
    \<open>bandit-store.ts\<close>, \<open>bandit-state-repo.ts\<close>): several processes that share the learned state
    through one stored row.
  \<^item> \<open>Training\<close>, \<open>Retrain\<close> (\<open>training.ts\<close>, \<open>simulate.ts\<close>, \<open>ledger-samples.ts\<close>, \<open>retrain.ts\<close>,
    \<open>apps/api/src/recovery/retrain-job.ts\<close>, \<open>packages/persistence/src/model-repo.ts\<close>): the seeded
    generator on 32-bit words, shuffle, split and metrics; the trainer, labels read from the ledger,
    the gate a challenger must pass, the store of models and the job.
  \<^item> \<open>Scheduler\<close>, \<open>SagaSafety\<close> (\<open>packages/scheduler\<close>): the durable sagas, over an abstract runtime and
    an abstract port, and what they ask of both.
  \<^item> \<open>Ledger\<close>, \<open>Holdout\<close>, \<open>Uplift\<close>, \<open>Sequential\<close>, \<open>BillableUplift\<close>, \<open>Statement\<close>, \<open>Sealed\<close>,
    \<open>Reconciliation\<close>, \<open>Csv\<close>, \<open>Payout\<close> (\<open>packages/attribution\<close>): the ledger, the randomization, the
    estimators with the anytime-valid interval, the signed statements and the reconciliation export.
  \<^item> \<open>LedgerStore\<close> (\<open>packages/persistence\<close>): the ledger, the attempt counters and the sent messages as
    tables, the append that races with other writers and retries, the encryption of secrets.
  \<^item> \<open>Comms\<close> (\<open>packages/comms\<close>), \<open>Onboarding\<close> (\<open>packages/onboarding\<close>,
    \<open>apps/api/src/onboarding\<close>): dunning messages and their senders; shadow measurement of a merchant.
  \<^item> \<open>RecoveryCase\<close> (\<open>apps/api/src/recovery\<close>): the service that connects all of these. \<open>RecoverySafety\<close>,
    \<open>RecoveryOutcomes\<close>, \<open>RecoveryLaws\<close> hold its invariants and laws, \<open>Scenario\<close> a concrete deployment.
  \<^item> \<open>BillingAccount\<close>, \<open>Invoicing\<close>, \<open>InvoiceLaws\<close> (\<open>packages/billing\<close>), \<open>BillingRun\<close>, \<open>BillingLaws\<close>,
    \<open>BillingPortal\<close> (\<open>apps/api/src/billing\<close>): opting in, invoices and reminders, the monthly run with
    its watermark, the portal.
  \<^item> \<open>DeclineMaps\<close>, \<open>Poal\<close>, \<open>WebhookAuth\<close>, \<open>AdapterKit\<close>, \<open>Registry\<close> (\<open>packages/poal\<close>): the port to
    the payment processors. A webhook is authenticated, parsed and normalized into canonical events; a
    charge is an HTTP request whose decline is an outcome and whose other failures are errors. One
    theory per adapter: \<open>StripeAdapter\<close>, \<open>PaypalAdapter\<close>, \<open>RecurlyAdapter\<close>, \<open>CheckoutAdapter\<close>,
    \<open>ChargebeeAdapter\<close>, \<open>WorldpayAdapter\<close>, \<open>ZuoraAdapter\<close>, \<open>ShopifyAdapter\<close>, \<open>GoCardlessAdapter\<close>,
    \<open>BraintreeAdapter\<close>, \<open>WooCommerceAdapter\<close>, \<open>MaxioAdapter\<close>, \<open>AdyenAdapter\<close>; the four
    advisory carts are in \<open>AdvisoryAdapters\<close>, the two gateways without webhooks in \<open>GatewayAdapters\<close>.
  \<^item> \<open>WebhookRouter\<close> (\<open>apps/api/src/webhooks\<close>): the merchants' connections, the adapter built for
    each, and the handler that routes a webhook through it to the recovery service.
  \<^item> \<open>Repositories\<close> (\<open>packages/persistence\<close>): the tables of billing documents and of encrypted
    connections behind the interfaces of the stores in memory. \<open>Pnl\<close>
    (\<open>apps/api/src/analytics/pnl.ts\<close>): the profit and loss report over the ledger. \<open>BinCsv\<close>
    (\<open>bin-csv.ts\<close>): the import of a BIN table into the feature store.
  \<^item> \<open>BacktestWorld\<close>, \<open>Backtest\<close> (\<open>packages/backtest\<close>): the simulated world (samplers in the state
    monad over a 32-bit generator), the engine and the baselines as policies, the comparison of two
    arms through the billing estimator, the checks and the numbers of the report.

  State and operations keep the sources' names; a name that is a constant of HOL, or that two parts
  of the source share, carries its component's name. A class is a record of its fields and one
  function per method; a map filled in a loop is an association list, an index with no order a
  function; money, counts and milliseconds are integers, rates and scores reals.

  Interfaces are locales, interpreted on the model: \<open>chained_log\<close> (the ledger, in memory and as a
  table), \<open>credential_counter\<close> (the attempt counters, in memory and as a table), \<open>dunning_agent\<close> and
  \<open>dunning_sender\<close> (composers and transports), \<open>service_invariant\<close> (what an invariant of the recovery
  service must survive), \<open>dispatch_policy\<close> and its extension \<open>retry_policy\<close> (what a policy keeps to),
  \<open>processor_adapter\<close> (what an adapter promises),
  \<open>keyed_store\<close> (the billing stores, in memory and as tables), \<open>unit_generator\<close> (a source of numbers in the
  unit interval), among others.

  What the lemmas show, by section of this theory: the guardrail is exact and monotone; schedules and
  decisions respect cost and network limits; a saga performs bounded, numbered, strictly later
  attempts and ends; the service keeps its ledger a valid chain, never touches a control case, never
  charges what the guardrail refuses and charges a credential within its window; dunning is sent at
  most once and never to who opted out; the ledger detects tampering, in memory and under racing
  writers, the hold-out is a fixed function of the case, the feature store stays within its priors;
  the measured uplift, the statement and the export are what the ledger says; billing charges each
  increment once; a webhook reaches the service only through the adapter of its own connection and
  only when authentic; the bandit's incremental inverse is the inverse of its design matrix, merging
  deltas is learning the union of the outcomes, a shuffle is a permutation, the trainer descends the
  gradient of its loss, a challenger replaces a champion only when the gate says so; in the
  simulated world the engine keeps the networks' limits and a longer schedule never recovers less; the
  report adds up, the tables answer as the stores in memory, and the export is read back.

  Loops. Every loop of the model is a structural recursion or a \<open>function\<close> with a proved measure;
  only the sagas take fuel. A saga's fuel is the number of turns it may take: a bound from its
  configuration (\<open>maxAttempts\<close>, \<open>maxPolls\<close>) is shown to be enough, so a saga returns.

  Not modelled, and why: rounding of IEEE doubles (reals stand for them, and \<open>NaN\<close> and infinities
  appear only where the code tests for them); the cryptographic primitives (SHA-256, HMAC, Ed25519,
  AES), the HTTP transport, the language model, the database, Temporal, \<open>Intl.NumberFormat\<close>,
  \<open>Date.parse\<close> and \<open>JSON.parse\<close>, which are arguments; logging, rationales and other free text that no
  decision reads; constant-time comparison and time-outs, of which only the result is modelled; user
  interfaces, scripts and wiring of modules. Components listed as not modelled in the manifest are
  the client of the language model, the shell of the API (controllers, workers, start-up), the demo
  data, the texts and drawings of reports, and the dashboard.
\<close>

section \<open>Compliance guardrail\<close>

text \<open>C1. The guardrail is exact: it allows an action exactly when the action violates none of
  the nine compliance constraints, and when it suppresses, the reason it reports is a
  constraint the action really violates.\<close>

theorem guardrail_exact:
  "(evaluate a p = Allow \<longleftrightarrow> (\<forall>r. \<not> violates r a p)) \<and>
   (\<forall>r m. evaluate a p = Suppress r m \<longrightarrow> violates r a p)"
  by (simp add: evaluate_Allow_iff evaluate_Suppress_violates)

definition demo_action :: ProposedAction where
  "demo_action =
     \<lparr>kind = ChargeRetry, channel = None, declineCode = LostCard, declineFamily = Hard,
      attemptsSoFar = 1, cardNetwork = Some Visa, attemptsInWindow = None,
      minutesSinceLastAttempt = Some 90, localHour = 12, hasConsent = True, globallyOptedOut = False\<rparr>"

lemma guardrail_exact_witness:
  "violates HardDecline demo_action DEFAULT_GUARDRAIL_POLICY"
proof -
  have "\<exists>m. evaluate demo_action DEFAULT_GUARDRAIL_POLICY = Suppress HardDecline m"
    by (simp add: demo_action_def evaluate_def)
  then show ?thesis using guardrail_exact [of demo_action DEFAULT_GUARDRAIL_POLICY] by blast
qed

section \<open>Retry policies and schedules\<close>


definition demo_features :: RecoveryFeatures where
  "demo_features =
     \<lparr>f_declineCode = InsufficientFunds, f_amountMinor = 5000, f_currency = ''USD'',
      f_issuerRegion = RegionNa, f_cardType = None, f_customerTenureDays = 0,
      f_priorRecoveryRate = 0.4, f_attemptNumber = 1, f_daysSinceFirstFail = 0,
      f_issuerApprovalPrior = None\<rparr>"

definition demo_methods :: "AvailableMethod list" where
  "demo_methods =
     [\<lparr>am_ref = ''pm_1'', am_autoUpdated = None, am_isDefault = Some True\<rparr>,
      \<lparr>am_ref = ''pm_2'', am_autoUpdated = None, am_isDefault = None\<rparr>]"

definition demo_context :: PolicyContext where
  "demo_context = \<lparr>ctx_now = Some 0, ctx_methods = Some demo_methods,
     ctx_config = None, ctx_cost = None, ctx_compliance = None\<rparr>"

definition half_model :: "RecoveryFeatures \<Rightarrow> real" where
  "half_model f = 1 / 2"

lemmas demo_defs = demo_features_def demo_methods_def demo_context_def half_model_def






section \<open>Sagas\<close>

text \<open>C16. The adaptive saga asks for charges with the attempt numbers 1, 2, 3, ... without a gap,
  at most \<open>maxAttempts\<close> of them, and asks for another one only after a charge that failed: never
  after one that succeeded or is in flight. This holds also when the port or the clock throws.\<close>

theorem saga_attempts_bounded:
  assumes "0 \<le> maxAttempts config" "calls s = []"
  shows "\<exists>m \<le> max 1 (maxAttempts config). 1 \<le> m
    \<and> upto_attempt m (calls (snd (runRecoverySaga (logged_port port) rt input config s)))"
  using runRecoverySaga_outcome(1) [OF assms] prod.collapse by metis

definition sample_port :: "ChargeOutcome \<Rightarrow> unit RecoveryCasePort" where
  "sample_port out =
     \<lparr>port_plan = (\<lambda>_. ok (sample_decision ActRetry)),
      port_execute = (\<lambda>_. ok \<lparr>er_action = Charged, er_outcome = Some out, er_decision = sample_decision ActRetry\<rparr>),
      port_planSequence = Some (\<lambda>i. ok [\<lparr>rs_attemptNumber = 1, rs_at = Some 3600000, rs_action = RecRetry,
        rs_methodRef = None, rs_expectedRecoverability = 1 / 2\<rparr>])\<rparr>"

definition sample_input :: AttemptInput where
  "sample_input =
     \<lparr>ai_invoice = sample_invoice, ai_method = sample_card ''pm_1'' ''tok_old'', ai_decline = None, ai_attemptNumber = 1,
      ai_localHour = None, ai_minutesSinceLastAttempt = None, ai_customer = None, ai_nowIso = None\<rparr>"

definition sample_saga :: "(unit \<times> call list, InMemoryRuntime) saga" where
  "sample_saga = \<lparr>sg_world = ((), []), sg_rt = new_InMemoryRuntime (Some 0), sg_timeline = []\<rparr>"

lemma saga_attempts_bounded_witness:
  "\<exists>m \<le> 8. 1 \<le> m \<and> upto_attempt m
     (calls (snd (runRecoverySaga (logged_port (sample_port Failed)) inMemoryRuntime sample_input DEFAULT_SCHEDULER_CONFIG sample_saga)))"
  using saga_attempts_bounded [of DEFAULT_SCHEDULER_CONFIG sample_saga "sample_port Failed"]
  by (simp add: DEFAULT_SCHEDULER_CONFIG_def sample_saga_def calls_def)

text \<open>C17. The sequenced saga walks the planned steps: its charges carry the attempt numbers of the
  plan's leading retry steps, in order; every charge but the last failed; and it reports
  recovery exactly when its last charge succeeded.\<close>

theorem sequenced_saga_walks_plan:
  assumes "port_planSequence port = Some planSeq" "calls s = []"
    and "planSeq (input\<lparr>ai_attemptNumber := 1\<rparr>) (fst (sg_world s)) = (Inr steps, w')"
    and "runSequencedRecoverySaga (logged_port port) rt input config s = (r, s')"
  shows "walked (retry_attempts steps) (calls s') \<and> (\<forall>res. r = Inr res \<longrightarrow> recovered_iff res (calls s'))"
  using runSequencedRecoverySaga_outcome [OF assms(1,2,4,3)] by blast

lemma sequenced_saga_walks_plan_witness:
  "\<exists>r s'. runSequencedRecoverySaga (logged_port (sample_port Succeeded)) inMemoryRuntime sample_input
      DEFAULT_SCHEDULER_CONFIG sample_saga = (r, s') \<and> walked [1] (calls s')"
proof -
  let ?steps = "[\<lparr>rs_attemptNumber = 1, rs_at = Some 3600000, rs_action = RecRetry,
        rs_methodRef = None, rs_expectedRecoverability = 1 / 2\<rparr>]"
  obtain r s' where run: "runSequencedRecoverySaga (logged_port (sample_port Succeeded)) inMemoryRuntime sample_input
      DEFAULT_SCHEDULER_CONFIG sample_saga = (r, s')" by fastforce
  have "port_planSequence (sample_port Succeeded) = Some (\<lambda>i. ok ?steps)" "calls sample_saga = []"
    by (simp_all add: sample_port_def sample_saga_def calls_def)
  from sequenced_saga_walks_plan [OF this _ run, of ?steps "()"] run show ?thesis
    by (auto simp: ok_def retry_attempts_def)
qed

section \<open>The recovery-case service\<close>

text \<open>C3. The ledger is tamper-evident and append-only under every sequence of service calls
  (executing and planning recovery, ingesting and handling events, opening cases), whatever the
  adapters do and whether the calls return or throw: it still verifies, and what it held before
  is a prefix of what it holds after.\<close>

theorem service_ledger_history:
  assumes "chain_ok (se_H env) (sv_ledger s)"
  shows "chain_ok (se_H env) (sv_ledger (fold (service_step env) cs s))
    \<and> prefix (sv_ledger s) (sv_ledger (fold (service_step env) cs s))"
  using assms by (rule service_history)

lemma service_ledger_history_witness:
  "verifyChain (\<lambda>_. replicate 64 (CHR ''a'')) (sv_ledger (fold (service_step (sample_env (sample_decision ActRetry)))
     [CallOpen sample_invoice (deriveStratum sample_invoice None) ''2026-01-01T00:00:00.000Z'',
      CallPlan sample_invoice None None 1] (fresh_service ()))) = ChainValid"
proof -
  let ?env = "sample_env (sample_decision ActRetry)"
  have H: "se_H ?env = (\<lambda>_. replicate 64 (CHR ''a''))" by (simp add: sample_env_def)
  have "chain_ok (se_H ?env) (sv_ledger (fresh_service ()))" by (simp add: fresh_service_def)
  from service_ledger_history [OF this, of "[CallOpen sample_invoice (deriveStratum sample_invoice None)
      ''2026-01-01T00:00:00.000Z'', CallPlan sample_invoice None None 1]"]
  show ?thesis unfolding chain_ok_def H by blast
qed

text \<open>C2. Every charge that reaches a processor was authorised: active mode only, this case's
  invoice, a guardrail verdict \<open>Allow\<close> on the network of the charged card after \<open>n - 1\<close> attempts,
  under the idempotency key of this attempt; the declined card itself only for a decline that
  is retriable, and another card only if it is really another credential.\<close>

theorem charges_authorised:
  assumes "charges s = []"
    and "(i, m, key) \<in> set (charges (snd (executeRecovery (logged_env env) (logged_adapter adapter) invoice method
      decline n hour mins customer now shadow s)))"
  shows "\<not> shadow \<and> i = invoice \<and> n \<le> 8
    \<and> authorised env invoice (decline_code decline) n (if m = method then ChargeRetry else FreshCredentialCharge) m key
    \<and> (if m = method then isRetriable (decline_code decline)
       else pm_token m \<noteq> pm_token method \<or> pm_id m \<noteq> pm_id method)"
  using executeRecovery_charges [OF assms] allowed_charge_retry allowed_charge_below_cap
  by (fastforce simp: authorised_def is_charge_def DEFAULT_GUARDRAIL_POLICY_def split: if_splits)

abbreviation refresh_run :: "(unit \<times> charge_log, unit) Service" where
  "refresh_run \<equiv> snd (executeRecovery (logged_env (sample_env (sample_decision ActCardUpdateComms)))
     (logged_adapter (sample_adapter (\<lambda>t. if t = ''tok_new'' then Pending else Succeeded)
       (Some (sample_card ''pm_1'' ''tok_new'')) [sample_card ''pm_2'' ''tok_backup'']))
     sample_invoice (sample_card ''pm_1'' ''tok_old'') (Some (sample_decline ExpiredCard)) 1 None None
     (Some sample_customer) None False (fresh_service ((), [])))"

lemma charges_authorised_witness:
  "\<exists>i m key. (i, m, key) \<in> set (charges refresh_run) \<and> pm_token m = ''tok_new'' \<and> i = sample_invoice
     \<and> authorised (sample_env (sample_decision ActCardUpdateComms)) sample_invoice ExpiredCard 1 FreshCredentialCharge m key"
proof -
  have "''tok_new'' \<in> set (map (\<lambda>(i, m, k). pm_token m) (charges refresh_run))"
    by (simp only: pending_refresh_double_charge list.set insert_iff simp_thms)
  then obtain i m key where e: "(i, m, key) \<in> set (charges refresh_run)" "pm_token m = ''tok_new''" by auto
  have start: "charges (fresh_service ((), []) :: (unit \<times> charge_log, unit) Service) = []"
    by (simp add: charges_def fresh_service_def)
  have "decline_code (Some (sample_decline ExpiredCard)) = ExpiredCard"
    by (simp add: decline_code_def sample_decline_def)
  moreover have "m \<noteq> sample_card ''pm_1'' ''tok_old''" using e(2) by (auto simp: sample_card_def)
  ultimately show ?thesis using charges_authorised [OF start e(1)] e by (intro exI [of _ i] exI [of _ m] exI [of _ key]) simp
qed

text \<open>C18. Shadow mode moves nothing: whatever the policy, the adapter, the composer and the
  transport, the world outside the service is untouched. (The decision is still taken and logged.)\<close>

theorem shadow_mode_moves_nothing:
  "sv_world (snd (executeRecovery env adapter invoice method decline n hour mins customer now True s)) = sv_world s"
  by (rule shadow_world)

text \<open>C19. A failed invoice of the control arm is measured and never acted on: nothing happens in
  the world, no attempt is counted, and the ledger gains nothing beyond its assignment.\<close>

theorem control_arm_left_alone:
  assumes "ev_payload event = InvoiceFailed (Some invoice) decline method customer"
    and "openCase env invoice (deriveStratum invoice decline) (ev_occurredAt event) s = (Inr Control, s1)"
  shows "sv_world (snd (handleEvent env event p s)) = sv_world s
    \<and> sv_attempts (snd (handleEvent env event p s)) = sv_attempts s
    \<and> sv_ledger (snd (handleEvent env event p s)) = sv_ledger s1"
  using assms by (rule control_left_alone)

definition failed_event :: CanonicalEvent where
  "failed_event = \<lparr>ev_merchantId = ''m_1'', ev_occurredAt = ''2026-01-01T00:00:00.000Z'',
     ev_payload = InvoiceFailed (Some sample_invoice) (Some (sample_decline InsufficientFunds))
       (Some (sample_card ''pm_1'' ''tok_old'')) (Some sample_customer)\<rparr>"

definition zero_env :: "(unit, unit) ServiceEnv" where
  "zero_env = (sample_env (sample_decision ActRetry))\<lparr>se_H := (\<lambda>_. replicate 64 (CHR ''0''))\<rparr>"

lemma zero_position: "hashToUnitInterval (\<lambda>_. replicate 64 (CHR ''0'')) m = 0"
proof -
  have "hex_value (take 13 (replicate 64 (CHR ''0''))) = 0" by code_simp
  then show ?thesis by (simp add: hashToUnitInterval_def)
qed

lemma zero_env_control:
  "\<exists>s1. openCase zero_env sample_invoice (deriveStratum sample_invoice (Some (sample_decline InsufficientFunds)))
     (ev_occurredAt failed_event) (fresh_service ()) = (Inr Control, s1) \<and> length (sv_ledger s1) = 1"
  by (simp add: openCase_cases assign_def Let_def zero_env_def sample_env_def zero_position
      DEFAULT_HOLDOUT_CONFIG_def fresh_service_def)

lemma control_arm_left_alone_witness:
  "length (sv_ledger (snd (handleEvent zero_env failed_event None (fresh_service ())))) = 1"
proof -
  obtain s1 where s1: "openCase zero_env sample_invoice (deriveStratum sample_invoice (Some (sample_decline InsufficientFunds)))
     (ev_occurredAt failed_event) (fresh_service ()) = (Inr Control, s1)" "length (sv_ledger s1) = 1"
    using zero_env_control by blast
  have "ev_payload failed_event = InvoiceFailed (Some sample_invoice) (Some (sample_decline InsufficientFunds))
       (Some (sample_card ''pm_1'' ''tok_old'')) (Some sample_customer)"
    by (simp add: failed_event_def)
  from control_arm_left_alone [OF this s1(1), of None] s1(2) show ?thesis by simp
qed



section \<open>Dunning\<close>

text \<open>C21. A dunning message goes out at most once per case, attempt and channel: after a delivery
  that was sent, every later delivery for the same key is refused without touching the transport.\<close>

theorem at_most_one_delivery:
  assumes "deliverDunning env msg invoice n code customer hour s = (Inr (Some d), s1)" "dd_status d = DeSender Sent"
    and "sv_sent s1 \<subseteq> sv_sent s2" "dm_channel msg' = dm_channel msg"
    and "deliverDunning env msg' invoice n code' customer' hour' s2 = (r, s3)"
  shows "sv_world s3 = sv_world s2 \<and> (\<forall>d' st. r = Inr (Some d') \<longrightarrow> dd_status d' \<noteq> DeSender st)"
proof -
  have "dedupe_has (sv_sent s2) (sendKey invoice n (dm_channel msg'))"
    using deliver_sent [OF assms(1,2)] assms(3,4) by (auto simp: dedupe_has_def)
  then show ?thesis using assms(5) by (rule deliver_duplicate)
qed

lemma sample_delivery:
  "\<exists>d s1. deliverDunning (sample_env (sample_decision ActSuppress)) sample_message sample_invoice 1 ExpiredCard
      (Some sample_customer) (Some 12) (fresh_service ()) = (Inr (Some d), s1) \<and> dd_status d = DeSender Sent"
  by (simp add: deliverDunning_def sample_defs sample_message_def always_sends_def hour_or_wall_def evaluate_def
      inQuietHours_def DEFAULT_GUARDRAIL_POLICY_def given_def dedupe_has_def world_op_def eff_defs Let_def)

lemma at_most_one_delivery_witness:
  "\<exists>s1 r s3. deliverDunning (sample_env (sample_decision ActSuppress)) sample_message sample_invoice 1 ExpiredCard
      (Some sample_customer) (Some 13) s1 = (r, s3) \<and> sv_world s3 = sv_world s1"
proof -
  obtain d s1 where d: "deliverDunning (sample_env (sample_decision ActSuppress)) sample_message sample_invoice 1 ExpiredCard
      (Some sample_customer) (Some 12) (fresh_service ()) = (Inr (Some d), s1)" "dd_status d = DeSender Sent"
    using sample_delivery by blast
  obtain r s3 where r: "deliverDunning (sample_env (sample_decision ActSuppress)) sample_message sample_invoice 1 ExpiredCard
      (Some sample_customer) (Some 13) s1 = (r, s3)" by fastforce
  from at_most_one_delivery [OF d order_refl refl r] r show ?thesis by blast
qed



text \<open>C23. The language-model agent is as safe as the template: whatever the model answers, and
  also when the call fails, it returns a message on the requested channel that carries the
  update link verbatim and a way to opt out; text of the model has passed the validation.\<close>

theorem llm_message_safe:
  "\<exists>msg w'. llm_compose llm brandVoice maxTokens fmt ctx w = (Inr msg, w') \<and> message_ok msg ctx"
  using llm_agent.compose_total llm_agent.compose_ok by metis

section \<open>Ledger, holdout, features, onboarding\<close>

text \<open>C24. The notarized head pins the whole log: two valid chains with the same head record the
  same events in the same order, if the digest has no collision among the texts hashed.\<close>

theorem notarized_head_pins_log:
  assumes "hex_digest H" "chain_ok H xs" "chain_ok H ys" "head_hash xs = head_hash ys"
    and "\<forall>e\<in>set xs. wf_input (entry_input e)" "\<forall>e\<in>set ys. wf_input (entry_input e)"
    and "inj_on H (hashed_texts xs \<union> hashed_texts ys)" "GENESIS_HASH \<notin> H ` (hashed_texts xs \<union> hashed_texts ys)"
  shows "list_all2 same_content (map entry_input xs) (map entry_input ys)"
  using assms by (rule same_head_same_log)

definition const_digest :: "string \<Rightarrow> string" where
  "const_digest t = replicate 64 (CHR ''a'')"

definition sample_log :: ledger where
  "sample_log = ledger_append const_digest []
     \<lparr>le_merchantId = ''m_1'', le_type = CaseRecovered, le_occurredAt = ''t'', le_detail = [(''invoiceId'', JStr ''in_1'')]\<rparr>"

lemma notarized_head_pins_log_witness: "list_all2 same_content (map entry_input sample_log) (map entry_input sample_log)"
proof (rule notarized_head_pins_log [of const_digest])
  show "hex_digest const_digest" by (simp add: hex_digest_def const_digest_def hex_chars_def)
  show "chain_ok const_digest sample_log" by (simp add: sample_log_def)
  then show "chain_ok const_digest sample_log" .
  show "head_hash sample_log = head_hash sample_log" ..
  show "\<forall>e\<in>set sample_log. wf_input (entry_input e)"
    by (simp add: sample_log_def ledger_append_def make_entry_def entry_input_def wf_input_def
      LedgerInput.defs wf_value_def wf_jint)
  then show "\<forall>e\<in>set sample_log. wf_input (entry_input e)" .
  show "inj_on const_digest (hashed_texts sample_log \<union> hashed_texts sample_log)"
    by (simp add: sample_log_def ledger_append_def hashed_texts_def)
  show "GENESIS_HASH \<notin> const_digest ` (hashed_texts sample_log \<union> hashed_texts sample_log)"
    by (auto simp: GENESIS_HASH_def const_digest_def)
qed

datatype feature_event =
    Contact ident ident iso "iso option"
  | Settled ident ident "string option" bool "iso option"

fun feature_step :: "feature_event \<Rightarrow> RecoveryFeatureStore \<Rightarrow> RecoveryFeatureStore" where
  "feature_step (Contact m c now created) fs = fs_observe m c now created fs"
| "feature_step (Settled m c bin rec now) fs = fs_recordOutcome m c bin rec now fs"

text \<open>C30. The features of a decision are probabilities and durations: after any history of
  contacts and outcomes the recovery rate and the issuer's prior lie in \<open>[0, 1]\<close> and the two
  durations are not negative.\<close>

theorem features_in_range:
  fixes h :: "feature_event list" and ctx :: EnrichmentContext
  defines "f \<equiv> fs_enrich (fold feature_step h (new_feature_store DEFAULT_FEATURE_STORE_CONFIG)) ctx"
  shows "0 \<le> f_priorRecoveryRate f \<and> f_priorRecoveryRate f \<le> 1
    \<and> (\<exists>p. f_issuerApprovalPrior f = Some p \<and> 0 \<le> p \<and> p \<le> 1)
    \<and> 0 \<le> f_daysSinceFirstFail f \<and> 0 \<le> f_customerTenureDays f"
proof -
  have "fs_ok (fold feature_step h fs)" if "fs_ok fs" for fs
    using that
  proof (induction h arbitrary: fs)
    case (Cons e h)
    then show ?case by (cases e) (simp_all add: fs_ok_observe fs_ok_recordOutcome)
  qed simp
  with fs_ok_default show ?thesis unfolding f_def by (blast intro: fs_enrich_probabilities)
qed



section \<open>Reversals and keys\<close>

text \<open>C25. Claw-backs stay within what was recovered: whatever refunds and chargebacks arrive, in any
  number and of any size, the net recovery of no invoice drops below zero or grows, and an
  invoice that none of them names keeps its net.\<close>

theorem reversals_within_recovered:
  assumes "\<forall>(p, _) \<in> set rs. 0 \<le> rev_amount p" "0 \<le> netRecoveredForInvoice j (sv_ledger s)"
  shows "0 \<le> netRecoveredForInvoice j (sv_ledger (record_reversals env rs s))
    \<and> netRecoveredForInvoice j (sv_ledger (record_reversals env rs s)) \<le> netRecoveredForInvoice j (sv_ledger s)
    \<and> ((\<forall>(p, _) \<in> set rs. rev_invoiceId p \<noteq> j) \<longrightarrow>
         netRecoveredForInvoice j (sv_ledger (record_reversals env rs s)) = netRecoveredForInvoice j (sv_ledger s))"
  using assms by (rule reversals_capped)

lemma reversals_within_recovered_witness:
  "0 \<le> netRecoveredForInvoice ''in_1'' (sv_ledger (record_reversals (sample_env (sample_decision ActRetry))
     [(\<lparr>rev_invoiceId = ''in_1'', rev_amount = 700, rev_currency = ''USD'', rev_kind = Refund, rev_reason = None\<rparr>,
       ''m_1'', ''t'', None)] (fresh_service ())))"
  using reversals_within_recovered [of "[(\<lparr>rev_invoiceId = ''in_1'', rev_amount = 700, rev_currency = ''USD'',
      rev_kind = Refund, rev_reason = None\<rparr>, ''m_1'', ''t'', None)]" "''in_1''" "fresh_service ()"]
  by (simp add: fresh_service_def netRecoveredForInvoice_def)

section \<open>Two behaviours the comments do not intend\<close>


section \<open>Measured uplift and its statement\<close>





text \<open>C12. The reconciliation export reads back: a reader of the CSV gets exactly the cells that were
  written, up to the quote in front of a leading formula character, and no cell it reads starts
  with a character a spreadsheet would evaluate.\<close>

theorem reconciliation_csv_roundtrip:
  "\<exists>rows. read_lines (reconciliationCsv doc) = Some rows
    \<and> rows = map (map neutralise) (reconciliation_header # map outcome_cells (rc_recoveredTransactions doc))
    \<and> list_all (list_all safe_cell) rows"
  by (simp add: reconciliationCsv_reads_back list_all_iff)

text \<open>C32. The tie-out is exact: with no tolerance it succeeds when and only when the processor's report
  has every claimed key and, key by key, the two sides' totals are equal; the claimed total is the
  sum over all claimed rows.\<close>

theorem tie_out_exact:
  "(rr_tiesOut (reconcileAgainstPayout recovered payout None) \<longleftrightarrow>
      list_all (\<lambda>k. k \<in> set (map po_key payout) \<and> ours_for recovered k = theirs_for payout k) (claimed_keys recovered))
   \<and> rr_oursTotal (reconcileAgainstPayout recovered payout None) = sum_list (map so_recoveredAmount (claimed_rows recovered))"
  by (simp add: exact_tie_out ours_total list_all_iff)

section \<open>Billing\<close>

text \<open>C33. A billing run completes: with a valid configuration and a charger that answers, it returns a
  statement for every merchant in the ledger and appends exactly one record per merchant, leaving
  a valid chain; the net total of the summary is the sum of the merchants'.\<close>

theorem billing_run_completes:
  assumes "config_error (coalesce (ro_config opts) DEFAULT_SEQUENTIAL_CONFIG) = None" "charger_total (ro_charger opts)"
    and "previousMonth (be_parse (ro_env opts) (ro_nowIso opts)) = Inr period" "ro_record opts"
    and "chain_ok (be_H (ro_env opts)) (rs_ledger s)"
  shows "\<exists>summary statements s' us. runBilling opts s = (Inr (summary, statements), s')
    \<and> map bs_merchantId statements = merchantsInLedger (ro_entries opts)
    \<and> rs_ledger s' = rs_ledger s @ us \<and> map le_merchantId us = merchantsInLedger (ro_entries opts) \<and> statements_only us
    \<and> chain_ok (be_H (ro_env opts)) (rs_ledger s')
    \<and> sm_totalNetBilledMinor summary = sum_list (map mr_netBilledMinor (sm_merchants summary))"
  using run_billing_completes [OF assms] by metis

definition demo_format :: NumberFormat where
  "demo_format = \<lparr>nf_text = (\<lambda>_. ''0''), nf_fixed2 = (\<lambda>_. ''0.00'')\<rparr>"

definition demo_signer :: Signer where
  "demo_signer = \<lparr>sg_keyId = ''k'', sg_sign = (\<lambda>m. ''sig'')\<rparr>"

definition demo_failure :: LedgerInput where
  "demo_failure = \<lparr>le_merchantId = ''m_1'', le_type = HoldoutAssigned, le_occurredAt = ''t'',
     le_detail = [(''invoiceId'', JStr ''in_1''), (''bucket'', JStr ''treatment''), (''amount'', jint 500)]\<rparr>"

definition demo_ledger :: ledger where
  "demo_ledger = ledger_append (\<lambda>_. []) [] demo_failure"

definition demo_run :: "unit BillingRunOptions" where
  "demo_run =
     \<lparr>ro_env = \<lparr>be_H = (\<lambda>_. []), be_nf = demo_format, be_parse = (\<lambda>_. Some 0), be_clock = ''c''\<rparr>,
      ro_entries = demo_ledger, ro_ledger = demo_ledger, ro_ledgerHead = head_hash demo_ledger, ro_record = True,
      ro_signer = demo_signer, ro_nowIso = ''t'', ro_live = True, ro_charger = noop_charge, ro_config = None,
      ro_onboardedAt = [], ro_holdoutSchedule = None\<rparr>"

lemma demo_run_simps [simp]:
  "config_error (coalesce (ro_config demo_run) DEFAULT_SEQUENTIAL_CONFIG) = None" "charger_total (ro_charger demo_run)"
  "ro_record demo_run" "ro_entries demo_run = demo_ledger" "ro_nowIso demo_run = ''t''"
  "be_parse (ro_env demo_run) = (\<lambda>_. Some 0)" "be_H (ro_env demo_run) = (\<lambda>_. [])" "ro_live demo_run"
  by (simp_all add: demo_run_def config_error_None DEFAULT_SEQUENTIAL_CONFIG_def noop_charger_total)

lemma demo_ledger_simps [simp]:
  "chain_ok (\<lambda>_. []) demo_ledger" "merchantsInLedger demo_ledger = [''m_1'']"
  by (simp_all add: demo_ledger_def) (simp add: merchantsInLedger_def ledger_append_def make_entry_def demo_failure_def first_keys_def)

lemma demo_period: "\<exists>period. previousMonth (Some 0) = Inr period"
proof -
  have "date_utc (utc_year 0) (utc_month 0 - 1) 1 0 = - 2678400000" by code_simp
  then show ?thesis by (simp add: previousMonth_def Let_def to_iso_string_def max_time_ms_def)
qed

lemma billing_run_completes_witness:
  "\<exists>summary statements s'. runBilling demo_run \<lparr>rs_ledger = demo_ledger, rs_ext = ()\<rparr> = (Inr (summary, statements), s')
     \<and> map bs_merchantId statements = [''m_1''] \<and> chain_ok (\<lambda>_. []) (rs_ledger s')"
proof -
  obtain period where "previousMonth (be_parse (ro_env demo_run) (ro_nowIso demo_run)) = Inr period"
    using demo_period by auto
  from billing_run_completes [of demo_run period "\<lparr>rs_ledger = demo_ledger, rs_ext = ()\<rparr>", OF _ _ this]
  show ?thesis by auto
qed

text \<open>C4. Billing charges once: every charge a run makes is a positive net amount of a billable signed
  statement in a live run, and a second run of the same month over the ledger the first one left
  makes no charge request at all.\<close>

theorem billing_charges_once:
  assumes run: "run_merchants opts period (merchantsInLedger (ro_entries opts)) s = (Inr rs, s')"
    and recs: "ro_record opts" "rs_ledger s = ro_entries opts"
    and now: "be_parse (ro_env opts) (ro_nowIso opts) = Some t" "not_after (be_parse (ro_env opts)) (ro_entries opts) t"
    and again: "ro_entries opts2 = rs_ledger s'" "be_parse (ro_env opts2) = be_parse (ro_env opts)"
      "ro_config opts2 = ro_config opts"
    and charger: "\<And>req w. charge_justified opts period req \<Longrightarrow> P w \<Longrightarrow> P (snd (ro_charger opts req w))" "P (rs_ext s)"
  shows "P (rs_ext s')
    \<and> rs_ext (snd (run_merchants opts2 period (merchantsInLedger (ro_entries opts2)) s2)) = rs_ext s2"
proof
  show "P (rs_ext s')"
    using run_merchants_charges [where P = P and opts = opts and period = period and ms = "merchantsInLedger (ro_entries opts)", OF charger] run by simp
  show "rs_ext (snd (run_merchants opts2 period (merchantsInLedger (ro_entries opts2)) s2)) = rs_ext s2"
    by (rule rerun_charges_nothing [OF run recs now again]) simp
qed

definition demo_month :: BillingPeriod where
  "demo_month = \<lparr>bp_label = ''1969-12'', bp_startMs = - 2678400000, bp_endMs = 0\<rparr>"

lemma billing_charges_once_witness:
  "\<exists>rs s'. run_merchants demo_run demo_month [''m_1''] \<lparr>rs_ledger = demo_ledger, rs_ext = ()\<rparr> = (Inr rs, s')
     \<and> rs_ext (snd (run_merchants (demo_run\<lparr>ro_entries := rs_ledger s'\<rparr>) demo_month (merchantsInLedger (rs_ledger s')) s')) = rs_ext s'"
proof -
  obtain rs s' where run: "run_merchants demo_run demo_month [''m_1''] \<lparr>rs_ledger = demo_ledger, rs_ext = ()\<rparr> = (Inr rs, s')"
    using run_merchants_completes [OF demo_run_simps(1,2)] by blast
  have "rs_ext (snd (run_merchants (demo_run\<lparr>ro_entries := rs_ledger s'\<rparr>) demo_month (merchantsInLedger (rs_ledger s')) s')) = rs_ext s'"
    using billing_charges_once [of demo_run demo_month "\<lparr>rs_ledger = demo_ledger, rs_ext = ()\<rparr>" rs s' 0
        "demo_run\<lparr>ro_entries := rs_ledger s'\<rparr>" "\<lambda>_. True" s'] run
    by (simp add: not_after_def demo_run_def)
  with run show ?thesis by blast
qed


section \<open>Webhooks and adapters\<close>

text \<open>C7. A webhook acts on the merchant of its connection alone: whatever the body, the
  signature and the processor, handling it appends to the ledger only entries of that merchant and
  leaves the onboarding record of every other merchant as it was.\<close>

theorem webhook_acts_on_its_merchant:
  assumes "connection_for st processor cid = Inr c"
  shows "(\<exists>new. sv_ledger (snd (router_ingest pf env st processor cid raw s)) = sv_ledger s @ new \<and>
            list_all (\<lambda>e. le_merchantId e = mc_merchantId c) new) \<and>
    (\<forall>m. m \<noteq> mc_merchantId c \<longrightarrow>
       sv_onboarding (snd (router_ingest pf env st processor cid raw s)) m = sv_onboarding s m)"
  using router_tenant [OF assms, of s pf env raw] by (simp add: tenant_only_def tenant_log_def)

definition demo_connection :: MerchantConnection where
  "demo_connection =
     \<lparr>mc_connectionId = ''conn_1'', mc_merchantId = ''mrc_1'', mc_processor = ''stripe'',
      mc_config = VObj [(''secretKey'', VStr ''sk_1''), (''webhookSecret'', VStr ''whsec_1'')]\<rparr>"

definition demo_connections :: ConnectionStore where
  "demo_connections = conn_register demo_connection True conn_empty"

lemma demo_routing: "connection_for demo_connections ''stripe'' None = Inr demo_connection"
  by (simp add: connection_for_def demo_connections_def demo_connection_def conn_register_def conn_empty_def
      conn_defaultFor_def conn_get_def if_given_def given_def)

lemma webhook_acts_on_its_merchant_witness:
  "\<forall>pf env raw s. \<exists>new. sv_ledger (snd (router_ingest pf env demo_connections ''stripe'' None raw s)) = sv_ledger s @ new \<and>
     list_all (\<lambda>e. le_merchantId e = ''mrc_1'') new"
proof (intro allI)
  fix pf env raw s
  show "\<exists>new. sv_ledger (snd (router_ingest pf env demo_connections ''stripe'' None raw s)) = sv_ledger s @ new \<and>
      list_all (\<lambda>e. le_merchantId e = ''mrc_1'') new"
    using webhook_acts_on_its_merchant [OF demo_routing, THEN conjunct1] by (simp add: demo_connection_def)
qed

text \<open>C26. A forged webhook changes nothing: when the adapter of the connection does not
  accept the delivery as authentic, the whole state of the recovery service stays as it was; at most
  the adapter's own calls to the processor have happened.\<close>

theorem forged_webhook_changes_nothing:
  assumes "connection_for st processor cid = Inr c" "adapter_for pf c = Inr x"
    and "\<not> op_authentic x raw (sv_world s, None)"
  shows "\<exists>w. snd (router_ingest pf env st processor cid raw s) = s\<lparr>sv_world := w\<rparr>"
  using assms by (rule router_forged)

lemma demo_adapter:
  "\<exists>b x. buildAdapter ''stripe'' ''mrc_1'' (mc_config demo_connection) = Inr b \<and> adapter_for pf demo_connection = Inr x \<and>
     (\<forall>w. \<not> op_authentic x \<lparr>rw_body = ''{}'', rw_headers = []\<rparr> w)"
proof -
  obtain b where b: "buildAdapter ''stripe'' ''mrc_1'' (mc_config demo_connection) = Inr b" "bu_processor b = ''stripe''"
    by (simp add: demo_connection_def buildAdapter_def ADAPTER_FACTORIES_def str_field_def fstr_def)
  obtain x where x: "built_ops (with_cell pf) b = Some x" "\<forall>w. \<not> op_authentic x \<lparr>rw_body = ''{}'', rw_headers = []\<rparr> w"
    using b(2) by (simp add: built_ops_def gateway_ops_def Let_def stripe_authentic_def verifyStripeSignature_def given_def)
  show ?thesis
    using b x by (intro exI [of _ b] exI [of _ x]) (simp add: adapter_for_def demo_connection_def)
qed

lemma forged_webhook_changes_nothing_witness:
  "\<forall>pf env s. \<exists>w. snd (router_ingest pf env demo_connections ''stripe'' None \<lparr>rw_body = ''{}'', rw_headers = []\<rparr> s) =
     s\<lparr>sv_world := w\<rparr>"
proof (intro allI)
  fix pf :: "'w Platform" and env :: "('w, 'p) ServiceEnv" and s
  obtain x where "adapter_for pf demo_connection = Inr x" "\<forall>w. \<not> op_authentic x \<lparr>rw_body = ''{}'', rw_headers = []\<rparr> w"
    using demo_adapter [of pf] by blast
  then show "\<exists>w. snd (router_ingest pf env demo_connections ''stripe'' None \<lparr>rw_body = ''{}'', rw_headers = []\<rparr> s) =
      s\<lparr>sv_world := w\<rparr>"
    using forged_webhook_changes_nothing [OF demo_routing] by blast
qed



section \<open>The learning engine\<close>

text \<open>C10. A restart keeps the bandit: from an untrained policy, after any history of
  outcomes, restoring the snapshot gives back exactly the state that was saved; the inverse that the
  elimination recomputes is the one the rank-one updates had maintained.\<close>

theorem restart_keeps_learning:
  assumes "0 < lo_lambda opts"
  shows "bandit_restore (bandit_snapshot opts (bandit_run opts evs (fresh_arms opts))) =
    Inr (bandit_run opts evs (fresh_arms opts))"
  by (intro restore_snapshot bandit_run_ok) (simp add: fresh_arms_def freshArm_ok assms)

lemma restart_keeps_learning_witness:
  "bandit_restore (bandit_snapshot DEFAULT_LINUCB_OPTIONS
      (bandit_run DEFAULT_LINUCB_OPTIONS [(demo_features, ActRetry, 4985)] (fresh_arms DEFAULT_LINUCB_OPTIONS))) =
    Inr (bandit_run DEFAULT_LINUCB_OPTIONS [(demo_features, ActRetry, 4985)] (fresh_arms DEFAULT_LINUCB_OPTIONS))"
  by (rule restart_keeps_learning) (simp add: DEFAULT_LINUCB_OPTIONS_def)





text \<open>C39. The untrained bandit is not the cost-aware policy it documents itself to start as:
  below the recoverability floor, where that policy takes no action, it sends a card-update message,
  because the exploration bonus of an arm without data exceeds the cost of a message.\<close>

theorem cold_bandit_messages_below_floor:
  assumes "\<not> dead_credential (f_declineCode f)" "model f < 0.04" "0 \<le> f_amountMinor f"
    and "ctx_config ctx = None" "ctx_cost ctx = None"
  shows "(\<exists>d. cost_aware_decide model f ctx = Inr d \<and> rd_action d = ActSuppress) \<and>
    (\<exists>d. bandit_decide model DEFAULT_LINUCB_OPTIONS (fresh_arms DEFAULT_LINUCB_OPTIONS) f ctx = Inr d \<and>
       rd_action d = ActCardUpdateComms)"
  using cold_start_differs [of f model ctx] assms by blast

lemma cold_bandit_messages_below_floor_witness:
  "\<exists>d. bandit_decide (\<lambda>_. 0) DEFAULT_LINUCB_OPTIONS (fresh_arms DEFAULT_LINUCB_OPTIONS) demo_features demo_context = Inr d \<and>
     rd_action d = ActCardUpdateComms"
  by (rule cold_bandit_messages_below_floor [THEN conjunct2])
    (simp_all add: demo_defs dead_credential_def)

text \<open>C14. The rank-based AUC is the Mann-Whitney statistic: with tied scores averaged block by
  block, it is the share of pairs of a recovered and an unrecovered sample that the model orders
  rightly, a tie counting one half.\<close>

theorem auc_is_mann_whitney:
  assumes "labelled preds" "positives preds \<noteq> []" "negatives preds \<noteq> []"
  shows "auc preds = wins (positives preds) (negatives preds) /
    real (length (positives preds) * length (negatives preds))"
  using assms by (rule auc_mann_whitney)

lemma auc_is_mann_whitney_witness:
  "auc [\<lparr>pr_p = 0.9, pr_y = 1\<rparr>, \<lparr>pr_p = 0.4, pr_y = 1\<rparr>, \<lparr>pr_p = 0.4, pr_y = 0\<rparr>, \<lparr>pr_p = 0.1, pr_y = 0\<rparr>] = 3.5 / 4"
  by (subst auc_is_mann_whitney) (simp_all add: labelled_def positives_def negatives_def wins_def win_def)

text \<open>C15. One training iteration moves every weight against the gradient of the regularized
  weighted logistic loss: the quantity it subtracts, scaled by the learning rate, is the partial
  derivative of that loss in the weight, at the current weights.\<close>

theorem training_follows_gradient:
  assumes "k < FEATURE_DIM"
  shows "\<exists>g. tn_w (train_iteration opts data swSum st n) ! k = tn_w st ! k - to_lr opts * g \<and>
    ((\<lambda>t. objective opts data swSum (((!) (tn_w st))(k := t)) (tn_b st)) has_real_derivative g) (at (tn_w st ! k))"
  using assms by (rule train_step_gradient)

definition demo_state :: TrainState where
  "demo_state = \<lparr>tn_w = replicate FEATURE_DIM 0, tn_b = 0, tn_history = []\<rparr>"

lemma training_follows_gradient_witness:
  "\<exists>g. tn_w (train_iteration DEFAULT_TRAIN_OPTIONS
        [encode_sample \<lparr>ts_features = demo_features, ts_recovered = True, ts_weight = None\<rparr>] 1 demo_state 0) ! 3 =
      tn_w demo_state ! 3 - to_lr DEFAULT_TRAIN_OPTIONS * g"
  using training_follows_gradient [of 3 DEFAULT_TRAIN_OPTIONS
      "[encode_sample \<lparr>ts_features = demo_features, ts_recovered = True, ts_weight = None\<rparr>]" 1 demo_state 0]
  by (auto simp: FEATURE_DIM_value)



section \<open>The shared ledger\<close>



section \<open>Measured against the world\<close>


text \<open>C28. In the simulated world the engine stays inside the networks' limits: on any stream
  it retries a card at most four times and never after a decline that must not be retried, so with
  any prices and a threshold of at least four its net value carries no fine, and what it recovers it
  recovers within 31 days and before the invoice's window closes.\<close>

theorem engine_keeps_network_limits:
  assumes "runPolicy ivs engine_policy seed params = Inr ocs" "4 \<le> nc_excessiveRetryThreshold cost"
  shows "list_all (\<lambda>oc. io_retriesMade oc \<le> 4 \<and>
      \<not> (isViolationToRetry (oi_declineCode (io_invoice oc)) \<and> 0 < io_retriesMade oc) \<and>
      (case io_recoveryDay oc of None \<Rightarrow> True
       | Some d \<Rightarrow> 0 < d \<and> d \<le> 31 \<and> d \<le> of_int (la_closeDay (si_latent (io_invoice oc))))) ocs \<and>
    nv_fineMinor (netValue ocs cost) = 0"
proof (rule conjI [OF _ engine_fine [OF assms]], unfold list_all_iff, rule ballI)
  fix oc assume oc: "oc \<in> set ocs"
  obtain iv where iv: "run_invoice engine_policy seed params iv = Inr oc"
    using list_all2_set2 [OF runPolicy_list_all2 [OF assms(1)] oc] by blast
  obtain as where as: "engine_policy (observed iv) = Inr as" "\<And>a. a \<in> set as \<Longrightarrow> 0 < ra_day a \<and> ra_day a \<le> 31"
    by (rule engine_cases [of "observed iv"]) fastforce+
  show "io_retriesMade oc \<le> 4 \<and> \<not> (isViolationToRetry (oi_declineCode (io_invoice oc)) \<and> 0 < io_retriesMade oc) \<and>
      (case io_recoveryDay oc of None \<Rightarrow> True
       | Some d \<Rightarrow> 0 < d \<and> d \<le> 31 \<and> d \<le> of_int (la_closeDay (si_latent (io_invoice oc))))"
    using engine_retries [OF iv] run_invoice_invoice [OF iv] run_invoice_ok(1) [OF iv as(1)] as(2)
    by (auto simp: outcome_ok_def split: option.splits if_splits)
qed

lemma engine_keeps_network_limits_witness:
  "\<exists>ocs. runPolicy (generateStream 3 7 DEFAULT_WORLD_PARAMS) engine_policy 1 DEFAULT_WORLD_PARAMS = Inr ocs \<and>
     nv_fineMinor (netValue ocs DEFAULT_NET_COST) = 0"
proof -
  obtain ocs where "runPolicy (generateStream 3 7 DEFAULT_WORLD_PARAMS) engine_policy 1 DEFAULT_WORLD_PARAMS = Inr ocs"
    using arm_total [OF total_policies(1)] by blast
  moreover have "4 \<le> nc_excessiveRetryThreshold DEFAULT_NET_COST" by (simp add: DEFAULT_NET_COST_def)
  ultimately show ?thesis using engine_keeps_network_limits by blast
qed

text \<open>C37. A retry schedule that goes on longer recovers at least as much: on the same
  stream and seed it keeps every recovery of the shorter schedule, on the same day, and its money and
  its count of recoveries are at least as large. The baseline sweep compares like with like.\<close>

theorem longer_schedule_recovers_more:
  assumes "sorted (days @ later)"
    and "runPolicy (generateStream n g params) (smart_retries days) seed params = Inr shorter"
    and "runPolicy (generateStream n g params) (smart_retries (days @ later)) seed params = Inr longer"
  shows "list_all2 (\<lambda>a b. io_recovered a \<longrightarrow> b = a) shorter longer \<and>
    sum_list (map io_recoveredMinor shorter) \<le> sum_list (map io_recoveredMinor longer) \<and>
    length (filter io_recovered shorter) \<le> length (filter io_recovered longer)"
proof -
  note keep = longer_schedule [OF assms(2,3,1)]
  have ok: "io_recoveredMinor oc = (if io_recovered oc then oi_amountMinor (io_invoice oc) else 0) \<and> 0 \<le> io_recoveredMinor oc"
    if run: "runPolicy (generateStream n g params) (smart_retries ds) seed params = Inr ocs" and oc: "oc \<in> set ocs" for ds ocs oc
  proof -
    obtain iv where iv: "iv \<in> set (generateStream n g params)" "run_invoice (smart_retries ds) seed params iv = Inr oc"
      using list_all2_set2 [OF runPolicy_list_all2 [OF run] oc] by blast
    then show ?thesis
      using run_invoice_ok [OF iv(2) smart_retries_plan] generateStream_wf [OF iv(1)]
      by (auto simp: outcome_ok_def invoice_wf_def)
  qed
  have "io_recoveredMinor a = 0" if "a \<in> set shorter" "\<not> io_recovered a" for a
    using ok [OF assms(2) that(1)] that(2) by simp
  moreover have "0 \<le> io_recoveredMinor b" if "b \<in> set longer" for b
    using ok [OF assms(3) that] by simp
  ultimately show ?thesis
    using keep longer_schedule_money [OF keep] by simp
qed

lemma longer_schedule_recovers_more_witness:
  "\<exists>a b. runPolicy (generateStream 3 7 DEFAULT_WORLD_PARAMS) (smart_retries [1, 4]) 1 DEFAULT_WORLD_PARAMS = Inr a \<and>
     runPolicy (generateStream 3 7 DEFAULT_WORLD_PARAMS) (smart_retries [1, 4, 10]) 1 DEFAULT_WORLD_PARAMS = Inr b \<and>
     sum_list (map io_recoveredMinor a) \<le> sum_list (map io_recoveredMinor b)"
proof -
  have "\<exists>ocs. runPolicy (generateStream 3 7 DEFAULT_WORLD_PARAMS) (smart_retries ds) 1 DEFAULT_WORLD_PARAMS = Inr ocs" for ds
    using arm_total [OF total_policies(2)] by blast
  then obtain a b where "runPolicy (generateStream 3 7 DEFAULT_WORLD_PARAMS) (smart_retries [1, 4]) 1 DEFAULT_WORLD_PARAMS = Inr a"
      "runPolicy (generateStream 3 7 DEFAULT_WORLD_PARAMS) (smart_retries [1, 4, 10]) 1 DEFAULT_WORLD_PARAMS = Inr b"
    by meson
  then show ?thesis using longer_schedule_recovers_more [of "[1, 4]" "[10]"] by simp
qed

section \<open>Books and tables\<close>

text \<open>C35. The profit and loss report adds up: its cumulative recovered amount is the sum over the ledger
  of what each entry moves in the report's currency, the rows of the processors sum to it, and each
  row's fee is its recovered amount times the rate, rounded, so that all fees together differ from the
  rate times the total by at most half a minor unit per processor.\<close>

theorem books_add_up:
  assumes "computePnl parse entries opts = Inr r"
  shows "pt_recoveredMinor (pp_totals (pr_cumulative r)) = sum_list (map (net_flow (pr_currency r)) entries) \<and>
    sum_list (map (\<lambda>p. pt_recoveredMinor (pp_totals p)) (pr_processors r)) =
      pt_recoveredMinor (pp_totals (pr_cumulative r)) \<and>
    list_all (\<lambda>p. pt_feeMinor (pp_totals p) = js_round (of_int (pt_recoveredMinor (pp_totals p)) * coalesce (po_feeRate opts) 0.12)) (pr_processors r) \<and>
    \<bar>of_int (sum_list (map (\<lambda>p. pt_feeMinor (pp_totals p)) (pr_processors r))) -
      coalesce (po_feeRate opts) 0.12 * of_int (pt_recoveredMinor (pp_totals (pr_cumulative r)))\<bar> \<le> of_nat (length (pr_processors r)) / (2 :: real)"
proof -
  define fee_rate :: real where "fee_rate = coalesce (po_feeRate opts) 0.12"
  have r: "pr_cumulative r = processorPnl parse ''all'' entries (parse (po_nowIso opts)) fee_rate (pr_currency r)"
      "pr_processors r = processor_rows parse entries (parse (po_nowIso opts)) fee_rate (pr_currency r)"
    using assms by (auto simp: computePnl_def Let_def fee_rate_def split: sum.splits)
  have 1: "pt_recoveredMinor (pp_totals (pr_cumulative r)) = sum_list (map (net_flow (pr_currency r)) entries)"
    unfolding r(1) by (simp add: processorPnl_def Let_def net_tally)
  have 2: "sum_list (map (\<lambda>p. pt_recoveredMinor (pp_totals p)) (pr_processors r)) = pt_recoveredMinor (pp_totals (pr_cumulative r))"
    unfolding r by (rule rows_add_up) (simp add: net_tally)
  have 3: "\<forall>p\<in>set (pr_processors r). pt_feeMinor (pp_totals p) = js_round (of_int (pt_recoveredMinor (pp_totals p)) * fee_rate)"
    unfolding r using rows_members processorPnl_fee by metis
  show ?thesis
    using 1 2 3 rows_fee_close [OF 3] by (simp add: list_all_iff fee_rate_def)
qed

definition demo_entry :: "string \<Rightarrow> LedgerEventType \<Rightarrow> int \<Rightarrow> LedgerEntry" where
  "demo_entry processor ty amt =
     \<lparr>le_merchantId = ''mrc_1'', le_type = ty, le_occurredAt = ''2026-01-02T00:00:00.000Z'',
      le_detail = [(''amount'', jint amt), (''currency'', JStr ''USD''), (''processor'', JStr processor)],
      le_seq = 0, le_prevHash = [], le_hash = []\<rparr>"

definition demo_books :: "LedgerEntry list" where
  "demo_books = [demo_entry ''stripe'' CaseRecovered 5000, demo_entry ''adyen'' CaseRecovered 900,
     demo_entry ''stripe'' CaseReversed 2000, demo_entry ''stripe'' CaseReversalReverted 500]"

definition demo_pnl_options :: PnlOptions where
  "demo_pnl_options = \<lparr>po_nowIso = [], po_feeRate = None, po_currency = Some ''USD'', po_seriesDays = Some 0\<rparr>"

lemma demo_report: "\<exists>r. computePnl (\<lambda>_. Some 0) demo_books demo_pnl_options = Inr r \<and> pr_currency r = ''USD''"
proof -
  have "day_key 0 = Inr ''1970-01-01''" by code_simp
  then have "\<exists>pd. fill_days (\<lambda>_. Some 0) ''USD'' [] demo_books = Inr pd"
    by (simp add: demo_books_def demo_entry_def)
  then show ?thesis
    by (auto simp: computePnl_def Let_def demo_pnl_options_def report_currency_def series_offsets_def)
qed

lemma books_add_up_witness:
  "\<exists>r. computePnl (\<lambda>_. Some 0) demo_books demo_pnl_options = Inr r \<and>
     sum_list (map (\<lambda>p. pt_recoveredMinor (pp_totals p)) (pr_processors r)) = 4400"
proof -
  obtain r where r: "computePnl (\<lambda>_. Some 0) demo_books demo_pnl_options = Inr r" "pr_currency r = ''USD''"
    using demo_report by blast
  have "sum_list (map (net_flow ''USD'') demo_books) = 4400" by code_simp
  then show ?thesis using books_add_up [OF r(1)] r by simp
qed

text \<open>C36. The program's table reader reads the program's export: scanning the reconciliation
  CSV with the parser of the BIN tables gives the header and one row per recovered transaction, every
  cell as it was written, quoting and line breaks included.\<close>

theorem export_reads_as_table:
  "parseCsv (reconciliationCsv doc) None =
     map (map neutralise) (reconciliation_header # map outcome_cells (rc_recoveredTransactions doc))"
proof -
  let ?rows = "map Some reconciliation_header # map (\<lambda>ob. map Some (outcome_cells ob)) (rc_recoveredTransactions doc)"
  have "\<exists>s. csvRow (map Some reconciliation_header) = CHR ''i'' # s"
    by (simp add: csvRow_def reconciliation_header_def csvCell_def neutralise_def formula_char_def
        needs_quotes_def dquote_def comma_def line_feed_def)
  then obtain s where s: "csvRow (map Some reconciliation_header) = CHR ''i'' # s" ..
  then have "\<exists>t. csvLines ?rows = CHR ''i'' # t"
    by (cases "rc_recoveredTransactions doc") (simp_all add: csvLines_def)
  then have "strip_bom (csvLines ?rows) = csvLines ?rows" using strip_bom_first by auto
  moreover have "map cell_text (last ?rows) \<noteq> [[]]"
    by (simp add: reconciliation_header_def outcome_cells_def last_map)
  moreover have "\<forall>row\<in>set ?rows. row \<noteq> []"
    by (simp add: reconciliation_header_def outcome_cells_def)
  ultimately show ?thesis
    using scan_lines [of ?rows "[]"] by (simp add: parseCsv_def reconciliationCsv_def cell_text_def comp_def)
qed



end
